(* ===== verification/Prelude.thy ===== *)
theory Prelude
  imports
    Main
    "HOL-Library.AList"
    "HOL-Library.Char_ord"
    "HOL-Library.List_Lexorder"
    "HOL-Library.Product_Lexorder"
    "HOL-Library.Word"
begin

text \<open>
  Shared vocabulary of the development: Python values, the dictionaries and
  pages every in-memory store of the backend is built from, the exceptions the
  modelled code raises, and the few functions of Python's standard library
  whose results the code only passes on (UUIDv5 hashing, ISO timestamps, text
  conversions), collected in one environment record.  The lemmas on
  dictionaries, slices and decimal numerals are used by every component.
\<close>

section \<open>Collections of facts\<close>

named_theorems guard_defs \<open>definitions of the guards an operation evaluates\<close>
named_theorems store_simps \<open>how an update of a store shows through its lookups\<close>

section \<open>Python values\<close>

text \<open>An IEEE-754 binary64 is kept as its bit pattern: the modelled code stores
  and forwards floats, it does not compute with them.\<close>

type_synonym pyfloat = "64 word"

datatype pyval =
    PNone
  | PBool bool
  | PInt int
  | PFloat pyfloat
  | PStr string
  | PList "pyval list"
  | PDict "(string \<times> pyval) list"

text \<open>Stored timestamps are timezone-aware instants (microseconds since the
  epoch, UTC).  An argument whose awareness the code tests is a
  \<open>timestamp\<close>.\<close>

datatype timestamp = Aware int | Naive int

fun is_aware :: "timestamp \<Rightarrow> bool" where
  "is_aware (Aware _) = True"
| "is_aware (Naive _) = False"

fun instant :: "timestamp \<Rightarrow> int" where
  "instant (Aware t) = t"
| "instant (Naive t) = t"

section \<open>Exceptions\<close>

datatype error =
    ValueError string
  | OverflowError
  | ExecutionPersistenceError string
  | ExecutionStateError string
  | ExecutionAdmissionError string
  | ExecutionNotClaimableError string
  | GovernanceConfigurationError string
  | EnforcementExecutionError string
  | EscalationPersistenceError string
  | EscalationRuntimeError string
  | EscalationNotFoundError string
  | EscalationResolutionError string
  | IdentityError string
  | CaseApprovalPersistenceError string
  | CaseApprovalNotFoundError string
  | CaseApprovalLifecycleError string
  | CaseApprovalGuidanceRejectedError string
  | CaseApprovalRuntimeError string
  | SmeReviewUnavailableError string
  | OperatorEmailNotConfigured string
  | ResolutionPersistenceError string
  | RuntimeError string
  | CustomerReplyError string string
    \<comment> \<open>the exceptions of the customer reply services: class name and message\<close>
  | EventCausalityError string
  | EventChronologyError string
  | EventPersistenceError string
  | StateTransitionError string
  | WorkOrderStateTransitionError string
  | AgentError string string
    \<comment> \<open>the exceptions of the agent runtime and its tools: class name and message\<close>
  | ExternalError string string
    \<comment> \<open>class name and message of an exception raised by code outside the repository\<close>

type_synonym 'a result = "error + 'a"

definition is_error :: "'a result \<Rightarrow> bool" where
  "is_error r = (case r of Inl _ \<Rightarrow> True | Inr _ \<Rightarrow> False)"

text \<open>\<open>type(exc).__name__\<close> and \<open>str(exc)\<close>.\<close>

fun error_text :: "error \<Rightarrow> string \<times> string" where
  "error_text (ValueError m) = (''ValueError'', m)"
| "error_text OverflowError = (''OverflowError'', ''int too large to convert to float'')"
| "error_text (ExecutionPersistenceError m) = (''ExecutionPersistenceError'', m)"
| "error_text (ExecutionStateError m) = (''ExecutionStateError'', m)"
| "error_text (ExecutionAdmissionError m) = (''ExecutionAdmissionError'', m)"
| "error_text (ExecutionNotClaimableError m) = (''ExecutionNotClaimableError'', m)"
| "error_text (GovernanceConfigurationError m) = (''GovernanceConfigurationError'', m)"
| "error_text (EnforcementExecutionError m) = (''EnforcementExecutionError'', m)"
| "error_text (EscalationPersistenceError m) = (''EscalationPersistenceError'', m)"
| "error_text (EscalationRuntimeError m) = (''EscalationRuntimeError'', m)"
| "error_text (EscalationNotFoundError m) = (''EscalationNotFoundError'', m)"
| "error_text (EscalationResolutionError m) = (''EscalationResolutionError'', m)"
| "error_text (IdentityError m) = (''IdentityError'', m)"
| "error_text (CaseApprovalPersistenceError m) = (''CaseApprovalPersistenceError'', m)"
| "error_text (CaseApprovalNotFoundError m) = (''CaseApprovalNotFoundError'', m)"
| "error_text (CaseApprovalLifecycleError m) = (''CaseApprovalLifecycleError'', m)"
| "error_text (CaseApprovalGuidanceRejectedError m) = (''CaseApprovalGuidanceRejectedError'', m)"
| "error_text (CaseApprovalRuntimeError m) = (''CaseApprovalRuntimeError'', m)"
| "error_text (SmeReviewUnavailableError m) = (''SmeReviewUnavailableError'', m)"
| "error_text (OperatorEmailNotConfigured m) = (''OperatorEmailNotConfigured'', m)"
| "error_text (ResolutionPersistenceError m) = (''ResolutionPersistenceError'', m)"
| "error_text (RuntimeError m) = (''RuntimeError'', m)"
| "error_text (CustomerReplyError c m) = (c, m)"
| "error_text (EventCausalityError m) = (''EventCausalityError'', m)"
| "error_text (EventChronologyError m) = (''EventChronologyError'', m)"
| "error_text (EventPersistenceError m) = (''EventPersistenceError'', m)"
| "error_text (StateTransitionError m) = (''StateTransitionError'', m)"
| "error_text (WorkOrderStateTransitionError m) = (''WorkOrderStateTransitionError'', m)"
| "error_text (AgentError c m) = (c, m)"
| "error_text (ExternalError c m) = (c, m)"

lemma is_error_simps [simp]: "is_error (Inl e)" "\<not> is_error (Inr v)"
  by (simp_all add: is_error_def)

section \<open>The standard library, as far as the code relies on it\<close>

record py_env =
  uuid5 :: "string \<Rightarrow> string \<Rightarrow> string"
    \<comment> \<open>\<open>str(uuid.uuid5(namespace, name))\<close>; UUIDs are their canonical text\<close>
  isoformat :: "int \<Rightarrow> string"
  fromisoformat :: "string \<Rightarrow> timestamp option"
    \<comment> \<open>\<open>None\<close> when \<open>datetime.fromisoformat\<close> raises ValueError\<close>
  float_of_int :: "int \<Rightarrow> pyfloat option"
    \<comment> \<open>\<open>None\<close> when \<open>float(n)\<close> raises OverflowError\<close>
  float_of_str :: "string \<Rightarrow> pyfloat option"
  int_of_str :: "string \<Rightarrow> int option"
  repr_of :: "pyval \<Rightarrow> string"
    \<comment> \<open>\<open>str(v)\<close> of a value that is not a string\<close>
  repr_str :: "string \<Rightarrow> string"
    \<comment> \<open>\<open>repr(s)\<close> of a string\<close>
  uuid_parse :: "string \<Rightarrow> string option"
    \<comment> \<open>\<open>str(uuid.UUID(s))\<close>, \<open>None\<close> when it raises ValueError\<close>
  str_lower :: "string \<Rightarrow> string"
    \<comment> \<open>\<open>s.lower()\<close>\<close>
  str_upper :: "string \<Rightarrow> string"
    \<comment> \<open>\<open>s.upper()\<close>\<close>
  sha256_hex :: "string \<Rightarrow> string"
    \<comment> \<open>\<open>hashlib.sha256(s.encode("utf-8")).hexdigest()\<close>\<close>
  json_dumps :: "pyval \<Rightarrow> string"
    \<comment> \<open>\<open>json.dumps(v, sort_keys=True, ensure_ascii=False, default=str)\<close>\<close>
  json_compact :: "pyval \<Rightarrow> string"
    \<comment> \<open>\<open>json.dumps(v, sort_keys=True, separators=(",", ":"), default=str)\<close>\<close>

text \<open>A UUID as its canonical text.\<close>

type_synonym uuid = string

fun py_str :: "py_env \<Rightarrow> pyval \<Rightarrow> string" where
  "py_str env (PStr s) = s"
| "py_str env v = repr_of env v"

subsection \<open>Decimal numerals\<close>

definition digit_char :: "nat \<Rightarrow> char" where
  "digit_char d = char_of (48 + d)"

definition char_digit :: "char \<Rightarrow> nat" where
  "char_digit c = of_char c - 48"

fun show_nat :: "nat \<Rightarrow> string" where
  "show_nat n = (if n < 10 then [digit_char n] else show_nat (n div 10) @ [digit_char (n mod 10)])"

declare show_nat.simps [simp del]

definition show_int :: "int \<Rightarrow> string" where
  "show_int i = (if i < 0 then CHR ''-'' # show_nat (nat (- i)) else show_nat (nat i))"

definition read_digits :: "string \<Rightarrow> nat" where
  "read_digits = foldl (\<lambda>acc c. 10 * acc + char_digit c) 0"

lemma char_digit_digit_char [simp]: "d < 10 \<Longrightarrow> char_digit (digit_char d) = d"
  by (simp add: char_digit_def digit_char_def)

lemma read_digits_show_nat [simp]: "read_digits (show_nat n) = n"
proof (induction n rule: show_nat.induct)
  case (1 n)
  show ?case
  proof (cases "n < 10")
    case True
    then show ?thesis by (simp add: show_nat.simps [of n] read_digits_def)
  next
    case False
    with 1 have "read_digits (show_nat (n div 10)) = n div 10" by simp
    with False show ?thesis
      by (subst show_nat.simps) (simp add: read_digits_def)
  qed
qed

lemma show_nat_inject [simp]: "show_nat m = show_nat n \<longleftrightarrow> m = n"
  by (metis read_digits_show_nat)

lemma show_nat_chars: "c \<in> set (show_nat n) \<Longrightarrow> \<exists>d < 10. c = digit_char d"
proof (induction n rule: show_nat.induct)
  case (1 n)
  then show ?case
    by (cases "n < 10") (auto simp: show_nat.simps [of n] intro: exI [of _ "n mod 10"])
qed

lemma digit_char_code: "d < 10 \<Longrightarrow> of_char (digit_char d) = 48 + d"
  by (simp add: digit_char_def)

lemma show_nat_code: "c \<in> set (show_nat n) \<Longrightarrow> 48 \<le> (of_char c :: nat) \<and> (of_char c :: nat) < 58"
  by (auto dest!: show_nat_chars simp: digit_char_code)

lemma show_nat_no_minus: "CHR ''-'' # xs \<noteq> show_nat n"
proof
  assume "CHR ''-'' # xs = show_nat n"
  then have "CHR ''-'' \<in> set (show_nat n)" by (metis list.set_intros(1))
  then have "48 \<le> (of_char (CHR ''-'') :: nat)" using show_nat_code by blast
  then show False by simp
qed

lemma show_int_inject [simp]: "show_int i = show_int j \<longleftrightarrow> i = j"
  by (auto simp: show_int_def show_nat_no_minus show_nat_no_minus [symmetric] split: if_splits)

lemma show_int_no_bar: "CHR ''|'' \<notin> set (show_int i)"
proof
  assume "CHR ''|'' \<in> set (show_int i)"
  then have "\<exists>n. CHR ''|'' \<in> set (show_nat n)"
    by (auto simp: show_int_def split: if_splits)
  then have "(of_char (CHR ''|'') :: nat) < 58" using show_nat_code by blast
  then show False by simp
qed

section \<open>A concrete environment\<close>

text \<open>An instance of the environment on which the worked examples evaluate:
  identities are the seed behind its namespace, timestamps are printed as
  decimal numbers.\<close>

definition read_int :: "string \<Rightarrow> int" where
  "read_int s =
     (if take 1 s = ''-'' then - int (read_digits (drop 1 s)) else int (read_digits s))"

lemma read_int_show_int [simp]: "read_int (show_int i) = i"
proof (cases "i < 0")
  case True
  then show ?thesis by (simp add: read_int_def show_int_def)
next
  case False
  have "take 1 (show_nat (nat i)) \<noteq> ''-''"
    using show_nat_no_minus [of "drop 1 (show_nat (nat i))" "nat i"] append_take_drop_id [of 1 "show_nat (nat i)"]
    by (metis append_Cons append_Nil)
  with False show ?thesis by (simp add: read_int_def show_int_def)
qed

definition int_text :: "string \<Rightarrow> int option" where
  "int_text s = (if show_int (read_int s) = s then Some (read_int s) else None)"

definition ascii_lower :: "char \<Rightarrow> char" where
  "ascii_lower c = (if 65 \<le> (of_char c :: nat) \<and> (of_char c :: nat) \<le> 90 then char_of (of_char c + 32 :: nat) else c)"

definition ascii_upper :: "char \<Rightarrow> char" where
  "ascii_upper c = (if 97 \<le> (of_char c :: nat) \<and> (of_char c :: nat) \<le> 122 then char_of (of_char c - 32 :: nat) else c)"

definition demo_env :: py_env where
  "demo_env = \<lparr>uuid5 = (\<lambda>ns s. ns @ ''/'' @ s), isoformat = show_int,
     fromisoformat = (\<lambda>s. map_option Aware (int_text s)),
     float_of_int = (\<lambda>n. if \<bar>n\<bar> < 2 ^ 1024 then Some (word_of_int n) else None),
     float_of_str = (\<lambda>s. map_option word_of_int (int_text s)),
     int_of_str = int_text, repr_of = (\<lambda>v. ''<object>''),
     repr_str = (\<lambda>s. CHR 0x27 # s @ [CHR 0x27]), uuid_parse = Some, str_lower = map ascii_lower,
     str_upper = map ascii_upper,
     sha256_hex = (\<lambda>s. replicate 64 (CHR ''0'')), json_dumps = (\<lambda>v. ''<json>''),
     json_compact = (\<lambda>v. ''{}'')\<rparr>"

lemma demo_uuid5 [simp]: "uuid5 demo_env ns s = uuid5 demo_env ns s' \<longleftrightarrow> s = s'"
  by (simp add: demo_env_def)

lemma demo_iso [simp]: "fromisoformat demo_env (isoformat demo_env t) = Some (Aware t)"
  by (simp add: demo_env_def int_text_def)

section \<open>Dictionaries\<close>

text \<open>
  A Python dictionary is an association list in insertion order:
  \<open>AList.update\<close> overwrites a present key in place and appends a new one,
  as \<open>d[k] = v\<close> does.
\<close>

type_synonym ('k, 'v) dict = "('k \<times> 'v) list"

abbreviation dget :: "('k, 'v) dict \<Rightarrow> 'k \<Rightarrow> 'v option" where
  "dget d k \<equiv> map_of d k"

abbreviation dset :: "'k \<Rightarrow> 'v \<Rightarrow> ('k, 'v) dict \<Rightarrow> ('k, 'v) dict" where
  "dset k v d \<equiv> AList.update k v d"

abbreviation dvals :: "('k, 'v) dict \<Rightarrow> 'v list" where
  "dvals d \<equiv> map snd d"

abbreviation dkeys :: "('k, 'v) dict \<Rightarrow> 'k list" where
  "dkeys d \<equiv> map fst d"

abbreviation wf_dict :: "('k, 'v) dict \<Rightarrow> bool" where
  "wf_dict d \<equiv> distinct (dkeys d)"

text \<open>\<open>{**a, **b}\<close>.\<close>

definition dmerge :: "('k, 'v) dict \<Rightarrow> ('k, 'v) dict \<Rightarrow> ('k, 'v) dict" where
  "dmerge a b = fold (\<lambda>(k, v) d. dset k v d) b a"

text \<open>\<open>d.setdefault(k, v)\<close> as a statement.\<close>

definition dsetdefault :: "'k \<Rightarrow> 'v \<Rightarrow> ('k, 'v) dict \<Rightarrow> ('k, 'v) dict" where
  "dsetdefault k v d = (case dget d k of Some _ \<Rightarrow> d | None \<Rightarrow> dset k v d)"

lemma dget_dset [simp]: "dget (dset k v d) k' = (if k' = k then Some v else dget d k')"
  by (simp add: update_conv)

lemma wf_dset [simp]: "wf_dict d \<Longrightarrow> wf_dict (dset k v d)"
  by (rule distinct_update)

lemma dget_dmerge: "wf_dict b \<Longrightarrow> dget (dmerge a b) k = (case dget b k of Some v \<Rightarrow> Some v | None \<Rightarrow> dget a k)"
  unfolding dmerge_def
proof (induction b arbitrary: a)
  case (Cons kv b)
  obtain k0 v0 where kv: "kv = (k0, v0)" by force
  with Cons.prems have "dget b k0 = None" by (simp add: map_of_eq_None_iff)
  with Cons show ?case by (simp add: kv split: option.splits)
qed simp

lemma wf_dmerge [simp]: "wf_dict a \<Longrightarrow> wf_dict (dmerge a b)"
  unfolding dmerge_def by (induction b arbitrary: a) auto

lemma dmerge_Nil [simp]: "dmerge a [] = a"
  by (simp add: dmerge_def)

lemma in_dvals_iff: "wf_dict d \<Longrightarrow> v \<in> set (dvals d) \<longleftrightarrow> (\<exists>k. dget d k = Some v)"
  by (force dest: map_of_is_SomeI map_of_SomeD)

lemma dvals_get: "wf_dict d \<Longrightarrow> v \<in> set (dvals d) \<Longrightarrow> \<exists>k. dget d k = Some v"
  by (simp only: in_dvals_iff)

lemma dget_filter_key: "dget (filter (\<lambda>(k, v). P k) d) k = (if P k then dget d k else None)"
  by (induction d) auto

lemma wf_filter [simp]: "wf_dict d \<Longrightarrow> wf_dict (filter P d)"
  by (induction d) auto

section \<open>Whitespace\<close>

text \<open>\<open>s.strip()\<close>: the code points below 256 that \<open>str.isspace\<close> accepts.\<close>

definition py_space :: "char \<Rightarrow> bool" where
  "py_space c \<longleftrightarrow> (of_char c :: nat) \<in> set [9, 10, 11, 12, 13, 28, 29, 30, 31, 32, 133, 160]"

definition py_strip :: "string \<Rightarrow> string" where
  "py_strip s = rev (dropWhile py_space (rev (dropWhile py_space s)))"

lemma py_strip_empty [simp]: "py_strip [] = []"
  by (simp add: py_strip_def)

lemma py_strip_Nil: "py_strip s = [] \<longleftrightarrow> (\<forall>c\<in>set s. py_space c)"
proof -
  have "py_strip s = [] \<longleftrightarrow> (\<forall>c\<in>set (dropWhile py_space s). py_space c)"
    by (simp add: py_strip_def)
  also have "\<dots> \<longleftrightarrow> dropWhile py_space s = []"
    by (metis dropWhile_eq_Nil_conv dropWhile_idem)
  finally show ?thesis by simp
qed

section \<open>Slices, optional filters, truthiness\<close>

text \<open>\<open>xs[a:b]\<close>, negative bounds counting from the end.\<close>

definition slice_bound :: "nat \<Rightarrow> int \<Rightarrow> nat" where
  "slice_bound n i = (if i < 0 then nat (max 0 (int n + i)) else min n (nat i))"

definition py_slice :: "'a list \<Rightarrow> int \<Rightarrow> int \<Rightarrow> 'a list" where
  "py_slice xs a b =
     (let i = slice_bound (length xs) a; j = slice_bound (length xs) b
      in take (j - i) (drop i xs))"

lemma set_py_slice: "set (py_slice xs a b) \<subseteq> set xs"
  unfolding py_slice_def Let_def by (meson in_set_dropD in_set_takeD subsetI)

lemma py_slice_nonneg:
  "0 \<le> a \<Longrightarrow> 0 \<le> n \<Longrightarrow> py_slice xs a (a + n) = take (nat n) (drop (nat a) xs)"
  by (auto simp: py_slice_def slice_bound_def Let_def min_def nat_add_distrib)

lemma distinct_py_slice: "distinct xs \<Longrightarrow> distinct (py_slice xs a b)"
  by (simp add: py_slice_def Let_def)

lemma sorted_py_slice: "sorted (map f xs) \<Longrightarrow> sorted (map f (py_slice xs a b))"
  by (simp add: py_slice_def Let_def take_map [symmetric] drop_map [symmetric] sorted_wrt_take sorted_wrt_drop)

lemma py_slice_all: "int (length xs) \<le> b \<Longrightarrow> py_slice xs 0 b = xs"
  by (auto simp: py_slice_def slice_bound_def Let_def)

text \<open>Consecutive pages partition the rows.\<close>

lemma py_slice_pages:
  assumes "0 \<le> a" "0 \<le> m" "0 \<le> n"
  shows "py_slice xs a (a + m) @ py_slice xs (a + m) (a + m + n) = py_slice xs a (a + (m + n))"
proof -
  have "py_slice xs (a + m) (a + m + n) = take (nat n) (drop (nat m) (drop (nat a) xs))"
    using assms py_slice_nonneg [of "a + m" n xs] by (simp add: nat_add_distrib add.commute)
  moreover have "py_slice xs a (a + (m + n)) = take (nat m + nat n) (drop (nat a) xs)"
    using assms py_slice_nonneg [of a "m + n" xs] by (simp add: nat_add_distrib)
  ultimately show ?thesis using assms by (simp add: py_slice_nonneg take_add)
qed

text \<open>\<open>if q is not None: rows = [r for r in rows if p(q, r)]\<close>.\<close>

definition narrow :: "'q option \<Rightarrow> ('q \<Rightarrow> 'r \<Rightarrow> bool) \<Rightarrow> 'r list \<Rightarrow> 'r list" where
  "narrow q p rows = (case q of None \<Rightarrow> rows | Some x \<Rightarrow> filter (p x) rows)"

lemma narrow_None [simp]: "narrow None p rows = rows"
  and narrow_Some [simp]: "narrow (Some x) p rows = filter (p x) rows"
  by (simp_all add: narrow_def)

lemma set_narrow: "set (narrow q p rows) = {r \<in> set rows. \<forall>x. q = Some x \<longrightarrow> p x r}"
  by (cases q) auto

lemma set_narrow_subset: "set (narrow q p rows) \<subseteq> set rows"
  by (auto simp: set_narrow)

lemma distinct_narrow: "distinct rows \<Longrightarrow> distinct (narrow q p rows)"
  by (cases q) auto

text \<open>\<open>a or b\<close> for optional strings: empty strings are falsy.\<close>

fun str_or :: "string option \<Rightarrow> string option \<Rightarrow> string option" where
  "str_or (Some (c # cs)) b = Some (c # cs)"
| "str_or _ b = b"

text \<open>\<open>given or datetime.now(tz=utc)\<close>: a datetime is always truthy.\<close>

definition or_now :: "int option \<Rightarrow> int \<Rightarrow> int" where
  "or_now given now = (case given of Some t \<Rightarrow> t | None \<Rightarrow> now)"

text \<open>Metadata value of an optional string.\<close>

fun opt_pstr :: "string option \<Rightarrow> pyval" where
  "opt_pstr None = PNone"
| "opt_pstr (Some s) = PStr s"

text \<open>The tenant guard of every scoped read.\<close>

definition tenant_visible :: "string \<Rightarrow> string option \<Rightarrow> bool" where
  "tenant_visible owner expected = (case expected of None \<Rightarrow> True | Some t \<Rightarrow> owner = t)"

lemma tenant_visible_simps [simp]:
  "tenant_visible t None" "tenant_visible t (Some u) \<longleftrightarrow> t = u"
  by (simp_all add: tenant_visible_def)

end
