(* ===== verification/Execution_Model.thy ===== *)
theory Execution_Model
  imports Prelude
begin

text \<open>
  Data of the execution substrate (\<open>app/execution\<close>): the enums of
  \<open>enums.py\<close>, the result envelope of \<open>envelope.py\<close>, the records of
  \<open>persistence/records.py\<close>, the query and page values of
  \<open>persistence/models.py\<close>, the identity derivations of \<open>identity.py\<close>
  and the admission token of \<open>admission.py\<close>.  The lemmas give the
  injectivity of the derived seeds and the round trip of the envelope.
\<close>

section \<open>Enums\<close>

datatype execution_kind = DIAGNOSTIC_AGENT

datatype execution_state = REQUESTED | CLAIMED | COMPLETED | FAILED | DEAD_LETTERED

datatype execution_attempt_state = A_RUNNING | A_COMPLETED | A_FAILED | A_DEAD_LETTERED

datatype execution_outbox_state = PENDING | PUBLISHING | PUBLISHED | OUTBOX_FAILED

fun kind_value :: "execution_kind \<Rightarrow> string" where
  "kind_value DIAGNOSTIC_AGENT = ''diagnostic_agent''"

fun state_value :: "execution_state \<Rightarrow> string" where
  "state_value REQUESTED = ''requested''"
| "state_value CLAIMED = ''claimed''"
| "state_value COMPLETED = ''completed''"
| "state_value FAILED = ''failed''"
| "state_value DEAD_LETTERED = ''dead_lettered''"

fun attempt_state_value :: "execution_attempt_state \<Rightarrow> string" where
  "attempt_state_value A_RUNNING = ''running''"
| "attempt_state_value A_COMPLETED = ''completed''"
| "attempt_state_value A_FAILED = ''failed''"
| "attempt_state_value A_DEAD_LETTERED = ''dead_lettered''"

fun outbox_state_value :: "execution_outbox_state \<Rightarrow> string" where
  "outbox_state_value PENDING = ''pending''"
| "outbox_state_value PUBLISHING = ''publishing''"
| "outbox_state_value PUBLISHED = ''published''"
| "outbox_state_value OUTBOX_FAILED = ''failed''"

section \<open>The result envelope\<close>

type_synonym metadata = "(string, pyval) dict"

record envelope =
  schema_version :: string
  diagnostic_category :: "string option"
  diagnostic_confidence :: "pyfloat option"
  diagnostic_summary :: "string option"
  governance_decision_id :: "string option"
  governance_decision :: "string option"
  resolution_proposal_id :: "string option"
  resolution_draft_id :: "string option"
  error_code :: "string option"
  error_message :: "string option"
  envelope_metadata :: metadata

text \<open>\<open>ExecutionResultEnvelope()\<close> with every default.\<close>

definition empty_envelope :: envelope where
  "empty_envelope = \<lparr>schema_version = ''1'', diagnostic_category = None,
     diagnostic_confidence = None, diagnostic_summary = None,
     governance_decision_id = None, governance_decision = None,
     resolution_proposal_id = None, resolution_draft_id = None,
     error_code = None, error_message = None, envelope_metadata = []\<rparr>"

fun opt_pfloat :: "pyfloat option \<Rightarrow> pyval" where
  "opt_pfloat None = PNone"
| "opt_pfloat (Some x) = PFloat x"

definition to_dict :: "envelope \<Rightarrow> metadata" where
  "to_dict e =
     [(''_schema_version'', PStr (schema_version e)),
      (''diagnostic_category'', opt_pstr (diagnostic_category e)),
      (''diagnostic_confidence'', opt_pfloat (diagnostic_confidence e)),
      (''diagnostic_summary'', opt_pstr (diagnostic_summary e)),
      (''governance_decision_id'', opt_pstr (governance_decision_id e)),
      (''governance_decision'', opt_pstr (governance_decision e)),
      (''resolution_proposal_id'', opt_pstr (resolution_proposal_id e)),
      (''resolution_draft_id'', opt_pstr (resolution_draft_id e)),
      (''error_code'', opt_pstr (error_code e)),
      (''error_message'', opt_pstr (error_message e)),
      (''metadata'', PDict (envelope_metadata e))]"

text \<open>\<open>data.get(key)\<close>: an absent key reads as \<open>None\<close>.\<close>

definition get_or_none :: "metadata \<Rightarrow> string \<Rightarrow> pyval" where
  "get_or_none d k = (case dget d k of Some v \<Rightarrow> v | None \<Rightarrow> PNone)"

fun optional_str :: "py_env \<Rightarrow> pyval \<Rightarrow> string option" where
  "optional_str env (PStr s) = Some s"
| "optional_str env PNone = None"
| "optional_str env v = Some (py_str env v)"

fun optional_float :: "py_env \<Rightarrow> pyval \<Rightarrow> pyfloat option result" where
  "optional_float env PNone = Inr None"
| "optional_float env (PBool _) = Inr None"
| "optional_float env (PInt n) =
     (case float_of_int env n of Some x \<Rightarrow> Inr (Some x) | None \<Rightarrow> Inl OverflowError)"
| "optional_float env (PFloat x) = Inr (Some x)"
| "optional_float env (PStr s) = Inr (float_of_str env s)"
| "optional_float env _ = Inr None"

fun first_float :: "pyfloat option list \<Rightarrow> pyfloat option" where
  "first_float [] = None"
| "first_float (Some x # vs) = Some x"
| "first_float (None # vs) = first_float vs"

fun metadata_of :: "pyval \<Rightarrow> metadata" where
  "metadata_of (PDict d) = d"
| "metadata_of _ = []"

definition known_keys :: "string list" where
  "known_keys = [''_schema_version'', ''diagnostic_category'', ''diagnostic_confidence'',
     ''diagnostic_summary'', ''governance_decision_id'', ''governance_decision'',
     ''resolution_proposal_id'', ''resolution_draft_id'', ''error_code'',
     ''error_message'', ''metadata'']"

definition from_dict :: "py_env \<Rightarrow> metadata \<Rightarrow> envelope result" where
  "from_dict env data =
     (let extra = filter (\<lambda>(k, v). k \<notin> set known_keys) data;
          text = (\<lambda>k. optional_str env (get_or_none data k))
      in case optional_float env (get_or_none data ''diagnostic_confidence'') of
           Inl e \<Rightarrow> Inl e
         | Inr confidence \<Rightarrow>
         (case optional_float env (get_or_none data ''confidence'') of
           Inl e \<Rightarrow> Inl e
         | Inr legacy_confidence \<Rightarrow>
           Inr \<lparr>schema_version =
                  (case str_or (text ''_schema_version'') None of Some v \<Rightarrow> v | None \<Rightarrow> ''0''),
                diagnostic_category = str_or (text ''diagnostic_category'') (text ''category''),
                diagnostic_confidence = first_float [confidence, legacy_confidence],
                diagnostic_summary = str_or (text ''diagnostic_summary'') (text ''summary''),
                governance_decision_id = text ''governance_decision_id'',
                governance_decision = text ''governance_decision'',
                resolution_proposal_id = text ''resolution_proposal_id'',
                resolution_draft_id = text ''resolution_draft_id'',
                error_code = text ''error_code'',
                error_message = text ''error_message'',
                envelope_metadata =
                  dmerge (metadata_of (get_or_none data ''metadata'')) extra\<rparr>))"

section \<open>Records\<close>

record execution_record =
  x_execution_id :: string
  x_kind :: execution_kind
  x_dispatch_id :: string
  x_session_id :: string
  x_tenant_id :: string
  x_state :: execution_state
  x_attempt_count :: int
  x_requested_at :: int
  x_diagnostic_category :: "string option"
  x_diagnostic_confidence :: "pyfloat option"
  x_governance_decision_id :: "string option"
  x_governance_evaluation_id :: "string option"
  x_governance_admitted_at :: "int option"
  x_governance_config_id :: "string option"
  x_governance_config_version :: "int option"
  x_governance_config_sha256 :: "string option"
  x_claimed_at :: "int option"
  x_completed_at :: "int option"
  x_failed_at :: "int option"
  x_worker_id :: "string option"
  x_result :: envelope
  x_error :: "string option"
  x_metadata :: metadata

record attempt_record =
  a_attempt_id :: string
  a_execution_id :: string
  a_attempt_number :: int
  a_state :: execution_attempt_state
  a_worker_id :: string
  a_started_at :: int
  a_completed_at :: "int option"
  a_failed_at :: "int option"
  a_previous_attempt_id :: "string option"
  a_retry_requested :: bool
  a_result :: envelope
  a_error :: "string option"
  a_metadata :: metadata

record outbox_record =
  o_outbox_id :: string
  o_execution_id :: string
  o_state :: execution_outbox_state
  o_created_at :: int
  o_claimed_at :: "int option"
  o_published_at :: "int option"
  o_publisher_id :: "string option"
  o_claim_id :: "string option"
  o_publish_attempt_count :: int
  o_last_error :: "string option"
  o_metadata :: metadata

record claim_record =
  c_execution :: execution_record
  c_attempt :: attempt_record

record claim_lost =
  cl_execution_id :: string
  cl_attempt_id :: "string option"
  cl_worker_id :: "string option"
  cl_reason :: string
  cl_current :: "execution_record option"

record outbox_claim_lost =
  ocl_outbox_id :: string
  ocl_claim_id :: "string option"
  ocl_reason :: string
  ocl_current :: "outbox_record option"

text \<open>\<open>ExecutionRecord | ExecutionClaimLost\<close> and its outbox counterpart.\<close>

datatype transition = Moved execution_record | Lost claim_lost

datatype outbox_transition = OMoved outbox_record | OLost outbox_claim_lost

section \<open>Queries and pages\<close>

record execution_query =
  q_execution_id :: "string option"
  q_kind :: "execution_kind option"
  q_dispatch_id :: "string option"
  q_session_id :: "string option"
  q_tenant_id :: "string option"
  q_state :: "execution_state option"
  q_requested_after_or_at :: "int option"
  q_failed_after_or_at :: "int option"
  q_claimed_before_or_at :: "int option"
  q_limit :: int
  q_offset :: int

definition default_execution_query :: execution_query where
  "default_execution_query = \<lparr>q_execution_id = None, q_kind = None, q_dispatch_id = None,
     q_session_id = None, q_tenant_id = None, q_state = None,
     q_requested_after_or_at = None, q_failed_after_or_at = None,
     q_claimed_before_or_at = None, q_limit = 100, q_offset = 0\<rparr>"

record attempt_query =
  aq_attempt_id :: "string option"
  aq_execution_id :: "string option"
  aq_state :: "execution_attempt_state option"
  aq_limit :: int
  aq_offset :: int

record outbox_query =
  oq_execution_id :: "string option"
  oq_tenant_id :: "string option"
  oq_state :: "execution_outbox_state option"
  oq_limit :: int
  oq_offset :: int

record 'r page =
  p_rows :: "'r list"
  p_total :: int
  p_limit :: int
  p_offset :: int

section \<open>Admission token\<close>

record admission_token =
  t_governance_decision_id :: string
  t_evaluation_id :: string
  t_admitted_at :: int
  t_tenant_id :: string
  t_config_id :: "string option"
  t_config_version :: "int option"
  t_config_sha256 :: "string option"

section \<open>Identity\<close>

definition EXECUTION_NAMESPACE :: string where
  "EXECUTION_NAMESPACE = ''e0ec7001-0001-4001-8001-000000000001''"

definition OUTBOX_NAMESPACE :: string where
  "OUTBOX_NAMESPACE = ''e0ec7001-0002-4002-8002-000000000002''"

definition ATTEMPT_NAMESPACE :: string where
  "ATTEMPT_NAMESPACE = ''e0ec7001-0003-4003-8003-000000000003''"

definition OUTBOX_CLAIM_NAMESPACE :: string where
  "OUTBOX_CLAIM_NAMESPACE = ''e0ec7001-0004-4004-8004-000000000004''"

text \<open>\<open>project_optional_str\<close> of \<open>app/identity/projection.py\<close>: the sentinel is
  \<open><none>\<close> between two NUL characters.\<close>

definition NONE_SENTINEL :: string where
  "NONE_SENTINEL = CHR 0x00 # ''<none>'' @ [CHR 0x00]"

fun project_optional_str :: "string option \<Rightarrow> string" where
  "project_optional_str None = NONE_SENTINEL"
| "project_optional_str (Some v) = v"

definition execution_seed :: "string \<Rightarrow> string option \<Rightarrow> string \<Rightarrow> string \<Rightarrow> string" where
  "execution_seed kind tenant_id dispatch_id session_id =
     kind @ ''|'' @ project_optional_str tenant_id @ ''|'' @ dispatch_id @ ''|'' @ session_id"

definition derive_execution_id ::
  "py_env \<Rightarrow> string \<Rightarrow> string \<Rightarrow> string \<Rightarrow> string option \<Rightarrow> string result" where
  "derive_execution_id env kind dispatch_id session_id tenant_id =
     (if kind = [] then Inl (ValueError ''derive_execution_id requires a non-empty kind'')
      else if dispatch_id = [] then
        Inl (ValueError ''derive_execution_id requires a non-empty dispatch_id'')
      else if session_id = [] then
        Inl (ValueError ''derive_execution_id requires a non-empty session_id'')
      else Inr (uuid5 env EXECUTION_NAMESPACE
                  (execution_seed kind tenant_id dispatch_id session_id)))"

definition derive_outbox_id :: "py_env \<Rightarrow> string \<Rightarrow> string" where
  "derive_outbox_id env execution_id = uuid5 env OUTBOX_NAMESPACE execution_id"

definition claim_seed :: "string \<Rightarrow> string \<Rightarrow> int \<Rightarrow> string" where
  "claim_seed outbox_id publisher_id n = outbox_id @ ''|'' @ publisher_id @ ''|'' @ show_int n"

definition derive_outbox_claim_id ::
  "py_env \<Rightarrow> string \<Rightarrow> string \<Rightarrow> int \<Rightarrow> string result" where
  "derive_outbox_claim_id env outbox_id publisher_id publish_attempt_count =
     (if publisher_id = [] then Inl (ValueError ''publisher_id is required'')
      else if publish_attempt_count < 1 then
        Inl (ValueError ''publish_attempt_count must be >= 1'')
      else Inr (uuid5 env OUTBOX_CLAIM_NAMESPACE
                  (claim_seed outbox_id publisher_id publish_attempt_count)))"

definition attempt_seed :: "string \<Rightarrow> int \<Rightarrow> string" where
  "attempt_seed execution_id n = execution_id @ ''|'' @ show_int n"

definition derive_attempt_id :: "py_env \<Rightarrow> string \<Rightarrow> int \<Rightarrow> string result" where
  "derive_attempt_id env execution_id attempt_number =
     (if attempt_number < 1 then Inl (ValueError ''attempt_number must be >= 1'')
      else Inr (uuid5 env ATTEMPT_NAMESPACE (attempt_seed execution_id attempt_number)))"

subsection \<open>Seeds\<close>

text \<open>The number is the part after the last bar, so a seed names one pair.\<close>

lemma bar_split:
  assumes "xs @ CHR ''|'' # ys = xs' @ CHR ''|'' # ys'"
    and "CHR ''|'' \<notin> set ys" and "CHR ''|'' \<notin> set ys'"
  shows "xs = xs' \<and> ys = ys'"
proof -
  have "rev ys @ CHR ''|'' # rev xs = rev ys' @ CHR ''|'' # rev xs'"
    using arg_cong [OF assms(1), of rev] by simp
  moreover have "takeWhile (\<lambda>c. c \<noteq> CHR ''|'') (rev zs @ CHR ''|'' # ws) = rev zs"
    if "CHR ''|'' \<notin> set zs" for zs ws :: string
    using that by (subst takeWhile_append2) auto
  ultimately have "rev ys = rev ys'" using assms(2,3) by metis
  with assms(1) show ?thesis by simp
qed

lemma attempt_seed_inject [simp]: "attempt_seed e n = attempt_seed e' n' \<longleftrightarrow> e = e' \<and> n = n'"
  unfolding attempt_seed_def using bar_split [of e "show_int n" e' "show_int n'"]
  by (auto simp: show_int_no_bar)

lemma claim_seed_inject [simp]:
  "claim_seed o_id p n = claim_seed o_id p' n' \<longleftrightarrow> p = p' \<and> n = n'"
  unfolding claim_seed_def
  using bar_split [of "o_id @ CHR ''|'' # p" "show_int n" "o_id @ CHR ''|'' # p'" "show_int n'"]
  by (auto simp: show_int_no_bar)

section \<open>The envelope round trip\<close>

text \<open>What reading back a serialised envelope keeps: an empty category or
  summary reads as absent, an empty schema version as the pre-versioned one.\<close>

definition canonical_envelope :: "envelope \<Rightarrow> envelope" where
  "canonical_envelope e = e\<lparr>
     schema_version := (case str_or (Some (schema_version e)) None of Some v \<Rightarrow> v | None \<Rightarrow> ''0''),
     diagnostic_category := str_or (diagnostic_category e) None,
     diagnostic_summary := str_or (diagnostic_summary e) None\<rparr>"

lemma optional_str_opt_pstr [simp]: "optional_str env (opt_pstr v) = v"
  by (cases v) simp_all

lemma optional_float_opt_pfloat [simp]: "optional_float env (opt_pfloat v) = Inr v"
  by (cases v) simp_all

lemma get_or_none_to_dict:
  "get_or_none (to_dict e) ''_schema_version'' = PStr (schema_version e)"
  "get_or_none (to_dict e) ''diagnostic_category'' = opt_pstr (diagnostic_category e)"
  "get_or_none (to_dict e) ''diagnostic_confidence'' = opt_pfloat (diagnostic_confidence e)"
  "get_or_none (to_dict e) ''diagnostic_summary'' = opt_pstr (diagnostic_summary e)"
  "get_or_none (to_dict e) ''governance_decision_id'' = opt_pstr (governance_decision_id e)"
  "get_or_none (to_dict e) ''governance_decision'' = opt_pstr (governance_decision e)"
  "get_or_none (to_dict e) ''resolution_proposal_id'' = opt_pstr (resolution_proposal_id e)"
  "get_or_none (to_dict e) ''resolution_draft_id'' = opt_pstr (resolution_draft_id e)"
  "get_or_none (to_dict e) ''error_code'' = opt_pstr (error_code e)"
  "get_or_none (to_dict e) ''error_message'' = opt_pstr (error_message e)"
  "get_or_none (to_dict e) ''metadata'' = PDict (envelope_metadata e)"
  "get_or_none (to_dict e) ''category'' = PNone"
  "get_or_none (to_dict e) ''confidence'' = PNone"
  "get_or_none (to_dict e) ''summary'' = PNone"
  by (simp_all add: get_or_none_def to_dict_def)

lemma to_dict_known: "filter (\<lambda>(k, v). k \<notin> set known_keys) (to_dict e) = []"
  by (simp add: to_dict_def known_keys_def)

lemma str_or_None: "str_or a None = (if a = Some [] then None else a)"
proof (cases a)
  case (Some s)
  then show ?thesis by (cases s) simp_all
qed simp

lemma from_dict_to_dict: "from_dict env (to_dict e) = Inr (canonical_envelope e)"
  by (cases "diagnostic_confidence e")
    (simp_all add: from_dict_def get_or_none_to_dict to_dict_known Let_def canonical_envelope_def)

lemma canonical_envelope_idem [simp]:
  "canonical_envelope (canonical_envelope e) = canonical_envelope e"
  by (simp add: canonical_envelope_def str_or_None)

end
