(* ===== verification/Execution_Store.thy ===== *)
theory Execution_Store
  imports Execution_Model
begin

text \<open>
  The in-memory execution persistence, \<open>app/execution/persistence/memory.py\<close>:
  one definition per method.  Every method body runs under the store's lock, so
  it is one atomic step \<open>store \<Rightarrow> result \<times> store\<close>; a method that raises leaves
  the store as it was.  The lemmas at the end are the frame facts of each step.
\<close>

section \<open>The store\<close>

record exec_store =
  s_executions :: "(string, execution_record) dict"
  s_attempts :: "(string, attempt_record) dict"
  s_attempts_by_execution :: "(string, string list) dict"
  s_outbox :: "(string, outbox_record) dict"
  s_outbox_by_execution :: "(string, string) dict"
  s_by_dispatch :: "(string \<times> string \<times> execution_kind, string) dict"

definition empty_store :: exec_store where
  "empty_store = \<lparr>s_executions = [], s_attempts = [], s_attempts_by_execution = [],
     s_outbox = [], s_outbox_by_execution = [], s_by_dispatch = []\<rparr>"

definition put_execution :: "execution_record \<Rightarrow> string \<Rightarrow> exec_store \<Rightarrow> exec_store" where
  "put_execution x eid s = s\<lparr>s_executions := dset eid x (s_executions s)\<rparr>"

definition put_attempt :: "attempt_record \<Rightarrow> string \<Rightarrow> exec_store \<Rightarrow> exec_store" where
  "put_attempt a aid s = s\<lparr>s_attempts := dset aid a (s_attempts s)\<rparr>"

definition put_outbox :: "outbox_record \<Rightarrow> string \<Rightarrow> exec_store \<Rightarrow> exec_store" where
  "put_outbox r oid s = s\<lparr>s_outbox := dset oid r (s_outbox s)\<rparr>"

lemma put_simps [simp]:
  "s_executions (put_execution x eid s) = dset eid x (s_executions s)"
  "s_attempts (put_execution x eid s) = s_attempts s"
  "s_attempts_by_execution (put_execution x eid s) = s_attempts_by_execution s"
  "s_outbox (put_execution x eid s) = s_outbox s"
  "s_outbox_by_execution (put_execution x eid s) = s_outbox_by_execution s"
  "s_by_dispatch (put_execution x eid s) = s_by_dispatch s"
  "s_executions (put_attempt a aid s) = s_executions s"
  "s_attempts (put_attempt a aid s) = dset aid a (s_attempts s)"
  "s_attempts_by_execution (put_attempt a aid s) = s_attempts_by_execution s"
  "s_outbox (put_attempt a aid s) = s_outbox s"
  "s_outbox_by_execution (put_attempt a aid s) = s_outbox_by_execution s"
  "s_by_dispatch (put_attempt a aid s) = s_by_dispatch s"
  "s_executions (put_outbox r oid s) = s_executions s"
  "s_attempts (put_outbox r oid s) = s_attempts s"
  "s_attempts_by_execution (put_outbox r oid s) = s_attempts_by_execution s"
  "s_outbox (put_outbox r oid s) = dset oid r (s_outbox s)"
  "s_outbox_by_execution (put_outbox r oid s) = s_outbox_by_execution s"
  "s_by_dispatch (put_outbox r oid s) = s_by_dispatch s"
  by (simp_all add: put_execution_def put_attempt_def put_outbox_def)

section \<open>Admission and reads\<close>

definition dispatch_key :: "execution_record \<Rightarrow> string \<times> string \<times> execution_kind" where
  "dispatch_key x = (x_tenant_id x, x_dispatch_id x, x_kind x)"

definition request_execution ::
  "exec_store \<Rightarrow> execution_record \<Rightarrow> outbox_record \<Rightarrow> execution_record result \<times> exec_store" where
  "request_execution s execution outbox =
     (case dget (s_by_dispatch s) (dispatch_key execution) of
        Some existing_id \<Rightarrow>
          (case dget (s_executions s) existing_id of
             None \<Rightarrow> (Inl (ExecutionPersistenceError
                          ''execution dispatch index points at missing row''), s)
           | Some existing \<Rightarrow> (Inr existing, s))
      | None \<Rightarrow>
          if dget (s_executions s) (x_execution_id execution) \<noteq> None
          then (Inl (ExecutionPersistenceError
                       (''duplicate execution_id: '' @ x_execution_id execution)), s)
          else (Inr execution,
                s\<lparr>s_executions := dset (x_execution_id execution) execution (s_executions s),
                  s_by_dispatch := dset (dispatch_key execution) (x_execution_id execution)
                                     (s_by_dispatch s),
                  s_outbox := dset (o_outbox_id outbox) outbox (s_outbox s),
                  s_outbox_by_execution := dset (o_execution_id outbox) (o_outbox_id outbox)
                                             (s_outbox_by_execution s)\<rparr>))"

definition get_execution :: "exec_store \<Rightarrow> string \<Rightarrow> string option \<Rightarrow> execution_record option" where
  "get_execution s execution_id expected_tenant_id =
     (case dget (s_executions s) execution_id of
        None \<Rightarrow> None
      | Some r \<Rightarrow> if tenant_visible (x_tenant_id r) expected_tenant_id then Some r else None)"

definition get_execution_by_dispatch ::
  "exec_store \<Rightarrow> string \<Rightarrow> execution_kind \<Rightarrow> string \<Rightarrow> execution_record option" where
  "get_execution_by_dispatch s dispatch_id kind expected_tenant_id =
     (case dget (s_by_dispatch s) (expected_tenant_id, dispatch_id, kind) of
        None \<Rightarrow> None
      | Some execution_id \<Rightarrow> get_execution s execution_id (Some expected_tenant_id))"

definition get_attempt :: "exec_store \<Rightarrow> string \<Rightarrow> attempt_record option" where
  "get_attempt s attempt_id = dget (s_attempts s) attempt_id"

definition require_execution :: "exec_store \<Rightarrow> string \<Rightarrow> execution_record result" where
  "require_execution s execution_id =
     (case dget (s_executions s) execution_id of
        None \<Rightarrow> Inl (ExecutionPersistenceError (''execution not found: '' @ execution_id))
      | Some r \<Rightarrow> Inr r)"

definition latest_attempt_id :: "exec_store \<Rightarrow> string \<Rightarrow> string option" where
  "latest_attempt_id s execution_id =
     (case dget (s_attempts_by_execution s) execution_id of
        None \<Rightarrow> None
      | Some ids \<Rightarrow> if ids = [] then None else Some (last ids))"

section \<open>Claiming\<close>

definition append_attempt_id :: "string \<Rightarrow> string \<Rightarrow> exec_store \<Rightarrow> exec_store" where
  "append_attempt_id execution_id attempt_id s =
     s\<lparr>s_attempts_by_execution :=
         dset execution_id
           ((case dget (s_attempts_by_execution s) execution_id of Some ids \<Rightarrow> ids | None \<Rightarrow> [])
              @ [attempt_id])
           (s_attempts_by_execution s)\<rparr>"

definition claim_execution ::
  "py_env \<Rightarrow> exec_store \<Rightarrow> string \<Rightarrow> string \<Rightarrow> int \<Rightarrow> claim_record option result \<times> exec_store" where
  "claim_execution env s execution_id worker_id claimed_at =
     (case dget (s_executions s) execution_id of
        None \<Rightarrow> (Inr None, s)
      | Some record \<Rightarrow>
          if x_state record \<noteq> REQUESTED then (Inr None, s)
          else
            let attempt_number = x_attempt_count record + 1;
                previous_attempt_id = latest_attempt_id s execution_id
            in case derive_attempt_id env execution_id attempt_number of
                 Inl e \<Rightarrow> (Inl e, s)
               | Inr attempt_id \<Rightarrow>
                   let updated = record\<lparr>x_state := CLAIMED, x_attempt_count := attempt_number,
                         x_claimed_at := Some claimed_at, x_worker_id := Some worker_id\<rparr>;
                       attempt = \<lparr>a_attempt_id = attempt_id, a_execution_id = execution_id,
                         a_attempt_number = attempt_number, a_state = A_RUNNING,
                         a_worker_id = worker_id, a_started_at = claimed_at,
                         a_completed_at = None, a_failed_at = None,
                         a_previous_attempt_id = previous_attempt_id,
                         a_retry_requested = False, a_result = empty_envelope,
                         a_error = None, a_metadata = []\<rparr>
                   in (Inr (Some \<lparr>c_execution = updated, c_attempt = attempt\<rparr>),
                       append_attempt_id execution_id attempt_id
                         (put_attempt attempt attempt_id
                           (put_execution updated execution_id s))))"

section \<open>Worker transitions\<close>

definition execution_claim_lost ::
  "string \<Rightarrow> string option \<Rightarrow> string option \<Rightarrow> string \<Rightarrow> execution_record option \<Rightarrow> claim_lost" where
  "execution_claim_lost execution_id attempt_id worker_id reason current =
     \<lparr>cl_execution_id = execution_id, cl_attempt_id = attempt_id, cl_worker_id = worker_id,
      cl_reason = reason, cl_current = current\<rparr>"

definition load_attempt_for_transition ::
  "exec_store \<Rightarrow> string \<Rightarrow> string option \<Rightarrow> string \<Rightarrow> execution_record
     \<Rightarrow> claim_lost + attempt_record" where
  "load_attempt_for_transition s execution_id attempt_id worker_id current =
     (let lost = (\<lambda>reason. Inl (execution_claim_lost execution_id attempt_id (Some worker_id)
                                 reason (Some current)))
      in case attempt_id of
           None \<Rightarrow> lost ''attempt_id_required''
         | Some aid \<Rightarrow>
             (case dget (s_attempts s) aid of
                None \<Rightarrow> lost ''attempt_not_found''
              | Some attempt \<Rightarrow>
                  if a_execution_id attempt \<noteq> execution_id
                  then lost ''attempt_execution_mismatch''
                  else if a_worker_id attempt \<noteq> worker_id
                  then lost ''worker_mismatch:attempt''
                  else Inr attempt))"

definition transition_claim_lost ::
  "string \<Rightarrow> string option \<Rightarrow> string \<Rightarrow> execution_record \<Rightarrow> attempt_record \<Rightarrow> claim_lost option" where
  "transition_claim_lost execution_id attempt_id worker_id current attempt =
     (let lost = (\<lambda>reason. Some (execution_claim_lost execution_id attempt_id (Some worker_id)
                                  reason (Some current)))
      in if x_state current \<noteq> CLAIMED
         then lost (''execution_not_claimed:'' @ state_value (x_state current))
         else if x_worker_id current \<noteq> Some worker_id
         then lost ''worker_mismatch:execution''
         else if a_attempt_number attempt \<noteq> x_attempt_count current
         then lost ''attempt_not_current''
         else if a_state attempt \<noteq> A_RUNNING
         then lost (''attempt_not_running:'' @ attempt_state_value (a_state attempt))
         else None)"

definition complete_execution ::
  "py_env \<Rightarrow> exec_store \<Rightarrow> string \<Rightarrow> string option \<Rightarrow> metadata \<Rightarrow> int \<Rightarrow> string
     \<Rightarrow> string option \<Rightarrow> pyfloat option \<Rightarrow> transition result \<times> exec_store" where
  "complete_execution env s execution_id attempt_id res completed_at worker_id category confidence =
     (case require_execution s execution_id of
        Inl e \<Rightarrow> (Inl e, s)
      | Inr record \<Rightarrow>
     (case load_attempt_for_transition s execution_id attempt_id worker_id record of
        Inl lost \<Rightarrow> (Inr (Lost lost), s)
      | Inr attempt \<Rightarrow>
     if x_state record = COMPLETED
     then (if a_state attempt = A_COMPLETED then (Inr (Moved record), s)
           else (Inr (Lost (execution_claim_lost execution_id attempt_id (Some worker_id)
                              ''execution_not_claimed:completed'' (Some record))), s))
     else
     (case transition_claim_lost execution_id attempt_id worker_id record attempt of
        Some lost \<Rightarrow> (Inr (Lost lost), s)
      | None \<Rightarrow>
     (case from_dict env res of
        Inl e \<Rightarrow> (Inl e, s)
      | Inr result_envelope \<Rightarrow>
          let category' = str_or category (diagnostic_category result_envelope);
              confidence' = (case confidence of Some c \<Rightarrow> Some c
                             | None \<Rightarrow> diagnostic_confidence result_envelope);
              attempt' = attempt\<lparr>a_state := A_COMPLETED, a_completed_at := Some completed_at,
                 a_result := result_envelope\<rparr>;
              updated = record\<lparr>x_state := COMPLETED, x_completed_at := Some completed_at,
                 x_failed_at := None, x_diagnostic_category := category',
                 x_diagnostic_confidence := confidence', x_result := result_envelope,
                 x_error := None\<rparr>
          in (Inr (Moved updated),
              put_execution updated execution_id
                (put_attempt attempt' (a_attempt_id attempt) s))))))"

definition fail_execution ::
  "py_env \<Rightarrow> exec_store \<Rightarrow> string \<Rightarrow> string option \<Rightarrow> string \<Rightarrow> int \<Rightarrow> bool \<Rightarrow> string \<Rightarrow> metadata
     \<Rightarrow> transition result \<times> exec_store" where
  "fail_execution env s execution_id attempt_id err failed_at retry_requested worker_id res =
     (case require_execution s execution_id of
        Inl e \<Rightarrow> (Inl e, s)
      | Inr record \<Rightarrow>
     (case load_attempt_for_transition s execution_id attempt_id worker_id record of
        Inl lost \<Rightarrow> (Inr (Lost lost), s)
      | Inr attempt \<Rightarrow>
     (case transition_claim_lost execution_id attempt_id worker_id record attempt of
        Some lost \<Rightarrow> (Inr (Lost lost), s)
      | None \<Rightarrow>
     (case from_dict env res of
        Inl e \<Rightarrow> (Inl e, s)
      | Inr result_envelope \<Rightarrow>
          let attempt' = attempt\<lparr>a_state := A_FAILED, a_failed_at := Some failed_at,
                 a_retry_requested := retry_requested, a_result := result_envelope,
                 a_error := Some err\<rparr>;
              updated = record\<lparr>x_state := (if retry_requested then REQUESTED else FAILED),
                 x_failed_at := Some failed_at, x_result := result_envelope,
                 x_error := Some err\<rparr>
          in (Inr (Moved updated),
              put_execution updated execution_id
                (put_attempt attempt' (a_attempt_id attempt) s))))))"

definition dead_letter_execution ::
  "py_env \<Rightarrow> exec_store \<Rightarrow> string \<Rightarrow> string option \<Rightarrow> string \<Rightarrow> int \<Rightarrow> string \<Rightarrow> metadata
     \<Rightarrow> transition result \<times> exec_store" where
  "dead_letter_execution env s execution_id attempt_id err dead_lettered_at worker_id res =
     (case require_execution s execution_id of
        Inl e \<Rightarrow> (Inl e, s)
      | Inr record \<Rightarrow>
     (case load_attempt_for_transition s execution_id attempt_id worker_id record of
        Inl lost \<Rightarrow> (Inr (Lost lost), s)
      | Inr attempt \<Rightarrow>
     (case transition_claim_lost execution_id attempt_id worker_id record attempt of
        Some lost \<Rightarrow> (Inr (Lost lost), s)
      | None \<Rightarrow>
     (case from_dict env res of
        Inl e \<Rightarrow> (Inl e, s)
      | Inr result_envelope \<Rightarrow>
          let attempt' = attempt\<lparr>a_state := A_DEAD_LETTERED, a_failed_at := Some dead_lettered_at,
                 a_retry_requested := False, a_result := result_envelope,
                 a_error := Some err\<rparr>;
              updated = record\<lparr>x_state := DEAD_LETTERED, x_failed_at := Some dead_lettered_at,
                 x_result := result_envelope, x_error := Some err\<rparr>
          in (Inr (Moved updated),
              put_execution updated execution_id
                (put_attempt attempt' (a_attempt_id attempt) s))))))"

section \<open>Recovery of stale claims\<close>

definition resolve_running_attempt ::
  "exec_store \<Rightarrow> string \<Rightarrow> string option \<Rightarrow> string option \<Rightarrow> execution_record option
     \<Rightarrow> attempt_record result" where
  "resolve_running_attempt s execution_id attempt_id worker_id current =
     (case (case attempt_id of Some a \<Rightarrow> Some a | None \<Rightarrow> latest_attempt_id s execution_id) of
        None \<Rightarrow> Inl (ExecutionPersistenceError (''execution has no attempt: '' @ execution_id))
      | Some aid \<Rightarrow>
     (case dget (s_attempts s) aid of
        None \<Rightarrow> Inl (ExecutionPersistenceError (''attempt not found: '' @ aid))
      | Some attempt \<Rightarrow>
          if a_execution_id attempt \<noteq> execution_id
          then Inl (ExecutionStateError ''attempt does not belong to execution'')
          else if a_state attempt \<noteq> A_RUNNING
          then Inl (ExecutionStateError ''only running attempts can be completed or failed'')
          else if (case current of None \<Rightarrow> False
                   | Some c \<Rightarrow> a_attempt_number attempt \<noteq> x_attempt_count c)
          then Inl (ExecutionStateError ''attempt is no longer current'')
          else
            (case worker_id of
               None \<Rightarrow> Inr attempt
             | Some w \<Rightarrow>
                 if a_worker_id attempt \<noteq> w
                 then Inl (ExecutionStateError ''worker does not own attempt'')
                 else if (case current of None \<Rightarrow> False | Some c \<Rightarrow> x_worker_id c \<noteq> Some w)
                 then Inl (ExecutionStateError ''worker does not own execution'')
                 else Inr attempt)))"

definition recover_stale_execution ::
  "py_env \<Rightarrow> exec_store \<Rightarrow> string \<Rightarrow> int \<Rightarrow> int \<Rightarrow> string
     \<Rightarrow> claim_record option result \<times> exec_store" where
  "recover_stale_execution env s execution_id stale_before recovered_at reason =
     (case dget (s_executions s) execution_id of
        None \<Rightarrow> (Inr None, s)
      | Some record \<Rightarrow>
          if x_state record \<noteq> CLAIMED then (Inr None, s)
          else if (case x_claimed_at record of None \<Rightarrow> True | Some t \<Rightarrow> stale_before < t)
          then (Inr None, s)
          else
            (case resolve_running_attempt s execution_id None (x_worker_id record) (Some record) of
               Inl e \<Rightarrow> (Inl e, s)
             | Inr attempt \<Rightarrow>
                 let recovered_attempt = attempt\<lparr>a_state := A_FAILED,
                       a_failed_at := Some recovered_at, a_retry_requested := True,
                       a_error := Some reason,
                       a_metadata := dmerge (a_metadata attempt)
                         [(''recovery.reason'', PStr reason),
                          (''recovery.recovered_at'', PStr (isoformat env recovered_at))]\<rparr>;
                     updated = record\<lparr>x_state := REQUESTED, x_claimed_at := None,
                       x_worker_id := None, x_failed_at := Some recovered_at,
                       x_error := Some reason,
                       x_metadata := dmerge (x_metadata record)
                         [(''recovery.reason'', PStr reason),
                          (''recovery.recovered_at'', PStr (isoformat env recovered_at)),
                          (''recovery.attempt_id'', PStr (a_attempt_id attempt)),
                          (''recovery.worker_id'', PStr (a_worker_id attempt))]\<rparr>
                 in (Inr (Some \<lparr>c_execution = updated, c_attempt = recovered_attempt\<rparr>),
                     put_execution updated execution_id
                       (put_attempt recovered_attempt (a_attempt_id attempt) s))))"

section \<open>The outbox\<close>

definition get_outbox :: "exec_store \<Rightarrow> string \<Rightarrow> outbox_record option" where
  "get_outbox s outbox_id = dget (s_outbox s) outbox_id"

definition get_outbox_by_execution :: "exec_store \<Rightarrow> string \<Rightarrow> outbox_record option" where
  "get_outbox_by_execution s execution_id =
     (case dget (s_outbox_by_execution s) execution_id of
        None \<Rightarrow> None
      | Some outbox_id \<Rightarrow> dget (s_outbox s) outbox_id)"

definition require_outbox :: "exec_store \<Rightarrow> string \<Rightarrow> outbox_record result" where
  "require_outbox s outbox_id =
     (case dget (s_outbox s) outbox_id of
        None \<Rightarrow> Inl (ExecutionPersistenceError (''outbox not found: '' @ outbox_id))
      | Some r \<Rightarrow> Inr r)"

definition claim_outbox_for_execution ::
  "exec_store \<Rightarrow> string \<Rightarrow> string \<Rightarrow> string \<Rightarrow> int \<Rightarrow> outbox_record option \<times> exec_store" where
  "claim_outbox_for_execution s execution_id publisher_id claim_id claimed_at =
     (case get_outbox_by_execution s execution_id of
        None \<Rightarrow> (None, s)
      | Some outbox \<Rightarrow>
          if o_state outbox \<noteq> PENDING then (None, s)
          else
            let updated = outbox\<lparr>o_state := PUBLISHING, o_claimed_at := Some claimed_at,
                  o_publisher_id := Some publisher_id, o_claim_id := Some claim_id,
                  o_publish_attempt_count := o_publish_attempt_count outbox + 1,
                  o_last_error := None\<rparr>
            in (Some updated, put_outbox updated (o_outbox_id outbox) s))"

definition outbox_lost :: "string \<Rightarrow> string \<Rightarrow> string \<Rightarrow> outbox_record \<Rightarrow> outbox_transition" where
  "outbox_lost outbox_id claim_id reason current =
     OLost \<lparr>ocl_outbox_id = outbox_id, ocl_claim_id = Some claim_id, ocl_reason = reason,
            ocl_current = Some current\<rparr>"

definition mark_outbox_published ::
  "exec_store \<Rightarrow> string \<Rightarrow> string \<Rightarrow> int \<Rightarrow> outbox_transition result \<times> exec_store" where
  "mark_outbox_published s outbox_id claim_id published_at =
     (case require_outbox s outbox_id of
        Inl e \<Rightarrow> (Inl e, s)
      | Inr outbox \<Rightarrow>
          if o_state outbox = PUBLISHED
          then (if o_claim_id outbox = Some claim_id then (Inr (OMoved outbox), s)
                else (Inr (outbox_lost outbox_id claim_id ''outbox_already_published'' outbox), s))
          else if o_state outbox \<noteq> PUBLISHING
          then (Inr (outbox_lost outbox_id claim_id
                       (''outbox_not_publishable:'' @ outbox_state_value (o_state outbox)) outbox), s)
          else if o_claim_id outbox \<noteq> Some claim_id
          then (Inr (outbox_lost outbox_id claim_id ''outbox_claim_lost'' outbox), s)
          else
            let updated = outbox\<lparr>o_state := PUBLISHED, o_published_at := Some published_at,
                  o_last_error := None\<rparr>
            in (Inr (OMoved updated), put_outbox updated outbox_id s))"

definition mark_outbox_failed ::
  "py_env \<Rightarrow> exec_store \<Rightarrow> string \<Rightarrow> string \<Rightarrow> string \<Rightarrow> int
     \<Rightarrow> outbox_transition result \<times> exec_store" where
  "mark_outbox_failed env s outbox_id claim_id err failed_at =
     (case require_outbox s outbox_id of
        Inl e \<Rightarrow> (Inl e, s)
      | Inr outbox \<Rightarrow>
          if o_state outbox = PUBLISHED
          then (Inr (outbox_lost outbox_id claim_id ''outbox_already_published'' outbox), s)
          else if o_state outbox \<noteq> PUBLISHING
          then (Inr (outbox_lost outbox_id claim_id
                       (''outbox_not_publishable:'' @ outbox_state_value (o_state outbox)) outbox), s)
          else if o_claim_id outbox \<noteq> Some claim_id
          then (Inr (outbox_lost outbox_id claim_id ''outbox_claim_lost'' outbox), s)
          else
            let updated = outbox\<lparr>o_state := OUTBOX_FAILED, o_published_at := None,
                  o_last_error := Some err,
                  o_metadata := dmerge (o_metadata outbox)
                    [(''failed_at'', PStr (isoformat env failed_at))]\<rparr>
            in (Inr (OMoved updated), put_outbox updated outbox_id s))"

definition requeue_stale_outbox ::
  "exec_store \<Rightarrow> string \<Rightarrow> int \<Rightarrow> string \<Rightarrow> outbox_record option \<times> exec_store" where
  "requeue_stale_outbox s outbox_id stale_before reason =
     (case dget (s_outbox s) outbox_id of
        None \<Rightarrow> (None, s)
      | Some outbox \<Rightarrow>
          if o_state outbox \<noteq> PUBLISHING then (None, s)
          else if (case o_claimed_at outbox of None \<Rightarrow> True | Some t \<Rightarrow> stale_before < t)
          then (None, s)
          else
            let updated = outbox\<lparr>o_state := PENDING, o_claimed_at := None,
                  o_publisher_id := None, o_claim_id := None, o_last_error := Some reason,
                  o_metadata := dmerge (o_metadata outbox) [(''reconciler.reason'', PStr reason)]\<rparr>
            in (Some updated, put_outbox updated outbox_id s))"

subsection \<open>Retry of failed and stuck rows\<close>

definition TERMINAL_OUTBOX_RETRY_EXECUTION_STATES :: "execution_state list" where
  "TERMINAL_OUTBOX_RETRY_EXECUTION_STATES = [COMPLETED, FAILED, DEAD_LETTERED]"

definition outbox_failed_at :: "py_env \<Rightarrow> outbox_record \<Rightarrow> int option" where
  "outbox_failed_at env outbox =
     (case get_or_none (o_metadata outbox) ''failed_at'' of
        PNone \<Rightarrow> None
      | v \<Rightarrow> (case fromisoformat env (py_str env v) of
                 Some (Aware t) \<Rightarrow> Some t
               | _ \<Rightarrow> None))"

fun metadata_int :: "py_env \<Rightarrow> pyval \<Rightarrow> int" where
  "metadata_int env (PInt n) = n"
| "metadata_int env (PBool b) = (if b then 1 else 0)"
| "metadata_int env (PStr s) = (case int_of_str env s of Some n \<Rightarrow> n | None \<Rightarrow> 0)"
| "metadata_int env _ = 0"

definition outbox_sort_key :: "outbox_record \<Rightarrow> int \<times> string" where
  "outbox_sort_key r = (o_created_at r, o_outbox_id r)"

definition retryable_failed :: "py_env \<Rightarrow> exec_store \<Rightarrow> string option \<Rightarrow> int \<Rightarrow> int
     \<Rightarrow> outbox_record \<Rightarrow> bool" where
  "retryable_failed env s tenant_id failed_before_or_at max_publish_attempts outbox =
     (case dget (s_executions s) (o_execution_id outbox) of
        None \<Rightarrow> False
      | Some execution \<Rightarrow>
          if \<not> tenant_visible (x_tenant_id execution) tenant_id then False
          else if x_state execution \<in> set TERMINAL_OUTBOX_RETRY_EXECUTION_STATES then False
          else if o_state outbox \<noteq> OUTBOX_FAILED then False
          else if max_publish_attempts \<le> o_publish_attempt_count outbox then False
          else (case outbox_failed_at env outbox of
                  None \<Rightarrow> False
                | Some failed_at \<Rightarrow> \<not> failed_before_or_at < failed_at))"

definition list_retryable_failed_outbox_records ::
  "py_env \<Rightarrow> exec_store \<Rightarrow> string option \<Rightarrow> int \<Rightarrow> int \<Rightarrow> int \<Rightarrow> outbox_record page" where
  "list_retryable_failed_outbox_records env s tenant_id failed_before_or_at
       max_publish_attempts limit =
     (let rows = sort_key outbox_sort_key
                   (filter (retryable_failed env s tenant_id failed_before_or_at
                              max_publish_attempts) (dvals (s_outbox s)))
      in \<lparr>p_rows = py_slice rows 0 limit, p_total = int (length rows), p_limit = 0,
          p_offset = 0\<rparr>)"

definition stuck_pending :: "exec_store \<Rightarrow> string option \<Rightarrow> int \<Rightarrow> outbox_record \<Rightarrow> bool" where
  "stuck_pending s tenant_id stale_before outbox =
     (case dget (s_executions s) (o_execution_id outbox) of
        None \<Rightarrow> False
      | Some execution \<Rightarrow>
          if \<not> tenant_visible (x_tenant_id execution) tenant_id then False
          else if x_state execution \<in> set TERMINAL_OUTBOX_RETRY_EXECUTION_STATES then False
          else if o_state outbox \<noteq> PENDING then False
          else if dget (o_metadata outbox) ''failed_recovery.retry_attempt_count'' = None then False
          else \<not> stale_before < o_created_at outbox)"

definition list_stuck_pending_outbox_records ::
  "exec_store \<Rightarrow> string option \<Rightarrow> int \<Rightarrow> int \<Rightarrow> outbox_record page" where
  "list_stuck_pending_outbox_records s tenant_id stale_before limit =
     (let rows = sort_key outbox_sort_key
                   (filter (stuck_pending s tenant_id stale_before) (dvals (s_outbox s)))
      in \<lparr>p_rows = py_slice rows 0 limit, p_total = int (length rows), p_limit = 0,
          p_offset = 0\<rparr>)"

definition requeue_failed_outbox ::
  "py_env \<Rightarrow> exec_store \<Rightarrow> string \<Rightarrow> int \<Rightarrow> int \<Rightarrow> string \<Rightarrow> int \<Rightarrow> string option
     \<Rightarrow> outbox_record option \<times> exec_store" where
  "requeue_failed_outbox env s outbox_id failed_before_or_at requeued_at reason
       max_publish_attempts expected_tenant_id =
     (case dget (s_outbox s) outbox_id of
        None \<Rightarrow> (None, s)
      | Some outbox \<Rightarrow>
     (case dget (s_executions s) (o_execution_id outbox) of
        None \<Rightarrow> (None, s)
      | Some execution \<Rightarrow>
          if \<not> tenant_visible (x_tenant_id execution) expected_tenant_id then (None, s)
          else if x_state execution \<in> set TERMINAL_OUTBOX_RETRY_EXECUTION_STATES then (None, s)
          else if o_state outbox \<noteq> OUTBOX_FAILED then (None, s)
          else if max_publish_attempts \<le> o_publish_attempt_count outbox then (None, s)
          else if (case outbox_failed_at env outbox of
                     None \<Rightarrow> True | Some failed_at \<Rightarrow> failed_before_or_at < failed_at)
          then (None, s)
          else
            let retry_count = metadata_int env
                  (get_or_none (o_metadata outbox) ''failed_recovery.retry_attempt_count'');
                updated = outbox\<lparr>o_state := PENDING, o_claimed_at := None,
                  o_publisher_id := None, o_claim_id := None, o_published_at := None,
                  o_last_error := Some reason,
                  o_metadata := dmerge (o_metadata outbox)
                    [(''failed_recovery.previous_failure_reason'', opt_pstr (o_last_error outbox)),
                     (''failed_recovery.retry_attempt_count'', PInt (retry_count + 1)),
                     (''failed_recovery.last_recovered_at'', PStr (isoformat env requeued_at)),
                     (''failed_recovery.reason'', PStr reason)]\<rparr>
            in (Some updated, put_outbox updated outbox_id s)))"

section \<open>Listings\<close>

definition execution_sort_key :: "execution_record \<Rightarrow> int \<times> string" where
  "execution_sort_key r = (x_requested_at r, x_execution_id r)"

definition execution_rows :: "exec_store \<Rightarrow> execution_query \<Rightarrow> string option \<Rightarrow> execution_record list"
  where
  "execution_rows s query expected_tenant_id =
     (let rows = dvals (s_executions s);
          rows = narrow expected_tenant_id (\<lambda>t r. x_tenant_id r = t) rows;
          rows = narrow (q_execution_id query) (\<lambda>i r. x_execution_id r = i) rows;
          rows = narrow (q_kind query) (\<lambda>k r. x_kind r = k) rows;
          rows = narrow (q_dispatch_id query) (\<lambda>d r. x_dispatch_id r = d) rows;
          rows = narrow (q_session_id query) (\<lambda>i r. x_session_id r = i) rows;
          rows = narrow (q_tenant_id query) (\<lambda>t r. x_tenant_id r = t) rows;
          rows = narrow (q_state query) (\<lambda>st r. x_state r = st) rows;
          rows = narrow (q_requested_after_or_at query) (\<lambda>t r. t \<le> x_requested_at r) rows;
          rows = narrow (q_failed_after_or_at query)
                   (\<lambda>t r. case x_failed_at r of None \<Rightarrow> False | Some u \<Rightarrow> t \<le> u) rows;
          rows = narrow (q_claimed_before_or_at query)
                   (\<lambda>t r. case x_claimed_at r of None \<Rightarrow> False | Some u \<Rightarrow> u \<le> t) rows
      in sort_key execution_sort_key rows)"

definition list_executions ::
  "exec_store \<Rightarrow> execution_query \<Rightarrow> string option \<Rightarrow> execution_record page" where
  "list_executions s query expected_tenant_id =
     (let rows = execution_rows s query expected_tenant_id
      in \<lparr>p_rows = py_slice rows (q_offset query) (q_offset query + q_limit query),
          p_total = int (length rows), p_limit = q_limit query, p_offset = q_offset query\<rparr>)"

definition list_attempts :: "exec_store \<Rightarrow> attempt_query \<Rightarrow> attempt_record page" where
  "list_attempts s query =
     (let rows = dvals (s_attempts s);
          rows = narrow (aq_attempt_id query) (\<lambda>i r. a_attempt_id r = i) rows;
          rows = narrow (aq_execution_id query) (\<lambda>i r. a_execution_id r = i) rows;
          rows = narrow (aq_state query) (\<lambda>st r. a_state r = st) rows;
          rows = sort_key (\<lambda>r. (a_started_at r, a_attempt_number r)) rows
      in \<lparr>p_rows = py_slice rows (aq_offset query) (aq_offset query + aq_limit query),
          p_total = int (length rows), p_limit = 0, p_offset = aq_offset query\<rparr>)"

definition list_outbox :: "exec_store \<Rightarrow> outbox_query \<Rightarrow> outbox_record page" where
  "list_outbox s query =
     (let rows = dvals (s_outbox s);
          rows = narrow (oq_execution_id query) (\<lambda>i r. o_execution_id r = i) rows;
          rows = narrow (oq_tenant_id query)
                   (\<lambda>t r. case dget (s_executions s) (o_execution_id r) of
                            None \<Rightarrow> False | Some x \<Rightarrow> x_tenant_id x = t) rows;
          rows = narrow (oq_state query) (\<lambda>st r. o_state r = st) rows;
          rows = sort_key outbox_sort_key rows
      in \<lparr>p_rows = py_slice rows (oq_offset query) (oq_offset query + oq_limit query),
          p_total = int (length rows), p_limit = 0, p_offset = oq_offset query\<rparr>)"

end
