(* ===== verification/Interfaces.thy ===== *)
theory Interfaces
  imports Prelude
begin

text \<open>
  The contracts the components share, as locales; every one is interpreted on
  the model's own definitions in the theory that provides it.
  \<^item> \<open>guarded_machine\<close>: a store whose operations keep an invariant; extended by
    \<open>frozen_machine\<close> for the rows no operation rewrites any more and by
    \<open>tracked_machine\<close> for rows that evolve.
  \<^item> \<open>lease_counter\<close>: outbox rows leased to one publisher at a time, with a
    counter of the leases granted and a token that names the lease.
  \<^item> \<open>transactional_tokens\<close>: a token per key that one transaction at a time can win, and that is
    lost to all others once that transaction is kept.
  \<^item> \<open>scoped_reads\<close>: tenant-scoped lookup.
\<close>

section \<open>Runs of operations\<close>

text \<open>A run applies the operations of any number of callers one after the
  other, in the order the store's lock admits them.\<close>

fun runs :: "('op \<Rightarrow> 's \<Rightarrow> 's) \<Rightarrow> 'op list \<Rightarrow> 's \<Rightarrow> 's" where
  "runs step [] s = s"
| "runs step (x # xs) s = runs step xs (step x s)"

fun legal :: "('op \<Rightarrow> 's \<Rightarrow> 's) \<Rightarrow> ('op \<Rightarrow> 's \<Rightarrow> bool) \<Rightarrow> 'op list \<Rightarrow> 's \<Rightarrow> bool" where
  "legal step ok [] s = True"
| "legal step ok (x # xs) s = (ok x s \<and> legal step ok xs (step x s))"

lemma runs_append: "runs step (xs @ ys) s = runs step ys (runs step xs s)"
  by (induction xs arbitrary: s) auto

lemma legal_append:
  "legal step ok (xs @ ys) s \<longleftrightarrow> legal step ok xs s \<and> legal step ok ys (runs step xs s)"
  by (induction xs arbitrary: s) auto

locale guarded_machine =
  fixes step :: "'op \<Rightarrow> 's \<Rightarrow> 's"
    and ok :: "'op \<Rightarrow> 's \<Rightarrow> bool"
    and inv :: "'s \<Rightarrow> bool"
  assumes step_inv: "inv s \<Longrightarrow> ok x s \<Longrightarrow> inv (step x s)"
begin

lemma runs_inv: "inv s \<Longrightarrow> legal step ok xs s \<Longrightarrow> inv (runs step xs s)"
  by (induction xs arbitrary: s) (auto intro: step_inv)

end

text \<open>\<open>frozen s k = Some v\<close>: row \<open>k\<close> has reached its final value \<open>v\<close>.\<close>

locale frozen_machine = guarded_machine step ok inv
  for step :: "'op \<Rightarrow> 's \<Rightarrow> 's"
    and ok :: "'op \<Rightarrow> 's \<Rightarrow> bool"
    and inv :: "'s \<Rightarrow> bool" +
  fixes frozen :: "'s \<Rightarrow> 'k \<Rightarrow> 'v option"
  assumes step_frozen:
    "inv s \<Longrightarrow> ok x s \<Longrightarrow> frozen s k = Some v \<Longrightarrow> frozen (step x s) k = Some v"
begin

lemma runs_frozen:
  "inv s \<Longrightarrow> legal step ok xs s \<Longrightarrow> frozen s k = Some v \<Longrightarrow> frozen (runs step xs s) k = Some v"
  by (induction xs arbitrary: s) (auto intro: step_inv step_frozen)

text \<open>Two runs that both reach a final value of a row through a common prefix agree on it.\<close>

lemma frozen_unique:
  assumes "inv s" "legal step ok (xs @ ys) s"
    and "frozen (runs step xs s) k = Some v" "frozen (runs step (xs @ ys) s) k = Some w"
  shows "v = w"
  using assms runs_inv [of s xs] runs_frozen [of "runs step xs s" ys k v]
  by (simp add: runs_append legal_append)

end

text \<open>Rows that stay present and change only as \<open>edit\<close> allows.\<close>

locale tracked_machine = guarded_machine step ok inv
  for step :: "'op \<Rightarrow> 's \<Rightarrow> 's"
    and ok :: "'op \<Rightarrow> 's \<Rightarrow> bool"
    and inv :: "'s \<Rightarrow> bool" +
  fixes row :: "'s \<Rightarrow> 'k \<Rightarrow> 'v option"
    and edit :: "'v \<Rightarrow> 'v \<Rightarrow> bool"
  assumes edit_refl: "edit v v"
    and edit_trans: "edit v v1 \<Longrightarrow> edit v1 v2 \<Longrightarrow> edit v v2"
    and step_edit: "inv s \<Longrightarrow> ok x s \<Longrightarrow> row s k = Some v \<Longrightarrow> \<exists>v'. row (step x s) k = Some v' \<and> edit v v'"
begin

lemma runs_edit:
  "inv s \<Longrightarrow> legal step ok xs s \<Longrightarrow> row s k = Some v \<Longrightarrow> \<exists>v'. row (runs step xs s) k = Some v' \<and> edit v v'"
proof (induction xs arbitrary: s v)
  case Nil
  then show ?case using edit_refl by simp
next
  case (Cons x xs)
  then obtain v1 where v1: "row (step x s) k = Some v1" "edit v v1" using step_edit by fastforce
  then show ?case using Cons.prems Cons.IH [OF step_inv _ v1(1)] edit_trans by fastforce
qed

end

section \<open>Leases\<close>

text \<open>What the outboxes of the backend have in common: a row is pending, leased to
  a publisher, or settled; each lease has a token, and a counter grows by one with
  every lease granted.\<close>

datatype lease_phase = Waiting | Leased | Delivered | Undelivered

record lease =
  l_phase :: lease_phase
  l_claim :: "string option"
  l_count :: int

definition lease_move :: "lease \<Rightarrow> lease \<Rightarrow> bool" where
  "lease_move l l' \<longleftrightarrow>
     (l_count l' = l_count l \<and>
        (l_phase l' = Leased \<longrightarrow> l_phase l = Leased \<and> l_claim l' = l_claim l)) \<or>
     (l_phase l = Waiting \<and> l_phase l' = Leased \<and> l_count l' = l_count l + 1)"

lemma lease_move_refl [simp]: "lease_move l l"
  by (simp add: lease_move_def)

text \<open>How often a run grants a lease of row \<open>k\<close>.\<close>

definition granted_by :: "lease option \<Rightarrow> lease option \<Rightarrow> nat" where
  "granted_by before after =
     (case (before, after) of
        (Some l, Some l') \<Rightarrow> if l_phase l \<noteq> Leased \<and> l_phase l' = Leased then 1 else 0
      | _ \<Rightarrow> 0)"

fun grants :: "('op \<Rightarrow> 's \<Rightarrow> 's) \<Rightarrow> ('s \<Rightarrow> 'k \<Rightarrow> lease option) \<Rightarrow> 'k \<Rightarrow> 'op list \<Rightarrow> 's \<Rightarrow> nat" where
  "grants step view k [] s = 0"
| "grants step view k (x # xs) s =
     granted_by (view s k) (view (step x s) k) + grants step view k xs (step x s)"

locale lease_counter = guarded_machine step ok inv
  for step :: "'op \<Rightarrow> 's \<Rightarrow> 's"
    and ok :: "'op \<Rightarrow> 's \<Rightarrow> bool"
    and inv :: "'s \<Rightarrow> bool" +
  fixes view :: "'s \<Rightarrow> 'k \<Rightarrow> lease option"
    and issued :: "string \<Rightarrow> 'k \<Rightarrow> int \<Rightarrow> bool"
  assumes step_lease:
      "inv s \<Longrightarrow> ok x s \<Longrightarrow> view s k = Some l \<Longrightarrow> \<exists>l'. view (step x s) k = Some l' \<and> lease_move l l'"
    and token: "inv s \<Longrightarrow> view s k = Some l \<Longrightarrow> l_claim l = Some c \<Longrightarrow> issued c k (l_count l)"
    and issued_unique: "issued c k m \<Longrightarrow> issued c k n \<Longrightarrow> m = n"
begin

lemma runs_lease:
  "inv s \<Longrightarrow> legal step ok xs s \<Longrightarrow> view s k = Some l \<Longrightarrow>
     \<exists>l'. view (runs step xs s) k = Some l' \<and> l_count l \<le> l_count l' \<and>
       (l_count l' = l_count l \<longrightarrow> l_phase l' = Leased \<longrightarrow> l_phase l = Leased \<and> l_claim l' = l_claim l)"
proof (induction xs arbitrary: s l)
  case (Cons x xs)
  then obtain m where m: "view (step x s) k = Some m" "lease_move l m"
    using step_lease [of s x k l] by auto
  moreover have "inv (step x s)" using Cons.prems step_inv by simp
  ultimately obtain l' where "view (runs step (x # xs) s) k = Some l'" "l_count m \<le> l_count l'"
    "l_count l' = l_count m \<longrightarrow> l_phase l' = Leased \<longrightarrow> l_phase m = Leased \<and> l_claim l' = l_claim m"
    using Cons.IH [of "step x s" m] Cons.prems(2) by auto
  then show ?case using m(2) unfolding lease_move_def
    by (intro exI [of _ l']) auto
qed simp

text \<open>The counter counts the leases.\<close>

lemma granted_by_move: "lease_move l m \<Longrightarrow> l_count m = l_count l + int (granted_by (Some l) (Some m))"
  unfolding granted_by_def lease_move_def by auto

lemma runs_count:
  "inv s \<Longrightarrow> legal step ok xs s \<Longrightarrow> view s k = Some l \<Longrightarrow>
     \<exists>l'. view (runs step xs s) k = Some l' \<and> l_count l' = l_count l + int (grants step view k xs s)"
proof (induction xs arbitrary: s l)
  case (Cons x xs)
  then obtain m where m: "view (step x s) k = Some m" "lease_move l m"
    using step_lease [of s x k l] by auto
  moreover have "inv (step x s)" using Cons.prems step_inv by simp
  ultimately show ?case
    using Cons.IH [of "step x s" m] Cons.prems(2,3) granted_by_move [OF m(2)] by auto
qed simp

text \<open>A lease that is over stays over, and its token is never the row's again
  once another lease was granted.\<close>

lemma lease_over:
  assumes "inv s" "legal step ok xs s" "view s k = Some l" "l_phase l \<noteq> Leased"
    and "view (runs step xs s) k = Some l'" "l_phase l' = Leased"
  shows "l_count l < l_count l'"
  using runs_lease [OF assms(1-3)] assms(4-6) by fastforce

lemma stale_token:
  assumes "inv s" "legal step ok xs s" "view s k = Some l" "l_claim l = Some c"
    and "view (runs step xs s) k = Some l'" "l_count l < l_count l'"
  shows "l_claim l' \<noteq> Some c"
proof
  assume "l_claim l' = Some c"
  then have "issued c k (l_count l')" using token [OF runs_inv [OF assms(1,2)] assms(5)] by simp
  moreover have "issued c k (l_count l)" using token [OF assms(1,3,4)] .
  ultimately show False using issued_unique assms(6) by fastforce
qed

end

section \<open>Tokens of transactions\<close>

text \<open>What the steps of a run do to the tokens: a transaction wins one, for some purpose, and a
  transaction ends, keeping what it won or giving it back.\<close>

datatype ('c, 'k, 'p) token_event = Won 'c 'k 'p | Kept 'c | Undone 'c

fun history ::
  "('op \<Rightarrow> 's \<Rightarrow> 's) \<Rightarrow> ('op \<Rightarrow> 's \<Rightarrow> ('c, 'k, 'p) token_event option) \<Rightarrow> 'op list \<Rightarrow> 's
     \<Rightarrow> ('c, 'k, 'p) token_event list" where
  "history step event [] s = []"
| "history step event (x # xs) s =
     (case event x s of None \<Rightarrow> history step event xs (step x s) | Some e \<Rightarrow> e # history step event xs (step x s))"

locale transactional_tokens =
  fixes step :: "'op \<Rightarrow> 's \<Rightarrow> 's"
    and event :: "'op \<Rightarrow> 's \<Rightarrow> ('c, 'k, 'p) token_event option"
    and held :: "'s \<Rightarrow> 'c \<Rightarrow> 'k \<Rightarrow> 'p \<Rightarrow> bool"
    and taken :: "'s \<Rightarrow> 'k \<Rightarrow> 'p \<Rightarrow> bool"
    and inv :: "'s \<Rightarrow> bool"
  assumes inv_step: "inv s \<Longrightarrow> inv (step x s)"
    and win_free: "inv s \<Longrightarrow> event x s = Some (Won c k p) \<Longrightarrow> \<not> taken s k p' \<and> \<not> held s c' k p'"
    and win_holds: "inv s \<Longrightarrow> event x s = Some (Won c k p) \<Longrightarrow> held (step x s) c k p"
    and held_stays: "inv s \<Longrightarrow> held s c k p \<Longrightarrow> event x s \<noteq> Some (Kept c) \<Longrightarrow> event x s \<noteq> Some (Undone c) \<Longrightarrow>
      held (step x s) c k p"
    and kept_takes: "inv s \<Longrightarrow> held s c k p \<Longrightarrow> event x s = Some (Kept c) \<Longrightarrow> taken (step x s) k p"
    and taken_stays: "inv s \<Longrightarrow> taken s k p \<Longrightarrow> taken (step x s) k p"
begin

lemma taken_lost: "inv s \<Longrightarrow> taken s k p \<Longrightarrow> Won c k p' \<notin> set (history step event xs s)"
proof (induction xs arbitrary: s)
  case (Cons x xs)
  have "Won c k p' \<notin> set (history step event xs (step x s))"
    using Cons.prems by (intro Cons.IH inv_step taken_stays)
  moreover have "event x s \<noteq> Some (Won c k p')" using win_free [OF Cons.prems(1)] Cons.prems(2) by blast
  ultimately show ?case by (auto split: option.split)
qed simp

lemma taken_run: "inv s \<Longrightarrow> taken s k p \<Longrightarrow> taken (runs step xs s) k p"
  by (induction xs arbitrary: s) (simp_all add: taken_stays inv_step)

lemma held_until:
  "inv s \<Longrightarrow> held s c k p \<Longrightarrow> history step event xs s = vs @ Won c' k p' # zs \<Longrightarrow>
     \<exists>vs1 vs2. vs = vs1 @ Undone c # vs2 \<and> Kept c \<notin> set vs1"
proof (induction xs arbitrary: s vs)
  case (Cons x xs)
  note later = Cons.IH [OF inv_step [OF Cons.prems(1)] held_stays [OF Cons.prems(1,2)]]
  show ?case
  proof (cases "event x s")
    case None
    show ?thesis by (rule later) (use None Cons.prems(3) in simp_all)
  next
    case (Some e)
    have "e \<noteq> Won c' k p'" using win_free [OF Cons.prems(1), of x c' k p' p c] Cons.prems(2) Some by blast
    with Some Cons.prems(3) obtain vs' where vs: "vs = e # vs'" "history step event xs (step x s) = vs' @ Won c' k p' # zs"
      by (cases vs) auto
    show ?thesis
    proof (cases "e = Undone c")
      case True
      then have "vs = [] @ Undone c # vs' \<and> Kept c \<notin> set []" using vs(1) by simp
      then show ?thesis by blast
    next
      case False
      have kept: "e \<noteq> Kept c"
        using kept_takes [OF Cons.prems(1,2)] taken_lost [OF inv_step [OF Cons.prems(1)], of x k p c' p' xs] Some vs(2) by auto
      with False Some later [OF _ _ vs(2)] obtain vs1 vs2 where "vs' = vs1 @ Undone c # vs2" "Kept c \<notin> set vs1" by auto
      with kept vs(1) have "vs = (e # vs1) @ Undone c # vs2 \<and> Kept c \<notin> set (e # vs1)" by auto
      then show ?thesis by blast
    qed
  qed
qed simp

lemma won_again:
  "inv s \<Longrightarrow> history step event xs s = us @ Won c k p # vs @ Won c' k p' # zs \<Longrightarrow>
     \<exists>vs1 vs2. vs = vs1 @ Undone c # vs2 \<and> Kept c \<notin> set vs1"
proof (induction xs arbitrary: s us)
  case (Cons x xs)
  show ?case
  proof (cases "event x s")
    case None
    show ?thesis by (rule Cons.IH [OF inv_step]) (use None Cons.prems in simp_all)
  next
    case (Some e)
    show ?thesis
    proof (cases us)
      case Nil
      with Cons.prems(2) Some have e: "e = Won c k p" "history step event xs (step x s) = vs @ Won c' k p' # zs" by simp_all
      show ?thesis by (rule held_until [OF inv_step win_holds]) (use Cons.prems(1) Some e in simp_all)
    next
      case (Cons u us')
      show ?thesis by (rule Cons.IH [OF inv_step [OF Cons.prems(1)], of x us']) (use Cons Cons.prems Some in simp_all)
    qed
  qed
qed simp

lemma held_kept:
  "inv s \<Longrightarrow> held s c k p \<Longrightarrow> history step event xs s = vs @ Kept c # zs \<Longrightarrow> Undone c \<notin> set vs \<Longrightarrow> taken (runs step xs s) k p"
proof (induction xs arbitrary: s vs)
  case (Cons x xs)
  note stays = held_stays [OF Cons.prems(1,2)] and inv = inv_step [OF Cons.prems(1)]
  show ?case
  proof (cases "event x s = Some (Kept c)")
    case True
    then show ?thesis using kept_takes [OF Cons.prems(1,2)] taken_run [OF inv] by simp
  next
    case False
    have "event x s \<noteq> Some (Undone c)" using Cons.prems(3,4) by (cases vs) auto
    note stays = stays [OF False this]
    show ?thesis
    proof (cases "event x s")
      case None
      with Cons.IH [OF inv stays] Cons.prems(3,4) show ?thesis by simp
    next
      case (Some e)
      with False Cons.prems(3,4) show ?thesis by (cases vs) (auto intro: Cons.IH [OF inv stays])
    qed
  qed
qed simp

lemma won_kept:
  "inv s \<Longrightarrow> history step event xs s = us @ Won c k p # vs @ Kept c # zs \<Longrightarrow> Undone c \<notin> set vs \<Longrightarrow>
     taken (runs step xs s) k p"
proof (induction xs arbitrary: s us)
  case (Cons x xs)
  show ?case
  proof (cases "event x s")
    case None
    show ?thesis unfolding runs.simps by (rule Cons.IH [OF inv_step]) (use None Cons.prems in simp_all)
  next
    case (Some e)
    show ?thesis
    proof (cases us)
      case Nil
      with Cons.prems(2) Some have e: "e = Won c k p" "history step event xs (step x s) = vs @ Kept c # zs" by simp_all
      show ?thesis unfolding runs.simps
        by (rule held_kept [OF inv_step win_holds]) (use Cons.prems(1,3) Some e in simp_all)
    next
      case (Cons u us')
      show ?thesis unfolding runs.simps
        by (rule Cons.IH [OF inv_step [OF Cons.prems(1)], of x us']) (use Cons Cons.prems Some in simp_all)
    qed
  qed
qed simp

end

section \<open>Tenant-scoped reads\<close>

locale scoped_reads =
  fixes find :: "'s \<Rightarrow> 'k \<Rightarrow> string option \<Rightarrow> 'v option"
    and owner :: "'v \<Rightarrow> string option"
  assumes find_scope: "find s k (Some t) = Some v \<longleftrightarrow> find s k None = Some v \<and> owner v = Some t"
begin

lemma cross_tenant_hidden: "find s k (Some t) = Some v \<Longrightarrow> u \<noteq> t \<Longrightarrow> find s k (Some u) = None"
  by (metis find_scope not_None_eq option.inject)

lemma scoped_sound: "find s k (Some t) = Some v \<Longrightarrow> owner v = Some t"
  by (simp add: find_scope)

lemma scoped_complete: "find s k None = Some v \<Longrightarrow> owner v = Some t \<Longrightarrow> find s k (Some t) = Some v"
  by (simp add: find_scope)

lemma ownerless_hidden: "find s k None = Some v \<Longrightarrow> owner v = None \<Longrightarrow> find s k (Some t) = None"
  by (metis find_scope option.distinct(1) option.exhaust option.inject)

end

end
