(* ===== verification/Execution_Invariant.thy ===== *)
theory Execution_Invariant
  imports Execution_Store Interfaces
begin

text \<open>
  The operations of the execution store as one step function, the invariant
  that ties executions to their attempts, and its preservation by every step.
  The invariant is what makes a claim exclusive: attempt \<open>n\<close> of an execution
  is stored under the identity derived from the pair, only the last attempt can
  be running, and it is running exactly while the execution is claimed.
\<close>

section \<open>Steps\<close>

datatype store_op =
    Request execution_record outbox_record
  | Claim string string int
  | Complete string "string option" metadata int string "string option" "pyfloat option"
  | Fail string "string option" string int bool string metadata
  | DeadLetter string "string option" string int string metadata
  | Recover string int int string
  | ClaimOutbox string string string int
  | MarkPublished string string int
  | MarkFailed string string string int
  | RequeueStale string int string
  | RequeueFailed string int int string int "string option"

fun store_step :: "py_env \<Rightarrow> store_op \<Rightarrow> exec_store \<Rightarrow> exec_store" where
  "store_step env (Request x r) s = snd (request_execution s x r)"
| "store_step env (Claim eid w t) s = snd (claim_execution env s eid w t)"
| "store_step env (Complete eid aid res t w cat conf) s =
     snd (complete_execution env s eid aid res t w cat conf)"
| "store_step env (Fail eid aid err t retry w res) s =
     snd (fail_execution env s eid aid err t retry w res)"
| "store_step env (DeadLetter eid aid err t w res) s =
     snd (dead_letter_execution env s eid aid err t w res)"
| "store_step env (Recover eid stale t reason) s =
     snd (recover_stale_execution env s eid stale t reason)"
| "store_step env (ClaimOutbox eid p c t) s = snd (claim_outbox_for_execution s eid p c t)"
| "store_step env (MarkPublished oid c t) s = snd (mark_outbox_published s oid c t)"
| "store_step env (MarkFailed oid c err t) s = snd (mark_outbox_failed env s oid c err t)"
| "store_step env (RequeueStale oid stale reason) s = snd (requeue_stale_outbox s oid stale reason)"
| "store_step env (RequeueFailed oid before t reason m tenant) s =
     snd (requeue_failed_outbox env s oid before t reason m tenant)"

section \<open>The invariant\<close>

definition aid :: "py_env \<Rightarrow> string \<Rightarrow> int \<Rightarrow> string" where
  "aid env e n = uuid5 env ATTEMPT_NAMESPACE (attempt_seed e n)"

lemma derive_attempt_id_aid: "1 \<le> n \<Longrightarrow> derive_attempt_id env e n = Inr (aid env e n)"
  by (simp add: derive_attempt_id_def aid_def)

text \<open>The attempt identities of the pairs in \<open>D\<close> do not collide.\<close>

definition no_collision :: "py_env \<Rightarrow> (string \<times> int) set \<Rightarrow> bool" where
  "no_collision env D \<longleftrightarrow> inj_on (\<lambda>(e, n). aid env e n) D"

lemma no_collisionD:
  "no_collision env D \<Longrightarrow> (e, n) \<in> D \<Longrightarrow> (e', n') \<in> D \<Longrightarrow> aid env e n = aid env e' n' \<Longrightarrow> e = e' \<and> n = n'"
  unfolding no_collision_def inj_on_def by fastforce

text \<open>How an attempt's state goes with its execution's.\<close>

definition attempt_fits :: "execution_record \<Rightarrow> attempt_record \<Rightarrow> bool" where
  "attempt_fits x a \<longleftrightarrow>
     (if a_attempt_number a < x_attempt_count x
      then a_state a = A_FAILED \<and> a_retry_requested a
      else (case x_state x of
              REQUESTED \<Rightarrow> a_state a = A_FAILED \<and> a_retry_requested a
            | CLAIMED \<Rightarrow> a_state a = A_RUNNING \<and> x_worker_id x = Some (a_worker_id a)
            | COMPLETED \<Rightarrow> a_state a = A_COMPLETED
            | FAILED \<Rightarrow> a_state a = A_FAILED \<and> \<not> a_retry_requested a
            | DEAD_LETTERED \<Rightarrow> a_state a = A_DEAD_LETTERED))"

definition execution_fits :: "execution_record \<Rightarrow> bool" where
  "execution_fits x \<longleftrightarrow>
     0 \<le> x_attempt_count x \<and> (x_state x \<noteq> REQUESTED \<longrightarrow> 1 \<le> x_attempt_count x) \<and>
     (x_state x = CLAIMED \<longrightarrow> x_claimed_at x \<noteq> None)"

definition attempt_ids :: "exec_store \<Rightarrow> string \<Rightarrow> string list" where
  "attempt_ids s e = (case dget (s_attempts_by_execution s) e of Some ids \<Rightarrow> ids | None \<Rightarrow> [])"

definition executions_ok :: "(string \<times> int) set \<Rightarrow> exec_store \<Rightarrow> bool" where
  "executions_ok D s \<longleftrightarrow>
     (\<forall>e x. dget (s_executions s) e = Some x \<longrightarrow>
        x_execution_id x = e \<and> execution_fits x \<and> {e} \<times> {1..x_attempt_count x} \<subseteq> D)"

definition attempt_row_ok :: "py_env \<Rightarrow> exec_store \<Rightarrow> string \<Rightarrow> attempt_record \<Rightarrow> bool" where
  "attempt_row_ok env s i a \<longleftrightarrow>
     a_attempt_id a = i \<and> i = aid env (a_execution_id a) (a_attempt_number a) \<and>
     1 \<le> a_attempt_number a \<and>
     a_previous_attempt_id a =
       (if a_attempt_number a = 1 then None
        else Some (aid env (a_execution_id a) (a_attempt_number a - 1))) \<and>
     (\<exists>x. dget (s_executions s) (a_execution_id a) = Some x \<and>
          a_attempt_number a \<le> x_attempt_count x \<and> attempt_fits x a)"

definition attempts_ok :: "py_env \<Rightarrow> exec_store \<Rightarrow> bool" where
  "attempts_ok env s \<longleftrightarrow>
     (\<forall>i a. dget (s_attempts s) i = Some a \<longrightarrow> attempt_row_ok env s i a)"

definition lineage_ok :: "py_env \<Rightarrow> exec_store \<Rightarrow> bool" where
  "lineage_ok env s \<longleftrightarrow>
     (\<forall>e. attempt_ids s e = (case dget (s_executions s) e of
            None \<Rightarrow> [] | Some x \<Rightarrow> map (aid env e) [1..x_attempt_count x])) \<and>
     (\<forall>e x n. dget (s_executions s) e = Some x \<longrightarrow> 1 \<le> n \<longrightarrow> n \<le> x_attempt_count x \<longrightarrow>
        dget (s_attempts s) (aid env e n) \<noteq> None)"

text \<open>The dispatch index is exact: one execution per (tenant, dispatch, kind).\<close>

definition dispatch_ok :: "exec_store \<Rightarrow> bool" where
  "dispatch_ok s \<longleftrightarrow>
     (\<forall>k e. dget (s_by_dispatch s) k = Some e \<longleftrightarrow>
        (\<exists>x. dget (s_executions s) e = Some x \<and> dispatch_key x = k))"

definition exec_inv :: "py_env \<Rightarrow> (string \<times> int) set \<Rightarrow> exec_store \<Rightarrow> bool" where
  "exec_inv env D s \<longleftrightarrow>
     no_collision env D \<and> wf_dict (s_executions s) \<and> wf_dict (s_attempts s) \<and>
     executions_ok D s \<and> attempts_ok env s \<and> lineage_ok env s \<and> dispatch_ok s"

lemma exec_inv_empty: "no_collision env D \<Longrightarrow> exec_inv env D empty_store"
  by (simp add: exec_inv_def executions_ok_def attempts_ok_def lineage_ok_def
      attempt_ids_def dispatch_ok_def empty_store_def)

text \<open>What the callers of the store guarantee: a requested record is new, as
  \<open>request_diagnostic_execution\<close> builds it, and the identity the next claim
  derives is among those without collisions.\<close>

fun op_ok :: "(string \<times> int) set \<Rightarrow> store_op \<Rightarrow> exec_store \<Rightarrow> bool" where
  "op_ok D (Request x r) s \<longleftrightarrow> x_state x = REQUESTED \<and> x_attempt_count x = 0"
| "op_ok D (Claim e w t) s \<longleftrightarrow>
     (case dget (s_executions s) e of None \<Rightarrow> True | Some x \<Rightarrow> (e, x_attempt_count x + 1) \<in> D)"
| "op_ok D _ s \<longleftrightarrow> True"

lemma exec_invD:
  assumes "exec_inv env D s"
  shows "no_collision env D" "wf_dict (s_executions s)" "wf_dict (s_attempts s)"
    "executions_ok D s" "attempts_ok env s" "lineage_ok env s" "dispatch_ok s"
  using assms by (simp_all add: exec_inv_def)

lemma executions_okD:
  assumes "executions_ok D s" "dget (s_executions s) e = Some x"
  shows "x_execution_id x = e" "execution_fits x" "1 \<le> n \<Longrightarrow> n \<le> x_attempt_count x \<Longrightarrow> (e, n) \<in> D"
  using assms unfolding executions_ok_def by fastforce+

lemma attempts_okD:
  assumes "attempts_ok env s" "dget (s_attempts s) i = Some a"
  shows "a_attempt_id a = i" "i = aid env (a_execution_id a) (a_attempt_number a)"
    "1 \<le> a_attempt_number a"
    "\<exists>x. dget (s_executions s) (a_execution_id a) = Some x \<and>
         a_attempt_number a \<le> x_attempt_count x \<and> attempt_fits x a"
  using assms unfolding attempts_ok_def attempt_row_ok_def by blast+

lemma attempt_fitsD:
  assumes "attempts_ok env s" "dget (s_attempts s) i = Some a"
    and "dget (s_executions s) (a_execution_id a) = Some x"
  shows "a_attempt_number a \<le> x_attempt_count x" "attempt_fits x a"
  using attempts_okD(4) [OF assms(1,2)] assms(3) by auto

text \<open>Two attempts of one execution with one number are the same row.\<close>

lemma attempt_key:
  assumes "attempts_ok env s" "dget (s_attempts s) i = Some a" "dget (s_attempts s) j = Some b"
    and "a_execution_id a = a_execution_id b" "a_attempt_number a = a_attempt_number b"
  shows "i = j"
  using attempts_okD(2) [OF assms(1,2)] attempts_okD(2) [OF assms(1,3)] assms(4,5) by simp

section \<open>Settling the current attempt\<close>

text \<open>Every worker transition and the recovery rewrite one execution together
  with its current attempt.\<close>

definition same_attempt :: "attempt_record \<Rightarrow> attempt_record \<Rightarrow> bool" where
  "same_attempt a a' \<longleftrightarrow> a_attempt_id a' = a_attempt_id a \<and> a_execution_id a' = a_execution_id a \<and>
     a_attempt_number a' = a_attempt_number a \<and> a_previous_attempt_id a' = a_previous_attempt_id a"

definition same_execution :: "execution_record \<Rightarrow> execution_record \<Rightarrow> bool" where
  "same_execution x x' \<longleftrightarrow> x_execution_id x' = x_execution_id x \<and> x_attempt_count x' = x_attempt_count x \<and>
     dispatch_key x' = dispatch_key x"

lemma settle_inv:
  assumes inv: "exec_inv env D s"
    and E: "dget (s_executions s) e = Some x" and A: "dget (s_attempts s) i = Some a"
    and ae: "a_execution_id a = e" and an: "a_attempt_number a = x_attempt_count x"
    and same: "same_attempt a a'" "same_execution x x'"
    and fits: "execution_fits x'" "attempt_fits x' a'"
  shows "exec_inv env D (put_execution x' e (put_attempt a' i s))"
proof -
  let ?s' = "put_execution x' e (put_attempt a' i s)"
  note inv' = exec_invD [OF inv]
  have "executions_ok D ?s'"
    using inv'(4) E same(2) fits(1) by (auto simp: executions_ok_def same_execution_def)
  moreover have "attempts_ok env ?s'"
    unfolding attempts_ok_def
  proof (intro allI impI)
    fix j b assume B: "dget (s_attempts ?s') j = Some b"
    show "attempt_row_ok env ?s' j b"
    proof (cases "j = i")
      case True
      then have "b = a'" using B by simp
      moreover have "attempt_row_ok env s i a" using inv'(5) A by (simp add: attempts_ok_def)
      ultimately show ?thesis using True ae an same fits E
        by (simp add: attempt_row_ok_def same_attempt_def same_execution_def)
    next
      case False
      then have B': "dget (s_attempts s) j = Some b" using B by simp
      have "a_attempt_number b \<le> x_attempt_count x' \<and> attempt_fits x' b" if "a_execution_id b = e"
      proof -
        have "a_attempt_number b \<noteq> x_attempt_count x"
          using attempt_key [OF inv'(5) B' A] that ae an False by auto
        moreover have "a_attempt_number b \<le> x_attempt_count x" "attempt_fits x b"
          using attempt_fitsD [OF inv'(5) B'] E that by auto
        ultimately show ?thesis
          using same(2) by (auto simp: attempt_fits_def same_execution_def)
      qed
      then show ?thesis using inv'(5) B' E by (auto simp: attempts_ok_def attempt_row_ok_def)
    qed
  qed
  moreover have "lineage_ok env ?s'"
    using inv'(6) E same(2) unfolding lineage_ok_def
    by (auto simp: attempt_ids_def same_execution_def split: option.splits)
  moreover have "dispatch_ok ?s'"
    using inv'(7) E same(2) unfolding dispatch_ok_def by (auto simp: same_execution_def)
  ultimately show ?thesis using inv' by (simp add: exec_inv_def)
qed

section \<open>The guards of a worker transition\<close>

text \<open>\<open>holds_claim s e i w x a\<close>: attempt \<open>i\<close> is the running current attempt
  of the claimed execution \<open>e\<close>, and both belong to worker \<open>w\<close>.\<close>

definition holds_claim ::
  "exec_store \<Rightarrow> string \<Rightarrow> string option \<Rightarrow> string \<Rightarrow> execution_record \<Rightarrow> attempt_record \<Rightarrow> bool" where
  "holds_claim s e aid' w x a \<longleftrightarrow>
     dget (s_executions s) e = Some x \<and>
     (\<exists>i. aid' = Some i \<and> dget (s_attempts s) i = Some a) \<and>
     a_execution_id a = e \<and> a_worker_id a = w \<and> x_state x = CLAIMED \<and>
     x_worker_id x = Some w \<and> a_attempt_number a = x_attempt_count x \<and> a_state a = A_RUNNING"

lemma load_attempt_Inr:
  "load_attempt_for_transition s e aid' w x = Inr a \<longleftrightarrow>
     (\<exists>i. aid' = Some i \<and> dget (s_attempts s) i = Some a) \<and> a_execution_id a = e \<and> a_worker_id a = w"
  by (auto simp: load_attempt_for_transition_def Let_def split: option.splits)

lemma transition_claim_lost_None:
  "transition_claim_lost e aid' w x a = None \<longleftrightarrow>
     x_state x = CLAIMED \<and> x_worker_id x = Some w \<and> a_attempt_number a = x_attempt_count x \<and>
     a_state a = A_RUNNING"
  by (auto simp: transition_claim_lost_def Let_def)

lemma require_execution_Inr:
  "require_execution s e = Inr x \<longleftrightarrow> dget (s_executions s) e = Some x"
  by (auto simp: require_execution_def split: option.splits)

lemma require_execution_Inl:
  "require_execution s e = Inl err \<longleftrightarrow> dget (s_executions s) e = None \<and>
     err = ExecutionPersistenceError (''execution not found: '' @ e)"
  by (auto simp: require_execution_def split: option.splits)

text \<open>Each transition either leaves the store alone or settles a held claim.\<close>

lemma complete_execution_cases:
  obtains (kept) "snd (complete_execution env s e aid' res t w cat conf) = s"
  | (settled) x a r x' a' where "holds_claim s e aid' w x a" "from_dict env res = Inr r"
      "a' = a\<lparr>a_state := A_COMPLETED, a_completed_at := Some t, a_result := r\<rparr>"
      "x' = x\<lparr>x_state := COMPLETED, x_completed_at := Some t, x_failed_at := None,
         x_diagnostic_category := str_or cat (diagnostic_category r),
         x_diagnostic_confidence := (case conf of Some c \<Rightarrow> Some c | None \<Rightarrow> diagnostic_confidence r),
         x_result := r, x_error := None\<rparr>"
      "complete_execution env s e aid' res t w cat conf =
         (Inr (Moved x'), put_execution x' e (put_attempt a' (a_attempt_id a) s))"
proof (cases "\<exists>x a r. holds_claim s e aid' w x a \<and> from_dict env res = Inr r")
  case True
  then obtain x a r where H: "holds_claim s e aid' w x a" and R: "from_dict env res = Inr r" by blast
  from H have "require_execution s e = Inr x" "load_attempt_for_transition s e aid' w x = Inr a"
    "transition_claim_lost e aid' w x a = None" "x_state x \<noteq> COMPLETED"
    by (auto simp: holds_claim_def load_attempt_Inr transition_claim_lost_None require_execution_Inr)
  with R have "complete_execution env s e aid' res t w cat conf =
     (let a' = a\<lparr>a_state := A_COMPLETED, a_completed_at := Some t, a_result := r\<rparr>;
          x' = x\<lparr>x_state := COMPLETED, x_completed_at := Some t, x_failed_at := None,
             x_diagnostic_category := str_or cat (diagnostic_category r),
             x_diagnostic_confidence := (case conf of Some c \<Rightarrow> Some c | None \<Rightarrow> diagnostic_confidence r),
             x_result := r, x_error := None\<rparr>
      in (Inr (Moved x'), put_execution x' e (put_attempt a' (a_attempt_id a) s)))"
    by (simp add: complete_execution_def Let_def)
  with settled [OF H R] show ?thesis by (simp add: Let_def)
next
  case False
  have "snd (complete_execution env s e aid' res t w cat conf) = s"
    using False unfolding complete_execution_def holds_claim_def
    by (auto simp: load_attempt_Inr transition_claim_lost_None require_execution_Inr Let_def
        split: sum.splits option.splits)
  then show ?thesis by (rule kept)
qed

lemma fail_execution_cases:
  obtains (kept) "snd (fail_execution env s e aid' err t retry w res) = s"
  | (settled) x a r x' a' where "holds_claim s e aid' w x a" "from_dict env res = Inr r"
      "a' = a\<lparr>a_state := A_FAILED, a_failed_at := Some t, a_retry_requested := retry,
         a_result := r, a_error := Some err\<rparr>"
      "x' = x\<lparr>x_state := (if retry then REQUESTED else FAILED), x_failed_at := Some t,
         x_result := r, x_error := Some err\<rparr>"
      "fail_execution env s e aid' err t retry w res =
         (Inr (Moved x'), put_execution x' e (put_attempt a' (a_attempt_id a) s))"
proof (cases "\<exists>x a r. holds_claim s e aid' w x a \<and> from_dict env res = Inr r")
  case True
  then obtain x a r where H: "holds_claim s e aid' w x a" and R: "from_dict env res = Inr r" by blast
  from H have "require_execution s e = Inr x" "load_attempt_for_transition s e aid' w x = Inr a"
    "transition_claim_lost e aid' w x a = None"
    by (auto simp: holds_claim_def load_attempt_Inr transition_claim_lost_None require_execution_Inr)
  with R settled [OF H R] show ?thesis by (simp add: fail_execution_def Let_def)
next
  case False
  have "snd (fail_execution env s e aid' err t retry w res) = s"
    using False unfolding fail_execution_def holds_claim_def
    by (auto simp: load_attempt_Inr transition_claim_lost_None require_execution_Inr Let_def
        split: sum.splits option.splits)
  then show ?thesis by (rule kept)
qed

lemma dead_letter_execution_cases:
  obtains (kept) "snd (dead_letter_execution env s e aid' err t w res) = s"
  | (settled) x a r x' a' where "holds_claim s e aid' w x a" "from_dict env res = Inr r"
      "a' = a\<lparr>a_state := A_DEAD_LETTERED, a_failed_at := Some t, a_retry_requested := False,
         a_result := r, a_error := Some err\<rparr>"
      "x' = x\<lparr>x_state := DEAD_LETTERED, x_failed_at := Some t, x_result := r, x_error := Some err\<rparr>"
      "dead_letter_execution env s e aid' err t w res =
         (Inr (Moved x'), put_execution x' e (put_attempt a' (a_attempt_id a) s))"
proof (cases "\<exists>x a r. holds_claim s e aid' w x a \<and> from_dict env res = Inr r")
  case True
  then obtain x a r where H: "holds_claim s e aid' w x a" and R: "from_dict env res = Inr r" by blast
  from H have "require_execution s e = Inr x" "load_attempt_for_transition s e aid' w x = Inr a"
    "transition_claim_lost e aid' w x a = None"
    by (auto simp: holds_claim_def load_attempt_Inr transition_claim_lost_None require_execution_Inr)
  with R settled [OF H R] show ?thesis by (simp add: dead_letter_execution_def Let_def)
next
  case False
  have "snd (dead_letter_execution env s e aid' err t w res) = s"
    using False unfolding dead_letter_execution_def holds_claim_def
    by (auto simp: load_attempt_Inr transition_claim_lost_None require_execution_Inr Let_def
        split: sum.splits option.splits)
  then show ?thesis by (rule kept)
qed

lemma holds_claim_settle:
  assumes inv: "exec_inv env D s" and H: "holds_claim s e aid' w x a"
    and same: "same_attempt a a'" "same_execution x x'"
    and left: "x_state x' \<noteq> CLAIMED"
    and fits: "a_attempt_number a = x_attempt_count x \<Longrightarrow> attempt_fits x' a'"
  shows "exec_inv env D (put_execution x' e (put_attempt a' (a_attempt_id a) s))"
proof -
  from H obtain i where A: "dget (s_attempts s) i = Some a" by (auto simp: holds_claim_def)
  then have i: "a_attempt_id a = i"
    using exec_invD(5) [OF inv] attempts_okD(1) by blast
  have "execution_fits x"
    using H executions_okD(2) [OF exec_invD(4) [OF inv]] by (auto simp: holds_claim_def)
  then have "execution_fits x'"
    using H same(2) left by (auto simp: execution_fits_def same_execution_def holds_claim_def)
  then show ?thesis
    using settle_inv [OF inv _ A _ _ same] H fits unfolding i by (simp add: holds_claim_def)
qed

lemmas settled_simps = same_attempt_def same_execution_def attempt_fits_def dispatch_key_def

lemma complete_execution_inv:
  "exec_inv env D s \<Longrightarrow> exec_inv env D (snd (complete_execution env s e aid' res t w cat conf))"
  by (cases rule: complete_execution_cases [of env s e aid' res t w cat conf])
    (auto intro!: holds_claim_settle simp: settled_simps)

lemma fail_execution_inv:
  "exec_inv env D s \<Longrightarrow> exec_inv env D (snd (fail_execution env s e aid' err t retry w res))"
  by (cases rule: fail_execution_cases [of env s e aid' err t retry w res])
    (auto intro!: holds_claim_settle simp: settled_simps)

lemma dead_letter_execution_inv:
  "exec_inv env D s \<Longrightarrow> exec_inv env D (snd (dead_letter_execution env s e aid' err t w res))"
  by (cases rule: dead_letter_execution_cases [of env s e aid' err t w res])
    (auto intro!: holds_claim_settle simp: settled_simps)

section \<open>The current attempt\<close>

lemma stored_attempt_in_D:
  assumes "exec_inv env D s" "dget (s_attempts s) i = Some a"
  shows "(a_execution_id a, a_attempt_number a) \<in> D"
proof -
  note inv = exec_invD [OF assms(1)]
  obtain x where "dget (s_executions s) (a_execution_id a) = Some x"
    "a_attempt_number a \<le> x_attempt_count x"
    using attempts_okD(4) [OF inv(5) assms(2)] by blast
  then show ?thesis
    using executions_okD(3) [OF inv(4)] attempts_okD(3) [OF inv(5) assms(2)] by blast
qed

text \<open>Attempt \<open>n\<close> of an execution is stored exactly under its derived identity.\<close>

lemma attempt_at:
  assumes inv: "exec_inv env D s" and E: "dget (s_executions s) e = Some x"
    and n: "1 \<le> n" "n \<le> x_attempt_count x"
  obtains a where "dget (s_attempts s) (aid env e n) = Some a" "a_execution_id a = e"
    "a_attempt_number a = n" "a_attempt_id a = aid env e n" "attempt_fits x a"
proof -
  note I = exec_invD [OF inv]
  obtain a where A: "dget (s_attempts s) (aid env e n) = Some a"
    using I(6) E n unfolding lineage_ok_def by blast
  have "aid env e n = aid env (a_execution_id a) (a_attempt_number a)"
    by (rule attempts_okD(2) [OF I(5) A])
  then have "e = a_execution_id a" "n = a_attempt_number a"
    using no_collisionD [OF I(1) executions_okD(3) [OF I(4) E n] stored_attempt_in_D [OF inv A]]
    by auto
  moreover from this have "attempt_fits x a" using attempt_fitsD(2) [OF I(5) A] E by simp
  ultimately show ?thesis using that A attempts_okD(1) [OF I(5) A] by simp
qed

lemma latest_attempt:
  assumes inv: "exec_inv env D s" and E: "dget (s_executions s) e = Some x"
  shows "latest_attempt_id s e =
    (if x_attempt_count x = 0 then None else Some (aid env e (x_attempt_count x)))"
proof -
  have ids: "attempt_ids s e = map (aid env e) [1..x_attempt_count x]"
    using exec_invD(6) [OF inv] E by (auto simp: lineage_ok_def)
  have count: "0 \<le> x_attempt_count x"
    using executions_okD(2) [OF exec_invD(4) [OF inv] E] by (simp add: execution_fits_def)
  have "latest_attempt_id s e = (if attempt_ids s e = [] then None else Some (last (attempt_ids s e)))"
    by (auto simp: latest_attempt_id_def attempt_ids_def split: option.splits)
  with ids count show ?thesis
    by (auto simp: upto_rec2 last_map)
qed

lemma resolve_claimed:
  assumes inv: "exec_inv env D s" and E: "dget (s_executions s) e = Some x" and C: "x_state x = CLAIMED"
  obtains a where "resolve_running_attempt s e None (x_worker_id x) (Some x) = Inr a"
    "dget (s_attempts s) (a_attempt_id a) = Some a" "a_execution_id a = e"
    "a_attempt_number a = x_attempt_count x" "a_state a = A_RUNNING"
    "x_worker_id x = Some (a_worker_id a)" "a_attempt_id a = aid env e (x_attempt_count x)"
proof -
  have "1 \<le> x_attempt_count x"
    using executions_okD(2) [OF exec_invD(4) [OF inv] E] C by (simp add: execution_fits_def)
  then obtain a where a: "dget (s_attempts s) (aid env e (x_attempt_count x)) = Some a"
    "a_execution_id a = e" "a_attempt_number a = x_attempt_count x"
    "a_attempt_id a = aid env e (x_attempt_count x)" "attempt_fits x a"
    using attempt_at [OF inv E _ order_refl] by blast
  have "latest_attempt_id s e = Some (aid env e (x_attempt_count x))"
    using latest_attempt [OF inv E] \<open>1 \<le> x_attempt_count x\<close> by simp
  moreover have "a_state a = A_RUNNING" "x_worker_id x = Some (a_worker_id a)"
    using a C by (auto simp: attempt_fits_def)
  ultimately show ?thesis using that a by (simp add: resolve_running_attempt_def)
qed

section \<open>Every step keeps the invariant\<close>

lemma recover_stale_execution_cases [consumes 1, case_names kept recovered]:
  assumes inv: "exec_inv env D s"
  obtains (kept) "recover_stale_execution env s e stale t reason = (Inr None, s)"
      "\<And>x. dget (s_executions s) e = Some x \<Longrightarrow> x_state x = CLAIMED \<Longrightarrow>
         (\<exists>c. x_claimed_at x = Some c \<and> stale < c)"
  | (recovered) x a x' a' c where
      "dget (s_executions s) e = Some x" "x_state x = CLAIMED" "x_claimed_at x = Some c" "c \<le> stale"
      "holds_claim s e (Some (a_attempt_id a)) (a_worker_id a) x a"
      "a' = a\<lparr>a_state := A_FAILED, a_failed_at := Some t, a_retry_requested := True,
         a_error := Some reason,
         a_metadata := dmerge (a_metadata a)
           [(''recovery.reason'', PStr reason), (''recovery.recovered_at'', PStr (isoformat env t))]\<rparr>"
      "x' = x\<lparr>x_state := REQUESTED, x_claimed_at := None, x_worker_id := None,
         x_failed_at := Some t, x_error := Some reason,
         x_metadata := dmerge (x_metadata x)
           [(''recovery.reason'', PStr reason), (''recovery.recovered_at'', PStr (isoformat env t)),
            (''recovery.attempt_id'', PStr (a_attempt_id a)),
            (''recovery.worker_id'', PStr (a_worker_id a))]\<rparr>"
      "recover_stale_execution env s e stale t reason =
         (Inr (Some \<lparr>c_execution = x', c_attempt = a'\<rparr>),
          put_execution x' e (put_attempt a' (a_attempt_id a) s))"
proof (cases "\<exists>x c. dget (s_executions s) e = Some x \<and> x_state x = CLAIMED \<and>
    x_claimed_at x = Some c \<and> c \<le> stale")
  case True
  then obtain x c where x: "dget (s_executions s) e = Some x" "x_state x = CLAIMED"
    "x_claimed_at x = Some c" "c \<le> stale" by blast
  obtain a where a: "resolve_running_attempt s e None (x_worker_id x) (Some x) = Inr a"
    "dget (s_attempts s) (a_attempt_id a) = Some a" "a_execution_id a = e"
    "a_attempt_number a = x_attempt_count x" "a_state a = A_RUNNING"
    "x_worker_id x = Some (a_worker_id a)"
    by (rule resolve_claimed [OF inv x(1,2)])
  then have "holds_claim s e (Some (a_attempt_id a)) (a_worker_id a) x a"
    using x by (simp add: holds_claim_def)
  then show ?thesis
    by (rule recovered [OF x _ refl refl]) (use x a in \<open>simp add: recover_stale_execution_def Let_def\<close>)
next
  case False
  have fits: "x_claimed_at x \<noteq> None" if "dget (s_executions s) e = Some x" "x_state x = CLAIMED" for x
    using executions_okD(2) [OF exec_invD(4) [OF inv] that(1)] that(2) by (simp add: execution_fits_def)
  show ?thesis
  proof (rule kept)
    show "recover_stale_execution env s e stale t reason = (Inr None, s)"
      using False fits by (auto simp: recover_stale_execution_def split: option.splits)
    show "\<exists>c. x_claimed_at x = Some c \<and> stale < c"
      if "dget (s_executions s) e = Some x" "x_state x = CLAIMED" for x
      using False fits [OF that] that by force
  qed
qed

lemma recover_stale_execution_inv:
  "exec_inv env D s \<Longrightarrow> exec_inv env D (snd (recover_stale_execution env s e stale t reason))"
  by (cases rule: recover_stale_execution_cases [where e = e and stale = stale and t = t and reason = reason])
    (auto intro!: holds_claim_settle simp: settled_simps)

definition claimed_execution :: "execution_record \<Rightarrow> string \<Rightarrow> int \<Rightarrow> execution_record" where
  "claimed_execution x w t = x\<lparr>x_state := CLAIMED, x_attempt_count := x_attempt_count x + 1,
     x_claimed_at := Some t, x_worker_id := Some w\<rparr>"

definition new_attempt ::
  "py_env \<Rightarrow> execution_record \<Rightarrow> string \<Rightarrow> string \<Rightarrow> int \<Rightarrow> attempt_record" where
  "new_attempt env x e w t =
     \<lparr>a_attempt_id = aid env e (x_attempt_count x + 1), a_execution_id = e,
      a_attempt_number = x_attempt_count x + 1, a_state = A_RUNNING, a_worker_id = w,
      a_started_at = t, a_completed_at = None, a_failed_at = None,
      a_previous_attempt_id =
        (if x_attempt_count x = 0 then None else Some (aid env e (x_attempt_count x))),
      a_retry_requested = False, a_result = empty_envelope, a_error = None, a_metadata = []\<rparr>"

lemma append_attempt_id_simps [simp]:
  "s_executions (append_attempt_id e i s) = s_executions s"
  "s_attempts (append_attempt_id e i s) = s_attempts s"
  "s_outbox (append_attempt_id e i s) = s_outbox s"
  "s_outbox_by_execution (append_attempt_id e i s) = s_outbox_by_execution s"
  "s_by_dispatch (append_attempt_id e i s) = s_by_dispatch s"
  "attempt_ids (append_attempt_id e i s) f = (if f = e then attempt_ids s e @ [i] else attempt_ids s f)"
  by (auto simp: append_attempt_id_def attempt_ids_def split: option.splits)

lemma attempt_ids_put [simp]:
  "attempt_ids (put_execution x e s) f = attempt_ids s f"
  "attempt_ids (put_attempt a i s) f = attempt_ids s f"
  "attempt_ids (put_outbox r i s) f = attempt_ids s f"
  by (simp_all add: attempt_ids_def)

lemma claim_execution_cases [consumes 1, case_names kept claimed]:
  assumes inv: "exec_inv env D s"
  obtains (kept) "claim_execution env s e w t = (Inr None, s)"
      "\<And>x. dget (s_executions s) e = Some x \<Longrightarrow> x_state x \<noteq> REQUESTED"
  | (claimed) x where "dget (s_executions s) e = Some x" "x_state x = REQUESTED"
      "claim_execution env s e w t =
         (Inr (Some \<lparr>c_execution = claimed_execution x w t, c_attempt = new_attempt env x e w t\<rparr>),
          append_attempt_id e (aid env e (x_attempt_count x + 1))
            (put_attempt (new_attempt env x e w t) (aid env e (x_attempt_count x + 1))
              (put_execution (claimed_execution x w t) e s)))"
proof (cases "\<exists>x. dget (s_executions s) e = Some x \<and> x_state x = REQUESTED")
  case True
  then obtain x where x: "dget (s_executions s) e = Some x" "x_state x = REQUESTED" by blast
  have "0 \<le> x_attempt_count x"
    using executions_okD(2) [OF exec_invD(4) [OF inv] x(1)] by (simp add: execution_fits_def)
  then show ?thesis
    by (intro claimed [OF x])
      (use x latest_attempt [OF inv x(1)] in
        \<open>simp add: claim_execution_def Let_def derive_attempt_id_aid claimed_execution_def new_attempt_def\<close>)
next
  case False
  then show ?thesis
    by (intro kept) (auto simp: claim_execution_def split: option.splits)
qed

lemma claim_execution_inv:
  assumes inv: "exec_inv env D s" and ok: "op_ok D (Claim e w t) s"
  shows "exec_inv env D (snd (claim_execution env s e w t))"
  using inv
proof (cases rule: claim_execution_cases [where e = e and w = w and t = t])
  case kept
  with inv show ?thesis by simp
next
  case (claimed x)
  let ?n = "x_attempt_count x + 1"
  let ?i = "aid env e ?n" and ?x = "claimed_execution x w t" and ?a = "new_attempt env x e w t"
  let ?s = "append_attempt_id e ?i (put_attempt ?a ?i (put_execution ?x e s))"
  note I = exec_invD [OF inv]
  have D: "(e, ?n) \<in> D" using ok claimed(1) by simp
  have count: "0 \<le> x_attempt_count x" "x_execution_id x = e"
    using executions_okD(1,2) [OF I(4) claimed(1)] by (simp_all add: execution_fits_def)
  have fresh: "dget (s_attempts s) ?i = None"
  proof (rule ccontr)
    assume "dget (s_attempts s) ?i \<noteq> None"
    then obtain b where B: "dget (s_attempts s) ?i = Some b" by blast
    then have "e = a_execution_id b \<and> ?n = a_attempt_number b"
      using no_collisionD [OF I(1) D stored_attempt_in_D [OF inv B]] attempts_okD(2) [OF I(5) B] by simp
    then show False using attempt_fitsD(1) [OF I(5) B] claimed(1) by fastforce
  qed
  have "executions_ok D ?s"
    using I(4) D claimed(1) count unfolding executions_ok_def
    by (auto simp: claimed_execution_def execution_fits_def subset_iff)
      (metis add.commute zle_add1_eq_le order_le_less)
  moreover have "attempts_ok env ?s"
    unfolding attempts_ok_def
  proof (intro allI impI)
    fix j b assume B: "dget (s_attempts ?s) j = Some b"
    show "attempt_row_ok env ?s j b"
    proof (cases "j = ?i")
      case True
      then have "b = ?a" using B by simp
      with True show ?thesis using count
        by (simp add: attempt_row_ok_def new_attempt_def claimed_execution_def attempt_fits_def)
    next
      case False
      then have B': "dget (s_attempts s) j = Some b" using B by simp
      have "attempt_fits ?x b" "a_attempt_number b \<le> x_attempt_count x" if "a_execution_id b = e"
        using attempt_fitsD [OF I(5) B'] claimed(1,2) that
        by (auto simp: attempt_fits_def claimed_execution_def split: if_splits)
      then show ?thesis using I(5) B' claimed(1)
        by (auto simp: attempts_ok_def attempt_row_ok_def claimed_execution_def)
    qed
  qed
  moreover have "lineage_ok env ?s"
    unfolding lineage_ok_def
  proof (intro conjI allI impI)
    fix f
    have "[1..x_attempt_count x + 1] = [1..x_attempt_count x] @ [x_attempt_count x + 1]"
      using count by (subst upto_rec2) simp_all
    then show "attempt_ids ?s f = (case dget (s_executions ?s) f of
        None \<Rightarrow> [] | Some y \<Rightarrow> map (aid env f) [1..x_attempt_count y])"
      using I(6) claimed(1) by (simp add: lineage_ok_def claimed_execution_def)
  next
    fix f y n
    assume Y: "dget (s_executions ?s) f = Some y" and n: "1 \<le> n" "n \<le> x_attempt_count y"
    show "dget (s_attempts ?s) (aid env f n) \<noteq> None"
    proof (cases "f = e \<and> n = ?n")
      case True
      then show ?thesis by simp
    next
      case False
      then have "\<exists>z. dget (s_executions s) f = Some z \<and> n \<le> x_attempt_count z"
        using Y n claimed(1) by (auto simp: claimed_execution_def split: if_splits)
      then show ?thesis using I(6) n(1) unfolding lineage_ok_def by fastforce
    qed
  qed
  moreover have "dispatch_ok ?s"
    using I(7) claimed(1) unfolding dispatch_ok_def
    by (auto simp: claimed_execution_def dispatch_key_def)
  ultimately show ?thesis using I claimed by (simp add: exec_inv_def)
qed

lemma request_execution_inv:
  assumes inv: "exec_inv env D s" and ok: "op_ok D (Request x r) s"
  shows "exec_inv env D (snd (request_execution s x r))"
proof (cases "dget (s_by_dispatch s) (dispatch_key x) = None \<and>
    dget (s_executions s) (x_execution_id x) = None")
  case True
  note I = exec_invD [OF inv]
  let ?s = "snd (request_execution s x r)"
  have s': "s_executions ?s = dset (x_execution_id x) x (s_executions s)"
    "s_attempts ?s = s_attempts s" "attempt_ids ?s e = attempt_ids s e" for e
    using True by (simp_all add: request_execution_def attempt_ids_def)
  have "executions_ok D ?s"
    using I(4) ok by (auto simp: executions_ok_def s' execution_fits_def)
  moreover have "attempts_ok env ?s"
    using I(5) True unfolding attempts_ok_def attempt_row_ok_def s' by fastforce
  moreover have "lineage_ok env ?s"
    using I(6) True ok unfolding lineage_ok_def s' by (auto split: option.splits)
  moreover have "s_by_dispatch ?s = dset (dispatch_key x) (x_execution_id x) (s_by_dispatch s)"
    using True by (simp add: request_execution_def)
  then have "dispatch_ok ?s"
    using I(7) True unfolding dispatch_ok_def s' by auto (metis option.distinct(1))+
  ultimately show ?thesis using I by (simp add: exec_inv_def s')
next
  case False
  then have "snd (request_execution s x r) = s"
    by (auto simp: request_execution_def split: option.splits)
  with inv show ?thesis by simp
qed

text \<open>The outbox operations do not touch executions or attempts.\<close>

definition same_executions :: "exec_store \<Rightarrow> exec_store \<Rightarrow> bool" where
  "same_executions s s' \<longleftrightarrow> s_executions s' = s_executions s \<and> s_attempts s' = s_attempts s \<and>
     s_attempts_by_execution s' = s_attempts_by_execution s \<and> s_by_dispatch s' = s_by_dispatch s"

lemma same_executions_inv:
  assumes "same_executions s s'" "exec_inv env D s"
  shows "exec_inv env D s'"
proof -
  have "exec_inv env D s' = exec_inv env D s"
    using assms(1) by (simp only: same_executions_def exec_inv_def executions_ok_def attempts_ok_def
        attempt_row_ok_def lineage_ok_def attempt_ids_def dispatch_ok_def)
  with assms(2) show ?thesis by simp
qed

lemma outbox_same_executions:
  "same_executions s (snd (claim_outbox_for_execution s e p c t))"
  "same_executions s (snd (mark_outbox_published s oid c t))"
  "same_executions s (snd (mark_outbox_failed env s oid c err t))"
  "same_executions s (snd (requeue_stale_outbox s oid stale reason))"
  "same_executions s (snd (requeue_failed_outbox env s oid before t reason m tenant))"
  by (auto simp: same_executions_def claim_outbox_for_execution_def mark_outbox_published_def
      mark_outbox_failed_def requeue_stale_outbox_def requeue_failed_outbox_def Let_def
      split: option.splits sum.splits)

lemma store_step_inv: "exec_inv env D s \<Longrightarrow> op_ok D x s \<Longrightarrow> exec_inv env D (store_step env x s)"
  by (cases x)
    (auto intro: request_execution_inv claim_execution_inv complete_execution_inv
      fail_execution_inv dead_letter_execution_inv recover_stale_execution_inv
      same_executions_inv outbox_same_executions)

end
