(* ===== verification/Execution_Safety.thy ===== *)
theory Execution_Safety
  imports Execution_Invariant
begin

text \<open>
  What the execution store promises its callers: finished executions are never
  rewritten, only the holder of the running claim can move an execution, a
  recovered worker is fenced off, and reads are tenant-scoped.  The interfaces
  are interpreted here; the properties of the store rest on them.
\<close>

section \<open>Finished executions\<close>

definition terminal_states :: "execution_state set" where
  "terminal_states = {COMPLETED, FAILED, DEAD_LETTERED}"

definition final_execution :: "exec_store \<Rightarrow> string \<Rightarrow> execution_record option" where
  "final_execution s e =
     (case dget (s_executions s) e of
        None \<Rightarrow> None
      | Some x \<Rightarrow> if x_state x \<in> terminal_states then Some x else None)"

lemma final_execution_Some:
  "final_execution s e = Some x \<longleftrightarrow> dget (s_executions s) e = Some x \<and> x_state x \<in> terminal_states"
  by (auto simp: final_execution_def split: option.splits)

lemma settle_keeps_final:
  assumes "holds_claim s f aid' w y a" "final_execution s e = Some x"
  shows "final_execution (put_execution y' f (put_attempt a' i s)) e = Some x"
  using assms by (auto simp: final_execution_Some holds_claim_def terminal_states_def)

lemma step_keeps_final:
  assumes inv: "exec_inv env D s" and fin: "final_execution s e = Some x"
  shows "final_execution (store_step env op s) e = Some x"
proof (cases op)
  case (Request y r)
  then show ?thesis using fin
    by (auto simp: final_execution_Some request_execution_def split: option.splits)
next
  case (Claim f w t)
  from inv show ?thesis
    by (cases rule: claim_execution_cases [where e = f and w = w and t = t])
      (use Claim fin in \<open>auto simp: final_execution_Some terminal_states_def\<close>)
next
  case (Complete f i res t w cat conf)
  show ?thesis
    by (cases rule: complete_execution_cases [of env s f i res t w cat conf])
      (use Complete fin in \<open>auto intro: settle_keeps_final\<close>)
next
  case (Fail f i err t retry w res)
  show ?thesis
    by (cases rule: fail_execution_cases [of env s f i err t retry w res])
      (use Fail fin in \<open>auto intro: settle_keeps_final\<close>)
next
  case (DeadLetter f i err t w res)
  show ?thesis
    by (cases rule: dead_letter_execution_cases [of env s f i err t w res])
      (use DeadLetter fin in \<open>auto intro: settle_keeps_final\<close>)
next
  case (Recover f stale t reason)
  from inv show ?thesis
    by (cases rule: recover_stale_execution_cases [where e = f and stale = stale and t = t and reason = reason])
      (use Recover fin in \<open>auto intro: settle_keeps_final\<close>)
qed (use fin in \<open>auto simp: final_execution_def outbox_same_executions [unfolded same_executions_def]\<close>)

interpretation exec: frozen_machine "store_step env" "op_ok D" "exec_inv env D" final_execution
  for env :: py_env and D :: "(string \<times> int) set"
  by unfold_locales (auto intro: store_step_inv step_keeps_final)

interpretation exec_read: scoped_reads get_execution "\<lambda>x. Some (x_tenant_id x)"
  by unfold_locales (auto simp: get_execution_def split: option.splits if_splits)

section \<open>The claim is exclusive\<close>

lemma running_current:
  assumes inv: "exec_inv env D s" and A: "dget (s_attempts s) i = Some a" and run: "a_state a = A_RUNNING"
  obtains x where "dget (s_executions s) (a_execution_id a) = Some x" "x_state x = CLAIMED"
    "x_worker_id x = Some (a_worker_id a)" "a_attempt_number a = x_attempt_count x"
proof -
  obtain x where x: "dget (s_executions s) (a_execution_id a) = Some x"
    "a_attempt_number a \<le> x_attempt_count x" "attempt_fits x a"
    using attempts_okD(4) [OF exec_invD(5) [OF inv] A] by blast
  then have "\<not> a_attempt_number a < x_attempt_count x" "x_state x = CLAIMED"
    "x_worker_id x = Some (a_worker_id a)"
    using run by (auto simp: attempt_fits_def split: execution_state.splits if_splits)
  with x that show ?thesis by fastforce
qed

lemma running_unique:
  assumes inv: "exec_inv env D s"
    and "dget (s_attempts s) i = Some a" "a_state a = A_RUNNING"
    and "dget (s_attempts s) j = Some b" "a_state b = A_RUNNING"
    and "a_execution_id a = a_execution_id b"
  shows "i = j"
proof -
  have "a_attempt_number a = a_attempt_number b"
    using running_current [OF inv assms(2,3)] running_current [OF inv assms(4,5)] assms(6)
    by (metis option.inject)
  then show ?thesis using attempt_key [OF exec_invD(5) [OF inv] assms(2,4,6)] by simp
qed

lemma completed_current:
  assumes inv: "exec_inv env D s" and A: "dget (s_attempts s) i = Some a" and "a_state a = A_COMPLETED"
  shows "\<exists>x. dget (s_executions s) (a_execution_id a) = Some x \<and> x_state x = COMPLETED \<and>
    a_attempt_number a = x_attempt_count x"
proof -
  obtain x where "dget (s_executions s) (a_execution_id a) = Some x"
    "a_attempt_number a \<le> x_attempt_count x" "attempt_fits x a"
    using attempts_okD(4) [OF exec_invD(5) [OF inv] A] by blast
  with assms(3) show ?thesis
    by (auto simp: attempt_fits_def split: execution_state.splits if_splits)
qed

lemma completed_unique:
  assumes inv: "exec_inv env D s"
    and "dget (s_attempts s) i = Some a" "a_state a = A_COMPLETED"
    and "dget (s_attempts s) j = Some b" "a_state b = A_COMPLETED"
    and "a_execution_id a = a_execution_id b"
  shows "i = j"
proof -
  have "a_attempt_number a = a_attempt_number b"
    using completed_current [OF inv assms(2,3)] completed_current [OF inv assms(4,5)] assms(6) by auto
  then show ?thesis using attempt_key [OF exec_invD(5) [OF inv] assms(2,4,6)] by simp
qed

section \<open>Who can move an execution\<close>

lemma not_held_kept:
  assumes "\<not> (\<exists>x a. holds_claim s e aid' w x a)"
  shows "snd (complete_execution env s e aid' res t w cat conf) = s"
    "snd (fail_execution env s e aid' err t retry w res) = s"
    "snd (dead_letter_execution env s e aid' err t w res) = s"
  using assms complete_execution_cases [of env s e aid' res t w cat conf]
    fail_execution_cases [of env s e aid' err t retry w res]
    dead_letter_execution_cases [of env s e aid' err t w res] by metis+

lemma fail_moved_iff:
  "(\<exists>x'. fst (fail_execution env s e aid' err t retry w res) = Inr (Moved x')) \<longleftrightarrow>
     (\<exists>x a r. holds_claim s e aid' w x a \<and> from_dict env res = Inr r)"
proof
  assume "\<exists>x'. fst (fail_execution env s e aid' err t retry w res) = Inr (Moved x')"
  then show "\<exists>x a r. holds_claim s e aid' w x a \<and> from_dict env res = Inr r"
    by (auto simp: fail_execution_def holds_claim_def load_attempt_Inr transition_claim_lost_None
        require_execution_Inr Let_def split: sum.splits option.splits)
next
  assume "\<exists>x a r. holds_claim s e aid' w x a \<and> from_dict env res = Inr r"
  then show "\<exists>x'. fst (fail_execution env s e aid' err t retry w res) = Inr (Moved x')"
    by (auto simp: fail_execution_def holds_claim_def load_attempt_for_transition_def
        transition_claim_lost_def require_execution_def Let_def)
qed

section \<open>Worked example\<close>

lemma no_collision_demo: "no_collision demo_env D"
  by (auto simp: no_collision_def aid_def inj_on_def)

definition demo_execution :: execution_record where
  "demo_execution = \<lparr>x_execution_id = ''e1'', x_kind = DIAGNOSTIC_AGENT, x_dispatch_id = ''d1'',
     x_session_id = ''s1'', x_tenant_id = ''t1'', x_state = REQUESTED, x_attempt_count = 0,
     x_requested_at = 0, x_diagnostic_category = None, x_diagnostic_confidence = None,
     x_governance_decision_id = None, x_governance_evaluation_id = None,
     x_governance_admitted_at = None, x_governance_config_id = None,
     x_governance_config_version = None, x_governance_config_sha256 = None,
     x_claimed_at = None, x_completed_at = None, x_failed_at = None, x_worker_id = None,
     x_result = empty_envelope, x_error = None, x_metadata = []\<rparr>"

definition demo_outbox :: outbox_record where
  "demo_outbox = \<lparr>o_outbox_id = derive_outbox_id demo_env ''e1'', o_execution_id = ''e1'',
     o_state = PENDING, o_created_at = 0,
     o_claimed_at = None, o_published_at = None, o_publisher_id = None, o_claim_id = None,
     o_publish_attempt_count = 0, o_last_error = None, o_metadata = []\<rparr>"

text \<open>One execution, claimed by a worker.\<close>

definition demo_ops :: "store_op list" where
  "demo_ops = [Request demo_execution demo_outbox, Claim ''e1'' ''w1'' 5]"

definition demo_D :: "(string \<times> int) set" where
  "demo_D = {''e1''} \<times> {1, 2}"

lemmas demo_defs = demo_ops_def demo_D_def demo_execution_def demo_outbox_def empty_store_def

lemma demo_legal: "legal (store_step demo_env) (op_ok demo_D) demo_ops empty_store"
  by (simp add: demo_defs request_execution_def dispatch_key_def)

lemma demo_store:
  "dget (s_executions (runs (store_step demo_env) demo_ops empty_store)) ''e1''
     = Some (claimed_execution demo_execution ''w1'' 5)"
  "dget (s_attempts (runs (store_step demo_env) demo_ops empty_store)) (aid demo_env ''e1'' 1)
     = Some (new_attempt demo_env demo_execution ''e1'' ''w1'' 5)"
  by (simp_all add: demo_defs request_execution_def dispatch_key_def claim_execution_def
      derive_attempt_id_aid latest_attempt_id_def claimed_execution_def new_attempt_def Let_def)

section \<open>Properties\<close>

text \<open>(C17) Exclusive claims.  In every store a legal run of operations reaches,
  a running attempt belongs to a claimed execution, its worker is the worker
  the execution names, and no other attempt of that execution is running.\<close>

theorem exec_running_exclusive:
  assumes "no_collision env D"
    and "legal (store_step env) (op_ok D) ops empty_store"
    and "dget (s_attempts (runs (store_step env) ops empty_store)) i = Some a"
    and "a_state a = A_RUNNING"
  shows "\<exists>x. dget (s_executions (runs (store_step env) ops empty_store)) (a_execution_id a) = Some x \<and>
      x_state x = CLAIMED \<and> x_worker_id x = Some (a_worker_id a) \<and>
      (\<forall>j b. dget (s_attempts (runs (store_step env) ops empty_store)) j = Some b \<longrightarrow>
         a_execution_id b = a_execution_id a \<longrightarrow> a_state b = A_RUNNING \<longrightarrow> j = i)"
proof -
  have inv: "exec_inv env D (runs (store_step env) ops empty_store)"
    using exec.runs_inv [OF exec_inv_empty [OF assms(1)] assms(2)] .
  show ?thesis
    using running_current [OF inv assms(3,4)] running_unique [OF inv assms(3,4)] by metis
qed

theorem exec_running_exclusive_witness:
  "\<exists>x. dget (s_executions (runs (store_step demo_env) demo_ops empty_store)) ''e1'' = Some x \<and>
     x_state x = CLAIMED \<and> x_worker_id x = Some ''w1''"
  using exec_running_exclusive [OF no_collision_demo demo_legal demo_store(2)]
  by (auto simp: new_attempt_def)

text \<open>Attempt lineage.  In every reachable store the attempts of an execution
  are exactly the derived identities \<open>1..attempt_count\<close>; attempt \<open>n\<close> is
  stored under its identity, names attempt \<open>n - 1\<close> as its predecessor, and
  every attempt but the last has failed with a retry requested.\<close>

theorem exec_attempt_lineage:
  assumes "no_collision env D"
    and "legal (store_step env) (op_ok D) ops empty_store"
    and "s = runs (store_step env) ops empty_store"
    and "dget (s_executions s) e = Some x"
  shows "attempt_ids s e = map (aid env e) [1..x_attempt_count x] \<and>
    (\<forall>n. 1 \<le> n \<longrightarrow> n \<le> x_attempt_count x \<longrightarrow>
       (\<exists>a. dget (s_attempts s) (aid env e n) = Some a \<and> a_execution_id a = e \<and>
            a_attempt_number a = n \<and>
            a_previous_attempt_id a = (if n = 1 then None else Some (aid env e (n - 1))) \<and>
            (n < x_attempt_count x \<longrightarrow> a_state a = A_FAILED \<and> a_retry_requested a)))"
proof -
  have inv: "exec_inv env D s"
    using exec.runs_inv [OF exec_inv_empty [OF assms(1)] assms(2)] assms(3) by simp
  have "\<exists>a. dget (s_attempts s) (aid env e n) = Some a \<and> a_execution_id a = e \<and>
      a_attempt_number a = n \<and>
      a_previous_attempt_id a = (if n = 1 then None else Some (aid env e (n - 1))) \<and>
      (n < x_attempt_count x \<longrightarrow> a_state a = A_FAILED \<and> a_retry_requested a)"
    if "1 \<le> n" "n \<le> x_attempt_count x" for n
  proof (rule attempt_at [OF inv assms(4) that])
    fix a assume a: "dget (s_attempts s) (aid env e n) = Some a" "a_execution_id a = e"
      "a_attempt_number a = n" "attempt_fits x a"
    then have "attempt_row_ok env s (aid env e n) a"
      using exec_invD(5) [OF inv] by (simp add: attempts_ok_def)
    with a show ?thesis by (auto simp: attempt_row_ok_def attempt_fits_def)
  qed
  moreover have "attempt_ids s e = map (aid env e) [1..x_attempt_count x]"
    using exec_invD(6) [OF inv] assms(4) by (auto simp: lineage_ok_def)
  ultimately show ?thesis by blast
qed

theorem exec_attempt_lineage_witness:
  "attempt_ids (runs (store_step demo_env) demo_ops empty_store) ''e1'' = [aid demo_env ''e1'' 1]"
  using exec_attempt_lineage [OF no_collision_demo demo_legal refl demo_store(1)]
  by (simp add: claimed_execution_def demo_execution_def)

text \<open>(C18) Finished executions are final.  Once an execution is completed, failed
  or dead-lettered, no continuation of the run changes its record.\<close>

theorem exec_terminal_frozen:
  assumes "no_collision env D"
    and "legal (store_step env) (op_ok D) (ops @ later) empty_store"
    and "dget (s_executions (runs (store_step env) ops empty_store)) e = Some x"
    and "x_state x \<in> {COMPLETED, FAILED, DEAD_LETTERED}"
  shows "dget (s_executions (runs (store_step env) (ops @ later) empty_store)) e = Some x"
proof -
  have "final_execution (runs (store_step env) ops empty_store) e = Some x"
    using assms(3,4) by (simp add: final_execution_Some terminal_states_def)
  then have "final_execution (runs (store_step env) (ops @ later) empty_store) e = Some x"
    using assms(1,2) exec.runs_frozen exec.runs_inv [OF exec_inv_empty]
    unfolding legal_append runs_append by blast
  then show ?thesis by (simp add: final_execution_Some)
qed

text \<open>The worked example, dead-lettered; a later claim changes nothing.\<close>

definition dead_ops :: "store_op list" where
  "dead_ops = demo_ops @ [DeadLetter ''e1'' (Some (aid demo_env ''e1'' 1)) ''boom'' 9 ''w1'' []]"

lemma from_dict_Nil: "from_dict env [] = Inr (empty_envelope\<lparr>schema_version := ''0''\<rparr>)"
  by (simp add: from_dict_def get_or_none_def empty_envelope_def Let_def)

definition dead_execution :: execution_record where
  "dead_execution = (claimed_execution demo_execution ''w1'' 5)\<lparr>x_state := DEAD_LETTERED,
     x_failed_at := Some 9, x_result := empty_envelope\<lparr>schema_version := ''0''\<rparr>,
     x_error := Some ''boom''\<rparr>"

lemma dead_store:
  "dget (s_executions (runs (store_step demo_env) dead_ops empty_store)) ''e1'' = Some dead_execution"
  using demo_store
  by (simp add: dead_ops_def runs_append dead_letter_execution_def require_execution_def
      load_attempt_for_transition_def transition_claim_lost_def from_dict_Nil Let_def
      dead_execution_def claimed_execution_def new_attempt_def demo_execution_def)

theorem exec_terminal_frozen_witness:
  "dget (s_executions (runs (store_step demo_env) (dead_ops @ [Claim ''e1'' ''w2'' 10]) empty_store))
     ''e1'' = Some dead_execution"
proof (rule exec_terminal_frozen [OF no_collision_demo [of demo_D] _ dead_store])
  show "legal (store_step demo_env) (op_ok demo_D) (dead_ops @ [Claim ''e1'' ''w2'' 10]) empty_store"
    using demo_legal dead_store
    by (simp add: dead_ops_def legal_append runs_append dead_execution_def claimed_execution_def
        demo_execution_def demo_D_def)
  show "x_state dead_execution \<in> {COMPLETED, FAILED, DEAD_LETTERED}"
    by (simp add: dead_execution_def)
qed

text \<open>A superseded worker is fenced off.  In every reachable store, completing,
  failing or dead-lettering through an attempt that is not the execution's last
  one returns a lost claim and leaves the store as it was.\<close>

theorem exec_superseded_fenced:
  assumes "no_collision env D"
    and "legal (store_step env) (op_ok D) ops empty_store"
    and "s = runs (store_step env) ops empty_store"
    and "dget (s_executions s) e = Some x" and "dget (s_attempts s) i = Some a"
    and "a_execution_id a = e" and "a_attempt_number a < x_attempt_count x"
  shows "(\<exists>l. complete_execution env s e (Some i) res t w cat conf = (Inr (Lost l), s)) \<and>
    (\<exists>l. fail_execution env s e (Some i) err t retry w res = (Inr (Lost l), s)) \<and>
    (\<exists>l. dead_letter_execution env s e (Some i) err t w res = (Inr (Lost l), s))"
proof -
  have inv: "exec_inv env D s"
    using exec.runs_inv [OF exec_inv_empty [OF assms(1)] assms(2)] assms(3) by simp
  have failed: "a_state a = A_FAILED"
    using attempt_fitsD(2) [OF exec_invD(5) [OF inv] assms(5)] assms(4,6,7)
    by (auto simp: attempt_fits_def)
  have lost: "transition_claim_lost e (Some i) w x a \<noteq> None"
    using assms(7) by (simp add: transition_claim_lost_None)
  show ?thesis using assms(4,5,6) failed lost
    by (auto simp: complete_execution_def fail_execution_def dead_letter_execution_def
        require_execution_def load_attempt_for_transition_def Let_def)
qed

text \<open>The example again: the first worker's claim is recovered and the execution
  claimed by a second worker.\<close>

definition reclaim_ops :: "store_op list" where
  "reclaim_ops = demo_ops @ [Recover ''e1'' 6 7 ''expired'', Claim ''e1'' ''w2'' 8]"

lemmas demo_exec_simps = claim_execution_def recover_stale_execution_def resolve_running_attempt_def
  latest_attempt_id_def append_attempt_id_def request_execution_def dispatch_key_def
  derive_attempt_id_aid put_execution_def put_attempt_def Let_def

lemma aid_demo [simp]: "aid demo_env e n = aid demo_env e' n' \<longleftrightarrow> e = e' \<and> n = n'"
  by (simp add: aid_def)

lemma reclaim_legal: "legal (store_step demo_env) (op_ok demo_D) reclaim_ops empty_store"
  by (simp add: reclaim_ops_def demo_defs demo_exec_simps)

lemma reclaim_execution:
  "map_option x_attempt_count
     (dget (s_executions (runs (store_step demo_env) reclaim_ops empty_store)) ''e1'') = Some 2"
  by (simp add: reclaim_ops_def demo_defs demo_exec_simps)

lemma reclaim_attempt:
  "map_option (\<lambda>a. (a_execution_id a, a_attempt_number a))
     (dget (s_attempts (runs (store_step demo_env) reclaim_ops empty_store)) (aid demo_env ''e1'' 1))
     = Some (''e1'', 1)"
  by (simp add: reclaim_ops_def demo_defs demo_exec_simps)

theorem exec_superseded_fenced_witness:
  "\<exists>l. complete_execution demo_env (runs (store_step demo_env) reclaim_ops empty_store) ''e1''
     (Some (aid demo_env ''e1'' 1)) [] 9 ''w1'' None None
     = (Inr (Lost l), runs (store_step demo_env) reclaim_ops empty_store)"
proof -
  obtain x a where
    "dget (s_executions (runs (store_step demo_env) reclaim_ops empty_store)) ''e1'' = Some x"
    "x_attempt_count x = 2"
    "dget (s_attempts (runs (store_step demo_env) reclaim_ops empty_store)) (aid demo_env ''e1'' 1) = Some a"
    "a_execution_id a = ''e1''" "a_attempt_number a = 1"
    using reclaim_execution reclaim_attempt by auto
  then show ?thesis
    using exec_superseded_fenced [OF no_collision_demo [of demo_D] reclaim_legal refl] by simp
qed

text \<open>A completion that reports the moved execution either found it completed by
  the same attempt, or went through a held claim.\<close>

lemma complete_moved:
  assumes "complete_execution env s e aid' res t w cat conf = (Inr (Moved x), s')"
  shows "s' = s \<and> x_state x = COMPLETED \<and> dget (s_executions s) e = Some x \<and>
      (\<exists>a. load_attempt_for_transition s e aid' w x = Inr a \<and> a_state a = A_COMPLETED) \<or>
    (\<exists>y a. holds_claim s e aid' w y a)"
proof (cases "require_execution s e")
  case (Inl err)
  then show ?thesis using assms by (simp add: complete_execution_def)
next
  case y: (Inr y)
  show ?thesis
  proof (cases "load_attempt_for_transition s e aid' w y")
    case (Inl l)
    then show ?thesis using assms y by (simp add: complete_execution_def)
  next
    case a: (Inr a)
    show ?thesis
    proof (cases "x_state y = COMPLETED")
      case True
      then have "a_state a = A_COMPLETED \<and> x = y \<and> s' = s"
        using assms y a by (simp add: complete_execution_def split: if_splits)
      with True y a show ?thesis by (simp add: require_execution_Inr)
    next
      case False
      then have "transition_claim_lost e aid' w y a = None"
        using assms y a by (cases "transition_claim_lost e aid' w y a") (auto simp: complete_execution_def)
      then have "holds_claim s e aid' w y a"
        using y a by (simp add: holds_claim_def load_attempt_Inr transition_claim_lost_None require_execution_Inr)
      then show ?thesis by blast
    qed
  qed
qed

lemma complete_again:
  assumes "dget (s_executions s) e = Some x" "x_state x = COMPLETED"
    and "load_attempt_for_transition s e aid' w x = Inr a" "a_state a = A_COMPLETED"
  shows "complete_execution env s e aid' res t w cat conf = (Inr (Moved x), s)"
  using assms by (simp add: complete_execution_def require_execution_def)

text \<open>Completion is idempotent.  After a completion that moved the execution,
  completing it again through the same attempt and worker, whatever result and
  time are passed, returns the recorded execution and changes nothing.\<close>

theorem exec_complete_idempotent:
  assumes "exec_inv env D s"
    and "complete_execution env s e aid' res t w cat conf = (Inr (Moved x), s')"
  shows "complete_execution env s' e aid' res' t' w cat' conf' = (Inr (Moved x), s')"
  using complete_moved [OF assms(2)]
proof
  assume "\<exists>y a. holds_claim s e aid' w y a"
  then obtain y b where H: "holds_claim s e aid' w y b" by blast
  then obtain i where i: "aid' = Some i" "dget (s_attempts s) i = Some b" by (auto simp: holds_claim_def)
  have bi: "a_attempt_id b = i" using attempts_okD(1) [OF exec_invD(5) [OF assms(1)] i(2)] .
  have step: "require_execution s e = Inr y" "load_attempt_for_transition s e aid' w y = Inr b"
    "transition_claim_lost e aid' w y b = None" "x_state y = CLAIMED"
    using H by (auto simp: holds_claim_def load_attempt_Inr transition_claim_lost_None require_execution_Inr)
  obtain r where r: "from_dict env res = Inr r"
    using assms(2) step by (cases "from_dict env res") (auto simp: complete_execution_def)
  obtain a' where x: "x_state x = COMPLETED" "s' = put_execution x e (put_attempt a' i s)"
    "a_state a' = A_COMPLETED" "a_execution_id a' = a_execution_id b" "a_worker_id a' = a_worker_id b"
    using assms(2) step r bi by (auto simp: complete_execution_def Let_def)
  show ?thesis
    by (rule complete_again [where a = a'])
      (use x i H in \<open>auto simp: load_attempt_Inr holds_claim_def\<close>)
qed (auto intro: complete_again)

lemma demo_inv: "exec_inv demo_env demo_D (runs (store_step demo_env) demo_ops empty_store)"
  by (rule exec.runs_inv [OF exec_inv_empty [OF no_collision_demo] demo_legal])

theorem exec_complete_idempotent_witness:
  "\<exists>x s'. complete_execution demo_env (runs (store_step demo_env) demo_ops empty_store) ''e1''
       (Some (aid demo_env ''e1'' 1)) [] 9 ''w1'' None None = (Inr (Moved x), s') \<and>
     complete_execution demo_env s' ''e1'' (Some (aid demo_env ''e1'' 1)) [] 77 ''w1'' None None
       = (Inr (Moved x), s')"
proof -
  obtain x s' where *: "complete_execution demo_env (runs (store_step demo_env) demo_ops empty_store)
      ''e1'' (Some (aid demo_env ''e1'' 1)) [] 9 ''w1'' None None = (Inr (Moved x), s')"
    using demo_store
    by (simp add: complete_execution_def require_execution_def load_attempt_for_transition_def
        transition_claim_lost_def from_dict_Nil Let_def claimed_execution_def new_attempt_def
        demo_execution_def)
  then show ?thesis using exec_complete_idempotent [OF demo_inv *] by blast
qed

text \<open>Recovery.  In every reachable store the recovery of an execution never
  raises; it reopens the execution exactly when it is claimed and its claim is
  not newer than the cutoff, and then the running attempt is failed with a retry
  requested, the execution is requested again without a worker, and every other
  execution and attempt is as before.\<close>

theorem exec_recovery:
  assumes "no_collision env D"
    and "legal (store_step env) (op_ok D) ops empty_store"
    and "s = runs (store_step env) ops empty_store"
    and "recover_stale_execution env s e stale t reason = (res, s')"
  shows "(case dget (s_executions s) e of
      Some x \<Rightarrow>
        if x_state x = CLAIMED \<and> (\<exists>c. x_claimed_at x = Some c \<and> c \<le> stale)
        then (\<exists>a x' a'. res = Inr (Some \<lparr>c_execution = x', c_attempt = a'\<rparr>) \<and>
          dget (s_attempts s) (aid env e (x_attempt_count x)) = Some a \<and> a_state a = A_RUNNING \<and>
          a_state a' = A_FAILED \<and> a_retry_requested a' \<and>
          x_state x' = REQUESTED \<and> x_worker_id x' = None \<and> x_attempt_count x' = x_attempt_count x \<and>
          s' = put_execution x' e (put_attempt a' (aid env e (x_attempt_count x)) s))
        else res = Inr None \<and> s' = s
    | None \<Rightarrow> res = Inr None \<and> s' = s)"
proof -
  have inv: "exec_inv env D s"
    using exec.runs_inv [OF exec_inv_empty [OF assms(1)] assms(2)] assms(3) by simp
  from inv show ?thesis
  proof (cases rule: recover_stale_execution_cases [where e = e and stale = stale and t = t and reason = reason])
    case kept
    have "res = Inr None" "s' = s" using kept(1) assms(4) by simp_all
    moreover have "\<not> (x_state x = CLAIMED \<and> (\<exists>c. x_claimed_at x = Some c \<and> c \<le> stale))"
      if "dget (s_executions s) e = Some x" for x
      using kept(2) [OF that] by auto
    ultimately show ?thesis by (cases "dget (s_executions s) e") simp_all
  next
    case (recovered x a x' a' c)
    from recovered(5) have H: "dget (s_attempts s) (a_attempt_id a) = Some a" "a_execution_id a = e"
      "a_attempt_number a = x_attempt_count x" by (simp_all add: holds_claim_def)
    have i: "a_attempt_id a = aid env e (x_attempt_count x)"
      "dget (s_attempts s) (aid env e (x_attempt_count x)) = Some a"
      using attempts_okD(2) [OF exec_invD(5) [OF inv] H(1)] H by simp_all
    have res: "res = Inr (Some \<lparr>c_execution = x', c_attempt = a'\<rparr>)"
      "s' = put_execution x' e (put_attempt a' (aid env e (x_attempt_count x)) s)"
      using recovered(8) assms(4) i(1) by simp_all
    have run: "a_state a = A_RUNNING" using recovered(5) by (simp add: holds_claim_def)
    have new: "a_state a' = A_FAILED" "a_retry_requested a'" "x_state x' = REQUESTED"
      "x_worker_id x' = None" "x_attempt_count x' = x_attempt_count x"
      by (simp_all add: recovered(6,7))
    have stale_claim: "x_state x = CLAIMED \<and> (\<exists>c. x_claimed_at x = Some c \<and> c \<le> stale)"
      using recovered(2-4) by blast
    show ?thesis
      unfolding recovered(1) option.case if_P [OF stale_claim]
      using res i(2) run new by blast
  qed
qed

theorem exec_recovery_witness:
  "\<exists>x' a' s'. recover_stale_execution demo_env (runs (store_step demo_env) demo_ops empty_store)
     ''e1'' 6 7 ''expired'' = (Inr (Some \<lparr>c_execution = x', c_attempt = a'\<rparr>), s') \<and> x_state x' = REQUESTED"
proof -
  obtain res s' where *: "recover_stale_execution demo_env (runs (store_step demo_env) demo_ops empty_store)
     ''e1'' 6 7 ''expired'' = (res, s')" by (cases "recover_stale_execution demo_env
       (runs (store_step demo_env) demo_ops empty_store) ''e1'' 6 7 ''expired''")
  then show ?thesis
    using exec_recovery [OF no_collision_demo demo_legal refl *] demo_store(1)
    by (auto simp: claimed_execution_def)
qed

text \<open>Admission is idempotent.  In every reachable store a dispatch key (tenant,
  dispatch, kind) names at most one execution, and requesting that key again
  returns the recorded execution and leaves the store as it was.\<close>

theorem exec_admission_idempotent:
  assumes "no_collision env D"
    and "legal (store_step env) (op_ok D) ops empty_store"
    and "s = runs (store_step env) ops empty_store"
    and "dget (s_executions s) e = Some x" and "dispatch_key y = dispatch_key x"
  shows "request_execution s y r = (Inr x, s) \<and>
    (\<forall>f z. dget (s_executions s) f = Some z \<longrightarrow> dispatch_key z = dispatch_key x \<longrightarrow> f = e)"
proof -
  have "dispatch_ok s"
    using exec_invD(7) [OF exec.runs_inv [OF exec_inv_empty [OF assms(1)] assms(2)]] assms(3) by simp
  then have key: "\<And>f. dget (s_by_dispatch s) (dispatch_key x) = Some f \<longleftrightarrow>
      (\<exists>z. dget (s_executions s) f = Some z \<and> dispatch_key z = dispatch_key x)"
    unfolding dispatch_ok_def by blast
  then have e: "dget (s_by_dispatch s) (dispatch_key x) = Some e" using assms(4) by blast
  have unique: "f = e" if "dget (s_executions s) f = Some z" "dispatch_key z = dispatch_key x" for f z
  proof -
    have "dget (s_by_dispatch s) (dispatch_key x) = Some f" using key that by blast
    with e show ?thesis by simp
  qed
  have "request_execution s y r = (Inr x, s)"
    using assms(4,5) e by (simp add: request_execution_def)
  with unique show ?thesis by blast
qed

theorem exec_admission_idempotent_witness:
  "request_execution (runs (store_step demo_env) demo_ops empty_store) demo_execution demo_outbox
     = (Inr (claimed_execution demo_execution ''w1'' 5), runs (store_step demo_env) demo_ops empty_store)"
  by (rule exec_admission_idempotent [OF no_collision_demo demo_legal refl demo_store(1), THEN conjunct1])
    (simp add: claimed_execution_def dispatch_key_def)

section \<open>Pages of executions\<close>

definition query_matches :: "execution_query \<Rightarrow> string option \<Rightarrow> execution_record \<Rightarrow> bool" where
  "query_matches q tenant r \<longleftrightarrow>
     tenant_visible (x_tenant_id r) tenant \<and> tenant_visible (x_tenant_id r) (q_tenant_id q) \<and>
     (\<forall>i. q_execution_id q = Some i \<longrightarrow> x_execution_id r = i) \<and>
     (\<forall>k. q_kind q = Some k \<longrightarrow> x_kind r = k) \<and>
     (\<forall>d. q_dispatch_id q = Some d \<longrightarrow> x_dispatch_id r = d) \<and>
     (\<forall>i. q_session_id q = Some i \<longrightarrow> x_session_id r = i) \<and>
     (\<forall>st. q_state q = Some st \<longrightarrow> x_state r = st) \<and>
     (\<forall>t. q_requested_after_or_at q = Some t \<longrightarrow> t \<le> x_requested_at r) \<and>
     (\<forall>t. q_failed_after_or_at q = Some t \<longrightarrow> (\<exists>u. x_failed_at r = Some u \<and> t \<le> u)) \<and>
     (\<forall>t. q_claimed_before_or_at q = Some t \<longrightarrow> (\<exists>u. x_claimed_at r = Some u \<and> u \<le> t))"

lemma set_execution_rows:
  "set (execution_rows s q tenant) = {r \<in> set (dvals (s_executions s)). query_matches q tenant r}"
  unfolding execution_rows_def Let_def set_sort set_narrow query_matches_def tenant_visible_def
  by (auto split: option.splits)

lemma execution_rows_sorted: "sorted (map execution_sort_key (execution_rows s q tenant))"
  by (simp add: execution_rows_def Let_def)

text \<open>Execution pages.  Over a well-formed store, the rows of the pages of one
  query are exactly the stored executions that match it, in order of request time
  and identity; the reported total counts them, and two consecutive pages
  concatenate to the page of their joint length.\<close>

theorem exec_pages:
  assumes "wf_dict (s_executions s)" and "0 \<le> off" "0 \<le> m" "0 \<le> n"
  shows "set (p_rows (list_executions s (q\<lparr>q_offset := 0, q_limit := p_total (list_executions s q tenant)\<rparr>) tenant))
      = {r. (\<exists>e. dget (s_executions s) e = Some r) \<and> query_matches q tenant r} \<and>
    sorted (map execution_sort_key (p_rows (list_executions s q tenant))) \<and>
    p_rows (list_executions s (q\<lparr>q_offset := off, q_limit := m\<rparr>) tenant) @
      p_rows (list_executions s (q\<lparr>q_offset := off + m, q_limit := n\<rparr>) tenant)
      = p_rows (list_executions s (q\<lparr>q_offset := off, q_limit := m + n\<rparr>) tenant)"
proof -
  have rows: "execution_rows s (q\<lparr>q_offset := a, q_limit := b\<rparr>) tenant = execution_rows s q tenant" for a b
    by (simp add: execution_rows_def)
  have "set (execution_rows s q tenant) = {r. (\<exists>e. dget (s_executions s) e = Some r) \<and> query_matches q tenant r}"
    unfolding set_execution_rows using in_dvals_iff [OF assms(1)] by auto
  moreover have "py_slice (execution_rows s q tenant) 0 (int (length (execution_rows s q tenant)))
      = execution_rows s q tenant"
    by (rule py_slice_all) simp
  ultimately show ?thesis
    using py_slice_pages [OF assms(2-4), of "execution_rows s q tenant"]
      sorted_py_slice [OF execution_rows_sorted [of s q tenant]]
    by (simp add: list_executions_def Let_def rows add.assoc)
qed

theorem exec_pages_witness:
  "p_rows (list_executions (runs (store_step demo_env) demo_ops empty_store)
       (default_execution_query\<lparr>q_offset := 0, q_limit := 0\<rparr>) None) @
     p_rows (list_executions (runs (store_step demo_env) demo_ops empty_store)
       (default_execution_query\<lparr>q_offset := 0 + 0, q_limit := 1\<rparr>) None)
     = p_rows (list_executions (runs (store_step demo_env) demo_ops empty_store)
       (default_execution_query\<lparr>q_offset := 0, q_limit := 0 + 1\<rparr>) None)"
  using exec_pages [OF exec_invD(2) [OF demo_inv], of 0 0 1 default_execution_query None] by simp

end
