(* ===== verification/Execution_Outbox.thy ===== *)
theory Execution_Outbox
  imports Execution_Safety
begin

text \<open>
  The outbox half of the execution store: every row is the transport intent of
  one execution, leased to one publisher at a time.  The claim identity handed to
  a publisher is derived from the row, the publisher and the number of the lease,
  so it works as a fencing token as long as it is derived from the row that is claimed
  (what happens otherwise is in \<open>Execution_Authority\<close>); the store's rows satisfy the
  \<open>lease_counter\<close> contract, and a published row is final.
\<close>

section \<open>Frame facts\<close>

text \<open>The worker transitions do not touch the outbox and forget no execution.\<close>

definition same_outbox :: "exec_store \<Rightarrow> exec_store \<Rightarrow> bool" where
  "same_outbox s s' \<longleftrightarrow> s_outbox s' = s_outbox s \<and> s_outbox_by_execution s' = s_outbox_by_execution s \<and>
     (\<forall>e. dget (s_executions s) e \<noteq> None \<longrightarrow> dget (s_executions s') e \<noteq> None)"

lemma same_outbox_refl [simp]: "same_outbox s s"
  by (simp add: same_outbox_def)

lemma same_outbox_put [simp]: "same_outbox s (put_execution x e (put_attempt a i s))"
  by (simp add: same_outbox_def)

lemma worker_same_outbox [simp]:
  shows complete_same_outbox: "same_outbox s (snd (complete_execution env s e aid' res t w cat conf))"
    and fail_same_outbox: "same_outbox s (snd (fail_execution env s e aid' err t retry w res))"
    and dead_letter_same_outbox: "same_outbox s (snd (dead_letter_execution env s e aid' err t w res))"
proof -
  show "same_outbox s (snd (complete_execution env s e aid' res t w cat conf))"
    by (rule complete_execution_cases [of env s e aid' res t w cat conf]) simp_all
  show "same_outbox s (snd (fail_execution env s e aid' err t retry w res))"
    by (rule fail_execution_cases [of env s e aid' err t retry w res]) simp_all
  show "same_outbox s (snd (dead_letter_execution env s e aid' err t w res))"
    by (rule dead_letter_execution_cases [of env s e aid' err t w res]) simp_all
qed

lemma claim_same_outbox [simp]: "same_outbox s (snd (claim_execution env s e w t))"
  by (auto simp: claim_execution_def append_attempt_id_def same_outbox_def Let_def
      split: option.splits sum.splits)

lemma recover_same_outbox [simp]: "same_outbox s (snd (recover_stale_execution env s e stale t reason))"
  by (auto simp: recover_stale_execution_def same_outbox_def Let_def
      split: option.splits sum.splits)

section \<open>Rows as leases\<close>

fun outbox_phase :: "execution_outbox_state \<Rightarrow> lease_phase" where
  "outbox_phase PENDING = Waiting"
| "outbox_phase PUBLISHING = Leased"
| "outbox_phase PUBLISHED = Delivered"
| "outbox_phase OUTBOX_FAILED = Undelivered"

definition outbox_lease :: "outbox_record \<Rightarrow> lease" where
  "outbox_lease r = \<lparr>l_phase = outbox_phase (o_state r), l_claim = o_claim_id r,
     l_count = o_publish_attempt_count r\<rparr>"

lemma outbox_lease_simps [simp]:
  "l_phase (outbox_lease r) = outbox_phase (o_state r)" "l_claim (outbox_lease r) = o_claim_id r"
  "l_count (outbox_lease r) = o_publish_attempt_count r"
  by (simp_all add: outbox_lease_def)

lemma outbox_phase_iff [simp]:
  "outbox_phase st = Waiting \<longleftrightarrow> st = PENDING" "outbox_phase st = Leased \<longleftrightarrow> st = PUBLISHING"
  "outbox_phase st = Delivered \<longleftrightarrow> st = PUBLISHED" "outbox_phase st = Undelivered \<longleftrightarrow> st = OUTBOX_FAILED"
  by (cases st; simp)+

definition outbox_view :: "exec_store \<Rightarrow> string \<Rightarrow> lease option" where
  "outbox_view s k = map_option outbox_lease (dget (s_outbox s) k)"

text \<open>The token of lease \<open>n\<close> of row \<open>k\<close> granted to publisher \<open>p\<close>.\<close>

definition lease_token :: "py_env \<Rightarrow> string \<Rightarrow> string \<Rightarrow> int \<Rightarrow> string" where
  "lease_token env k p n = uuid5 env OUTBOX_CLAIM_NAMESPACE (claim_seed k p n)"

definition tokens_unique :: "py_env \<Rightarrow> (string \<times> string \<times> int) set \<Rightarrow> bool" where
  "tokens_unique env X \<longleftrightarrow> inj_on (\<lambda>(k, p, n). lease_token env k p n) X"

definition outbox_ids_unique :: "py_env \<Rightarrow> string set \<Rightarrow> bool" where
  "outbox_ids_unique env E \<longleftrightarrow> inj_on (derive_outbox_id env) E"

definition issued_token :: "py_env \<Rightarrow> (string \<times> string \<times> int) set \<Rightarrow> string \<Rightarrow> string \<Rightarrow> int \<Rightarrow> bool" where
  "issued_token env X c k n \<longleftrightarrow>
     tokens_unique env X \<and> (\<exists>p. (k, p, n) \<in> X \<and> c = lease_token env k p n)"

lemma issued_token_unique: "issued_token env X c k m \<Longrightarrow> issued_token env X c k n \<Longrightarrow> m = n"
  unfolding issued_token_def tokens_unique_def inj_on_def by fastforce

definition outbox_row_ok ::
  "py_env \<Rightarrow> string set \<Rightarrow> (string \<times> string \<times> int) set \<Rightarrow> exec_store \<Rightarrow> string \<Rightarrow> outbox_record \<Rightarrow> bool" where
  "outbox_row_ok env E X s k r \<longleftrightarrow>
     o_outbox_id r = k \<and> o_execution_id r \<in> E \<and> k = derive_outbox_id env (o_execution_id r) \<and>
     dget (s_executions s) (o_execution_id r) \<noteq> None \<and> 0 \<le> o_publish_attempt_count r \<and>
     (\<forall>c. o_claim_id r = Some c \<longrightarrow> issued_token env X c k (o_publish_attempt_count r))"

definition outbox_index_ok :: "exec_store \<Rightarrow> bool" where
  "outbox_index_ok s \<longleftrightarrow>
     (\<forall>e k. dget (s_outbox_by_execution s) e = Some k \<longleftrightarrow>
        (\<exists>r. dget (s_outbox s) k = Some r \<and> o_execution_id r = e))"

definition outbox_inv ::
  "py_env \<Rightarrow> string set \<Rightarrow> (string \<times> string \<times> int) set \<Rightarrow> exec_store \<Rightarrow> bool" where
  "outbox_inv env E X s \<longleftrightarrow>
     outbox_ids_unique env E \<and> tokens_unique env X \<and>
     (\<forall>k r. dget (s_outbox s) k = Some r \<longrightarrow> outbox_row_ok env E X s k r) \<and> outbox_index_ok s"

text \<open>What the callers guarantee: a requested row is fresh, as the runtime builds
  it, and a claim carries the token derived from the row as it is when claimed.\<close>

fun outbox_op_ok ::
  "py_env \<Rightarrow> string set \<Rightarrow> (string \<times> string \<times> int) set \<Rightarrow> store_op \<Rightarrow> exec_store \<Rightarrow> bool" where
  "outbox_op_ok env E X (Request x r) s \<longleftrightarrow>
     x_execution_id x \<in> E \<and> o_execution_id r = x_execution_id x \<and>
     o_outbox_id r = derive_outbox_id env (x_execution_id x) \<and> o_state r = PENDING \<and>
     o_claim_id r = None \<and> o_publish_attempt_count r = 0"
| "outbox_op_ok env E X (ClaimOutbox e p c t) s \<longleftrightarrow>
     (\<forall>r. get_outbox_by_execution s e = Some r \<longrightarrow>
        c = lease_token env (o_outbox_id r) p (o_publish_attempt_count r + 1) \<and>
        (o_outbox_id r, p, o_publish_attempt_count r + 1) \<in> X)"
| "outbox_op_ok env E X _ s \<longleftrightarrow> True"

lemma outbox_invD:
  assumes "outbox_inv env E X s"
  shows "outbox_ids_unique env E" "tokens_unique env X"
    "dget (s_outbox s) k = Some r \<Longrightarrow> outbox_row_ok env E X s k r"
    "outbox_index_ok s"
  using assms unfolding outbox_inv_def by blast+

lemma outbox_inv_empty:
  "outbox_ids_unique env E \<Longrightarrow> tokens_unique env X \<Longrightarrow> outbox_inv env E X empty_store"
  by (simp add: outbox_inv_def outbox_index_ok_def empty_store_def)

section \<open>Steps\<close>

text \<open>An outbox operation rewrites one unpublished row, or nothing.\<close>

definition row_move :: "outbox_record \<Rightarrow> outbox_record \<Rightarrow> bool" where
  "row_move r r' \<longleftrightarrow> o_state r \<noteq> PUBLISHED \<and> o_outbox_id r' = o_outbox_id r \<and>
     o_execution_id r' = o_execution_id r \<and> lease_move (outbox_lease r) (outbox_lease r') \<and>
     (o_claim_id r' = None \<or>
      o_claim_id r' = o_claim_id r \<and> o_publish_attempt_count r' = o_publish_attempt_count r)"

definition row_claimed :: "py_env \<Rightarrow> (string \<times> string \<times> int) set \<Rightarrow> outbox_record \<Rightarrow> outbox_record \<Rightarrow> bool" where
  "row_claimed env X r r' \<longleftrightarrow> o_state r = PENDING \<and> o_outbox_id r' = o_outbox_id r \<and>
     o_execution_id r' = o_execution_id r \<and> lease_move (outbox_lease r) (outbox_lease r') \<and>
     (\<exists>p. o_claim_id r' = Some (lease_token env (o_outbox_id r) p (o_publish_attempt_count r')) \<and>
          (o_outbox_id r, p, o_publish_attempt_count r') \<in> X)"

definition rewrites_row :: "exec_store \<Rightarrow> string \<Rightarrow> exec_store \<Rightarrow> bool" where
  "rewrites_row s k s' \<longleftrightarrow>
     s' = s \<or> (\<exists>r r'. dget (s_outbox s) k = Some r \<and> row_move r r' \<and> s' = put_outbox r' k s)"

lemma rewrites_rowI:
  "dget (s_outbox s) k = Some r \<Longrightarrow> row_move r r' \<Longrightarrow> rewrites_row s k (put_outbox r' k s)"
  by (auto simp: rewrites_row_def)

lemma rewrites_row_refl [simp]: "rewrites_row s k s"
  by (simp add: rewrites_row_def)

lemma mark_published_rewrites: "rewrites_row s k (snd (mark_outbox_published s k c t))"
  by (auto simp: mark_outbox_published_def require_outbox_def row_move_def lease_move_def Let_def
      intro!: rewrites_rowI split: option.splits)

lemma mark_failed_rewrites: "rewrites_row s k (snd (mark_outbox_failed env s k c err t))"
  by (auto simp: mark_outbox_failed_def require_outbox_def row_move_def lease_move_def Let_def
      intro!: rewrites_rowI split: option.splits)

lemma requeue_stale_rewrites: "rewrites_row s k (snd (requeue_stale_outbox s k stale reason))"
  by (auto simp: requeue_stale_outbox_def row_move_def lease_move_def Let_def
      intro!: rewrites_rowI split: option.splits)

lemma requeue_failed_rewrites:
  "rewrites_row s k (snd (requeue_failed_outbox env s k before t reason m tenant))"
  by (auto simp: requeue_failed_outbox_def row_move_def lease_move_def Let_def
      intro!: rewrites_rowI split: option.splits)

lemma claim_outbox_cases:
  assumes inv: "outbox_inv env E X s" and ok: "outbox_op_ok env E X (ClaimOutbox e p c t) s"
  obtains (kept) "snd (claim_outbox_for_execution s e p c t) = s"
  | (moved) k r r' where "dget (s_outbox s) k = Some r" "row_claimed env X r r'"
      "snd (claim_outbox_for_execution s e p c t) = put_outbox r' k s"
proof (cases "get_outbox_by_execution s e")
  case None
  then show ?thesis using kept by (simp add: claim_outbox_for_execution_def)
next
  case (Some r)
  then have r: "dget (s_outbox s) (o_outbox_id r) = Some r"
    using outbox_invD(3) [OF inv]
    by (auto simp: get_outbox_by_execution_def outbox_row_ok_def split: option.splits)
  show ?thesis
  proof (cases "o_state r = PENDING")
    case True
    from Some r ok show ?thesis
      by (intro moved [OF r])
        (auto simp: claim_outbox_for_execution_def row_claimed_def lease_move_def Let_def True)
  qed (use Some kept in \<open>simp add: claim_outbox_for_execution_def\<close>)
qed

lemma put_row_inv:
  assumes inv: "outbox_inv env E X s" and r: "dget (s_outbox s) k = Some r"
    and move: "row_move r r' \<or> row_claimed env X r r'"
  shows "outbox_inv env E X (put_outbox r' k s)"
proof -
  have "outbox_row_ok env E X s k r" using outbox_invD(3) [OF inv r] .
  then have "outbox_row_ok env E X s k r'"
    using move outbox_invD(2) [OF inv]
    by (auto simp: outbox_row_ok_def row_move_def row_claimed_def lease_move_def issued_token_def)
  moreover have "o_execution_id r' = o_execution_id r"
    using move by (auto simp: row_move_def row_claimed_def)
  moreover have "outbox_index_ok (put_outbox r' k s)"
    using outbox_invD(4) [OF inv] r calculation(2) by (fastforce simp: outbox_index_ok_def)
  ultimately show ?thesis
    using inv r unfolding outbox_inv_def outbox_row_ok_def by auto
qed

lemma same_outbox_inv: "outbox_inv env E X s \<Longrightarrow> same_outbox s s' \<Longrightarrow> outbox_inv env E X s'"
  unfolding outbox_inv_def same_outbox_def outbox_row_ok_def outbox_index_ok_def by auto

text \<open>An admitted execution is new, so its row is.\<close>

lemma new_row_fresh:
  assumes inv: "outbox_inv env E X s" and "e \<in> E" "dget (s_executions s) e = None"
  shows "dget (s_outbox s) (derive_outbox_id env e) = None"
proof (rule ccontr)
  assume "dget (s_outbox s) (derive_outbox_id env e) \<noteq> None"
  then obtain q where "dget (s_outbox s) (derive_outbox_id env e) = Some q" by blast
  then have "outbox_row_ok env E X s (derive_outbox_id env e) q" using outbox_invD(3) [OF inv] by blast
  then have q: "o_execution_id q \<in> E" "derive_outbox_id env e = derive_outbox_id env (o_execution_id q)"
    "dget (s_executions s) (o_execution_id q) \<noteq> None"
    unfolding outbox_row_ok_def by blast+
  have "e = o_execution_id q"
    by (rule inj_onD [OF outbox_invD(1) [OF inv, unfolded outbox_ids_unique_def] q(2) assms(2) q(1)])
  with q(3) assms(3) show False by simp
qed

lemma request_cases:
  obtains (kept) "snd (request_execution s x r) = s"
  | (new) s' where "snd (request_execution s x r) = s'" "dget (s_executions s) (x_execution_id x) = None"
      "s_executions s' = dset (x_execution_id x) x (s_executions s)"
      "s_outbox s' = dset (o_outbox_id r) r (s_outbox s)"
      "s_outbox_by_execution s' = dset (o_execution_id r) (o_outbox_id r) (s_outbox_by_execution s)"
proof (cases "dget (s_by_dispatch s) (dispatch_key x) = None \<and> dget (s_executions s) (x_execution_id x) = None")
  case True
  then show ?thesis by (intro new [OF refl]) (simp_all add: request_execution_def)
next
  case False
  then have "snd (request_execution s x r) = s"
    by (auto simp: request_execution_def split: option.split)
  then show ?thesis by (rule kept)
qed

lemma request_outbox_inv:
  assumes inv: "outbox_inv env E X s" and ok: "outbox_op_ok env E X (Request x r) s"
  shows "outbox_inv env E X (snd (request_execution s x r))"
proof (rule request_cases [of s x r])
  fix s' assume s': "snd (request_execution s x r) = s'"
    and new: "dget (s_executions s) (x_execution_id x) = None"
    and upd: "s_executions s' = dset (x_execution_id x) x (s_executions s)"
      "s_outbox s' = dset (o_outbox_id r) r (s_outbox s)"
      "s_outbox_by_execution s' = dset (o_execution_id r) (o_outbox_id r) (s_outbox_by_execution s)"
  have fresh: "dget (s_outbox s) (o_outbox_id r) = None"
    using new_row_fresh [OF inv _ new] ok by simp
  have "outbox_row_ok env E X s' k q" if "dget (s_outbox s') k = Some q" for k q
    using that ok outbox_invD(3) [OF inv, of k q]
    by (auto simp: outbox_row_ok_def upd split: if_splits)
  moreover have "outbox_index_ok s'"
    unfolding outbox_index_ok_def
  proof (intro allI)
    fix e k
    have old: "dget (s_outbox_by_execution s) e = Some k \<longleftrightarrow>
        (\<exists>q. dget (s_outbox s) k = Some q \<and> o_execution_id q = e)"
      using outbox_invD(4) [OF inv] by (simp add: outbox_index_ok_def)
    have "dget (s_executions s) e \<noteq> None" if "dget (s_outbox s) k = Some q" "o_execution_id q = e" for q
      using outbox_invD(3) [OF inv that(1)] that(2) by (auto simp: outbox_row_ok_def)
    then show "dget (s_outbox_by_execution s') e = Some k \<longleftrightarrow>
        (\<exists>q. dget (s_outbox s') k = Some q \<and> o_execution_id q = e)"
      using old fresh new ok by (auto simp: upd)
  qed
  ultimately show ?thesis using outbox_invD(1,2) [OF inv] by (simp add: s' outbox_inv_def)
qed (use inv in simp)

text \<open>Each step keeps the invariant and moves every row as a lease may move.\<close>

lemma outbox_step_cases:
  assumes inv: "outbox_inv env E X s" and ok: "outbox_op_ok env E X op s"
  obtains (same) "same_outbox s (store_step env op s)"
  | (request) x r where "op = Request x r"
  | (moved) k r r' where "dget (s_outbox s) k = Some r" "row_move r r' \<or> row_claimed env X r r'"
      "store_step env op s = put_outbox r' k s"
proof (cases op)
  case (ClaimOutbox e p c t)
  from inv ok [unfolded ClaimOutbox] show ?thesis
    by (rule claim_outbox_cases) (use ClaimOutbox same moved in auto)
next
  case (MarkPublished k c t)
  then show ?thesis
    using mark_published_rewrites [of s k c t] same moved unfolding rewrites_row_def by auto
next
  case (MarkFailed k c err t)
  then show ?thesis
    using mark_failed_rewrites [of s k env c err t] same moved unfolding rewrites_row_def by auto
next
  case (RequeueStale k stale reason)
  then show ?thesis
    using requeue_stale_rewrites [of s k stale reason] same moved unfolding rewrites_row_def by auto
next
  case (RequeueFailed k before t reason m tenant)
  then show ?thesis
    using requeue_failed_rewrites [of s k env before t reason m tenant] same moved
    unfolding rewrites_row_def by auto
qed (use same request in auto)

lemma outbox_step_inv:
  assumes "outbox_inv env E X s" "outbox_op_ok env E X op s"
  shows "outbox_inv env E X (store_step env op s)"
  using assms
proof (cases rule: outbox_step_cases)
  case (request x r)
  then show ?thesis using request_outbox_inv assms by simp
qed (use assms in \<open>auto intro: same_outbox_inv put_row_inv\<close>)

lemma request_keeps_rows:
  assumes inv: "outbox_inv env E X s" and ok: "outbox_op_ok env E X (Request x r) s"
    and q: "dget (s_outbox s) k = Some q"
  shows "dget (s_outbox (snd (request_execution s x r))) k = Some q"
proof (rule request_cases [of s x r])
  fix s' assume "snd (request_execution s x r) = s'" "dget (s_executions s) (x_execution_id x) = None"
    "s_outbox s' = dset (o_outbox_id r) r (s_outbox s)"
  moreover have "k \<noteq> o_outbox_id r"
    using new_row_fresh [OF inv _ calculation(2)] ok q by auto
  ultimately show ?thesis using q by simp
qed (use q in simp)

lemma step_row:
  assumes inv: "outbox_inv env E X s" and ok: "outbox_op_ok env E X op s"
    and q: "dget (s_outbox s) k = Some q"
  shows "\<exists>q'. dget (s_outbox (store_step env op s)) k = Some q' \<and>
    (q' = q \<or> row_move q q' \<or> row_claimed env X q q')"
  using inv ok
proof (cases rule: outbox_step_cases)
  case same
  then show ?thesis using q by (simp add: same_outbox_def)
next
  case (request x r)
  then show ?thesis using request_keeps_rows [OF inv] ok q by simp
next
  case (moved j r r')
  then show ?thesis using q by (cases "j = k") auto
qed

interpretation exec_lease: lease_counter "store_step env" "outbox_op_ok env E X" "outbox_inv env E X"
    outbox_view "issued_token env X"
  for env :: py_env and E :: "string set" and X :: "(string \<times> string \<times> int) set"
proof (unfold_locales, goal_cases)
  case (1 s op)
  then show ?case by (rule outbox_step_inv)
next
  case (2 s op k l)
  then obtain r where r: "dget (s_outbox s) k = Some r" "l = outbox_lease r"
    by (auto simp: outbox_view_def)
  with step_row [OF 2(1,2) r(1)] show ?case
    by (auto simp: outbox_view_def row_move_def row_claimed_def)
next
  case (3 s k l c)
  then show ?case using outbox_invD(3) [OF 3(1)]
    by (auto simp: outbox_view_def outbox_row_ok_def)
qed (rule issued_token_unique)

definition published_row :: "exec_store \<Rightarrow> string \<Rightarrow> outbox_record option" where
  "published_row s k =
     (case dget (s_outbox s) k of
        None \<Rightarrow> None | Some r \<Rightarrow> if o_state r = PUBLISHED then Some r else None)"

lemma published_row_Some:
  "published_row s k = Some r \<longleftrightarrow> dget (s_outbox s) k = Some r \<and> o_state r = PUBLISHED"
  by (auto simp: published_row_def split: option.splits)

interpretation exec_published: frozen_machine "store_step env" "outbox_op_ok env E X" "outbox_inv env E X"
    published_row
  for env :: py_env and E :: "string set" and X :: "(string \<times> string \<times> int) set"
proof (unfold_locales, goal_cases)
  case (1 s op k r)
  then have r: "dget (s_outbox s) k = Some r" "o_state r = PUBLISHED" by (auto simp: published_row_Some)
  with step_row [OF 1(1,2) r(1)] show ?case
    by (auto simp: published_row_Some row_move_def row_claimed_def)
qed

section \<open>The guards of a publication\<close>

lemma mark_lost:
  assumes "dget (s_outbox s) k = Some r" "o_claim_id r \<noteq> Some c"
  shows "(\<exists>l. mark_outbox_published s k c t = (Inr (OLost l), s)) \<and>
    (\<exists>l. mark_outbox_failed env s k c err t = (Inr (OLost l), s))"
  using assms by (simp add: mark_outbox_published_def mark_outbox_failed_def require_outbox_def outbox_lost_def)

lemma mark_published_again:
  assumes "dget (s_outbox s) k = Some r" "o_state r = PUBLISHED" "o_claim_id r = Some c"
  shows "mark_outbox_published s k c t = (Inr (OMoved r), s)"
  using assms by (simp add: mark_outbox_published_def require_outbox_def)

lemma requeue_failed_iff:
  assumes "dget (s_outbox s) k = Some r"
  shows "(\<exists>r'. fst (requeue_failed_outbox env s k before t reason m tenant) = Some r') \<longleftrightarrow>
    retryable_failed env s tenant before m r"
  using assms
  by (auto simp: requeue_failed_outbox_def retryable_failed_def Let_def split: option.splits)

section \<open>Worked example\<close>

definition demo_E :: "string set" where
  "demo_E = {''e1''}"

definition demo_row :: string where
  "demo_row = derive_outbox_id demo_env ''e1''"

definition demo_X :: "(string \<times> string \<times> int) set" where
  "demo_X = {demo_row} \<times> {''p1'', ''p2''} \<times> {1, 2}"

lemma demo_ids: "outbox_ids_unique demo_env demo_E"
  by (simp add: outbox_ids_unique_def demo_E_def)

lemma demo_tokens: "tokens_unique demo_env demo_X"
  by (auto simp: tokens_unique_def demo_X_def inj_on_def lease_token_def claim_seed_def)

definition token1 :: string where
  "token1 = lease_token demo_env demo_row ''p1'' 1"

definition token2 :: string where
  "token2 = lease_token demo_env demo_row ''p2'' 2"

lemma tokens_differ: "token1 \<noteq> token2" "token2 \<noteq> token1"
  by (simp_all add: token1_def token2_def lease_token_def claim_seed_def)

text \<open>The row is leased to \<open>p1\<close>; the lease expires, and \<open>p2\<close> takes it over.\<close>

definition lease_ops :: "store_op list" where
  "lease_ops = [Request demo_execution demo_outbox, ClaimOutbox ''e1'' ''p1'' token1 1]"

definition takeover_ops :: "store_op list" where
  "takeover_ops = [RequeueStale demo_row 5 ''expired'', ClaimOutbox ''e1'' ''p2'' token2 6]"

definition publish_ops :: "store_op list" where
  "publish_ops = [MarkPublished demo_row token2 7]"

lemmas lease_defs = lease_ops_def takeover_ops_def publish_ops_def demo_execution_def demo_outbox_def
  demo_row_def [symmetric] empty_store_def request_execution_def dispatch_key_def
  claim_outbox_for_execution_def get_outbox_by_execution_def requeue_stale_outbox_def
  mark_outbox_published_def require_outbox_def put_outbox_def Let_def tokens_differ

lemma lease_legal:
  "legal (store_step demo_env) (outbox_op_ok demo_env demo_E demo_X)
     (lease_ops @ takeover_ops @ publish_ops @ [RequeueStale demo_row 9 ''expired'']) empty_store"
  by (simp add: lease_defs demo_E_def demo_X_def flip: token1_def token2_def)

lemma leased_row:
  "\<exists>r. dget (s_outbox (runs (store_step demo_env) lease_ops empty_store)) demo_row = Some r \<and>
     o_state r = PUBLISHING \<and> o_claim_id r = Some token1 \<and> o_publish_attempt_count r = 1"
  by (simp add: lease_defs)

lemma takeover_row:
  "\<exists>r. dget (s_outbox (runs (store_step demo_env) (lease_ops @ takeover_ops) empty_store)) demo_row = Some r \<and>
     o_state r = PUBLISHING \<and> o_claim_id r = Some token2 \<and> o_publish_attempt_count r = 2"
  by (simp add: lease_defs)

lemma published_demo_row:
  "\<exists>r. dget (s_outbox (runs (store_step demo_env) (lease_ops @ takeover_ops @ publish_ops) empty_store))
      demo_row = Some r \<and> o_state r = PUBLISHED"
  by (simp add: lease_defs)

section \<open>Properties\<close>

text \<open>A superseded publisher is fenced off, as long as every claim carries the token of the count
  the row has when it is claimed.  If a row was leased under a token and later leased again,
  marking it published or failed with the old token returns a lost claim and leaves the store
  as it was.\<close>

theorem exec_lease_fenced:
  assumes "outbox_ids_unique env E" "tokens_unique env X"
    and "legal (store_step env) (outbox_op_ok env E X) (ops @ later) empty_store"
    and "dget (s_outbox (runs (store_step env) ops empty_store)) k = Some r" "o_claim_id r = Some c"
    and "s = runs (store_step env) (ops @ later) empty_store"
    and "dget (s_outbox s) k = Some r'" "o_publish_attempt_count r < o_publish_attempt_count r'"
  shows "(\<exists>l. mark_outbox_published s k c t = (Inr (OLost l), s)) \<and>
    (\<exists>l. mark_outbox_failed env s k c err t = (Inr (OLost l), s))"
proof -
  have inv: "outbox_inv env E X (runs (store_step env) ops empty_store)"
    using assms(3) exec_lease.runs_inv [OF outbox_inv_empty [OF assms(1,2)]] by (simp add: legal_append)
  have "l_claim (outbox_lease r') \<noteq> Some c"
    by (rule exec_lease.stale_token [OF inv, of later k "outbox_lease r"])
      (use assms(3-8) in \<open>auto simp: legal_append runs_append outbox_view_def\<close>)
  then show ?thesis using mark_lost [OF assms(7)] by simp
qed

theorem exec_lease_fenced_witness:
  "\<exists>l. mark_outbox_published (runs (store_step demo_env) (lease_ops @ takeover_ops) empty_store)
     demo_row token1 7 = (Inr (OLost l), runs (store_step demo_env) (lease_ops @ takeover_ops) empty_store)"
proof -
  have "legal (store_step demo_env) (outbox_op_ok demo_env demo_E demo_X) (lease_ops @ takeover_ops) empty_store"
    using lease_legal by (simp add: legal_append)
  moreover obtain r where "dget (s_outbox (runs (store_step demo_env) lease_ops empty_store)) demo_row = Some r"
    "o_claim_id r = Some token1" "o_publish_attempt_count r = 1" using leased_row by blast
  moreover obtain r' where
    "dget (s_outbox (runs (store_step demo_env) (lease_ops @ takeover_ops) empty_store)) demo_row = Some r'"
    "o_publish_attempt_count r' = 2" using takeover_row by blast
  ultimately show ?thesis
    using exec_lease_fenced [OF demo_ids demo_tokens _ _ _ refl] by simp
qed

text \<open>Publication is final and idempotent.  Once a row is published no
  continuation of the run changes it, and marking it published again under its
  token reports the same row.\<close>

theorem exec_published_final:
  assumes "outbox_ids_unique env E" "tokens_unique env X"
    and "legal (store_step env) (outbox_op_ok env E X) (ops @ later) empty_store"
    and "dget (s_outbox (runs (store_step env) ops empty_store)) k = Some r" "o_state r = PUBLISHED"
    and "s = runs (store_step env) (ops @ later) empty_store"
  shows "dget (s_outbox s) k = Some r \<and>
    (o_claim_id r = Some c \<longrightarrow> mark_outbox_published s k c t = (Inr (OMoved r), s)) \<and>
    mark_outbox_failed env s k c err t = (Inr (outbox_lost k c ''outbox_already_published'' r), s)"
proof -
  have inv: "outbox_inv env E X (runs (store_step env) ops empty_store)"
    using assms(3) exec_lease.runs_inv [OF outbox_inv_empty [OF assms(1,2)]] by (simp add: legal_append)
  have "published_row s k = Some r"
    using exec_published.runs_frozen [OF inv, of later k r] assms(3-6)
    by (simp add: legal_append runs_append published_row_Some)
  then have r: "dget (s_outbox s) k = Some r" by (simp add: published_row_Some)
  then show ?thesis
    using mark_published_again assms(5) by (simp add: mark_outbox_failed_def require_outbox_def)
qed

theorem exec_published_final_witness:
  "\<exists>r. dget (s_outbox (runs (store_step demo_env) ((lease_ops @ takeover_ops @ publish_ops) @
     [RequeueStale demo_row 9 ''expired'']) empty_store)) demo_row = Some r \<and> o_state r = PUBLISHED"
proof -
  obtain r where r: "dget (s_outbox (runs (store_step demo_env) (lease_ops @ takeover_ops @ publish_ops) empty_store))
      demo_row = Some r" "o_state r = PUBLISHED" using published_demo_row by blast
  have "legal (store_step demo_env) (outbox_op_ok demo_env demo_E demo_X)
      ((lease_ops @ takeover_ops @ publish_ops) @ [RequeueStale demo_row 9 ''expired'']) empty_store"
    using lease_legal by simp
  then show ?thesis using exec_published_final [OF demo_ids demo_tokens _ r refl] r(2) by blast
qed

text \<open>The publish counter is exact.  Between two points of a run a row's
  \<open>publish_attempt_count\<close> grows by the number of leases granted on it in between;
  in particular it never decreases.\<close>

theorem exec_publish_count:
  assumes "outbox_ids_unique env E" "tokens_unique env X"
    and "legal (store_step env) (outbox_op_ok env E X) (ops @ later) empty_store"
    and "dget (s_outbox (runs (store_step env) ops empty_store)) k = Some r"
  shows "\<exists>r'. dget (s_outbox (runs (store_step env) (ops @ later) empty_store)) k = Some r' \<and>
    o_publish_attempt_count r' = o_publish_attempt_count r +
      int (grants (store_step env) outbox_view k later (runs (store_step env) ops empty_store))"
proof -
  have inv: "outbox_inv env E X (runs (store_step env) ops empty_store)"
    using assms(3) exec_lease.runs_inv [OF outbox_inv_empty [OF assms(1,2)]] by (simp add: legal_append)
  then show ?thesis
    using exec_lease.runs_count [OF inv, of later k "outbox_lease r"] assms(3,4)
    by (auto simp: legal_append runs_append outbox_view_def)
qed

theorem exec_publish_count_witness:
  "\<exists>r. dget (s_outbox (runs (store_step demo_env) (lease_ops @ takeover_ops) empty_store)) demo_row = Some r \<and>
     o_publish_attempt_count r = 1 +
       int (grants (store_step demo_env) outbox_view demo_row takeover_ops
         (runs (store_step demo_env) lease_ops empty_store))"
proof -
  have "legal (store_step demo_env) (outbox_op_ok demo_env demo_E demo_X) (lease_ops @ takeover_ops) empty_store"
    using lease_legal by (simp add: legal_append)
  moreover obtain r where "dget (s_outbox (runs (store_step demo_env) lease_ops empty_store)) demo_row = Some r"
    "o_publish_attempt_count r = 1" using leased_row by blast
  ultimately show ?thesis using exec_publish_count [OF demo_ids demo_tokens] by fastforce
qed

text \<open>The retry guard and the retry listing agree.  A failed row is requeued
  exactly when the retry listing, asked for enough rows, contains it; the requeued
  row is pending again without a claim, keeps its publish count, and that count is
  below the retry budget.\<close>

theorem exec_retry_agrees:
  assumes "wf_dict (s_outbox s)" "dget (s_outbox s) k = Some r" "int (length (s_outbox s)) \<le> limit"
  shows "case requeue_failed_outbox env s k before t reason m tenant of
      (Some r', s') \<Rightarrow>
        r \<in> set (p_rows (list_retryable_failed_outbox_records env s tenant before m limit)) \<and>
        s' = put_outbox r' k s \<and> o_state r' = PENDING \<and> o_claim_id r' = None \<and>
        o_publish_attempt_count r' = o_publish_attempt_count r \<and> o_publish_attempt_count r' < m
    | (None, s') \<Rightarrow>
        r \<notin> set (p_rows (list_retryable_failed_outbox_records env s tenant before m limit)) \<and> s' = s"
proof -
  let ?rows = "sort_key outbox_sort_key (filter (retryable_failed env s tenant before m) (dvals (s_outbox s)))"
  have "length ?rows \<le> length (dvals (s_outbox s))" unfolding length_sort by (rule length_filter_le)
  then have "int (length ?rows) \<le> limit" using assms(3) unfolding length_map by linarith
  then have "py_slice ?rows 0 limit = ?rows" by (rule py_slice_all)
  then have listed: "r \<in> set (p_rows (list_retryable_failed_outbox_records env s tenant before m limit)) \<longleftrightarrow>
      retryable_failed env s tenant before m r"
    using in_dvals_iff [OF assms(1), of r] assms(2) by (auto simp: list_retryable_failed_outbox_records_def Let_def)
  show ?thesis
  proof (cases "retryable_failed env s tenant before m r")
    case True
    then show ?thesis using assms(2) unfolding listed
      by (simp add: requeue_failed_outbox_def retryable_failed_def Let_def split: option.splits if_splits)
  next
    case False
    then show ?thesis using assms(2) unfolding listed
      by (simp add: requeue_failed_outbox_def retryable_failed_def Let_def split: option.splits if_splits)
  qed
qed

text \<open>The first lease fails, and the row is retried once the cooldown is over.\<close>

definition failed_ops :: "store_op list" where
  "failed_ops = lease_ops @ [MarkFailed demo_row token1 ''down'' 4]"

lemma failed_row:
  "\<exists>r. dget (s_outbox (runs (store_step demo_env) failed_ops empty_store)) demo_row = Some r \<and>
     retryable_failed demo_env (runs (store_step demo_env) failed_ops empty_store) (Some ''t1'') 9 3 r \<and>
     length (s_outbox (runs (store_step demo_env) failed_ops empty_store)) = 1 \<and>
     wf_dict (s_outbox (runs (store_step demo_env) failed_ops empty_store))"
  by (simp add: failed_ops_def lease_defs mark_outbox_failed_def retryable_failed_def outbox_failed_at_def
      get_or_none_def dmerge_def TERMINAL_OUTBOX_RETRY_EXECUTION_STATES_def)

theorem exec_retry_agrees_witness:
  "\<exists>r' s'. requeue_failed_outbox demo_env (runs (store_step demo_env) failed_ops empty_store) demo_row
      9 10 ''retry'' 3 (Some ''t1'') = (Some r', s') \<and> o_state r' = PENDING"
proof -
  let ?s = "runs (store_step demo_env) failed_ops empty_store"
  obtain r where r: "dget (s_outbox ?s) demo_row = Some r" "retryable_failed demo_env ?s (Some ''t1'') 9 3 r"
    "length (s_outbox ?s) = 1" "wf_dict (s_outbox ?s)" using failed_row by blast
  have "\<exists>r'. fst (requeue_failed_outbox demo_env ?s demo_row 9 10 ''retry'' 3 (Some ''t1'')) = Some r'"
    using requeue_failed_iff [OF r(1)] r(2) by blast
  then show ?thesis
    using exec_retry_agrees [OF r(4,1), where limit = 1 and env = demo_env and before = 9 and t = 10 and
        reason = "''retry''" and m = 3 and tenant = "Some ''t1''"] r(3)
    by (auto split: prod.splits option.splits)
qed

end
