(* ===== verification/Execution_Runtime.thy ===== *)
theory Execution_Runtime
  imports Execution_Outbox
begin

text \<open>
  \<open>ExecutionRuntime\<close> of \<open>app/execution/runtime.py\<close>, the authority boundary in
  front of the execution store: argument checks, admission, the worker
  transitions, the recovery and reconciliation sweeps.  Every method is a function
  of the store (and of \<open>now\<close>, the clock it reads); results are the source's
  result dataclasses.  The publisher of the stuck-row reconciler is a parameter:
  \<open>None\<close> when the call returns, \<open>Some (class, message)\<close> when it raises.
\<close>

section \<open>Results\<close>

record claim_result =
  cr_claimed :: bool
  cr_execution :: "execution_record option"
  cr_attempt :: "attempt_record option"
  cr_reason :: "string option"

record outbox_claim_result =
  oc_claimed :: bool
  oc_outbox :: "outbox_record option"
  oc_reason :: "string option"

record reconcile_result =
  rc_reconciled :: bool
  rc_outbox :: "outbox_record option"
  rc_reason :: "string option"

record recovery_result =
  rr_recovered :: bool
  rr_execution :: "execution_record option"
  rr_attempt :: "attempt_record option"
  rr_reason :: "string option"

record legitimacy_result =
  lg_legitimate :: bool
  lg_execution :: "execution_record option"
  lg_attempt :: "attempt_record option"
  lg_reason :: "string option"

record 'r sweep_result =
  sw_scanned :: int
  sw_done :: "'r list"
  sw_refused :: "'r list"

definition swept_count :: "'r sweep_result \<Rightarrow> int" where
  "swept_count r = int (length (sw_done r))"

definition refused_count :: "'r sweep_result \<Rightarrow> int" where
  "refused_count r = int (length (sw_refused r))"

text \<open>What the completion event sink is handed.\<close>

record completion_event =
  ce_execution :: execution_record
  ce_attempt_id :: "string option"
  ce_worker_id :: string
  ce_result :: metadata

section \<open>Argument checks\<close>

definition validate_worker_id :: "string \<Rightarrow> unit result" where
  "validate_worker_id worker_id =
     (if worker_id = [] then Inl (ValueError ''worker_id must be non-empty'') else Inr ())"

definition validate_optional_tenant_id :: "string option \<Rightarrow> unit result" where
  "validate_optional_tenant_id tenant_id =
     (if tenant_id = Some [] then
        Inl (ValueError ''expected_tenant_id must be non-empty when supplied'')
      else Inr ())"

section \<open>Scoped reads\<close>

definition rt_get_execution ::
  "exec_store \<Rightarrow> string \<Rightarrow> string option \<Rightarrow> execution_record option result" where
  "rt_get_execution s eid expected_tenant_id =
     (case validate_optional_tenant_id expected_tenant_id of
        Inl e \<Rightarrow> Inl e
      | Inr _ \<Rightarrow> Inr (get_execution s eid expected_tenant_id))"

definition rt_get_execution_by_dispatch ::
  "exec_store \<Rightarrow> string \<Rightarrow> execution_kind \<Rightarrow> string \<Rightarrow> execution_record option result" where
  "rt_get_execution_by_dispatch s dispatch_id kind expected_tenant_id =
     (if dispatch_id = [] then Inl (ValueError ''dispatch_id must be non-empty'')
      else if expected_tenant_id = [] then
        Inl (ValueError ''expected_tenant_id must be non-empty'')
      else Inr (get_execution_by_dispatch s dispatch_id kind expected_tenant_id))"

definition rt_get_attempt ::
  "exec_store \<Rightarrow> string \<Rightarrow> string option \<Rightarrow> attempt_record option result" where
  "rt_get_attempt s attempt_id expected_tenant_id =
     (case validate_optional_tenant_id expected_tenant_id of
        Inl e \<Rightarrow> Inl e
      | Inr _ \<Rightarrow>
     (case get_attempt s attempt_id of
        None \<Rightarrow> Inr None
      | Some attempt \<Rightarrow>
          if expected_tenant_id = None then Inr (Some attempt)
          else (case get_execution s (a_execution_id attempt) expected_tenant_id of
                  None \<Rightarrow> Inr None
                | Some _ \<Rightarrow> Inr (Some attempt))))"

definition rt_get_outbox ::
  "exec_store \<Rightarrow> string \<Rightarrow> string option \<Rightarrow> outbox_record option result" where
  "rt_get_outbox s oid expected_tenant_id =
     (case validate_optional_tenant_id expected_tenant_id of
        Inl e \<Rightarrow> Inl e
      | Inr _ \<Rightarrow>
     (case get_outbox s oid of
        None \<Rightarrow> Inr None
      | Some outbox \<Rightarrow>
          if expected_tenant_id = None then Inr (Some outbox)
          else (case get_execution s (o_execution_id outbox) expected_tenant_id of
                  None \<Rightarrow> Inr None
                | Some _ \<Rightarrow> Inr (Some outbox))))"

definition rt_get_outbox_by_execution ::
  "exec_store \<Rightarrow> string \<Rightarrow> string option \<Rightarrow> outbox_record option result" where
  "rt_get_outbox_by_execution s eid expected_tenant_id =
     (case validate_optional_tenant_id expected_tenant_id of
        Inl e \<Rightarrow> Inl e
      | Inr _ \<Rightarrow>
          if expected_tenant_id \<noteq> None \<and> get_execution s eid expected_tenant_id = None
          then Inr None
          else Inr (get_outbox_by_execution s eid))"

definition rt_list_executions ::
  "exec_store \<Rightarrow> execution_query \<Rightarrow> string option \<Rightarrow> execution_record page result" where
  "rt_list_executions s query expected_tenant_id =
     (case validate_optional_tenant_id expected_tenant_id of
        Inl e \<Rightarrow> Inl e
      | Inr _ \<Rightarrow> Inr (list_executions s query expected_tenant_id))"

definition empty_page :: "int \<Rightarrow> 'r page" where
  "empty_page offset = \<lparr>p_rows = [], p_total = 0, p_limit = 0, p_offset = offset\<rparr>"

definition rt_list_attempts ::
  "exec_store \<Rightarrow> attempt_query \<Rightarrow> string option \<Rightarrow> attempt_record page result" where
  "rt_list_attempts s query expected_tenant_id =
     (case validate_optional_tenant_id expected_tenant_id of
        Inl e \<Rightarrow> Inl e
      | Inr _ \<Rightarrow>
          if expected_tenant_id = None then Inr (list_attempts s query)
          else
            (case aq_execution_id query of
               None \<Rightarrow> Inl (ValueError ''tenant-scoped attempt reads require execution_id'')
             | Some eid \<Rightarrow>
                 (case get_execution s eid expected_tenant_id of
                    None \<Rightarrow> Inr (empty_page (aq_offset query))
                  | Some _ \<Rightarrow> Inr (list_attempts s query))))"

definition rt_list_outbox ::
  "exec_store \<Rightarrow> outbox_query \<Rightarrow> string option \<Rightarrow> outbox_record page result" where
  "rt_list_outbox s query expected_tenant_id =
     (case validate_optional_tenant_id expected_tenant_id of
        Inl e \<Rightarrow> Inl e
      | Inr _ \<Rightarrow>
     (case expected_tenant_id of
        None \<Rightarrow> Inr (list_outbox s query)
      | Some t \<Rightarrow>
          (case oq_tenant_id query of
             Some u \<Rightarrow> if u \<noteq> t then Inr (empty_page (oq_offset query))
                       else Inr (list_outbox s query)
           | None \<Rightarrow>
               if oq_execution_id query = None then
                 Inl (ValueError ''tenant-scoped outbox reads require execution_id or tenant_id'')
               else Inr (list_outbox s (query\<lparr>oq_tenant_id := Some t\<rparr>)))))"

section \<open>Admission\<close>

definition admission_metadata ::
  "py_env \<Rightarrow> metadata option \<Rightarrow> admission_token \<Rightarrow> metadata" where
  "admission_metadata env given token =
     (let m0 = (case given of None \<Rightarrow> [] | Some m \<Rightarrow> m);
          m1 = dsetdefault ''governance.decision_id'' (PStr (t_governance_decision_id token)) m0;
          m2 = dset ''execution_governance.evaluation_id'' (PStr (t_evaluation_id token)) m1;
          m3 = dset ''execution_governance.admitted_at''
                 (PStr (isoformat env (t_admitted_at token))) m2;
          m4 = (case t_config_id token of None \<Rightarrow> m3
                | Some i \<Rightarrow> dset ''execution_governance.config_id'' (PStr i) m3);
          m5 = (case t_config_version token of None \<Rightarrow> m4
                | Some v \<Rightarrow> dset ''execution_governance.version'' (PInt v) m4)
      in (case t_config_sha256 token of None \<Rightarrow> m5
          | Some h \<Rightarrow> dset ''execution_governance.content_sha256'' (PStr h) m5))"

definition requested_execution ::
  "string \<Rightarrow> string \<Rightarrow> string \<Rightarrow> string \<Rightarrow> admission_token \<Rightarrow> int \<Rightarrow> metadata \<Rightarrow> execution_record" where
  "requested_execution execution_id dispatch_id session_id tenant_id token ts request_metadata =
     \<lparr>x_execution_id = execution_id, x_kind = DIAGNOSTIC_AGENT, x_dispatch_id = dispatch_id,
      x_session_id = session_id, x_tenant_id = tenant_id, x_state = REQUESTED,
      x_attempt_count = 0, x_requested_at = ts, x_diagnostic_category = None,
      x_diagnostic_confidence = None,
      x_governance_decision_id = Some (t_governance_decision_id token),
      x_governance_evaluation_id = Some (t_evaluation_id token),
      x_governance_admitted_at = Some (t_admitted_at token),
      x_governance_config_id = t_config_id token,
      x_governance_config_version = t_config_version token,
      x_governance_config_sha256 = t_config_sha256 token,
      x_claimed_at = None, x_completed_at = None, x_failed_at = None, x_worker_id = None,
      x_result = empty_envelope, x_error = None, x_metadata = request_metadata\<rparr>"

definition requested_outbox :: "py_env \<Rightarrow> string \<Rightarrow> int \<Rightarrow> metadata \<Rightarrow> outbox_record" where
  "requested_outbox env execution_id ts request_metadata =
     \<lparr>o_outbox_id = derive_outbox_id env execution_id, o_execution_id = execution_id,
      o_state = PENDING, o_created_at = ts, o_claimed_at = None, o_published_at = None,
      o_publisher_id = None, o_claim_id = None, o_publish_attempt_count = 0,
      o_last_error = None,
      o_metadata = dmerge [(''execution.kind'', PStr (kind_value DIAGNOSTIC_AGENT))]
                     request_metadata\<rparr>"

definition request_diagnostic_execution ::
  "py_env \<Rightarrow> int \<Rightarrow> exec_store \<Rightarrow> string \<Rightarrow> string \<Rightarrow> string \<Rightarrow> admission_token option
     \<Rightarrow> int option \<Rightarrow> metadata option \<Rightarrow> execution_record result \<times> exec_store" where
  "request_diagnostic_execution env now s dispatch_id session_id tenant_id admission_token
       requested_at given =
     (if tenant_id = [] then (Inl (ValueError ''execution request requires tenant_id''), s)
      else case admission_token of
        None \<Rightarrow> (Inl (ExecutionAdmissionError
                    ''diagnostic execution requires governance admission''), s)
      | Some admission \<Rightarrow>
          if t_tenant_id admission \<noteq> tenant_id
          then (Inl (ExecutionAdmissionError
                 ''governance admission token tenant does not match execution tenant''), s)
          else
            let ts = or_now requested_at now;
                request_metadata = admission_metadata env given admission
            in case derive_execution_id env (kind_value DIAGNOSTIC_AGENT) dispatch_id session_id
                      (Some tenant_id) of
                 Inl e \<Rightarrow> (Inl e, s)
               | Inr execution_id \<Rightarrow>
                   request_execution s
                     (requested_execution execution_id dispatch_id session_id tenant_id admission
                        ts request_metadata)
                     (requested_outbox env execution_id ts request_metadata))"

section \<open>Worker transitions\<close>

definition rt_claim_execution ::
  "py_env \<Rightarrow> int \<Rightarrow> exec_store \<Rightarrow> string \<Rightarrow> string \<Rightarrow> int option \<Rightarrow> claim_result result \<times> exec_store"
  where
  "rt_claim_execution env now s eid worker_id claimed_at =
     (if worker_id = [] then (Inl (ValueError ''worker_id must be non-empty''), s)
      else case claim_execution env s eid worker_id (or_now claimed_at now) of
        (Inl e, s') \<Rightarrow> (Inl e, s')
      | (Inr (Some claimed), s') \<Rightarrow>
          (Inr \<lparr>cr_claimed = True, cr_execution = Some (c_execution claimed),
                cr_attempt = Some (c_attempt claimed), cr_reason = None\<rparr>, s')
      | (Inr None, s') \<Rightarrow>
          (case get_execution s' eid None of
             None \<Rightarrow> (Inr \<lparr>cr_claimed = False, cr_execution = None, cr_attempt = None,
                           cr_reason = Some ''execution_not_found''\<rparr>, s')
           | Some current \<Rightarrow>
               (Inr \<lparr>cr_claimed = False, cr_execution = Some current, cr_attempt = None,
                     cr_reason = Some (''execution_not_claimable:'' @ state_value (x_state current))\<rparr>,
                s')))"

text \<open>The completion event is appended after the store moved; the sink's exceptions
  are swallowed, so only the call itself is observable.\<close>

definition rt_complete_execution ::
  "py_env \<Rightarrow> int \<Rightarrow> exec_store \<Rightarrow> bool \<Rightarrow> string \<Rightarrow> string option \<Rightarrow> string \<Rightarrow> metadata \<Rightarrow> int option
     \<Rightarrow> string option \<Rightarrow> pyfloat option \<Rightarrow> transition result \<times> exec_store \<times> completion_event list"
  where
  "rt_complete_execution env now s has_sink eid attempt_id worker_id res completed_at
       category confidence =
     (case validate_worker_id worker_id of
        Inl e \<Rightarrow> (Inl e, s, [])
      | Inr _ \<Rightarrow>
     (case from_dict env res of
        Inl e \<Rightarrow> (Inl e, s, [])
      | Inr envelope \<Rightarrow>
     (case complete_execution env s eid attempt_id (to_dict envelope) (or_now completed_at now)
             worker_id (str_or category (diagnostic_category envelope))
             (case confidence of Some c \<Rightarrow> Some c | None \<Rightarrow> diagnostic_confidence envelope) of
        (Inl e, s') \<Rightarrow> (Inl e, s', [])
      | (Inr (Lost l), s') \<Rightarrow> (Inr (Lost l), s', [])
      | (Inr (Moved x), s') \<Rightarrow>
          (Inr (Moved x), s',
           if has_sink then [\<lparr>ce_execution = x, ce_attempt_id = attempt_id,
                              ce_worker_id = worker_id, ce_result = to_dict envelope\<rparr>]
           else []))))"

definition failure_envelope :: "string \<Rightarrow> string \<Rightarrow> envelope" where
  "failure_envelope code message =
     empty_envelope\<lparr>error_code := Some code, error_message := Some message\<rparr>"

definition rt_fail_execution ::
  "py_env \<Rightarrow> int \<Rightarrow> exec_store \<Rightarrow> string \<Rightarrow> string option \<Rightarrow> string \<Rightarrow> string \<Rightarrow> int option \<Rightarrow> bool
     \<Rightarrow> metadata option \<Rightarrow> transition result \<times> exec_store" where
  "rt_fail_execution env now s eid attempt_id worker_id err failed_at retry_requested res =
     (case validate_worker_id worker_id of
        Inl e \<Rightarrow> (Inl e, s)
      | Inr _ \<Rightarrow>
     (case (case res of
              Some r \<Rightarrow> (case from_dict env r of Inl e \<Rightarrow> Inl e | Inr v \<Rightarrow> Inr (to_dict v))
            | None \<Rightarrow> Inr (to_dict (failure_envelope ''execution_failed'' err))) of
        Inl e \<Rightarrow> (Inl e, s)
      | Inr payload \<Rightarrow>
          fail_execution env s eid attempt_id err (or_now failed_at now) retry_requested worker_id
            payload))"

definition rt_dead_letter_execution ::
  "py_env \<Rightarrow> int \<Rightarrow> exec_store \<Rightarrow> string \<Rightarrow> string option \<Rightarrow> string \<Rightarrow> string \<Rightarrow> int option
     \<Rightarrow> metadata option \<Rightarrow> transition result \<times> exec_store" where
  "rt_dead_letter_execution env now s eid attempt_id worker_id err dead_lettered_at res =
     (case validate_worker_id worker_id of
        Inl e \<Rightarrow> (Inl e, s)
      | Inr _ \<Rightarrow>
     (case (case res of
              Some r \<Rightarrow> (case from_dict env r of Inl e \<Rightarrow> Inl e | Inr v \<Rightarrow> Inr (to_dict v))
            | None \<Rightarrow> Inr (to_dict (failure_envelope ''execution_dead_lettered'' err))) of
        Inl e \<Rightarrow> (Inl e, s)
      | Inr payload \<Rightarrow>
          dead_letter_execution env s eid attempt_id err (or_now dead_lettered_at now) worker_id
            payload))"

text \<open>\<open>require_claim\<close>: the claim or an exception.\<close>

definition require_claim ::
  "py_env \<Rightarrow> int \<Rightarrow> exec_store \<Rightarrow> string \<Rightarrow> string \<Rightarrow> execution_record result \<times> exec_store" where
  "require_claim env now s eid worker_id =
     (case rt_claim_execution env now s eid worker_id None of
        (Inl e, s') \<Rightarrow> (Inl e, s')
      | (Inr claim, s') \<Rightarrow>
          (case (cr_claimed claim, cr_execution claim) of
             (True, Some x) \<Rightarrow> (Inr x, s')
           | _ \<Rightarrow> (Inl (ExecutionNotClaimableError
                     (case str_or (cr_reason claim) (Some ''claim refused'') of
                        Some m \<Rightarrow> m | None \<Rightarrow> [])), s')))"

subsection \<open>Legitimacy\<close>

definition worker_legitimacy_violation ::
  "execution_record \<Rightarrow> attempt_record \<Rightarrow> string \<Rightarrow> string option" where
  "worker_legitimacy_violation execution attempt worker_id =
     (if x_state execution \<noteq> CLAIMED
      then Some (''execution_not_claimed:'' @ state_value (x_state execution))
      else if x_worker_id execution \<noteq> Some worker_id then Some ''worker_mismatch:execution''
      else if a_execution_id attempt \<noteq> x_execution_id execution
      then Some ''attempt_execution_mismatch''
      else if a_worker_id attempt \<noteq> worker_id then Some ''worker_mismatch:attempt''
      else if a_state attempt \<noteq> A_RUNNING
      then Some (''attempt_not_running:'' @ attempt_state_value (a_state attempt))
      else if a_attempt_number attempt \<noteq> x_attempt_count execution
      then Some ''attempt_not_current''
      else None)"

definition validate_worker_legitimacy ::
  "exec_store \<Rightarrow> string \<Rightarrow> string \<Rightarrow> string \<Rightarrow> legitimacy_result result" where
  "validate_worker_legitimacy s eid attempt_id worker_id =
     (if worker_id = [] then Inl (ValueError ''worker_id must be non-empty'')
      else case get_execution s eid None of
        None \<Rightarrow> Inr \<lparr>lg_legitimate = False, lg_execution = None, lg_attempt = None,
                     lg_reason = Some ''execution_not_found''\<rparr>
      | Some execution \<Rightarrow>
     (case get_attempt s attempt_id of
        None \<Rightarrow> Inr \<lparr>lg_legitimate = False, lg_execution = Some execution, lg_attempt = None,
                     lg_reason = Some ''attempt_not_found''\<rparr>
      | Some attempt \<Rightarrow>
          (let reason = worker_legitimacy_violation execution attempt worker_id
           in Inr \<lparr>lg_legitimate = (reason = None), lg_execution = Some execution,
                   lg_attempt = Some attempt, lg_reason = reason\<rparr>)))"

section \<open>Sweeps\<close>

text \<open>\<open>for row in rows: result = await act(row)\<close>, the results sorted into accepted
  and refused; an exception of one row ends the sweep.\<close>

fun sweep :: "('r \<Rightarrow> 's \<Rightarrow> 'a result \<times> 's) \<Rightarrow> ('a \<Rightarrow> bool) \<Rightarrow> 'r list \<Rightarrow> 's
    \<Rightarrow> ('a list \<times> 'a list) result \<times> 's" where
  "sweep act accepted [] s = (Inr ([], []), s)"
| "sweep act accepted (r # rs) s =
     (case act r s of
        (Inl e, s') \<Rightarrow> (Inl e, s')
      | (Inr a, s') \<Rightarrow>
          (case sweep act accepted rs s' of
             (Inl e, s'') \<Rightarrow> (Inl e, s'')
           | (Inr (yes, no), s'') \<Rightarrow>
               (Inr (if accepted a then (a # yes, no) else (yes, a # no)), s'')))"

definition sweep_page ::
  "('r \<Rightarrow> 's \<Rightarrow> 'a result \<times> 's) \<Rightarrow> ('a \<Rightarrow> bool) \<Rightarrow> 'r page \<Rightarrow> 's \<Rightarrow> 'a sweep_result result \<times> 's" where
  "sweep_page act accepted page s =
     (case sweep act accepted (p_rows page) s of
        (Inl e, s') \<Rightarrow> (Inl e, s')
      | (Inr (yes, no), s') \<Rightarrow>
          (Inr \<lparr>sw_scanned = int (length (p_rows page)), sw_done = yes, sw_refused = no\<rparr>, s'))"

section \<open>Recovery\<close>

definition rt_recover_stale_execution ::
  "py_env \<Rightarrow> int \<Rightarrow> exec_store \<Rightarrow> string \<Rightarrow> timestamp \<Rightarrow> timestamp option \<Rightarrow> string
     \<Rightarrow> recovery_result result \<times> exec_store" where
  "rt_recover_stale_execution env now s eid stale_before recovered_at reason =
     (if \<not> is_aware stale_before then
        (Inl (ValueError ''stale_before must be timezone-aware''), s)
      else if (case recovered_at of None \<Rightarrow> False | Some t \<Rightarrow> \<not> is_aware t) then
        (Inl (ValueError ''recovered_at must be timezone-aware''), s)
      else if reason = [] then (Inl (ValueError ''recovery reason must be non-empty''), s)
      else case recover_stale_execution env s eid (instant stale_before)
                  (or_now (map_option instant recovered_at) now) reason of
        (Inl e, s') \<Rightarrow> (Inl e, s')
      | (Inr (Some recovered), s') \<Rightarrow>
          (Inr \<lparr>rr_recovered = True, rr_execution = Some (c_execution recovered),
                rr_attempt = Some (c_attempt recovered), rr_reason = None\<rparr>, s')
      | (Inr None, s') \<Rightarrow>
          (case get_execution s' eid None of
             None \<Rightarrow> (Inr \<lparr>rr_recovered = False, rr_execution = None, rr_attempt = None,
                           rr_reason = Some ''execution_not_found''\<rparr>, s')
           | Some current \<Rightarrow>
               (Inr \<lparr>rr_recovered = False, rr_execution = Some current, rr_attempt = None,
                     rr_reason = Some (if x_state current \<noteq> CLAIMED
                       then ''execution_not_claimed:'' @ state_value (x_state current)
                       else ''execution_not_stale'')\<rparr>, s')))"

definition stale_query :: "string option \<Rightarrow> int \<Rightarrow> int \<Rightarrow> execution_query" where
  "stale_query tenant_id stale_before limit =
     default_execution_query\<lparr>q_tenant_id := tenant_id, q_state := Some CLAIMED,
       q_claimed_before_or_at := Some stale_before, q_limit := limit\<rparr>"

definition recover_stale_executions ::
  "py_env \<Rightarrow> int \<Rightarrow> exec_store \<Rightarrow> timestamp \<Rightarrow> timestamp option \<Rightarrow> string \<Rightarrow> int \<Rightarrow> string option
     \<Rightarrow> recovery_result sweep_result result \<times> exec_store" where
  "recover_stale_executions env now s stale_before recovered_at reason limit tenant_id =
     (if \<not> is_aware stale_before then
        (Inl (ValueError ''stale_before must be timezone-aware''), s)
      else if (case recovered_at of None \<Rightarrow> False | Some t \<Rightarrow> \<not> is_aware t) then
        (Inl (ValueError ''recovered_at must be timezone-aware''), s)
      else if limit < 1 then (Inl (ValueError ''limit must be positive''), s)
      else if reason = [] then (Inl (ValueError ''recovery reason must be non-empty''), s)
      else
        let ts = or_now (map_option instant recovered_at) now
        in sweep_page
             (\<lambda>x s. rt_recover_stale_execution env now s (x_execution_id x) stale_before
                      (Some (Aware ts)) reason)
             rr_recovered
             (list_executions s (stale_query tenant_id (instant stale_before) limit) tenant_id) s)"

section \<open>The outbox\<close>

text \<open>Two awaited calls of the persistence: the row is read, its token derived, and the row claimed
  with it.  Other callers may come in between; a publisher that runs alone does both on one
  store.\<close>

definition begin_outbox_claim ::
  "py_env \<Rightarrow> exec_store \<Rightarrow> string \<Rightarrow> string \<Rightarrow> outbox_claim_result result + string" where
  "begin_outbox_claim env s eid publisher_id =
     (if publisher_id = [] then Inl (Inl (ValueError ''publisher_id must be non-empty''))
      else case get_outbox_by_execution s eid of
        None \<Rightarrow> Inl (Inr \<lparr>oc_claimed = False, oc_outbox = None, oc_reason = Some ''outbox_not_found''\<rparr>)
      | Some current \<Rightarrow>
          if o_state current \<noteq> PENDING
          then Inl (Inr \<lparr>oc_claimed = False, oc_outbox = Some current,
                     oc_reason = Some (''outbox_not_publishable:'' @ outbox_state_value (o_state current))\<rparr>)
          else
     (case derive_outbox_claim_id env (o_outbox_id current) publisher_id (o_publish_attempt_count current + 1) of
        Inl e \<Rightarrow> Inl (Inl e)
      | Inr claim_id \<Rightarrow> Inr claim_id))"

definition finish_outbox_claim ::
  "int \<Rightarrow> exec_store \<Rightarrow> string \<Rightarrow> string \<Rightarrow> string \<Rightarrow> int option \<Rightarrow> outbox_claim_result result \<times> exec_store" where
  "finish_outbox_claim now s eid publisher_id claim_id claimed_at =
     (case claim_outbox_for_execution s eid publisher_id claim_id (or_now claimed_at now) of
        (Some claimed, s') \<Rightarrow>
          (Inr \<lparr>oc_claimed = True, oc_outbox = Some claimed, oc_reason = None\<rparr>, s')
      | (None, s') \<Rightarrow>
          (let current = get_outbox_by_execution s' eid
           in (Inr \<lparr>oc_claimed = False, oc_outbox = current,
                    oc_reason = Some (case current of None \<Rightarrow> ''outbox_not_found''
                      | Some r \<Rightarrow> ''outbox_not_publishable:'' @ outbox_state_value (o_state r))\<rparr>,
               s')))"

definition rt_claim_outbox_for_execution ::
  "py_env \<Rightarrow> int \<Rightarrow> exec_store \<Rightarrow> string \<Rightarrow> string \<Rightarrow> int option
     \<Rightarrow> outbox_claim_result result \<times> exec_store" where
  "rt_claim_outbox_for_execution env now s eid publisher_id claimed_at =
     (case begin_outbox_claim env s eid publisher_id of
        Inl answer \<Rightarrow> (answer, s)
      | Inr claim_id \<Rightarrow> finish_outbox_claim now s eid publisher_id claim_id claimed_at)"

definition rt_mark_outbox_published ::
  "int \<Rightarrow> exec_store \<Rightarrow> string \<Rightarrow> string \<Rightarrow> int option \<Rightarrow> outbox_transition result \<times> exec_store" where
  "rt_mark_outbox_published now s oid cid published_at =
     mark_outbox_published s oid cid (or_now published_at now)"

definition rt_mark_outbox_failed ::
  "py_env \<Rightarrow> int \<Rightarrow> exec_store \<Rightarrow> string \<Rightarrow> string \<Rightarrow> string \<Rightarrow> int option
     \<Rightarrow> outbox_transition result \<times> exec_store" where
  "rt_mark_outbox_failed env now s oid cid err failed_at =
     mark_outbox_failed env s oid cid err (or_now failed_at now)"

definition not_reconciled :: "outbox_record option \<Rightarrow> string \<Rightarrow> reconcile_result" where
  "not_reconciled outbox reason =
     \<lparr>rc_reconciled = False, rc_outbox = outbox, rc_reason = Some reason\<rparr>"

definition reconciled :: "outbox_record option \<Rightarrow> reconcile_result" where
  "reconciled outbox = \<lparr>rc_reconciled = True, rc_outbox = outbox, rc_reason = None\<rparr>"

definition reconcile_stale_outbox ::
  "exec_store \<Rightarrow> string \<Rightarrow> timestamp \<Rightarrow> timestamp option \<Rightarrow> string option \<Rightarrow> string
     \<Rightarrow> reconcile_result result \<times> exec_store" where
  "reconcile_stale_outbox s oid stale_before requeued_at expected_tenant_id reason =
     (case validate_optional_tenant_id expected_tenant_id of
        Inl e \<Rightarrow> (Inl e, s)
      | Inr _ \<Rightarrow>
      if \<not> is_aware stale_before then
        (Inl (ValueError ''stale_before must be timezone-aware''), s)
      else if (case requeued_at of None \<Rightarrow> False | Some t \<Rightarrow> \<not> is_aware t) then
        (Inl (ValueError ''requeued_at must be timezone-aware''), s)
      else if reason = [] then (Inl (ValueError ''requeue reason must be non-empty''), s)
      else
     (case rt_get_outbox s oid expected_tenant_id of
        Inl e \<Rightarrow> (Inl e, s)
      | Inr None \<Rightarrow> (Inr (not_reconciled None ''outbox_not_found''), s)
      | Inr (Some current) \<Rightarrow>
          if o_state current \<noteq> PUBLISHING
          then (Inr (not_reconciled (Some current)
                 (''outbox_not_publishable:'' @ outbox_state_value (o_state current))), s)
          else if (case o_claimed_at current of None \<Rightarrow> True | Some t \<Rightarrow> instant stale_before < t)
          then (Inr (not_reconciled (Some current) ''outbox_not_stale''), s)
          else
     (case requeue_stale_outbox s oid (instant stale_before) reason of
        (Some updated, s') \<Rightarrow> (Inr (reconciled (Some updated)), s')
      | (None, s') \<Rightarrow>
          (case rt_get_outbox s' oid expected_tenant_id of
             Inl e \<Rightarrow> (Inl e, s')
           | Inr refreshed \<Rightarrow> (Inr (not_reconciled refreshed ''outbox_not_stale''), s')))))"

definition reconcile_stale_outbox_records ::
  "int \<Rightarrow> exec_store \<Rightarrow> timestamp \<Rightarrow> timestamp option \<Rightarrow> string option \<Rightarrow> string \<Rightarrow> int
     \<Rightarrow> reconcile_result sweep_result result \<times> exec_store" where
  "reconcile_stale_outbox_records now s stale_before requeued_at tenant_id reason limit =
     (if \<not> is_aware stale_before then
        (Inl (ValueError ''stale_before must be timezone-aware''), s)
      else if (case requeued_at of None \<Rightarrow> False | Some t \<Rightarrow> \<not> is_aware t) then
        (Inl (ValueError ''requeued_at must be timezone-aware''), s)
      else if limit < 1 then (Inl (ValueError ''limit must be positive''), s)
      else
        let ts = or_now (map_option instant requeued_at) now
        in sweep_page
             (\<lambda>r s. reconcile_stale_outbox s (o_outbox_id r) stale_before (Some (Aware ts))
                      tenant_id reason)
             rc_reconciled
             (list_outbox s \<lparr>oq_execution_id = None, oq_tenant_id = tenant_id,
                oq_state = Some PUBLISHING, oq_limit = limit, oq_offset = 0\<rparr>) s)"

subsection \<open>Failed rows\<close>

definition reconcile_failed_execution_outbox ::
  "py_env \<Rightarrow> int \<Rightarrow> exec_store \<Rightarrow> string \<Rightarrow> timestamp \<Rightarrow> timestamp option \<Rightarrow> string option \<Rightarrow> string
     \<Rightarrow> int \<Rightarrow> reconcile_result result \<times> exec_store" where
  "reconcile_failed_execution_outbox env now s oid failed_before_or_at requeued_at
       expected_tenant_id reason max_publish_attempts =
     (case validate_optional_tenant_id expected_tenant_id of
        Inl e \<Rightarrow> (Inl e, s)
      | Inr _ \<Rightarrow>
      if \<not> is_aware failed_before_or_at then
        (Inl (ValueError ''failed_before_or_at must be timezone-aware''), s)
      else if (case requeued_at of None \<Rightarrow> False | Some t \<Rightarrow> \<not> is_aware t) then
        (Inl (ValueError ''requeued_at must be timezone-aware''), s)
      else if max_publish_attempts < 1 then
        (Inl (ValueError ''max_publish_attempts must be positive''), s)
      else if reason = [] then (Inl (ValueError ''requeue reason must be non-empty''), s)
      else
     (case rt_get_outbox s oid expected_tenant_id of
        Inl e \<Rightarrow> (Inl e, s)
      | Inr None \<Rightarrow> (Inr (not_reconciled None ''outbox_not_found''), s)
      | Inr (Some current) \<Rightarrow>
          if o_state current \<noteq> OUTBOX_FAILED
          then (Inr (not_reconciled (Some current)
                 (''outbox_not_publishable:'' @ outbox_state_value (o_state current))), s)
          else if max_publish_attempts \<le> o_publish_attempt_count current
          then (Inr (not_reconciled (Some current) ''failed_outbox_retry_budget_exhausted''), s)
          else
     (case outbox_failed_at env current of
        None \<Rightarrow> (Inr (not_reconciled (Some current) ''failed_outbox_missing_failed_at''), s)
      | Some failed_at \<Rightarrow>
          if instant failed_before_or_at < failed_at
          then (Inr (not_reconciled (Some current) ''failed_outbox_cooldown_active''), s)
          else
     (case get_execution s (o_execution_id current) expected_tenant_id of
        None \<Rightarrow> (Inr (not_reconciled (Some current) ''execution_not_found''), s)
      | Some execution \<Rightarrow>
          if x_state execution \<in> set TERMINAL_OUTBOX_RETRY_EXECUTION_STATES
          then (Inr (not_reconciled (Some current)
                 (''execution_terminal:'' @ state_value (x_state execution))), s)
          else
     (case requeue_failed_outbox env s oid (instant failed_before_or_at)
             (or_now (map_option instant requeued_at) now) reason max_publish_attempts
             expected_tenant_id of
        (Some updated, s') \<Rightarrow> (Inr (reconciled (Some updated)), s')
      | (None, s') \<Rightarrow>
          (case rt_get_outbox s' oid expected_tenant_id of
             Inl e \<Rightarrow> (Inl e, s')
           | Inr refreshed \<Rightarrow>
               (Inr (not_reconciled refreshed ''failed_outbox_not_retryable''), s')))))))"

definition reconcile_failed_execution_outbox_records ::
  "py_env \<Rightarrow> int \<Rightarrow> exec_store \<Rightarrow> timestamp \<Rightarrow> timestamp option \<Rightarrow> string option \<Rightarrow> string \<Rightarrow> int
     \<Rightarrow> int \<Rightarrow> reconcile_result sweep_result result \<times> exec_store" where
  "reconcile_failed_execution_outbox_records env now s failed_before_or_at requeued_at tenant_id
       reason max_publish_attempts limit =
     (if \<not> is_aware failed_before_or_at then
        (Inl (ValueError ''failed_before_or_at must be timezone-aware''), s)
      else if (case requeued_at of None \<Rightarrow> False | Some t \<Rightarrow> \<not> is_aware t) then
        (Inl (ValueError ''requeued_at must be timezone-aware''), s)
      else if limit < 1 then (Inl (ValueError ''limit must be positive''), s)
      else if max_publish_attempts < 1 then
        (Inl (ValueError ''max_publish_attempts must be positive''), s)
      else if reason = [] then (Inl (ValueError ''requeue reason must be non-empty''), s)
      else
        let ts = or_now (map_option instant requeued_at) now
        in sweep_page
             (\<lambda>r s. reconcile_failed_execution_outbox env now s (o_outbox_id r) failed_before_or_at
                      (Some (Aware ts)) tenant_id reason max_publish_attempts)
             rc_reconciled
             (list_retryable_failed_outbox_records env s tenant_id (instant failed_before_or_at)
                max_publish_attempts limit) s)"

subsection \<open>Stuck pending rows\<close>

definition STUCK_PENDING_RECONCILER_PUBLISHER_ID :: string where
  "STUCK_PENDING_RECONCILER_PUBLISHER_ID = ''execution_outbox_stuck_pending_reconciler''"

type_synonym publisher = "string \<Rightarrow> string \<Rightarrow> (string \<times> string) option"

definition publish_error :: "string \<Rightarrow> string \<times> string \<Rightarrow> string" where
  "publish_error reason failure =
     take 480 (reason @ '': '' @ fst failure @ '': '' @ snd failure)"

definition settle_reclaimed ::
  "string \<Rightarrow> outbox_transition result \<times> exec_store \<Rightarrow> reconcile_result result \<times> exec_store"
  where
  "settle_reclaimed oid outcome =
     (case outcome of
        (Inl e, s') \<Rightarrow> (Inl e, s')
      | (Inr _, s') \<Rightarrow>
          (case rt_get_outbox s' oid None of
             Inl e \<Rightarrow> (Inl e, s')
           | Inr updated \<Rightarrow> (Inr (reconciled updated), s')))"

definition reclaim_stuck_pending_outbox ::
  "py_env \<Rightarrow> int \<Rightarrow> publisher \<Rightarrow> int \<Rightarrow> string \<Rightarrow> outbox_record \<Rightarrow> exec_store
     \<Rightarrow> reconcile_result result \<times> exec_store" where
  "reclaim_stuck_pending_outbox env now publish max_publish_attempts reason outbox s =
     (case get_execution s (o_execution_id outbox) None of
        None \<Rightarrow> (Inr (not_reconciled (Some outbox) ''execution_not_found''), s)
      | Some execution \<Rightarrow>
          if x_state execution \<in> set TERMINAL_OUTBOX_RETRY_EXECUTION_STATES
          then (Inr (not_reconciled (Some outbox)
                 (''execution_terminal:'' @ state_value (x_state execution))), s)
          else
     (case rt_claim_outbox_for_execution env now s (o_execution_id outbox)
             STUCK_PENDING_RECONCILER_PUBLISHER_ID None of
        (Inl e, s') \<Rightarrow> (Inl e, s')
      | (Inr claim, s') \<Rightarrow>
     (case (oc_claimed claim, oc_outbox claim,
            case oc_outbox claim of None \<Rightarrow> None | Some r \<Rightarrow> o_claim_id r) of
        (True, Some claimed, Some claim_id) \<Rightarrow>
          if max_publish_attempts \<le> o_publish_attempt_count outbox
          then settle_reclaimed (o_outbox_id outbox)
                 (rt_mark_outbox_failed env now s' (o_outbox_id claimed) claim_id
                    ''stale_pending_retry_budget_exhausted'' None)
          else
            (case publish (o_execution_id outbox) (x_tenant_id execution) of
               Some failure \<Rightarrow>
                 settle_reclaimed (o_outbox_id outbox)
                   (rt_mark_outbox_failed env now s' (o_outbox_id claimed) claim_id
                      (publish_error reason failure) None)
             | None \<Rightarrow>
                 settle_reclaimed (o_outbox_id outbox)
                   (rt_mark_outbox_published now s' (o_outbox_id claimed) claim_id None))
      | _ \<Rightarrow>
          (Inr (not_reconciled
                  (case oc_outbox claim of Some r \<Rightarrow> Some r | None \<Rightarrow> Some outbox)
                  (case str_or (oc_reason claim) (Some ''claim_refused'') of
                     Some m \<Rightarrow> m | None \<Rightarrow> [])), s'))))"

definition reconcile_stuck_pending_outbox_records ::
  "py_env \<Rightarrow> int \<Rightarrow> publisher \<Rightarrow> exec_store \<Rightarrow> timestamp \<Rightarrow> string option \<Rightarrow> int \<Rightarrow> string \<Rightarrow> int
     \<Rightarrow> reconcile_result sweep_result result \<times> exec_store" where
  "reconcile_stuck_pending_outbox_records env now publish s stale_before tenant_id
       max_publish_attempts reason limit =
     (if \<not> is_aware stale_before then
        (Inl (ValueError ''stale_before must be timezone-aware''), s)
      else if max_publish_attempts < 1 then
        (Inl (ValueError ''max_publish_attempts must be positive''), s)
      else if limit < 1 then (Inl (ValueError ''limit must be positive''), s)
      else if reason = [] then (Inl (ValueError ''retry reason must be non-empty''), s)
      else sweep_page (reclaim_stuck_pending_outbox env now publish max_publish_attempts reason)
             rc_reconciled
             (list_stuck_pending_outbox_records s tenant_id (instant stale_before) limit) s)"

end
