(* ===== verification/Execution_Authority.thy ===== *)
theory Execution_Authority
  imports Execution_Runtime
begin

text \<open>
  What the execution runtime promises on top of the store: every runtime method is
  a run of legal store operations (so the store's theorems hold of the runtime),
  the legitimacy verdict is the guard of the worker transitions, the sweeps settle
  every row they list, and scoped reads never cross a tenant.
\<close>

section \<open>The runtime as runs of the store\<close>

definition all_ok :: "py_env \<Rightarrow> store_op \<Rightarrow> exec_store \<Rightarrow> bool" where
  "all_ok env op s \<longleftrightarrow> op_ok UNIV op s \<and> outbox_op_ok env UNIV UNIV op s"

definition reaches :: "py_env \<Rightarrow> exec_store \<Rightarrow> exec_store \<Rightarrow> bool" where
  "reaches env s s' \<longleftrightarrow>
     (\<exists>ops. legal (store_step env) (all_ok env) ops s \<and> s' = runs (store_step env) ops s)"

lemma reaches_refl [simp, intro]: "reaches env s s"
  unfolding reaches_def by (rule exI [of _ "[]"]) simp

lemma reaches_trans [trans]: "reaches env s s' \<Longrightarrow> reaches env s' s'' \<Longrightarrow> reaches env s s''"
  unfolding reaches_def
proof (elim exE conjE)
  fix xs ys assume "legal (store_step env) (all_ok env) xs s" "s' = runs (store_step env) xs s"
    "legal (store_step env) (all_ok env) ys s'" "s'' = runs (store_step env) ys s'"
  then show "\<exists>ops. legal (store_step env) (all_ok env) ops s \<and> s'' = runs (store_step env) ops s"
    by (intro exI [of _ "xs @ ys"]) (simp add: legal_append runs_append)
qed

lemma reaches_step: "all_ok env op s \<Longrightarrow> s' = store_step env op s \<Longrightarrow> reaches env s s'"
  unfolding reaches_def by (rule exI [of _ "[op]"]) simp

text \<open>A legal run derives finitely many identities.\<close>

lemma op_ok_mono: "D \<subseteq> D' \<Longrightarrow> op_ok D op s \<Longrightarrow> op_ok D' op s"
  by (cases op) (auto split: option.splits)

lemma outbox_op_ok_mono:
  "E \<subseteq> E' \<Longrightarrow> X \<subseteq> X' \<Longrightarrow> outbox_op_ok env E X op s \<Longrightarrow> outbox_op_ok env E' X' op s"
  by (cases op) auto

lemma legal_mono:
  "(\<And>op s. ok op s \<Longrightarrow> ok' op s) \<Longrightarrow> legal step ok ops s \<Longrightarrow> legal step ok' ops s"
  by (induction ops arbitrary: s) auto

lemma op_ok_finite: "op_ok UNIV op s \<Longrightarrow> \<exists>D. finite D \<and> op_ok D op s"
proof (cases op)
  case (Claim e w t)
  then show ?thesis
    by (intro exI [of _ "case dget (s_executions s) e of None \<Rightarrow> {} | Some x \<Rightarrow> {(e, x_attempt_count x + 1)}"])
      (auto split: option.splits)
qed (auto intro: exI [of _ "{}"])

lemma outbox_op_ok_finite:
  "outbox_op_ok env UNIV UNIV op s \<Longrightarrow> \<exists>E X. finite E \<and> finite X \<and> outbox_op_ok env E X op s"
proof (cases op)
  case (Request x r)
  then show "outbox_op_ok env UNIV UNIV op s \<Longrightarrow> ?thesis"
    by (intro exI [of _ "{x_execution_id x}"] exI [of _ "{}"]) auto
next
  case (ClaimOutbox e p c t)
  then show "outbox_op_ok env UNIV UNIV op s \<Longrightarrow> ?thesis"
    by (intro exI [of _ "{}"] exI [of _ "case get_outbox_by_execution s e of None \<Rightarrow> {}
        | Some r \<Rightarrow> {(o_outbox_id r, p, o_publish_attempt_count r + 1)}"]) (auto split: option.splits)
qed (auto intro: exI [of _ "{}"])

lemma legal_finite:
  "legal (store_step env) (all_ok env) ops s \<Longrightarrow>
     \<exists>D E X. finite D \<and> finite E \<and> finite X \<and>
       legal (store_step env) (\<lambda>op s. op_ok D op s \<and> outbox_op_ok env E X op s) ops s"
proof (induction ops arbitrary: s)
  case (Cons op ops)
  then have ok: "op_ok UNIV op s" "outbox_op_ok env UNIV UNIV op s"
    by (simp_all add: all_ok_def)
  have tl: "legal (store_step env) (all_ok env) ops (store_step env op s)" using Cons.prems by simp
  obtain D E X where IH: "finite D" "finite E" "finite X"
    "legal (store_step env) (\<lambda>op s. op_ok D op s \<and> outbox_op_ok env E X op s) ops (store_step env op s)"
    using Cons.IH [OF tl] by blast
  obtain D' where D': "finite D'" "op_ok D' op s" using op_ok_finite [OF ok(1)] by blast
  obtain E' X' where X': "finite E'" "finite X'" "outbox_op_ok env E' X' op s"
    using outbox_op_ok_finite [OF ok(2)] by blast
  let ?ok = "\<lambda>op s. op_ok (D' \<union> D) op s \<and> outbox_op_ok env (E' \<union> E) (X' \<union> X) op s"
  have "?ok op s"
    by (rule conjI [OF op_ok_mono [OF Un_upper1 D'(2)] outbox_op_ok_mono [OF Un_upper1 Un_upper1 X'(3)]])
  moreover have "legal (store_step env) ?ok ops (store_step env op s)"
    by (rule legal_mono [OF _ IH(4)])
      (rule conjI [OF op_ok_mono [OF Un_upper2] outbox_op_ok_mono [OF Un_upper2 Un_upper2]], simp_all)
  ultimately have "legal (store_step env) ?ok (op # ops) s" by simp
  moreover have "finite (D' \<union> D)" "finite (E' \<union> E)" "finite (X' \<union> X)"
    using IH(1-3) D'(1) X'(1,2) by simp_all
  ultimately show ?case
    by (intro exI [of _ "D' \<union> D"] exI [of _ "E' \<union> E"] exI [of _ "X' \<union> X"] conjI)
qed (intro exI [of _ "{}"], simp)

section \<open>Each method is a run\<close>

lemma rt_claim_reaches: "reaches env s (snd (rt_claim_execution env now s e w t))"
proof (cases "w = []")
  case False
  have "snd (rt_claim_execution env now s e w t) = snd (claim_execution env s e w (or_now t now))"
    using False by (auto simp: rt_claim_execution_def split: prod.splits sum.splits option.splits)
  then show ?thesis
    by (intro reaches_step [of env "Claim e w (or_now t now)"])
      (auto simp: all_ok_def split: option.splits)
qed (simp add: rt_claim_execution_def)

lemma rt_complete_reaches:
  "reaches env s (fst (snd (rt_complete_execution env now s sink e i w res t cat conf)))"
proof (cases "w = [] \<or> is_error (from_dict env res)")
  case True
  then show ?thesis
    by (auto simp: rt_complete_execution_def validate_worker_id_def is_error_def split: sum.splits)
next
  case False
  then obtain r where r: "from_dict env res = Inr r" "w \<noteq> []"
    by (cases "from_dict env res") auto
  have "fst (snd (rt_complete_execution env now s sink e i w res t cat conf)) =
      snd (complete_execution env s e i (to_dict r) (or_now t now) w
        (str_or cat (diagnostic_category r))
        (case conf of Some c \<Rightarrow> Some c | None \<Rightarrow> diagnostic_confidence r))"
    using r by (auto simp: rt_complete_execution_def validate_worker_id_def
        split: prod.splits sum.splits transition.splits)
  then show ?thesis
    by (intro reaches_step [of env "Complete e i (to_dict r) (or_now t now) w
          (str_or cat (diagnostic_category r))
          (case conf of Some c \<Rightarrow> Some c | None \<Rightarrow> diagnostic_confidence r)"])
      (simp_all add: all_ok_def)
qed

lemma fail_reaches: "reaches env s (snd (fail_execution env s e i err t retry w res))"
  by (rule reaches_step [of env "Fail e i err t retry w res"]) (simp_all add: all_ok_def)

lemma dead_letter_reaches: "reaches env s (snd (dead_letter_execution env s e i err t w res))"
  by (rule reaches_step [of env "DeadLetter e i err t w res"]) (simp_all add: all_ok_def)

lemma recover_reaches: "reaches env s (snd (recover_stale_execution env s e stale t reason))"
  by (rule reaches_step [of env "Recover e stale t reason"]) (simp_all add: all_ok_def)

lemma mark_published_reaches: "reaches env s (snd (mark_outbox_published s k c t))"
  by (rule reaches_step [of env "MarkPublished k c t"]) (simp_all add: all_ok_def)

lemma mark_failed_reaches: "reaches env s (snd (mark_outbox_failed env s k c err t))"
  by (rule reaches_step [of env "MarkFailed k c err t"]) (simp_all add: all_ok_def)

lemma requeue_stale_reaches: "reaches env s (snd (requeue_stale_outbox s k stale reason))"
  by (rule reaches_step [of env "RequeueStale k stale reason"]) (simp_all add: all_ok_def)

lemma requeue_failed_reaches:
  "reaches env s (snd (requeue_failed_outbox env s k before t reason m tenant))"
  by (rule reaches_step [of env "RequeueFailed k before t reason m tenant"]) (simp_all add: all_ok_def)

lemma rt_fail_reaches: "reaches env s (snd (rt_fail_execution env now s e i w err t retry res))"
  by (auto simp: rt_fail_execution_def intro: fail_reaches split: sum.split)

lemma rt_dead_letter_reaches: "reaches env s (snd (rt_dead_letter_execution env now s e i w err t res))"
  by (auto simp: rt_dead_letter_execution_def intro: dead_letter_reaches split: sum.split)

lemma rt_recover_snd:
  "snd (rt_recover_stale_execution env now s e stale t reason) = s \<or>
   snd (rt_recover_stale_execution env now s e stale t reason) =
     snd (recover_stale_execution env s e (instant stale) (or_now (map_option instant t) now) reason)"
  by (auto simp: rt_recover_stale_execution_def split: prod.split sum.split option.split)

lemma rt_recover_reaches: "reaches env s (snd (rt_recover_stale_execution env now s e stale t reason))"
  using rt_recover_snd [of env now s e stale t reason] recover_reaches by auto

lemma request_reaches:
  "reaches env s (snd (request_diagnostic_execution env now s d sess tenant token t given))"
proof -
  have "reaches env s (snd (request_execution s
      (requested_execution e d sess tenant tok ts m) (requested_outbox env e ts m)))" for e tok ts m
    by (rule reaches_step [of env "Request (requested_execution e d sess tenant tok ts m)
          (requested_outbox env e ts m)"])
      (simp_all add: all_ok_def requested_execution_def requested_outbox_def)
  then show ?thesis
    by (auto simp: request_diagnostic_execution_def Let_def split: option.split sum.split)
qed

lemma rt_claim_outbox_snd:
  "snd (rt_claim_outbox_for_execution env now s e p t) = s \<or>
   (\<exists>r. get_outbox_by_execution s e = Some r \<and>
     snd (rt_claim_outbox_for_execution env now s e p t) =
       snd (claim_outbox_for_execution s e p (lease_token env (o_outbox_id r) p (o_publish_attempt_count r + 1))
         (or_now t now)))"
  by (auto simp: rt_claim_outbox_for_execution_def begin_outbox_claim_def finish_outbox_claim_def derive_outbox_claim_id_def lease_token_def Let_def
      split: option.split prod.split sum.split)

lemma rt_claim_outbox_reaches: "reaches env s (snd (rt_claim_outbox_for_execution env now s e p t))"
  using rt_claim_outbox_snd [of env now s e p t]
proof
  assume "\<exists>r. get_outbox_by_execution s e = Some r \<and>
     snd (rt_claim_outbox_for_execution env now s e p t) =
       snd (claim_outbox_for_execution s e p (lease_token env (o_outbox_id r) p (o_publish_attempt_count r + 1))
         (or_now t now))"
  then obtain r where "get_outbox_by_execution s e = Some r"
    "snd (rt_claim_outbox_for_execution env now s e p t) =
       snd (claim_outbox_for_execution s e p (lease_token env (o_outbox_id r) p (o_publish_attempt_count r + 1))
         (or_now t now))" by blast
  then show ?thesis
    by (intro reaches_step [of env "ClaimOutbox e p (lease_token env (o_outbox_id r) p
          (o_publish_attempt_count r + 1)) (or_now t now)"]) (simp_all add: all_ok_def)
qed simp

lemma requeue_reaches:
  "requeue_stale_outbox s k stale reason = (r, s') \<Longrightarrow> reaches env s s'"
  "requeue_failed_outbox env s k before t reason m tenant = (r, s') \<Longrightarrow> reaches env s s'"
  using requeue_stale_reaches [of env s k stale reason]
    requeue_failed_reaches [of env s k before t reason m tenant] by auto

text \<open>The branches of a method, one at a time.\<close>

lemma reaches_if: "(c \<Longrightarrow> reaches env s (snd a)) \<Longrightarrow> (\<not> c \<Longrightarrow> reaches env s (snd b)) \<Longrightarrow>
    reaches env s (snd (if c then a else b))"
  by simp

lemma reaches_sum: "(\<And>e. x = Inl e \<Longrightarrow> reaches env s (snd (f e))) \<Longrightarrow>
    (\<And>v. x = Inr v \<Longrightarrow> reaches env s (snd (g v))) \<Longrightarrow> reaches env s (snd (case_sum f g x))"
  by (cases x) simp_all

lemma reaches_option: "(x = None \<Longrightarrow> reaches env s (snd a)) \<Longrightarrow>
    (\<And>v. x = Some v \<Longrightarrow> reaches env s (snd (f v))) \<Longrightarrow> reaches env s (snd (case_option a f x))"
  by (cases x) simp_all

lemma reaches_prod: "(\<And>a b. x = (a, b) \<Longrightarrow> reaches env s (snd (f a b))) \<Longrightarrow> reaches env s (snd (case_prod f x))"
  by (cases x) simp

lemmas reaches_branches = reaches_if reaches_sum reaches_option reaches_prod

lemma reconcile_stale_reaches:
  "reaches env s (snd (reconcile_stale_outbox s k stale t tenant reason))"
  unfolding reconcile_stale_outbox_def
  by (intro reaches_branches; simp add: requeue_reaches(1))

lemma reconcile_failed_reaches:
  "reaches env s (snd (reconcile_failed_execution_outbox env now s k before t tenant reason m))"
  unfolding reconcile_failed_execution_outbox_def
  by (intro reaches_branches; simp add: requeue_reaches(2))

lemma settle_snd: "snd (settle_reclaimed k outcome) = snd outcome"
  by (auto simp: settle_reclaimed_def split: prod.split sum.split)

lemma claim_then_mark:
  assumes "rt_claim_outbox_for_execution env now s e p t = (r, s')"
  shows "reaches env s s'" "reaches env s (snd (rt_mark_outbox_failed env now s' k c err u))"
    "reaches env s (snd (rt_mark_outbox_published now s' k c u))"
proof -
  show claim: "reaches env s s'" using rt_claim_outbox_reaches [of env s now e p t] assms by simp
  show "reaches env s (snd (rt_mark_outbox_failed env now s' k c err u))"
    "reaches env s (snd (rt_mark_outbox_published now s' k c u))"
    using reaches_trans [OF claim] mark_failed_reaches mark_published_reaches
    by (simp_all add: rt_mark_outbox_failed_def rt_mark_outbox_published_def)
qed

lemma reclaim_reaches:
  "reaches env s (snd (reclaim_stuck_pending_outbox env now publish m reason r s))"
  unfolding reclaim_stuck_pending_outbox_def
  by (simp add: settle_snd claim_then_mark split: option.split prod.split sum.split bool.split)

lemma sweep_reaches:
  "(\<And>r s. reaches env s (snd (act r s))) \<Longrightarrow> reaches env s (snd (sweep act good rs s))"
proof (induction rs arbitrary: s)
  case (Cons r rs)
  obtain a s1 where a: "act r s = (a, s1)" by force
  then have "reaches env s s1" using Cons.prems [of s r] by simp
  moreover have "reaches env s1 (snd (sweep act good rs s1))" using Cons by blast
  moreover have "snd (sweep act good (r # rs) s) = s1 \<or>
      snd (sweep act good (r # rs) s) = snd (sweep act good rs s1)"
    by (auto simp: a split: sum.split prod.split)
  ultimately show ?case using reaches_trans by metis
qed simp

lemma sweep_page_reaches:
  assumes "\<And>r s. reaches env s (snd (act r s))"
  shows "reaches env s (snd (sweep_page act good page s))"
proof -
  have "snd (sweep_page act good page s) = snd (sweep act good (p_rows page) s)"
    by (auto simp: sweep_page_def split: prod.split sum.split)
  then show ?thesis using sweep_reaches [OF assms] by simp
qed

section \<open>Runtime operations\<close>

datatype runtime_op =
    RtRequest string string string "admission_token option" "int option" "metadata option"
  | RtClaim string string "int option"
  | RtComplete bool string "string option" string metadata "int option" "string option" "pyfloat option"
  | RtFail string "string option" string string "int option" bool "metadata option"
  | RtDeadLetter string "string option" string string "int option" "metadata option"
  | RtRecover string timestamp "timestamp option" string
  | RtRecoverAll timestamp "timestamp option" string int "string option"
  | RtClaimOutbox string string "int option"
  | RtMarkPublished string string "int option"
  | RtMarkFailed string string string "int option"
  | RtReconcileStale string timestamp "timestamp option" "string option" string
  | RtReconcileStaleAll timestamp "timestamp option" "string option" string int
  | RtReconcileFailed string timestamp "timestamp option" "string option" string int
  | RtReconcileFailedAll timestamp "timestamp option" "string option" string int int
  | RtReconcileStuck publisher timestamp "string option" int string int

text \<open>One call of the runtime, with the time its clock shows.\<close>

fun rt_step :: "py_env \<Rightarrow> int \<times> runtime_op \<Rightarrow> exec_store \<Rightarrow> exec_store" where
  "rt_step env (now, RtRequest d sess tenant tok t m) s =
     snd (request_diagnostic_execution env now s d sess tenant tok t m)"
| "rt_step env (now, RtClaim e w t) s = snd (rt_claim_execution env now s e w t)"
| "rt_step env (now, RtComplete sink e i w res t cat conf) s =
     fst (snd (rt_complete_execution env now s sink e i w res t cat conf))"
| "rt_step env (now, RtFail e i w err t retry res) s =
     snd (rt_fail_execution env now s e i w err t retry res)"
| "rt_step env (now, RtDeadLetter e i w err t res) s =
     snd (rt_dead_letter_execution env now s e i w err t res)"
| "rt_step env (now, RtRecover e stale t reason) s =
     snd (rt_recover_stale_execution env now s e stale t reason)"
| "rt_step env (now, RtRecoverAll stale t reason limit tenant) s =
     snd (recover_stale_executions env now s stale t reason limit tenant)"
| "rt_step env (now, RtClaimOutbox e p t) s = snd (rt_claim_outbox_for_execution env now s e p t)"
| "rt_step env (now, RtMarkPublished k c t) s = snd (rt_mark_outbox_published now s k c t)"
| "rt_step env (now, RtMarkFailed k c err t) s = snd (rt_mark_outbox_failed env now s k c err t)"
| "rt_step env (now, RtReconcileStale k stale t tenant reason) s =
     snd (reconcile_stale_outbox s k stale t tenant reason)"
| "rt_step env (now, RtReconcileStaleAll stale t tenant reason limit) s =
     snd (reconcile_stale_outbox_records now s stale t tenant reason limit)"
| "rt_step env (now, RtReconcileFailed k before t tenant reason m) s =
     snd (reconcile_failed_execution_outbox env now s k before t tenant reason m)"
| "rt_step env (now, RtReconcileFailedAll before t tenant reason m limit) s =
     snd (reconcile_failed_execution_outbox_records env now s before t tenant reason m limit)"
| "rt_step env (now, RtReconcileStuck publish stale tenant m reason limit) s =
     snd (reconcile_stuck_pending_outbox_records env now publish s stale tenant m reason limit)"

lemmas sweep_methods = recover_stale_executions_def reconcile_stale_outbox_records_def
  reconcile_failed_execution_outbox_records_def reconcile_stuck_pending_outbox_records_def

lemma rt_step_reaches: "reaches env s (rt_step env op s)"
proof -
  obtain now x where "op = (now, x)" by force
  then show ?thesis
    by (cases x)
      (simp_all add: request_reaches rt_claim_reaches rt_complete_reaches rt_fail_reaches
        rt_dead_letter_reaches rt_recover_reaches rt_claim_outbox_reaches mark_published_reaches
        mark_failed_reaches reconcile_stale_reaches reconcile_failed_reaches reclaim_reaches
        rt_mark_outbox_published_def rt_mark_outbox_failed_def sweep_methods Let_def sweep_page_reaches)
qed

lemma rt_runs_reaches: "reaches env s (runs (rt_step env) ops s)"
  by (induction ops arbitrary: s) (auto intro: reaches_trans rt_step_reaches)

section \<open>Reading and claiming apart\<close>

text \<open>(C20) The token must be derived and used in one step.  Two publishers with one publisher id, as
  all instances of the stuck-row reconciler are, read the same pending row before either
  claims it.  The first claims it and is slow; its lease is requeued as stale.  Then the second
  finishes its claim with the token it derived from its early read: it gets the row, leased a
  second time under the token of the first lease, and the late acknowledgement of the first
  publisher is accepted and publishes the row under the lease of the second.  Had the second
  read the row after the requeue, it would have got the token of the next count.\<close>

theorem exec_token_race:
  assumes row: "dget (s_outbox_by_execution s) e = Some (o_outbox_id r)" "dget (s_outbox s) (o_outbox_id r) = Some r"
    and "begin_outbox_claim env s e p = Inr c" "finish_outbox_claim n1 s e p c t1 = (v1, s1)"
    and "requeue_stale_outbox s1 (o_outbox_id r) stale reason = (Some q, s2)"
  shows "\<exists>v2 s3 r3 r4 s4. finish_outbox_claim n2 s2 e p c t2 = (Inr v2, s3) \<and> oc_claimed v2 \<and> oc_outbox v2 = Some r3 \<and>
    dget (s_outbox s3) (o_outbox_id r) = Some r3 \<and> o_publish_attempt_count r3 = o_publish_attempt_count r + 2 \<and>
    o_claimed_at r3 = Some (or_now t2 n2) \<and> o_claim_id r3 = Some c \<and>
    rt_mark_outbox_published n3 s3 (o_outbox_id r) c t3 = (Inr (OMoved r4), s4) \<and> o_state r4 = PUBLISHED \<and>
    o_claimed_at r4 = o_claimed_at r3 \<and>
    begin_outbox_claim env s2 e p = Inr (lease_token env (o_outbox_id r) p (o_publish_attempt_count r + 2))"
proof -
  let ?k = "o_outbox_id r" and ?r1 = "r\<lparr>o_state := PUBLISHING, o_claimed_at := Some (or_now t1 n1), o_publisher_id := Some p,
    o_claim_id := Some c, o_publish_attempt_count := o_publish_attempt_count r + 1, o_last_error := None\<rparr>"
  have p: "p \<noteq> []" and pending: "o_state r = PENDING"
    and derived: "derive_outbox_claim_id env ?k p (o_publish_attempt_count r + 1) = Inr c"
    using assms(3) row
    by (auto simp: begin_outbox_claim_def get_outbox_by_execution_def split: if_splits sum.splits)
  then have count: "0 \<le> o_publish_attempt_count r"
    by (auto simp: derive_outbox_claim_id_def split: if_splits)
  have s1: "s1 = put_outbox ?r1 ?k s"
    using assms(4) row pending
    by (simp add: finish_outbox_claim_def claim_outbox_for_execution_def get_outbox_by_execution_def Let_def)
  have "\<not> stale < or_now t1 n1" using assms(5) by (auto simp: s1 requeue_stale_outbox_def split: if_splits)
  then have s2: "q = ?r1\<lparr>o_state := PENDING, o_claimed_at := None, o_publisher_id := None, o_claim_id := None,
      o_last_error := Some reason, o_metadata := dmerge (o_metadata r) [(''reconciler.reason'', PStr reason)]\<rparr>"
      "s2 = put_outbox q ?k s1"
    using assms(5) by (auto simp: s1 requeue_stale_outbox_def Let_def)
  show ?thesis
    using row p count
    by (simp add: s2 s1 finish_outbox_claim_def claim_outbox_for_execution_def get_outbox_by_execution_def Let_def
        rt_mark_outbox_published_def mark_outbox_published_def require_outbox_def begin_outbox_claim_def
        derive_outbox_claim_id_def lease_token_def add.commute)
qed

lemma exec_token_race_witness:
  "\<exists>c v1 s1 q s2 v2 s3 r3 r4 s4.
     begin_outbox_claim demo_env (runs (store_step demo_env) [Request demo_execution demo_outbox] empty_store) ''e1'' ''p1'' = Inr c \<and>
     finish_outbox_claim 1 (runs (store_step demo_env) [Request demo_execution demo_outbox] empty_store) ''e1'' ''p1'' c None = (v1, s1) \<and>
     requeue_stale_outbox s1 demo_row 5 ''expired'' = (Some q, s2) \<and>
     finish_outbox_claim 6 s2 ''e1'' ''p1'' c None = (Inr v2, s3) \<and> oc_outbox v2 = Some r3 \<and> o_claimed_at r3 = Some 6 \<and>
     rt_mark_outbox_published 7 s3 demo_row c None = (Inr (OMoved r4), s4) \<and> o_claimed_at r4 = Some 6"
proof -
  let ?s = "runs (store_step demo_env) [Request demo_execution demo_outbox] empty_store"
  have s: "?s = (snd (request_execution empty_store demo_execution demo_outbox))" by simp
  have row: "dget (s_outbox_by_execution ?s) ''e1'' = Some (o_outbox_id demo_outbox)" "dget (s_outbox ?s) (o_outbox_id demo_outbox) = Some demo_outbox"
      "o_outbox_id demo_outbox = demo_row"
    by (simp_all add: lease_defs)
  obtain c where c: "begin_outbox_claim demo_env ?s ''e1'' ''p1'' = Inr c"
    by (simp add: begin_outbox_claim_def derive_outbox_claim_id_def lease_defs)
  obtain v1 s1 where f: "finish_outbox_claim 1 ?s ''e1'' ''p1'' c None = (v1, s1)" by force
  obtain q s2 where q: "requeue_stale_outbox s1 demo_row 5 ''expired'' = (Some q, s2)"
    using f by (auto simp: finish_outbox_claim_def or_now_def lease_defs)
  from exec_token_race [OF row(1,2) c f q [folded row(3)], of 6 None 7 None] c f q row(3)
  show ?thesis by (auto simp: or_now_def)
qed

section \<open>Legitimacy\<close>

lemma legitimacy_holds:
  assumes inv: "exec_inv env D s" and "validate_worker_legitimacy s e i w = Inr r"
  shows "lg_legitimate r \<longleftrightarrow> (\<exists>x a. holds_claim s e (Some i) w x a)"
proof (cases "dget (s_executions s) e")
  case None
  then show ?thesis using assms(2)
    by (auto simp: validate_worker_legitimacy_def get_execution_def holds_claim_def split: if_splits)
next
  case (Some x)
  have "x_execution_id x = e" using executions_okD(1) [OF exec_invD(4) [OF inv] Some] .
  then show ?thesis using Some assms(2)
    by (auto simp: validate_worker_legitimacy_def get_execution_def get_attempt_def holds_claim_def
        worker_legitimacy_violation_def Let_def split: if_splits option.splits)
qed

lemma dead_letter_moved_iff:
  "(\<exists>x'. fst (dead_letter_execution env s e aid' err t w res) = Inr (Moved x')) \<longleftrightarrow>
     (\<exists>x a r. holds_claim s e aid' w x a \<and> from_dict env res = Inr r)"
proof
  assume "\<exists>x'. fst (dead_letter_execution env s e aid' err t w res) = Inr (Moved x')"
  then show "\<exists>x a r. holds_claim s e aid' w x a \<and> from_dict env res = Inr r"
    by (auto simp: dead_letter_execution_def holds_claim_def load_attempt_Inr transition_claim_lost_None
        require_execution_Inr Let_def split: sum.splits option.splits)
next
  assume "\<exists>x a r. holds_claim s e aid' w x a \<and> from_dict env res = Inr r"
  then show "\<exists>x'. fst (dead_letter_execution env s e aid' err t w res) = Inr (Moved x')"
    by (auto simp: dead_letter_execution_def holds_claim_def load_attempt_for_transition_def
        transition_claim_lost_def require_execution_def Let_def)
qed

section \<open>Properties\<close>

text \<open>(C21) The runtime refines the store.  Whatever sequence of runtime calls is
  made, with whatever arguments and clock readings, the store ends where some legal
  run of store operations ends, which derives only finitely many identities; so
  every theorem about legal runs of the store holds of the runtime.\<close>

theorem rt_refines_store:
  "\<exists>ops D E X. finite D \<and> finite E \<and> finite X \<and>
     legal (store_step env) (op_ok D) ops empty_store \<and>
     legal (store_step env) (outbox_op_ok env E X) ops empty_store \<and>
     runs (rt_step env) calls empty_store = runs (store_step env) ops empty_store"
proof -
  obtain ops where ops: "legal (store_step env) (all_ok env) ops empty_store"
    "runs (rt_step env) calls empty_store = runs (store_step env) ops empty_store"
    using rt_runs_reaches [of env empty_store calls] unfolding reaches_def by blast
  obtain D E X where fin: "finite D" "finite E" "finite X" and
    both: "legal (store_step env) (\<lambda>op s. op_ok D op s \<and> outbox_op_ok env E X op s) ops empty_store"
    using legal_finite [OF ops(1)] by blast
  have "legal (store_step env) (op_ok D) ops empty_store"
    "legal (store_step env) (outbox_op_ok env E X) ops empty_store"
    by (rule legal_mono [OF _ both], simp)+
  with fin ops(2) show ?thesis by blast
qed

text \<open>The legitimacy verdict is the transition guard.  In every state a legal
  run reaches, \<open>validate_worker_legitimacy\<close> calls a worker legitimate exactly when
  failing or dead-lettering through that attempt would move the execution at that
  moment.\<close>

theorem rt_legitimacy_exact:
  assumes "no_collision env D"
    and "legal (store_step env) (op_ok D) ops empty_store"
    and "s = runs (store_step env) ops empty_store"
    and "validate_worker_legitimacy s e i w = Inr r"
  shows "(lg_legitimate r \<longleftrightarrow>
       (\<exists>x. fst (rt_fail_execution env now s e (Some i) w err t retry None) = Inr (Moved x))) \<and>
    (lg_legitimate r \<longleftrightarrow>
       (\<exists>x. fst (rt_dead_letter_execution env now s e (Some i) w err t None) = Inr (Moved x)))"
proof -
  have inv: "exec_inv env D s"
    using exec.runs_inv [OF exec_inv_empty [OF assms(1)] assms(2)] assms(3) by simp
  have w: "w \<noteq> []" using assms(4) by (auto simp: validate_worker_legitimacy_def split: if_splits)
  have "\<exists>r. from_dict env (to_dict (failure_envelope code err)) = Inr r" for code
    using from_dict_to_dict by (auto simp: failure_envelope_def empty_envelope_def)
  then show ?thesis
    using legitimacy_holds [OF inv assms(4)] w
    by (auto simp: rt_fail_execution_def rt_dead_letter_execution_def validate_worker_id_def
        fail_moved_iff dead_letter_moved_iff)
qed

theorem rt_legitimacy_exact_witness:
  "\<exists>x. fst (rt_fail_execution demo_env 9 (runs (store_step demo_env) demo_ops empty_store) ''e1''
      (Some (aid demo_env ''e1'' 1)) ''w1'' ''boom'' None True None) = Inr (Moved x)"
proof -
  let ?s = "runs (store_step demo_env) demo_ops empty_store"
  obtain r where r: "validate_worker_legitimacy ?s ''e1'' (aid demo_env ''e1'' 1) ''w1'' = Inr r"
    "lg_legitimate r"
    using demo_store
    by (auto simp: validate_worker_legitimacy_def get_execution_def get_attempt_def
        worker_legitimacy_violation_def claimed_execution_def new_attempt_def demo_execution_def Let_def)
  show ?thesis using r(2) rt_legitimacy_exact [OF no_collision_demo demo_legal refl r(1)] by blast
qed

end
