(* ===== verification/Execution_Sweeps.thy ===== *)
theory Execution_Sweeps
  imports Execution_Authority
begin

text \<open>
  The sweeps of the execution runtime: each walks the page its query lists and
  settles the rows one by one.  The contract they share is a locale (acting on a
  row that is still as listed settles it and touches no other row), and its
  consequence is that no row is refused and all of them end settled.
\<close>

section \<open>Settling a page row by row\<close>

locale settling =
  fixes act :: "'r \<Rightarrow> 's \<Rightarrow> 'a result \<times> 's"
    and accepted :: "'a \<Rightarrow> bool"
    and inv :: "'s \<Rightarrow> bool"
    and val :: "'s \<Rightarrow> 'k \<Rightarrow> 'v"
    and key :: "'r \<Rightarrow> 'k"
    and listed :: "'r \<Rightarrow> 'v \<Rightarrow> bool"
    and settled :: "'r \<Rightarrow> 'v \<Rightarrow> bool"
  assumes settle:
    "inv s \<Longrightarrow> listed r (val s (key r)) \<Longrightarrow>
       \<exists>a s'. act r s = (Inr a, s') \<and> accepted a \<and> inv s' \<and> settled r (val s' (key r)) \<and>
         (\<forall>k. k \<noteq> key r \<longrightarrow> val s' k = val s k)"
begin

lemma sweep_settles:
  "inv s \<Longrightarrow> distinct (map key rs) \<Longrightarrow> \<forall>r\<in>set rs. listed r (val s (key r)) \<Longrightarrow>
     \<exists>yes s'. sweep act accepted rs s = (Inr (yes, []), s') \<and> length yes = length rs \<and> inv s' \<and>
       (\<forall>r\<in>set rs. settled r (val s' (key r))) \<and> (\<forall>k. k \<notin> key ` set rs \<longrightarrow> val s' k = val s k)"
proof (induction rs arbitrary: s)
  case (Cons r rs)
  then obtain a s1 where a: "act r s = (Inr a, s1)" "accepted a" "inv s1"
    "settled r (val s1 (key r))" "\<forall>k. k \<noteq> key r \<longrightarrow> val s1 k = val s k"
    using settle [of s r] by auto
  have "\<forall>q\<in>set rs. listed q (val s1 (key q))"
    using Cons.prems(2,3) a(5) by (metis distinct.simps(2) image_eqI list.set_intros(2) list.set_map list.simps(9))
  then obtain yes s' where s': "sweep act accepted rs s1 = (Inr (yes, []), s')" "length yes = length rs"
    "inv s'" "\<forall>q\<in>set rs. settled q (val s' (key q))" "\<forall>k. k \<notin> key ` set rs \<longrightarrow> val s' k = val s1 k"
    using Cons.IH [OF a(3)] Cons.prems(2) by auto
  have "val s' (key r) = val s1 (key r)" using s'(5) Cons.prems(2) by simp
  then show ?case using a s' by (auto simp del: split_paired_All)
qed simp

lemma page_settles:
  assumes "inv s" "distinct (map key (p_rows page))" "\<forall>r\<in>set (p_rows page). listed r (val s (key r))"
  shows "\<exists>res s'. sweep_page act accepted page s = (Inr res, s') \<and> sw_refused res = [] \<and>
    swept_count res = int (length (p_rows page)) \<and> sw_scanned res = swept_count res \<and> inv s' \<and>
    (\<forall>r\<in>set (p_rows page). settled r (val s' (key r))) \<and>
    (\<forall>k. k \<notin> key ` set (p_rows page) \<longrightarrow> val s' k = val s k)"
  using sweep_settles [OF assms] by (auto simp: sweep_page_def swept_count_def)

end

section \<open>Pages have distinct rows\<close>

lemma distinct_map_sort_key [simp]: "distinct (map f (sort_key g xs)) \<longleftrightarrow> distinct (map f xs)"
  by (simp add: distinct_map)

lemma distinct_map_narrow: "distinct (map f rows) \<Longrightarrow> distinct (map f (narrow q p rows))"
  by (cases q) (auto simp: distinct_map inj_on_def)

lemma distinct_map_slice: "distinct (map f rows) \<Longrightarrow> distinct (map f (py_slice rows a b))"
  by (simp add: py_slice_def Let_def take_map [symmetric] drop_map [symmetric])

lemma keyed_values:
  assumes "\<And>k v. dget d k = Some v \<Longrightarrow> f v = k" "wf_dict d"
  shows "distinct (map f (dvals d))"
proof -
  have "f (snd kv) = fst kv" if "kv \<in> set d" for kv
    using assms(1) [of "fst kv" "snd kv"] map_of_is_SomeI [OF assms(2), of "fst kv" "snd kv"] that by simp
  then have "map f (dvals d) = dkeys d" by simp
  then show ?thesis using assms(2) by metis
qed

section \<open>Recovery of stale executions\<close>

definition stale_claim :: "int \<Rightarrow> execution_record \<Rightarrow> bool" where
  "stale_claim stale x \<longleftrightarrow> x_state x = CLAIMED \<and> (\<exists>c. x_claimed_at x = Some c \<and> c \<le> stale)"

definition recover_act ::
  "py_env \<Rightarrow> int \<Rightarrow> int \<Rightarrow> int \<Rightarrow> string \<Rightarrow> execution_record \<Rightarrow> exec_store
     \<Rightarrow> recovery_result result \<times> exec_store" where
  "recover_act env now stale ts reason x s =
     rt_recover_stale_execution env now s (x_execution_id x) (Aware stale) (Some (Aware ts)) reason"

lemma recover_act_settles:
  assumes inv: "exec_inv env D s" and x: "dget (s_executions s) (x_execution_id x) = Some x"
    and stale: "stale_claim stale x" and "reason \<noteq> []"
  shows "\<exists>a s'. recover_act env now stale ts reason x s = (Inr a, s') \<and> rr_recovered a \<and> exec_inv env D s' \<and>
    (\<exists>y. dget (s_executions s') (x_execution_id x) = Some y \<and> x_state y = REQUESTED \<and>
       x_tenant_id y = x_tenant_id x) \<and>
    (\<forall>k. k \<noteq> x_execution_id x \<longrightarrow> dget (s_executions s') k = dget (s_executions s) k)"
proof -
  let ?e = "x_execution_id x"
  have inv': "exec_inv env D (snd (recover_stale_execution env s ?e stale ts reason))"
    using store_step_inv [OF inv, of "Recover ?e stale ts reason"] by simp
  from inv show ?thesis
  proof (cases rule: recover_stale_execution_cases
      [where e = ?e and stale = stale and t = ts and reason = reason])
    case kept
    then show ?thesis using kept(2) [OF x] stale by (auto simp: stale_claim_def)
  next
    case (recovered y a y' a' c)
    have "y = x" using recovered(1) x by simp
    then show ?thesis
      using recovered(7,8) inv' \<open>reason \<noteq> []\<close>
      by (simp add: recover_act_def rt_recover_stale_execution_def or_now_def)
  qed
qed

interpretation recovery: settling "recover_act env now stale ts (c # cs)" rr_recovered "exec_inv env D"
    "\<lambda>s. dget (s_executions s)" x_execution_id "\<lambda>x v. v = Some x \<and> stale_claim stale x"
    "\<lambda>x v. \<exists>y. v = Some y \<and> x_state y = REQUESTED \<and> x_tenant_id y = x_tenant_id x"
  for env :: py_env and D :: "(string \<times> int) set" and now stale ts :: int and c :: char and cs :: string
  by unfold_locales (use recover_act_settles in blast)

lemma stale_query_rows:
  assumes inv: "exec_inv env D s"
  shows "set (execution_rows s (stale_query tenant stale limit) tenant) =
      {x. dget (s_executions s) (x_execution_id x) = Some x \<and> tenant_visible (x_tenant_id x) tenant \<and>
          stale_claim stale x}"
    and "distinct (map x_execution_id (execution_rows s (stale_query tenant stale limit) tenant))"
proof -
  have id: "dget (s_executions s) e = Some x \<Longrightarrow> x_execution_id x = e" for e x
    using executions_okD(1) [OF exec_invD(4) [OF inv]] by blast
  have stored: "x \<in> set (dvals (s_executions s)) \<longleftrightarrow> dget (s_executions s) (x_execution_id x) = Some x" for x
    unfolding in_dvals_iff [OF exec_invD(2) [OF inv]] using id by blast
  have matches: "query_matches (stale_query tenant stale limit) tenant x \<longleftrightarrow>
      tenant_visible (x_tenant_id x) tenant \<and> stale_claim stale x" for x
    by (simp add: query_matches_def stale_query_def default_execution_query_def stale_claim_def)
  show "set (execution_rows s (stale_query tenant stale limit) tenant) =
      {x. dget (s_executions s) (x_execution_id x) = Some x \<and> tenant_visible (x_tenant_id x) tenant \<and>
          stale_claim stale x}"
    unfolding set_execution_rows stored matches ..
  show "distinct (map x_execution_id (execution_rows s (stale_query tenant stale limit) tenant))"
    unfolding execution_rows_def Let_def distinct_map_sort_key
    by (intro distinct_map_narrow keyed_values [OF id exec_invD(2) [OF inv]])
qed

text \<open>The recovery sweep is complete.  In every reachable store, a sweep with
  legal arguments returns normally, refuses none of the rows it scanned and
  recovers all of them; if the page was large enough for all matches, no execution
  the sweep may see is left with a stale claim, and at most \<open>limit\<close> executions were
  touched.\<close>

theorem rt_recovery_sweep:
  assumes "no_collision env D"
    and "legal (store_step env) (op_ok D) ops empty_store"
    and "s = runs (store_step env) ops empty_store"
    and "reason \<noteq> []" "1 \<le> limit"
    and "recover_stale_executions env now s (Aware stale) (map_option Aware t) reason limit tenant = (res, s')"
  shows "\<exists>r. res = Inr r \<and> sw_refused r = [] \<and> swept_count r = sw_scanned r \<and> sw_scanned r \<le> limit \<and>
    (p_total (list_executions s (stale_query tenant stale limit) tenant) \<le> limit \<longrightarrow>
       (\<forall>e x. dget (s_executions s') e = Some x \<longrightarrow> tenant_visible (x_tenant_id x) tenant \<longrightarrow>
          \<not> stale_claim stale x))"
proof -
  have inv: "exec_inv env D s"
    using exec.runs_inv [OF exec_inv_empty [OF assms(1)] assms(2)] assms(3) by simp
  let ?page = "list_executions s (stale_query tenant stale limit) tenant"
  let ?rows = "execution_rows s (stale_query tenant stale limit) tenant"
  obtain c cs where cs: "reason = c # cs" using assms(4) by (cases reason) auto
  have rows: "p_rows ?page = py_slice ?rows 0 (0 + limit)" "p_total ?page = int (length ?rows)"
    by (simp_all add: list_executions_def Let_def stale_query_def default_execution_query_def)
  have dist: "distinct (map x_execution_id (p_rows ?page))"
    unfolding rows by (rule distinct_map_slice [OF stale_query_rows(2) [OF inv]])
  have listed: "\<forall>x\<in>set (p_rows ?page). dget (s_executions s) (x_execution_id x) = Some x \<and> stale_claim stale x"
    unfolding rows using set_py_slice stale_query_rows(1) [OF inv] by fastforce
  note settles = recovery.page_settles [OF inv dist listed, of now "or_now t now" c cs]
  obtain r s1 where r: "sweep_page (recover_act env now stale (or_now t now) (c # cs)) rr_recovered ?page s
      = (Inr r, s1)" "sw_refused r = []" "swept_count r = int (length (p_rows ?page))" "sw_scanned r = swept_count r"
    "\<forall>x\<in>set (p_rows ?page). \<exists>y. dget (s_executions s1) (x_execution_id x) = Some y \<and> x_state y = REQUESTED \<and>
       x_tenant_id y = x_tenant_id x"
    "\<forall>k. k \<notin> x_execution_id ` set (p_rows ?page) \<longrightarrow> dget (s_executions s1) k = dget (s_executions s) k"
    "exec_inv env D s1"
    using settles by blast
  have "recover_stale_executions env now s (Aware stale) (map_option Aware t) reason limit tenant = (Inr r, s1)"
    using r(1) assms(5) cs
    by (cases t) (simp_all add: recover_stale_executions_def recover_act_def [abs_def] Let_def or_now_def)
  then have eq: "res = Inr r" "s' = s1" using assms(6) by simp_all
  have "length (p_rows ?page) \<le> nat limit"
    unfolding rows using py_slice_nonneg [of 0 limit ?rows] assms(5) by simp
  moreover have "\<not> stale_claim stale x" if "p_total ?page \<le> limit" "dget (s_executions s1) e = Some x"
    "tenant_visible (x_tenant_id x) tenant" for e x
  proof (cases "e \<in> x_execution_id ` set (p_rows ?page)")
    case True
    then show ?thesis using r(5) that(2) by (auto simp: stale_claim_def)
  next
    case False
    have "p_rows ?page = ?rows" using that(1) unfolding rows by (simp add: py_slice_all)
    moreover have "dget (s_executions s) e = Some x" "x_execution_id x = e"
      using False r(6) that(2) executions_okD(1) [OF exec_invD(4) [OF r(7)] that(2)] by auto
    ultimately show ?thesis using False stale_query_rows(1) [OF inv] that(3) by auto
  qed
  ultimately show ?thesis using eq r(2-4) assms(5) by auto
qed

theorem rt_recovery_sweep_witness:
  "\<exists>r s'. recover_stale_executions demo_env 7 (runs (store_step demo_env) demo_ops empty_store) (Aware 6)
     (Some (Aware 7)) ''expired'' 10 None = (Inr r, s') \<and> sw_refused r = []"
proof -
  obtain res s' where *: "recover_stale_executions demo_env 7 (runs (store_step demo_env) demo_ops empty_store)
     (Aware 6) (map_option Aware (Some 7)) ''expired'' 10 None = (res, s')" by force
  then show ?thesis
    using rt_recovery_sweep [OF no_collision_demo demo_legal refl _ _ *] by auto
qed

section \<open>Outbox rows\<close>

definition outbox_shape :: "(string, execution_record) dict \<Rightarrow> exec_store \<Rightarrow> bool" where
  "outbox_shape xs s \<longleftrightarrow> s_executions s = xs \<and> wf_dict (s_outbox s) \<and> outbox_index_ok s \<and>
     (\<forall>k r. dget (s_outbox s) k = Some r \<longrightarrow> o_outbox_id r = k \<and> 0 \<le> o_publish_attempt_count r)"

lemma outbox_shapeD:
  assumes "outbox_shape xs s"
  shows "s_executions s = xs" "wf_dict (s_outbox s)" "outbox_index_ok s"
    "dget (s_outbox s) k = Some r \<Longrightarrow> o_outbox_id r = k"
    "dget (s_outbox s) k = Some r \<Longrightarrow> 0 \<le> o_publish_attempt_count r"
    "dget (s_outbox s) k = Some r \<Longrightarrow> get_outbox_by_execution s (o_execution_id r) = Some r"
proof -
  show "dget (s_outbox s) k = Some r \<Longrightarrow> get_outbox_by_execution s (o_execution_id r) = Some r"
  proof -
    assume r: "dget (s_outbox s) k = Some r"
    then have "dget (s_outbox_by_execution s) (o_execution_id r) = Some k"
      using assms unfolding outbox_shape_def outbox_index_ok_def by blast
    with r show ?thesis by (simp add: get_outbox_by_execution_def)
  qed
qed (use assms in \<open>auto simp: outbox_shape_def\<close>)

lemma outbox_shape_put:
  assumes "outbox_shape xs s" "dget (s_outbox s) k = Some r" "o_outbox_id r' = k"
    "o_execution_id r' = o_execution_id r" "0 \<le> o_publish_attempt_count r'"
  shows "outbox_shape xs (put_outbox r' k s)"
proof -
  have "outbox_index_ok (put_outbox r' k s)"
    using outbox_shapeD(3) [OF assms(1)] assms(2,4) by (fastforce simp: outbox_index_ok_def)
  then show ?thesis using assms by (simp add: outbox_shape_def)
qed

text \<open>The rows of a dictionary stay distinct: every step inserts with \<open>dset\<close>.\<close>

lemma step_wf_outbox:
  assumes "outbox_inv env E X s" "outbox_op_ok env E X op s" "wf_dict (s_outbox s)"
  shows "wf_dict (s_outbox (store_step env op s))"
  using assms(1,2)
proof (cases rule: outbox_step_cases)
  case (request x r)
  then show ?thesis using assms(3) by (auto simp: request_execution_def split: option.split)
qed (use assms(3) in \<open>auto simp: same_outbox_def\<close>)

lemma runs_wf_outbox:
  "outbox_inv env E X s \<Longrightarrow> wf_dict (s_outbox s) \<Longrightarrow> legal (store_step env) (outbox_op_ok env E X) ops s \<Longrightarrow>
     wf_dict (s_outbox (runs (store_step env) ops s))"
  by (induction ops arbitrary: s) (simp_all add: outbox_step_inv step_wf_outbox)

lemma reachable_shape:
  assumes "outbox_ids_unique env E" "tokens_unique env X"
    and "legal (store_step env) (outbox_op_ok env E X) ops empty_store"
    and "s = runs (store_step env) ops empty_store"
  shows "outbox_shape (s_executions s) s"
proof -
  have inv0: "outbox_inv env E X empty_store" by (rule outbox_inv_empty [OF assms(1,2)])
  have inv: "outbox_inv env E X s" using exec_lease.runs_inv [OF inv0 assms(3)] assms(4) by simp
  have "wf_dict (s_outbox s)"
    using runs_wf_outbox [OF inv0 _ assms(3)] assms(4) by (simp add: empty_store_def)
  then show ?thesis using outbox_invD(3,4) [OF inv] by (simp add: outbox_shape_def outbox_row_ok_def)
qed

lemma listed_rows_distinct:
  assumes "outbox_shape xs s"
  shows "distinct (map o_outbox_id (py_slice (sort_key outbox_sort_key (filter p (dvals (s_outbox s)))) a b))"
proof (rule distinct_map_slice, unfold distinct_map_sort_key)
  have "distinct (map o_outbox_id (dvals (s_outbox s)))"
    by (rule keyed_values [OF outbox_shapeD(4,2) [OF assms]])
  then show "distinct (map o_outbox_id (filter p (dvals (s_outbox s))))" by (rule distinct_map_filter)
qed

lemma listed_rows_stored:
  assumes "outbox_shape xs s"
    and "r \<in> set (py_slice (sort_key outbox_sort_key (filter p (dvals (s_outbox s)))) a b)"
  shows "dget (s_outbox s) (o_outbox_id r) = Some r" "p r"
proof -
  have "r \<in> set (dvals (s_outbox s)) \<and> p r"
    using assms(2) set_py_slice [of "sort_key outbox_sort_key (filter p (dvals (s_outbox s)))" a b] by auto
  then show "dget (s_outbox s) (o_outbox_id r) = Some r" "p r"
    using in_dvals_iff [OF outbox_shapeD(2) [OF assms(1)]] outbox_shapeD(4) [OF assms(1)] by auto
qed

section \<open>Retrying stuck rows\<close>

definition stuck_row :: "(string, execution_record) dict \<Rightarrow> outbox_record \<Rightarrow> bool" where
  "stuck_row xs r \<longleftrightarrow> o_state r = PENDING \<and>
     (\<exists>x. dget xs (o_execution_id r) = Some x \<and> x_state x \<notin> {COMPLETED, FAILED, DEAD_LETTERED})"

definition stuck_outcome ::
  "publisher \<Rightarrow> int \<Rightarrow> string \<Rightarrow> (string, execution_record) dict \<Rightarrow> outbox_record \<Rightarrow> outbox_record \<Rightarrow> bool"
  where
  "stuck_outcome publish m reason xs r r' \<longleftrightarrow>
     o_publish_attempt_count r' = o_publish_attempt_count r + 1 \<and>
     (case dget xs (o_execution_id r) of
        None \<Rightarrow> False
      | Some x \<Rightarrow>
          if m \<le> o_publish_attempt_count r
          then o_state r' = OUTBOX_FAILED \<and> o_last_error r' = Some ''stale_pending_retry_budget_exhausted''
          else (case publish (o_execution_id r) (x_tenant_id x) of
                  None \<Rightarrow> o_state r' = PUBLISHED
                | Some failure \<Rightarrow> o_state r' = OUTBOX_FAILED \<and>
                    o_last_error r' = Some (publish_error reason failure)))"

lemma claim_pending:
  assumes "outbox_shape xs s" "dget (s_outbox s) k = Some r" "o_state r = PENDING" "p \<noteq> []"
  shows "\<exists>c r1. rt_claim_outbox_for_execution env now s (o_execution_id r) p None =
      (Inr \<lparr>oc_claimed = True, oc_outbox = Some r1, oc_reason = None\<rparr>, put_outbox r1 k s) \<and>
    o_outbox_id r1 = k \<and> o_execution_id r1 = o_execution_id r \<and> o_state r1 = PUBLISHING \<and>
    o_claim_id r1 = Some c \<and> o_publish_attempt_count r1 = o_publish_attempt_count r + 1"
  using outbox_shapeD(4-6) [OF assms(1,2)] assms(2-4)
  by (simp add: rt_claim_outbox_for_execution_def begin_outbox_claim_def finish_outbox_claim_def derive_outbox_claim_id_def claim_outbox_for_execution_def Let_def)

lemma mark_claimed:
  assumes "o_outbox_id r1 = k" "o_state r1 = PUBLISHING" "o_claim_id r1 = Some c"
  shows "\<exists>r2. mark_outbox_failed env (put_outbox r1 k s) k c err now = (Inr (OMoved r2), put_outbox r2 k (put_outbox r1 k s)) \<and>
      o_outbox_id r2 = k \<and> o_execution_id r2 = o_execution_id r1 \<and> o_state r2 = OUTBOX_FAILED \<and>
      o_last_error r2 = Some err \<and> o_publish_attempt_count r2 = o_publish_attempt_count r1"
    and "\<exists>r2. mark_outbox_published (put_outbox r1 k s) k c now = (Inr (OMoved r2), put_outbox r2 k (put_outbox r1 k s)) \<and>
      o_outbox_id r2 = k \<and> o_execution_id r2 = o_execution_id r1 \<and> o_state r2 = PUBLISHED \<and>
      o_publish_attempt_count r2 = o_publish_attempt_count r1"
  using assms by (simp_all add: mark_outbox_failed_def mark_outbox_published_def require_outbox_def Let_def)

lemma settle_put:
  "settle_reclaimed k (Inr t, put_outbox r2 k s) = (Inr (reconciled (Some r2)), put_outbox r2 k s)"
  by (simp add: settle_reclaimed_def rt_get_outbox_def validate_optional_tenant_id_def get_outbox_def)

lemma reclaim_settles:
  assumes shape: "outbox_shape xs s" and r: "dget (s_outbox s) (o_outbox_id r) = Some r" and "stuck_row xs r"
  shows "\<exists>a s'. reclaim_stuck_pending_outbox env now publish m reason r s = (Inr a, s') \<and> rc_reconciled a \<and>
    outbox_shape xs s' \<and> (\<exists>r'. dget (s_outbox s') (o_outbox_id r) = Some r' \<and> stuck_outcome publish m reason xs r r') \<and>
    (\<forall>k. k \<noteq> o_outbox_id r \<longrightarrow> dget (s_outbox s') k = dget (s_outbox s) k)"
proof -
  let ?k = "o_outbox_id r"
  obtain x where x: "dget xs (o_execution_id r) = Some x" "x_state x \<notin> {COMPLETED, FAILED, DEAD_LETTERED}"
    "o_state r = PENDING" using assms(3) by (auto simp: stuck_row_def)
  have ex: "get_execution s (o_execution_id r) None = Some x"
    using x(1) outbox_shapeD(1) [OF shape] by (simp add: get_execution_def)
  have "STUCK_PENDING_RECONCILER_PUBLISHER_ID \<noteq> []" by (simp add: STUCK_PENDING_RECONCILER_PUBLISHER_ID_def)
  then obtain c r1 where claim: "rt_claim_outbox_for_execution env now s (o_execution_id r)
        STUCK_PENDING_RECONCILER_PUBLISHER_ID None =
      (Inr \<lparr>oc_claimed = True, oc_outbox = Some r1, oc_reason = None\<rparr>, put_outbox r1 ?k s)"
    and r1: "o_outbox_id r1 = ?k" "o_execution_id r1 = o_execution_id r" "o_state r1 = PUBLISHING"
    "o_claim_id r1 = Some c" "o_publish_attempt_count r1 = o_publish_attempt_count r + 1"
    using claim_pending [OF shape r x(3)] by blast
  have count: "0 \<le> o_publish_attempt_count r" using outbox_shapeD(5) [OF shape r] .
  have shape1: "outbox_shape xs (put_outbox r1 ?k s)"
    using outbox_shape_put [OF shape r r1(1,2)] count r1(5) by simp
  have shape2: "outbox_shape xs (put_outbox r2 ?k (put_outbox r1 ?k s))"
    if "o_outbox_id r2 = ?k" "o_execution_id r2 = o_execution_id r1"
      "o_publish_attempt_count r2 = o_publish_attempt_count r1" for r2
    using outbox_shape_put [OF shape1, of ?k r1 r2] that count r1(5) by simp
  obtain err where err: "err = (if m \<le> o_publish_attempt_count r then ''stale_pending_retry_budget_exhausted''
      else case publish (o_execution_id r) (x_tenant_id x) of Some f \<Rightarrow> publish_error reason f | None \<Rightarrow> [])" by blast
  obtain f where f: "mark_outbox_failed env (put_outbox r1 ?k s) ?k c err now =
        (Inr (OMoved f), put_outbox f ?k (put_outbox r1 ?k s))"
      "o_outbox_id f = ?k" "o_execution_id f = o_execution_id r1" "o_state f = OUTBOX_FAILED"
      "o_last_error f = Some err" "o_publish_attempt_count f = o_publish_attempt_count r1"
    using mark_claimed(1) [OF r1(1,3,4)] by blast
  obtain p where p: "mark_outbox_published (put_outbox r1 ?k s) ?k c now =
        (Inr (OMoved p), put_outbox p ?k (put_outbox r1 ?k s))"
      "o_outbox_id p = ?k" "o_execution_id p = o_execution_id r1" "o_state p = PUBLISHED"
      "o_publish_attempt_count p = o_publish_attempt_count r1"
    using mark_claimed(2) [OF r1(1,3,4)] by blast
  note run = reclaim_stuck_pending_outbox_def ex claim r1(1,4) rt_mark_outbox_failed_def
    rt_mark_outbox_published_def or_now_def settle_put TERMINAL_OUTBOX_RETRY_EXECUTION_STATES_def
  show ?thesis
  proof (cases "m \<le> o_publish_attempt_count r \<or> publish (o_execution_id r) (x_tenant_id x) \<noteq> None")
    case True
    then have "reclaim_stuck_pending_outbox env now publish m reason r s =
        (Inr (reconciled (Some f)), put_outbox f ?k (put_outbox r1 ?k s))"
      using x(2) f(1) err by (auto simp: run split: option.splits if_splits)
    then show ?thesis
      using True shape2 [OF f(2,3,6)] f r1 err x(1)
      by (auto simp: stuck_outcome_def reconciled_def split: option.splits)
  next
    case False
    then have no: "\<not> m \<le> o_publish_attempt_count r" "publish (o_execution_id r) (x_tenant_id x) = None"
      by blast+
    then have "reclaim_stuck_pending_outbox env now publish m reason r s =
        (Inr (reconciled (Some p)), put_outbox p ?k (put_outbox r1 ?k s))"
      using x(2) p(1) by (simp add: run)
    then show ?thesis
      using no shape2 [OF p(2,3,5)] p r1 x(1) by (auto simp: stuck_outcome_def reconciled_def)
  qed
qed

interpretation stuck: settling "reclaim_stuck_pending_outbox env now publish m reason" rc_reconciled "outbox_shape xs"
    "\<lambda>s. dget (s_outbox s)" o_outbox_id "\<lambda>r v. v = Some r \<and> stuck_row xs r"
    "\<lambda>r v. \<exists>r'. v = Some r' \<and> stuck_outcome publish m reason xs r r'"
  for env :: py_env and now m :: int and publish :: publisher and reason :: string
    and xs :: "(string, execution_record) dict"
  by unfold_locales (use reclaim_settles in blast)

lemma stuck_pending_row: "stuck_pending s tenant stale r \<Longrightarrow> stuck_row (s_executions s) r"
  by (auto simp: stuck_row_def stuck_pending_def TERMINAL_OUTBOX_RETRY_EXECUTION_STATES_def
      split: option.splits if_splits)

text \<open>The stuck-row sweep settles every row it lists.  In every reachable store
  and for every behaviour of the publisher, the sweep returns normally and refuses
  nothing; each listed row was leased once more and ends published when the
  publisher accepted it, failed with the publisher's error when it did not, and
  failed as exhausted, without asking the publisher, when its budget was spent.  No
  other row and no execution is touched.\<close>

theorem rt_stuck_sweep:
  assumes "outbox_ids_unique env E" "tokens_unique env X"
    and "legal (store_step env) (outbox_op_ok env E X) ops empty_store"
    and "s = runs (store_step env) ops empty_store"
    and "reason \<noteq> []" "1 \<le> limit" "1 \<le> m"
    and "page = list_stuck_pending_outbox_records s tenant stale limit"
    and "reconcile_stuck_pending_outbox_records env now publish s (Aware stale) tenant m reason limit = (res, s')"
  shows "\<exists>r. res = Inr r \<and> sw_refused r = [] \<and> swept_count r = int (length (p_rows page)) \<and>
    s_executions s' = s_executions s \<and>
    (\<forall>row\<in>set (p_rows page). \<exists>row'. dget (s_outbox s') (o_outbox_id row) = Some row' \<and>
       stuck_outcome publish m reason (s_executions s) row row') \<and>
    (\<forall>k. k \<notin> o_outbox_id ` set (p_rows page) \<longrightarrow> dget (s_outbox s') k = dget (s_outbox s) k)"
proof -
  have shape: "outbox_shape (s_executions s) s" by (rule reachable_shape [OF assms(1-4)])
  have page: "p_rows page = py_slice (sort_key outbox_sort_key
      (filter (stuck_pending s tenant stale) (dvals (s_outbox s)))) 0 limit"
    by (simp add: assms(8) list_stuck_pending_outbox_records_def Let_def)
  have "\<forall>r\<in>set (p_rows page). dget (s_outbox s) (o_outbox_id r) = Some r \<and> stuck_row (s_executions s) r"
    unfolding page using listed_rows_stored [OF shape] stuck_pending_row by blast
  moreover have "distinct (map o_outbox_id (p_rows page))"
    unfolding page by (rule listed_rows_distinct [OF shape])
  ultimately show ?thesis
    using stuck.page_settles [OF shape, of page env now publish m reason] assms(5-9)
    by (auto simp: reconcile_stuck_pending_outbox_records_def dest: outbox_shapeD(1))
qed

text \<open>A failed row, requeued by the retry sweep, is stuck; two budgets.\<close>

definition stuck_ops :: "store_op list" where
  "stuck_ops = failed_ops @ [RequeueFailed demo_row 9 10 ''retry'' 3 None]"

lemma stuck_legal: "legal (store_step demo_env) (outbox_op_ok demo_env demo_E demo_X) stuck_ops empty_store"
  using lease_legal by (simp add: stuck_ops_def failed_ops_def legal_append)

theorem rt_stuck_sweep_witness:
  "\<exists>r s'. reconcile_stuck_pending_outbox_records demo_env 12 (\<lambda>e t. None)
      (runs (store_step demo_env) stuck_ops empty_store) (Aware 11) None 3 ''again'' 10 = (Inr r, s') \<and>
    sw_refused r = []"
proof -
  obtain res s' where *: "reconcile_stuck_pending_outbox_records demo_env 12 (\<lambda>e t. None)
      (runs (store_step demo_env) stuck_ops empty_store) (Aware 11) None 3 ''again'' 10 = (res, s')" by force
  then show ?thesis
    using rt_stuck_sweep [OF demo_ids demo_tokens stuck_legal refl _ _ _ refl *] by auto
qed

section \<open>Retrying failed rows\<close>

lemma requeue_settles:
  assumes shape: "outbox_shape xs s" and r: "dget (s_outbox s) (o_outbox_id r) = Some r"
    and retry: "retryable_failed env (empty_store\<lparr>s_executions := xs\<rparr>) tenant before m r"
    and "tenant \<noteq> Some []" "reason \<noteq> []" "1 \<le> m"
  shows "\<exists>a s'. reconcile_failed_execution_outbox env now s (o_outbox_id r) (Aware before) (Some (Aware ts))
       tenant reason m = (Inr a, s') \<and> rc_reconciled a \<and> outbox_shape xs s' \<and>
    (\<exists>r'. dget (s_outbox s') (o_outbox_id r) = Some r' \<and> o_state r' = PENDING \<and> o_claim_id r' = None \<and>
       o_publish_attempt_count r' = o_publish_attempt_count r) \<and>
    (\<forall>k. k \<noteq> o_outbox_id r \<longrightarrow> dget (s_outbox s') k = dget (s_outbox s) k)"
proof -
  have xs: "s_executions s = xs" using outbox_shapeD(1) [OF shape] .
  obtain x f where x: "dget xs (o_execution_id r) = Some x" "tenant_visible (x_tenant_id x) tenant"
    "x_state x \<notin> set TERMINAL_OUTBOX_RETRY_EXECUTION_STATES" "o_state r = OUTBOX_FAILED"
    "\<not> m \<le> o_publish_attempt_count r" "outbox_failed_at env r = Some f" "\<not> before < f"
    using retry by (auto simp: retryable_failed_def split: option.splits if_splits)
  obtain r' where r': "requeue_failed_outbox env s (o_outbox_id r) before ts reason m tenant =
      (Some r', put_outbox r' (o_outbox_id r) s)" "o_outbox_id r' = o_outbox_id r"
    "o_execution_id r' = o_execution_id r" "o_state r' = PENDING" "o_claim_id r' = None"
    "o_publish_attempt_count r' = o_publish_attempt_count r"
    using x r xs by (simp add: requeue_failed_outbox_def Let_def)
  have "rt_get_outbox s (o_outbox_id r) tenant = Inr (Some r)"
    using r x(1,2) xs assms(4)
    by (simp add: rt_get_outbox_def validate_optional_tenant_id_def get_outbox_def get_execution_def)
  then have "reconcile_failed_execution_outbox env now s (o_outbox_id r) (Aware before) (Some (Aware ts))
       tenant reason m = (Inr (reconciled (Some r')), put_outbox r' (o_outbox_id r) s)"
    using x xs assms(4-6) r'(1)
    by (simp add: reconcile_failed_execution_outbox_def validate_optional_tenant_id_def get_execution_def or_now_def)
  moreover have "outbox_shape xs (put_outbox r' (o_outbox_id r) s)"
    using outbox_shape_put [OF shape r r'(2,3)] outbox_shapeD(5) [OF shape r] r'(6) by simp
  ultimately show ?thesis using r' by (simp add: reconciled_def)
qed

lemma retryable_failed_executions:
  "retryable_failed env (empty_store\<lparr>s_executions := s_executions s\<rparr>) tenant before m r
     \<longleftrightarrow> retryable_failed env s tenant before m r"
  by (simp add: retryable_failed_def)

interpretation failed: settling
    "\<lambda>r s. reconcile_failed_execution_outbox env now s (o_outbox_id r) (Aware before) (Some (Aware ts)) tenant
       (c # cs) m" rc_reconciled "outbox_shape xs" "\<lambda>s. dget (s_outbox s)" o_outbox_id
    "\<lambda>r v. v = Some r \<and> tenant \<noteq> Some [] \<and> 1 \<le> m \<and>
       retryable_failed env (empty_store\<lparr>s_executions := xs\<rparr>) tenant before m r"
    "\<lambda>r v. \<exists>r'. v = Some r' \<and> o_state r' = PENDING \<and> o_claim_id r' = None \<and>
       o_publish_attempt_count r' = o_publish_attempt_count r"
  for env :: py_env and now before ts m :: int and tenant :: "string option" and c :: char and cs :: string
    and xs :: "(string, execution_record) dict"
  by unfold_locales (use requeue_settles in blast)

text \<open>The retry sweep requeues every row it lists.  In every reachable store
  the sweep over failed rows returns normally and refuses nothing, so its
  pre-checks agree with the store's guard; each listed row is pending again,
  unclaimed, with its publish count unchanged, and no other row and no execution
  is touched.\<close>

theorem rt_failed_sweep:
  assumes "outbox_ids_unique env E" "tokens_unique env X"
    and "legal (store_step env) (outbox_op_ok env E X) ops empty_store"
    and "s = runs (store_step env) ops empty_store"
    and "reason \<noteq> []" "1 \<le> limit" "1 \<le> m" "tenant \<noteq> Some []"
    and "page = list_retryable_failed_outbox_records env s tenant before m limit"
    and "reconcile_failed_execution_outbox_records env now s (Aware before) (map_option Aware t) tenant reason
           m limit = (res, s')"
  shows "\<exists>r. res = Inr r \<and> sw_refused r = [] \<and> swept_count r = int (length (p_rows page)) \<and>
    s_executions s' = s_executions s \<and>
    (\<forall>row\<in>set (p_rows page). \<exists>row'. dget (s_outbox s') (o_outbox_id row) = Some row' \<and>
       o_state row' = PENDING \<and> o_claim_id row' = None \<and>
       o_publish_attempt_count row' = o_publish_attempt_count row) \<and>
    (\<forall>k. k \<notin> o_outbox_id ` set (p_rows page) \<longrightarrow> dget (s_outbox s') k = dget (s_outbox s) k)"
proof -
  have shape: "outbox_shape (s_executions s) s" by (rule reachable_shape [OF assms(1-4)])
  have page: "p_rows page = py_slice (sort_key outbox_sort_key
      (filter (retryable_failed env s tenant before m) (dvals (s_outbox s)))) 0 limit"
    by (simp add: assms(9) list_retryable_failed_outbox_records_def Let_def)
  obtain c cs where cs: "reason = c # cs" using assms(5) by (cases reason) auto
  have listed: "\<forall>r\<in>set (p_rows page). dget (s_outbox s) (o_outbox_id r) = Some r \<and> tenant \<noteq> Some [] \<and> 1 \<le> m \<and>
      retryable_failed env (empty_store\<lparr>s_executions := s_executions s\<rparr>) tenant before m r"
    unfolding page retryable_failed_executions using listed_rows_stored [OF shape] assms(7,8) by blast
  have dist: "distinct (map o_outbox_id (p_rows page))"
    unfolding page by (rule listed_rows_distinct [OF shape])
  show ?thesis
    using failed.page_settles [OF shape dist listed, of now "or_now t now" c cs] assms(5-10) cs
    by (cases t)
      (auto simp: reconcile_failed_execution_outbox_records_def or_now_def Let_def dest: outbox_shapeD(1))
qed

theorem rt_failed_sweep_witness:
  "\<exists>r s'. reconcile_failed_execution_outbox_records demo_env 10 (runs (store_step demo_env) failed_ops empty_store)
      (Aware 9) (Some (Aware 10)) (Some ''t1'') ''retry'' 3 10 = (Inr r, s') \<and> sw_refused r = []"
proof -
  have legal: "legal (store_step demo_env) (outbox_op_ok demo_env demo_E demo_X) failed_ops empty_store"
    using lease_legal by (simp add: failed_ops_def legal_append)
  obtain res s' where *: "reconcile_failed_execution_outbox_records demo_env 10
      (runs (store_step demo_env) failed_ops empty_store) (Aware 9) (map_option Aware (Some 10)) (Some ''t1'')
      ''retry'' 3 10 = (res, s')" by force
  then show ?thesis
    using rt_failed_sweep [OF demo_ids demo_tokens legal refl _ _ _ _ refl *] by auto
qed

section \<open>Tenant scoping\<close>

text \<open>Scoped reads never cross a tenant.  An execution, attempt or outbox row
  that the runtime returns to a caller scoped to tenant \<open>t\<close> belongs to an execution
  of \<open>t\<close>, and so does every row of a scoped page of executions or outbox rows.\<close>

theorem rt_tenant_scope:
  "(rt_get_execution s e (Some t) = Inr (Some x) \<longrightarrow> x_tenant_id x = t) \<and>
    (rt_get_attempt s i (Some t) = Inr (Some a) \<longrightarrow>
       (\<exists>y. dget (s_executions s) (a_execution_id a) = Some y \<and> x_tenant_id y = t)) \<and>
    (rt_get_outbox s k (Some t) = Inr (Some r) \<longrightarrow>
       (\<exists>y. dget (s_executions s) (o_execution_id r) = Some y \<and> x_tenant_id y = t)) \<and>
    (rt_list_executions s q (Some t) = Inr p \<longrightarrow> (\<forall>y\<in>set (p_rows p). x_tenant_id y = t)) \<and>
    (rt_list_outbox s oq (Some t) = Inr op \<longrightarrow>
       (\<forall>z\<in>set (p_rows op). \<exists>y. dget (s_executions s) (o_execution_id z) = Some y \<and> x_tenant_id y = t))"
proof (intro conjI impI)
  assume "rt_get_execution s e (Some t) = Inr (Some x)"
  then have "get_execution s e (Some t) = Some x"
    by (auto simp: rt_get_execution_def validate_optional_tenant_id_def split: if_splits)
  then show "x_tenant_id x = t" using exec_read.scoped_sound by fastforce
next
  assume "rt_get_attempt s i (Some t) = Inr (Some a)"
  then have "get_execution s (a_execution_id a) (Some t) \<noteq> None"
    by (auto simp: rt_get_attempt_def validate_optional_tenant_id_def split: if_splits option.splits)
  then show "\<exists>y. dget (s_executions s) (a_execution_id a) = Some y \<and> x_tenant_id y = t"
    by (auto simp: get_execution_def split: option.splits if_splits)
next
  assume "rt_get_outbox s k (Some t) = Inr (Some r)"
  then have "get_execution s (o_execution_id r) (Some t) \<noteq> None"
    by (auto simp: rt_get_outbox_def validate_optional_tenant_id_def split: if_splits option.splits)
  then show "\<exists>y. dget (s_executions s) (o_execution_id r) = Some y \<and> x_tenant_id y = t"
    by (auto simp: get_execution_def split: option.splits if_splits)
next
  assume "rt_list_executions s q (Some t) = Inr p"
  then have "p_rows p = p_rows (list_executions s q (Some t))"
    by (auto simp: rt_list_executions_def validate_optional_tenant_id_def split: if_splits)
  then have "set (p_rows p) \<subseteq> set (execution_rows s q (Some t))"
    by (simp add: list_executions_def Let_def set_py_slice)
  then show "\<forall>y\<in>set (p_rows p). x_tenant_id y = t"
    unfolding set_execution_rows query_matches_def by auto
next
  have scoped: "\<exists>y. dget (s_executions s) (o_execution_id z) = Some y \<and> x_tenant_id y = t"
    if "oq_tenant_id u = Some t" "z \<in> set (p_rows (list_outbox s u))" for u z
  proof -
    let ?rows = "narrow (oq_state u) (\<lambda>st r. o_state r = st) (narrow (oq_tenant_id u)
        (\<lambda>t r. case dget (s_executions s) (o_execution_id r) of None \<Rightarrow> False | Some x \<Rightarrow> x_tenant_id x = t)
        (narrow (oq_execution_id u) (\<lambda>i r. o_execution_id r = i) (dvals (s_outbox s))))"
    have "z \<in> set (py_slice (sort_key outbox_sort_key ?rows) (oq_offset u) (oq_offset u + oq_limit u))"
      using that(2) by (simp add: list_outbox_def Let_def)
    then have "z \<in> set (sort_key outbox_sort_key ?rows)" by (rule subsetD [OF set_py_slice])
    then have "z \<in> set ?rows" by simp
    then show ?thesis using that(1) by (auto simp: set_narrow split: option.splits)
  qed
  assume "rt_list_outbox s oq (Some t) = Inr op"
  then have "p_rows op = [] \<or> (\<exists>u. oq_tenant_id u = Some t \<and> op = list_outbox s u)"
    by (auto simp: rt_list_outbox_def validate_optional_tenant_id_def empty_page_def
        split: if_splits option.splits intro: exI [of _ "oq\<lparr>oq_tenant_id := Some t\<rparr>"])
  then show "\<forall>z\<in>set (p_rows op). \<exists>y. dget (s_executions s) (o_execution_id z) = Some y \<and> x_tenant_id y = t"
    using scoped by auto
qed

theorem rt_tenant_scope_witness:
  "\<exists>x. rt_get_execution (runs (store_step demo_env) demo_ops empty_store) ''e1'' (Some ''t1'') = Inr (Some x) \<and>
     x_tenant_id x = ''t1''"
proof -
  let ?s = "runs (store_step demo_env) demo_ops empty_store"
  have "\<exists>x. rt_get_execution ?s ''e1'' (Some ''t1'') = Inr (Some x)"
    using demo_store by (simp add: rt_get_execution_def validate_optional_tenant_id_def get_execution_def
        claimed_execution_def demo_execution_def)
  then show ?thesis using rt_tenant_scope [of ?s "''e1''" "''t1''"] by blast
qed

section \<open>Admission\<close>

text \<open>No execution without governance.  A diagnostic request changes the store
  only when it carries an admission token of its own tenant; then exactly one
  execution is recorded, requested, naming the token's decision, together with
  its pending outbox row.  Without such a token the request raises.\<close>

theorem rt_admission_gated:
  assumes "request_diagnostic_execution env now s d sess tenant tok t given = (res, s')"
  shows "((tok = None \<or> (\<exists>token. tok = Some token \<and> t_tenant_id token \<noteq> tenant)) \<longrightarrow> is_error res) \<and>
    (s' \<noteq> s \<longrightarrow> (\<exists>token x. tok = Some token \<and> t_tenant_id token = tenant \<and> res = Inr x \<and>
       x_tenant_id x = tenant \<and> x_state x = REQUESTED \<and>
       x_governance_decision_id x = Some (t_governance_decision_id token) \<and>
       s_executions s' = dset (x_execution_id x) x (s_executions s) \<and>
       dget (s_executions s) (x_execution_id x) = None \<and>
       (\<exists>r. dget (s_outbox s') (derive_outbox_id env (x_execution_id x)) = Some r \<and>
          o_execution_id r = x_execution_id x \<and> o_state r = PENDING)))"
proof (intro conjI impI)
  assume "tok = None \<or> (\<exists>token. tok = Some token \<and> t_tenant_id token \<noteq> tenant)"
  then show "is_error res" using assms by (auto simp: request_diagnostic_execution_def split: if_splits)
next
  assume changed: "s' \<noteq> s"
  then obtain token where token: "tok = Some token" "t_tenant_id token = tenant" "tenant \<noteq> []"
    using assms by (auto simp: request_diagnostic_execution_def split: if_splits option.splits)
  let ?m = "admission_metadata env given token" and ?ts = "or_now t now"
  obtain e where e: "derive_execution_id env (kind_value DIAGNOSTIC_AGENT) d sess (Some tenant) = Inr e"
    using assms changed token
    by (cases "derive_execution_id env (kind_value DIAGNOSTIC_AGENT) d sess (Some tenant)")
      (simp_all add: request_diagnostic_execution_def Let_def)
  let ?x = "requested_execution e d sess tenant token ?ts ?m" and ?r = "requested_outbox env e ?ts ?m"
  have req: "request_execution s ?x ?r = (res, s')"
    using assms token e by (simp add: request_diagnostic_execution_def Let_def)
  have "res = Inr ?x \<and> dget (s_executions s) e = None \<and> s_executions s' = dset e ?x (s_executions s) \<and>
      s_outbox s' = dset (derive_outbox_id env e) ?r (s_outbox s)"
    using req changed
    by (auto simp: request_execution_def requested_execution_def requested_outbox_def
        split: option.splits if_splits)
  then show "\<exists>token x. tok = Some token \<and> t_tenant_id token = tenant \<and> res = Inr x \<and>
       x_tenant_id x = tenant \<and> x_state x = REQUESTED \<and>
       x_governance_decision_id x = Some (t_governance_decision_id token) \<and>
       s_executions s' = dset (x_execution_id x) x (s_executions s) \<and>
       dget (s_executions s) (x_execution_id x) = None \<and>
       (\<exists>r. dget (s_outbox s') (derive_outbox_id env (x_execution_id x)) = Some r \<and>
          o_execution_id r = x_execution_id x \<and> o_state r = PENDING)"
    using token by (intro exI [of _ token] exI [of _ ?x]) (simp add: requested_execution_def requested_outbox_def)
qed

definition demo_token :: admission_token where
  "demo_token = \<lparr>t_governance_decision_id = ''g1'', t_evaluation_id = ''v1'', t_admitted_at = 3,
     t_tenant_id = ''t1'', t_config_id = None, t_config_version = None, t_config_sha256 = None\<rparr>"

theorem rt_admission_gated_witness:
  "\<exists>x s'. request_diagnostic_execution demo_env 4 empty_store ''d1'' ''s1'' ''t1'' (Some demo_token) None None
      = (Inr x, s') \<and> x_governance_decision_id x = Some ''g1''"
proof -
  obtain res s' where *: "request_diagnostic_execution demo_env 4 empty_store ''d1'' ''s1'' ''t1''
      (Some demo_token) None None = (res, s')" by force
  moreover have "s' \<noteq> empty_store"
    using * by (auto simp: request_diagnostic_execution_def derive_execution_id_def request_execution_def
        demo_token_def empty_store_def Let_def)
  ultimately show ?thesis using rt_admission_gated [OF *] by (auto simp: demo_token_def)
qed

section \<open>Result envelopes\<close>

text \<open>Envelopes round-trip.  Reading back what \<open>to_dict\<close> writes never raises and
  gives the envelope with empty category, summary and schema version normalised
  away; a second trip changes nothing.\<close>

theorem envelope_roundtrip:
  "from_dict env (to_dict e) = Inr (canonical_envelope e) \<and>
   from_dict env (to_dict (canonical_envelope e)) = Inr (canonical_envelope e) \<and>
   (schema_version e \<noteq> [] \<and> diagnostic_category e \<noteq> Some [] \<and> diagnostic_summary e \<noteq> Some []
      \<longrightarrow> canonical_envelope e = e)"
  by (auto simp: from_dict_to_dict canonical_envelope_def str_or_None)

theorem envelope_roundtrip_witness:
  "from_dict demo_env (to_dict (empty_envelope\<lparr>diagnostic_category := Some ''billing''\<rparr>))
     = Inr (empty_envelope\<lparr>diagnostic_category := Some ''billing''\<rparr>)"
  using envelope_roundtrip [of demo_env "empty_envelope\<lparr>diagnostic_category := Some ''billing''\<rparr>"]
  by (simp add: empty_envelope_def)

end
