(* ===== verification/Governance_Model.thy ===== *)
theory Governance_Model
  imports Interfaces
begin

text \<open>
  The vocabulary of the governance substrate (\<open>app/governance\<close>): verdicts and their
  precedence, rule results, the decision built from them (\<open>decisions.py\<close>), the
  typed subjects, the evaluation context with its authority checks
  (\<open>context.py\<close>), policies, their registry and chains (\<open>policies/\<close>).
\<close>

section \<open>Verdicts\<close>

datatype decision = DENY | REQUIRE_APPROVAL | ESCALATE | DEGRADE | REDACT | ALLOW

fun decision_value :: "decision \<Rightarrow> string" where
  "decision_value DENY = ''deny''"
| "decision_value REQUIRE_APPROVAL = ''require_approval''"
| "decision_value ESCALATE = ''escalate''"
| "decision_value DEGRADE = ''degrade''"
| "decision_value REDACT = ''redact''"
| "decision_value ALLOW = ''allow''"

definition all_decisions :: "decision list" where
  "all_decisions = [DENY, REQUIRE_APPROVAL, ESCALATE, DEGRADE, REDACT, ALLOW]"

fun precedence :: "decision \<Rightarrow> int" where
  "precedence DENY = 0"
| "precedence REQUIRE_APPROVAL = 1"
| "precedence ESCALATE = 2"
| "precedence DEGRADE = 3"
| "precedence REDACT = 4"
| "precedence ALLOW = 5"

lemma in_all_decisions [simp]: "d \<in> set all_decisions"
  by (cases d) (simp_all add: all_decisions_def)

lemma precedence_inject [simp]: "precedence d = precedence e \<longleftrightarrow> d = e"
  by (cases d; cases e; simp)

text \<open>Verdicts are ordered by restrictiveness: the smaller is the more restrictive.\<close>

instantiation decision :: linorder
begin

definition less_eq_decision :: "decision \<Rightarrow> decision \<Rightarrow> bool" where
  "d \<le> e \<longleftrightarrow> precedence d \<le> precedence e"

definition less_decision :: "decision \<Rightarrow> decision \<Rightarrow> bool" where
  "d < e \<longleftrightarrow> precedence d < precedence e"

instance
  by standard (auto simp: less_eq_decision_def less_decision_def)

end

lemma DENY_least [simp]: "DENY \<le> d" and ALLOW_greatest [simp]: "d \<le> ALLOW"
  by (cases d; simp add: less_eq_decision_def)+

lemma le_DENY [simp]: "d \<le> DENY \<longleftrightarrow> d = DENY" and ALLOW_le [simp]: "ALLOW \<le> d \<longleftrightarrow> d = ALLOW"
  by (auto intro: antisym)

definition is_blocking_decision :: "decision \<Rightarrow> bool" where
  "is_blocking_decision d \<longleftrightarrow> d \<in> set [DENY, REQUIRE_APPROVAL, ESCALATE]"

definition is_allow_decision :: "decision \<Rightarrow> bool" where
  "is_allow_decision d \<longleftrightarrow> d = ALLOW"

datatype enforcement_stage = PRE_REQUEST | PRE_RETRIEVAL | POST_RETRIEVAL | PRE_GROUNDING
  | PRE_EXECUTION | POST_EXECUTION

fun stage_value :: "enforcement_stage \<Rightarrow> string" where
  "stage_value PRE_REQUEST = ''pre_request''"
| "stage_value PRE_RETRIEVAL = ''pre_retrieval''"
| "stage_value POST_RETRIEVAL = ''post_retrieval''"
| "stage_value PRE_GROUNDING = ''pre_grounding''"
| "stage_value PRE_EXECUTION = ''pre_execution''"
| "stage_value POST_EXECUTION = ''post_execution''"

datatype violation_severity = SEV_LOW | SEV_MEDIUM | SEV_HIGH | SEV_CRITICAL

fun severity_value :: "violation_severity \<Rightarrow> int" where
  "severity_value SEV_LOW = 10"
| "severity_value SEV_MEDIUM = 20"
| "severity_value SEV_HIGH = 30"
| "severity_value SEV_CRITICAL = 40"

datatype restriction_kind = MODEL_RESTRICTION | SOURCE_RESTRICTION | CHUNK_CAP | TOKEN_CAP
  | CONTENT_REDACTION | RATE_LIMIT | CAPABILITY_RESTRICTION

fun restriction_value :: "restriction_kind \<Rightarrow> string" where
  "restriction_value MODEL_RESTRICTION = ''model_restriction''"
| "restriction_value SOURCE_RESTRICTION = ''source_restriction''"
| "restriction_value CHUNK_CAP = ''chunk_cap''"
| "restriction_value TOKEN_CAP = ''token_cap''"
| "restriction_value CONTENT_REDACTION = ''content_redaction''"
| "restriction_value RATE_LIMIT = ''rate_limit''"
| "restriction_value CAPABILITY_RESTRICTION = ''capability_restriction''"

section \<open>Rule results and decisions\<close>

type_synonym metadata = "(string, pyval) dict"

record policy_violation =
  v_policy_name :: string
  v_rule_id :: string
  v_decision :: decision
  v_severity :: violation_severity
  v_detail :: string
  v_metadata :: metadata

record restriction =
  rs_kind :: restriction_kind
  rs_target :: string
  rs_value :: pyval
  rs_reason :: string
  rs_policy_name :: string
  rs_rule_id :: string
  rs_metadata :: metadata

record rule_result =
  r_policy_name :: string
  r_rule_id :: string
  r_decision :: decision
  r_severity :: violation_severity
  r_reason :: string
  r_evaluated_at :: int
  r_restrictions :: "restriction list"
  r_metadata :: metadata
  r_policy_version :: string

record governance_decision =
  gd_decision_id :: string
  gd_decision :: decision
  gd_stage :: enforcement_stage
  gd_policy_chain_id :: string
  gd_evaluated_rules :: "rule_result list"
  gd_violations :: "policy_violation list"
  gd_restrictions :: "restriction list"
  gd_reason :: string
  gd_decided_at :: int
  gd_metadata :: metadata

text \<open>A result with the defaults of \<open>PolicyEvaluationResult\<close>, fired at \<open>now\<close>.\<close>

definition new_rule_result ::
  "int \<Rightarrow> string \<Rightarrow> string \<Rightarrow> decision \<Rightarrow> violation_severity \<Rightarrow> string \<Rightarrow> metadata \<Rightarrow> rule_result" where
  "new_rule_result now policy rule d sev reason md =
     \<lparr>r_policy_name = policy, r_rule_id = rule, r_decision = d, r_severity = sev, r_reason = reason,
      r_evaluated_at = now, r_restrictions = [], r_metadata = md, r_policy_version = ''unversioned''\<rparr>"

lemma new_rule_result_simps [simp]:
  "r_policy_name (new_rule_result now p i d sev reason md) = p"
  "r_rule_id (new_rule_result now p i d sev reason md) = i"
  "r_decision (new_rule_result now p i d sev reason md) = d"
  "r_severity (new_rule_result now p i d sev reason md) = sev"
  "r_restrictions (new_rule_result now p i d sev reason md) = []"
  by (simp_all add: new_rule_result_def)

definition no_governance_result :: "int \<Rightarrow> rule_result" where
  "no_governance_result now =
     new_rule_result now ''governance.substrate'' ''no_governance_evaluated'' DENY SEV_CRITICAL
       ''no policy evaluated this operation; substrate refuses to vouch (fail-closed by constitutional default)''
       []"

fun join :: "string \<Rightarrow> string list \<Rightarrow> string" where
  "join sep [] = []"
| "join sep [s] = s"
| "join sep (s # t # ss) = s @ sep @ join sep (t # ss)"

definition compose_reason :: "decision \<Rightarrow> policy_violation list \<Rightarrow> string" where
  "compose_reason final violations =
     (if final = ALLOW then ''all rules allowed''
      else
        let triggering = map (\<lambda>v. v_policy_name v @ ''.'' @ v_rule_id v)
                           (filter (\<lambda>v. v_decision v = final) violations)
        in decision_value final @ '': '' @
             (if triggering \<noteq> [] then join '', '' triggering else ''no rule attribution''))"

definition violation_of :: "rule_result \<Rightarrow> policy_violation" where
  "violation_of r =
     \<lparr>v_policy_name = r_policy_name r, v_rule_id = r_rule_id r, v_decision = r_decision r,
      v_severity = r_severity r, v_detail = r_reason r, v_metadata = r_metadata r\<rparr>"

text \<open>\<open>min(ds, key=Decision.precedence)\<close> of a non-empty list.\<close>

fun most_restrictive :: "decision \<Rightarrow> decision list \<Rightarrow> decision" where
  "most_restrictive d [] = d"
| "most_restrictive d (e # es) = most_restrictive (if precedence e < precedence d then e else d) es"

definition build_decision ::
  "int \<Rightarrow> string \<Rightarrow> enforcement_stage \<Rightarrow> string \<Rightarrow> rule_result list \<Rightarrow> metadata option \<Rightarrow> int option
     \<Rightarrow> string option \<Rightarrow> governance_decision" where
  "build_decision now fresh_id stage policy_chain_id evaluation_results given decided_at decision_id =
     (let results = (case evaluation_results of [] \<Rightarrow> [no_governance_result now] | _ \<Rightarrow> evaluation_results);
          final = (case evaluation_results of
                     [] \<Rightarrow> DENY
                   | r # rs \<Rightarrow> most_restrictive (r_decision r) (map r_decision rs));
          violations = map violation_of (filter (\<lambda>r. r_decision r \<noteq> ALLOW) results);
          restrictions = concat (map r_restrictions (filter (\<lambda>r. r_decision r = final) results))
      in \<lparr>gd_decision_id = (case decision_id of Some i \<Rightarrow> i | None \<Rightarrow> fresh_id),
          gd_decision = final, gd_stage = stage, gd_policy_chain_id = policy_chain_id,
          gd_evaluated_rules = results, gd_violations = violations,
          gd_restrictions = restrictions, gd_reason = compose_reason final violations,
          gd_decided_at = or_now decided_at now,
          gd_metadata = (case given of None \<Rightarrow> [] | Some m \<Rightarrow> m)\<rparr>)"

definition gd_is_allow :: "governance_decision \<Rightarrow> bool" where
  "gd_is_allow d = is_allow_decision (gd_decision d)"

definition gd_is_blocking :: "governance_decision \<Rightarrow> bool" where
  "gd_is_blocking d = is_blocking_decision (gd_decision d)"

section \<open>Subjects\<close>

datatype subject_kind = GENERIC | RETRIEVAL | EXECUTION | AGENT_ACTION | MANAGER_APPROVAL
  | COMMUNICATION | CAPABILITY | CLUSTER

fun kind_text :: "subject_kind \<Rightarrow> string" where
  "kind_text GENERIC = ''generic''"
| "kind_text RETRIEVAL = ''retrieval''"
| "kind_text EXECUTION = ''execution''"
| "kind_text AGENT_ACTION = ''agent_action''"
| "kind_text MANAGER_APPROVAL = ''manager_approval''"
| "kind_text COMMUNICATION = ''communication''"
| "kind_text CAPABILITY = ''capability''"
| "kind_text CLUSTER = ''defect_cluster''"

record candidate =
  cd_chunk_id :: string
  cd_document_id :: "string option"
  cd_score :: pyfloat
  cd_content :: string
  cd_source :: "string option"
  cd_source_strategy :: "string option"

record retrieval_subject =
  ret_query :: string
  ret_tenant_id :: "string option"
  ret_policy_id :: "string option"
  ret_request_id :: "string option"
  ret_candidate_count :: int
  ret_estimated_tokens :: int
  ret_candidates :: "candidate list"
  ret_metadata :: metadata

record execution_subject =
  es_query :: string
  es_tenant_id :: "string option"
  es_request_id :: "string option"
  es_execution_action :: string
  es_downstream_targets :: "string list"
  es_citation_count :: int
  es_fragment_count :: int
  es_candidate_count_included :: int
  es_estimated_tokens :: int
  es_grounding_strategy :: "string option"
  es_metadata :: metadata

record capability_subject =
  cs_required_capability :: string
  cs_held_capabilities :: "string list"
  cs_tenant_id :: "string option"
  cs_actor :: string
  cs_metadata :: metadata

record agent_action_subject =
  as_agent_id :: string
  as_capability :: string
  as_tool_name :: "string option"
  as_target_resource :: string
  as_execution_scope :: string
  as_supervisor_context :: metadata
  as_request_id :: "string option"
  as_tenant_id :: "string option"
  as_metadata :: metadata

text \<open>The subjects whose fields a modelled policy reads are spelled out; of the
  others only the kind, the tenant and the metadata matter here.\<close>

datatype subject =
    Generic metadata metadata
  | Retrieval retrieval_subject
  | Execution execution_subject
  | Capability capability_subject
  | Agent_Action agent_action_subject
  | Other subject_kind "string option" metadata

fun kind_of :: "subject \<Rightarrow> subject_kind" where
  "kind_of (Generic _ _) = GENERIC"
| "kind_of (Retrieval _) = RETRIEVAL"
| "kind_of (Execution _) = EXECUTION"
| "kind_of (Capability _) = CAPABILITY"
| "kind_of (Agent_Action _) = AGENT_ACTION"
| "kind_of (Other k _ _) = k"

text \<open>\<open>getattr(subject, "tenant_id", None)\<close>.\<close>

fun subject_tenant :: "subject \<Rightarrow> string option" where
  "subject_tenant (Generic _ _) = None"
| "subject_tenant (Retrieval s) = ret_tenant_id s"
| "subject_tenant (Execution s) = es_tenant_id s"
| "subject_tenant (Capability s) = cs_tenant_id s"
| "subject_tenant (Agent_Action s) = as_tenant_id s"
| "subject_tenant (Other _ t _) = t"

section \<open>Contexts\<close>

record authority_context =
  au_tenant_id :: "string option"
  au_principal_id :: "string option"
  au_organization_id :: "string option"
  au_environment_id :: "string option"
  au_capabilities :: "string list"

record governance_context =
  g_stage :: enforcement_stage
  g_action :: string
  g_resource :: string
  g_actor :: string
  g_tenant_id :: "string option"
  g_request_id :: "string option"
  g_principal_id :: "string option"
  g_organization_id :: "string option"
  g_environment_id :: "string option"
  g_authority :: "authority_context option"
  g_subject :: subject
  g_correlation_id :: "string option"
  g_metadata :: metadata

definition repr_opt :: "py_env \<Rightarrow> string option \<Rightarrow> string" where
  "repr_opt env v = (case v of None \<Rightarrow> ''None'' | Some s \<Rightarrow> repr_str env s)"

definition disagreement :: "py_env \<Rightarrow> string \<Rightarrow> string option \<Rightarrow> string option \<Rightarrow> error" where
  "disagreement env axis flat nested =
     GovernanceConfigurationError
       (''GovernanceContext.'' @ axis @ '' and GovernanceContext.authority.'' @ axis @ '' disagree: '' @
        repr_opt env flat @ '' vs '' @ repr_opt env nested)"

text \<open>\<open>GovernanceContext.__post_init__\<close>: the flat axes and the authority must agree.
  The tenant axis differs from the others: an authority without a tenant conflicts
  with a context that has one.\<close>

definition axis_conflict :: "string option \<Rightarrow> string option \<Rightarrow> bool" where
  "axis_conflict flat nested \<longleftrightarrow> flat \<noteq> None \<and> nested \<noteq> None \<and> nested \<noteq> flat"

definition check_context :: "py_env \<Rightarrow> governance_context \<Rightarrow> governance_context result" where
  "check_context env c =
     (case g_authority c of
        None \<Rightarrow> Inr c
      | Some a \<Rightarrow>
          if g_tenant_id c \<noteq> None \<and> au_tenant_id a \<noteq> g_tenant_id c
          then Inl (disagreement env ''tenant_id'' (g_tenant_id c) (au_tenant_id a))
          else if axis_conflict (g_principal_id c) (au_principal_id a)
          then Inl (disagreement env ''principal_id'' (g_principal_id c) (au_principal_id a))
          else if axis_conflict (g_organization_id c) (au_organization_id a)
          then Inl (disagreement env ''organization_id'' 
                      (g_organization_id c) (au_organization_id a))
          else if axis_conflict (g_environment_id c) (au_environment_id a)
          then Inl (disagreement env ''environment_id'' 
                      (g_environment_id c) (au_environment_id a))
          else Inr c)"

section \<open>Policies, registry, chains\<close>

text \<open>A policy is what its class declares and its \<open>evaluate\<close>, which returns rule
  results or raises an exception of some class with some message.\<close>

record policy =
  pol_name :: string
  pol_stages :: "enforcement_stage list"
  pol_kinds :: "subject_kind list"
  pol_evaluate :: "governance_context \<Rightarrow> (string \<times> string) + rule_result list"

definition supports :: "policy \<Rightarrow> enforcement_stage \<Rightarrow> bool" where
  "supports p stage \<longleftrightarrow> stage \<in> set (pol_stages p)"

definition applies_to :: "policy \<Rightarrow> subject_kind \<Rightarrow> bool" where
  "applies_to p kind \<longleftrightarrow> (if pol_kinds p = [] then True else kind \<in> set (pol_kinds p))"

type_synonym policy_registry = "(string, policy) dict"

definition register_policy :: "py_env \<Rightarrow> policy_registry \<Rightarrow> policy \<Rightarrow> policy_registry result" where
  "register_policy env reg p =
     (if pol_name p = [] then
        Inl (GovernanceConfigurationError ''policy must have a non-empty name'')
      else if dget reg (pol_name p) \<noteq> None then
        Inl (GovernanceConfigurationError
               (''policy already registered: '' @ repr_str env (pol_name p)))
      else Inr (dset (pol_name p) p reg))"

definition get_policy :: "py_env \<Rightarrow> policy_registry \<Rightarrow> string \<Rightarrow> policy result" where
  "get_policy env reg name =
     (case dget reg name of
        None \<Rightarrow> Inl (GovernanceConfigurationError (''unknown policy: '' @ repr_str env name))
      | Some p \<Rightarrow> Inr p)"

definition has_policy :: "policy_registry \<Rightarrow> string \<Rightarrow> bool" where
  "has_policy reg name \<longleftrightarrow> dget reg name \<noteq> None"

definition policy_names :: "policy_registry \<Rightarrow> string list" where
  "policy_names reg = sort (dkeys reg)"

record policy_chain =
  ch_chain_id :: string
  ch_stage :: enforcement_stage
  ch_policies :: "policy list"
  ch_governance_version :: string

text \<open>The tuple of unsupported names is printed by \<open>repr\<close> in the message; its text is
  left to the environment.\<close>

definition make_chain ::
  "py_env \<Rightarrow> string \<Rightarrow> enforcement_stage \<Rightarrow> policy list \<Rightarrow> string \<Rightarrow> policy_chain result" where
  "make_chain env chain_id stage policies version =
     (if chain_id = [] then
        Inl (GovernanceConfigurationError ''PolicyChain requires a chain_id'')
      else
        let unsupported = map pol_name (filter (\<lambda>p. \<not> supports p stage) policies)
        in if unsupported \<noteq> [] then
             Inl (GovernanceConfigurationError
                    (''PolicyChain '' @ repr_str env chain_id @ '': policies '' @
                     repr_of env (PList (map PStr unsupported)) @ '' do not support stage '' @
                     repr_str env (stage_value stage)))
           else Inr \<lparr>ch_chain_id = chain_id, ch_stage = stage, ch_policies = policies,
                     ch_governance_version = version\<rparr>)"

fun get_policies :: "py_env \<Rightarrow> policy_registry \<Rightarrow> string list \<Rightarrow> policy list result" where
  "get_policies env reg [] = Inr []"
| "get_policies env reg (n # ns) =
     (case get_policy env reg n of
        Inl e \<Rightarrow> Inl e
      | Inr p \<Rightarrow> (case get_policies env reg ns of Inl e \<Rightarrow> Inl e | Inr ps \<Rightarrow> Inr (p # ps)))"

definition chain_from_registry ::
  "py_env \<Rightarrow> string \<Rightarrow> enforcement_stage \<Rightarrow> string list \<Rightarrow> policy_registry \<Rightarrow> string \<Rightarrow> policy_chain result"
  where
  "chain_from_registry env chain_id stage names reg version =
     (case get_policies env reg names of
        Inl e \<Rightarrow> Inl e
      | Inr policies \<Rightarrow> make_chain env chain_id stage policies version)"

section \<open>The verdict of a set of results\<close>

lemma most_restrictive_Min: "most_restrictive d ds = Min (set (d # ds))"
proof (induction ds arbitrary: d)
  case (Cons e es)
  have "(if precedence e < precedence d then e else d) = min d e"
    by (auto simp: min_def less_eq_decision_def)
  then have "most_restrictive d (e # es) = Min (insert (min d e) (set es))" using Cons.IH by simp
  also have "\<dots> = Min (set (d # e # es))"
    by (cases "es = []") (auto simp: Min_insert min.assoc)
  finally show ?case .
qed simp

lemma gd_decision_build:
  "gd_decision (build_decision now fresh stage chain rs md at i) =
     (if rs = [] then DENY else Min (r_decision ` set rs))"
  by (cases rs) (simp_all add: build_decision_def Let_def most_restrictive_Min)

lemma gd_evaluated_build:
  "gd_evaluated_rules (build_decision now fresh stage chain rs md at i) =
     (if rs = [] then [no_governance_result now] else rs)"
  by (cases rs) (simp_all add: build_decision_def Let_def)

lemma gd_restrictions_build:
  "gd_restrictions (build_decision now fresh stage chain rs md at i) =
     concat (map r_restrictions (filter (\<lambda>r. r_decision r =
       gd_decision (build_decision now fresh stage chain rs md at i))
       (gd_evaluated_rules (build_decision now fresh stage chain rs md at i))))"
  by (simp add: build_decision_def Let_def)

lemma gd_violations_build:
  "gd_violations (build_decision now fresh stage chain rs md at i) =
     map violation_of (filter (\<lambda>r. r_decision r \<noteq> ALLOW)
       (gd_evaluated_rules (build_decision now fresh stage chain rs md at i)))"
  by (simp add: build_decision_def Let_def)

lemma gd_id_build [simp]:
  "gd_decision_id (build_decision now fresh stage chain rs md at i) = (case i of Some j \<Rightarrow> j | None \<Rightarrow> fresh)"
  "gd_stage (build_decision now fresh stage chain rs md at i) = stage"
  "gd_metadata (build_decision now fresh stage chain rs md at i) = (case md of None \<Rightarrow> [] | Some m \<Rightarrow> m)"
  by (simp_all add: build_decision_def Let_def)

lemma verdict_ALLOW_iff:
  "gd_decision (build_decision now fresh stage chain rs md at i) = ALLOW \<longleftrightarrow>
     rs \<noteq> [] \<and> (\<forall>r\<in>set rs. r_decision r = ALLOW)"
proof (cases "rs = []")
  case False
  then have "Min (r_decision ` set rs) = ALLOW \<longleftrightarrow> (\<forall>d\<in>r_decision ` set rs. ALLOW \<le> d)"
    by (subst Min_ge_iff [symmetric]) auto
  with False show ?thesis by (auto simp: gd_decision_build)
qed (simp add: gd_decision_build)

lemma verdict_DENY:
  "r \<in> set rs \<Longrightarrow> r_decision r = DENY \<Longrightarrow>
     gd_decision (build_decision now fresh stage chain rs md at i) = DENY"
  by (auto simp: gd_decision_build) (metis DENY_least Min_le antisym finite_imageI finite_set image_eqI)

end
