(* ===== verification/Governance_Records.thy ===== *)
theory Governance_Records
  imports Governance_Model
begin

text \<open>
  The persistable shape of a decision (\<open>app/governance/persistence/records.py\<close>), the
  serializers between it and the live decision (\<open>serializers.py\<close>), and the write-once
  in-memory repository (\<open>memory.py\<close>).  Traces and enforcement actions are stored in
  their live shape, without their clock readings (the stage as its value).
\<close>

section \<open>Records\<close>

record result_record =
  er_policy_name :: string
  er_rule_id :: string
  er_decision :: string
  er_severity :: int
  er_reason :: string
  er_evaluated_at :: string
  er_metadata :: metadata
  er_policy_version :: string

record violation_record =
  vr_policy_name :: string
  vr_rule_id :: string
  vr_decision :: string
  vr_severity :: int
  vr_detail :: string
  vr_metadata :: metadata

record restriction_record =
  sr_kind :: string
  sr_target :: string
  sr_value :: pyval
  sr_reason :: string
  sr_policy_name :: string
  sr_rule_id :: string
  sr_metadata :: metadata

record decision_record =
  dr_decision_id :: string
  dr_decision :: string
  dr_stage :: string
  dr_policy_chain_id :: string
  dr_reason :: string
  dr_decided_at :: string
  dr_correlation_id :: "string option"
  dr_request_id :: "string option"
  dr_tenant_id :: "string option"
  dr_subject_kind :: string
  dr_governance_version :: string
  dr_violations :: "violation_record list"
  dr_restrictions :: "restriction_record list"
  dr_evaluated_rules :: "result_record list"
  dr_metadata :: metadata

section \<open>Serialising\<close>

text \<open>Truth value of a metadata value.\<close>

fun truthy :: "pyval \<Rightarrow> bool" where
  "truthy PNone = False"
| "truthy (PBool b) = b"
| "truthy (PInt n) = (n \<noteq> 0)"
| "truthy (PFloat x) = (unat x \<noteq> 0 \<and> unat x \<noteq> 2 ^ 63)"
| "truthy (PStr s) = (s \<noteq> [])"
| "truthy (PList xs) = (xs \<noteq> [])"
| "truthy (PDict d) = (d \<noteq> [])"

text \<open>\<open>d.pop(k, default)\<close>.\<close>

definition dpop :: "'k \<Rightarrow> 'v \<Rightarrow> ('k, 'v) dict \<Rightarrow> 'v \<times> ('k, 'v) dict" where
  "dpop k dflt d =
     (case dget d k of None \<Rightarrow> dflt | Some v \<Rightarrow> v, filter (\<lambda>(j, v). j \<noteq> k) d)"

definition text_or_none :: "py_env \<Rightarrow> pyval \<Rightarrow> string option" where
  "text_or_none env v = (if truthy v then Some (py_str env v) else None)"

definition text_or :: "py_env \<Rightarrow> pyval \<Rightarrow> string \<Rightarrow> string" where
  "text_or env v dflt = (if truthy v then py_str env v else dflt)"

definition result_to_record :: "py_env \<Rightarrow> rule_result \<Rightarrow> result_record" where
  "result_to_record env r =
     \<lparr>er_policy_name = r_policy_name r, er_rule_id = r_rule_id r,
      er_decision = decision_value (r_decision r), er_severity = severity_value (r_severity r),
      er_reason = r_reason r, er_evaluated_at = isoformat env (r_evaluated_at r),
      er_metadata = r_metadata r, er_policy_version = r_policy_version r\<rparr>"

definition violation_to_record :: "policy_violation \<Rightarrow> violation_record" where
  "violation_to_record v =
     \<lparr>vr_policy_name = v_policy_name v, vr_rule_id = v_rule_id v,
      vr_decision = decision_value (v_decision v), vr_severity = severity_value (v_severity v),
      vr_detail = v_detail v, vr_metadata = v_metadata v\<rparr>"

definition restriction_to_record :: "restriction \<Rightarrow> restriction_record" where
  "restriction_to_record r =
     \<lparr>sr_kind = restriction_value (rs_kind r), sr_target = rs_target r, sr_value = rs_value r,
      sr_reason = rs_reason r, sr_policy_name = rs_policy_name r, sr_rule_id = rs_rule_id r,
      sr_metadata = rs_metadata r\<rparr>"

definition decision_to_record :: "py_env \<Rightarrow> governance_decision \<Rightarrow> decision_record" where
  "decision_to_record env d =
     (let (correlation_id, m1) = dpop ''correlation_id'' PNone (gd_metadata d);
          (request_id, m2) = dpop ''request_id'' PNone m1;
          (tenant_id, m3) = dpop ''tenant_id'' PNone m2;
          (subject_kind, m4) = dpop ''subject_kind'' (PStr ''generic'') m3;
          (governance_version, m5) = dpop ''governance_version'' (PStr ''unversioned'') m4;
          md = dset ''_schema_version'' (PStr ''1'') m5
      in \<lparr>dr_decision_id = gd_decision_id d, dr_decision = decision_value (gd_decision d),
          dr_stage = stage_value (gd_stage d), dr_policy_chain_id = gd_policy_chain_id d,
          dr_reason = gd_reason d, dr_decided_at = isoformat env (gd_decided_at d),
          dr_correlation_id = text_or_none env correlation_id,
          dr_request_id = text_or_none env request_id,
          dr_tenant_id = text_or_none env tenant_id,
          dr_subject_kind = text_or env subject_kind ''generic'',
          dr_governance_version = text_or env governance_version ''unversioned'',
          dr_violations = map violation_to_record (gd_violations d),
          dr_restrictions = map restriction_to_record (gd_restrictions d),
          dr_evaluated_rules = map (result_to_record env) (gd_evaluated_rules d),
          dr_metadata = md\<rparr>)"

section \<open>Reconstructing\<close>

text \<open>\<open>Decision(text)\<close> and its companions raise on an unknown value.\<close>

definition enum_of :: "('a \<Rightarrow> 'b) \<Rightarrow> 'a list \<Rightarrow> 'b \<Rightarrow> 'a result" where
  "enum_of value members x =
     (case filter (\<lambda>m. value m = x) members of [] \<Rightarrow> Inl (ValueError ''not a valid member'')
      | m # _ \<Rightarrow> Inr m)"

definition all_stages :: "enforcement_stage list" where
  "all_stages = [PRE_REQUEST, PRE_RETRIEVAL, POST_RETRIEVAL, PRE_GROUNDING, PRE_EXECUTION, POST_EXECUTION]"

definition all_severities :: "violation_severity list" where
  "all_severities = [SEV_LOW, SEV_MEDIUM, SEV_HIGH, SEV_CRITICAL]"

definition all_restriction_kinds :: "restriction_kind list" where
  "all_restriction_kinds = [MODEL_RESTRICTION, SOURCE_RESTRICTION, CHUNK_CAP, TOKEN_CAP,
     CONTENT_REDACTION, RATE_LIMIT, CAPABILITY_RESTRICTION]"

definition parse_time :: "py_env \<Rightarrow> string \<Rightarrow> int result" where
  "parse_time env s =
     (case fromisoformat env s of None \<Rightarrow> Inl (ValueError ''Invalid isoformat string'')
      | Some t \<Rightarrow> Inr (instant t))"

fun map_result :: "('a \<Rightarrow> 'b result) \<Rightarrow> 'a list \<Rightarrow> 'b list result" where
  "map_result f [] = Inr []"
| "map_result f (x # xs) =
     (case f x of
        Inl e \<Rightarrow> Inl e
      | Inr y \<Rightarrow> (case map_result f xs of Inl e \<Rightarrow> Inl e | Inr ys \<Rightarrow> Inr (y # ys)))"

definition record_to_result :: "py_env \<Rightarrow> result_record \<Rightarrow> rule_result result" where
  "record_to_result env r =
     (case enum_of decision_value all_decisions (er_decision r) of Inl e \<Rightarrow> Inl e
      | Inr d \<Rightarrow>
     (case enum_of severity_value all_severities (er_severity r) of Inl e \<Rightarrow> Inl e
      | Inr sev \<Rightarrow>
     (case parse_time env (er_evaluated_at r) of Inl e \<Rightarrow> Inl e
      | Inr t \<Rightarrow>
          Inr \<lparr>r_policy_name = er_policy_name r, r_rule_id = er_rule_id r, r_decision = d,
               r_severity = sev, r_reason = er_reason r, r_evaluated_at = t, r_restrictions = [],
               r_metadata = er_metadata r, r_policy_version = er_policy_version r\<rparr>)))"

definition record_to_violation :: "violation_record \<Rightarrow> policy_violation result" where
  "record_to_violation v =
     (case enum_of decision_value all_decisions (vr_decision v) of Inl e \<Rightarrow> Inl e
      | Inr d \<Rightarrow>
     (case enum_of severity_value all_severities (vr_severity v) of Inl e \<Rightarrow> Inl e
      | Inr sev \<Rightarrow>
          Inr \<lparr>v_policy_name = vr_policy_name v, v_rule_id = vr_rule_id v, v_decision = d,
               v_severity = sev, v_detail = vr_detail v, v_metadata = vr_metadata v\<rparr>))"

definition record_to_restriction :: "restriction_record \<Rightarrow> restriction result" where
  "record_to_restriction r =
     (case enum_of restriction_value all_restriction_kinds (sr_kind r) of Inl e \<Rightarrow> Inl e
      | Inr k \<Rightarrow>
          Inr \<lparr>rs_kind = k, rs_target = sr_target r, rs_value = sr_value r, rs_reason = sr_reason r,
               rs_policy_name = sr_policy_name r, rs_rule_id = sr_rule_id r,
               rs_metadata = sr_metadata r\<rparr>)"

text \<open>The legacy path: a record without rules gets them from its violations.\<close>

definition legacy_result :: "int \<Rightarrow> violation_record \<Rightarrow> rule_result result" where
  "legacy_result now v =
     (case record_to_violation v of Inl e \<Rightarrow> Inl e
      | Inr w \<Rightarrow> Inr (new_rule_result now (v_policy_name w) (v_rule_id w) (v_decision w) (v_severity w)
                       (v_detail w) (v_metadata w)))"

definition set_if :: "string \<Rightarrow> string option \<Rightarrow> metadata \<Rightarrow> metadata" where
  "set_if k v m = (case v of None \<Rightarrow> m | Some s \<Rightarrow> dset k (PStr s) m)"

definition record_metadata :: "decision_record \<Rightarrow> metadata" where
  "record_metadata r =
     (let m1 = set_if ''correlation_id'' (dr_correlation_id r) (dr_metadata r);
          m2 = set_if ''request_id'' (dr_request_id r) m1;
          m3 = set_if ''tenant_id'' (dr_tenant_id r) m2
      in if dr_subject_kind r \<noteq> [] then dset ''subject_kind'' (PStr (dr_subject_kind r)) m3 else m3)"

definition record_to_decision :: "py_env \<Rightarrow> int \<Rightarrow> decision_record \<Rightarrow> governance_decision result" where
  "record_to_decision env now r =
     (case enum_of decision_value all_decisions (dr_decision r) of Inl e \<Rightarrow> Inl e
      | Inr d \<Rightarrow>
     (case enum_of stage_value all_stages (dr_stage r) of Inl e \<Rightarrow> Inl e
      | Inr stage \<Rightarrow>
     (case (if dr_evaluated_rules r \<noteq> [] then map_result (record_to_result env) (dr_evaluated_rules r)
            else map_result (legacy_result now) (dr_violations r)) of Inl e \<Rightarrow> Inl e
      | Inr results \<Rightarrow>
     (case map_result record_to_violation (dr_violations r) of Inl e \<Rightarrow> Inl e
      | Inr violations \<Rightarrow>
     (case map_result record_to_restriction (dr_restrictions r) of Inl e \<Rightarrow> Inl e
      | Inr restrictions \<Rightarrow>
     (case parse_time env (dr_decided_at r) of Inl e \<Rightarrow> Inl e
      | Inr t \<Rightarrow>
          Inr \<lparr>gd_decision_id = dr_decision_id r, gd_decision = d, gd_stage = stage,
               gd_policy_chain_id = dr_policy_chain_id r, gd_evaluated_rules = results,
               gd_violations = violations, gd_restrictions = restrictions,
               gd_reason = dr_reason r, gd_decided_at = t, gd_metadata = record_metadata r\<rparr>))))))"

section \<open>The round trip\<close>

lemma enum_of_decision [simp]: "enum_of decision_value all_decisions (decision_value d) = Inr d"
  by (cases d) (simp_all add: enum_of_def all_decisions_def)

lemma enum_of_stage [simp]: "enum_of stage_value all_stages (stage_value d) = Inr d"
  by (cases d) (simp_all add: enum_of_def all_stages_def)

lemma enum_of_severity [simp]: "enum_of severity_value all_severities (severity_value d) = Inr d"
  by (cases d) (simp_all add: enum_of_def all_severities_def)

lemma enum_of_restriction [simp]:
  "enum_of restriction_value all_restriction_kinds (restriction_value d) = Inr d"
  by (cases d) (simp_all add: enum_of_def all_restriction_kinds_def)

lemma map_result_map: "(\<And>x. x \<in> set xs \<Longrightarrow> f (g x) = Inr (h x)) \<Longrightarrow> map_result f (map g xs) = Inr (map h xs)"
  by (induction xs) auto

lemma violation_roundtrip: "record_to_violation (violation_to_record v) = Inr v"
  by (simp add: record_to_violation_def violation_to_record_def)

lemma restriction_roundtrip: "record_to_restriction (restriction_to_record r) = Inr r"
  by (simp add: record_to_restriction_def restriction_to_record_def)

text \<open>A rule result comes back without its restrictions.\<close>

lemma result_roundtrip:
  assumes "fromisoformat env (isoformat env (r_evaluated_at r)) = Some (Aware (r_evaluated_at r))"
  shows "record_to_result env (result_to_record env r) = Inr (r\<lparr>r_restrictions := []\<rparr>)"
  using assms by (simp add: record_to_result_def result_to_record_def parse_time_def)

lemma dget_dpop: "dget (snd (dpop k v d)) j = (if j = k then None else dget d j)"
  by (simp add: dpop_def dget_filter_key [of "\<lambda>j. j \<noteq> k"])

lemma fst_dpop: "fst (dpop k v d) = (case dget d k of None \<Rightarrow> v | Some w \<Rightarrow> w)"
  by (simp add: dpop_def)

section \<open>The repository\<close>

record policy_trace =
  pt_policy_name :: string
  pt_status :: string
  pt_rule_count :: int
  pt_decision_counts :: "(decision, int) dict"
  pt_error :: "string option"
  pt_metadata :: metadata

record governance_trace =
  gt_decision_id :: string
  gt_request_id :: "string option"
  gt_stage :: string
  gt_action :: string
  gt_resource :: string
  gt_actor :: string
  gt_tenant_id :: "string option"
  gt_status :: string
  gt_final_decision :: decision
  gt_policy_chain_id :: string
  gt_policy_traces :: "policy_trace list"
  gt_rule_count :: int
  gt_violation_count :: int
  gt_restriction_count :: int
  gt_subject_kind :: string
  gt_correlation_id :: "string option"
  gt_enforcement_handler :: "string option"
  gt_enforcement_status :: "string option"
  gt_error :: "string option"
  gt_metadata :: metadata

datatype enforcement_outcome = APPLIED | NO_OP | DEFERRED | OUTCOME_FAILED

fun outcome_value :: "enforcement_outcome \<Rightarrow> string" where
  "outcome_value APPLIED = ''applied''"
| "outcome_value NO_OP = ''no_op''"
| "outcome_value DEFERRED = ''deferred''"
| "outcome_value OUTCOME_FAILED = ''failed''"

record enforcement_action =
  ac_action_id :: string
  ac_handler_name :: string
  ac_decision_id :: string
  ac_outcome :: string
  ac_detail :: string
  ac_metadata :: metadata

record governance_store =
  gs_decisions :: "(string, decision_record) dict"
  gs_traces :: "(string, governance_trace) dict"
  gs_actions :: "(string, enforcement_action list) dict"

definition empty_governance_store :: governance_store where
  "empty_governance_store = \<lparr>gs_decisions = [], gs_traces = [], gs_actions = []\<rparr>"

definition record_decision ::
  "py_env \<Rightarrow> governance_store \<Rightarrow> decision_record \<Rightarrow> unit result \<times> governance_store" where
  "record_decision env s r =
     (if dget (gs_decisions s) (dr_decision_id r) \<noteq> None then
        (Inl (ValueError (''decision '' @ repr_str env (dr_decision_id r) @
                '' already recorded; records are write-once'')), s)
      else (Inr (), s\<lparr>gs_decisions := dset (dr_decision_id r) r (gs_decisions s)\<rparr>))"

definition record_trace ::
  "py_env \<Rightarrow> governance_store \<Rightarrow> governance_trace \<Rightarrow> unit result \<times> governance_store" where
  "record_trace env s t =
     (if dget (gs_traces s) (gt_decision_id t) \<noteq> None then
        (Inl (ValueError (''trace for decision '' @ repr_str env (gt_decision_id t) @
                '' already recorded; records are write-once'')), s)
      else (Inr (), s\<lparr>gs_traces := dset (gt_decision_id t) t (gs_traces s)\<rparr>))"

definition record_enforcement_action ::
  "governance_store \<Rightarrow> enforcement_action \<Rightarrow> governance_store" where
  "record_enforcement_action s a =
     s\<lparr>gs_actions := dset (ac_decision_id a)
         ((case dget (gs_actions s) (ac_decision_id a) of Some xs \<Rightarrow> xs | None \<Rightarrow> []) @ [a])
         (gs_actions s)\<rparr>"

text \<open>Records without a tenant are visible to unscoped callers only.\<close>

definition gov_visible :: "string option \<Rightarrow> string option \<Rightarrow> bool" where
  "gov_visible owner expected = (case expected of None \<Rightarrow> True | Some t \<Rightarrow> owner = Some t)"

definition get_decision :: "governance_store \<Rightarrow> string \<Rightarrow> string option \<Rightarrow> decision_record option" where
  "get_decision s decision_id expected_tenant_id =
     (case dget (gs_decisions s) decision_id of
        None \<Rightarrow> None
      | Some r \<Rightarrow> if gov_visible (dr_tenant_id r) expected_tenant_id then Some r else None)"

definition get_trace :: "governance_store \<Rightarrow> string \<Rightarrow> string option \<Rightarrow> governance_trace option" where
  "get_trace s decision_id expected_tenant_id =
     (case dget (gs_traces s) decision_id of
        None \<Rightarrow> None
      | Some t \<Rightarrow> if gov_visible (gt_tenant_id t) expected_tenant_id then Some t else None)"

definition get_enforcement_actions ::
  "governance_store \<Rightarrow> string \<Rightarrow> string option \<Rightarrow> enforcement_action list" where
  "get_enforcement_actions s decision_id expected_tenant_id =
     (let actions = (case dget (gs_actions s) decision_id of Some xs \<Rightarrow> xs | None \<Rightarrow> [])
      in case expected_tenant_id of
           None \<Rightarrow> actions
         | Some t \<Rightarrow>
             (case dget (gs_decisions s) decision_id of
                None \<Rightarrow> []
              | Some d \<Rightarrow> if dr_tenant_id d \<noteq> Some t then [] else actions))"

interpretation decision_reads: scoped_reads get_decision dr_tenant_id
  by unfold_locales (auto simp: get_decision_def gov_visible_def split: option.splits if_splits)

interpretation trace_reads: scoped_reads get_trace gt_tenant_id
  by unfold_locales (auto simp: get_trace_def gov_visible_def split: option.splits if_splits)

end
