(* ===== verification/Governance_Policies.thy ===== *)
theory Governance_Policies
  imports Governance_Model
begin

text \<open>
  The built-in policies of \<open>app/governance/policies/builtin.py\<close>: tenant scope, query
  length, content denylist, RBAC.  Each is a \<open>policy\<close> record whose \<open>evaluate\<close> is
  the method's body; \<open>now\<close> is the time its results carry.
\<close>

section \<open>Tenant scope\<close>

definition tenant_id_for :: "governance_context \<Rightarrow> string option" where
  "tenant_id_for c =
     (case subject_tenant (g_subject c) of Some t \<Rightarrow> Some t | None \<Rightarrow> g_tenant_id c)"

definition tenant_scope_evaluate ::
  "py_env \<Rightarrow> int \<Rightarrow> string list \<Rightarrow> governance_context \<Rightarrow> (string \<times> string) + rule_result list" where
  "tenant_scope_evaluate env now allowed c =
     (let res = new_rule_result now ''tenant_scope''
      in if allowed = [] then
           Inr [res ''tenant_scope_unconfigured'' DENY SEV_HIGH
             ''tenant_scope policy has no allowlist configured; AUTHORITY-class policies fail closed on indeterminate configuration. Omit this policy from the chain to opt out of tenant scoping.''
             [(''config_missing'', PStr ''allowed_tenants''), (''fail_mode'', PStr ''closed''),
              (''policy_class'', PStr ''authority'')]]
         else case tenant_id_for c of
           None \<Rightarrow> Inr [res ''tenant_missing'' DENY SEV_HIGH
                       ''tenant_id is required by tenant_scope policy'' []]
         | Some t \<Rightarrow>
             if t \<notin> set allowed then
               Inr [res ''tenant_not_allowed'' DENY SEV_HIGH
                      (''tenant '' @ repr_str env t @ '' is not allowlisted'')
                      [(''tenant_id'', PStr t)]]
             else Inr [res ''tenant_allowed'' ALLOW SEV_LOW ''tenant in allowlist'' []])"

definition tenant_scope_policy :: "py_env \<Rightarrow> int \<Rightarrow> string list \<Rightarrow> policy" where
  "tenant_scope_policy env now allowed =
     \<lparr>pol_name = ''tenant_scope'', pol_stages = [PRE_REQUEST, PRE_RETRIEVAL, PRE_EXECUTION],
      pol_kinds = [RETRIEVAL, EXECUTION, GENERIC],
      pol_evaluate = tenant_scope_evaluate env now allowed\<rparr>"

section \<open>Query length\<close>

text \<open>The \<open>assert isinstance\<close> of the typed policies raises on other subjects.\<close>

definition max_query_length_evaluate ::
  "int \<Rightarrow> int \<Rightarrow> governance_context \<Rightarrow> (string \<times> string) + rule_result list" where
  "max_query_length_evaluate now max_length c =
     (case g_subject c of
        Retrieval subject \<Rightarrow>
          (let query = ret_query subject; res = new_rule_result now ''max_query_length''
           in if query = [] then
                Inr [res ''query_missing'' DENY SEV_HIGH
                  ''retrieval subject is missing required `query`; substrate refuses to bound an unspecified query''
                  []]
              else if max_length < int (length query) then
                Inr [res ''query_too_long'' DENY SEV_MEDIUM
                  (''query length '' @ show_int (int (length query)) @ '' exceeds max '' @ show_int max_length)
                  [(''query_length'', PInt (int (length query))), (''max_length'', PInt max_length)]]
              else Inr [res ''query_within_bounds'' ALLOW SEV_LOW ''query within bounds'' []])
      | _ \<Rightarrow> Inl (''AssertionError'', []))"

definition max_query_length_policy :: "int \<Rightarrow> int \<Rightarrow> policy" where
  "max_query_length_policy now max_length =
     \<lparr>pol_name = ''max_query_length'', pol_stages = [PRE_RETRIEVAL], pol_kinds = [RETRIEVAL],
      pol_evaluate = max_query_length_evaluate now max_length\<rparr>"

section \<open>Content denylist\<close>

text \<open>\<open>term in content\<close> for strings.\<close>

fun substring :: "string \<Rightarrow> string \<Rightarrow> bool" where
  "substring t [] \<longleftrightarrow> t = []"
| "substring t (c # cs) \<longleftrightarrow> take (length t) (c # cs) = t \<or> substring t cs"

definition matched_term :: "string list \<Rightarrow> string \<Rightarrow> string option" where
  "matched_term denylist content =
     (case filter (\<lambda>t. substring t content) denylist of [] \<Rightarrow> None | t # _ \<Rightarrow> Some t)"

definition redact_candidate :: "int \<Rightarrow> candidate \<Rightarrow> string \<Rightarrow> rule_result" where
  "redact_candidate now cand matched =
     (new_rule_result now ''content_denylist'' ''denylisted_term_present'' REDACT SEV_HIGH
        (''chunk '' @ cd_chunk_id cand @ '' contains denylisted term'')
        [(''chunk_id'', PStr (cd_chunk_id cand)), (''matched_term'', PStr matched)])
      \<lparr>r_restrictions :=
         [\<lparr>rs_kind = CONTENT_REDACTION, rs_target = ''chunk_id:'' @ cd_chunk_id cand,
           rs_value = PDict [(''matched_term'', PStr matched)],
           rs_reason = ''denylisted term in content'', rs_policy_name = ''content_denylist'',
           rs_rule_id = ''denylisted_term_present'', rs_metadata = []\<rparr>]\<rparr>"

fun redact_candidates :: "int \<Rightarrow> string list \<Rightarrow> candidate list \<Rightarrow> rule_result list" where
  "redact_candidates now denylist [] = []"
| "redact_candidates now denylist (c # cs) =
     (case matched_term denylist (cd_content c) of
        None \<Rightarrow> redact_candidates now denylist cs
      | Some t \<Rightarrow> redact_candidate now c t # redact_candidates now denylist cs)"

definition content_denylist_evaluate ::
  "int \<Rightarrow> string list \<Rightarrow> governance_context \<Rightarrow> (string \<times> string) + rule_result list" where
  "content_denylist_evaluate now denylist c =
     (let res = new_rule_result now ''content_denylist''
      in if denylist = [] then
           Inr [res ''open_denylist'' ALLOW SEV_LOW ''no denylisted terms configured''
                  [(''permissive_default'', PBool True), (''config_missing'', PStr ''denylist'')]]
         else case g_subject c of
           Retrieval subject \<Rightarrow>
             (if ret_candidates subject = [] then
                Inr [res ''no_candidates'' ALLOW SEV_LOW ''no candidates to inspect'' []]
              else
                let results = redact_candidates now denylist (ret_candidates subject)
                in if results = [] then
                     Inr [res ''no_denylisted_terms'' ALLOW SEV_LOW ''no denylisted terms present'' []]
                   else Inr results)
         | _ \<Rightarrow> Inl (''AssertionError'', []))"

definition content_denylist_policy :: "int \<Rightarrow> string list \<Rightarrow> policy" where
  "content_denylist_policy now denylist =
     \<lparr>pol_name = ''content_denylist'', pol_stages = [POST_RETRIEVAL], pol_kinds = [RETRIEVAL],
      pol_evaluate = content_denylist_evaluate now denylist\<rparr>"

section \<open>RBAC\<close>

text \<open>\<open>held_capabilities\<close> is a frozenset, kept as a duplicate-free list.\<close>

definition rbac_evaluate ::
  "py_env \<Rightarrow> int \<Rightarrow> governance_context \<Rightarrow> (string \<times> string) + rule_result list" where
  "rbac_evaluate env now c =
     (case g_subject c of
        Capability subject \<Rightarrow>
          (let required = cs_required_capability subject;
               held = cs_held_capabilities subject;
               res = new_rule_result now ''rbac''
           in if required = [] then
                Inr [res ''capability_unspecified'' DENY SEV_HIGH
                  ''RBACPolicy requires a non-empty `required_capability` on the subject; AUTHORITY-class policies fail closed on indeterminate configuration.''
                  [(''policy_class'', PStr ''authority''), (''fail_mode'', PStr ''closed''),
                   (''config_missing'', PStr ''required_capability'')]]
              else if required \<notin> set held then
                Inr [res ''capability_missing'' DENY SEV_HIGH
                  (''caller does not hold required capability '' @ repr_str env required)
                  [(''policy_class'', PStr ''authority''), (''fail_mode'', PStr ''closed''),
                   (''required_capability'', PStr required), (''held_count'', PInt (int (length held)))]]
              else
                Inr [res ''capability_granted'' ALLOW SEV_LOW
                  (''caller holds required capability '' @ repr_str env required)
                  [(''policy_class'', PStr ''authority''), (''required_capability'', PStr required)]])
      | _ \<Rightarrow> Inl (''AssertionError'', []))"

definition rbac_policy :: "py_env \<Rightarrow> int \<Rightarrow> policy" where
  "rbac_policy env now =
     \<lparr>pol_name = ''rbac'', pol_stages = [PRE_REQUEST, PRE_RETRIEVAL, PRE_EXECUTION],
      pol_kinds = [CAPABILITY], pol_evaluate = rbac_evaluate env now\<rparr>"

section \<open>What the policies say\<close>

text \<open>The verdict of a policy's answer: every rule allows.\<close>

definition allows :: "(string \<times> string) + rule_result list \<Rightarrow> bool" where
  "allows answer = (case answer of Inl _ \<Rightarrow> False | Inr rs \<Rightarrow> rs \<noteq> [] \<and> (\<forall>r\<in>set rs. r_decision r = ALLOW))"

lemma tenant_scope_allows:
  "allows (tenant_scope_evaluate env now allowed c) \<longleftrightarrow> (\<exists>t\<in>set allowed. tenant_id_for c = Some t)"
  by (auto simp: allows_def tenant_scope_evaluate_def Let_def split: option.splits)

lemma rbac_allows:
  "allows (rbac_evaluate env now c) \<longleftrightarrow>
     (\<exists>s. g_subject c = Capability s \<and> cs_required_capability s \<noteq> [] \<and>
          cs_required_capability s \<in> set (cs_held_capabilities s))"
  by (auto simp: allows_def rbac_evaluate_def Let_def split: subject.splits)

lemma max_query_length_allows:
  "allows (max_query_length_evaluate now m c) \<longleftrightarrow>
     (\<exists>s. g_subject c = Retrieval s \<and> ret_query s \<noteq> [] \<and> int (length (ret_query s)) \<le> m)"
  by (auto simp: allows_def max_query_length_evaluate_def Let_def split: subject.splits)

lemma substring_iff: "substring t s \<longleftrightarrow> (\<exists>a b. s = a @ t @ b)"
proof (induction s)
  case (Cons c cs)
  have "take (length t) (c # cs) = t \<longleftrightarrow> (\<exists>b. c # cs = t @ b)"
    by (metis append_eq_conv_conj append_take_drop_id)
  moreover have "(\<exists>a b. c # cs = a @ t @ b) \<longleftrightarrow> (\<exists>b. c # cs = t @ b) \<or> (\<exists>a b. cs = a @ t @ b)"
    by (metis append_Cons append_Nil list.exhaust list.inject)
  ultimately show ?case using Cons by simp
qed simp

lemma matched_term_Some: "matched_term ds s = Some t \<Longrightarrow> t \<in> set ds \<and> substring t s"
proof (cases "filter (\<lambda>t. substring t s) ds")
  case (Cons u us)
  assume "matched_term ds s = Some t"
  then have "t \<in> set (filter (\<lambda>t. substring t s) ds)" by (simp add: matched_term_def Cons)
  then show ?thesis by simp
qed (simp add: matched_term_def)

lemma matched_term_None: "matched_term ds s = None \<longleftrightarrow> (\<forall>t\<in>set ds. \<not> substring t s)"
proof (cases "matched_term ds s")
  case None
  then show ?thesis by (simp add: matched_term_def filter_empty_conv split: list.splits)
next
  case (Some t)
  then show ?thesis using matched_term_Some by auto
qed

lemma set_redact_candidates:
  "set (redact_candidates now ds cs) =
     {redact_candidate now c t |c t. c \<in> set cs \<and> matched_term ds (cd_content c) = Some t}"
  by (induction cs) (auto split: option.splits)

lemma redact_candidates_Nil:
  "redact_candidates now ds cs = [] \<longleftrightarrow> (\<forall>c\<in>set cs. matched_term ds (cd_content c) = None)"
  by (induction cs) (auto split: option.splits)

end
