(* ===== verification/Governance_Engine.thy ===== *)
theory Governance_Engine
  imports Governance_Records Governance_Policies
begin

text \<open>
  The evaluation pipeline: the policy engine (\<open>evaluators/engine.py\<close>), the enforcement
  handlers and their registry (\<open>enforcement/handlers.py\<close>), the governance runtime
  (\<open>enforcement/runtime.py\<close>) and the capability gate in front of it
  (\<open>capability/gate.py\<close>, \<open>app/core/capability_gate.py\<close>).  Logging, metrics, audit
  emission and latencies are left out; the repository is the state the runtime
  threads, \<open>None\<close> when it was built without persistence.
\<close>

section \<open>Engine\<close>

fun count_decision :: "decision \<Rightarrow> (decision, int) dict \<Rightarrow> (decision, int) dict" where
  "count_decision d c = dset d ((case dget c d of None \<Rightarrow> 0 | Some n \<Rightarrow> n) + 1) c"

definition count_results :: "rule_result list \<Rightarrow> (decision, int) dict" where
  "count_results rs = fold count_decision (map r_decision rs) []"

definition evaluation_error_result :: "int \<Rightarrow> policy \<Rightarrow> string \<times> string \<Rightarrow> rule_result" where
  "evaluation_error_result now p exc =
     new_rule_result now (pol_name p) ''evaluation_error'' DENY SEV_CRITICAL
       (''policy raised: '' @ fst exc @ '': '' @ snd exc) [(''exception_type'', PStr (fst exc))]"

definition run_policy ::
  "int \<Rightarrow> governance_context \<Rightarrow> policy \<Rightarrow> rule_result list \<times> policy_trace" where
  "run_policy now c p =
     (if \<not> applies_to p (kind_of (g_subject c)) then
        ([], \<lparr>pt_policy_name = pol_name p, pt_status = ''skipped'', pt_rule_count = 0,
              pt_decision_counts = count_results [], pt_error = None,
              pt_metadata = [(''skip_reason'', PStr ''subject_kind_not_applicable''),
                (''subject_kind'', PStr (kind_text (kind_of (g_subject c))))]\<rparr>)
      else case pol_evaluate p c of
        Inl exc \<Rightarrow>
          ([evaluation_error_result now p exc],
           \<lparr>pt_policy_name = pol_name p, pt_status = ''failed'', pt_rule_count = 0,
            pt_decision_counts = count_results [], pt_error = Some (fst exc @ '': '' @ snd exc),
            pt_metadata = []\<rparr>)
      | Inr results \<Rightarrow>
          (results,
           \<lparr>pt_policy_name = pol_name p, pt_status = ''ok'', pt_rule_count = int (length results),
            pt_decision_counts = count_results results, pt_error = None, pt_metadata = []\<rparr>))"

definition engine_evaluate ::
  "int \<Rightarrow> policy list \<Rightarrow> governance_context \<Rightarrow> rule_result list \<times> policy_trace list" where
  "engine_evaluate now policies c =
     (concat (map (\<lambda>p. fst (run_policy now c p)) policies),
      map (\<lambda>p. snd (run_policy now c p)) policies)"

section \<open>Handlers\<close>

record handler =
  hd_decision :: decision
  hd_name :: string
  hd_apply :: "governance_decision \<Rightarrow> (string \<times> string) + enforcement_action"

definition ACTION_NAMESPACE :: string where
  "ACTION_NAMESPACE = ''4d2c10a2-6c00-4f7c-8b3a-1f8d0c7e0003''"

definition action_id :: "py_env \<Rightarrow> governance_decision \<Rightarrow> string \<Rightarrow> string" where
  "action_id env d handler_name =
     uuid5 env ACTION_NAMESPACE
       (gd_decision_id d @ ''|'' @ handler_name @ ''|'' @ decision_value (gd_decision d))"

definition handler_action ::
  "py_env \<Rightarrow> string \<Rightarrow> enforcement_outcome \<Rightarrow> (governance_decision \<Rightarrow> string)
     \<Rightarrow> (governance_decision \<Rightarrow> metadata) \<Rightarrow> governance_decision \<Rightarrow> (string \<times> string) + enforcement_action"
  where
  "handler_action env name outcome detail md d =
     Inr \<lparr>ac_action_id = action_id env d name, ac_handler_name = name,
          ac_decision_id = gd_decision_id d, ac_outcome = outcome_value outcome, ac_detail = detail d,
          ac_metadata = md d\<rparr>"

definition restriction_count :: "governance_decision \<Rightarrow> metadata" where
  "restriction_count d = [(''restriction_count'', PInt (int (length (gd_restrictions d))))]"

definition allow_handler :: "py_env \<Rightarrow> handler" where
  "allow_handler env = \<lparr>hd_decision = ALLOW, hd_name = ''allow'',
     hd_apply = handler_action env ''allow'' NO_OP (\<lambda>d. ''execution permitted'') (\<lambda>d. [])\<rparr>"

definition deny_handler :: "py_env \<Rightarrow> handler" where
  "deny_handler env = \<lparr>hd_decision = DENY, hd_name = ''deny'',
     hd_apply = handler_action env ''deny'' APPLIED gd_reason
       (\<lambda>d. [(''violation_count'', PInt (int (length (gd_violations d))))])\<rparr>"

definition redact_handler :: "py_env \<Rightarrow> handler" where
  "redact_handler env = \<lparr>hd_decision = REDACT, hd_name = ''redact'',
     hd_apply = handler_action env ''redact'' APPLIED
       (\<lambda>d. show_int (int (length (gd_restrictions d))) @ '' redaction restriction(s) emitted'')
       restriction_count\<rparr>"

definition degrade_handler :: "py_env \<Rightarrow> handler" where
  "degrade_handler env = \<lparr>hd_decision = DEGRADE, hd_name = ''degrade'',
     hd_apply = handler_action env ''degrade'' APPLIED
       (\<lambda>d. show_int (int (length (gd_restrictions d))) @ '' degrade restriction(s) emitted'')
       restriction_count\<rparr>"

definition escalate_handler :: "py_env \<Rightarrow> handler" where
  "escalate_handler env = \<lparr>hd_decision = ESCALATE, hd_name = ''escalate'',
     hd_apply = handler_action env ''escalate'' DEFERRED
       (\<lambda>d. ''escalation queued (out-of-band resolution required)'') (\<lambda>d. [])\<rparr>"

definition require_approval_handler :: "py_env \<Rightarrow> handler" where
  "require_approval_handler env = \<lparr>hd_decision = REQUIRE_APPROVAL, hd_name = ''require_approval'',
     hd_apply = handler_action env ''require_approval'' DEFERRED
       (\<lambda>d. ''approval required before proceeding'') (\<lambda>d. [])\<rparr>"

type_synonym handler_registry = "(decision, handler) dict"

definition register_handler :: "py_env \<Rightarrow> handler_registry \<Rightarrow> handler \<Rightarrow> handler_registry result" where
  "register_handler env reg h =
     (if dget reg (hd_decision h) \<noteq> None then
        Inl (GovernanceConfigurationError
               (''handler already registered for decision '' @ repr_str env (decision_value (hd_decision h))))
      else Inr (dset (hd_decision h) h reg))"

definition get_handler :: "py_env \<Rightarrow> handler_registry \<Rightarrow> decision \<Rightarrow> handler result" where
  "get_handler env reg d =
     (case dget reg d of
        None \<Rightarrow> Inl (GovernanceConfigurationError
                  (''no enforcement handler registered for decision '' @ repr_str env (decision_value d)))
      | Some h \<Rightarrow> Inr h)"

definition assert_complete :: "py_env \<Rightarrow> handler_registry \<Rightarrow> unit result" where
  "assert_complete env reg =
     (let missing = map decision_value (filter (\<lambda>d. dget reg d = None) all_decisions)
      in if missing \<noteq> [] then
           Inl (GovernanceConfigurationError
                  (''enforcement handler registry is incomplete; missing decisions: '' @
                   repr_of env (PList (map PStr missing))))
         else Inr ())"

section \<open>Runtime\<close>

record governance_runtime =
  gr_handlers :: handler_registry
  gr_chains :: "(enforcement_stage, policy_chain) dict"

definition make_runtime ::
  "py_env \<Rightarrow> handler_registry \<Rightarrow> (enforcement_stage, policy_chain) dict \<Rightarrow> governance_runtime result" where
  "make_runtime env handlers chain_map =
     (case assert_complete env handlers of
        Inl e \<Rightarrow> Inl e
      | Inr _ \<Rightarrow> Inr \<lparr>gr_handlers = handlers, gr_chains = chain_map\<rparr>)"

definition chain_for :: "governance_runtime \<Rightarrow> enforcement_stage \<Rightarrow> policy_chain option" where
  "chain_for rt stage = dget (gr_chains rt) stage"

definition replace_chains ::
  "governance_runtime \<Rightarrow> (enforcement_stage, policy_chain) dict \<Rightarrow> governance_runtime" where
  "replace_chains rt chain_map = rt\<lparr>gr_chains := chain_map\<rparr>"

record governance_envelope =
  en_trace :: governance_trace
  en_decision :: "governance_decision option"
  en_error :: "error option"

definition is_ok :: "governance_envelope \<Rightarrow> bool" where
  "is_ok e \<longleftrightarrow> en_error e = None \<and> en_decision e \<noteq> None"

definition DECISION_NAMESPACE :: string where
  "DECISION_NAMESPACE = ''4d2c10a2-6c00-4f7c-8b3a-1f8d0c7e0001''"

definition decision_id_from_context_seed :: "py_env \<Rightarrow> governance_context \<Rightarrow> string option" where
  "decision_id_from_context_seed env c =
     (case dget (g_metadata c) ''governance.decision_seed'' of
        Some (PStr (x # xs)) \<Rightarrow> Some (uuid5 env DECISION_NAMESPACE (x # xs))
      | _ \<Rightarrow> None)"

text \<open>The metadata stamped on every decision.\<close>

definition stamped_metadata :: "governance_context \<Rightarrow> string \<Rightarrow> (string \<times> pyval) list \<Rightarrow> metadata" where
  "stamped_metadata c version extra =
     dmerge (g_metadata c)
       ([(''_schema_version'', PStr ''1''), (''action'', PStr (g_action c)),
         (''resource'', PStr (g_resource c)), (''tenant_id'', opt_pstr (g_tenant_id c)),
         (''subject_kind'', PStr (kind_text (kind_of (g_subject c)))),
         (''request_id'', opt_pstr (g_request_id c)),
         (''correlation_id'', opt_pstr (g_correlation_id c)),
         (''governance_version'', PStr version)] @ extra)"

definition runtime_trace ::
  "governance_context \<Rightarrow> governance_decision \<Rightarrow> string \<Rightarrow> string \<Rightarrow> policy_trace list \<Rightarrow> string option
     \<Rightarrow> string option \<Rightarrow> string option \<Rightarrow> governance_trace" where
  "runtime_trace c d status chain_id traces handler_name handler_status err =
     \<lparr>gt_decision_id = gd_decision_id d, gt_request_id = g_request_id c, gt_stage = stage_value (g_stage c),
      gt_action = g_action c, gt_resource = g_resource c, gt_actor = g_actor c,
      gt_tenant_id = g_tenant_id c, gt_status = status, gt_final_decision = gd_decision d,
      gt_policy_chain_id = chain_id, gt_policy_traces = traces,
      gt_rule_count = int (length (gd_evaluated_rules d)),
      gt_violation_count = int (length (gd_violations d)),
      gt_restriction_count = int (length (gd_restrictions d)),
      gt_subject_kind = kind_text (kind_of (g_subject c)),
      gt_correlation_id = g_correlation_id c, gt_enforcement_handler = handler_name,
      gt_enforcement_status = handler_status, gt_error = err, gt_metadata = g_metadata c\<rparr>"

definition persist_failure ::
  "py_env \<Rightarrow> governance_store option \<Rightarrow> governance_decision \<Rightarrow> governance_trace
     \<Rightarrow> unit result \<times> governance_store option" where
  "persist_failure env store d t =
     (case store of
        None \<Rightarrow> (Inr (), None)
      | Some s \<Rightarrow>
     (case record_decision env s (decision_to_record env d) of
        (Inl e, s1) \<Rightarrow> (Inl e, Some s1)
      | (Inr _, s1) \<Rightarrow>
     (case record_trace env s1 t of
        (Inl e, s2) \<Rightarrow> (Inl e, Some s2)
      | (Inr _, s2) \<Rightarrow> (Inr (), Some s2))))"

definition persist_success ::
  "py_env \<Rightarrow> governance_store option \<Rightarrow> governance_decision \<Rightarrow> governance_trace \<Rightarrow> enforcement_action
     \<Rightarrow> unit result \<times> governance_store option" where
  "persist_success env store d t a =
     (case persist_failure env store d t of
        (Inl e, s) \<Rightarrow> (Inl e, s)
      | (Inr _, None) \<Rightarrow> (Inr (), None)
      | (Inr _, Some s) \<Rightarrow> (Inr (), Some (record_enforcement_action s a)))"

definition deliver ::
  "unit result \<times> governance_store option \<Rightarrow> governance_envelope
     \<Rightarrow> governance_envelope result \<times> governance_store option" where
  "deliver persisted envelope =
     (case persisted of (Inl e, s) \<Rightarrow> (Inl e, s) | (Inr _, s) \<Rightarrow> (Inr envelope, s))"

definition fail_envelope ::
  "py_env \<Rightarrow> int \<Rightarrow> string \<Rightarrow> governance_store option \<Rightarrow> string \<Rightarrow> error \<Rightarrow> string \<Rightarrow> governance_context
     \<Rightarrow> governance_envelope result \<times> governance_store option" where
  "fail_envelope env now fresh_id store cls err message c =
     (let d = build_decision now fresh_id (g_stage c) [] []
                (Some (stamped_metadata c ''unversioned'' [(''failure'', PStr cls)])) (Some now)
                (Some (case decision_id_from_context_seed env c of Some i \<Rightarrow> i | None \<Rightarrow> fresh_id));
          t = runtime_trace c d ''failed'' [] [] None None (Some (cls @ '': '' @ message))
      in deliver (persist_failure env store d t)
           \<lparr>en_trace = t, en_decision = None, en_error = Some err\<rparr>)"

text \<open>\<open>rid = context.request_id or get_request_id()\<close>; the copy carries \<open>rid\<close>.\<close>

definition with_request_id :: "string option \<Rightarrow> governance_context \<Rightarrow> governance_context" where
  "with_request_id ambient c = c\<lparr>g_request_id := str_or (g_request_id c) ambient\<rparr>"

definition missing_chain_message :: "py_env \<Rightarrow> enforcement_stage \<Rightarrow> string" where
  "missing_chain_message env stage =
     ''no policy chain configured for stage '' @ repr_str env (stage_value stage)"

definition governance_evaluate ::
  "py_env \<Rightarrow> int \<Rightarrow> string \<Rightarrow> string option \<Rightarrow> governance_runtime \<Rightarrow> governance_store option
     \<Rightarrow> governance_context \<Rightarrow> governance_envelope result \<times> governance_store option" where
  "governance_evaluate env now fresh_id ambient rt store context =
     (let c = with_request_id ambient context
      in case chain_for rt (g_stage c) of
        None \<Rightarrow> fail_envelope env now fresh_id store ''GovernanceConfigurationError''
                  (GovernanceConfigurationError (missing_chain_message env (g_stage c)))
                  (missing_chain_message env (g_stage c)) c
      | Some chain \<Rightarrow>
          let (results, traces) = engine_evaluate now (ch_policies chain) c;
              d = build_decision now fresh_id (g_stage c) (ch_chain_id chain) results
                    (Some (stamped_metadata c (ch_governance_version chain) [])) None
                    (decision_id_from_context_seed env c)
          in case get_handler env (gr_handlers rt) (gd_decision d) of
               Inl e \<Rightarrow> (Inl e, store)
             | Inr h \<Rightarrow>
                 (case hd_apply h d of
                    Inl exc \<Rightarrow>
                      let t = runtime_trace c d ''failed'' (ch_chain_id chain) traces (Some (hd_name h))
                                (Some ''failed'') (Some (fst exc @ '': '' @ snd exc))
                      in deliver (persist_failure env store d t)
                           \<lparr>en_trace = t, en_decision = None,
                            en_error = Some (EnforcementExecutionError
                              (''enforcement handler '' @ repr_str env (hd_name h) @ '' raised: '' @
                               fst exc @ '': '' @ snd exc))\<rparr>
                  | Inr action \<Rightarrow>
                      let t = runtime_trace c d ''ok'' (ch_chain_id chain) traces (Some (hd_name h))
                                (Some ''ok'') None
                      in deliver (persist_success env store d t action)
                           \<lparr>en_trace = t, en_decision = Some d, en_error = None\<rparr>))"

section \<open>Capability gate\<close>

record legality_request =
  lq_authority :: authority_context
  lq_act :: string
    \<comment> \<open>the value of an \<open>OperationalAct\<close>\<close>
  lq_resource :: string
  lq_actor :: string
  lq_correlation_id :: "string option"

definition build_capability_context :: "legality_request \<Rightarrow> governance_context" where
  "build_capability_context q =
     (let a = lq_authority q
      in \<lparr>g_stage = PRE_REQUEST, g_action = lq_act q, g_resource = lq_resource q,
          g_actor = lq_actor q, g_tenant_id = au_tenant_id a, g_request_id = None,
          g_principal_id = au_principal_id a, g_organization_id = au_organization_id a,
          g_environment_id = au_environment_id a, g_authority = Some a,
          g_subject = Capability \<lparr>cs_required_capability = lq_act q,
            cs_held_capabilities = au_capabilities a, cs_tenant_id = au_tenant_id a,
            cs_actor = lq_actor q, cs_metadata = []\<rparr>,
          g_correlation_id = lq_correlation_id q, g_metadata = []\<rparr>)"

definition evaluate_capability_legality ::
  "py_env \<Rightarrow> int \<Rightarrow> string \<Rightarrow> string option \<Rightarrow> governance_runtime \<Rightarrow> governance_store option
     \<Rightarrow> legality_request \<Rightarrow> governance_envelope result \<times> governance_store option" where
  "evaluate_capability_legality env now fresh_id ambient rt store q =
     governance_evaluate env now fresh_id ambient rt store (build_capability_context q)"

record gate_outcome =
  go_denial :: "(string \<times> governance_envelope) option"
    \<comment> \<open>\<open>CapabilityDenied\<close>: the act and the envelope\<close>
  go_decision_id :: "string option"
  go_chain_id :: "string option"

definition provenance_from_envelope :: "governance_envelope \<Rightarrow> string option \<times> string option" where
  "provenance_from_envelope e =
     (case en_decision e of
        Some d \<Rightarrow> (Some (gd_decision_id d), str_or (Some (gd_policy_chain_id d)) None)
      | None \<Rightarrow> (Some (gt_decision_id (en_trace e)), str_or (Some (gt_policy_chain_id (en_trace e))) None))"

definition anonymous_authority :: "string option \<Rightarrow> authority_context" where
  "anonymous_authority tenant_id = \<lparr>au_tenant_id = tenant_id, au_principal_id = None,
     au_organization_id = None, au_environment_id = None, au_capabilities = []\<rparr>"

definition evaluate_capability_gate ::
  "py_env \<Rightarrow> int \<Rightarrow> string \<Rightarrow> string option \<Rightarrow> governance_runtime option \<Rightarrow> governance_store option
     \<Rightarrow> string \<Rightarrow> authority_context option \<Rightarrow> string option \<Rightarrow> string \<Rightarrow> string \<Rightarrow> string option
     \<Rightarrow> gate_outcome result \<times> governance_store option" where
  "evaluate_capability_gate env now fresh_id ambient governance store act authority
       resolution_tenant_id actor resource correlation_id =
     (case governance of
        None \<Rightarrow> (Inr \<lparr>go_denial = None, go_decision_id = None, go_chain_id = None\<rparr>, store)
      | Some rt \<Rightarrow>
          let gate_authority = (case authority of Some a \<Rightarrow> a
                                | None \<Rightarrow> anonymous_authority resolution_tenant_id)
          in case evaluate_capability_legality env now fresh_id ambient rt store
                    \<lparr>lq_authority = gate_authority, lq_act = act, lq_resource = resource,
                     lq_actor = actor, lq_correlation_id = correlation_id\<rparr> of
               (Inl e, s) \<Rightarrow> (Inl e, s)
             | (Inr envelope, s) \<Rightarrow>
                 let (decision_id, chain_id) = provenance_from_envelope envelope;
                     allowed = (is_ok envelope \<and>
                       (case en_decision envelope of None \<Rightarrow> False | Some d \<Rightarrow> gd_is_allow d))
                 in (Inr \<lparr>go_denial = (if allowed then None else Some (act, envelope)),
                          go_decision_id = decision_id, go_chain_id = chain_id\<rparr>, s))"

definition gate_or_deny ::
  "py_env \<Rightarrow> int \<Rightarrow> string \<Rightarrow> string option \<Rightarrow> governance_runtime option \<Rightarrow> governance_store option
     \<Rightarrow> string \<Rightarrow> authority_context option \<Rightarrow> string option \<Rightarrow> string \<Rightarrow> string \<Rightarrow> string option
     \<Rightarrow> (string \<times> governance_envelope) option result \<times> governance_store option" where
  "gate_or_deny env now fresh_id ambient governance store act authority resolution_tenant_id actor
       resource correlation_id =
     (case evaluate_capability_gate env now fresh_id ambient governance store act authority
             resolution_tenant_id actor resource correlation_id of
        (Inl e, s) \<Rightarrow> (Inl e, s)
      | (Inr outcome, s) \<Rightarrow> (Inr (go_denial outcome), s))"

section \<open>The capability runtime\<close>

fun register_handlers :: "py_env \<Rightarrow> handler_registry \<Rightarrow> handler list \<Rightarrow> handler_registry result" where
  "register_handlers env reg [] = Inr reg"
| "register_handlers env reg (h # hs) =
     (case register_handler env reg h of Inl e \<Rightarrow> Inl e | Inr reg' \<Rightarrow> register_handlers env reg' hs)"

definition builtin_handlers :: "py_env \<Rightarrow> handler list" where
  "builtin_handlers env = [allow_handler env, deny_handler env, redact_handler env,
     degrade_handler env, escalate_handler env, require_approval_handler env]"

text \<open>The policy reads its own clock; one reading \<open>now\<close> is used for its results.\<close>

definition build_capability_governance_chains ::
  "py_env \<Rightarrow> int \<Rightarrow> (enforcement_stage, policy_chain) dict result" where
  "build_capability_governance_chains env now =
     (case make_chain env ''capability-legality'' PRE_REQUEST [rbac_policy env now] ''unversioned'' of
        Inl e \<Rightarrow> Inl e
      | Inr chain \<Rightarrow> Inr [(PRE_REQUEST, chain)])"

definition build_capability_governance_runtime :: "py_env \<Rightarrow> int \<Rightarrow> governance_runtime result" where
  "build_capability_governance_runtime env now =
     (case register_handlers env [] (builtin_handlers env) of
        Inl e \<Rightarrow> Inl e
      | Inr reg \<Rightarrow>
     (case build_capability_governance_chains env now of
        Inl e \<Rightarrow> Inl e
      | Inr chain_map \<Rightarrow> make_runtime env reg chain_map))"

end
