(* ===== verification/Governance_Safety.thy ===== *)
theory Governance_Safety
  imports Governance_Engine
begin

text \<open>
  What the governance pipeline guarantees: the verdict of a set of rule results, the
  engine's fail-closed reading of a chain, the envelope and the records of every
  evaluation, the vetoes of the built-in policies, and the capability gate.
\<close>

section \<open>The verdict\<close>

text \<open>(C22) The most restrictive rule wins.  The verdict of a decision is the least
  restrictive verdict not weaker than any of its rule results and one of them; no
  result at all is a denial.  It depends only on the set of results, more results
  never weaken it, and the decision carries exactly the violations of the non-allowing
  results and the restrictions of the winning ones, in order.\<close>

theorem gov_most_restrictive:
  assumes "d = build_decision now fresh stage chain rs md at i"
  shows "(rs = [] \<longrightarrow> gd_decision d = DENY \<and> gd_evaluated_rules d = [no_governance_result now]) \<and>
    (rs \<noteq> [] \<longrightarrow> gd_evaluated_rules d = rs \<and> (\<exists>r\<in>set rs. r_decision r = gd_decision d)) \<and>
    (\<forall>r\<in>set rs. gd_decision d \<le> r_decision r) \<and>
    (rs \<noteq> [] \<and> set rs \<subseteq> set rs' \<longrightarrow>
       gd_decision (build_decision now' fresh' stage' chain' rs' md' at' i') \<le> gd_decision d) \<and>
    gd_violations d = map violation_of (filter (\<lambda>r. r_decision r \<noteq> ALLOW) (gd_evaluated_rules d)) \<and>
    gd_restrictions d =
      concat (map r_restrictions (filter (\<lambda>r. r_decision r = gd_decision d) (gd_evaluated_rules d)))"
proof -
  have "\<exists>r\<in>set rs. r_decision r = Min (r_decision ` set rs)" if "rs \<noteq> []"
    using Min_in [of "r_decision ` set rs"] that by (auto simp: image_iff)
  moreover have "Min (r_decision ` set rs') \<le> Min (r_decision ` set rs)" if "rs \<noteq> []" "set rs \<subseteq> set rs'"
    using that by (intro Min_antimono) auto
  ultimately show ?thesis
    by (auto simp: assms gd_decision_build gd_evaluated_build gd_violations_build gd_restrictions_build)
qed

lemma gov_most_restrictive_witness:
  "gd_decision (build_decision 0 ''d'' PRE_REQUEST ''c''
      [new_rule_result 0 ''p'' ''r'' ESCALATE SEV_LOW [] [], new_rule_result 0 ''p'' ''s'' DENY SEV_LOW [] []]
      None None None) \<le>
    gd_decision (build_decision 0 ''d'' PRE_REQUEST ''c''
      [new_rule_result 0 ''p'' ''r'' ESCALATE SEV_LOW [] []] None None None)"
proof -
  let ?rs = "[new_rule_result 0 ''p'' ''r'' ESCALATE SEV_LOW [] []]"
  have "?rs \<noteq> [] \<and> set ?rs \<subseteq> set [new_rule_result 0 ''p'' ''r'' ESCALATE SEV_LOW [] [], new_rule_result 0 ''p'' ''s'' DENY SEV_LOW [] []]" by simp
  with gov_most_restrictive [OF refl] show ?thesis by blast
qed

section \<open>Reading a chain\<close>

text \<open>The chain speaks for the operation: every applicable policy answers, each of
  its rules allows, and at least one rule was evaluated.\<close>

definition chain_clear :: "policy list \<Rightarrow> governance_context \<Rightarrow> bool" where
  "chain_clear ps c \<longleftrightarrow>
     (\<forall>p\<in>set ps. applies_to p (kind_of (g_subject c)) \<longrightarrow>
        (\<exists>rs. pol_evaluate p c = Inr rs \<and> (\<forall>r\<in>set rs. r_decision r = ALLOW))) \<and>
     (\<exists>p\<in>set ps. applies_to p (kind_of (g_subject c)) \<and> pol_evaluate p c \<noteq> Inr [])"

lemma run_policy_results:
  "fst (run_policy now c p) =
     (if applies_to p (kind_of (g_subject c))
      then (case pol_evaluate p c of Inl exc \<Rightarrow> [evaluation_error_result now p exc] | Inr rs \<Rightarrow> rs)
      else [])"
  by (simp add: run_policy_def split: sum.splits)

lemma error_result_denies [simp]: "r_decision (evaluation_error_result now p exc) = DENY"
  by (simp add: evaluation_error_result_def)

lemma policy_clear:
  "(\<forall>r\<in>set (fst (run_policy now c p)). r_decision r = ALLOW) \<longleftrightarrow>
     (applies_to p (kind_of (g_subject c)) \<longrightarrow>
        (\<exists>rs. pol_evaluate p c = Inr rs \<and> (\<forall>r\<in>set rs. r_decision r = ALLOW)))"
  by (cases "pol_evaluate p c") (auto simp: run_policy_results)

lemma policy_speaks:
  "fst (run_policy now c p) \<noteq> [] \<longleftrightarrow> applies_to p (kind_of (g_subject c)) \<and> pol_evaluate p c \<noteq> Inr []"
  by (cases "pol_evaluate p c") (auto simp: run_policy_results)

lemma engine_results:
  "set (fst (engine_evaluate now ps c)) = (\<Union>p\<in>set ps. set (fst (run_policy now c p)))"
  "fst (engine_evaluate now ps c) = [] \<longleftrightarrow> (\<forall>p\<in>set ps. fst (run_policy now c p) = [])"
  by (auto simp: engine_evaluate_def)

lemma chain_clear_iff:
  "chain_clear ps c \<longleftrightarrow> fst (engine_evaluate now ps c) \<noteq> [] \<and>
     (\<forall>r\<in>set (fst (engine_evaluate now ps c)). r_decision r = ALLOW)"
  unfolding chain_clear_def engine_results policy_clear [symmetric, where now = now]
    policy_speaks [symmetric, where now = now]
  by auto

section \<open>The shape of an evaluation\<close>

text \<open>The verdict the runtime computes before enforcing it; \<open>None\<close> without a chain.\<close>

definition verdict_of ::
  "py_env \<Rightarrow> int \<Rightarrow> string \<Rightarrow> governance_runtime \<Rightarrow> governance_context \<Rightarrow> governance_decision option" where
  "verdict_of env now fresh rt c =
     map_option (\<lambda>chain. build_decision now fresh (g_stage c) (ch_chain_id chain)
         (fst (engine_evaluate now (ch_policies chain) c))
         (Some (stamped_metadata c (ch_governance_version chain) [])) None
         (decision_id_from_context_seed env c)) (chain_for rt (g_stage c))"

definition handlers_cover :: "governance_runtime \<Rightarrow> bool" where
  "handlers_cover rt \<longleftrightarrow> (\<forall>v. dget (gr_handlers rt) v \<noteq> None)"

lemma make_runtime_covers: "make_runtime env hs cm = Inr rt \<Longrightarrow> handlers_cover rt"
  by (auto simp: make_runtime_def assert_complete_def handlers_cover_def Let_def filter_empty_conv
      split: sum.splits if_splits)

lemma same_request [simp]:
  "g_stage (with_request_id a c) = g_stage c" "g_tenant_id (with_request_id a c) = g_tenant_id c"
  "g_subject (with_request_id a c) = g_subject c" "g_metadata (with_request_id a c) = g_metadata c"
  "g_action (with_request_id a c) = g_action c" "g_authority (with_request_id a c) = g_authority c"
  "decision_id_from_context_seed env (with_request_id a c) = decision_id_from_context_seed env c"
  by (simp_all add: with_request_id_def decision_id_from_context_seed_def)

lemma trace_simps [simp]:
  "gt_decision_id (runtime_trace c d st ci pt hn hs err) = gd_decision_id d"
  "gt_final_decision (runtime_trace c d st ci pt hn hs err) = gd_decision d"
  "gt_tenant_id (runtime_trace c d st ci pt hn hs err) = g_tenant_id c"
  "gt_status (runtime_trace c d st ci pt hn hs err) = st"
  by (simp_all add: runtime_trace_def)

lemma stamped_tenant [simp]:
  "dget (stamped_metadata c v []) ''tenant_id'' = Some (opt_pstr (g_tenant_id c))"
  "dget (stamped_metadata c v [(''failure'', x)]) ''tenant_id'' = Some (opt_pstr (g_tenant_id c))"
  by (simp_all add: stamped_metadata_def dget_dmerge)

text \<open>Every evaluation of a covering runtime decides, then persists, then returns.\<close>

lemma evaluate_shape:
  assumes "handlers_cover rt"
  obtains (unconfigured) d e where
      "chain_for rt (g_stage c) = None"
      "governance_evaluate env now fresh ambient rt store c = deliver (persist_failure env store d (en_trace e)) e"
      "en_decision e = None" "en_error e = Some (GovernanceConfigurationError (missing_chain_message env (g_stage c)))"
      "gd_decision d = DENY" "gt_decision_id (en_trace e) = gd_decision_id d"
      "gt_final_decision (en_trace e) = DENY" "gt_tenant_id (en_trace e) = g_tenant_id c"
      "gd_decision_id d = (case decision_id_from_context_seed env c of Some i \<Rightarrow> i | None \<Rightarrow> fresh)"
      "dget (gd_metadata d) ''tenant_id'' = Some (opt_pstr (g_tenant_id c))"
  | (unenforced) d h exc e where
      "verdict_of env now fresh rt (with_request_id ambient c) = Some d"
      "dget (gr_handlers rt) (gd_decision d) = Some h" "hd_apply h d = Inl exc"
      "governance_evaluate env now fresh ambient rt store c = deliver (persist_failure env store d (en_trace e)) e"
      "en_decision e = None" "\<exists>m. en_error e = Some (EnforcementExecutionError m)"
      "gt_decision_id (en_trace e) = gd_decision_id d" "gt_final_decision (en_trace e) = gd_decision d"
      "gt_tenant_id (en_trace e) = g_tenant_id c"
      "gd_decision_id d = (case decision_id_from_context_seed env c of Some i \<Rightarrow> i | None \<Rightarrow> fresh)"
      "dget (gd_metadata d) ''tenant_id'' = Some (opt_pstr (g_tenant_id c))"
  | (enforced) d h a e where
      "verdict_of env now fresh rt (with_request_id ambient c) = Some d"
      "dget (gr_handlers rt) (gd_decision d) = Some h" "hd_apply h d = Inr a"
      "governance_evaluate env now fresh ambient rt store c = deliver (persist_success env store d (en_trace e) a) e"
      "en_decision e = Some d" "en_error e = None"
      "gt_decision_id (en_trace e) = gd_decision_id d" "gt_final_decision (en_trace e) = gd_decision d"
      "gt_tenant_id (en_trace e) = g_tenant_id c"
      "gd_decision_id d = (case decision_id_from_context_seed env c of Some i \<Rightarrow> i | None \<Rightarrow> fresh)"
      "dget (gd_metadata d) ''tenant_id'' = Some (opt_pstr (g_tenant_id c))"
proof (cases "chain_for rt (g_stage c)")
  case None
  let ?c = "with_request_id ambient c"
  let ?m = "missing_chain_message env (g_stage c)"
  let ?d = "build_decision now fresh (g_stage c) [] []
      (Some (stamped_metadata ?c ''unversioned'' [(''failure'', PStr ''GovernanceConfigurationError'')])) (Some now)
      (Some (case decision_id_from_context_seed env c of Some i \<Rightarrow> i | None \<Rightarrow> fresh))"
  let ?t = "runtime_trace ?c ?d ''failed'' [] [] None None (Some (''GovernanceConfigurationError'' @ '': '' @ ?m))"
  show ?thesis
    by (rule unconfigured [where d = ?d and
          e = "\<lparr>en_trace = ?t, en_decision = None, en_error = Some (GovernanceConfigurationError ?m)\<rparr>", OF None])
      (simp_all add: governance_evaluate_def fail_envelope_def Let_def None gd_decision_build)
next
  case (Some chain)
  let ?c = "with_request_id ambient c"
  obtain d where d: "verdict_of env now fresh rt ?c = Some d" using Some by (simp add: verdict_of_def)
  then have id: "gd_decision_id d = (case decision_id_from_context_seed env c of Some i \<Rightarrow> i | None \<Rightarrow> fresh)"
      "dget (gd_metadata d) ''tenant_id'' = Some (opt_pstr (g_tenant_id c))"
    by (auto simp: verdict_of_def)
  obtain h where h: "dget (gr_handlers rt) (gd_decision d) = Some h"
    using assms by (auto simp: handlers_cover_def)
  obtain rs pts where eng: "engine_evaluate now (ch_policies chain) ?c = (rs, pts)" by force
  have D: "build_decision now fresh (g_stage c) (ch_chain_id chain) rs
      (Some (stamped_metadata ?c (ch_governance_version chain) [])) None (decision_id_from_context_seed env c) = d"
    using d Some eng by (simp add: verdict_of_def)
  show ?thesis
  proof (cases "hd_apply h d")
    case (Inl exc)
    let ?t = "runtime_trace ?c d ''failed'' (ch_chain_id chain) pts (Some (hd_name h)) (Some ''failed'')
        (Some (fst exc @ '': '' @ snd exc))"
    show ?thesis
      by (rule unenforced [where e = "\<lparr>en_trace = ?t, en_decision = None, en_error = Some (EnforcementExecutionError
              (''enforcement handler '' @ repr_str env (hd_name h) @ '' raised: '' @ fst exc @ '': '' @ snd exc))\<rparr>",
            OF d h Inl])
        (simp_all add: governance_evaluate_def Let_def Some eng D get_handler_def h Inl id)
  next
    case (Inr a)
    let ?t = "runtime_trace ?c d ''ok'' (ch_chain_id chain) pts (Some (hd_name h)) (Some ''ok'') None"
    show ?thesis
      by (rule enforced [where e = "\<lparr>en_trace = ?t, en_decision = Some d, en_error = None\<rparr>", OF d h Inr])
        (simp_all add: governance_evaluate_def Let_def Some eng D get_handler_def h Inr id)
  qed
qed

lemma verdict_allow:
  "verdict_of env now fresh rt c = Some d \<Longrightarrow> gd_decision d = ALLOW \<longleftrightarrow>
     (\<exists>chain. chain_for rt (g_stage c) = Some chain \<and> chain_clear (ch_policies chain) c)"
  by (auto simp: verdict_of_def verdict_ALLOW_iff chain_clear_iff [where now = now])

lemma deliver_Inr: "deliver p e = (Inr e', s) \<Longrightarrow> e' = e \<and> p = (Inr (), s)"
  by (auto simp: deliver_def split: prod.splits sum.splits)

lemma persist_None [simp]:
  "persist_failure env None d t = (Inr (), None)" "persist_success env None d t a = (Inr (), None)"
  by (simp_all add: persist_failure_def persist_success_def)

lemma deliver_ok [simp]: "deliver (Inr (), s) e = (Inr e, s)"
  by (simp add: deliver_def)

section \<open>Fail closed\<close>

definition permits :: "governance_envelope \<Rightarrow> bool" where
  "permits e \<longleftrightarrow> is_ok e \<and> (\<exists>d. en_decision e = Some d \<and> gd_is_allow d)"

lemma permits_decision: "permits e \<longleftrightarrow> en_error e = None \<and> (\<exists>d. en_decision e = Some d \<and> gd_decision d = ALLOW)"
  by (auto simp: permits_def is_ok_def gd_is_allow_def is_allow_decision_def)

text \<open>(C23) The pipeline fails closed.  An evaluation permits an operation only if a
  chain is configured for its stage and that chain speaks for it: every applicable
  policy returned without raising, every rule allows, and at least one rule was
  evaluated.  Conversely a chain that speaks for the operation permits it, unless the
  handler of allowed operations raises.\<close>

theorem gov_fail_closed:
  assumes "make_runtime env hs cm = Inr rt"
    and "governance_evaluate env now fresh ambient rt store c = (Inr e, store')"
  shows "(permits e \<longrightarrow> (\<exists>chain. chain_for rt (g_stage c) = Some chain \<and>
       chain_clear (ch_policies chain) (with_request_id ambient c))) \<and>
    ((\<forall>h d. dget (gr_handlers rt) ALLOW = Some h \<longrightarrow> (\<exists>a. hd_apply h d = Inr a)) \<and>
       chain_for rt (g_stage c) = Some chain \<and> chain_clear (ch_policies chain) (with_request_id ambient c)
     \<longrightarrow> permits e)"
  using make_runtime_covers [OF assms(1)]
proof (cases rule: evaluate_shape [where c = c and env = env and now = now and fresh = fresh
      and ambient = ambient and store = store])
  case (unconfigured d e')
  with assms(2) show ?thesis by (auto dest!: deliver_Inr simp: permits_decision)
next
  case (unenforced d h exc e')
  with assms(2) show ?thesis
    using verdict_allow [OF unenforced(1)]
    by (auto dest!: deliver_Inr simp: permits_decision) (metis sum.distinct(1))+
next
  case (enforced d h a e')
  with assms(2) show ?thesis
    using verdict_allow [OF enforced(1)]
    by (auto dest!: deliver_Inr simp: permits_decision)
qed

text \<open>(C24) An evaluation without persistence never raises.  A runtime that was built
  successfully answers every request with an envelope that carries either a decision
  or an error; without a chain for the stage the error is a configuration error and
  the trace says denied, and with one the trace carries the verdict of the chain's
  rules even when its enforcement failed.\<close>

theorem gov_total:
  assumes "make_runtime env hs cm = Inr rt"
  shows "\<exists>e. governance_evaluate env now fresh ambient rt None c = (Inr e, None) \<and>
    (en_decision e = None \<longleftrightarrow> en_error e \<noteq> None) \<and> (is_ok e \<longleftrightarrow> en_error e = None) \<and>
    (case verdict_of env now fresh rt (with_request_id ambient c) of
       None \<Rightarrow> gt_final_decision (en_trace e) = DENY \<and>
         en_error e = Some (GovernanceConfigurationError (missing_chain_message env (g_stage c)))
     | Some d \<Rightarrow> gt_final_decision (en_trace e) = gd_decision d \<and>
         gt_decision_id (en_trace e) = gd_decision_id d \<and>
         (en_decision e = Some d \<or> (\<exists>m. en_error e = Some (EnforcementExecutionError m))))"
  using make_runtime_covers [OF assms]
proof (cases rule: evaluate_shape [where c = c and env = env and now = now and fresh = fresh
      and ambient = ambient and store = None])
  case (unconfigured d e)
  then show ?thesis by (intro exI [of _ e]) (auto simp: is_ok_def verdict_of_def)
next
  case (unenforced d h exc e)
  then show ?thesis by (intro exI [of _ e]) (auto simp: is_ok_def)
next
  case (enforced d h a e)
  then show ?thesis by (intro exI [of _ e]) (auto simp: is_ok_def)
qed

section \<open>The capability runtime\<close>

text \<open>What the composition root builds.\<close>

definition builtin_registry :: "py_env \<Rightarrow> handler_registry" where
  "builtin_registry env = map (\<lambda>h. (hd_decision h, h)) (builtin_handlers env)"

definition capability_chain :: "py_env \<Rightarrow> int \<Rightarrow> policy_chain" where
  "capability_chain env now = \<lparr>ch_chain_id = ''capability-legality'', ch_stage = PRE_REQUEST,
     ch_policies = [rbac_policy env now], ch_governance_version = ''unversioned''\<rparr>"

definition capability_runtime :: "py_env \<Rightarrow> int \<Rightarrow> governance_runtime" where
  "capability_runtime env now =
     \<lparr>gr_handlers = builtin_registry env, gr_chains = [(PRE_REQUEST, capability_chain env now)]\<rparr>"

lemma handler_decisions [simp]:
  "hd_decision (allow_handler env) = ALLOW" "hd_decision (deny_handler env) = DENY"
  "hd_decision (redact_handler env) = REDACT" "hd_decision (degrade_handler env) = DEGRADE"
  "hd_decision (escalate_handler env) = ESCALATE"
  "hd_decision (require_approval_handler env) = REQUIRE_APPROVAL"
  by (simp_all add: allow_handler_def deny_handler_def redact_handler_def degrade_handler_def
      escalate_handler_def require_approval_handler_def)

lemma register_builtin: "register_handlers env [] (builtin_handlers env) = Inr (builtin_registry env)"
  by (simp add: builtin_handlers_def builtin_registry_def register_handler_def)

lemma builtin_complete: "make_runtime env' (builtin_registry env) cm = Inr \<lparr>gr_handlers = builtin_registry env, gr_chains = cm\<rparr>"
  by (simp add: make_runtime_def assert_complete_def builtin_registry_def builtin_handlers_def all_decisions_def)

text \<open>The built-in handlers never raise, and act on the decision they were given.\<close>

lemma builtin_apply:
  "dget (builtin_registry env) v = Some h \<Longrightarrow>
     \<exists>a. hd_apply h d = Inr a \<and> ac_decision_id a = gd_decision_id d"
  by (auto simp: builtin_registry_def builtin_handlers_def handler_action_def allow_handler_def
      deny_handler_def redact_handler_def degrade_handler_def escalate_handler_def
      require_approval_handler_def split: if_splits)

lemma capability_chain_made:
  "make_chain env ''capability-legality'' PRE_REQUEST [rbac_policy env now] ''unversioned'' = Inr (capability_chain env now)"
  by (simp add: make_chain_def capability_chain_def supports_def rbac_policy_def)

lemma capability_runtime_built:
  "build_capability_governance_runtime env now = Inr (capability_runtime env now)"
  by (simp add: build_capability_governance_runtime_def build_capability_governance_chains_def
      register_builtin capability_chain_made builtin_complete capability_runtime_def)

lemma capability_runtime_made:
  "make_runtime env (builtin_registry env) [(PRE_REQUEST, capability_chain env now)] = Inr (capability_runtime env now)"
  by (simp add: builtin_complete capability_runtime_def)

definition demo_authority :: authority_context where
  "demo_authority = \<lparr>au_tenant_id = Some ''t1'', au_principal_id = Some ''u1'', au_organization_id = None,
     au_environment_id = None, au_capabilities = [''boundary:ingest'']\<rparr>"

definition demo_context :: governance_context where
  "demo_context = build_capability_context
     \<lparr>lq_authority = demo_authority, lq_act = ''boundary:ingest'', lq_resource = [], lq_actor = ''u1'',
      lq_correlation_id = None\<rparr>"

lemma gov_fail_closed_witness:
  "\<exists>e. governance_evaluate demo_env 0 ''d1'' None (capability_runtime demo_env 0) None demo_context = (Inr e, None) \<and> permits e"
proof -
  let ?rt = "capability_runtime demo_env 0"
  obtain e where e: "governance_evaluate demo_env 0 ''d1'' None ?rt None demo_context = (Inr e, None)"
    using make_runtime_covers [OF capability_runtime_made]
    by (cases rule: evaluate_shape [where c = demo_context and env = demo_env and now = 0 and fresh = "''d1''"
          and ambient = None and store = None]) auto
  have "chain_for ?rt (g_stage demo_context) = Some (capability_chain demo_env 0)"
    by (simp add: chain_for_def capability_runtime_def demo_context_def build_capability_context_def Let_def)
  moreover have "chain_clear (ch_policies (capability_chain demo_env 0)) (with_request_id None demo_context)"
    by (simp add: chain_clear_def capability_chain_def rbac_policy_def applies_to_def rbac_evaluate_def demo_context_def
        build_capability_context_def Let_def demo_authority_def new_rule_result_def)
  moreover have "\<forall>h d. dget (gr_handlers ?rt) ALLOW = Some h \<longrightarrow> (\<exists>a. hd_apply h d = Inr a)"
    using builtin_apply by (fastforce simp: capability_runtime_def)
  ultimately have "permits e"
    using gov_fail_closed [OF capability_runtime_made e, of "capability_chain demo_env 0"] by blast
  with e show ?thesis by blast
qed

lemma gov_total_witness:
  "\<exists>e. governance_evaluate demo_env 0 ''d1'' None (capability_runtime demo_env 0) None demo_context = (Inr e, None) \<and>
     (is_ok e \<longleftrightarrow> en_error e = None)"
  using gov_total [OF capability_runtime_made [of demo_env 0], of 0 "''d1''" None demo_context]
  by (elim exE conjE) (intro exI conjI, assumption+)

section \<open>What an evaluation records\<close>

lemma persist_failure_Some:
  "persist_failure env (Some s) d t = (r, s') \<Longrightarrow>
     (if dget (gs_decisions s) (gd_decision_id d) \<noteq> None then is_error r \<and> s' = Some s
      else if dget (gs_traces s) (gt_decision_id t) \<noteq> None
      then is_error r \<and> s' = Some (s\<lparr>gs_decisions :=
             dset (gd_decision_id d) (decision_to_record env d) (gs_decisions s)\<rparr>)
      else r = Inr () \<and> s' = Some (s\<lparr>gs_decisions :=
             dset (gd_decision_id d) (decision_to_record env d) (gs_decisions s),
             gs_traces := dset (gt_decision_id t) t (gs_traces s)\<rparr>))"
  by (auto simp: persist_failure_def record_decision_def record_trace_def decision_to_record_def Let_def
      split: if_splits prod.splits)

lemma persist_success_Some:
  "persist_success env (Some s) d t a =
     (case persist_failure env (Some s) d t of
        (Inl e, s') \<Rightarrow> (Inl e, s')
      | (Inr _, None) \<Rightarrow> (Inr (), None)
      | (Inr _, Some s1) \<Rightarrow> (Inr (), Some (record_enforcement_action s1 a)))"
  by (simp add: persist_success_def)

lemma record_decision_fields:
  "dr_decision_id (decision_to_record env d) = gd_decision_id d"
  "dr_decision (decision_to_record env d) = decision_value (gd_decision d)"
  "dr_tenant_id (decision_to_record env d) =
     text_or_none env (case dget (gd_metadata d) ''tenant_id'' of None \<Rightarrow> PNone | Some v \<Rightarrow> v)"
  by (simp_all add: decision_to_record_def Let_def dpop_def split_beta dget_filter_key [of "\<lambda>j. j \<noteq> _"])

lemma text_or_none_opt [simp]: "text_or_none env (opt_pstr v) = str_or v None"
proof (cases v)
  case (Some x)
  then show ?thesis by (cases x) (simp_all add: text_or_none_def)
qed (simp add: text_or_none_def)

lemma record_action_simps [simp]:
  "gs_decisions (record_enforcement_action s a) = gs_decisions s"
  "gs_traces (record_enforcement_action s a) = gs_traces s"
  by (simp_all add: record_enforcement_action_def)

text \<open>Every evaluation leaves its record.  When a runtime with the built-in
  handlers answers, its decision and its trace were stored under one identity that
  was new to both tables, the stored decision has the trace's verdict and the
  context's tenant, exactly one enforcement action was appended under it when the
  evaluation succeeded and none otherwise, and every other record is as before.\<close>

theorem gov_recorded:
  assumes "make_runtime env (builtin_registry env) cm = Inr rt"
    and "governance_evaluate env now fresh ambient rt (Some s) c = (Inr e, s')"
    and "i = gt_decision_id (en_trace e)"
  shows "\<exists>s1 r. s' = Some s1 \<and> dget (gs_decisions s) i = None \<and> dget (gs_traces s) i = None \<and>
    gs_decisions s1 = dset i r (gs_decisions s) \<and> gs_traces s1 = dset i (en_trace e) (gs_traces s) \<and>
    dr_decision_id r = i \<and> dr_decision r = decision_value (gt_final_decision (en_trace e)) \<and>
    dr_tenant_id r = str_or (g_tenant_id c) None \<and>
    (if is_ok e then \<exists>a. ac_decision_id a = i \<and>
         gs_actions s1 = dset i ((case dget (gs_actions s) i of Some xs \<Rightarrow> xs | None \<Rightarrow> []) @ [a]) (gs_actions s)
     else gs_actions s1 = gs_actions s)"
proof -
  have reg: "gr_handlers rt = builtin_registry env" using assms(1) by (auto simp: builtin_complete)
  show ?thesis
    using make_runtime_covers [OF assms(1)]
  proof (cases rule: evaluate_shape [where c = c and env = env and now = now and fresh = fresh
        and ambient = ambient and store = "Some s"])
    case (unconfigured d e')
    with assms(2) have "persist_failure env (Some s) d (en_trace e') = (Inr (), s')" "e' = e"
      by (auto dest!: deliver_Inr)
    with unconfigured show ?thesis
      by (auto dest!: persist_failure_Some simp: assms(3) record_decision_fields is_ok_def
          intro!: exI [of _ "decision_to_record env d"] split: if_splits)
  next
    case (unenforced d h exc e')
    with reg builtin_apply [of env "gd_decision d" h d] show ?thesis by auto
  next
    case (enforced d h a e')
    with assms(2) have P: "persist_success env (Some s) d (en_trace e) a = (Inr (), s')" and [simp]: "e' = e"
      by (auto dest!: deliver_Inr)
    obtain p q where pq: "persist_failure env (Some s) d (en_trace e) = (p, q)" by force
    have "ac_decision_id a = gd_decision_id d"
      using enforced builtin_apply [of env "gd_decision d" h d] reg by auto
    with P pq persist_failure_Some [OF pq] enforced show ?thesis
      by (auto simp: persist_success_Some assms(3) record_decision_fields is_ok_def record_enforcement_action_def
          intro!: exI [of _ "decision_to_record env d"] exI [of _ a] split: if_splits sum.splits)
  qed
qed

lemma gov_recorded_witness:
  "\<exists>e s1. governance_evaluate demo_env 0 ''d1'' None (capability_runtime demo_env 0) (Some empty_governance_store)
       demo_context = (Inr e, Some s1) \<and> gs_traces s1 = [(gt_decision_id (en_trace e), en_trace e)]"
proof -
  let ?rt = "capability_runtime demo_env 0"
  obtain e s' where e: "governance_evaluate demo_env 0 ''d1'' None ?rt (Some empty_governance_store) demo_context = (Inr e, s')"
    using make_runtime_covers [OF capability_runtime_made]
    by (cases rule: evaluate_shape [where c = demo_context and env = demo_env and now = 0 and fresh = "''d1''"
          and ambient = None and store = "Some empty_governance_store"])
      (auto simp: persist_failure_def persist_success_def record_decision_def record_trace_def empty_governance_store_def)
  with gov_recorded [OF capability_runtime_made e refl] show ?thesis
    by (auto simp: empty_governance_store_def)
qed

lemma evaluated_id_stored:
  assumes "handlers_cover rt" and "governance_evaluate env now fresh ambient rt (Some s) c = (Inr e, s')"
  shows "\<exists>s1. s' = Some s1 \<and> dget (gs_decisions s1)
     (case decision_id_from_context_seed env c of Some i \<Rightarrow> i | None \<Rightarrow> fresh) \<noteq> None"
  using assms(1)
proof (cases rule: evaluate_shape [where c = c and env = env and now = now and fresh = fresh
      and ambient = ambient and store = "Some s"])
  case (unconfigured d e')
  with assms(2) show ?thesis by (auto dest!: deliver_Inr persist_failure_Some split: if_splits)
next
  case (unenforced d h exc e')
  with assms(2) show ?thesis by (auto dest!: deliver_Inr persist_failure_Some split: if_splits)
next
  case (enforced d h a e')
  obtain p q where pq: "persist_failure env (Some s) d (en_trace e') = (p, q)" by force
  with persist_failure_Some [OF pq] assms(2) enforced show ?thesis
    by (auto dest!: deliver_Inr simp: persist_success_Some split: if_splits sum.splits)
qed

lemma known_id_raises:
  assumes "handlers_cover rt"
    and "dget (gs_decisions s) (case decision_id_from_context_seed env c of Some i \<Rightarrow> i | None \<Rightarrow> fresh) \<noteq> None"
  shows "\<exists>m. governance_evaluate env now fresh ambient rt (Some s) c = (Inl m, Some s)"
  using assms(1)
proof (cases rule: evaluate_shape [where c = c and env = env and now = now and fresh = fresh
      and ambient = ambient and store = "Some s"])
  case (unconfigured d e)
  with assms(2) show ?thesis
    by (cases "persist_failure env (Some s) d (en_trace e)")
      (auto dest!: persist_failure_Some simp: deliver_def split: sum.splits if_splits)
next
  case (unenforced d h exc e)
  with assms(2) show ?thesis
    by (cases "persist_failure env (Some s) d (en_trace e)")
      (auto dest!: persist_failure_Some simp: deliver_def split: sum.splits if_splits)
next
  case (enforced d h a e)
  with assms(2) show ?thesis
    by (cases "persist_failure env (Some s) d (en_trace e)")
      (auto dest!: persist_failure_Some simp: deliver_def persist_success_Some split: sum.splits if_splits)
qed

text \<open>(C25) Decisions are write-once, and evaluation is where that shows.  Once a
  request with a decision seed was answered with persistence, any later evaluation
  whose context carries the same seed raises, whatever runtime, clock or context it
  uses, and leaves the store as it was.\<close>

theorem gov_seed_write_once:
  assumes "make_runtime env hs cm = Inr rt" "make_runtime env hs' cm' = Inr rt'"
    and "decision_id_from_context_seed env c = Some i" "decision_id_from_context_seed env c' = Some i"
    and "governance_evaluate env now fresh ambient rt (Some s) c = (Inr e, s')"
  shows "\<exists>s1 m. s' = Some s1 \<and>
    governance_evaluate env now' fresh' ambient' rt' (Some s1) c' = (Inl m, Some s1)"
  using evaluated_id_stored [OF make_runtime_covers [OF assms(1)] assms(5)]
    known_id_raises [OF make_runtime_covers [OF assms(2)], where c = c' and env = env] assms(3,4)
  by fastforce

definition seeded_context :: governance_context where
  "seeded_context = demo_context\<lparr>g_metadata := [(''governance.decision_seed'', PStr ''seed'')]\<rparr>"

lemma gov_seed_write_once_witness:
  "\<exists>e s1 m. governance_evaluate demo_env 0 ''d1'' None (capability_runtime demo_env 0)
       (Some empty_governance_store) seeded_context = (Inr e, Some s1) \<and>
     governance_evaluate demo_env 9 ''d2'' None (capability_runtime demo_env 0) (Some s1) seeded_context
       = (Inl m, Some s1)"
proof -
  let ?rt = "capability_runtime demo_env 0"
  obtain e s' where e: "governance_evaluate demo_env 0 ''d1'' None ?rt (Some empty_governance_store) seeded_context = (Inr e, s')"
    using make_runtime_covers [OF capability_runtime_made]
    by (cases rule: evaluate_shape [where c = seeded_context and env = demo_env and now = 0 and fresh = "''d1''"
          and ambient = None and store = "Some empty_governance_store"])
      (auto simp: persist_failure_def persist_success_def record_decision_def record_trace_def empty_governance_store_def)
  have "decision_id_from_context_seed demo_env seeded_context = Some (uuid5 demo_env DECISION_NAMESPACE ''seed'')"
    by (simp add: decision_id_from_context_seed_def seeded_context_def)
  from gov_seed_write_once [OF capability_runtime_made capability_runtime_made [where now = 0] this this e, of 9 "''d2''" None] e
  show ?thesis by blast
qed

end
