(* ===== verification/Governance_Gate.thy ===== *)
theory Governance_Gate
  imports Governance_Safety
begin

text \<open>
  Around the pipeline: what survives the persistence round trip, the vetoes and the
  redactions of the built-in policies, the context's authority checks, the
  capability gate, and tenant-scoped reads of the repository.
\<close>

section \<open>The record round trip\<close>

definition meta_text :: "py_env \<Rightarrow> metadata \<Rightarrow> string \<Rightarrow> string option" where
  "meta_text env m k = text_or_none env (case dget m k of None \<Rightarrow> PNone | Some v \<Rightarrow> v)"

lemma dget_set_if [simp]:
  "dget (set_if k v m) j = (if j = k then (case v of None \<Rightarrow> dget m k | Some s \<Rightarrow> Some (PStr s)) else dget m j)"
  by (simp add: set_if_def split: option.splits)

lemma dget_popped: "dget (filter (\<lambda>(j, v). j \<noteq> k) d) i = (if i = k then None else dget d i)"
  by (simp add: dget_filter_key [of "\<lambda>j. j \<noteq> k"])

lemma record_metadata_lookup:
  "dget (record_metadata r) k =
     (if k = ''subject_kind'' \<and> dr_subject_kind r \<noteq> [] then Some (PStr (dr_subject_kind r))
      else if k = ''tenant_id'' \<and> dr_tenant_id r \<noteq> None then map_option PStr (dr_tenant_id r)
      else if k = ''request_id'' \<and> dr_request_id r \<noteq> None then map_option PStr (dr_request_id r)
      else if k = ''correlation_id'' \<and> dr_correlation_id r \<noteq> None then map_option PStr (dr_correlation_id r)
      else dget (dr_metadata r) k)"
  unfolding record_metadata_def Let_def
  by (cases "k = ''subject_kind''"; cases "k = ''tenant_id''"; cases "k = ''request_id''"; cases "k = ''correlation_id''")
    (auto split: option.split)

abbreviation lifted_keys :: "string set" where
  "lifted_keys \<equiv> {''correlation_id'', ''request_id'', ''tenant_id'', ''subject_kind'', ''governance_version''}"

lemma dget_lifted:
  "dget (filter (\<lambda>x. fst x \<noteq> a \<and> fst x \<noteq> b \<and> fst x \<noteq> c \<and> fst x \<noteq> e \<and> fst x \<noteq> f) d) k =
     (if k \<in> {a, b, c, e, f} then None else dget d k)"
  by (induction d) auto

lemma dr_metadata_of_decision:
  "dget (dr_metadata (decision_to_record env d)) k =
     (if k = ''_schema_version'' then Some (PStr ''1'') else if k \<in> lifted_keys then None
      else dget (gd_metadata d) k)"
  by (simp add: decision_to_record_def Let_def dpop_def split_beta dget_lifted)

lemma dr_texts_of_decision:
  "dr_correlation_id (decision_to_record env d) = meta_text env (gd_metadata d) ''correlation_id''"
  "dr_request_id (decision_to_record env d) = meta_text env (gd_metadata d) ''request_id''"
  "dr_tenant_id (decision_to_record env d) = meta_text env (gd_metadata d) ''tenant_id''"
  by (simp_all add: decision_to_record_def Let_def dpop_def split_beta dget_popped meta_text_def)

definition subject_text :: "py_env \<Rightarrow> metadata \<Rightarrow> string" where
  "subject_text env m = text_or env (case dget m ''subject_kind'' of None \<Rightarrow> PStr ''generic'' | Some v \<Rightarrow> v) ''generic''"

lemma dr_subject_of_decision: "dr_subject_kind (decision_to_record env d) = subject_text env (gd_metadata d)"
  by (simp add: decision_to_record_def Let_def dpop_def split_beta dget_popped subject_text_def)

text \<open>(C26) A persisted decision can be replayed.  Reading back the record of any decision
  never raises and returns the same identity, verdict, stage, chain, violations,
  restrictions, reason and time, provided a timestamp that was written is read back as
  the same instant.  What changes is listed in full.  The evaluated rules come back
  without the restrictions they carried; when there were none, one is made from each
  violation, stamped with the time of reading.  In the metadata, the schema version is
  added and \<open>governance_version\<close> is dropped; the request, tenant and correlation keys
  come back as text, absent where they were falsy; the subject kind comes back as text,
  \<open>generic\<close> where it was absent or falsy; and every other key keeps its value.\<close>

theorem gov_record_roundtrip:
  assumes "\<And>t. fromisoformat env (isoformat env t) = Some (Aware t)"
  shows "\<exists>d'. record_to_decision env now (decision_to_record env d) = Inr d' \<and>
    d' = d\<lparr>gd_evaluated_rules :=
             (if gd_evaluated_rules d = []
              then map (\<lambda>v. new_rule_result now (v_policy_name v) (v_rule_id v) (v_decision v) (v_severity v)
                     (v_detail v) (v_metadata v)) (gd_violations d)
              else map (\<lambda>r. r\<lparr>r_restrictions := []\<rparr>) (gd_evaluated_rules d)),
           gd_metadata := gd_metadata d'\<rparr> \<and>
    dget (gd_metadata d') ''_schema_version'' = Some (PStr ''1'') \<and>
    dget (gd_metadata d') ''governance_version'' = None \<and>
    (\<forall>k\<in>{''correlation_id'', ''request_id'', ''tenant_id''}.
       dget (gd_metadata d') k = map_option PStr (meta_text env (gd_metadata d) k)) \<and>
    dget (gd_metadata d') ''subject_kind'' =
      (if subject_text env (gd_metadata d) = [] then None else Some (PStr (subject_text env (gd_metadata d)))) \<and>
    (\<forall>k. k \<notin> {''correlation_id'', ''request_id'', ''tenant_id'', ''subject_kind'', ''governance_version'',
           ''_schema_version''} \<longrightarrow> dget (gd_metadata d') k = dget (gd_metadata d) k)"
proof -
  let ?r = "decision_to_record env d"
  let ?legacy = "\<lambda>v. new_rule_result now (v_policy_name v) (v_rule_id v) (v_decision v) (v_severity v)
      (v_detail v) (v_metadata v)"
  let ?d = "d\<lparr>gd_evaluated_rules := (if gd_evaluated_rules d = [] then map ?legacy (gd_violations d)
        else map (\<lambda>r. r\<lparr>r_restrictions := []\<rparr>) (gd_evaluated_rules d)),
      gd_metadata := record_metadata ?r\<rparr>"
  have shape: "dr_evaluated_rules ?r = map (result_to_record env) (gd_evaluated_rules d)"
    "dr_violations ?r = map violation_to_record (gd_violations d)"
    "dr_restrictions ?r = map restriction_to_record (gd_restrictions d)"
    "dr_decision ?r = decision_value (gd_decision d)" "dr_stage ?r = stage_value (gd_stage d)"
    "dr_decided_at ?r = isoformat env (gd_decided_at d)" "dr_decision_id ?r = gd_decision_id d"
    "dr_policy_chain_id ?r = gd_policy_chain_id d" "dr_reason ?r = gd_reason d"
    by (simp_all add: decision_to_record_def Let_def split_beta)
  have "map_result (record_to_result env) (map (result_to_record env) (gd_evaluated_rules d)) =
      Inr (map (\<lambda>r. r\<lparr>r_restrictions := []\<rparr>) (gd_evaluated_rules d))"
    by (rule map_result_map) (rule result_roundtrip, rule assms(1))
  moreover have "map_result (legacy_result now) (map violation_to_record (gd_violations d)) =
      Inr (map ?legacy (gd_violations d))"
    by (rule map_result_map) (simp add: legacy_result_def violation_roundtrip)
  moreover have "map_result record_to_violation (map violation_to_record (gd_violations d)) = Inr (gd_violations d)"
    using map_result_map [where h = "\<lambda>x. x" and f = record_to_violation] by (simp add: violation_roundtrip)
  moreover have "map_result record_to_restriction (map restriction_to_record (gd_restrictions d)) = Inr (gd_restrictions d)"
    using map_result_map [where h = "\<lambda>x. x" and f = record_to_restriction] by (simp add: restriction_roundtrip)
  ultimately have "record_to_decision env now ?r = Inr ?d"
    using assms by (simp add: record_to_decision_def shape parse_time_def)
  moreover have "dget (record_metadata ?r) ''governance_version'' = None"
    "dget (record_metadata ?r) ''_schema_version'' = Some (PStr ''1'')"
    "dget (record_metadata ?r) ''subject_kind'' = (if subject_text env (gd_metadata d) = [] then None
       else Some (PStr (subject_text env (gd_metadata d))))"
    by (simp_all add: record_metadata_lookup dr_metadata_of_decision dr_subject_of_decision)
  moreover have "\<forall>k\<in>{''correlation_id'', ''request_id'', ''tenant_id''}.
       dget (record_metadata ?r) k = map_option PStr (meta_text env (gd_metadata d) k)"
    by (simp add: record_metadata_lookup dr_metadata_of_decision dr_texts_of_decision)
  moreover have "dget (record_metadata ?r) k = dget (gd_metadata d) k"
    if "k \<notin> insert ''_schema_version'' lifted_keys" for k
    using that by (simp add: record_metadata_lookup dr_metadata_of_decision)
  ultimately show ?thesis by (intro exI [of _ ?d]) simp
qed

definition redacting_result :: rule_result where
  "redacting_result = (new_rule_result 0 ''p'' ''r'' REDACT SEV_HIGH ''no'' [])\<lparr>r_restrictions :=
     [\<lparr>rs_kind = TOKEN_CAP, rs_target = ''*'', rs_value = PInt 3, rs_reason = ''cap'', rs_policy_name = ''p'',
       rs_rule_id = ''r'', rs_metadata = []\<rparr>]\<rparr>"

lemma gov_record_roundtrip_witness:
  "let d = build_decision 0 ''d'' PRE_REQUEST ''c'' [redacting_result]
        (Some [(''governance_version'', PStr ''v7'')]) None None
   in \<exists>d'. record_to_decision demo_env 5 (decision_to_record demo_env d) = Inr d' \<and>
        dget (gd_metadata d') ''governance_version'' = None \<and> d' \<noteq> d"
proof -
  let ?d = "build_decision 0 ''d'' PRE_REQUEST ''c'' [redacting_result]
        (Some [(''governance_version'', PStr ''v7'')]) None None"
  from gov_record_roundtrip [OF demo_iso, of 5 ?d] obtain d' where
    d': "record_to_decision demo_env 5 (decision_to_record demo_env ?d) = Inr d'"
      "dget (gd_metadata d') ''governance_version'' = None" by blast
  moreover have "d' \<noteq> ?d" using d'(2) by auto
  ultimately show ?thesis unfolding Let_def by blast
qed

section \<open>Vetoes\<close>

lemma chain_clear_allows:
  "chain_clear ps c \<Longrightarrow> p \<in> set ps \<Longrightarrow> applies_to p (kind_of (g_subject c)) \<Longrightarrow> pol_evaluate p c \<noteq> Inr [] \<Longrightarrow>
     allows (pol_evaluate p c)"
  unfolding chain_clear_def allows_def by fastforce

lemma permit_needs_clear:
  assumes "handlers_cover rt" "governance_evaluate env now fresh ambient rt store c = (Inr e, store')" "permits e"
  shows "\<exists>chain. chain_for rt (g_stage c) = Some chain \<and> chain_clear (ch_policies chain) (with_request_id ambient c)"
  using assms(1)
proof (cases rule: evaluate_shape [where c = c and env = env and now = now and fresh = fresh
      and ambient = ambient and store = store])
  case (unconfigured d e')
  with assms(2,3) show ?thesis by (auto dest!: deliver_Inr simp: permits_decision)
next
  case (unenforced d h exc e')
  with assms(2,3) show ?thesis by (auto dest!: deliver_Inr simp: permits_decision)
next
  case (enforced d h a e')
  with assms(2,3) show ?thesis
    using verdict_allow [OF enforced(1)] by (auto dest!: deliver_Inr simp: permits_decision)
qed

lemma clear_permits:
  assumes "make_runtime env hs cm = Inr rt" "chain_for rt (g_stage c) = Some chain"
    and "chain_clear (ch_policies chain) (with_request_id ambient c)"
    and "\<And>h d. dget (gr_handlers rt) ALLOW = Some h \<Longrightarrow> \<exists>a. hd_apply h d = Inr a"
  shows "\<exists>e. governance_evaluate env now fresh ambient rt None c = (Inr e, None) \<and> permits e"
  using make_runtime_covers [OF assms(1)]
proof (cases rule: evaluate_shape [where c = c and env = env and now = now and fresh = fresh
      and ambient = ambient and store = None])
  case (unconfigured d e)
  with assms(2) show ?thesis by simp
next
  case (unenforced d h exc e)
  then have "gd_decision d = ALLOW" using verdict_allow [OF unenforced(1)] assms(2,3) by auto
  with unenforced assms(4) [of h d] show ?thesis by auto
next
  case (enforced d h a e)
  then have "gd_decision d = ALLOW" using verdict_allow [OF enforced(1)] assms(2,3) by auto
  with enforced show ?thesis by (auto simp: permits_decision)
qed

lemma permit_allows:
  assumes "make_runtime env hs cm = Inr rt"
    and "governance_evaluate env now fresh ambient rt store c = (Inr e, store')" "permits e"
    and "chain_for rt (g_stage c) = Some chain" "p \<in> set (ch_policies chain)" "applies_to p (kind_of (g_subject c))"
    and "pol_evaluate p (with_request_id ambient c) \<noteq> Inr []"
  shows "allows (pol_evaluate p (with_request_id ambient c))"
  using permit_needs_clear [OF make_runtime_covers [OF assms(1)] assms(2,3)] assms(4-7)
  by (auto intro!: chain_clear_allows)

lemma tenant_scope_speaks: "tenant_scope_evaluate env now allowed c \<noteq> Inr []"
  by (simp add: tenant_scope_evaluate_def Let_def split: option.split)

lemma rbac_speaks: "rbac_evaluate env now c \<noteq> Inr []"
  by (simp add: rbac_evaluate_def Let_def split: subject.split)

lemma max_query_length_speaks: "max_query_length_evaluate now m c \<noteq> Inr []"
  by (simp add: max_query_length_evaluate_def Let_def split: subject.split)

lemma content_denylist_speaks: "content_denylist_evaluate now ds c \<noteq> Inr []"
  by (simp add: content_denylist_evaluate_def Let_def split: subject.split)

lemma content_denylist_allows:
  assumes "allows (content_denylist_evaluate now ds c)" "g_subject c = Retrieval s"
  shows "\<forall>cand\<in>set (ret_candidates s). \<forall>t\<in>set ds. \<not> substring t (cd_content cand)"
proof (cases "redact_candidates now ds (ret_candidates s)")
  case Nil
  then show ?thesis by (simp add: redact_candidates_Nil matched_term_None)
next
  case (Cons r rs)
  then have "r \<in> set (redact_candidates now ds (ret_candidates s))" by simp
  then have r: "r_decision r = REDACT" by (auto simp: set_redact_candidates redact_candidate_def)
  have "ret_candidates s \<noteq> []" using Cons by auto
  then have "ds = []" using assms Cons r by (auto simp: allows_def content_denylist_evaluate_def Let_def split: if_splits)
  then show ?thesis by simp
qed

lemma tenant_id_for_request [simp]: "tenant_id_for (with_request_id a c) = tenant_id_for c"
  by (simp add: tenant_id_for_def split: option.split)

text \<open>(C26) Every built-in policy has a veto.  Whatever else is in the chain and
  whatever its order, an evaluation that permits implies, for each built-in policy of
  the chain that applies: the tenant is on the tenant scope's allowlist, the caller
  holds the capability RBAC requires, the query is present and within the length
  bound, and no retrieved candidate contains a denylisted term.\<close>

theorem gov_policy_veto:
  assumes "make_runtime env hs cm = Inr rt"
    and "governance_evaluate env now fresh ambient rt store c = (Inr e, store')" "permits e"
    and "chain_for rt (g_stage c) = Some chain"
  shows "(tenant_scope_policy env1 n1 allowed \<in> set (ch_policies chain) \<and>
        kind_of (g_subject c) \<in> {RETRIEVAL, EXECUTION, GENERIC} \<longrightarrow>
        (\<exists>t\<in>set allowed. tenant_id_for c = Some t)) \<and>
    (rbac_policy env2 n2 \<in> set (ch_policies chain) \<and> g_subject c = Capability s \<longrightarrow>
        cs_required_capability s \<noteq> [] \<and> cs_required_capability s \<in> set (cs_held_capabilities s)) \<and>
    (max_query_length_policy n3 m \<in> set (ch_policies chain) \<and> g_subject c = Retrieval q \<longrightarrow>
        ret_query q \<noteq> [] \<and> int (length (ret_query q)) \<le> m) \<and>
    (content_denylist_policy n4 ds \<in> set (ch_policies chain) \<and> g_subject c = Retrieval q \<longrightarrow>
        (\<forall>cand\<in>set (ret_candidates q). \<forall>t\<in>set ds. \<not> (\<exists>a b. cd_content cand = a @ t @ b)))"
proof (intro conjI impI; elim conjE)
  let ?c = "with_request_id ambient c"
  note permit = permit_allows [OF assms]
  {
    assume p: "tenant_scope_policy env1 n1 allowed \<in> set (ch_policies chain)"
      and k: "kind_of (g_subject c) \<in> {RETRIEVAL, EXECUTION, GENERIC}"
    have "allows (tenant_scope_evaluate env1 n1 allowed ?c)"
      using permit [OF p] k by (auto simp: tenant_scope_policy_def applies_to_def tenant_scope_speaks)
    then show "\<exists>t\<in>set allowed. tenant_id_for c = Some t" by (simp add: tenant_scope_allows)
  next
    assume p: "rbac_policy env2 n2 \<in> set (ch_policies chain)" and k: "g_subject c = Capability s"
    have "allows (rbac_evaluate env2 n2 ?c)"
      using permit [OF p] k by (auto simp: rbac_policy_def applies_to_def rbac_speaks)
    with k show "cs_required_capability s \<noteq> []" "cs_required_capability s \<in> set (cs_held_capabilities s)"
      by (auto simp: rbac_allows)
  next
    assume p: "max_query_length_policy n3 m \<in> set (ch_policies chain)" and k: "g_subject c = Retrieval q"
    have "allows (max_query_length_evaluate n3 m ?c)"
      using permit [OF p] k by (auto simp: max_query_length_policy_def applies_to_def max_query_length_speaks)
    with k show "ret_query q \<noteq> []" "int (length (ret_query q)) \<le> m"
      by (auto simp: max_query_length_allows)
  next
    assume p: "content_denylist_policy n4 ds \<in> set (ch_policies chain)" and k: "g_subject c = Retrieval q"
    have "allows (content_denylist_evaluate n4 ds ?c)"
      using permit [OF p] k by (auto simp: content_denylist_policy_def applies_to_def content_denylist_speaks)
    with k show "\<forall>cand\<in>set (ret_candidates q). \<forall>t\<in>set ds. \<not> (\<exists>a b. cd_content cand = a @ t @ b)"
      using content_denylist_allows [of n4 ds ?c q] by (simp add: substring_iff)
  }
qed

lemma gov_policy_veto_witness:
  "\<exists>e. governance_evaluate demo_env 0 ''d1'' None (capability_runtime demo_env 0) None demo_context = (Inr e, None) \<and>
     permits e \<and> ''boundary:ingest'' \<in> set [''boundary:ingest'']"
proof -
  let ?rt = "capability_runtime demo_env 0"
  have ch: "chain_for ?rt (g_stage demo_context) = Some (capability_chain demo_env 0)"
    by (simp add: chain_for_def capability_runtime_def demo_context_def build_capability_context_def Let_def)
  have clear: "chain_clear (ch_policies (capability_chain demo_env 0)) (with_request_id None demo_context)"
    by (simp add: chain_clear_def capability_chain_def rbac_policy_def applies_to_def rbac_evaluate_def demo_context_def
        build_capability_context_def Let_def demo_authority_def new_rule_result_def)
  obtain e where e: "governance_evaluate demo_env 0 ''d1'' None ?rt None demo_context = (Inr e, None)" "permits e"
    using clear_permits [OF capability_runtime_made ch clear] builtin_apply by (force simp: capability_runtime_def)
  have "rbac_policy demo_env 0 \<in> set (ch_policies (capability_chain demo_env 0))" by (simp add: capability_chain_def)
  moreover have "g_subject demo_context = Capability \<lparr>cs_required_capability = ''boundary:ingest'',
      cs_held_capabilities = [''boundary:ingest''], cs_tenant_id = Some ''t1'', cs_actor = ''u1'', cs_metadata = []\<rparr>"
    by (simp add: demo_context_def build_capability_context_def Let_def demo_authority_def)
  ultimately have "''boundary:ingest'' \<in> set [''boundary:ingest'']"
    using gov_policy_veto [OF capability_runtime_made e ch] by fastforce
  with e show ?thesis by blast
qed

section \<open>The capability gate\<close>

lemma capability_chain_for:
  "chain_for (capability_runtime env n) (g_stage (build_capability_context q)) = Some (capability_chain env n)"
  by (simp add: chain_for_def capability_runtime_def build_capability_context_def Let_def)

lemma capability_chain_clear:
  "chain_clear (ch_policies (capability_chain env n)) (with_request_id ambient (build_capability_context q)) \<longleftrightarrow>
     lq_act q \<noteq> [] \<and> lq_act q \<in> set (au_capabilities (lq_authority q))"
proof -
  let ?c = "with_request_id ambient (build_capability_context q)"
  have "chain_clear (ch_policies (capability_chain env n)) ?c \<longleftrightarrow> allows (rbac_evaluate env n ?c)"
    using rbac_speaks [of env n ?c]
    by (auto simp: chain_clear_def capability_chain_def rbac_policy_def applies_to_def allows_def
        build_capability_context_def Let_def split: sum.splits)
  then show ?thesis by (auto simp: rbac_allows build_capability_context_def Let_def)
qed

lemma rbac_verdict:
  assumes "g_subject c = Capability s"
  obtains r where "rbac_evaluate env n c = Inr [r]" "r_decision r = ALLOW \<or> r_decision r = DENY"
  using assms that
  by (cases "cs_required_capability s = []"; cases "cs_required_capability s \<in> set (cs_held_capabilities s)")
    (simp_all add: rbac_evaluate_def Let_def)

lemma capability_engine:
  assumes "g_subject c = Capability s"
  obtains r where "fst (engine_evaluate now (ch_policies (capability_chain env n)) c) = [r]"
    "r_decision r = ALLOW \<or> r_decision r = DENY"
proof -
  obtain r where "rbac_evaluate env n c = Inr [r]" "r_decision r = ALLOW \<or> r_decision r = DENY"
    using rbac_verdict [OF assms] .
  with assms show ?thesis
    by (intro that [of r])
      (simp_all add: engine_evaluate_def capability_chain_def run_policy_results rbac_policy_def applies_to_def)
qed

lemma capability_verdict:
  assumes "verdict_of env now fresh (capability_runtime env' n) (with_request_id a (build_capability_context q)) = Some d"
  shows "gd_decision d = ALLOW \<or> gd_decision d = DENY"
proof -
  let ?c = "with_request_id a (build_capability_context q)"
  have subj: "\<exists>s. g_subject ?c = Capability s" by (simp add: build_capability_context_def Let_def)
  then obtain s where "g_subject ?c = Capability s" ..
  then obtain r where r: "fst (engine_evaluate now (ch_policies (capability_chain env' n)) ?c) = [r]"
    "r_decision r = ALLOW \<or> r_decision r = DENY" by (rule capability_engine)
  have "gd_decision d = r_decision r"
    using assms r(1) by (auto simp: verdict_of_def capability_chain_for gd_decision_build)
  with r(2) show ?thesis by simp
qed

lemma capability_evaluation:
  assumes "evaluate_capability_legality env now fresh ambient (capability_runtime env n) store q = (Inr e, store')"
  shows "(permits e \<longleftrightarrow> lq_act q \<noteq> [] \<and> lq_act q \<in> set (au_capabilities (lq_authority q))) \<and>
    (\<not> permits e \<longrightarrow> gt_final_decision (en_trace e) = DENY)"
  using make_runtime_covers [OF capability_runtime_made [of env n]]
proof (cases rule: evaluate_shape [where c = "build_capability_context q" and env = env and now = now
      and fresh = fresh and ambient = ambient and store = store])
  case (unconfigured d e')
  then show ?thesis by (simp add: capability_chain_for)
next
  case (unenforced d h exc e')
  with builtin_apply [of env "gd_decision d" h d] show ?thesis by (auto simp: capability_runtime_def)
next
  case (enforced d h a e')
  with assms have [simp]: "e' = e" by (auto simp: evaluate_capability_legality_def dest!: deliver_Inr)
  have "permits e \<longleftrightarrow> gd_decision d = ALLOW" using enforced by (simp add: permits_decision)
  also have "\<dots> \<longleftrightarrow> lq_act q \<noteq> [] \<and> lq_act q \<in> set (au_capabilities (lq_authority q))"
    using verdict_allow [OF enforced(1)] by (simp add: capability_chain_for capability_chain_clear)
  finally show ?thesis using capability_verdict [OF enforced(1)] enforced by (auto simp: permits_decision)
qed

text \<open>The capability gate decides exactly by the held capabilities.  Against the
  composed capability runtime, and whatever store it records to, the gate lets an act
  pass if and only if the caller presented an authority that holds it; every denial
  names the act and carries an envelope whose verdict is a denial.\<close>

theorem cap_gate_exact:
  assumes "build_capability_governance_runtime env n = Inr rt"
    and "gate_or_deny env now fresh ambient (Some rt) store act authority tenant actor res corr = (Inr out, store')"
  shows "(out = None \<longleftrightarrow> (\<exists>a. authority = Some a \<and> act \<noteq> [] \<and> act \<in> set (au_capabilities a))) \<and>
    (case out of None \<Rightarrow> True | Some (act', e) \<Rightarrow> act' = act \<and> gt_final_decision (en_trace e) = DENY)"
proof -
  have rt: "rt = capability_runtime env n" using assms(1) by (simp add: capability_runtime_built)
  let ?a = "case authority of Some a \<Rightarrow> a | None \<Rightarrow> anonymous_authority tenant"
  let ?q = "\<lparr>lq_authority = ?a, lq_act = act, lq_resource = res, lq_actor = actor, lq_correlation_id = corr\<rparr>"
  obtain p s where ps: "evaluate_capability_legality env now fresh ambient rt store ?q = (p, s)" by force
  with assms(2) obtain e where e: "evaluate_capability_legality env now fresh ambient rt store ?q = (Inr e, store')"
    and out: "out = (if permits e then None else Some (act, e))"
    by (auto simp: gate_or_deny_def evaluate_capability_gate_def Let_def permits_def split_beta
        split: sum.splits option.splits if_splits)
  from capability_evaluation [OF e [unfolded rt]] out show ?thesis
    by (auto simp: anonymous_authority_def split: option.splits)
qed

lemma cap_gate_exact_witness:
  "\<exists>e. gate_or_deny demo_env 0 ''d1'' None (Some (capability_runtime demo_env 0)) None ''arbitration:evaluate''
       (Some demo_authority) None ''u1'' [] None = (Inr (Some (''arbitration:evaluate'', e)), None) \<and>
     gt_final_decision (en_trace e) = DENY"
proof -
  let ?rt = "capability_runtime demo_env 0"
  let ?gate = "gate_or_deny demo_env 0 ''d1'' None (Some ?rt) None ''arbitration:evaluate'' (Some demo_authority) None ''u1'' [] None"
  let ?q = "\<lparr>lq_authority = demo_authority, lq_act = ''arbitration:evaluate'', lq_resource = [], lq_actor = ''u1'',
      lq_correlation_id = None\<rparr>"
  obtain e where "evaluate_capability_legality demo_env 0 ''d1'' None ?rt None ?q = (Inr e, None)"
    using make_runtime_covers [OF capability_runtime_made [of demo_env 0]]
    by (cases rule: evaluate_shape [where c = "build_capability_context ?q" and env = demo_env and now = 0
          and fresh = "''d1''" and ambient = None and store = None])
      (auto simp: evaluate_capability_legality_def)
  then obtain out where out: "?gate = (Inr out, None)"
    by (auto simp: gate_or_deny_def evaluate_capability_gate_def Let_def split_beta)
  have "out \<noteq> None" "case out of None \<Rightarrow> True | Some (act', e) \<Rightarrow> act' = ''arbitration:evaluate'' \<and> gt_final_decision (en_trace e) = DENY"
    using cap_gate_exact [OF capability_runtime_built out] by (auto simp: demo_authority_def)
  with out show ?thesis by auto
qed

section \<open>Redaction\<close>

definition denylisted :: "string list \<Rightarrow> candidate \<Rightarrow> bool" where
  "denylisted ds x \<longleftrightarrow> (\<exists>t\<in>set ds. substring t (cd_content x))"

lemma matched_denylisted: "matched_term ds (cd_content x) = None \<longleftrightarrow> \<not> denylisted ds x"
  by (auto simp: matched_term_None denylisted_def)

lemma redaction_targets:
  "map rs_target (concat (map r_restrictions (redact_candidates now ds cs))) =
     map (\<lambda>x. ''chunk_id:'' @ cd_chunk_id x) (filter (denylisted ds) cs)"
  by (induction cs)
    (auto simp: redact_candidate_def matched_denylisted [symmetric] split: option.split)

lemma redaction_verdicts: "r \<in> set (redact_candidates now ds cs) \<Longrightarrow> r_decision r = REDACT"
  by (auto simp: set_redact_candidates redact_candidate_def)

lemma redaction_none: "redact_candidates now ds cs = [] \<longleftrightarrow> filter (denylisted ds) cs = []"
  by (simp add: redact_candidates_Nil matched_denylisted filter_empty_conv)

lemma redaction_decision:
  assumes "ds \<noteq> []" "ret_candidates q \<noteq> []" "g_subject c = Retrieval q"
    and "d = build_decision now fresh stage chain (fst (engine_evaluate now [content_denylist_policy n ds] c)) md at i"
  shows "gd_decision d = (if filter (denylisted ds) (ret_candidates q) = [] then ALLOW else REDACT) \<and>
    map rs_target (gd_restrictions d) =
      map (\<lambda>x. ''chunk_id:'' @ cd_chunk_id x) (filter (denylisted ds) (ret_candidates q))"
proof -
  let ?rs = "redact_candidates n ds (ret_candidates q)"
  have eng: "fst (engine_evaluate now [content_denylist_policy n ds] c) =
      (if ?rs = [] then [new_rule_result n ''content_denylist'' ''no_denylisted_terms'' ALLOW SEV_LOW
         ''no denylisted terms present'' []] else ?rs)"
    using assms(1-3)
    by (simp add: engine_evaluate_def run_policy_results content_denylist_policy_def applies_to_def
        content_denylist_evaluate_def Let_def)
  show ?thesis
  proof (cases "?rs = []")
    case True
    with eng show ?thesis
      by (simp add: assms(4) gd_decision_build gd_restrictions_build gd_evaluated_build
          redaction_none [of n, symmetric])
  next
    case False
    then have "r_decision ` set ?rs = {REDACT}" using redaction_verdicts by (auto simp: neq_Nil_conv)
    moreover have "filter (\<lambda>r. r_decision r = REDACT) ?rs = ?rs" using redaction_verdicts by simp
    ultimately show ?thesis
      using False eng redaction_targets [of n ds]
      by (simp add: assms(4) gd_decision_build gd_restrictions_build gd_evaluated_build
          redaction_none [of n, symmetric])
  qed
qed

text \<open>The denylist redacts exactly.  Behind a chain of the content denylist alone,
  the decision about a retrieval with candidates is a redaction exactly when some
  candidate contains a denylisted term, and its restrictions name, in order and each
  once, exactly the candidates that do.\<close>

theorem gov_denylist_exact:
  assumes "make_runtime env (builtin_registry env) cm = Inr rt"
    and "chain_for rt (g_stage c) = Some chain" "ch_policies chain = [content_denylist_policy n ds]"
    and "g_subject c = Retrieval q" "ds \<noteq> []" "ret_candidates q \<noteq> []"
    and "governance_evaluate env now fresh ambient rt store c = (Inr e, store')"
  shows "\<exists>d. en_decision e = Some d \<and>
    gd_decision d = (if filter (denylisted ds) (ret_candidates q) = [] then ALLOW else REDACT) \<and>
    map rs_target (gd_restrictions d) =
      map (\<lambda>x. ''chunk_id:'' @ cd_chunk_id x) (filter (denylisted ds) (ret_candidates q))"
  using make_runtime_covers [OF assms(1)]
proof (cases rule: evaluate_shape [where c = c and env = env and now = now and fresh = fresh
      and ambient = ambient and store = store])
  case (unconfigured d e')
  with assms(2) show ?thesis by simp
next
  case (unenforced d h exc e')
  with assms(1) builtin_apply [of env "gd_decision d" h d] show ?thesis by (auto simp: builtin_complete)
next
  case (enforced d h a e')
  with assms(7) have [simp]: "e' = e" by (auto dest!: deliver_Inr)
  have "d = build_decision now fresh (g_stage c) (ch_chain_id chain)
      (fst (engine_evaluate now [content_denylist_policy n ds] (with_request_id ambient c)))
      (Some (stamped_metadata (with_request_id ambient c) (ch_governance_version chain) [])) None
      (decision_id_from_context_seed env c)"
    using enforced(1) assms(2,3) by (simp add: verdict_of_def)
  from redaction_decision [OF assms(5,6) _ this] assms(4) enforced show ?thesis by simp
qed

definition demo_candidates :: "candidate list" where
  "demo_candidates = map (\<lambda>(i, text). \<lparr>cd_chunk_id = i, cd_document_id = None, cd_score = 0, cd_content = text,
       cd_source = None, cd_source_strategy = None\<rparr>) [(''k1'', ''a secret''), (''k2'', ''plain''), (''k3'', ''secret'')]"

definition demo_retrieval :: retrieval_subject where
  "demo_retrieval = \<lparr>ret_query = ''q'', ret_tenant_id = Some ''t1'', ret_policy_id = None, ret_request_id = None,
     ret_candidate_count = 3, ret_estimated_tokens = 9, ret_candidates = demo_candidates, ret_metadata = []\<rparr>"

definition retrieval_context :: governance_context where
  "retrieval_context = demo_context\<lparr>g_stage := POST_RETRIEVAL, g_subject := Retrieval demo_retrieval\<rparr>"

definition denylist_chain :: policy_chain where
  "denylist_chain = \<lparr>ch_chain_id = ''deny'', ch_stage = POST_RETRIEVAL,
     ch_policies = [content_denylist_policy 0 [''secret'']], ch_governance_version = ''v1''\<rparr>"

lemma gov_denylist_exact_witness:
  "\<exists>e d. governance_evaluate demo_env 0 ''d1'' None
       \<lparr>gr_handlers = builtin_registry demo_env, gr_chains = [(POST_RETRIEVAL, denylist_chain)]\<rparr> None retrieval_context
       = (Inr e, None) \<and>
     en_decision e = Some d \<and> map rs_target (gd_restrictions d) = [''chunk_id:k1'', ''chunk_id:k3'']"
proof -
  let ?rt = "\<lparr>gr_handlers = builtin_registry demo_env, gr_chains = [(POST_RETRIEVAL, denylist_chain)]\<rparr>"
  note made = builtin_complete [of demo_env demo_env "[(POST_RETRIEVAL, denylist_chain)]"]
  obtain e where e: "governance_evaluate demo_env 0 ''d1'' None ?rt None retrieval_context = (Inr e, None)"
    using make_runtime_covers [OF made]
    by (cases rule: evaluate_shape [where c = retrieval_context and env = demo_env and now = 0 and fresh = "''d1''"
          and ambient = None and store = None]) auto
  have "filter (denylisted [''secret'']) demo_candidates = [demo_candidates ! 0, demo_candidates ! 2]"
    by (simp add: demo_candidates_def denylisted_def)
  with gov_denylist_exact [OF made _ _ _ _ _ e, of denylist_chain 0 "[''secret'']" demo_retrieval]
  obtain d where "en_decision e = Some d" "map rs_target (gd_restrictions d) = [''chunk_id:k1'', ''chunk_id:k3'']"
    by (auto simp: chain_for_def retrieval_context_def denylist_chain_def demo_retrieval_def demo_candidates_def)
  with e show ?thesis by (intro exI conjI)
qed

section \<open>The context's authority\<close>

text \<open>A context cannot contradict its authority.  Construction succeeds exactly
  when no axis the context states is contradicted by its authority, where a stated
  tenant must be the authority's tenant while the other axes may be missing there;
  otherwise it raises a configuration error.  The context the capability gate builds
  always passes and carries the caller's own axes.\<close>

theorem gov_context_axes:
  "(check_context env c = Inr c \<longleftrightarrow>
      (\<forall>a t. g_authority c = Some a \<longrightarrow>
         (g_tenant_id c = Some t \<longrightarrow> au_tenant_id a = Some t) \<and>
         (g_principal_id c = Some t \<longrightarrow> au_principal_id a \<in> {None, Some t}) \<and>
         (g_organization_id c = Some t \<longrightarrow> au_organization_id a \<in> {None, Some t}) \<and>
         (g_environment_id c = Some t \<longrightarrow> au_environment_id a \<in> {None, Some t}))) \<and>
   (check_context env c \<noteq> Inr c \<longrightarrow> (\<exists>m. check_context env c = Inl (GovernanceConfigurationError m))) \<and>
   check_context env (build_capability_context q) = Inr (build_capability_context q)"
proof (intro conjI)
  show "check_context env c = Inr c \<longleftrightarrow>
      (\<forall>a t. g_authority c = Some a \<longrightarrow>
         (g_tenant_id c = Some t \<longrightarrow> au_tenant_id a = Some t) \<and>
         (g_principal_id c = Some t \<longrightarrow> au_principal_id a \<in> {None, Some t}) \<and>
         (g_organization_id c = Some t \<longrightarrow> au_organization_id a \<in> {None, Some t}) \<and>
         (g_environment_id c = Some t \<longrightarrow> au_environment_id a \<in> {None, Some t}))"
    by (cases "g_authority c"; cases "g_tenant_id c"; cases "g_principal_id c"; cases "g_organization_id c";
        cases "g_environment_id c") (auto simp: check_context_def axis_conflict_def)
  show "check_context env c \<noteq> Inr c \<longrightarrow> (\<exists>m. check_context env c = Inl (GovernanceConfigurationError m))"
    by (simp add: check_context_def disagreement_def split: option.split)
  show "check_context env (build_capability_context q) = Inr (build_capability_context q)"
    by (simp add: check_context_def build_capability_context_def Let_def axis_conflict_def)
qed

lemma gov_context_axes_witness:
  "\<exists>m. check_context demo_env (demo_context\<lparr>g_tenant_id := Some ''t2''\<rparr>) = Inl (GovernanceConfigurationError m)"
proof -
  let ?c = "demo_context\<lparr>g_tenant_id := Some ''t2''\<rparr>"
  have "g_authority ?c = Some demo_authority" "au_tenant_id demo_authority = Some ''t1''"
    by (simp_all add: demo_context_def build_capability_context_def Let_def demo_authority_def)
  then have "check_context demo_env ?c \<noteq> Inr ?c" using gov_context_axes [of demo_env ?c] by auto
  then show ?thesis using gov_context_axes [of demo_env ?c] by blast
qed

section \<open>Scoped reads\<close>

text \<open>The repository's scoped reads are isolated.  A decision or a trace read by a
  tenant is its own and is hidden from every other tenant; records without a tenant
  are hidden from every scoped reader; and the enforcement actions of a decision are
  shown to a scoped reader exactly when the decision itself is.\<close>

theorem gov_scoped_reads:
  "(get_decision s i (Some t) = Some r \<longleftrightarrow> get_decision s i None = Some r \<and> dr_tenant_id r = Some t) \<and>
   (get_trace s i (Some t) = Some tr \<longleftrightarrow> get_trace s i None = Some tr \<and> gt_tenant_id tr = Some t) \<and>
   (get_decision s i (Some t) = Some r \<and> u \<noteq> t \<longrightarrow> get_decision s i (Some u) = None) \<and>
   (get_trace s i (Some t) = Some tr \<and> u \<noteq> t \<longrightarrow> get_trace s i (Some u) = None) \<and>
   (get_decision s i None = Some r \<and> dr_tenant_id r = None \<longrightarrow> get_decision s i (Some u) = None) \<and>
   get_enforcement_actions s i (Some t) =
     (if get_decision s i (Some t) = None then [] else get_enforcement_actions s i None)"
proof (intro conjI impI; (elim conjE)?)
  show "get_enforcement_actions s i (Some t) =
     (if get_decision s i (Some t) = None then [] else get_enforcement_actions s i None)"
    by (simp add: get_enforcement_actions_def get_decision_def gov_visible_def split: option.split)
qed (auto simp: decision_reads.find_scope trace_reads.find_scope
    intro: decision_reads.cross_tenant_hidden trace_reads.cross_tenant_hidden decision_reads.ownerless_hidden)

definition scoped_store :: governance_store where
  "scoped_store = \<lparr>gs_decisions = [(''d'', decision_to_record demo_env (build_decision 0 ''d'' PRE_REQUEST ''c'' []
       (Some [(''tenant_id'', PStr ''t1'')]) None None))], gs_traces = [], gs_actions = []\<rparr>"

lemma gov_scoped_reads_witness: "get_decision scoped_store ''d'' (Some ''t2'') = None"
proof -
  obtain r where "get_decision scoped_store ''d'' (Some ''t1'') = Some r"
    by (simp add: get_decision_def scoped_store_def record_decision_fields gov_visible_def text_or_none_def)
  then show ?thesis using gov_scoped_reads [of scoped_store "''d''" "''t1''" r _ "''t2''"] by blast
qed

end
