(* ===== verification/Escalation_Store.thy ===== *)
theory Escalation_Store
  imports Execution_Model Interfaces
begin

text \<open>
  The in-memory escalation persistence, \<open>app/escalation/persistence/memory.py\<close>, with
  its records, queries and identities: the human handoff queue and its publication
  outbox.  No method suspends between its reads and its writes, so each one is an
  atomic step; a method that raises leaves the store as it was.
\<close>

section \<open>Records and queries\<close>

datatype escalation_status = ES_PENDING | ES_REVIEWED | ES_APPROVED | ES_REJECTED

fun escalation_status_value :: "escalation_status \<Rightarrow> string" where
  "escalation_status_value ES_PENDING = ''pending''"
| "escalation_status_value ES_REVIEWED = ''reviewed''"
| "escalation_status_value ES_APPROVED = ''approved''"
| "escalation_status_value ES_REJECTED = ''rejected''"

datatype handoff_kind = HK_DENIAL | HK_ESCALATION | HK_CRISIS

fun handoff_kind_value :: "handoff_kind \<Rightarrow> string" where
  "handoff_kind_value HK_DENIAL = ''denial''"
| "handoff_kind_value HK_ESCALATION = ''escalation''"
| "handoff_kind_value HK_CRISIS = ''crisis''"

datatype escalation_priority = EP_NORMAL | EP_HIGH

fun escalation_priority_value :: "escalation_priority \<Rightarrow> string" where
  "escalation_priority_value EP_NORMAL = ''normal''"
| "escalation_priority_value EP_HIGH = ''high''"

datatype escalation_outbox_status = EO_PENDING | EO_PUBLISHING | EO_PUBLISHED | EO_FAILED

fun escalation_outbox_status_value :: "escalation_outbox_status \<Rightarrow> string" where
  "escalation_outbox_status_value EO_PENDING = ''pending''"
| "escalation_outbox_status_value EO_PUBLISHING = ''publishing''"
| "escalation_outbox_status_value EO_PUBLISHED = ''published''"
| "escalation_outbox_status_value EO_FAILED = ''failed''"

text \<open>The status, kind and priority of a record are free text.\<close>

record escalation_record =
  esc_id :: string
  esc_session_id :: string
  esc_tenant_id :: string
  esc_reason :: string
  esc_decision_id :: string
  esc_status :: string
  esc_created_at :: string
  esc_handoff_kind :: string
  esc_priority :: string
  esc_resolved_at :: "string option"
  esc_resolution :: "string option"
  esc_resolved_by :: "string option"
  esc_metadata :: metadata

record escalation_outbox_record =
  eo_outbox_id :: string
  eo_escalation_id :: string
  eo_tenant_id :: string
  eo_status :: escalation_outbox_status
  eo_created_at :: int
  eo_claimed_at :: "int option"
  eo_published_at :: "int option"
  eo_publisher_id :: "string option"
  eo_claim_id :: "string option"
  eo_republish_count :: int
  eo_dead_letter :: bool
  eo_last_error :: "string option"
  eo_metadata :: metadata

record escalation_query =
  eq_escalation_id :: "string option"
  eq_session_id :: "string option"
  eq_decision_id :: "string option"
  eq_tenant_id :: "string option"
  eq_status :: "string option"
  eq_handoff_kind :: "string option"
  eq_priority :: "string option"
  eq_limit :: int
  eq_offset :: int

record escalation_outbox_query =
  eoq_outbox_id :: "string option"
  eoq_escalation_id :: "string option"
  eoq_tenant_id :: "string option"
  eoq_status :: "escalation_outbox_status option"
  eoq_claimed_before_or_at :: "int option"
  eoq_limit :: int
  eoq_offset :: int

section \<open>Identities\<close>

definition ESCALATION_NAMESPACE :: string where
  "ESCALATION_NAMESPACE = ''8f85a2aa-0001-4a01-9001-000000000001''"

definition ESCALATION_GOVERNANCE_NAMESPACE :: string where
  "ESCALATION_GOVERNANCE_NAMESPACE = ''8f85a2aa-0003-4a01-9001-000000000003''"

definition ESCALATION_OUTBOX_NAMESPACE :: string where
  "ESCALATION_OUTBOX_NAMESPACE = ''8f85a2aa-0004-4a01-9001-000000000004''"

definition ESCALATION_CLAIM_NAMESPACE :: string where
  "ESCALATION_CLAIM_NAMESPACE = ''8f85a2aa-0005-4a01-9001-000000000005''"

definition coerce_tenant_id :: "string \<Rightarrow> string result" where
  "coerce_tenant_id raw =
     (if py_strip raw = [] then Inl (IdentityError ''tenant_id must be a non-empty string'')
      else Inr (py_strip raw))"

definition with_tenant :: "string \<Rightarrow> (string \<Rightarrow> string) \<Rightarrow> string result" where
  "with_tenant tenant_id mk = (case coerce_tenant_id tenant_id of Inl e \<Rightarrow> Inl e | Inr t \<Rightarrow> Inr (mk t))"

definition derive_escalation_id :: "py_env \<Rightarrow> string \<Rightarrow> string \<Rightarrow> string \<Rightarrow> string result" where
  "derive_escalation_id env tenant_id session_id decision_id =
     with_tenant tenant_id (\<lambda>t. uuid5 env ESCALATION_NAMESPACE
       (t @ ''|'' @ session_id @ ''|'' @ decision_id))"

definition derive_override_decision_id :: "py_env \<Rightarrow> string \<Rightarrow> string \<Rightarrow> string \<Rightarrow> string result" where
  "derive_override_decision_id env escalation_id decision_id tenant_id =
     with_tenant tenant_id (\<lambda>t. uuid5 env ESCALATION_GOVERNANCE_NAMESPACE
       (''override|'' @ t @ ''|'' @ escalation_id @ ''|'' @ decision_id))"

definition derive_override_action_id :: "py_env \<Rightarrow> string \<Rightarrow> string \<Rightarrow> string \<Rightarrow> string result" where
  "derive_override_action_id env escalation_id override_id tenant_id =
     with_tenant tenant_id (\<lambda>t. uuid5 env ESCALATION_GOVERNANCE_NAMESPACE
       (''override-action|'' @ t @ ''|'' @ escalation_id @ ''|'' @ override_id))"

definition derive_escalation_outbox_id :: "py_env \<Rightarrow> string \<Rightarrow> string \<Rightarrow> string result" where
  "derive_escalation_outbox_id env escalation_id tenant_id =
     with_tenant tenant_id (\<lambda>t. uuid5 env ESCALATION_OUTBOX_NAMESPACE (t @ ''|'' @ escalation_id))"

definition escalation_token :: "py_env \<Rightarrow> string \<Rightarrow> string \<Rightarrow> int \<Rightarrow> string" where
  "escalation_token env outbox_id publisher_id n =
     uuid5 env ESCALATION_CLAIM_NAMESPACE (claim_seed outbox_id publisher_id n)"

definition derive_escalation_claim_id :: "py_env \<Rightarrow> string \<Rightarrow> string \<Rightarrow> int \<Rightarrow> string result" where
  "derive_escalation_claim_id env outbox_id publisher_id republish_count =
     (if publisher_id = [] then Inl (ValueError ''publisher_id is required'')
      else if republish_count < 1 then Inl (ValueError ''republish_count must be >= 1'')
      else Inr (escalation_token env outbox_id publisher_id republish_count))"

section \<open>The store\<close>

record escalation_store =
  ec_records :: "(string, escalation_record) dict"
  ec_governance_index :: "(string, string) dict"
  ec_outbox :: "(string, escalation_outbox_record) dict"
  ec_outbox_by_escalation :: "(string, string) dict"

definition empty_escalation_store :: escalation_store where
  "empty_escalation_store =
     \<lparr>ec_records = [], ec_governance_index = [], ec_outbox = [], ec_outbox_by_escalation = []\<rparr>"

definition enforce_expected_tenant :: "string \<Rightarrow> string option \<Rightarrow> unit result" where
  "enforce_expected_tenant tenant_id expected_tenant_id =
     (if tenant_visible tenant_id expected_tenant_id then Inr ()
      else Inl (EscalationPersistenceError ''escalation tenant_id does not match expected_tenant_id''))"

definition create_escalation ::
  "py_env \<Rightarrow> escalation_store \<Rightarrow> escalation_record \<Rightarrow> string option \<Rightarrow> unit result \<times> escalation_store" where
  "create_escalation env s r expected_tenant_id =
     (case enforce_expected_tenant (esc_tenant_id r) expected_tenant_id of
        Inl e \<Rightarrow> (Inl e, s)
      | Inr _ \<Rightarrow>
          if dget (ec_records s) (esc_id r) \<noteq> None then
            (Inl (EscalationPersistenceError
                    (''escalation '' @ repr_str env (esc_id r) @ '' already recorded'')), s)
          else if dget (ec_governance_index s) (esc_decision_id r) \<noteq> None then
            (Inl (EscalationPersistenceError
                    (''escalation for governance decision '' @ repr_str env (esc_decision_id r) @
                     '' already recorded'')), s)
          else (Inr (), s\<lparr>ec_records := dset (esc_id r) r (ec_records s),
                  ec_governance_index := dset (esc_decision_id r) (esc_id r) (ec_governance_index s)\<rparr>))"

definition update_escalation ::
  "py_env \<Rightarrow> escalation_store \<Rightarrow> escalation_record \<Rightarrow> string option \<Rightarrow> unit result \<times> escalation_store" where
  "update_escalation env s r expected_tenant_id =
     (case enforce_expected_tenant (esc_tenant_id r) expected_tenant_id of
        Inl e \<Rightarrow> (Inl e, s)
      | Inr _ \<Rightarrow>
     (case dget (ec_records s) (esc_id r) of
        None \<Rightarrow> (Inl (EscalationPersistenceError (''unknown escalation '' @ repr_str env (esc_id r))), s)
      | Some existing \<Rightarrow>
     (case enforce_expected_tenant (esc_tenant_id existing) expected_tenant_id of
        Inl e \<Rightarrow> (Inl e, s)
      | Inr _ \<Rightarrow>
          if esc_decision_id existing \<noteq> esc_decision_id r then
            (Inl (EscalationPersistenceError ''escalation governance_decision_id is immutable''), s)
          else (Inr (), s\<lparr>ec_records := dset (esc_id r) r (ec_records s)\<rparr>))))"

definition get_escalation :: "escalation_store \<Rightarrow> string \<Rightarrow> string option \<Rightarrow> escalation_record option" where
  "get_escalation s escalation_id expected_tenant_id =
     (case dget (ec_records s) escalation_id of
        None \<Rightarrow> None
      | Some r \<Rightarrow> if tenant_visible (esc_tenant_id r) expected_tenant_id then Some r else None)"

definition get_escalation_for_decision ::
  "escalation_store \<Rightarrow> string \<Rightarrow> string option \<Rightarrow> escalation_record option" where
  "get_escalation_for_decision s decision_id expected_tenant_id =
     (case dget (ec_governance_index s) decision_id of
        None \<Rightarrow> None
      | Some i \<Rightarrow> get_escalation s i expected_tenant_id)"

definition escalation_matches :: "escalation_query \<Rightarrow> string option \<Rightarrow> escalation_record \<Rightarrow> bool" where
  "escalation_matches q expected_tenant_id r \<longleftrightarrow>
     tenant_visible (esc_tenant_id r) expected_tenant_id \<and>
     (\<forall>v \<in> set_option (eq_escalation_id q). esc_id r = v) \<and>
     (\<forall>v \<in> set_option (eq_session_id q). esc_session_id r = v) \<and>
     (\<forall>v \<in> set_option (eq_decision_id q). esc_decision_id r = v) \<and>
     (\<forall>v \<in> set_option (eq_tenant_id q). esc_tenant_id r = v) \<and>
     (\<forall>v \<in> set_option (eq_status q). esc_status r = v) \<and>
     (\<forall>v \<in> set_option (eq_handoff_kind q). esc_handoff_kind r = v) \<and>
     (\<forall>v \<in> set_option (eq_priority q). esc_priority r = v)"

definition escalation_sort_key :: "escalation_record \<Rightarrow> int \<times> string \<times> string" where
  "escalation_sort_key r =
     (if esc_priority r = escalation_priority_value EP_HIGH then 0 else 1, esc_created_at r, esc_id r)"

text \<open>Pages carry the limit only where the code passes it; the default is 0.\<close>

record 'r escalation_page =
  ep_items :: "'r list"
  ep_total :: int
  ep_limit :: int
  ep_offset :: int

definition list_escalations ::
  "escalation_store \<Rightarrow> escalation_query \<Rightarrow> string option \<Rightarrow> escalation_record escalation_page" where
  "list_escalations s q expected_tenant_id =
     (let rows = sort_key escalation_sort_key (filter (escalation_matches q expected_tenant_id) (dvals (ec_records s)))
      in \<lparr>ep_items = py_slice rows (eq_offset q) (eq_offset q + eq_limit q), ep_total = int (length rows),
          ep_limit = 0, ep_offset = eq_offset q\<rparr>)"

section \<open>The outbox\<close>

definition save_escalation_outbox ::
  "py_env \<Rightarrow> escalation_store \<Rightarrow> escalation_outbox_record \<Rightarrow> string option
     \<Rightarrow> escalation_outbox_record result \<times> escalation_store" where
  "save_escalation_outbox env s r expected_tenant_id =
     (case enforce_expected_tenant (eo_tenant_id r) expected_tenant_id of
        Inl e \<Rightarrow> (Inl e, s)
      | Inr _ \<Rightarrow>
     (case dget (ec_outbox_by_escalation s) (eo_escalation_id r) of
        Some existing_id \<Rightarrow>
          (case dget (ec_outbox s) existing_id of
             Some existing \<Rightarrow> (Inr existing, s)
           | None \<Rightarrow> (Inl (ExternalError ''KeyError'' existing_id), s))
      | None \<Rightarrow>
          if dget (ec_outbox s) (eo_outbox_id r) \<noteq> None then
            (Inl (EscalationPersistenceError
                    (''escalation outbox '' @ repr_str env (eo_outbox_id r) @ '' already recorded'')), s)
          else (Inr r, s\<lparr>ec_outbox := dset (eo_outbox_id r) r (ec_outbox s),
                  ec_outbox_by_escalation :=
                    dset (eo_escalation_id r) (eo_outbox_id r) (ec_outbox_by_escalation s)\<rparr>)))"

definition get_escalation_outbox ::
  "escalation_store \<Rightarrow> string \<Rightarrow> string option \<Rightarrow> escalation_outbox_record option" where
  "get_escalation_outbox s outbox_id expected_tenant_id =
     (case dget (ec_outbox s) outbox_id of
        None \<Rightarrow> None
      | Some r \<Rightarrow> if tenant_visible (eo_tenant_id r) expected_tenant_id then Some r else None)"

definition get_outbox_by_escalation ::
  "escalation_store \<Rightarrow> string \<Rightarrow> string option \<Rightarrow> escalation_outbox_record option" where
  "get_outbox_by_escalation s escalation_id expected_tenant_id =
     (case dget (ec_outbox_by_escalation s) escalation_id of
        None \<Rightarrow> None
      | Some k \<Rightarrow> get_escalation_outbox s k expected_tenant_id)"

definition put_escalation_outbox :: "escalation_outbox_record \<Rightarrow> escalation_store \<Rightarrow> escalation_store" where
  "put_escalation_outbox r s = s\<lparr>ec_outbox := dset (eo_outbox_id r) r (ec_outbox s)\<rparr>"

definition claim_escalation_outbox ::
  "escalation_store \<Rightarrow> string \<Rightarrow> string \<Rightarrow> string \<Rightarrow> int \<Rightarrow> string option
     \<Rightarrow> escalation_outbox_record option \<times> escalation_store" where
  "claim_escalation_outbox s escalation_id publisher_id claim_id claimed_at expected_tenant_id =
     (case get_outbox_by_escalation s escalation_id expected_tenant_id of
        None \<Rightarrow> (None, s)
      | Some r \<Rightarrow>
          if eo_status r \<noteq> EO_PENDING then (None, s)
          else let claimed = r\<lparr>eo_status := EO_PUBLISHING, eo_claimed_at := Some claimed_at,
                     eo_publisher_id := Some publisher_id, eo_claim_id := Some claim_id,
                     eo_republish_count := eo_republish_count r + 1, eo_last_error := None\<rparr>
               in (Some claimed, put_escalation_outbox claimed s))"

definition unknown_escalation_outbox :: "py_env \<Rightarrow> string \<Rightarrow> error" where
  "unknown_escalation_outbox env outbox_id =
     EscalationPersistenceError (''unknown escalation outbox '' @ repr_str env outbox_id)"

definition mark_escalation_outbox_published ::
  "py_env \<Rightarrow> escalation_store \<Rightarrow> string \<Rightarrow> string \<Rightarrow> int \<Rightarrow> string option
     \<Rightarrow> escalation_outbox_record result \<times> escalation_store" where
  "mark_escalation_outbox_published env s outbox_id claim_id published_at expected_tenant_id =
     (case get_escalation_outbox s outbox_id expected_tenant_id of
        None \<Rightarrow> (Inl (unknown_escalation_outbox env outbox_id), s)
      | Some r \<Rightarrow>
          if eo_status r = EO_PUBLISHED then
            (if eo_claim_id r = Some claim_id then (Inr r, s)
             else (Inl (EscalationPersistenceError ''escalation outbox publish claim does not match''), s))
          else if eo_status r \<noteq> EO_PUBLISHING \<or> eo_claim_id r \<noteq> Some claim_id then
            (Inl (EscalationPersistenceError ''only the active escalation outbox claim can be published''), s)
          else let updated = r\<lparr>eo_status := EO_PUBLISHED, eo_published_at := Some published_at,
                     eo_dead_letter := False, eo_last_error := None\<rparr>
               in (Inr updated, put_escalation_outbox updated s))"

definition mark_escalation_outbox_failed ::
  "py_env \<Rightarrow> escalation_store \<Rightarrow> string \<Rightarrow> string \<Rightarrow> string \<Rightarrow> int \<Rightarrow> bool \<Rightarrow> string option
     \<Rightarrow> escalation_outbox_record result \<times> escalation_store" where
  "mark_escalation_outbox_failed env s outbox_id claim_id err failed_at dead_letter expected_tenant_id =
     (case get_escalation_outbox s outbox_id expected_tenant_id of
        None \<Rightarrow> (Inl (unknown_escalation_outbox env outbox_id), s)
      | Some r \<Rightarrow>
          if eo_status r = EO_FAILED then
            (if eo_claim_id r = Some claim_id then (Inr r, s)
             else (Inl (EscalationPersistenceError ''escalation outbox failure claim does not match''), s))
          else if eo_status r \<noteq> EO_PUBLISHING \<or> eo_claim_id r \<noteq> Some claim_id then
            (Inl (EscalationPersistenceError
                    ''only the active escalation outbox claim can fail publication''), s)
          else let updated = r\<lparr>eo_status := EO_FAILED, eo_dead_letter := dead_letter,
                     eo_last_error := Some err,
                     eo_metadata := dmerge (eo_metadata r) [(''failed_at'', PStr (isoformat env failed_at))]\<rparr>
               in (Inr updated, put_escalation_outbox updated s))"

definition requeue_stale_escalation_outbox ::
  "py_env \<Rightarrow> escalation_store \<Rightarrow> string \<Rightarrow> int \<Rightarrow> int \<Rightarrow> string \<Rightarrow> string option
     \<Rightarrow> escalation_outbox_record option \<times> escalation_store" where
  "requeue_stale_escalation_outbox env s outbox_id stale_before requeued_at reason expected_tenant_id =
     (case get_escalation_outbox s outbox_id expected_tenant_id of
        None \<Rightarrow> (None, s)
      | Some r \<Rightarrow>
          if eo_status r \<noteq> EO_PUBLISHING then (None, s)
          else (case eo_claimed_at r of
                  None \<Rightarrow> (None, s)
                | Some t \<Rightarrow>
                    if stale_before \<le> t then (None, s)
                    else let updated = r\<lparr>eo_status := EO_PENDING, eo_claimed_at := None,
                               eo_publisher_id := None, eo_claim_id := None, eo_last_error := Some reason,
                               eo_metadata := dmerge (eo_metadata r)
                                 [(''requeued_at'', PStr (isoformat env requeued_at)),
                                  (''requeue_reason'', PStr reason)]\<rparr>
                         in (Some updated, put_escalation_outbox updated s)))"

definition escalation_outbox_matches ::
  "escalation_outbox_query \<Rightarrow> string option \<Rightarrow> escalation_outbox_record \<Rightarrow> bool" where
  "escalation_outbox_matches q expected_tenant_id r \<longleftrightarrow>
     tenant_visible (eo_tenant_id r) expected_tenant_id \<and>
     (\<forall>v \<in> set_option (eoq_outbox_id q). eo_outbox_id r = v) \<and>
     (\<forall>v \<in> set_option (eoq_escalation_id q). eo_escalation_id r = v) \<and>
     (\<forall>v \<in> set_option (eoq_tenant_id q). eo_tenant_id r = v) \<and>
     (\<forall>v \<in> set_option (eoq_status q). eo_status r = v) \<and>
     (\<forall>v \<in> set_option (eoq_claimed_before_or_at q).
        case eo_claimed_at r of None \<Rightarrow> False | Some t \<Rightarrow> t \<le> v)"

definition list_escalation_outbox ::
  "escalation_store \<Rightarrow> escalation_outbox_query \<Rightarrow> string option \<Rightarrow> escalation_outbox_record escalation_page" where
  "list_escalation_outbox s q expected_tenant_id =
     (let rows = sort_key (\<lambda>r. (eo_created_at r, eo_outbox_id r))
                   (filter (escalation_outbox_matches q expected_tenant_id) (dvals (ec_outbox s)))
      in \<lparr>ep_items = py_slice rows (eoq_offset q) (eoq_offset q + eoq_limit q), ep_total = int (length rows),
          ep_limit = eoq_limit q, ep_offset = eoq_offset q\<rparr>)"

interpretation escalation_reads: scoped_reads get_escalation "\<lambda>r. Some (esc_tenant_id r)"
  by unfold_locales (auto simp: get_escalation_def split: option.splits if_splits)

end
