(* ===== verification/Escalation_Outbox.thy ===== *)
theory Escalation_Outbox
  imports Escalation_Store
begin

text \<open>
  The escalation store as a machine: its invariant, kept by every operation of any
  caller, and the outbox rows as leases with fencing tokens.
\<close>

section \<open>Operations and the invariant\<close>

datatype esc_op =
    CreateEscalation escalation_record "string option"
  | UpdateEscalation escalation_record "string option"
  | SaveRow escalation_outbox_record "string option"
  | ClaimRow string string string int "string option"
  | PublishRow string string int "string option"
  | FailRow string string string int bool "string option"
  | RequeueRow string int int string "string option"

fun esc_step :: "py_env \<Rightarrow> esc_op \<Rightarrow> escalation_store \<Rightarrow> escalation_store" where
  "esc_step env (CreateEscalation r u) s = snd (create_escalation env s r u)"
| "esc_step env (UpdateEscalation r u) s = snd (update_escalation env s r u)"
| "esc_step env (SaveRow r u) s = snd (save_escalation_outbox env s r u)"
| "esc_step env (ClaimRow e p c t u) s = snd (claim_escalation_outbox s e p c t u)"
| "esc_step env (PublishRow k c t u) s = snd (mark_escalation_outbox_published env s k c t u)"
| "esc_step env (FailRow k c err t dl u) s = snd (mark_escalation_outbox_failed env s k c err t dl u)"
| "esc_step env (RequeueRow k stale t reason u) s = snd (requeue_stale_escalation_outbox env s k stale t reason u)"

text \<open>The tokens of the leases in \<open>X\<close> are pairwise different.\<close>

definition esc_tokens_unique :: "py_env \<Rightarrow> (string \<times> string \<times> int) set \<Rightarrow> bool" where
  "esc_tokens_unique env X \<longleftrightarrow> inj_on (\<lambda>(k, p, n). escalation_token env k p n) X"

definition esc_issued :: "py_env \<Rightarrow> (string \<times> string \<times> int) set \<Rightarrow> string \<Rightarrow> string \<Rightarrow> int \<Rightarrow> bool" where
  "esc_issued env X c k n \<longleftrightarrow>
     esc_tokens_unique env X \<and> (\<exists>p. (k, p, n) \<in> X \<and> c = escalation_token env k p n)"

lemma esc_issued_unique: "esc_issued env X c k m \<Longrightarrow> esc_issued env X c k n \<Longrightarrow> m = n"
  unfolding esc_issued_def esc_tokens_unique_def inj_on_def by fastforce

definition esc_row_ok ::
  "py_env \<Rightarrow> (string \<times> string \<times> int) set \<Rightarrow> string \<Rightarrow> escalation_outbox_record \<Rightarrow> bool" where
  "esc_row_ok env X k r \<longleftrightarrow> eo_outbox_id r = k \<and>
     (\<forall>c. eo_claim_id r = Some c \<longrightarrow> esc_issued env X c k (eo_republish_count r))"

definition esc_rows_indexed :: "escalation_store \<Rightarrow> bool" where
  "esc_rows_indexed s \<longleftrightarrow> (\<forall>e k. dget (ec_outbox_by_escalation s) e = Some k \<longleftrightarrow>
     (\<exists>r. dget (ec_outbox s) k = Some r \<and> eo_escalation_id r = e))"

definition esc_records_indexed :: "escalation_store \<Rightarrow> bool" where
  "esc_records_indexed s \<longleftrightarrow>
     (\<forall>i r. dget (ec_records s) i = Some r \<longrightarrow> esc_id r = i) \<and>
     (\<forall>d i. dget (ec_governance_index s) d = Some i \<longleftrightarrow>
        (\<exists>r. dget (ec_records s) i = Some r \<and> esc_decision_id r = d))"

definition esc_inv :: "py_env \<Rightarrow> (string \<times> string \<times> int) set \<Rightarrow> escalation_store \<Rightarrow> bool" where
  "esc_inv env X s \<longleftrightarrow> esc_tokens_unique env X \<and> esc_records_indexed s \<and> esc_rows_indexed s \<and>
     (\<forall>k r. dget (ec_outbox s) k = Some r \<longrightarrow> esc_row_ok env X k r)"

text \<open>What the runtime guarantees: a saved row is fresh, and a claim carries the token
  derived from the row as it is when claimed.\<close>

fun esc_op_ok :: "py_env \<Rightarrow> (string \<times> string \<times> int) set \<Rightarrow> esc_op \<Rightarrow> escalation_store \<Rightarrow> bool" where
  "esc_op_ok env X (SaveRow r u) s \<longleftrightarrow> eo_status r = EO_PENDING \<and> eo_claim_id r = None"
| "esc_op_ok env X (ClaimRow e p c t u) s \<longleftrightarrow>
     (\<forall>r. get_outbox_by_escalation s e u = Some r \<longrightarrow>
        c = escalation_token env (eo_outbox_id r) p (eo_republish_count r + 1) \<and>
        (eo_outbox_id r, p, eo_republish_count r + 1) \<in> X)"
| "esc_op_ok env X _ s \<longleftrightarrow> True"

lemma esc_invD:
  assumes "esc_inv env X s"
  shows "esc_tokens_unique env X" "esc_records_indexed s" "esc_rows_indexed s"
    "dget (ec_outbox s) k = Some r \<Longrightarrow> esc_row_ok env X k r"
  using assms unfolding esc_inv_def by blast+

lemma esc_inv_empty: "esc_tokens_unique env X \<Longrightarrow> esc_inv env X empty_escalation_store"
  by (simp add: esc_inv_def esc_rows_indexed_def esc_records_indexed_def empty_escalation_store_def)

section \<open>Rows as leases\<close>

fun esc_phase :: "escalation_outbox_status \<Rightarrow> lease_phase" where
  "esc_phase EO_PENDING = Waiting"
| "esc_phase EO_PUBLISHING = Leased"
| "esc_phase EO_PUBLISHED = Delivered"
| "esc_phase EO_FAILED = Undelivered"

lemma esc_phase_iff [simp]:
  "esc_phase st = Waiting \<longleftrightarrow> st = EO_PENDING" "esc_phase st = Leased \<longleftrightarrow> st = EO_PUBLISHING"
  by (cases st; simp)+

definition esc_lease :: "escalation_outbox_record \<Rightarrow> lease" where
  "esc_lease r = \<lparr>l_phase = esc_phase (eo_status r), l_claim = eo_claim_id r, l_count = eo_republish_count r\<rparr>"

lemma esc_lease_simps [simp]:
  "l_phase (esc_lease r) = esc_phase (eo_status r)" "l_claim (esc_lease r) = eo_claim_id r"
  "l_count (esc_lease r) = eo_republish_count r"
  by (simp_all add: esc_lease_def)

definition esc_view :: "escalation_store \<Rightarrow> string \<Rightarrow> lease option" where
  "esc_view s k = map_option esc_lease (dget (ec_outbox s) k)"

text \<open>A step rewrites one row that is not settled, or settles nothing.\<close>

definition esc_move ::
  "py_env \<Rightarrow> (string \<times> string \<times> int) set \<Rightarrow> escalation_outbox_record \<Rightarrow> escalation_outbox_record \<Rightarrow> bool" where
  "esc_move env X r r' \<longleftrightarrow> eo_status r \<in> {EO_PENDING, EO_PUBLISHING} \<and> eo_outbox_id r' = eo_outbox_id r \<and>
     eo_escalation_id r' = eo_escalation_id r \<and> lease_move (esc_lease r) (esc_lease r') \<and>
     (eo_claim_id r' = None \<or>
      eo_claim_id r' = eo_claim_id r \<and> eo_republish_count r' = eo_republish_count r \<or>
      (\<exists>p. eo_claim_id r' = Some (escalation_token env (eo_outbox_id r) p (eo_republish_count r')) \<and>
           (eo_outbox_id r, p, eo_republish_count r') \<in> X))"

lemma get_outbox_Some:
  "get_escalation_outbox s k u = Some r \<Longrightarrow> dget (ec_outbox s) k = Some r"
  "get_outbox_by_escalation s e u = Some r \<Longrightarrow> \<exists>k. dget (ec_outbox s) k = Some r"
  by (auto simp: get_outbox_by_escalation_def get_escalation_outbox_def split: option.splits if_splits)

definition esc_rewrites ::
  "py_env \<Rightarrow> (string \<times> string \<times> int) set \<Rightarrow> escalation_store \<Rightarrow> escalation_store \<Rightarrow> bool" where
  "esc_rewrites env X s s' \<longleftrightarrow> s' = s \<or>
     (\<exists>k r r'. dget (ec_outbox s) k = Some r \<and> esc_move env X r r' \<and> s' = put_escalation_outbox r' s)"

lemma esc_rewrites_refl [simp]: "esc_rewrites env X s s"
  by (simp add: esc_rewrites_def)

lemma esc_rewritesI:
  "dget (ec_outbox s) k = Some r \<Longrightarrow> esc_move env X r r' \<Longrightarrow> esc_rewrites env X s (put_escalation_outbox r' s)"
  unfolding esc_rewrites_def by blast

lemma claim_rewrites:
  assumes "esc_op_ok env X (ClaimRow e p c t u) s"
  shows "esc_rewrites env X s (snd (claim_escalation_outbox s e p c t u))"
proof (cases "get_outbox_by_escalation s e u")
  case (Some r)
  then obtain k where "dget (ec_outbox s) k = Some r" using get_outbox_Some(2) by blast
  with Some assms show ?thesis
    by (auto simp: claim_escalation_outbox_def Let_def esc_move_def lease_move_def intro!: esc_rewritesI)
qed (simp add: claim_escalation_outbox_def)

lemma publish_rewrites: "esc_rewrites env X s (snd (mark_escalation_outbox_published env s k c t u))"
proof (cases "get_escalation_outbox s k u")
  case (Some r)
  from get_outbox_Some(1) [OF this] Some show ?thesis
    by (auto simp: mark_escalation_outbox_published_def Let_def esc_move_def lease_move_def intro!: esc_rewritesI)
qed (simp add: mark_escalation_outbox_published_def)

lemma fail_rewrites: "esc_rewrites env X s (snd (mark_escalation_outbox_failed env s k c err t dl u))"
proof (cases "get_escalation_outbox s k u")
  case (Some r)
  from get_outbox_Some(1) [OF this] Some show ?thesis
    by (auto simp: mark_escalation_outbox_failed_def Let_def esc_move_def lease_move_def intro!: esc_rewritesI)
qed (simp add: mark_escalation_outbox_failed_def)

lemma requeue_rewrites:
  "esc_rewrites env X s (snd (requeue_stale_escalation_outbox env s k stale t reason u))"
proof (cases "get_escalation_outbox s k u")
  case (Some r)
  from get_outbox_Some(1) [OF this] Some show ?thesis
    by (cases "eo_claimed_at r")
      (auto simp: requeue_stale_escalation_outbox_def Let_def esc_move_def lease_move_def intro!: esc_rewritesI)
qed (simp add: requeue_stale_escalation_outbox_def)

lemma rewrites_inv:
  assumes inv: "esc_inv env X s" and R: "esc_rewrites env X s s'"
  shows "esc_inv env X s'"
proof -
  consider "s' = s" | k r r' where "dget (ec_outbox s) k = Some r" "esc_move env X r r'"
      "s' = put_escalation_outbox r' s" using R unfolding esc_rewrites_def by blast
  then show ?thesis
  proof cases
    case (2 k r r')
    have k: "eo_outbox_id r = k" using esc_invD(4) [OF inv 2(1)] by (simp add: esc_row_ok_def)
    have row: "esc_row_ok env X k r'"
      using 2(2) k esc_invD(4) [OF inv 2(1)] esc_invD(1) [OF inv]
      by (auto simp: esc_move_def esc_row_ok_def esc_issued_def)
    have "esc_rows_indexed s'"
      using esc_invD(3) [OF inv] 2 k by (auto simp: esc_rows_indexed_def put_escalation_outbox_def esc_move_def)
    then show ?thesis
      using inv 2(3) k row 2(2)
      by (auto simp: esc_inv_def put_escalation_outbox_def esc_records_indexed_def esc_move_def)
  qed (use inv in simp)
qed

lemma create_inv:
  assumes inv: "esc_inv env X s"
  shows "esc_inv env X (snd (create_escalation env s r u))"
proof -
  have "esc_records_indexed (snd (create_escalation env s r u))"
    using esc_invD(2) [OF inv]
    by (auto simp: create_escalation_def esc_records_indexed_def split: sum.splits option.splits if_splits)
  moreover have "ec_outbox (snd (create_escalation env s r u)) = ec_outbox s"
    "ec_outbox_by_escalation (snd (create_escalation env s r u)) = ec_outbox_by_escalation s"
    by (simp_all add: create_escalation_def split: sum.splits)
  ultimately show ?thesis using inv by (simp add: esc_inv_def esc_rows_indexed_def)
qed

lemma update_inv:
  assumes inv: "esc_inv env X s"
  shows "esc_inv env X (snd (update_escalation env s r u))"
proof -
  have "esc_records_indexed (snd (update_escalation env s r u))"
    using esc_invD(2) [OF inv]
    by (auto simp: update_escalation_def esc_records_indexed_def split: sum.splits option.splits if_splits)
  moreover have "ec_outbox (snd (update_escalation env s r u)) = ec_outbox s"
    "ec_outbox_by_escalation (snd (update_escalation env s r u)) = ec_outbox_by_escalation s"
    by (simp_all add: update_escalation_def split: sum.splits option.splits)
  ultimately show ?thesis using inv by (simp add: esc_inv_def esc_rows_indexed_def)
qed

lemma save_cases:
  obtains (kept) "snd (save_escalation_outbox env s r u) = s"
  | (new) "dget (ec_outbox_by_escalation s) (eo_escalation_id r) = None" "dget (ec_outbox s) (eo_outbox_id r) = None"
      "snd (save_escalation_outbox env s r u) = s\<lparr>ec_outbox := dset (eo_outbox_id r) r (ec_outbox s),
         ec_outbox_by_escalation := dset (eo_escalation_id r) (eo_outbox_id r) (ec_outbox_by_escalation s)\<rparr>"
proof (cases "enforce_expected_tenant (eo_tenant_id r) u = Inr () \<and>
    dget (ec_outbox_by_escalation s) (eo_escalation_id r) = None \<and> dget (ec_outbox s) (eo_outbox_id r) = None")
  case True
  then show ?thesis by (intro new) (simp_all add: save_escalation_outbox_def)
next
  case False
  then show ?thesis
    by (intro kept) (auto simp: save_escalation_outbox_def split: sum.split option.split)
qed

lemma save_inv:
  assumes inv: "esc_inv env X s" and ok: "esc_op_ok env X (SaveRow r u) s"
  shows "esc_inv env X (snd (save_escalation_outbox env s r u))"
proof (rule save_cases [of env s r u])
  assume free: "dget (ec_outbox_by_escalation s) (eo_escalation_id r) = None" "dget (ec_outbox s) (eo_outbox_id r) = None"
    and s': "snd (save_escalation_outbox env s r u) = s\<lparr>ec_outbox := dset (eo_outbox_id r) r (ec_outbox s),
         ec_outbox_by_escalation := dset (eo_escalation_id r) (eo_outbox_id r) (ec_outbox_by_escalation s)\<rparr>"
  have "esc_rows_indexed (snd (save_escalation_outbox env s r u))"
    unfolding esc_rows_indexed_def
  proof (intro allI)
    fix e k
    have "dget (ec_outbox_by_escalation s) e = Some k \<longleftrightarrow>
        (\<exists>q. dget (ec_outbox s) k = Some q \<and> eo_escalation_id q = e)"
      using esc_invD(3) [OF inv] by (simp add: esc_rows_indexed_def)
    with free show "dget (ec_outbox_by_escalation (snd (save_escalation_outbox env s r u))) e = Some k \<longleftrightarrow>
        (\<exists>q. dget (ec_outbox (snd (save_escalation_outbox env s r u))) k = Some q \<and> eo_escalation_id q = e)"
      by (auto simp: s')
  qed
  then show ?thesis
    using inv ok by (auto simp: s' esc_inv_def esc_records_indexed_def esc_row_ok_def)
qed (use inv in simp)

lemma esc_step_cases:
  assumes "esc_inv env X s" "esc_op_ok env X op s"
  obtains (row) "esc_rewrites env X s (esc_step env op s)"
  | (records) "ec_outbox (esc_step env op s) = ec_outbox s" "esc_inv env X (esc_step env op s)"
  | (save) r u where "op = SaveRow r u"
proof (cases op)
  case (CreateEscalation r u)
  have "ec_outbox (snd (create_escalation env s r u)) = ec_outbox s"
    by (simp add: create_escalation_def split: sum.splits)
  then show ?thesis using records create_inv [OF assms(1)] by (simp add: CreateEscalation)
next
  case (UpdateEscalation r u)
  have "ec_outbox (snd (update_escalation env s r u)) = ec_outbox s"
    by (simp add: update_escalation_def split: sum.splits option.splits)
  then show ?thesis using records update_inv [OF assms(1)] by (simp add: UpdateEscalation)
qed (use row save assms claim_rewrites publish_rewrites fail_rewrites requeue_rewrites in auto)

lemma esc_step_inv:
  assumes "esc_inv env X s" "esc_op_ok env X op s"
  shows "esc_inv env X (esc_step env op s)"
  using assms
proof (cases rule: esc_step_cases)
  case (save r u)
  then show ?thesis using save_inv assms by simp
qed (use assms rewrites_inv in auto)

text \<open>What a step does to one row: nothing, or a move of an unsettled row.\<close>

lemma esc_step_row:
  assumes inv: "esc_inv env X s" and ok: "esc_op_ok env X op s" and r: "dget (ec_outbox s) k = Some r"
  obtains (kept) "dget (ec_outbox (esc_step env op s)) k = Some r"
  | (moved) r' where "dget (ec_outbox (esc_step env op s)) k = Some r'" "esc_move env X r r'"
  using inv ok
proof (cases rule: esc_step_cases)
  case row
  then consider "esc_step env op s = s" | j q q' where "dget (ec_outbox s) j = Some q" "esc_move env X q q'"
      "esc_step env op s = put_escalation_outbox q' s"
    unfolding esc_rewrites_def by blast
  then show ?thesis
  proof cases
    case (2 j q q')
    have "eo_outbox_id q' = j"
      using esc_invD(4) [OF inv 2(1)] 2(2) by (simp add: esc_row_ok_def esc_move_def)
    then show ?thesis
      using 2 r kept moved by (cases "j = k") (auto simp: put_escalation_outbox_def)
  qed (use r kept in simp)
next
  case (save q u)
  have "dget (ec_outbox (snd (save_escalation_outbox env s q u))) k = Some r"
    by (rule save_cases [of env s q u]) (use r in auto)
  then show ?thesis using kept save by simp
qed (use r kept in simp)

lemma esc_step_lease:
  assumes "esc_inv env X s" "esc_op_ok env X op s" "esc_view s k = Some l"
  shows "\<exists>l'. esc_view (esc_step env op s) k = Some l' \<and> lease_move l l'"
proof -
  obtain r where r: "dget (ec_outbox s) k = Some r" "l = esc_lease r"
    using assms(3) by (auto simp: esc_view_def)
  show ?thesis
    by (rule esc_step_row [OF assms(1,2) r(1)]) (auto simp: esc_view_def r(2) esc_move_def)
qed

definition esc_settled :: "escalation_store \<Rightarrow> string \<Rightarrow> escalation_outbox_record option" where
  "esc_settled s k =
     (case dget (ec_outbox s) k of
        None \<Rightarrow> None
      | Some r \<Rightarrow> if eo_status r \<in> {EO_PUBLISHED, EO_FAILED} then Some r else None)"

lemma esc_settled_iff:
  "esc_settled s k = Some r \<longleftrightarrow> dget (ec_outbox s) k = Some r \<and> eo_status r \<in> {EO_PUBLISHED, EO_FAILED}"
  by (auto simp: esc_settled_def split: option.splits)

interpretation esc_lease:
  lease_counter "esc_step env" "esc_op_ok env X" "esc_inv env X" esc_view "esc_issued env X"
  for env X
proof
  show "esc_issued env X c k (l_count l)"
    if "esc_inv env X s" "esc_view s k = Some l" "l_claim l = Some c" for s k l c
    using that esc_invD(4) [of env X s k] by (auto simp: esc_view_def esc_row_ok_def)
qed (auto intro: esc_step_inv esc_step_lease esc_issued_unique)

interpretation esc_final: frozen_machine "esc_step env" "esc_op_ok env X" "esc_inv env X" esc_settled
  for env X
proof
  show "esc_settled (esc_step env op s) k = Some r"
    if "esc_inv env X s" "esc_op_ok env X op s" "esc_settled s k = Some r" for op s k r
    by (rule esc_step_row [OF that(1,2), of k r])
      (use that(3) in \<open>auto simp: esc_settled_iff esc_move_def\<close>)
qed

section \<open>The guards of a publication\<close>

lemma esc_mark_refused:
  assumes "dget (ec_outbox s) k = Some r" "eo_claim_id r \<noteq> Some c"
  shows "\<exists>e. mark_escalation_outbox_published env s k c t u = (Inl e, s)"
    "\<exists>e. mark_escalation_outbox_failed env s k c err t dl u = (Inl e, s)"
  using assms
  by (cases "tenant_visible (eo_tenant_id r) u";
      simp add: mark_escalation_outbox_published_def mark_escalation_outbox_failed_def get_escalation_outbox_def)+

lemma esc_settled_ops:
  assumes "dget (ec_outbox s) k = Some r" "eo_status r \<in> {EO_PUBLISHED, EO_FAILED}"
  shows "fst (requeue_stale_escalation_outbox env s k stale t reason u) = None"
    "dget (ec_outbox_by_escalation s) e = Some k \<Longrightarrow> fst (claim_escalation_outbox s e p c t u) = None"
  using assms
  by (cases "tenant_visible (eo_tenant_id r) u";
      auto simp: requeue_stale_escalation_outbox_def claim_escalation_outbox_def get_outbox_by_escalation_def
        get_escalation_outbox_def)+

lemma esc_mark_again:
  assumes "dget (ec_outbox s) k = Some r" "eo_claim_id r = Some c"
  shows "eo_status r = EO_PUBLISHED \<Longrightarrow> mark_escalation_outbox_published env s k c t None = (Inr r, s)"
    "eo_status r = EO_FAILED \<Longrightarrow> mark_escalation_outbox_failed env s k c err t dl None = (Inr r, s)"
    "eo_status r = EO_PUBLISHED \<Longrightarrow> \<exists>e. mark_escalation_outbox_failed env s k c err t dl None = (Inl e, s)"
    "eo_status r = EO_FAILED \<Longrightarrow> \<exists>e. mark_escalation_outbox_published env s k c t None = (Inl e, s)"
  using assms
  by (simp_all add: mark_escalation_outbox_published_def mark_escalation_outbox_failed_def get_escalation_outbox_def)

section \<open>Worked example\<close>

text \<open>One row is leased to \<open>p1\<close>; the lease expires, \<open>p2\<close> takes over and publishes.\<close>

definition demo_esc_row :: escalation_outbox_record where
  "demo_esc_row = \<lparr>eo_outbox_id = ''o1'', eo_escalation_id = ''e1'', eo_tenant_id = ''t1'',
     eo_status = EO_PENDING, eo_created_at = 0, eo_claimed_at = None, eo_published_at = None,
     eo_publisher_id = None, eo_claim_id = None, eo_republish_count = 0, eo_dead_letter = False,
     eo_last_error = None, eo_metadata = []\<rparr>"

definition esc_demo_X :: "(string \<times> string \<times> int) set" where
  "esc_demo_X = {''o1''} \<times> {''p1'', ''p2''} \<times> {1, 2}"

lemma esc_demo_tokens: "esc_tokens_unique demo_env esc_demo_X"
  by (auto simp: esc_tokens_unique_def esc_demo_X_def inj_on_def escalation_token_def)

definition esc_token1 :: string where
  "esc_token1 = escalation_token demo_env ''o1'' ''p1'' 1"

definition esc_token2 :: string where
  "esc_token2 = escalation_token demo_env ''o1'' ''p2'' 2"

lemma esc_tokens_differ [simp]: "esc_token1 \<noteq> esc_token2" "esc_token2 \<noteq> esc_token1"
  by (simp_all add: esc_token1_def esc_token2_def escalation_token_def)

definition esc_lease_ops :: "esc_op list" where
  "esc_lease_ops = [SaveRow demo_esc_row None, ClaimRow ''e1'' ''p1'' esc_token1 1 None]"

definition esc_takeover_ops :: "esc_op list" where
  "esc_takeover_ops = [RequeueRow ''o1'' 5 5 ''expired'' None, ClaimRow ''e1'' ''p2'' esc_token2 6 None]"

definition esc_publish_ops :: "esc_op list" where
  "esc_publish_ops = [PublishRow ''o1'' esc_token2 7 None]"

lemmas esc_demo_defs = esc_lease_ops_def esc_takeover_ops_def esc_publish_ops_def demo_esc_row_def
  empty_escalation_store_def save_escalation_outbox_def enforce_expected_tenant_def
  claim_escalation_outbox_def get_outbox_by_escalation_def get_escalation_outbox_def
  requeue_stale_escalation_outbox_def mark_escalation_outbox_published_def put_escalation_outbox_def Let_def

lemma esc_demo_legal:
  "legal (esc_step demo_env) (esc_op_ok demo_env esc_demo_X)
     (esc_lease_ops @ esc_takeover_ops @ esc_publish_ops @ [RequeueRow ''o1'' 9 9 ''expired'' None])
     empty_escalation_store"
  by (simp add: esc_demo_defs esc_demo_X_def flip: esc_token1_def esc_token2_def)

lemma esc_leased_row:
  "\<exists>r. dget (ec_outbox (runs (esc_step demo_env) esc_lease_ops empty_escalation_store)) ''o1'' = Some r \<and>
     eo_claim_id r = Some esc_token1 \<and> eo_republish_count r = 1"
  by (simp add: esc_demo_defs)

lemma esc_takeover_row:
  "\<exists>r. dget (ec_outbox (runs (esc_step demo_env) (esc_lease_ops @ esc_takeover_ops) empty_escalation_store)) ''o1''
     = Some r \<and> eo_republish_count r = 2"
  by (simp add: esc_demo_defs)

lemma esc_published_row:
  "\<exists>r. dget (ec_outbox (runs (esc_step demo_env) (esc_lease_ops @ esc_takeover_ops @ esc_publish_ops)
     empty_escalation_store)) ''o1'' = Some r \<and> eo_status r = EO_PUBLISHED"
  by (simp add: esc_demo_defs)

section \<open>Properties\<close>

text \<open>A superseded publisher of a human handoff is fenced off.  If an escalation
  outbox row was leased under a token and later leased again, marking it published or
  failed with the old token raises and changes nothing; and the row's
  \<open>republish_count\<close> has grown by exactly the leases granted in between.\<close>

theorem esc_lease_fenced:
  assumes "esc_tokens_unique env X"
    and "legal (esc_step env) (esc_op_ok env X) (ops @ later) empty_escalation_store"
    and "dget (ec_outbox (runs (esc_step env) ops empty_escalation_store)) k = Some r" "eo_claim_id r = Some c"
    and "s = runs (esc_step env) (ops @ later) empty_escalation_store"
    and "dget (ec_outbox s) k = Some r'" "eo_republish_count r < eo_republish_count r'"
  shows "(\<exists>e. mark_escalation_outbox_published env s k c t u = (Inl e, s)) \<and>
    (\<exists>e. mark_escalation_outbox_failed env s k c err t dl u = (Inl e, s)) \<and>
    eo_republish_count r' = eo_republish_count r +
      int (grants (esc_step env) esc_view k later (runs (esc_step env) ops empty_escalation_store))"
proof -
  have inv: "esc_inv env X (runs (esc_step env) ops empty_escalation_store)"
    using assms(2) esc_lease.runs_inv [OF esc_inv_empty [OF assms(1)]] by (simp add: legal_append)
  have legal: "legal (esc_step env) (esc_op_ok env X) later (runs (esc_step env) ops empty_escalation_store)"
    using assms(2) by (simp add: legal_append)
  have views: "esc_view (runs (esc_step env) ops empty_escalation_store) k = Some (esc_lease r)"
    "esc_view (runs (esc_step env) later (runs (esc_step env) ops empty_escalation_store)) k = Some (esc_lease r')"
    using assms(3,5,6) by (simp_all add: esc_view_def runs_append)
  have "eo_claim_id r' \<noteq> Some c"
    using esc_lease.stale_token [OF inv legal views(1) _ views(2)] assms(4,7) by simp
  moreover have "eo_republish_count r' = eo_republish_count r +
      int (grants (esc_step env) esc_view k later (runs (esc_step env) ops empty_escalation_store))"
    using esc_lease.runs_count [OF inv legal views(1)] views(2) by simp
  ultimately show ?thesis using esc_mark_refused [OF assms(6)] by blast
qed

theorem esc_lease_fenced_witness:
  "\<exists>e. mark_escalation_outbox_published demo_env
     (runs (esc_step demo_env) (esc_lease_ops @ esc_takeover_ops) empty_escalation_store) ''o1'' esc_token1 7 None =
     (Inl e, runs (esc_step demo_env) (esc_lease_ops @ esc_takeover_ops) empty_escalation_store)"
proof -
  have "legal (esc_step demo_env) (esc_op_ok demo_env esc_demo_X) (esc_lease_ops @ esc_takeover_ops)
      empty_escalation_store"
    using esc_demo_legal by (simp add: legal_append)
  moreover obtain r where "dget (ec_outbox (runs (esc_step demo_env) esc_lease_ops empty_escalation_store)) ''o1'' =
      Some r" "eo_claim_id r = Some esc_token1" "eo_republish_count r = 1" using esc_leased_row by blast
  moreover obtain r' where
    "dget (ec_outbox (runs (esc_step demo_env) (esc_lease_ops @ esc_takeover_ops) empty_escalation_store)) ''o1'' =
      Some r'" "eo_republish_count r' = 2" using esc_takeover_row by blast
  ultimately show ?thesis using esc_lease_fenced [OF esc_demo_tokens _ _ _ refl] by simp
qed

text \<open>A settled handoff stays settled.  Once a row is published or failed no
  continuation of any run changes it, it is never leased or requeued again, marking it
  again under its token answers with the same row, and marking it the other way raises.
  In particular a failed publication is final, whether it was a dead letter or not.\<close>

theorem esc_settled_final:
  assumes "esc_tokens_unique env X"
    and "legal (esc_step env) (esc_op_ok env X) (ops @ later) empty_escalation_store"
    and "dget (ec_outbox (runs (esc_step env) ops empty_escalation_store)) k = Some r"
    and "eo_status r \<in> {EO_PUBLISHED, EO_FAILED}" "eo_claim_id r = Some c"
    and "s = runs (esc_step env) (ops @ later) empty_escalation_store"
  shows "dget (ec_outbox s) k = Some r \<and>
    fst (requeue_stale_escalation_outbox env s k stale t reason u) = None \<and>
    fst (claim_escalation_outbox s (eo_escalation_id r) p c' t u) = None \<and>
    (if eo_status r = EO_PUBLISHED then
       mark_escalation_outbox_published env s k c t None = (Inr r, s) \<and>
       (\<exists>e. mark_escalation_outbox_failed env s k c err t dl None = (Inl e, s))
     else
       mark_escalation_outbox_failed env s k c err t dl None = (Inr r, s) \<and>
       (\<exists>e. mark_escalation_outbox_published env s k c t None = (Inl e, s)))"
proof -
  have inv: "esc_inv env X (runs (esc_step env) ops empty_escalation_store)"
    using assms(2) esc_lease.runs_inv [OF esc_inv_empty [OF assms(1)]] by (simp add: legal_append)
  have "esc_settled s k = Some r"
    using esc_final.runs_frozen [OF inv, of later k r] assms(2-4,6)
    by (simp add: legal_append runs_append esc_settled_iff)
  then have r: "dget (ec_outbox s) k = Some r" by (simp add: esc_settled_iff)
  have "esc_inv env X s"
    using assms(2,6) esc_lease.runs_inv [OF esc_inv_empty [OF assms(1)]] by simp
  then have "dget (ec_outbox_by_escalation s) (eo_escalation_id r) = Some k"
    using r esc_invD(3) by (auto simp: esc_rows_indexed_def)
  note ops = esc_settled_ops(1) [OF r assms(4)] esc_settled_ops(2) [OF r assms(4) this]
  from assms(4) consider "eo_status r = EO_PUBLISHED" | "eo_status r = EO_FAILED" by blast
  then show ?thesis
  proof cases
    case 1
    then show ?thesis
      using r ops esc_mark_again(1) [OF r assms(5) 1] esc_mark_again(3) [OF r assms(5) 1, of env err t dl] by auto
  next
    case 2
    then show ?thesis
      using r ops esc_mark_again(2) [OF r assms(5) 2] esc_mark_again(4) [OF r assms(5) 2, of env t] by auto
  qed
qed

theorem esc_settled_final_witness:
  "\<exists>r. dget (ec_outbox (runs (esc_step demo_env) ((esc_lease_ops @ esc_takeover_ops @ esc_publish_ops) @
     [RequeueRow ''o1'' 9 9 ''expired'' None]) empty_escalation_store)) ''o1'' = Some r \<and> eo_status r = EO_PUBLISHED"
proof -
  obtain r where r: "dget (ec_outbox (runs (esc_step demo_env) (esc_lease_ops @ esc_takeover_ops @ esc_publish_ops)
     empty_escalation_store)) ''o1'' = Some r" "eo_status r = EO_PUBLISHED" "eo_claim_id r = Some esc_token2"
    by (simp add: esc_demo_defs)
  have "legal (esc_step demo_env) (esc_op_ok demo_env esc_demo_X)
      ((esc_lease_ops @ esc_takeover_ops @ esc_publish_ops) @ [RequeueRow ''o1'' 9 9 ''expired'' None])
      empty_escalation_store"
    using esc_demo_legal by simp
  then show ?thesis using esc_settled_final [OF esc_demo_tokens _ r(1) _ r(3) refl] r(2) by blast
qed

end
