(* ===== verification/Escalation_Runtime.thy ===== *)
theory Escalation_Runtime
  imports Escalation_Outbox Governance_Records
begin

text \<open>
  The escalation runtime, \<open>app/escalation/runtime/runtime.py\<close>: it turns persisted
  governance denials and escalations into human handoff records, hands their outbox
  rows to publishers, and records a manager's approval or rejection.  It works on the
  escalation store and on the governance repository; the session timeline and the
  release of a held customer reply are ports: functions on a state of their own about
  which nothing is assumed here.  Every method reads the clock once, its
  reading is the argument \<open>now\<close>.
\<close>

section \<open>The world and the ports\<close>

record 'x escalation_world =
  ew_store :: escalation_store
  ew_governance :: governance_store
  ew_rest :: 'x

record 'x escalation_ports =
  sp_uuid_ok :: "string \<Rightarrow> bool"
    \<comment> \<open>\<open>uuid.UUID(text)\<close> does not raise\<close>
  sp_session :: "'x \<Rightarrow> string \<Rightarrow> string \<Rightarrow> bool"
    \<comment> \<open>\<open>get_session\<close> finds the session for the tenant\<close>
  sp_append :: "'x \<Rightarrow> string \<Rightarrow> int \<Rightarrow> metadata \<Rightarrow> string \<Rightarrow> bool \<times> 'x"
    \<comment> \<open>\<open>SessionRuntime.append_event\<close>: session, time, payload, idempotency key\<close>
  sp_release :: "'x \<Rightarrow> governance_store \<Rightarrow> string \<Rightarrow> escalation_record \<Rightarrow> decision_record \<Rightarrow> string
      \<Rightarrow> string \<Rightarrow> string \<Rightarrow> metadata result \<times> governance_store \<times> 'x"
    \<comment> \<open>the release of resolution proposal and draft after an override\<close>

definition bad_uuid :: error where
  "bad_uuid = ValueError ''badly formed hexadecimal UUID string''"

definition require_nonempty :: "string \<Rightarrow> string \<Rightarrow> unit result" where
  "require_nonempty value name =
     (if value = [] \<or> py_strip value = [] then Inl (EscalationRuntimeError (name @ '' is required''))
      else Inr ())"

section \<open>Reading the decision's lineage\<close>

definition SESSION_METADATA_KEYS :: "string list" where
  "SESSION_METADATA_KEYS =
     [''session_id'', ''session.id'', ''operational_session_id'', ''operational.session_id'']"

definition session_id_from_metadata :: "py_env \<Rightarrow> metadata \<Rightarrow> string option" where
  "session_id_from_metadata env m =
     (case filter (\<lambda>text. text \<noteq> [])
             (map (py_str env) (filter (\<lambda>v. v \<noteq> PNone) (map (get_or_none m) SESSION_METADATA_KEYS))) of
        [] \<Rightarrow> None
      | text # _ \<Rightarrow> Some text)"

definition decision_values :: "decision list \<Rightarrow> string list" where
  "decision_values = map decision_value"

definition existing_record_matches_decisions ::
  "py_env \<Rightarrow> escalation_record \<Rightarrow> decision list \<Rightarrow> bool" where
  "existing_record_matches_decisions env r decisions \<longleftrightarrow>
     (let source_decision = get_or_none (esc_metadata r) ''source_decision''
      in if source_decision \<noteq> PNone then py_str env source_decision \<in> set (decision_values decisions)
         else DENY \<in> set decisions)"

definition crisis_metadata_from_rule ::
  "py_env \<Rightarrow> string \<Rightarrow> string \<Rightarrow> string \<Rightarrow> int \<Rightarrow> metadata \<Rightarrow> metadata" where
  "crisis_metadata_from_rule env policy_name rule_id dec severity md =
     (if dec = decision_value ALLOW \<or> take 7 policy_name \<noteq> ''crisis.'' then []
      else [(''crisis'', PBool True), (''crisis_policy'', PStr policy_name),
            (''crisis_rule_id'', PStr rule_id), (''crisis_decision'', PStr dec),
            (''crisis_severity'', PInt severity)] @
        map (\<lambda>k. (''crisis_'' @ k, PStr (py_str env (get_or_none md k))))
          (filter (\<lambda>k. get_or_none md k \<noteq> PNone) [''template'', ''category'', ''sku'', ''redis_key'']))"

text \<open>The first non-empty result over the evaluated rules, then over the violations.\<close>

definition first_nonempty :: "metadata list \<Rightarrow> metadata" where
  "first_nonempty ms = (case filter (\<lambda>m. m \<noteq> []) ms of [] \<Rightarrow> [] | m # _ \<Rightarrow> m)"

definition crisis_handoff_metadata :: "py_env \<Rightarrow> decision_record \<Rightarrow> metadata" where
  "crisis_handoff_metadata env d = first_nonempty
     (map (\<lambda>r. crisis_metadata_from_rule env (er_policy_name r) (er_rule_id r) (er_decision r)
             (er_severity r) (er_metadata r)) (dr_evaluated_rules d) @
      map (\<lambda>v. crisis_metadata_from_rule env (vr_policy_name v) (vr_rule_id v) (vr_decision v)
             (vr_severity v) (vr_metadata v)) (dr_violations d))"

definition handoff_classification ::
  "py_env \<Rightarrow> decision_record \<Rightarrow> handoff_kind \<times> escalation_priority \<times> metadata" where
  "handoff_classification env d =
     (let crisis = crisis_handoff_metadata env d
      in if crisis \<noteq> [] then (HK_CRISIS, EP_HIGH, crisis)
         else if dr_decision d = decision_value ESCALATE then (HK_ESCALATION, EP_HIGH, [])
         else (HK_DENIAL, EP_NORMAL, []))"

definition projection_source :: "decision_record \<Rightarrow> handoff_kind \<Rightarrow> string" where
  "projection_source d kind =
     (if kind = HK_CRISIS then ''governance_crisis''
      else if dr_decision d = decision_value ESCALATE then ''governance_escalation''
      else ''governance_denial'')"

definition has_key :: "metadata \<Rightarrow> string \<Rightarrow> bool" where
  "has_key m k \<longleftrightarrow> dget m k \<noteq> None"

definition handoff_metadata :: "metadata \<Rightarrow> metadata" where
  "handoff_metadata m =
     concat (map (\<lambda>k. case get_or_none m k of PDict d \<Rightarrow> [(k, PDict d)] | _ \<Rightarrow> [])
       [''structured_handoff'', ''grounding_trace''])"

definition grounding_escalation_metadata :: "decision_record \<Rightarrow> metadata" where
  "grounding_escalation_metadata d =
     (case filter (\<lambda>m. has_key m ''structured_handoff'' \<or> has_key m ''grounding_trace'')
             (map er_metadata (dr_evaluated_rules d) @ map vr_metadata (dr_violations d)) of
        [] \<Rightarrow> []
      | m # _ \<Rightarrow> handoff_metadata m)"

definition resolution_proposal_id_from_decision :: "py_env \<Rightarrow> decision_record \<Rightarrow> string option" where
  "resolution_proposal_id_from_decision env d =
     (let proposal_id = get_or_none (dr_metadata d) ''proposal_id'';
          text = py_strip (py_str env proposal_id);
          request_id = py_strip (case dr_request_id d of None \<Rightarrow> [] | Some s \<Rightarrow> s);
          candidate = py_strip (drop 11 request_id)
      in if proposal_id \<noteq> PNone \<and> text \<noteq> [] then Some text
         else if take 11 request_id = ''resolution:'' \<and> candidate \<noteq> [] then Some candidate
         else None)"

section \<open>Creating handoff records\<close>

definition append_grounding_handoff_event ::
  "py_env \<Rightarrow> 'x escalation_ports \<Rightarrow> int \<Rightarrow> 'x escalation_world \<Rightarrow> escalation_record
     \<Rightarrow> decision_record option \<Rightarrow> unit result \<times> 'x escalation_world" where
  "append_grounding_handoff_event env pt now w r d =
     (let md = (case d of
                  None \<Rightarrow> esc_metadata r
                | Some dec \<Rightarrow>
                    if has_key (esc_metadata r) ''structured_handoff'' then esc_metadata r
                    else dmerge (esc_metadata r) (grounding_escalation_metadata dec))
      in if \<not> has_key md ''structured_handoff'' \<and> \<not> has_key md ''grounding_trace'' then (Inr (), w)
         else if \<not> sp_uuid_ok pt (esc_session_id r) then (Inl bad_uuid, w)
         else case sp_append pt (ew_rest w) (esc_session_id r) now
                [(''event_type'', PStr ''grounding_escalation_handoff_created''),
                 (''escalation_id'', PStr (esc_id r)),
                 (''governance_decision_id'', PStr (esc_decision_id r)),
                 (''structured_handoff'', get_or_none md ''structured_handoff''),
                 (''grounding_trace'', get_or_none md ''grounding_trace'')]
                (''grounding-escalation-handoff:'' @ esc_id r) of
              (accepted, x) \<Rightarrow>
                (if accepted then Inr ()
                 else Inl (EscalationRuntimeError ''grounding escalation timeline event append failed''),
                 w\<lparr>ew_rest := x\<rparr>))"

definition new_escalation ::
  "py_env \<Rightarrow> int \<Rightarrow> string \<Rightarrow> string \<Rightarrow> string \<Rightarrow> decision_record \<Rightarrow> escalation_record" where
  "new_escalation env now escalation_id session_id tenant_id d =
     (let (kind, priority, crisis) = handoff_classification env d
      in \<lparr>esc_id = escalation_id, esc_session_id = session_id, esc_tenant_id = tenant_id,
          esc_reason = dr_reason d, esc_decision_id = dr_decision_id d,
          esc_status = escalation_status_value ES_PENDING, esc_created_at = isoformat env now,
          esc_handoff_kind = handoff_kind_value kind, esc_priority = escalation_priority_value priority,
          esc_resolved_at = None, esc_resolution = None, esc_resolved_by = None,
          esc_metadata = dmerge (dmerge
            [(''projection_source'', PStr (projection_source d kind)),
             (''source_governance_decision_id'', PStr (dr_decision_id d)),
             (''source_decision'', PStr (dr_decision d)),
             (''source_policy_chain_id'', PStr (dr_policy_chain_id d)),
             (''source_stage'', PStr (dr_stage d)),
             (''source_subject_kind'', PStr (dr_subject_kind d)),
             (''source_request_id'', opt_pstr (dr_request_id d)),
             (''source_correlation_id'', opt_pstr (dr_correlation_id d)),
             (''session_id'', PStr session_id),
             (''handoff_kind'', PStr (handoff_kind_value kind)),
             (''priority'', PStr (escalation_priority_value priority)),
             (''record_only_agent'', PBool True)] crisis) (grounding_escalation_metadata d)\<rparr>)"

text \<open>What must hold before a new record is written: the source decision is one of the
  tenant's, of an allowed verdict, and names a visible session.\<close>

definition handoff_source ::
  "py_env \<Rightarrow> 'x escalation_ports \<Rightarrow> 'x escalation_world \<Rightarrow> string \<Rightarrow> string \<Rightarrow> string option
     \<Rightarrow> decision list \<Rightarrow> string \<Rightarrow> string \<Rightarrow> (decision_record \<times> string) result" where
  "handoff_source env pt w decision_id tenant_id session_id allowed decision_error label =
     (case get_decision (ew_governance w) decision_id (Some tenant_id) of
        None \<Rightarrow> Inl (EscalationRuntimeError (''unknown governance decision for escalation: '' @ decision_id))
      | Some d \<Rightarrow>
          if dr_decision d \<notin> set (decision_values allowed) then Inl (EscalationRuntimeError decision_error)
          else if dr_tenant_id d \<noteq> Some tenant_id then
            Inl (EscalationRuntimeError ''governance decision tenant_id does not match expected_tenant_id'')
          else
            (case str_or session_id (session_id_from_metadata env (dr_metadata d)) of
               None \<Rightarrow> Inl (EscalationRuntimeError (label @ '' lineage does not include a session_id''))
             | Some sid \<Rightarrow>
                 if \<not> sp_uuid_ok pt sid then Inl bad_uuid
                 else if \<not> sp_session pt (ew_rest w) sid tenant_id then
                   Inl (EscalationRuntimeError (label @ '' session is absent or tenant-invisible: '' @ sid))
                 else Inr (d, sid)))"

definition create_handoff ::
  "py_env \<Rightarrow> 'x escalation_ports \<Rightarrow> int \<Rightarrow> 'x escalation_world \<Rightarrow> string \<Rightarrow> string \<Rightarrow> string option
     \<Rightarrow> decision list \<Rightarrow> string \<Rightarrow> string \<Rightarrow> escalation_record result \<times> 'x escalation_world" where
  "create_handoff env pt now w decision_id tenant_id session_id allowed decision_error label =
     (case require_nonempty tenant_id ''expected_tenant_id'' of Inl e \<Rightarrow> (Inl e, w)
      | Inr _ \<Rightarrow>
     (case get_escalation_for_decision (ew_store w) decision_id (Some tenant_id) of
        Some existing \<Rightarrow>
          if \<not> existing_record_matches_decisions env existing allowed then
            (Inl (EscalationRuntimeError decision_error), w)
          else (case append_grounding_handoff_event env pt now w existing None of
                  (Inl e, w') \<Rightarrow> (Inl e, w')
                | (Inr _, w') \<Rightarrow> (Inr existing, w'))
      | None \<Rightarrow>
     (case handoff_source env pt w decision_id tenant_id session_id allowed decision_error label of
        Inl e \<Rightarrow> (Inl e, w)
      | Inr (d, sid) \<Rightarrow>
     (case derive_escalation_id env tenant_id sid decision_id of Inl e \<Rightarrow> (Inl e, w)
      | Inr i \<Rightarrow>
     (let r = new_escalation env now i sid tenant_id d
      in case create_escalation env (ew_store w) r (Some tenant_id) of
           (Inl e, s) \<Rightarrow> (Inl e, w\<lparr>ew_store := s\<rparr>)
         | (Inr _, s) \<Rightarrow>
             (case append_grounding_handoff_event env pt now (w\<lparr>ew_store := s\<rparr>) r (Some d) of
                (Inl e, w') \<Rightarrow> (Inl e, w')
              | (Inr _, w') \<Rightarrow> (Inr r, w')))))))"

definition create_for_governance_denial ::
  "py_env \<Rightarrow> 'x escalation_ports \<Rightarrow> int \<Rightarrow> 'x escalation_world \<Rightarrow> string \<Rightarrow> string \<Rightarrow> string option
     \<Rightarrow> escalation_record result \<times> 'x escalation_world" where
  "create_for_governance_denial env pt now w decision_id tenant_id session_id =
     create_handoff env pt now w decision_id tenant_id session_id [DENY]
       ''escalation records can only be created from governance DENY'' ''governance denial''"

definition create_for_governance_escalation ::
  "py_env \<Rightarrow> 'x escalation_ports \<Rightarrow> int \<Rightarrow> 'x escalation_world \<Rightarrow> string \<Rightarrow> string \<Rightarrow> string option
     \<Rightarrow> escalation_record result \<times> 'x escalation_world" where
  "create_for_governance_escalation env pt now w decision_id tenant_id session_id =
     create_handoff env pt now w decision_id tenant_id session_id [ESCALATE]
       ''escalation records can only be created from governance ESCALATE'' ''governance escalation''"

definition create_for_governance_decision ::
  "py_env \<Rightarrow> 'x escalation_ports \<Rightarrow> int \<Rightarrow> 'x escalation_world \<Rightarrow> string \<Rightarrow> string \<Rightarrow> string option
     \<Rightarrow> escalation_record result \<times> 'x escalation_world" where
  "create_for_governance_decision env pt now w decision_id tenant_id session_id =
     create_handoff env pt now w decision_id tenant_id session_id [DENY, ESCALATE]
       ''escalation records can only be created from governance DENY or ESCALATE'' ''governance handoff''"

section \<open>The publication row\<close>

definition escalation_outbox_row ::
  "int \<Rightarrow> string \<Rightarrow> escalation_record \<Rightarrow> metadata \<Rightarrow> escalation_outbox_record" where
  "escalation_outbox_row now outbox_id r md =
     \<lparr>eo_outbox_id = outbox_id, eo_escalation_id = esc_id r, eo_tenant_id = esc_tenant_id r,
      eo_status = EO_PENDING, eo_created_at = now, eo_claimed_at = None, eo_published_at = None,
      eo_publisher_id = None, eo_claim_id = None, eo_republish_count = 0, eo_dead_letter = False,
      eo_last_error = None,
      eo_metadata = dmerge
        [(''governance_decision_id'', PStr (esc_decision_id r)), (''session_id'', PStr (esc_session_id r)),
         (''source_decision'', get_or_none (esc_metadata r) ''source_decision''),
         (''handoff_kind'', PStr (esc_handoff_kind r)), (''priority'', PStr (esc_priority r))] md\<rparr>"

definition ensure_outbox_for_escalation ::
  "py_env \<Rightarrow> int \<Rightarrow> 'x escalation_world \<Rightarrow> escalation_record \<Rightarrow> string \<Rightarrow> metadata
     \<Rightarrow> escalation_outbox_record result \<times> 'x escalation_world" where
  "ensure_outbox_for_escalation env now w r tenant_id md =
     (case require_nonempty tenant_id ''expected_tenant_id'' of Inl e \<Rightarrow> (Inl e, w)
      | Inr _ \<Rightarrow>
          if esc_tenant_id r \<noteq> tenant_id then
            (Inl (EscalationRuntimeError ''escalation tenant_id does not match expected_tenant_id''), w)
          else
     (case get_outbox_by_escalation (ew_store w) (esc_id r) (Some tenant_id) of
        Some existing \<Rightarrow> (Inr existing, w)
      | None \<Rightarrow>
     (case derive_escalation_outbox_id env (esc_id r) (esc_tenant_id r) of Inl e \<Rightarrow> (Inl e, w)
      | Inr k \<Rightarrow>
     (case save_escalation_outbox env (ew_store w) (escalation_outbox_row now k r md) (Some tenant_id) of
        (res, s) \<Rightarrow> (res, w\<lparr>ew_store := s\<rparr>)))))"

definition prepare_outbox ::
  "py_env \<Rightarrow> int \<Rightarrow> string \<Rightarrow> metadata \<Rightarrow> escalation_record result \<times> 'x escalation_world
     \<Rightarrow> (escalation_record \<times> escalation_outbox_record) result \<times> 'x escalation_world" where
  "prepare_outbox env now tenant_id md created =
     (case created of
        (Inl e, w) \<Rightarrow> (Inl e, w)
      | (Inr r, w) \<Rightarrow>
          (case ensure_outbox_for_escalation env now w r tenant_id md of
             (Inl e, w') \<Rightarrow> (Inl e, w')
           | (Inr row, w') \<Rightarrow> (Inr (r, row), w')))"

definition prepare_governance_denial_outbox ::
  "py_env \<Rightarrow> 'x escalation_ports \<Rightarrow> int \<Rightarrow> 'x escalation_world \<Rightarrow> string \<Rightarrow> string \<Rightarrow> string option \<Rightarrow> metadata
     \<Rightarrow> (escalation_record \<times> escalation_outbox_record) result \<times> 'x escalation_world" where
  "prepare_governance_denial_outbox env pt now w decision_id tenant_id session_id md =
     prepare_outbox env now tenant_id md
       (create_for_governance_denial env pt now w decision_id tenant_id session_id)"

definition prepare_governance_escalation_outbox ::
  "py_env \<Rightarrow> 'x escalation_ports \<Rightarrow> int \<Rightarrow> 'x escalation_world \<Rightarrow> string \<Rightarrow> string \<Rightarrow> string option \<Rightarrow> metadata
     \<Rightarrow> (escalation_record \<times> escalation_outbox_record) result \<times> 'x escalation_world" where
  "prepare_governance_escalation_outbox env pt now w decision_id tenant_id session_id md =
     prepare_outbox env now tenant_id md
       (create_for_governance_escalation env pt now w decision_id tenant_id session_id)"

definition prepare_governance_decision_outbox ::
  "py_env \<Rightarrow> 'x escalation_ports \<Rightarrow> int \<Rightarrow> 'x escalation_world \<Rightarrow> string \<Rightarrow> string \<Rightarrow> string option \<Rightarrow> metadata
     \<Rightarrow> (escalation_record \<times> escalation_outbox_record) result \<times> 'x escalation_world" where
  "prepare_governance_decision_outbox env pt now w decision_id tenant_id session_id md =
     prepare_outbox env now tenant_id md
       (create_for_governance_decision env pt now w decision_id tenant_id session_id)"

definition rt_get_outbox_by_escalation ::
  "'x escalation_world \<Rightarrow> string \<Rightarrow> string \<Rightarrow> escalation_outbox_record option result" where
  "rt_get_outbox_by_escalation w escalation_id tenant_id =
     (case require_nonempty tenant_id ''expected_tenant_id'' of Inl e \<Rightarrow> Inl e
      | Inr _ \<Rightarrow> Inr (get_outbox_by_escalation (ew_store w) escalation_id (Some tenant_id)))"

definition rt_get_escalation ::
  "'x escalation_world \<Rightarrow> string \<Rightarrow> string \<Rightarrow> escalation_record option result" where
  "rt_get_escalation w escalation_id tenant_id =
     (case require_nonempty tenant_id ''expected_tenant_id'' of Inl e \<Rightarrow> Inl e
      | Inr _ \<Rightarrow> Inr (get_escalation (ew_store w) escalation_id (Some tenant_id)))"

definition rt_list_escalations ::
  "'x escalation_world \<Rightarrow> escalation_query \<Rightarrow> string \<Rightarrow> escalation_record escalation_page result" where
  "rt_list_escalations w q tenant_id =
     (case require_nonempty tenant_id ''expected_tenant_id'' of Inl e \<Rightarrow> Inl e
      | Inr _ \<Rightarrow> Inr (list_escalations (ew_store w) q (Some tenant_id)))"

record escalation_claim_result =
  ecl_claimed :: bool
  ecl_outbox :: "escalation_outbox_record option"
  ecl_reason :: "string option"

definition not_publishable :: "escalation_outbox_record \<Rightarrow> string" where
  "not_publishable r = ''outbox_not_publishable:'' @ escalation_outbox_status_value (eo_status r)"

definition claim_outbox_for_escalation ::
  "py_env \<Rightarrow> int \<Rightarrow> 'x escalation_world \<Rightarrow> string \<Rightarrow> string \<Rightarrow> string
     \<Rightarrow> escalation_claim_result result \<times> 'x escalation_world" where
  "claim_outbox_for_escalation env now w escalation_id publisher_id tenant_id =
     (case require_nonempty publisher_id ''publisher_id'' of Inl e \<Rightarrow> (Inl e, w)
      | Inr _ \<Rightarrow>
     (case require_nonempty tenant_id ''expected_tenant_id'' of Inl e \<Rightarrow> (Inl e, w)
      | Inr _ \<Rightarrow>
     (case get_outbox_by_escalation (ew_store w) escalation_id (Some tenant_id) of
        None \<Rightarrow> (Inr \<lparr>ecl_claimed = False, ecl_outbox = None, ecl_reason = Some ''outbox_missing''\<rparr>, w)
      | Some current \<Rightarrow>
          if eo_status current \<noteq> EO_PENDING then
            (Inr \<lparr>ecl_claimed = False, ecl_outbox = Some current, ecl_reason = Some (not_publishable current)\<rparr>, w)
          else let n = eo_republish_count current + 1
          in case derive_escalation_claim_id env (eo_outbox_id current) publisher_id n of
               Inl e \<Rightarrow> (Inl e, w)
             | Inr claim_id \<Rightarrow>
                 (case claim_escalation_outbox (ew_store w) escalation_id publisher_id claim_id now (Some tenant_id) of
                    (None, s) \<Rightarrow>
                      (Inr \<lparr>ecl_claimed = False, ecl_outbox = None, ecl_reason = Some ''outbox_claim_lost''\<rparr>,
                       w\<lparr>ew_store := s\<rparr>)
                  | (Some r, s) \<Rightarrow>
                      (Inr \<lparr>ecl_claimed = (eo_status r = EO_PUBLISHING \<and> eo_publisher_id r = Some publisher_id \<and>
                                           eo_claim_id r = Some claim_id \<and> eo_republish_count r = n),
                            ecl_outbox = Some r,
                            ecl_reason = (if eo_status r = EO_PUBLISHING then None
                                          else Some (not_publishable r))\<rparr>,
                       w\<lparr>ew_store := s\<rparr>)))))"

definition rt_mark_escalation_published ::
  "py_env \<Rightarrow> int \<Rightarrow> 'x escalation_world \<Rightarrow> string \<Rightarrow> string \<Rightarrow> string
     \<Rightarrow> escalation_outbox_record result \<times> 'x escalation_world" where
  "rt_mark_escalation_published env now w outbox_id claim_id tenant_id =
     (case require_nonempty tenant_id ''expected_tenant_id'' of Inl e \<Rightarrow> (Inl e, w)
      | Inr _ \<Rightarrow>
     (case require_nonempty claim_id ''claim_id'' of Inl e \<Rightarrow> (Inl e, w)
      | Inr _ \<Rightarrow>
     (case mark_escalation_outbox_published env (ew_store w) outbox_id claim_id now (Some tenant_id) of
        (res, s) \<Rightarrow> (res, w\<lparr>ew_store := s\<rparr>))))"

definition rt_mark_escalation_failed ::
  "py_env \<Rightarrow> int \<Rightarrow> 'x escalation_world \<Rightarrow> string \<Rightarrow> string \<Rightarrow> string \<Rightarrow> string \<Rightarrow> bool
     \<Rightarrow> escalation_outbox_record result \<times> 'x escalation_world" where
  "rt_mark_escalation_failed env now w outbox_id claim_id err tenant_id dead_letter =
     (case require_nonempty tenant_id ''expected_tenant_id'' of Inl e \<Rightarrow> (Inl e, w)
      | Inr _ \<Rightarrow>
     (case require_nonempty claim_id ''claim_id'' of Inl e \<Rightarrow> (Inl e, w)
      | Inr _ \<Rightarrow>
     (case mark_escalation_outbox_failed env (ew_store w) outbox_id claim_id err now dead_letter (Some tenant_id) of
        (res, s) \<Rightarrow> (res, w\<lparr>ew_store := s\<rparr>))))"

definition escalation_outbox_page ::
  "escalation_store \<Rightarrow> escalation_outbox_status \<Rightarrow> int option \<Rightarrow> int \<Rightarrow> string option \<Rightarrow> escalation_outbox_record list"
where
  "escalation_outbox_page s st before n tenant_id =
     ep_items (list_escalation_outbox s \<lparr>eoq_outbox_id = None, eoq_escalation_id = None, eoq_tenant_id = None,
       eoq_status = Some st, eoq_claimed_before_or_at = before, eoq_limit = n, eoq_offset = 0\<rparr> tenant_id)"

fun requeue_stale_rows ::
  "py_env \<Rightarrow> int \<Rightarrow> int \<Rightarrow> string option \<Rightarrow> escalation_outbox_record list \<Rightarrow> escalation_store
     \<Rightarrow> escalation_outbox_record list \<times> escalation_store" where
  "requeue_stale_rows env stale now tenant_id [] s = ([], s)"
| "requeue_stale_rows env stale now tenant_id (r # rs) s =
     (let (res, s1) = requeue_stale_escalation_outbox env s (eo_outbox_id r) stale now
                        ''stale_publishing_claim'' tenant_id;
          (requeued, s2) = requeue_stale_rows env stale now tenant_id rs s1
      in ((case res of None \<Rightarrow> requeued | Some r' \<Rightarrow> r' # requeued), s2))"

definition reconcile_stale_escalation_outbox ::
  "py_env \<Rightarrow> int \<Rightarrow> 'x escalation_world \<Rightarrow> int \<Rightarrow> string option \<Rightarrow> int
     \<Rightarrow> escalation_outbox_record list \<times> 'x escalation_world" where
  "reconcile_stale_escalation_outbox env now w stale tenant_id n =
     (let rows = escalation_outbox_page (ew_store w) EO_PUBLISHING (Some stale) n tenant_id;
          (requeued, s) = requeue_stale_rows env stale now tenant_id rows (ew_store w)
      in (requeued, w\<lparr>ew_store := s\<rparr>))"

definition list_pending_escalation_outbox ::
  "'x escalation_world \<Rightarrow> string option \<Rightarrow> int \<Rightarrow> escalation_outbox_record list" where
  "list_pending_escalation_outbox w tenant_id n = escalation_outbox_page (ew_store w) EO_PENDING None n tenant_id"

section \<open>Resolution\<close>

definition ensure_resolvable :: "escalation_record \<Rightarrow> unit result" where
  "ensure_resolvable r =
     (if esc_status r \<notin> set [escalation_status_value ES_PENDING, escalation_status_value ES_REVIEWED] then
        Inl (EscalationResolutionError ''only pending or reviewed escalations can be resolved'')
      else Inr ())"

definition require_record ::
  "'x escalation_world \<Rightarrow> string \<Rightarrow> string \<Rightarrow> escalation_record result" where
  "require_record w escalation_id tenant_id =
     (case get_escalation (ew_store w) escalation_id (Some tenant_id) of
        None \<Rightarrow> Inl (EscalationNotFoundError (''unknown escalation: '' @ escalation_id))
      | Some r \<Rightarrow> Inr r)"

definition no_crisis_override :: error where
  "no_crisis_override = EscalationRuntimeError ''crisis handoffs cannot be resolved through DENY override''"

definition require_source_denial ::
  "'x escalation_world \<Rightarrow> escalation_record \<Rightarrow> string \<Rightarrow> decision_record result" where
  "require_source_denial w r tenant_id =
     (if esc_handoff_kind r = handoff_kind_value HK_CRISIS then Inl no_crisis_override
      else if get_or_none (esc_metadata r) ''crisis'' = PBool True then Inl no_crisis_override
      else case get_decision (ew_governance w) (esc_decision_id r) (Some tenant_id) of
             None \<Rightarrow> Inl (EscalationRuntimeError ''source governance denial is absent or tenant-invisible'')
           | Some d \<Rightarrow>
               if dr_decision d \<noteq> decision_value DENY then
                 Inl (EscalationRuntimeError ''source governance decision is no longer a DENY record'')
               else Inr d)"

definition OVERRIDE_POLICY_CHAIN_ID :: string where
  "OVERRIDE_POLICY_CHAIN_ID = ''escalation.manager_override''"

definition OVERRIDE_POLICY_NAME :: string where
  "OVERRIDE_POLICY_NAME = ''escalation.human_approval''"

definition OVERRIDE_RULE_ID :: string where
  "OVERRIDE_RULE_ID = ''manager_override''"

definition OVERRIDE_HANDLER :: string where
  "OVERRIDE_HANDLER = ''human_manager_override''"

definition override_metadata :: "escalation_record \<Rightarrow> decision_record \<Rightarrow> string \<Rightarrow> string \<Rightarrow> metadata" where
  "override_metadata r d resolution resolved_by =
     [(''override_authority'', PStr ''human_manager''), (''override'', PBool True),
      (''escalation_id'', PStr (esc_id r)), (''source_governance_decision_id'', PStr (dr_decision_id d)),
      (''source_decision'', PStr (dr_decision d)), (''source_policy_chain_id'', PStr (dr_policy_chain_id d)),
      (''session_id'', PStr (esc_session_id r)), (''resolved_by'', PStr resolved_by),
      (''resolution'', PStr resolution), (''tenant_authority_source'', PStr ''human_manager'')]"

definition override_decision_record ::
  "py_env \<Rightarrow> int \<Rightarrow> string \<Rightarrow> escalation_record \<Rightarrow> decision_record \<Rightarrow> string \<Rightarrow> string \<Rightarrow> decision_record" where
  "override_decision_record env now override_id r d resolution resolved_by =
     \<lparr>dr_decision_id = override_id, dr_decision = decision_value ALLOW, dr_stage = dr_stage d,
      dr_policy_chain_id = OVERRIDE_POLICY_CHAIN_ID, dr_reason = resolution,
      dr_decided_at = isoformat env now, dr_correlation_id = dr_correlation_id d,
      dr_request_id = dr_request_id d, dr_tenant_id = Some (esc_tenant_id r),
      dr_subject_kind = ''escalation'', dr_governance_version = ''phase-3-c.manager-override.v1'',
      dr_violations = [], dr_restrictions = [],
      dr_evaluated_rules =
        [\<lparr>er_policy_name = OVERRIDE_POLICY_NAME, er_rule_id = OVERRIDE_RULE_ID,
          er_decision = decision_value ALLOW, er_severity = 10, er_reason = resolution,
          er_evaluated_at = isoformat env now, er_metadata = override_metadata r d resolution resolved_by,
          er_policy_version = ''phase-3-c.manager-override.v1''\<rparr>],
      dr_metadata = override_metadata r d resolution resolved_by\<rparr>"

definition override_trace_record ::
  "string \<Rightarrow> escalation_record \<Rightarrow> decision_record \<Rightarrow> string \<Rightarrow> string \<Rightarrow> governance_trace" where
  "override_trace_record override_id r d resolution resolved_by =
     \<lparr>gt_decision_id = override_id, gt_request_id = dr_request_id d, gt_stage = dr_stage d,
      gt_action = ''escalation:approve'', gt_resource = ''escalation:'' @ esc_id r, gt_actor = resolved_by,
      gt_tenant_id = Some (esc_tenant_id r), gt_status = ''ok'', gt_final_decision = ALLOW,
      gt_policy_chain_id = OVERRIDE_POLICY_CHAIN_ID, gt_policy_traces = [], gt_rule_count = 1,
      gt_violation_count = 0, gt_restriction_count = 0, gt_subject_kind = ''escalation'',
      gt_correlation_id = dr_correlation_id d, gt_enforcement_handler = Some OVERRIDE_HANDLER,
      gt_enforcement_status = Some ''applied'', gt_error = None,
      gt_metadata = override_metadata r d resolution resolved_by\<rparr>"

definition override_action_record ::
  "string \<Rightarrow> string \<Rightarrow> escalation_record \<Rightarrow> decision_record \<Rightarrow> string \<Rightarrow> string \<Rightarrow> enforcement_action" where
  "override_action_record action_id override_id r d resolution resolved_by =
     \<lparr>ac_action_id = action_id, ac_handler_name = OVERRIDE_HANDLER, ac_decision_id = override_id,
      ac_outcome = outcome_value APPLIED, ac_detail = resolution,
      ac_metadata = override_metadata r d resolution resolved_by\<rparr>"

definition record_governance_override ::
  "py_env \<Rightarrow> int \<Rightarrow> governance_store \<Rightarrow> escalation_record \<Rightarrow> decision_record \<Rightarrow> string \<Rightarrow> string
     \<Rightarrow> string result \<times> governance_store" where
  "record_governance_override env now g r d resolution resolved_by =
     (case derive_override_decision_id env (esc_id r) (esc_decision_id r) (esc_tenant_id r) of
        Inl e \<Rightarrow> (Inl e, g)
      | Inr override_id \<Rightarrow>
          if get_decision g override_id (Some (esc_tenant_id r)) \<noteq> None then (Inr override_id, g)
          else
     (case derive_override_action_id env (esc_id r) override_id (esc_tenant_id r) of
        Inl e \<Rightarrow> (Inl e, g)
      | Inr action_id \<Rightarrow>
     (case record_decision env g (override_decision_record env now override_id r d resolution resolved_by) of
        (Inl e, g1) \<Rightarrow> (Inl e, g1)
      | (Inr _, g1) \<Rightarrow>
     (case record_trace env g1 (override_trace_record override_id r d resolution resolved_by) of
        (Inl e, g2) \<Rightarrow> (Inl e, g2)
      | (Inr _, g2) \<Rightarrow>
          (Inr override_id, record_enforcement_action g2
             (override_action_record action_id override_id r d resolution resolved_by))))))"

text \<open>A denial that names no resolution proposal releases nothing; otherwise the port decides.\<close>

definition release_resolution_after_override ::
  "py_env \<Rightarrow> 'x escalation_ports \<Rightarrow> 'x escalation_world \<Rightarrow> escalation_record \<Rightarrow> decision_record \<Rightarrow> string
     \<Rightarrow> string \<Rightarrow> string \<Rightarrow> string \<Rightarrow> metadata result \<times> 'x escalation_world" where
  "release_resolution_after_override env pt w r d override_id resolution resolved_by tenant_id =
     (case resolution_proposal_id_from_decision env d of
        None \<Rightarrow> (Inr [], w)
      | Some proposal_id \<Rightarrow>
          (case sp_release pt (ew_rest w) (ew_governance w) proposal_id r d override_id resolution resolved_by of
             (res, g, x) \<Rightarrow> (res, w\<lparr>ew_governance := g, ew_rest := x\<rparr>)))"

definition resolved_record ::
  "py_env \<Rightarrow> int \<Rightarrow> escalation_record \<Rightarrow> escalation_status \<Rightarrow> string \<Rightarrow> string \<Rightarrow> metadata \<Rightarrow> metadata
     \<Rightarrow> escalation_record" where
  "resolved_record env now r st resolution resolved_by mark md =
     r\<lparr>esc_status := escalation_status_value st, esc_resolved_at := Some (isoformat env now),
       esc_resolution := Some resolution, esc_resolved_by := Some resolved_by,
       esc_metadata := dmerge (dmerge (esc_metadata r)
         ([(''resolution_status'', PStr (escalation_status_value st))] @ mark @
          [(''resolved_by'', PStr resolved_by), (''resolved_at'', PStr (isoformat env now)),
           (''resolution'', PStr resolution)])) md\<rparr>"

definition approve_escalation ::
  "py_env \<Rightarrow> 'x escalation_ports \<Rightarrow> int \<Rightarrow> 'x escalation_world \<Rightarrow> string \<Rightarrow> string \<Rightarrow> string \<Rightarrow> string
     \<Rightarrow> escalation_record result \<times> 'x escalation_world" where
  "approve_escalation env pt now w escalation_id resolution resolved_by tenant_id =
     (case require_nonempty resolution ''resolution'' of Inl e \<Rightarrow> (Inl e, w)
      | Inr _ \<Rightarrow>
     (case require_nonempty resolved_by ''resolved_by'' of Inl e \<Rightarrow> (Inl e, w)
      | Inr _ \<Rightarrow>
     (case require_record w escalation_id tenant_id of Inl e \<Rightarrow> (Inl e, w)
      | Inr r \<Rightarrow>
          if esc_status r = escalation_status_value ES_APPROVED then (Inr r, w)
          else
     (case ensure_resolvable r of Inl e \<Rightarrow> (Inl e, w)
      | Inr _ \<Rightarrow>
     (case require_source_denial w r tenant_id of Inl e \<Rightarrow> (Inl e, w)
      | Inr d \<Rightarrow>
     (case record_governance_override env now (ew_governance w) r d resolution resolved_by of
        (Inl e, g) \<Rightarrow> (Inl e, w\<lparr>ew_governance := g\<rparr>)
      | (Inr override_id, g) \<Rightarrow>
     (case release_resolution_after_override env pt (w\<lparr>ew_governance := g\<rparr>) r d override_id resolution
             resolved_by tenant_id of
        (Inl e, w1) \<Rightarrow> (Inl e, w1)
      | (Inr released, w1) \<Rightarrow>
          let updated = resolved_record env now r ES_APPROVED resolution resolved_by
                          [(''governance_override_decision_id'', PStr override_id)] released
          in case update_escalation env (ew_store w1) updated (Some tenant_id) of
               (Inl e, s) \<Rightarrow> (Inl e, w1\<lparr>ew_store := s\<rparr>)
             | (Inr _, s) \<Rightarrow> (Inr updated, w1\<lparr>ew_store := s\<rparr>))))))))"

definition reject_escalation ::
  "py_env \<Rightarrow> int \<Rightarrow> 'x escalation_world \<Rightarrow> string \<Rightarrow> string \<Rightarrow> string \<Rightarrow> string
     \<Rightarrow> escalation_record result \<times> 'x escalation_world" where
  "reject_escalation env now w escalation_id resolution resolved_by tenant_id =
     (case require_nonempty resolution ''resolution'' of Inl e \<Rightarrow> (Inl e, w)
      | Inr _ \<Rightarrow>
     (case require_nonempty resolved_by ''resolved_by'' of Inl e \<Rightarrow> (Inl e, w)
      | Inr _ \<Rightarrow>
     (case require_record w escalation_id tenant_id of Inl e \<Rightarrow> (Inl e, w)
      | Inr r \<Rightarrow>
          if esc_status r = escalation_status_value ES_REJECTED then (Inr r, w)
          else
     (case ensure_resolvable r of Inl e \<Rightarrow> (Inl e, w)
      | Inr _ \<Rightarrow>
     (case require_source_denial w r tenant_id of Inl e \<Rightarrow> (Inl e, w)
      | Inr d \<Rightarrow>
          let updated = resolved_record env now r ES_REJECTED resolution resolved_by
                          [(''denial_lineage_intact'', PBool True)] []
          in case update_escalation env (ew_store w) updated (Some tenant_id) of
               (Inl e, s) \<Rightarrow> (Inl e, w\<lparr>ew_store := s\<rparr>)
             | (Inr _, s) \<Rightarrow> (Inr updated, w\<lparr>ew_store := s\<rparr>))))))"

end
