(* ===== verification/Escalation_Safety.thy ===== *)
theory Escalation_Safety
  imports Escalation_Runtime
begin

text \<open>
  What the escalation runtime guarantees: its calls are legal runs of store operations
  that update only unresolved records, a resolution is final, an approval records one
  override and a rejection none, and handoffs are created once per governance decision
  from that decision.
\<close>

section \<open>Calls\<close>

datatype esc_call =
    CallCreateDenial int string string "string option"
  | CallCreateEscalation int string string "string option"
  | CallCreateDecision int string string "string option"
  | CallPrepareDenial int string string "string option" metadata
  | CallPrepareEscalation int string string "string option" metadata
  | CallPrepareDecision int string string "string option" metadata
  | CallEnsure int escalation_record string metadata
  | CallClaim int string string string
  | CallPublished int string string string
  | CallFailed int string string string string bool
  | CallReconcile int int "string option" int
  | CallApprove int string string string string
  | CallReject int string string string string

fun esc_call_step ::
  "py_env \<Rightarrow> 'x escalation_ports \<Rightarrow> esc_call \<Rightarrow> 'x escalation_world \<Rightarrow> 'x escalation_world" where
  "esc_call_step env pt (CallCreateDenial now d t sid) w = snd (create_for_governance_denial env pt now w d t sid)"
| "esc_call_step env pt (CallCreateEscalation now d t sid) w =
     snd (create_for_governance_escalation env pt now w d t sid)"
| "esc_call_step env pt (CallCreateDecision now d t sid) w =
     snd (create_for_governance_decision env pt now w d t sid)"
| "esc_call_step env pt (CallPrepareDenial now d t sid m) w =
     snd (prepare_governance_denial_outbox env pt now w d t sid m)"
| "esc_call_step env pt (CallPrepareEscalation now d t sid m) w =
     snd (prepare_governance_escalation_outbox env pt now w d t sid m)"
| "esc_call_step env pt (CallPrepareDecision now d t sid m) w =
     snd (prepare_governance_decision_outbox env pt now w d t sid m)"
| "esc_call_step env pt (CallEnsure now r t m) w = snd (ensure_outbox_for_escalation env now w r t m)"
| "esc_call_step env pt (CallClaim now e p t) w = snd (claim_outbox_for_escalation env now w e p t)"
| "esc_call_step env pt (CallPublished now k c t) w = snd (rt_mark_escalation_published env now w k c t)"
| "esc_call_step env pt (CallFailed now k c err t dl) w = snd (rt_mark_escalation_failed env now w k c err t dl)"
| "esc_call_step env pt (CallReconcile now stale t n) w = snd (reconcile_stale_escalation_outbox env now w stale t n)"
| "esc_call_step env pt (CallApprove now i res actor t) w = snd (approve_escalation env pt now w i res actor t)"
| "esc_call_step env pt (CallReject now i res actor t) w = snd (reject_escalation env now w i res actor t)"

text \<open>The leases a run grants are among those of \<open>X\<close>, whose tokens do not collide.\<close>

fun esc_call_ok ::
  "(string \<times> string \<times> int) set \<Rightarrow> esc_call \<Rightarrow> 'x escalation_world \<Rightarrow> bool" where
  "esc_call_ok X (CallClaim now e p t) w \<longleftrightarrow>
     (\<forall>r. get_outbox_by_escalation (ew_store w) e (Some t) = Some r \<longrightarrow>
        (eo_outbox_id r, p, eo_republish_count r + 1) \<in> X)"
| "esc_call_ok X _ w \<longleftrightarrow> True"

section \<open>Resolved records and guarded store operations\<close>

definition resolved_status :: "string \<Rightarrow> bool" where
  "resolved_status st \<longleftrightarrow>
     st = escalation_status_value ES_APPROVED \<or> st = escalation_status_value ES_REJECTED"

definition esc_resolved :: "escalation_store \<Rightarrow> string \<Rightarrow> escalation_record option" where
  "esc_resolved s i =
     (case dget (ec_records s) i of
        None \<Rightarrow> None
      | Some r \<Rightarrow> if resolved_status (esc_status r) then Some r else None)"

lemma esc_resolved_iff:
  "esc_resolved s i = Some r \<longleftrightarrow> dget (ec_records s) i = Some r \<and> resolved_status (esc_status r)"
  by (auto simp: esc_resolved_def split: option.splits)

text \<open>The runtime updates a record only while it is unresolved.\<close>

definition esc_guarded ::
  "py_env \<Rightarrow> (string \<times> string \<times> int) set \<Rightarrow> esc_op \<Rightarrow> escalation_store \<Rightarrow> bool" where
  "esc_guarded env X op s \<longleftrightarrow> esc_op_ok env X op s \<and>
     (\<forall>r u. op = UpdateEscalation r u \<longrightarrow> esc_resolved s (esc_id r) = None)"

lemma create_keeps:
  "dget (ec_records s) i = Some r \<Longrightarrow> dget (ec_records (snd (create_escalation env s q u))) i = Some r"
  by (auto simp: create_escalation_def split: sum.split)

lemma update_keeps:
  "dget (ec_records s) i = Some r \<Longrightarrow> esc_id q \<noteq> i \<Longrightarrow>
     dget (ec_records (snd (update_escalation env s q u))) i = Some r"
  by (auto simp: update_escalation_def split: sum.split option.split)

lemma outbox_ops_records [simp]:
  "ec_records (snd (save_escalation_outbox env s row u)) = ec_records s"
  "ec_records (snd (claim_escalation_outbox s e p c t u)) = ec_records s"
  "ec_records (snd (mark_escalation_outbox_published env s k c t u)) = ec_records s"
  "ec_records (snd (mark_escalation_outbox_failed env s k c err t dl u)) = ec_records s"
  "ec_records (snd (requeue_stale_escalation_outbox env s k stale t reason u)) = ec_records s"
  by (auto simp: save_escalation_outbox_def claim_escalation_outbox_def mark_escalation_outbox_published_def
      mark_escalation_outbox_failed_def requeue_stale_escalation_outbox_def put_escalation_outbox_def Let_def
      split: sum.split option.split)

lemma guarded_step_resolved:
  assumes "esc_guarded env X op s" "esc_resolved s i = Some r"
  shows "esc_resolved (esc_step env op s) i = Some r"
proof -
  from assms(2) have r: "dget (ec_records s) i = Some r" "resolved_status (esc_status r)"
    by (simp_all add: esc_resolved_iff)
  have "dget (ec_records (esc_step env op s)) i = Some r"
  proof (cases op)
    case (UpdateEscalation q u)
    then have "esc_id q \<noteq> i" using assms by (auto simp: esc_guarded_def)
    then show ?thesis using update_keeps [OF r(1)] UpdateEscalation by simp
  qed (use r create_keeps in auto)
  then show ?thesis using r(2) by (simp add: esc_resolved_iff)
qed

interpretation esc_resolution:
  frozen_machine "esc_step env" "esc_guarded env X" "esc_inv env X" esc_resolved
  for env X
  by unfold_locales (auto simp: esc_guarded_def intro: esc_step_inv guarded_step_resolved)

section \<open>Calls are guarded runs\<close>

definition esc_reaches ::
  "py_env \<Rightarrow> (string \<times> string \<times> int) set \<Rightarrow> escalation_store \<Rightarrow> escalation_store \<Rightarrow> bool" where
  "esc_reaches env X s s' \<longleftrightarrow>
     (\<exists>ops. legal (esc_step env) (esc_guarded env X) ops s \<and> s' = runs (esc_step env) ops s)"

lemma esc_reaches_refl [simp]: "esc_reaches env X s s"
  unfolding esc_reaches_def by (rule exI [of _ "[]"]) simp

lemma esc_reaches_step: "esc_guarded env X op s \<Longrightarrow> s' = esc_step env op s \<Longrightarrow> esc_reaches env X s s'"
  unfolding esc_reaches_def by (rule exI [of _ "[op]"]) simp

lemma esc_reaches_trans: "esc_reaches env X s s' \<Longrightarrow> esc_reaches env X s' s'' \<Longrightarrow> esc_reaches env X s s''"
  unfolding esc_reaches_def by (metis legal_append runs_append)

lemma esc_reaches_inv: "esc_reaches env X s s' \<Longrightarrow> esc_inv env X s \<Longrightarrow> esc_inv env X s'"
  unfolding esc_reaches_def using esc_resolution.runs_inv by blast

lemma esc_reaches_resolved:
  "esc_reaches env X s s' \<Longrightarrow> esc_inv env X s \<Longrightarrow> esc_resolved s i = Some r \<Longrightarrow> esc_resolved s' i = Some r"
  unfolding esc_reaches_def using esc_resolution.runs_frozen by blast

lemma esc_reaches_create: "esc_reaches env X s (snd (create_escalation env s r u))"
  by (rule esc_reaches_step [of _ _ "CreateEscalation r u"]) (simp_all add: esc_guarded_def)

lemma esc_reaches_save:
  "esc_reaches env X s (snd (save_escalation_outbox env s (escalation_outbox_row now k r m) u))"
  by (rule esc_reaches_step [of _ _ "SaveRow (escalation_outbox_row now k r m) u"])
    (simp_all add: esc_guarded_def escalation_outbox_row_def)

lemma esc_reaches_published: "esc_reaches env X s (snd (mark_escalation_outbox_published env s k c t u))"
  by (rule esc_reaches_step [of _ _ "PublishRow k c t u"]) (simp_all add: esc_guarded_def)

lemma esc_reaches_failed: "esc_reaches env X s (snd (mark_escalation_outbox_failed env s k c err t dl u))"
  by (rule esc_reaches_step [of _ _ "FailRow k c err t dl u"]) (simp_all add: esc_guarded_def)

lemma esc_reaches_requeue: "esc_reaches env X s (snd (requeue_stale_escalation_outbox env s k stale t reason u))"
  by (rule esc_reaches_step [of _ _ "RequeueRow k stale t reason u"]) (simp_all add: esc_guarded_def)

subsection \<open>Frames\<close>

lemma append_frame [simp]:
  "ew_store (snd (append_grounding_handoff_event env pt now w r d)) = ew_store w"
  "ew_governance (snd (append_grounding_handoff_event env pt now w r d)) = ew_governance w"
  by (simp_all add: append_grounding_handoff_event_def Let_def split: prod.split)

lemma append_frameD:
  assumes "append_grounding_handoff_event env pt now w r d = (res, w')"
  shows "ew_store w' = ew_store w \<and> ew_governance w' = ew_governance w"
  using append_frame [of env pt now w r d] by (simp_all add: assms)

lemma release_frame [simp]:
  "ew_store (snd (release_resolution_after_override env pt w r d i res actor t)) = ew_store w"
  by (simp add: release_resolution_after_override_def split: option.split prod.split)

lemma create_handoff_store:
  "ew_store (snd (create_handoff env pt now w d t sid allowed err label)) = ew_store w \<or>
   (\<exists>r u. ew_store (snd (create_handoff env pt now w d t sid allowed err label)) =
      snd (create_escalation env (ew_store w) r u))"
proof (cases "require_nonempty t ''expected_tenant_id''")
  case (Inr u)
  note nonempty = this
  show ?thesis
  proof (cases "get_escalation_for_decision (ew_store w) d (Some t)")
    case None
    show ?thesis
    proof (cases "handoff_source env pt w d t sid allowed err label")
      case (Inr p)
      obtain dec s where p: "p = (dec, s)" by force
      show ?thesis
      proof (cases "derive_escalation_id env t s d")
        case (Inr i)
        obtain res st where c: "create_escalation env (ew_store w) (new_escalation env now i s t dec) (Some t) = (res, st)"
          by force
        then have st: "st = snd (create_escalation env (ew_store w) (new_escalation env now i s t dec) (Some t))"
          by simp
        have "ew_store (snd (create_handoff env pt now w d t sid allowed err label)) = st"
          using nonempty None \<open>handoff_source env pt w d t sid allowed err label = Inr p\<close> p Inr c
          by (auto simp: create_handoff_def Let_def dest!: append_frameD split: sum.split prod.split)
        then show ?thesis using st by blast
      qed (use nonempty None Inr p in \<open>simp add: create_handoff_def\<close>)
    qed (use nonempty None in \<open>simp add: create_handoff_def\<close>)
  next
    case (Some r)
    then show ?thesis
      using nonempty
      by (auto simp: create_handoff_def dest!: append_frameD split: sum.split prod.split)
  qed
qed (simp add: create_handoff_def)

lemma create_handoff_reaches:
  "esc_reaches env X (ew_store w) (ew_store (snd (create_handoff env pt now w d t sid allowed err label)))"
  using create_handoff_store [of env pt now w d t sid allowed err label] esc_reaches_create [of env X "ew_store w"]
  by (elim disjE exE) simp_all

lemma ensure_reaches:
  "esc_reaches env X (ew_store w) (ew_store (snd (ensure_outbox_for_escalation env now w r t m)))"
proof (cases "derive_escalation_outbox_id env (esc_id r) (esc_tenant_id r)")
  case (Inr k)
  have "ew_store (snd (ensure_outbox_for_escalation env now w r t m)) \<in>
      {ew_store w, snd (save_escalation_outbox env (ew_store w) (escalation_outbox_row now k r m) (Some t))}"
    by (simp add: ensure_outbox_for_escalation_def Inr split: sum.split option.split prod.split)
  then show ?thesis using esc_reaches_save [of env X "ew_store w"] by (elim insertE emptyE) simp_all
qed (simp add: ensure_outbox_for_escalation_def split: sum.split option.split)

lemma prepare_reaches:
  assumes "esc_reaches env X s (ew_store (snd created))"
  shows "esc_reaches env X s (ew_store (snd (prepare_outbox env now t m created)))"
proof -
  obtain res w where c: "created = (res, w)" by force
  show ?thesis
  proof (cases res)
    case (Inr r)
    have "ew_store (snd (prepare_outbox env now t m created)) =
        ew_store (snd (ensure_outbox_for_escalation env now w r t m))"
      by (simp add: prepare_outbox_def c Inr split: sum.split prod.split)
    then show ?thesis using assms c esc_reaches_trans ensure_reaches by fastforce
  qed (use assms c in \<open>simp add: prepare_outbox_def\<close>)
qed

lemma requeue_rows_reaches:
  "esc_reaches env X s (snd (requeue_stale_rows env stale now t rows s))"
proof (induction rows arbitrary: s)
  case (Cons r rows)
  obtain res s1 where q: "requeue_stale_escalation_outbox env s (eo_outbox_id r) stale now
      ''stale_publishing_claim'' t = (res, s1)" by force
  then have "esc_reaches env X s s1" using esc_reaches_requeue by (metis snd_conv)
  then show ?case using Cons.IH [of s1] esc_reaches_trans by (fastforce simp: q Let_def split: prod.split)
qed simp

lemma reconcile_reaches:
  "esc_reaches env X (ew_store w) (ew_store (snd (reconcile_stale_escalation_outbox env now w stale t n)))"
  using requeue_rows_reaches [of env X "ew_store w"]
  by (auto simp: reconcile_stale_escalation_outbox_def Let_def split: prod.split) (metis snd_conv)+

lemma mark_reaches:
  "esc_reaches env X (ew_store w) (ew_store (snd (rt_mark_escalation_published env now w k c t)))"
  "esc_reaches env X (ew_store w) (ew_store (snd (rt_mark_escalation_failed env now w k c err t dl)))"
proof -
  have "ew_store (snd (rt_mark_escalation_published env now w k c t)) \<in>
      {ew_store w, snd (mark_escalation_outbox_published env (ew_store w) k c now (Some t))}"
    by (simp add: rt_mark_escalation_published_def split: sum.split prod.split)
  then show "esc_reaches env X (ew_store w) (ew_store (snd (rt_mark_escalation_published env now w k c t)))"
    using esc_reaches_published [of env X "ew_store w"] by (elim insertE emptyE) simp_all
  have "ew_store (snd (rt_mark_escalation_failed env now w k c err t dl)) \<in>
      {ew_store w, snd (mark_escalation_outbox_failed env (ew_store w) k c err now dl (Some t))}"
    by (simp add: rt_mark_escalation_failed_def split: sum.split prod.split)
  then show "esc_reaches env X (ew_store w) (ew_store (snd (rt_mark_escalation_failed env now w k c err t dl)))"
    using esc_reaches_failed [of env X "ew_store w"] by (elim insertE emptyE) simp_all
qed

lemma claim_reaches:
  assumes inv: "esc_inv env X (ew_store w)" and ok: "esc_call_ok X (CallClaim now e p t) w"
  shows "esc_reaches env X (ew_store w) (ew_store (snd (claim_outbox_for_escalation env now w e p t)))"
proof (cases "get_outbox_by_escalation (ew_store w) e (Some t)")
  case (Some r)
  show ?thesis
  proof (cases "derive_escalation_claim_id env (eo_outbox_id r) p (eo_republish_count r + 1)")
    case (Inr c)
    then have c: "c = escalation_token env (eo_outbox_id r) p (eo_republish_count r + 1)"
      by (auto simp: derive_escalation_claim_id_def split: if_splits)
    have "ew_store (snd (claim_outbox_for_escalation env now w e p t)) \<in>
        {ew_store w, snd (claim_escalation_outbox (ew_store w) e p c now (Some t))}"
      by (simp add: claim_outbox_for_escalation_def Some Inr Let_def split: sum.split prod.split option.split)
    moreover have "esc_reaches env X (ew_store w) (snd (claim_escalation_outbox (ew_store w) e p c now (Some t)))"
      by (rule esc_reaches_step [of _ _ "ClaimRow e p c now (Some t)"])
        (use ok Some c in \<open>simp_all add: esc_guarded_def\<close>)
    ultimately show ?thesis by (elim insertE emptyE) simp_all
  qed (simp add: claim_outbox_for_escalation_def Some Let_def split: sum.split)
qed (simp add: claim_outbox_for_escalation_def split: sum.split)

text \<open>A resolution rewrites the record it read, which was unresolved.\<close>

lemma require_recordD:
  assumes "esc_inv env X (ew_store w)" "require_record w i t = Inr r"
  shows "dget (ec_records (ew_store w)) i = Some r" "esc_id r = i" "esc_tenant_id r = t"
proof -
  have "get_escalation (ew_store w) i (Some t) = Some r"
    using assms(2) by (auto simp: require_record_def split: option.splits)
  then show r: "dget (ec_records (ew_store w)) i = Some r" "esc_tenant_id r = t"
    by (auto simp: get_escalation_def split: option.splits if_splits)
  then show "esc_id r = i" using esc_invD(2) [OF assms(1)] by (auto simp: esc_records_indexed_def)
qed

lemma ensure_resolvableD: "ensure_resolvable r = Inr u \<Longrightarrow> \<not> resolved_status (esc_status r)"
  by (auto simp: ensure_resolvable_def resolved_status_def split: if_splits)

lemma resolve_reaches:
  assumes inv: "esc_inv env X (ew_store w)" and r: "require_record w i t = Inr r"
    and u: "ensure_resolvable r = Inr u"
  shows "esc_reaches env X (ew_store w)
    (snd (update_escalation env (ew_store w) (resolved_record env now r st res actor mark md) (Some t)))"
proof (rule esc_reaches_step [of _ _ "UpdateEscalation (resolved_record env now r st res actor mark md) (Some t)"])
  have "esc_resolved (ew_store w) i = None"
    using require_recordD(1) [OF inv r] ensure_resolvableD [OF u] by (simp add: esc_resolved_def)
  then show "esc_guarded env X (UpdateEscalation (resolved_record env now r st res actor mark md) (Some t)) (ew_store w)"
    using require_recordD(2) [OF inv r] by (simp add: esc_guarded_def resolved_record_def)
qed simp

lemma approve_resolvable_store:
  assumes r: "require_record w i t = Inr r" and u: "ensure_resolvable r = Inr u"
  shows "ew_store (snd (approve_escalation env pt now w i res actor t)) = ew_store w \<or>
   (\<exists>mark md. ew_store (snd (approve_escalation env pt now w i res actor t)) =
      snd (update_escalation env (ew_store w) (resolved_record env now r ES_APPROVED res actor mark md) (Some t)))"
proof (cases "require_source_denial w r t")
  case (Inl e)
  then show ?thesis using r u by (auto simp: approve_escalation_def split: sum.split)
next
  case d: (Inr d)
  obtain ov g where g: "record_governance_override env now (ew_governance w) r d res actor = (ov, g)" by force
  obtain m w1 where m: "release_resolution_after_override env pt (w\<lparr>ew_governance := g\<rparr>) r d (projr ov) res actor t =
      (m, w1)" by force
  then have w1: "ew_store w1 = ew_store w"
    using release_frame [of env pt "w\<lparr>ew_governance := g\<rparr>" r d "projr ov" res actor t] by simp
  show ?thesis
    using r u d g m w1
    by (cases ov; cases m) (auto simp: approve_escalation_def Let_def split: sum.split prod.split, (metis snd_conv)+)
qed

lemma approve_store:
  "ew_store (snd (approve_escalation env pt now w i res actor t)) = ew_store w \<or>
   (\<exists>r u mark md. require_record w i t = Inr r \<and> ensure_resolvable r = Inr u \<and>
      ew_store (snd (approve_escalation env pt now w i res actor t)) =
        snd (update_escalation env (ew_store w) (resolved_record env now r ES_APPROVED res actor mark md) (Some t)))"
proof (cases "\<exists>r u. require_record w i t = Inr r \<and> ensure_resolvable r = Inr u")
  case True
  then show ?thesis using approve_resolvable_store by fastforce
next
  case False
  then show ?thesis by (auto simp: approve_escalation_def split: sum.split)
qed

lemma reject_store:
  "ew_store (snd (reject_escalation env now w i res actor t)) = ew_store w \<or>
   (\<exists>r u mark md. require_record w i t = Inr r \<and> ensure_resolvable r = Inr u \<and>
      ew_store (snd (reject_escalation env now w i res actor t)) =
        snd (update_escalation env (ew_store w) (resolved_record env now r ES_REJECTED res actor mark md) (Some t)))"
proof (cases "require_record w i t")
  case (Inr r)
  then show ?thesis
    by (auto simp: reject_escalation_def Let_def split: sum.split prod.split) (metis snd_conv)+
qed (simp add: reject_escalation_def split: sum.split)

lemma esc_call_reaches:
  assumes inv: "esc_inv env X (ew_store w)" and ok: "esc_call_ok X c w"
  shows "esc_reaches env X (ew_store w) (ew_store (esc_call_step env pt c w))"
proof (cases c)
  case (CallClaim now e p t)
  then show ?thesis using claim_reaches [OF inv] ok by simp
next
  case (CallApprove now i res actor t)
  then show ?thesis
    using approve_store [of env pt now w i res actor t] resolve_reaches [OF inv] by (elim disjE exE conjE) simp_all
next
  case (CallReject now i res actor t)
  then show ?thesis
    using reject_store [of env now w i res actor t] resolve_reaches [OF inv] by (elim disjE exE conjE) simp_all
qed (simp_all add: create_for_governance_denial_def create_for_governance_escalation_def
    create_for_governance_decision_def prepare_governance_denial_outbox_def
    prepare_governance_escalation_outbox_def prepare_governance_decision_outbox_def
    create_handoff_reaches prepare_reaches ensure_reaches mark_reaches reconcile_reaches)

interpretation esc_calls:
  guarded_machine "esc_call_step env pt" "esc_call_ok X" "\<lambda>w. esc_inv env X (ew_store w)"
  for env pt X
  by unfold_locales (rule esc_reaches_inv [OF esc_call_reaches])

interpretation esc_call_resolution:
  frozen_machine "esc_call_step env pt" "esc_call_ok X" "\<lambda>w. esc_inv env X (ew_store w)"
    "\<lambda>w. esc_resolved (ew_store w)"
  for env pt X
  by unfold_locales (rule esc_reaches_resolved [OF esc_call_reaches])

section \<open>Resolution\<close>

lemma require_nonempty_Inr: "require_nonempty v n = Inr u \<longleftrightarrow> py_strip v \<noteq> []"
  by (auto simp: require_nonempty_def py_strip_def)

lemma require_record_get:
  "get_escalation (ew_store w) i (Some t) = Some r \<Longrightarrow> require_record w i t = Inr r"
  by (simp add: require_record_def)

text \<open>Resolving a resolved record again.\<close>

lemma resolve_again:
  assumes "get_escalation (ew_store w) i (Some t) = Some r" "resolved_status (esc_status r)"
    and "py_strip res \<noteq> []" "py_strip actor \<noteq> []"
  shows "approve_escalation env pt now w i res actor t =
      (if esc_status r = escalation_status_value ES_APPROVED then Inr r
       else Inl (EscalationResolutionError ''only pending or reviewed escalations can be resolved''), w)"
    and "reject_escalation env now w i res actor t =
      (if esc_status r = escalation_status_value ES_REJECTED then Inr r
       else Inl (EscalationResolutionError ''only pending or reviewed escalations can be resolved''), w)"
proof -
  have n: "require_nonempty res ''resolution'' = Inr ()" "require_nonempty actor ''resolved_by'' = Inr ()"
    using assms(3,4) by (simp_all add: require_nonempty_Inr)
  show "approve_escalation env pt now w i res actor t =
      (if esc_status r = escalation_status_value ES_APPROVED then Inr r
       else Inl (EscalationResolutionError ''only pending or reviewed escalations can be resolved''), w)"
    using assms(2) n require_record_get [OF assms(1)]
    by (auto simp: approve_escalation_def resolved_status_def ensure_resolvable_def)
  show "reject_escalation env now w i res actor t =
      (if esc_status r = escalation_status_value ES_REJECTED then Inr r
       else Inl (EscalationResolutionError ''only pending or reviewed escalations can be resolved''), w)"
    using assms(2) n require_record_get [OF assms(1)]
    by (auto simp: reject_escalation_def resolved_status_def ensure_resolvable_def)
qed

text \<open>When a manager may resolve a record: it is unresolved, is no crisis handoff, and its
  source decision is a visible denial.\<close>

definition resolvable :: "'x escalation_world \<Rightarrow> string \<Rightarrow> escalation_record \<Rightarrow> decision_record \<Rightarrow> bool" where
  "resolvable w t r d \<longleftrightarrow>
     esc_status r \<in> {escalation_status_value ES_PENDING, escalation_status_value ES_REVIEWED} \<and>
     esc_handoff_kind r \<noteq> handoff_kind_value HK_CRISIS \<and>
     get_or_none (esc_metadata r) ''crisis'' \<noteq> PBool True \<and>
     get_decision (ew_governance w) (esc_decision_id r) (Some t) = Some d \<and>
     dr_decision d = decision_value DENY"

lemma resolvable_checks:
  "resolvable w t r d \<Longrightarrow> ensure_resolvable r = Inr () \<and> require_source_denial w r t = Inr d"
  by (auto simp: resolvable_def ensure_resolvable_def require_source_denial_def)

lemma not_resolvable_checks:
  assumes "\<nexists>d. resolvable w t r d"
  shows "is_error (ensure_resolvable r) \<or> is_error (require_source_denial w r t)"
  using assms
  by (cases "get_decision (ew_governance w) (esc_decision_id r) (Some t)")
    (auto simp: resolvable_def ensure_resolvable_def require_source_denial_def)

lemma not_resolvable_refused:
  assumes "get_escalation (ew_store w) i (Some t) = Some r" "\<not> resolved_status (esc_status r)"
    and "\<nexists>d. resolvable w t r d"
  shows "is_error (fst (approve_escalation env pt now w i res actor t))"
    "snd (approve_escalation env pt now w i res actor t) = w"
    "is_error (fst (reject_escalation env now w i res actor t))"
    "snd (reject_escalation env now w i res actor t) = w"
proof -
  note r = require_record_get [OF assms(1)] and nr = not_resolvable_checks [OF assms(3)]
  have "is_error (fst (approve_escalation env pt now w i res actor t)) \<and>
      snd (approve_escalation env pt now w i res actor t) = w"
    using r nr assms(2)
    by (auto simp: approve_escalation_def resolved_status_def is_error_def split: sum.split_asm sum.split)
  then show "is_error (fst (approve_escalation env pt now w i res actor t))"
    "snd (approve_escalation env pt now w i res actor t) = w" by simp_all
  have "is_error (fst (reject_escalation env now w i res actor t)) \<and>
      snd (reject_escalation env now w i res actor t) = w"
    using r nr assms(2)
    by (auto simp: reject_escalation_def resolved_status_def is_error_def split: sum.split_asm sum.split)
  then show "is_error (fst (reject_escalation env now w i res actor t))"
    "snd (reject_escalation env now w i res actor t) = w" by simp_all
qed

subsection \<open>The override\<close>

definition has_override :: "governance_store \<Rightarrow> string \<Rightarrow> decision_record \<Rightarrow> enforcement_action list \<Rightarrow> bool" where
  "has_override g k dec acts \<longleftrightarrow> dget (gs_decisions g) k = Some dec \<and> dget (gs_actions g) k = Some acts"

text \<open>The release port leaves recorded decisions, and the actions recorded for them, alone.\<close>

definition release_appends :: "'x escalation_ports \<Rightarrow> bool" where
  "release_appends pt \<longleftrightarrow>
     (\<forall>x g p r d oid res actor k.
        dget (gs_decisions g) k \<noteq> None \<longrightarrow>
          dget (gs_decisions (fst (snd (sp_release pt x g p r d oid res actor)))) k = dget (gs_decisions g) k \<and>
          dget (gs_actions (fst (snd (sp_release pt x g p r d oid res actor)))) k = dget (gs_actions g) k)"

lemma release_keeps:
  assumes "release_appends pt" "dget (gs_decisions (ew_governance w)) k = Some dec"
  shows "dget (gs_decisions (ew_governance (snd (release_resolution_after_override env pt w r d i res actor t)))) k = Some dec"
    "dget (gs_actions (ew_governance (snd (release_resolution_after_override env pt w r d i res actor t)))) k =
       dget (gs_actions (ew_governance w)) k"
proof -
  have k: "dget (gs_decisions (ew_governance w)) k \<noteq> None" using assms(2) by simp
  have "dget (gs_decisions (fst (snd (sp_release pt (ew_rest w) (ew_governance w) p r d i res actor)))) k =
        dget (gs_decisions (ew_governance w)) k \<and>
      dget (gs_actions (fst (snd (sp_release pt (ew_rest w) (ew_governance w) p r d i res actor)))) k =
        dget (gs_actions (ew_governance w)) k" for p
    using assms(1) k unfolding release_appends_def by blast
  then show
    "dget (gs_decisions (ew_governance (snd (release_resolution_after_override env pt w r d i res actor t)))) k = Some dec"
    "dget (gs_actions (ew_governance (snd (release_resolution_after_override env pt w r d i res actor t)))) k =
       dget (gs_actions (ew_governance w)) k"
    using assms(2)
    by (auto simp: release_resolution_after_override_def split: option.split prod.split) (metis fst_conv snd_conv)+
qed

lemma update_escalation_frame [simp]:
  "fst (case update_escalation env s r u of (Inl e, s') \<Rightarrow> (Inl e, f s') | (Inr v, s') \<Rightarrow> (Inr q, f s')) =
     (case fst (update_escalation env s r u) of Inl e \<Rightarrow> Inl e | Inr v \<Rightarrow> Inr q)"
  "snd (case update_escalation env s r u of (Inl e, s') \<Rightarrow> (Inl e, f s') | (Inr v, s') \<Rightarrow> (Inr q, f s')) =
     f (snd (update_escalation env s r u))"
  by (simp_all split: prod.split sum.split)

text \<open>The governance effect of approving a resolvable record is that of the override and
  the release.\<close>

lemma approve_governance:
  assumes "get_escalation (ew_store w) i (Some t) = Some r" "resolvable w t r d"
    and "py_strip res \<noteq> []" "py_strip actor \<noteq> []"
    and g: "record_governance_override env now (ew_governance w) r d res actor = (Inr oid, g)"
  shows "ew_governance (snd (approve_escalation env pt now w i res actor t)) =
    ew_governance (snd (release_resolution_after_override env pt (w\<lparr>ew_governance := g\<rparr>) r d oid res actor t))"
proof -
  obtain m w1 where m: "release_resolution_after_override env pt (w\<lparr>ew_governance := g\<rparr>) r d oid res actor t =
      (m, w1)" by force
  have "esc_status r \<noteq> escalation_status_value ES_APPROVED"
    using assms(2) by (auto simp: resolvable_def)
  then show ?thesis
    using require_record_get [OF assms(1)] resolvable_checks [OF assms(2)] assms(3,4) g m
    by (cases m) (auto simp: approve_escalation_def require_nonempty_def Let_def split: sum.split prod.split)
qed

lemma record_override_fresh:
  assumes "derive_override_decision_id env (esc_id r) (esc_decision_id r) (esc_tenant_id r) = Inr oid"
    and "dget (gs_decisions g) oid = None" "dget (gs_traces g) oid = None" "dget (gs_actions g) oid = None"
  shows "\<exists>aid g'. record_governance_override env now g r d res actor = (Inr oid, g') \<and>
    has_override g' oid (override_decision_record env now oid r d res actor)
       [override_action_record aid oid r d res actor] \<and>
    (\<forall>k. k \<noteq> oid \<longrightarrow> dget (gs_decisions g') k = dget (gs_decisions g) k)"
proof -
  obtain aid where aid: "derive_override_action_id env (esc_id r) oid (esc_tenant_id r) = Inr aid"
    using assms(1)
    by (auto simp: derive_override_decision_id_def derive_override_action_id_def with_tenant_def split: sum.splits)
  have none: "get_decision g oid (Some (esc_tenant_id r)) = None" using assms(2) by (simp add: get_decision_def)
  show ?thesis
    by (intro exI [of _ aid] exI [of _ "snd (record_governance_override env now g r d res actor)"])
      (use assms aid none in \<open>auto simp: record_governance_override_def record_decision_def record_trace_def
        record_enforcement_action_def has_override_def override_decision_record_def override_trace_record_def
        override_action_record_def\<close>)
qed

lemma record_override_again:
  assumes "derive_override_decision_id env (esc_id r) (esc_decision_id r) (esc_tenant_id r) = Inr oid"
    and "dget (gs_decisions g) oid = Some dec" "dr_tenant_id dec = Some (esc_tenant_id r)"
  shows "record_governance_override env now g r d res actor = (Inr oid, g)"
  using assms by (simp add: record_governance_override_def get_decision_def gov_visible_def)

lemma release_gov:
  assumes "release_appends pt" "has_override (ew_governance w) k dec acts"
  shows "has_override (ew_governance (snd (release_resolution_after_override env pt w r d i res actor t))) k dec acts"
  using release_keeps [OF assms(1), of w k dec] assms(2) by (simp add: has_override_def)

subsection \<open>Retrying an approval\<close>

lemma approve_again_keeps:
  assumes rel: "release_appends pt" and inv: "esc_inv env X (ew_store w)"
    and oid: "derive_override_decision_id env (esc_id r) (esc_decision_id r) t = Inr oid"
    and own: "has_override (ew_governance w) oid dec acts" "dr_tenant_id dec = Some t"
    and i: "require_record w i t = Inr r'" "esc_id r' = esc_id r" "esc_decision_id r' = esc_decision_id r"
  shows "has_override (ew_governance (snd (approve_escalation env pt now w i res actor t))) oid dec acts"
proof (cases "resolved_status (esc_status r') \<or> (\<nexists>d. resolvable w t r' d) \<or> py_strip res = [] \<or> py_strip actor = []")
  case True
  have get: "get_escalation (ew_store w) i (Some t) = Some r'"
    using i(1) by (auto simp: require_record_def split: option.splits)
  have "snd (approve_escalation env pt now w i res actor t) = w"
  proof (cases "py_strip res = [] \<or> py_strip actor = []")
    case True
    then show ?thesis by (auto simp: approve_escalation_def require_nonempty_def split: sum.split)
  next
    case False
    then show ?thesis
      using True resolve_again(1) [OF get] not_resolvable_refused(2) [OF get] by (cases "resolved_status (esc_status r')") auto
  qed
  then show ?thesis using own by simp
next
  case False
  then obtain d where d: "resolvable w t r' d" by blast
  have get: "get_escalation (ew_store w) i (Some t) = Some r'"
    using i(1) by (auto simp: require_record_def split: option.splits)
  have t: "esc_tenant_id r' = t" using require_recordD(3) [OF inv i(1)] .
  have "record_governance_override env now (ew_governance w) r' d res actor = (Inr oid, ew_governance w)"
    by (rule record_override_again [of _ _ _ _ dec])
      (use oid own i t in \<open>simp_all add: has_override_def\<close>)
  from approve_governance [OF get d _ _ this] False show ?thesis
    using release_gov [OF rel] own by simp
qed

section \<open>Creation\<close>

lemma crisis_metadata_Nil:
  "crisis_metadata_from_rule env p rid dec sev m = [] \<longleftrightarrow> dec = decision_value ALLOW \<or> take 7 p \<noteq> ''crisis.''"
  by (simp add: crisis_metadata_from_rule_def)

lemma first_nonempty_Nil: "first_nonempty ms = [] \<longleftrightarrow> (\<forall>m\<in>set ms. m = [])"
  unfolding first_nonempty_def by (auto simp: filter_empty_conv filter_eq_Cons_iff split: list.split)

text \<open>A decision is a crisis when a rule or violation of a crisis policy did not allow.\<close>

definition crisis_decision :: "decision_record \<Rightarrow> bool" where
  "crisis_decision d \<longleftrightarrow>
     (\<exists>r\<in>set (dr_evaluated_rules d). er_decision r \<noteq> decision_value ALLOW \<and> take 7 (er_policy_name r) = ''crisis.'') \<or>
     (\<exists>v\<in>set (dr_violations d). vr_decision v \<noteq> decision_value ALLOW \<and> take 7 (vr_policy_name v) = ''crisis.'')"

lemma crisis_handoff_iff: "crisis_handoff_metadata env d \<noteq> [] \<longleftrightarrow> crisis_decision d"
proof -
  have "crisis_handoff_metadata env d = [] \<longleftrightarrow>
      (\<forall>r\<in>set (dr_evaluated_rules d). er_decision r = decision_value ALLOW \<or> take 7 (er_policy_name r) \<noteq> ''crisis.'') \<and>
      (\<forall>v\<in>set (dr_violations d). vr_decision v = decision_value ALLOW \<or> take 7 (vr_policy_name v) \<noteq> ''crisis.'')"
    by (simp only: crisis_handoff_metadata_def first_nonempty_Nil crisis_metadata_Nil set_append set_map
        ball_Un ball_simps)
  then show ?thesis unfolding crisis_decision_def by blast
qed

lemma new_escalation_class:
  "esc_handoff_kind (new_escalation env now i sid t d) =
     (if crisis_decision d then ''crisis'' else if dr_decision d = ''escalate'' then ''escalation'' else ''denial'')"
  "esc_priority (new_escalation env now i sid t d) =
     (if crisis_decision d \<or> dr_decision d = ''escalate'' then ''high'' else ''normal'')"
  using crisis_handoff_iff [of env d]
  by (auto simp: new_escalation_def handoff_classification_def Let_def)

lemma new_escalation_sel [simp]:
  "esc_id (new_escalation env now i sid t d) = i" "esc_tenant_id (new_escalation env now i sid t d) = t"
  "esc_decision_id (new_escalation env now i sid t d) = dr_decision_id d"
  "esc_status (new_escalation env now i sid t d) = escalation_status_value ES_PENDING"
  "esc_reason (new_escalation env now i sid t d) = dr_reason d"
  "esc_session_id (new_escalation env now i sid t d) = sid"
  by (simp_all add: new_escalation_def split: prod.split)

text \<open>What a creation returns and stores.\<close>

lemma append_result:
  "fst (append_grounding_handoff_event env pt now w r d) = Inr () \<or>
   is_error (fst (append_grounding_handoff_event env pt now w r d))"
  by (cases "fst (append_grounding_handoff_event env pt now w r d)") auto

lemma handoff_sourceD:
  assumes "handoff_source env pt w did t sid allowed err label = Inr (d, s)"
  shows "get_decision (ew_governance w) did (Some t) = Some d" "dr_decision d \<in> set (decision_values allowed)"
    "sp_session pt (ew_rest w) s t"
  using assms by (auto simp: handoff_source_def split: option.splits if_splits)

lemma create_handoff_cases:
  assumes "create_handoff env pt now w did t sid allowed err label = (Inr r, w')"
  obtains (existing) "get_escalation_for_decision (ew_store w) did (Some t) = Some r"
      "existing_record_matches_decisions env r allowed" "ew_store w' = ew_store w" "ew_governance w' = ew_governance w"
  | (new) d i s where "get_escalation_for_decision (ew_store w) did (Some t) = None"
      "handoff_source env pt w did t sid allowed err label = Inr (d, s)"
      "derive_escalation_id env t s did = Inr i" "r = new_escalation env now i s t d"
      "create_escalation env (ew_store w) r (Some t) = (Inr (), ew_store w')" "ew_governance w' = ew_governance w"
proof (cases "get_escalation_for_decision (ew_store w) did (Some t)")
  case (Some q)
  with assms show ?thesis
    by (intro existing)
      (auto simp: create_handoff_def dest!: append_frameD split: sum.splits prod.splits if_splits)
next
  case None
  have "require_nonempty t ''expected_tenant_id'' = Inr ()"
    using assms by (auto simp: create_handoff_def split: sum.splits)
  note 1 = this
  obtain p where "handoff_source env pt w did t sid allowed err label = Inr p"
    using assms 1 None by (auto simp: create_handoff_def split: sum.splits)
  moreover obtain d s where "p = (d, s)" by force
  ultimately have 2: "handoff_source env pt w did t sid allowed err label = Inr (d, s)" by simp
  obtain i where 3: "derive_escalation_id env t s did = Inr i"
    using assms 1 2 None by (auto simp: create_handoff_def split: sum.splits)
  obtain res st where 4: "create_escalation env (ew_store w) (new_escalation env now i s t d) (Some t) = (res, st)"
    by force
  show ?thesis
    by (rule new [OF None 2 3])
      (use assms 1 2 3 4 None in \<open>auto simp: create_handoff_def Let_def dest!: append_frameD
        split: sum.splits prod.splits\<close>)
qed

end
