(* ===== verification/Escalation_Resolution.thy ===== *)
theory Escalation_Resolution
  imports Escalation_Safety
begin

text \<open>
  The promises of the escalation runtime as properties: a resolution is final whatever is
  called later, approvals record one override and only for ordinary denials, and handoffs
  are created once from the decision they name; with a worked example of a denial that is
  handed off, approved, and then cannot be rejected.
\<close>

section \<open>What retries see\<close>

lemma approve_require:
  assumes inv: "esc_inv env X (ew_store w)" and r: "require_record w i t = Inr r"
  shows "\<exists>r'. require_record (snd (approve_escalation env pt now w i res actor t)) i t = Inr r' \<and>
    esc_id r' = esc_id r \<and> esc_decision_id r' = esc_decision_id r"
proof -
  note id = require_recordD [OF inv r]
  have updated: "\<exists>r'. require_record w' i t = Inr r' \<and> esc_id r' = esc_id r \<and> esc_decision_id r' = esc_decision_id r"
    if "ew_store w' = snd (update_escalation env (ew_store w) (resolved_record env now r st res actor mark md) (Some t))"
    for st mark md w'
    using id that
    by (simp add: update_escalation_def enforce_expected_tenant_def resolved_record_def require_record_def
        get_escalation_def)
  from approve_store [of env pt now w i res actor t] show ?thesis
  proof
    assume "ew_store (snd (approve_escalation env pt now w i res actor t)) = ew_store w"
    then show ?thesis using r by (simp add: require_record_def)
  next
    assume "\<exists>q u mark md. require_record w i t = Inr q \<and> ensure_resolvable q = Inr u \<and>
      ew_store (snd (approve_escalation env pt now w i res actor t)) =
        snd (update_escalation env (ew_store w) (resolved_record env now q ES_APPROVED res actor mark md) (Some t))"
    then show ?thesis using updated r by auto
  qed
qed

definition approvals :: "string \<Rightarrow> string \<Rightarrow> (int \<times> string \<times> string) list \<Rightarrow> esc_call list" where
  "approvals i t retries = map (\<lambda>(now, res, actor). CallApprove now i res actor t) retries"

lemma approvals_keep:
  assumes rel: "release_appends pt"
    and oid: "derive_override_decision_id env (esc_id r) (esc_decision_id r) t = Inr oid"
    and own: "dr_tenant_id dec = Some t"
  shows "esc_inv env X (ew_store w) \<Longrightarrow> has_override (ew_governance w) oid dec acts \<Longrightarrow>
    \<exists>r'. require_record w i t = Inr r' \<and> esc_id r' = esc_id r \<and> esc_decision_id r' = esc_decision_id r \<Longrightarrow>
    has_override (ew_governance (runs (esc_call_step env pt) (approvals i t retries) w)) oid dec acts"
proof (induction retries arbitrary: w)
  case (Cons a retries)
  obtain now res actor where a: "a = (now, res, actor)" by (cases a)
  obtain r' where r': "require_record w i t = Inr r'" "esc_id r' = esc_id r" "esc_decision_id r' = esc_decision_id r"
    using Cons.prems(3) by blast
  let ?w = "snd (approve_escalation env pt now w i res actor t)"
  have "esc_inv env X (ew_store ?w)"
    using esc_reaches_inv [OF esc_call_reaches [OF Cons.prems(1), of "CallApprove now i res actor t" pt]] Cons.prems(1)
    by simp
  moreover have "has_override (ew_governance ?w) oid dec acts"
    by (rule approve_again_keeps [OF rel Cons.prems(1) oid Cons.prems(2) own r'])
  moreover have "\<exists>q. require_record ?w i t = Inr q \<and> esc_id q = esc_id r \<and> esc_decision_id q = esc_decision_id r"
    using approve_require [OF Cons.prems(1) r'(1), of pt now res actor] r'(2,3) by auto
  ultimately show ?case using Cons.IH [of ?w] by (simp add: approvals_def a)
qed (simp add: approvals_def)

section \<open>Worked example\<close>

definition demo_ports :: "unit escalation_ports" where
  "demo_ports = \<lparr>sp_uuid_ok = (\<lambda>_. True), sp_session = (\<lambda>_ _ _. True), sp_append = (\<lambda>x _ _ _ _. (True, x)),
     sp_release = (\<lambda>x g _ _ _ _ _ _. (Inr [], g, x))\<rparr>"

lemma demo_release: "release_appends demo_ports"
  by (simp add: release_appends_def demo_ports_def)

definition demo_denial :: decision_record where
  "demo_denial = \<lparr>dr_decision_id = ''d1'', dr_decision = ''deny'', dr_stage = ''pre_execution'',
     dr_policy_chain_id = ''c'', dr_reason = ''amount'', dr_decided_at = ''0'', dr_correlation_id = None,
     dr_request_id = None, dr_tenant_id = Some ''t1'', dr_subject_kind = ''generic'', dr_governance_version = ''1'',
     dr_violations = [], dr_restrictions = [], dr_evaluated_rules = [],
     dr_metadata = [(''session_id'', PStr ''s1'')]\<rparr>"

definition demo_world :: "unit escalation_world" where
  "demo_world = \<lparr>ew_store = empty_escalation_store,
     ew_governance = \<lparr>gs_decisions = [(''d1'', demo_denial)], gs_traces = [], gs_actions = []\<rparr>, ew_rest = ()\<rparr>"

definition demo_esc_id :: string where
  "demo_esc_id = uuid5 demo_env ESCALATION_NAMESPACE ''t1|s1|d1''"

definition demo_handoff :: escalation_record where
  "demo_handoff = new_escalation demo_env 1 demo_esc_id ''s1'' ''t1'' demo_denial"

definition handed_off :: "unit escalation_world" where
  "handed_off = esc_call_step demo_env demo_ports (CallCreateDecision 1 ''d1'' ''t1'' None) demo_world"

lemma demo_strip [simp]: "py_strip ''t1'' = ''t1''" "py_strip ''ok'' = ''ok''" "py_strip ''bob'' = ''bob''"
  by code_simp+

lemma demo_class: "handoff_classification demo_env demo_denial = (HK_DENIAL, EP_NORMAL, [])"
  "grounding_escalation_metadata demo_denial = []"
  by (simp_all add: handoff_classification_def crisis_handoff_metadata_def first_nonempty_def demo_denial_def
      grounding_escalation_metadata_def Let_def)

lemma demo_handoff_quiet:
  "append_grounding_handoff_event demo_env demo_ports now w demo_handoff (Some demo_denial) = (Inr (), w)"
  by (simp add: append_grounding_handoff_event_def demo_handoff_def new_escalation_def demo_class has_key_def
      dmerge_Nil Let_def)

lemma demo_created:
  "create_for_governance_decision demo_env demo_ports 1 demo_world ''d1'' ''t1'' None =
     (Inr demo_handoff, demo_world\<lparr>ew_store := \<lparr>ec_records = [(demo_esc_id, demo_handoff)],
        ec_governance_index = [(''d1'', demo_esc_id)], ec_outbox = [], ec_outbox_by_escalation = []\<rparr>\<rparr>)"
proof -
  have "handoff_source demo_env demo_ports demo_world ''d1'' ''t1'' None [DENY, ESCALATE] e l =
      Inr (demo_denial, ''s1'')" for e l
    by (simp add: handoff_source_def demo_world_def get_decision_def gov_visible_def demo_denial_def
        decision_values_def session_id_from_metadata_def SESSION_METADATA_KEYS_def get_or_none_def demo_ports_def)
  moreover have "derive_escalation_id demo_env ''t1'' ''s1'' ''d1'' = Inr demo_esc_id"
    by (simp add: derive_escalation_id_def with_tenant_def coerce_tenant_id_def demo_esc_id_def)
  moreover have "create_escalation demo_env (ew_store demo_world) demo_handoff (Some ''t1'') =
      (Inr (), \<lparr>ec_records = [(demo_esc_id, demo_handoff)], ec_governance_index = [(''d1'', demo_esc_id)],
         ec_outbox = [], ec_outbox_by_escalation = []\<rparr>)"
    by (simp add: create_escalation_def enforce_expected_tenant_def demo_world_def empty_escalation_store_def
        demo_handoff_def demo_denial_def)
  ultimately show ?thesis
    using demo_handoff_quiet
    by (simp add: create_for_governance_decision_def create_handoff_def require_nonempty_def
        get_escalation_for_decision_def demo_world_def empty_escalation_store_def demo_handoff_def [symmetric])
qed

lemma no_tokens: "esc_tokens_unique env {}"
  by (simp add: esc_tokens_unique_def)

lemma handed_off_record:
  "get_escalation (ew_store handed_off) demo_esc_id (Some ''t1'') = Some demo_handoff"
  by (simp add: handed_off_def demo_created get_escalation_def demo_handoff_def)

lemma handed_off_inv: "esc_inv demo_env {} (ew_store handed_off)"
  using esc_calls.step_inv [of demo_env "{}" demo_world "CallCreateDecision 1 ''d1'' ''t1'' None" demo_ports]
    esc_inv_empty [OF no_tokens]
  by (simp add: handed_off_def demo_world_def)

lemma handed_off_gov: "ew_governance handed_off = ew_governance demo_world"
  by (simp add: handed_off_def demo_created)

lemma demo_no_crisis: "get_or_none (esc_metadata demo_handoff) ''crisis'' = PNone"
  by (simp add: demo_handoff_def new_escalation_def demo_class get_or_none_def)

lemma demo_source:
  "get_decision (ew_governance handed_off) ''d1'' (Some ''t1'') = Some demo_denial" "dr_decision demo_denial = ''deny''"
  "dr_decision_id demo_denial = ''d1''" "\<not> crisis_decision demo_denial"
  by (simp_all add: handed_off_gov demo_world_def get_decision_def gov_visible_def demo_denial_def crisis_decision_def)

lemma demo_resolvable: "resolvable handed_off ''t1'' demo_handoff demo_denial"
  using demo_source demo_no_crisis by (simp add: resolvable_def) (simp add: demo_handoff_def new_escalation_class demo_source)

definition demo_override_id :: string where
  "demo_override_id = uuid5 demo_env ESCALATION_GOVERNANCE_NAMESPACE (''override|'' @ ''t1'' @ ''|'' @ demo_esc_id @ ''|d1'')"

lemma demo_override:
  "derive_override_decision_id demo_env (esc_id demo_handoff) (esc_decision_id demo_handoff) ''t1'' = Inr demo_override_id"
  by (simp add: derive_override_decision_id_def with_tenant_def coerce_tenant_id_def demo_override_id_def
      demo_handoff_def demo_denial_def)

lemma demo_override_fresh: "demo_override_id \<noteq> ''d1''"
  by (simp add: demo_override_id_def demo_env_def ESCALATION_GOVERNANCE_NAMESPACE_def)

definition turned_down :: "unit escalation_world" where
  "turned_down = esc_call_step demo_env demo_ports (CallReject 2 demo_esc_id ''ok'' ''bob'' ''t1'') handed_off"

lemma turned_down_record:
  "\<exists>r. dget (ec_records (ew_store turned_down)) demo_esc_id = Some r \<and> esc_status r = ''rejected'' \<and> esc_tenant_id r = ''t1''"
proof -
  have r: "dget (ec_records (ew_store handed_off)) demo_esc_id = Some demo_handoff" "esc_id demo_handoff = demo_esc_id"
    "esc_tenant_id demo_handoff = ''t1''" "esc_status demo_handoff = ''pending''"
    by (simp_all add: handed_off_def demo_created demo_handoff_def)
  show ?thesis
    using require_record_get [OF handed_off_record] resolvable_checks [OF demo_resolvable] r
    by (simp add: turned_down_def reject_escalation_def require_nonempty_def Let_def update_escalation_def
        enforce_expected_tenant_def resolved_record_def)
qed

section \<open>Properties\<close>

text \<open>(C27) A resolution is final.  Once an escalation is approved or rejected, no
  sequence of runtime calls, by any callers and in any order, changes its record again;
  approving an approved record or rejecting a rejected one answers with that record, and
  resolving it the other way raises; both leave the world as it was.\<close>

theorem esc_resolution_final:
  assumes "esc_tokens_unique env X" "ew_store w0 = empty_escalation_store"
    and "legal (esc_call_step env pt) (esc_call_ok X) (calls @ later) w0"
    and "dget (ec_records (ew_store (runs (esc_call_step env pt) calls w0))) i = Some r"
    and "resolved_status (esc_status r)"
    and "w = runs (esc_call_step env pt) (calls @ later) w0"
    and "py_strip res \<noteq> []" "py_strip actor \<noteq> []"
  shows "dget (ec_records (ew_store w)) i = Some r \<and>
    approve_escalation env pt now w i res actor (esc_tenant_id r) =
      (if esc_status r = ''approved'' then Inr r
       else Inl (EscalationResolutionError ''only pending or reviewed escalations can be resolved''), w) \<and>
    reject_escalation env now w i res actor (esc_tenant_id r) =
      (if esc_status r = ''rejected'' then Inr r
       else Inl (EscalationResolutionError ''only pending or reviewed escalations can be resolved''), w)"
proof -
  have "esc_inv env X (ew_store w0)" using esc_inv_empty [OF assms(1)] assms(2) by simp
  then have "esc_inv env X (ew_store (runs (esc_call_step env pt) calls w0))"
    using assms(3) esc_calls.runs_inv [of env X w0 pt calls] by (simp add: legal_append)
  then have "esc_resolved (ew_store w) i = Some r"
    using esc_call_resolution.runs_frozen [of env X _ pt later i r] assms(3-6)
    by (simp add: legal_append runs_append esc_resolved_iff)
  then have r: "dget (ec_records (ew_store w)) i = Some r" by (simp add: esc_resolved_iff)
  then have "get_escalation (ew_store w) i (Some (esc_tenant_id r)) = Some r" by (simp add: get_escalation_def)
  from resolve_again [OF this assms(5,7,8)] r show ?thesis by simp
qed

theorem esc_resolution_final_witness:
  "approve_escalation demo_env demo_ports 4
       (runs (esc_call_step demo_env demo_ports)
         [CallCreateDecision 1 ''d1'' ''t1'' None, CallReject 2 demo_esc_id ''ok'' ''bob'' ''t1'',
          CallApprove 3 demo_esc_id ''ok'' ''bob'' ''t1''] demo_world) demo_esc_id ''ok'' ''bob'' ''t1'' =
       (Inl (EscalationResolutionError ''only pending or reviewed escalations can be resolved''),
        runs (esc_call_step demo_env demo_ports)
         [CallCreateDecision 1 ''d1'' ''t1'' None, CallReject 2 demo_esc_id ''ok'' ''bob'' ''t1'',
          CallApprove 3 demo_esc_id ''ok'' ''bob'' ''t1''] demo_world)"
proof -
  let ?calls = "[CallCreateDecision 1 ''d1'' ''t1'' None, CallReject 2 demo_esc_id ''ok'' ''bob'' ''t1'']"
  let ?later = "[CallApprove 3 demo_esc_id ''ok'' ''bob'' ''t1'']"
  obtain r where r: "dget (ec_records (ew_store turned_down)) demo_esc_id = Some r" "esc_status r = ''rejected''"
    "esc_tenant_id r = ''t1''" using turned_down_record by blast
  have runs: "runs (esc_call_step demo_env demo_ports) ?calls demo_world = turned_down"
    by (simp only: runs.simps turned_down_def handed_off_def)
  have legal: "legal (esc_call_step demo_env demo_ports) (esc_call_ok {}) (?calls @ ?later) demo_world"
    by (simp only: legal.simps append.simps esc_call_ok.simps)
  have empty: "ew_store demo_world = empty_escalation_store" by (simp add: demo_world_def)
  have rec: "dget (ec_records (ew_store (runs (esc_call_step demo_env demo_ports) ?calls demo_world))) demo_esc_id = Some r"
    using r(1) by (simp only: runs)
  have "resolved_status (esc_status r)" using r(2) by (simp add: resolved_status_def)
  have app: "[CallCreateDecision 1 ''d1'' ''t1'' None, CallReject 2 demo_esc_id ''ok'' ''bob'' ''t1'',
      CallApprove 3 demo_esc_id ''ok'' ''bob'' ''t1''] = ?calls @ ?later" by simp
  from esc_resolution_final [OF no_tokens empty legal rec \<open>resolved_status (esc_status r)\<close> refl, of "''ok''" "''bob''" 4] r(2,3)
  have refused: "approve_escalation demo_env demo_ports 4 (runs (esc_call_step demo_env demo_ports) (?calls @ ?later) demo_world)
      demo_esc_id ''ok'' ''bob'' ''t1'' =
    (Inl (EscalationResolutionError ''only pending or reviewed escalations can be resolved''),
     runs (esc_call_step demo_env demo_ports) (?calls @ ?later) demo_world)"
    by (simp del: esc_call_step.simps runs.simps append.simps)
  show ?thesis unfolding app by (rule refused)
qed

text \<open>What resolving writes: the record under its own id, with the given status, and nothing
  else of the store.\<close>

definition resolved_store ::
  "py_env \<Rightarrow> int \<Rightarrow> escalation_store \<Rightarrow> escalation_record \<Rightarrow> escalation_status \<Rightarrow> string \<Rightarrow> string \<Rightarrow> metadata
     \<Rightarrow> metadata \<Rightarrow> escalation_store" where
  "resolved_store env now s r st res actor mark md =
     s\<lparr>ec_records := dset (esc_id r) (resolved_record env now r st res actor mark md) (ec_records s)\<rparr>"

lemma resolving_updates:
  assumes "esc_inv env X (ew_store w)" "require_record w i t = Inr r"
  shows "update_escalation env (ew_store w) (resolved_record env now r st res actor mark md) (Some t) =
    (Inr (), resolved_store env now (ew_store w) r st res actor mark md)"
  using require_recordD [OF assms]
  by (simp add: update_escalation_def enforce_expected_tenant_def resolved_record_def resolved_store_def)

lemma release_store:
  "ew_store (snd (release_resolution_after_override env pt w r d oid res actor t)) = ew_store w"
  by (auto simp: release_resolution_after_override_def split: option.split prod.split)

lemma nonblank_accepted: "py_strip x \<noteq> [] \<Longrightarrow> require_nonempty x n = Inr ()"
  by (cases x) (simp_all add: require_nonempty_def py_strip_Nil)

lemma approve_releases_then_updates:
  assumes "esc_inv env X (ew_store w)" "require_record w i t = Inr r" "resolvable w t r d"
    and "py_strip res \<noteq> []" "py_strip actor \<noteq> []"
    and "record_governance_override env now (ew_governance w) r d res actor = (Inr oid, g)"
  shows "approve_escalation env pt now w i res actor t =
    (case release_resolution_after_override env pt (w\<lparr>ew_governance := g\<rparr>) r d oid res actor t of
       (Inl e, w') \<Rightarrow> (Inl e, w')
     | (Inr released, w') \<Rightarrow>
         (Inr (resolved_record env now r ES_APPROVED res actor
            [(''governance_override_decision_id'', PStr oid)] released),
          w'\<lparr>ew_store := resolved_store env now (ew_store w) r ES_APPROVED res actor
            [(''governance_override_decision_id'', PStr oid)] released\<rparr>))"
proof -
  obtain m w' where m: "release_resolution_after_override env pt (w\<lparr>ew_governance := g\<rparr>) r d oid res actor t =
      (m, w')" by force
  have st: "ew_store w' = ew_store w"
    using release_store [of env pt "w\<lparr>ew_governance := g\<rparr>" r d oid res actor t] m by simp
  have "esc_status r \<noteq> escalation_status_value ES_APPROVED"
    using assms(3) by (auto simp: resolvable_def)
  then show ?thesis
    using assms(2) resolvable_checks [OF assms(3)] assms(6) m st resolving_updates [OF assms(1,2)]
      nonblank_accepted [OF assms(4)] nonblank_accepted [OF assms(5)]
    by (cases m) (simp_all add: approve_escalation_def Let_def)
qed

lemma reject_updates:
  assumes "esc_inv env X (ew_store w)" "require_record w i t = Inr r" "resolvable w t r d"
    and "py_strip res \<noteq> []" "py_strip actor \<noteq> []"
  shows "reject_escalation env now w i res actor t =
    (Inr (resolved_record env now r ES_REJECTED res actor [(''denial_lineage_intact'', PBool True)] []),
     w\<lparr>ew_store := resolved_store env now (ew_store w) r ES_REJECTED res actor
       [(''denial_lineage_intact'', PBool True)] []\<rparr>)"
proof -
  have "esc_status r \<noteq> escalation_status_value ES_REJECTED"
    using assms(3) by (auto simp: resolvable_def)
  then show ?thesis
    using assms(2) resolvable_checks [OF assms(3)] resolving_updates [OF assms(1,2)]
      nonblank_accepted [OF assms(4)] nonblank_accepted [OF assms(5)]
    by (simp add: reject_escalation_def Let_def)
qed

text \<open>(C28) Approval is governed and recorded once.  An unresolved escalation can be
  resolved exactly when it is no crisis handoff and its source decision is a visible
  denial of the tenant; otherwise approving and rejecting raise and change nothing.  When
  it can, rejecting succeeds and stores the record as rejected, with the resolution, the
  actor and the time.  Approving first records one ALLOW override under the derived
  identity with one enforcement action, and only then hands the denied proposal to the
  release: if the release raises, so does the approval, and the escalation stays as it
  was; otherwise the approval succeeds and the record is stored as approved under that
  override.  Every decision recorded before is kept, and no retry of the approval,
  whatever the release did, records a second override.  Rejecting never touches
  governance.  The premises: the store satisfies its invariant, the resolution and the
  actor are not blank, nothing is yet recorded under the override's derived identity, and
  the release leaves the decisions and actions already recorded alone.\<close>

theorem esc_override_once:
  assumes "release_appends pt" "esc_inv env X (ew_store w)"
    and "get_escalation (ew_store w) i (Some t) = Some r" "\<not> resolved_status (esc_status r)"
    and "derive_override_decision_id env (esc_id r) (esc_decision_id r) t = Inr oid"
    and "dget (gs_decisions (ew_governance w)) oid = None" "dget (gs_traces (ew_governance w)) oid = None"
      "dget (gs_actions (ew_governance w)) oid = None"
    and "py_strip res \<noteq> []" "py_strip actor \<noteq> []"
    and "w1 = snd (approve_escalation env pt now w i res actor t)"
  shows "(if \<exists>d. resolvable w t r d
     then \<exists>d aid g. resolvable w t r d \<and>
       has_override g oid (override_decision_record env now oid r d res actor)
         [override_action_record aid oid r d res actor] \<and>
       approve_escalation env pt now w i res actor t =
         (case release_resolution_after_override env pt (w\<lparr>ew_governance := g\<rparr>) r d oid res actor t of
            (Inl e, w') \<Rightarrow> (Inl e, w')
          | (Inr released, w') \<Rightarrow>
              (Inr (resolved_record env now r ES_APPROVED res actor
                 [(''governance_override_decision_id'', PStr oid)] released),
               w'\<lparr>ew_store := resolved_store env now (ew_store w) r ES_APPROVED res actor
                 [(''governance_override_decision_id'', PStr oid)] released\<rparr>)) \<and>
       (is_error (fst (approve_escalation env pt now w i res actor t)) \<longrightarrow> ew_store w1 = ew_store w) \<and>
       (\<forall>retries. has_override (ew_governance (runs (esc_call_step env pt) (approvals i t retries) w1)) oid
          (override_decision_record env now oid r d res actor) [override_action_record aid oid r d res actor]) \<and>
       (\<forall>k dec. dget (gs_decisions (ew_governance w)) k = Some dec \<longrightarrow>
          dget (gs_decisions (ew_governance w1)) k = Some dec) \<and>
       reject_escalation env now w i res actor t =
         (Inr (resolved_record env now r ES_REJECTED res actor [(''denial_lineage_intact'', PBool True)] []),
          w\<lparr>ew_store := resolved_store env now (ew_store w) r ES_REJECTED res actor
            [(''denial_lineage_intact'', PBool True)] []\<rparr>)
     else is_error (fst (approve_escalation env pt now w i res actor t)) \<and> w1 = w \<and>
       is_error (fst (reject_escalation env now w i res actor t)) \<and>
       snd (reject_escalation env now w i res actor t) = w) \<and>
    ew_governance (snd (reject_escalation env now w i res actor t)) = ew_governance w"
proof -
  have reject: "ew_governance (snd (reject_escalation env now w i res actor t)) = ew_governance w"
    by (simp add: reject_escalation_def Let_def split: sum.split prod.split)
  have req: "require_record w i t = Inr r" by (rule require_record_get [OF assms(3)])
  have t: "esc_tenant_id r = t" by (rule require_recordD(3) [OF assms(2) req])
  show ?thesis
  proof (cases "\<exists>d. resolvable w t r d")
    case True
    then obtain d where d: "resolvable w t r d" by blast
    have oid: "derive_override_decision_id env (esc_id r) (esc_decision_id r) (esc_tenant_id r) = Inr oid"
      using assms(5) t by simp
    obtain aid g where g: "record_governance_override env now (ew_governance w) r d res actor = (Inr oid, g)"
      "has_override g oid (override_decision_record env now oid r d res actor)
         [override_action_record aid oid r d res actor]"
      "\<forall>k. k \<noteq> oid \<longrightarrow> dget (gs_decisions g) k = dget (gs_decisions (ew_governance w)) k"
      using record_override_fresh [OF oid assms(6-8), of now d res actor] by blast
    note shape = approve_releases_then_updates [OF assms(2) req d assms(9,10) g(1), of pt]
    note gov = approve_governance [OF assms(3) d assms(9,10) g(1), of pt]
    have own: "has_override (ew_governance w1) oid (override_decision_record env now oid r d res actor)
        [override_action_record aid oid r d res actor]"
      unfolding assms(11) gov by (rule release_gov [OF assms(1)]) (simp add: g(2))
    have inv1: "esc_inv env X (ew_store w1)"
      using esc_calls.step_inv [OF assms(2), of "CallApprove now i res actor t" pt] by (simp add: assms(11))
    have again: "has_override (ew_governance (runs (esc_call_step env pt) (approvals i t retries) w1)) oid
        (override_decision_record env now oid r d res actor) [override_action_record aid oid r d res actor]" for retries
      by (rule approvals_keep [OF assms(1,5) _ inv1 own])
        (use approve_require [OF assms(2) req, of pt now res actor] t in
          \<open>simp_all add: override_decision_record_def assms(11)\<close>)
    have kept: "dget (gs_decisions (ew_governance w1)) k = Some dec"
      if "dget (gs_decisions (ew_governance w)) k = Some dec" for k dec
    proof -
      have "k \<noteq> oid" using that assms(6) by auto
      with that g(3) have "dget (gs_decisions (ew_governance (w\<lparr>ew_governance := g\<rparr>))) k = Some dec" by simp
      from release_keeps(1) [OF assms(1) this] show ?thesis unfolding assms(11) gov .
    qed
    obtain m w' where m: "release_resolution_after_override env pt (w\<lparr>ew_governance := g\<rparr>) r d oid res actor t =
        (m, w')" by force
    then have "ew_store w' = ew_store w"
      using release_store [of env pt "w\<lparr>ew_governance := g\<rparr>" r d oid res actor t] by simp
    then have stays: "is_error (fst (approve_escalation env pt now w i res actor t)) \<longrightarrow> ew_store w1 = ew_store w"
      unfolding assms(11) shape m by (cases m) simp_all
    have all_again: "\<forall>retries. has_override (ew_governance (runs (esc_call_step env pt) (approvals i t retries) w1)) oid
        (override_decision_record env now oid r d res actor) [override_action_record aid oid r d res actor]"
      by (rule allI) (rule again)
    have all_kept: "\<forall>k dec. dget (gs_decisions (ew_governance w)) k = Some dec \<longrightarrow>
        dget (gs_decisions (ew_governance w1)) k = Some dec" by (intro allI impI) (rule kept)
    note whole = conjI [OF d conjI [OF g(2) conjI [OF shape conjI [OF stays conjI [OF all_again conjI [OF all_kept
      reject_updates [OF assms(2) req d assms(9,10), of now]]]]]]]
    show ?thesis
      unfolding if_P [OF True] by (rule conjI [OF exI [of _ d] reject], rule exI [of _ aid], rule exI [of _ g], rule whole)
  next
    case False
    then show ?thesis
      using not_resolvable_refused [OF assms(3,4)] reject by (simp add: assms(11))
  qed
qed

theorem esc_override_once_witness:
  "\<exists>aid. has_override (ew_governance (snd (approve_escalation demo_env demo_ports 2 handed_off demo_esc_id ''ok'' ''bob'' ''t1'')))
     demo_override_id (override_decision_record demo_env 2 demo_override_id demo_handoff demo_denial ''ok'' ''bob'')
     [override_action_record aid demo_override_id demo_handoff demo_denial ''ok'' ''bob'']"
proof -
  have "\<not> resolved_status (esc_status demo_handoff)"
    by (simp add: demo_handoff_def resolved_status_def)
  then have "\<exists>d aid. resolvable handed_off ''t1'' demo_handoff d \<and>
     (\<forall>retries. has_override (ew_governance (runs (esc_call_step demo_env demo_ports) (approvals demo_esc_id ''t1'' retries)
        (snd (approve_escalation demo_env demo_ports 2 handed_off demo_esc_id ''ok'' ''bob'' ''t1'')))) demo_override_id
        (override_decision_record demo_env 2 demo_override_id demo_handoff d ''ok'' ''bob'')
        [override_action_record aid demo_override_id demo_handoff d ''ok'' ''bob''])"
    using esc_override_once [OF demo_release handed_off_inv handed_off_record _ demo_override _ _ _ _ _ refl, of "''ok''" "''bob''" 2]
      demo_resolvable demo_override_fresh
    by (auto simp: handed_off_gov demo_world_def split: if_splits)
  then obtain d aid where d: "resolvable handed_off ''t1'' demo_handoff d"
    and h: "\<forall>retries. has_override (ew_governance (runs (esc_call_step demo_env demo_ports) (approvals demo_esc_id ''t1'' retries)
        (snd (approve_escalation demo_env demo_ports 2 handed_off demo_esc_id ''ok'' ''bob'' ''t1'')))) demo_override_id
        (override_decision_record demo_env 2 demo_override_id demo_handoff d ''ok'' ''bob'')
        [override_action_record aid demo_override_id demo_handoff d ''ok'' ''bob'']" by blast
  have "d = demo_denial" using d demo_resolvable by (simp add: resolvable_def)
  then show ?thesis using h [rule_format, of "[]"] by (auto simp: approvals_def)
qed

lemma create_escalation_Inr:
  assumes "create_escalation env s r u = (Inr v, s')"
  shows "dget (ec_governance_index s) (esc_decision_id r) = None"
    "s' = s\<lparr>ec_records := dset (esc_id r) r (ec_records s),
       ec_governance_index := dset (esc_decision_id r) (esc_id r) (ec_governance_index s)\<rparr>"
  using assms by (auto simp: create_escalation_def split: sum.splits if_splits)

text \<open>Handoffs come from governance lineage, once.  A successful creation leaves
  governance alone and makes the returned record the one found for the decision.  Either
  that record existed, and the store is unchanged; or the decision is a recorded denial
  or escalation of the tenant with no handoff, and the new pending record carries its
  reason and is classified from it: a crisis when a rule or violation of a crisis policy
  did not allow, else an escalation or a denial, crises and escalations with high
  priority.  Creating again never changes the store and returns the same record or
  raises.\<close>

theorem esc_created_from_lineage:
  assumes "esc_inv env X (ew_store w)"
    and "\<And>k d. dget (gs_decisions (ew_governance w)) k = Some d \<Longrightarrow> dr_decision_id d = k"
    and "create_for_governance_decision env pt now w did t sid = (Inr r, w')"
  shows "get_escalation_for_decision (ew_store w') did (Some t) = Some r \<and> ew_governance w' = ew_governance w \<and>
    (get_escalation_for_decision (ew_store w) did (Some t) = Some r \<and> ew_store w' = ew_store w \<or>
     (\<exists>d. get_decision (ew_governance w) did (Some t) = Some d \<and> dr_decision d \<in> {''deny'', ''escalate''} \<and>
        dget (ec_governance_index (ew_store w)) did = None \<and>
        ec_records (ew_store w') = dset (esc_id r) r (ec_records (ew_store w)) \<and>
        esc_status r = ''pending'' \<and> esc_tenant_id r = t \<and> esc_decision_id r = did \<and> esc_reason r = dr_reason d \<and>
        esc_handoff_kind r = (if crisis_decision d then ''crisis''
          else if dr_decision d = ''escalate'' then ''escalation'' else ''denial'') \<and>
        esc_priority r = (if crisis_decision d \<or> dr_decision d = ''escalate'' then ''high'' else ''normal''))) \<and>
    ew_store (snd (create_for_governance_decision env pt now' w' did t sid')) = ew_store w' \<and>
    fst (create_for_governance_decision env pt now' w' did t sid') \<in>
      {Inr r} \<union> {e. is_error e}"
proof -
  have found: "get_escalation_for_decision (ew_store w') did (Some t) = Some r \<and> ew_governance w' = ew_governance w \<and>
    (get_escalation_for_decision (ew_store w) did (Some t) = Some r \<and> ew_store w' = ew_store w \<or>
     (\<exists>d. get_decision (ew_governance w) did (Some t) = Some d \<and> dr_decision d \<in> {''deny'', ''escalate''} \<and>
        dget (ec_governance_index (ew_store w)) did = None \<and>
        ec_records (ew_store w') = dset (esc_id r) r (ec_records (ew_store w)) \<and>
        esc_status r = ''pending'' \<and> esc_tenant_id r = t \<and> esc_decision_id r = did \<and> esc_reason r = dr_reason d \<and>
        esc_handoff_kind r = (if crisis_decision d then ''crisis''
          else if dr_decision d = ''escalate'' then ''escalation'' else ''denial'') \<and>
        esc_priority r = (if crisis_decision d \<or> dr_decision d = ''escalate'' then ''high'' else ''normal'')))"
    using assms(3) unfolding create_for_governance_decision_def
  proof (cases rule: create_handoff_cases)
    case (new d i s)
    note src = handoff_sourceD [OF new(2)]
    have did: "dr_decision_id d = did"
      using src(1) assms(2) by (auto simp: get_decision_def split: option.splits if_splits)
    have s': "ew_store w' = (ew_store w)\<lparr>ec_records := dset (esc_id r) r (ec_records (ew_store w)),
        ec_governance_index := dset (esc_decision_id r) (esc_id r) (ec_governance_index (ew_store w))\<rparr>"
      and "dget (ec_governance_index (ew_store w)) (esc_decision_id r) = None"
      using create_escalation_Inr [OF new(5)] by simp_all
    then have c: "dget (ec_governance_index (ew_store w)) did = None"
      "ec_records (ew_store w') = dset (esc_id r) r (ec_records (ew_store w))"
      "ec_governance_index (ew_store w') = dset did (esc_id r) (ec_governance_index (ew_store w))"
      using new(4) did by simp_all
    have "get_escalation_for_decision (ew_store w') did (Some t) = Some r"
      using c new(4) by (simp add: get_escalation_for_decision_def get_escalation_def)
    then show ?thesis
      using c src new(4,6) did by (auto simp: new_escalation_class decision_values_def)
  qed simp
  moreover have "ew_store (snd (create_for_governance_decision env pt now' w' did t sid')) = ew_store w' \<and>
      fst (create_for_governance_decision env pt now' w' did t sid') \<in> {Inr r} \<union> {e. is_error e}"
    using found
    by (auto simp: create_for_governance_decision_def create_handoff_def dest!: append_frameD
        split: sum.split prod.split)
  ultimately show ?thesis by blast
qed

theorem esc_created_from_lineage_witness:
  "get_escalation_for_decision (ew_store handed_off) ''d1'' (Some ''t1'') = Some demo_handoff \<and>
   ew_store (snd (create_for_governance_decision demo_env demo_ports 5 handed_off ''d1'' ''t1'' None)) = ew_store handed_off"
proof -
  have created: "create_for_governance_decision demo_env demo_ports 1 demo_world ''d1'' ''t1'' None = (Inr demo_handoff, handed_off)"
    by (simp add: handed_off_def demo_created)
  have inv: "esc_inv demo_env {} (ew_store demo_world)" using esc_inv_empty [OF no_tokens] by (simp add: demo_world_def)
  have wf: "\<And>k d. dget (gs_decisions (ew_governance demo_world)) k = Some d \<Longrightarrow> dr_decision_id d = k"
    by (auto simp: demo_world_def demo_denial_def split: if_splits)
  from esc_created_from_lineage [OF inv wf created, of 5 None] show ?thesis by blast
qed

end
