(* ===== verification/Event_Model.thy ===== *)
theory Event_Model
  imports Execution_Model Governance_Model
begin

text \<open>
  The operational event fabric (\<open>app/events\<close>): events with their causality and
  chronology and the constructors that check them (\<open>event.py\<close>, \<open>causality.py\<close>,
  \<open>chronology.py\<close>, \<open>identity.py\<close>), the append-only journal
  (\<open>persistence/memory.py\<close>), the runtime that guards it (\<open>runtime.py\<close>) and the paging
  loop every reader goes through.  An operational act is its value; identities are
  canonical text.
\<close>

section \<open>Substrates and acts\<close>

datatype substrate = AGENTS | ARBITRATION | BOUNDARY | BOUNDARY_TRANSLATION | BOUNDARY_VOICE
  | COORDINATION | COORDINATION_POLICY | COORDINATION_TOPOLOGY | ESCALATION | EXECUTION | GOVERNANCE
  | HARDENING | HUMAN | MEMORY | ORGANIZATIONAL_INTELLIGENCE | OI_COMMUNICATION | OI_MEMORY
  | OI_RECOMMENDATION | OI_SOP | OI_TONALITY | QA | SESSION | SUPERVISOR | TENANT

fun substrate_value :: "substrate \<Rightarrow> string" where
  "substrate_value AGENTS = ''agents''"
| "substrate_value ARBITRATION = ''arbitration''"
| "substrate_value BOUNDARY = ''boundary''"
| "substrate_value BOUNDARY_TRANSLATION = ''boundary_translation''"
| "substrate_value BOUNDARY_VOICE = ''boundary_voice''"
| "substrate_value COORDINATION = ''coordination''"
| "substrate_value COORDINATION_POLICY = ''coordination_policy''"
| "substrate_value COORDINATION_TOPOLOGY = ''coordination_topology''"
| "substrate_value ESCALATION = ''escalation''"
| "substrate_value EXECUTION = ''execution''"
| "substrate_value GOVERNANCE = ''governance''"
| "substrate_value HARDENING = ''hardening''"
| "substrate_value HUMAN = ''human''"
| "substrate_value MEMORY = ''memory''"
| "substrate_value ORGANIZATIONAL_INTELLIGENCE = ''organizational_intelligence''"
| "substrate_value OI_COMMUNICATION = ''oi_communication''"
| "substrate_value OI_MEMORY = ''oi_memory''"
| "substrate_value OI_RECOMMENDATION = ''oi_recommendation''"
| "substrate_value OI_SOP = ''oi_sop''"
| "substrate_value OI_TONALITY = ''oi_tonality''"
| "substrate_value QA = ''qa''"
| "substrate_value SESSION = ''session''"
| "substrate_value SUPERVISOR = ''supervisor''"
| "substrate_value TENANT = ''tenant''"

section \<open>Events\<close>

record causality =
  ca_root :: string
  ca_parent :: "string option"
  ca_depth :: int

record chronology =
  ch_runtime :: string
  ch_sequence :: int
  ch_occurred_at :: int

record event =
  ev_id :: string
  ev_act :: string
  ev_substrate :: substrate
  ev_causality :: causality
  ev_chronology :: chronology
  ev_tenant_id :: "string option"
  ev_principal_id :: "string option"
  ev_organization_id :: "string option"
  ev_environment_id :: "string option"
  ev_authority_source :: "string option"
  ev_decision :: "decision option"
  ev_decision_id :: "string option"
  ev_metadata :: "(string, pyval) dict"

abbreviation ev_root :: "event \<Rightarrow> string" where "ev_root e \<equiv> ca_root (ev_causality e)"
abbreviation ev_parent :: "event \<Rightarrow> string option" where "ev_parent e \<equiv> ca_parent (ev_causality e)"
abbreviation ev_depth :: "event \<Rightarrow> int" where "ev_depth e \<equiv> ca_depth (ev_causality e)"

text \<open>The checks of the three constructors (\<open>__post_init__\<close>).\<close>

definition check_causality :: "causality \<Rightarrow> causality result" where
  "check_causality c =
     (if ca_depth c < 0 then
        Inl (EventCausalityError (''EventCausality.depth must be >= 0; got '' @ show_int (ca_depth c)))
      else if ca_parent c = None \<and> ca_depth c \<noteq> 0 then
        Inl (EventCausalityError (''root EventCausality (parent_event_id=None) must have depth=0; got depth='' @
               show_int (ca_depth c)))
      else if ca_parent c \<noteq> None \<and> ca_depth c = 0 then
        Inl (EventCausalityError
               ''non-root EventCausality (parent_event_id set) must have depth>=1; got depth=0'')
      else Inr c)"

definition is_root :: "causality \<Rightarrow> bool" where
  "is_root c \<longleftrightarrow> ca_parent c = None"

definition check_chronology :: "chronology \<Rightarrow> chronology result" where
  "check_chronology c =
     (if ch_sequence c < 0 then
        Inl (EventChronologyError (''EventChronology.sequence must be >= 0; got '' @ show_int (ch_sequence c)))
      else Inr c)"

definition check_event :: "event \<Rightarrow> event result" where
  "check_event e =
     (if is_root (ev_causality e) \<and> ev_root e \<noteq> ev_id e then
        Inl (EventCausalityError ''root OperationalEvent must have causality.root_event_id equal to event_id'')
      else if ev_parent e \<noteq> None \<and> ev_parent e = Some (ev_id e) then
        Inl (EventCausalityError ''OperationalEvent cannot name itself as parent_event_id'')
      else Inr e)"

text \<open>An event as any construction leaves it: its parts are built first.\<close>

definition construct_event :: "event \<Rightarrow> event result" where
  "construct_event e =
     (case check_causality (ev_causality e) of Inl x \<Rightarrow> Inl x
      | Inr _ \<Rightarrow>
     (case check_chronology (ev_chronology e) of Inl x \<Rightarrow> Inl x
      | Inr _ \<Rightarrow> check_event e))"

definition EVENT_NAMESPACE :: string where
  "EVENT_NAMESPACE = ''3f8b6c4e-5b27-4a92-9c1a-1c8b1f0c7c2d''"

definition derive_event_id ::
  "py_env \<Rightarrow> string \<Rightarrow> string \<Rightarrow> string \<Rightarrow> int \<Rightarrow> string option \<Rightarrow> string option \<Rightarrow> string" where
  "derive_event_id env act sub runtime_instance_id sequence tenant_id parent_event_id =
     uuid5 env EVENT_NAMESPACE
       (act @ ''|'' @ sub @ ''|'' @ runtime_instance_id @ ''|'' @ show_int sequence @ ''|'' @
        project_optional_str tenant_id @ ''|'' @ project_optional_str parent_event_id)"

section \<open>Queries\<close>

record event_query =
  vq_event_id :: "string option"
  vq_act :: "string option"
  vq_substrate :: "substrate option"
  vq_tenant_id :: "string option"
  vq_runtime :: "string option"
  vq_root :: "string option"
  vq_parent :: "string option"
  vq_decision_id :: "string option"
  vq_after_or_at :: "int option"
  vq_before_or_at :: "int option"
  vq_limit :: int
  vq_offset :: int

definition check_query :: "event_query \<Rightarrow> event_query result" where
  "check_query q =
     (if vq_limit q < 1 then Inl (ValueError ''OperationalEventQuery.limit must be >= 1'')
      else if vq_offset q < 0 then Inl (ValueError ''OperationalEventQuery.offset must be >= 0'')
      else case (vq_after_or_at q, vq_before_or_at q) of
             (Some a, Some b) \<Rightarrow>
               if b < a then Inl (ValueError
                 ''OperationalEventQuery occurred_after_or_at must be <= occurred_before_or_at'')
               else Inr q
           | _ \<Rightarrow> Inr q)"

definition default_event_query :: event_query where
  "default_event_query =
     \<lparr>vq_event_id = None, vq_act = None, vq_substrate = None, vq_tenant_id = None, vq_runtime = None,
      vq_root = None, vq_parent = None, vq_decision_id = None, vq_after_or_at = None, vq_before_or_at = None,
      vq_limit = 100, vq_offset = 0\<rparr>"

record event_page =
  vp_events :: "event list"
  vp_total :: int
  vp_limit :: int
  vp_offset :: int

section \<open>The journal\<close>

record event_store =
  es_events :: "(string, event) dict"
  es_chronology :: "(string \<times> int, string) dict"

definition empty_event_store :: event_store where
  "empty_event_store = \<lparr>es_events = [], es_chronology = []\<rparr>"

definition chronology_key :: "event \<Rightarrow> string \<times> int" where
  "chronology_key e = (ch_runtime (ev_chronology e), ch_sequence (ev_chronology e))"

definition append_event :: "py_env \<Rightarrow> event_store \<Rightarrow> event \<Rightarrow> event result \<times> event_store" where
  "append_event env s e =
     (case dget (es_events s) (ev_id e) of
        Some existing \<Rightarrow>
          if existing = e then (Inr existing, s)
          else (Inl (EventPersistenceError (''event '' @ repr_str env (ev_id e) @
                       '' already exists with different content'')), s)
      | None \<Rightarrow>
          (case dget (es_chronology s) (chronology_key e) of
             Some other \<Rightarrow>
               (Inl (EventPersistenceError (''chronology point already has an event: runtime_instance_id='' @
                  repr_str env (fst (chronology_key e)) @ '', sequence='' @ show_int (snd (chronology_key e)) @
                  '', event_id='' @ repr_str env other)), s)
           | None \<Rightarrow>
               (Inr e, s\<lparr>es_events := dset (ev_id e) e (es_events s),
                  es_chronology := dset (chronology_key e) (ev_id e) (es_chronology s)\<rparr>)))"

definition optional_visible :: "string option \<Rightarrow> string option \<Rightarrow> bool" where
  "optional_visible owner expected = (case expected of None \<Rightarrow> True | Some t \<Rightarrow> owner = Some t)"

definition get_event :: "event_store \<Rightarrow> string \<Rightarrow> string option \<Rightarrow> event option" where
  "get_event s event_id expected_tenant_id =
     (case dget (es_events s) event_id of
        None \<Rightarrow> None
      | Some e \<Rightarrow> if optional_visible (ev_tenant_id e) expected_tenant_id then Some e else None)"

definition event_matches :: "event_query \<Rightarrow> string option \<Rightarrow> event \<Rightarrow> bool" where
  "event_matches q expected_tenant_id e \<longleftrightarrow>
     optional_visible (ev_tenant_id e) expected_tenant_id \<and>
     (\<forall>v \<in> set_option (vq_event_id q). ev_id e = v) \<and>
     (\<forall>v \<in> set_option (vq_act q). ev_act e = v) \<and>
     (\<forall>v \<in> set_option (vq_substrate q). ev_substrate e = v) \<and>
     (\<forall>v \<in> set_option (vq_tenant_id q). ev_tenant_id e = Some v) \<and>
     (\<forall>v \<in> set_option (vq_runtime q). ch_runtime (ev_chronology e) = v) \<and>
     (\<forall>v \<in> set_option (vq_root q). ev_root e = v) \<and>
     (\<forall>v \<in> set_option (vq_parent q). ev_parent e = Some v) \<and>
     (\<forall>v \<in> set_option (vq_decision_id q). ev_decision_id e = Some v) \<and>
     (\<forall>v \<in> set_option (vq_after_or_at q). v \<le> ch_occurred_at (ev_chronology e)) \<and>
     (\<forall>v \<in> set_option (vq_before_or_at q). ch_occurred_at (ev_chronology e) \<le> v)"

definition event_list_key :: "event \<Rightarrow> int \<times> string \<times> int \<times> string" where
  "event_list_key e = (ch_occurred_at (ev_chronology e), ch_runtime (ev_chronology e),
     ch_sequence (ev_chronology e), ev_id e)"

definition event_rows :: "event_store \<Rightarrow> event_query \<Rightarrow> string option \<Rightarrow> event list" where
  "event_rows s q expected_tenant_id =
     sort_key event_list_key (filter (event_matches q expected_tenant_id) (dvals (es_events s)))"

definition list_events :: "event_store \<Rightarrow> event_query \<Rightarrow> string option \<Rightarrow> event_page" where
  "list_events s q expected_tenant_id =
     (let rows = event_rows s q expected_tenant_id
      in \<lparr>vp_events = py_slice rows (vq_offset q) (vq_offset q + vq_limit q), vp_total = int (length rows),
          vp_limit = 0, vp_offset = vq_offset q\<rparr>)"

section \<open>The runtime\<close>

definition validate_optional_tenant_id :: "string option \<Rightarrow> unit result" where
  "validate_optional_tenant_id t =
     (if t = Some [] then Inl (ValueError ''expected_tenant_id must be non-empty when supplied'') else Inr ())"

definition validate_event_causality :: "event \<Rightarrow> unit result" where
  "validate_event_causality e =
     (if is_root (ev_causality e) \<and> ev_root e \<noteq> ev_id e then
        Inl (EventCausalityError ''root event must have causality.root_event_id equal to event_id'')
      else if ev_parent e = Some (ev_id e) then
        Inl (EventCausalityError ''event cannot name itself as parent'')
      else Inr ())"

definition rt_append_event ::
  "py_env \<Rightarrow> event_store \<Rightarrow> event \<Rightarrow> string option \<Rightarrow> event result \<times> event_store" where
  "rt_append_event env s e expected_tenant_id =
     (case validate_optional_tenant_id expected_tenant_id of Inl x \<Rightarrow> (Inl x, s)
      | Inr _ \<Rightarrow>
     (case validate_event_causality e of Inl x \<Rightarrow> (Inl x, s)
      | Inr _ \<Rightarrow>
          if \<not> optional_visible (ev_tenant_id e) expected_tenant_id then
            (Inl (EventCausalityError ''event tenant_id does not match expected_tenant_id''), s)
          else append_event env s e))"

definition rt_get_event :: "event_store \<Rightarrow> string \<Rightarrow> string option \<Rightarrow> event option result" where
  "rt_get_event s event_id expected_tenant_id =
     (case validate_optional_tenant_id expected_tenant_id of Inl x \<Rightarrow> Inl x
      | Inr _ \<Rightarrow> Inr (get_event s event_id expected_tenant_id))"

definition rt_list_events :: "event_store \<Rightarrow> event_query \<Rightarrow> string option \<Rightarrow> event_page result" where
  "rt_list_events s q expected_tenant_id =
     (case validate_optional_tenant_id expected_tenant_id of Inl x \<Rightarrow> Inl x
      | Inr _ \<Rightarrow> Inr (list_events s q expected_tenant_id))"

section \<open>Reading every page\<close>

text \<open>\<open>_list_all_events\<close> of the replay and lineage runtimes asks for pages of 100 until a
  short one.\<close>

definition page_query :: "event_query \<Rightarrow> nat \<Rightarrow> event_query" where
  "page_query q offset = q\<lparr>vq_limit := 100, vq_offset := int offset\<rparr>"

lemma full_page_advances:
  assumes "length (vp_events (list_events s (page_query q offset) t)) = n" "\<not> n < 100"
  shows "offset + n \<le> nat (vp_total (list_events s (page_query q offset) t))"
    "vp_total (list_events s (page_query q offset) t) = int (length (event_rows s (page_query q offset) t))"
proof -
  let ?rows = "event_rows s (page_query q offset) t"
  have "n = min 100 (length ?rows - offset)"
    using assms(1) py_slice_nonneg [of "int offset" 100 ?rows]
    by (simp add: list_events_def Let_def page_query_def)
  with assms(2) show "offset + n \<le> nat (vp_total (list_events s (page_query q offset) t))"
    by (simp add: list_events_def Let_def)
qed (simp add: list_events_def Let_def)

lemma event_rows_page [simp]: "event_rows s (page_query q offset) t = event_rows s q t"
  by (simp add: event_rows_def event_matches_def page_query_def cong: filter_cong)

function list_events_from :: "event_store \<Rightarrow> event_query \<Rightarrow> string option \<Rightarrow> nat \<Rightarrow> event list" where
  "list_events_from s q t offset =
     (let page = list_events s (page_query q offset) t;
          n = length (vp_events page)
      in vp_events page @
         (if n < 100 \<or> (0 \<le> vp_total page \<and> vp_total page \<le> int (offset + n)) then []
          else list_events_from s q t (offset + n)))"
  by pat_completeness auto

termination
  by (relation "measure (\<lambda>(s, q, t, offset). length (event_rows s q t) - offset)")
    (use full_page_advances in \<open>fastforce simp: list_events_def Let_def\<close>)+

declare list_events_from.simps [simp del]

definition list_all_events :: "event_store \<Rightarrow> event_query \<Rightarrow> string option \<Rightarrow> event list result" where
  "list_all_events s q t =
     (case validate_optional_tenant_id t of Inl x \<Rightarrow> Inl x
      | Inr _ \<Rightarrow>
     (case check_query (page_query q 0) of Inl x \<Rightarrow> Inl x
      | Inr _ \<Rightarrow> Inr (list_events_from s q t 0)))"

end
