(* ===== verification/Event_Replay.thy ===== *)
theory Event_Replay
  imports Event_Model
begin

text \<open>
  Reading the journal back: the lineage graph (\<open>app/events/lineage.py\<close>), which resolves
  the references events make to one another, and the replay trace
  (\<open>app/events/replay.py\<close>), which orders the events of a causal root and reports what
  is wrong with them.
\<close>

section \<open>Order\<close>

definition replay_key :: "event \<Rightarrow> string \<times> int \<times> string \<times> int \<times> string" where
  "replay_key e = (ev_root e, ev_depth e, ch_runtime (ev_chronology e), ch_sequence (ev_chronology e), ev_id e)"

text \<open>\<open>{event.event_id: event for event in events}\<close>.\<close>

definition events_by_id :: "event list \<Rightarrow> (string, event) dict" where
  "events_by_id es = fold (\<lambda>e d. dset (ev_id e) e d) es []"

section \<open>Lineage\<close>

datatype relation = LOCAL_PARENT | GOVERNED_BY | EXECUTION_FOR_SESSION | SUPERVISES_EXECUTION
  | ARBITRATES_AUTHORITY | SOP_APPROVAL_EVIDENCES_SESSION

fun relation_value :: "relation \<Rightarrow> string" where
  "relation_value LOCAL_PARENT = ''local_parent''"
| "relation_value GOVERNED_BY = ''governed_by''"
| "relation_value EXECUTION_FOR_SESSION = ''execution_for_session''"
| "relation_value SUPERVISES_EXECUTION = ''supervises_execution''"
| "relation_value ARBITRATES_AUTHORITY = ''arbitrates_authority''"
| "relation_value SOP_APPROVAL_EVIDENCES_SESSION = ''sop_approval_evidences_session''"

record lineage_edge =
  le_source :: string
  le_target :: string
  le_relation :: relation
  le_source_substrate :: substrate
  le_target_substrate :: substrate
  le_metadata :: "(string, pyval) dict"

record unresolved_reference =
  ur_source :: string
  ur_relation :: relation
  ur_target_key :: string
  ur_metadata :: "(string, pyval) dict"

record lineage_graph =
  lg_events :: "event list"
  lg_edges :: "lineage_edge list"
  lg_unresolved :: "unresolved_reference list"

text \<open>\<open>OperationalLineageError\<close>, which the readers catch, carries its message.\<close>

type_synonym 'a lineage_result = "string + 'a"

record links =
  lk_edges :: "(string \<times> relation \<times> string, lineage_edge) dict"
  lk_unresolved :: "(string \<times> relation \<times> string, unresolved_reference) dict"

definition no_links :: links where
  "no_links = \<lparr>lk_edges = [], lk_unresolved = []\<rparr>"

text \<open>\<open>repr\<close> of an optional string.\<close>

fun repr_optional :: "py_env \<Rightarrow> string option \<Rightarrow> string" where
  "repr_optional env None = ''None''"
| "repr_optional env (Some v) = repr_str env v"

definition validate_edge_target ::
  "py_env \<Rightarrow> event \<Rightarrow> event \<Rightarrow> relation \<Rightarrow> substrate option \<Rightarrow> unit lineage_result" where
  "validate_edge_target env source target rel expected =
     (if expected \<noteq> None \<and> expected \<noteq> Some (ev_substrate target) then
        Inl (relation_value rel @ '' target '' @ repr_str env (ev_id target) @ '' is '' @
             repr_str env (substrate_value (ev_substrate target)) @ '', expected '' @
             repr_str env (substrate_value (the expected)))
      else if ev_tenant_id source \<noteq> ev_tenant_id target then
        Inl (relation_value rel @ '' crosses tenant scopes: '' @ repr_optional env (ev_tenant_id source) @
             '' -> '' @ repr_optional env (ev_tenant_id target))
      else Inr ())"

definition resolve_or_record ::
  "py_env \<Rightarrow> event \<Rightarrow> relation \<Rightarrow> string \<Rightarrow> event option \<Rightarrow> (string, pyval) dict \<Rightarrow> substrate option
     \<Rightarrow> links \<Rightarrow> links lineage_result" where
  "resolve_or_record env source rel target_key target md expected lk =
     (case target of
        None \<Rightarrow>
          Inr (lk\<lparr>lk_unresolved := dset (ev_id source, rel, target_key)
             \<lparr>ur_source = ev_id source, ur_relation = rel, ur_target_key = target_key, ur_metadata = md\<rparr>
             (lk_unresolved lk)\<rparr>)
      | Some t \<Rightarrow>
          (case validate_edge_target env source t rel expected of
             Inl m \<Rightarrow> Inl m
           | Inr _ \<Rightarrow>
               if ev_id source = ev_id t then Inl ''lineage edge cannot point an event at itself''
               else Inr (lk\<lparr>lk_edges := dset (ev_id source, rel, ev_id t)
                 \<lparr>le_source = ev_id source, le_target = ev_id t, le_relation = rel,
                  le_source_substrate = ev_substrate source, le_target_substrate = ev_substrate t,
                  le_metadata = md\<rparr> (lk_edges lk)\<rparr>)))"

definition metadata_text :: "py_env \<Rightarrow> (string, pyval) dict \<Rightarrow> string \<Rightarrow> string option" where
  "metadata_text env m k =
     (let v = get_or_none m k; text = py_str env v
      in if v = PNone \<or> text = [] then None else Some text)"

fun add_root :: "string option \<Rightarrow> event \<Rightarrow> (string, event) dict \<Rightarrow> (string, event) dict" where
  "add_root None e d = d"
| "add_root (Some k) e d = dsetdefault k e d"

definition session_roots :: "py_env \<Rightarrow> event list \<Rightarrow> (string, event) dict" where
  "session_roots env es = fold (\<lambda>e d.
     if ev_substrate e \<noteq> SESSION \<or> ev_act e \<noteq> ''session:open'' then d
     else add_root (metadata_text env (ev_metadata e) ''source_session_id'') e d) es []"

definition execution_roots :: "py_env \<Rightarrow> event list \<Rightarrow> (string, event) dict" where
  "execution_roots env es = fold (\<lambda>e d.
     if ev_substrate e \<noteq> EXECUTION \<or> ev_act e \<noteq> ''execution:request'' then d
     else add_root (metadata_text env (ev_metadata e) ''execution_id'') e d) es []"

definition add_local_parent :: "py_env \<Rightarrow> (string, event) dict \<Rightarrow> event \<Rightarrow> links \<Rightarrow> links lineage_result" where
  "add_local_parent env by_id e lk =
     (case ev_parent e of
        None \<Rightarrow> Inr lk
      | Some p \<Rightarrow> resolve_or_record env e LOCAL_PARENT p (dget by_id p) [(''depth'', PInt (ev_depth e))] None lk)"

definition add_governance :: "py_env \<Rightarrow> (string, event) dict \<Rightarrow> event \<Rightarrow> links \<Rightarrow> links lineage_result" where
  "add_governance env by_id e lk =
     (case ev_decision_id e of
        None \<Rightarrow> Inr lk
      | Some d \<Rightarrow>
          if d = ev_id e then Inr lk
          else resolve_or_record env e GOVERNED_BY d (dget by_id d)
                 [(''governance_decision_id'', PStr d)] (Some GOVERNANCE) lk)"

definition add_execution_session :: "py_env \<Rightarrow> (string, event) dict \<Rightarrow> event \<Rightarrow> links \<Rightarrow> links lineage_result" where
  "add_execution_session env sessions e lk =
     (if ev_act e \<noteq> ''execution:request'' then Inr lk
      else case metadata_text env (ev_metadata e) ''session_id'' of
             None \<Rightarrow> Inr lk
           | Some i \<Rightarrow> resolve_or_record env e EXECUTION_FOR_SESSION i (dget sessions i)
                         [(''session_id'', PStr i)] (Some SESSION) lk)"

definition add_supervisor_execution :: "py_env \<Rightarrow> (string, event) dict \<Rightarrow> event \<Rightarrow> links \<Rightarrow> links lineage_result" where
  "add_supervisor_execution env executions e lk =
     (if ev_act e \<noteq> ''supervisor:inspect'' then Inr lk
      else case metadata_text env (ev_metadata e) ''source_execution_id'' of
             None \<Rightarrow> Inr lk
           | Some i \<Rightarrow> resolve_or_record env e SUPERVISES_EXECUTION i (dget executions i)
                         [(''execution_id'', PStr i)] (Some EXECUTION) lk)"

text \<open>The event an arbitration names as its prevailing authority: key, event, substrate.\<close>

definition authority_target ::
  "(string, event) dict \<Rightarrow> (string, event) dict \<Rightarrow> string \<Rightarrow> string
     \<Rightarrow> string \<times> event option \<times> substrate option" where
  "authority_target by_id executions sub i =
     (if sub = substrate_value GOVERNANCE then (i, dget by_id i, Some GOVERNANCE)
      else if sub = substrate_value SUPERVISOR then (i, dget by_id i, Some SUPERVISOR)
      else if sub = substrate_value ARBITRATION then (i, dget by_id i, Some ARBITRATION)
      else if sub = substrate_value EXECUTION then (i, dget executions i, Some EXECUTION)
      else (sub @ '':'' @ i, None, None))"

definition add_arbitration_authority ::
  "py_env \<Rightarrow> (string, event) dict \<Rightarrow> (string, event) dict \<Rightarrow> event \<Rightarrow> links \<Rightarrow> links lineage_result" where
  "add_arbitration_authority env by_id executions e lk =
     (if ev_act e \<noteq> ''arbitration:evaluate'' then Inr lk
      else case (metadata_text env (ev_metadata e) ''prevailing_authority_source_substrate'',
                 metadata_text env (ev_metadata e) ''prevailing_authority_source_id'') of
             (Some sub, Some i) \<Rightarrow>
               (case authority_target by_id executions sub i of
                  (target_key, target, expected) \<Rightarrow>
                    if target = Some e then Inr lk
                    else resolve_or_record env e ARBITRATES_AUTHORITY target_key target
                           [(''prevailing_authority_source_substrate'', PStr sub),
                            (''prevailing_authority_source_id'', PStr i)] expected lk)
           | _ \<Rightarrow> Inr lk)"

definition sop_approval_acts :: "string list" where
  "sop_approval_acts = [''oi_sop:approval_propose'', ''oi_sop:approval_approve'', ''oi_sop:approval_reject'',
     ''oi_sop:approval_apply'']"

fun evidence_items :: "pyval \<Rightarrow> pyval list" where
  "evidence_items (PList xs) = xs"
| "evidence_items _ = []"

fun fold_links :: "('a \<Rightarrow> links \<Rightarrow> links lineage_result) \<Rightarrow> 'a list \<Rightarrow> links \<Rightarrow> links lineage_result" where
  "fold_links f [] lk = Inr lk"
| "fold_links f (x # xs) lk = (case f x lk of Inl m \<Rightarrow> Inl m | Inr lk' \<Rightarrow> fold_links f xs lk')"

definition add_sop_evidence :: "py_env \<Rightarrow> (string, event) dict \<Rightarrow> event \<Rightarrow> links \<Rightarrow> links lineage_result" where
  "add_sop_evidence env sessions e lk =
     (if ev_act e \<notin> set sop_approval_acts then Inr lk
      else fold_links (\<lambda>v lk.
             let i = py_str env v
             in if i = [] then Inr lk
                else resolve_or_record env e SOP_APPROVAL_EVIDENCES_SESSION i (dget sessions i)
                       [(''session_id'', PStr i)] (Some SESSION) lk)
             (evidence_items (get_or_none (ev_metadata e) ''evidence_sessions'')) lk)"

definition add_event_links ::
  "py_env \<Rightarrow> (string, event) dict \<Rightarrow> (string, event) dict \<Rightarrow> (string, event) dict \<Rightarrow> event \<Rightarrow> links
     \<Rightarrow> links lineage_result" where
  "add_event_links env by_id sessions executions e lk =
     fold_links (\<lambda>f lk. f e lk)
       [add_local_parent env by_id, add_governance env by_id, add_execution_session env sessions,
        add_supervisor_execution env executions, add_arbitration_authority env by_id executions,
        add_sop_evidence env sessions] lk"

definition edge_key :: "lineage_edge \<Rightarrow> string \<times> string \<times> string" where
  "edge_key g = (le_source g, relation_value (le_relation g), le_target g)"

definition unresolved_key :: "unresolved_reference \<Rightarrow> string \<times> string \<times> string" where
  "unresolved_key u = (ur_source u, relation_value (ur_relation u), ur_target_key u)"

definition normalize_operational_lineage :: "py_env \<Rightarrow> event list \<Rightarrow> lineage_graph lineage_result" where
  "normalize_operational_lineage env es =
     (let ordered = sort_key replay_key es;
          by_id = events_by_id ordered;
          sessions = session_roots env ordered;
          executions = execution_roots env ordered
      in case fold_links (add_event_links env by_id sessions executions) ordered no_links of
           Inl m \<Rightarrow> Inl m
         | Inr lk \<Rightarrow> Inr \<lparr>lg_events = ordered, lg_edges = sort_key edge_key (dvals (lk_edges lk)),
                           lg_unresolved = sort_key unresolved_key (dvals (lk_unresolved lk))\<rparr>)"

definition build_graph ::
  "py_env \<Rightarrow> event_store \<Rightarrow> event_query \<Rightarrow> string option \<Rightarrow> lineage_graph lineage_result result" where
  "build_graph env s q t =
     (case list_all_events s q t of Inl e \<Rightarrow> Inl e
      | Inr es \<Rightarrow> Inr (normalize_operational_lineage env es))"

section \<open>Replay\<close>

datatype replay_status = COMPLETE | PARTIAL | INVALID

datatype finding_severity = WARNING | ERROR

datatype finding_code = EVENT_NOT_FOUND | EMPTY_TRACE | MISSING_ROOT | MISSING_PARENT | ROOT_MISMATCH
  | DEPTH_MISMATCH | TENANT_MISMATCH | LINEAGE_INVALID | LINEAGE_UNRESOLVED

fun finding_code_value :: "finding_code \<Rightarrow> string" where
  "finding_code_value EVENT_NOT_FOUND = ''event_not_found''"
| "finding_code_value EMPTY_TRACE = ''empty_trace''"
| "finding_code_value MISSING_ROOT = ''missing_root''"
| "finding_code_value MISSING_PARENT = ''missing_parent''"
| "finding_code_value ROOT_MISMATCH = ''root_mismatch''"
| "finding_code_value DEPTH_MISMATCH = ''depth_mismatch''"
| "finding_code_value TENANT_MISMATCH = ''tenant_mismatch''"
| "finding_code_value LINEAGE_INVALID = ''lineage_invalid''"
| "finding_code_value LINEAGE_UNRESOLVED = ''lineage_unresolved''"

record finding =
  fd_code :: finding_code
  fd_severity :: finding_severity
  fd_message :: string
  fd_event_id :: "string option"
  fd_metadata :: "(string, pyval) dict"

record replay_trace =
  tr_root :: "string option"
  tr_events :: "event list"
  tr_lineage :: lineage_graph
  tr_findings :: "finding list"
  tr_status :: replay_status

definition finding_key :: "finding \<Rightarrow> string \<times> string \<times> string" where
  "finding_key f = (case fd_event_id f of None \<Rightarrow> [] | Some i \<Rightarrow> i, finding_code_value (fd_code f), fd_message f)"

definition error_finding :: "finding_code \<Rightarrow> string option \<Rightarrow> string \<Rightarrow> (string, pyval) dict \<Rightarrow> finding" where
  "error_finding c i m md =
     \<lparr>fd_code = c, fd_severity = ERROR, fd_message = m, fd_event_id = i, fd_metadata = md\<rparr>"

text \<open>What one event contributes.\<close>

definition tenant_findings :: "string option \<Rightarrow> event \<Rightarrow> finding list" where
  "tenant_findings t e =
     (case t of
        None \<Rightarrow> []
      | Some u \<Rightarrow>
          if ev_tenant_id e \<noteq> Some u then
            [error_finding TENANT_MISMATCH (Some (ev_id e)) ''event tenant_id does not match replay tenant scope''
               [(''expected_tenant_id'', PStr u), (''event_tenant_id'', opt_pstr (ev_tenant_id e))]]
          else [])"

definition parent_findings :: "(string, event) dict \<Rightarrow> event \<Rightarrow> finding list" where
  "parent_findings by_id e =
     (case ev_parent e of
        None \<Rightarrow> []
      | Some p \<Rightarrow>
          (case dget by_id p of
             None \<Rightarrow> [error_finding MISSING_PARENT (Some (ev_id e))
                        ''causal replay trace is missing an event parent'' [(''parent_event_id'', PStr p)]]
           | Some q \<Rightarrow>
               (if ev_root q \<noteq> ev_root e then
                  [error_finding ROOT_MISMATCH (Some (ev_id e)) ''event parent belongs to a different causal root''
                     [(''parent_event_id'', PStr (ev_id q)), (''parent_root_event_id'', PStr (ev_root q)),
                      (''event_root_event_id'', PStr (ev_root e))]]
                else []) @
               (if ev_depth e \<noteq> ev_depth q + 1 then
                  [error_finding DEPTH_MISMATCH (Some (ev_id e)) ''event causality depth is not parent depth + 1''
                     [(''parent_event_id'', PStr (ev_id q)), (''parent_depth'', PInt (ev_depth q)),
                      (''event_depth'', PInt (ev_depth e))]]
                else [])))"

definition causality_findings :: "event list \<Rightarrow> string option \<Rightarrow> string option \<Rightarrow> finding list" where
  "causality_findings es root t =
     (if es = [] then
        [\<lparr>fd_code = EMPTY_TRACE, fd_severity = WARNING, fd_message = ''event replay trace contains no events'',
          fd_event_id = None,
          fd_metadata = (case root of None \<Rightarrow> [] | Some r \<Rightarrow> [(''root_event_id'', PStr r)])\<rparr>]
      else
        (let by_id = events_by_id es
         in sort_key finding_key
              ((case root of
                  None \<Rightarrow> []
                | Some r \<Rightarrow>
                    if dget by_id r = None then
                      [error_finding MISSING_ROOT (Some r) ''causal replay trace is missing its root event''
                         [(''root_event_id'', PStr r)]]
                    else []) @
               concat (map (\<lambda>e. tenant_findings t e @ parent_findings by_id e) es))))"

definition lineage_findings :: "lineage_graph \<Rightarrow> finding list" where
  "lineage_findings g = sort_key finding_key
     (map (\<lambda>u. \<lparr>fd_code = LINEAGE_UNRESOLVED, fd_severity = WARNING,
               fd_message = ''event replay trace contains an unresolved lineage reference'',
               fd_event_id = Some (ur_source u),
               fd_metadata = dmerge [(''relation'', PStr (relation_value (ur_relation u))),
                 (''target_key'', PStr (ur_target_key u))] (ur_metadata u)\<rparr>)
       (filter (\<lambda>u. ur_relation u \<noteq> LOCAL_PARENT) (lg_unresolved g)))"

definition status_from_findings :: "finding list \<Rightarrow> replay_status" where
  "status_from_findings fs =
     (if list_ex (\<lambda>f. fd_severity f = ERROR) fs then INVALID
      else if fs \<noteq> [] then PARTIAL else COMPLETE)"

definition build_trace ::
  "py_env \<Rightarrow> string option \<Rightarrow> event list \<Rightarrow> string option \<Rightarrow> finding list \<Rightarrow> replay_trace" where
  "build_trace env root es t preflight =
     (let ordered = sort_key replay_key es;
          (lineage, lfs) =
            (case normalize_operational_lineage env ordered of
               Inr g \<Rightarrow> (g, lineage_findings g)
             | Inl m \<Rightarrow> (\<lparr>lg_events = ordered, lg_edges = [], lg_unresolved = []\<rparr>,
                         [error_finding LINEAGE_INVALID None m []]));
          findings = preflight @ causality_findings ordered root t @ lfs
      in \<lparr>tr_root = root, tr_events = ordered, tr_lineage = lineage, tr_findings = findings,
          tr_status = status_from_findings findings\<rparr>)"

definition load_causal_trace ::
  "py_env \<Rightarrow> event_store \<Rightarrow> string \<Rightarrow> string option \<Rightarrow> replay_trace result" where
  "load_causal_trace env s root t =
     (case list_all_events s (default_event_query\<lparr>vq_root := Some root\<rparr>) t of Inl e \<Rightarrow> Inl e
      | Inr es \<Rightarrow> Inr (build_trace env (Some root) es t []))"

definition load_event_trace ::
  "py_env \<Rightarrow> event_store \<Rightarrow> string \<Rightarrow> string option \<Rightarrow> replay_trace result" where
  "load_event_trace env s event_id t =
     (case rt_get_event s event_id t of Inl e \<Rightarrow> Inl e
      | Inr None \<Rightarrow> Inr (build_trace env None [] t
          [error_finding EVENT_NOT_FOUND (Some event_id) ''event replay trace cannot be loaded; event not found'' []])
      | Inr (Some e) \<Rightarrow> load_causal_trace env s (ev_root e) t)"

definition load_window ::
  "py_env \<Rightarrow> event_store \<Rightarrow> event_query \<Rightarrow> string option \<Rightarrow> replay_trace result" where
  "load_window env s q t =
     (case list_all_events s q t of Inl e \<Rightarrow> Inl e
      | Inr es \<Rightarrow> Inr (build_trace env (vq_root q) es t []))"

definition load_replay_trace ::
  "py_env \<Rightarrow> event_store \<Rightarrow> string option \<Rightarrow> string option \<Rightarrow> event_query \<Rightarrow> string \<Rightarrow> replay_trace result" where
  "load_replay_trace env s event_id root q t =
     (case event_id of
        Some i \<Rightarrow> load_event_trace env s i (Some t)
      | None \<Rightarrow>
     (case root of
        Some r \<Rightarrow> load_causal_trace env s r (Some t)
      | None \<Rightarrow>
     (case vq_decision_id q of
        None \<Rightarrow> load_window env s q (Some t)
      | Some d \<Rightarrow>
          (case rt_list_events s (default_event_query\<lparr>vq_decision_id := Some d, vq_limit := 1\<rparr>) (Some t) of
             Inl e \<Rightarrow> Inl e
           | Inr page \<Rightarrow>
               (case vp_events page of
                  e # _ \<Rightarrow> load_causal_trace env s (ev_root e) (Some t)
                | [] \<Rightarrow> load_window env s q (Some t))))))"

end
