(* ===== verification/Event_Safety.thy ===== *)
theory Event_Safety
  imports Event_Replay "HOL-Library.Multiset"
begin

text \<open>
  What the event fabric promises: the journal is append-only with one event per
  chronology point; a reader gets every matching event whatever the page size; the
  views depend on the recorded events and not on their order of arrival; a causal
  trace is reported valid exactly when its events form a tree under their root; and
  lineage edges join events of one tenant.
\<close>

section \<open>Sorting by an injective key\<close>

lemma sort_key_unique:
  fixes f :: "'a \<Rightarrow> 'k::linorder"
  assumes "inj_on f (set xs)" "set xs = set ys" "distinct xs" "distinct ys"
  shows "sort_key f xs = sort_key f ys"
proof -
  have "mset xs = mset ys" using assms(2-4) set_eq_iff_mset_eq_distinct by blast
  then have "mset (sort_key f xs) = mset (sort_key f ys)" by simp
  then have "mset (map f (sort_key f xs)) = mset (map f (sort_key f ys))" by simp
  then have "map f (sort_key f xs) = map f (sort_key f ys)"
    by (metis properties_for_sort sorted_sort_key)
  then show ?thesis
    using assms(1,2) by (intro map_inj_on [of f]) (simp_all add: inj_on_def)
qed

lemma sort_key_idem [simp]: "sort_key f (sort_key f xs) = sort_key f (xs :: 'a list)"
  for f :: "'a \<Rightarrow> 'k::linorder"
  by (simp add: sort_key_id_if_sorted)

section \<open>The paging loop\<close>

lemma list_events_from_drop: "list_events_from s q t offset = drop offset (event_rows s q t)"
proof (induction s q t offset rule: list_events_from.induct)
  case (1 s q t offset)
  let ?rows = "event_rows s q t"
  let ?page = "list_events s (page_query q offset) t"
  have page: "vp_events ?page = take 100 (drop offset ?rows)" "vp_total ?page = int (length ?rows)"
    using py_slice_nonneg [of "int offset" 100 ?rows] by (simp_all add: list_events_def Let_def page_query_def [symmetric])
      (simp_all add: page_query_def)
  show ?case
  proof (cases "length (vp_events ?page) < 100 \<or>
      (0 \<le> vp_total ?page \<and> vp_total ?page \<le> int (offset + length (vp_events ?page)))")
    case True
    then have "length (drop offset ?rows) \<le> 100" by (auto simp: page min_def split: if_splits)
    then show ?thesis using True by (subst list_events_from.simps) (simp add: Let_def page)
  next
    case False
    then have "length (vp_events ?page) = 100" by (simp add: page min_def split: if_splits)
    with 1 [OF refl refl False] False
    have "list_events_from s q t offset = take 100 (drop offset ?rows) @ drop (offset + 100) ?rows"
      by (subst list_events_from.simps) (simp add: Let_def page)
    also have "\<dots> = drop offset ?rows" by (metis append_take_drop_id drop_drop add.commute)
    finally show ?thesis .
  qed
qed

lemma list_all_events_rows:
  "list_all_events s q t = Inr es \<Longrightarrow> es = event_rows s q t"
  by (auto simp: list_all_events_def list_events_from_drop split: sum.splits)

section \<open>The journal as a machine\<close>

type_synonym evt_op = "event \<times> string option"

definition evt_step :: "py_env \<Rightarrow> evt_op \<Rightarrow> event_store \<Rightarrow> event_store" where
  "evt_step env op s = snd (rt_append_event env s (fst op) (snd op))"

definition evt_ok :: "evt_op \<Rightarrow> event_store \<Rightarrow> bool" where
  "evt_ok op s \<longleftrightarrow> construct_event (fst op) = Inr (fst op)"

definition evt_inv :: "event_store \<Rightarrow> bool" where
  "evt_inv s \<longleftrightarrow> wf_dict (es_events s) \<and>
     (\<forall>i e. dget (es_events s) i = Some e \<longrightarrow> ev_id e = i \<and> construct_event e = Inr e) \<and>
     (\<forall>k i. dget (es_chronology s) k = Some i \<longleftrightarrow> (\<exists>e. dget (es_events s) i = Some e \<and> chronology_key e = k))"

lemma evt_inv_empty: "evt_inv empty_event_store"
  by (simp add: evt_inv_def empty_event_store_def)

lemma evt_invD:
  assumes "evt_inv s"
  shows "wf_dict (es_events s)"
    "dget (es_events s) i = Some e \<Longrightarrow> ev_id e = i"
    "dget (es_events s) i = Some e \<Longrightarrow> construct_event e = Inr e"
    "dget (es_chronology s) k = Some i \<longleftrightarrow> (\<exists>e. dget (es_events s) i = Some e \<and> chronology_key e = k)"
  using assms unfolding evt_inv_def by blast+

lemma append_cases:
  obtains (kept) "snd (append_event env s e) = s"
  | (new) "dget (es_events s) (ev_id e) = None" "dget (es_chronology s) (chronology_key e) = None"
      "snd (append_event env s e) = s\<lparr>es_events := dset (ev_id e) e (es_events s),
         es_chronology := dset (chronology_key e) (ev_id e) (es_chronology s)\<rparr>"
  by (cases "dget (es_events s) (ev_id e)"; cases "dget (es_chronology s) (chronology_key e)")
    (auto simp: append_event_def)

lemma rt_append_cases: "snd (rt_append_event env s e t) \<in> {s, snd (append_event env s e)}"
  by (simp add: rt_append_event_def split: sum.split)

lemma append_inv:
  assumes inv: "evt_inv s" and e: "construct_event e = Inr e"
  shows "evt_inv (snd (append_event env s e))"
proof (rule append_cases [of env s e])
  assume free: "dget (es_events s) (ev_id e) = None" "dget (es_chronology s) (chronology_key e) = None"
    and s': "snd (append_event env s e) = s\<lparr>es_events := dset (ev_id e) e (es_events s),
         es_chronology := dset (chronology_key e) (ev_id e) (es_chronology s)\<rparr>"
  have "dget (es_chronology (snd (append_event env s e))) k = Some i \<longleftrightarrow>
      (\<exists>x. dget (es_events (snd (append_event env s e))) i = Some x \<and> chronology_key x = k)" for k i
    using free evt_invD(4) [OF inv, of k i] evt_invD(4) [OF inv, of "chronology_key e" i]
    by (auto simp: s')
  then show ?thesis
    using evt_invD(1-3) [OF inv] e by (auto simp: evt_inv_def s')
qed (use inv in simp)

lemma append_keeps:
  "dget (es_events s) i = Some e \<Longrightarrow> dget (es_events (snd (append_event env s x))) i = Some e"
  by (rule append_cases [of env s x]) auto

interpretation journal: frozen_machine "evt_step env" evt_ok evt_inv "\<lambda>s i. dget (es_events s) i"
  for env
proof
  show "evt_inv (evt_step env op s)" if "evt_inv s" "evt_ok op s" for op s
    using rt_append_cases [of env s "fst op" "snd op"] append_inv [OF that(1), of "fst op" env] that
    by (auto simp: evt_step_def evt_ok_def)
  show "dget (es_events (evt_step env op s)) i = Some e" if "dget (es_events s) i = Some e" for op s i e
    using rt_append_cases [of env s "fst op" "snd op"] append_keeps [OF that] that
    by (auto simp: evt_step_def)
qed

interpretation event_reads: scoped_reads get_event ev_tenant_id
  by unfold_locales (auto simp: get_event_def optional_visible_def split: option.splits if_splits)

section \<open>Views depend on the recorded events only\<close>

lemma event_keys_inj: "inj_on ev_id (set es) \<Longrightarrow> inj_on event_list_key (set es)"
  "inj_on ev_id (set es) \<Longrightarrow> inj_on replay_key (set es)"
  by (auto simp: inj_on_def event_list_key_def replay_key_def)

lemma journal_ids:
  assumes "evt_inv s"
  shows "inj_on ev_id (set (dvals (es_events s)))" "distinct (dvals (es_events s))"
proof -
  have ids: "map ev_id (dvals (es_events s)) = dkeys (es_events s)"
    using evt_invD(1,2) [OF assms] by (auto simp: map_of_eq_Some_iff)
  then have "distinct (map ev_id (dvals (es_events s)))" using evt_invD(1) [OF assms] by (simp only: ids)
  then show "inj_on ev_id (set (dvals (es_events s)))" "distinct (dvals (es_events s))"
    unfolding distinct_map by simp_all
qed

lemma event_rows_set:
  "set (event_rows s q t) = {e \<in> set (dvals (es_events s)). event_matches q t e}"
  by (auto simp: event_rows_def)

lemma event_rows_ids:
  assumes "evt_inv s"
  shows "inj_on ev_id (set (event_rows s q t))" "distinct (event_rows s q t)"
  using journal_ids [OF assms] by (auto simp: event_rows_def inj_on_def)

lemma event_rows_eq:
  assumes "evt_inv s" "evt_inv s'" "set (dvals (es_events s)) = set (dvals (es_events s'))"
  shows "event_rows s q t = event_rows s' q t"
  unfolding event_rows_def
proof (rule sort_key_unique)
  show "inj_on event_list_key (set (filter (event_matches q t) (dvals (es_events s))))"
    by (rule event_keys_inj(1)) (rule inj_on_subset [OF journal_ids(1) [OF assms(1)]], auto)
qed (use assms journal_ids(2) in auto)

lemma normalize_permute:
  assumes "inj_on ev_id (set es)" "distinct es" "distinct es'" "set es = set es'"
  shows "normalize_operational_lineage env es = normalize_operational_lineage env es'"
  unfolding normalize_operational_lineage_def
  by (simp add: sort_key_unique [OF event_keys_inj(2) [OF assms(1)] assms(4,2,3)])

section \<open>Lineage\<close>

lemma fold_links_inv:
  assumes "\<And>x lk lk'. x \<in> set xs \<Longrightarrow> P lk \<Longrightarrow> f x lk = Inr lk' \<Longrightarrow> P lk'"
  shows "P lk \<Longrightarrow> fold_links f xs lk = Inr lk' \<Longrightarrow> P lk'"
  using assms
proof (induction xs arbitrary: lk)
  case (Cons x xs)
  then obtain lk1 where "f x lk = Inr lk1" "fold_links f xs lk1 = Inr lk'"
    by (auto split: sum.splits)
  then show ?case using Cons.IH [of lk1] Cons.prems by auto
qed simp

text \<open>An edge joins two different events of the view, of one tenant, and records their
  substrates; and what a relation points at is of the substrate it requires.\<close>

fun relation_substrate :: "relation \<Rightarrow> substrate set" where
  "relation_substrate LOCAL_PARENT = UNIV"
| "relation_substrate GOVERNED_BY = {GOVERNANCE}"
| "relation_substrate EXECUTION_FOR_SESSION = {SESSION}"
| "relation_substrate SUPERVISES_EXECUTION = {EXECUTION}"
| "relation_substrate ARBITRATES_AUTHORITY = {GOVERNANCE, SUPERVISOR, ARBITRATION, EXECUTION}"
| "relation_substrate SOP_APPROVAL_EVIDENCES_SESSION = {SESSION}"

definition edge_sound :: "event set \<Rightarrow> lineage_edge \<Rightarrow> bool" where
  "edge_sound E g \<longleftrightarrow> (\<exists>a\<in>E. \<exists>b\<in>E. le_source g = ev_id a \<and> le_target g = ev_id b \<and> ev_id a \<noteq> ev_id b \<and>
     ev_tenant_id a = ev_tenant_id b \<and> le_source_substrate g = ev_substrate a \<and>
     le_target_substrate g = ev_substrate b \<and> ev_substrate b \<in> relation_substrate (le_relation g))"

definition links_sound :: "event set \<Rightarrow> links \<Rightarrow> bool" where
  "links_sound E lk \<longleftrightarrow> (\<forall>g\<in>set (dvals (lk_edges lk)). edge_sound E g)"

lemma dvals_dset: "set (dvals (dset k v d)) \<subseteq> insert v (set (dvals d))"
  by (induction d) auto

lemma resolve_sound:
  assumes "links_sound E lk" "a \<in> E" "\<And>b. target = Some b \<Longrightarrow> b \<in> E"
    and "\<And>b. target = Some b \<Longrightarrow> expected = None \<or> expected = Some (ev_substrate b) \<Longrightarrow> ev_substrate b \<in> relation_substrate rel"
    and "resolve_or_record env a rel k target md expected lk = Inr lk'"
  shows "links_sound E lk'"
proof (cases target)
  case None
  then show ?thesis using assms(1,5) by (auto simp: resolve_or_record_def links_sound_def)
next
  case (Some b)
  then have ok: "expected = None \<or> expected = Some (ev_substrate b)" "ev_tenant_id a = ev_tenant_id b" "ev_id a \<noteq> ev_id b"
    and lk': "lk' = lk\<lparr>lk_edges := dset (ev_id a, rel, ev_id b)
       \<lparr>le_source = ev_id a, le_target = ev_id b, le_relation = rel, le_source_substrate = ev_substrate a,
        le_target_substrate = ev_substrate b, le_metadata = md\<rparr> (lk_edges lk)\<rparr>"
    using assms(5) by (auto simp: resolve_or_record_def validate_edge_target_def split: sum.splits if_splits)
  have "edge_sound E \<lparr>le_source = ev_id a, le_target = ev_id b, le_relation = rel,
      le_source_substrate = ev_substrate a, le_target_substrate = ev_substrate b, le_metadata = md\<rparr>"
    using assms(2) assms(3) [OF Some] assms(4) [OF Some ok(1)] ok by (auto simp: edge_sound_def)
  then show ?thesis
    using assms(1) dvals_dset unfolding links_sound_def lk' by fastforce
qed

lemma events_by_id_get:
  "dget (events_by_id es) i = Some e \<Longrightarrow> e \<in> set es \<and> ev_id e = i"
proof -
  have "dget (fold (\<lambda>e d. dset (ev_id e) e d) es d) i = Some e \<Longrightarrow>
      e \<in> set es \<and> ev_id e = i \<or> dget d i = Some e" for d
  proof (induction es arbitrary: d)
    case (Cons x es)
    then show ?case using Cons.IH [of "dset (ev_id x) x d"] by (auto split: if_splits)
  qed simp
  from this [of "[]"] show "dget (events_by_id es) i = Some e \<Longrightarrow> e \<in> set es \<and> ev_id e = i"
    by (simp add: events_by_id_def)
qed

lemma events_by_id_Some:
  assumes "inj_on ev_id (set es)" "e \<in> set es"
  shows "dget (events_by_id es) (ev_id e) = Some e"
proof -
  have "e \<in> set es \<or> dget d (ev_id e) = Some e \<Longrightarrow> inj_on ev_id (insert e (set es)) \<Longrightarrow>
      dget (fold (\<lambda>e d. dset (ev_id e) e d) es d) (ev_id e) = Some e" for d
  proof (induction es arbitrary: d)
    case (Cons x es)
    have same: "e = x" if "ev_id e = ev_id x" by (rule inj_onD [OF Cons.prems(2) that]) simp_all
    have "inj_on ev_id (insert e (set es))" by (rule inj_on_subset [OF Cons.prems(2)]) auto
    moreover have "e \<in> set es \<or> dget (dset (ev_id x) x d) (ev_id e) = Some e"
      using Cons.prems(1) same by (cases "ev_id e = ev_id x") auto
    ultimately show ?case using Cons.IH [of "dset (ev_id x) x d"] by simp
  qed simp
  then show ?thesis using assms by (simp add: events_by_id_def insert_absorb)
qed

lemma roots_get:
  assumes "\<And>e d. f e d = d \<or> (P e \<and> (\<exists>k. f e d = dsetdefault k e d))"
  shows "dget (fold f es []) i = Some e \<Longrightarrow> e \<in> set es \<and> P e"
proof -
  have "dget (fold f es d) i = Some e \<Longrightarrow> (e \<in> set es \<and> P e) \<or> dget d i = Some e" for d
  proof (induction es arbitrary: d)
    case (Cons x es)
    consider "f x d = d" | k where "P x" "f x d = dsetdefault k x d" using assms by blast
    then show ?case
    proof cases
      case (2 k)
      have "dget (dsetdefault k x d) i = Some e \<Longrightarrow> e = x \<or> dget d i = Some e"
        by (auto simp: dsetdefault_def split: option.splits if_splits)
      then show ?thesis using Cons 2 by auto
    qed (use Cons in auto)
  qed simp
  from this [of "[]"] show "dget (fold f es []) i = Some e \<Longrightarrow> e \<in> set es \<and> P e" by simp
qed

lemma add_root_cases: "add_root k e d = d \<or> (\<exists>k'. add_root k e d = dsetdefault k' e d)"
  by (cases k) auto

lemma session_roots_get: "dget (session_roots env es) i = Some e \<Longrightarrow> e \<in> set es \<and> ev_substrate e = SESSION"
  unfolding session_roots_def by (rule roots_get) (use add_root_cases in auto)

lemma execution_roots_get: "dget (execution_roots env es) i = Some e \<Longrightarrow> e \<in> set es \<and> ev_substrate e = EXECUTION"
  unfolding execution_roots_def by (rule roots_get) (use add_root_cases in auto)

lemma add_event_links_sound:
  assumes sound: "links_sound E lk" and e: "e \<in> E"
    and ids: "\<And>i b. dget by_id i = Some b \<Longrightarrow> b \<in> E"
    and sess: "\<And>i b. dget sessions i = Some b \<Longrightarrow> b \<in> E \<and> ev_substrate b = SESSION"
    and exec: "\<And>i b. dget executions i = Some b \<Longrightarrow> b \<in> E \<and> ev_substrate b = EXECUTION"
    and add: "add_event_links env by_id sessions executions e lk = Inr lk'"
  shows "links_sound E lk'"
  using sound add unfolding add_event_links_def
proof (rule fold_links_inv [rotated], goal_cases)
  case (1 f l l')
  then consider "f = add_local_parent env by_id" | "f = add_governance env by_id"
    | "f = add_execution_session env sessions" | "f = add_supervisor_execution env executions"
    | "f = add_arbitration_authority env by_id executions" | "f = add_sop_evidence env sessions" by auto
  then show ?case
  proof cases
    case 1
    with \<open>f e l = Inr l'\<close> \<open>links_sound E l\<close> show ?thesis
      by (auto simp: add_local_parent_def split: option.splits elim!: resolve_sound [OF _ e _ _, rotated -1] dest: ids)
  next
    case 2
    with \<open>f e l = Inr l'\<close> \<open>links_sound E l\<close> show ?thesis
      by (auto simp: add_governance_def split: option.splits if_splits elim!: resolve_sound [OF _ e _ _, rotated -1] dest: ids)
  next
    case 3
    with \<open>f e l = Inr l'\<close> \<open>links_sound E l\<close> show ?thesis
      by (auto simp: add_execution_session_def split: option.splits if_splits
          elim!: resolve_sound [OF _ e _ _, rotated -1] dest: sess)
  next
    case 4
    with \<open>f e l = Inr l'\<close> \<open>links_sound E l\<close> show ?thesis
      by (auto simp: add_supervisor_execution_def split: option.splits if_splits
          elim!: resolve_sound [OF _ e _ _, rotated -1] dest: exec)
  next
    case 5
    with \<open>f e l = Inr l'\<close> \<open>links_sound E l\<close> show ?thesis
      by (auto simp: add_arbitration_authority_def authority_target_def split: option.splits if_splits
          elim!: resolve_sound [OF _ e _ _, rotated -1] dest: ids exec)
  next
    case 6
    show ?thesis
    proof (cases "ev_act e \<in> set sop_approval_acts")
      case True
      with 6 \<open>f e l = Inr l'\<close> have "fold_links (\<lambda>v lk. let i = py_str env v in if i = [] then Inr lk
          else resolve_or_record env e SOP_APPROVAL_EVIDENCES_SESSION i (dget sessions i)
            [(''session_id'', PStr i)] (Some SESSION) lk)
          (evidence_items (get_or_none (ev_metadata e) ''evidence_sessions'')) l = Inr l'"
        by (simp add: add_sop_evidence_def)
      with \<open>links_sound E l\<close> show ?thesis
        by (rule fold_links_inv [rotated])
          (auto simp: Let_def split: if_splits elim!: resolve_sound [OF _ e _ _, rotated -1] dest: sess)
    qed (use 6 \<open>f e l = Inr l'\<close> \<open>links_sound E l\<close> in \<open>simp add: add_sop_evidence_def\<close>)
  qed
qed

lemma normalize_sound:
  assumes "normalize_operational_lineage env es = Inr g" "x \<in> set (lg_edges g)"
  shows "edge_sound (set es) x"
proof -
  let ?o = "sort_key replay_key es"
  let ?f = "add_event_links env (events_by_id ?o) (session_roots env ?o) (execution_roots env ?o)"
  from assms(1) obtain lk where lk: "fold_links ?f ?o no_links = Inr lk"
    and g: "lg_edges g = sort_key edge_key (dvals (lk_edges lk))"
    by (auto simp: normalize_operational_lineage_def Let_def split: sum.splits)
  have "links_sound (set es) lk"
  proof (rule fold_links_inv [OF _ _ lk])
    show "links_sound (set es) no_links" by (simp add: links_sound_def no_links_def)
    show "links_sound (set es) l'" if "e \<in> set ?o" "links_sound (set es) l" "?f e l = Inr l'" for e l l'
      by (rule add_event_links_sound [OF that(2) _ _ _ _ that(3)])
        (use that(1) events_by_id_get [of ?o] session_roots_get [of env ?o] execution_roots_get [of env ?o] in auto)
  qed
  then show ?thesis using assms(2) by (auto simp: links_sound_def g)
qed

section \<open>Trees\<close>

text \<open>\<open>descends es e r n\<close>: following parents within the view leads from \<open>e\<close> to the root
  event \<open>r\<close> in \<open>n\<close> steps.\<close>

inductive descends :: "event list \<Rightarrow> event \<Rightarrow> event \<Rightarrow> nat \<Rightarrow> bool" for es where
  at_root: "e \<in> set es \<Longrightarrow> ev_parent e = None \<Longrightarrow> descends es e e 0"
| by_parent: "e \<in> set es \<Longrightarrow> ev_parent e = Some (ev_id p) \<Longrightarrow> descends es p r n \<Longrightarrow> descends es e r (Suc n)"

inductive_cases descends_child: "descends es e r n"

lemma descends_member: "descends es e r n \<Longrightarrow> e \<in> set es \<and> r \<in> set es"
  by (induction rule: descends.induct) auto

lemma descends_unique:
  assumes "inj_on ev_id (set es)"
  shows "descends es e r n \<Longrightarrow> descends es e r' m \<Longrightarrow> r = r' \<and> n = m"
proof (induction arbitrary: r' m rule: descends.induct)
  case (at_root e)
  then show ?case by (auto elim: descends_child)
next
  case (by_parent e p r n)
  from by_parent.prems show ?case
  proof (cases rule: descends.cases)
    case at_root
    then show ?thesis using by_parent.hyps(2) by simp
  next
    case (by_parent q k)
    have "q = p"
      using by_parent by_parent.hyps descends_member
      by (intro inj_onD [OF assms]) auto
    then show ?thesis using by_parent by_parent.IH by blast
  qed
qed

definition error_free :: "finding list \<Rightarrow> bool" where
  "error_free fs \<longleftrightarrow> (\<forall>f\<in>set fs. fd_severity f \<noteq> ERROR)"

lemma status_invalid: "status_from_findings fs \<noteq> INVALID \<longleftrightarrow> error_free fs"
  by (auto simp: status_from_findings_def error_free_def list_ex_iff)

lemma status_complete: "status_from_findings fs = COMPLETE \<longleftrightarrow> fs = []"
  by (auto simp: status_from_findings_def)

lemma parent_findings_free:
  "parent_findings by_id e = [] \<longleftrightarrow>
     (\<forall>p. ev_parent e = Some p \<longrightarrow>
        (\<exists>q. dget by_id p = Some q \<and> ev_root q = ev_root e \<and> ev_depth e = ev_depth q + 1))"
  by (auto simp: parent_findings_def split: option.splits)

lemma error_finding_ERROR [simp]: "fd_severity (error_finding c i m md) = ERROR"
  by (simp add: error_finding_def)

lemma all_errors:
  "f \<in> set (parent_findings by_id e) \<Longrightarrow> fd_severity f = ERROR"
  "f \<in> set (tenant_findings t e) \<Longrightarrow> fd_severity f = ERROR"
  by (auto simp: parent_findings_def tenant_findings_def split: option.splits if_splits)

lemma causality_free:
  assumes "es \<noteq> []"
  shows "error_free (causality_findings es (Some r) t) \<longleftrightarrow> causality_findings es (Some r) t = []"
    "causality_findings es (Some r) t = [] \<longleftrightarrow> dget (events_by_id es) r \<noteq> None \<and>
       (\<forall>e\<in>set es. tenant_findings t e = [] \<and> parent_findings (events_by_id es) e = [])"
proof -
  have errors: "fd_severity f = ERROR" if "f \<in> set (causality_findings es (Some r) t)" for f
    using that assms all_errors by (auto simp: causality_findings_def Let_def split: if_splits)
  then show "error_free (causality_findings es (Some r) t) \<longleftrightarrow> causality_findings es (Some r) t = []"
    unfolding error_free_def by (metis list.set_intros(1) neq_Nil_conv empty_iff empty_set)
  have "set (causality_findings es (Some r) t) = {} \<longleftrightarrow> dget (events_by_id es) r \<noteq> None \<and>
       (\<forall>e\<in>set es. tenant_findings t e = [] \<and> parent_findings (events_by_id es) e = [])"
    using assms by (auto simp: causality_findings_def Let_def)
  then show "causality_findings es (Some r) t = [] \<longleftrightarrow> dget (events_by_id es) r \<noteq> None \<and>
       (\<forall>e\<in>set es. tenant_findings t e = [] \<and> parent_findings (events_by_id es) e = [])"
    by simp
qed

text \<open>A view whose events have the same root is free of parent findings exactly when it is
  a tree under that root.\<close>

lemma constructed_event:
  assumes "construct_event e = Inr e"
  shows "0 \<le> ev_depth e" "ev_parent e = None \<longleftrightarrow> ev_depth e = 0" "ev_parent e = None \<Longrightarrow> ev_root e = ev_id e"
    "ev_parent e \<noteq> Some (ev_id e)" "0 \<le> ch_sequence (ev_chronology e)"
  using assms
  by (auto simp: construct_event_def check_causality_def check_chronology_def check_event_def is_root_def
      split: sum.splits if_splits)

lemma tree_iff:
  assumes inj: "inj_on ev_id (set es)" and root: "\<And>e. e \<in> set es \<Longrightarrow> ev_root e = r"
    and ok: "\<And>e. e \<in> set es \<Longrightarrow> construct_event e = Inr e"
  shows "dget (events_by_id es) r \<noteq> None \<and> (\<forall>e\<in>set es. parent_findings (events_by_id es) e = []) \<longleftrightarrow>
    (\<exists>g\<in>set es. ev_id g = r \<and> (\<forall>e\<in>set es. descends es e g (nat (ev_depth e))))" (is "?clean \<longleftrightarrow> ?tree")
proof
  assume clean: ?clean
  then obtain g where g: "dget (events_by_id es) r = Some g" by blast
  then have gin: "g \<in> set es" "ev_id g = r" using events_by_id_get by blast+
  have "descends es e g n" if "e \<in> set es" "n = nat (ev_depth e)" for e n
    using that
  proof (induction n arbitrary: e)
    case 0
    then have "ev_parent e = None" using constructed_event(1,2) [OF ok [OF 0(1)]] by simp
    moreover from this have "ev_id e = ev_id g"
      using constructed_event(3) [OF ok [OF 0(1)]] root [OF 0(1)] gin(2) by simp
    ultimately show ?case using at_root [OF 0(1)] inj_onD [OF inj _ 0(1) gin(1)] by metis
  next
    case (Suc n)
    then have "ev_parent e \<noteq> None" using constructed_event(2) [OF ok [OF Suc(2)]] by auto
    then obtain p where p: "ev_parent e = Some p" by blast
    with clean Suc(2) obtain q where q: "dget (events_by_id es) p = Some q" "ev_depth e = ev_depth q + 1"
      unfolding parent_findings_free by blast
    then have "q \<in> set es" "ev_id q = p" using events_by_id_get by blast+
    moreover have "n = nat (ev_depth q)" using Suc(3) q(2) constructed_event(1) [OF ok [OF \<open>q \<in> set es\<close>]] by simp
    ultimately show ?case using by_parent [OF Suc(2), of q g n] Suc.IH [of q] p by simp
  qed
  then show ?tree using gin by blast
next
  assume ?tree
  then obtain g where g: "g \<in> set es" "ev_id g = r" "\<forall>e\<in>set es. descends es e g (nat (ev_depth e))" by blast
  have "parent_findings (events_by_id es) e = []" if e: "e \<in> set es" for e
    unfolding parent_findings_free
  proof (intro allI impI)
    fix i assume i: "ev_parent e = Some i"
    from g(3) e have "descends es e g (nat (ev_depth e))" by blast
    then show "\<exists>q. dget (events_by_id es) i = Some q \<and> ev_root q = ev_root e \<and> ev_depth e = ev_depth q + 1"
    proof (cases rule: descends.cases)
      case at_root
      then show ?thesis using i by simp
    next
      case (by_parent p n)
      then have p: "p \<in> set es" "descends es p g (nat (ev_depth p))"
        using descends_member g(3) by blast+
      then have "n = nat (ev_depth p)" using descends_unique [OF inj p(2) by_parent(4)] by simp
      then have "ev_depth e = ev_depth p + 1"
        using by_parent(1) constructed_event(1) [OF ok [OF p(1)]] by simp
      moreover have "dget (events_by_id es) i = Some p"
        using events_by_id_Some [OF inj p(1)] i by_parent(3) by simp
      ultimately show ?thesis using root p(1) e by auto
    qed
  qed
  moreover have "dget (events_by_id es) r = Some g" using events_by_id_Some [OF inj g(1)] g(2) by simp
  ultimately show ?clean by simp
qed

lemma events_by_id_same:
  assumes "inj_on ev_id (set es)" "set es = set es'"
  shows "dget (events_by_id es) i = dget (events_by_id es') i"
proof -
  have half: "dget (events_by_id ys) i = Some e" if "dget (events_by_id xs) i = Some e" "set xs = set ys" "inj_on ev_id (set ys)"
    for xs ys e
    using events_by_id_get [OF that(1)] events_by_id_Some [OF that(3), of e] that(2) by auto
  show ?thesis
  proof (cases "dget (events_by_id es) i")
    case None
    then show ?thesis using half [of es' _ es] assms by (cases "dget (events_by_id es') i") auto
  next
    case (Some e)
    then show ?thesis using half [of es e es'] assms by auto
  qed
qed

section \<open>Worked example\<close>

definition demo_event :: "string \<Rightarrow> string option \<Rightarrow> int \<Rightarrow> event" where
  "demo_event i parent n =
     \<lparr>ev_id = i, ev_act = ''session:open'', ev_substrate = SESSION,
      ev_causality = \<lparr>ca_root = ''a'', ca_parent = parent, ca_depth = n\<rparr>,
      ev_chronology = \<lparr>ch_runtime = ''r'', ch_sequence = n, ch_occurred_at = 5 - n\<rparr>,
      ev_tenant_id = Some ''t1'', ev_principal_id = None, ev_organization_id = None, ev_environment_id = None,
      ev_authority_source = None, ev_decision = None, ev_decision_id = None, ev_metadata = []\<rparr>"

definition journal_ops :: "evt_op list" where
  "journal_ops = [(demo_event ''a'' None 0, Some ''t1''), (demo_event ''b'' (Some ''a'') 1, None)]"

definition journal_store :: event_store where
  "journal_store = runs (evt_step demo_env) journal_ops empty_event_store"

definition journal_reversed :: event_store where
  "journal_reversed = runs (evt_step demo_env) (rev journal_ops) empty_event_store"

lemma journal_legal:
  "legal (evt_step demo_env) evt_ok (journal_ops @ [(demo_event ''a'' (Some ''b'') 2, None)]) empty_event_store"
  "legal (evt_step demo_env) evt_ok (rev journal_ops) empty_event_store"
  by (simp_all add: journal_ops_def evt_ok_def construct_event_def check_causality_def check_chronology_def
      check_event_def demo_event_def is_root_def)

lemma journal_events:
  "es_events journal_store = [(''a'', demo_event ''a'' None 0), (''b'', demo_event ''b'' (Some ''a'') 1)]"
  "es_events journal_reversed = [(''b'', demo_event ''b'' (Some ''a'') 1), (''a'', demo_event ''a'' None 0)]"
  by (simp_all add: journal_store_def journal_reversed_def journal_ops_def evt_step_def rt_append_event_def
      validate_optional_tenant_id_def validate_event_causality_def is_root_def optional_visible_def
      append_event_def empty_event_store_def chronology_key_def demo_event_def)

lemma journal_inv: "evt_inv journal_store" "evt_inv journal_reversed"
  using journal.runs_inv [OF evt_inv_empty, of demo_env journal_ops]
    journal.runs_inv [OF evt_inv_empty journal_legal(2)] journal_legal(1)
  by (simp_all add: journal_store_def journal_reversed_def legal_append)

end
