(* ===== verification/Event_Fabric.thy ===== *)
theory Event_Fabric
  imports Event_Safety
begin

text \<open>
  The promises of the event fabric, stated over every journal that some sequence of
  appends produces: \<open>legal\<close> asks only that each appended event went through the
  constructors.
\<close>

section \<open>Reachable journals\<close>

lemma reachable_inv:
  "legal (evt_step env) evt_ok ops empty_event_store \<Longrightarrow> evt_inv (runs (evt_step env) ops empty_event_store)"
  by (rule journal.runs_inv [OF evt_inv_empty])

definition recorded :: "event_store \<Rightarrow> event \<Rightarrow> bool" where
  "recorded s e \<longleftrightarrow> dget (es_events s) (ev_id e) = Some e"

lemma recorded_dvals: "evt_inv s \<Longrightarrow> e \<in> set (dvals (es_events s)) \<longleftrightarrow> recorded s e"
  using in_dvals_iff evt_invD(1,2) unfolding recorded_def by metis

lemma event_rows_recorded:
  "evt_inv s \<Longrightarrow> set (event_rows s q t) = {e. recorded s e \<and> event_matches q t e}"
  using recorded_dvals by (auto simp: event_rows_set)

lemma recorded_get:
  assumes "evt_inv s" "evt_inv s'" "{e. recorded s e} = {e. recorded s' e}"
  shows "dget (es_events s) i = dget (es_events s') i"
proof -
  have half: "dget (es_events s2) i = Some e" if "dget (es_events s1) i = Some e" "evt_inv s1" "{e. recorded s1 e} = {e. recorded s2 e}"
    for s1 s2 e
  proof -
    have "ev_id e = i" using evt_invD(2) [OF that(2,1)] .
    then have "recorded s1 e" using that(1) by (simp add: recorded_def)
    then have "recorded s2 e" using that(3) by blast
    then show ?thesis using \<open>ev_id e = i\<close> by (simp add: recorded_def)
  qed
  show ?thesis
  proof (cases "dget (es_events s) i")
    case None
    then show ?thesis using half [of s' _ s] assms by (cases "dget (es_events s') i") auto
  next
    case (Some e)
    then show ?thesis using half [of s e s'] assms by auto
  qed
qed

lemma trace_rows:
  assumes "load_causal_trace env s r t = Inr tr"
  shows "tr = build_trace env (Some r) (event_rows s (default_event_query\<lparr>vq_root := Some r\<rparr>) t) t []"
  using assms list_all_events_rows by (fastforce simp: load_causal_trace_def split: sum.splits)

lemma root_query_matches:
  "event_matches (default_event_query\<lparr>vq_root := Some r\<rparr>) t e \<longleftrightarrow> optional_visible (ev_tenant_id e) t \<and> ev_root e = r"
  by (auto simp: event_matches_def default_event_query_def)

lemma no_tenant_findings: "optional_visible (ev_tenant_id e) t \<Longrightarrow> tenant_findings t e = []"
  by (cases t) (auto simp: optional_visible_def tenant_findings_def)

lemma lineage_warnings: "f \<in> set (lineage_findings g) \<Longrightarrow> fd_severity f = WARNING"
  by (auto simp: lineage_findings_def)

lemma lineage_findings_Nil:
  "lineage_findings g = [] \<longleftrightarrow> (\<forall>u\<in>set (lg_unresolved g). ur_relation u = LOCAL_PARENT)"
  by (auto simp: lineage_findings_def filter_empty_conv simp flip: set_empty)

section \<open>Traces\<close>

text \<open>The events form a tree: the root event is there, and following parents leads every
  event to it in as many steps as its depth says.\<close>

definition trace_tree :: "event list \<Rightarrow> string \<Rightarrow> bool" where
  "trace_tree es r \<longleftrightarrow> (\<exists>g\<in>set es. ev_id g = r \<and> (\<forall>e\<in>set es. descends es e g (nat (ev_depth e))))"

lemma normalize_sorted [simp]:
  "normalize_operational_lineage env (sort_key replay_key es) = normalize_operational_lineage env es"
  by (simp add: normalize_operational_lineage_def)

lemma error_free_append: "error_free (xs @ ys) \<longleftrightarrow> error_free xs \<and> error_free ys"
  by (auto simp: error_free_def)

lemma lineage_error_free: "error_free (lineage_findings g)"
  using lineage_warnings by (fastforce simp: error_free_def)

lemma causality_sorted:
  assumes "inj_on ev_id (set es)" "es \<noteq> []"
  shows "causality_findings (sort_key replay_key es) (Some r) t = [] \<longleftrightarrow> causality_findings es (Some r) t = []"
proof -
  have "sort_key replay_key es \<noteq> []" using assms(2) by (metis set_empty set_sort)
  moreover have "dget (events_by_id (sort_key replay_key es)) i = dget (events_by_id es) i" for i
    using events_by_id_same [of "sort_key replay_key es" es] assms(1) by simp
  ultimately show ?thesis using assms(2) by (simp add: causality_free(2) parent_findings_free)
qed

lemma build_trace_status:
  assumes inj: "inj_on ev_id (set es)" and ne: "es \<noteq> []"
  shows "tr_status (build_trace env (Some r) es t []) \<noteq> INVALID \<longleftrightarrow>
      causality_findings es (Some r) t = [] \<and> (\<exists>g. normalize_operational_lineage env es = Inr g)" (is ?valid)
    "tr_status (build_trace env (Some r) es t []) = COMPLETE \<longleftrightarrow>
      causality_findings es (Some r) t = [] \<and>
      (\<exists>g. normalize_operational_lineage env es = Inr g \<and> (\<forall>u\<in>set (lg_unresolved g). ur_relation u = LOCAL_PARENT))" (is ?complete)
proof -
  have ne': "sort_key replay_key es \<noteq> []" using ne by (metis set_empty set_sort)
  note free = causality_free(1) [OF ne', of r t] causality_sorted [OF inj ne, of r t]
  show ?valid
    by (cases "normalize_operational_lineage env es")
      (simp_all add: build_trace_def Let_def status_invalid error_free_append lineage_error_free free,
       simp add: error_free_def)
  show ?complete
    by (cases "normalize_operational_lineage env es")
      (simp_all add: build_trace_def Let_def status_complete lineage_findings_Nil free)
qed

lemma build_trace_empty: "tr_status (build_trace env (Some r) [] t []) = PARTIAL"
  by (simp add: build_trace_def causality_findings_def normalize_operational_lineage_def no_links_def
      lineage_findings_def status_from_findings_def)

lemma demo_rows: "event_rows journal_store default_event_query None = [demo_event ''b'' (Some ''a'') 1, demo_event ''a'' None 0]"
  by (simp add: event_rows_def journal_events event_matches_def default_event_query_def optional_visible_def
      event_list_key_def demo_event_def)

lemma demo_links:
  "\<exists>lk. fold_links (add_event_links demo_env (events_by_id [demo_event ''a'' None 0, demo_event ''b'' (Some ''a'') 1])
     sessions executions) [demo_event ''a'' None 0, demo_event ''b'' (Some ''a'') 1] no_links = Inr lk \<and> lk_edges lk \<noteq> []"
  by (simp add: add_event_links_def add_local_parent_def add_governance_def add_execution_session_def
      add_supervisor_execution_def add_arbitration_authority_def add_sop_evidence_def sop_approval_acts_def
      resolve_or_record_def validate_edge_target_def events_by_id_def no_links_def demo_event_def)

lemma demo_lineage:
  "\<exists>g. build_graph demo_env journal_store default_event_query None = Inr (Inr g) \<and> lg_edges g \<noteq> []"
proof -
  have "\<exists>q. check_query (page_query default_event_query 0) = Inr q"
    by (simp add: page_query_def default_event_query_def check_query_def)
  then have "list_all_events journal_store default_event_query None = Inr [demo_event ''b'' (Some ''a'') 1, demo_event ''a'' None 0]"
    by (auto simp: list_all_events_def list_events_from_drop demo_rows validate_optional_tenant_id_def)
  moreover have order: "sort_key replay_key [demo_event ''b'' (Some ''a'') 1, demo_event ''a'' None 0] =
      [demo_event ''a'' None 0, demo_event ''b'' (Some ''a'') 1]"
    by (simp add: replay_key_def demo_event_def)
  moreover obtain lk where "fold_links (add_event_links demo_env (events_by_id [demo_event ''a'' None 0, demo_event ''b'' (Some ''a'') 1])
      (session_roots demo_env [demo_event ''a'' None 0, demo_event ''b'' (Some ''a'') 1])
      (execution_roots demo_env [demo_event ''a'' None 0, demo_event ''b'' (Some ''a'') 1]))
      [demo_event ''a'' None 0, demo_event ''b'' (Some ''a'') 1] no_links = Inr lk" and "lk_edges lk \<noteq> []"
    using demo_links by blast
  moreover from this have "sort_key edge_key (dvals (lk_edges lk)) \<noteq> []"
    by (simp flip: set_empty)
  ultimately show ?thesis
    unfolding build_graph_def normalize_operational_lineage_def Let_def by (simp only: sum.case) simp
qed

section \<open>Properties\<close>

text \<open>(C29) The journal is append-only and has one event per point of time.  An event that
  was ever recorded is found unchanged in every continuation of the run; appending it
  again answers with it and changes nothing; and any other event under its identity, or
  at its point (runtime instance and sequence number), is refused and changes nothing.\<close>

theorem evt_append_only:
  assumes "legal (evt_step env) evt_ok (ops @ later) empty_event_store"
    and "dget (es_events (runs (evt_step env) ops empty_event_store)) i = Some e"
    and "s = runs (evt_step env) (ops @ later) empty_event_store"
  shows "get_event s i None = Some e \<and> append_event env s e = (Inr e, s) \<and>
    (\<forall>x. x \<noteq> e \<and> (ev_id x = i \<or> chronology_key x = chronology_key e) \<longrightarrow>
       (\<exists>m. append_event env s x = (Inl m, s)))"
proof -
  have inv0: "evt_inv (runs (evt_step env) ops empty_event_store)"
    using assms(1) reachable_inv by (simp add: legal_append)
  have inv: "evt_inv s" using assms(1,3) reachable_inv by simp
  have e: "dget (es_events s) i = Some e"
    using journal.runs_frozen [OF inv0, of env later i e] assms by (simp add: legal_append runs_append)
  have id: "ev_id e = i" by (rule evt_invD(2) [OF inv e])
  have point: "dget (es_chronology s) (chronology_key e) = Some i" using e evt_invD(4) [OF inv] by blast
  have "\<exists>m. append_event env s x = (Inl m, s)"
    if x: "x \<noteq> e" "ev_id x = i \<or> chronology_key x = chronology_key e" for x
  proof (cases "ev_id x = i")
    case True
    then show ?thesis using e x(1) by (simp add: append_event_def)
  next
    case False
    then have key: "chronology_key x = chronology_key e" using x(2) by simp
    show ?thesis
    proof (cases "dget (es_events s) (ev_id x)")
      case None
      then show ?thesis using point key by (simp add: append_event_def)
    next
      case (Some y)
      have "y \<noteq> x"
      proof
        assume "y = x"
        then have "dget (es_chronology s) (chronology_key e) = Some (ev_id x)"
          using Some key evt_invD(4) [OF inv, of "chronology_key e" "ev_id x"] by simp
        then show False using point False by simp
      qed
      then show ?thesis using Some by (simp add: append_event_def)
    qed
  qed
  then show ?thesis using e id by (simp add: get_event_def optional_visible_def append_event_def)
qed

theorem evt_append_only_witness:
  "\<exists>m. append_event demo_env journal_store (demo_event ''c'' None 0) = (Inl m, journal_store)"
proof -
  have "legal (evt_step demo_env) evt_ok (journal_ops @ []) empty_event_store"
    using journal_legal(1) by (simp add: legal_append)
  moreover have "dget (es_events (runs (evt_step demo_env) journal_ops empty_event_store)) ''a'' = Some (demo_event ''a'' None 0)"
    using journal_events(1) by (simp add: journal_store_def)
  moreover have "journal_store = runs (evt_step demo_env) (journal_ops @ []) empty_event_store"
    by (simp add: journal_store_def)
  moreover have "demo_event ''c'' None 0 \<noteq> demo_event ''a'' None 0"
    "chronology_key (demo_event ''c'' None 0) = chronology_key (demo_event ''a'' None 0)"
    by (simp_all add: demo_event_def chronology_key_def)
  ultimately show ?thesis
    using evt_append_only [of demo_env journal_ops "[]" "''a''" "demo_event ''a'' None 0" journal_store] by blast
qed

text \<open>(C30) Readers see everything.  The paging loop of the readers returns, and what it
  returns is exactly the recorded events the query matches for the tenant, each once, in
  list order; the limit and offset of the query do not matter.\<close>

theorem evt_reads_complete:
  assumes "legal (evt_step env) evt_ok ops empty_event_store" "s = runs (evt_step env) ops empty_event_store"
    and "t \<noteq> Some []" "check_query (page_query q 0) = Inr q'"
  shows "\<exists>es. set es = {e. recorded s e \<and> event_matches q t e} \<and> distinct es \<and> sorted (map event_list_key es) \<and>
    (\<forall>m n. list_all_events s (q\<lparr>vq_limit := m, vq_offset := n\<rparr>) t = Inr es)"
proof -
  have inv: "evt_inv s" using assms(1,2) reachable_inv by simp
  have "list_all_events s (q\<lparr>vq_limit := m, vq_offset := n\<rparr>) t = Inr (event_rows s q t)" for m n
    using assms(3,4)
    by (simp add: list_all_events_def validate_optional_tenant_id_def page_query_def list_events_from_drop
        event_rows_def event_matches_def cong: filter_cong)
  moreover have "sorted (map event_list_key (event_rows s q t))" by (simp add: event_rows_def)
  ultimately show ?thesis
    using event_rows_recorded [OF inv, of q t] event_rows_ids(2) [OF inv, of q t] by blast
qed

theorem evt_reads_complete_witness:
  "\<exists>es. set es = {e. recorded journal_store e \<and> event_matches default_event_query (Some ''t1'') e} \<and>
     list_all_events journal_store default_event_query (Some ''t1'') = Inr es"
proof -
  have "legal (evt_step demo_env) evt_ok journal_ops empty_event_store"
    using journal_legal(1) by (simp add: legal_append)
  from evt_reads_complete [OF this refl, of "Some ''t1''" default_event_query]
  obtain es where "set es = {e. recorded journal_store e \<and> event_matches default_event_query (Some ''t1'') e}"
    "\<forall>m n. list_all_events journal_store (default_event_query\<lparr>vq_limit := m, vq_offset := n\<rparr>) (Some ''t1'') = Inr es"
    by (auto simp: check_query_def page_query_def default_event_query_def journal_store_def)
  moreover have "default_event_query\<lparr>vq_limit := 100, vq_offset := 0\<rparr> = default_event_query"
    by (simp add: default_event_query_def)
  ultimately show ?thesis by metis
qed

text \<open>(C31) A causal trace is a tree or says so.  Loading the trace of a root answers with
  exactly the recorded events of that root the reader may see, each once; an empty trace
  is partial; otherwise the trace is not invalid exactly when its events form a tree under
  the root and the lineage of the events resolves without contradiction, and it is
  complete exactly when moreover no reference but parents is left unresolved.\<close>

theorem evt_trace_tree:
  assumes "legal (evt_step env) evt_ok ops empty_event_store" "s = runs (evt_step env) ops empty_event_store"
    and "load_causal_trace env s r t = Inr tr"
  shows "set (tr_events tr) = {e. recorded s e \<and> optional_visible (ev_tenant_id e) t \<and> ev_root e = r} \<and>
    distinct (tr_events tr) \<and>
    (tr_events tr = [] \<longrightarrow> tr_status tr = PARTIAL) \<and>
    (tr_events tr \<noteq> [] \<longrightarrow>
       (tr_status tr \<noteq> INVALID \<longleftrightarrow>
          trace_tree (tr_events tr) r \<and> (\<exists>g. normalize_operational_lineage env (tr_events tr) = Inr g)) \<and>
       (tr_status tr = COMPLETE \<longleftrightarrow>
          trace_tree (tr_events tr) r \<and> (\<exists>g. normalize_operational_lineage env (tr_events tr) = Inr g \<and>
            (\<forall>u\<in>set (lg_unresolved g). ur_relation u = LOCAL_PARENT))))"
proof -
  have inv: "evt_inv s" using assms(1,2) reachable_inv by simp
  let ?es = "event_rows s (default_event_query\<lparr>vq_root := Some r\<rparr>) t"
  note tr = trace_rows [OF assms(3)]
  have evs: "tr_events tr = sort_key replay_key ?es" by (simp add: tr build_trace_def Let_def split: sum.split)
  note inj = event_rows_ids(1) [OF inv, of "default_event_query\<lparr>vq_root := Some r\<rparr>" t]
  note rows = event_rows_recorded [OF inv, of "default_event_query\<lparr>vq_root := Some r\<rparr>" t, unfolded root_query_matches]
  have built: "construct_event e = Inr e" if "recorded s e" for e
    using that evt_invD(3) [OF inv] by (auto simp: recorded_def)
  have clean: "causality_findings ?es (Some r) t = [] \<longleftrightarrow> trace_tree (tr_events tr) r" if ne: "?es \<noteq> []"
  proof -
    have member: "recorded s e \<and> optional_visible (ev_tenant_id e) t \<and> ev_root e = r" if "e \<in> set (tr_events tr)" for e
      using that rows by (simp add: evs)
    have "(dget (events_by_id (tr_events tr)) r \<noteq> None \<and>
        (\<forall>e\<in>set (tr_events tr). parent_findings (events_by_id (tr_events tr)) e = [])) \<longleftrightarrow> trace_tree (tr_events tr) r"
      unfolding trace_tree_def by (rule tree_iff) (use inj member built in \<open>simp_all add: evs\<close>)
    moreover have "\<forall>e\<in>set (tr_events tr). tenant_findings t e = []" using member no_tenant_findings by blast
    moreover have "tr_events tr \<noteq> []" using ne by (simp add: evs flip: set_empty)
    ultimately have "causality_findings (tr_events tr) (Some r) t = [] \<longleftrightarrow> trace_tree (tr_events tr) r"
      using causality_free(2) [of "tr_events tr" r t] by blast
    then show ?thesis using causality_sorted [OF inj ne, of r t] by (simp add: evs)
  qed
  have empty: "tr_events tr = [] \<longleftrightarrow> ?es = []" by (simp add: evs flip: set_empty)
  have none: "?es = [] \<Longrightarrow> tr_status tr = PARTIAL" using build_trace_empty [of env r t] tr by simp
  show ?thesis
    using rows event_rows_ids(2) [OF inv] build_trace_status [OF inj, of env r t] clean none
    by (simp add: empty) (simp add: evs tr [symmetric])
qed

theorem evt_trace_tree_witness:
  "\<exists>tr. load_causal_trace demo_env journal_store ''a'' (Some ''t1'') = Inr tr \<and>
     set (tr_events tr) = {e. recorded journal_store e \<and> optional_visible (ev_tenant_id e) (Some ''t1'') \<and> ev_root e = ''a''}"
proof -
  have "legal (evt_step demo_env) evt_ok journal_ops empty_event_store"
    using journal_legal(1) by (simp add: legal_append)
  moreover obtain tr where "load_causal_trace demo_env journal_store ''a'' (Some ''t1'') = Inr tr"
    by (simp add: load_causal_trace_def list_all_events_def validate_optional_tenant_id_def page_query_def
        default_event_query_def check_query_def)
  ultimately show ?thesis using evt_trace_tree [OF _ journal_store_def] by blast
qed

text \<open>Arrival does not matter.  Two journals that recorded the same events, in
  whatever order they arrived and whatever was refused in between, answer every read,
  trace and lineage query alike.\<close>

theorem evt_order_independent:
  assumes "legal (evt_step env) evt_ok ops empty_event_store" "s = runs (evt_step env) ops empty_event_store"
    and "legal (evt_step env') evt_ok ops' empty_event_store" "s' = runs (evt_step env') ops' empty_event_store"
    and "{e. recorded s e} = {e. recorded s' e}"
  shows "list_all_events s q t = list_all_events s' q t \<and>
    load_causal_trace env s r t = load_causal_trace env s' r t \<and>
    load_event_trace env s i t = load_event_trace env s' i t \<and>
    build_graph env s q t = build_graph env s' q t"
proof -
  have inv: "evt_inv s" "evt_inv s'" using assms(1-4) reachable_inv by simp_all
  have "set (dvals (es_events s)) = set (dvals (es_events s'))"
    using recorded_dvals inv assms(5) by blast
  then have rows: "list_all_events s q t = list_all_events s' q t" for q t
    using event_rows_eq [OF inv] by (simp add: list_all_events_def list_events_from_drop split: sum.split)
  have "get_event s i t = get_event s' i t" for i t
    using recorded_get [OF inv assms(5)] by (simp add: get_event_def)
  then have "rt_get_event s i t = rt_get_event s' i t" for i t
    by (simp add: rt_get_event_def split: sum.split)
  moreover have "load_causal_trace env s r t = load_causal_trace env s' r t" for r t
    using rows by (simp add: load_causal_trace_def)
  ultimately show ?thesis
    using rows by (simp add: load_event_trace_def build_graph_def split: sum.split option.split)
qed

theorem evt_order_independent_witness:
  "es_events journal_store \<noteq> es_events journal_reversed \<and>
   load_causal_trace demo_env journal_store ''a'' None = load_causal_trace demo_env journal_reversed ''a'' None"
proof -
  have "legal (evt_step demo_env) evt_ok journal_ops empty_event_store"
    using journal_legal(1) by (simp add: legal_append)
  moreover have "{e. recorded journal_store e} = {e. recorded journal_reversed e}"
    by (auto simp: recorded_def journal_events demo_event_def split: if_splits)
  ultimately show ?thesis
    using evt_order_independent [OF _ journal_store_def journal_legal(2) journal_reversed_def] journal_events by simp
qed

text \<open>Lineage never crosses tenants.  Every edge of a lineage graph over the journal
  joins two different recorded events the query returned, of one tenant, says their
  substrates truly, and points at a substrate its relation allows.\<close>

theorem evt_lineage_sound:
  assumes "legal (evt_step env) evt_ok ops empty_event_store" "s = runs (evt_step env) ops empty_event_store"
    and "build_graph env s q t = Inr (Inr g)" "x \<in> set (lg_edges g)"
  shows "edge_sound {e. recorded s e \<and> event_matches q t e} x"
proof -
  have inv: "evt_inv s" using assms(1,2) reachable_inv by simp
  from assms(3) obtain es where "list_all_events s q t = Inr es" "normalize_operational_lineage env es = Inr g"
    by (auto simp: build_graph_def split: sum.splits)
  then show ?thesis
    using normalize_sound [OF _ assms(4)] list_all_events_rows event_rows_recorded [OF inv] by metis
qed

theorem evt_lineage_sound_witness:
  "\<exists>g x. build_graph demo_env journal_store default_event_query None = Inr (Inr g) \<and> x \<in> set (lg_edges g) \<and>
     edge_sound {e. recorded journal_store e \<and> event_matches default_event_query None e} x"
proof -
  have legal: "legal (evt_step demo_env) evt_ok journal_ops empty_event_store"
    using journal_legal(1) by (simp add: legal_append)
  obtain g where g: "build_graph demo_env journal_store default_event_query None = Inr (Inr g)" "lg_edges g \<noteq> []"
    using demo_lineage by blast
  then obtain x where "x \<in> set (lg_edges g)" by (cases "lg_edges g") auto
  then show ?thesis using evt_lineage_sound [OF legal journal_store_def g(1)] g(1) by blast
qed

end
