(* ===== verification/Outbound_Store.thy ===== *)
theory Outbound_Store
  imports Execution_Model Interfaces
begin

text \<open>
  The outbox of governed customer replies, the in-memory persistence of
  \<open>app/boundary/outbound/send_outbox.py\<close>: one row per intent to send a draft to a
  recipient over a channel, claimed by one worker at a time, with two markers written
  around the call of the provider.  Each method runs under the store's lock and is an
  atomic step.
\<close>

section \<open>Rows and queries\<close>

datatype send_status = SO_PENDING | SO_CLAIMED | SO_SENT | SO_DEAD_LETTERED | SO_NEEDS_RECONCILIATION

fun send_status_value :: "send_status \<Rightarrow> string" where
  "send_status_value SO_PENDING = ''pending''"
| "send_status_value SO_CLAIMED = ''claimed''"
| "send_status_value SO_SENT = ''sent''"
| "send_status_value SO_DEAD_LETTERED = ''dead_lettered''"
| "send_status_value SO_NEEDS_RECONCILIATION = ''needs_reconciliation''"

record send_row =
  so_outbox_id :: string
  so_tenant_id :: string
  so_channel :: string
  so_action :: string
  so_draft_id :: string
  so_proposal_id :: string
  so_session_id :: string
  so_dispatch_id :: string
  so_decision_id :: string
  so_recipient :: string
  so_body_sha256 :: string
  so_status :: send_status
  so_created_at :: int
  so_updated_at :: int
  so_next_attempt_at :: "int option"
  so_claimed_at :: "int option"
  so_sent_at :: "int option"
  so_attempted_at :: "int option"
  so_claim_id :: "string option"
  so_worker_id :: "string option"
  so_attempt_count :: int
  so_provider_id :: "string option"
  so_last_error :: "string option"
  so_metadata :: metadata

record send_query =
  sq_outbox_id :: "string option"
  sq_tenant_id :: "string option"
  sq_draft_id :: "string option"
  sq_proposal_id :: "string option"
  sq_status :: "send_status option"
  sq_channel :: "string option"
  sq_due_before_or_at :: "int option"
  sq_claimed_before_or_at :: "int option"
  sq_limit :: int
  sq_offset :: int

definition default_send_query :: send_query where
  "default_send_query =
     \<lparr>sq_outbox_id = None, sq_tenant_id = None, sq_draft_id = None, sq_proposal_id = None, sq_status = None,
      sq_channel = None, sq_due_before_or_at = None, sq_claimed_before_or_at = None, sq_limit = 100, sq_offset = 0\<rparr>"

section \<open>Identities and the constructor\<close>

definition SEND_OUTBOX_NAMESPACE :: string where
  "SEND_OUTBOX_NAMESPACE = ''a4b45608-9bb9-4adf-85d9-1809f9e7bd8e''"

definition SEND_CLAIM_NAMESPACE :: string where
  "SEND_CLAIM_NAMESPACE = ''b94fe9d1-b4f0-47d9-81d8-7c25b0378c58''"

definition required_text :: "string \<Rightarrow> string \<Rightarrow> string result" where
  "required_text name value =
     (if py_strip value = [] then Inl (ValueError (name @ '' must be non-empty'')) else Inr (py_strip value))"

definition required_uuid :: "py_env \<Rightarrow> string \<Rightarrow> string \<Rightarrow> string result" where
  "required_uuid env name value =
     (case uuid_parse env value of None \<Rightarrow> Inl (ValueError (name @ '' must be a valid UUID'')) | Some u \<Rightarrow> Inr u)"

definition required_sha256 :: "py_env \<Rightarrow> string \<Rightarrow> string result" where
  "required_sha256 env value =
     (case required_text ''draft_body_sha256'' value of
        Inl e \<Rightarrow> Inl e
      | Inr v \<Rightarrow>
          let text = str_lower env v
          in if length text \<noteq> 64 \<or> list_ex (\<lambda>c. c \<notin> set ''0123456789abcdef'') text
             then Inl (ValueError ''draft_body_sha256 must be a lowercase sha256 hex digest'')
             else Inr text)"

definition send_outbox_seed :: "string \<Rightarrow> string \<Rightarrow> string \<Rightarrow> string \<Rightarrow> string \<Rightarrow> string" where
  "send_outbox_seed tenant draft channel recipient action =
     tenant @ ''|'' @ draft @ ''|'' @ channel @ ''|'' @ recipient @ ''|'' @ action"

definition derive_send_outbox_id ::
  "py_env \<Rightarrow> string \<Rightarrow> string \<Rightarrow> string \<Rightarrow> string \<Rightarrow> string \<Rightarrow> string result" where
  "derive_send_outbox_id env tenant_id draft_id channel recipient action =
     (case required_text ''tenant_id'' tenant_id of Inl e \<Rightarrow> Inl e | Inr tenant \<Rightarrow>
     (case required_uuid env ''draft_id'' draft_id of Inl e \<Rightarrow> Inl e | Inr draft \<Rightarrow>
     (case required_text ''channel'' channel of Inl e \<Rightarrow> Inl e | Inr ch \<Rightarrow>
     (case required_text ''recipient'' recipient of Inl e \<Rightarrow> Inl e | Inr rc \<Rightarrow>
     (case required_text ''action'' action of Inl e \<Rightarrow> Inl e | Inr ac \<Rightarrow>
        Inr (uuid5 env SEND_OUTBOX_NAMESPACE (send_outbox_seed tenant draft (str_lower env ch) rc ac)))))))"

definition send_claim_seed :: "string \<Rightarrow> string \<Rightarrow> int \<Rightarrow> string" where
  "send_claim_seed outbox_id worker_id n = outbox_id @ ''|'' @ worker_id @ ''|'' @ show_int n"

definition derive_send_claim_id :: "py_env \<Rightarrow> string \<Rightarrow> string \<Rightarrow> int \<Rightarrow> string result" where
  "derive_send_claim_id env outbox_id worker_id attempt_count =
     (if attempt_count < 1 then Inl (ValueError ''attempt_count must be positive'')
      else case required_uuid env ''outbox_id'' outbox_id of Inl e \<Rightarrow> Inl e | Inr u \<Rightarrow>
     (case required_text ''worker_id'' worker_id of Inl e \<Rightarrow> Inl e | Inr w \<Rightarrow>
        Inr (uuid5 env SEND_CLAIM_NAMESPACE (send_claim_seed u w attempt_count))))"

definition make_send_row ::
  "py_env \<Rightarrow> string \<Rightarrow> string \<Rightarrow> string \<Rightarrow> uuid \<Rightarrow> uuid \<Rightarrow> string \<Rightarrow> string \<Rightarrow> uuid \<Rightarrow> string \<Rightarrow> string
     \<Rightarrow> int \<Rightarrow> metadata \<Rightarrow> send_row result" where
  "make_send_row env tenant_id channel action draft_id proposal_id session_id dispatch_id decision_id recipient
       body_sha256 created_at md =
     (case required_text ''tenant_id'' tenant_id of Inl e \<Rightarrow> Inl e | Inr tenant \<Rightarrow>
     (case required_text ''channel'' channel of Inl e \<Rightarrow> Inl e | Inr ch \<Rightarrow>
     (case required_text ''action'' action of Inl e \<Rightarrow> Inl e | Inr ac \<Rightarrow>
     (case required_uuid env ''draft_id'' draft_id of Inl e \<Rightarrow> Inl e | Inr draft \<Rightarrow>
     (case required_uuid env ''proposal_id'' proposal_id of Inl e \<Rightarrow> Inl e | Inr proposal \<Rightarrow>
     (case required_uuid env ''governance_decision_id'' decision_id of Inl e \<Rightarrow> Inl e | Inr decision \<Rightarrow>
     (case required_text ''recipient'' recipient of Inl e \<Rightarrow> Inl e | Inr rc \<Rightarrow>
     (case required_sha256 env body_sha256 of Inl e \<Rightarrow> Inl e | Inr digest \<Rightarrow>
     (case derive_send_outbox_id env tenant draft (str_lower env ch) rc ac of Inl e \<Rightarrow> Inl e | Inr outbox_id \<Rightarrow>
     (case required_text ''session_id'' session_id of Inl e \<Rightarrow> Inl e | Inr session \<Rightarrow>
     (case required_text ''dispatch_id'' dispatch_id of Inl e \<Rightarrow> Inl e | Inr dispatch \<Rightarrow>
        Inr \<lparr>so_outbox_id = outbox_id, so_tenant_id = tenant, so_channel = str_lower env ch, so_action = ac,
             so_draft_id = draft, so_proposal_id = proposal, so_session_id = session, so_dispatch_id = dispatch,
             so_decision_id = decision, so_recipient = rc, so_body_sha256 = digest, so_status = SO_PENDING,
             so_created_at = created_at, so_updated_at = created_at, so_next_attempt_at = None,
             so_claimed_at = None, so_sent_at = None, so_attempted_at = None, so_claim_id = None,
             so_worker_id = None, so_attempt_count = 0, so_provider_id = None, so_last_error = None,
             so_metadata = md\<rparr>)))))))))))"

section \<open>The store\<close>

type_synonym send_key = "string \<times> string \<times> string \<times> string \<times> string"

record send_store =
  sd_records :: "(string, send_row) dict"
  sd_by_unique :: "(send_key, string) dict"

definition empty_send_store :: send_store where
  "empty_send_store = \<lparr>sd_records = [], sd_by_unique = []\<rparr>"

definition send_unique_key :: "send_row \<Rightarrow> send_key" where
  "send_unique_key r = (so_tenant_id r, so_draft_id r, so_channel r, so_recipient r, so_action r)"

definition create_send_outbox :: "send_store \<Rightarrow> send_row \<Rightarrow> send_row result \<times> send_store" where
  "create_send_outbox s r =
     (case dget (sd_by_unique s) (send_unique_key r) of
        Some existing_id \<Rightarrow>
          (case dget (sd_records s) existing_id of
             Some existing \<Rightarrow> (Inr existing, s)
           | None \<Rightarrow> (Inl (ExternalError ''KeyError'' existing_id), s))
      | None \<Rightarrow> (Inr r, s\<lparr>sd_records := dset (so_outbox_id r) r (sd_records s),
                    sd_by_unique := dset (send_unique_key r) (so_outbox_id r) (sd_by_unique s)\<rparr>))"

definition get_send_outbox :: "send_store \<Rightarrow> string \<Rightarrow> send_row option" where
  "get_send_outbox s outbox_id = dget (sd_records s) outbox_id"

definition send_due :: "int \<Rightarrow> send_row \<Rightarrow> bool" where
  "send_due now r \<longleftrightarrow> (case so_next_attempt_at r of None \<Rightarrow> True | Some t \<Rightarrow> t \<le> now)"

definition claimed_by :: "int \<Rightarrow> send_row \<Rightarrow> bool" where
  "claimed_by t r \<longleftrightarrow> (case so_claimed_at r of None \<Rightarrow> False | Some c \<Rightarrow> c \<le> t)"

definition send_matches :: "send_query \<Rightarrow> send_row \<Rightarrow> bool" where
  "send_matches q r \<longleftrightarrow>
     (\<forall>v \<in> set_option (sq_outbox_id q). so_outbox_id r = v) \<and>
     (\<forall>v \<in> set_option (sq_tenant_id q). so_tenant_id r = v) \<and>
     (\<forall>v \<in> set_option (sq_draft_id q). so_draft_id r = v) \<and>
     (\<forall>v \<in> set_option (sq_proposal_id q). so_proposal_id r = v) \<and>
     (\<forall>v \<in> set_option (sq_status q). so_status r = v) \<and>
     (\<forall>v \<in> set_option (sq_channel q). so_channel r = v) \<and>
     (\<forall>v \<in> set_option (sq_due_before_or_at q). send_due v r) \<and>
     (\<forall>v \<in> set_option (sq_claimed_before_or_at q). claimed_by v r)"

definition send_rows :: "send_store \<Rightarrow> send_query \<Rightarrow> send_row list" where
  "send_rows s q =
     sort_key (\<lambda>r. (or_now (so_next_attempt_at r) (so_created_at r), so_created_at r))
       (filter (send_matches q) (dvals (sd_records s)))"

definition list_send_outbox :: "send_store \<Rightarrow> send_query \<Rightarrow> send_row page" where
  "list_send_outbox s q =
     \<lparr>p_rows = py_slice (send_rows s q) (sq_offset q) (sq_offset q + sq_limit q),
      p_total = int (length (send_rows s q)), p_limit = sq_limit q, p_offset = sq_offset q\<rparr>"

definition due_key :: "send_row \<Rightarrow> int \<times> int \<times> string" where
  "due_key r = (or_now (so_next_attempt_at r) (so_created_at r), so_created_at r, so_outbox_id r)"

fun fair_select :: "int \<Rightarrow> (string, int) dict \<Rightarrow> send_row list \<Rightarrow> send_row list" where
  "fair_select per_tenant counts [] = []"
| "fair_select per_tenant counts (r # rs) =
     (let n = (case dget counts (so_tenant_id r) of Some k \<Rightarrow> k | None \<Rightarrow> 0)
      in if per_tenant \<le> n then fair_select per_tenant counts rs
         else r # fair_select per_tenant (dset (so_tenant_id r) (n + 1) counts) rs)"

definition list_due_pending_fair :: "send_store \<Rightarrow> int \<Rightarrow> int \<Rightarrow> int \<Rightarrow> send_row list" where
  "list_due_pending_fair s now per_tenant limit =
     (let due = sort_key due_key
                  (filter (\<lambda>r. so_status r = SO_PENDING \<and> send_due now r) (dvals (sd_records s)))
      in py_slice (sort_key due_key (fair_select per_tenant [] due)) 0 limit)"

definition put_send_row :: "send_row \<Rightarrow> string \<Rightarrow> send_store \<Rightarrow> send_store" where
  "put_send_row r outbox_id s = s\<lparr>sd_records := dset outbox_id r (sd_records s)\<rparr>"

definition claim_send_outbox ::
  "send_store \<Rightarrow> string \<Rightarrow> string \<Rightarrow> string \<Rightarrow> int \<Rightarrow> send_row option \<times> send_store" where
  "claim_send_outbox s outbox_id claim_id worker_id claimed_at =
     (case dget (sd_records s) outbox_id of
        None \<Rightarrow> (None, s)
      | Some r \<Rightarrow>
          if so_status r \<noteq> SO_PENDING then (None, s)
          else if \<not> send_due claimed_at r then (None, s)
          else let updated = r\<lparr>so_status := SO_CLAIMED, so_claim_id := Some claim_id,
                     so_worker_id := Some worker_id, so_claimed_at := Some claimed_at,
                     so_updated_at := claimed_at, so_attempt_count := so_attempt_count r + 1,
                     so_last_error := None\<rparr>
               in (Some updated, put_send_row updated outbox_id s))"

definition matching_claim :: "send_store \<Rightarrow> string \<Rightarrow> string \<Rightarrow> send_row option" where
  "matching_claim s outbox_id claim_id =
     (case dget (sd_records s) outbox_id of
        None \<Rightarrow> None
      | Some r \<Rightarrow> if so_status r = SO_CLAIMED \<and> so_claim_id r = Some claim_id then Some r else None)"

text \<open>What every transition of a claimed row shares: without the claim nothing happens.\<close>

definition with_claim ::
  "send_store \<Rightarrow> string \<Rightarrow> string \<Rightarrow> (send_row \<Rightarrow> send_row) \<Rightarrow> send_row option \<times> send_store" where
  "with_claim s outbox_id claim_id change =
     (case matching_claim s outbox_id claim_id of
        None \<Rightarrow> (None, s)
      | Some r \<Rightarrow> (Some (change r), put_send_row (change r) outbox_id s))"

definition mark_send_sent ::
  "send_store \<Rightarrow> string \<Rightarrow> string \<Rightarrow> string \<Rightarrow> int \<Rightarrow> send_row option \<times> send_store" where
  "mark_send_sent s outbox_id claim_id provider_message_id sent_at =
     with_claim s outbox_id claim_id (\<lambda>r. r\<lparr>so_status := SO_SENT, so_sent_at := Some sent_at,
       so_updated_at := sent_at, so_provider_id := Some provider_message_id, so_last_error := None\<rparr>)"

definition reschedule_send_outbox ::
  "py_env \<Rightarrow> send_store \<Rightarrow> string \<Rightarrow> string \<Rightarrow> int \<Rightarrow> string \<Rightarrow> send_row option \<times> send_store" where
  "reschedule_send_outbox env s outbox_id claim_id next_attempt_at err =
     with_claim s outbox_id claim_id (\<lambda>r. r\<lparr>so_status := SO_PENDING, so_claim_id := None,
       so_worker_id := None, so_claimed_at := None, so_updated_at := next_attempt_at,
       so_next_attempt_at := Some next_attempt_at, so_last_error := Some err,
       so_metadata := dmerge (so_metadata r)
         [(''retry.next_attempt_at'', PStr (isoformat env next_attempt_at)), (''retry.last_error'', PStr err)]\<rparr>)"

definition dead_letter_send_outbox ::
  "py_env \<Rightarrow> send_store \<Rightarrow> string \<Rightarrow> string \<Rightarrow> string \<Rightarrow> int \<Rightarrow> send_row option \<times> send_store" where
  "dead_letter_send_outbox env s outbox_id claim_id err dead_lettered_at =
     with_claim s outbox_id claim_id (\<lambda>r. r\<lparr>so_status := SO_DEAD_LETTERED, so_updated_at := dead_lettered_at,
       so_last_error := Some err,
       so_metadata := dmerge (so_metadata r)
         [(''dead_lettered_at'', PStr (isoformat env dead_lettered_at)), (''dead_letter.reason'', PStr err)]\<rparr>)"

definition mark_send_attempted ::
  "send_store \<Rightarrow> string \<Rightarrow> string \<Rightarrow> int \<Rightarrow> send_row option \<times> send_store" where
  "mark_send_attempted s outbox_id claim_id attempted_at =
     with_claim s outbox_id claim_id (\<lambda>r. r\<lparr>so_attempted_at := Some attempted_at, so_updated_at := attempted_at\<rparr>)"

definition record_provider_message_id ::
  "send_store \<Rightarrow> string \<Rightarrow> string \<Rightarrow> string \<Rightarrow> int \<Rightarrow> send_row option \<times> send_store" where
  "record_provider_message_id s outbox_id claim_id provider_message_id recorded_at =
     with_claim s outbox_id claim_id (\<lambda>r. r\<lparr>so_provider_id := Some provider_message_id,
       so_updated_at := recorded_at\<rparr>)"

text \<open>What the reconciler does to a claim that has gone stale.\<close>

definition stale_send_row :: "send_store \<Rightarrow> string \<Rightarrow> int \<Rightarrow> send_row option" where
  "stale_send_row s outbox_id stale_before =
     (case dget (sd_records s) outbox_id of
        None \<Rightarrow> None
      | Some r \<Rightarrow> if so_status r = SO_CLAIMED \<and> claimed_by stale_before r then Some r else None)"

definition requeue_stale_send ::
  "py_env \<Rightarrow> send_store \<Rightarrow> string \<Rightarrow> int \<Rightarrow> int \<Rightarrow> string \<Rightarrow> send_row option \<times> send_store" where
  "requeue_stale_send env s outbox_id stale_before requeued_at reason =
     (case stale_send_row s outbox_id stale_before of
        None \<Rightarrow> (None, s)
      | Some r \<Rightarrow>
          let updated = r\<lparr>so_status := SO_PENDING, so_claim_id := None, so_worker_id := None,
                so_claimed_at := None, so_updated_at := requeued_at, so_last_error := Some reason,
                so_metadata := dmerge (so_metadata r) [(''reconciler.reason'', PStr reason),
                  (''reconciler.requeued_at'', PStr (isoformat env requeued_at))]\<rparr>
          in (Some updated, put_send_row updated outbox_id s))"

definition stale_send_to_sent ::
  "send_store \<Rightarrow> string \<Rightarrow> int \<Rightarrow> int \<Rightarrow> send_row option \<times> send_store" where
  "stale_send_to_sent s outbox_id stale_before sent_at =
     (case stale_send_row s outbox_id stale_before of
        None \<Rightarrow> (None, s)
      | Some r \<Rightarrow>
          if so_provider_id r = None then (None, s)
          else let updated = r\<lparr>so_status := SO_SENT, so_sent_at := Some sent_at, so_updated_at := sent_at,
                     so_last_error := None\<rparr>
               in (Some updated, put_send_row updated outbox_id s))"

definition stale_send_to_reconciliation ::
  "py_env \<Rightarrow> send_store \<Rightarrow> string \<Rightarrow> int \<Rightarrow> int \<Rightarrow> string \<Rightarrow> send_row option \<times> send_store" where
  "stale_send_to_reconciliation env s outbox_id stale_before marked_at reason =
     (case stale_send_row s outbox_id stale_before of
        None \<Rightarrow> (None, s)
      | Some r \<Rightarrow>
          if so_attempted_at r = None \<or> so_provider_id r \<noteq> None then (None, s)
          else let updated = r\<lparr>so_status := SO_NEEDS_RECONCILIATION, so_updated_at := marked_at,
                     so_last_error := Some reason,
                     so_metadata := dmerge (so_metadata r) [(''reconciliation.reason'', PStr reason),
                       (''reconciliation.flagged_at'', PStr (isoformat env marked_at))]\<rparr>
               in (Some updated, put_send_row updated outbox_id s))"

end
