(* ===== verification/Outbound_Runtime.thy ===== *)
theory Outbound_Runtime
  imports Outbound_Store
begin

text \<open>
  The runtime over the send outbox (\<open>OutboundSendOutboxRuntime\<close> in
  \<open>app/boundary/outbound/send_outbox.py\<close>), the worker task that claims a row and calls
  the provider, and the reconciler's sweep (\<open>app/workers/outbound_send_tasks.py\<close>).
  The provider call is a parameter: a function of the row on a state of its own.
\<close>

section \<open>Configuration\<close>

record send_config =
  sc_max_attempts :: int
  sc_max_age_seconds :: int
  sc_retry_base_seconds :: int

definition make_send_runtime :: "int \<Rightarrow> int \<Rightarrow> int \<Rightarrow> send_config result" where
  "make_send_runtime max_attempts max_age_seconds retry_base_seconds =
     (if max_attempts < 1 then Inl (ValueError ''max_attempts must be positive'')
      else if max_age_seconds < 1 then Inl (ValueError ''max_age_seconds must be positive'')
      else if retry_base_seconds < 1 then Inl (ValueError ''retry_base_seconds must be positive'')
      else Inr \<lparr>sc_max_attempts = max_attempts, sc_max_age_seconds = max_age_seconds,
                sc_retry_base_seconds = retry_base_seconds\<rparr>)"

definition default_send_config :: send_config where
  "default_send_config = \<lparr>sc_max_attempts = 5, sc_max_age_seconds = 60 * 60, sc_retry_base_seconds = 30\<rparr>"

definition MAX_RETRY_DELAY_SECONDS :: int where
  "MAX_RETRY_DELAY_SECONDS = 3600"

definition seconds :: "int \<Rightarrow> int" where
  "seconds n = n * 1000000"

definition retry_delay_seconds :: "send_config \<Rightarrow> int \<Rightarrow> int" where
  "retry_delay_seconds cfg attempt_count =
     min (sc_retry_base_seconds cfg * 2 ^ nat (max (attempt_count - 1) 0)) MAX_RETRY_DELAY_SECONDS"

definition should_dead_letter :: "send_config \<Rightarrow> send_row \<Rightarrow> int \<Rightarrow> bool" where
  "should_dead_letter cfg r now \<longleftrightarrow>
     sc_max_attempts cfg \<le> so_attempt_count r \<or>
     so_created_at r + seconds (sc_max_age_seconds cfg) \<le> now"

section \<open>Claims\<close>

record send_claim =
  sl_claimed :: bool
  sl_outbox :: "send_row option"
  sl_reason :: "string option"

definition not_claimed :: "send_row option \<Rightarrow> string \<Rightarrow> send_claim" where
  "not_claimed r reason = \<lparr>sl_claimed = False, sl_outbox = r, sl_reason = Some reason\<rparr>"

definition not_claimable :: "send_row \<Rightarrow> string" where
  "not_claimable r = ''outbox_not_claimable:'' @ send_status_value (so_status r)"

definition claim_due_outbox ::
  "py_env \<Rightarrow> send_config \<Rightarrow> send_store \<Rightarrow> string \<Rightarrow> string \<Rightarrow> int \<Rightarrow> bool \<Rightarrow> send_claim result \<times> send_store" where
  "claim_due_outbox env cfg s outbox_id worker_id now allow_exhausted =
     (if worker_id = [] then (Inl (ValueError ''worker_id must be non-empty''), s)
      else case required_uuid env ''outbox_id'' outbox_id of Inl e \<Rightarrow> (Inl e, s) | Inr key \<Rightarrow>
     (case get_send_outbox s key of
        None \<Rightarrow> (Inr (not_claimed None ''outbox_not_found''), s)
      | Some current \<Rightarrow>
          if so_status current \<noteq> SO_PENDING then (Inr (not_claimed (Some current) (not_claimable current)), s)
          else if \<not> send_due now current then (Inr (not_claimed (Some current) ''outbox_not_due''), s)
          else if \<not> allow_exhausted \<and> should_dead_letter cfg current now then
            (Inr (not_claimed (Some current) ''outbox_retry_budget_exhausted''), s)
          else case derive_send_claim_id env (so_outbox_id current) worker_id (so_attempt_count current + 1) of
            Inl e \<Rightarrow> (Inl e, s)
          | Inr claim_id \<Rightarrow>
              (case claim_send_outbox s (so_outbox_id current) claim_id worker_id now of
                 (Some claimed, s') \<Rightarrow> (Inr \<lparr>sl_claimed = True, sl_outbox = Some claimed, sl_reason = None\<rparr>, s')
               | (None, s') \<Rightarrow>
                   (Inr (case get_send_outbox s' (so_outbox_id current) of
                           None \<Rightarrow> not_claimed None ''outbox_not_found''
                         | Some r \<Rightarrow> not_claimed (Some r) (not_claimable r)), s'))))"

definition with_send_ids ::
  "py_env \<Rightarrow> string \<Rightarrow> string \<Rightarrow> send_store
     \<Rightarrow> (string \<Rightarrow> string \<Rightarrow> send_row option \<times> send_store) \<Rightarrow> send_row option result \<times> send_store" where
  "with_send_ids env outbox_id claim_id s act =
     (case required_uuid env ''outbox_id'' outbox_id of Inl e \<Rightarrow> (Inl e, s) | Inr k \<Rightarrow>
     (case required_uuid env ''claim_id'' claim_id of Inl e \<Rightarrow> (Inl e, s) | Inr c \<Rightarrow>
     (case act k c of (r, s') \<Rightarrow> (Inr r, s'))))"

definition rt_mark_sent ::
  "py_env \<Rightarrow> send_store \<Rightarrow> string \<Rightarrow> string \<Rightarrow> string \<Rightarrow> int \<Rightarrow> send_row option result \<times> send_store" where
  "rt_mark_sent env s outbox_id claim_id provider_message_id sent_at =
     with_send_ids env outbox_id claim_id s (\<lambda>k c. mark_send_sent s k c provider_message_id sent_at)"

definition rt_mark_send_attempted ::
  "py_env \<Rightarrow> send_store \<Rightarrow> string \<Rightarrow> string \<Rightarrow> int \<Rightarrow> send_row option result \<times> send_store" where
  "rt_mark_send_attempted env s outbox_id claim_id attempted_at =
     with_send_ids env outbox_id claim_id s (\<lambda>k c. mark_send_attempted s k c attempted_at)"

definition rt_record_provider_message_id ::
  "py_env \<Rightarrow> send_store \<Rightarrow> string \<Rightarrow> string \<Rightarrow> string \<Rightarrow> int \<Rightarrow> send_row option result \<times> send_store" where
  "rt_record_provider_message_id env s outbox_id claim_id provider_message_id recorded_at =
     with_send_ids env outbox_id claim_id s
       (\<lambda>k c. record_provider_message_id s k c provider_message_id recorded_at)"

definition rt_dead_letter ::
  "py_env \<Rightarrow> send_store \<Rightarrow> string \<Rightarrow> string \<Rightarrow> string \<Rightarrow> int \<Rightarrow> send_row option result \<times> send_store" where
  "rt_dead_letter env s outbox_id claim_id err dead_lettered_at =
     with_send_ids env outbox_id claim_id s (\<lambda>k c. dead_letter_send_outbox env s k c err dead_lettered_at)"

definition rt_reschedule ::
  "py_env \<Rightarrow> send_config \<Rightarrow> send_store \<Rightarrow> send_row \<Rightarrow> string \<Rightarrow> string \<Rightarrow> int \<Rightarrow> int option
     \<Rightarrow> send_row option result \<times> send_store" where
  "rt_reschedule env cfg s r claim_id err now retry_after_seconds =
     (let delay = (case retry_after_seconds of
                     Some n \<Rightarrow> if 0 < n then n else retry_delay_seconds cfg (so_attempt_count r)
                   | None \<Rightarrow> retry_delay_seconds cfg (so_attempt_count r))
      in case required_uuid env ''claim_id'' claim_id of Inl e \<Rightarrow> (Inl e, s) | Inr c \<Rightarrow>
         (case reschedule_send_outbox env s (so_outbox_id r) c (now + seconds delay) err of
            (res, s') \<Rightarrow> (Inr res, s')))"

section \<open>The reconciler\<close>

record send_sweep =
  sw_scanned :: int
  sw_requeued :: "send_row list"
  sw_refused :: "send_row option list"
  sw_dead_lettered :: "send_row list"
  sw_sent_from_evidence :: "send_row list"
  sw_needs_reconciliation :: "send_row list"

definition empty_sweep :: send_sweep where
  "empty_sweep = \<lparr>sw_scanned = 0, sw_requeued = [], sw_refused = [], sw_dead_lettered = [],
     sw_sent_from_evidence = [], sw_needs_reconciliation = []\<rparr>"

text \<open>One row of the sweep: which transition it gets is decided on the row as it was
  listed, the transition itself looks at the row as it is.\<close>

definition sweep_stale_row ::
  "py_env \<Rightarrow> int \<Rightarrow> int \<Rightarrow> string \<Rightarrow> send_row \<Rightarrow> send_sweep \<times> send_store \<Rightarrow> send_sweep \<times> send_store" where
  "sweep_stale_row env stale_before now reason r acc =
     (case acc of (sw, s) \<Rightarrow>
        if so_provider_id r \<noteq> None then
          (case stale_send_to_sent s (so_outbox_id r) stale_before now of
             (Some u, s') \<Rightarrow> (sw\<lparr>sw_sent_from_evidence := sw_sent_from_evidence sw @ [u]\<rparr>, s')
           | (None, s') \<Rightarrow> (sw\<lparr>sw_refused := sw_refused sw @ [get_send_outbox s' (so_outbox_id r)]\<rparr>, s'))
        else if so_attempted_at r = None then
          (case requeue_stale_send env s (so_outbox_id r) stale_before now reason of
             (Some u, s') \<Rightarrow> (sw\<lparr>sw_requeued := sw_requeued sw @ [u]\<rparr>, s')
           | (None, s') \<Rightarrow> (sw\<lparr>sw_refused := sw_refused sw @ [get_send_outbox s' (so_outbox_id r)]\<rparr>, s'))
        else
          (case stale_send_to_reconciliation env s (so_outbox_id r) stale_before now reason of
             (Some u, s') \<Rightarrow> (sw\<lparr>sw_needs_reconciliation := sw_needs_reconciliation sw @ [u]\<rparr>, s')
           | (None, s') \<Rightarrow> (sw\<lparr>sw_refused := sw_refused sw @ [get_send_outbox s' (so_outbox_id r)]\<rparr>, s')))"

definition stale_send_query :: "int \<Rightarrow> int \<Rightarrow> string option \<Rightarrow> send_query" where
  "stale_send_query stale_before limit tenant_id =
     default_send_query\<lparr>sq_tenant_id := tenant_id, sq_status := Some SO_CLAIMED,
       sq_claimed_before_or_at := Some stale_before, sq_limit := limit\<rparr>"

definition requeue_stale_claimed ::
  "py_env \<Rightarrow> send_store \<Rightarrow> int \<Rightarrow> int \<Rightarrow> int \<Rightarrow> string option \<Rightarrow> string \<Rightarrow> send_sweep \<times> send_store" where
  "requeue_stale_claimed env s stale_before now limit tenant_id reason =
     (let rows = p_rows (list_send_outbox s (stale_send_query stale_before limit tenant_id))
      in fold (sweep_stale_row env stale_before now reason) rows
           (empty_sweep\<lparr>sw_scanned := int (length rows)\<rparr>, s))"

definition DEAD_LETTER_WORKER :: string where
  "DEAD_LETTER_WORKER = ''reconciler:outbound-send-dead-letter''"

text \<open>One exhausted row: claim it with the budget check off, and dead-letter it.\<close>

definition dead_letter_row ::
  "py_env \<Rightarrow> send_config \<Rightarrow> int \<Rightarrow> string \<Rightarrow> send_row \<Rightarrow> send_store \<Rightarrow> send_row option result \<times> send_store" where
  "dead_letter_row env cfg now reason r s =
     (case claim_due_outbox env cfg s (so_outbox_id r) DEAD_LETTER_WORKER now True of
        (Inl e, s1) \<Rightarrow> (Inl e, s1)
      | (Inr claim, s1) \<Rightarrow>
          (case sl_outbox claim of
             None \<Rightarrow> (Inr None, s1)
           | Some row \<Rightarrow>
               (case so_claim_id row of
                  None \<Rightarrow> (Inr None, s1)
                | Some c \<Rightarrow>
                    if \<not> sl_claimed claim then (Inr None, s1)
                    else rt_dead_letter env s1 (so_outbox_id row) c reason now)))"

fun dead_letter_rows ::
  "py_env \<Rightarrow> send_config \<Rightarrow> int \<Rightarrow> string \<Rightarrow> send_row list \<Rightarrow> send_sweep \<Rightarrow> send_store
     \<Rightarrow> send_sweep result \<times> send_store" where
  "dead_letter_rows env cfg now reason [] sw s = (Inr sw, s)"
| "dead_letter_rows env cfg now reason (r # rs) sw s =
     (if \<not> should_dead_letter cfg r now then dead_letter_rows env cfg now reason rs sw s
      else case dead_letter_row env cfg now reason r s of
        (Inl e, s1) \<Rightarrow> (Inl e, s1)
      | (Inr None, s1) \<Rightarrow> dead_letter_rows env cfg now reason rs sw s1
      | (Inr (Some u), s1) \<Rightarrow>
          dead_letter_rows env cfg now reason rs (sw\<lparr>sw_dead_lettered := sw_dead_lettered sw @ [u]\<rparr>) s1)"

definition exhausted_query :: "int \<Rightarrow> int \<Rightarrow> string option \<Rightarrow> send_query" where
  "exhausted_query now limit tenant_id =
     default_send_query\<lparr>sq_tenant_id := tenant_id, sq_status := Some SO_PENDING,
       sq_due_before_or_at := Some now, sq_limit := limit\<rparr>"

definition dead_letter_exhausted_pending ::
  "py_env \<Rightarrow> send_config \<Rightarrow> send_store \<Rightarrow> int \<Rightarrow> int \<Rightarrow> string option \<Rightarrow> string
     \<Rightarrow> send_sweep result \<times> send_store" where
  "dead_letter_exhausted_pending env cfg s now limit tenant_id reason =
     (let rows = p_rows (list_send_outbox s (exhausted_query now limit tenant_id))
      in dead_letter_rows env cfg now reason rows (empty_sweep\<lparr>sw_scanned := int (length rows)\<rparr>) s)"

definition rt_list_due_pending_fair :: "send_store \<Rightarrow> int \<Rightarrow> int \<Rightarrow> int \<Rightarrow> send_row list result" where
  "rt_list_due_pending_fair s now per_tenant_limit limit =
     (if per_tenant_limit < 1 then Inl (ValueError ''per_tenant_limit must be positive'')
      else if limit < 1 then Inl (ValueError ''limit must be positive'')
      else Inr (list_due_pending_fair s now per_tenant_limit limit))"

text \<open>The maintenance task: settle stale claims, dead-letter exhausted rows, and hand the
  rows that are due to the publisher.\<close>

record send_reconciliation =
  rc_stale :: send_sweep
  rc_exhausted :: send_sweep
  rc_enqueued :: "send_row list"

definition reconcile_send_outbox ::
  "py_env \<Rightarrow> send_config \<Rightarrow> int \<Rightarrow> send_store \<Rightarrow> int \<Rightarrow> int \<Rightarrow> int \<Rightarrow> string option
     \<Rightarrow> send_reconciliation result \<times> send_store" where
  "reconcile_send_outbox env cfg per_tenant_limit s stale_before now limit tenant_id =
     (case requeue_stale_claimed env s stale_before now limit tenant_id ''outbound send claim expired'' of
        (stale, s1) \<Rightarrow>
     (case dead_letter_exhausted_pending env cfg s1 now limit tenant_id ''outbound send retry budget exhausted'' of
        (Inl e, s2) \<Rightarrow> (Inl e, s2)
      | (Inr exhausted, s2) \<Rightarrow>
     (case (if tenant_id = None then rt_list_due_pending_fair s2 now per_tenant_limit limit
            else Inr (p_rows (list_send_outbox s2 (exhausted_query now limit tenant_id)))) of
        Inl e \<Rightarrow> (Inl e, s2)
      | Inr due \<Rightarrow> (Inr \<lparr>rc_stale = stale, rc_exhausted = exhausted, rc_enqueued = due\<rparr>, s2))))"

section \<open>The worker\<close>

datatype send_result = DELIVERED "string option" | DELIVERY_PENDING

type_synonym 'x executor = "'x \<Rightarrow> send_row \<Rightarrow> ((string \<times> string) + send_result) \<times> 'x"

datatype send_report =
    SendNotClaimed "string option"
  | SendDone "string option"
  | SendClaimLost
  | SendRescheduled
  | SendDeadLettered

definition bounded_error :: "string \<times> string \<Rightarrow> string" where
  "bounded_error exc = take 1000 (fst exc @ '': '' @ snd exc)"

definition transition_report :: "send_row option \<Rightarrow> send_report" where
  "transition_report updated =
     (case updated of
        None \<Rightarrow> SendRescheduled
      | Some r \<Rightarrow> if so_status r = SO_DEAD_LETTERED then SendDeadLettered else SendRescheduled)"

definition reschedule_or_dead_letter ::
  "py_env \<Rightarrow> send_config \<Rightarrow> send_store \<Rightarrow> send_row \<Rightarrow> string \<Rightarrow> string \<Rightarrow> int
     \<Rightarrow> send_row option result \<times> send_store" where
  "reschedule_or_dead_letter env cfg s r claim_id err now =
     (if should_dead_letter cfg r now then rt_dead_letter env s (so_outbox_id r) claim_id err now
      else rt_reschedule env cfg s r claim_id err now None)"

text \<open>What the worker does with the answer of the provider.\<close>

definition settle_send ::
  "py_env \<Rightarrow> send_config \<Rightarrow> send_store \<Rightarrow> send_row \<Rightarrow> string \<Rightarrow> int \<Rightarrow> send_result
     \<Rightarrow> send_report result \<times> send_store" where
  "settle_send env cfg s r claim_id now outcome =
     (case outcome of
        DELIVERY_PENDING \<Rightarrow>
          (case reschedule_or_dead_letter env cfg s r claim_id ''outbound delivery already pending'' now of
             (Inl e, s') \<Rightarrow> (Inl e, s')
           | (Inr u, s') \<Rightarrow> (Inr (transition_report u), s'))
      | DELIVERED provider_id \<Rightarrow>
          let provider = (case provider_id of Some p \<Rightarrow> if p = [] then ''already-sent'' else p
                          | None \<Rightarrow> ''already-sent'');
              s1 = snd (rt_record_provider_message_id env s (so_outbox_id r) claim_id provider now)
          in (case rt_mark_sent env s1 (so_outbox_id r) claim_id provider now of
                (Inl e, s') \<Rightarrow> (Inl e, s')
              | (Inr None, s') \<Rightarrow> (Inr SendClaimLost, s')
              | (Inr (Some sent), s') \<Rightarrow> (Inr (SendDone (so_provider_id sent)), s')))"

text \<open>The rest of the task once the provider has answered, or the call has raised: an
  exception on the way, the settlement's own included, goes to the retry path.\<close>

definition finish_send ::
  "py_env \<Rightarrow> send_config \<Rightarrow> send_store \<Rightarrow> send_row \<Rightarrow> string \<Rightarrow> int \<Rightarrow> (string \<times> string) + send_result
     \<Rightarrow> send_report result \<times> send_store" where
  "finish_send env cfg s r claim_id now answer =
     (let retry = (\<lambda>err s.
            (case reschedule_or_dead_letter env cfg s r claim_id err now of
               (Inl e, s') \<Rightarrow> (Inl e, s')
             | (Inr u, s') \<Rightarrow> (Inr (transition_report u), s')))
      in case answer of
           Inl exc \<Rightarrow> retry (bounded_error exc) s
         | Inr outcome \<Rightarrow>
             (case settle_send env cfg s r claim_id now outcome of
                (Inl e, s') \<Rightarrow> retry (bounded_error (error_text e)) s'
              | (Inr report, s') \<Rightarrow> (Inr report, s')))"

definition process_send_outbox ::
  "py_env \<Rightarrow> send_config \<Rightarrow> 'x executor \<Rightarrow> int \<Rightarrow> string \<Rightarrow> string \<Rightarrow> send_store \<Rightarrow> 'x
     \<Rightarrow> send_report result \<times> send_store \<times> 'x" where
  "process_send_outbox env cfg exec now worker_id outbox_id s x =
     (case claim_due_outbox env cfg s outbox_id worker_id now False of
        (Inl e, s1) \<Rightarrow> (Inl e, s1, x)
      | (Inr claim, s1) \<Rightarrow>
     (case (sl_claimed claim, sl_outbox claim) of
        (True, Some r) \<Rightarrow>
          (case so_claim_id r of
             None \<Rightarrow> (Inl (RuntimeError ''claimed outbound send outbox missing claim_id''), s1, x)
           | Some c \<Rightarrow>
               let s2 = snd (rt_mark_send_attempted env s1 (so_outbox_id r) c now)
               in (case exec x r of
                     (answer, x1) \<Rightarrow>
                       (case finish_send env cfg s2 r c now answer of (report, s3) \<Rightarrow> (report, s3, x1))))
      | _ \<Rightarrow> (Inr (SendNotClaimed (sl_reason claim)), s1, x)))"

end
