(* ===== verification/Outbound_Safety.thy ===== *)
theory Outbound_Safety
  imports Outbound_Runtime
begin

text \<open>
  What the send outbox promises: how often a provider is called for one intent, what
  the reconciler does with the evidence it finds, how rows are shared out between
  tenants, and where the evidence does not protect: a worker that lost its claim.
\<close>

section \<open>The store\<close>

definition send_inv :: "send_store \<Rightarrow> bool" where
  "send_inv s \<longleftrightarrow> wf_dict (sd_records s) \<and> (\<forall>k r. dget (sd_records s) k = Some r \<longrightarrow> so_outbox_id r = k \<and> 0 \<le> so_attempt_count r)"

lemma send_invD:
  assumes "send_inv s"
  shows "wf_dict (sd_records s)" "dget (sd_records s) k = Some r \<Longrightarrow> so_outbox_id r = k"
    "dget (sd_records s) k = Some r \<Longrightarrow> 0 \<le> so_attempt_count r"
  using assms unfolding send_inv_def by blast+

lemma send_inv_empty: "send_inv empty_send_store"
  by (simp add: send_inv_def empty_send_store_def)

lemma put_send_inv:
  "send_inv s \<Longrightarrow> so_outbox_id r = k \<Longrightarrow> 0 \<le> so_attempt_count r \<Longrightarrow> send_inv (put_send_row r k s)"
  by (simp add: send_inv_def put_send_row_def)

lemma put_send_get [simp]: "dget (sd_records (put_send_row r k s)) j = (if j = k then Some r else dget (sd_records s) j)"
  by (simp add: put_send_row_def)

lemma send_rows_get:
  assumes "send_inv s" "r \<in> set (send_rows s q)"
  shows "dget (sd_records s) (so_outbox_id r) = Some r" "send_matches q r"
proof -
  have "r \<in> set (dvals (sd_records s))" "send_matches q r" using assms(2) by (auto simp: send_rows_def)
  then show "dget (sd_records s) (so_outbox_id r) = Some r" "send_matches q r"
    using in_dvals_iff [OF send_invD(1) [OF assms(1)]] send_invD(2) [OF assms(1)] by auto
qed

lemma send_ids_distinct:
  assumes "send_inv s"
  shows "distinct (map so_outbox_id (dvals (sd_records s)))"
proof -
  have "map so_outbox_id (dvals (sd_records s)) = dkeys (sd_records s)"
    using send_invD [OF assms] by (auto simp: map_of_eq_Some_iff)
  then show ?thesis using send_invD(1) [OF assms] by (simp only:)
qed

lemma send_page_ids:
  assumes "send_inv s"
  shows "distinct (map so_outbox_id (p_rows (list_send_outbox s q)))"
    "r \<in> set (p_rows (list_send_outbox s q)) \<Longrightarrow> r \<in> set (send_rows s q)"
proof -
  have inj: "inj_on so_outbox_id (set (dvals (sd_records s)))" and "distinct (dvals (sd_records s))"
    using send_ids_distinct [OF assms] distinct_map [of so_outbox_id "dvals (sd_records s)"] by blast+
  then have rows: "distinct (send_rows s q)" by (simp add: send_rows_def)
  have sub: "set (p_rows (list_send_outbox s q)) \<subseteq> set (send_rows s q)"
    using set_py_slice by (simp add: list_send_outbox_def)
  have "inj_on so_outbox_id (set (p_rows (list_send_outbox s q)))"
    by (rule inj_on_subset [OF inj]) (use sub in \<open>auto simp: send_rows_def\<close>)
  moreover have "distinct (p_rows (list_send_outbox s q))"
    using distinct_py_slice [OF rows] by (simp add: list_send_outbox_def)
  ultimately show "distinct (map so_outbox_id (p_rows (list_send_outbox s q)))" by (simp add: distinct_map)
  show "r \<in> set (p_rows (list_send_outbox s q)) \<Longrightarrow> r \<in> set (send_rows s q)" using sub by blast
qed

section \<open>The sweep over stale claims\<close>

text \<open>What the evidence on a stale row decides.\<close>

definition stale_verdict :: "py_env \<Rightarrow> int \<Rightarrow> string \<Rightarrow> send_row \<Rightarrow> send_row" where
  "stale_verdict env now reason r =
     (if so_provider_id r \<noteq> None then
        r\<lparr>so_status := SO_SENT, so_sent_at := Some now, so_updated_at := now, so_last_error := None\<rparr>
      else if so_attempted_at r = None then
        r\<lparr>so_status := SO_PENDING, so_claim_id := None, so_worker_id := None, so_claimed_at := None,
          so_updated_at := now, so_last_error := Some reason,
          so_metadata := dmerge (so_metadata r) [(''reconciler.reason'', PStr reason),
            (''reconciler.requeued_at'', PStr (isoformat env now))]\<rparr>
      else
        r\<lparr>so_status := SO_NEEDS_RECONCILIATION, so_updated_at := now, so_last_error := Some reason,
          so_metadata := dmerge (so_metadata r) [(''reconciliation.reason'', PStr reason),
            (''reconciliation.flagged_at'', PStr (isoformat env now))]\<rparr>)"

lemma stale_verdict_id [simp]: "so_outbox_id (stale_verdict env now reason r) = so_outbox_id r"
  "so_attempt_count (stale_verdict env now reason r) = so_attempt_count r"
  by (simp_all add: stale_verdict_def)

lemma sweep_stale_row_store:
  assumes "dget (sd_records s) (so_outbox_id r) = Some r" "so_status r = SO_CLAIMED" "claimed_by stale r"
  shows "snd (sweep_stale_row env stale now reason r (sw, s)) =
      put_send_row (stale_verdict env now reason r) (so_outbox_id r) s"
    "sw_refused (fst (sweep_stale_row env stale now reason r (sw, s))) = sw_refused sw"
  using assms
  by (simp_all add: sweep_stale_row_def stale_send_to_sent_def requeue_stale_send_def stale_send_to_reconciliation_def
      stale_send_row_def stale_verdict_def Let_def)

text \<open>The sweep finds each row as it was listed, so each gets the verdict on it.\<close>

lemma sweep_fold:
  assumes "send_inv s"
    and "\<And>r. r \<in> set rs \<Longrightarrow> dget (sd_records s) (so_outbox_id r) = Some r \<and> so_status r = SO_CLAIMED \<and> claimed_by stale r"
    and "distinct (map so_outbox_id rs)"
  shows "dget (sd_records (snd (fold (sweep_stale_row env stale now reason) rs (sw, s)))) k =
      (case dget (sd_records s) k of
         None \<Rightarrow> None
       | Some r \<Rightarrow> Some (if r \<in> set rs then stale_verdict env now reason r else r)) \<and>
    sw_refused (fst (fold (sweep_stale_row env stale now reason) rs (sw, s))) = sw_refused sw"
  using assms
proof (induction rs arbitrary: sw s)
  case Nil
  then show ?case by (simp split: option.split)
next
  case (Cons r rs)
  have r: "dget (sd_records s) (so_outbox_id r) = Some r" "so_status r = SO_CLAIMED" "claimed_by stale r"
    using Cons.prems(2) [of r] by simp_all
  obtain sw1 s1 where step: "sweep_stale_row env stale now reason r (sw, s) = (sw1, s1)" by fastforce
  have s1: "s1 = put_send_row (stale_verdict env now reason r) (so_outbox_id r) s" "sw_refused sw1 = sw_refused sw"
    using sweep_stale_row_store [OF r, of env now reason sw] step by simp_all
  have other: "so_outbox_id q \<noteq> so_outbox_id r" if "q \<in> set rs" for q
    using Cons.prems(3) that by (metis distinct.simps(2) image_eqI list.set_map list.simps(9))
  have inv1: "send_inv s1" using send_invD(3) [OF Cons.prems(1) r(1)] by (simp add: s1 put_send_inv Cons.prems(1))
  have fresh: "r \<notin> set rs" "stale_verdict env now reason r \<notin> set rs" using other by fastforce+
  have "dget (sd_records s1) (so_outbox_id q) = Some q \<and> so_status q = SO_CLAIMED \<and> claimed_by stale q" if "q \<in> set rs" for q
    using Cons.prems(2) [of q] other [OF that] that by (simp add: s1)
  note IH = Cons.IH [OF inv1 this, of sw1]
  show ?case
  proof (cases "k = so_outbox_id r")
    case True
    then show ?thesis using IH Cons.prems(3) r fresh by (simp add: step s1)
  next
    case False
    then have "q \<noteq> r" if "dget (sd_records s) k = Some q" for q
      using send_invD(2) [OF Cons.prems(1) that] by auto
    then show ?thesis using IH Cons.prems(3) False by (auto simp: step s1 split: option.split)
  qed
qed

definition sweep_total :: "send_sweep \<Rightarrow> nat" where
  "sweep_total sw = length (sw_requeued sw) + length (sw_refused sw) + length (sw_sent_from_evidence sw) +
     length (sw_needs_reconciliation sw)"

lemma sweep_counts:
  "sw_scanned (fst (fold (sweep_stale_row env stale now reason) rs acc)) = sw_scanned (fst acc) \<and>
   sweep_total (fst (fold (sweep_stale_row env stale now reason) rs acc)) = length rs + sweep_total (fst acc)"
proof (induction rs arbitrary: acc)
  case (Cons r rs)
  have "sw_scanned (fst (sweep_stale_row env stale now reason r acc)) = sw_scanned (fst acc) \<and>
      sweep_total (fst (sweep_stale_row env stale now reason r acc)) = Suc (sweep_total (fst acc))"
    by (auto simp: sweep_stale_row_def sweep_total_def split: prod.split option.split)
  then show ?case using Cons.IH [of "sweep_stale_row env stale now reason r acc"] by simp
qed simp

lemma stale_rows:
  assumes "send_inv s" "r \<in> set (p_rows (list_send_outbox s (stale_send_query stale limit t)))"
  shows "dget (sd_records s) (so_outbox_id r) = Some r \<and> so_status r = SO_CLAIMED \<and> claimed_by stale r"
  using send_rows_get [OF assms(1) send_page_ids(2) [OF assms]]
  by (simp add: send_matches_def stale_send_query_def default_send_query_def)

lemma sweep_store:
  assumes "send_inv s"
  shows "dget (sd_records (snd (requeue_stale_claimed env s stale now limit t reason))) k =
      (case dget (sd_records s) k of
         None \<Rightarrow> None
       | Some r \<Rightarrow> Some (if r \<in> set (p_rows (list_send_outbox s (stale_send_query stale limit t)))
                         then stale_verdict env now reason r else r))"
    "sw_refused (fst (requeue_stale_claimed env s stale now limit t reason)) = []"
  using sweep_fold [OF assms stale_rows [OF assms] send_page_ids(1) [OF assms]]
  by (simp_all add: requeue_stale_claimed_def Let_def empty_sweep_def)

end
