(* ===== verification/Outbound_World.thy ===== *)
theory Outbound_World
  imports Outbound_Safety
begin

text \<open>
  Workers and the reconciler at work on one send outbox.  A worker claims a row, writes
  the attempt marker, calls the provider and settles the row; it may be overtaken or
  crash between any two of these steps, and the reconciler may sweep in between.  The
  steps are those \<open>process_outbound_send_outbox_runtime\<close> performs one after the other.
  The provider's message id is recorded before the row is marked sent, in a transaction of
  its own (\<open>evidence\<close>): the worker may be overtaken or crash after it, and if not, its
  settlement writes the id again.
\<close>

section \<open>The steps\<close>

datatype worker_phase = HELD | READY | CALLED

record send_world =
  wd_store :: send_store
  wd_workers :: "(worker_phase \<times> send_row) list"
    \<comment> \<open>workers with the row they claimed, and how far they got\<close>
  wd_calls :: "(string \<times> string) list"
    \<comment> \<open>calls of the provider: outbox row and claim\<close>
  wd_marked :: "(string \<times> string) set"
    \<comment> \<open>claims under which the attempt marker was written\<close>
  wd_given_up :: "(string \<times> string) set"
    \<comment> \<open>claims whose worker handed the row to the retry path\<close>

definition initial_world :: send_world where
  "initial_world = \<lparr>wd_store = empty_send_store, wd_workers = [], wd_calls = [], wd_marked = {}, wd_given_up = {}\<rparr>"

definition fresh_intent :: "send_store \<Rightarrow> send_row \<Rightarrow> bool" where
  "fresh_intent s r \<longleftrightarrow> so_status r = SO_PENDING \<and> so_attempt_count r = 0 \<and>
     (dget (sd_records s) (so_outbox_id r) \<noteq> None \<longrightarrow> dget (sd_by_unique s) (send_unique_key r) \<noteq> None)"

inductive send_trans :: "py_env \<Rightarrow> send_config \<Rightarrow> send_world \<Rightarrow> send_world \<Rightarrow> bool" for env cfg where
  create: "fresh_intent (wd_store w) r \<Longrightarrow>
    send_trans env cfg w (w\<lparr>wd_store := snd (create_send_outbox (wd_store w) r)\<rparr>)"
| claim: "claim_due_outbox env cfg (wd_store w) k worker now False = (Inr answer, s) \<Longrightarrow>
    sl_claimed answer \<Longrightarrow> sl_outbox answer = Some r \<Longrightarrow>
    send_trans env cfg w (w\<lparr>wd_store := s, wd_workers := (HELD, r) # wd_workers w\<rparr>)"
| mark: "wd_workers w = xs @ (HELD, r) # ys \<Longrightarrow> so_claim_id r = Some c \<Longrightarrow>
    rt_mark_send_attempted env (wd_store w) (so_outbox_id r) c now = (answer, s) \<Longrightarrow>
    send_trans env cfg w (w\<lparr>wd_store := s, wd_workers := xs @ (READY, r) # ys,
      wd_marked := (if answer \<in> {Inr None} \<union> range Inl then wd_marked w
                    else insert (so_outbox_id r, c) (wd_marked w))\<rparr>)"
| call: "wd_workers w = xs @ (READY, r) # ys \<Longrightarrow> so_claim_id r = Some c \<Longrightarrow>
    send_trans env cfg w (w\<lparr>wd_workers := xs @ (CALLED, r) # ys, wd_calls := (so_outbox_id r, c) # wd_calls w\<rparr>)"
| evidence: "wd_workers w = xs @ (CALLED, r) # ys \<Longrightarrow> so_claim_id r = Some c \<Longrightarrow>
    send_trans env cfg w
      (w\<lparr>wd_store := snd (rt_record_provider_message_id env (wd_store w) (so_outbox_id r) c provider now)\<rparr>)"
| settle: "wd_workers w = xs @ (CALLED, r) # ys \<Longrightarrow> so_claim_id r = Some c \<Longrightarrow>
    send_trans env cfg w (w\<lparr>wd_store := snd (finish_send env cfg (wd_store w) r c now answer),
      wd_workers := xs @ ys,
      wd_given_up := (if answer \<in> range (Inr \<circ> DELIVERED) then wd_given_up w
                      else insert (so_outbox_id r, c) (wd_given_up w))\<rparr>)"
| crash: "wd_workers w = xs @ p # ys \<Longrightarrow> send_trans env cfg w (w\<lparr>wd_workers := xs @ ys\<rparr>)"
| sweep: "send_trans env cfg w
    (w\<lparr>wd_store := snd (requeue_stale_claimed env (wd_store w) stale now limit t reason)\<rparr>)"
| dead_letters: "send_trans env cfg w
    (w\<lparr>wd_store := snd (dead_letter_exhausted_pending env cfg (wd_store w) now limit t reason)\<rparr>)"

inductive send_reachable :: "py_env \<Rightarrow> send_config \<Rightarrow> send_world \<Rightarrow> bool" for env cfg where
  start: "send_reachable env cfg initial_world"
| step: "send_reachable env cfg w \<Longrightarrow> send_trans env cfg w w' \<Longrightarrow> send_reachable env cfg w'"

section \<open>What every step keeps\<close>

text \<open>How an operation may change a row: counters and evidence only grow, a settled row
  stays, and a row goes back to pending only under its claim or without evidence.\<close>

text \<open>What the row is about: it is fixed when the row is created.\<close>

definition row_intent :: "send_row \<Rightarrow> string list" where
  "row_intent r = [so_tenant_id r, so_channel r, so_action r, so_draft_id r, so_proposal_id r, so_session_id r,
     so_dispatch_id r, so_decision_id r, so_recipient r, so_body_sha256 r]"

text \<open>Which fields are set in which state.\<close>

definition row_shape :: "send_row \<Rightarrow> bool" where
  "row_shape r \<longleftrightarrow>
     (if so_status r = SO_PENDING then so_claim_id r = None \<and> so_worker_id r = None \<and> so_claimed_at r = None
      else so_claim_id r \<noteq> None \<and> so_worker_id r \<noteq> None \<and> so_claimed_at r \<noteq> None \<and> 1 \<le> so_attempt_count r) \<and>
     (so_status r = SO_SENT \<longleftrightarrow> so_sent_at r \<noteq> None) \<and>
     (so_status r = SO_SENT \<longrightarrow> so_provider_id r \<noteq> None) \<and>
     (so_status r = SO_DEAD_LETTERED \<longrightarrow> so_last_error r \<noteq> None) \<and>
     (so_status r = SO_NEEDS_RECONCILIATION \<longrightarrow>
        so_last_error r \<noteq> None \<and> so_attempted_at r \<noteq> None \<and> so_provider_id r = None)"

definition row_kept :: "send_row \<Rightarrow> send_row \<Rightarrow> bool" where
  "row_kept r r' \<longleftrightarrow> so_outbox_id r' = so_outbox_id r \<and> row_intent r' = row_intent r \<and>
     so_attempt_count r \<le> so_attempt_count r' \<and> (0 \<le> so_attempt_count r \<and> row_shape r \<longrightarrow> row_shape r')"

definition rows_kept :: "send_store \<Rightarrow> send_store \<Rightarrow> bool" where
  "rows_kept s s' \<longleftrightarrow> (\<forall>k r. dget (sd_records s) k = Some r \<longrightarrow>
     (\<exists>r'. dget (sd_records s') k = Some r' \<and> row_kept r r'))"

lemma row_kept_refl [simp]: "row_kept r r"
  by (simp add: row_kept_def)

lemma row_kept_trans: "row_kept r r1 \<Longrightarrow> row_kept r1 r2 \<Longrightarrow> row_kept r r2"
  by (simp add: row_kept_def)

lemma rows_kept_refl [simp]: "rows_kept s s"
  by (simp add: rows_kept_def)

lemma rows_kept_trans: "rows_kept s s1 \<Longrightarrow> rows_kept s1 s2 \<Longrightarrow> rows_kept s s2"
  unfolding rows_kept_def using row_kept_trans by blast

lemma rows_kept_put: "dget (sd_records s) k = Some r \<Longrightarrow> row_kept r r' \<Longrightarrow> rows_kept s (put_send_row r' k s)"
  by (simp add: rows_kept_def)

text \<open>Both the store's invariant and its rows are kept; and no row is added, unless by a create.\<close>

definition store_grown :: "send_store \<Rightarrow> send_store \<Rightarrow> bool" where
  "store_grown s s' \<longleftrightarrow> (send_inv s \<longrightarrow> send_inv s' \<and> rows_kept s s')"

definition store_kept :: "send_store \<Rightarrow> send_store \<Rightarrow> bool" where
  "store_kept s s' \<longleftrightarrow>
     (send_inv s \<longrightarrow> send_inv s' \<and> rows_kept s s' \<and> sd_by_unique s' = sd_by_unique s \<and>
        (\<forall>k. dget (sd_records s) k = None \<longrightarrow> dget (sd_records s') k = None))"

lemma store_kept_grown: "store_kept s s' \<Longrightarrow> store_grown s s'"
  by (simp add: store_kept_def store_grown_def)

lemma store_kept_refl [simp]: "store_kept s s"
  by (simp add: store_kept_def)

lemma store_kept_trans: "store_kept s s1 \<Longrightarrow> store_kept s1 s2 \<Longrightarrow> store_kept s s2"
  unfolding store_kept_def using rows_kept_trans by (metis (no_types, lifting))

lemma store_kept_put:
  assumes "dget (sd_records s) k = Some r" "row_kept r r'"
  shows "store_kept s (put_send_row r' k s)"
  unfolding store_kept_def
proof (intro impI conjI)
  assume inv: "send_inv s"
  show "send_inv (put_send_row r' k s)"
    using put_send_inv [OF inv, of r' k] send_invD(2,3) [OF inv assms(1)] assms(2) by (simp add: row_kept_def)
  show "rows_kept s (put_send_row r' k s)" by (rule rows_kept_put [OF assms])
  show "sd_by_unique (put_send_row r' k s) = sd_by_unique s" by (simp add: put_send_row_def)
  show "\<forall>j. dget (sd_records s) j = None \<longrightarrow> dget (sd_records (put_send_row r' k s)) j = None"
    using assms(1) by auto
qed

lemma with_claim_kept:
  assumes "\<And>r. so_status r = SO_CLAIMED \<Longrightarrow> row_kept r (change r)"
  shows "store_kept s (snd (with_claim s k c change))"
  using store_kept_put [OF _ assms]
  by (auto simp: with_claim_def matching_claim_def split: option.splits if_splits)

lemmas claimed_row_ops = mark_send_sent_def reschedule_send_outbox_def dead_letter_send_outbox_def
  mark_send_attempted_def record_provider_message_id_def

lemma claimed_ops_kept [simp]:
  "store_kept s (snd (mark_send_sent s k c p t))"
  "store_kept s (snd (reschedule_send_outbox env s k c t err))"
  "store_kept s (snd (dead_letter_send_outbox env s k c err t))"
  "store_kept s (snd (mark_send_attempted s k c t))"
  "store_kept s (snd (record_provider_message_id s k c p t))"
  by (simp_all add: claimed_row_ops with_claim_kept row_kept_def row_intent_def row_shape_def)

lemma snd_relabel [simp]: "snd (case x of (a, s) \<Rightarrow> (f a, s)) = snd x"
  by (cases x) simp

lemma with_send_ids_kept:
  assumes "\<And>k c. store_kept s (snd (act k c))"
  shows "store_kept s (snd (with_send_ids env i c s act))"
  using assms by (simp add: with_send_ids_def split: sum.split)

lemma rt_ops_kept [simp]:
  "store_kept s (snd (rt_mark_sent env s i c p t))"
  "store_kept s (snd (rt_mark_send_attempted env s i c t))"
  "store_kept s (snd (rt_record_provider_message_id env s i c p t))"
  "store_kept s (snd (rt_dead_letter env s i c err t))"
  by (simp_all add: rt_mark_sent_def rt_mark_send_attempted_def rt_record_provider_message_id_def rt_dead_letter_def
      with_send_ids_kept)

lemma rt_reschedule_kept [simp]: "store_kept s (snd (rt_reschedule env cfg s r c err now after))"
  by (simp add: rt_reschedule_def Let_def split: sum.split)

lemma retry_kept [simp]: "store_kept s (snd (reschedule_or_dead_letter env cfg s r c err now))"
  by (simp add: reschedule_or_dead_letter_def)


lemma store_keptD: "store_kept s s' \<Longrightarrow> send_inv s \<Longrightarrow> send_inv s' \<and> rows_kept s s'"
  by (simp add: store_kept_def)

lemma store_grownD: "store_grown s s' \<Longrightarrow> send_inv s \<Longrightarrow> send_inv s' \<and> rows_kept s s'"
  by (simp add: store_grown_def)

lemma settle_kept [simp]: "store_kept s (snd (settle_send env cfg s r c now outcome))"
proof (cases outcome)
  case (DELIVERED p)
  define provider where "provider = (case p of Some p \<Rightarrow> if p = [] then ''already-sent'' else p | None \<Rightarrow> ''already-sent'')"
  define s1 where "s1 = snd (rt_record_provider_message_id env s (so_outbox_id r) c provider now)"
  have "snd (settle_send env cfg s r c now outcome) = snd (rt_mark_sent env s1 (so_outbox_id r) c provider now)"
    by (simp add: settle_send_def DELIVERED Let_def split: prod.split sum.split option.split
        flip: provider_def s1_def)
  moreover have "store_kept s s1" by (simp add: s1_def)
  ultimately show ?thesis using store_kept_trans [of s s1] by simp
next
  case DELIVERY_PENDING
  have "snd (settle_send env cfg s r c now outcome) =
      snd (reschedule_or_dead_letter env cfg s r c ''outbound delivery already pending'' now)"
    by (simp add: settle_send_def DELIVERY_PENDING split: prod.split sum.split)
  then show ?thesis by simp
qed

lemma finish_kept [simp]: "store_kept s (snd (finish_send env cfg s r c now answer))"
proof (cases answer)
  case (Inl exc)
  have "snd (finish_send env cfg s r c now answer) = snd (reschedule_or_dead_letter env cfg s r c (bounded_error exc) now)"
    by (simp add: finish_send_def Inl Let_def split: prod.split sum.split)
  then show ?thesis by simp
next
  case (Inr outcome)
  obtain res s1 where settle: "settle_send env cfg s r c now outcome = (res, s1)" by fastforce
  have s1: "store_kept s s1" using settle_kept [of s env cfg r c now outcome] settle by simp
  show ?thesis
  proof (cases res)
    case (Inl e)
    have "snd (finish_send env cfg s r c now answer) =
        snd (reschedule_or_dead_letter env cfg s1 r c (bounded_error (error_text e)) now)"
      by (simp add: finish_send_def Inr settle Inl Let_def split: prod.split sum.split)
    then show ?thesis using store_kept_trans [OF s1] by simp
  next
    case (Inr report)
    then show ?thesis using s1 by (simp add: finish_send_def \<open>answer = Inr outcome\<close> settle Let_def)
  qed
qed

lemma claim_kept [simp]: "store_kept s (snd (claim_send_outbox s k c worker now))"
  using store_kept_put
  by (auto simp: claim_send_outbox_def Let_def row_kept_def row_intent_def row_shape_def split: option.split)

text \<open>A claim through the runtime: nothing, or the pending row counted and claimed.\<close>

definition claimed_row :: "send_row \<Rightarrow> string \<Rightarrow> string \<Rightarrow> int \<Rightarrow> send_row" where
  "claimed_row r c worker now =
     r\<lparr>so_status := SO_CLAIMED, so_claim_id := Some c, so_worker_id := Some worker, so_claimed_at := Some now,
       so_updated_at := now, so_attempt_count := so_attempt_count r + 1, so_last_error := None\<rparr>"

lemma claimed_row_simps [simp]:
  "row_intent (claimed_row r c worker now) = row_intent r"
  "so_outbox_id (claimed_row r c worker now) = so_outbox_id r" "so_status (claimed_row r c worker now) = SO_CLAIMED"
  "so_claim_id (claimed_row r c worker now) = Some c"
  "so_attempt_count (claimed_row r c worker now) = so_attempt_count r + 1"
  by (simp_all add: claimed_row_def row_intent_def)

lemma claim_due_cases:
  assumes inv: "send_inv s"
  obtains (refused) "snd (claim_due_outbox env cfg s i worker now ex) = s"
      "\<And>answer. fst (claim_due_outbox env cfg s i worker now ex) = Inr answer \<Longrightarrow> \<not> sl_claimed answer"
  | (claimed) k r c where "dget (sd_records s) k = Some r" "so_outbox_id r = k"
      "so_status r = SO_PENDING" "ex \<or> \<not> should_dead_letter cfg r now"
      "claim_due_outbox env cfg s i worker now ex =
         (Inr \<lparr>sl_claimed = True, sl_outbox = Some (claimed_row r c worker now), sl_reason = None\<rparr>,
          put_send_row (claimed_row r c worker now) k s)"
      "required_uuid env ''outbox_id'' i = Inr k"
      "derive_send_claim_id env k worker (so_attempt_count r + 1) = Inr c"
proof (cases "\<exists>k r c. required_uuid env ''outbox_id'' i = Inr k \<and> dget (sd_records s) k = Some r \<and>
    so_status r = SO_PENDING \<and> send_due now r \<and> (ex \<or> \<not> should_dead_letter cfg r now) \<and> worker \<noteq> [] \<and>
    derive_send_claim_id env (so_outbox_id r) worker (so_attempt_count r + 1) = Inr c")
  case True
  then obtain k r c where row: "required_uuid env ''outbox_id'' i = Inr k" "dget (sd_records s) k = Some r"
      "so_status r = SO_PENDING" "send_due now r" "ex \<or> \<not> should_dead_letter cfg r now" "worker \<noteq> []"
      "derive_send_claim_id env (so_outbox_id r) worker (so_attempt_count r + 1) = Inr c" by blast
  have k: "so_outbox_id r = k" by (rule send_invD(2) [OF inv row(2)])
  have "claim_due_outbox env cfg s i worker now ex =
      (Inr \<lparr>sl_claimed = True, sl_outbox = Some (claimed_row r c worker now), sl_reason = None\<rparr>,
       put_send_row (claimed_row r c worker now) k s)"
    using row(1-6) row(7) [unfolded k]
    by (cases ex) (simp_all add: claim_due_outbox_def get_send_outbox_def claim_send_outbox_def Let_def k claimed_row_def)
  then show ?thesis using claimed [OF row(2) k row(3,5)] row(1,7) k by simp
next
  case False
  show ?thesis
  proof (rule refused)
    show "snd (claim_due_outbox env cfg s i worker now ex) = s"
      using False
      by (auto simp: claim_due_outbox_def get_send_outbox_def claim_send_outbox_def split: sum.split option.split)
    show "\<not> sl_claimed answer" if "fst (claim_due_outbox env cfg s i worker now ex) = Inr answer" for answer
      using False that
      by (auto simp: claim_due_outbox_def get_send_outbox_def claim_send_outbox_def not_claimed_def
          split: sum.splits option.splits if_splits)
  qed
qed

lemma claim_due_kept [simp]: "store_kept s (snd (claim_due_outbox env cfg s i worker now ex))"
proof (cases "send_inv s")
  case True
  then show ?thesis
  proof (cases rule: claim_due_cases [of s env cfg i worker now ex])
    case (claimed k r c)
    then show ?thesis using store_kept_put [of s k r] by (simp add: row_kept_def row_shape_def claimed_row_def row_intent_def)
  qed simp_all
qed (simp add: store_kept_def)

lemma dead_letter_row_kept [simp]: "store_kept s (snd (dead_letter_row env cfg now reason r s))"
proof -
  obtain res s1 where claim: "claim_due_outbox env cfg s (so_outbox_id r) DEAD_LETTER_WORKER now True = (res, s1)"
    by fastforce
  have s1: "store_kept s s1"
    using claim_due_kept [of s env cfg "so_outbox_id r" DEAD_LETTER_WORKER now True] claim by simp
  then have "store_kept s (snd (rt_dead_letter env s1 i c reason now))" for i c
    using store_kept_trans by simp
  then show ?thesis using s1 by (simp add: dead_letter_row_def claim split: sum.split option.split)
qed

lemma dead_letter_rows_kept [simp]: "store_kept s (snd (dead_letter_rows env cfg now reason rs sw s))"
proof (induction rs arbitrary: sw s)
  case (Cons r rs)
  obtain res s1 where row: "dead_letter_row env cfg now reason r s = (res, s1)" by fastforce
  have "store_kept s s1" using dead_letter_row_kept [of s env cfg now reason r] row by simp
  then show ?case using Cons.IH store_kept_trans by (fastforce simp: row split: sum.split option.split)
qed simp

lemma dead_letters_kept [simp]: "store_kept s (snd (dead_letter_exhausted_pending env cfg s now limit t reason))"
  by (simp add: dead_letter_exhausted_pending_def Let_def)

lemma stale_row_get: "stale_send_row s k stale = Some r \<Longrightarrow> dget (sd_records s) k = Some r"
  by (auto simp: stale_send_row_def split: option.splits if_splits)

lemma stale_put:
  assumes "stale_send_row s k stale = Some r" "so_status r = SO_CLAIMED \<Longrightarrow> row_kept r r'"
  shows "store_kept s (put_send_row r' k s)"
proof -
  have "so_status r = SO_CLAIMED" using assms(1) by (auto simp: stale_send_row_def split: option.splits if_splits)
  then show ?thesis by (rule store_kept_put [OF stale_row_get [OF assms(1)] assms(2)])
qed

lemma stale_ops_kept [simp]:
  "store_kept s (snd (stale_send_to_sent s k stale now))"
  "store_kept s (snd (requeue_stale_send env s k stale now reason))"
  "store_kept s (snd (stale_send_to_reconciliation env s k stale now reason))"
  by (auto simp: stale_send_to_sent_def requeue_stale_send_def stale_send_to_reconciliation_def Let_def
      row_kept_def row_intent_def row_shape_def intro!: stale_put split: option.split)

lemma snd_by_result [simp]: "snd (case x of (Inl e, s) \<Rightarrow> (Inl e, s) | (Inr u, s) \<Rightarrow> (Inr (f u), s)) = snd x"
  by (cases x; cases "fst x") auto

lemma snd_by_option [simp]: "snd (case x of (None, s) \<Rightarrow> (g s, s) | (Some u, s) \<Rightarrow> (f u s, s)) = snd x"
  by (cases x; cases "fst x") auto

lemma sweep_row_kept [simp]: "store_kept s (snd (sweep_stale_row env stale now reason r (sw, s)))"
  by (simp add: sweep_stale_row_def)

lemma sweep_kept [simp]: "store_kept s (snd (requeue_stale_claimed env s stale now limit t reason))"
proof -
  have "store_kept s (snd (fold (sweep_stale_row env stale now reason) rs (sw, s)))" for rs sw
  proof (induction rs arbitrary: sw s)
    case (Cons r rs)
    obtain sw1 s1 where row: "sweep_stale_row env stale now reason r (sw, s) = (sw1, s1)" by fastforce
    then have "store_kept s s1" using sweep_row_kept [of s env stale now reason r sw] by simp
    then show ?case using Cons.IH store_kept_trans by (fastforce simp: row)
  qed simp
  then show ?thesis by (simp add: requeue_stale_claimed_def Let_def)
qed

lemma create_kept:
  assumes "fresh_intent s r"
  shows "store_grown s (snd (create_send_outbox s r))"
proof (cases "dget (sd_by_unique s) (send_unique_key r)")
  case None
  then have "dget (sd_records s) (so_outbox_id r) = None" using assms by (auto simp: fresh_intent_def)
  then have "rows_kept s (snd (create_send_outbox s r))"
    using None by (auto simp: rows_kept_def row_kept_def create_send_outbox_def)
  then show ?thesis
    using None assms by (auto simp: store_grown_def create_send_outbox_def send_inv_def fresh_intent_def)
qed (simp add: create_send_outbox_def store_grown_def split: option.split)

section \<open>How often the provider is called\<close>

text \<open>Calls made for row \<open>k\<close>, and workers that may still make one.\<close>

definition calls_of :: "send_world \<Rightarrow> string \<Rightarrow> nat" where
  "calls_of w k = length (filter (\<lambda>p. fst p = k) (wd_calls w))"

definition may_call :: "send_world \<Rightarrow> string \<Rightarrow> nat" where
  "may_call w k = length (filter (\<lambda>p. fst p \<noteq> CALLED \<and> so_outbox_id (snd p) = k) (wd_workers w))"

definition budget_inv :: "send_config \<Rightarrow> send_world \<Rightarrow> bool" where
  "budget_inv cfg w \<longleftrightarrow> send_inv (wd_store w) \<and>
     (\<forall>k. int (calls_of w k + may_call w k) \<le> max 0 (sc_max_attempts cfg) \<and>
        (calls_of w k + may_call w k > 0 \<longrightarrow> (\<exists>r. dget (sd_records (wd_store w)) k = Some r \<and>
           int (calls_of w k + may_call w k) \<le> so_attempt_count r)))"

lemma budget_invD:
  assumes "budget_inv cfg w"
  shows "send_inv (wd_store w)" "int (calls_of w k + may_call w k) \<le> max 0 (sc_max_attempts cfg)"
    "calls_of w k + may_call w k > 0 \<Longrightarrow>
       \<exists>r. dget (sd_records (wd_store w)) k = Some r \<and> int (calls_of w k + may_call w k) \<le> so_attempt_count r"
  using conjunct1 [OF assms [unfolded budget_inv_def]] spec [OF conjunct2 [OF assms [unfolded budget_inv_def]], of k]
  by (simp_all only: simp_thms)

lemma budget_keptI:
  assumes "budget_inv cfg w" "store_grown (wd_store w) (wd_store w')"
    and "\<And>k. calls_of w' k + may_call w' k \<le> calls_of w k + may_call w k"
  shows "budget_inv cfg w'"
proof -
  have inv: "send_inv (wd_store w)" using assms(1) by (simp add: budget_inv_def)
  note kept = store_grownD [OF assms(2) inv]
  have "int (calls_of w' k + may_call w' k) \<le> max 0 (sc_max_attempts cfg) \<and>
        (calls_of w' k + may_call w' k > 0 \<longrightarrow> (\<exists>r. dget (sd_records (wd_store w')) k = Some r \<and>
           int (calls_of w' k + may_call w' k) \<le> so_attempt_count r))" for k
  proof -
    have le: "calls_of w' k + may_call w' k \<le> calls_of w k + may_call w k" by (rule assms(3))
    have "int (calls_of w k + may_call w k) \<le> max 0 (sc_max_attempts cfg)"
      by (rule budget_invD(2) [OF assms(1)])
    moreover have "\<exists>r. dget (sd_records (wd_store w')) k = Some r \<and> int (calls_of w' k + may_call w' k) \<le> so_attempt_count r"
      if "calls_of w' k + may_call w' k > 0"
    proof -
      have "calls_of w k + may_call w k > 0" using that le by linarith
      then obtain r where "dget (sd_records (wd_store w)) k = Some r" "int (calls_of w k + may_call w k) \<le> so_attempt_count r"
        using budget_invD(3) [OF assms(1), of k] by auto
      then obtain r' where "dget (sd_records (wd_store w')) k = Some r'" "so_attempt_count r \<le> so_attempt_count r'"
        using kept unfolding rows_kept_def row_kept_def by blast
      then show ?thesis using le \<open>int (calls_of w k + may_call w k) \<le> so_attempt_count r\<close> by auto
    qed
    ultimately show ?thesis using le by auto
  qed
  then show ?thesis using kept by (simp add: budget_inv_def)
qed

lemma budget_step:
  assumes "send_trans env cfg w w'" "budget_inv cfg w"
  shows "budget_inv cfg w'"
  using assms
proof (induction rule: send_trans.induct)
  case (create w r)
  then show ?case using create_kept by (intro budget_keptI [OF create(2)]) (auto simp: calls_of_def may_call_def store_kept_grown)
next
  case (claim w i worker now answer s r)
  have inv: "send_inv (wd_store w)" using claim(4) by (simp add: budget_inv_def)
  show ?case
  proof (cases rule: claim_due_cases [OF inv, of env cfg i worker now False])
    case 1
    then show ?thesis using claim(1,2) by simp
  next
    case (2 k q c)
    have s: "s = put_send_row (claimed_row q c worker now) k (wd_store w)" and r: "r = claimed_row q c worker now"
      using 2(5) claim(1,3) by simp_all
    let ?w = "w\<lparr>wd_store := s, wd_workers := (HELD, r) # wd_workers w\<rparr>"
    have kept: "store_kept (wd_store w) s" using claim_due_kept [of "wd_store w" env cfg i worker now False] claim(1) by simp
    have room: "so_attempt_count q < sc_max_attempts cfg" using 2(4) by (simp add: should_dead_letter_def)
    have other: "calls_of ?w j + may_call ?w j = (if j = k then Suc (calls_of w j + may_call w j) else calls_of w j + may_call w j)"
      for j using 2(2) by (auto simp: calls_of_def may_call_def r)
    have q: "int (calls_of w k + may_call w k) \<le> so_attempt_count q"
    proof (cases "calls_of w k + may_call w k > 0")
      case True
      then show ?thesis using budget_invD(3) [OF claim(4), of k] 2(1) by auto
    qed (use send_invD(3) [OF inv 2(1)] in simp)
    have "int (calls_of ?w j + may_call ?w j) \<le> max 0 (sc_max_attempts cfg) \<and>
        (calls_of ?w j + may_call ?w j > 0 \<longrightarrow> (\<exists>r. dget (sd_records (wd_store ?w)) j = Some r \<and>
           int (calls_of ?w j + may_call ?w j) \<le> so_attempt_count r))" for j
    proof (cases "j = k")
      case True
      then show ?thesis using q room unfolding other by (simp add: s)
    next
      case False
      then show ?thesis
        using budget_invD(2,3) [OF claim(4), of j] unfolding other by (simp add: s)
    qed
    then show ?thesis using store_keptD [OF kept inv] by (simp add: budget_inv_def)
  qed
next
  case (mark w xs r ys c now answer s)
  have "store_kept (wd_store w) s" using rt_ops_kept(2) [of "wd_store w" env "so_outbox_id r" c now] mark(3) by simp
  then show ?case using mark(1) by (intro budget_keptI [OF mark(4)]) (auto simp: calls_of_def may_call_def store_kept_grown)
next
  case (call w xs r ys c)
  then show ?case by (intro budget_keptI [OF call(3)]) (auto simp: calls_of_def may_call_def store_kept_grown)
next
  case (evidence w xs r ys c provider now)
  then show ?case by (intro budget_keptI [OF evidence(3)]) (auto simp: calls_of_def may_call_def store_kept_grown)
next
  case (settle w xs r ys c now answer)
  then show ?case by (intro budget_keptI [OF settle(3)]) (auto simp: calls_of_def may_call_def store_kept_grown)
next
  case (crash w xs p ys)
  then show ?case by (intro budget_keptI [OF crash(2)]) (auto simp: calls_of_def may_call_def store_kept_grown)
next
  case (sweep w stale now limit t reason)
  then show ?case by (intro budget_keptI [OF sweep]) (auto simp: calls_of_def may_call_def store_kept_grown)
next
  case (dead_letters w now limit t reason)
  then show ?case by (intro budget_keptI [OF dead_letters]) (auto simp: calls_of_def may_call_def store_kept_grown)
qed

lemma budget_reachable: "send_reachable env cfg w \<Longrightarrow> budget_inv cfg w"
proof (induction rule: send_reachable.induct)
  case start
  show ?case
    by (simp add: budget_inv_def initial_world_def calls_of_def may_call_def send_inv_empty)
qed (rule budget_step)


section \<open>The attempt marker\<close>

text \<open>A row on which the marker was written under claim \<open>c\<close>: it is not pending, and while
  it is claimed it is claimed under \<open>c\<close> and carries the marker.\<close>

definition held_back :: "send_store \<Rightarrow> string \<Rightarrow> string \<Rightarrow> bool" where
  "held_back s k c \<longleftrightarrow> (\<exists>r. dget (sd_records s) k = Some r \<and> so_status r \<noteq> SO_PENDING \<and>
     (so_status r = SO_CLAIMED \<longrightarrow> so_claim_id r = Some c \<and> so_attempted_at r \<noteq> None))"

definition keeps_back :: "string \<Rightarrow> string \<Rightarrow> send_store \<Rightarrow> send_store \<Rightarrow> bool" where
  "keeps_back k c s s' \<longleftrightarrow> (held_back s k c \<longrightarrow> held_back s' k c)"

lemma keeps_back_refl [simp]: "keeps_back k c s s"
  by (simp add: keeps_back_def)

lemma keeps_back_trans: "keeps_back k c s s1 \<Longrightarrow> keeps_back k c s1 s2 \<Longrightarrow> keeps_back k c s s2"
  by (simp add: keeps_back_def)

lemma keeps_back_put:
  assumes "dget (sd_records s) i = Some r"
    and "so_status r \<noteq> SO_PENDING \<Longrightarrow> (so_status r = SO_CLAIMED \<Longrightarrow> so_attempted_at r \<noteq> None) \<Longrightarrow>
      so_status r' \<noteq> SO_PENDING \<and> (so_status r' = SO_CLAIMED \<longrightarrow> so_status r = SO_CLAIMED \<and>
        so_claim_id r' = so_claim_id r \<and> so_attempted_at r' \<noteq> None)"
  shows "keeps_back k c s (put_send_row r' i s)"
  using assms by (auto simp: keeps_back_def held_back_def)

lemma with_claim_keeps_back:
  assumes "\<And>r. so_status r = SO_CLAIMED \<Longrightarrow> so_status (change r) \<noteq> SO_PENDING \<and>
    (so_status (change r) = SO_CLAIMED \<longrightarrow> so_claim_id (change r) = so_claim_id r \<and>
       (so_attempted_at r \<noteq> None \<longrightarrow> so_attempted_at (change r) \<noteq> None))"
  shows "keeps_back k c s (snd (with_claim s i d change))"
proof (cases "matching_claim s i d")
  case (Some r)
  then have "dget (sd_records s) i = Some r" "so_status r = SO_CLAIMED"
    by (auto simp: matching_claim_def split: option.splits if_splits)
  then show ?thesis using keeps_back_put [of s i r "change r" k c] assms [of r] Some by (simp add: with_claim_def)
qed (simp add: with_claim_def)

lemma settling_keeps_back [simp]:
  "keeps_back k c s (snd (mark_send_sent s i d p t))"
  "keeps_back k c s (snd (dead_letter_send_outbox env s i d err t))"
  "keeps_back k c s (snd (mark_send_attempted s i d t))"
  "keeps_back k c s (snd (record_provider_message_id s i d p t))"
  by (auto simp: claimed_row_ops intro!: with_claim_keeps_back)

text \<open>Only the claim that holds the row can hand it back.\<close>

lemma reschedule_keeps_back:
  assumes "(i, d) \<noteq> (k, c)"
  shows "keeps_back k c s (snd (reschedule_send_outbox env s i d t err))"
proof (cases "matching_claim s i d")
  case (Some r)
  then have "dget (sd_records s) i = Some r" "so_status r = SO_CLAIMED" "so_claim_id r = Some d"
    by (auto simp: matching_claim_def split: option.splits if_splits)
  then show ?thesis
    using assms Some by (auto simp: keeps_back_def held_back_def reschedule_send_outbox_def with_claim_def)
qed (simp add: reschedule_send_outbox_def with_claim_def)

lemma claim_keeps_back:
  assumes "send_inv s"
  shows "keeps_back k c s (snd (claim_due_outbox env cfg s i worker now ex))"
  by (cases rule: claim_due_cases [OF assms, of env cfg i worker now ex]) (auto intro!: keeps_back_put)

lemma with_send_ids_keeps_back:
  assumes "\<And>i d. keeps_back k c s (snd (act i d))"
  shows "keeps_back k c s (snd (with_send_ids env i d s act))"
  using assms by (simp add: with_send_ids_def split: sum.split)

lemma rt_keeps_back [simp]:
  "keeps_back k c s (snd (rt_mark_sent env s i d p t))"
  "keeps_back k c s (snd (rt_mark_send_attempted env s i d t))"
  "keeps_back k c s (snd (rt_record_provider_message_id env s i d p t))"
  "keeps_back k c s (snd (rt_dead_letter env s i d err t))"
  by (simp_all add: rt_mark_sent_def rt_mark_send_attempted_def rt_record_provider_message_id_def rt_dead_letter_def
      with_send_ids_keeps_back)

lemma dead_letter_row_keeps_back:
  assumes "send_inv s"
  shows "keeps_back k c s (snd (dead_letter_row env cfg now reason r s))"
proof -
  obtain res s1 where claim: "claim_due_outbox env cfg s (so_outbox_id r) DEAD_LETTER_WORKER now True = (res, s1)"
    by fastforce
  have s1: "keeps_back k c s s1"
    using claim_keeps_back [OF assms, of k c env cfg "so_outbox_id r" DEAD_LETTER_WORKER now True] claim by simp
  then have "keeps_back k c s (snd (rt_dead_letter env s1 i d reason now))" for i d
    using keeps_back_trans by simp
  then show ?thesis using s1 by (simp add: dead_letter_row_def claim split: sum.split option.split)
qed

lemma dead_letter_rows_keeps_back:
  "send_inv s \<Longrightarrow> keeps_back k c s (snd (dead_letter_rows env cfg now reason rs sw s))"
proof (induction rs arbitrary: sw s)
  case (Cons r rs)
  obtain res s1 where row: "dead_letter_row env cfg now reason r s = (res, s1)" by fastforce
  have "keeps_back k c s s1" "send_inv s1"
    using dead_letter_row_keeps_back [OF Cons.prems, of k c env cfg now reason r] row
      store_keptD [OF dead_letter_row_kept [of s env cfg now reason r] Cons.prems] by simp_all
  then have "keeps_back k c s (snd (dead_letter_rows env cfg now reason rs sw1 s1))" for sw1
    using keeps_back_trans Cons.IH [of s1] by blast
  then show ?case using \<open>keeps_back k c s s1\<close> keeps_back_trans Cons.IH Cons.prems
    by (simp add: row split: sum.split option.split)
qed simp

lemma stale_keeps_back:
  assumes "send_inv s"
  shows "keeps_back k c s (snd (requeue_stale_claimed env s stale now limit t reason))"
  unfolding keeps_back_def
proof
  assume "held_back s k c"
  then obtain r where r: "dget (sd_records s) k = Some r" "so_status r \<noteq> SO_PENDING"
    "so_status r = SO_CLAIMED \<longrightarrow> so_claim_id r = Some c \<and> so_attempted_at r \<noteq> None"
    unfolding held_back_def by blast
  show "held_back (snd (requeue_stale_claimed env s stale now limit t reason)) k c"
  proof (cases "r \<in> set (p_rows (list_send_outbox s (stale_send_query stale limit t)))")
    case True
    then have "so_status r = SO_CLAIMED" using stale_rows [OF assms True] by blast
    then show ?thesis
      using r True sweep_store(1) [OF assms, of env stale now limit t reason k]
      by (auto simp: held_back_def stale_verdict_def)
  next
    case False
    then show ?thesis
      using r sweep_store(1) [OF assms, of env stale now limit t reason k] by (simp add: held_back_def)
  qed
qed


text \<open>What \<open>uuid.UUID\<close> is documented to do: identities \<open>uuid5\<close> makes, and texts it
  returned, are canonical, and parsing a canonical text returns it.\<close>

definition uuid_canonical :: "py_env \<Rightarrow> bool" where
  "uuid_canonical env \<longleftrightarrow> (\<forall>ns t. uuid_parse env (uuid5 env ns t) = Some (uuid5 env ns t)) \<and>
     (\<forall>i u. uuid_parse env i = Some u \<longrightarrow> uuid_parse env u = Some u)"

lemma required_uuid_canonical [simp]: "uuid_parse env u = Some u \<Longrightarrow> required_uuid env name u = Inr u"
  by (simp add: required_uuid_def)

definition evidence_inv :: "py_env \<Rightarrow> send_world \<Rightarrow> bool" where
  "evidence_inv env w \<longleftrightarrow> send_inv (wd_store w) \<and>
     (\<forall>p\<in>set (wd_workers w). uuid_parse env (so_outbox_id (snd p)) = Some (so_outbox_id (snd p)) \<and>
        (\<exists>c. so_claim_id (snd p) = Some c \<and> uuid_parse env c = Some c)) \<and>
     (\<forall>k c. (k, c) \<in> wd_marked w - wd_given_up w \<longrightarrow> held_back (wd_store w) k c)"

lemma evidence_keptI:
  assumes "evidence_inv env w" "send_inv (wd_store w')"
    and "snd ` set (wd_workers w') \<subseteq> snd ` set (wd_workers w)"
    and "wd_marked w' = wd_marked w" "wd_given_up w \<subseteq> wd_given_up w'"
    and "\<And>k c. (k, c) \<notin> wd_given_up w' \<Longrightarrow> keeps_back k c (wd_store w) (wd_store w')"
  shows "evidence_inv env w'"
proof -
  have "held_back (wd_store w') k c" if "(k, c) \<in> wd_marked w' - wd_given_up w'" for k c
    using assms(1,4,5) assms(6) [of k c] that unfolding evidence_inv_def keeps_back_def by blast
  moreover have "uuid_parse env (so_outbox_id (snd p)) = Some (so_outbox_id (snd p)) \<and>
        (\<exists>c. so_claim_id (snd p) = Some c \<and> uuid_parse env c = Some c)" if p: "p \<in> set (wd_workers w')" for p
  proof -
    obtain q where "q \<in> set (wd_workers w)" "snd p = snd q" using assms(3) p by fastforce
    then show ?thesis using assms(1) unfolding evidence_inv_def by simp
  qed
  ultimately show ?thesis using assms(2) by (simp add: evidence_inv_def)
qed

lemma reschedule_rt:
  assumes "uuid_parse env c = Some c"
  shows "snd (rt_reschedule env cfg s r c err now after) =
    snd (reschedule_send_outbox env s (so_outbox_id r) c
      (now + seconds (case after of Some n \<Rightarrow> if 0 < n then n else retry_delay_seconds cfg (so_attempt_count r)
                      | None \<Rightarrow> retry_delay_seconds cfg (so_attempt_count r))) err)"
  by (simp add: rt_reschedule_def Let_def assms)

lemma retry_keeps_back:
  assumes "uuid_parse env c = Some c" "(so_outbox_id r, c) \<noteq> (k, d)"
  shows "keeps_back k d s (snd (reschedule_or_dead_letter env cfg s r c err now))"
  using reschedule_keeps_back [OF assms(2)]
  by (simp add: reschedule_or_dead_letter_def reschedule_rt [OF assms(1)])

text \<open>A delivery is settled by recording the provider's message and marking the row sent;
  any other answer goes to the retry path.\<close>

lemma finish_delivered:
  assumes "uuid_parse env c = Some c" "uuid_parse env (so_outbox_id r) = Some (so_outbox_id r)"
  shows "\<exists>provider. snd (finish_send env cfg s r c now (Inr (DELIVERED p))) =
    snd (mark_send_sent (snd (record_provider_message_id s (so_outbox_id r) c provider now)) (so_outbox_id r) c provider now)"
proof -
  define provider where "provider = (case p of Some p \<Rightarrow> if p = [] then ''already-sent'' else p | None \<Rightarrow> ''already-sent'')"
  obtain res s' where sent: "mark_send_sent (snd (record_provider_message_id s (so_outbox_id r) c provider now))
      (so_outbox_id r) c provider now = (res, s')" by fastforce
  have "snd (settle_send env cfg s r c now (DELIVERED p)) = s' \<and> (\<exists>v. fst (settle_send env cfg s r c now (DELIVERED p)) = Inr v)"
    using assms sent
    by (cases res)
      (simp_all add: settle_send_def rt_record_provider_message_id_def rt_mark_sent_def with_send_ids_def Let_def
        flip: provider_def)
  then have "snd (finish_send env cfg s r c now (Inr (DELIVERED p))) = s'"
    by (cases "settle_send env cfg s r c now (DELIVERED p)") (auto simp: finish_send_def)
  then show ?thesis using sent by (metis snd_conv)
qed

lemma finish_keeps_back:
  assumes "uuid_parse env c = Some c" "uuid_parse env (so_outbox_id r) = Some (so_outbox_id r)"
    and "answer \<in> range (Inr \<circ> DELIVERED) \<or> (so_outbox_id r, c) \<noteq> (k, d)"
  shows "keeps_back k d s (snd (finish_send env cfg s r c now answer))"
proof (cases answer)
  case (Inl exc)
  then have "snd (finish_send env cfg s r c now answer) =
      snd (reschedule_or_dead_letter env cfg s r c (bounded_error exc) now)"
    by (simp add: finish_send_def Let_def split: prod.split sum.split)
  then show ?thesis using retry_keeps_back [OF assms(1)] assms(3) Inl by auto
next
  case (Inr outcome)
  show ?thesis
  proof (cases outcome)
    case (DELIVERED p)
    then obtain provider where "snd (finish_send env cfg s r c now answer) =
        snd (mark_send_sent (snd (record_provider_message_id s (so_outbox_id r) c provider now)) (so_outbox_id r) c provider now)"
      using finish_delivered [OF assms(1,2)] Inr by blast
    then show ?thesis using keeps_back_trans [OF settling_keeps_back(4) settling_keeps_back(1)] by simp
  next
    case DELIVERY_PENDING
    have ne: "(so_outbox_id r, c) \<noteq> (k, d)" using assms(3) Inr DELIVERY_PENDING by auto
    obtain res s1 where retry: "reschedule_or_dead_letter env cfg s r c ''outbound delivery already pending'' now = (res, s1)"
      by fastforce
    then have s1: "keeps_back k d s s1"
      using retry_keeps_back [OF assms(1) ne, of s cfg "''outbound delivery already pending''" now] by simp
    then have "keeps_back k d s (snd (reschedule_or_dead_letter env cfg s1 r c err now))" for err
      using keeps_back_trans retry_keeps_back [OF assms(1) ne] by blast
    then show ?thesis using s1
      by (cases res) (simp_all add: finish_send_def settle_send_def Inr DELIVERY_PENDING retry Let_def split: prod.split sum.split)
  qed
qed


lemma evidence_workers:
  assumes "evidence_inv env w" "(ph, r) \<in> set (wd_workers w)" "so_claim_id r = Some c"
  shows "uuid_parse env c = Some c" "uuid_parse env (so_outbox_id r) = Some (so_outbox_id r)"
  using assms unfolding evidence_inv_def by auto

lemma marked_held_back:
  assumes "uuid_parse env c = Some c" "uuid_parse env k = Some k"
    and "rt_mark_send_attempted env s k c now = (Inr (Some r), s')"
  shows "held_back s' k c"
proof -
  have "mark_send_attempted s k c now = (Some r, s')"
    using assms by (auto simp: rt_mark_send_attempted_def with_send_ids_def split: prod.splits)
  then show ?thesis
    by (auto simp: mark_send_attempted_def with_claim_def matching_claim_def held_back_def
        split: option.splits if_splits)
qed

lemma evidence_step:
  assumes "send_trans env cfg w w'" "evidence_inv env w" "uuid_canonical env"
  shows "evidence_inv env w'"
  using assms
proof (induction rule: send_trans.induct)
  case (create w r)
  have inv: "send_inv (wd_store w)" using create(2) by (simp add: evidence_inv_def)
  have "keeps_back k c (wd_store w) (snd (create_send_outbox (wd_store w) r))" for k c
    using create(1)
    by (auto simp: keeps_back_def held_back_def create_send_outbox_def fresh_intent_def split: option.split)
  then show ?case
    using store_grownD [OF create_kept [OF create(1)] inv] by (intro evidence_keptI [OF create(2)]) auto
next
  case (claim w i worker now answer s r)
  have inv: "send_inv (wd_store w)" using claim(4) by (simp add: evidence_inv_def)
  have kept: "keeps_back k c (wd_store w) s" for k c
    using claim_keeps_back [OF inv, of k c env cfg i worker now False] claim(1) by simp
  have inv': "send_inv s"
    using store_keptD [OF claim_due_kept [of "wd_store w" env cfg i worker now False] inv] claim(1) by simp
  show ?case
  proof (cases rule: claim_due_cases [OF inv, of env cfg i worker now False])
    case 1
    then show ?thesis using claim(1,2) by simp
  next
    case (2 k q c)
    have k: "uuid_parse env k = Some k"
      using 2(6) claim(5) by (auto simp: required_uuid_def uuid_canonical_def split: option.splits)
    have c: "uuid_parse env c = Some c"
      using 2(7) claim(5)
      by (auto simp: derive_send_claim_id_def uuid_canonical_def split: if_splits sum.splits)
    have r: "r = claimed_row q c worker now" using 2(5) claim(1,3) by simp
    have "held_back s k' c'" if "(k', c') \<in> wd_marked w - wd_given_up w" for k' c'
      using claim(4) kept that unfolding evidence_inv_def keeps_back_def by blast
    then show ?thesis using claim(4) inv' k c 2(2) by (simp add: evidence_inv_def r)
  qed
next
  case (mark w xs r ys c now answer s)
  have inv: "send_inv (wd_store w)" using mark(4) by (simp add: evidence_inv_def)
  have ids: "uuid_parse env c = Some c" "uuid_parse env (so_outbox_id r) = Some (so_outbox_id r)"
    using evidence_workers [OF mark(4) _ mark(2), of HELD] mark(1) by simp_all
  have kept: "keeps_back k d (wd_store w) s" for k d
    using rt_keeps_back(2) [of k d "wd_store w" env "so_outbox_id r" c now] mark(3) by simp
  have inv': "send_inv s"
    using store_keptD [OF rt_ops_kept(2) [of "wd_store w" env "so_outbox_id r" c now] inv] mark(3) by simp
  let ?w = "w\<lparr>wd_store := s, wd_workers := xs @ (READY, r) # ys\<rparr>"
  have w: "evidence_inv env ?w"
    using inv' kept mark(1) by (intro evidence_keptI [OF mark(4)]) auto
  have "held_back s (so_outbox_id r) c" if "answer \<notin> {Inr None} \<union> range Inl"
  proof -
    from that obtain q where "answer = Inr (Some q)"
      by (metis UnI1 UnI2 insertI1 not_None_eq rangeI sum.exhaust)
    then show ?thesis using marked_held_back [OF ids] mark(3) by simp
  qed
  then show ?case using w by (auto simp: evidence_inv_def)
next
  case (call w xs r ys c)
  have "send_inv (wd_store w)" using call(3) by (simp add: evidence_inv_def)
  then show ?case using call(1) by (intro evidence_keptI [OF call(3)]) auto
next
  case (evidence w xs r ys c provider now)
  have inv: "send_inv (wd_store w)" using evidence(3) by (simp add: evidence_inv_def)
  show ?case
    using store_keptD [OF rt_ops_kept(3) [of "wd_store w" env "so_outbox_id r" c provider now] inv]
    by (intro evidence_keptI [OF evidence(3)]) auto
next
  case (settle w xs r ys c answer now)
  have inv: "send_inv (wd_store w)" using settle(3) by (simp add: evidence_inv_def)
  have ids: "uuid_parse env c = Some c" "uuid_parse env (so_outbox_id r) = Some (so_outbox_id r)"
    using evidence_workers [OF settle(3) _ settle(2), of CALLED] settle(1) by simp_all
  have "keeps_back k d (wd_store w) (snd (finish_send env cfg (wd_store w) r c now answer))"
    if "answer \<in> range (Inr \<circ> DELIVERED) \<or> (so_outbox_id r, c) \<noteq> (k, d)" for k d
    using finish_keeps_back [OF ids that] .
  then show ?case
    using store_keptD [OF finish_kept [of "wd_store w" env cfg r c now answer] inv] settle(1)
    by (intro evidence_keptI [OF settle(3)]) (auto split: if_splits)
next
  case (crash w xs p ys)
  have "send_inv (wd_store w)" using crash(2) by (simp add: evidence_inv_def)
  then show ?case using crash(1) by (intro evidence_keptI [OF crash(2)]) auto
next
  case (sweep w stale now limit t reason)
  have inv: "send_inv (wd_store w)" using sweep(1) by (simp add: evidence_inv_def)
  show ?case
    using stale_keeps_back [OF inv] store_keptD [OF sweep_kept inv] by (intro evidence_keptI [OF sweep(1)]) auto
next
  case (dead_letters w now limit t reason)
  have inv: "send_inv (wd_store w)" using dead_letters(1) by (simp add: evidence_inv_def)
  have "keeps_back k c (wd_store w) (snd (dead_letter_exhausted_pending env cfg (wd_store w) now limit t reason))" for k c
    by (simp add: dead_letter_exhausted_pending_def Let_def dead_letter_rows_keeps_back [OF inv])
  then show ?case
    using store_keptD [OF dead_letters_kept inv] by (intro evidence_keptI [OF dead_letters(1)]) auto
qed


lemma evidence_reachable: "send_reachable env cfg w \<Longrightarrow> uuid_canonical env \<Longrightarrow> evidence_inv env w"
proof (induction rule: send_reachable.induct)
  case start
  show ?case by (simp add: evidence_inv_def initial_world_def send_inv_empty)
qed (blast intro: evidence_step)

section \<open>The tasks are sequences of steps\<close>

lemma send_reachable_inv: "send_reachable env cfg w \<Longrightarrow> send_inv (wd_store w)"
  using budget_reachable budget_invD(1) by blast

text \<open>A run of the worker's task from a reachable world, with any provider, is a sequence of
  steps, and it calls the provider at most once.\<close>

lemma process_steps:
  assumes "send_reachable env cfg w" "process_send_outbox env cfg exec now worker i (wd_store w) x = (report, s, x')"
  shows "\<exists>w'. send_reachable env cfg w' \<and> wd_store w' = s \<and>
    (wd_calls w' = wd_calls w \<and> x' = x \<or> (\<exists>k c. wd_calls w' = (k, c) # wd_calls w))"
proof (cases rule: claim_due_cases [OF send_reachable_inv [OF assms(1)], of env cfg i worker now False])
  case 1
  then have "s = wd_store w \<and> x' = x"
    using assms(2)
    by (cases "claim_due_outbox env cfg (wd_store w) i worker now False"; cases "fst (claim_due_outbox env cfg (wd_store w) i worker now False)")
      (auto simp: process_send_outbox_def)
  then show ?thesis using assms(1) by blast
next
  case (2 k q c)
  let ?r = "claimed_row q c worker now"
  let ?s1 = "put_send_row ?r k (wd_store w)"
  obtain answer s2 where mark: "rt_mark_send_attempted env ?s1 (so_outbox_id ?r) c now = (answer, s2)" by fastforce
  obtain res x1 where call: "exec x ?r = (res, x1)" by fastforce
  let ?w1 = "w\<lparr>wd_store := ?s1, wd_workers := (HELD, ?r) # wd_workers w\<rparr>"
  let ?w2 = "?w1\<lparr>wd_store := s2, wd_workers := [] @ (READY, ?r) # wd_workers w,
      wd_marked := (if answer \<in> {Inr None} \<union> range Inl then wd_marked ?w1
                    else insert (so_outbox_id ?r, c) (wd_marked ?w1))\<rparr>"
  let ?w3 = "?w2\<lparr>wd_workers := [] @ (CALLED, ?r) # wd_workers w, wd_calls := (so_outbox_id ?r, c) # wd_calls ?w2\<rparr>"
  let ?w4 = "?w3\<lparr>wd_store := snd (finish_send env cfg (wd_store ?w3) ?r c now res), wd_workers := [] @ wd_workers w,
      wd_given_up := (if res \<in> range (Inr \<circ> DELIVERED) then wd_given_up ?w3
                      else insert (so_outbox_id ?r, c) (wd_given_up ?w3))\<rparr>"
  have "send_trans env cfg w ?w1"
    by (rule send_trans.claim [OF 2(5)]) simp_all
  moreover have "send_trans env cfg ?w1 ?w2"
    by (rule send_trans.mark [where now = now]) (use mark in simp_all)
  moreover have "send_trans env cfg ?w2 ?w3" by (rule send_trans.call) simp_all
  moreover have "send_trans env cfg ?w3 ?w4" by (rule send_trans.settle) simp_all
  ultimately have "send_reachable env cfg ?w4"
    using assms(1) send_reachable.step by blast
  moreover have "s = snd (finish_send env cfg s2 ?r c now res)"
    using assms(2) 2(5) mark call
    by (cases "finish_send env cfg s2 ?r c now res") (simp add: process_send_outbox_def)
  ultimately show ?thesis by (intro exI [of _ ?w4]) simp
qed

lemma reconcile_steps:
  assumes "send_reachable env cfg w"
  shows "\<exists>w'. send_reachable env cfg w' \<and> wd_calls w' = wd_calls w \<and>
    wd_store w' = snd (reconcile_send_outbox env cfg per_tenant (wd_store w) stale now limit t)"
proof -
  let ?w1 = "w\<lparr>wd_store := snd (requeue_stale_claimed env (wd_store w) stale now limit t ''outbound send claim expired'')\<rparr>"
  let ?w2 = "?w1\<lparr>wd_store := snd (dead_letter_exhausted_pending env cfg (wd_store ?w1) now limit t
      ''outbound send retry budget exhausted'')\<rparr>"
  have "send_trans env cfg w ?w1" "send_trans env cfg ?w1 ?w2" by (rule send_trans.sweep send_trans.dead_letters)+
  then have "send_reachable env cfg ?w2" using assms send_reachable.step by blast
  moreover have "snd (reconcile_send_outbox env cfg per_tenant (wd_store w) stale now limit t) = wd_store ?w2"
    by (simp add: reconcile_send_outbox_def split: prod.split sum.split)
  ultimately show ?thesis by (intro exI [of _ ?w2]) simp
qed

end
