(* ===== verification/Outbound_Promises.thy ===== *)
theory Outbound_Promises
  imports Outbound_World
begin

text \<open>
  The promises of the send outbox, over every world workers and reconciler can reach,
  and a worked example: one row, a slow worker and a fast one.
\<close>

section \<open>Sharing between tenants\<close>

definition due_rows :: "send_store \<Rightarrow> int \<Rightarrow> send_row list" where
  "due_rows s now = sort_key due_key (filter (\<lambda>r. so_status r = SO_PENDING \<and> send_due now r) (dvals (sd_records s)))"

definition of_tenant :: "string \<Rightarrow> send_row list \<Rightarrow> send_row list" where
  "of_tenant t rs = filter (\<lambda>r. so_tenant_id r = t) rs"

definition tenant_count :: "(string, int) dict \<Rightarrow> string \<Rightarrow> int" where
  "tenant_count counts t = (case dget counts t of Some k \<Rightarrow> k | None \<Rightarrow> 0)"

lemma tenant_count_dset: "tenant_count (dset u n counts) t = (if t = u then n else tenant_count counts t)"
  by (simp add: tenant_count_def)

lemma fair_select_step:
  "fair_select n counts (r # rs) =
     (if n \<le> tenant_count counts (so_tenant_id r) then fair_select n counts rs
      else r # fair_select n (dset (so_tenant_id r) (tenant_count counts (so_tenant_id r) + 1) counts) rs)"
  by (simp add: tenant_count_def Let_def)

lemma fair_select_tenant:
  "of_tenant t (fair_select n counts rs) = take (nat (n - tenant_count counts t)) (of_tenant t rs)"
proof (induction rs arbitrary: counts)
  case (Cons r rs)
  show ?case
  proof (cases "n \<le> tenant_count counts (so_tenant_id r)")
    case True
    then show ?thesis using Cons [of counts]
      by (cases "so_tenant_id r = t") (simp_all add: fair_select_step of_tenant_def del: fair_select.simps)
  next
    case False
    then have "nat (n - tenant_count counts (so_tenant_id r)) = Suc (nat (n - (tenant_count counts (so_tenant_id r) + 1)))"
      by simp
    then show ?thesis
      using Cons False
      by (cases "so_tenant_id r = t")
        (simp_all add: fair_select_step of_tenant_def tenant_count_dset del: fair_select.simps)
  qed
qed (simp add: of_tenant_def)

lemma fair_select_subset: "set (fair_select n counts rs) \<subseteq> set rs"
  by (induction rs arbitrary: counts) (auto simp: fair_select_step simp del: fair_select.simps(2))

lemma fair_select_sorted: "sorted (map due_key rs) \<Longrightarrow> sorted (map due_key (fair_select n counts rs))"
proof (induction rs arbitrary: counts)
  case (Cons r rs)
  then show ?case
    using fair_select_subset by (fastforce simp: fair_select_step simp del: fair_select.simps(2))
qed simp

lemma due_pending_fair:
  "list_due_pending_fair s now n limit = take (nat limit) (fair_select n [] (due_rows s now))" if "0 \<le> limit"
proof -
  have "sort_key due_key (fair_select n [] (due_rows s now)) = fair_select n [] (due_rows s now)"
    by (rule sort_key_id_if_sorted) (simp add: fair_select_sorted due_rows_def)
  then show ?thesis
    using that py_slice_nonneg [of 0 limit "fair_select n [] (due_rows s now)"]
    by (simp add: list_due_pending_fair_def Let_def flip: due_rows_def)
qed

lemma of_tenant_take: "\<exists>m. of_tenant t (take n rs) = take m (of_tenant t rs)"
proof -
  have "of_tenant t rs = of_tenant t (take n rs) @ of_tenant t (drop n rs)"
    by (simp add: of_tenant_def flip: filter_append)
  then show ?thesis by (metis append_eq_conv_conj)
qed

section \<open>Worked example\<close>

definition demo_send_row :: send_row where
  "demo_send_row = \<lparr>so_outbox_id = ''o1'', so_tenant_id = ''t1'', so_channel = ''email'',
     so_action = ''customer_reply.send'', so_draft_id = ''d1'', so_proposal_id = ''p1'', so_session_id = ''s1'',
     so_dispatch_id = ''x1'', so_decision_id = ''g1'', so_recipient = ''c@x'', so_body_sha256 = [],
     so_status = SO_PENDING, so_created_at = 0, so_updated_at = 0, so_next_attempt_at = None,
     so_claimed_at = None, so_sent_at = None, so_attempted_at = None, so_claim_id = None, so_worker_id = None,
     so_attempt_count = 0, so_provider_id = None, so_last_error = None, so_metadata = []\<rparr>"

definition slow_claim :: string where
  "slow_claim = uuid5 demo_env SEND_CLAIM_NAMESPACE (send_claim_seed ''o1'' ''slow'' 1)"

definition fast_claim :: string where
  "fast_claim = uuid5 demo_env SEND_CLAIM_NAMESPACE (send_claim_seed ''o1'' ''fast'' 2)"

lemma demo_claims_differ: "slow_claim \<noteq> fast_claim"
  by (simp add: slow_claim_def fast_claim_def send_claim_seed_def)

definition slow_row :: send_row where
  "slow_row = claimed_row demo_send_row slow_claim ''slow'' 0"

definition requeued_row :: send_row where
  "requeued_row = stale_verdict demo_env 10 ''expired'' slow_row"

definition fast_row :: send_row where
  "fast_row = claimed_row requeued_row fast_claim ''fast'' 20"

definition row_store :: "send_row \<Rightarrow> send_store" where
  "row_store r = \<lparr>sd_records = [(''o1'', r)], sd_by_unique = [(send_unique_key demo_send_row, ''o1'')]\<rparr>"

definition marked_row :: send_row where
  "marked_row = fast_row\<lparr>so_attempted_at := Some 21, so_updated_at := 21\<rparr>"

definition raced_world :: send_world where
  "raced_world = \<lparr>wd_store = row_store marked_row, wd_workers = [(CALLED, fast_row), (CALLED, slow_row)],
     wd_calls = [(''o1'', slow_claim), (''o1'', fast_claim)], wd_marked = {(''o1'', fast_claim)}, wd_given_up = {}\<rparr>"

lemma demo_intent_created: "snd (create_send_outbox empty_send_store demo_send_row) = row_store demo_send_row"
  by (simp add: create_send_outbox_def empty_send_store_def row_store_def demo_send_row_def)

lemma demo_claim:
  assumes "so_status r = SO_PENDING" "so_outbox_id r = ''o1''" "send_due now r"
    and "\<not> should_dead_letter default_send_config r now" "0 \<le> so_attempt_count r" "worker \<noteq> []" "py_strip worker = worker"
    and "c = uuid5 demo_env SEND_CLAIM_NAMESPACE (send_claim_seed ''o1'' worker (so_attempt_count r + 1))"
  shows "claim_due_outbox demo_env default_send_config (row_store r) ''o1'' worker now False =
     (Inr \<lparr>sl_claimed = True, sl_outbox = Some (claimed_row r c worker now), sl_reason = None\<rparr>,
      row_store (claimed_row r c worker now))"
proof -
  have "uuid_parse demo_env i = Some i" for i by (simp add: demo_env_def)
  moreover have "get_send_outbox (row_store r) ''o1'' = Some r" "dget (sd_records (row_store r)) ''o1'' = Some r"
    "put_send_row q ''o1'' (row_store r) = row_store q" for q
    by (simp_all add: row_store_def get_send_outbox_def put_send_row_def)
  ultimately show ?thesis
    using assms
    by (simp add: claim_due_outbox_def derive_send_claim_id_def required_text_def claim_send_outbox_def claimed_row_def
          Let_def)
qed


lemma demo_canonical: "uuid_canonical demo_env"
  by (simp add: uuid_canonical_def demo_env_def)

lemma demo_slow: "claim_due_outbox demo_env default_send_config (row_store demo_send_row) ''o1'' ''slow'' 0 False =
    (Inr \<lparr>sl_claimed = True, sl_outbox = Some slow_row, sl_reason = None\<rparr>, row_store slow_row)"
  unfolding slow_row_def
  by (rule demo_claim)
    (simp_all add: demo_send_row_def send_due_def should_dead_letter_def default_send_config_def seconds_def
      slow_claim_def py_strip_def py_space_def)

lemma demo_expired: "snd (requeue_stale_claimed demo_env (row_store slow_row) 10 10 100 None ''expired'') = row_store requeued_row"
proof -
  have rows: "p_rows (list_send_outbox (row_store slow_row) (stale_send_query 10 100 None)) = [slow_row]"
    by (simp add: list_send_outbox_def send_rows_def row_store_def send_matches_def stale_send_query_def
        default_send_query_def claimed_by_def slow_row_def claimed_row_def py_slice_def slice_bound_def)
  have "snd (sweep_stale_row demo_env 10 10 ''expired'' slow_row (sw, row_store slow_row)) =
      put_send_row requeued_row (so_outbox_id slow_row) (row_store slow_row)" for sw
    unfolding requeued_row_def
    by (rule sweep_stale_row_store(1))
      (simp_all add: row_store_def slow_row_def claimed_row_def demo_send_row_def claimed_by_def)
  then show ?thesis
    using rows by (simp add: requeue_stale_claimed_def Let_def)
      (simp add: put_send_row_def row_store_def slow_row_def demo_send_row_def)
qed

lemma requeued_simps:
  "so_status requeued_row = SO_PENDING" "so_outbox_id requeued_row = ''o1''" "so_attempt_count requeued_row = 1"
  "so_next_attempt_at requeued_row = None" "so_created_at requeued_row = 0" "so_attempted_at requeued_row = None"
  by (simp_all add: requeued_row_def stale_verdict_def slow_row_def claimed_row_def demo_send_row_def)

lemma demo_fast: "claim_due_outbox demo_env default_send_config (row_store requeued_row) ''o1'' ''fast'' 20 False =
    (Inr \<lparr>sl_claimed = True, sl_outbox = Some fast_row, sl_reason = None\<rparr>, row_store fast_row)"
  unfolding fast_row_def
  by (rule demo_claim)
    (simp_all add: requeued_simps send_due_def should_dead_letter_def default_send_config_def seconds_def
      fast_claim_def py_strip_def py_space_def)

lemma fast_simps:
  "so_status fast_row = SO_CLAIMED" "so_outbox_id fast_row = ''o1''" "so_claim_id fast_row = Some fast_claim"
  "so_status slow_row = SO_CLAIMED" "so_outbox_id slow_row = ''o1''" "so_claim_id slow_row = Some slow_claim"
  by (simp_all add: fast_row_def requeued_simps slow_row_def) (simp add: demo_send_row_def)

lemma demo_mark:
  "rt_mark_send_attempted demo_env (row_store fast_row) ''o1'' fast_claim 21 = (Inr (Some marked_row), row_store marked_row)"
  "rt_mark_send_attempted demo_env (row_store marked_row) ''o1'' slow_claim 30 = (Inr None, row_store marked_row)"
proof -
  have ids: "uuid_parse demo_env i = Some i" for i by (simp add: demo_env_def)
  show "rt_mark_send_attempted demo_env (row_store fast_row) ''o1'' fast_claim 21 = (Inr (Some marked_row), row_store marked_row)"
    by (simp add: rt_mark_send_attempted_def with_send_ids_def ids mark_send_attempted_def with_claim_def
        matching_claim_def row_store_def fast_simps marked_row_def put_send_row_def)
  show "rt_mark_send_attempted demo_env (row_store marked_row) ''o1'' slow_claim 30 = (Inr None, row_store marked_row)"
    using demo_claims_differ
    by (simp add: rt_mark_send_attempted_def with_send_ids_def ids mark_send_attempted_def with_claim_def
        matching_claim_def row_store_def fast_simps marked_row_def)
qed

text \<open>The slow worker claims the row and stalls; its claim expires, the fast worker takes the
  row and calls the provider; then the slow worker wakes up, fails to write its marker, and
  calls the provider as well.\<close>

lemma raced_reachable: "send_reachable demo_env default_send_config raced_world"
proof -
  let ?t = "send_trans demo_env default_send_config"
  let ?w1 = "initial_world\<lparr>wd_store := row_store demo_send_row\<rparr>"
  let ?w2 = "?w1\<lparr>wd_store := row_store slow_row, wd_workers := (HELD, slow_row) # wd_workers ?w1\<rparr>"
  let ?w3 = "?w2\<lparr>wd_store := row_store requeued_row\<rparr>"
  let ?w4 = "?w3\<lparr>wd_store := row_store fast_row, wd_workers := (HELD, fast_row) # wd_workers ?w3\<rparr>"
  let ?w5 = "?w4\<lparr>wd_store := row_store marked_row, wd_workers := [] @ (READY, fast_row) # [(HELD, slow_row)],
      wd_marked := insert (''o1'', fast_claim) (wd_marked ?w4)\<rparr>"
  let ?w6 = "?w5\<lparr>wd_workers := [] @ (CALLED, fast_row) # [(HELD, slow_row)], wd_calls := (''o1'', fast_claim) # wd_calls ?w5\<rparr>"
  let ?w7 = "?w6\<lparr>wd_store := row_store marked_row, wd_workers := [(CALLED, fast_row)] @ (READY, slow_row) # [],
      wd_marked := wd_marked ?w6\<rparr>"
  let ?w8 = "?w7\<lparr>wd_workers := [(CALLED, fast_row)] @ (CALLED, slow_row) # [], wd_calls := (''o1'', slow_claim) # wd_calls ?w7\<rparr>"
  have t1: "?t initial_world ?w1"
    using send_trans.create [of initial_world demo_send_row demo_env default_send_config] demo_intent_created
    by (simp add: initial_world_def fresh_intent_def demo_send_row_def empty_send_store_def)
  have t2: "?t ?w1 ?w2"
    by (rule send_trans.claim [where k = "''o1''" and worker = "''slow''" and now = 0
        and answer = "\<lparr>sl_claimed = True, sl_outbox = Some slow_row, sl_reason = None\<rparr>"]) (simp_all add: demo_slow)
  have t3: "?t ?w2 ?w3"
    using send_trans.sweep [of demo_env default_send_config ?w2 10 10 100 None "''expired''"] by (simp add: demo_expired)
  have t4: "?t ?w3 ?w4"
    by (rule send_trans.claim [where k = "''o1''" and worker = "''fast''" and now = 20
        and answer = "\<lparr>sl_claimed = True, sl_outbox = Some fast_row, sl_reason = None\<rparr>"]) (simp_all add: demo_fast)
  have t5: "?t ?w4 ?w5"
    using send_trans.mark [of ?w4 "[]" fast_row "[(HELD, slow_row)]" fast_claim demo_env 21 "Inr (Some marked_row)"
        "row_store marked_row" default_send_config]
    by (simp add: initial_world_def fast_simps demo_mark image_iff)
  have t6: "?t ?w5 ?w6"
    using send_trans.call [of ?w5 "[]" fast_row "[(HELD, slow_row)]" fast_claim demo_env default_send_config]
    by (simp add: fast_simps)
  have t7: "?t ?w6 ?w7"
    using send_trans.mark [of ?w6 "[(CALLED, fast_row)]" slow_row "[]" slow_claim demo_env 30 "Inr None"
        "row_store marked_row" default_send_config]
    by (simp add: fast_simps demo_mark)
  have t8: "?t ?w7 ?w8"
    using send_trans.call [of ?w7 "[(CALLED, fast_row)]" slow_row "[]" slow_claim demo_env default_send_config]
    by (simp add: fast_simps)
  note step = send_reachable.step
  have "send_reachable demo_env default_send_config ?w4"
    by (rule step [OF step [OF step [OF step [OF send_reachable.start t1] t2] t3] t4])
  then have "send_reachable demo_env default_send_config ?w8"
    by (rule step [OF step [OF step [OF step [OF _ t5] t6] t7] t8])
  moreover have "?w8 = raced_world" by (simp add: raced_world_def initial_world_def)
  ultimately show ?thesis by simp
qed

section \<open>Promises\<close>

lemma default_config: "make_send_runtime 5 3600 30 = Inr default_send_config"
  by (simp add: make_send_runtime_def default_send_config_def)

lemma retry_delay_bounds:
  assumes "make_send_runtime a b c = Inr cfg"
  shows "1 \<le> retry_delay_seconds cfg n" "retry_delay_seconds cfg n \<le> 3600"
    "n \<le> m \<Longrightarrow> retry_delay_seconds cfg n \<le> retry_delay_seconds cfg m"
proof -
  have base: "1 \<le> sc_retry_base_seconds cfg" using assms by (auto simp: make_send_runtime_def split: if_splits)
  have pow: "(1::int) \<le> 2 ^ k" for k :: nat by simp
  have "1 \<le> sc_retry_base_seconds cfg * 2 ^ nat (max (n - 1) 0)"
    using mult_mono [of 1 "sc_retry_base_seconds cfg" 1] base pow by simp
  then show "1 \<le> retry_delay_seconds cfg n" by (simp add: retry_delay_seconds_def MAX_RETRY_DELAY_SECONDS_def)
  show "retry_delay_seconds cfg n \<le> 3600" by (simp add: retry_delay_seconds_def MAX_RETRY_DELAY_SECONDS_def)
  assume "n \<le> m"
  then have "(2::int) ^ nat (max (n - 1) 0) \<le> 2 ^ nat (max (m - 1) 0)" by (intro power_increasing) auto
  then have "sc_retry_base_seconds cfg * 2 ^ nat (max (n - 1) 0) \<le> sc_retry_base_seconds cfg * 2 ^ nat (max (m - 1) 0)"
    using base by simp
  then show "retry_delay_seconds cfg n \<le> retry_delay_seconds cfg m" by (simp add: retry_delay_seconds_def)
qed

text \<open>(C32) The send outbox bounds how often a provider is called.  Over every interleaving of
  workers, crashes, expired claims and reconciler sweeps, one row leads to at most
  \<open>max_attempts\<close> calls, each of them counted on the row, and a failed attempt waits at least
  one second, at most an hour, and never less than the attempt before it.\<close>

theorem send_budget:
  assumes "make_send_runtime max_attempts max_age base = Inr cfg"
    and "send_reachable env cfg w"
  shows "int (calls_of w k) \<le> max_attempts \<and>
    (0 < calls_of w k \<longrightarrow> (\<exists>r. dget (sd_records (wd_store w)) k = Some r \<and> int (calls_of w k) \<le> so_attempt_count r)) \<and>
    1 \<le> retry_delay_seconds cfg n \<and> retry_delay_seconds cfg n \<le> 3600 \<and>
    retry_delay_seconds cfg n \<le> retry_delay_seconds cfg (n + 1)"
proof -
  have cfg: "sc_max_attempts cfg = max_attempts" "1 \<le> max_attempts"
    using assms(1) by (auto simp: make_send_runtime_def split: if_splits)
  have inv: "budget_inv cfg w" by (rule budget_reachable [OF assms(2)])
  have "int (calls_of w k) \<le> max_attempts" using budget_invD(2) [OF inv, of k] cfg by simp
  moreover have "\<exists>r. dget (sd_records (wd_store w)) k = Some r \<and> int (calls_of w k) \<le> so_attempt_count r"
    if "0 < calls_of w k" using budget_invD(3) [OF inv, of k] that by force
  ultimately show ?thesis using retry_delay_bounds [OF assms(1)] by simp
qed

lemma raced_simps:
  "calls_of raced_world ''o1'' = 2" "wd_store raced_world = row_store marked_row"
  "dget (sd_records (row_store q)) ''o1'' = Some q"
  "(''o1'', fast_claim) \<in> wd_marked raced_world - wd_given_up raced_world"
  by (simp_all add: raced_world_def calls_of_def row_store_def)

lemma send_budget_witness:
  "make_send_runtime 5 3600 30 = Inr default_send_config \<and> send_reachable demo_env default_send_config raced_world \<and>
   int (calls_of raced_world ''o1'') = 2 \<and> (2::int) \<le> so_attempt_count marked_row \<and>
   retry_delay_seconds default_send_config 3 \<le> 3600"
  using send_budget [OF default_config raced_reachable, of "''o1''" 3] default_config raced_reachable
  by (simp add: raced_simps)

text \<open>(C33) Evidence of an attempt outlives its worker.  As long as the worker that wrote the
  attempt marker has not itself handed the row to the retry path, the row is not pending, and
  if it is still claimed it is claimed under that worker's claim with the marker on it: no
  claim succeeds on it, so the message is not sent a second time on that evidence.\<close>

theorem send_evidence:
  assumes "uuid_canonical env" "send_reachable env cfg w"
    and "(k, c) \<in> wd_marked w - wd_given_up w"
  shows "(\<exists>r. dget (sd_records (wd_store w)) k = Some r \<and> so_status r \<noteq> SO_PENDING \<and>
      (so_status r = SO_CLAIMED \<longrightarrow> so_claim_id r = Some c \<and> so_attempted_at r \<noteq> None)) \<and>
    (uuid_parse env k = Some k \<longrightarrow>
      snd (claim_due_outbox env cfg (wd_store w) k worker now exhausted) = wd_store w \<and>
      (\<forall>a. fst (claim_due_outbox env cfg (wd_store w) k worker now exhausted) = Inr a \<longrightarrow> \<not> sl_claimed a))"
proof -
  have held: "held_back (wd_store w) k c"
    using evidence_reachable [OF assms(2,1)] assms(3) unfolding evidence_inv_def by blast
  have "snd (claim_due_outbox env cfg (wd_store w) k worker now exhausted) = wd_store w \<and>
      (\<forall>a. fst (claim_due_outbox env cfg (wd_store w) k worker now exhausted) = Inr a \<longrightarrow> \<not> sl_claimed a)"
    if key: "uuid_parse env k = Some k"
  proof (cases rule: claim_due_cases [OF send_reachable_inv [OF assms(2)], of env cfg k worker now exhausted])
    case (2 j q d)
    then have "j = k" using key by (simp add: required_uuid_def split: if_splits)
    then show ?thesis using 2 held by (simp add: held_back_def)
  qed blast
  then show ?thesis using held by (simp add: held_back_def)
qed

lemma send_evidence_witness:
  "so_claim_id marked_row = Some fast_claim \<and> so_attempted_at marked_row \<noteq> None \<and>
   snd (claim_due_outbox demo_env default_send_config (row_store marked_row) ''o1'' ''third'' 99 False) = row_store marked_row"
  using send_evidence [OF demo_canonical raced_reachable raced_simps(4), of "''third''" 99 False]
  by (simp add: raced_simps marked_row_def fast_simps demo_env_def)

lemma sweep_report:
  "sw_scanned (fst (requeue_stale_claimed env s stale now limit t reason)) =
     int (length (p_rows (list_send_outbox s (stale_send_query stale limit t))))"
  "sweep_total (fst (requeue_stale_claimed env s stale now limit t reason)) =
     length (p_rows (list_send_outbox s (stale_send_query stale limit t)))"
  using sweep_counts
  by (simp_all add: requeue_stale_claimed_def Let_def) (simp add: sweep_total_def empty_sweep_def)

lemma stale_verdict_claimed: "so_status (stale_verdict env now reason r) \<noteq> SO_CLAIMED"
  by (simp add: stale_verdict_def)

text \<open>A sweep whose limit covers the stale rows leaves none behind.\<close>

lemma sweep_leaves_none:
  assumes inv: "send_inv s"
    and all: "int (length (send_rows s (stale_send_query stale limit t))) \<le> limit"
    and r: "r \<in> set (dvals (sd_records (snd (requeue_stale_claimed env s stale now limit t reason))))"
      "so_status r = SO_CLAIMED" "claimed_by stale r"
  shows "\<exists>u. t = Some u \<and> so_tenant_id r \<noteq> u"
proof -
  let ?q = "stale_send_query stale limit t"
  have "send_inv (snd (requeue_stale_claimed env s stale now limit t reason))"
    using store_keptD [OF sweep_kept inv] by blast
  then obtain k where k: "dget (sd_records (snd (requeue_stale_claimed env s stale now limit t reason))) k = Some r"
    using r(1) in_dvals_iff send_invD(1) by metis
  have q: "dget (sd_records s) k = Some r \<and> r \<notin> set (p_rows (list_send_outbox s ?q))"
  proof (cases "dget (sd_records s) k")
    case None
    then show ?thesis using k unfolding sweep_store(1) [OF inv] by simp
  next
    case (Some q)
    then show ?thesis using k r(2) stale_verdict_claimed unfolding sweep_store(1) [OF inv]
      by (cases "q \<in> set (p_rows (list_send_outbox s ?q))") auto
  qed
  have "p_rows (list_send_outbox s ?q) = send_rows s ?q"
    using all py_slice_nonneg [of 0 limit "send_rows s ?q"]
    by (simp add: list_send_outbox_def stale_send_query_def default_send_query_def)
  then have "\<not> send_matches ?q r"
    using q in_dvals_iff [OF send_invD(1) [OF inv]] by (auto simp: send_rows_def)
  then show ?thesis
    using r(2,3) by (cases t) (simp_all add: send_matches_def stale_send_query_def default_send_query_def)
qed

text \<open>(C33) The reconciler decides every stale claim on its evidence and on nothing else: a
  provider message id makes it sent, no attempt marker makes it pending and unclaimed again, a
  marker without an id leaves it for reconciliation.  No other row changes, no listed row is
  refused or lost from the report, and with a limit that covers them no claim of that tenant
  filter is stale afterwards.\<close>

theorem send_sweep_exact:
  assumes "send_reachable env cfg w"
    and "requeue_stale_claimed env (wd_store w) stale now limit t reason = (sw, s')"
  shows "(let listed = p_rows (list_send_outbox (wd_store w) (stale_send_query stale limit t)) in
    (\<forall>k. dget (sd_records s') k = (case dget (sd_records (wd_store w)) k of
       None \<Rightarrow> None
     | Some r \<Rightarrow> Some
        (if r \<notin> set listed then r
         else if so_provider_id r \<noteq> None then
           r\<lparr>so_status := SO_SENT, so_sent_at := Some now, so_updated_at := now, so_last_error := None\<rparr>
         else if so_attempted_at r = None then
           r\<lparr>so_status := SO_PENDING, so_claim_id := None, so_worker_id := None, so_claimed_at := None,
             so_updated_at := now, so_last_error := Some reason,
             so_metadata := dmerge (so_metadata r) [(''reconciler.reason'', PStr reason),
               (''reconciler.requeued_at'', PStr (isoformat env now))]\<rparr>
         else
           r\<lparr>so_status := SO_NEEDS_RECONCILIATION, so_updated_at := now, so_last_error := Some reason,
             so_metadata := dmerge (so_metadata r) [(''reconciliation.reason'', PStr reason),
               (''reconciliation.flagged_at'', PStr (isoformat env now))]\<rparr>))) \<and>
    sw_refused sw = [] \<and> sw_scanned sw = int (length listed) \<and> sweep_total sw = length listed \<and>
    (int (length (send_rows (wd_store w) (stale_send_query stale limit t))) \<le> limit \<longrightarrow>
      (\<forall>r \<in> set (dvals (sd_records s')).
        so_status r = SO_CLAIMED \<and> claimed_by stale r \<longrightarrow> (\<exists>u. t = Some u \<and> so_tenant_id r \<noteq> u))))"
proof -
  let ?listed = "p_rows (list_send_outbox (wd_store w) (stale_send_query stale limit t))"
  have inv: "send_inv (wd_store w)" by (rule send_reachable_inv [OF assms(1)])
  have s': "s' = snd (requeue_stale_claimed env (wd_store w) stale now limit t reason)"
    and sw: "sw = fst (requeue_stale_claimed env (wd_store w) stale now limit t reason)"
    using assms(2) by simp_all
  note store = sweep_store [OF inv, of env stale now limit t reason, folded s' sw]
  show ?thesis
    unfolding Let_def
  proof (intro conjI allI)
    show "dget (sd_records s') k = (case dget (sd_records (wd_store w)) k of
       None \<Rightarrow> None
     | Some r \<Rightarrow> Some
        (if r \<notin> set ?listed then r
         else if so_provider_id r \<noteq> None then
           r\<lparr>so_status := SO_SENT, so_sent_at := Some now, so_updated_at := now, so_last_error := None\<rparr>
         else if so_attempted_at r = None then
           r\<lparr>so_status := SO_PENDING, so_claim_id := None, so_worker_id := None, so_claimed_at := None,
             so_updated_at := now, so_last_error := Some reason,
             so_metadata := dmerge (so_metadata r) [(''reconciler.reason'', PStr reason),
               (''reconciler.requeued_at'', PStr (isoformat env now))]\<rparr>
         else
           r\<lparr>so_status := SO_NEEDS_RECONCILIATION, so_updated_at := now, so_last_error := Some reason,
             so_metadata := dmerge (so_metadata r) [(''reconciliation.reason'', PStr reason),
               (''reconciliation.flagged_at'', PStr (isoformat env now))]\<rparr>))" for k
      unfolding store(1) by (simp add: stale_verdict_def split: option.split)
    show "sw_refused sw = []" by (rule store(2))
    show "sw_scanned sw = int (length ?listed)" "sweep_total sw = length ?listed"
      unfolding sw by (rule sweep_report)+
  qed (use sweep_leaves_none [OF inv] s' in blast)
qed

lemma send_sweep_exact_witness:
  "snd (requeue_stale_claimed demo_env (row_store marked_row) 30 40 10 None ''expired'') \<noteq> row_store marked_row \<and>
   (\<exists>q. dget (sd_records (snd (requeue_stale_claimed demo_env (row_store marked_row) 30 40 10 None ''expired''))) ''o1'' = Some q \<and>
     so_status q = SO_NEEDS_RECONCILIATION)"
proof -
  let ?run = "requeue_stale_claimed demo_env (row_store marked_row) 30 40 10 None ''expired''"
  have marked: "so_status marked_row = SO_CLAIMED" "so_claimed_at marked_row = Some 20" "so_provider_id marked_row = None"
    "so_attempted_at marked_row = Some 21"
    by (simp_all add: marked_row_def fast_simps)
      (simp_all add: fast_row_def claimed_row_def requeued_row_def stale_verdict_def slow_row_def demo_send_row_def)
  have listed: "p_rows (list_send_outbox (row_store marked_row) (stale_send_query 30 10 None)) = [marked_row]"
    by (simp add: list_send_outbox_def send_rows_def row_store_def send_matches_def stale_send_query_def
        default_send_query_def claimed_by_def marked py_slice_def slice_bound_def)
  have "requeue_stale_claimed demo_env (wd_store raced_world) 30 40 10 None ''expired'' = (fst ?run, snd ?run)"
    by (simp add: raced_simps)
  note sweep = send_sweep_exact [OF raced_reachable this]
  have "\<exists>q. dget (sd_records (snd ?run)) ''o1'' = Some q \<and> so_status q = SO_NEEDS_RECONCILIATION"
    using sweep by (simp add: raced_simps listed marked Let_def)
  then show ?thesis using marked by (auto simp: raced_simps)
qed

text \<open>(C34) The page of due work shares the publisher between tenants: it holds at most the
  limit, in due order, each tenant has at most its share on it, taken from the front of the
  rows it has due, and when the page is not full every tenant has exactly that share.\<close>

theorem send_fair:
  assumes "rt_list_due_pending_fair s now share limit = Inr page"
  shows "int (length page) \<le> limit \<and> sorted (map due_key page) \<and>
    (\<forall>t. \<exists>m. of_tenant t page = take m (take (nat share) (of_tenant t (due_rows s now)))) \<and>
    (int (length page) < limit \<longrightarrow> (\<forall>t. of_tenant t page = take (nat share) (of_tenant t (due_rows s now))))"
proof -
  let ?all = "fair_select share [] (due_rows s now)"
  have page: "page = take (nat limit) ?all" and limit: "0 \<le> limit"
    using assms due_pending_fair by (auto simp: rt_list_due_pending_fair_def split: if_splits)
  have all: "of_tenant t ?all = take (nat share) (of_tenant t (due_rows s now))" for t
    by (simp add: fair_select_tenant tenant_count_def)
  have "int (length page) \<le> limit" using limit by (simp add: page)
  moreover have "sorted (map due_key page)"
    unfolding page take_map [symmetric] by (intro sorted_wrt_take fair_select_sorted) (simp add: due_rows_def)
  moreover have "\<exists>m. of_tenant t page = take m (take (nat share) (of_tenant t (due_rows s now)))" for t
    unfolding page all [symmetric] by (rule of_tenant_take)
  moreover have "of_tenant t page = take (nat share) (of_tenant t (due_rows s now))" if "int (length page) < limit" for t
    using that all [of t] by (simp add: page)
  ultimately show ?thesis by blast
qed

lemma send_fair_witness:
  "rt_list_due_pending_fair (row_store demo_send_row) 5 1 2 = Inr [demo_send_row] \<and>
   of_tenant ''t1'' [demo_send_row] = take (nat 1) (of_tenant ''t1'' (due_rows (row_store demo_send_row) 5))"
proof -
  have "rt_list_due_pending_fair (row_store demo_send_row) 5 1 2 = Inr [demo_send_row]"
    by (simp add: rt_list_due_pending_fair_def due_pending_fair due_rows_def row_store_def demo_send_row_def send_due_def)
  then show ?thesis using send_fair by fastforce
qed

text \<open>(C35) Without the marker the outbox cannot protect the customer: a worker that stalls
  between its claim and its attempt marker is swept, a second worker takes the row and calls
  the provider, and the first, whose marker is refused, calls it as well.  Two calls for one
  intent, neither of them handed back.\<close>

theorem send_stale_worker:
  "\<exists>w k c d. send_reachable demo_env default_send_config w \<and> c \<noteq> d \<and> wd_calls w = [(k, c), (k, d)] \<and>
     wd_marked w = {(k, d)} \<and> wd_given_up w = {} \<and>
     (\<exists>r. dget (sd_records (wd_store w)) k = Some r \<and> so_status r = SO_CLAIMED \<and> so_claim_id r = Some d)"
proof (intro exI conjI)
  show "send_reachable demo_env default_send_config raced_world" by (rule raced_reachable)
  show "slow_claim \<noteq> fast_claim" by (rule demo_claims_differ)
  show "dget (sd_records (wd_store raced_world)) ''o1'' = Some marked_row" by (simp add: raced_simps)
qed (simp_all add: raced_world_def marked_row_def fast_simps)

text \<open>(C36) The tasks are the machine's steps: a run of the worker's task or of the reconciler
  from a reachable store, with any provider, ends in a reachable store, the reconciler without
  a call of the provider and the worker with at most one.\<close>

theorem send_tasks_refine:
  assumes "send_reachable env cfg w"
  shows "(case process_send_outbox env cfg exec now worker k (wd_store w) x of (report, s, x') \<Rightarrow>
      \<exists>w'. send_reachable env cfg w' \<and> wd_store w' = s \<and>
        (wd_calls w' = wd_calls w \<and> x' = x \<or> (\<exists>j c. wd_calls w' = (j, c) # wd_calls w))) \<and>
    (case reconcile_send_outbox env cfg share (wd_store w) stale now limit t of (report, s) \<Rightarrow>
      \<exists>w'. send_reachable env cfg w' \<and> wd_store w' = s \<and> wd_calls w' = wd_calls w)"
  using process_steps [OF assms, of exec now worker k x] reconcile_steps [OF assms, of share stale now limit t]
  by (fastforce split: prod.split)

lemma send_tasks_refine_witness:
  "\<exists>w. send_reachable demo_env default_send_config w \<and>
     wd_store w = snd (reconcile_send_outbox demo_env default_send_config 1 (row_store marked_row) 30 40 10 None) \<and>
     wd_calls w = wd_calls raced_world"
proof -
  obtain report s where run: "reconcile_send_outbox demo_env default_send_config 1 (row_store marked_row) 30 40 10 None = (report, s)"
    by fastforce
  show ?thesis
    using send_tasks_refine [OF raced_reachable, where share = 1 and stale = 30 and now = 40 and limit = 10 and t = None
        and exec = "\<lambda>x r. (Inr DELIVERY_PENDING, x)" and x = "()" and worker = "''slow''" and k = "''o1''"] run
    by (simp add: raced_simps)
qed

end
