(* ===== verification/Resolution_Store.thy ===== *)
theory Resolution_Store
  imports Governance_Records Outbound_Store
begin

text \<open>
  Resolution proposals and the outbound drafts derived from them: the enums, records,
  queries and identities of \<open>app/resolution\<close> and every method of the in-memory
  persistence (\<open>app/resolution/persistence/memory.py\<close>).  Updates run under the store's
  lock, reads have no suspension point: each method is an atomic step.
\<close>

section \<open>Calls that may raise\<close>

text \<open>\<open>on_ok r f\<close>: the call \<open>r\<close> raises, or \<open>f\<close> goes on with its value.\<close>

definition on_ok :: "'a result \<Rightarrow> ('a \<Rightarrow> 'b result) \<Rightarrow> 'b result" where
  "on_ok r f = (case r of Inl e \<Rightarrow> Inl e | Inr v \<Rightarrow> f v)"

definition raise_unless :: "bool \<Rightarrow> error \<Rightarrow> unit result" where
  "raise_unless ok e = (if ok then Inr () else Inl e)"

definition require :: "'a option \<Rightarrow> error \<Rightarrow> 'a result" where
  "require v e = (case v of None \<Rightarrow> Inl e | Some x \<Rightarrow> Inr x)"

lemma on_ok_simps [simp]: "on_ok (Inl e) f = Inl e" "on_ok (Inr v) f = f v"
  by (simp_all add: on_ok_def)

lemma on_ok_Inr [simp]: "on_ok r f = Inr w \<longleftrightarrow> (\<exists>v. r = Inr v \<and> f v = Inr w)"
  by (cases r) auto

lemma raise_unless_Inr [simp]: "raise_unless ok e = Inr u \<longleftrightarrow> ok"
  by (simp add: raise_unless_def)

lemma require_Inr [simp]: "require v e = Inr x \<longleftrightarrow> v = Some x"
  by (simp add: require_def split: option.split)

lemma raise_unless_True [simp]: "raise_unless True e = Inr ()"
  by (simp add: raise_unless_def)

lemma require_Some [simp]: "require (Some x) e = Inr x"
  by (simp add: require_def)

section \<open>Enums\<close>

datatype autonomy_decision = RA_AUTO_APPROVED | RA_NEEDS_CUSTOMER_INFO | RA_NEEDS_HUMAN_APPROVAL | RA_DENIED

fun autonomy_value :: "autonomy_decision \<Rightarrow> string" where
  "autonomy_value RA_AUTO_APPROVED = ''auto_approved''"
| "autonomy_value RA_NEEDS_CUSTOMER_INFO = ''needs_customer_info''"
| "autonomy_value RA_NEEDS_HUMAN_APPROVAL = ''needs_human_approval''"
| "autonomy_value RA_DENIED = ''denied''"

datatype proposal_status =
    RP_PROPOSED | RP_AUTO_APPROVED | RP_SEND_ELIGIBLE | RP_PENDING_HUMAN_APPROVAL | RP_DENIED | RP_FAILED

fun proposal_status_value :: "proposal_status \<Rightarrow> string" where
  "proposal_status_value RP_PROPOSED = ''proposed''"
| "proposal_status_value RP_AUTO_APPROVED = ''auto_approved''"
| "proposal_status_value RP_SEND_ELIGIBLE = ''send_eligible''"
| "proposal_status_value RP_PENDING_HUMAN_APPROVAL = ''pending_human_approval''"
| "proposal_status_value RP_DENIED = ''denied''"
| "proposal_status_value RP_FAILED = ''failed''"

datatype draft_status = RD_READY | RD_PENDING_HUMAN_APPROVAL | RD_DENIED | RD_FAILED

fun draft_status_value :: "draft_status \<Rightarrow> string" where
  "draft_status_value RD_READY = ''ready''"
| "draft_status_value RD_PENDING_HUMAN_APPROVAL = ''pending_human_approval''"
| "draft_status_value RD_DENIED = ''denied''"
| "draft_status_value RD_FAILED = ''failed''"

datatype supervisor_verdict = RS_PASS | RS_NEEDS_HUMAN_REVIEW | RS_FAIL

fun supervisor_value :: "supervisor_verdict \<Rightarrow> string" where
  "supervisor_value RS_PASS = ''pass''"
| "supervisor_value RS_NEEDS_HUMAN_REVIEW = ''needs_human_review''"
| "supervisor_value RS_FAIL = ''fail''"

datatype resolution_verdict = RG_ALLOW | RG_REQUIRE_APPROVAL | RG_ESCALATE | RG_DENY | RG_DEGRADE | RG_REDACT

fun resolution_verdict_value :: "resolution_verdict \<Rightarrow> string" where
  "resolution_verdict_value RG_ALLOW = ''allow''"
| "resolution_verdict_value RG_REQUIRE_APPROVAL = ''require_approval''"
| "resolution_verdict_value RG_ESCALATE = ''escalate''"
| "resolution_verdict_value RG_DENY = ''deny''"
| "resolution_verdict_value RG_DEGRADE = ''degrade''"
| "resolution_verdict_value RG_REDACT = ''redact''"

section \<open>Records\<close>

record proposal =
  rp_proposal_id :: uuid
  rp_tenant_id :: string
  rp_session_id :: "string option"
  rp_execution_id :: "string option"
  rp_dispatch_id :: string
  rp_diagnostic_event_id :: "string option"
  rp_reply :: string
  rp_category :: string
  rp_confidence :: pyfloat
  rp_supervisor_verdict :: supervisor_verdict
  rp_governance_verdict :: resolution_verdict
  rp_autonomy_decision :: autonomy_decision
  rp_status :: proposal_status
  rp_created_at :: int
  rp_updated_at :: int
  rp_decision_id :: "uuid option"
  rp_recommended_actions :: "metadata list"
  rp_evidence :: "metadata list"
  rp_source_language :: string
  rp_metadata :: metadata

record draft =
  rd_draft_id :: uuid
  rd_tenant_id :: string
  rd_proposal_id :: uuid
  rd_session_id :: string
  rd_execution_id :: string
  rd_dispatch_id :: string
  rd_diagnostic_event_id :: "string option"
  rd_decision_id :: "uuid option"
  rd_status :: draft_status
  rd_body :: string
  rd_body_sha256 :: string
  rd_category :: string
  rd_confidence :: pyfloat
  rd_created_at :: int
  rd_updated_at :: int
  rd_metadata :: metadata

definition proposal_to_dict :: "py_env \<Rightarrow> proposal \<Rightarrow> metadata" where
  "proposal_to_dict env r =
     [(''proposal_id'', PStr (rp_proposal_id r)), (''tenant_id'', PStr (rp_tenant_id r)),
      (''session_id'', opt_pstr (rp_session_id r)), (''execution_id'', opt_pstr (rp_execution_id r)),
      (''dispatch_id'', PStr (rp_dispatch_id r)), (''diagnostic_event_id'', opt_pstr (rp_diagnostic_event_id r)),
      (''proposed_customer_reply'', PStr (rp_reply r)), (''source_language'', PStr (rp_source_language r)),
      (''resolution_category'', PStr (rp_category r)), (''confidence'', PFloat (rp_confidence r)),
      (''recommended_actions'', PList (map PDict (rp_recommended_actions r))),
      (''evidence'', PList (map PDict (rp_evidence r))),
      (''supervisor_verdict'', PStr (supervisor_value (rp_supervisor_verdict r))),
      (''governance_verdict'', PStr (resolution_verdict_value (rp_governance_verdict r))),
      (''governance_decision_id'', opt_pstr (rp_decision_id r)),
      (''autonomy_decision'', PStr (autonomy_value (rp_autonomy_decision r))),
      (''status'', PStr (proposal_status_value (rp_status r))),
      (''created_at'', PStr (isoformat env (rp_created_at r))),
      (''updated_at'', PStr (isoformat env (rp_updated_at r))), (''metadata'', PDict (rp_metadata r))]"

definition draft_to_dict :: "py_env \<Rightarrow> draft \<Rightarrow> metadata" where
  "draft_to_dict env r =
     [(''draft_id'', PStr (rd_draft_id r)), (''tenant_id'', PStr (rd_tenant_id r)),
      (''proposal_id'', PStr (rd_proposal_id r)), (''session_id'', PStr (rd_session_id r)),
      (''execution_id'', PStr (rd_execution_id r)), (''dispatch_id'', PStr (rd_dispatch_id r)),
      (''diagnostic_event_id'', opt_pstr (rd_diagnostic_event_id r)),
      (''governance_decision_id'', opt_pstr (rd_decision_id r)),
      (''status'', PStr (draft_status_value (rd_status r))), (''draft_body'', PStr (rd_body r)),
      (''draft_body_sha256'', PStr (rd_body_sha256 r)), (''metadata'', PDict (rd_metadata r)),
      (''resolution_category'', PStr (rd_category r)), (''confidence'', PFloat (rd_confidence r)),
      (''created_at'', PStr (isoformat env (rd_created_at r))),
      (''updated_at'', PStr (isoformat env (rd_updated_at r)))]"

fun strings_of :: "pyval list \<Rightarrow> string list" where
  "strings_of [] = []"
| "strings_of (PStr s # vs) = s # strings_of vs"
| "strings_of (_ # vs) = strings_of vs"

definition proposal_gate_reasons :: "proposal \<Rightarrow> string list" where
  "proposal_gate_reasons r =
     (case dget (rp_metadata r) ''gate_reasons'' of Some (PList vs) \<Rightarrow> strings_of vs | _ \<Rightarrow> [])"

section \<open>Identities\<close>

definition PROPOSAL_NAMESPACE :: uuid where
  "PROPOSAL_NAMESPACE = ''2b7b4f5a-0001-4b01-9001-000000000001''"

definition DRAFT_NAMESPACE :: uuid where
  "DRAFT_NAMESPACE = ''2b7b4f5a-0001-4b01-9001-000000000002''"

definition optional_uuid_text :: "py_env \<Rightarrow> string \<Rightarrow> string option \<Rightarrow> string result" where
  "optional_uuid_text env name value =
     (case value of None \<Rightarrow> Inr ''none'' | Some v \<Rightarrow> required_uuid env name v)"

definition derive_proposal_id ::
  "py_env \<Rightarrow> string \<Rightarrow> string \<Rightarrow> string \<Rightarrow> string \<Rightarrow> string option \<Rightarrow> string \<Rightarrow> uuid result" where
  "derive_proposal_id env tenant_id session_id execution_id dispatch_id event_id event_type =
     (case required_text ''tenant_id'' tenant_id of Inl e \<Rightarrow> Inl e | Inr tenant \<Rightarrow>
     (case required_text ''diagnostic_event_type'' event_type of Inl e \<Rightarrow> Inl e | Inr kind \<Rightarrow>
     (case required_uuid env ''session_id'' session_id of Inl e \<Rightarrow> Inl e | Inr session \<Rightarrow>
     (case required_uuid env ''execution_id'' execution_id of Inl e \<Rightarrow> Inl e | Inr execution \<Rightarrow>
     (case required_uuid env ''dispatch_id'' dispatch_id of Inl e \<Rightarrow> Inl e | Inr dispatch \<Rightarrow>
     (case optional_uuid_text env ''diagnostic_event_id'' event_id of Inl e \<Rightarrow> Inl e | Inr event \<Rightarrow>
        Inr (uuid5 env PROPOSAL_NAMESPACE
          (tenant @ ''|'' @ session @ ''|'' @ execution @ ''|'' @ dispatch @ ''|'' @ event @ ''|'' @ kind))))))))"

definition derive_draft_id :: "py_env \<Rightarrow> string \<Rightarrow> string \<Rightarrow> uuid result" where
  "derive_draft_id env tenant_id proposal_id =
     (case required_text ''tenant_id'' tenant_id of Inl e \<Rightarrow> Inl e | Inr tenant \<Rightarrow>
     (case required_uuid env ''proposal_id'' proposal_id of Inl e \<Rightarrow> Inl e | Inr p \<Rightarrow>
        Inr (uuid5 env DRAFT_NAMESPACE (tenant @ ''|'' @ p))))"

section \<open>Queries\<close>

record resolution_query =
  rq_proposal_id :: "string option"
  rq_draft_id :: "string option"
    \<comment> \<open>of a draft query only\<close>
  rq_tenant_id :: "string option"
  rq_session_id :: "string option"
  rq_execution_id :: "string option"
  rq_dispatch_id :: "string option"
  rq_status :: "string option"
  rq_limit :: int
  rq_offset :: int

definition default_resolution_query :: resolution_query where
  "default_resolution_query = \<lparr>rq_proposal_id = None, rq_draft_id = None, rq_tenant_id = None, rq_session_id = None,
     rq_execution_id = None, rq_dispatch_id = None, rq_status = None, rq_limit = 100, rq_offset = 0\<rparr>"

definition check_proposal_query :: "resolution_query \<Rightarrow> resolution_query result" where
  "check_proposal_query q =
     (if rq_limit q < 1 then Inl (ValueError ''ResolutionProposalQuery.limit must be >= 1'')
      else if rq_offset q < 0 then Inl (ValueError ''ResolutionProposalQuery.offset must be >= 0'')
      else Inr q)"

definition check_draft_query :: "resolution_query \<Rightarrow> resolution_query result" where
  "check_draft_query q =
     (if rq_limit q < 1 then Inl (ValueError ''ResolutionOutboundDraftQuery.limit must be >= 1'')
      else if rq_offset q < 0 then Inl (ValueError ''ResolutionOutboundDraftQuery.offset must be >= 0'')
      else Inr q)"

section \<open>The store\<close>

record resolution_store =
  rs_proposals :: "(string, proposal) dict"
  rs_drafts :: "(string, draft) dict"

definition empty_resolution_store :: resolution_store where
  "empty_resolution_store = \<lparr>rs_proposals = [], rs_drafts = []\<rparr>"

definition wrong_tenant :: error where
  "wrong_tenant = ResolutionPersistenceError ''resolution proposal tenant_id does not match expected_tenant_id''"

definition create_proposal ::
  "py_env \<Rightarrow> resolution_store \<Rightarrow> proposal \<Rightarrow> string \<Rightarrow> proposal result \<times> resolution_store" where
  "create_proposal env s r expected_tenant_id =
     (if rp_tenant_id r \<noteq> expected_tenant_id then (Inl wrong_tenant, s)
      else if dget (rs_proposals s) (rp_proposal_id r) \<noteq> None then
        (Inl (ResolutionPersistenceError
          (''resolution proposal '' @ repr_str env (rp_proposal_id r) @ '' already recorded'')), s)
      else (Inr r, s\<lparr>rs_proposals := dset (rp_proposal_id r) r (rs_proposals s)\<rparr>))"

definition get_proposal :: "resolution_store \<Rightarrow> string \<Rightarrow> string \<Rightarrow> proposal option" where
  "get_proposal s proposal_id expected_tenant_id =
     (case dget (rs_proposals s) proposal_id of
        None \<Rightarrow> None
      | Some r \<Rightarrow> if rp_tenant_id r \<noteq> expected_tenant_id then None else Some r)"

definition proposal_matches :: "resolution_query \<Rightarrow> string \<Rightarrow> proposal \<Rightarrow> bool" where
  "proposal_matches q expected_tenant_id r \<longleftrightarrow>
     rp_tenant_id r = expected_tenant_id \<and>
     (\<forall>v \<in> set_option (rq_proposal_id q). rp_proposal_id r = v) \<and>
     (\<forall>v \<in> set_option (rq_tenant_id q). rp_tenant_id r = v) \<and>
     (\<forall>v \<in> set_option (rq_session_id q). rp_session_id r = Some v) \<and>
     (\<forall>v \<in> set_option (rq_execution_id q). rp_execution_id r = Some v) \<and>
     (\<forall>v \<in> set_option (rq_dispatch_id q). rp_dispatch_id r = v) \<and>
     (\<forall>v \<in> set_option (rq_status q). proposal_status_value (rp_status r) = v)"

definition list_proposals :: "resolution_store \<Rightarrow> resolution_query \<Rightarrow> string \<Rightarrow> proposal page" where
  "list_proposals s q expected_tenant_id =
     (let rows = sort_key (\<lambda>r. (rp_created_at r, rp_proposal_id r))
                   (filter (proposal_matches q expected_tenant_id) (dvals (rs_proposals s)))
      in \<lparr>p_rows = py_slice rows (rq_offset q) (rq_offset q + rq_limit q), p_total = int (length rows),
          p_limit = rq_limit q, p_offset = rq_offset q\<rparr>)"

text \<open>The update of one proposal, or the error of an unknown or foreign one.\<close>

definition update_proposal ::
  "py_env \<Rightarrow> resolution_store \<Rightarrow> string \<Rightarrow> string \<Rightarrow> (proposal \<Rightarrow> proposal) \<Rightarrow> proposal result \<times> resolution_store" where
  "update_proposal env s proposal_id expected_tenant_id change =
     (case get_proposal s proposal_id expected_tenant_id of
        None \<Rightarrow> (Inl (ResolutionPersistenceError (''unknown resolution proposal '' @ repr_str env proposal_id)), s)
      | Some r \<Rightarrow> (Inr (change r), s\<lparr>rs_proposals := dset proposal_id (change r) (rs_proposals s)\<rparr>))"

definition or_kept :: "'a option \<Rightarrow> 'a option \<Rightarrow> 'a option" where
  "or_kept given kept = (case given of Some v \<Rightarrow> Some v | None \<Rightarrow> kept)"

definition update_proposal_status ::
  "py_env \<Rightarrow> int \<Rightarrow> resolution_store \<Rightarrow> string \<Rightarrow> string \<Rightarrow> proposal_status \<Rightarrow> uuid option
     \<Rightarrow> proposal result \<times> resolution_store" where
  "update_proposal_status env now s proposal_id expected_tenant_id status decision_id =
     update_proposal env s proposal_id expected_tenant_id (\<lambda>r.
       r\<lparr>rp_status := status,
         rp_governance_verdict :=
           (if status = RP_SEND_ELIGIBLE \<and> decision_id \<noteq> None then RG_ALLOW else rp_governance_verdict r),
         rp_decision_id := or_kept decision_id (rp_decision_id r), rp_updated_at := now\<rparr>)"

definition update_proposal_reply ::
  "py_env \<Rightarrow> int \<Rightarrow> resolution_store \<Rightarrow> string \<Rightarrow> string \<Rightarrow> string \<Rightarrow> uuid option
     \<Rightarrow> proposal result \<times> resolution_store" where
  "update_proposal_reply env now s proposal_id expected_tenant_id reply decision_id =
     update_proposal env s proposal_id expected_tenant_id (\<lambda>r.
       r\<lparr>rp_reply := reply, rp_decision_id := or_kept decision_id (rp_decision_id r), rp_updated_at := now\<rparr>)"

definition create_draft ::
  "py_env \<Rightarrow> resolution_store \<Rightarrow> draft \<Rightarrow> string \<Rightarrow> draft result \<times> resolution_store" where
  "create_draft env s r expected_tenant_id =
     (if rd_tenant_id r \<noteq> expected_tenant_id then (Inl wrong_tenant, s)
      else if dget (rs_drafts s) (rd_draft_id r) \<noteq> None then
        (Inl (ResolutionPersistenceError
          (''resolution outbound draft '' @ repr_str env (rd_draft_id r) @ '' already recorded'')), s)
      else (Inr r, s\<lparr>rs_drafts := dset (rd_draft_id r) r (rs_drafts s)\<rparr>))"

definition get_draft :: "resolution_store \<Rightarrow> string \<Rightarrow> string \<Rightarrow> draft option" where
  "get_draft s draft_id expected_tenant_id =
     (case dget (rs_drafts s) draft_id of
        None \<Rightarrow> None
      | Some r \<Rightarrow> if rd_tenant_id r \<noteq> expected_tenant_id then None else Some r)"

definition draft_matches :: "resolution_query \<Rightarrow> string \<Rightarrow> draft \<Rightarrow> bool" where
  "draft_matches q expected_tenant_id r \<longleftrightarrow>
     rd_tenant_id r = expected_tenant_id \<and>
     (\<forall>v \<in> set_option (rq_draft_id q). rd_draft_id r = v) \<and>
     (\<forall>v \<in> set_option (rq_tenant_id q). rd_tenant_id r = v) \<and>
     (\<forall>v \<in> set_option (rq_proposal_id q). rd_proposal_id r = v) \<and>
     (\<forall>v \<in> set_option (rq_session_id q). rd_session_id r = v) \<and>
     (\<forall>v \<in> set_option (rq_execution_id q). rd_execution_id r = v) \<and>
     (\<forall>v \<in> set_option (rq_dispatch_id q). rd_dispatch_id r = v) \<and>
     (\<forall>v \<in> set_option (rq_status q). draft_status_value (rd_status r) = v)"

definition list_drafts :: "resolution_store \<Rightarrow> resolution_query \<Rightarrow> string \<Rightarrow> draft page" where
  "list_drafts s q expected_tenant_id =
     (let rows = sort_key (\<lambda>r. (rd_created_at r, rd_draft_id r))
                   (filter (draft_matches q expected_tenant_id) (dvals (rs_drafts s)))
      in \<lparr>p_rows = py_slice rows (rq_offset q) (rq_offset q + rq_limit q), p_total = int (length rows),
          p_limit = rq_limit q, p_offset = rq_offset q\<rparr>)"

text \<open>The first draft of the proposal, in insertion order, and its update.\<close>

definition draft_of_proposal :: "resolution_store \<Rightarrow> string \<Rightarrow> string \<Rightarrow> draft option" where
  "draft_of_proposal s proposal_id expected_tenant_id =
     find (\<lambda>r. rd_proposal_id r = proposal_id \<and> rd_tenant_id r = expected_tenant_id) (dvals (rs_drafts s))"

definition update_draft ::
  "resolution_store \<Rightarrow> string \<Rightarrow> string \<Rightarrow> (draft \<Rightarrow> draft) \<Rightarrow> draft option \<times> resolution_store" where
  "update_draft s proposal_id expected_tenant_id change =
     (case draft_of_proposal s proposal_id expected_tenant_id of
        None \<Rightarrow> (None, s)
      | Some r \<Rightarrow> (Some (change r), s\<lparr>rs_drafts := dset (rd_draft_id (change r)) (change r) (rs_drafts s)\<rparr>))"

definition update_draft_status ::
  "int \<Rightarrow> resolution_store \<Rightarrow> string \<Rightarrow> string \<Rightarrow> draft_status \<Rightarrow> uuid option \<Rightarrow> draft option \<times> resolution_store" where
  "update_draft_status now s proposal_id expected_tenant_id status decision_id =
     update_draft s proposal_id expected_tenant_id (\<lambda>r.
       r\<lparr>rd_status := status, rd_decision_id := or_kept decision_id (rd_decision_id r), rd_updated_at := now\<rparr>)"

definition update_draft_body ::
  "int \<Rightarrow> resolution_store \<Rightarrow> string \<Rightarrow> string \<Rightarrow> string \<Rightarrow> string \<Rightarrow> uuid option
     \<Rightarrow> draft option \<times> resolution_store" where
  "update_draft_body now s proposal_id expected_tenant_id body body_sha256 decision_id =
     update_draft s proposal_id expected_tenant_id (\<lambda>r.
       r\<lparr>rd_body := body, rd_body_sha256 := body_sha256,
         rd_decision_id := or_kept decision_id (rd_decision_id r), rd_updated_at := now\<rparr>)"

end
