(* ===== verification/Delivery_Store.thy ===== *)
theory Delivery_Store
  imports Resolution_Store
begin

text \<open>
  The delivery ledgers of governed customer replies: one row per draft and governance
  decision, reserved before the provider is called, for email
  (\<open>app/boundary/outbound/email_delivery.py\<close>) and WhatsApp
  (\<open>app/boundary/outbound/whatsapp_delivery.py\<close>).  The in-memory repositories are keyed by tenant
  and delivery id; every write runs under the lock.
\<close>

section \<open>Identities\<close>

definition EMAIL_DELIVERY_NAMESPACE :: uuid where
  "EMAIL_DELIVERY_NAMESPACE = ''2b7b4f5a-0001-4b01-9001-000000000004''"

definition WHATSAPP_DELIVERY_NAMESPACE :: uuid where
  "WHATSAPP_DELIVERY_NAMESPACE = ''2b7b4f5a-0001-4b01-9001-000000000003''"

definition delivery_seed :: "py_env \<Rightarrow> string \<Rightarrow> string \<Rightarrow> string \<Rightarrow> string result" where
  "delivery_seed env tenant_id draft_id decision_id =
     (case required_text ''tenant_id'' tenant_id of Inl e \<Rightarrow> Inl e | Inr tenant \<Rightarrow>
     (case required_uuid env ''draft_id'' draft_id of Inl e \<Rightarrow> Inl e | Inr draft \<Rightarrow>
     (case required_uuid env ''governance_decision_id'' decision_id of Inl e \<Rightarrow> Inl e | Inr decision \<Rightarrow>
        Inr (tenant @ ''|'' @ draft @ ''|'' @ decision))))"

definition derive_email_delivery_id :: "py_env \<Rightarrow> string \<Rightarrow> string \<Rightarrow> string \<Rightarrow> uuid result" where
  "derive_email_delivery_id env tenant_id draft_id decision_id =
     (case delivery_seed env tenant_id draft_id decision_id of
        Inl e \<Rightarrow> Inl e | Inr seed \<Rightarrow> Inr (uuid5 env EMAIL_DELIVERY_NAMESPACE seed))"

definition derive_whatsapp_delivery_id :: "py_env \<Rightarrow> string \<Rightarrow> string \<Rightarrow> string \<Rightarrow> uuid result" where
  "derive_whatsapp_delivery_id env tenant_id draft_id decision_id =
     (case delivery_seed env tenant_id draft_id decision_id of
        Inl e \<Rightarrow> Inl e | Inr seed \<Rightarrow> Inr (uuid5 env WHATSAPP_DELIVERY_NAMESPACE seed))"

section \<open>Rows\<close>

datatype delivery_status = DS_PENDING | DS_SENT | DS_FAILED

fun delivery_status_value :: "delivery_status \<Rightarrow> string" where
  "delivery_status_value DS_PENDING = ''pending''"
| "delivery_status_value DS_SENT = ''sent''"
| "delivery_status_value DS_FAILED = ''failed''"

text \<open>\<open>ValueError\<close>s of both repositories.\<close>

definition delivery_wrong_tenant :: error where
  "delivery_wrong_tenant = ValueError ''tenant_id does not match expected_tenant_id''"

type_synonym delivery_key = "string \<times> uuid"

section \<open>The email ledger\<close>

record email_delivery =
  ed_delivery_id :: uuid
  ed_tenant_id :: string
  ed_draft_id :: uuid
  ed_proposal_id :: uuid
  ed_decision_id :: uuid
  ed_source :: string
  ed_recipient :: string
  ed_body_sha256 :: string
  ed_subject :: string
  ed_in_reply_to :: "string option"
  ed_references :: "string option"
  ed_status :: delivery_status
  ed_provider_id :: "string option"
  ed_status_code :: "int option"
  ed_error_code :: "string option"
  ed_created_at :: int
  ed_updated_at :: int
  ed_sent_at :: "int option"
  ed_metadata :: metadata

type_synonym email_ledger = "(delivery_key, email_delivery) dict"

definition reserve_email_delivery ::
  "email_ledger \<Rightarrow> email_delivery \<Rightarrow> string \<Rightarrow> (email_delivery \<times> bool) result \<times> email_ledger" where
  "reserve_email_delivery s r expected_tenant_id =
     (if ed_tenant_id r \<noteq> expected_tenant_id then (Inl delivery_wrong_tenant, s)
      else case dget s (expected_tenant_id, ed_delivery_id r) of
        Some existing \<Rightarrow> (Inr (existing, False), s)
      | None \<Rightarrow> (Inr (r, True), dset (expected_tenant_id, ed_delivery_id r) r s))"

definition get_email_delivery :: "email_ledger \<Rightarrow> uuid \<Rightarrow> string \<Rightarrow> email_delivery option" where
  "get_email_delivery s delivery_id expected_tenant_id = dget s (expected_tenant_id, delivery_id)"

definition mark_email_delivery_sent ::
  "email_ledger \<Rightarrow> uuid \<Rightarrow> string \<Rightarrow> string \<Rightarrow> int \<Rightarrow> int \<Rightarrow> email_delivery result \<times> email_ledger" where
  "mark_email_delivery_sent s delivery_id expected_tenant_id provider_id status_code sent_at =
     (case dget s (expected_tenant_id, delivery_id) of
        None \<Rightarrow> (Inl (ValueError ''email delivery not found''), s)
      | Some r \<Rightarrow>
          let updated = r\<lparr>ed_status := DS_SENT, ed_provider_id := Some provider_id,
                 ed_status_code := Some status_code, ed_error_code := None, ed_sent_at := Some sent_at,
                 ed_updated_at := sent_at\<rparr>
          in (Inr updated, dset (expected_tenant_id, delivery_id) updated s))"

definition mark_email_delivery_failed ::
  "email_ledger \<Rightarrow> uuid \<Rightarrow> string \<Rightarrow> string \<Rightarrow> int \<Rightarrow> int option \<Rightarrow> email_delivery result \<times> email_ledger" where
  "mark_email_delivery_failed s delivery_id expected_tenant_id err failed_at status_code =
     (case dget s (expected_tenant_id, delivery_id) of
        None \<Rightarrow> (Inl (ValueError ''email delivery not found''), s)
      | Some r \<Rightarrow>
          let updated = r\<lparr>ed_status := DS_FAILED, ed_status_code := status_code,
                 ed_error_code := Some err, ed_updated_at := failed_at\<rparr>
          in (Inr updated, dset (expected_tenant_id, delivery_id) updated s))"

section \<open>The WhatsApp ledger\<close>

record whatsapp_delivery =
  wm_delivery_id :: uuid
  wm_tenant_id :: string
  wm_draft_id :: uuid
  wm_proposal_id :: uuid
  wm_decision_id :: uuid
  wm_phone_number_id :: string
  wm_recipient :: string
  wm_body_sha256 :: string
  wm_status :: delivery_status
  wm_provider_id :: "string option"
  wm_status_code :: "int option"
  wm_error_code :: "string option"
  wm_created_at :: int
  wm_updated_at :: int
  wm_sent_at :: "int option"
  wm_metadata :: metadata

type_synonym whatsapp_ledger = "(delivery_key, whatsapp_delivery) dict"

definition reserve_whatsapp_delivery ::
  "whatsapp_ledger \<Rightarrow> whatsapp_delivery \<Rightarrow> string \<Rightarrow> (whatsapp_delivery \<times> bool) result \<times> whatsapp_ledger" where
  "reserve_whatsapp_delivery s r expected_tenant_id =
     (if wm_tenant_id r \<noteq> expected_tenant_id then (Inl delivery_wrong_tenant, s)
      else case dget s (expected_tenant_id, wm_delivery_id r) of
        Some existing \<Rightarrow> (Inr (existing, False), s)
      | None \<Rightarrow> (Inr (r, True), dset (expected_tenant_id, wm_delivery_id r) r s))"

definition get_whatsapp_delivery :: "whatsapp_ledger \<Rightarrow> uuid \<Rightarrow> string \<Rightarrow> whatsapp_delivery option" where
  "get_whatsapp_delivery s delivery_id expected_tenant_id = dget s (expected_tenant_id, delivery_id)"

definition mark_whatsapp_delivery_sent ::
  "whatsapp_ledger \<Rightarrow> uuid \<Rightarrow> string \<Rightarrow> string \<Rightarrow> int \<Rightarrow> int \<Rightarrow> whatsapp_delivery result \<times> whatsapp_ledger" where
  "mark_whatsapp_delivery_sent s delivery_id expected_tenant_id provider_id status_code sent_at =
     (case dget s (expected_tenant_id, delivery_id) of
        None \<Rightarrow> (Inl (ValueError ''whatsapp delivery not found''), s)
      | Some r \<Rightarrow>
          let updated = r\<lparr>wm_status := DS_SENT, wm_provider_id := Some provider_id,
                 wm_status_code := Some status_code, wm_error_code := None, wm_sent_at := Some sent_at,
                 wm_updated_at := sent_at\<rparr>
          in (Inr updated, dset (expected_tenant_id, delivery_id) updated s))"

definition mark_whatsapp_delivery_failed ::
  "whatsapp_ledger \<Rightarrow> uuid \<Rightarrow> string \<Rightarrow> string \<Rightarrow> int \<Rightarrow> int option \<Rightarrow> whatsapp_delivery result \<times> whatsapp_ledger" where
  "mark_whatsapp_delivery_failed s delivery_id expected_tenant_id err failed_at status_code =
     (case dget s (expected_tenant_id, delivery_id) of
        None \<Rightarrow> (Inl (ValueError ''whatsapp delivery not found''), s)
      | Some r \<Rightarrow>
          let updated = r\<lparr>wm_status := DS_FAILED, wm_status_code := status_code,
                 wm_error_code := Some err, wm_updated_at := failed_at\<rparr>
          in (Inr updated, dset (expected_tenant_id, delivery_id) updated s))"

end
