(* ===== verification/Reply_Template.thy ===== *)
theory Reply_Template
  imports Governance_Policies
begin

text \<open>
  What a customer gets to see: the rendering of a governed reply for email and WhatsApp
  (\<open>app/runtime/customer_email_template.py\<close>, \<open>app/runtime/customer_whatsapp_template.py\<close>), the
  marker of an unfilled placeholder (\<open>app/tenant/template_placeholders.py\<close>) and the reply
  target derived from the inbound message (\<open>app/boundary/outbound/reply_context.py\<close>).  Each
  regular expression is the recursive scanner that finds its matches from left to right.
\<close>

section \<open>Citation marks\<close>

definition is_digit :: "char \<Rightarrow> bool" where
  "is_digit c \<longleftrightarrow> 48 \<le> (of_char c :: nat) \<and> (of_char c :: nat) \<le> 57"

text \<open>The rest after \<open>\d+\<close>.\<close>

definition after_digits :: "string \<Rightarrow> string option" where
  "after_digits s = (case s of [] \<Rightarrow> None | c # r \<Rightarrow> if is_digit c then Some (dropWhile is_digit r) else None)"

lemma after_digits_shorter: "after_digits s = Some r \<Longrightarrow> length r < length s"
  by (auto simp: after_digits_def le_imp_less_Suc length_dropWhile_le split: list.splits if_splits)

text \<open>The rest after \<open>(?:\s*,\s*\d+)*\s*\]\<close>.\<close>

function cite_tail :: "string \<Rightarrow> string option" where
  "cite_tail s =
     (case dropWhile py_space s of
        [] \<Rightarrow> None
      | c # r \<Rightarrow>
          if c = CHR '']'' then Some r
          else if c = CHR '','' then
            (case after_digits (dropWhile py_space r) of None \<Rightarrow> None | Some r' \<Rightarrow> cite_tail r')
          else None)"
  by pat_completeness auto

lemma dropWhile_cons_shorter: "dropWhile P s = c # r \<Longrightarrow> length r < length s"
  using length_dropWhile_le [of P s] by simp

lemma comma_shorter:
  "dropWhile py_space s = c # r \<Longrightarrow> after_digits (dropWhile py_space r) = Some r' \<Longrightarrow> length r' < length s"
  using after_digits_shorter dropWhile_cons_shorter length_dropWhile_le
  by (metis le_less_trans less_le_trans order.strict_implies_order)

termination cite_tail
  by (relation "measure length") (auto intro: comma_shorter)

declare cite_tail.simps [simp del]

lemma cite_tail_shorter: "cite_tail s = Some r \<Longrightarrow> length r < length s"
proof (induction s rule: cite_tail.induct)
  case (1 s)
  show ?case
  proof (cases "dropWhile py_space s")
    case Nil
    show ?thesis using 1(2) unfolding cite_tail.simps [of s] Nil by simp
  next
    case (Cons c t)
    note rest = dropWhile_cons_shorter [OF Cons]
    show ?thesis
    proof (cases "c = CHR '']''")
      case True
      then show ?thesis using 1(2) rest Cons by (simp add: cite_tail.simps [of s])
    next
      case False
      then obtain r' where "c = CHR '',''" "after_digits (dropWhile py_space t) = Some r'" "cite_tail r' = Some r"
        using 1(2) Cons by (auto simp: cite_tail.simps [of s] split: if_splits option.splits)
      then show ?thesis
        using 1(1) [OF Cons False] comma_shorter [OF Cons] by fastforce
    qed
  qed
qed

text \<open>The rest after a match of \<open>_CITATION_PATTERN\<close> at the head.\<close>

definition cite_at :: "string \<Rightarrow> string option" where
  "cite_at s =
     (case dropWhile py_space s of
        [] \<Rightarrow> None
      | c # r \<Rightarrow>
          if c = CHR ''['' then
            (case after_digits (dropWhile py_space r) of None \<Rightarrow> None | Some r' \<Rightarrow> cite_tail r')
          else None)"

lemma cite_at_shorter: "cite_at s = Some r \<Longrightarrow> length r < length s"
  using cite_tail_shorter comma_shorter
  by (fastforce simp: cite_at_def split: list.splits if_splits option.splits)

function drop_cites :: "string \<Rightarrow> string" where
  "drop_cites [] = []"
| "drop_cites (c # s) = (case cite_at (c # s) of Some r \<Rightarrow> drop_cites r | None \<Rightarrow> c # drop_cites s)"
  by pat_completeness auto
termination
  by (relation "measure length") (auto dest: cite_at_shorter)

text \<open>\<open> {2,}\<close> to one space, and \<open> +([.,!?;:])\<close> to the punctuation.\<close>

fun single_spaces :: "string \<Rightarrow> string" where
  "single_spaces (a # b # s) =
     (if a = CHR '' '' \<and> b = CHR '' '' then single_spaces (b # s) else a # single_spaces (b # s))"
| "single_spaces s = s"

function no_space_before_punctuation :: "string \<Rightarrow> string" where
  "no_space_before_punctuation [] = []"
| "no_space_before_punctuation (c # s) =
     (if c = CHR '' '' \<and> (case dropWhile ((=) CHR '' '') s of [] \<Rightarrow> False | p # _ \<Rightarrow> p \<in> set ''.,!?;:'')
      then no_space_before_punctuation (dropWhile ((=) CHR '' '') s)
      else c # no_space_before_punctuation s)"
  by pat_completeness auto
termination
  by (relation "measure length") (auto simp: le_imp_less_Suc length_dropWhile_le)

definition strip_citation_marks :: "string \<Rightarrow> string" where
  "strip_citation_marks text = no_space_before_punctuation (single_spaces (drop_cites text))"

section \<open>The email\<close>

text \<open>\<open>s.split()\<close>.\<close>

function py_words :: "string \<Rightarrow> string list" where
  "py_words s =
     (case dropWhile py_space s of
        [] \<Rightarrow> []
      | c # r \<Rightarrow> (c # takeWhile (\<lambda>x. \<not> py_space x) r) # py_words (dropWhile (\<lambda>x. \<not> py_space x) r))"
  by pat_completeness auto
termination
proof (relation "measure length")
  fix s c r assume "dropWhile py_space s = c # r"
  then show "(dropWhile (\<lambda>x. \<not> py_space x) r, s) \<in> measure length"
    using dropWhile_cons_shorter length_dropWhile_le by (metis in_measure le_less_trans)
qed simp

declare py_words.simps [simp del]

text \<open>\<open>s.strip(cs)\<close>.\<close>

definition strip_chars :: "string \<Rightarrow> string \<Rightarrow> string" where
  "strip_chars cs s = rev (dropWhile (\<lambda>c. c \<in> set cs) (rev (dropWhile (\<lambda>c. c \<in> set cs) s)))"

definition ascii_letter :: "char \<Rightarrow> bool" where
  "ascii_letter c \<longleftrightarrow> (let n = of_char c :: nat in 65 \<le> n \<and> n \<le> 90 \<or> 97 \<le> n \<and> n \<le> 122)"

text \<open>\<open>[A-Za-z]+(?:[ '\-][A-Za-z]+)*\<close> up to the end; the flag says that the last character was a letter.\<close>

fun human_name_shape :: "bool \<Rightarrow> string \<Rightarrow> bool" where
  "human_name_shape letter [] = letter"
| "human_name_shape letter (c # s) =
     (if ascii_letter c then human_name_shape True s
      else letter \<and> c \<in> {CHR '' '', CHR 0x27, CHR ''-''} \<and> human_name_shape False s)"

definition NON_HUMAN_NAME_TOKENS :: "string list" where
  "NON_HUMAN_NAME_TOKENS =
     [''noreply'', ''no-reply'', ''donotreply'', ''do-not-reply'', ''support'', ''admin'', ''administrator'',
      ''info'', ''notification'', ''notifications'', ''mailer'', ''postmaster'', ''webmaster'', ''system'',
      ''autoreply'', ''auto-reply'', ''customer'', ''service'', ''team'', ''billing'', ''sales'', ''alert'',
      ''alerts'', ''robot'', ''bot'']"

definition is_clean_human_name :: "py_env \<Rightarrow> string option \<Rightarrow> bool" where
  "is_clean_human_name env value =
     (case value of
        None \<Rightarrow> False
      | Some v \<Rightarrow>
          let candidate = py_strip v; tokens = py_words (str_lower env candidate)
          in 2 \<le> length candidate \<and> length candidate \<le> 60 \<and> human_name_shape False candidate \<and>
             \<not> list_ex (\<lambda>token. strip_chars [CHR ''-'', CHR 0x27] token \<in> set NON_HUMAN_NAME_TOKENS) tokens \<and>
             concat tokens \<notin> set NON_HUMAN_NAME_TOKENS)"

text \<open>\<open>str.isalnum\<close> of the code points below 256.\<close>

definition py_alnum :: "char \<Rightarrow> bool" where
  "py_alnum c \<longleftrightarrow> is_digit c \<or> ascii_letter c \<or>
     (let n = of_char c :: nat
      in n \<in> set [170, 178, 179, 181, 185, 186, 188, 189, 190] \<or> 192 \<le> n \<and> n \<noteq> 215 \<and> n \<noteq> 247)"

definition derive_ticket_reference :: "py_env \<Rightarrow> string \<Rightarrow> string" where
  "derive_ticket_reference env session_id =
     ''OP-'' @ (case uuid_parse env session_id of
        Some u \<Rightarrow> str_upper env (take 8 (filter (\<lambda>c. c \<noteq> CHR ''-'') u))
      | None \<Rightarrow>
          let digits = take 8 (filter py_alnum (str_upper env session_id))
          in digits @ replicate (8 - length digits) (CHR ''0''))"

definition tenant_display_name :: "py_env \<Rightarrow> string \<Rightarrow> string" where
  "tenant_display_name env tenant_id =
     (case py_strip (takeWhile (\<lambda>c. c \<noteq> CHR ''-'') tenant_id) of
        [] \<Rightarrow> ''Support''
      | c # r \<Rightarrow> str_upper env [c] @ r)"

definition render_customer_email_subject :: "string \<Rightarrow> string \<Rightarrow> string" where
  "render_customer_email_subject subject ticket_reference =
     (if substring ticket_reference subject then subject
      else subject @ '' [Ticket #'' @ ticket_reference @ '']'')"

definition newline :: string where
  "newline = [CHR 0x0A]"

definition render_customer_email_body :: "py_env \<Rightarrow> string \<Rightarrow> string \<Rightarrow> string \<Rightarrow> string option \<Rightarrow> string" where
  "render_customer_email_body env body ticket_reference tenant_id customer_display_name =
     (let candidate = py_strip (case customer_display_name of None \<Rightarrow> [] | Some v \<Rightarrow> v);
          name = (if is_clean_human_name env (Some candidate) then candidate else ''Customer'')
      in ''Dear '' @ name @ '','' @ newline @ newline @ strip_citation_marks (py_strip body) @ newline @ newline @
         ''If you have any further questions or need to follow up on this '' @
         ''request, please reply to this email and reference your ticket '' @
         ''number: '' @ ticket_reference @ ''.'' @ newline @ newline @ ''Best regards,'' @ newline @
         ''The '' @ tenant_display_name env tenant_id @ '' Support Team'')"

section \<open>The WhatsApp message\<close>

text \<open>The length of what \<open>\S(?:.*?\S)?\<close> matches between the asterisks: two characters and more
  are tried in growing order, a single character last.\<close>

definition bold_fits :: "string \<Rightarrow> nat \<Rightarrow> bool" where
  "bold_fits s n \<longleftrightarrow> 1 \<le> n \<and> n \<le> length s \<and> \<not> py_space (s ! 0) \<and> \<not> py_space (s ! (n - 1)) \<and>
     list_all (\<lambda>c. c \<noteq> CHR 0x0A) (take (n - 2) (drop 1 s)) \<and> take 2 (drop n s) = ''**''"

definition bold_length :: "string \<Rightarrow> nat option" where
  "bold_length s =
     (case find (bold_fits s) [2..<length s] of
        Some n \<Rightarrow> Some n
      | None \<Rightarrow> if bold_fits s 1 then Some 1 else None)"

function single_asterisks :: "string \<Rightarrow> string" where
  "single_asterisks [] = []"
| "single_asterisks (c # s) =
     (if take 2 (c # s) \<noteq> ''**'' then c # single_asterisks s
      else case bold_length (drop 1 s) of
        None \<Rightarrow> c # single_asterisks s
      | Some n \<Rightarrow> ''*'' @ take n (drop 1 s) @ ''*'' @ single_asterisks (drop (n + 3) s))"
  by pat_completeness auto
termination
  by (relation "measure length") auto

definition render_customer_whatsapp_body :: "string \<Rightarrow> string" where
  "render_customer_whatsapp_body body = single_asterisks (strip_citation_marks (py_strip body))"

section \<open>Placeholders\<close>

definition contains_unresolved_placeholder_marker :: "string \<Rightarrow> bool" where
  "contains_unresolved_placeholder_marker text = substring ''[missing: '' text"

section \<open>The reply target\<close>

record reply_context =
  rx_source_channel :: "string option"
  rx_recipient :: "string option"
  rx_recipient_display_name :: "string option"
  rx_source :: "string option"
  rx_subject :: "string option"
  rx_thread_context :: "string option"
  rx_in_reply_to :: "string option"
  rx_references :: "string option"
  rx_phone_number_id :: "string option"

definition empty_reply_context :: reply_context where
  "empty_reply_context = \<lparr>rx_source_channel = None, rx_recipient = None, rx_recipient_display_name = None,
     rx_source = None, rx_subject = None, rx_thread_context = None, rx_in_reply_to = None, rx_references = None,
     rx_phone_number_id = None\<rparr>"

definition nonempty_text :: "string \<Rightarrow> string option" where
  "nonempty_text s = (case py_strip s of [] \<Rightarrow> None | c # r \<Rightarrow> Some (c # r))"

definition payload_text :: "metadata \<Rightarrow> string \<Rightarrow> string option" where
  "payload_text payload key = (case dget payload key of Some (PStr s) \<Rightarrow> nonempty_text s | _ \<Rightarrow> None)"

definition normalised_reply_channel :: "py_env \<Rightarrow> string option \<Rightarrow> string option" where
  "normalised_reply_channel env value =
     (case value of
        None \<Rightarrow> None
      | Some v \<Rightarrow>
          let channel = str_lower env (py_strip v)
          in if channel \<in> set [''email'', ''whatsapp''] then Some channel else None)"

definition reply_subject :: "py_env \<Rightarrow> string option \<Rightarrow> string" where
  "reply_subject env subject =
     (case subject of
        None \<Rightarrow> ''Re: Support request''
      | Some s \<Rightarrow> if take 3 (str_lower env s) = ''re:'' then s else ''Re: '' @ s)"

text \<open>\<open>" ".join(dict.fromkeys(...))\<close>: the first occurrence of each reference.\<close>

fun joined :: "string \<Rightarrow> string list \<Rightarrow> string" where
  "joined sep [] = []"
| "joined sep [s] = s"
| "joined sep (s # t # ts) = s @ sep @ joined sep (t # ts)"

definition email_references_header :: "string option \<Rightarrow> string option \<Rightarrow> string option" where
  "email_references_header conversation_id message_id =
     (case filter (\<lambda>v. py_strip v \<noteq> [])
             ((case conversation_id of None \<Rightarrow> [] | Some v \<Rightarrow> [v]) @ (case message_id of None \<Rightarrow> [] | Some v \<Rightarrow> [v])) of
        [] \<Rightarrow> None
      | v # vs \<Rightarrow> Some (joined '' '' (rev (remdups (rev (v # vs))))))"

definition extract_outbound_reply_context :: "py_env \<Rightarrow> metadata \<Rightarrow> reply_context" where
  "extract_outbound_reply_context env payload =
     (case normalised_reply_channel env (str_or (payload_text payload ''channel'') (payload_text payload ''channel_type'')) of
        None \<Rightarrow> empty_reply_context
      | Some channel \<Rightarrow>
          let message_id = payload_text payload ''message_id'';
              conversation_id = payload_text payload ''conversation_id'';
              phone_number_id = payload_text payload ''phone_number_id'';
              source0 = payload_text payload ''to'';
              source = (if channel = ''whatsapp'' \<and> source0 = None then phone_number_id else source0);
              email = (channel = ''email'')
          in \<lparr>rx_source_channel = Some channel, rx_recipient = payload_text payload ''from'',
              rx_recipient_display_name = (if email then payload_text payload ''from_display_name'' else None),
              rx_source = source,
              rx_subject = (if email then Some (reply_subject env (payload_text payload ''subject'')) else None),
              rx_thread_context = str_or conversation_id message_id,
              rx_in_reply_to = (if email then message_id else None),
              rx_references = (if email then email_references_header conversation_id message_id else None),
              rx_phone_number_id = phone_number_id\<rparr>)"

definition reply_context_from_dispatch_body :: "py_env \<Rightarrow> metadata \<Rightarrow> reply_context" where
  "reply_context_from_dispatch_body env body =
     (case dget body ''canonical_payload'' of
        Some (PDict payload) \<Rightarrow> extract_outbound_reply_context env payload
      | _ \<Rightarrow> extract_outbound_reply_context env body)"

section \<open>What the rendering does to a reply\<close>

lemma drop_cites_id: "CHR ''['' \<notin> set s \<Longrightarrow> drop_cites s = s"
proof (induction s)
  case (Cons c s)
  have "cite_at (c # s) = None"
    using Cons.prems set_dropWhileD [of "CHR ''[''" py_space "c # s"]
    by (auto simp: cite_at_def split: list.split)
  then show ?case using Cons by simp
qed simp

text \<open>Two corners of the citation scanner: what is left of nested marks is a mark, and the
  whitespace taken with a mark includes the paragraph break before it.\<close>

lemma citation_left_over: "strip_citation_marks ''[[1]2]'' = ''[2]''"
  by (simp add: strip_citation_marks_def cite_at_def after_digits_def is_digit_def py_space_def cite_tail.simps)

lemma paragraph_break_lost:
  "strip_citation_marks (''Done.'' @ newline @ newline @ ''[1] See below'') = ''Done. See below''"
  by (simp add: strip_citation_marks_def cite_at_def after_digits_def is_digit_def py_space_def cite_tail.simps
      newline_def)

end
