(* ===== verification/Delivery_Service.thy ===== *)
theory Delivery_Service
  imports Delivery_Store Reply_Template
begin

text \<open>
  The services that send a governed reply to a customer: by email
  (\<open>app/services/email_customer_reply_service.py\<close>) and by WhatsApp
  (\<open>app/services/whatsapp_customer_reply_service.py\<close>).  \<open>send_draft\<close> checks the persisted
  draft, proposal and governance decision again, reserves the delivery and commits, calls
  the provider, and settles the delivery; begin and settle are one step each, the provider's
  call lies between them.  The tenant's channel configuration and the provider are
  parameters.
\<close>

section \<open>What both channels share\<close>

record channel_ports =
  cp_credentials :: "string \<Rightarrow> string \<Rightarrow> metadata result"
    \<comment> \<open>\<open>load_channel_credentials\<close>: tenant, channel\<close>
  cp_route :: "string \<Rightarrow> string \<Rightarrow> string \<Rightarrow> bool result"
    \<comment> \<open>\<open>resolve_active_channel_for_routing_address\<close> is not None: tenant, channel, address\<close>

datatype sender_answer =
    SENDER_ACCEPTED string int
    \<comment> \<open>provider message id and status code\<close>
  | SENDER_REFUSED int
    \<comment> \<open>the provider's own error class, with a status code\<close>
  | SENDER_RAISED string
    \<comment> \<open>any other exception: its class\<close>

record reply_result =
  rr_delivery_id :: uuid
  rr_status :: string
  rr_provider_id :: "string option"
  rr_transmitted :: bool
  rr_replay :: bool

definition reply_error :: "string \<Rightarrow> string \<Rightarrow> string \<Rightarrow> error" where
  "reply_error channel kind message = CustomerReplyError (channel @ ''CustomerReply'' @ kind @ ''Error'') message"

definition sha256_text :: "py_env \<Rightarrow> string \<Rightarrow> string" where
  "sha256_text env value = sha256_hex env value"

definition load_sendable_draft ::
  "py_env \<Rightarrow> string \<Rightarrow> resolution_store \<Rightarrow> string \<Rightarrow> string \<Rightarrow> draft result" where
  "load_sendable_draft env channel rs draft_id expected_tenant_id =
     (let denied = reply_error channel ''Governance'' in
      on_ok (require (get_draft rs draft_id expected_tenant_id)
               (reply_error channel ''NotFound'' ''outbound draft not found'')) (\<lambda>d.
      on_ok (raise_unless (rd_status d = RD_READY) (denied ''outbound draft is not ready to send'')) (\<lambda>_.
      on_ok (raise_unless (rd_decision_id d \<noteq> None) (denied ''outbound draft has no governance decision'')) (\<lambda>_.
      on_ok (raise_unless (rd_body_sha256 d = sha256_text env (rd_body d))
               (denied ''outbound draft body hash mismatch'')) (\<lambda>_.
      on_ok (raise_unless
               (case dget (rd_metadata d) ''localized_reply'' of Some (PStr t) \<Rightarrow> t = rd_body d | _ \<Rightarrow> True)
               (denied ''outbound draft localized reply mismatch'')) (\<lambda>_. Inr d))))))"

definition load_sendable_proposal ::
  "string \<Rightarrow> resolution_store \<Rightarrow> string \<Rightarrow> string \<Rightarrow> proposal result" where
  "load_sendable_proposal channel rs proposal_id expected_tenant_id =
     on_ok (require (get_proposal rs proposal_id expected_tenant_id)
              (reply_error channel ''NotFound'' ''resolution proposal not found'')) (\<lambda>p.
     on_ok (raise_unless (rp_status p = RP_SEND_ELIGIBLE \<and> rp_decision_id p \<noteq> None)
              (reply_error channel ''Governance'' ''resolution proposal is not send eligible'')) (\<lambda>_. Inr p))"

definition assert_expected_outbox_guards ::
  "py_env \<Rightarrow> string \<Rightarrow> draft \<Rightarrow> string option \<Rightarrow> string option \<Rightarrow> unit result" where
  "assert_expected_outbox_guards env channel d expected_decision_id expected_sha256 =
     on_ok (case expected_decision_id of
              None \<Rightarrow> Inr ()
            | Some i \<Rightarrow>
                on_ok (require (uuid_parse env i) (ValueError ''badly formed hexadecimal UUID string'')) (\<lambda>u.
                  raise_unless (rd_decision_id d = Some u)
                    (reply_error channel ''Governance'' ''outbox governance decision mismatch''))) (\<lambda>_.
     (case expected_sha256 of
        None \<Rightarrow> Inr ()
      | Some h \<Rightarrow>
          raise_unless (rd_body_sha256 d = str_lower env (py_strip h))
            (reply_error channel ''Governance'' ''outbox draft body hash mismatch'')))"

definition assert_draft_and_proposal_lineage :: "string \<Rightarrow> draft \<Rightarrow> proposal \<Rightarrow> unit result" where
  "assert_draft_and_proposal_lineage channel d p =
     (let denied = reply_error channel ''Governance'' in
      on_ok (raise_unless (rd_tenant_id d = rp_tenant_id p) (denied ''tenant lineage mismatch'')) (\<lambda>_.
      on_ok (raise_unless (rd_proposal_id d = rp_proposal_id p) (denied ''proposal lineage mismatch'')) (\<lambda>_.
      raise_unless (rd_decision_id d = rp_decision_id p) (denied ''governance decision lineage mismatch''))))"

text \<open>\<open>str(metadata.get(key))\<close>.\<close>

definition str_of_entry :: "py_env \<Rightarrow> metadata \<Rightarrow> string \<Rightarrow> string" where
  "str_of_entry env md key = (case dget md key of None \<Rightarrow> ''None'' | Some v \<Rightarrow> py_str env v)"

definition governed_reply :: "draft \<Rightarrow> string" where
  "governed_reply d =
     (case dget (rd_metadata d) ''canonical_reply'' of Some (PStr (c # t)) \<Rightarrow> c # t | _ \<Rightarrow> rd_body d)"

definition assert_persisted_governance_allow ::
  "py_env \<Rightarrow> string \<Rightarrow> governance_store \<Rightarrow> draft \<Rightarrow> proposal \<Rightarrow> string \<Rightarrow> unit result" where
  "assert_persisted_governance_allow env channel gs d p expected_tenant_id =
     (let denied = reply_error channel ''Governance'' in
      on_ok (require (rd_decision_id d) (denied ''outbound draft has no governance decision'')) (\<lambda>i.
      on_ok (require (get_decision gs i (Some expected_tenant_id))
               (denied ''governance decision is not visible for tenant'')) (\<lambda>g.
      on_ok (raise_unless (dr_decision g = decision_value ALLOW) (denied ''governance decision is not allow'')) (\<lambda>_.
      on_ok (raise_unless (dr_tenant_id g = Some expected_tenant_id)
               (denied ''governance decision tenant mismatch'')) (\<lambda>_.
      on_ok (raise_unless (str_of_entry env (dr_metadata g) ''proposal_id'' = rp_proposal_id p)
               (denied ''governance decision proposal mismatch'')) (\<lambda>_.
      raise_unless (dget (dr_metadata g) ''proposed_reply_sha256'' = Some (PStr (sha256_text env (governed_reply d))))
        (denied ''governance decision reply hash mismatch'')))))))"

text \<open>The first of the keys with a non-blank string.\<close>

fun optional_credential_string :: "metadata \<Rightarrow> string list \<Rightarrow> string option" where
  "optional_credential_string credentials [] = None"
| "optional_credential_string credentials (key # keys) =
     (case payload_text credentials key of
        Some t \<Rightarrow> Some t
      | None \<Rightarrow> optional_credential_string credentials keys)"

definition optional_text :: "string option \<Rightarrow> string option" where
  "optional_text value = (case value of None \<Rightarrow> None | Some v \<Rightarrow> nonempty_text v)"

text \<open>\<open>int(code.removeprefix(prefix))\<close> and the statuses worth another attempt.\<close>

definition error_is_retryable :: "py_env \<Rightarrow> string \<Rightarrow> string option \<Rightarrow> bool" where
  "error_is_retryable env start failure =
     (case failure of
        None \<Rightarrow> False
      | Some code \<Rightarrow>
          if take (length start) code \<noteq> start then False
          else case int_of_str env (drop (length start) code) of
            None \<Rightarrow> False
          | Some n \<Rightarrow> n = 429 \<or> 500 \<le> n)"

section \<open>Email\<close>

record email_request =
  er_draft_id :: string
  er_tenant_id :: string
  er_expected_tenant_id :: string
  er_recipient :: string
  er_subject :: string
  er_source :: "string option"
  er_in_reply_to :: "string option"
  er_references :: "string option"
  er_expected_decision_id :: "string option"
  er_expected_sha256 :: "string option"
  er_allow_retry :: bool
  er_display_name :: "string option"

record ses_credentials =
  sc_access_key_id :: string
  sc_secret_access_key :: string
  sc_region :: string
  sc_source :: string
  sc_session_token :: "string option"
  sc_endpoint_url :: "string option"
  sc_configuration_set :: "string option"

record ses_message =
  sm_credentials :: ses_credentials
  sm_from :: string
  sm_recipient :: string
  sm_subject :: string
  sm_body :: string
  sm_in_reply_to :: "string option"
  sm_references :: "string option"

definition resolved_source_email_address ::
  "py_env \<Rightarrow> metadata \<Rightarrow> string option \<Rightarrow> string result" where
  "resolved_source_email_address env credentials requested_source =
     (let configured = optional_credential_string credentials
            [''source_email_address'', ''from_email_address'', ''ses_source_email_address''];
          requested = optional_text requested_source
      in case (requested, configured) of
           (Some r, Some c) \<Rightarrow>
             if str_lower env r \<noteq> str_lower env c then
               Inl (reply_error ''Email'' ''Configuration''
                 ''requested source_email_address does not match tenant credentials'')
             else Inr (str_lower env r)
         | (Some r, None) \<Rightarrow> Inr (str_lower env r)
         | (None, Some c) \<Rightarrow> Inr (str_lower env c)
         | (None, None) \<Rightarrow>
             Inl (reply_error ''Email'' ''Configuration'' ''tenant email source_email_address is required''))"

text \<open>\<open>source.rsplit("@", 1)[1]\<close>.\<close>

definition domain_of :: "string \<Rightarrow> string" where
  "domain_of s = rev (takeWhile (\<lambda>c. c \<noteq> CHR ''@'') (rev s))"

definition email_credential :: "metadata \<Rightarrow> string \<Rightarrow> string list \<Rightarrow> string result" where
  "email_credential credentials key keys =
     require (optional_credential_string credentials (key # keys))
       (reply_error ''Email'' ''Configuration'' (''tenant email credential '' @ key @ '' is required''))"

definition load_ses_credentials ::
  "py_env \<Rightarrow> channel_ports \<Rightarrow> string \<Rightarrow> string option \<Rightarrow> ses_credentials result" where
  "load_ses_credentials env pt tenant_id source_email_address =
     on_ok (cp_credentials pt tenant_id ''email'') (\<lambda>credentials.
     on_ok (resolved_source_email_address env credentials source_email_address) (\<lambda>source.
     on_ok (cp_route pt tenant_id ''email'' source) (\<lambda>exact.
     on_ok (if \<not> exact \<and> CHR ''@'' \<in> set source
            then cp_route pt tenant_id ''email'' (str_lower env (domain_of source)) else Inr exact) (\<lambda>routed.
     on_ok (raise_unless routed
              (reply_error ''Email'' ''Configuration'' ''active email channel route is not configured'')) (\<lambda>_.
     on_ok (email_credential credentials ''access_key_id'' [''aws_access_key_id'']) (\<lambda>access_key.
     on_ok (email_credential credentials ''secret_access_key'' [''aws_secret_access_key'']) (\<lambda>secret.
     on_ok (email_credential credentials ''region'' [''aws_region'', ''ses_region'']) (\<lambda>region.
       Inr \<lparr>sc_access_key_id = access_key, sc_secret_access_key = secret, sc_region = region, sc_source = source,
            sc_session_token = optional_credential_string credentials [''session_token'', ''aws_session_token''],
            sc_endpoint_url = optional_credential_string credentials [''endpoint_url'', ''ses_endpoint_url''],
            sc_configuration_set =
              optional_credential_string credentials [''configuration_set_name'', ''ses_configuration_set_name'']\<rparr>
     ))))))))"

definition assert_email_delivery_matches ::
  "email_delivery \<Rightarrow> string \<Rightarrow> string \<Rightarrow> string \<Rightarrow> draft \<Rightarrow> string option \<Rightarrow> string option \<Rightarrow> unit result" where
  "assert_email_delivery_matches r source recipient subject d in_reply_to refs =
     (let conflict = (\<lambda>what. reply_error ''Email'' ''Governance'' (''delivery idempotency '' @ what @ '' conflict'')) in
      on_ok (raise_unless (ed_source r = source) (conflict ''source email'')) (\<lambda>_.
      on_ok (raise_unless (ed_recipient r = recipient) (conflict ''recipient'')) (\<lambda>_.
      on_ok (raise_unless (ed_subject r = subject) (conflict ''subject'')) (\<lambda>_.
      on_ok (raise_unless (ed_body_sha256 r = rd_body_sha256 d) (conflict ''draft body'')) (\<lambda>_.
      on_ok (raise_unless (ed_in_reply_to r = in_reply_to) (conflict ''in-reply-to'')) (\<lambda>_.
      raise_unless (ed_references r = refs) (conflict ''references'')))))))"

datatype 'm send_plan =
    ANSWERED reply_result
  | TRANSMIT uuid 'm
    \<comment> \<open>reserved delivery and the message for the provider\<close>

text \<open>The checks of \<open>_send_draft_scoped\<close> before the reservation: draft, proposal, guards,
  lineage, governance, credentials.\<close>

definition check_email_draft ::
  "py_env \<Rightarrow> channel_ports \<Rightarrow> resolution_store \<Rightarrow> governance_store \<Rightarrow> email_request
     \<Rightarrow> (string \<times> string \<times> draft \<times> ses_credentials \<times> uuid \<times> uuid) result" where
  "check_email_draft env pt rs gs q =
     (let t = er_expected_tenant_id q in
      on_ok (raise_unless (er_tenant_id q = t) (ValueError ''tenant_id does not match expected_tenant_id'')) (\<lambda>_.
      on_ok (required_text ''recipient_email_address'' (er_recipient q)) (\<lambda>recipient.
      on_ok (required_text ''subject'' (er_subject q)) (\<lambda>subject.
      on_ok (load_sendable_draft env ''Email'' rs (er_draft_id q) t) (\<lambda>d.
      on_ok (load_sendable_proposal ''Email'' rs (rd_proposal_id d) t) (\<lambda>p.
      on_ok (assert_expected_outbox_guards env ''Email'' d (er_expected_decision_id q) (er_expected_sha256 q)) (\<lambda>_.
      on_ok (assert_draft_and_proposal_lineage ''Email'' d p) (\<lambda>_.
      on_ok (assert_persisted_governance_allow env ''Email'' gs d p t) (\<lambda>_.
      on_ok (load_ses_credentials env pt (er_tenant_id q) (er_source q)) (\<lambda>credentials.
      on_ok (require (rd_decision_id d) (reply_error ''Email'' ''Governance'' ''outbound draft has no governance decision'')) (\<lambda>decision.
      on_ok (derive_email_delivery_id env (er_tenant_id q) (rd_draft_id d) decision) (\<lambda>delivery_id.
        Inr (recipient, subject, d, credentials, decision, delivery_id)))))))))))))"

definition new_email_delivery ::
  "email_request \<Rightarrow> string \<Rightarrow> string \<Rightarrow> draft \<Rightarrow> ses_credentials \<Rightarrow> uuid \<Rightarrow> uuid \<Rightarrow> int \<Rightarrow> email_delivery" where
  "new_email_delivery q recipient subject d credentials decision delivery_id now =
     \<lparr>ed_delivery_id = delivery_id, ed_tenant_id = er_tenant_id q, ed_draft_id = rd_draft_id d,
      ed_proposal_id = rd_proposal_id d, ed_decision_id = decision, ed_source = sc_source credentials,
      ed_recipient = recipient, ed_body_sha256 = rd_body_sha256 d, ed_subject = subject,
      ed_in_reply_to = optional_text (er_in_reply_to q), ed_references = optional_text (er_references q),
      ed_status = DS_PENDING, ed_provider_id = None, ed_status_code = None, ed_error_code = None,
      ed_created_at = now, ed_updated_at = now, ed_sent_at = None,
      ed_metadata = [(''channel'', PStr ''email''), (''source'', PStr ''resolution_outbound_draft''),
        (''proposal_id'', PStr (rd_proposal_id d))]\<rparr>"

definition ses_message_for ::
  "py_env \<Rightarrow> email_request \<Rightarrow> string \<Rightarrow> string \<Rightarrow> draft \<Rightarrow> ses_credentials \<Rightarrow> ses_message" where
  "ses_message_for env q recipient subject d credentials =
     (let ticket = derive_ticket_reference env (rd_session_id d)
      in \<lparr>sm_credentials = credentials, sm_from = sc_source credentials, sm_recipient = recipient,
          sm_subject = render_customer_email_subject subject ticket,
          sm_body = render_customer_email_body env (rd_body d) ticket (er_tenant_id q) (er_display_name q),
          sm_in_reply_to = optional_text (er_in_reply_to q), sm_references = optional_text (er_references q)\<rparr>)"

definition replayed :: "uuid \<Rightarrow> string \<Rightarrow> string option \<Rightarrow> reply_result" where
  "replayed delivery_id status provider_id =
     \<lparr>rr_delivery_id = delivery_id, rr_status = status, rr_provider_id = provider_id, rr_transmitted = False,
      rr_replay = True\<rparr>"

definition begin_email_send ::
  "py_env \<Rightarrow> channel_ports \<Rightarrow> resolution_store \<Rightarrow> governance_store \<Rightarrow> int \<Rightarrow> email_request \<Rightarrow> email_ledger
     \<Rightarrow> ses_message send_plan result \<times> email_ledger" where
  "begin_email_send env pt rs gs now q s =
     (case check_email_draft env pt rs gs q of
        Inl e \<Rightarrow> (Inl e, s)
      | Inr (recipient, subject, d, credentials, decision, delivery_id) \<Rightarrow>
     (case reserve_email_delivery s (new_email_delivery q recipient subject d credentials decision delivery_id now)
             (er_expected_tenant_id q) of
        (Inl e, s') \<Rightarrow> (Inl e, s')
      | (Inr (r, created), s') \<Rightarrow>
          (on_ok (assert_email_delivery_matches r (sc_source credentials) recipient subject d
                    (optional_text (er_in_reply_to q)) (optional_text (er_references q))) (\<lambda>_.
             let transmit = Inr (TRANSMIT delivery_id (ses_message_for env q recipient subject d credentials))
             in if created then transmit
                else case ed_status r of
                  DS_SENT \<Rightarrow> Inr (ANSWERED (replayed (ed_delivery_id r) ''already_sent'' (ed_provider_id r)))
                | DS_PENDING \<Rightarrow> Inr (ANSWERED (replayed (ed_delivery_id r) ''pending'' (ed_provider_id r)))
                | DS_FAILED \<Rightarrow>
                    if er_allow_retry q \<and> error_is_retryable env ''ses_v2_http_'' (ed_error_code r) then transmit
                    else Inl (reply_error ''Email'' ''Provider''
                      ''email delivery previously failed and is not auto-retried'')), s')))"

definition settle_email_send ::
  "email_ledger \<Rightarrow> uuid \<Rightarrow> string \<Rightarrow> int \<Rightarrow> sender_answer \<Rightarrow> reply_result result \<times> email_ledger" where
  "settle_email_send s delivery_id expected_tenant_id now answer =
     (case answer of
        SENDER_REFUSED code \<Rightarrow>
          (case mark_email_delivery_failed s delivery_id expected_tenant_id (''ses_v2_http_'' @ show_int code) now (Some code) of
             (Inl e, s') \<Rightarrow> (Inl e, s')
           | (Inr r, s') \<Rightarrow> (Inl (reply_error ''Email'' ''Provider'' ''ses v2 rejected the message''), s'))
      | SENDER_RAISED cls \<Rightarrow>
          (case mark_email_delivery_failed s delivery_id expected_tenant_id cls now None of
             (Inl e, s') \<Rightarrow> (Inl e, s')
           | (Inr r, s') \<Rightarrow> (Inl (reply_error ''Email'' ''Provider'' ''ses v2 send failed''), s'))
      | SENDER_ACCEPTED provider_id code \<Rightarrow>
          (case mark_email_delivery_sent s delivery_id expected_tenant_id provider_id code now of
             (Inl e, s') \<Rightarrow> (Inl e, s')
           | (Inr r, s') \<Rightarrow>
               (Inr \<lparr>rr_delivery_id = ed_delivery_id r, rr_status = ''sent'', rr_provider_id = ed_provider_id r,
                     rr_transmitted = True, rr_replay = False\<rparr>, s')))"

text \<open>The whole call, with a provider that answers as a function of its own state.\<close>

definition send_email_draft ::
  "py_env \<Rightarrow> channel_ports \<Rightarrow> ('x \<Rightarrow> ses_message \<Rightarrow> sender_answer \<times> 'x) \<Rightarrow> resolution_store \<Rightarrow> governance_store
     \<Rightarrow> int \<Rightarrow> email_request \<Rightarrow> email_ledger \<Rightarrow> 'x \<Rightarrow> reply_result result \<times> email_ledger \<times> 'x" where
  "send_email_draft env pt sender rs gs now q s x =
     (case begin_email_send env pt rs gs now q s of
        (Inl e, s') \<Rightarrow> (Inl e, s', x)
      | (Inr (ANSWERED r), s') \<Rightarrow> (Inr r, s', x)
      | (Inr (TRANSMIT delivery_id message), s') \<Rightarrow>
          (case sender x message of (answer, x') \<Rightarrow>
          (case settle_email_send s' delivery_id (er_expected_tenant_id q) now answer of
             (res, s'') \<Rightarrow> (res, s'', x'))))"

end
