(* ===== verification/Delivery_WhatsApp.thy ===== *)
theory Delivery_WhatsApp
  imports Delivery_Service Outbound_Runtime
begin

text \<open>
  The WhatsApp twin of the email service (\<open>app/services/whatsapp_customer_reply_service.py\<close>) and
  the composed executor of the send worker (\<open>app/workers/outbound_send_tasks.py\<close>), which
  hands an outbox row to the service of its channel.
\<close>

section \<open>WhatsApp\<close>

record whatsapp_request =
  wq_draft_id :: string
  wq_tenant_id :: string
  wq_expected_tenant_id :: string
  wq_recipient :: string
  wq_phone_number_id :: "string option"
  wq_expected_decision_id :: "string option"
  wq_expected_sha256 :: "string option"
  wq_allow_retry :: bool

record whatsapp_credentials =
  wc_access_token :: string
  wc_phone_number_id :: string
  wc_graph_api_version :: string
  wc_graph_api_base_url :: string

record graph_message =
  gm_credentials :: whatsapp_credentials
  gm_recipient :: string
  gm_body :: string

definition resolved_phone_number_id :: "metadata \<Rightarrow> string option \<Rightarrow> string result" where
  "resolved_phone_number_id credentials requested_phone_number_id =
     (let configured = optional_credential_string credentials [''phone_number_id'', ''whatsapp_phone_number_id''];
          requested = optional_text requested_phone_number_id
      in case (requested, configured) of
           (Some r, Some c) \<Rightarrow>
             if r \<noteq> c then
               Inl (reply_error ''WhatsApp'' ''Configuration''
                 ''requested phone_number_id does not match tenant credentials'')
             else Inr r
         | (Some r, None) \<Rightarrow> Inr r
         | (None, Some c) \<Rightarrow> Inr c
         | (None, None) \<Rightarrow>
             Inl (reply_error ''WhatsApp'' ''Configuration'' ''tenant whatsapp phone_number_id is required''))"

definition whatsapp_credential :: "metadata \<Rightarrow> string \<Rightarrow> string list \<Rightarrow> string result" where
  "whatsapp_credential credentials key keys =
     require (optional_credential_string credentials (key # keys))
       (reply_error ''WhatsApp'' ''Configuration'' (''tenant whatsapp credential '' @ key @ '' is required''))"

definition load_whatsapp_credentials ::
  "channel_ports \<Rightarrow> string \<Rightarrow> string option \<Rightarrow> whatsapp_credentials result" where
  "load_whatsapp_credentials pt tenant_id phone_number_id =
     on_ok (cp_credentials pt tenant_id ''whatsapp'') (\<lambda>credentials.
     on_ok (resolved_phone_number_id credentials phone_number_id) (\<lambda>phone.
     on_ok (cp_route pt tenant_id ''whatsapp'' phone) (\<lambda>routed.
     on_ok (raise_unless routed
              (reply_error ''WhatsApp'' ''Configuration'' ''active whatsapp channel route is not configured'')) (\<lambda>_.
     on_ok (whatsapp_credential credentials ''access_token'' [''graph_api_access_token'', ''bearer_token'']) (\<lambda>token.
     on_ok (whatsapp_credential credentials ''graph_api_version'' []) (\<lambda>version.
       Inr \<lparr>wc_access_token = token, wc_phone_number_id = phone, wc_graph_api_version = version,
            wc_graph_api_base_url =
              (case optional_credential_string credentials [''graph_api_base_url''] of
                 Some u \<Rightarrow> u | None \<Rightarrow> ''https://graph.facebook.com'')\<rparr>))))))"

definition assert_whatsapp_delivery_matches ::
  "whatsapp_delivery \<Rightarrow> string \<Rightarrow> string \<Rightarrow> draft \<Rightarrow> unit result" where
  "assert_whatsapp_delivery_matches r phone_number_id recipient d =
     (let conflict = (\<lambda>what. reply_error ''WhatsApp'' ''Governance'' (''delivery idempotency '' @ what @ '' conflict'')) in
      on_ok (raise_unless (wm_phone_number_id r = phone_number_id) (conflict ''phone_number_id'')) (\<lambda>_.
      on_ok (raise_unless (wm_recipient r = recipient) (conflict ''recipient'')) (\<lambda>_.
      raise_unless (wm_body_sha256 r = rd_body_sha256 d) (conflict ''draft body''))))"

definition check_whatsapp_draft ::
  "py_env \<Rightarrow> channel_ports \<Rightarrow> resolution_store \<Rightarrow> governance_store \<Rightarrow> whatsapp_request
     \<Rightarrow> (string \<times> draft \<times> whatsapp_credentials \<times> uuid \<times> uuid) result" where
  "check_whatsapp_draft env pt rs gs q =
     (let t = wq_expected_tenant_id q in
      on_ok (raise_unless (wq_tenant_id q = t) (ValueError ''tenant_id does not match expected_tenant_id'')) (\<lambda>_.
      on_ok (required_text ''recipient_phone_number'' (wq_recipient q)) (\<lambda>recipient.
      on_ok (load_sendable_draft env ''WhatsApp'' rs (wq_draft_id q) t) (\<lambda>d.
      on_ok (load_sendable_proposal ''WhatsApp'' rs (rd_proposal_id d) t) (\<lambda>p.
      on_ok (assert_expected_outbox_guards env ''WhatsApp'' d (wq_expected_decision_id q) (wq_expected_sha256 q)) (\<lambda>_.
      on_ok (assert_draft_and_proposal_lineage ''WhatsApp'' d p) (\<lambda>_.
      on_ok (assert_persisted_governance_allow env ''WhatsApp'' gs d p t) (\<lambda>_.
      on_ok (load_whatsapp_credentials pt (wq_tenant_id q) (wq_phone_number_id q)) (\<lambda>credentials.
      on_ok (require (rd_decision_id d) (reply_error ''WhatsApp'' ''Governance'' ''outbound draft has no governance decision'')) (\<lambda>decision.
      on_ok (derive_whatsapp_delivery_id env (wq_tenant_id q) (rd_draft_id d) decision) (\<lambda>delivery_id.
        Inr (recipient, d, credentials, decision, delivery_id))))))))))))"

definition new_whatsapp_delivery ::
  "whatsapp_request \<Rightarrow> string \<Rightarrow> draft \<Rightarrow> whatsapp_credentials \<Rightarrow> uuid \<Rightarrow> uuid \<Rightarrow> int \<Rightarrow> whatsapp_delivery" where
  "new_whatsapp_delivery q recipient d credentials decision delivery_id now =
     \<lparr>wm_delivery_id = delivery_id, wm_tenant_id = wq_tenant_id q, wm_draft_id = rd_draft_id d,
      wm_proposal_id = rd_proposal_id d, wm_decision_id = decision,
      wm_phone_number_id = wc_phone_number_id credentials, wm_recipient = recipient,
      wm_body_sha256 = rd_body_sha256 d, wm_status = DS_PENDING, wm_provider_id = None, wm_status_code = None,
      wm_error_code = None, wm_created_at = now, wm_updated_at = now, wm_sent_at = None,
      wm_metadata = [(''channel'', PStr ''whatsapp''), (''source'', PStr ''resolution_outbound_draft''),
        (''proposal_id'', PStr (rd_proposal_id d))]\<rparr>"

definition graph_message_for :: "string \<Rightarrow> draft \<Rightarrow> whatsapp_credentials \<Rightarrow> graph_message" where
  "graph_message_for recipient d credentials =
     \<lparr>gm_credentials = credentials, gm_recipient = recipient, gm_body = render_customer_whatsapp_body (rd_body d)\<rparr>"

definition begin_whatsapp_send ::
  "py_env \<Rightarrow> channel_ports \<Rightarrow> resolution_store \<Rightarrow> governance_store \<Rightarrow> int \<Rightarrow> whatsapp_request \<Rightarrow> whatsapp_ledger
     \<Rightarrow> graph_message send_plan result \<times> whatsapp_ledger" where
  "begin_whatsapp_send env pt rs gs now q s =
     (case check_whatsapp_draft env pt rs gs q of
        Inl e \<Rightarrow> (Inl e, s)
      | Inr (recipient, d, credentials, decision, delivery_id) \<Rightarrow>
     (case reserve_whatsapp_delivery s (new_whatsapp_delivery q recipient d credentials decision delivery_id now)
             (wq_expected_tenant_id q) of
        (Inl e, s') \<Rightarrow> (Inl e, s')
      | (Inr (r, created), s') \<Rightarrow>
          (on_ok (assert_whatsapp_delivery_matches r (wc_phone_number_id credentials) recipient d) (\<lambda>_.
             let transmit = Inr (TRANSMIT delivery_id (graph_message_for recipient d credentials))
             in if created then transmit
                else case wm_status r of
                  DS_SENT \<Rightarrow> Inr (ANSWERED (replayed (wm_delivery_id r) ''already_sent'' (wm_provider_id r)))
                | DS_PENDING \<Rightarrow> Inr (ANSWERED (replayed (wm_delivery_id r) ''pending'' (wm_provider_id r)))
                | DS_FAILED \<Rightarrow>
                    if wq_allow_retry q \<and> error_is_retryable env ''whatsapp_graph_http_'' (wm_error_code r) then transmit
                    else Inl (reply_error ''WhatsApp'' ''Provider''
                      ''whatsapp delivery previously failed and is not auto-retried'')), s')))"

definition settle_whatsapp_send ::
  "whatsapp_ledger \<Rightarrow> uuid \<Rightarrow> string \<Rightarrow> int \<Rightarrow> sender_answer \<Rightarrow> reply_result result \<times> whatsapp_ledger" where
  "settle_whatsapp_send s delivery_id expected_tenant_id now answer =
     (case answer of
        SENDER_REFUSED code \<Rightarrow>
          (case mark_whatsapp_delivery_failed s delivery_id expected_tenant_id
                  (''whatsapp_graph_http_'' @ show_int code) now (Some code) of
             (Inl e, s') \<Rightarrow> (Inl e, s')
           | (Inr r, s') \<Rightarrow> (Inl (reply_error ''WhatsApp'' ''Provider'' ''whatsapp graph api rejected the message''), s'))
      | SENDER_RAISED cls \<Rightarrow>
          (case mark_whatsapp_delivery_failed s delivery_id expected_tenant_id cls now None of
             (Inl e, s') \<Rightarrow> (Inl e, s')
           | (Inr r, s') \<Rightarrow> (Inl (reply_error ''WhatsApp'' ''Provider'' ''whatsapp graph api send failed''), s'))
      | SENDER_ACCEPTED provider_id code \<Rightarrow>
          (case mark_whatsapp_delivery_sent s delivery_id expected_tenant_id provider_id code now of
             (Inl e, s') \<Rightarrow> (Inl e, s')
           | (Inr r, s') \<Rightarrow>
               (Inr \<lparr>rr_delivery_id = wm_delivery_id r, rr_status = ''sent'', rr_provider_id = wm_provider_id r,
                     rr_transmitted = True, rr_replay = False\<rparr>, s')))"

definition send_whatsapp_draft ::
  "py_env \<Rightarrow> channel_ports \<Rightarrow> ('x \<Rightarrow> graph_message \<Rightarrow> sender_answer \<times> 'x) \<Rightarrow> resolution_store \<Rightarrow> governance_store
     \<Rightarrow> int \<Rightarrow> whatsapp_request \<Rightarrow> whatsapp_ledger \<Rightarrow> 'x \<Rightarrow> reply_result result \<times> whatsapp_ledger \<times> 'x" where
  "send_whatsapp_draft env pt sender rs gs now q s x =
     (case begin_whatsapp_send env pt rs gs now q s of
        (Inl e, s') \<Rightarrow> (Inl e, s', x)
      | (Inr (ANSWERED r), s') \<Rightarrow> (Inr r, s', x)
      | (Inr (TRANSMIT delivery_id message), s') \<Rightarrow>
          (case sender x message of (answer, x') \<Rightarrow>
          (case settle_whatsapp_send s' delivery_id (wq_expected_tenant_id q) now answer of
             (res, s'') \<Rightarrow> (res, s'', x'))))"

section \<open>The executor of the send worker\<close>

record 'x reply_world =
  yw_resolution :: resolution_store
  yw_governance :: governance_store
  yw_emails :: email_ledger
  yw_whatsapps :: whatsapp_ledger
  yw_provider :: 'x

record 'x reply_senders =
  ys_email :: "'x \<Rightarrow> ses_message \<Rightarrow> sender_answer \<times> 'x"
  ys_whatsapp :: "'x \<Rightarrow> graph_message \<Rightarrow> sender_answer \<times> 'x"

text \<open>\<open>str(metadata.get(key)).strip() or None\<close>.\<close>

definition metadata_text :: "py_env \<Rightarrow> metadata \<Rightarrow> string \<Rightarrow> string option" where
  "metadata_text env md key =
     (case dget md key of None \<Rightarrow> None | Some PNone \<Rightarrow> None | Some v \<Rightarrow> nonempty_text (py_str env v))"

definition send_result_from_delivery_result :: "reply_result \<Rightarrow> send_result" where
  "send_result_from_delivery_result r =
     (if rr_status r = ''pending'' then DELIVERY_PENDING
      else if rr_status r = ''already_sent'' then DELIVERED (rr_provider_id r)
      else DELIVERED (Some (case rr_provider_id r of Some (c # t) \<Rightarrow> c # t | _ \<Rightarrow> ''sent'')))"

definition email_request_of :: "py_env \<Rightarrow> send_row \<Rightarrow> email_request" where
  "email_request_of env r =
     \<lparr>er_draft_id = so_draft_id r, er_tenant_id = so_tenant_id r, er_expected_tenant_id = so_tenant_id r,
      er_recipient = so_recipient r,
      er_subject = (case metadata_text env (so_metadata r) ''subject'' of Some t \<Rightarrow> t | None \<Rightarrow> ''Re: Support request''),
      er_source = metadata_text env (so_metadata r) ''source'', er_in_reply_to = metadata_text env (so_metadata r) ''in_reply_to_message_id'',
      er_references = metadata_text env (so_metadata r) ''references_header'', er_expected_decision_id = Some (so_decision_id r),
      er_expected_sha256 = Some (so_body_sha256 r), er_allow_retry = True,
      er_display_name = metadata_text env (so_metadata r) ''recipient_display_name''\<rparr>"

definition whatsapp_request_of :: "py_env \<Rightarrow> send_row \<Rightarrow> whatsapp_request" where
  "whatsapp_request_of env r =
     \<lparr>wq_draft_id = so_draft_id r, wq_tenant_id = so_tenant_id r, wq_expected_tenant_id = so_tenant_id r,
      wq_recipient = so_recipient r,
      wq_phone_number_id = str_or (metadata_text env (so_metadata r) ''source'') (metadata_text env (so_metadata r) ''phone_number_id''),
      wq_expected_decision_id = Some (so_decision_id r), wq_expected_sha256 = Some (so_body_sha256 r),
      wq_allow_retry = True\<rparr>"

definition executor_answer :: "reply_result result \<Rightarrow> (string \<times> string) + send_result" where
  "executor_answer res = (case res of Inl e \<Rightarrow> Inl (error_text e) | Inr r \<Rightarrow> Inr (send_result_from_delivery_result r))"

definition composed_executor ::
  "py_env \<Rightarrow> channel_ports \<Rightarrow> 'x reply_senders \<Rightarrow> int \<Rightarrow> 'x reply_world executor" where
  "composed_executor env pt senders now y r =
     (if so_channel r = ''email'' then
        (case send_email_draft env pt (ys_email senders) (yw_resolution y) (yw_governance y) now (email_request_of env r)
                (yw_emails y) (yw_provider y) of
           (res, s, x) \<Rightarrow> (executor_answer res, y\<lparr>yw_emails := s, yw_provider := x\<rparr>))
      else if so_channel r = ''whatsapp'' then
        (case send_whatsapp_draft env pt (ys_whatsapp senders) (yw_resolution y) (yw_governance y) now
                (whatsapp_request_of env r) (yw_whatsapps y) (yw_provider y) of
           (res, s, x) \<Rightarrow> (executor_answer res, y\<lparr>yw_whatsapps := s, yw_provider := x\<rparr>))
      else (Inl (error_text (ValueError (''unsupported outbound send channel: '' @ so_channel r))), y))"

end
