(* ===== verification/Delivery_AutoSend.thy ===== *)
theory Delivery_AutoSend
  imports Delivery_WhatsApp
begin

text \<open>
  Creating the intent to send: \<open>OutboundAutoSendService\<close> of
  \<open>app/services/outbound_auto_send_service.py\<close>.  A ready draft becomes a row of the send
  outbox only if the persisted governance decision is an ALLOW that names exactly this
  proposal, draft, channel, recipient, thread and text; every other case is a typed refusal.
\<close>

record send_target =
  tg_channel :: string
  tg_recipient :: string
  tg_source :: "string option"
  tg_subject :: "string option"
  tg_thread_context :: "string option"
  tg_in_reply_to :: "string option"
  tg_references :: "string option"
  tg_metadata :: metadata

record auto_send_result =
  au_outbox :: "send_row option"
  au_reason :: "(string \<times> string) option"
    \<comment> \<open>code and message of a refusal\<close>

definition auto_send_refused :: "string \<Rightarrow> string \<Rightarrow> auto_send_result" where
  "auto_send_refused code message = \<lparr>au_outbox = None, au_reason = Some (code, message)\<rparr>"

definition governance_denied_reason :: "governance_store \<Rightarrow> draft \<Rightarrow> string \<Rightarrow> auto_send_result" where
  "governance_denied_reason gs d tenant_id =
     (let rule_ids =
        (case rd_decision_id d of
           None \<Rightarrow> []
         | Some i \<Rightarrow>
             (case get_decision gs i (Some tenant_id) of
                None \<Rightarrow> []
              | Some g \<Rightarrow> map vr_rule_id (filter (\<lambda>v. vr_decision v = decision_value DENY) (dr_violations g))));
          detail = (if rule_ids = [] then ''governance denied'' else joined '', '' rule_ids)
      in auto_send_refused ''proposal_governance_denied'' (''auto-send held for review: '' @ detail))"

definition non_sendable_reason :: "draft \<Rightarrow> proposal \<Rightarrow> auto_send_result option" where
  "non_sendable_reason d p =
     (if rp_status p = RP_PENDING_HUMAN_APPROVAL \<or> rd_status d = RD_PENDING_HUMAN_APPROVAL then
        Some (auto_send_refused ''require_approval'' ''governed auto-send is waiting for human approval'')
      else if rp_status p = RP_FAILED \<or> rd_status d = RD_FAILED then
        Some (auto_send_refused ''delivery_unavailable'' ''governed auto-send cannot proceed from a failed draft'')
      else None)"

text \<open>The last conjunct derives the draft's identity, which may raise.\<close>

definition draft_and_proposal_are_exact :: "py_env \<Rightarrow> draft \<Rightarrow> proposal \<Rightarrow> string \<Rightarrow> bool result" where
  "draft_and_proposal_are_exact env d p expected_tenant_id =
     (if rd_tenant_id d = expected_tenant_id \<and> rp_tenant_id p = expected_tenant_id \<and>
         rd_proposal_id d = rp_proposal_id p \<and> Some (rd_session_id d) = rp_session_id p \<and>
         Some (rd_execution_id d) = rp_execution_id p \<and> rd_dispatch_id d = rp_dispatch_id p \<and>
         rd_decision_id d \<noteq> None \<and> rd_decision_id d = rp_decision_id p \<and> rd_status d = RD_READY \<and>
         rp_status p = RP_SEND_ELIGIBLE \<and> rd_body_sha256 d = sha256_text env (rd_body d)
      then on_ok (derive_draft_id env expected_tenant_id (rp_proposal_id p)) (\<lambda>i. Inr (rd_draft_id d = i))
      else Inr False)"

definition canonical_reply_for_governance :: "draft \<Rightarrow> string" where
  "canonical_reply_for_governance d =
     (case dget (rd_metadata d) ''canonical_reply'' of
        Some (PStr v) \<Rightarrow> if py_strip v \<noteq> [] then v else rd_body d
      | _ \<Rightarrow> rd_body d)"

definition decision_is_exact_send_allow ::
  "py_env \<Rightarrow> decision_record \<Rightarrow> string \<Rightarrow> proposal \<Rightarrow> draft \<Rightarrow> string \<Rightarrow> string \<Rightarrow> string \<Rightarrow> string \<Rightarrow> bool" where
  "decision_is_exact_send_allow env g tenant_id p d channel recipient thread reply \<longleftrightarrow>
     dr_tenant_id g = Some tenant_id \<and> dr_decision g = decision_value ALLOW \<and>
     dr_subject_kind g = ''communication'' \<and>
     metadata_text env (dr_metadata g) ''proposal_id'' = Some (rp_proposal_id p) \<and>
     metadata_text env (dr_metadata g) ''session_id'' = Some (py_strip (rd_session_id d)) \<and>
     metadata_text env (dr_metadata g) ''execution_id'' = Some (py_strip (rd_execution_id d)) \<and>
     metadata_text env (dr_metadata g) ''dispatch_id'' = Some (py_strip (rd_dispatch_id d)) \<and>
     metadata_text env (dr_metadata g) ''draft_id'' = Some (rd_draft_id d) \<and>
     metadata_text env (dr_metadata g) ''governed_action'' = Some ''customer_reply.send'' \<and>
     metadata_text env (dr_metadata g) ''source_channel'' = Some channel \<and>
     metadata_text env (dr_metadata g) ''reply_recipient'' = Some recipient \<and>
     metadata_text env (dr_metadata g) ''reply_thread_context'' = Some thread \<and>
     metadata_text env (dr_metadata g) ''proposed_reply_sha256'' = Some (sha256_text env reply)"

definition is_sensitive_metadata_key :: "py_env \<Rightarrow> string \<Rightarrow> bool" where
  "is_sensitive_metadata_key env key \<longleftrightarrow>
     list_ex (\<lambda>fragment. substring fragment (str_lower env key))
       [''authorization'', ''credential'', ''key'', ''password'', ''secret'', ''token'']"

fun sanitize_metadata_value :: "py_env \<Rightarrow> pyval \<Rightarrow> pyval" where
  "sanitize_metadata_value env (PDict kvs) =
     PDict (filter (\<lambda>(k, v). v \<noteq> PNone)
       (map (\<lambda>(k, v). (k, sanitize_metadata_value env v))
         (filter (\<lambda>(k, v). \<not> is_sensitive_metadata_key env k) kvs)))"
| "sanitize_metadata_value env (PList vs) = PList (filter (\<lambda>v. v \<noteq> PNone) (map (sanitize_metadata_value env) vs))"
| "sanitize_metadata_value env v = v"

definition safe_outbox_metadata :: "py_env \<Rightarrow> send_target \<Rightarrow> proposal \<Rightarrow> draft \<Rightarrow> string \<Rightarrow> metadata" where
  "safe_outbox_metadata env target p d channel =
     filter (\<lambda>(k, v). v \<noteq> PNone)
       (dmerge
         [(''source'', opt_pstr (optional_text (tg_source target))),
          (''subject'', opt_pstr (optional_text (tg_subject target))),
          (''reply_recipient'', opt_pstr (nonempty_text (tg_recipient target))),
          (''reply_thread_context'', opt_pstr (optional_text (tg_thread_context target))),
          (''in_reply_to_message_id'', opt_pstr (optional_text (tg_in_reply_to target))),
          (''references_header'', opt_pstr (optional_text (tg_references target))),
          (''source_channel'', PStr channel), (''proposal_id'', PStr (rp_proposal_id p)),
          (''session_id'', PStr (rd_session_id d)), (''execution_id'', PStr (rd_execution_id d)),
          (''dispatch_id'', PStr (rd_dispatch_id d))]
         (map (\<lambda>(k, v). (k, sanitize_metadata_value env v))
           (filter (\<lambda>(k, v). \<not> is_sensitive_metadata_key env k) (tg_metadata target))))"

text \<open>\<open>request_auto_send\<close> up to the record it wants to create: a refusal or the row.\<close>

definition auto_send_verdict ::
  "py_env \<Rightarrow> int \<Rightarrow> governance_store \<Rightarrow> draft \<Rightarrow> proposal \<Rightarrow> send_target \<Rightarrow> string \<Rightarrow> int option
     \<Rightarrow> (auto_send_result + send_row) result" where
  "auto_send_verdict env now gs d p target expected_tenant_id created_at =
     (let tenant_id = py_strip expected_tenant_id;
          channel = str_lower env (py_strip (tg_channel target));
          missed = (\<lambda>what. Inr (Inl (auto_send_refused ''governance_miss'' (''governed auto-send '' @ what))))
      in if tenant_id = [] then Inl (ValueError ''expected_tenant_id must be non-empty'')
      else case (nonempty_text (tg_recipient target), optional_text (tg_thread_context target)) of
        (Some recipient, Some thread) \<Rightarrow>
          if channel \<notin> set [''email'', ''whatsapp''] then
            Inr (Inl (auto_send_refused ''unsupported_target'' ''governed auto-send target is unsupported''))
          else if rp_status p = RP_DENIED \<and> rd_status d = RD_DENIED then
            Inr (Inl (governance_denied_reason gs d tenant_id))
          else (case non_sendable_reason d p of
            Some refusal \<Rightarrow> Inr (Inl refusal)
          | None \<Rightarrow>
              on_ok (draft_and_proposal_are_exact env d p tenant_id) (\<lambda>exact.
              if \<not> exact then missed ''missed exact proposal/draft lineage''
              else (case rd_decision_id d of
                None \<Rightarrow> missed ''missed governance decision linkage''
              | Some decision_id \<Rightarrow>
                  (case get_decision gs decision_id (Some tenant_id) of
                     None \<Rightarrow> missed ''decision was not found''
                   | Some g \<Rightarrow>
                       if contains_unresolved_placeholder_marker (rd_body d) then
                         Inr (Inl (auto_send_refused ''unresolved_placeholder''
                           (''auto-send held for review: rendered reply contains '' @ ''an unresolved template placeholder'')))
                       else if \<not> decision_is_exact_send_allow env g tenant_id p d channel recipient thread
                                  (canonical_reply_for_governance d)
                       then missed ''decision was not an exact allow''
                       else on_ok (make_send_row env tenant_id channel ''customer_reply.send'' (rd_draft_id d)
                              (rp_proposal_id p) (py_strip (rd_session_id d)) (py_strip (rd_dispatch_id d)) decision_id
                              recipient (rd_body_sha256 d) (or_now created_at now)
                              (safe_outbox_metadata env target p d channel)) (\<lambda>r. Inr (Inr r))))))
      | _ \<Rightarrow> Inr (Inl (auto_send_refused ''unsupported_target'' ''governed auto-send target is unsupported'')))"

definition request_auto_send ::
  "py_env \<Rightarrow> int \<Rightarrow> governance_store \<Rightarrow> send_store \<Rightarrow> draft \<Rightarrow> proposal \<Rightarrow> send_target \<Rightarrow> string \<Rightarrow> int option
     \<Rightarrow> auto_send_result result \<times> send_store" where
  "request_auto_send env now gs s d p target expected_tenant_id created_at =
     (case auto_send_verdict env now gs d p target expected_tenant_id created_at of
        Inl e \<Rightarrow> (Inl e, s)
      | Inr (Inl refusal) \<Rightarrow> (Inr refusal, s)
      | Inr (Inr r) \<Rightarrow>
          (case create_send_outbox s r of
             (Inl e, s') \<Rightarrow> (Inl e, s')
           | (Inr row, s') \<Rightarrow> (Inr \<lparr>au_outbox = Some row, au_reason = None\<rparr>, s')))"

end
