(* ===== verification/Delivery_World.thy ===== *)
theory Delivery_World
  imports Delivery_AutoSend
begin

text \<open>
  Any number of callers sending replies over one delivery ledger.  A caller begins (checks
  and reserves), calls the provider, and settles; callers interleave and may crash between
  any two of these steps.  The contract a ledger must keep is a locale; both channels
  provide it.
\<close>

section \<open>The machine\<close>

record ('s, 'k) delivery_world =
  dw_ledger :: 's
  dw_open :: "(bool \<times> 'k) list"
    \<comment> \<open>callers cleared to transmit, and whether they have called the provider\<close>
  dw_calls :: "'k list"
  dw_failures :: "'k list"
    \<comment> \<open>failures written to the ledger\<close>

text \<open>\<open>begin q s\<close> answers with the delivery the caller is cleared to transmit, if any;
  \<open>settle k a s\<close> writes the provider's answer.\<close>

inductive delivery_trans ::
  "('q \<Rightarrow> 's \<Rightarrow> 'k option \<times> 's) \<Rightarrow> ('k \<Rightarrow> int \<times> sender_answer \<Rightarrow> 's \<Rightarrow> 's)
     \<Rightarrow> ('s, 'k) delivery_world \<Rightarrow> ('s, 'k) delivery_world \<Rightarrow> bool" for start settle where
  cleared: "start q (dw_ledger w) = (Some k, s) \<Longrightarrow>
    delivery_trans start settle w (w\<lparr>dw_ledger := s, dw_open := (False, k) # dw_open w\<rparr>)"
| answered: "start q (dw_ledger w) = (None, s) \<Longrightarrow> delivery_trans start settle w (w\<lparr>dw_ledger := s\<rparr>)"
| call: "dw_open w = xs @ (False, k) # ys \<Longrightarrow>
    delivery_trans start settle w (w\<lparr>dw_open := xs @ (True, k) # ys, dw_calls := k # dw_calls w\<rparr>)"
| settled: "dw_open w = xs @ (True, k) # ys \<Longrightarrow>
    delivery_trans start settle w (w\<lparr>dw_ledger := settle k a (dw_ledger w), dw_open := xs @ ys,
      dw_failures := (case snd a of SENDER_ACCEPTED i c \<Rightarrow> dw_failures w | _ \<Rightarrow> k # dw_failures w)\<rparr>)"
| crash: "dw_open w = xs @ p # ys \<Longrightarrow> delivery_trans start settle w (w\<lparr>dw_open := xs @ ys\<rparr>)"

inductive delivery_reachable ::
  "('q \<Rightarrow> 's \<Rightarrow> 'k option \<times> 's) \<Rightarrow> ('k \<Rightarrow> int \<times> sender_answer \<Rightarrow> 's \<Rightarrow> 's) \<Rightarrow> 's
     \<Rightarrow> ('s, 'k) delivery_world \<Rightarrow> bool" for start settle s0 where
  first: "delivery_reachable start settle s0 \<lparr>dw_ledger = s0, dw_open = [], dw_calls = [], dw_failures = []\<rparr>"
| step: "delivery_reachable start settle s0 w \<Longrightarrow> delivery_trans start settle w w' \<Longrightarrow>
    delivery_reachable start settle s0 w'"

definition provider_calls :: "('s, 'k) delivery_world \<Rightarrow> 'k \<Rightarrow> nat" where
  "provider_calls w k = length (filter ((=) k) (dw_calls w))"

definition cleared_callers :: "('s, 'k) delivery_world \<Rightarrow> 'k \<Rightarrow> nat" where
  "cleared_callers w k = length (filter ((=) (False, k)) (dw_open w))"

section \<open>What a ledger promises\<close>

locale delivery_contract =
  fixes start :: "'q \<Rightarrow> 's \<Rightarrow> 'k option \<times> 's"
    and settle :: "'k \<Rightarrow> int \<times> sender_answer \<Rightarrow> 's \<Rightarrow> 's"
    and status :: "'s \<Rightarrow> 'k \<Rightarrow> delivery_status option"
  assumes cleared_status: "start q s = (Some k, s') \<Longrightarrow>
      status s k = None \<and> status s' = (status s)(k \<mapsto> DS_PENDING) \<or> status s k = Some DS_FAILED \<and> s' = s"
    and answered_kept: "start q s = (None, s') \<Longrightarrow> s' = s"
    and settled_status: "status s k \<noteq> None \<Longrightarrow> status (settle k a s) = (status s)
      (k \<mapsto> (case snd a of SENDER_ACCEPTED i c \<Rightarrow> DS_SENT | _ \<Rightarrow> DS_FAILED))"
begin

definition once_inv :: "('s, 'k) delivery_world \<Rightarrow> bool" where
  "once_inv w \<longleftrightarrow> (\<forall>b k. (b, k) \<in> set (dw_open w) \<longrightarrow> status (dw_ledger w) k \<noteq> None) \<and>
     (\<forall>k. k \<in> set (dw_calls w) \<or> k \<in> set (dw_failures w) \<longrightarrow> status (dw_ledger w) k \<noteq> None) \<and>
     (\<forall>k. k \<notin> set (dw_failures w) \<longrightarrow> status (dw_ledger w) k \<noteq> Some DS_FAILED \<and>
        provider_calls w k + cleared_callers w k \<le> 1)"

lemma once_invD:
  assumes "once_inv w"
  shows "(b, k) \<in> set (dw_open w) \<Longrightarrow> status (dw_ledger w) k \<noteq> None"
    "k \<in> set (dw_calls w) \<Longrightarrow> status (dw_ledger w) k \<noteq> None"
    "k \<in> set (dw_failures w) \<Longrightarrow> status (dw_ledger w) k \<noteq> None"
    "k \<notin> set (dw_failures w) \<Longrightarrow> status (dw_ledger w) k \<noteq> Some DS_FAILED"
    "k \<notin> set (dw_failures w) \<Longrightarrow> provider_calls w k + cleared_callers w k \<le> 1"
  using assms unfolding once_inv_def by blast+

text \<open>A step that keeps the known deliveries, fails none silently and clears nobody new.\<close>

lemma once_keptI:
  assumes w: "once_inv w"
    and "snd ` set (dw_open w') \<subseteq> snd ` set (dw_open w)"
    and "set (dw_calls w') \<subseteq> set (dw_calls w) \<union> snd ` set (dw_open w)"
    and "set (dw_failures w') \<subseteq> set (dw_failures w) \<union> snd ` set (dw_open w)" "set (dw_failures w) \<subseteq> set (dw_failures w')"
    and "\<And>k. status (dw_ledger w) k \<noteq> None \<Longrightarrow> status (dw_ledger w') k \<noteq> None"
    and "\<And>k. k \<notin> set (dw_failures w') \<Longrightarrow> status (dw_ledger w) k \<noteq> Some DS_FAILED \<Longrightarrow>
      status (dw_ledger w') k \<noteq> Some DS_FAILED"
    and "\<And>k. provider_calls w' k + cleared_callers w' k \<le> provider_calls w k + cleared_callers w k"
  shows "once_inv w'"
proof -
  have known: "status (dw_ledger w') k \<noteq> None" if key: "k \<in> snd ` set (dw_open w)" for k
  proof -
    obtain p where "p \<in> set (dw_open w)" "k = snd p" using key by blast
    then have "(fst p, k) \<in> set (dw_open w)" by simp
    then show ?thesis by (rule assms(6) [OF once_invD(1) [OF w]])
  qed
  have "status (dw_ledger w') k \<noteq> None" if "(b, k) \<in> set (dw_open w')" for b k
  proof (rule known)
    have "k \<in> snd ` set (dw_open w')" using that by force
    then show "k \<in> snd ` set (dw_open w)" using assms(2) by (rule set_mp [rotated])
  qed
  moreover have "status (dw_ledger w') k \<noteq> None" if "k \<in> set (dw_calls w')" for k
  proof (cases "k \<in> set (dw_calls w)")
    case True
    then show ?thesis by (rule assms(6) [OF once_invD(2) [OF w]])
  next
    case False
    then show ?thesis using that assms(3) by (intro known) blast
  qed
  moreover have "status (dw_ledger w') k \<noteq> None" if "k \<in> set (dw_failures w')" for k
  proof (cases "k \<in> set (dw_failures w)")
    case True
    then show ?thesis by (rule assms(6) [OF once_invD(3) [OF w]])
  next
    case False
    then show ?thesis using that assms(4) by (intro known) blast
  qed
  moreover have "status (dw_ledger w') k \<noteq> Some DS_FAILED \<and> provider_calls w' k + cleared_callers w' k \<le> 1"
    if "k \<notin> set (dw_failures w')" for k
  proof -
    have old: "k \<notin> set (dw_failures w)" using that assms(5) by blast
    show ?thesis
      using assms(7) [OF that once_invD(4) [OF w old]] le_trans [OF assms(8) once_invD(5) [OF w old]] by (rule conjI)
  qed
  ultimately show ?thesis unfolding once_inv_def by simp
qed

lemma once_step:
  assumes "delivery_trans start settle w w'" "once_inv w"
  shows "once_inv w'"
  using assms
proof (induction rule: delivery_trans.induct)
  case (cleared q w k s)
  from cleared_status [OF cleared(1)] show ?case
  proof
    assume new: "status (dw_ledger w) k = None \<and> status s = (status (dw_ledger w))(k \<mapsto> DS_PENDING)"
    then have "k \<notin> set (dw_calls w)" "(False, k) \<notin> set (dw_open w)"
      using once_invD(1,2) [OF cleared(2)] by blast+
    then have none: "provider_calls w k = 0" "cleared_callers w k = 0"
      unfolding provider_calls_def cleared_callers_def by (auto simp: filter_empty_conv)
    have "provider_calls (w\<lparr>dw_ledger := s, dw_open := (False, k) # dw_open w\<rparr>) j +
        cleared_callers (w\<lparr>dw_ledger := s, dw_open := (False, k) # dw_open w\<rparr>) j \<le> 1"
      if "j \<notin> set (dw_failures w)" for j
      using once_invD(5) [OF cleared(2) that] none by (auto simp: provider_calls_def cleared_callers_def)
    then show ?thesis
      using new once_invD(1-4) [OF cleared(2)] unfolding once_inv_def by auto
  next
    assume failed: "status (dw_ledger w) k = Some DS_FAILED \<and> s = dw_ledger w"
    then have "k \<in> set (dw_failures w)" using once_invD(4) [OF cleared(2)] by blast
    moreover have "cleared_callers (w\<lparr>dw_ledger := s, dw_open := (False, k) # dw_open w\<rparr>) j = cleared_callers w j"
      "provider_calls (w\<lparr>dw_ledger := s, dw_open := (False, k) # dw_open w\<rparr>) j = provider_calls w j" if "j \<noteq> k" for j
      using that by (simp_all add: cleared_callers_def provider_calls_def)
    ultimately have "provider_calls (w\<lparr>dw_ledger := s, dw_open := (False, k) # dw_open w\<rparr>) j +
        cleared_callers (w\<lparr>dw_ledger := s, dw_open := (False, k) # dw_open w\<rparr>) j \<le> 1"
      if "j \<notin> set (dw_failures w)" for j
      using once_invD(5) [OF cleared(2) that] that by (cases "j = k") simp_all
    then show ?thesis
      using failed once_invD(1-4) [OF cleared(2)] unfolding once_inv_def by auto
  qed
next
  case (answered q w s)
  then show ?case using answered_kept [OF answered(1)] by simp
next
  case (call w xs k ys)
  then show ?case by (intro once_keptI [OF call(2)]) (auto simp: provider_calls_def cleared_callers_def)
next
  case (settled w xs k ys a)
  then have known: "status (dw_ledger w) k \<noteq> None" using once_invD(1) [OF settled(2)] by auto
  show ?case
    using settled(1) settled_status [OF known, of a]
    by (intro once_keptI [OF settled(2)]; cases "snd a")
      (auto simp: provider_calls_def cleared_callers_def split: if_splits)
next
  case (crash w xs p ys)
  then show ?case by (intro once_keptI [OF crash(2)]) (auto simp: provider_calls_def cleared_callers_def)
qed

lemma once_reachable:
  assumes "delivery_reachable start settle s0 w" "\<And>k. status s0 k = None"
  shows "once_inv w"
  using assms(1)
proof induction
  case first
  show ?case using assms(2) by (simp add: once_inv_def provider_calls_def cleared_callers_def)
qed (rule once_step)

lemma one_call:
  assumes "delivery_reachable start settle s0 w" "\<And>k. status s0 k = None" "k \<notin> set (dw_failures w)"
  shows "provider_calls w k + cleared_callers w k \<le> 1"
  using once_reachable [OF assms(1,2)] assms(3) unfolding once_inv_def by blast

end

section \<open>Both channels\<close>

type_synonym send_context = "resolution_store \<times> governance_store \<times> int"

definition email_start ::
  "py_env \<Rightarrow> channel_ports \<Rightarrow> send_context \<times> email_request \<Rightarrow> email_ledger \<Rightarrow> delivery_key option \<times> email_ledger" where
  "email_start env pt cq s = (case cq of ((rs, gs, now), q) \<Rightarrow>
     (case begin_email_send env pt rs gs now q s of
        (Inr (TRANSMIT i m), s') \<Rightarrow> (Some (er_expected_tenant_id q, i), s')
      | (_, s') \<Rightarrow> (None, s')))"

definition email_settle :: "delivery_key \<Rightarrow> int \<times> sender_answer \<Rightarrow> email_ledger \<Rightarrow> email_ledger" where
  "email_settle k a s = snd (settle_email_send s (snd k) (fst k) (fst a) (snd a))"

definition email_status :: "email_ledger \<Rightarrow> delivery_key \<Rightarrow> delivery_status option" where
  "email_status s k = map_option ed_status (dget s k)"

definition whatsapp_start ::
  "py_env \<Rightarrow> channel_ports \<Rightarrow> send_context \<times> whatsapp_request \<Rightarrow> whatsapp_ledger
     \<Rightarrow> delivery_key option \<times> whatsapp_ledger" where
  "whatsapp_start env pt cq s = (case cq of ((rs, gs, now), q) \<Rightarrow>
     (case begin_whatsapp_send env pt rs gs now q s of
        (Inr (TRANSMIT i m), s') \<Rightarrow> (Some (wq_expected_tenant_id q, i), s')
      | (_, s') \<Rightarrow> (None, s')))"

definition whatsapp_settle :: "delivery_key \<Rightarrow> int \<times> sender_answer \<Rightarrow> whatsapp_ledger \<Rightarrow> whatsapp_ledger" where
  "whatsapp_settle k a s = snd (settle_whatsapp_send s (snd k) (fst k) (fst a) (snd a))"

definition whatsapp_status :: "whatsapp_ledger \<Rightarrow> delivery_key \<Rightarrow> delivery_status option" where
  "whatsapp_status s k = map_option wm_status (dget s k)"

text \<open>What a begin does, by cases.\<close>

lemma begin_email_cases:
  obtains (refused) e where "begin_email_send env pt rs gs now q s = (Inl e, s)"
  | (answered) r where "begin_email_send env pt rs gs now q s = (Inr (ANSWERED r), s)"
  | (reserved) recipient subject d credentials decision i where
      "check_email_draft env pt rs gs q = Inr (recipient, subject, d, credentials, decision, i)"
      "dget s (er_expected_tenant_id q, i) = None"
      "begin_email_send env pt rs gs now q s =
         (Inr (TRANSMIT i (ses_message_for env q recipient subject d credentials)),
          dset (er_expected_tenant_id q, i) (new_email_delivery q recipient subject d credentials decision i now) s)"
  | (retried) recipient subject d credentials decision i r where
      "check_email_draft env pt rs gs q = Inr (recipient, subject, d, credentials, decision, i)"
      "dget s (er_expected_tenant_id q, i) = Some r" "ed_status r = DS_FAILED"
      "begin_email_send env pt rs gs now q s =
         (Inr (TRANSMIT i (ses_message_for env q recipient subject d credentials)), s)"
proof (cases "check_email_draft env pt rs gs q")
  case (Inl e)
  then show ?thesis using refused by (simp add: begin_email_send_def)
next
  case (Inr v)
  obtain recipient subject d credentials decision i where v: "v = (recipient, subject, d, credentials, decision, i)"
    by (cases v)
  let ?new = "new_email_delivery q recipient subject d credentials decision i now"
  have tenant: "er_tenant_id q = er_expected_tenant_id q"
    using Inr by (auto simp: check_email_draft_def Let_def)
  have new: "ed_tenant_id ?new = er_expected_tenant_id q" "ed_delivery_id ?new = i"
    by (simp_all add: new_email_delivery_def tenant)
  show ?thesis
  proof (cases "dget s (er_expected_tenant_id q, i)")
    case None
    have "assert_email_delivery_matches ?new (sc_source credentials) recipient subject d
        (optional_text (er_in_reply_to q)) (optional_text (er_references q)) = Inr ()"
      by (simp add: assert_email_delivery_matches_def new_email_delivery_def Let_def)
    then show ?thesis
      using reserved [OF Inr [unfolded v] None] Inr None new
      by (simp add: begin_email_send_def v reserve_email_delivery_def Let_def)
  next
    case (Some r)
    show ?thesis
    proof (cases "assert_email_delivery_matches r (sc_source credentials) recipient subject d
        (optional_text (er_in_reply_to q)) (optional_text (er_references q))")
      case (Inl e)
      then show ?thesis using refused Inr Some new
        by (simp add: begin_email_send_def v reserve_email_delivery_def Let_def)
    next
      case (Inr u)
      then show ?thesis
        using refused answered retried [OF \<open>check_email_draft env pt rs gs q = Inr v\<close> [unfolded v] Some]
          \<open>check_email_draft env pt rs gs q = Inr v\<close> Some new
        by (cases "ed_status r"; cases "er_allow_retry q \<and> error_is_retryable env ''ses_v2_http_'' (ed_error_code r)")
          (auto simp: begin_email_send_def v reserve_email_delivery_def Let_def)
    qed
  qed
qed

lemma begin_whatsapp_cases:
  obtains (refused) e where "begin_whatsapp_send env pt rs gs now q s = (Inl e, s)"
  | (answered) r where "begin_whatsapp_send env pt rs gs now q s = (Inr (ANSWERED r), s)"
  | (reserved) recipient d credentials decision i where
      "check_whatsapp_draft env pt rs gs q = Inr (recipient, d, credentials, decision, i)"
      "dget s (wq_expected_tenant_id q, i) = None"
      "begin_whatsapp_send env pt rs gs now q s =
         (Inr (TRANSMIT i (graph_message_for recipient d credentials)),
          dset (wq_expected_tenant_id q, i) (new_whatsapp_delivery q recipient d credentials decision i now) s)"
  | (retried) recipient d credentials decision i r where
      "check_whatsapp_draft env pt rs gs q = Inr (recipient, d, credentials, decision, i)"
      "dget s (wq_expected_tenant_id q, i) = Some r" "wm_status r = DS_FAILED"
      "begin_whatsapp_send env pt rs gs now q s =
         (Inr (TRANSMIT i (graph_message_for recipient d credentials)), s)"
proof (cases "check_whatsapp_draft env pt rs gs q")
  case (Inl e)
  then show ?thesis using refused by (simp add: begin_whatsapp_send_def)
next
  case (Inr v)
  obtain recipient d credentials decision i where v: "v = (recipient, d, credentials, decision, i)"
    by (cases v)
  let ?new = "new_whatsapp_delivery q recipient d credentials decision i now"
  have tenant: "wq_tenant_id q = wq_expected_tenant_id q"
    using Inr by (auto simp: check_whatsapp_draft_def Let_def)
  have new: "wm_tenant_id ?new = wq_expected_tenant_id q" "wm_delivery_id ?new = i"
    by (simp_all add: new_whatsapp_delivery_def tenant)
  show ?thesis
  proof (cases "dget s (wq_expected_tenant_id q, i)")
    case None
    have "assert_whatsapp_delivery_matches ?new (wc_phone_number_id credentials) recipient d = Inr ()"
      by (simp add: assert_whatsapp_delivery_matches_def new_whatsapp_delivery_def Let_def)
    then show ?thesis
      using reserved [OF Inr [unfolded v] None] Inr None new
      by (simp add: begin_whatsapp_send_def v reserve_whatsapp_delivery_def Let_def)
  next
    case (Some r)
    show ?thesis
    proof (cases "assert_whatsapp_delivery_matches r (wc_phone_number_id credentials) recipient d")
      case (Inl e)
      then show ?thesis using refused Inr Some new
        by (simp add: begin_whatsapp_send_def v reserve_whatsapp_delivery_def Let_def)
    next
      case (Inr u)
      then show ?thesis
        using refused answered retried [OF \<open>check_whatsapp_draft env pt rs gs q = Inr v\<close> [unfolded v] Some]
          \<open>check_whatsapp_draft env pt rs gs q = Inr v\<close> Some new
        by (cases "wm_status r"; cases "wq_allow_retry q \<and> error_is_retryable env ''whatsapp_graph_http_'' (wm_error_code r)")
          (auto simp: begin_whatsapp_send_def v reserve_whatsapp_delivery_def Let_def)
    qed
  qed
qed


text \<open>A settlement writes one row.\<close>

lemma email_settle_status:
  "email_status s k \<noteq> None \<Longrightarrow> email_status (email_settle k a s) = (email_status s)
     (k \<mapsto> (case snd a of SENDER_ACCEPTED i c \<Rightarrow> DS_SENT | _ \<Rightarrow> DS_FAILED))"
  by (cases "snd a")
    (auto simp: email_status_def email_settle_def settle_email_send_def mark_email_delivery_sent_def
      mark_email_delivery_failed_def Let_def fun_eq_iff)

lemma whatsapp_settle_status:
  "whatsapp_status s k \<noteq> None \<Longrightarrow> whatsapp_status (whatsapp_settle k a s) = (whatsapp_status s)
     (k \<mapsto> (case snd a of SENDER_ACCEPTED i c \<Rightarrow> DS_SENT | _ \<Rightarrow> DS_FAILED))"
  by (cases "snd a")
    (auto simp: whatsapp_status_def whatsapp_settle_def settle_whatsapp_send_def mark_whatsapp_delivery_sent_def
      mark_whatsapp_delivery_failed_def Let_def fun_eq_iff)

lemma email_start_cases:
  "email_start env pt cq s = (Some k, s') \<Longrightarrow>
     email_status s k = None \<and> email_status s' = (email_status s)(k \<mapsto> DS_PENDING) \<or>
     email_status s k = Some DS_FAILED \<and> s' = s"
  "email_start env pt cq s = (None, s') \<Longrightarrow> s' = s"
proof -
  obtain rs gs now q where cq: "cq = ((rs, gs, now), q)" by (metis prod_cases3 surj_pair)
  consider "email_start env pt cq s = (None, s)"
    | i r where "email_start env pt cq s = (Some (er_expected_tenant_id q, i), dset (er_expected_tenant_id q, i) r s)"
      "dget s (er_expected_tenant_id q, i) = None" "ed_status r = DS_PENDING"
    | i r where "email_start env pt cq s = (Some (er_expected_tenant_id q, i), s)"
      "dget s (er_expected_tenant_id q, i) = Some r" "ed_status r = DS_FAILED"
    by (cases rule: begin_email_cases [of env pt rs gs now q s])
      (auto simp: email_start_def cq new_email_delivery_def)
  note by_case = this
  show "email_start env pt cq s = (Some k, s') \<Longrightarrow>
     email_status s k = None \<and> email_status s' = (email_status s)(k \<mapsto> DS_PENDING) \<or>
     email_status s k = Some DS_FAILED \<and> s' = s"
    by (cases rule: by_case) (auto simp: email_status_def fun_eq_iff split: if_splits)
  show "email_start env pt cq s = (None, s') \<Longrightarrow> s' = s"
    by (cases rule: by_case) auto
qed

lemma whatsapp_start_cases:
  "whatsapp_start env pt cq s = (Some k, s') \<Longrightarrow>
     whatsapp_status s k = None \<and> whatsapp_status s' = (whatsapp_status s)(k \<mapsto> DS_PENDING) \<or>
     whatsapp_status s k = Some DS_FAILED \<and> s' = s"
  "whatsapp_start env pt cq s = (None, s') \<Longrightarrow> s' = s"
proof -
  obtain rs gs now q where cq: "cq = ((rs, gs, now), q)" by (metis prod_cases3 surj_pair)
  consider "whatsapp_start env pt cq s = (None, s)"
    | i r where "whatsapp_start env pt cq s = (Some (wq_expected_tenant_id q, i), dset (wq_expected_tenant_id q, i) r s)"
      "dget s (wq_expected_tenant_id q, i) = None" "wm_status r = DS_PENDING"
    | i r where "whatsapp_start env pt cq s = (Some (wq_expected_tenant_id q, i), s)"
      "dget s (wq_expected_tenant_id q, i) = Some r" "wm_status r = DS_FAILED"
    by (cases rule: begin_whatsapp_cases [of env pt rs gs now q s])
      (auto simp: whatsapp_start_def cq new_whatsapp_delivery_def)
  note by_case = this
  show "whatsapp_start env pt cq s = (Some k, s') \<Longrightarrow>
     whatsapp_status s k = None \<and> whatsapp_status s' = (whatsapp_status s)(k \<mapsto> DS_PENDING) \<or>
     whatsapp_status s k = Some DS_FAILED \<and> s' = s"
    by (cases rule: by_case) (auto simp: whatsapp_status_def fun_eq_iff split: if_splits)
  show "whatsapp_start env pt cq s = (None, s') \<Longrightarrow> s' = s"
    by (cases rule: by_case) auto
qed

interpretation emails: delivery_contract "email_start env pt" email_settle email_status
  for env :: py_env and pt :: channel_ports
proof
  show "email_status s k = None \<and> email_status s' = (email_status s)(k \<mapsto> DS_PENDING) \<or>
      email_status s k = Some DS_FAILED \<and> s' = s"
    if "email_start env pt q s = (Some k, s')" for q s k s'
    by (rule email_start_cases(1) [OF that])
  show "s' = s" if "email_start env pt q s = (None, s')" for q s s'
    by (rule email_start_cases(2) [OF that])
qed (rule email_settle_status)

interpretation whatsapps: delivery_contract "whatsapp_start env pt" whatsapp_settle whatsapp_status
  for env :: py_env and pt :: channel_ports
proof
  show "whatsapp_status s k = None \<and> whatsapp_status s' = (whatsapp_status s)(k \<mapsto> DS_PENDING) \<or>
      whatsapp_status s k = Some DS_FAILED \<and> s' = s"
    if "whatsapp_start env pt q s = (Some k, s')" for q s k s'
    by (rule whatsapp_start_cases(1) [OF that])
  show "s' = s" if "whatsapp_start env pt q s = (None, s')" for q s s'
    by (rule whatsapp_start_cases(2) [OF that])
qed (rule whatsapp_settle_status)

end
