(* ===== verification/Delivery_Promises.thy ===== *)
theory Delivery_Promises
  imports Delivery_World Outbound_World
begin

text \<open>
  What reaches a customer.  A row of the send outbox exists only for a reply a persisted
  ALLOW decision names; the service that sends it checks draft, decision and text again;
  a delivery is transmitted once unless a failure was recorded; and, past a failure, the
  ledger no longer protects.
\<close>

section \<open>Text\<close>

lemma dropWhile_hd: "dropWhile P s = c # r \<Longrightarrow> \<not> P c"
  by (metis dropWhile_eq_Cons_conv)

lemma py_strip_idem [simp]: "py_strip (py_strip s) = py_strip s"
proof -
  let ?t = "dropWhile py_space s"
  let ?u = "rev (dropWhile py_space (rev ?t))"
  have "dropWhile py_space ?u = ?u"
  proof (cases ?u)
    case (Cons c r)
    then obtain v where "?t = ?u @ v"
      by (metis rev_append rev_rev_ident takeWhile_dropWhile_id)
    then have "\<not> py_space c" using Cons dropWhile_hd [of py_space s c "r @ v"] by simp
    then show ?thesis using Cons by simp
  next
    case Nil
    show ?thesis unfolding Nil by simp
  qed
  moreover have "dropWhile py_space (rev ?u) = rev ?u" by simp
  ultimately show ?thesis by (simp add: py_strip_def)
qed

lemma nonempty_text_Some: "nonempty_text s = Some t \<longleftrightarrow> t = py_strip s \<and> t \<noteq> []"
  by (auto simp: nonempty_text_def split: list.split)

section \<open>Rows are backed by a decision\<close>

text \<open>The draft and proposal the code holds carry UUIDs, so their texts are canonical.\<close>

definition canonical :: "py_env \<Rightarrow> string \<Rightarrow> bool" where
  "canonical env i \<longleftrightarrow> uuid_parse env i = Some i"

definition canonical_reply :: "py_env \<Rightarrow> draft \<Rightarrow> proposal \<Rightarrow> bool" where
  "canonical_reply env d p \<longleftrightarrow> canonical env (rd_draft_id d) \<and> canonical env (rp_proposal_id p) \<and>
     (\<forall>i. rd_decision_id d = Some i \<longrightarrow> canonical env i)"

text \<open>What the code relies on: \<open>lower()\<close> leaves lower-case ASCII letters and digits as they are,
  and a SHA-256 hex digest has 64 of \<open>0\<close>-\<open>9\<close>, \<open>a\<close>-\<open>f\<close>.\<close>

definition ascii_plain :: "char \<Rightarrow> bool" where
  "ascii_plain c \<longleftrightarrow> (let n = of_char c :: nat in 97 \<le> n \<and> n \<le> 122 \<or> 48 \<le> n \<and> n \<le> 57)"

definition text_laws :: "py_env \<Rightarrow> bool" where
  "text_laws env \<longleftrightarrow> (\<forall>s. list_all ascii_plain s \<longrightarrow> str_lower env s = s) \<and>
     (\<forall>t. length (sha256_hex env t) = 64 \<and> set (sha256_hex env t) \<subseteq> set ''0123456789abcdef'')"

lemma plain_strip: "list_all ascii_plain s \<Longrightarrow> py_strip s = s"
proof -
  assume plain: "list_all ascii_plain s"
  have solid: "\<not> py_space c" if c: "c \<in> set s" for c
  proof -
    define n where "n = (of_char c :: nat)"
    have "97 \<le> n \<and> n \<le> 122 \<or> 48 \<le> n \<and> n \<le> 57"
      using plain c by (simp add: list_all_iff ascii_plain_def Let_def n_def)
    then have "n \<notin> set [9, 10, 11, 12, 13, 28, 29, 30, 31, 32, 133, 160]" by auto
    then show ?thesis unfolding py_space_def n_def .
  qed
  have "dropWhile py_space s = s" "dropWhile py_space (rev s) = rev s"
    using solid by (auto simp: dropWhile_eq_self_iff hd_rev)
  then show ?thesis by (simp add: py_strip_def)
qed

lemma hex_plain:
  assumes "set s \<subseteq> set ''0123456789abcdef''"
  shows "list_all ascii_plain s"
proof -
  have "list_all ascii_plain ''0123456789abcdef''" by (simp add: ascii_plain_def)
  then show ?thesis using assms by (auto simp: list_all_iff)
qed

lemma text_lawsD:
  assumes "text_laws env"
  shows "str_lower env ''email'' = ''email''" "str_lower env ''whatsapp'' = ''whatsapp''"
    "str_lower env (py_strip (sha256_hex env t)) = sha256_hex env t" "py_strip (sha256_hex env t) = sha256_hex env t"
    "length (sha256_hex env t) = 64" "set (sha256_hex env t) \<subseteq> set ''0123456789abcdef''"
proof -
  have lower: "str_lower env s = s" if "list_all ascii_plain s" for s using assms that by (simp add: text_laws_def)
  show hex: "set (sha256_hex env t) \<subseteq> set ''0123456789abcdef''" "length (sha256_hex env t) = 64"
    using assms by (simp_all only: text_laws_def)
  show "str_lower env ''email'' = ''email''" "str_lower env ''whatsapp'' = ''whatsapp''"
    by (rule lower; simp add: ascii_plain_def)+
  show strip: "py_strip (sha256_hex env t) = sha256_hex env t" by (rule plain_strip [OF hex_plain [OF hex(1)]])
  show "str_lower env (py_strip (sha256_hex env t)) = sha256_hex env t"
    unfolding strip by (rule lower [OF hex_plain [OF hex(1)]])
qed

lemma strip_words [simp]:
  "py_strip ''email'' = ''email''" "py_strip ''whatsapp'' = ''whatsapp''"
  "py_strip ''customer_reply.send'' = ''customer_reply.send''"
  by (simp_all add: py_strip_def py_space_def)

definition names_reply :: "py_env \<Rightarrow> decision_record \<Rightarrow> send_row \<Rightarrow> bool" where
  "names_reply env g r \<longleftrightarrow> dr_decision g = decision_value ALLOW \<and> dr_tenant_id g = Some (so_tenant_id r) \<and>
     dr_subject_kind g = ''communication'' \<and>
     metadata_text env (dr_metadata g) ''governed_action'' = Some ''customer_reply.send'' \<and>
     metadata_text env (dr_metadata g) ''proposal_id'' = Some (so_proposal_id r) \<and>
     metadata_text env (dr_metadata g) ''draft_id'' = Some (so_draft_id r) \<and>
     metadata_text env (dr_metadata g) ''source_channel'' = Some (so_channel r) \<and>
     metadata_text env (dr_metadata g) ''reply_recipient'' = Some (so_recipient r)"

definition backed :: "py_env \<Rightarrow> governance_store \<Rightarrow> send_row \<Rightarrow> bool" where
  "backed env gs r \<longleftrightarrow> canonical env (so_decision_id r) \<and> so_action r = ''customer_reply.send'' \<and>
     so_recipient r \<noteq> [] \<and> py_strip (so_recipient r) = so_recipient r \<and>
     (\<exists>t. so_body_sha256 r = sha256_hex env t) \<and>
     (\<exists>g. dget (gs_decisions gs) (so_decision_id r) = Some g \<and> names_reply env g r)"

lemma backed_intent: "backed env gs r \<Longrightarrow> row_intent r' = row_intent r \<Longrightarrow> backed env gs r'"
  by (simp add: backed_def names_reply_def row_intent_def)

lemma get_decision_Some:
  "get_decision gs i (Some t) = Some g \<Longrightarrow> dget (gs_decisions gs) i = Some g \<and> dr_tenant_id g = Some t"
  by (auto simp: get_decision_def gov_visible_def split: option.splits if_splits)

lemma backedD:
  assumes "backed env gs r" "text_laws env"
  shows "\<exists>g. dget (gs_decisions gs) (so_decision_id r) = Some g \<and> names_reply env g r"
    "py_strip (so_recipient r) = so_recipient r"
    "str_lower env (py_strip (so_body_sha256 r)) = so_body_sha256 r"
    "uuid_parse env (so_decision_id r) = Some (so_decision_id r)"
  using assms text_lawsD(3) [OF assms(2)] by (auto simp: backed_def canonical_def)

text \<open>What a row looks like, whatever was done to it: its identity is derived from its intent.\<close>

definition row_typed :: "py_env \<Rightarrow> send_row \<Rightarrow> bool" where
  "row_typed env r \<longleftrightarrow> row_shape r \<and> so_channel r \<in> set [''email'', ''whatsapp''] \<and>
     length (so_body_sha256 r) = 64 \<and> set (so_body_sha256 r) \<subseteq> set ''0123456789abcdef'' \<and>
     derive_send_outbox_id env (so_tenant_id r) (so_draft_id r) (so_channel r) (so_recipient r) (so_action r) =
       Inr (so_outbox_id r)"

lemma row_typed_kept:
  assumes "row_typed env r" "row_kept r r'" "0 \<le> so_attempt_count r"
  shows "row_typed env r'"
proof -
  have "row_shape r'" using assms by (simp add: row_typed_def row_kept_def)
  then show ?thesis using assms(1,2) by (simp add: row_typed_def row_kept_def row_intent_def)
qed

text \<open>What it takes for the service to want a row.\<close>

definition exact_reply ::
  "py_env \<Rightarrow> governance_store \<Rightarrow> draft \<Rightarrow> proposal \<Rightarrow> send_target \<Rightarrow> string \<Rightarrow> decision_record \<Rightarrow> bool" where
  "exact_reply env gs d p target tenant g \<longleftrightarrow>
     rd_tenant_id d = tenant \<and> rp_tenant_id p = tenant \<and> rd_proposal_id d = rp_proposal_id p \<and>
     Some (rd_session_id d) = rp_session_id p \<and> Some (rd_execution_id d) = rp_execution_id p \<and>
     rd_dispatch_id d = rp_dispatch_id p \<and> rd_decision_id d = rp_decision_id p \<and>
     rd_status d = RD_READY \<and> rp_status p = RP_SEND_ELIGIBLE \<and>
     rd_body_sha256 d = sha256_text env (rd_body d) \<and> derive_draft_id env tenant (rp_proposal_id p) = Inr (rd_draft_id d) \<and>
     (\<exists>i. rd_decision_id d = Some i \<and> get_decision gs i (Some tenant) = Some g) \<and>
     \<not> contains_unresolved_placeholder_marker (rd_body d) \<and>
     decision_is_exact_send_allow env g tenant p d (str_lower env (py_strip (tg_channel target)))
       (py_strip (tg_recipient target)) (case tg_thread_context target of None \<Rightarrow> [] | Some v \<Rightarrow> py_strip v)
       (canonical_reply_for_governance d)"

definition supported_target :: "py_env \<Rightarrow> send_target \<Rightarrow> bool" where
  "supported_target env target \<longleftrightarrow> str_lower env (py_strip (tg_channel target)) \<in> set [''email'', ''whatsapp''] \<and>
     py_strip (tg_recipient target) \<noteq> [] \<and> (\<exists>v. tg_thread_context target = Some v \<and> py_strip v \<noteq> [])"

definition row_for ::
  "py_env \<Rightarrow> int \<Rightarrow> draft \<Rightarrow> proposal \<Rightarrow> send_target \<Rightarrow> string \<Rightarrow> int option \<Rightarrow> send_row result" where
  "row_for env now d p target tenant created_at =
     (let channel = str_lower env (py_strip (tg_channel target))
      in make_send_row env tenant channel ''customer_reply.send'' (rd_draft_id d) (rp_proposal_id p)
           (py_strip (rd_session_id d)) (py_strip (rd_dispatch_id d)) (case rd_decision_id d of Some i \<Rightarrow> i | None \<Rightarrow> [])
           (py_strip (tg_recipient target)) (rd_body_sha256 d) (or_now created_at now)
           (safe_outbox_metadata env target p d channel))"

lemma optional_text_Some: "optional_text v = Some t \<longleftrightarrow> (\<exists>s. v = Some s \<and> t = py_strip s \<and> t \<noteq> [])"
  by (auto simp: optional_text_def nonempty_text_Some split: option.split)

lemma exact_lineage:
  "draft_and_proposal_are_exact env d p tenant = Inr True \<longleftrightarrow>
     rd_tenant_id d = tenant \<and> rp_tenant_id p = tenant \<and> rd_proposal_id d = rp_proposal_id p \<and>
     Some (rd_session_id d) = rp_session_id p \<and> Some (rd_execution_id d) = rp_execution_id p \<and>
     rd_dispatch_id d = rp_dispatch_id p \<and> rd_decision_id d \<noteq> None \<and> rd_decision_id d = rp_decision_id p \<and>
     rd_status d = RD_READY \<and> rp_status p = RP_SEND_ELIGIBLE \<and> rd_body_sha256 d = sha256_text env (rd_body d) \<and>
     derive_draft_id env tenant (rp_proposal_id p) = Inr (rd_draft_id d)"
  by (auto simp: draft_and_proposal_are_exact_def)

lemma verdict_row:
  "auto_send_verdict env now gs d p target expected created_at = Inr (Inr r) \<longleftrightarrow>
     py_strip expected \<noteq> [] \<and> supported_target env target \<and>
     (\<exists>g. exact_reply env gs d p target (py_strip expected) g) \<and>
     row_for env now d p target (py_strip expected) created_at = Inr r"
  (is "?V \<longleftrightarrow> ?E")
proof (cases "py_strip expected \<noteq> [] \<and> supported_target env target")
  case False
  then have "\<not> ?V"
    by (auto simp: auto_send_verdict_def supported_target_def Let_def nonempty_text_Some optional_text_Some
        split: option.splits)
  then show ?thesis using False by blast
next
  case True
  then obtain v where thread: "tg_thread_context target = Some v" "py_strip v \<noteq> []"
    unfolding supported_target_def by blast
  have texts: "nonempty_text (tg_recipient target) = Some (py_strip (tg_recipient target))"
    "optional_text (tg_thread_context target) = Some (py_strip v)"
    using True thread by (simp_all add: nonempty_text_Some optional_text_Some supported_target_def)
  have channel: "str_lower env (py_strip (tg_channel target)) \<in> set [''email'', ''whatsapp'']"
    using True unfolding supported_target_def by blast
  have sendable: "draft_and_proposal_are_exact env d p (py_strip expected) \<noteq> Inr True"
    if "rp_status p = RP_DENIED \<and> rd_status d = RD_DENIED \<or> non_sendable_reason d p \<noteq> None"
    using that by (auto simp: exact_lineage non_sendable_reason_def)
  show ?thesis
  proof (cases "draft_and_proposal_are_exact env d p (py_strip expected) = Inr True")
    case False
    then have "\<not> ?E" unfolding exact_reply_def exact_lineage by blast
    moreover have "\<not> ?V"
      using True False texts channel
      by (cases "draft_and_proposal_are_exact env d p (py_strip expected)"; cases "non_sendable_reason d p")
        (auto simp: auto_send_verdict_def Let_def)
    ultimately show ?thesis by blast
  next
    case exact: True
    then obtain i where i: "rd_decision_id d = Some i" "rp_decision_id p = Some i" by (auto simp: exact_lineage)
    have ok: "\<not> (rp_status p = RP_DENIED \<and> rd_status d = RD_DENIED)" "non_sendable_reason d p = None"
      using sendable exact by blast+
    have "?V \<longleftrightarrow> (\<exists>g. get_decision gs i (Some (py_strip expected)) = Some g \<and>
        \<not> contains_unresolved_placeholder_marker (rd_body d) \<and>
        decision_is_exact_send_allow env g (py_strip expected) p d (str_lower env (py_strip (tg_channel target)))
          (py_strip (tg_recipient target)) (py_strip v) (canonical_reply_for_governance d)) \<and>
        row_for env now d p target (py_strip expected) created_at = Inr r"
      using True texts channel exact ok i
      by (cases "get_decision gs i (Some (py_strip expected))")
        (auto simp: auto_send_verdict_def Let_def row_for_def)
    also have "\<dots> \<longleftrightarrow> ?E"
      using True exact i thread unfolding exact_reply_def exact_lineage by auto
    finally show ?thesis .
  qed
qed

lemma row_for_pending:
  "row_for env now d p target tenant created_at = Inr r \<Longrightarrow> so_status r = SO_PENDING"
  by (auto simp: row_for_def make_send_row_def Let_def split: sum.splits)

lemma refusal_no_row:
  "auto_send_verdict env now gs d p target expected created_at = Inr (Inl refusal) \<Longrightarrow> au_outbox refusal = None"
  by (auto simp: auto_send_verdict_def auto_send_refused_def governance_denied_reason_def non_sendable_reason_def Let_def
      split: option.splits if_splits)

lemma auto_send_cases:
  obtains (refused) "snd (request_auto_send env now gs s d p target expected created_at) = s"
  | (created) r where "auto_send_verdict env now gs d p target expected created_at = Inr (Inr r)"
      "request_auto_send env now gs s d p target expected created_at =
        (case create_send_outbox s r of
           (Inl e, s') \<Rightarrow> (Inl e, s')
         | (Inr row, s') \<Rightarrow> (Inr \<lparr>au_outbox = Some row, au_reason = None\<rparr>, s'))"
  using that
  by (cases "auto_send_verdict env now gs d p target expected created_at"; cases "projr (auto_send_verdict env now gs d p target expected created_at)")
    (auto simp: request_auto_send_def)

lemma decision_of_exact:
  assumes "exact_reply env gs d p target tenant g" "rd_decision_id d = Some i"
  shows "dget (gs_decisions gs) i = Some g" "dr_tenant_id g = Some tenant"
  using assms get_decision_Some by (auto simp: exact_reply_def)

lemma verdict_backed:
  assumes verdict: "auto_send_verdict env now gs d p target expected created_at = Inr (Inr r)"
    and ids: "canonical_reply env d p" and laws: "text_laws env"
  shows "backed env gs r" "so_status r = SO_PENDING" "so_attempt_count r = 0"
    "so_body_sha256 r = sha256_hex env (rd_body d)" "row_typed env r"
proof -
  let ?t = "py_strip expected"
  let ?ch = "str_lower env (py_strip (tg_channel target))"
  obtain g where g: "exact_reply env gs d p target ?t g" "supported_target env target" "?t \<noteq> []"
    and row: "row_for env now d p target ?t created_at = Inr r"
    using verdict unfolding verdict_row by blast
  obtain i where i: "rd_decision_id d = Some i" using g(1) unfolding exact_reply_def by blast
  note dec = decision_of_exact [OF g(1) i]
  have canon: "uuid_parse env i = Some i" "uuid_parse env (rd_draft_id d) = Some (rd_draft_id d)"
    "uuid_parse env (rp_proposal_id p) = Some (rp_proposal_id p)"
    using ids i by (auto simp: canonical_reply_def canonical_def)
  have allow: "decision_is_exact_send_allow env g ?t p d ?ch (py_strip (tg_recipient target))
      (case tg_thread_context target of None \<Rightarrow> [] | Some v \<Rightarrow> py_strip v) (canonical_reply_for_governance d)"
    and body: "rd_body_sha256 d = sha256_hex env (rd_body d)"
    using g(1) by (simp_all add: exact_reply_def sha256_text_def)
  have fields: "so_tenant_id r = ?t" "so_action r = ''customer_reply.send''" "so_draft_id r = rd_draft_id d"
    "so_proposal_id r = rp_proposal_id p" "so_decision_id r = i" "so_recipient r = py_strip (tg_recipient target)"
    "so_body_sha256 r = sha256_hex env (rd_body d)" "so_recipient r \<noteq> []" "so_channel r = str_lower env (py_strip ?ch)"
    "so_status r = SO_PENDING" "so_attempt_count r = 0" "row_shape r"
    "derive_send_outbox_id env (so_tenant_id r) (so_draft_id r) (so_channel r) (so_recipient r) (so_action r) = Inr (so_outbox_id r)"
    using row canon body i text_lawsD(3) [OF laws]
    by (auto simp: row_for_def make_send_row_def Let_def required_text_def required_uuid_def required_sha256_def
        row_shape_def split: sum.splits if_splits)
  have channel: "so_channel r = ?ch"
    using g(2) fields(9) text_lawsD(1,2) [OF laws] by (auto simp: supported_target_def)
  then show "backed env gs r"
    using allow dec canon(1) fields
    by (auto simp: backed_def names_reply_def canonical_def decision_is_exact_send_allow_def)
  show "so_status r = SO_PENDING" "so_attempt_count r = 0" "so_body_sha256 r = sha256_hex env (rd_body d)"
    using fields by simp_all
  have "so_channel r \<in> set [''email'', ''whatsapp'']" using g(2) channel unfolding supported_target_def by (simp only:)
  then show "row_typed env r"
    unfolding row_typed_def fields(7) using fields(12,13) text_lawsD(5,6) [OF laws] by (intro conjI)
qed

section \<open>The outbox under governance\<close>

text \<open>One operation of a worker or of the reconciler.\<close>

inductive send_work :: "py_env \<Rightarrow> send_config \<Rightarrow> send_store \<Rightarrow> send_store \<Rightarrow> bool" for env cfg where
  work_claim: "send_work env cfg s (snd (claim_due_outbox env cfg s k worker now exhausted))"
| work_attempted: "send_work env cfg s (snd (rt_mark_send_attempted env s k c now))"
| work_recorded: "send_work env cfg s (snd (rt_record_provider_message_id env s k c m now))"
| work_sent: "send_work env cfg s (snd (rt_mark_sent env s k c m now))"
| work_retried: "send_work env cfg s (snd (reschedule_or_dead_letter env cfg s r c err now))"
| work_swept: "send_work env cfg s (snd (requeue_stale_claimed env s stale now limit t reason))"
| work_dead_letters: "send_work env cfg s (snd (dead_letter_exhausted_pending env cfg s now limit t reason))"

lemma send_work_kept: "send_work env cfg s s' \<Longrightarrow> store_kept s s'"
  by (induction rule: send_work.induct) simp_all

text \<open>Every store the outbox can be in while decisions are recorded, replies requested and
  workers at work, in any order.\<close>

inductive governed_outbox :: "py_env \<Rightarrow> send_config \<Rightarrow> governance_store \<Rightarrow> send_store \<Rightarrow> bool" for env cfg where
  nothing: "governed_outbox env cfg empty_governance_store empty_send_store"
| decided: "governed_outbox env cfg gs s \<Longrightarrow> governed_outbox env cfg (snd (record_decision env gs g)) s"
| requested: "governed_outbox env cfg gs s \<Longrightarrow> canonical_reply env d p \<Longrightarrow>
    governed_outbox env cfg gs (snd (request_auto_send env now gs s d p target expected created_at))"
| worked: "governed_outbox env cfg gs s \<Longrightarrow> send_work env cfg s s' \<Longrightarrow> governed_outbox env cfg gs s'"

text \<open>The unique index points at rows.\<close>

definition key_index :: "send_store \<Rightarrow> bool" where
  "key_index s \<longleftrightarrow> (\<forall>key i. dget (sd_by_unique s) key = Some i \<longrightarrow> dget (sd_records s) i \<noteq> None)"

definition rows_backed :: "py_env \<Rightarrow> governance_store \<Rightarrow> send_store \<Rightarrow> bool" where
  "rows_backed env gs s \<longleftrightarrow> send_inv s \<and>
     (\<forall>k r. dget (sd_records s) k = Some r \<longrightarrow> backed env gs r \<and> row_typed env r) \<and> key_index s"

lemma backed_decided: "backed env gs r \<Longrightarrow> backed env (snd (record_decision env gs g)) r"
  by (auto simp: backed_def record_decision_def)

lemma create_backed:
  assumes "rows_backed env gs s" "backed env gs r" "so_attempt_count r = 0" "row_typed env r"
  shows "rows_backed env gs (snd (create_send_outbox s r))"
proof (cases "dget (sd_by_unique s) (send_unique_key r)")
  case None
  have "wf_dict (sd_records s)" and old: "\<And>k r'. dget (sd_records s) k = Some r' \<Longrightarrow>
      so_outbox_id r' = k \<and> 0 \<le> so_attempt_count r' \<and> backed env gs r' \<and> row_typed env r'"
    and index: "\<And>key i. dget (sd_by_unique s) key = Some i \<Longrightarrow> dget (sd_records s) i \<noteq> None"
    using assms(1) unfolding rows_backed_def send_inv_def key_index_def by blast+
  then show ?thesis
    using assms(2-4) index by (auto simp: create_send_outbox_def None rows_backed_def send_inv_def key_index_def)
next
  case (Some i)
  then show ?thesis using assms(1) by (cases "dget (sd_records s) i") (simp_all add: create_send_outbox_def)
qed

lemma snd_create_answer:
  "snd (case x of (Inl e, s') \<Rightarrow> (Inl e, s') | (Inr row, s') \<Rightarrow> (Inr (f row), s')) = snd x"
  by (rule snd_by_result)

lemma governed_backed:
  assumes "governed_outbox env cfg gs s" "text_laws env"
  shows "rows_backed env gs s"
  using assms
proof (induction rule: governed_outbox.induct)
  case nothing
  show ?case by (simp add: rows_backed_def send_inv_empty) (simp add: empty_send_store_def key_index_def)
next
  case (decided gs s g)
  then show ?case by (simp add: rows_backed_def backed_decided)
next
  case (requested gs s d p now target expected created_at)
  show ?case
  proof (cases rule: auto_send_cases [of env now gs s d p target expected created_at])
    case refused
    then show ?thesis using requested by simp
  next
    case (created r)
    note row = verdict_backed [OF created(1) requested(2,4)]
    show ?thesis
      using create_backed [OF requested.IH [OF requested(4)] row(1,3,5)] by (simp only: created(2) snd_by_result)
  qed
next
  case (worked gs s s')
  then have "store_kept s s'" "rows_backed env gs s" using send_work_kept by blast+
  then have kept: "send_inv s'" "rows_kept s s'" "sd_by_unique s' = sd_by_unique s" "\<And>k. dget (sd_records s) k = None \<Longrightarrow> dget (sd_records s') k = None"
    by (auto simp: store_kept_def rows_backed_def)
  have "backed env gs r' \<and> row_typed env r'" if new: "dget (sd_records s') k = Some r'" for k r'
  proof -
    obtain r where r: "dget (sd_records s) k = Some r" using kept(4) [of k] new by fastforce
    then obtain r2 where "dget (sd_records s') k = Some r2" "row_kept r r2"
      using kept(2) unfolding rows_kept_def by blast
    then have kept: "row_kept r r'" "row_intent r' = row_intent r" using new by (simp_all add: row_kept_def)
    have "backed env gs r" "row_typed env r" "0 \<le> so_attempt_count r"
      using \<open>rows_backed env gs s\<close> r unfolding rows_backed_def send_inv_def by blast+
    then show ?thesis using backed_intent [OF _ kept(2)] row_typed_kept [OF _ kept(1)] by blast
  qed
  moreover have "key_index s'"
    using kept(2,3) \<open>rows_backed env gs s\<close> unfolding rows_backed_def key_index_def rows_kept_def by (metis option.exhaust option.distinct(1))
  ultimately show ?case using kept(1) by (simp add: rows_backed_def)
qed

section \<open>What the services transmit\<close>

text \<open>The checks on draft, proposal and decision, for either channel.\<close>

definition sendable ::
  "py_env \<Rightarrow> resolution_store \<Rightarrow> governance_store \<Rightarrow> string \<Rightarrow> string \<Rightarrow> string \<Rightarrow> draft \<Rightarrow> decision_record \<Rightarrow> bool" where
  "sendable env rs gs draft_id tenant body_sha256 d g \<longleftrightarrow>
     get_draft rs draft_id tenant = Some d \<and> rd_status d = RD_READY \<and>
     rd_body_sha256 d = body_sha256 \<and> sha256_text env (rd_body d) = body_sha256 \<and>
     (\<exists>p. get_proposal rs (rd_proposal_id d) tenant = Some p \<and> rp_status p = RP_SEND_ELIGIBLE \<and>
        rp_decision_id p = rd_decision_id d) \<and>
     dr_decision g = decision_value ALLOW \<and> dr_tenant_id g = Some tenant \<and>
     dget (dr_metadata g) ''proposed_reply_sha256'' = Some (PStr (sha256_text env (governed_reply d)))"

lemma checked_reply:
  assumes "load_sendable_draft env channel rs draft_id tenant = Inr d"
    and "load_sendable_proposal channel rs (rd_proposal_id d) tenant = Inr p"
    and "assert_expected_outbox_guards env channel d (Some decision) (Some digest) = Inr ()"
    and "assert_draft_and_proposal_lineage channel d p = Inr ()"
    and "assert_persisted_governance_allow env channel gs d p tenant = Inr ()"
  obtains i g where "uuid_parse env decision = Some i" "rd_decision_id d = Some i"
    "get_decision gs i (Some tenant) = Some g"
    "sendable env rs gs draft_id tenant (str_lower env (py_strip digest)) d g"
  using assms that
  by (auto simp: load_sendable_draft_def load_sendable_proposal_def assert_expected_outbox_guards_def
      assert_draft_and_proposal_lineage_def assert_persisted_governance_allow_def sendable_def Let_def)

lemma check_email_facts:
  assumes "check_email_draft env pt rs gs q = Inr (recipient, subject, d, credentials, dec, i)"
    and "er_expected_decision_id q = Some decision" "er_expected_sha256 q = Some digest"
  obtains j g where "uuid_parse env decision = Some j" "rd_decision_id d = Some j"
    "get_decision gs j (Some (er_expected_tenant_id q)) = Some g"
    "sendable env rs gs (er_draft_id q) (er_expected_tenant_id q) (str_lower env (py_strip digest)) d g"
    "recipient = py_strip (er_recipient q)"
proof -
  have "\<exists>p. load_sendable_draft env ''Email'' rs (er_draft_id q) (er_expected_tenant_id q) = Inr d \<and>
      load_sendable_proposal ''Email'' rs (rd_proposal_id d) (er_expected_tenant_id q) = Inr p \<and>
      assert_expected_outbox_guards env ''Email'' d (Some decision) (Some digest) = Inr () \<and>
      assert_draft_and_proposal_lineage ''Email'' d p = Inr () \<and>
      assert_persisted_governance_allow env ''Email'' gs d p (er_expected_tenant_id q) = Inr () \<and>
      recipient = py_strip (er_recipient q)"
    using assms by (auto simp: check_email_draft_def Let_def required_text_def split: if_splits)
  then obtain p where p: "load_sendable_draft env ''Email'' rs (er_draft_id q) (er_expected_tenant_id q) = Inr d"
      "load_sendable_proposal ''Email'' rs (rd_proposal_id d) (er_expected_tenant_id q) = Inr p"
      "assert_expected_outbox_guards env ''Email'' d (Some decision) (Some digest) = Inr ()"
      "assert_draft_and_proposal_lineage ''Email'' d p = Inr ()"
      "assert_persisted_governance_allow env ''Email'' gs d p (er_expected_tenant_id q) = Inr ()"
      "recipient = py_strip (er_recipient q)"
    by blast
  show thesis using checked_reply [OF p(1-5)] p(6) that by metis
qed

lemma check_whatsapp_facts:
  assumes "check_whatsapp_draft env pt rs gs q = Inr (recipient, d, credentials, dec, i)"
    and "wq_expected_decision_id q = Some decision" "wq_expected_sha256 q = Some digest"
  obtains j g where "uuid_parse env decision = Some j" "rd_decision_id d = Some j"
    "get_decision gs j (Some (wq_expected_tenant_id q)) = Some g"
    "sendable env rs gs (wq_draft_id q) (wq_expected_tenant_id q) (str_lower env (py_strip digest)) d g"
    "recipient = py_strip (wq_recipient q)"
proof -
  have "\<exists>p. load_sendable_draft env ''WhatsApp'' rs (wq_draft_id q) (wq_expected_tenant_id q) = Inr d \<and>
      load_sendable_proposal ''WhatsApp'' rs (rd_proposal_id d) (wq_expected_tenant_id q) = Inr p \<and>
      assert_expected_outbox_guards env ''WhatsApp'' d (Some decision) (Some digest) = Inr () \<and>
      assert_draft_and_proposal_lineage ''WhatsApp'' d p = Inr () \<and>
      assert_persisted_governance_allow env ''WhatsApp'' gs d p (wq_expected_tenant_id q) = Inr () \<and>
      recipient = py_strip (wq_recipient q)"
    using assms by (auto simp: check_whatsapp_draft_def Let_def required_text_def split: if_splits)
  then obtain p where p: "load_sendable_draft env ''WhatsApp'' rs (wq_draft_id q) (wq_expected_tenant_id q) = Inr d"
      "load_sendable_proposal ''WhatsApp'' rs (rd_proposal_id d) (wq_expected_tenant_id q) = Inr p"
      "assert_expected_outbox_guards env ''WhatsApp'' d (Some decision) (Some digest) = Inr ()"
      "assert_draft_and_proposal_lineage ''WhatsApp'' d p = Inr ()"
      "assert_persisted_governance_allow env ''WhatsApp'' gs d p (wq_expected_tenant_id q) = Inr ()"
      "recipient = py_strip (wq_recipient q)"
    by blast
  show thesis using checked_reply [OF p(1-5)] p(6) that by metis
qed

text \<open>The provider's state moves only past those checks, with the draft's rendered body.\<close>

lemma email_transmits:
  assumes "send_email_draft env pt sender rs gs now q s x = (res, s', x')" "x' \<noteq> x"
    and "er_expected_decision_id q = Some decision" "er_expected_sha256 q = Some digest"
  obtains d g j m where "uuid_parse env decision = Some j" "rd_decision_id d = Some j"
    "get_decision gs j (Some (er_expected_tenant_id q)) = Some g"
    "sendable env rs gs (er_draft_id q) (er_expected_tenant_id q) (str_lower env (py_strip digest)) d g"
    "x' = snd (sender x m)" "sm_recipient m = py_strip (er_recipient q)"
    "sm_body m = render_customer_email_body env (rd_body d) (derive_ticket_reference env (rd_session_id d))
       (er_tenant_id q) (er_display_name q)"
proof -
  obtain recipient subject d credentials dec i s2 where
    check: "check_email_draft env pt rs gs q = Inr (recipient, subject, d, credentials, dec, i)"
    and start: "begin_email_send env pt rs gs now q s =
      (Inr (TRANSMIT i (ses_message_for env q recipient subject d credentials)), s2)"
    using assms(1,2) by (cases rule: begin_email_cases [of env pt rs gs now q s]) (simp_all add: send_email_draft_def)
  have "x' = snd (sender x (ses_message_for env q recipient subject d credentials))"
    using assms(1) start by (auto simp: send_email_draft_def split: prod.splits)
  moreover obtain j g where "uuid_parse env decision = Some j" "rd_decision_id d = Some j"
    "get_decision gs j (Some (er_expected_tenant_id q)) = Some g"
    "sendable env rs gs (er_draft_id q) (er_expected_tenant_id q) (str_lower env (py_strip digest)) d g"
    "recipient = py_strip (er_recipient q)"
    by (rule check_email_facts [OF check assms(3,4)])
  ultimately show thesis
    by (intro that [of j d g "ses_message_for env q recipient subject d credentials"]) (simp_all add: ses_message_for_def Let_def)
qed

lemma whatsapp_transmits:
  assumes "send_whatsapp_draft env pt sender rs gs now q s x = (res, s', x')" "x' \<noteq> x"
    and "wq_expected_decision_id q = Some decision" "wq_expected_sha256 q = Some digest"
  obtains d g j m where "uuid_parse env decision = Some j" "rd_decision_id d = Some j"
    "get_decision gs j (Some (wq_expected_tenant_id q)) = Some g"
    "sendable env rs gs (wq_draft_id q) (wq_expected_tenant_id q) (str_lower env (py_strip digest)) d g"
    "x' = snd (sender x m)" "gm_recipient m = py_strip (wq_recipient q)"
    "gm_body m = render_customer_whatsapp_body (rd_body d)"
proof -
  obtain recipient d credentials dec i s2 where
    check: "check_whatsapp_draft env pt rs gs q = Inr (recipient, d, credentials, dec, i)"
    and start: "begin_whatsapp_send env pt rs gs now q s =
      (Inr (TRANSMIT i (graph_message_for recipient d credentials)), s2)"
    using assms(1,2) by (cases rule: begin_whatsapp_cases [of env pt rs gs now q s]) (simp_all add: send_whatsapp_draft_def)
  have "x' = snd (sender x (graph_message_for recipient d credentials))"
    using assms(1) start by (auto simp: send_whatsapp_draft_def split: prod.splits)
  moreover obtain j g where "uuid_parse env decision = Some j" "rd_decision_id d = Some j"
    "get_decision gs j (Some (wq_expected_tenant_id q)) = Some g"
    "sendable env rs gs (wq_draft_id q) (wq_expected_tenant_id q) (str_lower env (py_strip digest)) d g"
    "recipient = py_strip (wq_recipient q)"
    by (rule check_whatsapp_facts [OF check assms(3,4)])
  ultimately show thesis
    by (intro that [of j d g "graph_message_for recipient d credentials"]) (simp_all add: graph_message_for_def)
qed

end
