(* ===== verification/Delivery_Safety.thy ===== *)
theory Delivery_Safety
  imports Delivery_Promises
begin

text \<open>
  What the reply path promises, with its worked examples: nothing reaches a customer that a
  persisted ALLOW does not name, a delivery is transmitted at most once while no failure is
  recorded, and what a recorded failure opens.
\<close>

section \<open>Worked example\<close>

text \<open>Identities are the bare seeds here, so that the examples evaluate quickly.\<close>

definition reply_env :: py_env where
  "reply_env = demo_env\<lparr>uuid5 := (\<lambda>ns s. s)\<rparr>"

definition demo_reply_proposal :: proposal where
  "demo_reply_proposal = \<lparr>rp_proposal_id = ''p1'', rp_tenant_id = ''t1'', rp_session_id = Some ''s1'',
     rp_execution_id = Some ''e1'', rp_dispatch_id = ''x1'', rp_diagnostic_event_id = None, rp_reply = ''Done.'',
     rp_category = ''billing'', rp_confidence = 0, rp_supervisor_verdict = RS_PASS, rp_governance_verdict = RG_ALLOW,
     rp_autonomy_decision = RA_AUTO_APPROVED, rp_status = RP_SEND_ELIGIBLE, rp_created_at = 0, rp_updated_at = 0,
     rp_decision_id = Some ''g1'', rp_recommended_actions = [], rp_evidence = [], rp_source_language = ''en'',
     rp_metadata = []\<rparr>"

definition demo_draft_id :: uuid where
  "demo_draft_id = uuid5 reply_env DRAFT_NAMESPACE ''t1|p1''"

definition demo_reply_draft :: draft where
  "demo_reply_draft = \<lparr>rd_draft_id = demo_draft_id, rd_tenant_id = ''t1'', rd_proposal_id = ''p1'',
     rd_session_id = ''s1'', rd_execution_id = ''e1'', rd_dispatch_id = ''x1'', rd_diagnostic_event_id = None,
     rd_decision_id = Some ''g1'', rd_status = RD_READY, rd_body = ''Done.'',
     rd_body_sha256 = sha256_text reply_env ''Done.'', rd_category = ''billing'', rd_confidence = 0, rd_created_at = 0,
     rd_updated_at = 0, rd_metadata = []\<rparr>"

definition demo_allow :: decision_record where
  "demo_allow = \<lparr>dr_decision_id = ''g1'', dr_decision = ''allow'', dr_stage = ''pre_execution'',
     dr_policy_chain_id = ''c'', dr_reason = ''ok'', dr_decided_at = ''0'', dr_correlation_id = None,
     dr_request_id = None, dr_tenant_id = Some ''t1'', dr_subject_kind = ''communication'',
     dr_governance_version = ''1'', dr_violations = [], dr_restrictions = [], dr_evaluated_rules = [],
     dr_metadata = [(''proposal_id'', PStr ''p1''), (''session_id'', PStr ''s1''), (''execution_id'', PStr ''e1''),
       (''dispatch_id'', PStr ''x1''), (''draft_id'', PStr demo_draft_id),
       (''governed_action'', PStr ''customer_reply.send''), (''source_channel'', PStr ''email''),
       (''reply_recipient'', PStr ''c@x''), (''reply_thread_context'', PStr ''m1''),
       (''proposed_reply_sha256'', PStr (sha256_text reply_env ''Done.''))]\<rparr>"

definition demo_target :: send_target where
  "demo_target = \<lparr>tg_channel = ''email'', tg_recipient = ''c@x'', tg_source = Some ''us@y'', tg_subject = Some ''Hi'',
     tg_thread_context = Some ''m1'', tg_in_reply_to = None, tg_references = None, tg_metadata = []\<rparr>"

definition demo_decisions :: governance_store where
  "demo_decisions = snd (record_decision reply_env empty_governance_store demo_allow)"

definition demo_reply_outbox :: send_store where
  "demo_reply_outbox = snd (request_auto_send reply_env 1 demo_decisions empty_send_store demo_reply_draft
     demo_reply_proposal demo_target ''t1'' None)"

definition demo_channels :: channel_ports where
  "demo_channels = \<lparr>cp_credentials = (\<lambda>t c. Inr [(''access_key_id'', PStr ''a''), (''secret_access_key'', PStr ''b''),
       (''region'', PStr ''r''), (''source_email_address'', PStr ''us@y'')]),
     cp_route = (\<lambda>t c a. Inr True)\<rparr>"

text \<open>The provider keeps a list of the recipients it was called for.\<close>

definition demo_senders :: "string list reply_senders" where
  "demo_senders = \<lparr>ys_email = (\<lambda>x m. (SENDER_ACCEPTED ''m'' 200, sm_recipient m # x)),
     ys_whatsapp = (\<lambda>x m. (SENDER_ACCEPTED ''w'' 200, gm_recipient m # x))\<rparr>"

definition demo_reply_world :: "string list reply_world" where
  "demo_reply_world = \<lparr>yw_resolution = \<lparr>rs_proposals = [(''p1'', demo_reply_proposal)], rs_drafts = [(demo_draft_id, demo_reply_draft)]\<rparr>,
     yw_governance = demo_decisions, yw_emails = [], yw_whatsapps = [], yw_provider = []\<rparr>"

definition demo_request :: send_row where
  "demo_request = snd (hd (sd_records demo_reply_outbox))"

lemma demo_text_laws: "text_laws reply_env"
proof -
  have "ascii_lower c = c" if "ascii_plain c" for c
    using that by (auto simp: ascii_plain_def ascii_lower_def Let_def)
  then show ?thesis
    by (simp add: text_laws_def reply_env_def demo_env_def list_all_iff map_idI)
qed

lemma demo_decision_recorded: "demo_decisions = \<lparr>gs_decisions = [(''g1'', demo_allow)], gs_traces = [], gs_actions = []\<rparr>"
  by code_simp

lemma demo_requested: "sd_records demo_reply_outbox = [(so_outbox_id demo_request, demo_request)]"
  by code_simp

lemma demo_sent:
  "yw_provider (snd (composed_executor reply_env demo_channels demo_senders 2 demo_reply_world demo_request)) = [''c@x'']"
  by code_simp

lemma demo_governed: "governed_outbox reply_env cfg demo_decisions demo_reply_outbox"
  unfolding demo_reply_outbox_def
  by (rule governed_outbox.requested, unfold demo_decisions_def, rule governed_outbox.decided, rule governed_outbox.nothing)
    (simp add: canonical_reply_def canonical_def reply_env_def demo_env_def)

section \<open>The outbox behind it\<close>

text \<open>(C39) Every row of the outbox is well formed, whatever was done to it in whatever order:
  it is stored once, under the identity derived from its own tenant, draft, channel, recipient
  and action; its channel is one the executor serves and its digest 64 lower-case hex digits;
  a pending row carries no claim and any other row a claim, a worker and at least one attempt;
  it has a send time exactly when it is sent, and then a provider id; a dead letter has an
  error; and a row for reconciliation has an attempt marker, an error and no provider id.\<close>

theorem outbox_rows_typed:
  assumes "governed_outbox env cfg gs s" "text_laws env" "dget (sd_records s) k = Some r"
  shows "wf_dict (sd_records s) \<and> so_outbox_id r = k \<and>
    derive_send_outbox_id env (so_tenant_id r) (so_draft_id r) (so_channel r) (so_recipient r) (so_action r) = Inr k \<and>
    so_channel r \<in> set [''email'', ''whatsapp''] \<and>
    length (so_body_sha256 r) = 64 \<and> set (so_body_sha256 r) \<subseteq> set ''0123456789abcdef'' \<and>
    (if so_status r = SO_PENDING then so_claim_id r = None \<and> so_worker_id r = None \<and> so_claimed_at r = None
     else so_claim_id r \<noteq> None \<and> so_worker_id r \<noteq> None \<and> so_claimed_at r \<noteq> None \<and> 1 \<le> so_attempt_count r) \<and>
    (so_status r = SO_SENT \<longleftrightarrow> so_sent_at r \<noteq> None) \<and> (so_status r = SO_SENT \<longrightarrow> so_provider_id r \<noteq> None) \<and>
    (so_status r = SO_DEAD_LETTERED \<longrightarrow> so_last_error r \<noteq> None) \<and>
    (so_status r = SO_NEEDS_RECONCILIATION \<longrightarrow>
       so_last_error r \<noteq> None \<and> so_attempted_at r \<noteq> None \<and> so_provider_id r = None)"
proof -
  have "send_inv s" and "row_typed env r"
    using governed_backed [OF assms(1,2)] assms(3) unfolding rows_backed_def by blast+
  moreover have "so_outbox_id r = k" by (rule send_invD(2) [OF calculation(1) assms(3)])
  ultimately show ?thesis using send_invD(1) unfolding row_typed_def row_shape_def by simp
qed

lemma outbox_rows_typed_witness:
  "derive_send_outbox_id reply_env ''t1'' (so_draft_id demo_request) ''email'' ''c@x'' ''customer_reply.send'' =
     Inr (so_outbox_id demo_request) \<and> so_claim_id demo_request = None"
proof -
  have "so_tenant_id demo_request = ''t1'' \<and> so_channel demo_request = ''email'' \<and> so_recipient demo_request = ''c@x'' \<and>
      so_action demo_request = ''customer_reply.send'' \<and> so_status demo_request = SO_PENDING"
    by code_simp
  then show ?thesis
    using outbox_rows_typed [OF demo_governed demo_text_laws, of "so_outbox_id demo_request" demo_request] demo_requested
    by simp
qed

text \<open>(C38) A request to send creates an intent exactly when everything matches: tenant and
  target are usable, the draft and its proposal carry the same lineage and are ready, the body
  matches its digest and has no placeholder left, and the persisted decision is an ALLOW for
  exactly this proposal, draft, channel, recipient, thread and text.  Then the caller gets the
  row the unique index holds for the intent, which is a new pending row unless there was one;
  in every other case the outbox is left as it is and no row is returned.\<close>

theorem auto_send_exact:
  assumes "governed_outbox env cfg gs s" "text_laws env"
    and "request_auto_send env now gs s d p target expected created_at = (res, s')"
  shows "if py_strip expected \<noteq> [] \<and> supported_target env target \<and>
      (\<exists>g. exact_reply env gs d p target (py_strip expected) g) \<and>
      (\<exists>r. row_for env now d p target (py_strip expected) created_at = Inr r)
    then \<exists>r i row. row_for env now d p target (py_strip expected) created_at = Inr r \<and>
      res = Inr \<lparr>au_outbox = Some row, au_reason = None\<rparr> \<and>
      dget (sd_by_unique s') (send_unique_key r) = Some i \<and> dget (sd_records s') i = Some row \<and>
      (if dget (sd_by_unique s) (send_unique_key r) = None
       then row = r \<and> so_status r = SO_PENDING \<and> sd_records s' = dset (so_outbox_id r) r (sd_records s)
       else s' = s)
    else s' = s \<and> (\<forall>row. res \<noteq> Inr \<lparr>au_outbox = Some row, au_reason = None\<rparr>)"
    (is "if ?wanted then ?created else ?refused")
proof (cases ?wanted)
  case True
  then obtain r where r: "row_for env now d p target (py_strip expected) created_at = Inr r"
    and verdict: "auto_send_verdict env now gs d p target expected created_at = Inr (Inr r)"
    unfolding verdict_row by blast
  have pending: "so_status r = SO_PENDING" by (rule row_for_pending [OF r])
  have index: "dget (sd_records s) i \<noteq> None" if "dget (sd_by_unique s) (send_unique_key r) = Some i" for i
    using governed_backed [OF assms(1,2)] that unfolding rows_backed_def key_index_def by blast
  have ?created
  proof (cases "dget (sd_by_unique s) (send_unique_key r)")
    case None
    then show ?thesis
      using assms(3) r pending by (auto simp: request_auto_send_def verdict create_send_outbox_def)
  next
    case (Some i)
    then obtain row where "dget (sd_records s) i = Some row" using index by blast
    then show ?thesis
      using assms(3) r Some by (auto simp: request_auto_send_def verdict create_send_outbox_def)
  qed
  then show ?thesis by (rule iffD2 [OF if_P [OF True]])
next
  case False
  then have none: "auto_send_verdict env now gs d p target expected created_at \<noteq> Inr (Inr r)" for r
    unfolding verdict_row by blast
  have ?refused
    using assms(3) none refusal_no_row [of env now gs d p target expected created_at]
    by (auto simp: request_auto_send_def split: sum.splits)
  then show ?thesis by (rule iffD2 [OF if_not_P [OF False]])
qed

lemma demo_requestable:
  "case fst (request_auto_send reply_env 1 demo_decisions empty_send_store demo_reply_draft demo_reply_proposal
       demo_target ''t1'' None) of Inr a \<Rightarrow> au_outbox a \<noteq> None \<and> au_reason a = None | Inl e \<Rightarrow> False"
  by code_simp

lemma demo_governed_empty: "governed_outbox reply_env cfg demo_decisions empty_send_store"
  unfolding demo_decisions_def by (rule governed_outbox.decided, rule governed_outbox.nothing)

lemma auto_send_exact_witness:
  "\<exists>g. exact_reply reply_env demo_decisions demo_reply_draft demo_reply_proposal demo_target (py_strip ''t1'') g"
proof -
  obtain res s' where call: "request_auto_send reply_env 1 demo_decisions empty_send_store demo_reply_draft
      demo_reply_proposal demo_target ''t1'' None = (res, s')" by (metis surj_pair)
  then obtain row where "res = Inr \<lparr>au_outbox = Some row, au_reason = None\<rparr>"
    using demo_requestable by (cases res; cases "projr res") auto
  then show ?thesis
    using auto_send_exact [OF demo_governed_empty demo_text_laws call] by (simp only: split: if_split_asm) blast+
qed

section \<open>What reaches the customer\<close>

text \<open>(C1) Nothing reaches a customer without a decision that names it.  Take any outbox that
  recorded decisions, requested replies and workers can produce, in any order, and hand any of
  its rows to the composed executor of the send worker.  If a provider is called at all (its
  state moved), then a persisted ALLOW decision for that tenant names this proposal, draft,
  channel and recipient; the draft is ready, its body still has the digest the row was created
  with, and the decision carries the digest of the governed reply; and the provider got one
  message, of the row's channel, to the row's recipient, whose body is that draft's body,
  rendered.\<close>

theorem reply_governed:
  assumes "governed_outbox env cfg gs s" "text_laws env" "dget (sd_records s) k = Some r" "yw_governance y = gs"
    and "composed_executor env pt senders now y r = (answer, y')" "yw_provider y' \<noteq> yw_provider y"
  shows "\<exists>d g. sendable env (yw_resolution y) gs (so_draft_id r) (so_tenant_id r) (so_body_sha256 r) d g \<and>
    rd_decision_id d = Some (so_decision_id r) \<and> dget (gs_decisions gs) (so_decision_id r) = Some g \<and>
    names_reply env g r \<and>
    (so_channel r = ''email'' \<and>
       (\<exists>m. yw_provider y' = snd (ys_email senders (yw_provider y) m) \<and> sm_recipient m = so_recipient r \<and>
         sm_body m = render_customer_email_body env (rd_body d) (derive_ticket_reference env (rd_session_id d))
           (so_tenant_id r) (metadata_text env (so_metadata r) ''recipient_display_name'')) \<or>
     so_channel r = ''whatsapp'' \<and>
       (\<exists>m. yw_provider y' = snd (ys_whatsapp senders (yw_provider y) m) \<and> gm_recipient m = so_recipient r \<and>
         gm_body m = render_customer_whatsapp_body (rd_body d)))"
proof -
  have row: "backed env gs r" using governed_backed [OF assms(1,2)] assms(3) unfolding rows_backed_def by blast
  note rowD = backedD [OF row assms(2)]
  have "so_channel r = ''email'' \<or> so_channel r = ''whatsapp''"
    using assms(5,6) by (auto simp: composed_executor_def split: if_splits)
  then show ?thesis
  proof
    assume channel: "so_channel r = ''email''"
    obtain res es x where call: "send_email_draft env pt (ys_email senders) (yw_resolution y) gs now
        (email_request_of env r) (yw_emails y) (yw_provider y) = (res, es, x)" "x = yw_provider y'"
      using assms(4,5) channel by (auto simp: composed_executor_def split: prod.splits)
    obtain d g j m where sent: "uuid_parse env (so_decision_id r) = Some j" "rd_decision_id d = Some j"
      "get_decision gs j (Some (so_tenant_id r)) = Some g"
      "sendable env (yw_resolution y) gs (so_draft_id r) (so_tenant_id r) (so_body_sha256 r) d g"
      "yw_provider y' = snd (ys_email senders (yw_provider y) m)" "sm_recipient m = so_recipient r"
      "sm_body m = render_customer_email_body env (rd_body d) (derive_ticket_reference env (rd_session_id d))
         (so_tenant_id r) (metadata_text env (so_metadata r) ''recipient_display_name'')"
      by (rule email_transmits [OF call(1), of "so_decision_id r" "so_body_sha256 r"])
        (use assms(6) call(2) rowD(2,3) in \<open>simp_all add: email_request_of_def\<close>)
    have "j = so_decision_id r" using sent(1) rowD(4) by simp
    then show ?thesis using sent(2-) channel rowD(1) get_decision_Some [OF sent(3)] by auto
  next
    assume channel: "so_channel r = ''whatsapp''"
    obtain res es x where call: "send_whatsapp_draft env pt (ys_whatsapp senders) (yw_resolution y) gs now
        (whatsapp_request_of env r) (yw_whatsapps y) (yw_provider y) = (res, es, x)" "x = yw_provider y'"
      using assms(4,5) channel by (auto simp: composed_executor_def split: prod.splits)
    obtain d g j m where sent: "uuid_parse env (so_decision_id r) = Some j" "rd_decision_id d = Some j"
      "get_decision gs j (Some (so_tenant_id r)) = Some g"
      "sendable env (yw_resolution y) gs (so_draft_id r) (so_tenant_id r) (so_body_sha256 r) d g"
      "yw_provider y' = snd (ys_whatsapp senders (yw_provider y) m)" "gm_recipient m = so_recipient r"
      "gm_body m = render_customer_whatsapp_body (rd_body d)"
      by (rule whatsapp_transmits [OF call(1), of "so_decision_id r" "so_body_sha256 r"])
        (use assms(6) call(2) rowD(2,3) in \<open>simp_all add: whatsapp_request_of_def\<close>)
    have "j = so_decision_id r" using sent(1) rowD(4) by simp
    then show ?thesis using sent(2-) channel rowD(1) get_decision_Some [OF sent(3)] by auto
  qed
qed

lemma reply_governed_witness:
  "\<exists>d g. sendable reply_env (yw_resolution demo_reply_world) demo_decisions (so_draft_id demo_request)
      (so_tenant_id demo_request) (so_body_sha256 demo_request) d g \<and> names_reply reply_env g demo_request"
  using reply_governed [of reply_env cfg demo_decisions demo_reply_outbox "so_outbox_id demo_request"
      demo_request demo_reply_world demo_channels demo_senders 2]
    demo_governed demo_text_laws demo_sent
  by (cases "composed_executor reply_env demo_channels demo_senders 2 demo_reply_world demo_request")
    (auto simp: demo_requested demo_reply_world_def)

section \<open>At most once, until a failure is recorded\<close>

text \<open>(C2) On either channel, over every interleaving of callers that check, reserve, call and
  settle, with crashes between any two of these steps: as long as no failure is recorded for a
  delivery, at most one caller was ever cleared to transmit it, so the provider is called at
  most once, and a caller that crashed after its reservation is never doubled.\<close>

theorem delivery_once:
  assumes "delivery_reachable (email_start env pt) email_settle [] w" "k \<notin> set (dw_failures w)"
    and "delivery_reachable (whatsapp_start env pt) whatsapp_settle [] v" "j \<notin> set (dw_failures v)"
  shows "provider_calls w k + cleared_callers w k \<le> 1 \<and> provider_calls v j + cleared_callers v j \<le> 1"
  using emails.one_call [OF assms(1) _ assms(2)] whatsapps.one_call [OF assms(3) _ assms(4)]
  by (simp add: email_status_def whatsapp_status_def)

definition demo_mail :: "send_context \<times> email_request" where
  "demo_mail = ((yw_resolution demo_reply_world, demo_decisions, 2), email_request_of reply_env demo_request)"

definition demo_key :: delivery_key where
  "demo_key = (''t1'', ''t1|t1|p1|g1'')"

definition demo_credentials :: ses_credentials where
  "demo_credentials = \<lparr>sc_access_key_id = ''a'', sc_secret_access_key = ''b'', sc_region = ''r'', sc_source = ''us@y'',
     sc_session_token = None, sc_endpoint_url = None, sc_configuration_set = None\<rparr>"

lemma demo_check:
  "check_email_draft reply_env demo_channels (yw_resolution demo_reply_world) demo_decisions (email_request_of reply_env demo_request) =
     Inr (''c@x'', ''Hi'', demo_reply_draft, demo_credentials, ''g1'', ''t1|t1|p1|g1'')"
  by code_simp

lemma demo_asks: "er_expected_tenant_id (email_request_of reply_env demo_request) = ''t1''"
  "er_tenant_id (email_request_of reply_env demo_request) = ''t1''" "er_allow_retry (email_request_of reply_env demo_request)"
  by code_simp+

definition demo_pending :: email_delivery where
  "demo_pending = new_email_delivery (email_request_of reply_env demo_request) ''c@x'' ''Hi'' demo_reply_draft
     demo_credentials ''g1'' ''t1|t1|p1|g1'' 2"

lemma demo_pending_matches:
  "assert_email_delivery_matches demo_pending (sc_source demo_credentials) ''c@x'' ''Hi'' demo_reply_draft
     (optional_text (er_in_reply_to (email_request_of reply_env demo_request)))
     (optional_text (er_references (email_request_of reply_env demo_request))) = Inr ()"
  "ed_tenant_id demo_pending = ''t1''" "ed_delivery_id demo_pending = ''t1|t1|p1|g1''"
  by (simp_all add: assert_email_delivery_matches_def demo_pending_def new_email_delivery_def Let_def demo_asks)

lemmas demo_begin = email_start_def demo_mail_def begin_email_send_def demo_check reserve_email_delivery_def demo_asks
  demo_pending_matches demo_key_def

lemma demo_start: "email_start reply_env demo_channels demo_mail [] = (Some demo_key, [(demo_key, demo_pending)])"
  by (simp add: demo_begin flip: demo_pending_def)

lemma demo_called:
  "delivery_reachable (email_start reply_env demo_channels) email_settle []
     \<lparr>dw_ledger = [(demo_key, demo_pending)], dw_open = [(True, demo_key)], dw_calls = [demo_key], dw_failures = []\<rparr>"
proof -
  let ?R = "delivery_reachable (email_start reply_env demo_channels) email_settle []"
  have "?R \<lparr>dw_ledger = [(demo_key, demo_pending)], dw_open = [(False, demo_key)], dw_calls = [], dw_failures = []\<rparr>"
    using delivery_reachable.step [OF delivery_reachable.first delivery_trans.cleared [of "email_start reply_env demo_channels" demo_mail]]
      demo_start by simp
  from delivery_reachable.step [OF this delivery_trans.call [of _ "[]" demo_key "[]"]] show ?thesis by simp
qed

lemma delivery_once_witness:
  "provider_calls \<lparr>dw_ledger = [(demo_key, demo_pending)], dw_open = [(True, demo_key)], dw_calls = [demo_key], dw_failures = []\<rparr> demo_key = 1 \<and>
   cleared_callers \<lparr>dw_ledger = [(demo_key, demo_pending)], dw_open = [(True, demo_key)], dw_calls = [demo_key], dw_failures = []\<rparr> demo_key = 0"
  using delivery_once [OF demo_called _ delivery_reachable.first, of demo_key demo_key]
  by (simp add: delivery_reachable.first provider_calls_def cleared_callers_def)

section \<open>Past a failure\<close>

text \<open>A cleared retry leaves the ledger as it is, so it can be cleared again.\<close>

lemma retries_pile_up:
  assumes "delivery_reachable start settle s0 w" "start q (dw_ledger w) = (Some k, dw_ledger w)"
  shows "delivery_reachable start settle s0 (w\<lparr>dw_open := replicate n (False, k) @ dw_open w\<rparr>)"
proof (induction n)
  case (Suc n)
  from delivery_reachable.step [OF Suc delivery_trans.cleared [of start q]] show ?case using assms(2) by simp
qed (use assms(1) in simp)

lemma calls_pile_up:
  assumes "delivery_reachable start settle s0 (w\<lparr>dw_open := xs @ replicate n (False, k) @ ys\<rparr>)"
  shows "delivery_reachable start settle s0
    (w\<lparr>dw_open := xs @ replicate n (True, k) @ ys, dw_calls := replicate n k @ dw_calls w\<rparr>)"
  using assms
proof (induction n arbitrary: w xs)
  case (Suc n)
  have "delivery_reachable start settle s0 (w\<lparr>dw_calls := k # dw_calls w, dw_open := (xs @ [(True, k)]) @ replicate n (False, k) @ ys\<rparr>)"
    using delivery_reachable.step [OF Suc.prems delivery_trans.call [of _ xs k "replicate n (False, k) @ ys"]]
    by (cases w) simp
  from Suc.IH [OF this] show ?case by (simp add: replicate_app_Cons_same)
qed simp

text \<open>(C40) A recorded failure ends that protection.  In any reachable world of the email
  ledger where a delivery has failed and a retry of it would be cleared, any number of retries
  are cleared and call the provider, because a retry reserves nothing; and when two of them
  settle, one accepted and then one refused, the ledger shows the delivery as failed although
  the provider accepted it.\<close>

theorem delivery_unfenced:
  assumes "delivery_reachable (email_start env pt) email_settle [] w" "email_status (dw_ledger w) k = Some DS_FAILED"
    and "email_start env pt q (dw_ledger w) = (Some k, s)"
  shows "\<exists>w'. delivery_reachable (email_start env pt) email_settle [] w' \<and>
      provider_calls w' k = provider_calls w k + n + 2 \<and>
      dw_ledger w' = email_settle k (t2, SENDER_REFUSED code) (email_settle k (t1, SENDER_ACCEPTED m ok) (dw_ledger w)) \<and>
      email_status (dw_ledger w') k = Some DS_FAILED"
proof -
  let ?R = "delivery_reachable (email_start env pt) email_settle []"
  let ?accept = "(t1, SENDER_ACCEPTED m ok)" and ?refuse = "(t2, SENDER_REFUSED code)"
  have "s = dw_ledger w" using email_start_cases(1) [OF assms(3)] assms(2) by simp
  then have "?R (w\<lparr>dw_open := [] @ replicate (n + 2) (False, k) @ dw_open w\<rparr>)"
    using retries_pile_up [OF assms(1), of q k "n + 2"] assms(3) by simp
  from calls_pile_up [OF this]
  have "?R (w\<lparr>dw_open := [] @ (True, k) # (True, k) # replicate n (True, k) @ dw_open w,
      dw_calls := replicate (n + 2) k @ dw_calls w\<rparr>)" by simp
  from delivery_reachable.step [OF this delivery_trans.settled [of _ "[]" k _ _ _ ?accept]]
  have "?R (w\<lparr>dw_ledger := email_settle k ?accept (dw_ledger w), dw_open := [] @ (True, k) # replicate n (True, k) @ dw_open w,
      dw_calls := replicate (n + 2) k @ dw_calls w\<rparr>)" by (cases w) simp
  from delivery_reachable.step [OF this delivery_trans.settled [of _ "[]" k _ _ _ ?refuse]]
  have *: "?R (w\<lparr>dw_ledger := email_settle k ?refuse (email_settle k ?accept (dw_ledger w)),
      dw_open := replicate n (True, k) @ dw_open w, dw_calls := replicate (n + 2) k @ dw_calls w,
      dw_failures := k # dw_failures w\<rparr>)" by (cases w) simp
  have failed: "email_status (email_settle k ?refuse (email_settle k ?accept (dw_ledger w))) k = Some DS_FAILED"
    using assms(2) by (simp add: email_settle_status)
  show ?thesis by (intro exI conjI, rule *) (simp_all add: provider_calls_def failed)
qed

definition demo_failed :: "(email_ledger, delivery_key) delivery_world" where
  "demo_failed = \<lparr>dw_ledger = email_settle demo_key (3, SENDER_REFUSED 503) [(demo_key, demo_pending)], dw_open = [],
     dw_calls = [demo_key], dw_failures = [demo_key]\<rparr>"

lemma demo_failed_reachable: "delivery_reachable (email_start reply_env demo_channels) email_settle [] demo_failed"
  using delivery_reachable.step [OF demo_called delivery_trans.settled [of _ "[]" demo_key "[]" _ _ "(3, SENDER_REFUSED 503)"]]
  by (simp add: demo_failed_def)

definition demo_failed_row :: email_delivery where
  "demo_failed_row = demo_pending\<lparr>ed_status := DS_FAILED, ed_status_code := Some 503,
     ed_error_code := Some ''ses_v2_http_503'', ed_updated_at := 3\<rparr>"

lemma demo_failed_ledger: "dw_ledger demo_failed = [(demo_key, demo_failed_row)]"
proof -
  have "show_int 503 = ''503''" by code_simp
  then show ?thesis
    by (simp add: demo_failed_def email_settle_def settle_email_send_def mark_email_delivery_failed_def demo_failed_row_def Let_def)
qed

lemma demo_retry:
  "email_start reply_env demo_channels demo_mail (dw_ledger demo_failed) = (Some demo_key, dw_ledger demo_failed)"
proof -
  have "error_is_retryable reply_env ''ses_v2_http_'' (Some ''ses_v2_http_503'')" by code_simp
  moreover have "assert_email_delivery_matches demo_failed_row = assert_email_delivery_matches demo_pending"
    by (simp add: fun_eq_iff assert_email_delivery_matches_def demo_failed_row_def Let_def)
  ultimately show ?thesis
    by (simp add: demo_failed_ledger demo_begin demo_failed_row_def flip: demo_pending_def)
qed

lemma delivery_unfenced_witness:
  "\<exists>w'. delivery_reachable (email_start reply_env demo_channels) email_settle [] w' \<and> provider_calls w' demo_key = 3 \<and>
     email_status (dw_ledger w') demo_key = Some DS_FAILED"
proof -
  have "email_status (dw_ledger demo_failed) demo_key = Some DS_FAILED"
    by (simp add: demo_failed_ledger email_status_def demo_failed_row_def)
  moreover have "provider_calls demo_failed demo_key = 1" by (simp add: demo_failed_def provider_calls_def)
  ultimately show ?thesis
    using delivery_unfenced [OF demo_failed_reachable _ demo_retry, of 0 4 503 4 "''m''" 200] by auto
qed

end
