(* ===== verification/Approval_Store.thy ===== *)
theory Approval_Store
  imports Resolution_Store
begin

text \<open>
  Case approvals: enums, identities and records of \<open>app/approvals\<close>, every method of the
  in-memory persistence (\<open>app/approvals/persistence/memory.py\<close>), and the producer ingress
  (\<open>app/approvals/ingress.py\<close>).  Methods hold the store's lock or have no suspension
  point: each is an atomic step.
\<close>

section \<open>Enums\<close>

datatype case_category =
    CC_RESOLUTION_REQUIRE_APPROVAL | CC_RESOLUTION_NEEDS_HUMAN_APPROVAL | CC_REFUND_WARRANTY
  | CC_LOW_CONFIDENCE | CC_COORDINATION_HUMAN_REVIEW | CC_CRISIS_ACTION | CC_FRAUD_RISK_HIGH

fun case_category_value :: "case_category \<Rightarrow> string" where
  "case_category_value CC_RESOLUTION_REQUIRE_APPROVAL = ''resolution_require_approval''"
| "case_category_value CC_RESOLUTION_NEEDS_HUMAN_APPROVAL = ''resolution_needs_human_approval''"
| "case_category_value CC_REFUND_WARRANTY = ''refund_warranty''"
| "case_category_value CC_LOW_CONFIDENCE = ''low_confidence''"
| "case_category_value CC_COORDINATION_HUMAN_REVIEW = ''coordination_human_review''"
| "case_category_value CC_CRISIS_ACTION = ''crisis_action''"
| "case_category_value CC_FRAUD_RISK_HIGH = ''fraud_risk_high''"

datatype case_status =
    CA_PENDING_SME_REVIEW | CA_AWAITING_APPROVAL | CA_GUIDANCE_IN_PROGRESS
  | CA_APPROVED | CA_REJECTED | CA_ESCALATED | CA_FAILED

fun case_status_value :: "case_status \<Rightarrow> string" where
  "case_status_value CA_PENDING_SME_REVIEW = ''pending_sme_review''"
| "case_status_value CA_AWAITING_APPROVAL = ''awaiting_approval''"
| "case_status_value CA_GUIDANCE_IN_PROGRESS = ''guidance_in_progress''"
| "case_status_value CA_APPROVED = ''approved''"
| "case_status_value CA_REJECTED = ''rejected''"
| "case_status_value CA_ESCALATED = ''escalated''"
| "case_status_value CA_FAILED = ''failed''"

datatype case_outbox_status = CO_PENDING | CO_PUBLISHING | CO_PUBLISHED | CO_FAILED

fun case_outbox_status_value :: "case_outbox_status \<Rightarrow> string" where
  "case_outbox_status_value CO_PENDING = ''pending''"
| "case_outbox_status_value CO_PUBLISHING = ''publishing''"
| "case_outbox_status_value CO_PUBLISHED = ''published''"
| "case_outbox_status_value CO_FAILED = ''failed''"

definition TERMINAL_CASE_STATUSES :: "case_status set" where
  "TERMINAL_CASE_STATUSES = {CA_APPROVED, CA_REJECTED, CA_ESCALATED, CA_FAILED}"

section \<open>Identities\<close>

definition APPROVAL_CASE_NAMESPACE :: uuid where
  "APPROVAL_CASE_NAMESPACE = ''51b3132f-2f18-4e68-a002-ef97051b0001''"

definition APPROVAL_OUTBOX_NAMESPACE :: uuid where
  "APPROVAL_OUTBOX_NAMESPACE = ''51b3132f-2f18-4e68-a002-ef97051b0002''"

definition APPROVAL_OUTBOX_CLAIM_NAMESPACE :: uuid where
  "APPROVAL_OUTBOX_CLAIM_NAMESPACE = ''51b3132f-2f18-4e68-a002-ef97051b0003''"

definition SME_RECOMMENDATION_NAMESPACE :: uuid where
  "SME_RECOMMENDATION_NAMESPACE = ''51b3132f-2f18-4e68-a002-ef97051b0004''"

definition derive_approval_dedup_key ::
  "py_env \<Rightarrow> string \<Rightarrow> string option \<Rightarrow> string option \<Rightarrow> string option \<Rightarrow> string \<Rightarrow> uuid" where
  "derive_approval_dedup_key env tenant_id execution_id dispatch_id session_id category =
     uuid5 env APPROVAL_CASE_NAMESPACE
       (tenant_id @ ''|'' @ project_optional_str execution_id @ ''|'' @ project_optional_str dispatch_id @ ''|'' @
        project_optional_str session_id @ ''|'' @ category)"

definition derive_approval_case_id :: "py_env \<Rightarrow> string \<Rightarrow> string \<Rightarrow> uuid" where
  "derive_approval_case_id env tenant_id dedup_key =
     uuid5 env APPROVAL_CASE_NAMESPACE (tenant_id @ ''|'' @ dedup_key)"

definition derive_approval_outbox_id :: "py_env \<Rightarrow> string \<Rightarrow> uuid" where
  "derive_approval_outbox_id env approval_case_id = uuid5 env APPROVAL_OUTBOX_NAMESPACE approval_case_id"

definition derive_approval_outbox_claim_id :: "py_env \<Rightarrow> string \<Rightarrow> string \<Rightarrow> uuid" where
  "derive_approval_outbox_claim_id env approval_case_id publisher_id =
     uuid5 env APPROVAL_OUTBOX_CLAIM_NAMESPACE (approval_case_id @ ''|'' @ publisher_id)"

definition derive_sme_recommendation_id :: "py_env \<Rightarrow> string \<Rightarrow> int \<Rightarrow> uuid" where
  "derive_sme_recommendation_id env approval_case_id guidance_round =
     uuid5 env SME_RECOMMENDATION_NAMESPACE (approval_case_id @ ''|round:'' @ show_int guidance_round)"

section \<open>Records\<close>

record approval_case =
  ca_case_id :: uuid
  ca_tenant_id :: string
  ca_session_id :: "string option"
  ca_execution_id :: "string option"
  ca_dispatch_id :: "string option"
  ca_category :: case_category
  ca_status :: case_status
  ca_requested_at :: int
  ca_dedup_key :: string
  ca_proposal_id :: "string option"
  ca_ticket_ref :: "string option"
  ca_product :: "string option"
  ca_issue_summary :: "string option"
  ca_recommendation_id :: "string option"
  ca_action :: "metadata option"
  ca_guidance_round :: int
  ca_guidance_ref :: "string option"
  ca_decision_id :: "string option"
  ca_resolved_at :: "int option"
  ca_resolved_by :: "string option"
  ca_note :: "string option"
  ca_metadata :: metadata

definition opt_pdict :: "metadata option \<Rightarrow> pyval" where
  "opt_pdict v = (case v of None \<Rightarrow> PNone | Some d \<Rightarrow> PDict d)"

definition opt_time :: "py_env \<Rightarrow> int option \<Rightarrow> pyval" where
  "opt_time env t = opt_pstr (map_option (isoformat env) t)"

definition approval_case_to_dict :: "py_env \<Rightarrow> approval_case \<Rightarrow> metadata" where
  "approval_case_to_dict env r =
     [(''approval_case_id'', PStr (ca_case_id r)), (''tenant_id'', PStr (ca_tenant_id r)),
      (''session_id'', opt_pstr (ca_session_id r)), (''execution_id'', opt_pstr (ca_execution_id r)),
      (''dispatch_id'', opt_pstr (ca_dispatch_id r)), (''resolution_proposal_id'', opt_pstr (ca_proposal_id r)),
      (''entry_category'', PStr (case_category_value (ca_category r))), (''ticket_ref'', opt_pstr (ca_ticket_ref r)),
      (''product'', opt_pstr (ca_product r)), (''issue_summary'', opt_pstr (ca_issue_summary r)),
      (''sme_recommendation_id'', opt_pstr (ca_recommendation_id r)),
      (''recommended_action'', opt_pdict (ca_action r)), (''status'', PStr (case_status_value (ca_status r))),
      (''guidance_round'', PInt (ca_guidance_round r)), (''guidance_ref'', opt_pstr (ca_guidance_ref r)),
      (''governance_decision_id'', opt_pstr (ca_decision_id r)),
      (''requested_at'', PStr (isoformat env (ca_requested_at r))), (''resolved_at'', opt_time env (ca_resolved_at r)),
      (''resolved_by'', opt_pstr (ca_resolved_by r)), (''resolution_note'', opt_pstr (ca_note r)),
      (''dedup_key'', PStr (ca_dedup_key r)), (''metadata'', PDict (ca_metadata r))]"

record case_outbox =
  co_outbox_id :: uuid
  co_case_id :: uuid
  co_tenant_id :: string
  co_status :: case_outbox_status
  co_created_at :: int
  co_claimed_at :: "int option"
  co_published_at :: "int option"
  co_publisher_id :: "string option"
  co_claim_id :: "string option"
  co_republish_count :: int
  co_dead_letter :: bool
  co_last_error :: "string option"
  co_metadata :: metadata

record case_query =
  cq_tenant_id :: "string option"
  cq_session_id :: "string option"
  cq_execution_id :: "string option"
  cq_dispatch_id :: "string option"
  cq_proposal_id :: "string option"
  cq_status :: "string option"
  cq_category :: "string option"
  cq_limit :: int
  cq_offset :: int

record case_outbox_query =
  coq_tenant_id :: "string option"
  coq_status :: "string option"
  coq_dead_letter :: "bool option"
  coq_limit :: int
  coq_offset :: int

definition default_case_query :: case_query where
  "default_case_query = \<lparr>cq_tenant_id = None, cq_session_id = None, cq_execution_id = None, cq_dispatch_id = None,
     cq_proposal_id = None, cq_status = None, cq_category = None, cq_limit = 50, cq_offset = 0\<rparr>"

definition default_case_outbox_query :: case_outbox_query where
  "default_case_outbox_query =
     \<lparr>coq_tenant_id = None, coq_status = None, coq_dead_letter = None, coq_limit = 100, coq_offset = 0\<rparr>"

section \<open>The store\<close>

record approval_store =
  as_cases :: "(uuid, approval_case) dict"
  as_dedup :: "(string \<times> string, uuid) dict"
  as_outbox :: "(uuid, case_outbox) dict"
  as_outbox_by_case :: "(uuid, uuid) dict"

definition empty_approval_store :: approval_store where
  "empty_approval_store = \<lparr>as_cases = [], as_dedup = [], as_outbox = [], as_outbox_by_case = []\<rparr>"

definition approval_wrong_tenant :: error where
  "approval_wrong_tenant = CaseApprovalPersistenceError ''case approval tenant mismatch''"

definition missing_key :: "uuid \<Rightarrow> error" where
  "missing_key i = ExternalError ''KeyError'' i"

definition create_case :: "approval_store \<Rightarrow> approval_case \<Rightarrow> string \<Rightarrow> approval_case result \<times> approval_store" where
  "create_case s r expected_tenant_id =
     (if ca_tenant_id r \<noteq> expected_tenant_id then (Inl approval_wrong_tenant, s)
      else case dget (as_dedup s) (ca_tenant_id r, ca_dedup_key r) of
        Some i \<Rightarrow> (require (dget (as_cases s) i) (missing_key i), s)
      | None \<Rightarrow> (Inr r, s\<lparr>as_cases := dset (ca_case_id r) r (as_cases s),
                    as_dedup := dset (ca_tenant_id r, ca_dedup_key r) (ca_case_id r) (as_dedup s)\<rparr>))"

definition get_case :: "approval_store \<Rightarrow> uuid \<Rightarrow> string \<Rightarrow> approval_case option" where
  "get_case s case_id expected_tenant_id =
     (case dget (as_cases s) case_id of
        None \<Rightarrow> None
      | Some r \<Rightarrow> if ca_tenant_id r \<noteq> expected_tenant_id then None else Some r)"

definition update_case ::
  "py_env \<Rightarrow> approval_store \<Rightarrow> approval_case \<Rightarrow> string \<Rightarrow> approval_case result \<times> approval_store" where
  "update_case env s r expected_tenant_id =
     (if ca_tenant_id r \<noteq> expected_tenant_id then (Inl approval_wrong_tenant, s)
      else if get_case s (ca_case_id r) expected_tenant_id = None then
        (Inl (CaseApprovalPersistenceError (''unknown approval case '' @ repr_str env (ca_case_id r))), s)
      else (Inr r, s\<lparr>as_cases := dset (ca_case_id r) r (as_cases s),
             as_dedup := dset (ca_tenant_id r, ca_dedup_key r) (ca_case_id r) (as_dedup s)\<rparr>))"

definition get_case_by_dedup_key :: "approval_store \<Rightarrow> string \<Rightarrow> string \<Rightarrow> approval_case option" where
  "get_case_by_dedup_key s dedup_key expected_tenant_id =
     (case dget (as_dedup s) (expected_tenant_id, dedup_key) of
        None \<Rightarrow> None
      | Some i \<Rightarrow> get_case s i expected_tenant_id)"

definition case_matches :: "case_query \<Rightarrow> string \<Rightarrow> approval_case \<Rightarrow> bool" where
  "case_matches q expected_tenant_id r \<longleftrightarrow>
     ca_tenant_id r = expected_tenant_id \<and>
     (\<forall>v \<in> set_option (cq_tenant_id q). ca_tenant_id r = v) \<and>
     (\<forall>v \<in> set_option (cq_session_id q). ca_session_id r = Some v) \<and>
     (\<forall>v \<in> set_option (cq_execution_id q). ca_execution_id r = Some v) \<and>
     (\<forall>v \<in> set_option (cq_dispatch_id q). ca_dispatch_id r = Some v) \<and>
     (\<forall>v \<in> set_option (cq_proposal_id q). ca_proposal_id r = Some v) \<and>
     (\<forall>v \<in> set_option (cq_status q). case_status_value (ca_status r) = v) \<and>
     (\<forall>v \<in> set_option (cq_category q). case_category_value (ca_category r) = v)"

definition list_cases :: "approval_store \<Rightarrow> case_query \<Rightarrow> string \<Rightarrow> approval_case page" where
  "list_cases s q expected_tenant_id =
     (let rows = rev (sort_key (\<lambda>r. (ca_requested_at r, ca_case_id r))
                   (filter (case_matches q expected_tenant_id) (dvals (as_cases s))))
      in \<lparr>p_rows = py_slice rows (cq_offset q) (cq_offset q + cq_limit q), p_total = int (length rows),
          p_limit = cq_limit q, p_offset = cq_offset q\<rparr>)"

section \<open>The notification outbox\<close>

definition save_case_outbox :: "approval_store \<Rightarrow> case_outbox \<Rightarrow> string \<Rightarrow> case_outbox result \<times> approval_store" where
  "save_case_outbox s r expected_tenant_id =
     (if co_tenant_id r \<noteq> expected_tenant_id then (Inl approval_wrong_tenant, s)
      else case dget (as_outbox_by_case s) (co_case_id r) of
        Some i \<Rightarrow> (require (dget (as_outbox s) i) (missing_key i), s)
      | None \<Rightarrow> (Inr r, s\<lparr>as_outbox := dset (co_outbox_id r) r (as_outbox s),
                    as_outbox_by_case := dset (co_case_id r) (co_outbox_id r) (as_outbox_by_case s)\<rparr>))"

definition get_outbox_by_case :: "approval_store \<Rightarrow> uuid \<Rightarrow> string \<Rightarrow> case_outbox option" where
  "get_outbox_by_case s case_id expected_tenant_id =
     (case dget (as_outbox_by_case s) case_id of
        None \<Rightarrow> None
      | Some i \<Rightarrow>
          (case dget (as_outbox s) i of
             None \<Rightarrow> None
           | Some r \<Rightarrow> if co_tenant_id r \<noteq> expected_tenant_id then None else Some r))"

definition republish_case_outbox ::
  "approval_store \<Rightarrow> case_outbox \<Rightarrow> string \<Rightarrow> case_outbox result \<times> approval_store" where
  "republish_case_outbox s r expected_tenant_id =
     (if co_tenant_id r \<noteq> expected_tenant_id then (Inl approval_wrong_tenant, s)
      else case dget (as_outbox_by_case s) (co_case_id r) of
        None \<Rightarrow> (Inr r, s\<lparr>as_outbox := dset (co_outbox_id r) r (as_outbox s),
                   as_outbox_by_case := dset (co_case_id r) (co_outbox_id r) (as_outbox_by_case s)\<rparr>)
      | Some i \<Rightarrow>
          (case dget (as_outbox s) i of
             None \<Rightarrow> (Inl (missing_key i), s)
           | Some existing \<Rightarrow>
               let updated = existing\<lparr>co_status := CO_PENDING, co_claimed_at := None, co_published_at := None,
                     co_publisher_id := None, co_claim_id := None, co_dead_letter := False, co_last_error := None,
                     co_metadata := co_metadata r\<rparr>
               in (Inr updated, s\<lparr>as_outbox := dset i updated (as_outbox s)\<rparr>)))"

definition claim_case_outbox ::
  "approval_store \<Rightarrow> uuid \<Rightarrow> string \<Rightarrow> string \<Rightarrow> int \<Rightarrow> string \<Rightarrow> case_outbox option \<times> approval_store" where
  "claim_case_outbox s case_id publisher_id claim_id claimed_at expected_tenant_id =
     (case get_outbox_by_case s case_id expected_tenant_id of
        None \<Rightarrow> (None, s)
      | Some r \<Rightarrow>
          if co_status r \<noteq> CO_PENDING then (None, s)
          else let updated = r\<lparr>co_status := CO_PUBLISHING, co_claimed_at := Some claimed_at,
                     co_publisher_id := Some publisher_id, co_claim_id := Some claim_id,
                     co_republish_count := co_republish_count r + 1, co_last_error := None\<rparr>
               in (Some updated, s\<lparr>as_outbox := dset (co_outbox_id updated) updated (as_outbox s)\<rparr>))"

definition mark_case_outbox_terminal ::
  "py_env \<Rightarrow> approval_store \<Rightarrow> uuid \<Rightarrow> string \<Rightarrow> case_outbox_status \<Rightarrow> string \<Rightarrow> int option \<Rightarrow> string option \<Rightarrow> bool
     \<Rightarrow> int option \<Rightarrow> case_outbox result \<times> approval_store" where
  "mark_case_outbox_terminal env s outbox_id claim_id status expected_tenant_id published_at err dead_letter failed_at =
     (case dget (as_outbox s) outbox_id of
        None \<Rightarrow> (Inl (CaseApprovalPersistenceError (''unknown approval outbox '' @ repr_str env outbox_id)), s)
      | Some r \<Rightarrow>
          if co_tenant_id r \<noteq> expected_tenant_id then
            (Inl (CaseApprovalPersistenceError (''unknown approval outbox '' @ repr_str env outbox_id)), s)
          else if co_claim_id r \<noteq> Some claim_id then
            (Inl (CaseApprovalPersistenceError ''approval outbox claim does not match''), s)
          else let md = (case failed_at of None \<Rightarrow> co_metadata r
                         | Some t \<Rightarrow> dset ''failed_at'' (PStr (isoformat env t)) (co_metadata r));
                   updated = r\<lparr>co_status := status, co_published_at := published_at, co_dead_letter := dead_letter,
                     co_last_error := err, co_metadata := md\<rparr>
               in (Inr updated, s\<lparr>as_outbox := dset outbox_id updated (as_outbox s)\<rparr>))"

definition mark_case_outbox_published ::
  "py_env \<Rightarrow> approval_store \<Rightarrow> uuid \<Rightarrow> string \<Rightarrow> int \<Rightarrow> string \<Rightarrow> case_outbox result \<times> approval_store" where
  "mark_case_outbox_published env s outbox_id claim_id published_at expected_tenant_id =
     mark_case_outbox_terminal env s outbox_id claim_id CO_PUBLISHED expected_tenant_id (Some published_at) None False None"

definition mark_case_outbox_failed ::
  "py_env \<Rightarrow> approval_store \<Rightarrow> uuid \<Rightarrow> string \<Rightarrow> string \<Rightarrow> int \<Rightarrow> bool \<Rightarrow> string
     \<Rightarrow> case_outbox result \<times> approval_store" where
  "mark_case_outbox_failed env s outbox_id claim_id err failed_at dead_letter expected_tenant_id =
     mark_case_outbox_terminal env s outbox_id claim_id CO_FAILED expected_tenant_id None (Some err) dead_letter
       (Some failed_at)"

definition case_outbox_matches :: "case_outbox_query \<Rightarrow> string option \<Rightarrow> case_outbox \<Rightarrow> bool" where
  "case_outbox_matches q expected_tenant_id r \<longleftrightarrow>
     (\<forall>v \<in> set_option expected_tenant_id. co_tenant_id r = v) \<and>
     (\<forall>v \<in> set_option (coq_tenant_id q). co_tenant_id r = v) \<and>
     (\<forall>v \<in> set_option (coq_status q). case_outbox_status_value (co_status r) = v) \<and>
     (\<forall>v \<in> set_option (coq_dead_letter q). co_dead_letter r = v)"

definition list_case_outbox :: "approval_store \<Rightarrow> case_outbox_query \<Rightarrow> string option \<Rightarrow> case_outbox page" where
  "list_case_outbox s q expected_tenant_id =
     (let rows = sort_key (\<lambda>r. (co_created_at r, co_outbox_id r))
                   (filter (case_outbox_matches q expected_tenant_id) (dvals (as_outbox s)))
      in \<lparr>p_rows = py_slice rows (coq_offset q) (coq_offset q + coq_limit q), p_total = int (length rows),
          p_limit = coq_limit q, p_offset = coq_offset q\<rparr>)"

section \<open>Ingress\<close>

record review_request =
  vq_tenant_id :: string
  vq_category :: case_category
  vq_session_id :: "string option"
  vq_execution_id :: "string option"
  vq_dispatch_id :: "string option"
  vq_proposal_id :: "string option"
  vq_ticket_ref :: "string option"
  vq_product :: "string option"
  vq_issue_summary :: "string option"
  vq_action :: "metadata option"
  vq_metadata :: "metadata option"

definition requested_case :: "py_env \<Rightarrow> int \<Rightarrow> review_request \<Rightarrow> approval_case" where
  "requested_case env now q =
     (let dedup_key = derive_approval_dedup_key env (vq_tenant_id q) (vq_execution_id q) (vq_dispatch_id q)
            (vq_session_id q) (case_category_value (vq_category q))
      in \<lparr>ca_case_id = derive_approval_case_id env (vq_tenant_id q) dedup_key, ca_tenant_id = vq_tenant_id q,
          ca_session_id = vq_session_id q, ca_execution_id = vq_execution_id q, ca_dispatch_id = vq_dispatch_id q,
          ca_category = vq_category q, ca_status = CA_PENDING_SME_REVIEW, ca_requested_at = now,
          ca_dedup_key = dedup_key, ca_proposal_id = vq_proposal_id q, ca_ticket_ref = vq_ticket_ref q,
          ca_product = vq_product q, ca_issue_summary = vq_issue_summary q, ca_recommendation_id = None,
          ca_action = vq_action q, ca_guidance_round = 0, ca_guidance_ref = None, ca_decision_id = None,
          ca_resolved_at = None, ca_resolved_by = None, ca_note = None,
          ca_metadata = dmerge (case vq_metadata q of None \<Rightarrow> [] | Some md \<Rightarrow> md)
            [(''proposal_only_sme'', PBool True)]\<rparr>)"

text \<open>The publisher is a port: it may be missing, and it may raise after the case is created.\<close>

definition request_case_review ::
  "py_env \<Rightarrow> ('x \<Rightarrow> uuid \<Rightarrow> string \<Rightarrow> unit result \<times> 'x) option \<Rightarrow> int \<Rightarrow> approval_store \<Rightarrow> 'x \<Rightarrow> review_request
     \<Rightarrow> string \<Rightarrow> approval_case result \<times> approval_store \<times> 'x" where
  "request_case_review env publish now s x q expected_tenant_id =
     (if vq_tenant_id q \<noteq> expected_tenant_id then (Inl (ValueError ''approval ingress tenant mismatch''), s, x)
      else case create_case s (requested_case env now q) expected_tenant_id of
        (Inl e, s') \<Rightarrow> (Inl e, s', x)
      | (Inr created, s') \<Rightarrow>
          (case publish of
             None \<Rightarrow> (Inr created, s', x)
           | Some send \<Rightarrow>
               if ca_status created \<noteq> CA_PENDING_SME_REVIEW then (Inr created, s', x)
               else (case send x (ca_case_id created) (ca_tenant_id created) of
                       (Inl e, x') \<Rightarrow> (Inl e, s', x')
                     | (Inr _, x') \<Rightarrow> (Inr created, s', x'))))"

end
