(* ===== verification/Approval_Review.thy ===== *)
theory Approval_Review
  imports Approval_Store Reply_Template
begin

text \<open>
  The SME review of a case: the injection scanner for operator guidance
  (\<open>app/knowledge/poisoning.py\<close>) and the proposal-only review runtime
  (\<open>app/sme/models.py\<close>, \<open>app/sme/runtime.py\<close>) with its deterministic fallback.  A language
  model behind the runtime is a port.
\<close>

section \<open>The injection scanner\<close>

record injection_pattern =
  ip_category :: string
  ip_phrase :: string

definition INJECTION_PATTERNS :: "injection_pattern list" where
  "INJECTION_PATTERNS =
     [\<lparr>ip_category = ''instruction_override'', ip_phrase = ''ignore previous instructions''\<rparr>,
      \<lparr>ip_category = ''instruction_override'', ip_phrase = ''disregard all prior instructions''\<rparr>,
      \<lparr>ip_category = ''policy_subversion'', ip_phrase = ''approve all refunds''\<rparr>,
      \<lparr>ip_category = ''policy_subversion'', ip_phrase = ''bypass policy''\<rparr>,
      \<lparr>ip_category = ''role_manipulation'', ip_phrase = ''you are now''\<rparr>,
      \<lparr>ip_category = ''role_manipulation'', ip_phrase = ''system prompt''\<rparr>]"

record scan_result =
  sn_flagged :: bool
  sn_categories :: "string list"
  sn_phrases :: "string list"

text \<open>\<open>tuple(dict.fromkeys(xs))\<close>: the first occurrence of each.\<close>

definition first_of_each :: "'a list \<Rightarrow> 'a list" where
  "first_of_each xs = rev (remdups (rev xs))"

definition scan_haystack :: "py_env \<Rightarrow> string \<Rightarrow> string" where
  "scan_haystack env content = joined '' '' (py_words (str_lower env content))"

definition scan_injection :: "py_env \<Rightarrow> injection_pattern list \<Rightarrow> string \<Rightarrow> scan_result" where
  "scan_injection env patterns content =
     (let found = filter (\<lambda>p. substring (ip_phrase p) (scan_haystack env content)) patterns
      in \<lparr>sn_flagged = found \<noteq> [], sn_categories = first_of_each (map ip_category found),
          sn_phrases = map ip_phrase found\<rparr>)"

section \<open>Models\<close>

record sme_context =
  sx_case_id :: uuid
  sx_tenant_id :: string
  sx_category :: string
  sx_session_id :: "string option"
  sx_execution_id :: "string option"
  sx_dispatch_id :: "string option"
  sx_proposal_id :: "string option"
  sx_ticket_ref :: "string option"
  sx_product :: "string option"
  sx_issue_summary :: "string option"
  sx_reply :: "string option"
  sx_actions :: "metadata list"
  sx_citations :: "metadata list"
  sx_metadata :: metadata

record recommendation =
  sg_id :: uuid
  sg_reply :: string
  sg_actions :: "metadata list"
  sg_rationale :: string
  sg_confidence :: pyfloat
  sg_citations :: "metadata list"
  sg_flags :: "string list"
  sg_created_at :: int
  sg_segments :: "metadata list"
  sg_metadata :: metadata

definition recommendation_to_dict :: "py_env \<Rightarrow> recommendation \<Rightarrow> metadata" where
  "recommendation_to_dict env r =
     [(''recommendation_id'', PStr (sg_id r)), (''recommended_reply'', PStr (sg_reply r)),
      (''recommended_actions'', PList (map PDict (sg_actions r))), (''rationale'', PStr (sg_rationale r)),
      (''confidence'', PFloat (sg_confidence r)), (''citations'', PList (map PDict (sg_citations r))),
      (''risk_flags'', PList (map PStr (sg_flags r))), (''reply_segments'', PList (map PDict (sg_segments r))),
      (''created_at'', PStr (isoformat env (sg_created_at r))), (''metadata'', PDict (sg_metadata r))]"

section \<open>Confidence\<close>

text \<open>Comparisons on IEEE 754 bit patterns: a pattern with the sign bit is below one unless it is
  not a number.\<close>

definition float_nan :: "pyfloat \<Rightarrow> bool" where
  "float_nan w \<longleftrightarrow> 0x7FF0000000000000 < (if 0x8000000000000000 \<le> w then w - 0x8000000000000000 else w)"

definition FLOAT_ONE :: pyfloat where "FLOAT_ONE = 0x3FF0000000000000"
definition FLOAT_0_5 :: pyfloat where "FLOAT_0_5 = 0x3FE0000000000000"
definition FLOAT_0_65 :: pyfloat where "FLOAT_0_65 = 0x3FE4CCCCCCCCCCCD"
definition FLOAT_0_45 :: pyfloat where "FLOAT_0_45 = 0x3FDCCCCCCCCCCCCD"

definition below_one :: "pyfloat \<Rightarrow> bool" where
  "below_one w \<longleftrightarrow> \<not> float_nan w \<and> (0x8000000000000000 \<le> w \<or> w < FLOAT_ONE)"

definition above_zero :: "pyfloat \<Rightarrow> bool" where
  "above_zero w \<longleftrightarrow> \<not> float_nan w \<and> w < 0x8000000000000000 \<and> w \<noteq> 0"

text \<open>\<open>max(0.0, min(1.0, x))\<close>: both keep their first argument unless the second is strictly
  beyond it.\<close>

definition clamp_unit :: "pyfloat \<Rightarrow> pyfloat" where
  "clamp_unit w = (let m = (if below_one w then w else FLOAT_ONE) in if above_zero m then m else 0)"

definition sme_confidence :: "py_env \<Rightarrow> sme_context \<Rightarrow> pyfloat result" where
  "sme_confidence env c =
     (case get_or_none (sx_metadata c) ''confidence'' of
        PBool b \<Rightarrow> Inr FLOAT_0_5
      | PInt n \<Rightarrow> (case float_of_int env n of None \<Rightarrow> Inl OverflowError | Some w \<Rightarrow> Inr (clamp_unit w))
      | PFloat w \<Rightarrow> Inr (clamp_unit w)
      | _ \<Rightarrow> Inr (if sx_citations c \<noteq> [] then FLOAT_0_65 else FLOAT_0_45))"

section \<open>The review runtime\<close>

definition risk_flags :: "py_env \<Rightarrow> sme_context \<Rightarrow> string list" where
  "risk_flags env c =
     (let category = sx_category c;
          summary = str_lower env (case sx_issue_summary c of None \<Rightarrow> [] | Some s \<Rightarrow> s)
      in first_of_each
        ((if substring ''low_confidence'' category then [''low_confidence''] else []) @
         (if substring ''refund'' category \<or> substring ''refund'' summary \<or> substring ''return'' summary
          then [''refund_policy''] else []) @
         (if substring ''warranty'' category \<or> substring ''warranty'' summary then [''warranty_policy''] else []) @
         (if substring ''crisis'' category then [''crisis_policy''] else []) @
         (if sx_citations c = [] then [''citation_review_required''] else [])))"

definition wrap_untrusted_guidance :: "string option \<Rightarrow> string option" where
  "wrap_untrusted_guidance guidance =
     (case Option.bind guidance nonempty_text of
        None \<Rightarrow> None
      | Some t \<Rightarrow> Some (''BEGIN_UNTRUSTED_OPERATOR_GUIDANCE'' @ newline @ t @ newline @ ''END_UNTRUSTED_OPERATOR_GUIDANCE''))"

definition deterministic_recommendation ::
  "py_env \<Rightarrow> int \<Rightarrow> sme_context \<Rightarrow> uuid \<Rightarrow> string option \<Rightarrow> int \<Rightarrow> string option \<Rightarrow> recommendation result" where
  "deterministic_recommendation env now c recommendation_id guidance guidance_round reviewer_error =
     on_ok (sme_confidence env c) (\<lambda>confidence.
       let wrapped = wrap_untrusted_guidance guidance
       in Inr \<lparr>sg_id = recommendation_id,
            sg_reply = py_strip (case str_or (sx_reply c) None of Some t \<Rightarrow> t
              | None \<Rightarrow> ''A human-approved response is required before customer delivery.''),
            sg_actions = sx_actions c,
            sg_rationale = ''Deterministic SME fallback reviewed the proposed resolution, '' @
              ''citations, action descriptors, and lifecycle category.'' @
              (if wrapped = None then [] else
                '' Operator guidance was recorded as untrusted input but cannot '' @
                ''be incorporated into a new grounded reply without a model '' @
                ''reviewer; the original grounded reply is preserved.''),
            sg_confidence = confidence, sg_citations = sx_citations c,
            sg_flags = first_of_each (risk_flags env c @
              (if reviewer_error = None then [] else [''sme_model_unavailable'']) @
              (if wrapped = None then [] else [''guidance_requires_model_authoring''])),
            sg_created_at = now, sg_segments = [],
            sg_metadata =
              [(''reviewer'', PStr ''deterministic_sme_fallback:v1''), (''proposal_only'', PBool True),
               (''entry_category'', PStr (sx_category c)), (''guidance_round'', PInt guidance_round),
               (''guidance_incorporated'', PBool False)] @
              (case reviewer_error of None \<Rightarrow> []
               | Some e \<Rightarrow> [(''llm_reviewer_failed'', PBool True), (''llm_reviewer_error'', PStr e)]) @
              (case wrapped of None \<Rightarrow> [] | Some t \<Rightarrow> [(''untrusted_guidance'', PStr t)])\<rparr>)"

record 'x sme_runtime =
  sr_llm :: "('x \<Rightarrow> sme_context \<Rightarrow> uuid \<Rightarrow> string option \<Rightarrow> recommendation result \<times> 'x) option"
  sr_fail_on_error :: bool
  sr_fail_without :: bool

definition sme_fallback ::
  "py_env \<Rightarrow> 'x sme_runtime \<Rightarrow> int \<Rightarrow> sme_context \<Rightarrow> uuid \<Rightarrow> string option \<Rightarrow> int \<Rightarrow> string option
     \<Rightarrow> recommendation result" where
  "sme_fallback env rt now c recommendation_id guidance guidance_round reviewer_error =
     (if sr_fail_without rt then
        Inl (SmeReviewUnavailableError ''SME review requires a configured model reviewer; case stays pending'')
      else deterministic_recommendation env now c recommendation_id guidance guidance_round reviewer_error)"

definition sme_review ::
  "py_env \<Rightarrow> 'x sme_runtime \<Rightarrow> int \<Rightarrow> 'x \<Rightarrow> sme_context \<Rightarrow> string option \<Rightarrow> int \<Rightarrow> recommendation result \<times> 'x" where
  "sme_review env rt now x c guidance guidance_round =
     (let i = derive_sme_recommendation_id env (sx_case_id c) guidance_round
      in case sr_llm rt of
           None \<Rightarrow> (sme_fallback env rt now c i guidance guidance_round None, x)
         | Some review \<Rightarrow>
             (case review x c i (wrap_untrusted_guidance guidance) of
                (Inr r, x') \<Rightarrow> (Inr r, x')
              | (Inl e, x') \<Rightarrow>
                  (if sr_fail_on_error rt then
                     Inl (SmeReviewUnavailableError ''configured SME reviewer failed; case stays pending'')
                   else sme_fallback env rt now c i guidance guidance_round (Some (fst (error_text e))), x')))"

end
