(* ===== verification/Approval_Basis.thy ===== *)
theory Approval_Basis
  imports Approval_Review Delivery_AutoSend Escalation_Runtime
begin

text \<open>
  What the calls of the case approval service (\<open>app/services/case_approval_service.py\<close>) share:
  the state they thread, the ports of the service, the transaction around a call, its small
  readers, and the decision records it writes.  A call runs in one database transaction: an
  error restores the stores when a session is bound.
\<close>

section \<open>Calls that thread the state\<close>

type_synonym ('a, 'w) call = "'w \<Rightarrow> 'a result \<times> 'w"

definition and_then :: "('a, 'w) call \<Rightarrow> ('a \<Rightarrow> ('b, 'w) call) \<Rightarrow> ('b, 'w) call" where
  "and_then m f w = (case m w of (Inl e, w') \<Rightarrow> (Inl e, w') | (Inr v, w') \<Rightarrow> f v w')"

definition answer :: "'a \<Rightarrow> ('a, 'w) call" where
  "answer v w = (Inr v, w)"

definition lifted :: "'a result \<Rightarrow> ('a, 'w) call" where
  "lifted r w = (r, w)"

text \<open>A computation that only reads the state.\<close>

definition reading :: "('w \<Rightarrow> 'a result) \<Rightarrow> ('a, 'w) call" where
  "reading f w = (f w, w)"

definition check :: "bool \<Rightarrow> error \<Rightarrow> (unit, 'w) call" where
  "check ok e = lifted (raise_unless ok e)"

lemma and_then_simps [simp]:
  "m w = (Inl e, w') \<Longrightarrow> and_then m f w = (Inl e, w')"
  "m w = (Inr v, w') \<Longrightarrow> and_then m f w = f v w'"
  by (simp_all add: and_then_def)

lemma and_then_Inr:
  "and_then m f w = (Inr v, w2) \<longleftrightarrow> (\<exists>u w1. m w = (Inr u, w1) \<and> f u w1 = (Inr v, w2))"
  by (auto simp: and_then_def split: prod.split sum.split)

lemma basic_calls [simp]:
  "answer v w = (r, w') \<longleftrightarrow> r = Inr v \<and> w' = w"
  "lifted x w = (r, w') \<longleftrightarrow> r = x \<and> w' = w"
  "reading f w = (r, w') \<longleftrightarrow> r = f w \<and> w' = w"
  "check ok e w = (Inr u, w') \<longleftrightarrow> ok \<and> w' = w"
  by (auto simp: answer_def lifted_def reading_def check_def raise_unless_def)

section \<open>State and ports\<close>

record 'x approval_world =
  aw_cases :: approval_store
  aw_resolution :: resolution_store
  aw_governance :: governance_store
  aw_escalations :: escalation_store
  aw_outbox :: send_store
  aw_rest :: 'x

record gate_request =
  gq_proposal_id :: uuid
  gq_tenant_id :: string
  gq_session_id :: string
  gq_execution_id :: string
  gq_dispatch_id :: string
  gq_event_id :: "string option"
  gq_summary :: string
  gq_category :: string
  gq_confidence :: pyfloat
  gq_content :: string
  gq_reply :: string
  gq_resolution_category :: string
  gq_actions :: "metadata list"
  gq_evidence :: "metadata list"
  gq_supervisor_verdict :: supervisor_verdict
  gq_governance_verdict :: resolution_verdict
  gq_autonomy_decision :: autonomy_decision
  gq_status :: proposal_status
  gq_segments :: "metadata list"
  gq_source_language :: string
  gq_source_channel :: "string option"
  gq_recipient :: "string option"
  gq_thread_context :: "string option"

type_synonym gate_answer = "resolution_verdict \<times> uuid option"

record 'x approval_ports =
  ap_sme :: "'x sme_runtime"
  ap_patterns :: "injection_pattern list"
  ap_gate :: "(gate_request \<Rightarrow> governance_store \<Rightarrow> 'x \<Rightarrow> gate_answer result \<times> governance_store \<times> 'x) option"
    \<comment> \<open>the central resolution gate; it may record a decision\<close>
  ap_approve_action :: "('x \<Rightarrow> string \<Rightarrow> string \<Rightarrow> string option \<Rightarrow> string \<Rightarrow> unit result \<times> 'x) option"
    \<comment> \<open>fires a bound action: action, actor, note, tenant\<close>
  ap_deny_action :: "('x \<Rightarrow> string \<Rightarrow> string \<Rightarrow> string \<Rightarrow> string \<Rightarrow> unit result \<times> 'x) option"
  ap_escalation :: "'x escalation_ports option"
  ap_envelope :: "('x \<Rightarrow> string \<Rightarrow> string \<Rightarrow> metadata option) option"
    \<comment> \<open>body of the stored dispatch envelope: dispatch, tenant\<close>
  ap_auto_send :: bool
    \<comment> \<open>an auto-send service is configured\<close>
  ap_session :: bool
  ap_undo :: "'x \<Rightarrow> 'x \<Rightarrow> 'x"
    \<comment> \<open>what a rollback does to the rest of the state: before, after\<close>
  ap_flush :: "('x \<Rightarrow> unit result \<times> 'x) option"

definition runtime_error :: "string \<Rightarrow> error" where
  "runtime_error = CaseApprovalRuntimeError"

definition rolled_back :: "'x approval_ports \<Rightarrow> 'x approval_world \<Rightarrow> 'x approval_world \<Rightarrow> 'x approval_world" where
  "rolled_back pt w w' = (if ap_session pt then w\<lparr>aw_rest := ap_undo pt (aw_rest w) (aw_rest w')\<rparr> else w')"

text \<open>\<open>try: ... commit() except: rollback(); raise\<close>; the flush runs after the commit.\<close>

definition transaction :: "'x approval_ports \<Rightarrow> ('a, 'x approval_world) call \<Rightarrow> ('a, 'x approval_world) call" where
  "transaction pt body w =
     (case body w of
        (Inl e, w') \<Rightarrow> (Inl e, rolled_back pt w w')
      | (Inr v, w') \<Rightarrow>
          (case ap_flush pt of
             None \<Rightarrow> (Inr v, w')
           | Some flush \<Rightarrow>
               (case flush (aw_rest w') of
                  (Inl e, x) \<Rightarrow> (Inl e, w'\<lparr>aw_rest := x\<rparr>)
                | (Inr _, x) \<Rightarrow> (Inr v, w'\<lparr>aw_rest := x\<rparr>))))"

text \<open>Calls of the parts, on the world.\<close>

definition on_cases :: "(approval_store \<Rightarrow> 'a result \<times> approval_store) \<Rightarrow> ('a, 'x approval_world) call" where
  "on_cases f w = (case f (aw_cases w) of (r, s) \<Rightarrow> (r, w\<lparr>aw_cases := s\<rparr>))"

definition on_resolution :: "(resolution_store \<Rightarrow> 'a result \<times> resolution_store) \<Rightarrow> ('a, 'x approval_world) call" where
  "on_resolution f w = (case f (aw_resolution w) of (r, s) \<Rightarrow> (r, w\<lparr>aw_resolution := s\<rparr>))"

definition on_governance :: "(governance_store \<Rightarrow> 'a result \<times> governance_store) \<Rightarrow> ('a, 'x approval_world) call" where
  "on_governance f w = (case f (aw_governance w) of (r, s) \<Rightarrow> (r, w\<lparr>aw_governance := s\<rparr>))"

definition on_rest :: "('x \<Rightarrow> 'a result \<times> 'x) \<Rightarrow> ('a, 'x approval_world) call" where
  "on_rest f w = (case f (aw_rest w) of (r, x) \<Rightarrow> (r, w\<lparr>aw_rest := x\<rparr>))"

definition never_raises :: "'a \<times> 's \<Rightarrow> 'a result \<times> 's" where
  "never_raises r = (case r of (v, s) \<Rightarrow> (Inr v, s))"

section \<open>Small readers\<close>

definition requires_execution :: "metadata \<Rightarrow> bool" where
  "requires_execution action \<longleftrightarrow> dget action ''requires_execution'' = Some (PBool True)"

definition first_fireable_action :: "metadata list \<Rightarrow> metadata option" where
  "first_fireable_action actions = find requires_execution actions"

definition recommendation_from_metadata :: "metadata \<Rightarrow> metadata option" where
  "recommendation_from_metadata md = (case dget md ''sme_recommendation'' of Some (PDict d) \<Rightarrow> Some d | _ \<Rightarrow> None)"

definition recommended_reply :: "metadata option \<Rightarrow> string option" where
  "recommended_reply recommendation =
     (case recommendation of None \<Rightarrow> None | Some d \<Rightarrow> payload_text d ''recommended_reply'')"

fun dicts_of :: "pyval list \<Rightarrow> metadata list" where
  "dicts_of [] = []"
| "dicts_of (PDict d # vs) = d # dicts_of vs"
| "dicts_of (_ # vs) = dicts_of vs"

definition reply_segments :: "metadata option \<Rightarrow> metadata list" where
  "reply_segments recommendation =
     (case recommendation of
        None \<Rightarrow> []
      | Some d \<Rightarrow> (case dget d ''reply_segments'' of Some (PList vs) \<Rightarrow> dicts_of vs | _ \<Rightarrow> []))"

text \<open>SHA-256 of \<open>json.dumps(payload, sort_keys=True, ...)\<close>.\<close>

definition recommendation_hash :: "py_env \<Rightarrow> metadata \<Rightarrow> string" where
  "recommendation_hash env payload = sha256_text env (json_dumps env (PDict payload))"

definition context_for_record :: "approval_case \<Rightarrow> proposal option \<Rightarrow> sme_context" where
  "context_for_record r p =
     \<lparr>sx_case_id = ca_case_id r, sx_tenant_id = ca_tenant_id r, sx_category = case_category_value (ca_category r),
      sx_session_id = ca_session_id r, sx_execution_id = ca_execution_id r, sx_dispatch_id = ca_dispatch_id r,
      sx_proposal_id = ca_proposal_id r, sx_ticket_ref = ca_ticket_ref r, sx_product = ca_product r,
      sx_issue_summary = str_or (ca_issue_summary r) (map_option rp_category p),
      sx_reply = map_option rp_reply p,
      sx_actions = (case p of None \<Rightarrow> [] | Some q \<Rightarrow> rp_recommended_actions q),
      sx_citations = (case p of None \<Rightarrow> [] | Some q \<Rightarrow> rp_evidence q),
      sx_metadata = (case p of None \<Rightarrow> ca_metadata r
        | Some q \<Rightarrow> dsetdefault ''confidence'' (PFloat (rp_confidence q)) (ca_metadata r))\<rparr>"

definition require_case :: "'x approval_world \<Rightarrow> uuid \<Rightarrow> string \<Rightarrow> approval_case result" where
  "require_case w case_id tenant_id =
     require (get_case (aw_cases w) case_id tenant_id)
       (CaseApprovalNotFoundError (''unknown approval case: '' @ case_id))"

definition proposal_for_record :: "'x approval_world \<Rightarrow> approval_case \<Rightarrow> proposal option" where
  "proposal_for_record w r =
     (case ca_proposal_id r of None \<Rightarrow> None | Some i \<Rightarrow> get_proposal (aw_resolution w) i (ca_tenant_id r))"

definition draft_for_proposal :: "py_env \<Rightarrow> 'x approval_world \<Rightarrow> uuid \<Rightarrow> string \<Rightarrow> draft option result" where
  "draft_for_proposal env w proposal_id tenant_id =
     on_ok (derive_draft_id env tenant_id proposal_id) (\<lambda>i. Inr (get_draft (aw_resolution w) i tenant_id))"

section \<open>Recording decisions\<close>

definition CASE_APPROVAL_NAMESPACE :: uuid where
  "CASE_APPROVAL_NAMESPACE = ''51b3132f-2f18-4e68-a002-ef97051b0101''"

definition APPROVE_CHAIN_ID :: string where "APPROVE_CHAIN_ID = ''case_approval.human_approve.v1''"
definition GUIDE_CHAIN_ID :: string where "GUIDE_CHAIN_ID = ''case_approval.operator_guidance.v1''"
definition ESCALATE_CHAIN_ID :: string where "ESCALATE_CHAIN_ID = ''case_approval.operator_escalate.v1''"
definition REJECT_CHAIN_ID :: string where "REJECT_CHAIN_ID = ''case_approval.human_reject.v1''"
definition DELIVERY_CHAIN_ID :: string where "DELIVERY_CHAIN_ID = ''case_approval.delivery_authorization.v1''"
definition CASE_POLICY_VERSION :: string where "CASE_POLICY_VERSION = ''fix_1b.case_approval.v1''"

text \<open>The decision, trace and action records both kinds of decision share.\<close>

definition human_decision ::
  "py_env \<Rightarrow> int \<Rightarrow> uuid \<Rightarrow> decision \<Rightarrow> string \<Rightarrow> string \<Rightarrow> string option \<Rightarrow> uuid \<Rightarrow> string \<Rightarrow> string \<Rightarrow> metadata
     \<Rightarrow> decision_record" where
  "human_decision env now decision_id verdict chain reason correlation request_id tenant_id kind md =
     \<lparr>dr_decision_id = decision_id, dr_decision = decision_value verdict, dr_stage = stage_value PRE_EXECUTION,
      dr_policy_chain_id = chain, dr_reason = reason, dr_decided_at = isoformat env now,
      dr_correlation_id = correlation, dr_request_id = Some request_id, dr_tenant_id = Some tenant_id,
      dr_subject_kind = kind, dr_governance_version = CASE_POLICY_VERSION, dr_violations = [], dr_restrictions = [],
      dr_evaluated_rules =
        [\<lparr>er_policy_name = chain, er_rule_id = reason, er_decision = decision_value verdict, er_severity = 10,
          er_reason = reason, er_evaluated_at = isoformat env now, er_metadata = md,
          er_policy_version = CASE_POLICY_VERSION\<rparr>],
      dr_metadata = md\<rparr>"

definition human_trace ::
  "decision_record \<Rightarrow> decision \<Rightarrow> string \<Rightarrow> string \<Rightarrow> string \<Rightarrow> governance_trace" where
  "human_trace d verdict action resource actor =
     \<lparr>gt_decision_id = dr_decision_id d, gt_request_id = dr_request_id d, gt_stage = dr_stage d, gt_action = action,
      gt_resource = resource, gt_actor = actor, gt_tenant_id = dr_tenant_id d, gt_status = ''ok'',
      gt_final_decision = verdict, gt_policy_chain_id = dr_policy_chain_id d, gt_policy_traces = [],
      gt_rule_count = 1, gt_violation_count = (if verdict = ALLOW then 0 else 1), gt_restriction_count = 0,
      gt_subject_kind = dr_subject_kind d, gt_correlation_id = dr_correlation_id d,
      gt_enforcement_handler = Some ''case_approval_service'', gt_enforcement_status = Some ''recorded'',
      gt_error = None, gt_metadata = dr_metadata d\<rparr>"

definition record_human_decision ::
  "py_env \<Rightarrow> governance_store \<Rightarrow> decision_record \<Rightarrow> governance_trace \<Rightarrow> uuid \<Rightarrow> string \<Rightarrow> uuid result \<times> governance_store" where
  "record_human_decision env g d t action_id detail =
     (case record_decision env g d of
        (Inl e, g1) \<Rightarrow> (Inl e, g1)
      | (Inr _, g1) \<Rightarrow>
     (case record_trace env g1 t of
        (Inl e, g2) \<Rightarrow> (Inl e, g2)
      | (Inr _, g2) \<Rightarrow>
          (Inr (dr_decision_id d), record_enforcement_action g2
            \<lparr>ac_action_id = action_id, ac_handler_name = ''case_approval_service'', ac_decision_id = dr_decision_id d,
             ac_outcome = ''recorded'', ac_detail = detail, ac_metadata = dr_metadata d\<rparr>)))"

definition case_decision_id :: "py_env \<Rightarrow> approval_case \<Rightarrow> string \<Rightarrow> string \<Rightarrow> uuid" where
  "case_decision_id env r chain actor =
     uuid5 env CASE_APPROVAL_NAMESPACE
       (ca_tenant_id r @ ''|'' @ ca_case_id r @ ''|'' @ chain @ ''|'' @ actor @ ''|'' @ show_int (ca_guidance_round r))"

definition case_decision_metadata :: "approval_case \<Rightarrow> string \<Rightarrow> string option \<Rightarrow> metadata" where
  "case_decision_metadata r actor note =
     [(''approval_case_id'', PStr (ca_case_id r)), (''entry_category'', PStr (case_category_value (ca_category r))),
      (''session_id'', opt_pstr (ca_session_id r)), (''execution_id'', opt_pstr (ca_execution_id r)),
      (''dispatch_id'', opt_pstr (ca_dispatch_id r)), (''resolution_proposal_id'', opt_pstr (ca_proposal_id r)),
      (''actor'', PStr actor), (''note'', opt_pstr note)]"

text \<open>A decision that is already recorded under its identity is reused.\<close>

definition record_case_decision ::
  "py_env \<Rightarrow> int \<Rightarrow> governance_store \<Rightarrow> approval_case \<Rightarrow> string \<Rightarrow> decision \<Rightarrow> string \<Rightarrow> string \<Rightarrow> string option
     \<Rightarrow> uuid result \<times> governance_store" where
  "record_case_decision env now g r actor verdict chain reason note =
     (let i = case_decision_id env r chain actor
      in if get_decision g i (Some (ca_tenant_id r)) \<noteq> None then (Inr i, g)
         else let d = human_decision env now i verdict chain reason (str_or (ca_dispatch_id r) (ca_execution_id r))
                    (''case-approval:'' @ ca_case_id r) (ca_tenant_id r) ''case_approval''
                    (case_decision_metadata r actor note)
              in record_human_decision env g d
                   (human_trace d verdict ''case_approval:transition'' (''case_approval:'' @ ca_case_id r) actor)
                   (uuid5 env CASE_APPROVAL_NAMESPACE (''action|'' @ ca_case_id r @ ''|'' @ i)) reason)"

end
