(* ===== verification/Approval_Service.thy ===== *)
theory Approval_Service
  imports Approval_Basis
begin

text \<open>
  The operations of the case approval service, \<open>app/services/case_approval_service.py\<close>: SME
  review, operator guidance, approval with delivery of the bound reply, rejection,
  escalation, and the completion of a case whose bound action was decided elsewhere.  The
  several clock readings of one call are taken equal.
\<close>

section \<open>Review and guidance\<close>

definition begin_review ::
  "'x approval_world \<Rightarrow> uuid \<Rightarrow> string \<Rightarrow> (approval_case \<times> sme_context) result" where
  "begin_review w case_id tenant_id =
     on_ok (require_case w case_id tenant_id) (\<lambda>r.
     on_ok (raise_unless (ca_status r = CA_PENDING_SME_REVIEW \<or> ca_status r = CA_GUIDANCE_IN_PROGRESS)
              (CaseApprovalLifecycleError ''SME review can only run for pending or guided cases'')) (\<lambda>_.
       Inr (r, context_for_record r (proposal_for_record w r))))"

definition reviewed_case :: "py_env \<Rightarrow> approval_case \<Rightarrow> recommendation \<Rightarrow> approval_case" where
  "reviewed_case env r g =
     r\<lparr>ca_status := CA_AWAITING_APPROVAL, ca_recommendation_id := Some (sg_id g),
       ca_action := (case ca_action r of Some (kv # kvs) \<Rightarrow> Some (kv # kvs) | _ \<Rightarrow> first_fireable_action (sg_actions g)),
       ca_metadata := dmerge (ca_metadata r)
         [(''sme_recommendation'', PDict (recommendation_to_dict env g)),
          (''sme_recommendation_hash'', PStr (recommendation_hash env (recommendation_to_dict env g)))]\<rparr>"

definition review_notice :: "py_env \<Rightarrow> int \<Rightarrow> approval_case \<Rightarrow> case_outbox" where
  "review_notice env now r =
     \<lparr>co_outbox_id = derive_approval_outbox_id env (ca_case_id r), co_case_id = ca_case_id r,
      co_tenant_id = ca_tenant_id r, co_status = CO_PENDING, co_created_at = now, co_claimed_at = None,
      co_published_at = None, co_publisher_id = None, co_claim_id = None, co_republish_count = 0,
      co_dead_letter = False, co_last_error = None,
      co_metadata = [(''status'', PStr (case_status_value (ca_status r))),
        (''sme_recommendation_id'', opt_pstr (ca_recommendation_id r)), (''guidance_round'', PInt (ca_guidance_round r))]\<rparr>"

text \<open>The part of \<open>review_case\<close> after the reviewer has answered, with the record read before.\<close>

definition finish_review ::
  "py_env \<Rightarrow> int \<Rightarrow> approval_case \<Rightarrow> recommendation \<Rightarrow> string \<Rightarrow> (approval_case, 'x approval_world) call" where
  "finish_review env now r g tenant_id =
     and_then (on_cases (\<lambda>s. update_case env s (reviewed_case env r g) tenant_id)) (\<lambda>saved.
     and_then (on_cases (\<lambda>s. republish_case_outbox s (review_notice env now saved) tenant_id)) (\<lambda>_.
       answer saved))"

definition review_case ::
  "py_env \<Rightarrow> 'x approval_ports \<Rightarrow> int \<Rightarrow> uuid \<Rightarrow> string \<Rightarrow> string option \<Rightarrow> (approval_case, 'x approval_world) call" where
  "review_case env pt now case_id tenant_id guidance =
     and_then (reading (\<lambda>w. begin_review w case_id tenant_id)) (\<lambda>(r, c).
     and_then (on_rest (\<lambda>x. sme_review env (ap_sme pt) now x c guidance (ca_guidance_round r))) (\<lambda>g.
       finish_review env now r g tenant_id))"

definition guided_case :: "approval_case \<Rightarrow> string \<Rightarrow> string \<Rightarrow> uuid \<Rightarrow> string list \<Rightarrow> approval_case" where
  "guided_case r guided_by guidance decision_id categories =
     r\<lparr>ca_status := CA_GUIDANCE_IN_PROGRESS, ca_guidance_round := 1, ca_guidance_ref := Some guidance,
       ca_decision_id := Some decision_id,
       ca_metadata := dmerge (ca_metadata r)
         [(''guided_by'', PStr guided_by), (''guidance_decision_id'', PStr decision_id),
          (''guidance_scan'', PDict [(''flagged'', PBool False), (''categories'', PList (map PStr categories))])]\<rparr>"

definition guide_case ::
  "py_env \<Rightarrow> 'x approval_ports \<Rightarrow> int \<Rightarrow> uuid \<Rightarrow> string \<Rightarrow> string \<Rightarrow> string \<Rightarrow> (approval_case, 'x approval_world) call" where
  "guide_case env pt now case_id tenant_id guided_by guidance =
     transaction pt
     (and_then (reading (\<lambda>w. require_case w case_id tenant_id)) (\<lambda>r.
      and_then (check (ca_status r = CA_AWAITING_APPROVAL)
        (CaseApprovalLifecycleError ''only awaiting approval cases can receive guidance'')) (\<lambda>_.
      and_then (check (ca_guidance_round r \<le> 0)
        (CaseApprovalLifecycleError ''case approval guidance is limited to one round'')) (\<lambda>_.
      let scan = scan_injection env (ap_patterns pt) guidance in
      and_then (check (\<not> sn_flagged scan)
        (CaseApprovalGuidanceRejectedError ''operator guidance matched injection controls'')) (\<lambda>_.
      and_then (on_governance (\<lambda>g. record_case_decision env now g r guided_by REQUIRE_APPROVAL GUIDE_CHAIN_ID
        ''operator_guidance_recorded'' None)) (\<lambda>decision_id.
      and_then (on_cases (\<lambda>s. update_case env s
        (guided_case r guided_by guidance decision_id (sn_categories scan)) tenant_id)) (\<lambda>_.
        review_case env pt now case_id tenant_id (Some guidance))))))))"

section \<open>Delivering the bound reply\<close>

definition derive_outbound_send_target ::
  "py_env \<Rightarrow> 'x approval_ports \<Rightarrow> 'x approval_world \<Rightarrow> approval_case \<Rightarrow> proposal \<Rightarrow> string \<Rightarrow> send_target option" where
  "derive_outbound_send_target env pt w r p tenant_id =
     (case (ap_envelope pt, ap_auto_send pt, str_or (Some (rp_dispatch_id p)) (ca_dispatch_id r)) of
        (Some envelope, True, Some (c # cs)) \<Rightarrow>
          (case envelope (aw_rest w) (c # cs) tenant_id of
             None \<Rightarrow> None
           | Some body \<Rightarrow>
               let x = reply_context_from_dispatch_body env body
               in case (rx_source_channel x, rx_recipient x, rx_thread_context x) of
                    (Some channel, Some recipient, Some thread) \<Rightarrow>
                      if channel \<notin> set [''email'', ''whatsapp''] then None
                      else Some \<lparr>tg_channel = channel, tg_recipient = recipient, tg_source = rx_source x,
                        tg_subject = rx_subject x, tg_thread_context = Some thread, tg_in_reply_to = rx_in_reply_to x,
                        tg_references = rx_references x,
                        tg_metadata =
                          (case rx_phone_number_id x of None \<Rightarrow> [] | Some n \<Rightarrow> [(''phone_number_id'', PStr n)]) @
                          (case rx_recipient_display_name x of None \<Rightarrow> []
                           | Some n \<Rightarrow> [(''recipient_display_name'', PStr n)])\<rparr>
                  | _ \<Rightarrow> None)
      | _ \<Rightarrow> None)"

definition delivery_decision_id :: "py_env \<Rightarrow> string \<Rightarrow> uuid \<Rightarrow> uuid" where
  "delivery_decision_id env tenant_id proposal_id =
     uuid5 env CASE_APPROVAL_NAMESPACE (tenant_id @ ''|'' @ proposal_id @ ''|'' @ DELIVERY_CHAIN_ID)"

definition delivery_metadata ::
  "py_env \<Rightarrow> approval_case \<Rightarrow> proposal \<Rightarrow> draft option \<Rightarrow> send_target option \<Rightarrow> metadata" where
  "delivery_metadata env r p d target =
     dmerge
       [(''approval_case_id'', PStr (ca_case_id r)), (''proposal_id'', PStr (rp_proposal_id p)),
        (''proposed_reply_sha256'', PStr (sha256_text env
          (case d of Some dr \<Rightarrow> canonical_reply_for_governance dr | None \<Rightarrow> rp_reply p))),
        (''governed_action'', PStr ''customer_reply.send'')]
       (case (d, target) of
          (Some dr, Some t) \<Rightarrow>
            [(''session_id'', PStr (rd_session_id dr)), (''execution_id'', PStr (rd_execution_id dr)),
             (''dispatch_id'', PStr (rd_dispatch_id dr)), (''draft_id'', PStr (rd_draft_id dr)),
             (''source_channel'', PStr (tg_channel t)), (''reply_recipient'', PStr (tg_recipient t)),
             (''reply_thread_context'', opt_pstr (tg_thread_context t))]
        | _ \<Rightarrow> [])"

definition record_delivery_decision ::
  "py_env \<Rightarrow> int \<Rightarrow> approval_case \<Rightarrow> proposal \<Rightarrow> string \<Rightarrow> send_target option \<Rightarrow> (uuid, 'x approval_world) call" where
  "record_delivery_decision env now r p tenant_id target =
     (let i = delivery_decision_id env tenant_id (rp_proposal_id p) in
      and_then (reading (\<lambda>w. Inr (get_decision (aw_governance w) i (Some tenant_id)))) (\<lambda>existing.
      if existing \<noteq> None then answer i
      else
      and_then (reading (\<lambda>w. draft_for_proposal env w (rp_proposal_id p) tenant_id)) (\<lambda>d.
      let md = delivery_metadata env r p d target;
          g = human_decision env now i ALLOW DELIVERY_CHAIN_ID ''case_approval_delivery_authorized''
                (str_or (ca_dispatch_id r) (ca_execution_id r)) (''resolution:'' @ rp_proposal_id p) tenant_id
                ''communication'' md
      in on_governance (\<lambda>gs. record_human_decision env gs g
           (human_trace g ALLOW ''resolution.customer_reply.send'' (''resolution_proposal:'' @ rp_proposal_id p)
             (case str_or (ca_resolved_by r) None of Some a \<Rightarrow> a | None \<Rightarrow> ''case_approval_service''))
           (uuid5 env CASE_APPROVAL_NAMESPACE (''action|delivery_authorization|'' @ rp_proposal_id p))
           ''case_approval_delivery_authorized''))))"

text \<open>\<open>record.x or default\<close> where the default is a string.\<close>

definition text_or_else :: "string option \<Rightarrow> string \<Rightarrow> string" where
  "text_or_else v d = (case str_or v None of Some t \<Rightarrow> t | None \<Rightarrow> d)"

definition revision_request ::
  "approval_case \<Rightarrow> proposal \<Rightarrow> string \<Rightarrow> string \<Rightarrow> metadata list \<Rightarrow> send_target option \<Rightarrow> gate_request" where
  "revision_request r p tenant_id revised_reply segments target =
     \<lparr>gq_proposal_id = rp_proposal_id p, gq_tenant_id = tenant_id,
      gq_session_id = text_or_else (str_or (rp_session_id p) (ca_session_id r)) [],
      gq_execution_id = text_or_else (str_or (rp_execution_id p) (ca_execution_id r)) [],
      gq_dispatch_id = rp_dispatch_id p, gq_event_id = rp_diagnostic_event_id p,
      gq_summary = text_or_else (ca_issue_summary r) (rp_category p), gq_category = rp_category p,
      gq_confidence = rp_confidence p, gq_content = text_or_else (ca_issue_summary r) [], gq_reply = revised_reply,
      gq_resolution_category = rp_category p, gq_actions = rp_recommended_actions p, gq_evidence = rp_evidence p,
      gq_supervisor_verdict = rp_supervisor_verdict p, gq_governance_verdict = rp_governance_verdict p,
      gq_autonomy_decision = rp_autonomy_decision p, gq_status = rp_status p, gq_segments = segments,
      gq_source_language = rp_source_language p, gq_source_channel = map_option tg_channel target,
      gq_recipient = map_option tg_recipient target, gq_thread_context = Option.bind target tg_thread_context\<rparr>"

definition DELIVERABLE_VERDICTS :: "resolution_verdict set" where
  "DELIVERABLE_VERDICTS = {RG_ALLOW, RG_REQUIRE_APPROVAL}"

definition revalidate_resolution_governance ::
  "'x approval_ports \<Rightarrow> approval_case \<Rightarrow> proposal \<Rightarrow> string \<Rightarrow> string \<Rightarrow> metadata option \<Rightarrow> send_target option
     \<Rightarrow> (gate_answer, 'x approval_world) call" where
  "revalidate_resolution_governance pt r p tenant_id revised_reply recommendation target =
     and_then (check (reply_segments recommendation \<noteq> [])
       (runtime_error (''a revised SME reply must carry grounding segments; '' @
          ''escalate instead of delivering unverifiable text''))) (\<lambda>_.
     case ap_gate pt of
       None \<Rightarrow> lifted (Inl (runtime_error
         (''resolution governance gate is not configured; cannot deliver '' @ ''a revised reply'')))
     | Some gate \<Rightarrow>
         and_then (\<lambda>w. case gate (revision_request r p tenant_id revised_reply (reply_segments recommendation) target)
                           (aw_governance w) (aw_rest w) of
             (res, gs, x) \<Rightarrow> (res, w\<lparr>aw_governance := gs, aw_rest := x\<rparr>)) (\<lambda>v.
         and_then (check (fst v \<in> DELIVERABLE_VERDICTS)
           (runtime_error (''revised SME reply failed resolution governance ('' @ resolution_verdict_value (fst v) @
              ''); escalate the case''))) (\<lambda>_. answer v)))"

definition trigger_auto_send ::
  "py_env \<Rightarrow> int \<Rightarrow> proposal \<Rightarrow> draft \<Rightarrow> send_target \<Rightarrow> string \<Rightarrow> (unit, 'x approval_world) call" where
  "trigger_auto_send env now p d target tenant_id w =
     (case request_auto_send env now (aw_governance w) (aw_outbox w) d p target tenant_id None of
        (Inl e, s) \<Rightarrow> (Inl e, w\<lparr>aw_outbox := s\<rparr>)
      | (Inr a, s) \<Rightarrow>
          ((case au_reason a of
              None \<Rightarrow> Inr ()
            | Some (code, message) \<Rightarrow>
                Inl (runtime_error (''auto-send after approval failed: '' @ code @ '': '' @ message))),
           w\<lparr>aw_outbox := s\<rparr>))"

text \<open>What is delivered: the revised reply once the gate let it pass, or the unchanged one under a
  decision of its own.\<close>

definition authorize_reply ::
  "py_env \<Rightarrow> 'x approval_ports \<Rightarrow> int \<Rightarrow> approval_case \<Rightarrow> proposal \<Rightarrow> uuid \<Rightarrow> string \<Rightarrow> uuid \<Rightarrow> send_target option
     \<Rightarrow> (uuid, 'x approval_world) call" where
  "authorize_reply env pt now r p proposal_id tenant_id decision_id target =
     (let recommendation = recommendation_from_metadata (ca_metadata r)
      in case recommended_reply recommendation of
           Some reply \<Rightarrow>
             if reply \<noteq> py_strip (rp_reply p) then
               and_then (revalidate_resolution_governance pt r p tenant_id reply recommendation target) (\<lambda>v.
               let delivered = (case snd v of Some i \<Rightarrow> i | None \<Rightarrow> decision_id) in
               and_then (on_resolution (\<lambda>s. update_proposal_reply env now s proposal_id tenant_id reply (Some delivered))) (\<lambda>_.
               and_then (on_resolution (\<lambda>s. never_raises (update_draft_body now s proposal_id tenant_id reply
                 (sha256_text env reply) (Some delivered)))) (\<lambda>_.
                 answer delivered)))
             else record_delivery_decision env now r p tenant_id target
         | None \<Rightarrow> record_delivery_decision env now r p tenant_id target)"

definition deliver_resolution ::
  "py_env \<Rightarrow> 'x approval_ports \<Rightarrow> int \<Rightarrow> approval_case \<Rightarrow> uuid \<Rightarrow> string \<Rightarrow> uuid \<Rightarrow> (unit, 'x approval_world) call" where
  "deliver_resolution env pt now r proposal_id tenant_id decision_id =
     and_then (reading (\<lambda>w. require (proposal_for_record w r)
       (runtime_error ''approved resolution proposal is missing''))) (\<lambda>p.
     and_then (reading (\<lambda>w. Inr (derive_outbound_send_target env pt w r p tenant_id))) (\<lambda>target.
     and_then (authorize_reply env pt now r p proposal_id tenant_id decision_id target) (\<lambda>delivered.
     and_then (on_resolution (\<lambda>s. update_proposal_status env now s proposal_id tenant_id RP_SEND_ELIGIBLE
       (Some delivered))) (\<lambda>updated_proposal.
     and_then (on_resolution (\<lambda>s. never_raises (update_draft_status now s proposal_id tenant_id RD_READY
       (Some delivered)))) (\<lambda>updated_draft.
       case (target, updated_draft) of
         (Some t, Some d) \<Rightarrow> trigger_auto_send env now updated_proposal d t tenant_id
       | _ \<Rightarrow> answer ())))))"

text \<open>A case without a bound proposal has nothing to deliver.\<close>

definition deliver_if_bound ::
  "py_env \<Rightarrow> 'x approval_ports \<Rightarrow> int \<Rightarrow> approval_case \<Rightarrow> string \<Rightarrow> uuid \<Rightarrow> (unit, 'x approval_world) call" where
  "deliver_if_bound env pt now r tenant_id decision_id =
     (case ca_proposal_id r of
        None \<Rightarrow> answer ()
      | Some proposal_id \<Rightarrow> deliver_resolution env pt now r proposal_id tenant_id decision_id)"

section \<open>The bound action\<close>

definition bound_action :: "approval_case \<Rightarrow> string option" where
  "bound_action r =
     (case ca_action r of
        None \<Rightarrow> None
      | Some action \<Rightarrow> if requires_execution action then payload_text action ''action_approval_id'' else None)"

definition approve_recommended_action_if_bound ::
  "'x approval_ports \<Rightarrow> approval_case \<Rightarrow> string \<Rightarrow> string option \<Rightarrow> string \<Rightarrow> (unit, 'x approval_world) call" where
  "approve_recommended_action_if_bound pt r approved_by note tenant_id =
     (case bound_action r of
        None \<Rightarrow> answer ()
      | Some action_id \<Rightarrow>
          (case ap_approve_action pt of
             None \<Rightarrow> lifted (Inl (runtime_error
               (''approving an action-bound case requires the action '' @ ''approval executor to be configured'')))
           | Some approve \<Rightarrow> on_rest (\<lambda>x. approve x action_id approved_by note tenant_id)))"

definition deny_recommended_action_if_bound ::
  "'x approval_ports \<Rightarrow> approval_case \<Rightarrow> string \<Rightarrow> string option \<Rightarrow> string \<Rightarrow> (unit, 'x approval_world) call" where
  "deny_recommended_action_if_bound pt r denied_by reason tenant_id =
     (case bound_action r of
        None \<Rightarrow> answer ()
      | Some action_id \<Rightarrow>
          (case ap_deny_action pt of
             None \<Rightarrow> lifted (Inl (runtime_error
               (''rejecting an action-bound case requires the action '' @ ''approval denier to be configured'')))
           | Some deny \<Rightarrow>
               on_rest (\<lambda>x. deny x action_id denied_by
                 (case Option.bind reason nonempty_text of Some t \<Rightarrow> t
                  | None \<Rightarrow> ''Rejected via case approval review.'') tenant_id)))"

section \<open>Resolving a case\<close>

definition resolved_case ::
  "approval_case \<Rightarrow> case_status \<Rightarrow> uuid \<Rightarrow> int \<Rightarrow> string \<Rightarrow> string option \<Rightarrow> metadata \<Rightarrow> approval_case" where
  "resolved_case r status decision_id now actor note marks =
     r\<lparr>ca_status := status, ca_decision_id := Some decision_id, ca_resolved_at := Some now,
       ca_resolved_by := Some actor, ca_note := note, ca_metadata := dmerge (ca_metadata r) marks\<rparr>"

definition guider :: "approval_case \<Rightarrow> string option" where
  "guider r = payload_text (ca_metadata r) ''guided_by''"

definition approve_case ::
  "py_env \<Rightarrow> 'x approval_ports \<Rightarrow> int \<Rightarrow> uuid \<Rightarrow> string \<Rightarrow> string \<Rightarrow> string option \<Rightarrow> (approval_case, 'x approval_world) call" where
  "approve_case env pt now case_id tenant_id approved_by note =
     transaction pt
     (and_then (reading (\<lambda>w. require_case w case_id tenant_id)) (\<lambda>r.
      and_then (check (ca_status r = CA_AWAITING_APPROVAL)
        (CaseApprovalLifecycleError ''only awaiting approval cases can be approved'')) (\<lambda>_.
      and_then (check (guider r \<noteq> Some approved_by)
        (CaseApprovalLifecycleError ''guided cases require a different approver'')) (\<lambda>_.
      and_then (on_governance (\<lambda>g. record_case_decision env now g r approved_by ALLOW APPROVE_CHAIN_ID
        ''case_approval_approved'' note)) (\<lambda>decision_id.
      and_then (deliver_if_bound env pt now r tenant_id decision_id) (\<lambda>_.
      and_then (approve_recommended_action_if_bound pt r approved_by note tenant_id) (\<lambda>_.
        on_cases (\<lambda>s. update_case env s (resolved_case r CA_APPROVED decision_id now approved_by note
          [(''approved_by'', PStr approved_by),
           (''approved_recommendation_hash'', opt_pstr (payload_text (ca_metadata r) ''sme_recommendation_hash''))])
          tenant_id))))))))"

definition reject_case ::
  "py_env \<Rightarrow> 'x approval_ports \<Rightarrow> int \<Rightarrow> uuid \<Rightarrow> string \<Rightarrow> string \<Rightarrow> string option \<Rightarrow> (approval_case, 'x approval_world) call" where
  "reject_case env pt now case_id tenant_id rejected_by reason =
     transaction pt
     (and_then (reading (\<lambda>w. require_case w case_id tenant_id)) (\<lambda>r.
      and_then (check (ca_status r = CA_AWAITING_APPROVAL)
        (CaseApprovalLifecycleError ''only awaiting approval cases can be rejected'')) (\<lambda>_.
      and_then (on_governance (\<lambda>g. record_case_decision env now g r rejected_by DENY REJECT_CHAIN_ID
        ''case_approval_rejected'' reason)) (\<lambda>decision_id.
      and_then (deny_recommended_action_if_bound pt r rejected_by reason tenant_id) (\<lambda>_.
        on_cases (\<lambda>s. update_case env s (resolved_case r CA_REJECTED decision_id now rejected_by reason
          [(''rejected_by'', PStr rejected_by)]) tenant_id))))))"

text \<open>The handoff an escalation creates, if an escalation runtime is configured.\<close>

definition create_handoff_for_case ::
  "py_env \<Rightarrow> 'x approval_ports \<Rightarrow> int \<Rightarrow> approval_case \<Rightarrow> uuid \<Rightarrow> string \<Rightarrow> (string option, 'x approval_world) call" where
  "create_handoff_for_case env pt now r decision_id tenant_id w =
     (case ap_escalation pt of
        None \<Rightarrow> (Inr None, w)
      | Some sp \<Rightarrow>
          (case ca_session_id r of
             None \<Rightarrow> (Inl (runtime_error ''approval escalation requires session lineage''), w)
           | Some session_id \<Rightarrow>
               (case create_for_governance_escalation env sp now
                       \<lparr>ew_store = aw_escalations w, ew_governance = aw_governance w, ew_rest = aw_rest w\<rparr>
                       decision_id tenant_id (Some session_id) of
                  (res, e) \<Rightarrow>
                    ((case res of Inl err \<Rightarrow> Inl err | Inr h \<Rightarrow> Inr (Some (esc_id h))),
                     w\<lparr>aw_escalations := ew_store e, aw_governance := ew_governance e, aw_rest := ew_rest e\<rparr>))))"

definition escalate_case ::
  "py_env \<Rightarrow> 'x approval_ports \<Rightarrow> int \<Rightarrow> uuid \<Rightarrow> string \<Rightarrow> string \<Rightarrow> string \<Rightarrow> (approval_case, 'x approval_world) call" where
  "escalate_case env pt now case_id tenant_id escalated_by reason =
     transaction pt
     (and_then (reading (\<lambda>w. require_case w case_id tenant_id)) (\<lambda>r.
      and_then (check (ca_status r \<notin> TERMINAL_CASE_STATUSES)
        (CaseApprovalLifecycleError ''terminal approval cases cannot be escalated'')) (\<lambda>_.
      and_then (on_governance (\<lambda>g. record_case_decision env now g r escalated_by ESCALATE ESCALATE_CHAIN_ID
        ''case_approval_escalated'' (Some reason))) (\<lambda>decision_id.
      and_then (create_handoff_for_case env pt now r decision_id tenant_id) (\<lambda>escalation_id.
        on_cases (\<lambda>s. update_case env s (resolved_case r CA_ESCALATED decision_id now escalated_by (Some reason)
          [(''escalated_by'', PStr escalated_by), (''escalation_id'', opt_pstr escalation_id)]) tenant_id))))))"

section \<open>Completion of a case whose action was decided elsewhere\<close>

definition complete_reconciled_resolution ::
  "py_env \<Rightarrow> 'x approval_ports \<Rightarrow> int \<Rightarrow> uuid \<Rightarrow> string \<Rightarrow> string \<Rightarrow> string option \<Rightarrow> (bool, 'x approval_world) call" where
  "complete_reconciled_resolution env pt now case_id tenant_id resolved_by note =
     and_then (reading (\<lambda>w. on_ok (require_case w case_id tenant_id) (\<lambda>r. Inr (r, proposal_for_record w r)))) (\<lambda>(r, p).
     case (ca_proposal_id r, p) of
       (Some proposal_id, Some q) \<Rightarrow>
         if ca_status r \<noteq> CA_APPROVED \<or> rp_status q \<noteq> RP_PENDING_HUMAN_APPROVAL then answer False
         else
           and_then (on_governance (\<lambda>g. record_case_decision env now g r resolved_by ALLOW APPROVE_CHAIN_ID
             ''case_approval_approved_reconciled'' note)) (\<lambda>decision_id.
           and_then (deliver_resolution env pt now r proposal_id tenant_id decision_id) (\<lambda>_.
           and_then (on_cases (\<lambda>s. update_case env s (r\<lparr>ca_decision_id := Some decision_id\<rparr>) tenant_id)) (\<lambda>_.
             answer True)))
     | _ \<Rightarrow> answer False)"

text \<open>\<open>recommended_action ->> 'action_approval_id'\<close> in SQL: the text of a JSON value.\<close>

definition json_text_entry :: "py_env \<Rightarrow> metadata option \<Rightarrow> string \<Rightarrow> string option" where
  "json_text_entry env action key =
     (case Option.bind action (\<lambda>d. dget d key) of
        None \<Rightarrow> None
      | Some PNone \<Rightarrow> None
      | Some (PStr t) \<Rightarrow> Some t
      | Some v \<Rightarrow> Some (json_dumps env v))"

definition claimable_case :: "py_env \<Rightarrow> string \<Rightarrow> string \<Rightarrow> approval_case \<Rightarrow> bool" where
  "claimable_case env tenant_id action_approval_id r \<longleftrightarrow>
     ca_tenant_id r = tenant_id \<and> ca_status r = CA_AWAITING_APPROVAL \<and>
     json_text_entry env (ca_action r) ''action_approval_id'' = Some action_approval_id"

text \<open>\<open>UPDATE case_approval_records ... RETURNING approval_case_id\<close>.\<close>

definition claim_cases_for_action ::
  "py_env \<Rightarrow> string \<Rightarrow> string \<Rightarrow> case_status \<Rightarrow> int \<Rightarrow> string \<Rightarrow> string \<Rightarrow> approval_store
     \<Rightarrow> uuid list result \<times> approval_store" where
  "claim_cases_for_action env tenant_id action_id status resolved_at resolved_by note s =
     (Inr (map ca_case_id (filter (claimable_case env tenant_id action_id) (dvals (as_cases s)))),
      s\<lparr>as_cases := map (\<lambda>(k, r). (k, if claimable_case env tenant_id action_id r
          then r\<lparr>ca_status := status, ca_resolved_at := Some resolved_at, ca_resolved_by := Some resolved_by,
                 ca_note := Some note\<rparr> else r)) (as_cases s)\<rparr>)"

definition claim_and_complete_case_for_action ::
  "py_env \<Rightarrow> 'x approval_ports \<Rightarrow> int \<Rightarrow> string \<Rightarrow> string \<Rightarrow> string \<Rightarrow> string \<Rightarrow> int \<Rightarrow> string
     \<Rightarrow> ((uuid \<times> bool) option, 'x approval_world) call" where
  "claim_and_complete_case_for_action env pt now action_id tenant_id action_status resolved_by resolved_at note =
     and_then (check (ap_session pt)
       (runtime_error ''no shared session to claim a case-bound action's case in'')) (\<lambda>_.
     let status = (if action_status = ''approved'' then CA_APPROVED else CA_REJECTED) in
     and_then (on_cases (claim_cases_for_action env tenant_id action_id status resolved_at resolved_by note)) (\<lambda>claimed.
     case claimed of
       [] \<Rightarrow> answer None
     | [case_id] \<Rightarrow>
         if status = CA_APPROVED then
           and_then (complete_reconciled_resolution env pt now case_id tenant_id resolved_by (Some note)) (\<lambda>delivered.
             answer (Some (case_id, delivered)))
         else answer (Some (case_id, False))
     | _ \<Rightarrow> lifted (Inl (ExternalError ''MultipleResultsFound'' []))))"

end
