(* ===== verification/Approval_World.thy ===== *)
theory Approval_World
  imports Approval_Service Interfaces
begin

text \<open>
  What the approval service keeps of its cases: no case is approved or rejected without a
  review, guidance is scanned and given once, and a resolved case is never changed again by
  any sequence of calls.
\<close>

section \<open>Calls\<close>

datatype approval_op =
    OpRequest int review_request string
  | OpReview int uuid string
  | OpGuide int uuid string string string
  | OpApprove int uuid string string "string option"
  | OpReject int uuid string string "string option"
  | OpEscalate int uuid string string string
  | OpComplete int uuid string string "string option"
  | OpClaim int string string string string int string

type_synonym 'x review_publisher = "('x \<Rightarrow> uuid \<Rightarrow> string \<Rightarrow> unit result \<times> 'x) option"

definition ingress_call ::
  "py_env \<Rightarrow> 'x review_publisher \<Rightarrow> int \<Rightarrow> review_request \<Rightarrow> string \<Rightarrow> (approval_case, 'x approval_world) call" where
  "ingress_call env pub now q tenant w =
     (case request_case_review env pub now (aw_cases w) (aw_rest w) q tenant of
        (res, s, x) \<Rightarrow> (res, w\<lparr>aw_cases := s, aw_rest := x\<rparr>))"

fun approval_step ::
  "py_env \<Rightarrow> 'x approval_ports \<Rightarrow> 'x review_publisher \<Rightarrow> approval_op \<Rightarrow> 'x approval_world \<Rightarrow> 'x approval_world" where
  "approval_step env pt pub (OpRequest now q t) w = snd (ingress_call env pub now q t w)"
| "approval_step env pt pub (OpReview now i t) w = snd (review_case env pt now i t None w)"
| "approval_step env pt pub (OpGuide now i t a g) w = snd (guide_case env pt now i t a g w)"
| "approval_step env pt pub (OpApprove now i t a n) w = snd (approve_case env pt now i t a n w)"
| "approval_step env pt pub (OpReject now i t a n) w = snd (reject_case env pt now i t a n w)"
| "approval_step env pt pub (OpEscalate now i t a n) w = snd (escalate_case env pt now i t a n w)"
| "approval_step env pt pub (OpComplete now i t a n) w = snd (complete_reconciled_resolution env pt now i t a n w)"
| "approval_step env pt pub (OpClaim now a t st who at n) w =
     snd (claim_and_complete_case_for_action env pt now a t st who at n w)"

section \<open>What a case is\<close>

definition case_ok :: "py_env \<Rightarrow> injection_pattern list \<Rightarrow> approval_case \<Rightarrow> bool" where
  "case_ok env ps r \<longleftrightarrow> (ca_guidance_round r = 0 \<or> ca_guidance_round r = 1) \<and>
     (ca_status r \<in> {CA_AWAITING_APPROVAL, CA_APPROVED, CA_REJECTED} \<longrightarrow> ca_recommendation_id r \<noteq> None) \<and>
     (ca_status r \<in> TERMINAL_CASE_STATUSES \<longleftrightarrow> ca_resolved_at r \<noteq> None) \<and>
     (ca_resolved_at r = None \<longleftrightarrow> ca_resolved_by r = None) \<and> ca_status r \<noteq> CA_FAILED \<and>
     (ca_status r = CA_PENDING_SME_REVIEW \<longrightarrow> ca_guidance_round r = 0) \<and>
     (ca_guidance_round r = 1 \<longrightarrow> (\<exists>g. ca_guidance_ref r = Some g \<and> \<not> sn_flagged (scan_injection env ps g)))"

definition case_lineage :: "approval_case \<Rightarrow> string option list" where
  "case_lineage r = [Some (ca_case_id r), Some (ca_tenant_id r), ca_session_id r, ca_execution_id r, ca_dispatch_id r,
     Some (case_category_value (ca_category r)), Some (ca_dedup_key r), ca_proposal_id r]"

text \<open>A resolved case but for the decision it names.\<close>

definition resolution_of :: "approval_case \<Rightarrow> approval_case" where
  "resolution_of r = r\<lparr>ca_decision_id := None\<rparr>"

text \<open>How a call may change a case; a resolved one only in the decision it names.\<close>

definition case_edit :: "py_env \<Rightarrow> injection_pattern list \<Rightarrow> approval_case \<Rightarrow> approval_case \<Rightarrow> bool" where
  "case_edit env ps r r' \<longleftrightarrow> case_lineage r' = case_lineage r \<and> (case_ok env ps r \<longrightarrow> case_ok env ps r') \<and>
     (ca_status r \<in> TERMINAL_CASE_STATUSES \<longrightarrow> resolution_of r' = resolution_of r) \<and>
     (ca_guidance_round r = 1 \<longrightarrow> guider r' = guider r \<and> ca_guidance_ref r' = ca_guidance_ref r \<and> ca_guidance_round r' = 1)"

lemma case_edit_refl [simp]: "case_edit env ps r r"
  by (simp add: case_edit_def)

lemma resolution_of_status: "resolution_of r' = resolution_of r \<Longrightarrow> ca_status r' = ca_status r"
  by (metis approval_case.select_convs(7) approval_case.surjective approval_case.update_convs(18) resolution_of_def)

lemma case_edit_trans: "case_edit env ps r r1 \<Longrightarrow> case_edit env ps r1 r2 \<Longrightarrow> case_edit env ps r r2"
  unfolding case_edit_def using resolution_of_status by metis

definition approval_ids_unique :: "py_env \<Rightarrow> (string \<times> string) set \<Rightarrow> bool" where
  "approval_ids_unique env K \<longleftrightarrow> inj_on (\<lambda>(t, d). derive_approval_case_id env t d) K"

definition case_inv :: "py_env \<Rightarrow> injection_pattern list \<Rightarrow> (string \<times> string) set \<Rightarrow> approval_store \<Rightarrow> bool" where
  "case_inv env ps K s \<longleftrightarrow> approval_ids_unique env K \<and> wf_dict (as_cases s) \<and>
     (\<forall>i r. dget (as_cases s) i = Some r \<longrightarrow> ca_case_id r = i \<and> case_ok env ps r \<and>
        dget (as_dedup s) (ca_tenant_id r, ca_dedup_key r) = Some i \<and> (ca_tenant_id r, ca_dedup_key r) \<in> K \<and>
        derive_approval_case_id env (ca_tenant_id r) (ca_dedup_key r) = i)"

lemma case_invD:
  assumes "case_inv env ps K s" "dget (as_cases s) i = Some r"
  shows "ca_case_id r = i" "case_ok env ps r" "dget (as_dedup s) (ca_tenant_id r, ca_dedup_key r) = Some i"
    "(ca_tenant_id r, ca_dedup_key r) \<in> K" "derive_approval_case_id env (ca_tenant_id r) (ca_dedup_key r) = i"
  using assms unfolding case_inv_def by blast+

definition cases_kept ::
  "py_env \<Rightarrow> injection_pattern list \<Rightarrow> (string \<times> string) set \<Rightarrow> approval_store \<Rightarrow> approval_store \<Rightarrow> bool" where
  "cases_kept env ps K s s' \<longleftrightarrow> (case_inv env ps K s \<longrightarrow> case_inv env ps K s' \<and>
     (\<forall>i r. dget (as_cases s) i = Some r \<longrightarrow> (\<exists>r'. dget (as_cases s') i = Some r' \<and> case_edit env ps r r')))"

lemma cases_kept_refl [simp]: "cases_kept env ps K s s"
  by (auto simp: cases_kept_def)

lemma cases_kept_trans: "cases_kept env ps K s s1 \<Longrightarrow> cases_kept env ps K s1 s2 \<Longrightarrow> cases_kept env ps K s s2"
  unfolding cases_kept_def using case_edit_trans by blast

lemma case_edit_ids: "case_edit env ps r r' \<Longrightarrow> ca_case_id r' = ca_case_id r \<and> ca_tenant_id r' = ca_tenant_id r \<and>
    ca_dedup_key r' = ca_dedup_key r"
  by (simp add: case_edit_def case_lineage_def)

text \<open>What the invariant says of one row under key \<open>i\<close>.\<close>

definition case_row_ok ::
  "py_env \<Rightarrow> injection_pattern list \<Rightarrow> (string \<times> string) set \<Rightarrow> (string \<times> string, uuid) dict \<Rightarrow> uuid \<Rightarrow> approval_case
     \<Rightarrow> bool" where
  "case_row_ok env ps K index i r \<longleftrightarrow> ca_case_id r = i \<and> case_ok env ps r \<and>
     dget index (ca_tenant_id r, ca_dedup_key r) = Some i \<and> (ca_tenant_id r, ca_dedup_key r) \<in> K \<and>
     derive_approval_case_id env (ca_tenant_id r) (ca_dedup_key r) = i"

lemma case_inv_rows:
  "case_inv env ps K s \<longleftrightarrow> approval_ids_unique env K \<and> wf_dict (as_cases s) \<and>
     (\<forall>i r. dget (as_cases s) i = Some r \<longrightarrow> case_row_ok env ps K (as_dedup s) i r)"
  unfolding case_inv_def case_row_ok_def by (rule refl)

lemma case_inv_put:
  assumes inv: "case_inv env ps K s" and new: "case_row_ok env ps K (dset key i (as_dedup s)) i r'"
    and key: "key = (ca_tenant_id r', ca_dedup_key r')"
  shows "case_inv env ps K (s\<lparr>as_cases := dset i r' (as_cases s), as_dedup := dset key i (as_dedup s)\<rparr>)"
proof -
  have "case_row_ok env ps K (dset key i (as_dedup s)) j q"
    if row: "dget (dset i r' (as_cases s)) j = Some q" for j q
  proof (cases "j = i")
    case True
    then show ?thesis using row new by simp
  next
    case False
    then have old: "dget (as_cases s) j = Some q" using row by simp
    note q = case_invD [OF inv old]
    have "(ca_tenant_id q, ca_dedup_key q) \<noteq> key"
      using q(5) new key False by (auto simp: case_row_ok_def)
    then show ?thesis using q by (simp add: case_row_ok_def)
  qed
  moreover have "wf_dict (dset i r' (as_cases s))" "approval_ids_unique env K"
    using inv unfolding case_inv_rows by simp_all
  ultimately show ?thesis unfolding case_inv_rows by (intro conjI allI impI) (simp_all del: map_of_eq_Some_iff)
qed

lemma update_case_kept:
  assumes "get_case s i t = Some r" "case_edit env ps r r'"
  shows "cases_kept env ps K s (snd (update_case env s r' t))"
  unfolding cases_kept_def
proof
  assume inv: "case_inv env ps K s"
  have row: "dget (as_cases s) i = Some r" "ca_tenant_id r = t"
    using assms(1) by (auto simp: get_case_def split: option.splits if_splits)
  note old = case_invD [OF inv row(1)]
  note ids = case_edit_ids [OF assms(2)]
  have ok: "case_ok env ps r'" using assms(2) old(2) by (simp add: case_edit_def)
  let ?s = "s\<lparr>as_cases := dset i r' (as_cases s), as_dedup := dset (t, ca_dedup_key r) i (as_dedup s)\<rparr>"
  have s': "snd (update_case env s r' t) = ?s"
    using assms(1) row(2) ids old(1) by (simp add: update_case_def)
  have "case_inv env ps K ?s"
    by (rule case_inv_put [OF inv]) (use old ids ok row(2) in \<open>simp_all add: case_row_ok_def\<close>)
  moreover have "\<exists>q'. dget (as_cases ?s) j = Some q' \<and> case_edit env ps q q'"
    if "dget (as_cases s) j = Some q" for j q
    using that row(1) assms(2) by (cases "j = i") simp_all
  ultimately show "case_inv env ps K (snd (update_case env s r' t)) \<and>
      (\<forall>j q. dget (as_cases s) j = Some q \<longrightarrow>
        (\<exists>q'. dget (as_cases (snd (update_case env s r' t))) j = Some q' \<and> case_edit env ps q q'))"
    unfolding s' by blast
qed

lemma cases_kept_same: "as_cases s' = as_cases s \<Longrightarrow> as_dedup s' = as_dedup s \<Longrightarrow> cases_kept env ps K s s'"
  unfolding cases_kept_def case_inv_def by auto

lemma republish_kept: "cases_kept env ps K s (snd (republish_case_outbox s r t))"
  by (rule cases_kept_same) (auto simp: republish_case_outbox_def Let_def split: option.splits)

text \<open>A new case finds no other under its identity.\<close>

lemma create_case_kept:
  assumes "(ca_tenant_id r, ca_dedup_key r) \<in> K" "case_ok env ps r"
    and "ca_case_id r = derive_approval_case_id env (ca_tenant_id r) (ca_dedup_key r)"
  shows "cases_kept env ps K s (snd (create_case s r t))"
proof (cases "ca_tenant_id r = t \<and> dget (as_dedup s) (ca_tenant_id r, ca_dedup_key r) = None")
  case False
  then have "snd (create_case s r t) = s" by (auto simp: create_case_def split: option.split)
  then show ?thesis by simp
next
  case True
  let ?key = "(ca_tenant_id r, ca_dedup_key r)"
  let ?s = "s\<lparr>as_cases := dset (ca_case_id r) r (as_cases s), as_dedup := dset ?key (ca_case_id r) (as_dedup s)\<rparr>"
  have t: "t = ca_tenant_id r" and none: "dget (as_dedup s) ?key = None" using True by blast+
  have s': "snd (create_case s r t) = ?s" unfolding t create_case_def none by simp
  show ?thesis
    unfolding cases_kept_def s'
  proof
    assume inv: "case_inv env ps K s"
    have fresh: "dget (as_cases s) (ca_case_id r) = None"
    proof (rule ccontr)
      assume "dget (as_cases s) (ca_case_id r) \<noteq> None"
      then obtain q where q: "dget (as_cases s) (ca_case_id r) = Some q" by blast
      note qs = case_invD [OF inv q]
      have "approval_ids_unique env K" using inv unfolding case_inv_def by blast
      then have "(ca_tenant_id q, ca_dedup_key q) = ?key"
        using qs(4,5) assms(1,3) unfolding approval_ids_unique_def inj_on_def by fastforce
      then show False using qs(3) none by (simp del: map_of_eq_None_iff map_of_eq_Some_iff)
    qed
    have "case_inv env ps K ?s"
      by (rule case_inv_put [OF inv]) (use assms in \<open>simp_all add: case_row_ok_def\<close>)
    moreover have "\<exists>q'. dget (as_cases ?s) j = Some q' \<and> case_edit env ps q q'"
      if "dget (as_cases s) j = Some q" for j q
      using that fresh by (cases "j = ca_case_id r") simp_all
    ultimately show "case_inv env ps K ?s \<and>
        (\<forall>i q. dget (as_cases s) i = Some q \<longrightarrow> (\<exists>q'. dget (as_cases ?s) i = Some q' \<and> case_edit env ps q q'))"
      by blast
  qed
qed

section \<open>Calls that leave the cases alone\<close>

definition calm :: "('a, 'x approval_world) call \<Rightarrow> bool" where
  "calm m \<longleftrightarrow> (\<forall>w. aw_cases (snd (m w)) = aw_cases w)"

lemma calm_basic [simp]:
  "calm (answer v)" "calm (lifted r)" "calm (reading f)" "calm (check ok e)" "calm (on_governance g)"
  "calm (on_resolution h)" "calm (on_rest k)"
  by (auto simp: calm_def answer_def lifted_def reading_def check_def on_governance_def on_resolution_def on_rest_def
      split: prod.split)

lemma calmD: "calm m \<Longrightarrow> m w = (r, w') \<Longrightarrow> aw_cases w' = aw_cases w"
  unfolding calm_def by (metis snd_conv)

lemma calm_then [simp]: "calm m \<Longrightarrow> (\<And>v. calm (f v)) \<Longrightarrow> calm (and_then m f)"
  unfolding calm_def and_then_def by (auto split: prod.split sum.split) (metis snd_conv)+

lemma calm_if [simp]: "calm m \<Longrightarrow> calm n \<Longrightarrow> calm (if b then m else n)"
  by simp

lemma calm_parts [simp]:
  "calm (trigger_auto_send env now p d target t)" "calm (create_handoff_for_case env pt now r i t)"
  "calm (approve_recommended_action_if_bound pt r a n t)" "calm (deny_recommended_action_if_bound pt r a n t)"
  "calm (record_delivery_decision env now r p t tg)"
  by (auto simp: calm_def trigger_auto_send_def create_handoff_for_case_def split: prod.split option.split sum.split)
    (auto simp: approve_recommended_action_if_bound_def deny_recommended_action_if_bound_def record_delivery_decision_def
      answer_def lifted_def reading_def on_rest_def on_governance_def and_then_def Let_def
      split: prod.split option.split sum.split)

lemma calm_revalidate [simp]: "calm (revalidate_resolution_governance pt r p t reply g tg)"
proof -
  have "calm (\<lambda>w. case gate q (aw_governance w) (aw_rest w) of (res, gs, x) \<Rightarrow>
      (res, w\<lparr>aw_governance := gs, aw_rest := x\<rparr>))" for gate and q :: gate_request
    by (auto simp: calm_def split: prod.split)
  then show ?thesis by (auto simp: revalidate_resolution_governance_def split: option.split intro!: calm_then)
qed

lemma calm_authorize [simp]: "calm (authorize_reply env pt now r p i t d tg)"
  by (auto simp: authorize_reply_def Let_def split: option.split intro!: calm_then)

lemma calm_deliver [simp]: "calm (deliver_resolution env pt now r i t d)" "calm (deliver_if_bound env pt now r t d)"
proof -
  show "calm (deliver_resolution env pt now r i t d)" for i
    unfolding deliver_resolution_def by (auto split: option.split intro!: calm_then)
  then show "calm (deliver_if_bound env pt now r t d)" by (auto simp: deliver_if_bound_def split: option.split)
qed

section \<open>Every call keeps the cases\<close>

text \<open>\<open>keeping env ps K m w\<close>: run from \<open>w\<close>, the call \<open>m\<close> changes cases only as allowed.\<close>

definition keeping ::
  "py_env \<Rightarrow> injection_pattern list \<Rightarrow> (string \<times> string) set \<Rightarrow> ('a, 'x approval_world) call \<Rightarrow> 'x approval_world \<Rightarrow> bool" where
  "keeping env ps K m w \<longleftrightarrow> cases_kept env ps K (aw_cases w) (aw_cases (snd (m w)))"

lemma keeping_calm: "calm m \<Longrightarrow> keeping env ps K m w"
  by (simp add: keeping_def calm_def)

text \<open>After a calm prefix the rest still sees the cases it started from.\<close>

lemma keeping_then:
  assumes "calm m" "\<And>v w1. m w = (Inr v, w1) \<Longrightarrow> aw_cases w1 = aw_cases w \<Longrightarrow> keeping env ps K (f v) w1"
  shows "keeping env ps K (and_then m f) w"
proof (cases "m w")
  case (Pair res w1)
  note same = calmD [OF assms(1) Pair]
  show ?thesis
  proof (cases res)
    case (Inl e)
    then show ?thesis using Pair same by (simp add: keeping_def)
  next
    case (Inr v)
    then show ?thesis using Pair same assms(2) [of v w1] by (simp add: keeping_def)
  qed
qed

lemma keeping_and:
  assumes "keeping env ps K m w" "\<And>v w1. m w = (Inr v, w1) \<Longrightarrow> keeping env ps K (f v) w1"
  shows "keeping env ps K (and_then m f) w"
proof (cases "m w")
  case (Pair res w1)
  show ?thesis
  proof (cases res)
    case (Inr v)
    then show ?thesis using Pair assms(1) assms(2) [of v w1] cases_kept_trans by (simp add: keeping_def)
  qed (use Pair assms(1) in \<open>simp add: keeping_def\<close>)
qed

lemma keeping_update:
  "get_case (aw_cases w) i t = Some r \<Longrightarrow> case_edit env ps r r' \<Longrightarrow>
     keeping env ps K (on_cases (\<lambda>s. update_case env s r' t)) w"
  using update_case_kept by (auto simp: keeping_def on_cases_def split: prod.split) (metis snd_conv)

lemma keeping_transaction: "keeping env ps K m w \<Longrightarrow> keeping env ps K (transaction pt m) w"
  by (auto simp: keeping_def transaction_def rolled_back_def split: prod.splits sum.splits option.splits)

section \<open>Edits\<close>

lemma payload_text_dmerge:
  "wf_dict b \<Longrightarrow> dget b key = None \<Longrightarrow> payload_text (dmerge a b) key = payload_text a key"
  by (simp add: payload_text_def dget_dmerge del: map_of_eq_None_iff)

lemma reviewed_edit:
  assumes "ca_status r = CA_PENDING_SME_REVIEW \<or> ca_status r = CA_GUIDANCE_IN_PROGRESS"
  shows "case_edit env ps r (reviewed_case env r g)"
proof -
  have "guider (reviewed_case env r g) = guider r"
    by (simp add: guider_def reviewed_case_def payload_text_dmerge)
  then show ?thesis
    using assms by (auto simp: case_edit_def case_lineage_def case_ok_def reviewed_case_def TERMINAL_CASE_STATUSES_def)
qed

lemma guided_edit:
  assumes "ca_status r = CA_AWAITING_APPROVAL" "ca_guidance_round r \<le> 0" "\<not> sn_flagged (scan_injection env ps g)"
  shows "case_edit env ps r (guided_case r who g d cats)"
  using assms by (auto simp: case_edit_def case_lineage_def case_ok_def guided_case_def TERMINAL_CASE_STATUSES_def)

lemma resolved_edit:
  assumes "ca_status r \<notin> TERMINAL_CASE_STATUSES" "st \<in> TERMINAL_CASE_STATUSES" "st \<noteq> CA_FAILED"
    and "st = CA_ESCALATED \<or> ca_status r = CA_AWAITING_APPROVAL" "wf_dict marks" "dget marks ''guided_by'' = None"
  shows "case_edit env ps r (resolved_case r st d now who note marks)"
proof -
  have "guider (resolved_case r st d now who note marks) = guider r"
    by (simp add: guider_def resolved_case_def payload_text_dmerge assms(5,6) del: map_of_eq_None_iff)
  moreover have "st = CA_ESCALATED \<or> st = CA_APPROVED \<or> st = CA_REJECTED" "st \<noteq> CA_PENDING_SME_REVIEW"
    using assms(2,3) by (auto simp: TERMINAL_CASE_STATUSES_def)
  ultimately show ?thesis
    using assms(1-4) by (auto simp: case_edit_def case_lineage_def case_ok_def resolved_case_def)
qed

lemma stamped_edit:
  "ca_status r = CA_APPROVED \<Longrightarrow> case_edit env ps r (r\<lparr>ca_decision_id := d\<rparr>)"
  by (auto simp: case_edit_def case_lineage_def case_ok_def guider_def resolution_of_def TERMINAL_CASE_STATUSES_def)

lemma claimed_edit:
  assumes "ca_status r = CA_AWAITING_APPROVAL" "st = CA_APPROVED \<or> st = CA_REJECTED"
  shows "case_edit env ps r (r\<lparr>ca_status := st, ca_resolved_at := Some t, ca_resolved_by := Some a, ca_note := n\<rparr>)"
  using assms by (auto simp: case_edit_def case_lineage_def case_ok_def guider_def TERMINAL_CASE_STATUSES_def)

section \<open>The calls\<close>

lemma require_case_Inr [simp]:
  "require_case w i t = Inr r \<longleftrightarrow> get_case (aw_cases w) i t = Some r"
  "Inr r = require_case w i t \<longleftrightarrow> get_case (aw_cases w) i t = Some r"
  by (auto simp: require_case_def require_def split: option.splits)

lemma finish_review_keeping:
  assumes "get_case (aw_cases w) i t = Some r" "ca_status r = CA_PENDING_SME_REVIEW \<or> ca_status r = CA_GUIDANCE_IN_PROGRESS"
  shows "keeping env ps K (finish_review env now r g t) w"
  unfolding finish_review_def
proof (rule keeping_and [OF keeping_update [OF assms(1) reviewed_edit [OF assms(2)]]])
  fix v w1
  have "keeping env ps K (on_cases (\<lambda>s. republish_case_outbox s (review_notice env now v) t)) w1"
    using republish_kept by (auto simp: keeping_def on_cases_def split: prod.split) (metis snd_conv)
  then show "keeping env ps K (and_then (on_cases (\<lambda>s. republish_case_outbox s (review_notice env now v) t)) (\<lambda>_. answer v)) w1"
    by (rule keeping_and) (rule keeping_calm, simp)
qed

lemma begin_review_Inr:
  "begin_review w i t = Inr (r, c) \<longleftrightarrow> get_case (aw_cases w) i t = Some r \<and>
     (ca_status r = CA_PENDING_SME_REVIEW \<or> ca_status r = CA_GUIDANCE_IN_PROGRESS) \<and>
     c = context_for_record r (proposal_for_record w r)"
  by (auto simp: begin_review_def on_ok_def raise_unless_def require_case_def require_def split: option.splits if_splits)

lemma review_keeping: "keeping env ps K (review_case env pt now i t guidance) w"
  unfolding review_case_def
proof (rule keeping_then)
  fix v w1
  assume "reading (\<lambda>w. begin_review w i t) w = (Inr v, w1)"
  then obtain r c where v: "v = (r, c)" and begun: "begin_review w i t = Inr (r, c)"
    by (cases v) simp
  assume same: "aw_cases w1 = aw_cases w"
  have r: "get_case (aw_cases w1) i t = Some r" "ca_status r = CA_PENDING_SME_REVIEW \<or> ca_status r = CA_GUIDANCE_IN_PROGRESS"
    using begun same by (simp_all add: begin_review_Inr)
  show "keeping env ps K (case v of (r, c) \<Rightarrow>
      and_then (on_rest (\<lambda>x. sme_review env (ap_sme pt) now x c guidance (ca_guidance_round r)))
        (\<lambda>g. finish_review env now r g t)) w1"
    unfolding v prod.case by (rule keeping_then) (simp, rule finish_review_keeping, use r in simp_all)
qed simp

lemma keeping_case:
  "(\<And>r. get_case (aw_cases w) i t = Some r \<Longrightarrow> keeping env ps K (f r) w) \<Longrightarrow>
     keeping env ps K (and_then (reading (\<lambda>w. require_case w i t)) f) w"
  by (auto simp: keeping_def and_then_def reading_def split: sum.split)

lemma keeping_check: "(ok \<Longrightarrow> keeping env ps K (f ()) w) \<Longrightarrow> keeping env ps K (and_then (check ok e) f) w"
  by (auto simp: keeping_def and_then_def check_def lifted_def raise_unless_def)

lemmas keeping_rules = keeping_transaction keeping_case keeping_check keeping_then

lemma approve_keeping: "keeping env ps K (approve_case env pt now i t a n) w"
  unfolding approve_case_def
  by (intro keeping_rules calm_basic calm_deliver calm_parts, rule keeping_update, simp, rule resolved_edit)
    (simp_all add: TERMINAL_CASE_STATUSES_def)

lemma reject_keeping: "keeping env ps K (reject_case env pt now i t a n) w"
  unfolding reject_case_def
  by (intro keeping_rules calm_basic calm_parts, rule keeping_update, simp, rule resolved_edit)
    (simp_all add: TERMINAL_CASE_STATUSES_def)

lemma escalate_keeping: "keeping env ps K (escalate_case env pt now i t a n) w"
  unfolding escalate_case_def
  by (intro keeping_rules calm_basic calm_parts, rule keeping_update, simp, rule resolved_edit)
    (simp_all add: TERMINAL_CASE_STATUSES_def)

lemma guide_keeping: "keeping env (ap_patterns pt) K (guide_case env pt now i t a g) w"
  unfolding guide_case_def Let_def
  by (rule keeping_transaction, rule keeping_case, (rule keeping_check)+, rule keeping_then, rule calm_basic,
      rule keeping_and, rule keeping_update, simp, rule guided_edit)
    (simp_all add: review_keeping)

lemma complete_keeping: "keeping env ps K (complete_reconciled_resolution env pt now i t a n) w"
  unfolding complete_reconciled_resolution_def
proof (rule keeping_then)
  fix v w1
  assume read: "reading (\<lambda>w. on_ok (require_case w i t) (\<lambda>r. Inr (r, proposal_for_record w r))) w = (Inr v, w1)"
  obtain r p where v: "v = (r, p)" by (cases v)
  assume same: "aw_cases w1 = aw_cases w"
  have r: "get_case (aw_cases w1) i t = Some r"
    using read same by (auto simp: v on_ok_def require_case_def require_def split: option.splits sum.splits)
  have stamp: "keeping env ps K
      (and_then (on_governance (\<lambda>g. record_case_decision env now g r a ALLOW APPROVE_CHAIN_ID
         ''case_approval_approved_reconciled'' n)) (\<lambda>decision_id.
       and_then (deliver_resolution env pt now r proposal_id t decision_id) (\<lambda>_.
       and_then (on_cases (\<lambda>s. update_case env s (r\<lparr>ca_decision_id := Some decision_id\<rparr>) t)) (\<lambda>_.
         answer True)))) w1" if "ca_status r = CA_APPROVED" for proposal_id
    by (rule keeping_then, rule calm_basic, rule keeping_then, rule calm_deliver, rule keeping_and,
        rule keeping_update, use r in simp, rule stamped_edit [OF that], rule keeping_calm, rule calm_basic)
  show "keeping env ps K (case v of (r, p) \<Rightarrow> case (ca_proposal_id r, p) of
       (Some proposal_id, Some q) \<Rightarrow>
         if ca_status r \<noteq> CA_APPROVED \<or> rp_status q \<noteq> RP_PENDING_HUMAN_APPROVAL then answer False
         else and_then (on_governance (\<lambda>g. record_case_decision env now g r a ALLOW APPROVE_CHAIN_ID
             ''case_approval_approved_reconciled'' n)) (\<lambda>decision_id.
           and_then (deliver_resolution env pt now r proposal_id t decision_id) (\<lambda>_.
           and_then (on_cases (\<lambda>s. update_case env s (r\<lparr>ca_decision_id := Some decision_id\<rparr>) t)) (\<lambda>_.
             answer True)))
     | _ \<Rightarrow> answer False) w1"
    using stamp by (simp add: v keeping_calm split: option.split)
qed simp

text \<open>The claim is one SQL update over the rows bound to the action.\<close>

lemma map_rows_kept:
  assumes cases: "as_cases s' = map (\<lambda>(k, r). (k, f r)) (as_cases s)" and dedup: "as_dedup s' = as_dedup s"
    and edit: "\<And>r. case_edit env ps r (f r)"
  shows "cases_kept env ps K s s'"
proof -
  have get: "dget (as_cases s') j = map_option f (dget (as_cases s) j)" for j
    by (simp add: cases map_of_map)
  have keys: "map fst (as_cases s') = map fst (as_cases s)"
    by (simp add: cases case_prod_unfold)
  have row: "case_row_ok env ps K (as_dedup s') j (f q)"
    if inv: "case_inv env ps K s" and q: "dget (as_cases s) j = Some q" for j q
    using case_invD [OF inv q] edit [of q] case_edit_ids [OF edit [of q]]
    by (simp add: case_row_ok_def case_edit_def dedup del: map_of_eq_Some_iff)
  have "case_inv env ps K s'" if inv: "case_inv env ps K s"
    unfolding case_inv_rows get keys
    using row [OF inv] inv by (auto simp: case_inv_rows simp del: map_of_eq_Some_iff)
  moreover have "\<exists>r'. dget (as_cases s') j = Some r' \<and> case_edit env ps q r'" if "dget (as_cases s) j = Some q" for j q
    using that edit [of q] unfolding get by (simp del: map_of_eq_Some_iff)
  ultimately show ?thesis
    unfolding cases_kept_def by blast
qed

lemma claim_cases_kept:
  assumes "st = CA_APPROVED \<or> st = CA_REJECTED"
  shows "cases_kept env ps K s (snd (claim_cases_for_action env t act st at who n s))"
  unfolding claim_cases_for_action_def snd_conv
  by (rule map_rows_kept) (auto simp: claimable_case_def intro!: claimed_edit assms)

lemma claim_keeping: "keeping env ps K (claim_and_complete_case_for_action env pt now act t st who at n) w"
  unfolding claim_and_complete_case_for_action_def Let_def
proof (rule keeping_check, rule keeping_and)
  let ?st = "if st = ''approved'' then CA_APPROVED else CA_REJECTED"
  show "keeping env ps K (on_cases (claim_cases_for_action env t act ?st at who n)) w"
    using claim_cases_kept [of ?st env ps K] by (simp add: keeping_def on_cases_def case_prod_unfold)
qed (auto simp: keeping_calm complete_keeping keeping_and split: list.split)

text \<open>The dedup key of a request lies among the keys known to have distinct identities.\<close>

fun approval_ok :: "py_env \<Rightarrow> (string \<times> string) set \<Rightarrow> approval_op \<Rightarrow> 'x approval_world \<Rightarrow> bool" where
  "approval_ok env K (OpRequest now q t) w =
     ((vq_tenant_id q, ca_dedup_key (requested_case env now q)) \<in> K)"
| "approval_ok env K _ w = True"

lemma requested_fields:
  "ca_tenant_id (requested_case env now q) = vq_tenant_id q" "case_ok env ps (requested_case env now q)"
  "ca_case_id (requested_case env now q) =
     derive_approval_case_id env (vq_tenant_id q) (ca_dedup_key (requested_case env now q))"
  by (auto simp: requested_case_def Let_def case_ok_def TERMINAL_CASE_STATUSES_def)

lemma ingress_keeping:
  assumes "(vq_tenant_id q, ca_dedup_key (requested_case env now q)) \<in> K"
  shows "keeping env ps K (ingress_call env pub now q t) w"
proof -
  let ?made = "create_case (aw_cases w) (requested_case env now q) t"
  have "aw_cases (snd (ingress_call env pub now q t w)) \<in> {aw_cases w, snd ?made}"
    by (cases ?made)
      (auto simp: ingress_call_def request_case_review_def split: sum.split option.split prod.split)
  moreover have "cases_kept env ps K (aw_cases w) (snd ?made)"
    by (rule create_case_kept) (use assms requested_fields in simp_all)
  ultimately show ?thesis by (auto simp: keeping_def)
qed

lemma step_keeping:
  "approval_ok env K x w \<Longrightarrow>
     cases_kept env (ap_patterns pt) K (aw_cases w) (aw_cases (approval_step env pt pub x w))"
  by (cases x) (simp_all flip: keeping_def add: ingress_keeping review_keeping guide_keeping approve_keeping
      reject_keeping escalate_keeping complete_keeping claim_keeping)

interpretation approvals: tracked_machine "approval_step env pt pub" "approval_ok env K"
  "\<lambda>w. case_inv env (ap_patterns pt) K (aw_cases w)" "\<lambda>w. dget (as_cases (aw_cases w))" "case_edit env (ap_patterns pt)"
  for env :: py_env and pt :: "'x approval_ports" and pub and K
proof
  fix w :: "'x approval_world" and x i r
  assume inv: "case_inv env (ap_patterns pt) K (aw_cases w)" and ok: "approval_ok env K x w"
  note kept = step_keeping [OF ok, of pt pub] inv
  show "case_inv env (ap_patterns pt) K (aw_cases (approval_step env pt pub x w))"
    using kept unfolding cases_kept_def by blast
  show "\<exists>r'. dget (as_cases (aw_cases (approval_step env pt pub x w))) i = Some r' \<and> case_edit env (ap_patterns pt) r r'"
    if "dget (as_cases (aw_cases w)) i = Some r"
    using kept that unfolding cases_kept_def by blast
qed (simp, rule case_edit_trans)

end
