(* ===== verification/Approval_Safety.thy ===== *)
theory Approval_Safety
  imports Approval_World Delivery_Safety
begin

text \<open>
  What the case approval service promises, with its worked examples: what a case has been
  through, what an approval has done when it returns, which text a delivery lets go, and the
  two ways around these promises the service leaves open.
\<close>

section \<open>Reading back a successful call\<close>

lemma transaction_Inr:
  assumes "transaction pt m w = (Inr v, w')"
  obtains w1 x where "m w = (Inr v, w1)" "w' = w1\<lparr>aw_rest := x\<rparr>"
proof -
  obtain w1 where m: "m w = (Inr v, w1)" and rest: "w' = w1 \<or> (\<exists>x. w' = w1\<lparr>aw_rest := x\<rparr>)"
    using assms by (auto simp: transaction_def split: prod.splits sum.splits option.splits)
  have "w1 = w1\<lparr>aw_rest := aw_rest w1\<rparr>" by simp
  then show ?thesis using m rest that by metis
qed

lemma on_parts_Inr:
  "on_cases f w = (Inr v, w') \<longleftrightarrow> (\<exists>s. f (aw_cases w) = (Inr v, s) \<and> w' = w\<lparr>aw_cases := s\<rparr>)"
  "on_resolution g w = (Inr u, w') \<longleftrightarrow> (\<exists>s. g (aw_resolution w) = (Inr u, s) \<and> w' = w\<lparr>aw_resolution := s\<rparr>)"
  "on_governance h w = (Inr i, w') \<longleftrightarrow> (\<exists>s. h (aw_governance w) = (Inr i, s) \<and> w' = w\<lparr>aw_governance := s\<rparr>)"
  "on_rest k w = (Inr z, w') \<longleftrightarrow> (\<exists>x. k (aw_rest w) = (Inr z, x) \<and> w' = w\<lparr>aw_rest := x\<rparr>)"
  by (auto simp: on_cases_def on_resolution_def on_governance_def on_rest_def split: prod.splits)

lemma never_raises_Inr [simp]: "never_raises r = (Inr v, s) \<longleftrightarrow> r = (v, s)"
  by (cases r) (auto simp: never_raises_def)

lemma update_case_Inr:
  "update_case env s r t = (Inr r', s') \<longleftrightarrow> r' = r \<and> ca_tenant_id r = t \<and> get_case s (ca_case_id r) t \<noteq> None \<and>
     s' = s\<lparr>as_cases := dset (ca_case_id r) r (as_cases s),
            as_dedup := dset (ca_tenant_id r, ca_dedup_key r) (ca_case_id r) (as_dedup s)\<rparr>"
  by (auto simp: update_case_def)

lemma update_case_get: "update_case env s r t = (Inr r', s') \<Longrightarrow> get_case s' (ca_case_id r) t = Some r"
  by (auto simp: update_case_Inr get_case_def)

section \<open>Decisions stay recorded\<close>

definition decisions_kept :: "governance_store \<Rightarrow> governance_store \<Rightarrow> bool" where
  "decisions_kept g g' \<longleftrightarrow> (\<forall>i r. dget (gs_decisions g) i = Some r \<longrightarrow> dget (gs_decisions g') i = Some r)"

lemma decisions_kept_refl [simp]: "decisions_kept g g"
  by (simp add: decisions_kept_def)

lemma decisions_kept_trans: "decisions_kept g g1 \<Longrightarrow> decisions_kept g1 g2 \<Longrightarrow> decisions_kept g g2"
  by (simp add: decisions_kept_def)

lemma decisions_kept_get: "decisions_kept g g' \<Longrightarrow> get_decision g i t \<noteq> None \<Longrightarrow> get_decision g' i t \<noteq> None"
  unfolding decisions_kept_def get_decision_def
  by (cases "dget (gs_decisions g) i") (auto simp del: map_of_eq_Some_iff map_of_eq_None_iff split: if_splits)

text \<open>The gate records its own decision and removes none.\<close>

definition gate_keeps_decisions :: "'x approval_ports \<Rightarrow> bool" where
  "gate_keeps_decisions pt \<longleftrightarrow> (\<forall>gate \<in> set_option (ap_gate pt). \<forall>q g x. decisions_kept g (fst (snd (gate q g x))))"

lemma record_human_kept: "decisions_kept g (snd (record_human_decision env g d t i detail))"
  by (auto simp: decisions_kept_def record_human_decision_def record_decision_def record_trace_def
      record_enforcement_action_def simp del: map_of_eq_Some_iff)

lemma record_human_Inr:
  "record_human_decision env g d t i detail = (Inr k, g') \<Longrightarrow>
     k = dr_decision_id d \<and> dget (gs_decisions g') (dr_decision_id d) = Some d"
  by (auto simp: record_human_decision_def record_decision_def record_trace_def record_enforcement_action_def
      split: if_splits)

lemma record_case_Inr:
  assumes "record_case_decision env now g r actor verdict chain reason note = (Inr i, g')"
  shows "i = case_decision_id env r chain actor" "get_decision g' i (Some (ca_tenant_id r)) \<noteq> None"
  using assms by (auto simp: record_case_decision_def Let_def human_decision_def get_decision_def gov_visible_def
      dest!: record_human_Inr split: if_splits)

definition decisive :: "('a, 'x approval_world) call \<Rightarrow> bool" where
  "decisive m \<longleftrightarrow> (\<forall>w. decisions_kept (aw_governance w) (aw_governance (snd (m w))))"

lemma decisive_basic [simp]:
  "decisive (answer v)" "decisive (lifted r)" "decisive (reading f)" "decisive (check ok e)"
  "decisive (on_resolution h)" "decisive (on_rest k)" "decisive (on_cases c)"
  by (auto simp: decisive_def answer_def lifted_def reading_def check_def on_resolution_def on_rest_def on_cases_def
      split: prod.split)

lemma decisive_then [simp]: "decisive m \<Longrightarrow> (\<And>v. decisive (f v)) \<Longrightarrow> decisive (and_then m f)"
  unfolding decisive_def and_then_def
  by (auto split: prod.split sum.split) (metis decisions_kept_trans snd_conv)+

lemma decisiveD: "decisive m \<Longrightarrow> m w = (r, w') \<Longrightarrow> decisions_kept (aw_governance w) (aw_governance w')"
  unfolding decisive_def by (metis snd_conv)

lemma decisive_human [simp]: "decisive (on_governance (\<lambda>g. record_human_decision env g d tr i detail))"
  by (simp add: decisive_def on_governance_def case_prod_unfold record_human_kept)

lemma decisive_if: "decisive m \<Longrightarrow> decisive n \<Longrightarrow> decisive (if b then m else n)"
  by simp

lemma decisive_delivery_decision [simp]: "decisive (record_delivery_decision env now r p t tg)"
  unfolding record_delivery_decision_def Let_def
  by (intro decisive_then decisive_if decisive_basic decisive_human)

lemma decisive_revalidate:
  assumes "gate_keeps_decisions pt"
  shows "decisive (revalidate_resolution_governance pt r p t reply g tg)"
proof -
  have "decisive (\<lambda>w. case gate q (aw_governance w) (aw_rest w) of (res, gs, x) \<Rightarrow>
      (res, w\<lparr>aw_governance := gs, aw_rest := x\<rparr>))" if "ap_gate pt = Some gate" for gate q
    using assms that by (simp add: decisive_def gate_keeps_decisions_def case_prod_unfold)
  then show ?thesis
    unfolding revalidate_resolution_governance_def
    by (cases "ap_gate pt") (simp_all add: decisive_then)
qed

lemma decisive_deliver:
  assumes "gate_keeps_decisions pt"
  shows "decisive (deliver_resolution env pt now r p t d)" "decisive (deliver_if_bound env pt now r t d)"
proof -
  have authorize: "decisive (authorize_reply env pt now r q p t d tg)" for q p tg
    unfolding authorize_reply_def Let_def
    by (cases "recommended_reply (recommendation_from_metadata (ca_metadata r))")
      (simp_all add: decisive_then decisive_revalidate [OF assms])
  have send: "decisive (trigger_auto_send env now q dr tg t)" for q dr tg
    by (auto simp: decisive_def trigger_auto_send_def split: prod.split sum.split)
  show deliver: "decisive (deliver_resolution env pt now r p t d)" for p
    unfolding deliver_resolution_def
    by (intro decisive_then decisive_basic authorize) (simp add: send split: option.split)
  show "decisive (deliver_if_bound env pt now r t d)"
    by (cases "ca_proposal_id r") (simp_all add: deliver_if_bound_def deliver)
qed

lemma decisive_action [simp]: "decisive (approve_recommended_action_if_bound pt r a n t)"
  by (simp add: approve_recommended_action_if_bound_def split: option.split)

section \<open>What a delivery does\<close>

lemma update_draft_get: "update_draft s p t f = (d, s') \<Longrightarrow> get_proposal s' i u = get_proposal s i u"
  by (auto simp: update_draft_def get_proposal_def split: option.splits)

lemma update_proposal_get:
  assumes "update_proposal env s i t f = (Inr q, s')" "\<And>p. rp_tenant_id (f p) = rp_tenant_id p"
  shows "get_proposal s' i t = Some q" "\<exists>p. get_proposal s i t = Some p \<and> q = f p"
  using assms by (auto simp: update_proposal_def get_proposal_def split: option.splits if_splits)

text \<open>The delivery decision of a proposal: the one the store had, or a new one to allow, over the
  digest of the text.\<close>

definition delivery_on_record ::
  "py_env \<Rightarrow> proposal \<Rightarrow> string \<Rightarrow> 'x approval_world \<Rightarrow> uuid \<Rightarrow> governance_store \<Rightarrow> bool" where
  "delivery_on_record env p t w i gs \<longleftrightarrow>
     i = delivery_decision_id env t (rp_proposal_id p) \<and>
     (\<exists>dr. get_decision gs i (Some t) = Some dr \<and>
        (get_decision (aw_governance w) i (Some t) = Some dr \<or>
         get_decision (aw_governance w) i (Some t) = None \<and> dr_decision dr = decision_value ALLOW \<and>
         dr_policy_chain_id dr = DELIVERY_CHAIN_ID \<and>
         (\<exists>d. draft_for_proposal env w (rp_proposal_id p) t = Inr d \<and>
            dget (dr_metadata dr) ''proposed_reply_sha256'' = Some (PStr (sha256_text env
              (case d of Some x \<Rightarrow> canonical_reply_for_governance x | None \<Rightarrow> rp_reply p))))))"

text \<open>What may reach the customer once a case is approved, and under which decision: the text of the
  proposal under its delivery decision, or the text of the review where it differs, after the
  gate was asked about this text with its grounding and answered a deliverable verdict, under
  the decision the gate names or else the one of the approval.\<close>

definition delivery_granted ::
  "py_env \<Rightarrow> 'x approval_ports \<Rightarrow> approval_case \<Rightarrow> proposal \<Rightarrow> string \<Rightarrow> uuid \<Rightarrow> 'x approval_world \<Rightarrow> string \<Rightarrow> uuid
     \<Rightarrow> governance_store \<Rightarrow> bool" where
  "delivery_granted env pt r p t decided w sent i gs \<longleftrightarrow>
     (let recommendation = recommendation_from_metadata (ca_metadata r); segments = reply_segments recommendation
      in case recommended_reply recommendation of
           Some reply \<Rightarrow>
             if reply = py_strip (rp_reply p) then sent = rp_reply p \<and> delivery_on_record env p t w i gs
             else sent = reply \<and> segments \<noteq> [] \<and>
               (\<exists>gate v rest. ap_gate pt = Some gate \<and>
                  gate (revision_request r p t reply segments (derive_outbound_send_target env pt w r p t))
                    (aw_governance w) (aw_rest w) = (Inr v, rest) \<and> fst v \<in> DELIVERABLE_VERDICTS \<and>
                  i = (case snd v of Some j \<Rightarrow> j | None \<Rightarrow> decided))
         | None \<Rightarrow> sent = rp_reply p \<and> delivery_on_record env p t w i gs)"

lemma delivery_digest:
  "dget (delivery_metadata env r p d tg) ''proposed_reply_sha256'' = Some (PStr (sha256_text env
     (case d of Some x \<Rightarrow> canonical_reply_for_governance x | None \<Rightarrow> rp_reply p)))"
  by (cases d; cases tg) (simp_all add: delivery_metadata_def dmerge_def)

lemma delivery_decision_Inr:
  assumes "record_delivery_decision env now r p t tg w = (Inr i, w')"
  shows "delivery_on_record env p t w i (aw_governance w')" "aw_resolution w' = aw_resolution w"
proof -
  let ?i = "delivery_decision_id env t (rp_proposal_id p)"
  have "delivery_on_record env p t w i (aw_governance w') \<and> aw_resolution w' = aw_resolution w"
  proof (cases "get_decision (aw_governance w) ?i (Some t)")
    case None
    with assms show ?thesis unfolding record_delivery_decision_def Let_def delivery_on_record_def
      by (auto simp: and_then_Inr on_parts_Inr human_decision_def get_decision_def gov_visible_def delivery_digest
          dest!: record_human_Inr simp del: map_of_eq_Some_iff) metis
  next
    case (Some dr)
    with assms show ?thesis unfolding record_delivery_decision_def Let_def delivery_on_record_def
      by (auto simp: and_then_Inr)
  qed
  then show "delivery_on_record env p t w i (aw_governance w')" "aw_resolution w' = aw_resolution w" by simp_all
qed

lemma revalidate_Inr:
  assumes "revalidate_resolution_governance pt r p t reply g tg w = (Inr v, w')"
  shows "reply_segments g \<noteq> []" "aw_resolution w' = aw_resolution w"
    "\<exists>gate rest. ap_gate pt = Some gate \<and> fst v \<in> DELIVERABLE_VERDICTS \<and>
       gate (revision_request r p t reply (reply_segments g) tg) (aw_governance w) (aw_rest w) = (Inr v, rest)"
  using assms unfolding revalidate_resolution_governance_def
  by (auto simp: and_then_Inr split: option.splits prod.splits)

lemma authorize_revised_Inr:
  assumes "authorize_reply env pt now r q p t d tg w = (Inr i, w')"
    and "recommended_reply (recommendation_from_metadata (ca_metadata r)) = Some reply" "reply \<noteq> py_strip (rp_reply q)"
  obtains v w1 s1 s2 q1 dr where
    "revalidate_resolution_governance pt r q t reply (recommendation_from_metadata (ca_metadata r)) tg w = (Inr v, w1)"
    "update_proposal_reply env now (aw_resolution w1) p t reply (Some i) = (Inr q1, s1)"
    "update_draft_body now s1 p t reply (sha256_text env reply) (Some i) = (dr, s2)" "aw_resolution w' = s2"
    "i = (case snd v of Some j \<Rightarrow> j | None \<Rightarrow> d)"
proof -
  have run: "authorize_reply env pt now r q p t d tg =
      and_then (revalidate_resolution_governance pt r q t reply (recommendation_from_metadata (ca_metadata r)) tg) (\<lambda>v.
        let delivered = (case snd v of Some i \<Rightarrow> i | None \<Rightarrow> d) in
        and_then (on_resolution (\<lambda>s. update_proposal_reply env now s p t reply (Some delivered))) (\<lambda>_.
        and_then (on_resolution (\<lambda>s. never_raises (update_draft_body now s p t reply (sha256_text env reply)
          (Some delivered)))) (\<lambda>_. answer delivered)))"
    unfolding authorize_reply_def Let_def using assms(2,3) by simp
  obtain v w1 where gate: "revalidate_resolution_governance pt r q t reply
      (recommendation_from_metadata (ca_metadata r)) tg w = (Inr v, w1)"
    and rest: "(let delivered = (case snd v of Some i \<Rightarrow> i | None \<Rightarrow> d) in
        and_then (on_resolution (\<lambda>s. update_proposal_reply env now s p t reply (Some delivered))) (\<lambda>_.
        and_then (on_resolution (\<lambda>s. never_raises (update_draft_body now s p t reply (sha256_text env reply)
          (Some delivered)))) (\<lambda>_. answer delivered))) w1 = (Inr i, w')"
    using assms(1) unfolding run and_then_Inr by blast
  define i1 where "i1 = (case snd v of Some i \<Rightarrow> i | None \<Rightarrow> d)"
  obtain q1 dr w2 w3 where put: "on_resolution (\<lambda>s. update_proposal_reply env now s p t reply (Some i1)) w1 = (Inr q1, w2)"
    and body: "on_resolution (\<lambda>s. never_raises (update_draft_body now s p t reply (sha256_text env reply) (Some i1))) w2
      = (Inr dr, w3)" and fin: "answer i1 w3 = (Inr i, w')"
    using rest unfolding Let_def i1_def [symmetric] and_then_Inr by blast
  have same: "i1 = i" "w3 = w'" using fin by simp_all
  then have i: "i = (case snd v of Some j \<Rightarrow> j | None \<Rightarrow> d)" using i1_def by simp
  show ?thesis
    using that [OF gate _ _ _ i] put body same unfolding on_parts_Inr never_raises_Inr by auto
qed

lemma granted_unchanged:
  assumes "recommended_reply (recommendation_from_metadata (ca_metadata r)) = None \<or>
      recommended_reply (recommendation_from_metadata (ca_metadata r)) = Some (py_strip (rp_reply q))"
    and "delivery_on_record env q t w i gs"
  shows "delivery_granted env pt r q t d w (rp_reply q) i gs"
  unfolding delivery_granted_def Let_def using assms by (elim disjE) simp_all

lemma granted_revised:
  assumes "recommended_reply (recommendation_from_metadata (ca_metadata r)) = Some reply" "reply \<noteq> py_strip (rp_reply q)"
    and "reply_segments (recommendation_from_metadata (ca_metadata r)) \<noteq> []" "ap_gate pt = Some gate"
    and "gate (revision_request r q t reply (reply_segments (recommendation_from_metadata (ca_metadata r)))
        (derive_outbound_send_target env pt w r q t)) (aw_governance w) (aw_rest w) = (Inr v, rest)"
    and "fst v \<in> DELIVERABLE_VERDICTS" "i = (case snd v of Some j \<Rightarrow> j | None \<Rightarrow> d)"
  shows "delivery_granted env pt r q t d w reply i gs"
  unfolding delivery_granted_def Let_def assms(1) option.case if_not_P [OF assms(2)]
  by (intro conjI refl assms(3) exI) (rule assms(4), rule assms(5), rule assms(6), rule assms(7))

lemma authorize_Inr:
  assumes "authorize_reply env pt now r q p t d tg w = (Inr i, w')" "get_proposal (aw_resolution w) p t = Some q"
    and "tg = derive_outbound_send_target env pt w r q t"
  shows "\<exists>q'. get_proposal (aw_resolution w') p t = Some q' \<and>
    delivery_granted env pt r q t d w (rp_reply q') i (aw_governance w')"
proof (cases "\<exists>reply. recommended_reply (recommendation_from_metadata (ca_metadata r)) = Some reply \<and>
    reply \<noteq> py_strip (rp_reply q)")
  case False
  let ?said = "recommended_reply (recommendation_from_metadata (ca_metadata r))"
  have same: "?said = None \<or> ?said = Some (py_strip (rp_reply q))" using False by (cases ?said) auto
  then have "authorize_reply env pt now r q p t d tg = record_delivery_decision env now r q t tg"
    unfolding authorize_reply_def Let_def by (elim disjE) simp_all
  then have "record_delivery_decision env now r q t tg w = (Inr i, w')" using assms(1) by simp
  note run = delivery_decision_Inr [OF this]
  have "delivery_granted env pt r q t d w (rp_reply q) i (aw_governance w')" by (rule granted_unchanged [OF same run(1)])
  then show ?thesis using run(2) assms(2) by (intro exI [of _ q]) simp
next
  case True
  then obtain reply where reply: "recommended_reply (recommendation_from_metadata (ca_metadata r)) = Some reply"
    "reply \<noteq> py_strip (rp_reply q)" by blast
  obtain v w1 s1 s2 q1 dr where
    gate: "revalidate_resolution_governance pt r q t reply (recommendation_from_metadata (ca_metadata r)) tg w = (Inr v, w1)"
    and put: "update_proposal_reply env now (aw_resolution w1) p t reply (Some i) = (Inr q1, s1)"
    and body: "update_draft_body now s1 p t reply (sha256_text env reply) (Some i) = (dr, s2)"
    and w': "aw_resolution w' = s2" and i: "i = (case snd v of Some j \<Rightarrow> j | None \<Rightarrow> d)"
    by (rule authorize_revised_Inr [OF assms(1) reply])
  note put' = update_proposal_get [OF put [unfolded update_proposal_reply_def]]
  have said: "rp_reply q1 = reply" using put'(2) by auto
  have found: "get_proposal s2 p t = Some q1"
    using put'(1) update_draft_get [OF body [unfolded update_draft_body_def]] by simp
  obtain gate rest where port: "ap_gate pt = Some gate" "fst v \<in> DELIVERABLE_VERDICTS"
    "gate (revision_request r q t reply (reply_segments (recommendation_from_metadata (ca_metadata r))) tg)
      (aw_governance w) (aw_rest w) = (Inr v, rest)"
    using revalidate_Inr(3) [OF gate] by blast
  have "delivery_granted env pt r q t d w reply i (aw_governance w')"
    by (rule granted_revised [OF reply revalidate_Inr(1) [OF gate] port(1) port(3) [unfolded assms(3)] port(2) i])
  then show ?thesis using found said unfolding w' by (intro exI [of _ q1]) simp
qed

lemma draft_of_proposal_None: "draft_of_proposal s p t = None \<longleftrightarrow>
    (\<forall>d \<in> set (dvals (rs_drafts s)). \<not> (rd_proposal_id d = p \<and> rd_tenant_id d = t))"
  unfolding draft_of_proposal_def find_None_iff by blast

lemma dset_has: "v \<in> set (dvals (dset k v d))"
  by (induction d) auto

lemma update_draft_keeps:
  assumes "update_draft s p t f = (d, s')" "\<And>r. rd_proposal_id (f r) = rd_proposal_id r \<and> rd_tenant_id (f r) = rd_tenant_id r"
    and "draft_of_proposal s p t \<noteq> None"
  shows "draft_of_proposal s' p t \<noteq> None" "\<exists>r. d = Some (f r)"
proof -
  obtain r where r: "draft_of_proposal s p t = Some r" using assms(3) by blast
  have owner: "rd_proposal_id r = p" "rd_tenant_id r = t"
    using r unfolding draft_of_proposal_def find_Some_iff by auto
  have s': "d = Some (f r)" "s' = s\<lparr>rs_drafts := dset (rd_draft_id (f r)) (f r) (rs_drafts s)\<rparr>"
    using assms(1) by (simp_all add: update_draft_def r)
  have "f r \<in> set (dvals (rs_drafts s'))" unfolding s'(2) using dset_has by simp
  then show "draft_of_proposal s' p t \<noteq> None" unfolding draft_of_proposal_None using assms(2) owner by blast
  show "\<exists>r. d = Some (f r)" using s'(1) by blast
qed

lemma authorize_keeps_draft:
  assumes "authorize_reply env pt now r q p t d tg w = (Inr i, w')" "draft_of_proposal (aw_resolution w) p t \<noteq> None"
  shows "draft_of_proposal (aw_resolution w') p t \<noteq> None"
proof (cases "\<exists>reply. recommended_reply (recommendation_from_metadata (ca_metadata r)) = Some reply \<and>
    reply \<noteq> py_strip (rp_reply q)")
  case False
  then have "record_delivery_decision env now r q t tg w = (Inr i, w')"
    using assms(1) unfolding authorize_reply_def Let_def
    by (cases "recommended_reply (recommendation_from_metadata (ca_metadata r))") simp_all
  from delivery_decision_Inr(2) [OF this] show ?thesis using assms(2) by simp
next
  case True
  then obtain reply where reply: "recommended_reply (recommendation_from_metadata (ca_metadata r)) = Some reply"
    "reply \<noteq> py_strip (rp_reply q)" by blast
  obtain v w1 s1 s2 q1 dr where
    gate: "revalidate_resolution_governance pt r q t reply (recommendation_from_metadata (ca_metadata r)) tg w = (Inr v, w1)"
    and put: "update_proposal_reply env now (aw_resolution w1) p t reply (Some i) = (Inr q1, s1)"
    and body: "update_draft_body now s1 p t reply (sha256_text env reply) (Some i) = (dr, s2)"
    and w': "aw_resolution w' = s2"
    by (rule authorize_revised_Inr [OF assms(1) reply])
  have "rs_drafts s1 = rs_drafts (aw_resolution w)"
    using put revalidate_Inr(2) [OF gate]
    by (auto simp: update_proposal_reply_def update_proposal_def split: option.splits)
  then have "draft_of_proposal s1 p t \<noteq> None" using assms(2) by (simp add: draft_of_proposal_def)
  then show ?thesis
    unfolding w' by (rule update_draft_keeps(1) [OF body [unfolded update_draft_body_def], rotated]) simp
qed

text \<open>The bound reply of a delivered case: ready to be sent under its decision, and requested from
  the outbox where the ticket's channel allows it.\<close>

definition reply_released ::
  "py_env \<Rightarrow> 'x approval_ports \<Rightarrow> int \<Rightarrow> approval_case \<Rightarrow> uuid \<Rightarrow> uuid \<Rightarrow> 'x approval_world \<Rightarrow> 'x approval_world \<Rightarrow> bool" where
  "reply_released env pt now r p decided w w' \<longleftrightarrow>
     (\<exists>q q' i. get_proposal (aw_resolution w) p (ca_tenant_id r) = Some q \<and>
        get_proposal (aw_resolution w') p (ca_tenant_id r) = Some q' \<and>
        rp_status q' = RP_SEND_ELIGIBLE \<and> rp_governance_verdict q' = RG_ALLOW \<and> rp_decision_id q' = Some i \<and>
        delivery_granted env pt r q (ca_tenant_id r) decided w (rp_reply q') i (aw_governance w') \<and>
        (\<forall>tg. derive_outbound_send_target env pt w r q (ca_tenant_id r) = Some tg \<longrightarrow>
           draft_of_proposal (aw_resolution w) p (ca_tenant_id r) \<noteq> None \<longrightarrow>
           (\<exists>d a s. rd_status d = RD_READY \<and> rd_decision_id d = Some i \<and> au_reason a = None \<and>
              request_auto_send env now (aw_governance w') s d q' tg (ca_tenant_id r) None = (Inr a, aw_outbox w'))))"

lemma trigger_Inr:
  "trigger_auto_send env now q d tg t w = (Inr u, w') \<Longrightarrow> aw_governance w' = aw_governance w \<and>
     aw_resolution w' = aw_resolution w \<and>
     (\<exists>a. au_reason a = None \<and>
        request_auto_send env now (aw_governance w) (aw_outbox w) d q tg t None = (Inr a, aw_outbox w'))"
  by (auto simp: trigger_auto_send_def split: prod.splits sum.splits option.splits)

lemma deliver_released:
  assumes run: "deliver_resolution env pt now r p (ca_tenant_id r) d w = (Inr u, w')"
    and bound: "ca_proposal_id r = Some p"
  shows "reply_released env pt now r p d w w'"
proof -
  let ?t = "ca_tenant_id r"
  obtain q w0 where q0: "reading (\<lambda>w. require (proposal_for_record w r)
       (runtime_error ''approved resolution proposal is missing'')) w = (Inr q, w0)"
    and run0: "and_then (reading (\<lambda>w. Inr (derive_outbound_send_target env pt w r q ?t))) (\<lambda>target.
      and_then (authorize_reply env pt now r q p ?t d target) (\<lambda>delivered.
      and_then (on_resolution (\<lambda>s. update_proposal_status env now s p ?t RP_SEND_ELIGIBLE (Some delivered))) (\<lambda>q1.
      and_then (on_resolution (\<lambda>s. never_raises (update_draft_status now s p ?t RD_READY (Some delivered)))) (\<lambda>dr.
        case (target, dr) of (Some g, Some d) \<Rightarrow> trigger_auto_send env now q1 d g ?t | _ \<Rightarrow> answer ())))) w0 = (Inr u, w')"
    using run unfolding deliver_resolution_def and_then_Inr [of "reading _" _ w] by blast
  have q: "get_proposal (aw_resolution w) p ?t = Some q" and w0: "w0 = w"
    using q0 bound by (auto simp: proposal_for_record_def require_def split: option.splits)
  define tg where "tg = derive_outbound_send_target env pt w r q ?t"
  obtain i w1 q1 w2 dr w3 where grant: "authorize_reply env pt now r q p ?t d tg w = (Inr i, w1)"
    and put0: "on_resolution (\<lambda>s. update_proposal_status env now s p ?t RP_SEND_ELIGIBLE (Some i)) w1 = (Inr q1, w2)"
    and draft0: "on_resolution (\<lambda>s. never_raises (update_draft_status now s p ?t RD_READY (Some i))) w2 = (Inr dr, w3)"
    and fin: "(case (tg, dr) of (Some g, Some d) \<Rightarrow> trigger_auto_send env now q1 d g ?t | _ \<Rightarrow> answer ()) w3 = (Inr u, w')"
    using run0 unfolding and_then_Inr basic_calls w0 tg_def by blast
  obtain s1 s2 where put: "update_proposal_status env now (aw_resolution w1) p ?t RP_SEND_ELIGIBLE (Some i) = (Inr q1, s1)"
    and draft: "update_draft_status now s1 p ?t RD_READY (Some i) = (dr, s2)"
    and w3: "w3 = w1\<lparr>aw_resolution := s2\<rparr>"
    using put0 draft0 by (auto simp: on_parts_Inr)
  obtain q' where q': "get_proposal (aw_resolution w1) p ?t = Some q'"
    "delivery_granted env pt r q ?t d w (rp_reply q') i (aw_governance w1)"
    using authorize_Inr [OF grant q] tg_def by blast
  note put' = update_proposal_get [OF put [unfolded update_proposal_status_def]]
  have q1: "rp_status q1 = RP_SEND_ELIGIBLE" "rp_governance_verdict q1 = RG_ALLOW" "rp_decision_id q1 = Some i"
    "rp_reply q1 = rp_reply q'"
    using put'(2) q'(1) by (auto simp: or_kept_def)
  have found: "get_proposal s2 p ?t = Some q1"
    using put'(1) update_draft_get [OF draft [unfolded update_draft_status_def]] by simp
  have final: "aw_governance w' = aw_governance w1" "aw_resolution w' = s2"
    using fin trigger_Inr [of env now q1 _ _ ?t w3 u w'] by (auto simp: w3 split: option.splits)
  have sent: "\<exists>d a s. rd_status d = RD_READY \<and> rd_decision_id d = Some i \<and> au_reason a = None \<and>
      request_auto_send env now (aw_governance w') s d q1 g ?t None = (Inr a, aw_outbox w')"
    if "tg = Some g" "draft_of_proposal (aw_resolution w) p ?t \<noteq> None" for g
  proof -
    have "rs_drafts s1 = rs_drafts (aw_resolution w1)"
      using put by (auto simp: update_proposal_status_def update_proposal_def split: option.splits)
    then have "draft_of_proposal s1 p ?t \<noteq> None"
      using authorize_keeps_draft [OF grant that(2)] by (simp add: draft_of_proposal_def)
    then obtain d0 where d0: "dr = Some (d0\<lparr>rd_status := RD_READY, rd_decision_id := or_kept (Some i) (rd_decision_id d0),
        rd_updated_at := now\<rparr>)"
      using update_draft_keeps(2) [OF draft [unfolded update_draft_status_def]] by auto
    have "trigger_auto_send env now q1 (the dr) g ?t w3 = (Inr u, w')" using fin by (simp add: that(1) d0)
    from trigger_Inr [OF this] obtain a where a: "au_reason a = None"
      "request_auto_send env now (aw_governance w') (aw_outbox w3) (the dr) q1 g ?t None = (Inr a, aw_outbox w')"
      using final by (auto simp: w3)
    moreover have "rd_status (the dr) = RD_READY" "rd_decision_id (the dr) = Some i"
      by (simp_all add: d0 or_kept_def)
    ultimately show ?thesis by blast
  qed
  have "delivery_granted env pt r q ?t d w (rp_reply q1) i (aw_governance w')" using q' q1 final by simp
  then show ?thesis
    unfolding reply_released_def
    by (intro exI [of _ q] exI [of _ q1] exI [of _ i] conjI allI impI sent)
      (use q found final q1 tg_def in simp_all)
qed

section \<open>What an approval does\<close>

text \<open>The steps a successful approval went through.\<close>

lemma approve_Inr:
  assumes "approve_case env pt now i t a n w = (Inr r', w')"
  obtains r d g w2 w3 s x where
    "get_case (aw_cases w) i t = Some r" "ca_status r = CA_AWAITING_APPROVAL" "guider r \<noteq> Some a"
    "record_case_decision env now (aw_governance w) r a ALLOW APPROVE_CHAIN_ID ''case_approval_approved'' n = (Inr d, g)"
    "deliver_if_bound env pt now r t d (w\<lparr>aw_governance := g\<rparr>) = (Inr (), w2)"
    "approve_recommended_action_if_bound pt r a n t w2 = (Inr (), w3)"
    "r' = resolved_case r CA_APPROVED d now a n
       [(''approved_by'', PStr a), (''approved_recommendation_hash'', opt_pstr (payload_text (ca_metadata r) ''sme_recommendation_hash''))]"
    "update_case env (aw_cases w3) r' t = (Inr r', s)" "w' = w3\<lparr>aw_cases := s, aw_rest := x\<rparr>"
proof -
  obtain w1 x where run: "and_then (reading (\<lambda>w. require_case w i t)) (\<lambda>r.
      and_then (check (ca_status r = CA_AWAITING_APPROVAL)
        (CaseApprovalLifecycleError ''only awaiting approval cases can be approved'')) (\<lambda>_.
      and_then (check (guider r \<noteq> Some a) (CaseApprovalLifecycleError ''guided cases require a different approver'')) (\<lambda>_.
      and_then (on_governance (\<lambda>g. record_case_decision env now g r a ALLOW APPROVE_CHAIN_ID
        ''case_approval_approved'' n)) (\<lambda>d.
      and_then (deliver_if_bound env pt now r t d) (\<lambda>_.
      and_then (approve_recommended_action_if_bound pt r a n t) (\<lambda>_.
        on_cases (\<lambda>s. update_case env s (resolved_case r CA_APPROVED d now a n
          [(''approved_by'', PStr a),
           (''approved_recommendation_hash'', opt_pstr (payload_text (ca_metadata r) ''sme_recommendation_hash''))])
          t))))))) w = (Inr r', w1)" and w': "w' = w1\<lparr>aw_rest := x\<rparr>"
    using assms unfolding approve_case_def by (rule transaction_Inr)
  then show ?thesis
    using that unfolding and_then_Inr basic_calls on_parts_Inr require_case_Inr by (force simp: update_case_Inr)
qed

section \<open>Worked example\<close>

text \<open>A case bob guided, bound to a proposal and to an action, in a store of its own.\<close>

definition demo_case :: approval_case where
  "demo_case = \<lparr>ca_case_id = ''c1'', ca_tenant_id = ''t1'', ca_session_id = Some ''s1'', ca_execution_id = Some ''e1'',
     ca_dispatch_id = Some ''x1'', ca_category = CC_LOW_CONFIDENCE, ca_status = CA_AWAITING_APPROVAL, ca_requested_at = 0,
     ca_dedup_key = ''k1'', ca_proposal_id = Some ''p1'', ca_ticket_ref = None, ca_product = None, ca_issue_summary = None,
     ca_recommendation_id = Some ''m1'',
     ca_action = Some [(''requires_execution'', PBool True), (''action_approval_id'', PStr ''a1'')], ca_guidance_round = 1,
     ca_guidance_ref = Some ''ask again'', ca_decision_id = Some ''d0'', ca_resolved_at = None, ca_resolved_by = None,
     ca_note = None, ca_metadata = [(''guided_by'', PStr ''bob'')]\<rparr>"

definition demo_case_ports :: "string list approval_ports" where
  "demo_case_ports = \<lparr>ap_sme = \<lparr>sr_llm = None, sr_fail_on_error = False, sr_fail_without = False\<rparr>,
     ap_patterns = INJECTION_PATTERNS, ap_gate = None,
     ap_approve_action = Some (\<lambda>x act actor note tenant. (Inr (), act # x)), ap_deny_action = None,
     ap_escalation = None,
     ap_envelope = Some (\<lambda>x dispatch tenant. Some [(''channel'', PStr ''email''), (''from'', PStr ''c@x''),
       (''to'', PStr ''us@y''), (''subject'', PStr ''Hi''), (''conversation_id'', PStr ''m1'')]),
     ap_auto_send = True, ap_session = True, ap_undo = (\<lambda>x y. x), ap_flush = None\<rparr>"

definition demo_cases :: "string list approval_world" where
  "demo_cases = \<lparr>aw_cases = \<lparr>as_cases = [(''c1'', demo_case)], as_dedup = [((''t1'', ''k1''), ''c1'')], as_outbox = [],
       as_outbox_by_case = []\<rparr>,
     aw_resolution = \<lparr>rs_proposals = [(''p1'', demo_reply_proposal\<lparr>rp_status := RP_PENDING_HUMAN_APPROVAL\<rparr>)],
       rs_drafts = [(demo_draft_id, demo_reply_draft\<lparr>rd_status := RD_PENDING_HUMAN_APPROVAL\<rparr>)]\<rparr>,
     aw_governance = empty_governance_store, aw_escalations = empty_escalation_store, aw_outbox = empty_send_store,
     aw_rest = []\<rparr>"

lemma demo_approved:
  "case approve_case reply_env demo_case_ports 5 ''c1'' ''t1'' ''alice'' None demo_cases of
     (Inr r', w') \<Rightarrow> ca_proposal_id r' = Some ''p1'' \<and> aw_rest w' = [''a1''] \<and> length (sd_records (aw_outbox w')) = 1
   | _ \<Rightarrow> False"
  by code_simp

lemma demo_approval:
  obtains r' w' where "approve_case reply_env demo_case_ports 5 ''c1'' ''t1'' ''alice'' None demo_cases = (Inr r', w')"
    "ca_proposal_id r' = Some ''p1''" "aw_rest w' = [''a1'']" "length (sd_records (aw_outbox w')) = 1"
  using demo_approved that by (auto split: prod.splits sum.splits)

definition demo_question :: review_request where
  "demo_question = \<lparr>vq_tenant_id = ''t1'', vq_category = CC_LOW_CONFIDENCE, vq_session_id = None, vq_execution_id = Some ''e1'',
     vq_dispatch_id = None, vq_proposal_id = None, vq_ticket_ref = None, vq_product = None, vq_issue_summary = None,
     vq_action = None, vq_metadata = None\<rparr>"

definition demo_key1 :: string where
  "demo_key1 = ca_dedup_key (requested_case reply_env 0 demo_question)"

definition demo_asked :: uuid where
  "demo_asked = derive_approval_case_id reply_env ''t1'' demo_key1"

definition demo_calls :: "approval_op list" where
  "demo_calls = [OpRequest 0 demo_question ''t1'', OpEscalate 3 demo_asked ''t1'' ''alice'' ''urgent'']"

definition demo_new :: approval_case where
  "demo_new = requested_case reply_env 0 demo_question"

definition demo_asked_world :: "string list approval_world" where
  "demo_asked_world = demo_cases\<lparr>aw_cases := \<lparr>as_cases = [(demo_asked, demo_new)],
     as_dedup = [((''t1'', ca_dedup_key demo_new), demo_asked)], as_outbox = [], as_outbox_by_case = []\<rparr>\<rparr>"

lemma demo_new_fields:
  "ca_tenant_id demo_new = ''t1''" "ca_status demo_new = CA_PENDING_SME_REVIEW" "ca_case_id demo_new = demo_asked"
  by (simp_all add: demo_new_def requested_case_def demo_question_def demo_asked_def demo_key1_def Let_def)

lemma demo_request_step:
  "approval_step reply_env demo_case_ports None (OpRequest 0 demo_question ''t1'') (demo_cases\<lparr>aw_cases := empty_approval_store\<rparr>)
     = demo_asked_world"
  by (simp add: demo_asked_world_def ingress_call_def request_case_review_def create_case_def empty_approval_store_def
      demo_new_fields demo_question_def flip: demo_new_def [unfolded demo_question_def])

lemmas demo_escalation = escalate_case_def transaction_def and_then_def reading_def check_def lifted_def raise_unless_def
  require_case_def get_case_def TERMINAL_CASE_STATUSES_def on_governance_def on_cases_def record_case_decision_def Let_def
  demo_cases_def demo_case_ports_def get_decision_def empty_governance_store_def record_human_decision_def record_decision_def
  record_trace_def human_decision_def human_trace_def create_handoff_for_case_def update_case_def resolved_case_def

lemma demo_settled:
  "\<exists>r. dget (as_cases (aw_cases (runs (approval_step reply_env demo_case_ports None) demo_calls
       (demo_cases\<lparr>aw_cases := empty_approval_store\<rparr>)))) demo_asked = Some r \<and> ca_status r = CA_ESCALATED"
  unfolding demo_calls_def runs.simps demo_request_step
  unfolding approval_step.simps demo_asked_world_def
  by (simp add: demo_escalation demo_new_fields)

lemma demo_unique: "approval_ids_unique reply_env {(''t1'', demo_key1)}"
  by (simp add: approval_ids_unique_def)

lemma demo_calls_legal:
  "legal (approval_step reply_env demo_case_ports None) (approval_ok reply_env {(''t1'', demo_key1)})
     (demo_calls @ [OpApprove 4 demo_asked ''t1'' ''alice'' None]) w"
  unfolding demo_calls_def by (simp add: demo_key1_def requested_case_def demo_question_def Let_def)

definition demo_reviewing :: "string list approval_world" where
  "demo_reviewing = demo_cases\<lparr>aw_cases := \<lparr>as_cases = [(''c1'', demo_case\<lparr>ca_status := CA_GUIDANCE_IN_PROGRESS\<rparr>)],
     as_dedup = [((''t1'', ''k1''), ''c1'')], as_outbox = [], as_outbox_by_case = []\<rparr>\<rparr>"

lemma demo_escalated:
  "case escalate_case reply_env demo_case_ports 6 ''c1'' ''t1'' ''carol'' ''now'' demo_reviewing of
     (r, w') \<Rightarrow> as_outbox_by_case (aw_cases w') = [] \<and>
       (case get_case (aw_cases w') ''c1'' ''t1'' of Some r' \<Rightarrow> ca_status r' = CA_ESCALATED | None \<Rightarrow> False)"
  by code_simp

definition demo_unbound :: approval_case where
  "demo_unbound = demo_case\<lparr>ca_proposal_id := None\<rparr>"

definition demo_unbound_cases :: "string list approval_world" where
  "demo_unbound_cases = demo_cases\<lparr>aw_cases := \<lparr>as_cases = [(''c1'', demo_unbound)], as_dedup = [((''t1'', ''k1''), ''c1'')],
     as_outbox = [], as_outbox_by_case = []\<rparr>\<rparr>"

lemma demo_claimable:
  "filter (claimable_case reply_env ''t1'' ''a1'') (dvals (as_cases (aw_cases demo_unbound_cases))) = [demo_unbound]"
  by (simp add: demo_unbound_cases_def demo_unbound_def demo_case_def claimable_case_def json_text_entry_def)

section \<open>The promises\<close>

text \<open>(C3) A case that was asked for is traceable whatever is called next, by whom, in whatever order
  and with whatever outcome: no approval or rejection without a review, no more than one round of
  guidance and only guidance the scanner let pass, resolution fields exactly on resolved cases;
  its lineage never changes, who guided it and with what stays on record, and once it is
  approved, rejected or escalated nothing of it changes but the decision it names.\<close>

theorem approval_history:
  assumes "approval_ids_unique env K" "aw_cases w = empty_approval_store"
    and "legal (approval_step env pt pub) (approval_ok env K) (xs @ ys) w"
    and "dget (as_cases (aw_cases (runs (approval_step env pt pub) xs w))) i = Some r"
  shows "case_ok env (ap_patterns pt) r \<and>
    (\<exists>r'. dget (as_cases (aw_cases (runs (approval_step env pt pub) (xs @ ys) w))) i = Some r' \<and>
       case_ok env (ap_patterns pt) r' \<and> case_lineage r' = case_lineage r \<and>
       (ca_guidance_round r = 1 \<longrightarrow> guider r' = guider r \<and> ca_guidance_ref r' = ca_guidance_ref r \<and>
          ca_guidance_round r' = 1) \<and>
       (ca_status r \<in> TERMINAL_CASE_STATUSES \<longrightarrow> resolution_of r' = resolution_of r))"
proof -
  have start: "case_inv env (ap_patterns pt) K (aw_cases w)"
    using assms(1) by (simp add: case_inv_def assms(2) empty_approval_store_def)
  note split = assms(3) [unfolded legal_append, THEN conjunct1] assms(3) [unfolded legal_append, THEN conjunct2]
  note inv = approvals.runs_inv [OF start split(1)]
  obtain r' where r': "dget (as_cases (aw_cases (runs (approval_step env pt pub) (xs @ ys) w))) i = Some r'"
    "case_edit env (ap_patterns pt) r r'"
    using approvals.runs_edit [OF inv split(2) assms(4)] unfolding runs_append by blast
  show ?thesis
    using case_invD(2) [OF inv assms(4)] r' unfolding case_edit_def by blast
qed

lemma approval_history_witness:
  "\<exists>r'. dget (as_cases (aw_cases (runs (approval_step reply_env demo_case_ports None)
       (demo_calls @ [OpApprove 4 demo_asked ''t1'' ''alice'' None]) (demo_cases\<lparr>aw_cases := empty_approval_store\<rparr>)))) demo_asked
     = Some r' \<and> ca_status r' = CA_ESCALATED \<and> case_ok reply_env INJECTION_PATTERNS r'"
proof -
  obtain r where r: "dget (as_cases (aw_cases (runs (approval_step reply_env demo_case_ports None) demo_calls
       (demo_cases\<lparr>aw_cases := empty_approval_store\<rparr>)))) demo_asked = Some r" "ca_status r = CA_ESCALATED"
    using demo_settled by blast
  have "ap_patterns demo_case_ports = INJECTION_PATTERNS" by (simp add: demo_case_ports_def)
  moreover have "aw_cases (demo_cases\<lparr>aw_cases := empty_approval_store\<rparr>) = empty_approval_store" by simp
  moreover have "ca_status r \<in> TERMINAL_CASE_STATUSES" using r(2) by (simp add: TERMINAL_CASE_STATUSES_def)
  ultimately show ?thesis
    using approval_history [OF demo_unique _ demo_calls_legal r(1)] r(2) resolution_of_status by metis
qed

text \<open>(C4) When an approval returns, its case was awaiting approval and the approver is not the one
  who guided it; the case is now approved, by this approver, at this time, with its lineage
  unchanged; the decision it names is recorded in the governance store; and the action it was
  bound to has been fired with the approver's name and no error.\<close>

theorem approve_effects:
  assumes "approve_case env pt now i t a n w = (Inr r', w')" "gate_keeps_decisions pt"
  shows "\<exists>r. get_case (aw_cases w) i t = Some r \<and> ca_status r = CA_AWAITING_APPROVAL \<and> guider r \<noteq> Some a \<and>
    get_case (aw_cases w') (ca_case_id r) t = Some r' \<and> case_lineage r' = case_lineage r \<and>
    ca_status r' = CA_APPROVED \<and> ca_resolved_by r' = Some a \<and> ca_resolved_at r' = Some now \<and>
    (\<exists>d. ca_decision_id r' = Some d \<and> get_decision (aw_governance w') d (Some t) \<noteq> None) \<and>
    (\<forall>act. bound_action r = Some act \<longrightarrow>
       (\<exists>approve x x'. ap_approve_action pt = Some approve \<and> approve x act a n t = (Inr (), x')))"
proof -
  obtain r d g w2 w3 s x where r: "get_case (aw_cases w) i t = Some r" "ca_status r = CA_AWAITING_APPROVAL"
      "guider r \<noteq> Some a"
    and decided: "record_case_decision env now (aw_governance w) r a ALLOW APPROVE_CHAIN_ID ''case_approval_approved'' n = (Inr d, g)"
    and delivered: "deliver_if_bound env pt now r t d (w\<lparr>aw_governance := g\<rparr>) = (Inr (), w2)"
    and fired: "approve_recommended_action_if_bound pt r a n t w2 = (Inr (), w3)"
    and r': "r' = resolved_case r CA_APPROVED d now a n [(''approved_by'', PStr a),
        (''approved_recommendation_hash'', opt_pstr (payload_text (ca_metadata r) ''sme_recommendation_hash''))]"
    and saved: "update_case env (aw_cases w3) r' t = (Inr r', s)" and w': "w' = w3\<lparr>aw_cases := s, aw_rest := x\<rparr>"
    by (rule approve_Inr [OF assms(1)])
  have t: "ca_tenant_id r = t" using r(1) by (auto simp: get_case_def split: option.splits if_splits)
  have "get_decision g d (Some t) \<noteq> None" using record_case_Inr(2) [OF decided] t by simp
  moreover have "decisions_kept g (aw_governance w')"
    using decisiveD [OF decisive_deliver(2) [OF assms(2)] delivered] decisiveD [OF decisive_action fired]
    by (simp add: w' decisions_kept_def)
  ultimately have "get_decision (aw_governance w') d (Some t) \<noteq> None" using decisions_kept_get by blast
  moreover have "\<exists>approve x x'. ap_approve_action pt = Some approve \<and> approve x act a n t = (Inr (), x')"
    if "bound_action r = Some act" for act
    using fired that by (auto simp: approve_recommended_action_if_bound_def on_parts_Inr split: option.splits)
  moreover have "get_case (aw_cases w') (ca_case_id r) t = Some r'"
    using update_case_get [OF saved] by (simp add: w' r' resolved_case_def)
  ultimately show ?thesis
    using r unfolding r' by (intro exI [of _ r]) (simp add: case_lineage_def resolved_case_def)
qed

lemma approve_effects_witness:
  "\<exists>r' w'. approve_case reply_env demo_case_ports 5 ''c1'' ''t1'' ''alice'' None demo_cases = (Inr r', w') \<and>
     ca_resolved_by r' = Some ''alice'' \<and> aw_rest w' = [''a1'']"
proof -
  have gate: "gate_keeps_decisions demo_case_ports" by (simp add: gate_keeps_decisions_def demo_case_ports_def)
  obtain r' w' where run: "approve_case reply_env demo_case_ports 5 ''c1'' ''t1'' ''alice'' None demo_cases = (Inr r', w')"
    and fired: "aw_rest w' = [''a1'']" by (rule demo_approval)
  show ?thesis using approve_effects [OF run gate] run fired by blast
qed

text \<open>(C5) When an approval returns, the reply of its proposal is released and only as authorised, under
  exactly the decision that authorised it.  If the review recommends no other text, the
  text is the one that was proposed, and the decision is the delivery decision of the
  proposal: the one the store had on record already, reused as it stands, or else one
  recorded now, whose verdict is ALLOW and which holds the digest of the draft's canonical
  reply, or of the proposed reply where there is no draft.  If it does, the text is the
  recommended one, the resolution gate was asked about it with its grounding and answered a
  deliverable verdict, and the decision is the one the gate named, or the decision of this
  approval if it named none.  The proposal is send-eligible and carries that decision, and
  where the ticket's channel allows it, the send of the ready draft, carrying it too, was
  requested from the outbox without a refusal.\<close>

theorem approve_releases:
  assumes "approve_case env pt now i t a n w = (Inr r', w')" "ca_proposal_id r' = Some p"
  shows "\<exists>r d g. get_case (aw_cases w) i t = Some r \<and>
    record_case_decision env now (aw_governance w) r a ALLOW APPROVE_CHAIN_ID ''case_approval_approved'' n = (Inr d, g) \<and>
    reply_released env pt now r p d (w\<lparr>aw_governance := g\<rparr>) w'"
proof -
  obtain r d g w2 w3 s x where r: "get_case (aw_cases w) i t = Some r"
    and decided: "record_case_decision env now (aw_governance w) r a ALLOW APPROVE_CHAIN_ID ''case_approval_approved'' n = (Inr d, g)"
    and delivered: "deliver_if_bound env pt now r t d (w\<lparr>aw_governance := g\<rparr>) = (Inr (), w2)"
    and fired: "approve_recommended_action_if_bound pt r a n t w2 = (Inr (), w3)"
    and r': "r' = resolved_case r CA_APPROVED d now a n [(''approved_by'', PStr a),
        (''approved_recommendation_hash'', opt_pstr (payload_text (ca_metadata r) ''sme_recommendation_hash''))]"
    and w': "w' = w3\<lparr>aw_cases := s, aw_rest := x\<rparr>"
    by (rule approve_Inr [OF assms(1)])
  have t: "ca_tenant_id r = t" using r by (auto simp: get_case_def split: option.splits if_splits)
  have bound: "ca_proposal_id r = Some p" using assms(2) unfolding r' by (simp add: resolved_case_def)
  have "deliver_resolution env pt now r p (ca_tenant_id r) d (w\<lparr>aw_governance := g\<rparr>) = (Inr (), w2)"
    using delivered bound t by (simp add: deliver_if_bound_def)
  note released = deliver_released [OF this bound]
  have parts: "aw_resolution w' = aw_resolution w2" "aw_governance w' = aw_governance w2" "aw_outbox w' = aw_outbox w2"
    using fired unfolding w'
    by (auto simp: approve_recommended_action_if_bound_def on_parts_Inr split: option.splits)
  have "reply_released env pt now r p d (w\<lparr>aw_governance := g\<rparr>) w'"
    using released unfolding reply_released_def parts .
  then show ?thesis using r decided by blast
qed

lemma approve_releases_witness:
  "\<exists>r' w' r d g. approve_case reply_env demo_case_ports 5 ''c1'' ''t1'' ''alice'' None demo_cases = (Inr r', w') \<and>
     reply_released reply_env demo_case_ports 5 r ''p1'' d (demo_cases\<lparr>aw_governance := g\<rparr>) w' \<and>
     length (sd_records (aw_outbox w')) = 1"
proof -
  obtain r' w' where run: "approve_case reply_env demo_case_ports 5 ''c1'' ''t1'' ''alice'' None demo_cases = (Inr r', w')"
    and bound: "ca_proposal_id r' = Some ''p1''" and sent: "length (sd_records (aw_outbox w')) = 1" by (rule demo_approval)
  show ?thesis using approve_releases [OF run bound] run sent by blast
qed

text \<open>(C6) A review does not look at the case again before it writes: whatever happened to the case
  while the reviewer was thinking, an escalation or an approval included, is overwritten by the
  case the review had read, which is awaiting approval again and has lost its resolution.\<close>

theorem review_overwrites:
  assumes "begin_review w i t = Inr (r, c)" "ca_case_id r = i" "get_case (aw_cases w') i t = Some r'"
    and "\<And>k. dget (as_outbox_by_case (aw_cases w')) i = Some k \<Longrightarrow> dget (as_outbox (aw_cases w')) k \<noteq> None"
  shows "\<exists>w'' r''. finish_review env now r g t w' = (Inr r'', w'') \<and> get_case (aw_cases w'') i t = Some r'' \<and>
    ca_status r'' = CA_AWAITING_APPROVAL \<and> ca_resolved_at r'' = ca_resolved_at r \<and> ca_resolved_by r'' = ca_resolved_by r \<and>
    ca_decision_id r'' = ca_decision_id r"
proof -
  let ?r = "reviewed_case env r g"
  have t: "ca_tenant_id r = t"
    using assms(1) by (auto simp: begin_review_Inr get_case_def split: option.splits if_splits)
  have same: "ca_case_id ?r = i" "ca_tenant_id ?r = t" "ca_status ?r = CA_AWAITING_APPROVAL"
      "ca_resolved_at ?r = ca_resolved_at r" "ca_resolved_by ?r = ca_resolved_by r" "ca_decision_id ?r = ca_decision_id r"
    using assms(2) t by (simp_all add: reviewed_case_def)
  obtain s where s: "update_case env (aw_cases w') ?r t = (Inr ?r, s)" "get_case s i t = Some ?r"
      "as_outbox s = as_outbox (aw_cases w')" "as_outbox_by_case s = as_outbox_by_case (aw_cases w')"
    using assms(3) same by (auto simp: update_case_def get_case_def)
  obtain n s' where n: "republish_case_outbox s (review_notice env now ?r) t = (Inr n, s')" "as_cases s' = as_cases s"
    using assms(4) same(1,2) unfolding republish_case_outbox_def s(3,4)
    by (cases "dget (as_outbox_by_case (aw_cases w')) i")
      (fastforce simp: review_notice_def Let_def simp del: map_of_eq_Some_iff map_of_eq_None_iff)+
  have "finish_review env now r g t w' = (Inr ?r, w'\<lparr>aw_cases := s'\<rparr>)"
    using s(1) n(1) by (simp add: finish_review_def and_then_def on_cases_def answer_def)
  moreover have "get_case s' i t = Some ?r" using s(2) n(2) by (simp add: get_case_def)
  ultimately show ?thesis using same by (intro exI [of _ "w'\<lparr>aw_cases := s'\<rparr>"] exI [of _ ?r]) simp
qed

lemma review_overwrites_witness:
  "\<forall>g. \<exists>r c w'' r''. begin_review demo_reviewing ''c1'' ''t1'' = Inr (r, c) \<and>
     finish_review reply_env 7 r g ''t1'' (snd (escalate_case reply_env demo_case_ports 6 ''c1'' ''t1'' ''carol'' ''now'' demo_reviewing))
       = (Inr r'', w'') \<and> ca_status r'' = CA_AWAITING_APPROVAL \<and> ca_resolved_by r'' = None"
proof
  fix g
  let ?r = "demo_case\<lparr>ca_status := CA_GUIDANCE_IN_PROGRESS\<rparr>"
  let ?w = "snd (escalate_case reply_env demo_case_ports 6 ''c1'' ''t1'' ''carol'' ''now'' demo_reviewing)"
  have begun: "begin_review demo_reviewing ''c1'' ''t1'' = Inr (?r, context_for_record ?r (proposal_for_record demo_reviewing ?r))"
    by (simp add: begin_review_Inr demo_reviewing_def get_case_def demo_case_def)
  obtain r' where later: "get_case (aw_cases ?w) ''c1'' ''t1'' = Some r'" and none: "as_outbox_by_case (aw_cases ?w) = []"
    using demo_escalated by (auto split: prod.splits option.splits)
  show "\<exists>r c w'' r''. begin_review demo_reviewing ''c1'' ''t1'' = Inr (r, c) \<and>
     finish_review reply_env 7 r g ''t1'' ?w = (Inr r'', w'') \<and> ca_status r'' = CA_AWAITING_APPROVAL \<and> ca_resolved_by r'' = None"
    using review_overwrites [OF begun _ later, where env = reply_env and now = 7 and g = g] begun none
    by (fastforce simp: demo_case_def)
qed

text \<open>The case of an action is completed with the approver of the action, whoever guided it.\<close>

lemma action_completes_case:
  assumes "get_case (aw_cases w) i t = Some r" "guider r = Some a" "ca_status r = CA_AWAITING_APPROVAL"
    and "filter (claimable_case env t act) (dvals (as_cases (aw_cases w))) = [r]" "ca_case_id r = i"
    and "ca_proposal_id r = None" "ap_session pt"
  shows "approve_case env pt now i t a n w =
      (Inl (CaseApprovalLifecycleError ''guided cases require a different approver''), rolled_back pt w w) \<and>
    (\<exists>w' r'. claim_and_complete_case_for_action env pt now act t ''approved'' a at m w = (Inr (Some (i, False)), w') \<and>
       get_case (aw_cases w') i t = Some r' \<and> ca_status r' = CA_APPROVED \<and> ca_resolved_by r' = Some a \<and> guider r' = Some a)"
proof -
  let ?r = "r\<lparr>ca_status := CA_APPROVED, ca_resolved_at := Some at, ca_resolved_by := Some a, ca_note := Some m\<rparr>"
  let ?s = "snd (claim_cases_for_action env t act CA_APPROVED at a m (aw_cases w))"
  have claimable: "claimable_case env t act r" using assms(4) by (metis filter_eq_Cons_iff)
  have row: "dget (as_cases (aw_cases w)) i = Some r" "ca_tenant_id r = t"
    using assms(1) by (auto simp: get_case_def split: option.splits if_splits)
  have "dget (as_cases ?s) i = Some ?r"
    unfolding claim_cases_for_action_def snd_conv using row claimable by (simp add: map_of_map del: map_of_eq_Some_iff)
  then have got: "get_case ?s i t = Some ?r" using row(2) by (simp add: get_case_def del: map_of_eq_Some_iff)
  have "fst (claim_cases_for_action env t act CA_APPROVED at a m (aw_cases w)) = Inr [i]"
    using assms(4,5) by (simp add: claim_cases_for_action_def)
  then have claimed: "on_cases (claim_cases_for_action env t act CA_APPROVED at a m) w = (Inr [i], w\<lparr>aw_cases := ?s\<rparr>)"
    by (simp add: on_cases_def case_prod_unfold)
  have "complete_reconciled_resolution env pt now i t a (Some m) (w\<lparr>aw_cases := ?s\<rparr>) = (Inr False, w\<lparr>aw_cases := ?s\<rparr>)"
    using got assms(6) by (simp add: complete_reconciled_resolution_def and_then_def reading_def require_case_def answer_def)
  then have "claim_and_complete_case_for_action env pt now act t ''approved'' a at m w =
      (Inr (Some (i, False)), w\<lparr>aw_cases := ?s\<rparr>)"
    using claimed assms(7)
    by (simp add: claim_and_complete_case_for_action_def and_then_def check_def lifted_def raise_unless_def answer_def)
  moreover have "approve_case env pt now i t a n w =
      (Inl (CaseApprovalLifecycleError ''guided cases require a different approver''), rolled_back pt w w)"
    using assms(1-3)
    by (simp add: approve_case_def transaction_def and_then_def reading_def require_case_def check_def lifted_def raise_unless_def)
  ultimately show ?thesis using got assms(2) by (auto simp: guider_def)
qed

end
