(* ===== verification/Approval_Outbox.thy ===== *)
theory Approval_Outbox
  imports Approval_Store Delivery_Service
begin

text \<open>
  The publication of case notifications, \<open>app/workers/case_approval_outbox_tasks.py\<close>, over the
  in-memory store: failed rows are put back, then a page of pending rows is claimed row by row
  and an e-mail is sent to the operator of the tenant.  The listing and the credentials of the
  tenant's channels, the SES client and the text of the e-mail are ports; the claim tokens are
  drawn from \<open>uuid4\<close>, here a function of the row.  A row that raises is rolled back.
\<close>

section \<open>The route of an e-mail\<close>

record operator_route =
  ot_access_key_id :: string
  ot_secret_access_key :: string
  ot_region :: string
  ot_from :: string
  ot_recipient :: string
  ot_session_token :: "string option"
  ot_endpoint_url :: "string option"
  ot_configuration_set :: "string option"

record 'x alert_ports =
  lp_custody :: bool
    \<comment> \<open>the credential encryptor can be built from the settings\<close>
  lp_email_channel :: "'x \<Rightarrow> string \<Rightarrow> bool result"
    \<comment> \<open>an active e-mail channel is listed\<close>
  lp_alert_address :: "'x \<Rightarrow> string \<Rightarrow> string option result"
    \<comment> \<open>address of the first active operator alert channel\<close>
  lp_credentials :: "'x \<Rightarrow> string \<Rightarrow> metadata result"
  lp_send :: "'x \<Rightarrow> operator_route \<Rightarrow> string \<Rightarrow> string \<Rightarrow> unit result \<times> 'x"
    \<comment> \<open>route, subject, body\<close>
  lp_body :: "approval_case \<Rightarrow> string"

definition required_credential :: "py_env \<Rightarrow> metadata \<Rightarrow> string list \<Rightarrow> string result" where
  "required_credential env credentials ks =
     require (optional_credential_string credentials ks)
       (OperatorEmailNotConfigured (''tenant email channel is missing required credential '' @ repr_str env (hd ks)))"

definition resolve_operator_email_route :: "py_env \<Rightarrow> 'x alert_ports \<Rightarrow> 'x \<Rightarrow> string \<Rightarrow> operator_route result" where
  "resolve_operator_email_route env pt x tenant_id =
     on_ok (raise_unless (lp_custody pt)
              (OperatorEmailNotConfigured ''tenant credential custody is not configured'')) (\<lambda>_.
     on_ok (lp_email_channel pt x tenant_id) (\<lambda>active.
     on_ok (raise_unless active
              (OperatorEmailNotConfigured ''no active email channel configured for tenant'')) (\<lambda>_.
     on_ok (lp_alert_address pt x tenant_id) (\<lambda>address.
     on_ok (require address
              (OperatorEmailNotConfigured ''no operator alert email recipient configured for tenant'')) (\<lambda>recipient.
     on_ok (lp_credentials pt x tenant_id) (\<lambda>c.
     on_ok (required_credential env c [''access_key_id'', ''aws_access_key_id'']) (\<lambda>access_key.
     on_ok (required_credential env c [''secret_access_key'', ''aws_secret_access_key'']) (\<lambda>secret.
     on_ok (required_credential env c [''region'', ''aws_region'', ''ses_region'']) (\<lambda>region.
     on_ok (required_credential env c [''source_email_address'', ''from_email_address'']) (\<lambda>from_address.
       Inr \<lparr>ot_access_key_id = access_key, ot_secret_access_key = secret, ot_region = region, ot_from = from_address,
            ot_recipient = recipient,
            ot_session_token = optional_credential_string c [''session_token'', ''aws_session_token''],
            ot_endpoint_url = optional_credential_string c [''endpoint_url'', ''ses_endpoint_url''],
            ot_configuration_set =
              optional_credential_string c [''configuration_set_name'', ''ses_configuration_set_name'']\<rparr>))))))))))"

section \<open>One row\<close>

definition ALERT_PUBLISHER_ID :: string where "ALERT_PUBLISHER_ID = ''case_approval_outbox_publisher''"
definition ALERT_SUBJECT :: string where "ALERT_SUBJECT = ''New case ready for approval''"

definition error_detail :: "error \<Rightarrow> string" where
  "error_detail e = take 240 (fst (error_text e) @ '': '' @ snd (error_text e))"

definition text_or_default :: "string \<Rightarrow> string \<Rightarrow> string" where
  "text_or_default v d = (if v = [] then d else v)"

text \<open>The outcome of a row once its mark has been written.\<close>

definition after_mark ::
  "case_outbox result \<times> approval_store \<Rightarrow> string \<Rightarrow> 'x \<Rightarrow> string result \<times> approval_store \<times> 'x" where
  "after_mark r outcome x = (case r of (Inl e, s) \<Rightarrow> (Inl e, s, x) | (Inr _, s) \<Rightarrow> (Inr outcome, s, x))"

definition publish_one ::
  "py_env \<Rightarrow> 'x alert_ports \<Rightarrow> int \<Rightarrow> string \<Rightarrow> case_outbox \<Rightarrow> approval_store \<Rightarrow> 'x
     \<Rightarrow> string result \<times> approval_store \<times> 'x" where
  "publish_one env pt now claim_id r s x =
     (case claim_case_outbox s (co_case_id r) ALERT_PUBLISHER_ID claim_id now (co_tenant_id r) of
        (None, s1) \<Rightarrow> (Inr ''claim_missed'', s1, x)
      | (Some _, s1) \<Rightarrow>
          let published = mark_case_outbox_published env s1 (co_outbox_id r) claim_id now (co_tenant_id r);
              failed = (\<lambda>err. mark_case_outbox_failed env s1 (co_outbox_id r) claim_id err now False (co_tenant_id r))
          in case get_case s1 (co_case_id r) (co_tenant_id r) of
               None \<Rightarrow> after_mark published ''skipped_stale'' x
             | Some c \<Rightarrow>
                 if ca_status c \<noteq> CA_AWAITING_APPROVAL then after_mark published ''skipped_stale'' x
                 else (case resolve_operator_email_route env pt x (co_tenant_id r) of
                    Inl (OperatorEmailNotConfigured m) \<Rightarrow>
                      after_mark (failed (text_or_default m ''operator alert email is not configured for tenant''))
                        ''operator_email_not_configured'' x
                  | Inl e \<Rightarrow> (Inl e, s1, x)
                  | Inr route \<Rightarrow>
                      (case lp_send pt x route ALERT_SUBJECT (lp_body pt c) of
                         (Inr _, x1) \<Rightarrow> after_mark published ''published'' x1
                       | (Inl e, x1) \<Rightarrow> after_mark (failed (error_detail e)) (error_detail e) x1)))"

section \<open>The sweep\<close>

record alert_report =
  al_requeued :: "string list"
  al_published :: "string list"
  al_skipped_stale :: "string list"
  al_failed :: "(string \<times> string) list"

text \<open>An exception of a row rolls its transaction back; the e-mail, if sent, is not undone.\<close>

definition publish_row ::
  "py_env \<Rightarrow> 'x alert_ports \<Rightarrow> int \<Rightarrow> (uuid \<Rightarrow> string) \<Rightarrow> case_outbox
     \<Rightarrow> alert_report \<times> approval_store \<times> 'x \<Rightarrow> alert_report \<times> approval_store \<times> 'x" where
  "publish_row env pt now token r acc =
     (case acc of (rep, s, x) \<Rightarrow>
        (case publish_one env pt now (token (co_outbox_id r)) r s x of
           (Inl e, _, x1) \<Rightarrow> (rep\<lparr>al_failed := al_failed rep @ [(co_outbox_id r, error_detail e)]\<rparr>, s, x1)
         | (Inr outcome, s1, x1) \<Rightarrow>
             (if outcome = ''published'' then rep\<lparr>al_published := al_published rep @ [co_outbox_id r]\<rparr>
              else if outcome = ''skipped_stale'' then rep\<lparr>al_skipped_stale := al_skipped_stale rep @ [co_outbox_id r]\<rparr>
              else if outcome = ''claim_missed'' then rep
              else rep\<lparr>al_failed := al_failed rep @ [(co_outbox_id r, outcome)]\<rparr>, s1, x1)))"

definition failed_rows :: "approval_store \<Rightarrow> int \<Rightarrow> case_outbox list" where
  "failed_rows s limit = p_rows (list_case_outbox s
     (default_case_outbox_query\<lparr>coq_status := Some (case_outbox_status_value CO_FAILED), coq_dead_letter := Some False,
        coq_limit := limit\<rparr>) None)"

definition pending_rows :: "approval_store \<Rightarrow> int \<Rightarrow> case_outbox list" where
  "pending_rows s limit = p_rows (list_case_outbox s
     (default_case_outbox_query\<lparr>coq_status := Some (case_outbox_status_value CO_PENDING), coq_limit := limit\<rparr>) None)"

text \<open>The error of a row ends the sweep here; the rows before it stay requeued.\<close>

fun requeue_rows :: "case_outbox list \<Rightarrow> approval_store \<Rightarrow> string list result \<times> approval_store" where
  "requeue_rows [] s = (Inr [], s)"
| "requeue_rows (r # rs) s =
     (case republish_case_outbox s r (co_tenant_id r) of
        (Inl e, s1) \<Rightarrow> (Inl e, s1)
      | (Inr _, s1) \<Rightarrow>
          (case requeue_rows rs s1 of
             (Inl e, s2) \<Rightarrow> (Inl e, s2)
           | (Inr ids, s2) \<Rightarrow> (Inr (co_outbox_id r # ids), s2)))"

definition publish_page ::
  "py_env \<Rightarrow> 'x alert_ports \<Rightarrow> int \<Rightarrow> (uuid \<Rightarrow> string) \<Rightarrow> int \<Rightarrow> approval_store \<Rightarrow> 'x
     \<Rightarrow> alert_report result \<times> approval_store \<times> 'x" where
  "publish_page env pt now token limit s x =
     (case requeue_rows (failed_rows s limit) s of
        (Inl e, s1) \<Rightarrow> (Inl e, s1, x)
      | (Inr requeued, s1) \<Rightarrow>
          (case fold (publish_row env pt now token) (pending_rows s1 limit)
                  (\<lparr>al_requeued = requeued, al_published = [], al_skipped_stale = [], al_failed = []\<rparr>, s1, x) of
             (rep, s2, x1) \<Rightarrow> (Inr rep, s2, x1)))"

end
