(* ===== verification/Approval_Notices.thy ===== *)
theory Approval_Notices
  imports Approval_Outbox Approval_Safety
begin

text \<open>
  A page of case notifications whose tenants cannot be reached by e-mail is listed again by
  every sweep, and the rows behind it are never looked at.
\<close>

section \<open>Sorting\<close>

lemma insort_key_front: "(\<And>z. z \<in> set zs \<Longrightarrow> f x < f z) \<Longrightarrow> insort_key f x (ys @ zs) = insort_key f x ys @ zs"
  by (induction ys) (cases zs; auto simp: less_imp_le)+

lemma insort_key_back: "(\<And>y. y \<in> set ys \<Longrightarrow> f y < f x) \<Longrightarrow> insort_key f x (ys @ zs) = ys @ insort_key f x zs"
  by (induction ys) (auto simp flip: not_le)

lemma sort_key_split:
  assumes "\<And>a b. a \<in> set xs \<Longrightarrow> b \<in> set xs \<Longrightarrow> Q a \<Longrightarrow> \<not> Q b \<Longrightarrow> f a < f b"
  shows "sort_key f xs = sort_key f (filter Q xs) @ sort_key f (filter (\<lambda>b. \<not> Q b) xs)"
  using assms
proof (induction xs)
  case (Cons x xs)
  then have "sort_key f xs = sort_key f (filter Q xs) @ sort_key f (filter (\<lambda>b. \<not> Q b) xs)" by simp
  moreover have "insort_key f x (sort_key f (filter Q xs) @ sort_key f (filter (\<lambda>b. \<not> Q b) xs)) =
      insort_key f x (sort_key f (filter Q xs)) @ sort_key f (filter (\<lambda>b. \<not> Q b) xs)" if "Q x"
    by (rule insort_key_front) (use Cons.prems that in auto)
  moreover have "insort_key f x (sort_key f (filter Q xs) @ sort_key f (filter (\<lambda>b. \<not> Q b) xs)) =
      sort_key f (filter Q xs) @ insort_key f x (sort_key f (filter (\<lambda>b. \<not> Q b) xs))" if "\<not> Q x"
    by (rule insort_key_back) (use Cons.prems that in auto)
  ultimately show ?case by (cases "Q x") simp_all
qed simp

lemma sort_key_front:
  assumes "\<And>a b. a \<in> set xs \<Longrightarrow> b \<in> set xs \<Longrightarrow> Q a \<Longrightarrow> \<not> Q b \<Longrightarrow> f a < f b" "length (filter Q xs) \<le> n"
  shows "set (filter Q xs) \<subseteq> set (take n (sort_key f xs))"
    "n = length (filter Q xs) \<Longrightarrow> set (take n (sort_key f xs)) = set (filter Q xs)"
  using assms(2) by (auto simp: sort_key_split [of xs Q f, OF assms(1)])

section \<open>Notifications and their store\<close>

definition notice_key :: "case_outbox \<Rightarrow> int \<times> string" where
  "notice_key r = (co_created_at r, co_outbox_id r)"

definition same_notice :: "case_outbox \<Rightarrow> case_outbox \<Rightarrow> bool" where
  "same_notice r q \<longleftrightarrow> notice_key q = notice_key r \<and> co_case_id q = co_case_id r \<and> co_tenant_id q = co_tenant_id r"

lemma same_notice_trans: "same_notice r q \<Longrightarrow> same_notice q p \<Longrightarrow> same_notice r p"
  by (simp add: same_notice_def)

definition notices_consistent :: "approval_store \<Rightarrow> bool" where
  "notices_consistent s \<longleftrightarrow> wf_dict (as_outbox s) \<and>
     (\<forall>k r. dget (as_outbox s) k = Some r \<longrightarrow> co_outbox_id r = k \<and> dget (as_outbox_by_case s) (co_case_id r) = Some k)"

lemma consistentD:
  assumes "notices_consistent s" "dget (as_outbox s) k = Some r"
  shows "co_outbox_id r = k" "dget (as_outbox_by_case s) (co_case_id r) = Some k"
  using assms unfolding notices_consistent_def by blast+

text \<open>The rows of \<open>I\<close> were rewritten to rows with \<open>T\<close>; nothing else changed.\<close>

definition notices_moved :: "(case_outbox \<Rightarrow> bool) \<Rightarrow> uuid set \<Rightarrow> approval_store \<Rightarrow> approval_store \<Rightarrow> bool" where
  "notices_moved T I s s' \<longleftrightarrow> as_cases s' = as_cases s \<and> as_outbox_by_case s' = as_outbox_by_case s \<and> notices_consistent s' \<and>
     (\<forall>j. j \<notin> I \<longrightarrow> dget (as_outbox s') j = dget (as_outbox s) j) \<and>
     (\<forall>j \<in> I. \<exists>r q. dget (as_outbox s) j = Some r \<and> dget (as_outbox s') j = Some q \<and> same_notice r q \<and> T q)"

lemma movedD:
  assumes "notices_moved T I s s'"
  shows "as_cases s' = as_cases s" "as_outbox_by_case s' = as_outbox_by_case s" "notices_consistent s'"
    "j \<notin> I \<Longrightarrow> dget (as_outbox s') j = dget (as_outbox s) j"
    "j \<in> I \<Longrightarrow> dget (as_outbox s) j = Some r \<Longrightarrow> \<exists>q. dget (as_outbox s') j = Some q \<and> same_notice r q \<and> T q"
  using assms unfolding notices_moved_def by (simp_all del: map_of_eq_Some_iff) fastforce

lemma moved_none: "notices_consistent s \<Longrightarrow> notices_moved T {} s s"
  by (simp add: notices_moved_def)

lemma moved_put:
  assumes "notices_consistent s" "dget (as_outbox s) k = Some r" "same_notice r q" "T q"
  shows "notices_moved T {k} s (s\<lparr>as_outbox := dset k q (as_outbox s)\<rparr>)"
proof -
  have "co_outbox_id q = k" "dget (as_outbox_by_case s) (co_case_id q) = Some k"
    using consistentD [OF assms(1,2)] assms(3) by (simp_all add: same_notice_def notice_key_def)
  then have "notices_consistent (s\<lparr>as_outbox := dset k q (as_outbox s)\<rparr>)"
    using assms(1) unfolding notices_consistent_def by (simp del: map_of_eq_Some_iff)
  then show ?thesis
    using assms(2-4) by (simp add: notices_moved_def del: map_of_eq_Some_iff)
qed

lemma moved_chain:
  assumes one: "notices_moved T {k} s s1" and rest: "notices_moved T J s1 s2" and new: "k \<notin> J"
  shows "notices_moved T (insert k J) s s2"
proof -
  have "\<exists>r q. dget (as_outbox s) j = Some r \<and> dget (as_outbox s2) j = Some q \<and> same_notice r q \<and> T q"
    if "j \<in> insert k J" for j
  proof (cases "j = k")
    case True
    have "dget (as_outbox s2) k = dget (as_outbox s1) k" using movedD(4) [OF rest new] .
    then show ?thesis using one True unfolding notices_moved_def by simp
  next
    case False
    then have "j \<in> J" and same: "dget (as_outbox s1) j = dget (as_outbox s) j"
      using that movedD(4) [OF one] by simp_all
    then have "\<exists>r q. dget (as_outbox s1) j = Some r \<and> dget (as_outbox s2) j = Some q \<and> same_notice r q \<and> T q"
      using rest unfolding notices_moved_def by blast
    then show ?thesis unfolding same .
  qed
  moreover have "dget (as_outbox s2) j = dget (as_outbox s) j" if "j \<notin> insert k J" for j
    using that movedD(4) [OF one, of j] movedD(4) [OF rest, of j] by simp
  ultimately show ?thesis
    using movedD(1-3) [OF rest] movedD(1,2) [OF one] unfolding notices_moved_def by simp
qed

lemma moved_again:
  assumes one: "notices_moved T' {k} s s1" and two: "notices_moved T {k} s1 s2"
  shows "notices_moved T {k} s s2"
proof -
  obtain r q where r: "dget (as_outbox s) k = Some r" "dget (as_outbox s1) k = Some q" "same_notice r q"
    using one unfolding notices_moved_def by blast
  obtain p where "dget (as_outbox s2) k = Some p" "same_notice q p" "T p"
    using movedD(5) [OF two _ r(2)] by blast
  then have "\<exists>r p. dget (as_outbox s) k = Some r \<and> dget (as_outbox s2) k = Some p \<and> same_notice r p \<and> T p"
    using r same_notice_trans by blast
  then show ?thesis
    using movedD(1-4) [OF one] movedD(1-4) [OF two] unfolding notices_moved_def by simp
qed

lemma distinct_other: "distinct (map f (r # rs)) \<Longrightarrow> p \<in> set rs \<Longrightarrow> f p \<noteq> f r"
  by simp (metis imageI)

lemma requeue_moved:
  assumes "notices_consistent s" "\<And>r. r \<in> set rs \<Longrightarrow> dget (as_outbox s) (co_outbox_id r) = Some r" "distinct (map co_outbox_id rs)"
  shows "\<exists>s'. requeue_rows rs s = (Inr (map co_outbox_id rs), s') \<and>
    notices_moved (\<lambda>q. co_status q = CO_PENDING) (set (map co_outbox_id rs)) s s'"
  using assms
proof (induction rs arbitrary: s)
  case Nil
  then show ?case by (simp add: moved_none)
next
  case (Cons r rs)
  let ?k = "co_outbox_id r"
  let ?q = "r\<lparr>co_status := CO_PENDING, co_claimed_at := None, co_published_at := None, co_publisher_id := None,
    co_claim_id := None, co_dead_letter := False, co_last_error := None\<rparr>"
  let ?s = "s\<lparr>as_outbox := dset ?k ?q (as_outbox s)\<rparr>"
  have row: "dget (as_outbox s) ?k = Some r" using Cons.prems(2) by simp
  have put: "republish_case_outbox s r (co_tenant_id r) = (Inr ?q, ?s)"
    using consistentD(2) [OF Cons.prems(1) row] row by (simp add: republish_case_outbox_def Let_def del: map_of_eq_Some_iff)
  have moved: "notices_moved (\<lambda>q. co_status q = CO_PENDING) {?k} s ?s"
    by (rule moved_put [OF Cons.prems(1) row]) (simp_all add: same_notice_def notice_key_def)
  have "dget (as_outbox ?s) (co_outbox_id p) = Some p" if "p \<in> set rs" for p
  proof -
    have "co_outbox_id p \<noteq> ?k" by (rule distinct_other [OF Cons.prems(3) that])
    then show ?thesis using Cons.prems(2) that by (simp del: map_of_eq_Some_iff)
  qed
  then obtain s' where "requeue_rows rs ?s = (Inr (map co_outbox_id rs), s')"
    "notices_moved (\<lambda>q. co_status q = CO_PENDING) (set (map co_outbox_id rs)) ?s s'"
    using Cons.IH [OF movedD(3) [OF moved]] Cons.prems(3) by auto
  then show ?case using put moved_chain [OF moved, of "set (map co_outbox_id rs)" s'] Cons.prems(3) by simp
qed

section \<open>A row nobody can be told of\<close>

definition unreachable :: "py_env \<Rightarrow> 'x alert_ports \<Rightarrow> approval_store \<Rightarrow> case_outbox \<Rightarrow> bool" where
  "unreachable env pt s r \<longleftrightarrow>
     (\<exists>c. get_case s (co_case_id r) (co_tenant_id r) = Some c \<and> ca_status c = CA_AWAITING_APPROVAL) \<and>
     (\<forall>x. \<exists>m. resolve_operator_email_route env pt x (co_tenant_id r) = Inl (OperatorEmailNotConfigured m))"

lemma unreachable_same: "as_cases s' = as_cases s \<Longrightarrow> same_notice r q \<Longrightarrow> unreachable env pt s r \<Longrightarrow> unreachable env pt s' q"
  by (simp add: unreachable_def same_notice_def get_case_def)

definition failed_notice :: "case_outbox \<Rightarrow> bool" where
  "failed_notice q \<longleftrightarrow> co_status q = CO_FAILED \<and> \<not> co_dead_letter q"

lemma publish_row_moved:
  assumes "notices_consistent s" "dget (as_outbox s) (co_outbox_id r) = Some r" "co_status r = CO_PENDING" "unreachable env pt s r"
  shows "\<exists>rep' s'. publish_row env pt now token r (rep, s, x) = (rep', s', x) \<and> notices_moved failed_notice {co_outbox_id r} s s'"
proof -
  let ?k = "co_outbox_id r" and ?c = "token (co_outbox_id r)"
  let ?q = "r\<lparr>co_status := CO_PUBLISHING, co_claimed_at := Some now, co_publisher_id := Some ALERT_PUBLISHER_ID,
    co_claim_id := Some ?c, co_republish_count := co_republish_count r + 1, co_last_error := None\<rparr>"
  let ?s = "s\<lparr>as_outbox := dset ?k ?q (as_outbox s)\<rparr>"
  have claim: "claim_case_outbox s (co_case_id r) ALERT_PUBLISHER_ID ?c now (co_tenant_id r) = (Some ?q, ?s)"
    using consistentD(2) [OF assms(1,2)] assms(2,3)
    by (simp add: claim_case_outbox_def get_outbox_by_case_def Let_def del: map_of_eq_Some_iff)
  have claimed: "notices_moved (\<lambda>q. True) {?k} s ?s"
    by (rule moved_put [OF assms(1,2)]) (simp_all add: same_notice_def notice_key_def)
  obtain c m where c: "get_case s (co_case_id r) (co_tenant_id r) = Some c" "ca_status c = CA_AWAITING_APPROVAL"
    and m: "resolve_operator_email_route env pt x (co_tenant_id r) = Inl (OperatorEmailNotConfigured m)"
    using assms(4) unfolding unreachable_def by blast
  define msg where "msg = text_or_default m ''operator alert email is not configured for tenant''"
  define p where "p = ?q\<lparr>co_status := CO_FAILED, co_published_at := None, co_dead_letter := False, co_last_error := Some msg,
    co_metadata := dset ''failed_at'' (PStr (isoformat env now)) (co_metadata r)\<rparr>"
  let ?s' = "?s\<lparr>as_outbox := dset ?k p (as_outbox ?s)\<rparr>"
  have mark: "mark_case_outbox_failed env ?s ?k ?c msg now False (co_tenant_id r) = (Inr p, ?s')"
    by (simp add: mark_case_outbox_failed_def mark_case_outbox_terminal_def Let_def p_def)
  have failed: "notices_moved failed_notice {?k} ?s ?s'"
    by (rule moved_put [OF movedD(3) [OF claimed], where r = ?q])
      (simp_all add: p_def same_notice_def notice_key_def failed_notice_def)
  have "get_case ?s (co_case_id r) (co_tenant_id r) = Some c" using c(1) by (simp add: get_case_def)
  then have "publish_one env pt now ?c r s x = (Inr ''operator_email_not_configured'', ?s', x)"
    unfolding publish_one_def claim Let_def
    using c(2) m mark by (simp add: after_mark_def flip: msg_def)
  then show ?thesis
    using moved_again [OF claimed failed] by (auto simp: publish_row_def)
qed

lemma publish_rows_moved:
  assumes "notices_consistent s" "distinct (map co_outbox_id rs)"
    and "\<And>r. r \<in> set rs \<Longrightarrow> dget (as_outbox s) (co_outbox_id r) = Some r \<and> co_status r = CO_PENDING \<and> unreachable env pt s r"
  shows "\<exists>rep' s'. fold (publish_row env pt now token) rs (rep, s, x) = (rep', s', x) \<and>
    notices_moved failed_notice (set (map co_outbox_id rs)) s s'"
  using assms
proof (induction rs arbitrary: s rep)
  case Nil
  then show ?case by (simp add: moved_none)
next
  case (Cons r rs)
  obtain rep1 s1 where head: "publish_row env pt now token r (rep, s, x) = (rep1, s1, x)"
    and moved: "notices_moved failed_notice {co_outbox_id r} s s1"
    using publish_row_moved [OF Cons.prems(1)] Cons.prems(3) by (metis list.set_intros(1))
  have "dget (as_outbox s1) (co_outbox_id p) = Some p \<and> co_status p = CO_PENDING \<and> unreachable env pt s1 p" if "p \<in> set rs" for p
  proof -
    have "co_outbox_id p \<noteq> co_outbox_id r" by (rule distinct_other [OF Cons.prems(2) that])
    then have "dget (as_outbox s1) (co_outbox_id p) = dget (as_outbox s) (co_outbox_id p)"
      using movedD(4) [OF moved] by simp
    moreover have "same_notice p p" by (simp add: same_notice_def)
    moreover have "unreachable env pt s1 p"
      using unreachable_same [OF movedD(1) [OF moved] \<open>same_notice p p\<close>] Cons.prems(3) [OF list.set_intros(2) [OF that]] by blast
    ultimately show ?thesis using Cons.prems(3) [of p] that by (simp del: map_of_eq_Some_iff)
  qed
  then obtain rep' s' where "fold (publish_row env pt now token) rs (rep1, s1, x) = (rep', s', x)"
    "notices_moved failed_notice (set (map co_outbox_id rs)) s1 s'"
    using Cons.IH [OF movedD(3) [OF moved]] Cons.prems(2) by (metis distinct.simps(2) list.simps(9))
  then show ?case
    using head moved_chain [OF moved, of "set (map co_outbox_id rs)" s'] Cons.prems(2) by simp
qed

section \<open>The page that never moves\<close>

definition queued :: "case_outbox \<Rightarrow> bool" where
  "queued r \<longleftrightarrow> co_status r = CO_PENDING \<or> co_status r = CO_FAILED \<and> \<not> co_dead_letter r"

text \<open>The rows of \<open>P\<close> wait for tenants that cannot be reached, ahead of every other waiting row.\<close>

definition stuck_page :: "py_env \<Rightarrow> 'x alert_ports \<Rightarrow> uuid set \<Rightarrow> approval_store \<Rightarrow> bool" where
  "stuck_page env pt P s \<longleftrightarrow> notices_consistent s \<and> finite P \<and>
     (\<forall>k \<in> P. \<exists>r. dget (as_outbox s) k = Some r \<and> queued r \<and> unreachable env pt s r) \<and>
     (\<forall>j \<in> P. \<forall>k q r. k \<notin> P \<longrightarrow> dget (as_outbox s) j = Some q \<longrightarrow> dget (as_outbox s) k = Some r \<longrightarrow> queued r \<longrightarrow>
        notice_key q < notice_key r)"

definition listed :: "(case_outbox \<Rightarrow> bool) \<Rightarrow> approval_store \<Rightarrow> case_outbox list" where
  "listed T s = filter T (dvals (as_outbox s))"

lemma rows_listed:
  "failed_rows s limit = take (nat limit) (sort_key notice_key (listed failed_notice s))"
  "pending_rows s limit = take (nat limit) (sort_key notice_key (listed (\<lambda>r. co_status r = CO_PENDING) s))"
  if "0 \<le> limit"
proof -
  have status: "case_outbox_status_value a = ''failed'' \<longleftrightarrow> a = CO_FAILED"
    "case_outbox_status_value a = ''pending'' \<longleftrightarrow> a = CO_PENDING" for a
    by (cases a; simp)+
  have key: "(\<lambda>r. (co_created_at r, co_outbox_id r)) = notice_key" by (simp add: fun_eq_iff notice_key_def)
  have slice: "py_slice xs 0 limit = take (nat limit) xs" for xs :: "case_outbox list"
    using that by (simp add: py_slice_nonneg [of 0 limit, simplified])
  show "failed_rows s limit = take (nat limit) (sort_key notice_key (listed failed_notice s))"
    by (simp add: failed_rows_def list_case_outbox_def default_case_outbox_query_def Let_def key slice listed_def
        case_outbox_matches_def failed_notice_def status ex_bool_eq cong: filter_cong)
  show "pending_rows s limit = take (nat limit) (sort_key notice_key (listed (\<lambda>r. co_status r = CO_PENDING) s))"
    by (simp add: pending_rows_def list_case_outbox_def default_case_outbox_query_def Let_def key slice listed_def
        case_outbox_matches_def status cong: filter_cong)
qed

lemma listed_rows:
  assumes "notices_consistent s"
  shows "r \<in> set (listed T s) \<longleftrightarrow> dget (as_outbox s) (co_outbox_id r) = Some r \<and> T r" "distinct (map co_outbox_id (listed T s))"
proof -
  have wf: "wf_dict (as_outbox s)" using assms by (simp add: notices_consistent_def)
  show "r \<in> set (listed T s) \<longleftrightarrow> dget (as_outbox s) (co_outbox_id r) = Some r \<and> T r"
    using in_dvals_iff [OF wf, of r] consistentD(1) [OF assms] unfolding listed_def by (auto simp del: map_of_eq_Some_iff)
  have "map co_outbox_id (dvals (as_outbox s)) = dkeys (as_outbox s)"
    using consistentD(1) [OF assms] wf by (auto simp: map_of_eq_Some_iff)
  then show "distinct (map co_outbox_id (listed T s))"
    using wf unfolding listed_def by (metis distinct_map_filter)
qed

lemma stuckD:
  assumes "stuck_page env pt P s"
  shows "notices_consistent s" "finite P"
    "k \<in> P \<Longrightarrow> \<exists>r. dget (as_outbox s) k = Some r \<and> queued r \<and> unreachable env pt s r"
    "j \<in> P \<Longrightarrow> k \<notin> P \<Longrightarrow> dget (as_outbox s) j = Some q \<Longrightarrow> dget (as_outbox s) k = Some r \<Longrightarrow> queued r \<Longrightarrow>
       notice_key q < notice_key r"
  using assms unfolding stuck_page_def by blast+

lemma stuck_moved:
  assumes stuck: "stuck_page env pt P s" and moved: "notices_moved T I s s'"
    and kind: "\<And>q. T q \<Longrightarrow> queued q" "\<And>k r. k \<in> I \<Longrightarrow> dget (as_outbox s) k = Some r \<Longrightarrow> queued r"
  shows "stuck_page env pt P s'"
proof -
  have fore: "\<exists>q. dget (as_outbox s') k = Some q \<and> same_notice r q \<and> queued q"
    if "dget (as_outbox s) k = Some r" "queued r" for k r
    using that movedD(4) [OF moved, of k] movedD(5) [OF moved, of k r] kind(1)
    by (cases "k \<in> I") (auto simp: same_notice_def simp del: map_of_eq_Some_iff)
  have origin: "\<exists>r. dget (as_outbox s) k = Some r \<and> same_notice r q \<and> (queued q \<longrightarrow> queued r)"
    if q: "dget (as_outbox s') k = Some q" for k q
  proof (cases "k \<in> I")
    case True
    then obtain r q' where "dget (as_outbox s) k = Some r" "dget (as_outbox s') k = Some q'" "same_notice r q'"
      using moved unfolding notices_moved_def by blast
    then show ?thesis using kind(2) [OF True] q by (intro exI [of _ r]) (simp del: map_of_eq_Some_iff)
  next
    case False
    then show ?thesis using q movedD(4) [OF moved] by (intro exI [of _ q]) (simp add: same_notice_def del: map_of_eq_Some_iff)
  qed
  have "\<exists>q. dget (as_outbox s') k = Some q \<and> queued q \<and> unreachable env pt s' q" if "k \<in> P" for k
    using stuckD(3) [OF stuck that] fore unreachable_same [OF movedD(1) [OF moved]] by metis
  moreover have "notice_key q < notice_key r"
    if jk: "j \<in> P" "k \<notin> P" and rows: "dget (as_outbox s') j = Some q" "dget (as_outbox s') k = Some r" "queued r" for j k q r
  proof -
    obtain q0 r0 where "dget (as_outbox s) j = Some q0" "same_notice q0 q" "dget (as_outbox s) k = Some r0" "same_notice r0 r"
      "queued r0" using origin [OF rows(1)] origin [OF rows(2)] rows(3) by blast
    then show ?thesis using stuckD(4) [OF stuck jk] unfolding same_notice_def by metis
  qed
  ultimately show ?thesis
    unfolding stuck_page_def using movedD(3) [OF moved] stuckD(2) [OF stuck] by blast
qed

lemma distinct_sorted_ids: "distinct (map f (sort_key g xs)) = distinct (map f xs)"
  by (simp add: distinct_map inj_on_def)

lemma distinct_map_take: "distinct (map f xs) \<Longrightarrow> distinct (map f (take n xs))"
  by (metis distinct_take take_map)

lemma ids_count:
  assumes "distinct (map f xs)" "f ` set xs \<subseteq> P" "finite P"
  shows "length xs \<le> card P" "P \<subseteq> f ` set xs \<Longrightarrow> length xs = card P"
proof -
  have "length xs = card (f ` set xs)" using assms(1) by (metis distinct_card length_map set_map)
  then show "length xs \<le> card P" "P \<subseteq> f ` set xs \<Longrightarrow> length xs = card P"
    using card_mono [OF assms(3,2)] assms(2) by (auto simp: subset_antisym)
qed

lemma page_front:
  assumes stuck: "stuck_page env pt P s" and kind: "\<And>r. T r \<Longrightarrow> queued r"
  defines "Q \<equiv> \<lambda>r. co_outbox_id r \<in> P"
  shows "set (filter Q (listed T s)) \<subseteq> set (take (card P) (sort_key notice_key (listed T s)))"
    "(\<And>k. k \<in> P \<Longrightarrow> \<exists>r. dget (as_outbox s) k = Some r \<and> T r) \<Longrightarrow>
       set (take (card P) (sort_key notice_key (listed T s))) = set (filter Q (listed T s)) \<and>
       co_outbox_id ` set (filter Q (listed T s)) = P"
proof -
  note rows = listed_rows [OF stuckD(1) [OF stuck], where T = T]
  have order: "notice_key a < notice_key b" if "a \<in> set (listed T s)" "b \<in> set (listed T s)" "Q a" "\<not> Q b" for a b
    using that kind unfolding rows(1) Q_def by (intro stuckD(4) [OF stuck]) auto
  have ids: "distinct (map co_outbox_id (filter Q (listed T s)))" "co_outbox_id ` set (filter Q (listed T s)) \<subseteq> P"
    using rows(2) [THEN distinct_map_filter] unfolding Q_def by auto
  note front = sort_key_front [of "listed T s" Q notice_key, OF order ids_count(1) [OF ids stuckD(2) [OF stuck]]]
  show "set (filter Q (listed T s)) \<subseteq> set (take (card P) (sort_key notice_key (listed T s)))" by (rule front(1))
  assume all: "\<And>k. k \<in> P \<Longrightarrow> \<exists>r. dget (as_outbox s) k = Some r \<and> T r"
  have cover: "P \<subseteq> co_outbox_id ` set (filter Q (listed T s))"
  proof
    fix k assume k: "k \<in> P"
    obtain r where r: "dget (as_outbox s) k = Some r" "T r" using all [OF k] by blast
    have "co_outbox_id r = k" by (rule consistentD(1) [OF stuckD(1) [OF stuck] r(1)])
    then show "k \<in> co_outbox_id ` set (filter Q (listed T s))"
      using r k rows(1) [of r] by (intro image_eqI [of _ _ r]) (simp_all add: Q_def del: map_of_eq_Some_iff)
  qed
  show "set (take (card P) (sort_key notice_key (listed T s))) = set (filter Q (listed T s)) \<and>
      co_outbox_id ` set (filter Q (listed T s)) = P"
    using front(2) ids_count(2) [OF ids stuckD(2) [OF stuck] cover] cover ids(2) by (simp add: subset_antisym)
qed

text \<open>One sweep puts the page back and fails it again; no other waiting row is tried.\<close>

lemma sweep_stuck:
  assumes stuck: "stuck_page env pt P s" and size: "limit = int (card P)"
  shows "\<exists>rep s'. publish_page env pt now token limit s x = (Inr rep, s', x) \<and> stuck_page env pt P s' \<and>
    (\<forall>k r. k \<notin> P \<longrightarrow> dget (as_outbox s) k = Some r \<longrightarrow> \<not> failed_notice r \<longrightarrow> dget (as_outbox s') k = Some r)"
proof -
  let ?pending = "\<lambda>q. co_status q = CO_PENDING"
  let ?F = "failed_rows s limit"
  have listed_F: "?F = take (card P) (sort_key notice_key (listed failed_notice s))"
    using rows_listed(1) [of limit s] size by simp
  have F: "dget (as_outbox s) (co_outbox_id r) = Some r" "failed_notice r" if "r \<in> set ?F" for r
    using in_set_takeD [OF that [unfolded listed_F]] unfolding set_sort listed_rows(1) [OF stuckD(1) [OF stuck]] by blast+
  have "distinct (map co_outbox_id ?F)"
    unfolding listed_F by (simp add: distinct_map_take distinct_sorted_ids listed_rows(2) [OF stuckD(1) [OF stuck]])
  then obtain s1 where requeue: "requeue_rows ?F s = (Inr (map co_outbox_id ?F), s1)"
    and moved1: "notices_moved ?pending (set (map co_outbox_id ?F)) s s1"
    using requeue_moved [OF stuckD(1) [OF stuck] F(1)] by blast
  have in_F: "failed_notice r" if k: "k \<in> set (map co_outbox_id ?F)" and r: "dget (as_outbox s) k = Some r" for k r
  proof -
    obtain p where p: "p \<in> set ?F" "k = co_outbox_id p" using k unfolding set_map by blast
    have "p = r" using F(1) [OF p(1)] r unfolding p(2) by (simp del: map_of_eq_Some_iff)
    then show ?thesis using F(2) [OF p(1)] by simp
  qed
  have kinds: "queued q" if "failed_notice q \<or> ?pending q" for q
    using that by (auto simp: queued_def failed_notice_def)
  have stuck1: "stuck_page env pt P s1"
    by (rule stuck_moved [OF stuck moved1]) (use kinds in_F in blast)+
  have ready: "\<exists>r. dget (as_outbox s1) k = Some r \<and> ?pending r" if k: "k \<in> P" for k
  proof -
    obtain r where r: "dget (as_outbox s) k = Some r" "queued r" using stuckD(3) [OF stuck k] by blast
    have id: "co_outbox_id r = k" by (rule consistentD(1) [OF stuckD(1) [OF stuck] r(1)])
    show ?thesis
    proof (cases "k \<in> set (map co_outbox_id ?F)")
      case True
      then show ?thesis using movedD(5) [OF moved1 True r(1)] by blast
    next
      case False
      have "\<not> failed_notice r"
      proof
        assume "failed_notice r"
        then have "r \<in> set (filter (\<lambda>r. co_outbox_id r \<in> P) (listed failed_notice s))"
          using r(1) id k by (simp add: listed_rows(1) [OF stuckD(1) [OF stuck]] del: map_of_eq_Some_iff)
        then have "r \<in> set ?F"
          using page_front(1) [OF stuck, of failed_notice] kinds unfolding listed_F by blast
        then show False using False id unfolding set_map by blast
      qed
      then have "?pending r" using r(2) unfolding queued_def failed_notice_def by blast
      then show ?thesis using movedD(4) [OF moved1 False] r(1) by (simp del: map_of_eq_Some_iff)
    qed
  qed
  let ?L = "pending_rows s1 limit"
  have listed_L: "?L = take (card P) (sort_key notice_key (listed ?pending s1))"
    using rows_listed(2) [of limit s1] size by simp
  have page: "set ?L = set (filter (\<lambda>r. co_outbox_id r \<in> P) (listed ?pending s1))" "co_outbox_id ` set ?L = P"
    using page_front(2) [OF stuck1, of ?pending] ready kinds unfolding listed_L by blast+
  have L: "dget (as_outbox s1) (co_outbox_id r) = Some r \<and> ?pending r \<and> unreachable env pt s1 r" if "r \<in> set ?L" for r
  proof -
    have row: "dget (as_outbox s1) (co_outbox_id r) = Some r" "?pending r" "co_outbox_id r \<in> P"
      using that unfolding page(1) set_filter mem_Collect_eq listed_rows(1) [OF stuckD(1) [OF stuck1]] by blast+
    obtain q where q: "dget (as_outbox s1) (co_outbox_id r) = Some q" "unreachable env pt s1 q"
      using stuckD(3) [OF stuck1 row(3)] by blast
    have "q = r" using q(1) row(1) by (simp del: map_of_eq_Some_iff)
    then show ?thesis using row q(2) by simp
  qed
  have "distinct (map co_outbox_id ?L)"
    unfolding listed_L by (simp add: distinct_map_take distinct_sorted_ids listed_rows(2) [OF stuckD(1) [OF stuck1]])
  then obtain rep s2 where sent: "fold (publish_row env pt now token) ?L
      (\<lparr>al_requeued = map co_outbox_id ?F, al_published = [], al_skipped_stale = [], al_failed = []\<rparr>, s1, x) = (rep, s2, x)"
    and moved2: "notices_moved failed_notice P s1 s2"
    using publish_rows_moved [OF stuckD(1) [OF stuck1] _ L] page(2) by (metis set_map)
  have "stuck_page env pt P s2"
  proof (rule stuck_moved [OF stuck1 moved2])
    show "queued r" if "k \<in> P" "dget (as_outbox s1) k = Some r" for k r
      using stuckD(3) [OF stuck1 that(1)] that(2) by (auto simp del: map_of_eq_Some_iff)
  qed (use kinds in blast)
  moreover have "dget (as_outbox s2) k = Some r"
    if "k \<notin> P" "dget (as_outbox s) k = Some r" "\<not> failed_notice r" for k r
  proof -
    have "k \<notin> set (map co_outbox_id ?F)" using in_F that(2,3) by blast
    then show ?thesis using movedD(4) [OF moved1] movedD(4) [OF moved2 that(1)] that(2) by simp
  qed
  moreover have "publish_page env pt now token limit s x = (Inr rep, s2, x)"
    by (simp add: publish_page_def requeue sent)
  ultimately show ?thesis by blast
qed

fun alert_sweeps ::
  "py_env \<Rightarrow> 'x alert_ports \<Rightarrow> int \<Rightarrow> (int \<times> (uuid \<Rightarrow> string)) list \<Rightarrow> approval_store \<Rightarrow> 'x
     \<Rightarrow> approval_store \<times> 'x" where
  "alert_sweeps env pt limit [] s x = (s, x)"
| "alert_sweeps env pt limit ((now, token) # ts) s x =
     (case publish_page env pt now token limit s x of (_, s1, x1) \<Rightarrow> alert_sweeps env pt limit ts s1 x1)"

section \<open>Worked example\<close>

text \<open>Tenant \<open>t1\<close> has no e-mail channel; its notification is older than that of \<open>t2\<close>.\<close>

definition demo_alert_ports :: "string list alert_ports" where
  "demo_alert_ports = \<lparr>lp_custody = True, lp_email_channel = (\<lambda>x t. Inr (t = ''t2'')),
     lp_alert_address = (\<lambda>x t. Inr (Some ''ops@t2'')),
     lp_credentials = (\<lambda>x t. Inr [(''access_key_id'', PStr ''a''), (''secret_access_key'', PStr ''b''), (''region'', PStr ''r''),
       (''source_email_address'', PStr ''us@t2'')]),
     lp_send = (\<lambda>x route subject body. (Inr (), ot_recipient route # x)), lp_body = (\<lambda>c. ca_case_id c)\<rparr>"

definition demo_notice :: "uuid \<Rightarrow> uuid \<Rightarrow> string \<Rightarrow> int \<Rightarrow> case_outbox" where
  "demo_notice i c t at = \<lparr>co_outbox_id = i, co_case_id = c, co_tenant_id = t, co_status = CO_PENDING, co_created_at = at,
     co_claimed_at = None, co_published_at = None, co_publisher_id = None, co_claim_id = None, co_republish_count = 0,
     co_dead_letter = False, co_last_error = None, co_metadata = []\<rparr>"

definition demo_notices :: approval_store where
  "demo_notices = \<lparr>as_cases = [(''c1'', demo_case), (''c2'', demo_case\<lparr>ca_case_id := ''c2'', ca_tenant_id := ''t2''\<rparr>)],
     as_dedup = [], as_outbox = [(''o1'', demo_notice ''o1'' ''c1'' ''t1'' 0), (''o2'', demo_notice ''o2'' ''c2'' ''t2'' 1)],
     as_outbox_by_case = [(''c1'', ''o1''), (''c2'', ''o2'')]\<rparr>"

lemma demo_stuck: "stuck_page env demo_alert_ports {''o1''} demo_notices"
proof -
  have "unreachable env demo_alert_ports demo_notices (demo_notice ''o1'' ''c1'' ''t1'' 0)"
    by (simp add: unreachable_def demo_notices_def demo_notice_def get_case_def demo_case_def demo_alert_ports_def
        resolve_operator_email_route_def raise_unless_def)
  then show ?thesis
    by (simp add: stuck_page_def notices_consistent_def demo_notices_def demo_notice_def queued_def notice_key_def)
qed

lemma demo_large_page:
  "(case publish_page reply_env demo_alert_ports 5 (\<lambda>i. i @ ''-claim'') 2 demo_notices [] of
     (Inr rep, s, x) \<Rightarrow> al_published rep = [''o2''] \<and> x = [''ops@t2''] | _ \<Rightarrow> False)"
  by code_simp

section \<open>Starvation\<close>

text \<open>(C37) When the oldest waiting notifications fill the page of the sweep and their tenants have no
  usable e-mail route, every sweep fails them and puts them back, and a pending notification
  behind them is never claimed, its e-mail never sent, however often the sweep runs.\<close>

theorem notice_starved:
  assumes "stuck_page env pt P s" "limit = int (card P)"
    and "k \<notin> P" "dget (as_outbox s) k = Some r" "co_status r = CO_PENDING"
  shows "dget (as_outbox (fst (alert_sweeps env pt limit ts s x))) k = Some r \<and> snd (alert_sweeps env pt limit ts s x) = x"
  using assms(1,4)
proof (induction ts arbitrary: s)
  case Nil
  then show ?case by simp
next
  case (Cons sweep ts)
  obtain now token where sweep: "sweep = (now, token)" by (cases sweep)
  obtain rep s1 where run: "publish_page env pt now token limit s x = (Inr rep, s1, x)" "stuck_page env pt P s1"
    and kept: "\<not> failed_notice r \<Longrightarrow> dget (as_outbox s1) k = Some r"
    using sweep_stuck [OF Cons.prems(1) assms(2), of now token x] assms(3) Cons.prems(2) by blast
  have "\<not> failed_notice r" using assms(5) by (simp add: failed_notice_def)
  then show ?case using Cons.IH [OF run(2) kept] by (simp add: sweep run(1))
qed

lemma notice_starved_witness:
  "(\<forall>ts. dget (as_outbox (fst (alert_sweeps reply_env demo_alert_ports 1 ts demo_notices []))) ''o2''
      = Some (demo_notice ''o2'' ''c2'' ''t2'' 1) \<and> snd (alert_sweeps reply_env demo_alert_ports 1 ts demo_notices []) = [])"
proof -
  have "dget (as_outbox demo_notices) ''o2'' = Some (demo_notice ''o2'' ''c2'' ''t2'' 1)" by (simp add: demo_notices_def)
  moreover have "co_status (demo_notice ''o2'' ''c2'' ''t2'' 1) = CO_PENDING" by (simp add: demo_notice_def)
  ultimately show ?thesis
    using notice_starved [OF demo_stuck, of 1 "''o2''"] by simp
qed

end
