(* ===== verification/Crisis_Policies.thy ===== *)
theory Crisis_Policies
  imports Execution_Model Governance_Engine
begin

text \<open>
  The crisis policies (\<open>app/governance/policies/crisis.py\<close>) that operators activate
  through Redis keys, and the intercept event published when one of them blocks
  (\<open>app/governance/crisis/stream.py\<close>).  A policy sees Redis as a function from keys to
  replies, the state of the keys while it runs; the subscription side of the event
  stream is left out.
\<close>

section \<open>Activation keys\<close>

text \<open>What \<open>redis.get\<close> does: it raises, finds nothing, or returns text or bytes, \<open>None\<close>
  when the bytes are not UTF-8.\<close>

datatype redis_reply = Redis_Raises | Redis_Missing | Redis_Text string | Redis_Bytes "string option"

definition crisis_key :: "string \<Rightarrow> string \<Rightarrow> string \<Rightarrow> string" where
  "crisis_key tenant_id template scope =
     (if scope \<noteq> [] then ''crisis:'' @ tenant_id @ '':'' @ template @ '':'' @ scope
      else ''crisis:'' @ tenant_id @ '':'' @ template)"

fun get_activation :: "redis_reply \<Rightarrow> (string \<times> string) + string option" where
  "get_activation Redis_Raises = Inr None"
| "get_activation Redis_Missing = Inr None"
| "get_activation (Redis_Text s) = Inr (Some s)"
| "get_activation (Redis_Bytes (Some s)) = Inr (Some s)"
| "get_activation (Redis_Bytes None) = Inl (''UnicodeDecodeError'', ''invalid utf-8'')"

definition crisis_allow :: "int \<Rightarrow> string \<Rightarrow> string \<Rightarrow> string \<Rightarrow> rule_result" where
  "crisis_allow now name rule_id reason =
     new_rule_result now name rule_id ALLOW SEV_LOW reason
       [(''crisis_policy'', PStr name), (''active'', PBool False)]"

definition crisis_result :: "int \<Rightarrow> string \<Rightarrow> string \<Rightarrow> decision \<Rightarrow> string \<Rightarrow> metadata \<Rightarrow> rule_result" where
  "crisis_result now name rule_id d reason md =
     new_rule_result now name rule_id d SEV_CRITICAL reason
       (dmerge [(''crisis_policy'', PStr name), (''active'', PBool True)] md)"

section \<open>What a context mentions\<close>

fun subject_metadata :: "subject \<Rightarrow> metadata" where
  "subject_metadata (Generic _ m) = m"
| "subject_metadata (Retrieval s) = ret_metadata s"
| "subject_metadata (Execution s) = es_metadata s"
| "subject_metadata (Capability s) = cs_metadata s"
| "subject_metadata (Agent_Action s) = as_metadata s"
| "subject_metadata (Other _ _ m) = m"

primrec string_fragments :: "pyval \<Rightarrow> string list" where
  "string_fragments PNone = []"
| "string_fragments (PBool b) = []"
| "string_fragments (PInt n) = []"
| "string_fragments (PFloat x) = []"
| "string_fragments (PStr s) = (if py_strip s = [] then [] else [py_strip s])"
| "string_fragments (PList vs) = concat (map string_fragments vs)"
| "string_fragments (PDict d) = concat (map snd (map (map_prod (\<lambda>k. k) string_fragments) d))"

definition subject_text :: "governance_context \<Rightarrow> string" where
  "subject_text c =
     join '' '' (filter (\<lambda>part. part \<noteq> [])
       ((case g_subject c of
           Execution s \<Rightarrow> [es_query s]
         | Generic d _ \<Rightarrow> string_fragments (PDict d)
         | _ \<Rightarrow> []) @
        string_fragments (PDict (subject_metadata (g_subject c))) @ string_fragments (PDict (g_metadata c))))"

fun stripped_text :: "pyval \<Rightarrow> string option" where
  "stripped_text (PStr s) = (if py_strip s = [] then None else Some (py_strip s))"
| "stripped_text _ = None"

definition or_else :: "'a option \<Rightarrow> 'a option \<Rightarrow> 'a option" where
  "or_else a b = (case a of Some _ \<Rightarrow> a | None \<Rightarrow> b)"

text \<open>Only the cluster subject, to which no crisis policy applies, has a \<open>category\<close> attribute.\<close>

definition subject_category :: "governance_context \<Rightarrow> string option" where
  "subject_category c =
     (let md = subject_metadata (g_subject c)
      in or_else (stripped_text (get_or_none md ''category''))
        (or_else (stripped_text (get_or_none md ''issue_category''))
           (case g_subject c of
              Generic d _ \<Rightarrow> stripped_text (get_or_none d ''category'')
            | _ \<Rightarrow> None)))"

definition mentions_refund_action :: "py_env \<Rightarrow> governance_context \<Rightarrow> bool" where
  "mentions_refund_action env c =
     substring ''refund'' (str_lower env (join '' ''
       ([g_action c, g_resource c] @
        (case g_subject c of
           Agent_Action s \<Rightarrow>
             [as_capability s, (case as_tool_name s of None \<Rightarrow> [] | Some t \<Rightarrow> t), as_target_resource s, as_execution_scope s]
         | Execution s \<Rightarrow> [es_execution_action s]
         | _ \<Rightarrow> []) @
        string_fragments (PDict (subject_metadata (g_subject c))))))"

text \<open>The matches of \<open>[A-Za-z0-9][A-Za-z0-9_-]{1,63}\<close>, left to right.\<close>

definition sku_start :: "char \<Rightarrow> bool" where
  "sku_start c \<longleftrightarrow> (let n = of_char c :: nat in (48 \<le> n \<and> n \<le> 57) \<or> (65 \<le> n \<and> n \<le> 90) \<or> (97 \<le> n \<and> n \<le> 122))"

definition sku_char :: "char \<Rightarrow> bool" where
  "sku_char c \<longleftrightarrow> sku_start c \<or> c = CHR ''_'' \<or> c = CHR ''-''"

function sku_tokens :: "string \<Rightarrow> string list" where
  "sku_tokens [] = []"
| "sku_tokens (c # cs) =
     (let body = takeWhile sku_char (take 63 cs)
      in if sku_start c \<and> body \<noteq> [] then (c # body) # sku_tokens (drop (length body) cs)
         else sku_tokens cs)"
  by pat_completeness auto
termination by (relation "measure length") auto

text \<open>Each token, its upper and its lower case, without repetition, at most 64.\<close>

fun collect_candidates :: "string list \<Rightarrow> string list \<Rightarrow> string list" where
  "collect_candidates [] found = found"
| "collect_candidates (x # xs) found =
     (if x = [] \<or> x \<in> set found then collect_candidates xs found
      else if length found + 1 \<ge> 64 then found @ [x]
      else collect_candidates xs (found @ [x]))"

definition sku_candidates :: "py_env \<Rightarrow> string \<Rightarrow> string list" where
  "sku_candidates env text =
     collect_candidates
       (concat (map (\<lambda>t. [py_strip t, str_upper env (py_strip t), str_lower env (py_strip t)]) (sku_tokens text))) []"

section \<open>The policies\<close>

type_synonym redis_view = "string \<Rightarrow> redis_reply"

fun block_sku_scan ::
  "int \<Rightarrow> redis_view \<Rightarrow> string \<Rightarrow> string list \<Rightarrow> (string \<times> string) + rule_result list" where
  "block_sku_scan now redis tenant [] =
     Inr [crisis_allow now ''crisis.block_sku'' ''crisis_dormant'' ''crisis:block_sku dormant'']"
| "block_sku_scan now redis tenant (sku # skus) =
     (case get_activation (redis (crisis_key tenant ''block_sku'' sku)) of
        Inl exc \<Rightarrow> Inl exc
      | Inr None \<Rightarrow> block_sku_scan now redis tenant skus
      | Inr (Some _) \<Rightarrow>
          Inr [crisis_result now ''crisis.block_sku'' ''crisis_block_sku'' DENY
                 (''crisis:block_sku denied ticket mentioning SKU '' @ sku)
                 [(''template'', PStr ''block_sku''), (''sku'', PStr sku),
                  (''redis_key'', PStr (crisis_key tenant ''block_sku'' sku))]])"

definition block_sku_evaluate ::
  "py_env \<Rightarrow> int \<Rightarrow> redis_view \<Rightarrow> governance_context \<Rightarrow> (string \<times> string) + rule_result list" where
  "block_sku_evaluate env now redis c =
     (case tenant_id_for c of
        None \<Rightarrow> Inr [crisis_allow now ''crisis.block_sku'' ''crisis_dormant''
                  ''crisis:block_sku dormant; tenant unavailable'']
      | Some tenant \<Rightarrow> block_sku_scan now redis tenant (sku_candidates env (subject_text c)))"

definition halt_refunds_evaluate ::
  "py_env \<Rightarrow> int \<Rightarrow> redis_view \<Rightarrow> governance_context \<Rightarrow> (string \<times> string) + rule_result list" where
  "halt_refunds_evaluate env now redis c =
     (let name = ''crisis.halt_refunds''
      in case tenant_id_for c of
        None \<Rightarrow> Inr [crisis_allow now name ''crisis_dormant'' ''crisis:halt_refunds dormant; tenant unavailable'']
      | Some tenant \<Rightarrow>
     (case get_activation (redis (crisis_key tenant ''halt_refunds'' [])) of
        Inl exc \<Rightarrow> Inl exc
      | Inr None \<Rightarrow> Inr [crisis_allow now name ''crisis_dormant'' ''crisis:halt_refunds dormant'']
      | Inr (Some _) \<Rightarrow>
          if \<not> mentions_refund_action env c then
            Inr [crisis_allow now name ''crisis_active_subject_not_refund''
                   ''crisis:halt_refunds active but subject is not a refund action'']
          else
            Inr [crisis_result now name ''crisis_halt_refunds'' REQUIRE_APPROVAL
                   ''crisis:halt_refunds requires approval for refund action''
                   [(''template'', PStr ''halt_refunds''),
                    (''redis_key'', PStr (crisis_key tenant ''halt_refunds'' []))]]))"

definition escalate_all_evaluate ::
  "int \<Rightarrow> redis_view \<Rightarrow> governance_context \<Rightarrow> (string \<times> string) + rule_result list" where
  "escalate_all_evaluate now redis c =
     (let name = ''crisis.escalate_all''
      in case tenant_id_for c of
        None \<Rightarrow> Inr [crisis_allow now name ''crisis_dormant'' ''crisis:escalate_all dormant; tenant unavailable'']
      | Some tenant \<Rightarrow>
     (case get_activation (redis (crisis_key tenant ''escalate_all'' [])) of
        Inl exc \<Rightarrow> Inl exc
      | Inr None \<Rightarrow> Inr [crisis_allow now name ''crisis_dormant'' ''crisis:escalate_all dormant'']
      | Inr (Some _) \<Rightarrow>
          Inr [crisis_result now name ''crisis_escalate_all'' ESCALATE
                 ''crisis:escalate_all escalated tenant execution''
                 [(''template'', PStr ''escalate_all''),
                  (''redis_key'', PStr (crisis_key tenant ''escalate_all'' []))]]))"

definition freeze_category_evaluate ::
  "int \<Rightarrow> redis_view \<Rightarrow> governance_context \<Rightarrow> (string \<times> string) + rule_result list" where
  "freeze_category_evaluate now redis c =
     (let name = ''crisis.freeze_category''
      in case (tenant_id_for c, subject_category c) of
        (Some tenant, Some category) \<Rightarrow>
          (case get_activation (redis (crisis_key tenant ''freeze_category'' category)) of
             Inl exc \<Rightarrow> Inl exc
           | Inr None \<Rightarrow> Inr [crisis_allow now name ''crisis_dormant'' ''crisis:freeze_category dormant'']
           | Inr (Some _) \<Rightarrow>
               Inr [crisis_result now name ''crisis_freeze_category'' DENY
                      (''crisis:freeze_category denied category '' @ category)
                      [(''template'', PStr ''freeze_category''), (''category'', PStr category),
                       (''redis_key'', PStr (crisis_key tenant ''freeze_category'' category))]])
      | _ \<Rightarrow> Inr [crisis_allow now name ''crisis_dormant''
                ''crisis:freeze_category dormant; tenant or category unavailable''])"

definition crisis_policy ::
  "string \<Rightarrow> subject_kind list \<Rightarrow> (governance_context \<Rightarrow> (string \<times> string) + rule_result list) \<Rightarrow> policy" where
  "crisis_policy name kinds evaluate =
     \<lparr>pol_name = name, pol_stages = [PRE_EXECUTION], pol_kinds = kinds, pol_evaluate = evaluate\<rparr>"

definition build_crisis_policies :: "py_env \<Rightarrow> int \<Rightarrow> redis_view option \<Rightarrow> policy list" where
  "build_crisis_policies env now redis =
     (case redis of
        None \<Rightarrow> []
      | Some r \<Rightarrow>
          [crisis_policy ''crisis.block_sku'' [EXECUTION, GENERIC] (block_sku_evaluate env now r),
           crisis_policy ''crisis.halt_refunds'' [AGENT_ACTION, EXECUTION, GENERIC] (halt_refunds_evaluate env now r),
           crisis_policy ''crisis.escalate_all'' [EXECUTION, AGENT_ACTION, GENERIC] (escalate_all_evaluate now r),
           crisis_policy ''crisis.freeze_category'' [EXECUTION, GENERIC] (freeze_category_evaluate now r)])"

fun register_policies :: "py_env \<Rightarrow> policy_registry \<Rightarrow> policy list \<Rightarrow> policy_registry result" where
  "register_policies env reg [] = Inr reg"
| "register_policies env reg (p # ps) =
     (case register_policy env reg p of Inl e \<Rightarrow> Inl e | Inr reg' \<Rightarrow> register_policies env reg' ps)"

definition build_crisis_policy_registry :: "py_env \<Rightarrow> int \<Rightarrow> redis_view \<Rightarrow> policy_registry result" where
  "build_crisis_policy_registry env now redis = register_policies env [] (build_crisis_policies env now (Some redis))"

definition crisis_rule :: "rule_result \<Rightarrow> bool" where
  "crisis_rule r \<longleftrightarrow> r_decision r \<noteq> ALLOW \<and> take 7 (r_policy_name r) = ''crisis.''"

definition crisis_policy_name_from_decision :: "governance_decision \<Rightarrow> string option" where
  "crisis_policy_name_from_decision d = map_option r_policy_name (find crisis_rule (gd_evaluated_rules d))"

section \<open>Intercept events\<close>

definition crisis_channel :: "string \<Rightarrow> string" where
  "crisis_channel tenant_id = ''crisis:intercept:'' @ tenant_id"

text \<open>Channel and message, when the decision carries a blocking crisis rule; that publishing
  fails is only logged.\<close>

definition crisis_intercept_event ::
  "py_env \<Rightarrow> int \<Rightarrow> string \<Rightarrow> string \<Rightarrow> governance_decision \<Rightarrow> string option \<Rightarrow> (string \<times> string) option" where
  "crisis_intercept_event env now tenant_id execution_id d category =
     map_option (\<lambda>name.
       (crisis_channel tenant_id,
        json_compact env (PDict
          [(''type'', PStr ''intercept''), (''execution_id'', PStr execution_id), (''template'', PStr name),
           (''category'', opt_pstr category), (''reason'', PStr (gd_reason d)),
           (''intercepted_at'', PStr (isoformat env now)), (''tenant_id'', PStr tenant_id)])))
       (crisis_policy_name_from_decision d)"

end
