(* ===== verification/Action_Policy.thy ===== *)
theory Action_Policy
  imports Crisis_Policies
begin

text \<open>
  The policy that decides which actions an agent may take on its own: the
  declared operations (\<open>app/agents/tools/operation_metadata.py\<close>) and the tenant's
  \<open>action_tools\<close> policy, its parser and its evaluation
  (\<open>app/agents/tools/action_governance.py\<close>).  The payload and target builders of the
  operations are left out, as is the alert the policy logs.  A dash in a message is
  written as a hyphen, strings being made of code points below 256.
\<close>

section \<open>Declared operations\<close>

datatype commitment_kind = CK_NONE | CK_RECORD_UPDATE | CK_MONEY | CK_GOODS | CK_SERVICE_COMMITMENT

fun commitment_value :: "commitment_kind \<Rightarrow> string" where
  "commitment_value CK_NONE = ''none''"
| "commitment_value CK_RECORD_UPDATE = ''record_update''"
| "commitment_value CK_MONEY = ''money''"
| "commitment_value CK_GOODS = ''goods''"
| "commitment_value CK_SERVICE_COMMITMENT = ''service_commitment''"

definition all_commitment_kinds :: "commitment_kind list" where
  "all_commitment_kinds = [CK_NONE, CK_RECORD_UPDATE, CK_MONEY, CK_GOODS, CK_SERVICE_COMMITMENT]"

datatype approval_mode = TENANT_POLICY | ALWAYS_REQUIRE_APPROVAL

fun approval_mode_value :: "approval_mode \<Rightarrow> string" where
  "approval_mode_value TENANT_POLICY = ''tenant_policy''"
| "approval_mode_value ALWAYS_REQUIRE_APPROVAL = ''always_require_approval''"

datatype execution_policy = AUTO_EXECUTE | OPERIOUS_APPROVAL

datatype rule_kind = CONFIDENCE_MEMBERSHIP | ALWAYS | AMOUNT_THRESHOLD | VALUE_BANDS

record registered_operation =
  rop_operation_id :: string
  rop_tool_name :: string
  rop_action_types :: "string list"
  rop_commitment_kind :: commitment_kind
  rop_approval_policy :: approval_mode
  rop_target_expr :: string
  rop_policy_key :: "string option"
  rop_rule_kind :: "rule_kind option"
  rop_required_rule :: bool

record resolved_operation =
  op_operation_id :: "string option"
  op_tool_name :: "string option"
  op_action_type :: "string option"
  op_commitment_kind :: "commitment_kind option"
  op_approval_policy :: "approval_mode option"
  op_target_expr :: "string option"
  op_policy_key :: "string option"
  op_rule_kind :: "rule_kind option"
  op_required_rule :: bool

definition from_registered :: "registered_operation \<Rightarrow> string option \<Rightarrow> resolved_operation" where
  "from_registered r action_type =
     \<lparr>op_operation_id = Some (rop_operation_id r), op_tool_name = Some (rop_tool_name r),
      op_action_type = action_type, op_commitment_kind = Some (rop_commitment_kind r),
      op_approval_policy = Some (rop_approval_policy r), op_target_expr = Some (rop_target_expr r),
      op_policy_key = rop_policy_key r, op_rule_kind = rop_rule_kind r,
      op_required_rule = rop_required_rule r\<rparr>"

text \<open>The policy key of a declared operation is its tool name.\<close>

definition declare_operation ::
  "string \<Rightarrow> string \<Rightarrow> string list \<Rightarrow> commitment_kind \<Rightarrow> approval_mode \<Rightarrow> string \<Rightarrow> rule_kind \<Rightarrow> bool
     \<Rightarrow> registered_operation" where
  "declare_operation i tool types commitment approval target kind required =
     \<lparr>rop_operation_id = i, rop_tool_name = tool, rop_action_types = types,
      rop_commitment_kind = commitment, rop_approval_policy = approval, rop_target_expr = target,
      rop_policy_key = Some tool, rop_rule_kind = Some kind, rop_required_rule = required\<rparr>"

definition REGISTERED_OPERATIONS :: "registered_operation list" where
  "REGISTERED_OPERATIONS =
     [declare_operation ''operation.warranty_claim'' ''warranty.claim'' [''warranty_claim'']
        CK_GOODS TENANT_POLICY ''order:{order_id}:sku:{product_sku}'' CONFIDENCE_MEMBERSHIP True,
      declare_operation ''operation.replacement_order'' ''replacement.order'' [''replacement_order'']
        CK_GOODS TENANT_POLICY ''order:{order_id}:sku:{product_sku}'' ALWAYS True,
      declare_operation ''operation.refund_request'' ''refund.request'' [''refund_request'']
        CK_MONEY TENANT_POLICY ''order:{order_id}:sku:{product_sku}'' AMOUNT_THRESHOLD True,
      declare_operation ''operation.warehouse_repair_report'' ''warehouse.repair.report'' [''warehouse_repair'']
        CK_NONE TENANT_POLICY ''sku:{product_sku}'' VALUE_BANDS True,
      declare_operation ''operation.repair_dispatch'' ''repair.dispatch'' [''repair.dispatch'']
        CK_GOODS TENANT_POLICY ''repair:{order_id}:{product_sku}'' ALWAYS False,
      declare_operation ''operation.replacement_dispatch'' ''replacement.dispatch'' []
        CK_GOODS TENANT_POLICY ''repair:{order_id}:{product_sku}'' ALWAYS False,
      declare_operation ''operation.warranty_dispatch'' ''warranty.dispatch'' []
        CK_GOODS TENANT_POLICY ''repair:{order_id}:{product_sku}'' ALWAYS False,
      declare_operation ''operation.repair_booking'' ''repair.booking'' [''repair_booking'']
        CK_GOODS ALWAYS_REQUIRE_APPROVAL ''booking:{order_id}:{product_sku}'' ALWAYS False]"

definition registered_by_tool :: "string \<Rightarrow> registered_operation option" where
  "registered_by_tool name = find (\<lambda>r. rop_tool_name r = name) REGISTERED_OPERATIONS"

definition registered_by_action_type :: "string \<Rightarrow> registered_operation option" where
  "registered_by_action_type t = find (\<lambda>r. t \<in> set (rop_action_types r)) REGISTERED_OPERATIONS"

definition known_action_tool_names :: "string list" where
  "known_action_tool_names = map rop_tool_name REGISTERED_OPERATIONS"

definition tool_name_for_action_type :: "string option \<Rightarrow> string option" where
  "tool_name_for_action_type t = map_option rop_tool_name (Option.bind t registered_by_action_type)"

text \<open>\<open>_metadata_str\<close>; \<open>_text\<close> is \<open>stripped_text\<close>.\<close>

definition metadata_str :: "metadata \<Rightarrow> string \<Rightarrow> string option" where
  "metadata_str md k = stripped_text (get_or_none md k)"

definition commitment_of :: "pyval \<Rightarrow> commitment_kind option" where
  "commitment_of v = (case stripped_text v of None \<Rightarrow> None
     | Some t \<Rightarrow> find (\<lambda>k. commitment_value k = t) all_commitment_kinds)"

definition approval_mode_of :: "pyval \<Rightarrow> approval_mode option" where
  "approval_mode_of v = (case stripped_text v of None \<Rightarrow> None
     | Some t \<Rightarrow> find (\<lambda>m. approval_mode_value m = t) [TENANT_POLICY, ALWAYS_REQUIRE_APPROVAL])"

definition resolve_explicit_metadata ::
  "metadata \<Rightarrow> string option \<Rightarrow> string option \<Rightarrow> resolved_operation option" where
  "resolve_explicit_metadata md tool_name action_type =
     (let operation_id = metadata_str md ''operation_id'';
          commitment = commitment_of (get_or_none md ''operation_commitment_kind'');
          approval = approval_mode_of (get_or_none md ''operation_approval_policy'');
          target = metadata_str md ''operation_target_resource_expr''
      in if operation_id = None \<and> commitment = None \<and> approval = None \<and> target = None then None
         else Some
           \<lparr>op_operation_id = str_or operation_id (str_or tool_name (str_or action_type (Some ''declared_operation''))),
            op_tool_name = tool_name, op_action_type = action_type, op_commitment_kind = commitment,
            op_approval_policy = approval, op_target_expr = target, op_policy_key = None,
            op_rule_kind = None, op_required_rule = False\<rparr>)"

definition resolve_operation ::
  "metadata \<Rightarrow> string option \<Rightarrow> string option \<Rightarrow> resolved_operation option" where
  "resolve_operation md tool_name action_type =
     or_else (resolve_explicit_metadata md tool_name action_type)
    (or_else (map_option (\<lambda>r. from_registered r action_type) (Option.bind tool_name registered_by_tool))
             (map_option (\<lambda>r. from_registered r action_type)
               (Option.bind action_type registered_by_action_type)))"

definition operation_metadata :: "resolved_operation option \<Rightarrow> metadata" where
  "operation_metadata resolved =
     (case resolved of None \<Rightarrow> []
      | Some r \<Rightarrow>
          (case op_operation_id r of None \<Rightarrow> [] | Some i \<Rightarrow> [(''operation_id'', PStr i)]) @
          (case op_commitment_kind r of None \<Rightarrow> []
           | Some k \<Rightarrow> [(''operation_commitment_kind'', PStr (commitment_value k))]) @
          (case op_approval_policy r of None \<Rightarrow> []
           | Some m \<Rightarrow> [(''operation_approval_policy'', PStr (approval_mode_value m))]) @
          (case op_target_expr r of None \<Rightarrow> []
           | Some e \<Rightarrow> [(''operation_target_resource_expr'', PStr e)]))"

section \<open>Comparing floats\<close>

text \<open>The order of binary64 values on their bit patterns: sign and magnitude, the two
  zeros equal, a NaN comparable to nothing.\<close>

definition float_nan :: "pyfloat \<Rightarrow> bool" where
  "float_nan x \<longleftrightarrow> unat x mod 2 ^ 63 > 0x7FF0000000000000"

definition float_key :: "pyfloat \<Rightarrow> int" where
  "float_key x = (if unat x < 2 ^ 63 then int (unat x) else 2 ^ 63 - int (unat x))"

definition float_le :: "pyfloat \<Rightarrow> pyfloat \<Rightarrow> bool" where
  "float_le x y \<longleftrightarrow> \<not> float_nan x \<and> \<not> float_nan y \<and> float_key x \<le> float_key y"

definition float_negative :: "pyfloat \<Rightarrow> bool" where
  "float_negative x \<longleftrightarrow> \<not> float_nan x \<and> float_key x < 0"

text \<open>\<open>x or 0.0\<close>.\<close>

definition float_or_zero :: "pyfloat option \<Rightarrow> pyfloat" where
  "float_or_zero v = (case v of None \<Rightarrow> 0 | Some x \<Rightarrow> if float_key x = 0 then 0 else x)"

section \<open>Policies\<close>

record action_policy_binding =
  ab_policy_id :: string
  ab_policy_type :: string
  ab_version :: int
  ab_content_sha256 :: string

text \<open>\<open>TenantGovernancePolicyRecord\<close>, the fields the policy reads.\<close>

record governance_policy_row =
  gp_policy_id :: string
  gp_policy_type :: string
  gp_version :: int
  gp_content_sha256 :: string
  gp_parameters :: pyval

datatype action_rule =
    ConfidenceMembershipRule string pyfloat string "string list" decision
  | AlwaysRule decision
  | AmountThresholdRule string int decision "string option" "pyfloat option"
  | ValueBandsRule string "string list" "string list"

record custom_tool =
  ct_tool_name :: string
  ct_commitment_kind :: commitment_kind
  ct_decision :: decision
  ct_execution_policy :: "execution_policy option"

record parsed_policy =
  pp_binding :: action_policy_binding
  pp_rules :: "(string, action_rule) dict"
  pp_custom_tools :: "(string, custom_tool) dict"

definition binding_for :: "governance_policy_row \<Rightarrow> action_policy_binding" where
  "binding_for r = \<lparr>ab_policy_id = gp_policy_id r, ab_policy_type = gp_policy_type r,
     ab_version = gp_version r, ab_content_sha256 = gp_content_sha256 r\<rparr>"

definition binding_metadata :: "action_policy_binding \<Rightarrow> metadata" where
  "binding_metadata b =
     [(''action_policy.policy_id'', PStr (ab_policy_id b)),
      (''action_policy.policy_type'', PStr (ab_policy_type b)),
      (''action_policy.version'', PInt (ab_version b)),
      (''action_policy.content_sha256'', PStr (ab_content_sha256 b))]"

definition policy_version_text :: "action_policy_binding \<Rightarrow> string" where
  "policy_version_text b =
     ab_policy_type b @ '':'' @ ab_policy_id b @ '':v'' @ show_int (ab_version b) @ '':'' @ ab_content_sha256 b"

section \<open>Parsing\<close>

text \<open>\<open>ActionPolicyParseError\<close> is raised as an \<open>AgentError\<close> of that class; turning an
  integer beyond the float range into a float raises \<open>OverflowError\<close> instead.\<close>

definition parse_error :: "string \<Rightarrow> error" where
  "parse_error m = AgentError ''ActionPolicyParseError'' m"

definition bind_result :: "'a result \<Rightarrow> ('a \<Rightarrow> 'b result) \<Rightarrow> 'b result" where
  "bind_result r f = (case r of Inl e \<Rightarrow> Inl e | Inr v \<Rightarrow> f v)"

fun require_mapping :: "pyval \<Rightarrow> string \<Rightarrow> metadata result" where
  "require_mapping (PDict d) field = Inr d"
| "require_mapping _ field = Inl (parse_error (field @ '' must be an object''))"

fun require_strings :: "string \<Rightarrow> pyval list \<Rightarrow> string list result" where
  "require_strings field [] = Inr []"
| "require_strings field (v # vs) =
     (case stripped_text v of
        None \<Rightarrow> Inl (parse_error (field @ '' must contain only non-empty strings''))
      | Some s \<Rightarrow> bind_result (require_strings field vs) (\<lambda>ss. Inr (s # ss)))"

fun require_string_set :: "pyval \<Rightarrow> string \<Rightarrow> string list result" where
  "require_string_set (PList vs) field =
     bind_result (require_strings field vs)
       (\<lambda>ss. if ss = [] then Inl (parse_error (field @ '' must be non-empty'')) else Inr ss)"
| "require_string_set _ field = Inl (parse_error (field @ '' must be a non-empty string list''))"

definition require_nonnegative :: "string \<Rightarrow> pyfloat \<Rightarrow> pyfloat result" where
  "require_nonnegative field x =
     (if float_negative x then Inl (parse_error (field @ '' must be non-negative'')) else Inr x)"

fun require_float :: "py_env \<Rightarrow> pyval \<Rightarrow> string \<Rightarrow> pyfloat result" where
  "require_float env (PInt n) field =
     (case float_of_int env n of None \<Rightarrow> Inl OverflowError | Some x \<Rightarrow> require_nonnegative field x)"
| "require_float env (PFloat x) field = require_nonnegative field x"
| "require_float env _ field = Inl (parse_error (field @ '' must be a number''))"

fun require_int :: "pyval \<Rightarrow> string \<Rightarrow> int result" where
  "require_int (PInt n) field =
     (if n < 0 then Inl (parse_error (field @ '' must be non-negative'')) else Inr n)"
| "require_int _ field = Inl (parse_error (field @ '' must be an integer''))"

definition decision_words :: "(string, decision) dict" where
  "decision_words = [(''allow'', ALLOW), (''deny'', DENY), (''require_approval'', REQUIRE_APPROVAL),
     (''requires_approval'', REQUIRE_APPROVAL)]"

definition require_policy_decision ::
  "py_env \<Rightarrow> pyval \<Rightarrow> string \<Rightarrow> decision list \<Rightarrow> decision result" where
  "require_policy_decision env v field allowed =
     (case v of
        PStr s \<Rightarrow>
          (case dget decision_words (str_lower env (py_strip s)) of
             Some d \<Rightarrow> if d \<in> set allowed then Inr d
                       else Inl (parse_error (field @ '' must be one of: '' @
                              join '', '' (sort (map decision_value allowed))))
           | None \<Rightarrow> Inl (parse_error (field @ '' must be one of: '' @
                              join '', '' (sort (map decision_value allowed)))))
      | _ \<Rightarrow> Inl (parse_error (field @ '' must be a decision string'')))"

definition dashes_to_underscores :: "string \<Rightarrow> string" where
  "dashes_to_underscores s = map (\<lambda>c. if c = CHR ''-'' then CHR ''_'' else c) s"

text \<open>\<open>_parse_custom_tool_declaration\<close>; \<open>prefix\<close> is \<open>tools.<name>\<close>.\<close>

definition commitment_choices :: string where
  "commitment_choices = join '', '' (map commitment_value all_commitment_kinds)"

definition parse_commitment :: "py_env \<Rightarrow> string \<Rightarrow> pyval \<Rightarrow> commitment_kind result" where
  "parse_commitment env prefix v =
     (case stripped_text v of
        None \<Rightarrow> Inl (parse_error (prefix @ ''.commitment_kind is required and must be a non-empty string (one of: '' @
                     commitment_choices @ '')''))
      | Some s \<Rightarrow>
          (case find (\<lambda>k. commitment_value k = str_lower env s) all_commitment_kinds of
             None \<Rightarrow> Inl (parse_error (prefix @ ''.commitment_kind '' @ repr_str env (py_str env v) @
                          '' is not valid; must be one of: '' @ commitment_choices))
           | Some k \<Rightarrow> Inr k))"

definition parse_execution_policy :: "py_env \<Rightarrow> string \<Rightarrow> pyval \<Rightarrow> execution_policy option result" where
  "parse_execution_policy env prefix v =
     (if v = PNone then Inr None
      else case stripped_text v of
        None \<Rightarrow> Inl (parse_error (prefix @ ''.execution_policy must be a non-empty string''))
      | Some s \<Rightarrow>
          (let word = dashes_to_underscores (str_lower env s)
           in if word = ''auto_execute'' then Inr (Some AUTO_EXECUTE)
              else if word = ''operious_approval'' then Inr (Some OPERIOUS_APPROVAL)
              else Inl (parse_error (prefix @ ''.execution_policy '' @ repr_str env (py_str env v) @
                     '' is not valid; must be one of: auto_execute, operious_approval''))))"

definition parse_custom_decision :: "py_env \<Rightarrow> string \<Rightarrow> pyval \<Rightarrow> decision result" where
  "parse_custom_decision env prefix v =
     (case stripped_text v of
        None \<Rightarrow> Inl (parse_error (prefix @ ''.decision must be a non-empty string''))
      | Some s \<Rightarrow>
          (case dget decision_words (dashes_to_underscores (str_lower env s)) of
             None \<Rightarrow> Inl (parse_error (prefix @ ''.decision '' @ repr_str env (py_str env v) @
                          '' is not valid; must be one of: allow, deny, require_approval''))
           | Some d \<Rightarrow> Inr d))"

definition parse_custom_tool :: "py_env \<Rightarrow> string \<Rightarrow> metadata \<Rightarrow> custom_tool result" where
  "parse_custom_tool env tool_name entry =
     (let prefix = ''tools.'' @ tool_name
      in bind_result (parse_commitment env prefix (get_or_none entry ''commitment_kind'')) (\<lambda>k.
         bind_result (parse_execution_policy env prefix (get_or_none entry ''execution_policy'')) (\<lambda>p.
         bind_result (parse_custom_decision env prefix
             (case dget entry ''decision'' of Some v \<Rightarrow> v | None \<Rightarrow> PStr ''require_approval'')) (\<lambda>d.
         Inr \<lparr>ct_tool_name = tool_name, ct_commitment_kind = k, ct_decision = d,
              ct_execution_policy = p\<rparr>))))"

text \<open>\<open>_parse_operation_rule\<close>; \<open>ceiling\<close> is \<open>_max_auto_approve_amount_cents()\<close>.\<close>

definition parse_operation_rule ::
  "py_env \<Rightarrow> int \<Rightarrow> rule_kind \<Rightarrow> string \<Rightarrow> metadata \<Rightarrow> action_rule result" where
  "parse_operation_rule env ceiling kind prefix rule =
     (case kind of
        CONFIDENCE_MEMBERSHIP \<Rightarrow>
          bind_result (require_mapping (get_or_none rule ''allow'') (prefix @ ''.allow'')) (\<lambda>allow.
          bind_result (require_float env (get_or_none allow ''confidence_gte'') (prefix @ ''.allow.confidence_gte'')) (\<lambda>c.
          bind_result (require_string_set (get_or_none allow ''issue_category_in'') (prefix @ ''.allow.issue_category_in'')) (\<lambda>vs.
          bind_result (require_policy_decision env (get_or_none rule ''else'') (prefix @ ''.else'') [REQUIRE_APPROVAL, DENY]) (\<lambda>d.
          Inr (ConfidenceMembershipRule ''diagnostic_confidence'' c ''issue_category'' vs d)))))
      | ALWAYS \<Rightarrow>
          bind_result (require_policy_decision env (get_or_none rule ''always'') (prefix @ ''.always'')
              [ALLOW, REQUIRE_APPROVAL, DENY]) (\<lambda>d. Inr (AlwaysRule d))
      | AMOUNT_THRESHOLD \<Rightarrow>
          bind_result (require_mapping (get_or_none rule ''allow'') (prefix @ ''.allow'')) (\<lambda>allow.
          bind_result (require_int
              (if get_or_none allow ''refund_amount_cents_lte'' = PNone then get_or_none allow ''amount_cents_lte''
               else get_or_none allow ''refund_amount_cents_lte'')
              (prefix @ ''.allow.refund_amount_cents_lte'')) (\<lambda>limit.
          if ceiling < limit then
            Inl (parse_error (prefix @ ''.allow.refund_amount_cents_lte='' @ show_int limit @
                   '' exceeds the platform ceiling of '' @ show_int ceiling @
                   '' cents (PLATFORM_MAX_AUTO_APPROVE_AMOUNT_CENTS). Reduce the threshold or increase the platform ceiling.''))
          else
            bind_result (if get_or_none allow ''confidence_gte'' = PNone then Inr None
                else bind_result (require_float env (get_or_none allow ''confidence_gte'')
                       (prefix @ ''.allow.confidence_gte'')) (\<lambda>c. Inr (Some c))) (\<lambda>c.
            bind_result (require_policy_decision env (get_or_none rule ''else'') (prefix @ ''.else'')
                [REQUIRE_APPROVAL, DENY]) (\<lambda>d.
            Inr (AmountThresholdRule ''refund_amount_cents'' limit d (Some ''diagnostic_confidence'') c)))))
      | VALUE_BANDS \<Rightarrow>
          bind_result (require_mapping (get_or_none rule ''allow'') (prefix @ ''.allow'')) (\<lambda>allow.
          bind_result (require_mapping (get_or_none rule ''require_approval'') (prefix @ ''.require_approval'')) (\<lambda>approval.
          bind_result (require_string_set (get_or_none allow ''severity_in'') (prefix @ ''.allow.severity_in'')) (\<lambda>vs.
          bind_result (require_string_set (get_or_none approval ''severity_in'') (prefix @ ''.require_approval.severity_in'')) (\<lambda>ws.
          Inr (ValueBandsRule ''severity'' vs ws))))))"

fun parse_registered_rules ::
  "py_env \<Rightarrow> int \<Rightarrow> metadata \<Rightarrow> registered_operation list \<Rightarrow> (string, action_rule) dict
     \<Rightarrow> (string, action_rule) dict result" where
  "parse_registered_rules env ceiling tools [] rules = Inr rules"
| "parse_registered_rules env ceiling tools (r # rs) rules =
     (case (rop_policy_key r, rop_rule_kind r) of
        (Some key, Some kind) \<Rightarrow>
          if dget tools key = None then parse_registered_rules env ceiling tools rs rules
          else
            bind_result (require_mapping (get_or_none tools key) key) (\<lambda>rule.
            bind_result (parse_operation_rule env ceiling kind key rule) (\<lambda>parsed.
            parse_registered_rules env ceiling tools rs (dset (rop_operation_id r) parsed rules)))
      | _ \<Rightarrow> parse_registered_rules env ceiling tools rs rules)"

fun parse_custom_tools ::
  "py_env \<Rightarrow> metadata \<Rightarrow> string list \<Rightarrow> (string, custom_tool) dict \<Rightarrow> (string, custom_tool) dict result" where
  "parse_custom_tools env tools [] custom = Inr custom"
| "parse_custom_tools env tools (key # keys) custom =
     (if py_strip key = [] then Inl (parse_error ''custom tool keys must be non-empty strings'')
      else
        bind_result (require_mapping (get_or_none tools key) (''tools.'' @ key)) (\<lambda>entry.
        bind_result (parse_custom_tool env (py_strip key) entry) (\<lambda>declared.
        parse_custom_tools env tools keys (dset (py_strip key) declared custom))))"

definition registered_policy_keys :: "string list" where
  "registered_policy_keys = concat (map (\<lambda>r. case rop_policy_key r of None \<Rightarrow> [] | Some k \<Rightarrow> [k]) REGISTERED_OPERATIONS)"

definition required_policy_keys :: "string list" where
  "required_policy_keys =
     concat (map (\<lambda>r. case rop_policy_key r of None \<Rightarrow> [] | Some k \<Rightarrow> if rop_required_rule r then [k] else [])
       REGISTERED_OPERATIONS)"

text \<open>The keys of custom tools are a \<open>frozenset\<close>; \<open>order\<close> is the order in which Python
  iterates it.\<close>

definition parse_action_tools_parameters ::
  "py_env \<Rightarrow> (string list \<Rightarrow> string list) \<Rightarrow> int \<Rightarrow> metadata \<Rightarrow> action_policy_binding \<Rightarrow> parsed_policy result" where
  "parse_action_tools_parameters env order ceiling parameters binding =
     bind_result (require_mapping (get_or_none parameters ''tools'') ''tools'') (\<lambda>tools.
       let custom_keys = filter (\<lambda>k. k \<notin> set registered_policy_keys) (dkeys tools);
           custom_only = custom_keys \<noteq> [] \<and> list_all (\<lambda>k. k \<notin> set registered_policy_keys) (dkeys tools);
           missing = sort (filter (\<lambda>k. k \<notin> set (dkeys tools)) required_policy_keys)
       in if \<not> custom_only \<and> missing \<noteq> [] then
            Inl (parse_error (''missing required tool rule(s): '' @ join '', '' missing))
          else
            bind_result (parse_registered_rules env ceiling tools REGISTERED_OPERATIONS []) (\<lambda>rules.
            bind_result (parse_custom_tools env tools (order custom_keys) []) (\<lambda>custom.
            Inr \<lparr>pp_binding = binding, pp_rules = rules, pp_custom_tools = custom\<rparr>)))"

definition parse_action_tools_policy ::
  "py_env \<Rightarrow> (string list \<Rightarrow> string list) \<Rightarrow> int \<Rightarrow> governance_policy_row \<Rightarrow> parsed_policy result" where
  "parse_action_tools_policy env order ceiling row =
     bind_result (require_mapping (gp_parameters row) ''parameters'') (\<lambda>parameters.
     parse_action_tools_parameters env order ceiling parameters (binding_for row))"

definition validate_action_tools_policy_parameters ::
  "py_env \<Rightarrow> (string list \<Rightarrow> string list) \<Rightarrow> int \<Rightarrow> pyval \<Rightarrow> unit result" where
  "validate_action_tools_policy_parameters env order ceiling v =
     bind_result (require_mapping v ''parameters'') (\<lambda>parameters.
     bind_result (parse_action_tools_parameters env order ceiling parameters
       \<lparr>ab_policy_id = ''validation'', ab_policy_type = ''action_tools'', ab_version = 0,
        ab_content_sha256 = replicate 64 (CHR ''0'')\<rparr>) (\<lambda>_. Inr ()))"

section \<open>Evaluation\<close>

definition action_result ::
  "int \<Rightarrow> string \<Rightarrow> decision \<Rightarrow> violation_severity \<Rightarrow> string \<Rightarrow> action_policy_binding option \<Rightarrow> rule_result" where
  "action_result now rule_id d sev reason binding =
     (new_rule_result now ''tenant.action_tools'' rule_id d sev reason
        (case binding of None \<Rightarrow> [] | Some b \<Rightarrow> binding_metadata b))
      \<lparr>r_policy_version := (case binding of None \<Rightarrow> ''unversioned'' | Some b \<Rightarrow> policy_version_text b)\<rparr>"

definition allow_action :: "int \<Rightarrow> string \<Rightarrow> action_policy_binding \<Rightarrow> rule_result" where
  "allow_action now reason b = action_result now ''action_tool_allowed'' ALLOW SEV_LOW reason (Some b)"

definition require_action_approval :: "int \<Rightarrow> string \<Rightarrow> action_policy_binding \<Rightarrow> rule_result" where
  "require_action_approval now reason b =
     action_result now ''action_tool_requires_approval'' REQUIRE_APPROVAL SEV_MEDIUM reason (Some b)"

definition deny_action :: "int \<Rightarrow> string \<Rightarrow> action_policy_binding option \<Rightarrow> rule_result" where
  "deny_action now reason b = action_result now ''action_tool_denied'' DENY SEV_HIGH reason b"

text \<open>\<open>_metadata_int\<close>; \<open>_metadata_float\<close> is \<open>optional_float\<close>.\<close>

fun metadata_int :: "py_env \<Rightarrow> pyval \<Rightarrow> int option" where
  "metadata_int env (PInt n) = Some n"
| "metadata_int env (PStr s) = int_of_str env s"
| "metadata_int env _ = None"

text \<open>\<open>_metadata_money_goods_conflict\<close>: a \<open>bool\<close> is an \<open>int\<close> for \<open>isinstance\<close>.\<close>

fun positive_int :: "pyval \<Rightarrow> bool" where
  "positive_int (PInt n) = (n > 0)"
| "positive_int (PBool b) = b"
| "positive_int _ = False"

definition commits :: "commitment_kind \<Rightarrow> bool" where
  "commits k \<longleftrightarrow> k \<in> set [CK_MONEY, CK_GOODS, CK_SERVICE_COMMITMENT]"

definition money_goods_conflict :: "py_env \<Rightarrow> metadata \<Rightarrow> commitment_kind \<Rightarrow> string option" where
  "money_goods_conflict env md declared =
     (if commits declared then None
      else
        let raw_kind = get_or_none md ''operation_commitment_kind'';
            raw_amount = get_or_none md ''refund_amount_cents''
        in case raw_kind of
             PStr s \<Rightarrow>
               if str_lower env (py_strip s) \<in> set (map commitment_value [CK_MONEY, CK_GOODS, CK_SERVICE_COMMITMENT])
               then Some (''metadata key '' @ repr_str env ''operation_commitment_kind'' @ ''='' @
                      repr_str env (py_strip s) @ '' conflicts with declared '' @
                      repr_str env (commitment_value declared))
               else if positive_int raw_amount
               then Some (''metadata key '' @ repr_str env ''refund_amount_cents'' @ ''='' @ py_str env raw_amount @
                      '' is present and positive, suggesting a money commitment despite declared '' @
                      repr_str env (commitment_value declared))
               else None
           | _ \<Rightarrow>
               if positive_int raw_amount
               then Some (''metadata key '' @ repr_str env ''refund_amount_cents'' @ ''='' @ py_str env raw_amount @
                      '' is present and positive, suggesting a money commitment despite declared '' @
                      repr_str env (commitment_value declared))
               else None)"

definition evaluate_custom_tool ::
  "py_env \<Rightarrow> int \<Rightarrow> string option \<Rightarrow> parsed_policy \<Rightarrow> metadata \<Rightarrow> rule_result" where
  "evaluate_custom_tool env now tool_name policy md =
     (let b = pp_binding policy
      in case tool_name of
        None \<Rightarrow> require_action_approval now ''operation governance metadata is missing or unknown'' b
      | Some name \<Rightarrow>
     (case dget (pp_custom_tools policy) name of
        None \<Rightarrow> require_action_approval now
          (''tool '' @ repr_str env name @ '' is not registered in the tenant action policy; routing to human review (safe default for unconfigured tools)'') b
      | Some t \<Rightarrow>
     (case ct_execution_policy t of
        Some AUTO_EXECUTE \<Rightarrow> allow_action now
          (''custom tool '' @ repr_str env name @ '' set to auto_execute by tenant policy; firing immediately - tenant's system owns downstream authorization'') b
      | Some OPERIOUS_APPROVAL \<Rightarrow> require_action_approval now
          (''custom tool '' @ repr_str env name @ '' requires operious approval per tenant policy'') b
      | None \<Rightarrow>
          if commits (ct_commitment_kind t) then require_action_approval now
            (''custom tool '' @ repr_str env name @ '' declares commitment_kind='' @
             repr_str env (commitment_value (ct_commitment_kind t)) @
             ''; money/goods/service commitments require explicit execution_policy=auto_execute to auto-fire - routing to human approval (legacy invariant preserved)'') b
          else
     (case money_goods_conflict env md (ct_commitment_kind t) of
        Some conflict \<Rightarrow> require_action_approval now
          (''custom tool '' @ repr_str env name @ '' is declared as commitment_kind='' @
           repr_str env (commitment_value (ct_commitment_kind t)) @
           '' but request metadata indicates a possible money/goods commitment ('' @ conflict @
           ''); routing to human review as a precaution (verify commitment_kind declaration is correct)'') b
      | None \<Rightarrow>
          if ct_decision t = ALLOW then allow_action now ''custom tool allowed by tenant policy'' b
          else if ct_decision t = DENY then deny_action now ''custom tool denied by tenant policy'' (Some b)
          else require_action_approval now
            (''custom tool '' @ repr_str env name @ '' requires human approval per tenant policy'') b))))"

text \<open>The result of the rule's other branch.\<close>

definition else_result :: "int \<Rightarrow> decision \<Rightarrow> string \<Rightarrow> action_policy_binding \<Rightarrow> rule_result" where
  "else_result now d reason b =
     (if d = REQUIRE_APPROVAL then require_action_approval now reason b
      else deny_action now ''operation denied by tenant policy'' (Some b))"

fun evaluate_operation_rule ::
  "py_env \<Rightarrow> int \<Rightarrow> metadata \<Rightarrow> action_policy_binding \<Rightarrow> action_rule \<Rightarrow> rule_result result" where
  "evaluate_operation_rule env now md b (ConfidenceMembershipRule cf gte mf allowed d) =
     bind_result (optional_float env (get_or_none md cf)) (\<lambda>confidence.
     Inr (if float_le gte (float_or_zero confidence) \<and>
             (case metadata_str md mf of None \<Rightarrow> [] | Some v \<Rightarrow> v) \<in> set allowed
          then allow_action now ''operation passed tenant policy thresholds'' b
          else else_result now d ''operation requires manager approval'' b))"
| "evaluate_operation_rule env now md b (AmountThresholdRule af lte d cf gte) =
     (case metadata_int env (get_or_none md af) of
        None \<Rightarrow> Inr (deny_action now ''operation amount is required'' (Some b))
      | Some amount \<Rightarrow>
          bind_result
            (case (gte, cf) of
               (Some g, Some f) \<Rightarrow>
                 bind_result (optional_float env (get_or_none md f))
                   (\<lambda>c. Inr (case c of None \<Rightarrow> False | Some x \<Rightarrow> float_le g x))
             | _ \<Rightarrow> Inr True)
            (\<lambda>confident.
               Inr (if amount \<le> lte \<and> confident
                    then allow_action now ''operation amount is within auto-allow threshold'' b
                    else else_result now d ''operation exceeds auto-allow threshold'' b)))"
| "evaluate_operation_rule env now md b (ValueBandsRule vf allowed approval) =
     Inr (case metadata_str md vf of
            None \<Rightarrow> deny_action now ''operation value is invalid'' (Some b)
          | Some v \<Rightarrow>
              if v \<in> set allowed then allow_action now ''operation value is auto-allow'' b
              else if v \<in> set approval then require_action_approval now ''operation value requires approval'' b
              else deny_action now ''operation value is invalid'' (Some b))"
| "evaluate_operation_rule env now md b (AlwaysRule d) =
     Inr (if d = ALLOW then allow_action now ''operation is allowed by tenant policy'' b
          else else_result now d ''operation requires manager approval'' b)"

definition rule_for :: "parsed_policy \<Rightarrow> resolved_operation \<Rightarrow> action_rule option" where
  "rule_for policy operation = Option.bind (op_operation_id operation) (dget (pp_rules policy))"

definition judge_action ::
  "py_env \<Rightarrow> int \<Rightarrow> parsed_policy \<Rightarrow> metadata \<Rightarrow> rule_result result" where
  "judge_action env now policy md =
     (let b = pp_binding policy; tool_name = metadata_str md ''tool_name''
      in case resolve_operation md tool_name (metadata_str md ''action_type'') of
        None \<Rightarrow> Inr (evaluate_custom_tool env now tool_name policy md)
      | Some operation \<Rightarrow>
          if op_commitment_kind operation = None then
            Inr (require_action_approval now ''operation commitment kind is missing or invalid'' b)
          else if op_approval_policy operation = Some ALWAYS_REQUIRE_APPROVAL then
            Inr (require_action_approval now ''operation approval policy requires human review'' b)
          else if op_approval_policy operation \<noteq> Some TENANT_POLICY then
            Inr (require_action_approval now ''operation approval policy is missing or invalid'' b)
          else case rule_for policy operation of
            None \<Rightarrow> Inr (deny_action now ''operation is not configured in tenant policy'' (Some b))
          | Some rule \<Rightarrow> evaluate_operation_rule env now md b rule)"

definition tenant_id_from_context :: "governance_context \<Rightarrow> string option" where
  "tenant_id_from_context c =
     (case g_tenant_id c of
        Some t \<Rightarrow> Some t
      | None \<Rightarrow> (case subject_tenant (g_subject c) of
                   Some s \<Rightarrow> if py_strip s = [] then None else Some (py_strip s)
                 | None \<Rightarrow> None))"

text \<open>What the policy reads: \<open>tp_active\<close> is \<open>resolve_active_governance_policy\<close> of the
  tenant configuration repository, \<open>None\<close> when no repository was given.\<close>

record action_policy_config =
  tp_active :: "(string \<Rightarrow> string \<Rightarrow> governance_policy_row option result) option"
  tp_policy_type :: string
  tp_order :: "string list \<Rightarrow> string list"
  tp_ceiling :: int

definition tenant_action_evaluate ::
  "py_env \<Rightarrow> int \<Rightarrow> action_policy_config \<Rightarrow> governance_context \<Rightarrow> (string \<times> string) + rule_result list" where
  "tenant_action_evaluate env now cfg c =
     (case tp_active cfg of
        None \<Rightarrow> Inr [deny_action now ''tenant action policy repository is not configured'' None]
      | Some active \<Rightarrow>
     (case tenant_id_from_context c of
        None \<Rightarrow> Inr [deny_action now ''tenant action policy requires tenant_id'' None]
      | Some tenant \<Rightarrow>
     (case active (tp_policy_type cfg) tenant of
        Inl e \<Rightarrow> Inl (error_text e)
      | Inr None \<Rightarrow> Inr [deny_action now (''no active '' @ repr_str env (tp_policy_type cfg) @ '' policy for tenant'') None]
      | Inr (Some row) \<Rightarrow>
     (case parse_action_tools_policy env (tp_order cfg) (tp_ceiling cfg) row of
        Inl (AgentError cls m) \<Rightarrow>
          Inr [deny_action now (''tenant action policy is invalid: '' @ m) (Some (binding_for row))]
      | Inl e \<Rightarrow> Inl (error_text e)
      | Inr policy \<Rightarrow>
     (case judge_action env now policy (subject_metadata (g_subject c)) of
        Inl e \<Rightarrow> Inl (error_text e)
      | Inr r \<Rightarrow> Inr [r])))))"

definition tenant_action_policy :: "py_env \<Rightarrow> int \<Rightarrow> action_policy_config \<Rightarrow> policy" where
  "tenant_action_policy env now cfg =
     \<lparr>pol_name = ''tenant.action_tools'', pol_stages = [PRE_EXECUTION], pol_kinds = [AGENT_ACTION],
      pol_evaluate = tenant_action_evaluate env now cfg\<rparr>"

section \<open>The action runtime\<close>

definition build_action_tool_governance_runtime ::
  "py_env \<Rightarrow> int \<Rightarrow> redis_view option \<Rightarrow> action_policy_config \<Rightarrow> governance_runtime result" where
  "build_action_tool_governance_runtime env now redis cfg =
     bind_result (register_handlers env [] (builtin_handlers env)) (\<lambda>reg.
     bind_result (make_chain env ''agent.action_tools.pre_execution'' PRE_EXECUTION
         (build_crisis_policies env now redis @ [tenant_action_policy env now cfg]) ''unversioned'') (\<lambda>chain.
     make_runtime env reg [(PRE_EXECUTION, chain)]))"

end
