(* ===== verification/Agent_Model.thy ===== *)
theory Agent_Model
  imports Action_Policy
begin

text \<open>
  The vocabulary of the agent runtime (\<open>app/agents\<close>): execution states and their
  transition table (\<open>enums.py\<close>, \<open>state_machine.py\<close>), capabilities and constraints
  (\<open>capabilities.py\<close>), identities (\<open>identity.py\<close>, \<open>app/core/deterministic_identity.py\<close>),
  contexts, requests, results, traces and envelopes, the tool and agent registries, and
  the retry policies of diagnostic errors.  Traces carry no clock readings, as in the
  governance component.
\<close>

section \<open>Execution states\<close>

datatype agent_state = AX_CREATED | AX_READY | AX_RUNNING | AX_WAITING | AX_BLOCKED
  | AX_FAILED | AX_COMPLETED | AX_CANCELLED

fun agent_state_value :: "agent_state \<Rightarrow> string" where
  "agent_state_value AX_CREATED = ''created''"
| "agent_state_value AX_READY = ''ready''"
| "agent_state_value AX_RUNNING = ''running''"
| "agent_state_value AX_WAITING = ''waiting''"
| "agent_state_value AX_BLOCKED = ''blocked''"
| "agent_state_value AX_FAILED = ''failed''"
| "agent_state_value AX_COMPLETED = ''completed''"
| "agent_state_value AX_CANCELLED = ''cancelled''"

fun valid_transitions :: "agent_state \<Rightarrow> agent_state list" where
  "valid_transitions AX_CREATED = [AX_READY, AX_CANCELLED, AX_FAILED]"
| "valid_transitions AX_READY = [AX_RUNNING, AX_CANCELLED, AX_FAILED]"
| "valid_transitions AX_RUNNING = [AX_WAITING, AX_BLOCKED, AX_COMPLETED, AX_FAILED, AX_CANCELLED]"
| "valid_transitions AX_WAITING = [AX_RUNNING, AX_BLOCKED, AX_COMPLETED, AX_FAILED, AX_CANCELLED]"
| "valid_transitions AX_BLOCKED = [AX_RUNNING, AX_FAILED, AX_CANCELLED]"
| "valid_transitions AX_FAILED = []"
| "valid_transitions AX_COMPLETED = []"
| "valid_transitions AX_CANCELLED = []"

definition is_terminal :: "agent_state \<Rightarrow> bool" where
  "is_terminal s \<longleftrightarrow> s \<in> set [AX_COMPLETED, AX_FAILED, AX_CANCELLED]"

definition can_transition :: "agent_state \<Rightarrow> agent_state \<Rightarrow> bool" where
  "can_transition s t \<longleftrightarrow> t \<in> set (valid_transitions s)"

text \<open>The arrow of the message is written in two characters.\<close>

definition assert_transition :: "py_env \<Rightarrow> agent_state \<Rightarrow> agent_state \<Rightarrow> unit result" where
  "assert_transition env s t =
     (if can_transition s t then Inr ()
      else Inl (StateTransitionError (''illegal state transition: '' @ repr_str env (agent_state_value s) @
             '' -> '' @ repr_str env (agent_state_value t))))"

definition allowed_targets :: "agent_state \<Rightarrow> agent_state list" where
  "allowed_targets s = valid_transitions s"

section \<open>Retry policies\<close>

record retry_policy =
  ry_max_retries :: int
  ry_base_delay_seconds :: int
  ry_backoff_multiplier :: pyfloat
  ry_terminal :: bool
  ry_queue :: string

text \<open>The bit patterns of 1.0 and 2.0.\<close>

definition retry_rule :: "int \<Rightarrow> int \<Rightarrow> pyfloat \<Rightarrow> retry_policy" where
  "retry_rule retries delay backoff =
     \<lparr>ry_max_retries = retries, ry_base_delay_seconds = delay, ry_backoff_multiplier = backoff,
      ry_terminal = False, ry_queue = ''diagnostic.retry''\<rparr>"

definition terminal_rule :: retry_policy where
  "terminal_rule = \<lparr>ry_max_retries = 0, ry_base_delay_seconds = 0, ry_backoff_multiplier = 0x3FF0000000000000,
     ry_terminal = True, ry_queue = ''dead_letter''\<rparr>"

definition RETRY_POLICIES :: "(string, retry_policy) dict" where
  "RETRY_POLICIES =
     [(''PROVIDER_429'', retry_rule 4 60 0x4000000000000000),
      (''PROVIDER_5XX'', retry_rule 3 30 0x4000000000000000),
      (''PARSING_FAILURE'', retry_rule 1 10 0x3FF0000000000000),
      (''SEMANTIC_REJECTION'', terminal_rule),
      (''GOVERNANCE_DENY'', terminal_rule),
      (''PERSISTENCE_FAILURE'', retry_rule 3 15 0x4000000000000000),
      (''QUOTA_EXCEEDED'', retry_rule 4 60 0x4000000000000000)]"

definition get_retry_policy :: "string \<Rightarrow> retry_policy" where
  "get_retry_policy error_class =
     (case dget RETRY_POLICIES error_class of Some p \<Rightarrow> p | None \<Rightarrow> retry_rule 2 30 0x4000000000000000)"

section \<open>Capabilities and constraints\<close>

datatype capability_scope = SCOPE_READ | SCOPE_WRITE | SCOPE_INVOKE | SCOPE_ESCALATE

record agent_capability =
  cap_name :: string
  cap_scope :: capability_scope
  cap_description :: string
  cap_metadata :: metadata

type_synonym capability_set = "agent_capability list"

definition has_capability :: "capability_set \<Rightarrow> string \<Rightarrow> bool" where
  "has_capability caps name \<longleftrightarrow> (\<exists>c\<in>set caps. cap_name c = name)"

definition capability_names :: "capability_set \<Rightarrow> string list" where
  "capability_names caps = sort (remdups (map cap_name caps))"

text \<open>\<open>CapabilitySet.required\<close>: the names the set does not cover.\<close>

definition required_missing :: "capability_set \<Rightarrow> string list \<Rightarrow> string list" where
  "required_missing caps names = filter (\<lambda>n. n \<notin> set (map cap_name caps)) names"

record execution_constraints =
  xc_max_tool_invocations :: int
  xc_allowed_tools :: "string list"
  xc_timeout_ms :: "int option"
  xc_metadata :: metadata

definition default_constraints :: execution_constraints where
  "default_constraints = \<lparr>xc_max_tool_invocations = 50, xc_allowed_tools = [], xc_timeout_ms = None, xc_metadata = []\<rparr>"

definition permits_tool :: "execution_constraints \<Rightarrow> string \<Rightarrow> bool" where
  "permits_tool k name \<longleftrightarrow> (if xc_allowed_tools k = [] then True else name \<in> set (xc_allowed_tools k))"

section \<open>Identities\<close>

text \<open>\<open>_json_safe\<close> on a JSON value sorts the keys of every object.\<close>

primrec json_safe :: "pyval \<Rightarrow> pyval" where
  "json_safe PNone = PNone"
| "json_safe (PBool b) = PBool b"
| "json_safe (PInt n) = PInt n"
| "json_safe (PFloat x) = PFloat x"
| "json_safe (PStr s) = PStr s"
| "json_safe (PList vs) = PList (map json_safe vs)"
| "json_safe (PDict d) = PDict (sort_key fst (map (map_prod (\<lambda>k. k) json_safe) d))"

definition derive_runtime_id :: "py_env \<Rightarrow> uuid \<Rightarrow> string option \<Rightarrow> pyval list \<Rightarrow> uuid" where
  "derive_runtime_id env namespace tenant_id seed_components =
     uuid5 env namespace (json_compact env (PDict
       [(''tenant_id'', PStr (case tenant_id of None \<Rightarrow> [] | Some t \<Rightarrow> t)),
        (''seed_components'', PList (map json_safe seed_components))]))"

definition derive_agent_runtime_instance_id :: "py_env \<Rightarrow> string list \<Rightarrow> uuid" where
  "derive_agent_runtime_instance_id env agent_ids =
     derive_runtime_id env ''aa6e7001-0001-4001-8001-000000000001'' None
       [PStr ''agent_runtime'', PList (map PStr (sort agent_ids))]"

definition derive_agent_execution_id ::
  "py_env \<Rightarrow> string \<Rightarrow> metadata \<Rightarrow> string option \<Rightarrow> uuid option \<Rightarrow> uuid option \<Rightarrow> string option \<Rightarrow> metadata \<Rightarrow> uuid"
  where
  "derive_agent_execution_id env agent_id request tenant_id correlation_id parent_execution_id request_id md =
     derive_runtime_id env ''aa6e7001-0002-4002-8002-000000000002'' tenant_id
       [PStr ''agent_execution'', PStr agent_id, PDict request, opt_pstr correlation_id,
        opt_pstr parent_execution_id, opt_pstr request_id, PDict md]"

definition derive_tool_invocation_id ::
  "py_env \<Rightarrow> uuid \<Rightarrow> string \<Rightarrow> int \<Rightarrow> metadata \<Rightarrow> metadata \<Rightarrow> uuid result" where
  "derive_tool_invocation_id env execution_id tool_name ordinal payload md =
     (if ordinal < 1 then Inl (ValueError ''invocation_ordinal must be >= 1'')
      else Inr (derive_runtime_id env ''aa6e7001-0003-4003-8003-000000000003'' None
             [PStr ''tool_invocation'', PStr execution_id, PInt ordinal, PStr tool_name, PDict payload, PDict md]))"

definition derive_action_idempotency_key ::
  "py_env \<Rightarrow> string \<Rightarrow> string \<Rightarrow> string \<Rightarrow> string \<Rightarrow> uuid" where
  "derive_action_idempotency_key env tenant_id session_id tool_name target_resource =
     derive_runtime_id env ''aa6e7001-0006-4006-8006-000000000006'' (Some tenant_id)
       [PStr ''action_idempotency'', PStr session_id, PStr tool_name, PStr target_resource]"

record agent_identity =
  ai_agent_id :: string
  ai_runtime_instance_id :: uuid

record execution_identity =
  ei_execution_id :: uuid
  ei_correlation_id :: "uuid option"
  ei_parent_execution_id :: "uuid option"
  ei_request_id :: "string option"

record causality_metadata =
  cz_initiator :: string
  cz_cause :: string
  cz_parent_chain :: "uuid list"
  cz_metadata :: metadata

definition root_causality :: causality_metadata where
  "root_causality = \<lparr>cz_initiator = ''system'', cz_cause = [], cz_parent_chain = [], cz_metadata = []\<rparr>"

record agent_context =
  cx_identity :: agent_identity
  cx_execution :: execution_identity
  cx_capabilities :: capability_set
  cx_constraints :: execution_constraints
  cx_causality :: causality_metadata
  cx_tenant_id :: "string option"
  cx_authority :: "authority_context option"
  cx_metadata :: metadata

section \<open>Tools\<close>

datatype tool_capability = READ_ONLY | ACTION

text \<open>What the invoker reads of a tool; \<open>tl_capability\<close> is \<open>None\<close> when the attribute is not
  a \<open>ToolCapability\<close>.\<close>

record tool =
  tl_name :: string
  tl_capability :: "tool_capability option"
  tl_required_capabilities :: "string list"

definition tool_capability_of :: "tool \<Rightarrow> tool_capability" where
  "tool_capability_of t = (case tl_capability t of Some c \<Rightarrow> c | None \<Rightarrow> ACTION)"

record tool_request =
  tq_tool_name :: string
  tq_payload :: metadata
  tq_metadata :: metadata

record tool_result =
  tr_output :: metadata
  tr_metadata :: metadata
  tr_status :: "string option"
  tr_error_code :: "string option"
  tr_error_message :: "string option"
  tr_idempotency_key :: "string option"

text \<open>What awaiting a tool comes to: it returns, or raises an exception of some class
  with some message.\<close>

datatype tool_outcome = Tool_Returned tool_result | Tool_Raised string string

datatype invocation_status = INV_OK | INV_FAILED | INV_DENIED

record tool_trace =
  tt_invocation_id :: uuid
  tt_execution_id :: uuid
  tt_tool_name :: string
  tt_status :: invocation_status
  tt_decision_id :: "uuid option"
  tt_error :: "string option"
  tt_metadata :: metadata

record tool_envelope =
  te_trace :: tool_trace
  te_result :: "tool_result option"
  te_error :: "error option"
  te_governance :: "governance_envelope option"
  te_provider_key :: "string option"

definition te_is_ok :: "tool_envelope \<Rightarrow> bool" where
  "te_is_ok e \<longleftrightarrow> te_error e = None \<and> te_result e \<noteq> None \<and> tt_status (te_trace e) = INV_OK"

definition te_is_denied :: "tool_envelope \<Rightarrow> bool" where
  "te_is_denied e \<longleftrightarrow> tt_status (te_trace e) = INV_DENIED"

text \<open>\<open>f"{type(error).__name__}: {error}"\<close>.\<close>

definition describe :: "error \<Rightarrow> string" where
  "describe e = fst (error_text e) @ '': '' @ snd (error_text e)"

type_synonym tool_registry = "(string, tool) dict"

definition register_tool :: "py_env \<Rightarrow> tool_registry \<Rightarrow> tool \<Rightarrow> tool_registry result" where
  "register_tool env reg t =
     (if tl_name t = [] then Inl (AgentError ''ToolConfigurationError'' ''tool must have a non-empty name'')
      else if dget reg (tl_name t) \<noteq> None then
        Inl (AgentError ''ToolConfigurationError'' (''tool already registered: '' @ repr_str env (tl_name t)))
      else Inr (dset (tl_name t) t reg))"

definition get_tool :: "py_env \<Rightarrow> tool_registry \<Rightarrow> string \<Rightarrow> tool result" where
  "get_tool env reg name =
     (case dget reg name of
        None \<Rightarrow> Inl (AgentError ''ToolNotFoundError'' (''unknown tool: '' @ repr_str env name))
      | Some t \<Rightarrow> Inr t)"

definition has_tool :: "tool_registry \<Rightarrow> string \<Rightarrow> bool" where
  "has_tool reg name \<longleftrightarrow> dget reg name \<noteq> None"

definition tool_names :: "tool_registry \<Rightarrow> string list" where
  "tool_names reg = sort (dkeys reg)"

end
