(* ===== verification/Tool_Stores.thy ===== *)
theory Tool_Stores
  imports Agent_Model Interfaces
begin

text \<open>
  The two tables that make an agent's actions happen at most once: the one-time grants
  of approved actions (\<open>app/agents/tools/grants.py\<close>) and the ledger of connector
  invocations (\<open>connector_invocations.py\<close>).  Their statements are single SQL commands,
  modelled on the rows of the table with its keys and check constraints; foreign keys
  and column widths are left out.
\<close>

section \<open>Grants\<close>

record action_grant =
  gn_grant_id :: uuid
  gn_tenant_id :: string
  gn_decision_id :: uuid
  gn_tool_name :: string
  gn_action :: string
  gn_actor :: string
  gn_payload_hash :: string
  gn_binding_hash :: string
  gn_idempotency_key :: string
  gn_issued_at :: int
  gn_expires_at :: "int option"
  gn_consumed_at :: "int option"
  gn_consumed_by :: "string option"
  gn_metadata :: metadata

type_synonym grant_table = "(uuid, action_grant) dict"

definition derive_agent_action_grant_id :: "py_env \<Rightarrow> string \<Rightarrow> uuid \<Rightarrow> uuid" where
  "derive_agent_action_grant_id env tenant_id decision_id =
     uuid5 env ''aa6e7001-0009-4009-8009-000000000009'' (tenant_id @ ''|'' @ decision_id)"

definition derive_provider_idempotency_key :: "py_env \<Rightarrow> string \<Rightarrow> uuid \<Rightarrow> string \<Rightarrow> uuid" where
  "derive_provider_idempotency_key env tenant_id grant_id payload_hash =
     uuid5 env ''aa6e7001-0010-4010-8010-000000000010'' (tenant_id @ ''|'' @ grant_id @ ''|'' @ payload_hash)"

definition compute_agent_action_payload_hash :: "py_env \<Rightarrow> metadata \<Rightarrow> string" where
  "compute_agent_action_payload_hash env payload = sha256_hex env (json_compact env (PDict payload))"

text \<open>\<open>compute_agent_execution_actor\<close>.\<close>

definition compute_agent_execution_actor :: "agent_context \<Rightarrow> string" where
  "compute_agent_execution_actor c =
     (let typed = (case Option.bind (cx_authority c) au_principal_id of
                     Some p \<Rightarrow> p
                   | None \<Rightarrow> ''agent:'' @ ai_agent_id (cx_identity c))
      in case dget (cx_metadata c) ''agent_action_actor'' of
           Some (PStr (x # xs)) \<Rightarrow> x # xs
         | _ \<Rightarrow> typed)"

definition get_grant :: "grant_table \<Rightarrow> uuid \<Rightarrow> string \<Rightarrow> action_grant option" where
  "get_grant t decision_id tenant_id =
     (case dget t decision_id of
        Some g \<Rightarrow> if gn_tenant_id g = tenant_id then Some g else None
      | None \<Rightarrow> None)"

definition grant_mismatches ::
  "action_grant \<Rightarrow> string \<Rightarrow> string \<Rightarrow> string \<Rightarrow> string \<Rightarrow> string \<Rightarrow> string \<Rightarrow> string list" where
  "grant_mismatches g tool_name action actor payload_hash binding_hash idempotency_key =
     map fst (filter (\<lambda>(name, actual, expected). actual \<noteq> expected)
       [(''tool_name'', gn_tool_name g, tool_name), (''action'', gn_action g, action), (''actor'', gn_actor g, actor),
        (''payload_hash'', gn_payload_hash g, payload_hash), (''binding_hash'', gn_binding_hash g, binding_hash),
        (''idempotency_key'', gn_idempotency_key g, idempotency_key)])"

definition issue_grant ::
  "py_env \<Rightarrow> grant_table \<Rightarrow> string \<Rightarrow> uuid \<Rightarrow> string \<Rightarrow> string \<Rightarrow> string \<Rightarrow> string \<Rightarrow> string \<Rightarrow> int \<Rightarrow> int option
     \<Rightarrow> metadata \<Rightarrow> action_grant result \<times> grant_table" where
  "issue_grant env t tenant_id decision_id tool_name action actor payload_hash binding_hash issued_at expires_at md =
     (let grant_id = derive_agent_action_grant_id env tenant_id decision_id;
          key = derive_provider_idempotency_key env tenant_id grant_id payload_hash;
          row = \<lparr>gn_grant_id = grant_id, gn_tenant_id = tenant_id, gn_decision_id = decision_id,
            gn_tool_name = tool_name, gn_action = action, gn_actor = actor, gn_payload_hash = payload_hash,
            gn_binding_hash = binding_hash, gn_idempotency_key = key, gn_issued_at = issued_at,
            gn_expires_at = expires_at, gn_consumed_at = None, gn_consumed_by = None,
            gn_metadata = dset ''_schema_version'' (PStr ''1'') md\<rparr>;
          conflicts = (\<lambda>g. gn_grant_id g = grant_id \<or> gn_idempotency_key g = key)
      in if tenant_id = [] \<or> actor = [] \<or> (dget t decision_id = None \<and> (\<exists>g\<in>set (dvals t). conflicts g)) then
           (Inl (AgentError ''AgentActionGrantError'' ''failed to issue durable action grant''), t)
         else
           let t' = (if dget t decision_id = None then dset decision_id row t else t)
           in case get_grant t' decision_id tenant_id of
                None \<Rightarrow> (Inl (AgentError ''AgentActionGrantError'' ''issued action grant is not visible for tenant''), t')
              | Some g \<Rightarrow>
                  let wrong = grant_mismatches g tool_name action actor payload_hash binding_hash key
                  in if wrong \<noteq> [] then
                       (Inl (AgentError ''AgentActionGrantError''
                          (''existing action grant differs from requested issuance: '' @ join '', '' (sort wrong))), t')
                     else (Inr g, t'))"

definition consumed_grant :: "int \<Rightarrow> string \<Rightarrow> action_grant \<Rightarrow> action_grant" where
  "consumed_grant now actor g = g\<lparr>gn_consumed_at := Some now, gn_consumed_by := Some actor\<rparr>"

definition consume_grant ::
  "py_env \<Rightarrow> int \<Rightarrow> grant_table \<Rightarrow> uuid \<Rightarrow> string \<Rightarrow> string \<Rightarrow> action_grant result \<times> grant_table" where
  "consume_grant env now t decision_id tenant_id actor =
     (case get_grant t decision_id tenant_id of
        None \<Rightarrow> (Inl (AgentError ''AlreadyConsumedError'' ''action grant already consumed or absent''), t)
      | Some g \<Rightarrow>
          if gn_actor g \<noteq> actor then
            (Inl (AgentError ''ActorMismatchError'' (''action grant actor mismatch: expected '' @
               repr_str env (gn_actor g) @ '', got '' @ repr_str env actor)), t)
          else if gn_consumed_at g \<noteq> None then
            (Inl (AgentError ''AlreadyConsumedError'' ''action grant already consumed or absent''), t)
          else (Inr (consumed_grant now actor g), dset decision_id (consumed_grant now actor g) t))"

section \<open>Connector invocations\<close>

datatype invocation_row_status = CI_PENDING | CI_SUCCEEDED | CI_FAILED

record connector_invocation =
  ci_tenant_id :: string
  ci_provider_key :: string
  ci_connector_type :: string
  ci_action_type :: string
  ci_target_resource :: string
  ci_request_hash :: string
  ci_status :: invocation_row_status
  ci_provider_id :: "string option"
  ci_provider_status :: "string option"
  ci_provider_error :: "string option"
  ci_attempt :: int
  ci_decision_id :: "uuid option"
  ci_created_at :: int
  ci_completed_at :: "int option"

type_synonym ledger = "(string \<times> string, connector_invocation) dict"

definition ci_is_terminal :: "connector_invocation \<Rightarrow> bool" where
  "ci_is_terminal r \<longleftrightarrow> ci_status r \<in> set [CI_SUCCEEDED, CI_FAILED]"

datatype reservation = Reserved_New connector_invocation | Reserved_Terminal connector_invocation
  | Reserved_Pending connector_invocation

definition get_invocation :: "ledger \<Rightarrow> string \<Rightarrow> string \<Rightarrow> connector_invocation option" where
  "get_invocation l tenant_id key = dget l (tenant_id, key)"

text \<open>Row security hides no row of the tenant, so a conflicting row is always visible.\<close>

definition reserve_invocation ::
  "int \<Rightarrow> ledger \<Rightarrow> string \<Rightarrow> string \<Rightarrow> string \<Rightarrow> string \<Rightarrow> string \<Rightarrow> string \<Rightarrow> uuid option
     \<Rightarrow> reservation result \<times> ledger" where
  "reserve_invocation now l tenant_id key connector_type action_type target_resource request_hash decision_id =
     (let row = \<lparr>ci_tenant_id = tenant_id, ci_provider_key = key, ci_connector_type = connector_type,
            ci_action_type = action_type, ci_target_resource = target_resource, ci_request_hash = request_hash,
            ci_status = CI_PENDING, ci_provider_id = None, ci_provider_status = None, ci_provider_error = None,
            ci_attempt = 1, ci_decision_id = decision_id, ci_created_at = now, ci_completed_at = None\<rparr>
      in if tenant_id = [] \<or> key = [] \<or> connector_type = [] \<or> action_type = [] \<or> target_resource = [] \<or>
            length request_hash \<noteq> 64 then
           (Inl (ExternalError ''IntegrityError'' ''check constraint violated''), l)
         else case get_invocation l tenant_id key of
           None \<Rightarrow> (Inr (Reserved_New row), dset (tenant_id, key) row l)
         | Some existing \<Rightarrow>
             (Inr (if ci_is_terminal existing then Reserved_Terminal existing else Reserved_Pending existing), l))"

definition settled_invocation ::
  "int \<Rightarrow> invocation_row_status \<Rightarrow> string option \<Rightarrow> string option \<Rightarrow> string option \<Rightarrow> connector_invocation
     \<Rightarrow> connector_invocation" where
  "settled_invocation now status provider_id provider_status provider_error r =
     r\<lparr>ci_status := status, ci_provider_id := provider_id, ci_provider_status := provider_status,
       ci_provider_error := provider_error, ci_completed_at := Some now\<rparr>"

definition complete_invocation ::
  "int \<Rightarrow> ledger \<Rightarrow> string \<Rightarrow> string \<Rightarrow> invocation_row_status \<Rightarrow> string option \<Rightarrow> string option \<Rightarrow> string option
     \<Rightarrow> connector_invocation result \<times> ledger" where
  "complete_invocation now l tenant_id key status provider_id provider_status provider_error =
     (if status = CI_PENDING then
        (Inl (AgentError ''ConnectorInvocationCompletionError''
           ''connector invocation completion status must be terminal''), l)
      else case get_invocation l tenant_id key of
        Some r \<Rightarrow>
          if ci_status r = CI_PENDING then
            (Inr (settled_invocation now status provider_id provider_status provider_error r),
             dset (tenant_id, key) (settled_invocation now status provider_id provider_status provider_error r) l)
          else (Inl (AgentError ''ConnectorInvocationCompletionError''
                  ''pending connector invocation could not be completed''), l)
      | None \<Rightarrow> (Inl (AgentError ''ConnectorInvocationCompletionError''
                  ''pending connector invocation could not be completed''), l))"

definition connector_result_output :: "connector_invocation \<Rightarrow> metadata" where
  "connector_result_output r =
     [(''status'', PStr (if ci_status r = CI_SUCCEEDED then ''success'' else ''error'')),
      (''idempotency_key'', PStr (ci_provider_key r)), (''provider_id'', opt_pstr (ci_provider_id r)),
      (''provider_status'', opt_pstr (ci_provider_status r)), (''provider_error'', opt_pstr (ci_provider_error r)),
      (''replayed'', PBool True)]"

definition derive_auto_allow_provider_key :: "py_env \<Rightarrow> string \<Rightarrow> uuid \<Rightarrow> string \<Rightarrow> uuid" where
  "derive_auto_allow_provider_key env tenant_id decision_id payload_hash =
     uuid5 env ''aa6e7001-0010-4010-8010-000000000010'' (tenant_id @ ''|'' @ decision_id @ ''|'' @ payload_hash)"

definition hash_connector_request :: "py_env \<Rightarrow> metadata \<Rightarrow> string" where
  "hash_connector_request env payload = sha256_hex env (json_compact env (PDict payload))"

end
