(* ===== verification/Tool_Invoker.thy ===== *)
theory Tool_Invoker
  imports Tool_Stores
begin

text \<open>
  The bridge between an agent and its tools, \<open>ToolInvoker.invoke\<close> of
  \<open>app/agents/tools/invoker.py\<close>, in the stages it has: the tool is resolved and
  checked, the call is authorized (by an approved decision, by the decision recorded
  for the same seed, or by a fresh evaluation), the ledger reserves the call, the tool
  runs, the ledger records the outcome.  An exception the method lets escape is the
  verdict \<open>Raises\<close>.  The stages before and after the tool are separate definitions,
  because other workers act while the tool runs.
\<close>

section \<open>Configuration and state\<close>

text \<open>What the invoker tells the outside world.\<close>

datatype tool_effect =
    Crisis_Event string string
  | Denial_Handoff uuid string string
  | Escalation_Handoff uuid string string
  | Consumed_Marker string

text \<open>\<open>iv_handoff\<close> says whether publishing a handoff raises.\<close>

record invoker =
  iv_tools :: tool_registry
  iv_governance :: "governance_runtime option"
  iv_grants :: bool
  iv_ledger :: bool
  iv_redis :: bool
  iv_ttl_seconds :: int
  iv_handoff :: "tool_effect \<Rightarrow> error option"

record tool_world =
  tw_governance :: "governance_store option"
  tw_grants :: grant_table
  tw_ledger :: ledger
  tw_effects :: "tool_effect list"

definition make_invoker ::
  "py_env \<Rightarrow> tool_registry \<Rightarrow> governance_runtime option \<Rightarrow> bool \<Rightarrow> bool \<Rightarrow> bool \<Rightarrow> int
     \<Rightarrow> (tool_effect \<Rightarrow> error option) \<Rightarrow> invoker result" where
  "make_invoker env tools governance granting recording redis ttl handoff =
     (let action_names = filter (\<lambda>n. case dget tools n of
            Some t \<Rightarrow> tool_capability_of t \<noteq> READ_ONLY | None \<Rightarrow> False) (tool_names tools)
      in if action_names \<noteq> [] \<and> governance = None then
           Inl (AgentError ''ToolConfigurationError''
             (''governance_runtime is required when action-capable tools are registered: '' @
              repr_of env (PList (map PStr action_names))))
         else Inr \<lparr>iv_tools = tools, iv_governance = governance, iv_grants = granting, iv_ledger = recording,
                iv_redis = redis, iv_ttl_seconds = max 1 ttl, iv_handoff = handoff\<rparr>)"

definition persisted_decision :: "tool_world \<Rightarrow> uuid \<Rightarrow> string option \<Rightarrow> decision_record option" where
  "persisted_decision w decision_id tenant =
     (case tw_governance w of None \<Rightarrow> None | Some s \<Rightarrow> get_decision s decision_id tenant)"

section \<open>Bindings\<close>

definition compute_agent_action_binding ::
  "py_env \<Rightarrow> string option \<Rightarrow> string \<Rightarrow> string \<Rightarrow> metadata \<Rightarrow> string" where
  "compute_agent_action_binding env tenant_id tool_name actor payload =
     sha256_hex env (join ''|''
       [(case tenant_id of None \<Rightarrow> [] | Some t \<Rightarrow> t), tool_name, ''agent.tool_invocation'', actor,
        compute_agent_action_payload_hash env payload])"

text \<open>\<open>hmac.compare_digest\<close> of two strings raises unless both are ASCII.\<close>

definition ascii_text :: "string \<Rightarrow> bool" where
  "ascii_text s \<longleftrightarrow> (\<forall>c\<in>set s. (of_char c :: nat) < 128)"

definition compare_digest :: "string \<Rightarrow> string \<Rightarrow> bool result" where
  "compare_digest a b =
     (if ascii_text a \<and> ascii_text b then Inr (a = b)
      else Inl (ExternalError ''TypeError'' ''comparing strings with non-ASCII characters is not supported''))"

text \<open>The binding a persisted decision carries against the expected one.\<close>

definition binding_matches :: "decision_record \<Rightarrow> string \<Rightarrow> bool result" where
  "binding_matches r expected =
     (case dget (dr_metadata r) ''agent_action_binding'' of
        Some (PStr b) \<Rightarrow> compare_digest b expected
      | _ \<Rightarrow> Inr False)"

text \<open>\<open>_pre_approved_decision_expired\<close>: a naive time is read as UTC.\<close>

definition decision_expired :: "py_env \<Rightarrow> int \<Rightarrow> invoker \<Rightarrow> string \<Rightarrow> bool" where
  "decision_expired env now iv decided_at =
     (case fromisoformat env decided_at of
        None \<Rightarrow> True
      | Some t \<Rightarrow> instant t + iv_ttl_seconds iv * 1000000 \<le> now)"

section \<open>Envelopes\<close>

definition errored_envelope ::
  "invocation_status \<Rightarrow> uuid \<Rightarrow> tool_request \<Rightarrow> agent_context \<Rightarrow> error option \<Rightarrow> governance_envelope option
     \<Rightarrow> uuid option \<Rightarrow> string option \<Rightarrow> metadata \<Rightarrow> tool_envelope" where
  "errored_envelope status call_id request context err governance decision_id key md =
     \<lparr>te_trace = \<lparr>tt_invocation_id = call_id, tt_execution_id = ei_execution_id (cx_execution context),
        tt_tool_name = tq_tool_name request, tt_status = status, tt_decision_id = decision_id,
        tt_error = map_option describe err, tt_metadata = md\<rparr>,
      te_result = None, te_error = err, te_governance = governance, te_provider_key = key\<rparr>"

text \<open>\<open>_denied_envelope\<close>.\<close>

definition denied_envelope ::
  "uuid \<Rightarrow> tool_request \<Rightarrow> agent_context \<Rightarrow> error option \<Rightarrow> string \<Rightarrow> governance_envelope option
     \<Rightarrow> uuid option \<Rightarrow> metadata \<Rightarrow> tool_envelope" where
  "denied_envelope call_id request context err reason governance decision_id extra =
     errored_envelope INV_DENIED call_id request context err governance decision_id None
       (dmerge [(''reason'', PStr reason)] extra)"

definition tool_trace_metadata :: "string option \<Rightarrow> string option \<Rightarrow> metadata" where
  "tool_trace_metadata key reason =
     (case reason of None \<Rightarrow> [] | Some r \<Rightarrow> [(''reason'', PStr r)]) @
     (case key of None \<Rightarrow> [] | Some k \<Rightarrow> [(''agent_action_provider_idempotency_key'', PStr k)])"

text \<open>\<open>_failed_envelope\<close>.\<close>

definition failed_envelope ::
  "uuid \<Rightarrow> tool_request \<Rightarrow> agent_context \<Rightarrow> error option \<Rightarrow> string \<Rightarrow> governance_envelope option
     \<Rightarrow> uuid option \<Rightarrow> string option \<Rightarrow> metadata \<Rightarrow> tool_envelope" where
  "failed_envelope call_id request context err reason governance decision_id key extra =
     errored_envelope INV_FAILED call_id request context err governance decision_id key
       (dmerge (tool_trace_metadata key (Some reason)) extra)"

text \<open>An envelope of status ok.\<close>

definition ok_envelope ::
  "uuid \<Rightarrow> tool_request \<Rightarrow> agent_context \<Rightarrow> tool_result \<Rightarrow> string option \<Rightarrow> governance_envelope option
     \<Rightarrow> uuid option \<Rightarrow> string option \<Rightarrow> tool_envelope" where
  "ok_envelope call_id request context result reason governance decision_id key =
     \<lparr>te_trace = \<lparr>tt_invocation_id = call_id, tt_execution_id = ei_execution_id (cx_execution context),
        tt_tool_name = tq_tool_name request, tt_status = INV_OK, tt_decision_id = decision_id,
        tt_error = None, tt_metadata = tool_trace_metadata key reason\<rparr>,
      te_result = Some result, te_error = None, te_governance = governance, te_provider_key = key\<rparr>"

section \<open>The governance context of a call\<close>

definition action_governance_decision_seed ::
  "py_env \<Rightarrow> tool_request \<Rightarrow> agent_context \<Rightarrow> string \<Rightarrow> string \<Rightarrow> string" where
  "action_governance_decision_seed env request context target actor =
     join ''|''
       [''agent.tool_invocation'', (case cx_tenant_id context of None \<Rightarrow> [] | Some t \<Rightarrow> t),
        ei_execution_id (cx_execution context),
        (case ei_request_id (cx_execution context) of None \<Rightarrow> [] | Some r \<Rightarrow> r),
        tq_tool_name request, target, actor, compute_agent_action_payload_hash env (tq_payload request)]"

definition governance_subject :: "py_env \<Rightarrow> tool_request \<Rightarrow> agent_context \<Rightarrow> tool \<Rightarrow> string \<Rightarrow> agent_action_subject" where
  "governance_subject env request context t target =
     \<lparr>as_agent_id = ai_agent_id (cx_identity context),
      as_capability = join '','' (sort (tl_required_capabilities t)),
      as_tool_name = Some (tq_tool_name request), as_target_resource = target,
      as_execution_scope =
        (case ei_correlation_id (cx_execution context) of
           Some c \<Rightarrow> ''correlation:'' @ c
         | None \<Rightarrow> ''execution:'' @ ei_execution_id (cx_execution context)),
      as_supervisor_context = [], as_request_id = ei_request_id (cx_execution context),
      as_tenant_id = cx_tenant_id context, as_metadata = tq_metadata request\<rparr>"

definition build_governance_context ::
  "py_env \<Rightarrow> tool_request \<Rightarrow> agent_context \<Rightarrow> tool \<Rightarrow> governance_context result" where
  "build_governance_context env request context t =
     (let target = text_or env (get_or_none (tq_metadata request) ''target_resource'') (tq_tool_name request);
          actor = compute_agent_execution_actor context;
          auth = cx_authority context
      in check_context env
           \<lparr>g_stage = PRE_EXECUTION, g_action = ''agent.tool_invocation'',
            g_resource = ''tool:'' @ tq_tool_name request,
            g_actor = ''agent:'' @ ai_agent_id (cx_identity context),
            g_tenant_id = cx_tenant_id context, g_request_id = ei_request_id (cx_execution context),
            g_principal_id = Option.bind auth au_principal_id,
            g_organization_id = Option.bind auth au_organization_id,
            g_environment_id = Option.bind auth au_environment_id,
            g_authority = auth,
            g_subject = Agent_Action (governance_subject env request context t target),
            g_correlation_id = ei_correlation_id (cx_execution context),
            g_metadata =
              [(''execution_id'', PStr (ei_execution_id (cx_execution context))),
               (''runtime_instance_id'', PStr (ai_runtime_instance_id (cx_identity context))),
               (''agent_action_actor'', PStr actor),
               (''agent_action_binding'', PStr (compute_agent_action_binding env (cx_tenant_id context)
                  (tq_tool_name request) actor (tq_payload request)))] @
              (if tool_capability_of t \<noteq> READ_ONLY then
                 [(''governance.decision_seed'', PStr (action_governance_decision_seed env request context target actor))]
               else [])\<rparr>)"

definition seeded_governance_decision_id :: "py_env \<Rightarrow> metadata \<Rightarrow> uuid option" where
  "seeded_governance_decision_id env md =
     (case dget md ''governance.decision_seed'' of
        Some (PStr seed) \<Rightarrow> if py_strip seed = [] then None else Some (uuid5 env DECISION_NAMESPACE seed)
      | _ \<Rightarrow> None)"

section \<open>Authorization\<close>

text \<open>What the stages before the tool come to: the method raises, returns an envelope, or
  goes on with what it knows.\<close>

datatype 'a verdict = Raises error | Returns tool_envelope | Continues 'a

record authorization =
  az_request :: tool_request
    \<comment> \<open>\<open>effective_request\<close>\<close>
  az_governance :: "governance_envelope option"
  az_decision_id :: "uuid option"
  az_provider_key :: "string option"

definition keyed_request :: "tool_request \<Rightarrow> (string \<times> pyval) list \<Rightarrow> tool_request" where
  "keyed_request request extra = request\<lparr>tq_metadata := dmerge (tq_metadata request) extra\<rparr>"

text \<open>Resolving the tool, the allow-list, the capabilities.\<close>

definition resolve_call ::
  "py_env \<Rightarrow> invoker \<Rightarrow> uuid \<Rightarrow> tool_request \<Rightarrow> agent_context \<Rightarrow> tool_envelope + tool" where
  "resolve_call env iv call_id request context =
     (case get_tool env (iv_tools iv) (tq_tool_name request) of
        Inl e \<Rightarrow> Inl (denied_envelope call_id request context (Some e) ''tool_not_found'' None None [])
      | Inr t \<Rightarrow>
          if \<not> permits_tool (cx_constraints context) (tq_tool_name request) then
            Inl (denied_envelope call_id request context
              (Some (AgentError ''ConstraintViolationError'' (''tool '' @ repr_str env (tq_tool_name request) @
                '' not in allowed_tools '' @ repr_of env (PList (map PStr (xc_allowed_tools (cx_constraints context)))))))
              ''constraint_blocked'' None None [])
          else
            let missing = required_missing (cx_capabilities context) (tl_required_capabilities t)
            in if missing \<noteq> [] then
                 Inl (denied_envelope call_id request context
                   (Some (AgentError ''CapabilityViolationError'' (''tool '' @ repr_str env (tq_tool_name request) @
                     '' requires capabilities '' @ repr_of env (PList (map PStr (sort missing))))))
                   ''capability_violation'' None None [])
               else Inr t)"

definition marker_key :: "string \<Rightarrow> uuid \<Rightarrow> string" where
  "marker_key tenant decision_id = ''agent:pre_approved_consumed:'' @ tenant @ '':'' @ decision_id"

text \<open>The grant of an approved decision, consumed and compared with the call.\<close>

definition claim_grant ::
  "py_env \<Rightarrow> int \<Rightarrow> invoker \<Rightarrow> tool_world \<Rightarrow> uuid \<Rightarrow> tool_request \<Rightarrow> agent_context \<Rightarrow> string \<Rightarrow> uuid
     \<Rightarrow> string \<Rightarrow> string \<Rightarrow> authorization verdict \<times> tool_world" where
  "claim_grant env now iv w call_id request context tenant decision_id actor expected =
     (case consume_grant env now (tw_grants w) decision_id tenant actor of
        (Inl (AgentError cls m), t) \<Rightarrow>
          if cls = ''ActorMismatchError'' then
            (Returns (denied_envelope call_id request context (Some (AgentError cls m))
               ''pre_approved_decision_actor_mismatch'' None (Some decision_id) [(''http_status'', PInt 403)]),
             w\<lparr>tw_grants := t\<rparr>)
          else
            (Returns (denied_envelope call_id request context (Some (AgentError cls m))
               ''pre_approved_decision_already_consumed'' None (Some decision_id) []), w\<lparr>tw_grants := t\<rparr>)
      | (Inl e, t) \<Rightarrow> (Raises e, w\<lparr>tw_grants := t\<rparr>)
      | (Inr g, t) \<Rightarrow>
     (case compare_digest (gn_binding_hash g) expected of
        Inl e \<Rightarrow> (Raises e, w\<lparr>tw_grants := t\<rparr>)
      | Inr False \<Rightarrow>
          (Returns (denied_envelope call_id request context None
             ''pre_approved_decision_grant_binding_mismatch'' None (Some decision_id) []), w\<lparr>tw_grants := t\<rparr>)
      | Inr True \<Rightarrow>
          (Continues
             \<lparr>az_request = keyed_request request
                [(''agent_action_provider_idempotency_key'', PStr (gn_idempotency_key g)),
                 (''agent_action_grant_id'', PStr (gn_grant_id g))],
              az_governance = None, az_decision_id = Some decision_id,
              az_provider_key = Some (gn_idempotency_key g)\<rparr>,
           w\<lparr>tw_grants := t,
             tw_effects := tw_effects w @ (if iv_redis iv then [Consumed_Marker (marker_key tenant decision_id)] else [])\<rparr>)))"

definition authorize_pre_approved ::
  "py_env \<Rightarrow> int \<Rightarrow> invoker \<Rightarrow> tool_world \<Rightarrow> uuid \<Rightarrow> tool_request \<Rightarrow> agent_context \<Rightarrow> string
     \<Rightarrow> authorization verdict \<times> tool_world" where
  "authorize_pre_approved env now iv w call_id request context decision_text =
     (let deny = (\<lambda>err reason decision_id extra.
            (Returns (denied_envelope call_id request context err reason None decision_id extra), w))
      in if iv_governance iv = None then
           deny (Some (AgentError ''ToolConfigurationError'' ''governance_runtime is required for pre-approved actions''))
             ''governance_required'' None []
         else case cx_tenant_id context of
           None \<Rightarrow> deny None ''pre_approved_decision_tenant_required'' None []
         | Some tenant \<Rightarrow>
        (case uuid_parse env decision_text of
           None \<Rightarrow> deny (Some (ValueError ''badly formed hexadecimal UUID string'')) ''pre_approved_decision_invalid'' None []
         | Some decision_id \<Rightarrow>
        (case persisted_decision w decision_id (Some tenant) of
           None \<Rightarrow> deny None ''pre_approved_decision_not_found'' (Some decision_id) []
         | Some persisted \<Rightarrow>
             if dr_decision persisted \<noteq> decision_value ALLOW then
               deny None ''pre_approved_decision_not_allow'' (Some decision_id)
                 [(''governance_decision'', PStr (dr_decision persisted)), (''governance_reason'', PStr (dr_reason persisted))]
             else
               let actor = compute_agent_execution_actor context;
                   expected = compute_agent_action_binding env (Some tenant) (tq_tool_name request) actor (tq_payload request)
               in case binding_matches persisted expected of
                    Inl e \<Rightarrow> (Raises e, w)
                  | Inr False \<Rightarrow> deny None ''pre_approved_decision_binding_mismatch'' (Some decision_id) []
                  | Inr True \<Rightarrow>
                      if decision_expired env now iv (dr_decided_at persisted) then
                        deny None ''pre_approved_decision_expired'' (Some decision_id) []
                      else if \<not> iv_grants iv then
                        deny (Some (AgentError ''ToolConfigurationError''
                            ''durable action grant repository is required for pre-approved actions''))
                          ''pre_approved_decision_grant_repository_required'' (Some decision_id) []
                      else claim_grant env now iv w call_id request context tenant decision_id actor expected)))"

text \<open>The authorization an automatic allowance gives: the provider key is derived from
  the decision and the payload.\<close>

definition auto_authorization ::
  "py_env \<Rightarrow> tool_request \<Rightarrow> string \<Rightarrow> uuid \<Rightarrow> governance_envelope option \<Rightarrow> authorization" where
  "auto_authorization env request tenant decision_id governance =
     (let key = derive_auto_allow_provider_key env tenant decision_id
            (compute_agent_action_payload_hash env (tq_payload request))
      in \<lparr>az_request = keyed_request request [(''agent_action_provider_idempotency_key'', PStr key)],
          az_governance = governance, az_decision_id = Some decision_id, az_provider_key = Some key\<rparr>)"

text \<open>A decision was already recorded for the seed of this call.\<close>

definition authorize_seeded ::
  "py_env \<Rightarrow> int \<Rightarrow> invoker \<Rightarrow> tool_world \<Rightarrow> uuid \<Rightarrow> tool_request \<Rightarrow> agent_context \<Rightarrow> string \<Rightarrow> uuid
     \<Rightarrow> decision_record \<Rightarrow> authorization verdict \<times> tool_world" where
  "authorize_seeded env now iv w call_id request context tenant decision_id persisted =
     (let deny = (\<lambda>reason extra.
            (Returns (denied_envelope call_id request context None reason None (Some decision_id) extra), w))
      in if dr_decision persisted \<noteq> decision_value ALLOW then
           deny ''governance_not_allow''
             [(''governance_decision'', PStr (dr_decision persisted)), (''governance_reason'', PStr (dr_reason persisted))]
         else case binding_matches persisted
               (compute_agent_action_binding env (Some tenant) (tq_tool_name request)
                  (compute_agent_execution_actor context) (tq_payload request)) of
           Inl e \<Rightarrow> (Raises e, w)
         | Inr False \<Rightarrow> deny ''seeded_decision_binding_mismatch'' []
         | Inr True \<Rightarrow>
             if decision_expired env now iv (dr_decided_at persisted) then deny ''seeded_decision_expired'' []
             else (Continues (auto_authorization env request tenant decision_id None), w))"

text \<open>\<open>_publish_crisis_handoff_if_needed\<close>: the handoff due, if any.\<close>

definition crisis_handoff ::
  "governance_decision \<Rightarrow> string option \<Rightarrow> string option \<Rightarrow> tool_effect option" where
  "crisis_handoff d tenant session =
     (case (tenant, session, crisis_policy_name_from_decision d) of
        (Some t, Some s, Some _) \<Rightarrow>
          if gd_decision d = DENY then Some (Denial_Handoff (gd_decision_id d) t s)
          else if gd_decision d = ESCALATE then Some (Escalation_Handoff (gd_decision_id d) t s)
          else None
      | _ \<Rightarrow> None)"

definition refusal_metadata :: "governance_decision \<Rightarrow> metadata" where
  "refusal_metadata d =
     [(''governance_decision'', PStr (decision_value (gd_decision d))), (''governance_reason'', PStr (gd_reason d)),
      (''crisis_policy'', opt_pstr (crisis_policy_name_from_decision d))]"

text \<open>Once an evaluation decided: crisis notices, then the verdict and its persistence.\<close>

definition authorize_decided ::
  "py_env \<Rightarrow> int \<Rightarrow> invoker \<Rightarrow> tool_world \<Rightarrow> uuid \<Rightarrow> tool_request \<Rightarrow> agent_context \<Rightarrow> tool
     \<Rightarrow> governance_envelope \<Rightarrow> governance_decision \<Rightarrow> authorization verdict \<times> tool_world" where
  "authorize_decided env now iv w call_id request context t genv d =
     (let event = (case cx_tenant_id context of
            Some tenant \<Rightarrow>
              if iv_redis iv then
                (case crisis_intercept_event env now tenant (ei_execution_id (cx_execution context)) d
                        (metadata_str (tq_metadata request) ''issue_category'') of
                   Some (channel, message) \<Rightarrow> [Crisis_Event channel message] | None \<Rightarrow> [])
              else []
          | None \<Rightarrow> []);
          w1 = w\<lparr>tw_effects := tw_effects w @ event\<rparr>;
          handoff = crisis_handoff d (cx_tenant_id context) (metadata_str (tq_metadata request) ''session_id'');
          refuse = (\<lambda>w reason. (Returns (denied_envelope call_id request context None reason (Some genv)
             (Some (gd_decision_id d)) (refusal_metadata d)), w))
      in case Option.bind handoff (iv_handoff iv) of
           Some e \<Rightarrow> (Returns (denied_envelope call_id request context (Some e) ''crisis_handoff_publication_failed''
                       (Some genv) (Some (gd_decision_id d)) []), w1)
         | None \<Rightarrow>
             let w2 = w1\<lparr>tw_effects := tw_effects w1 @ (case handoff of Some h \<Rightarrow> [h] | None \<Rightarrow> [])\<rparr>
             in if tool_capability_of t \<noteq> READ_ONLY then
                  if gd_decision d \<noteq> ALLOW then refuse w2 ''governance_not_allow''
                  else case persisted_decision w2 (gd_decision_id d) (cx_tenant_id context) of
                    None \<Rightarrow> refuse w2 ''governance_decision_not_persisted''
                  | Some persisted \<Rightarrow>
                      if dr_decision persisted \<noteq> decision_value ALLOW then refuse w2 ''governance_decision_not_persisted''
                      else case cx_tenant_id context of
                        Some tenant \<Rightarrow> (Continues (auto_authorization env request tenant (gd_decision_id d) (Some genv)), w2)
                      | None \<Rightarrow> (Continues \<lparr>az_request = request, az_governance = Some genv,
                                   az_decision_id = Some (gd_decision_id d), az_provider_key = None\<rparr>, w2)
                else if gd_is_blocking d then refuse w2 ''governance_denied''
                else (Continues \<lparr>az_request = request, az_governance = Some genv,
                        az_decision_id = Some (gd_decision_id d), az_provider_key = None\<rparr>, w2))"

definition authorize_fresh ::
  "py_env \<Rightarrow> int \<Rightarrow> uuid \<Rightarrow> string option \<Rightarrow> invoker \<Rightarrow> governance_runtime \<Rightarrow> tool_world \<Rightarrow> uuid \<Rightarrow> tool_request
     \<Rightarrow> agent_context \<Rightarrow> tool \<Rightarrow> governance_context \<Rightarrow> authorization verdict \<times> tool_world" where
  "authorize_fresh env now fresh ambient iv rt w call_id request context t gc =
     (case governance_evaluate env now fresh ambient rt (tw_governance w) gc of
        (Inl e, store) \<Rightarrow>
          (Returns (denied_envelope call_id request context (Some e) ''governance_evaluation_failed'' None None []),
           w\<lparr>tw_governance := store\<rparr>)
      | (Inr genv, store) \<Rightarrow>
     (case (en_error genv, en_decision genv) of
        (None, Some d) \<Rightarrow>
          authorize_decided env now iv (w\<lparr>tw_governance := store\<rparr>) call_id request context t genv d
      | (err, _) \<Rightarrow>
          (Returns (denied_envelope call_id request context
             (Some (case err of Some e \<Rightarrow> e | None \<Rightarrow> RuntimeError ''governance evaluation failed''))
             ''governance_evaluation_failed'' (Some genv) None []),
           w\<lparr>tw_governance := store\<rparr>)))"

definition authorize_governed ::
  "py_env \<Rightarrow> int \<Rightarrow> uuid \<Rightarrow> string option \<Rightarrow> invoker \<Rightarrow> governance_runtime \<Rightarrow> tool_world \<Rightarrow> uuid \<Rightarrow> tool_request
     \<Rightarrow> agent_context \<Rightarrow> tool \<Rightarrow> authorization verdict \<times> tool_world" where
  "authorize_governed env now fresh ambient iv rt w call_id request context t =
     (case build_governance_context env request context t of
        Inl e \<Rightarrow> (Raises e, w)
      | Inr gc \<Rightarrow>
     (case (if tool_capability_of t \<noteq> READ_ONLY then seeded_governance_decision_id env (g_metadata gc) else None,
            cx_tenant_id context) of
        (Some decision_id, Some tenant) \<Rightarrow>
          (case persisted_decision w decision_id (Some tenant) of
             Some persisted \<Rightarrow> authorize_seeded env now iv w call_id request context tenant decision_id persisted
           | None \<Rightarrow> authorize_fresh env now fresh ambient iv rt w call_id request context t gc)
      | _ \<Rightarrow> authorize_fresh env now fresh ambient iv rt w call_id request context t gc))"

definition authorize ::
  "py_env \<Rightarrow> int \<Rightarrow> uuid \<Rightarrow> string option \<Rightarrow> invoker \<Rightarrow> tool_world \<Rightarrow> uuid \<Rightarrow> tool_request \<Rightarrow> agent_context
     \<Rightarrow> tool \<Rightarrow> string option \<Rightarrow> authorization verdict \<times> tool_world" where
  "authorize env now fresh ambient iv w call_id request context t pre_approved =
     (case pre_approved of
        Some decision_text \<Rightarrow> authorize_pre_approved env now iv w call_id request context decision_text
      | None \<Rightarrow>
     (case iv_governance iv of
        Some rt \<Rightarrow> authorize_governed env now fresh ambient iv rt w call_id request context t
      | None \<Rightarrow>
          if tool_capability_of t \<noteq> READ_ONLY then
            (Returns (denied_envelope call_id request context
               (Some (AgentError ''ToolConfigurationError'' ''governance_runtime is required for action-capable tools''))
               ''governance_required'' None None []), w)
          else (Continues \<lparr>az_request = request, az_governance = None, az_decision_id = None,
                  az_provider_key = None\<rparr>, w)))"

section \<open>The ledger\<close>

definition first_text :: "string option list \<Rightarrow> string option" where
  "first_text xs = (case filter (\<lambda>x. x \<noteq> None) xs of [] \<Rightarrow> None | x # _ \<Rightarrow> x)"

definition connector_action_type :: "tool_request \<Rightarrow> string" where
  "connector_action_type r =
     (case first_text [metadata_str (tq_metadata r) ''action_type'', metadata_str (tq_metadata r) ''tool_name''] of
        Some t \<Rightarrow> t | None \<Rightarrow> tq_tool_name r)"

definition connector_target_resource :: "tool_request \<Rightarrow> string" where
  "connector_target_resource r =
     (case first_text [metadata_str (tq_metadata r) ''target_resource'', metadata_str (tq_metadata r) ''target_resource_id'',
             metadata_str (tq_metadata r) ''idempotency_key''] of
        Some t \<Rightarrow> t | None \<Rightarrow> tq_tool_name r)"

fun clean_text :: "string option \<Rightarrow> string option" where
  "clean_text (Some s) = (if py_strip s = [] then None else Some (py_strip s))"
| "clean_text None = None"

definition connector_result_text :: "tool_result \<Rightarrow> string \<Rightarrow> string option" where
  "connector_result_text r key = first_text [metadata_str (tr_output r) key, metadata_str (tr_metadata r) key]"

definition failure_words :: "string list" where
  "failure_words = [''error'', ''failed'', ''failure'']"

definition connector_completion_status :: "py_env \<Rightarrow> tool_result \<Rightarrow> invocation_row_status" where
  "connector_completion_status env r =
     (let failing = (\<lambda>t. case t of None \<Rightarrow> False | Some s \<Rightarrow> str_lower env s \<in> set failure_words)
      in if failing (clean_text (tr_status r)) then CI_FAILED
         else if failing (metadata_str (tr_output r) ''status'') then CI_FAILED
         else if tr_error_code r \<noteq> None \<or> tr_error_message r \<noteq> None then CI_FAILED
         else CI_SUCCEEDED)"

definition connector_provider_status :: "tool_result \<Rightarrow> string option" where
  "connector_provider_status r =
     first_text [connector_result_text r ''provider_status'', connector_result_text r ''status'', clean_text (tr_status r)]"

definition connector_provider_error :: "tool_result \<Rightarrow> string option" where
  "connector_provider_error r =
     first_text [clean_text (tr_error_message r), connector_result_text r ''provider_error'', clean_text (tr_error_code r)]"

text \<open>\<open>_replayed_connector_envelope\<close>.\<close>

definition replayed_envelope ::
  "uuid \<Rightarrow> tool_request \<Rightarrow> agent_context \<Rightarrow> governance_envelope option \<Rightarrow> uuid option \<Rightarrow> connector_invocation
     \<Rightarrow> tool_envelope" where
  "replayed_envelope call_id request context governance decision_id r =
     (if ci_status r = CI_FAILED then
        failed_envelope call_id request context
          (Some (AgentError ''ConnectorInvocationLedgerError''
             (case ci_provider_error r of Some (x # xs) \<Rightarrow> x # xs | _ \<Rightarrow> ''connector invocation previously failed'')))
          ''connector_invocation_terminal_replay'' governance decision_id (Some (ci_provider_key r))
          [(''provider_status'', opt_pstr (ci_provider_status r)), (''replayed'', PBool True)]
      else
        ok_envelope call_id request context
          \<lparr>tr_output = connector_result_output r, tr_metadata = [(''replayed'', PBool True)], tr_status = Some ''success'',
           tr_error_code = None, tr_error_message = None, tr_idempotency_key = Some (ci_provider_key r)\<rparr>
          (Some ''connector_invocation_terminal_replay'') governance decision_id (Some (ci_provider_key r)))"

text \<open>What the invoker holds while the tool runs; \<open>cl_reserved\<close> is the row it reserved.\<close>

record clearance =
  cl_call_id :: uuid
  cl_tool :: tool
  cl_context :: agent_context
  cl_authorization :: authorization
  cl_reserved :: "connector_invocation option"

definition money_or_goods :: "tool_request \<Rightarrow> bool" where
  "money_or_goods r \<longleftrightarrow>
     (case dget (tq_metadata r) ''operation_commitment_kind'' of
        Some (PStr k) \<Rightarrow> k \<in> set [commitment_value CK_MONEY, commitment_value CK_GOODS]
      | _ \<Rightarrow> False)"

text \<open>From authorization to the tool; \<open>fault\<close> is the exception a lost database raises
  instead of the reservation.\<close>

definition reserve_call ::
  "py_env \<Rightarrow> int \<Rightarrow> error option \<Rightarrow> invoker \<Rightarrow> tool_world \<Rightarrow> uuid \<Rightarrow> agent_context \<Rightarrow> tool \<Rightarrow> authorization
     \<Rightarrow> clearance verdict \<times> tool_world" where
  "reserve_call env now fault iv w call_id context t a =
     (let request = az_request a;
          action = (tool_capability_of t \<noteq> READ_ONLY);
          fail = (\<lambda>w err reason. (Returns (failed_envelope call_id request context (Some err) reason
             (az_governance a) (az_decision_id a) (az_provider_key a) []), w));
          unusable = (\<lambda>reason m. fail w (AgentError ''ToolConfigurationError'' m) reason);
          clear = (\<lambda>row. \<lparr>cl_call_id = call_id, cl_tool = t, cl_context = context, cl_authorization = a,
             cl_reserved = row\<rparr>)
      in if action \<and> \<not> iv_ledger iv \<and> money_or_goods request then
           unusable ''money_goods_action_requires_ledger''
             (''connector_invocation_repository is required for '' @
              repr_str env (py_str env (get_or_none (tq_metadata request) ''operation_commitment_kind'')) @
              '' actions; refusing to execute without the idempotency ledger'')
         else if \<not> action \<or> \<not> iv_ledger iv then (Continues (clear None), w)
         else case (cx_tenant_id context, az_decision_id a, az_provider_key a) of
           (None, _, _) \<Rightarrow> unusable ''connector_invocation_tenant_required''
             ''tenant_id is required for connector invocation ledger''
         | (Some _, None, _) \<Rightarrow> unusable ''connector_invocation_governance_decision_required''
             ''governance decision is required for connector invocation ledger''
         | (Some _, Some _, None) \<Rightarrow> unusable ''connector_invocation_provider_key_required''
             ''provider idempotency key is required for connector invocation ledger''
         | (Some tenant, Some decision_id, Some key) \<Rightarrow>
             (case fault of
                Some e \<Rightarrow> fail w e ''connector_invocation_ledger_failed''
              | None \<Rightarrow>
             (case reserve_invocation now (tw_ledger w) tenant key (tq_tool_name request)
                     (connector_action_type request) (connector_target_resource request)
                     (hash_connector_request env (tq_payload request)) (Some decision_id) of
                (Inl e, l) \<Rightarrow> fail (w\<lparr>tw_ledger := l\<rparr>) e ''connector_invocation_ledger_failed''
              | (Inr (Reserved_Terminal r), l) \<Rightarrow>
                  (Returns (replayed_envelope call_id request context (az_governance a) (az_decision_id a) r),
                   w\<lparr>tw_ledger := l\<rparr>)
              | (Inr (Reserved_Pending r), l) \<Rightarrow>
                  fail (w\<lparr>tw_ledger := l\<rparr>)
                    (AgentError ''ConnectorInvocationReconciliationRequired'' ''connector invocation is pending reconciliation'')
                    ''connector_invocation_reconciliation_required''
              | (Inr (Reserved_New r), l) \<Rightarrow> (Continues (clear (Some r)), w\<lparr>tw_ledger := l\<rparr>))))"

section \<open>After the tool\<close>

definition settle_row ::
  "int \<Rightarrow> error option \<Rightarrow> tool_world \<Rightarrow> connector_invocation \<Rightarrow> invocation_row_status \<Rightarrow> string option
     \<Rightarrow> string option \<Rightarrow> string option \<Rightarrow> unit result \<times> tool_world" where
  "settle_row now fault w r status provider_id provider_status provider_error =
     (case fault of
        Some e \<Rightarrow> (Inl e, w)
      | None \<Rightarrow>
     (case complete_invocation now (tw_ledger w) (ci_tenant_id r) (ci_provider_key r) status provider_id
             provider_status provider_error of
        (Inl e, l) \<Rightarrow> (Inl e, w\<lparr>tw_ledger := l\<rparr>)
      | (Inr _, l) \<Rightarrow> (Inr (), w\<lparr>tw_ledger := l\<rparr>)))"

definition finish_call ::
  "py_env \<Rightarrow> int \<Rightarrow> error option \<Rightarrow> tool_world \<Rightarrow> clearance \<Rightarrow> tool_outcome \<Rightarrow> tool_envelope \<times> tool_world" where
  "finish_call env now fault w c outcome =
     (let a = cl_authorization c; request = az_request a
      in case outcome of
           Tool_Raised cls m \<Rightarrow>
             (errored_envelope INV_FAILED (cl_call_id c) request (cl_context c) (Some (ExternalError cls m)) (az_governance a)
                (az_decision_id a) (az_provider_key a) (tool_trace_metadata (az_provider_key a) (Some ''tool_raised'')),
              case cl_reserved c of
                None \<Rightarrow> w
              | Some r \<Rightarrow> snd (settle_row now fault w r CI_FAILED None (Some ''tool_raised'')
                  (Some (describe (ExternalError cls m)))))
         | Tool_Returned result \<Rightarrow>
             (case cl_reserved c of
                None \<Rightarrow> (ok_envelope (cl_call_id c) request (cl_context c) result None (az_governance a)
                          (az_decision_id a) (az_provider_key a), w)
              | Some r \<Rightarrow>
             (case settle_row now fault w r (connector_completion_status env result)
                     (connector_result_text result ''provider_id'') (connector_provider_status result)
                     (connector_provider_error result) of
                (Inl e, w') \<Rightarrow> (failed_envelope (cl_call_id c) request (cl_context c) (Some e)
                    ''connector_invocation_terminal_update_failed'' (az_governance a) (az_decision_id a)
                    (az_provider_key a) [], w')
              | (Inr _, w') \<Rightarrow> (ok_envelope (cl_call_id c) request (cl_context c) result None (az_governance a)
                    (az_decision_id a) (az_provider_key a), w'))))"

section \<open>The method\<close>

text \<open>Everything before the ledger.\<close>

definition begin_call ::
  "py_env \<Rightarrow> int \<Rightarrow> uuid \<Rightarrow> string option \<Rightarrow> invoker \<Rightarrow> tool_world \<Rightarrow> tool_request \<Rightarrow> agent_context \<Rightarrow> int
     \<Rightarrow> string option \<Rightarrow> (uuid \<times> tool \<times> authorization) verdict \<times> tool_world" where
  "begin_call env now fresh ambient iv w request context ordinal pre_approved =
     (case derive_tool_invocation_id env (ei_execution_id (cx_execution context)) (tq_tool_name request) ordinal
             (tq_payload request) (tq_metadata request) of
        Inl e \<Rightarrow> (Raises e, w)
      | Inr call_id \<Rightarrow>
     (case resolve_call env iv call_id request context of
        Inl envelope \<Rightarrow> (Returns envelope, w)
      | Inr t \<Rightarrow>
     (case authorize env now fresh ambient iv w call_id request context t pre_approved of
        (Raises e, w') \<Rightarrow> (Raises e, w')
      | (Returns envelope, w') \<Rightarrow> (Returns envelope, w')
      | (Continues a, w') \<Rightarrow> (Continues (call_id, t, a), w'))))"

text \<open>One invocation without interference: \<open>call\<close> runs the tool and may change the rest
  of the world, \<open>faults\<close> are what the database raises at the reservation and at the
  completion.\<close>

definition invoke_tool ::
  "py_env \<Rightarrow> int \<Rightarrow> uuid \<Rightarrow> string option
     \<Rightarrow> (tool \<Rightarrow> tool_request \<Rightarrow> agent_context \<Rightarrow> 'x \<Rightarrow> tool_outcome \<times> 'x)
     \<Rightarrow> error option \<times> error option \<Rightarrow> invoker \<Rightarrow> tool_request \<Rightarrow> agent_context \<Rightarrow> int \<Rightarrow> string option
     \<Rightarrow> tool_world \<times> 'x \<Rightarrow> tool_envelope result \<times> tool_world \<times> 'x" where
  "invoke_tool env now fresh ambient call faults iv request context ordinal pre_approved state =
     (case begin_call env now fresh ambient iv (fst state) request context ordinal pre_approved of
        (Raises e, w1) \<Rightarrow> (Inl e, w1, snd state)
      | (Returns envelope, w1) \<Rightarrow> (Inr envelope, w1, snd state)
      | (Continues (call_id, t, a), w1) \<Rightarrow>
     (case reserve_call env now (fst faults) iv w1 call_id context t a of
        (Raises e, w2) \<Rightarrow> (Inl e, w2, snd state)
      | (Returns envelope, w2) \<Rightarrow> (Inr envelope, w2, snd state)
      | (Continues c, w2) \<Rightarrow>
          (case call t (az_request a) context (snd state) of
             (outcome, x) \<Rightarrow>
               (case finish_call env now (snd faults) w2 c outcome of
                  (envelope, w3) \<Rightarrow> (Inr envelope, w3, x)))))"

end
