(* ===== verification/Action_Safety.thy ===== *)
theory Action_Safety
  imports Action_Policy Governance_Gate
begin

text \<open>
  What an agent may do on its own: when the action runtime permits an action, what
  the parser guarantees of the rules behind it, and the ceiling no tenant policy can
  lift.
\<close>

section \<open>Verdicts of the tenant policy\<close>

lemma action_decisions [simp]:
  "r_decision (allow_action now reason b) = ALLOW"
  "r_decision (require_action_approval now reason b) = REQUIRE_APPROVAL"
  "r_decision (deny_action now reason ob) = DENY"
  by (simp_all add: allow_action_def require_action_approval_def deny_action_def action_result_def)

lemma else_result_blocks [simp]: "r_decision (else_result now d reason b) \<noteq> ALLOW"
  by (simp add: else_result_def)

text \<open>When a rule lets an operation pass.\<close>

fun rule_permits :: "py_env \<Rightarrow> metadata \<Rightarrow> action_rule \<Rightarrow> bool" where
  "rule_permits env md (ConfidenceMembershipRule cf gte mf vs d) \<longleftrightarrow>
     (\<exists>c. optional_float env (get_or_none md cf) = Inr c \<and> float_le gte (float_or_zero c)) \<and>
     (case metadata_str md mf of None \<Rightarrow> [] | Some v \<Rightarrow> v) \<in> set vs"
| "rule_permits env md (AmountThresholdRule af lte d cf gte) \<longleftrightarrow>
     (\<exists>n. metadata_int env (get_or_none md af) = Some n \<and> n \<le> lte) \<and>
     (\<forall>f g. cf = Some f \<longrightarrow> gte = Some g \<longrightarrow>
        (\<exists>x. optional_float env (get_or_none md f) = Inr (Some x) \<and> float_le g x))"
| "rule_permits env md (ValueBandsRule vf vs ws) \<longleftrightarrow> (\<exists>v. metadata_str md vf = Some v \<and> v \<in> set vs)"
| "rule_permits env md (AlwaysRule d) \<longleftrightarrow> d = ALLOW"

lemma bind_result_Inr: "bind_result r f = Inr v \<longleftrightarrow> (\<exists>u. r = Inr u \<and> f u = Inr v)"
  by (simp add: bind_result_def split: sum.split)

lemma bind_result_simps [simp]: "bind_result (Inr v) f = f v" "bind_result (Inl e) f = Inl e"
  by (simp_all add: bind_result_def)

definition allowing :: "rule_result result \<Rightarrow> bool" where
  "allowing r \<longleftrightarrow> (\<exists>v. r = Inr v \<and> r_decision v = ALLOW)"

lemma allowing_simps [simp]: "allowing (Inr v) \<longleftrightarrow> r_decision v = ALLOW" "\<not> allowing (Inl e)"
  by (simp_all add: allowing_def)

lemma rule_verdict: "allowing (evaluate_operation_rule env now md b rule) \<longleftrightarrow> rule_permits env md rule"
proof (cases rule)
  case (ConfidenceMembershipRule cf gte mf vs d)
  then show ?thesis by (cases "optional_float env (get_or_none md cf)") auto
next
  case (AmountThresholdRule af lte d cf gte)
  then show ?thesis
    by (cases "metadata_int env (get_or_none md af)"; cases cf; cases gte;
        cases "optional_float env (get_or_none md (the cf))") (auto split: option.splits)
next
  case (ValueBandsRule vf vs ws)
  then show ?thesis by (cases "metadata_str md vf") auto
next
  case (AlwaysRule d)
  then show ?thesis by auto
qed

text \<open>A tool the tenant declared itself.\<close>

definition custom_permits :: "py_env \<Rightarrow> parsed_policy \<Rightarrow> metadata \<Rightarrow> bool" where
  "custom_permits env policy md \<longleftrightarrow>
     (\<exists>name t. metadata_str md ''tool_name'' = Some name \<and> dget (pp_custom_tools policy) name = Some t \<and>
        (ct_execution_policy t = Some AUTO_EXECUTE \<or>
         ct_execution_policy t = None \<and> \<not> commits (ct_commitment_kind t) \<and>
           money_goods_conflict env md (ct_commitment_kind t) = None \<and> ct_decision t = ALLOW))"

lemma custom_verdict:
  "r_decision (evaluate_custom_tool env now (metadata_str md ''tool_name'') policy md) = ALLOW \<longleftrightarrow>
     custom_permits env policy md"
proof (cases "metadata_str md ''tool_name''")
  case None
  then show ?thesis by (simp add: evaluate_custom_tool_def custom_permits_def)
next
  case (Some name)
  show ?thesis
  proof (cases "dget (pp_custom_tools policy) name")
    case None
    with Some show ?thesis by (simp add: evaluate_custom_tool_def custom_permits_def)
  next
    case (Some t)
    with \<open>metadata_str md ''tool_name'' = Some name\<close> show ?thesis
      by (cases "ct_execution_policy t"; cases "money_goods_conflict env md (ct_commitment_kind t)")
        (auto simp: evaluate_custom_tool_def custom_permits_def Let_def split: execution_policy.split)
  qed
qed

text \<open>The operation an action is judged as, and the tenant's word on it.\<close>

definition judged_operation :: "metadata \<Rightarrow> resolved_operation option" where
  "judged_operation md = resolve_operation md (metadata_str md ''tool_name'') (metadata_str md ''action_type'')"

definition policy_permits :: "py_env \<Rightarrow> parsed_policy \<Rightarrow> metadata \<Rightarrow> bool" where
  "policy_permits env policy md \<longleftrightarrow>
     (case judged_operation md of
        None \<Rightarrow> custom_permits env policy md
      | Some operation \<Rightarrow>
          op_commitment_kind operation \<noteq> None \<and> op_approval_policy operation = Some TENANT_POLICY \<and>
          (\<exists>rule. rule_for policy operation = Some rule \<and> rule_permits env md rule))"

lemma judge_verdict: "allowing (judge_action env now policy md) \<longleftrightarrow> policy_permits env policy md"
proof (cases "judged_operation md")
  case None
  then show ?thesis
    by (simp add: judge_action_def policy_permits_def Let_def judged_operation_def custom_verdict)
next
  case (Some operation)
  then have r: "resolve_operation md (metadata_str md ''tool_name'') (metadata_str md ''action_type'') = Some operation"
    by (simp add: judged_operation_def)
  show ?thesis
    by (cases "op_commitment_kind operation"; cases "rule_for policy operation"; cases "op_approval_policy operation")
      (auto simp: judge_action_def policy_permits_def Let_def r Some rule_verdict split: approval_mode.split)
qed

definition active_policy ::
  "py_env \<Rightarrow> action_policy_config \<Rightarrow> governance_context \<Rightarrow> parsed_policy option" where
  "active_policy env cfg c =
     (case (tp_active cfg, tenant_id_from_context c) of
        (Some active, Some tenant) \<Rightarrow>
          (case active (tp_policy_type cfg) tenant of
             Inr (Some row) \<Rightarrow>
               (case parse_action_tools_policy env (tp_order cfg) (tp_ceiling cfg) row of
                  Inl _ \<Rightarrow> None
                | Inr policy \<Rightarrow> Some policy)
           | _ \<Rightarrow> None)
      | _ \<Rightarrow> None)"

lemma tenant_action_speaks: "tenant_action_evaluate env now cfg c \<noteq> Inr []"
  by (simp add: tenant_action_evaluate_def split: option.split sum.split error.split)

lemma tenant_action_allows:
  "allows (tenant_action_evaluate env now cfg c) \<longleftrightarrow>
     (\<exists>policy. active_policy env cfg c = Some policy \<and> policy_permits env policy (subject_metadata (g_subject c)))"
proof (cases "active_policy env cfg c")
  case None
  then show ?thesis
    by (auto simp: active_policy_def tenant_action_evaluate_def allows_def split: option.splits sum.splits error.splits)
next
  case (Some policy)
  then obtain active tenant row where cfg: "tp_active cfg = Some active" "tenant_id_from_context c = Some tenant"
    "active (tp_policy_type cfg) tenant = Inr (Some row)"
    "parse_action_tools_policy env (tp_order cfg) (tp_ceiling cfg) row = Inr policy"
    by (auto simp: active_policy_def split: option.splits sum.splits)
  show ?thesis
    using judge_verdict [of env now policy "subject_metadata (g_subject c)"] Some
    by (cases "judge_action env now policy (subject_metadata (g_subject c))")
      (auto simp: tenant_action_evaluate_def cfg allows_def)
qed

section \<open>The action runtime\<close>

definition action_chain :: "py_env \<Rightarrow> int \<Rightarrow> redis_view option \<Rightarrow> action_policy_config \<Rightarrow> policy_chain" where
  "action_chain env now redis cfg =
     \<lparr>ch_chain_id = ''agent.action_tools.pre_execution'', ch_stage = PRE_EXECUTION,
      ch_policies = build_crisis_policies env now redis @ [tenant_action_policy env now cfg],
      ch_governance_version = ''unversioned''\<rparr>"

definition action_runtime :: "py_env \<Rightarrow> int \<Rightarrow> redis_view option \<Rightarrow> action_policy_config \<Rightarrow> governance_runtime" where
  "action_runtime env now redis cfg =
     \<lparr>gr_handlers = builtin_registry env, gr_chains = [(PRE_EXECUTION, action_chain env now redis cfg)]\<rparr>"

lemma action_policies_supported:
  "p \<in> set (build_crisis_policies env now redis @ [tenant_action_policy env now cfg]) \<Longrightarrow> supports p PRE_EXECUTION"
  by (auto simp: build_crisis_policies_def crisis_policy_def tenant_action_policy_def supports_def split: option.splits)

lemma action_runtime_built:
  "build_action_tool_governance_runtime env now redis cfg = Inr (action_runtime env now redis cfg)"
proof -
  have "filter (\<lambda>p. \<not> supports p PRE_EXECUTION) (build_crisis_policies env now redis @ [tenant_action_policy env now cfg]) = []"
    by (intro filter_False ballI) (use action_policies_supported in blast)
  then have "make_chain env ''agent.action_tools.pre_execution'' PRE_EXECUTION
      (build_crisis_policies env now redis @ [tenant_action_policy env now cfg]) ''unversioned'' =
    Inr (action_chain env now redis cfg)"
    by (simp add: make_chain_def Let_def action_chain_def)
  then show ?thesis
    by (simp add: build_action_tool_governance_runtime_def register_builtin builtin_complete action_runtime_def)
qed

lemma action_runtime_covers: "handlers_cover (action_runtime env now redis cfg)"
  using make_runtime_covers [OF builtin_complete] by (simp add: action_runtime_def)

lemma action_chain_for: "chain_for (action_runtime env now redis cfg) PRE_EXECUTION = Some (action_chain env now redis cfg)"
  by (simp add: chain_for_def action_runtime_def)

text \<open>The identity an evaluation records its decision under, and what stands in its way.\<close>

definition evaluation_identity :: "py_env \<Rightarrow> uuid \<Rightarrow> governance_context \<Rightarrow> uuid" where
  "evaluation_identity env fresh c = (case decision_id_from_context_seed env c of Some i \<Rightarrow> i | None \<Rightarrow> fresh)"

definition identity_taken :: "governance_store option \<Rightarrow> uuid \<Rightarrow> bool" where
  "identity_taken store i \<longleftrightarrow>
     (\<exists>s. store = Some s \<and> (dget (gs_decisions s) i \<noteq> None \<or> dget (gs_traces s) i \<noteq> None))"

lemma persist_failure_raises:
  assumes "gt_decision_id t = gd_decision_id d"
  shows "(\<exists>store'. persist_failure env store d t = (Inr (), store')) \<longleftrightarrow> \<not> identity_taken store (gd_decision_id d)"
proof (cases store)
  case (Some s)
  obtain r s' where p: "persist_failure env (Some s) d t = (r, s')" by force
  from persist_failure_Some [OF p] assms show ?thesis
    by (auto simp: Some p identity_taken_def split: if_splits)
qed (simp add: persist_failure_def identity_taken_def)

lemma persist_success_raises:
  assumes "gt_decision_id t = gd_decision_id d"
  shows "(\<exists>store'. persist_success env store d t a = (Inr (), store')) \<longleftrightarrow> \<not> identity_taken store (gd_decision_id d)"
  unfolding persist_failure_raises [OF assms, symmetric, where env = env]
  by (cases "persist_failure env store d t") (auto simp: persist_success_def split: sum.split option.split)

lemma evaluation_answers:
  assumes "handlers_cover rt"
  shows "(\<exists>e store'. governance_evaluate env now fresh ambient rt store c = (Inr e, store')) \<longleftrightarrow>
    \<not> identity_taken store (evaluation_identity env fresh c)"
proof -
  have delivered: "(\<exists>e store'. deliver r v = (Inr e, store')) \<longleftrightarrow> (\<exists>store'. r = (Inr (), store'))" for r v
    by (cases r; cases "fst r") (auto simp: deliver_def)
  show ?thesis
    using assms
    by (cases rule: evaluate_shape [where c = c and env = env and now = now and fresh = fresh
          and ambient = ambient and store = store])
      (simp_all only: delivered persist_failure_raises persist_success_raises evaluation_identity_def)
qed

text \<open>With handlers that do not raise, an answered evaluation permits exactly when the
  chain is clear.\<close>

lemma permits_iff_clear:
  assumes "gr_handlers rt = builtin_registry env'" "chain_for rt (g_stage c) = Some chain"
    and "governance_evaluate env now fresh ambient rt store c = (Inr e, store')"
  shows "permits e \<longleftrightarrow> chain_clear (ch_policies chain) (with_request_id ambient c)"
proof -
  have cover: "handlers_cover rt"
    using make_runtime_covers [OF builtin_complete [of env env']] assms(1) by (simp add: handlers_cover_def)
  show ?thesis
    using cover
  proof (cases rule: evaluate_shape [where c = c and env = env and now = now and fresh = fresh
        and ambient = ambient and store = store])
    case (unconfigured d e')
    with assms(2) show ?thesis by simp
  next
    case (unenforced d h exc e')
    then show ?thesis using builtin_apply [of env' "gd_decision d" h d] assms(1) by auto
  next
    case (enforced d h a e')
    with assms(3) have "e = e'" by (auto dest!: deliver_Inr)
    with enforced show ?thesis using verdict_allow [OF enforced(1)] assms(2) by (auto simp: permits_decision)
  qed
qed

text \<open>The crisis policies that apply to agent actions let the action pass.\<close>

definition crisis_quiet :: "py_env \<Rightarrow> redis_view option \<Rightarrow> governance_context \<Rightarrow> bool" where
  "crisis_quiet env redis c \<longleftrightarrow>
     (\<forall>r t. redis = Some r \<longrightarrow> tenant_id_for c = Some t \<longrightarrow>
        get_activation (r (crisis_key t ''escalate_all'' [])) = Inr None \<and>
        (get_activation (r (crisis_key t ''halt_refunds'' [])) = Inr None \<or>
         (\<exists>v. get_activation (r (crisis_key t ''halt_refunds'' [])) = Inr (Some v)) \<and>
           \<not> mentions_refund_action env c))"

lemma crisis_decisions [simp]:
  "r_decision (crisis_allow now name i reason) = ALLOW" "r_decision (crisis_result now name i d reason md) = d"
  by (simp_all add: crisis_allow_def crisis_result_def)

lemma halt_refunds_allows:
  "allows (halt_refunds_evaluate env now r c) \<longleftrightarrow>
     (\<forall>t. tenant_id_for c = Some t \<longrightarrow> get_activation (r (crisis_key t ''halt_refunds'' [])) = Inr None \<or>
        (\<exists>v. get_activation (r (crisis_key t ''halt_refunds'' [])) = Inr (Some v)) \<and> \<not> mentions_refund_action env c)"
  by (auto simp: halt_refunds_evaluate_def allows_def Let_def split: option.splits sum.splits)

lemma escalate_all_allows:
  "allows (escalate_all_evaluate now r c) \<longleftrightarrow>
     (\<forall>t. tenant_id_for c = Some t \<longrightarrow> get_activation (r (crisis_key t ''escalate_all'' [])) = Inr None)"
  by (auto simp: escalate_all_evaluate_def allows_def Let_def split: option.splits sum.splits)

lemma allows_answer:
  "answer \<noteq> Inr [] \<Longrightarrow> allows answer \<longleftrightarrow> (\<exists>rs. answer = Inr rs \<and> (\<forall>r\<in>set rs. r_decision r = ALLOW))"
  by (cases answer) (auto simp: allows_def)

lemma chain_clear_allowing:
  assumes "\<And>p. p \<in> set ps \<Longrightarrow> applies_to p (kind_of (g_subject c)) \<Longrightarrow> pol_evaluate p c \<noteq> Inr []"
    and "\<exists>p\<in>set ps. applies_to p (kind_of (g_subject c))"
  shows "chain_clear ps c \<longleftrightarrow> (\<forall>p\<in>set ps. applies_to p (kind_of (g_subject c)) \<longrightarrow> allows (pol_evaluate p c))"
proof -
  have "\<And>p. p \<in> set ps \<Longrightarrow> applies_to p (kind_of (g_subject c)) \<Longrightarrow> allows (pol_evaluate p c) \<longleftrightarrow>
      (\<exists>rs. pol_evaluate p c = Inr rs \<and> (\<forall>r\<in>set rs. r_decision r = ALLOW))"
    using assms(1) allows_answer by blast
  then show ?thesis using assms by (auto simp: chain_clear_def)
qed

lemma halt_refunds_speaks: "halt_refunds_evaluate env now r c \<noteq> Inr []"
  by (simp add: halt_refunds_evaluate_def Let_def split: option.split sum.split)

lemma escalate_all_speaks: "escalate_all_evaluate now r c \<noteq> Inr []"
  by (simp add: escalate_all_evaluate_def Let_def split: option.split sum.split)

lemma action_chain_clear:
  assumes "kind_of (g_subject c) = AGENT_ACTION"
  shows "chain_clear (ch_policies (action_chain env now redis cfg)) c \<longleftrightarrow>
     crisis_quiet env redis c \<and> allows (tenant_action_evaluate env now cfg c)"
proof (cases redis)
  case None
  with assms show ?thesis
    by (subst chain_clear_allowing)
      (auto simp: action_chain_def build_crisis_policies_def tenant_action_policy_def applies_to_def
        tenant_action_speaks crisis_quiet_def)
next
  case (Some r)
  with assms show ?thesis
    by (subst chain_clear_allowing)
      (auto simp: action_chain_def build_crisis_policies_def crisis_policy_def tenant_action_policy_def applies_to_def
        tenant_action_speaks halt_refunds_speaks escalate_all_speaks crisis_quiet_def
        halt_refunds_allows escalate_all_allows)
qed

lemma resource_for_request [simp]: "g_resource (with_request_id a c) = g_resource c"
  by (simp add: with_request_id_def)

lemma tenant_from_request [simp]: "tenant_id_from_context (with_request_id a c) = tenant_id_from_context c"
  by (simp add: tenant_id_from_context_def cong: option.case_cong)

lemma context_for_request [simp]:
  "crisis_quiet env redis (with_request_id a c) = crisis_quiet env redis c"
  "active_policy env cfg (with_request_id a c) = active_policy env cfg c"
  by (simp_all add: crisis_quiet_def mentions_refund_action_def active_policy_def)

lemma action_permits:
  assumes "build_action_tool_governance_runtime env now redis cfg = Inr rt"
    and "g_stage c = PRE_EXECUTION" "kind_of (g_subject c) = AGENT_ACTION"
    and "governance_evaluate env now fresh ambient rt store c = (Inr e, store')"
  shows "permits e \<longleftrightarrow> crisis_quiet env redis c \<and>
    (\<exists>policy. active_policy env cfg c = Some policy \<and> policy_permits env policy (subject_metadata (g_subject c)))"
proof -
  have rt: "rt = action_runtime env now redis cfg" using assms(1) by (simp add: action_runtime_built)
  have "permits e \<longleftrightarrow> chain_clear (ch_policies (action_chain env now redis cfg)) (with_request_id ambient c)"
    using assms(2,4) by (intro permits_iff_clear [of rt env])
      (simp_all add: rt action_runtime_def chain_for_def)
  then show ?thesis
    using assms(3) by (simp add: action_chain_clear tenant_action_allows)
qed

section \<open>What the parser guarantees\<close>

lemma require_mapping_Inr: "require_mapping v field = Inr d \<longleftrightarrow> v = PDict d"
  by (cases v) auto

lemma require_int_bound: "require_int v field = Inr n \<Longrightarrow> 0 \<le> n"
  by (cases v) (auto split: if_splits)

lemma parsed_threshold:
  assumes "parse_operation_rule env ceiling AMOUNT_THRESHOLD prefix rule = Inr parsed"
  shows "\<exists>limit d gte. parsed = AmountThresholdRule ''refund_amount_cents'' limit d (Some ''diagnostic_confidence'') gte \<and>
    0 \<le> limit \<and> limit \<le> ceiling"
  using assms by (auto simp: parse_operation_rule_def bind_result_Inr dest: require_int_bound split: if_splits)

lemma get_or_none_mapping: "get_or_none d k = PDict x \<longleftrightarrow> dget d k = Some (PDict x)"
  by (simp add: get_or_none_def split: option.split)

lemma parsed_rules:
  assumes "parse_registered_rules env ceiling tools rs rules = Inr out" "dget out i = Some rule" "dget rules i \<noteq> Some rule"
  shows "\<exists>r key kind entry. r \<in> set rs \<and> rop_operation_id r = i \<and> rop_policy_key r = Some key \<and> rop_rule_kind r = Some kind \<and>
    dget tools key = Some (PDict entry) \<and> parse_operation_rule env ceiling kind key entry = Inr rule"
  using assms
proof (induction rs arbitrary: rules)
  case Nil
  then show ?case by simp
next
  case (Cons r rs)
  show ?case
  proof (cases "\<exists>key kind. rop_policy_key r = Some key \<and> rop_rule_kind r = Some kind \<and> dget tools key \<noteq> None")
    case False
    then have "parse_registered_rules env ceiling tools rs rules = Inr out"
      using Cons.prems(1) by (auto split: option.splits)
    then show ?thesis using Cons.IH [OF _ Cons.prems(2,3)] by fastforce
  next
    case True
    then obtain key kind where key: "rop_policy_key r = Some key" "rop_rule_kind r = Some kind" "dget tools key \<noteq> None"
      by blast
    then obtain entry parsed where entry: "dget tools key = Some (PDict entry)"
        "parse_operation_rule env ceiling kind key entry = Inr parsed"
        "parse_registered_rules env ceiling tools rs (dset (rop_operation_id r) parsed rules) = Inr out"
      using Cons.prems(1) by (auto simp: bind_result_Inr require_mapping_Inr get_or_none_mapping)
    show ?thesis
    proof (cases "rop_operation_id r = i \<and> parsed = rule")
      case True
      with key entry show ?thesis by (intro exI [of _ r]) auto
    next
      case False
      then have "dget (dset (rop_operation_id r) parsed rules) i \<noteq> Some rule" using Cons.prems(3) by auto
      from Cons.IH [OF entry(3) Cons.prems(2) this] show ?thesis by fastforce
    qed
  qed
qed

lemma parsed_custom:
  assumes "parse_custom_tools env tools keys custom = Inr out" "dget out name = Some t" "dget custom name \<noteq> Some t"
  shows "\<exists>key entry. key \<in> set keys \<and> py_strip key = name \<and> dget tools key = Some (PDict entry) \<and>
    parse_custom_tool env name entry = Inr t"
  using assms
proof (induction keys arbitrary: custom)
  case Nil
  then show ?case by simp
next
  case (Cons key keys)
  then obtain entry parsed where entry: "dget tools key = Some (PDict entry)"
      "parse_custom_tool env (py_strip key) entry = Inr parsed"
      "parse_custom_tools env tools keys (dset (py_strip key) parsed custom) = Inr out"
    by (auto simp: bind_result_Inr require_mapping_Inr get_or_none_mapping split: if_splits)
  show ?case
  proof (cases "py_strip key = name \<and> parsed = t")
    case True
    with entry show ?thesis by auto
  next
    case False
    then have "dget (dset (py_strip key) parsed custom) name \<noteq> Some t" using Cons.prems(3) by auto
    from Cons.IH [OF entry(3) Cons.prems(2) this] show ?thesis by auto
  qed
qed

text \<open>What an entry of the tenant's policy says, in its own words.\<close>

definition says_auto_execute :: "py_env \<Rightarrow> metadata \<Rightarrow> bool" where
  "says_auto_execute env entry \<longleftrightarrow>
     (\<exists>s. get_or_none entry ''execution_policy'' = PStr s \<and>
        dashes_to_underscores (str_lower env (py_strip s)) = ''auto_execute'')"

definition says_commitment :: "py_env \<Rightarrow> metadata \<Rightarrow> commitment_kind \<Rightarrow> bool" where
  "says_commitment env entry k \<longleftrightarrow>
     (\<exists>s. get_or_none entry ''commitment_kind'' = PStr s \<and> str_lower env (py_strip s) = commitment_value k)"

lemma stripped_text_Some: "stripped_text v = Some s \<longleftrightarrow> (\<exists>r. v = PStr r \<and> s = py_strip r \<and> s \<noteq> [])"
  by (cases v) auto

lemma parsed_declaration:
  assumes "parse_custom_tool env name entry = Inr t"
  shows "ct_execution_policy t = Some AUTO_EXECUTE \<Longrightarrow> says_auto_execute env entry"
    and "says_commitment env entry (ct_commitment_kind t)"
proof -
  obtain k p d where p: "parse_commitment env (''tools.'' @ name) (get_or_none entry ''commitment_kind'') = Inr k"
      "parse_execution_policy env (''tools.'' @ name) (get_or_none entry ''execution_policy'') = Inr p"
      "ct_commitment_kind t = k" "ct_execution_policy t = p"
    using assms by (auto simp: parse_custom_tool_def Let_def bind_result_Inr)
  show "ct_execution_policy t = Some AUTO_EXECUTE \<Longrightarrow> says_auto_execute env entry"
    using p by (auto simp: parse_execution_policy_def says_auto_execute_def stripped_text_Some Let_def
        split: if_splits option.splits)
  obtain s where s: "stripped_text (get_or_none entry ''commitment_kind'') = Some s"
      "find (\<lambda>k. commitment_value k = str_lower env s) all_commitment_kinds = Some k"
    using p(1) by (auto simp: parse_commitment_def split: option.splits)
  then have "commitment_value k = str_lower env s" by (auto simp: find_Some_iff)
  then show "says_commitment env entry (ct_commitment_kind t)"
    using s(1) p(3) by (auto simp: says_commitment_def stripped_text_Some)
qed

text \<open>The tools a tenant's policy names: the object under \<open>tools\<close>.\<close>

definition policy_tools :: "action_policy_config \<Rightarrow> governance_context \<Rightarrow> metadata option" where
  "policy_tools cfg c =
     (case (tp_active cfg, tenant_id_from_context c) of
        (Some active, Some tenant) \<Rightarrow>
          (case active (tp_policy_type cfg) tenant of
             Inr (Some row) \<Rightarrow>
               (case gp_parameters row of
                  PDict ps \<Rightarrow> (case dget ps ''tools'' of Some (PDict tools) \<Rightarrow> Some tools | _ \<Rightarrow> None)
                | _ \<Rightarrow> None)
           | _ \<Rightarrow> None)
      | _ \<Rightarrow> None)"

lemma active_policy_parsed:
  assumes "active_policy env cfg c = Some policy"
  shows "\<exists>tools keys. policy_tools cfg c = Some tools \<and>
    parse_registered_rules env (tp_ceiling cfg) tools REGISTERED_OPERATIONS [] = Inr (pp_rules policy) \<and>
    parse_custom_tools env tools keys [] = Inr (pp_custom_tools policy)"
proof -
  obtain active tenant row where cfg: "tp_active cfg = Some active" "tenant_id_from_context c = Some tenant"
    "active (tp_policy_type cfg) tenant = Inr (Some row)"
    "parse_action_tools_policy env (tp_order cfg) (tp_ceiling cfg) row = Inr policy"
    using assms by (auto simp: active_policy_def split: option.splits sum.splits)
  then obtain ps where ps: "gp_parameters row = PDict ps"
      "parse_action_tools_parameters env (tp_order cfg) (tp_ceiling cfg) ps (binding_for row) = Inr policy"
    by (auto simp: parse_action_tools_policy_def bind_result_Inr require_mapping_Inr)
  then obtain tools where tools: "dget ps ''tools'' = Some (PDict tools)"
    by (auto simp: parse_action_tools_parameters_def bind_result_Inr require_mapping_Inr get_or_none_mapping)
  then have t: "get_or_none ps ''tools'' = PDict tools" by (simp add: get_or_none_def)
  have "policy_tools cfg c = Some tools" by (simp add: policy_tools_def cfg ps tools)
  moreover obtain keys where
      "parse_registered_rules env (tp_ceiling cfg) tools REGISTERED_OPERATIONS [] = Inr (pp_rules policy)"
      "parse_custom_tools env tools keys [] = Inr (pp_custom_tools policy)"
    using ps(2) by (auto simp: parse_action_tools_parameters_def t Let_def bind_result_Inr split: if_splits)
  ultimately show ?thesis by blast
qed

lemma refund_rule_bounded:
  assumes "active_policy env cfg c = Some policy" "dget (pp_rules policy) ''operation.refund_request'' = Some rule"
  shows "\<exists>limit d gte. rule = AmountThresholdRule ''refund_amount_cents'' limit d (Some ''diagnostic_confidence'') gte \<and>
    0 \<le> limit \<and> limit \<le> tp_ceiling cfg"
proof -
  obtain tools where "parse_registered_rules env (tp_ceiling cfg) tools REGISTERED_OPERATIONS [] = Inr (pp_rules policy)"
    using active_policy_parsed [OF assms(1)] by blast
  from parsed_rules [OF this assms(2)] obtain r key kind entry where r: "r \<in> set REGISTERED_OPERATIONS"
      "rop_operation_id r = ''operation.refund_request''" "rop_rule_kind r = Some kind"
      "parse_operation_rule env (tp_ceiling cfg) kind key entry = Inr rule"
    by auto
  then have "kind = AMOUNT_THRESHOLD" by (auto simp: REGISTERED_OPERATIONS_def declare_operation_def)
  with parsed_threshold r(4) show ?thesis by blast
qed

section \<open>When an action passes\<close>

text \<open>A tenant with the four required rules and a tool of its own.\<close>

definition demo_tools :: metadata where
  "demo_tools =
     [(''warranty.claim'', PDict [(''allow'', PDict [(''confidence_gte'', PInt 0),
         (''issue_category_in'', PList [PStr ''battery''])]), (''else'', PStr ''deny'')]),
      (''replacement.order'', PDict [(''always'', PStr ''require_approval'')]),
      (''refund.request'', PDict [(''allow'', PDict [(''refund_amount_cents_lte'', PInt 5000)]),
         (''else'', PStr ''require_approval'')]),
      (''warehouse.repair.report'', PDict [(''allow'', PDict [(''severity_in'', PList [PStr ''low''])]),
         (''require_approval'', PDict [(''severity_in'', PList [PStr ''high''])])]),
      (''account.credit'', PDict [(''commitment_kind'', PStr ''money''),
         (''execution_policy'', PStr ''auto-execute'')])]"

definition demo_policy_config :: action_policy_config where
  "demo_policy_config =
     \<lparr>tp_active = Some (\<lambda>kind tenant. Inr (if tenant = ''t1'' then Some
         \<lparr>gp_policy_id = ''p1'', gp_policy_type = kind, gp_version = 1, gp_content_sha256 = ''c'',
          gp_parameters = PDict [(''tools'', PDict demo_tools)]\<rparr> else None)),
      tp_policy_type = ''action_tools'', tp_order = (\<lambda>keys. keys), tp_ceiling = 10000\<rparr>"

definition demo_action :: "metadata \<Rightarrow> governance_context" where
  "demo_action md =
     \<lparr>g_stage = PRE_EXECUTION, g_action = ''agent.tool_invocation'', g_resource = ''tool:t'', g_actor = ''agent:a'',
      g_tenant_id = Some ''t1'', g_request_id = None, g_principal_id = None, g_organization_id = None,
      g_environment_id = None, g_authority = None,
      g_subject = Agent_Action
        \<lparr>as_agent_id = ''a'', as_capability = [], as_tool_name = Some ''t'', as_target_resource = ''t'',
         as_execution_scope = ''execution:e'', as_supervisor_context = [], as_request_id = None,
         as_tenant_id = Some ''t1'', as_metadata = md\<rparr>,
      g_correlation_id = None, g_metadata = []\<rparr>"

definition demo_parsed :: parsed_policy where
  "demo_parsed = \<lparr>pp_binding = \<lparr>ab_policy_id = ''p1'', ab_policy_type = ''action_tools'', ab_version = 1, ab_content_sha256 = ''c''\<rparr>,
     pp_rules =
       [(''operation.warranty_claim'', ConfidenceMembershipRule ''diagnostic_confidence'' 0 ''issue_category'' [''battery''] DENY),
        (''operation.replacement_order'', AlwaysRule REQUIRE_APPROVAL),
        (''operation.refund_request'', AmountThresholdRule ''refund_amount_cents'' 5000 REQUIRE_APPROVAL
           (Some ''diagnostic_confidence'') None),
        (''operation.warehouse_repair_report'', ValueBandsRule ''severity'' [''low''] [''high''])],
     pp_custom_tools = [(''account.credit'', \<lparr>ct_tool_name = ''account.credit'', ct_commitment_kind = CK_MONEY,
       ct_decision = REQUIRE_APPROVAL, ct_execution_policy = Some AUTO_EXECUTE\<rparr>)]\<rparr>"

lemma declared_keys:
  "registered_policy_keys = [''warranty.claim'', ''replacement.order'', ''refund.request'', ''warehouse.repair.report'',
     ''repair.dispatch'', ''replacement.dispatch'', ''warranty.dispatch'', ''repair.booking'']"
  "required_policy_keys = [''warranty.claim'', ''replacement.order'', ''refund.request'', ''warehouse.repair.report'']"
  by (simp_all add: registered_policy_keys_def required_policy_keys_def REGISTERED_OPERATIONS_def declare_operation_def)

lemmas demo_text_defs = demo_env_def py_strip_def py_space_def ascii_lower_def get_or_none_def decision_words_def

lemma demo_rules_parsed: "parse_registered_rules demo_env 10000 demo_tools REGISTERED_OPERATIONS [] = Inr (pp_rules demo_parsed)"
  by (simp add: REGISTERED_OPERATIONS_def declare_operation_def demo_tools_def parse_operation_rule_def
      require_policy_decision_def demo_text_defs demo_parsed_def require_nonnegative_def float_negative_def
      float_key_def float_nan_def)

lemma demo_custom_parsed: "parse_custom_tools demo_env demo_tools [''account.credit''] [] = Inr (pp_custom_tools demo_parsed)"
  by (simp add: demo_tools_def parse_custom_tool_def parse_commitment_def parse_execution_policy_def
      parse_custom_decision_def demo_text_defs demo_parsed_def all_commitment_kinds_def dashes_to_underscores_def Let_def)

lemma demo_policy_parsed: "active_policy demo_env demo_policy_config (demo_action md) = Some demo_parsed"
proof -
  let ?row = "\<lparr>gp_policy_id = ''p1'', gp_policy_type = ''action_tools'', gp_version = 1, gp_content_sha256 = ''c'',
       gp_parameters = PDict [(''tools'', PDict demo_tools)]\<rparr>"
  have "dkeys demo_tools = [''warranty.claim'', ''replacement.order'', ''refund.request'', ''warehouse.repair.report'', ''account.credit'']"
    by (simp add: demo_tools_def)
  moreover have "fst ` set demo_tools =
      {''warranty.claim'', ''replacement.order'', ''refund.request'', ''warehouse.repair.report'', ''account.credit''}"
    by (simp add: demo_tools_def)
  ultimately have "parse_action_tools_policy demo_env (\<lambda>keys. keys) 10000 ?row = Inr demo_parsed"
    by (simp add: parse_action_tools_policy_def parse_action_tools_parameters_def get_or_none_def declared_keys
        binding_for_def demo_rules_parsed demo_custom_parsed del: parse_custom_tools.simps)
      (simp add: demo_parsed_def)
  then show ?thesis
    by (simp add: active_policy_def demo_policy_config_def demo_action_def tenant_id_from_context_def)
qed

text \<open>(C15) The action runtime decides exactly as the tenant said and the operators allow,
  with persistence or without.  An evaluation of an agent's action is answered exactly
  when the identity of its decision is new to the store; it raises when a decision or a
  trace is recorded under that identity already, as for a context evaluated again with the
  same seed.  An answer permits the action exactly when Redis shows neither an active
  escalate-all nor an active refund halt that the action falls under, and the tenant's
  active policy can be read, parses and lets the operation the metadata names pass: a
  declared operation by its own rule and only in tenant-policy mode, a tool of the tenant
  by its declaration, anything else never.\<close>

theorem action_permit_exact:
  assumes "build_action_tool_governance_runtime env now redis cfg = Inr rt"
    and "g_stage c = PRE_EXECUTION" "kind_of (g_subject c) = AGENT_ACTION"
  shows "case governance_evaluate env now fresh ambient rt store c of
      (Inl err, store') \<Rightarrow> identity_taken store (evaluation_identity env fresh c)
    | (Inr e, store') \<Rightarrow> \<not> identity_taken store (evaluation_identity env fresh c) \<and>
        (permits e \<longleftrightarrow> crisis_quiet env redis c \<and>
          (\<exists>policy. active_policy env cfg c = Some policy \<and> policy_permits env policy (subject_metadata (g_subject c))))"
proof -
  have cover: "handlers_cover rt" using assms(1) by (auto simp: action_runtime_built action_runtime_covers)
  obtain r store' where r: "governance_evaluate env now fresh ambient rt store c = (r, store')" by force
  note answers = evaluation_answers [OF cover, of env now fresh ambient store c] and permitted = action_permits [OF assms]
  show ?thesis
  proof (cases r)
    case (Inl err)
    with answers r show ?thesis by simp
  next
    case (Inr e)
    with answers permitted [OF r [unfolded Inr]] r show ?thesis by simp
  qed
qed

lemma demo_refund_permitted:
  "crisis_quiet demo_env (Some (\<lambda>k. Redis_Missing)) (demo_action md)"
  "policy_permits demo_env demo_parsed [(''tool_name'', PStr ''refund.request''), (''refund_amount_cents'', PInt 4000)]"
  "judged_operation [(''tool_name'', PStr ''refund.request''), (''refund_amount_cents'', PInt 4000)] =
     Some (from_registered (REGISTERED_OPERATIONS ! 2) None)"
proof -
  show j: "judged_operation [(''tool_name'', PStr ''refund.request''), (''refund_amount_cents'', PInt 4000)] =
     Some (from_registered (REGISTERED_OPERATIONS ! 2) None)"
    by (simp add: judged_operation_def resolve_operation_def resolve_explicit_metadata_def metadata_str_def
        get_or_none_def commitment_of_def approval_mode_of_def or_else_def registered_by_tool_def
        REGISTERED_OPERATIONS_def declare_operation_def py_strip_def py_space_def)
  show "policy_permits demo_env demo_parsed [(''tool_name'', PStr ''refund.request''), (''refund_amount_cents'', PInt 4000)]"
    by (simp add: policy_permits_def j from_registered_def REGISTERED_OPERATIONS_def declare_operation_def rule_for_def
        demo_parsed_def get_or_none_def)
qed (simp add: crisis_quiet_def)

lemma action_permit_exact_witness:
  "\<exists>e s. governance_evaluate demo_env 0 ''f'' None (action_runtime demo_env 0 (Some (\<lambda>k. Redis_Missing)) demo_policy_config)
      (Some empty_governance_store)
      (demo_action [(''tool_name'', PStr ''refund.request''), (''refund_amount_cents'', PInt 4000)]) = (Inr e, s) \<and> permits e"
proof -
  let ?c = "demo_action [(''tool_name'', PStr ''refund.request''), (''refund_amount_cents'', PInt 4000)]"
  let ?run = "governance_evaluate demo_env 0 ''f'' None (action_runtime demo_env 0 (Some (\<lambda>k. Redis_Missing)) demo_policy_config)
    (Some empty_governance_store) ?c"
  have c: "g_stage ?c = PRE_EXECUTION" "kind_of (g_subject ?c) = AGENT_ACTION"
    "subject_metadata (g_subject ?c) = [(''tool_name'', PStr ''refund.request''), (''refund_amount_cents'', PInt 4000)]"
    by (simp_all add: demo_action_def)
  have new: "\<not> identity_taken (Some empty_governance_store) i" for i
    by (simp add: identity_taken_def empty_governance_store_def)
  have permitted: "\<exists>policy. active_policy demo_env demo_policy_config ?c = Some policy \<and>
      policy_permits demo_env policy [(''tool_name'', PStr ''refund.request''), (''refund_amount_cents'', PInt 4000)]"
    using demo_policy_parsed demo_refund_permitted(2) by blast
  obtain r s where r: "?run = (r, s)" by force
  from action_permit_exact [OF action_runtime_built [of demo_env 0 "Some (\<lambda>k. Redis_Missing)" demo_policy_config] c(1,2),
      where fresh = "''f''" and ambient = None and store = "Some empty_governance_store"]
  show ?thesis using new permitted demo_refund_permitted(1) c(3) by (cases r) (simp_all only: r, simp_all)
qed

text \<open>(C16) No tenant policy lets an agent spend freely.  Suppose an evaluation permits an
  action.  When the action is judged as a declared operation, which the metadata may name
  itself, then in tenant-policy mode with a commitment, and by the rule the tenant's active
  policy parses for exactly that operation; when that operation is the refund request, the
  amount in the metadata is an integer at most the platform's ceiling, whatever the
  policy's threshold says.  When it is not judged as a declared operation, the tenant's
  policy names the tool with its commitment, and a commitment of money, goods or service
  says auto_execute in so many words.  Nothing bounds the amount of an action judged as
  another declared operation than the refund request, whichever tool it calls.\<close>

theorem auto_action_bounded:
  assumes "build_action_tool_governance_runtime env now redis cfg = Inr rt"
    and "g_stage c = PRE_EXECUTION" "kind_of (g_subject c) = AGENT_ACTION"
    and "governance_evaluate env now fresh ambient rt store c = (Inr e, store')" "permits e"
    and md: "md = subject_metadata (g_subject c)"
  shows "(\<forall>operation. judged_operation md = Some operation \<longrightarrow>
      op_approval_policy operation = Some TENANT_POLICY \<and> op_commitment_kind operation \<noteq> None \<and>
      (\<exists>i policy rule. op_operation_id operation = Some i \<and> i \<in> rop_operation_id ` set REGISTERED_OPERATIONS \<and>
         active_policy env cfg c = Some policy \<and> dget (pp_rules policy) i = Some rule \<and> rule_permits env md rule \<and>
         (i = ''operation.refund_request'' \<longrightarrow>
            (\<exists>n. metadata_int env (get_or_none md ''refund_amount_cents'') = Some n \<and> n \<le> tp_ceiling cfg)))) \<and>
    (judged_operation md = None \<longrightarrow>
      (\<exists>name tools key entry k. metadata_str md ''tool_name'' = Some name \<and> policy_tools cfg c = Some tools \<and>
         py_strip key = name \<and> dget tools key = Some (PDict entry) \<and> says_commitment env entry k \<and>
         (commits k \<longrightarrow> says_auto_execute env entry)))"
proof -
  obtain policy where policy: "active_policy env cfg c = Some policy" "policy_permits env policy md"
    using action_permits [OF assms(1-4)] assms(5) md by blast
  obtain tools keys where tools: "policy_tools cfg c = Some tools"
      "parse_custom_tools env tools keys [] = Inr (pp_custom_tools policy)"
    using active_policy_parsed [OF policy(1)] by blast
  show ?thesis
  proof (intro conjI allI impI)
    fix operation
    assume op: "judged_operation md = Some operation"
    with policy(2) obtain rule where rule: "op_approval_policy operation = Some TENANT_POLICY" "op_commitment_kind operation \<noteq> None"
        "rule_for policy operation = Some rule" "rule_permits env md rule"
      by (auto simp: policy_permits_def)
    from rule(3) obtain i where i: "op_operation_id operation = Some i" "dget (pp_rules policy) i = Some rule"
      by (cases "op_operation_id operation") (auto simp: rule_for_def)
    obtain tools' where "parse_registered_rules env (tp_ceiling cfg) tools' REGISTERED_OPERATIONS [] = Inr (pp_rules policy)"
      using active_policy_parsed [OF policy(1)] by blast
    from parsed_rules [OF this i(2)] have declared: "i \<in> rop_operation_id ` set REGISTERED_OPERATIONS" by auto
    have "\<exists>n. metadata_int env (get_or_none md ''refund_amount_cents'') = Some n \<and> n \<le> tp_ceiling cfg"
      if "i = ''operation.refund_request''"
      using refund_rule_bounded [OF policy(1) i(2) [unfolded that]] rule(4) by fastforce
    with rule i declared policy(1) show "op_approval_policy operation = Some TENANT_POLICY" "op_commitment_kind operation \<noteq> None"
      "\<exists>i policy rule. op_operation_id operation = Some i \<and> i \<in> rop_operation_id ` set REGISTERED_OPERATIONS \<and>
         active_policy env cfg c = Some policy \<and> dget (pp_rules policy) i = Some rule \<and> rule_permits env md rule \<and>
         (i = ''operation.refund_request'' \<longrightarrow>
            (\<exists>n. metadata_int env (get_or_none md ''refund_amount_cents'') = Some n \<and> n \<le> tp_ceiling cfg))"
      by blast+
  next
    assume "judged_operation md = None"
    then obtain name t where t: "metadata_str md ''tool_name'' = Some name" "dget (pp_custom_tools policy) name = Some t"
        "ct_execution_policy t = Some AUTO_EXECUTE \<or> \<not> commits (ct_commitment_kind t)"
      using policy(2) by (auto simp: policy_permits_def custom_permits_def)
    obtain key entry where key: "py_strip key = name" "dget tools key = Some (PDict entry)"
        "parse_custom_tool env name entry = Inr t"
      using parsed_custom [OF tools(2) t(2)] by auto
    then have "says_commitment env entry (ct_commitment_kind t)"
        "commits (ct_commitment_kind t) \<longrightarrow> says_auto_execute env entry"
      using parsed_declaration [OF key(3)] t(3) by auto
    with t key tools show "\<exists>name tools key entry k. metadata_str md ''tool_name'' = Some name \<and>
         policy_tools cfg c = Some tools \<and> py_strip key = name \<and> dget tools key = Some (PDict entry) \<and>
         says_commitment env entry k \<and> (commits k \<longrightarrow> says_auto_execute env entry)" by blast
  qed
qed

lemma auto_action_bounded_witness:
  "\<exists>n. metadata_int demo_env (PInt 4000) = Some n \<and> n \<le> tp_ceiling demo_policy_config"
proof -
  let ?md = "[(''tool_name'', PStr ''refund.request''), (''refund_amount_cents'', PInt 4000)]"
  let ?c = "demo_action ?md"
  have c: "g_stage ?c = PRE_EXECUTION" "kind_of (g_subject ?c) = AGENT_ACTION" "?md = subject_metadata (g_subject ?c)"
    by (simp_all add: demo_action_def)
  obtain e where e: "governance_evaluate demo_env 0 ''f'' None
      (action_runtime demo_env 0 (Some (\<lambda>k. Redis_Missing)) demo_policy_config) None ?c = (Inr e, None)"
    using action_runtime_covers
    by (cases rule: evaluate_shape [where c = ?c and env = demo_env and now = 0 and fresh = "''f''"
          and ambient = None and store = None]) auto
  have "permits e"
    using action_permits [OF action_runtime_built c(1,2) e] demo_policy_parsed demo_refund_permitted c(3) by metis
  from auto_action_bounded [OF action_runtime_built c(1,2) e this c(3)] demo_refund_permitted(3)
  have "\<exists>n. metadata_int demo_env (get_or_none ?md ''refund_amount_cents'') = Some n \<and> n \<le> tp_ceiling demo_policy_config"
    by (auto simp: from_registered_def REGISTERED_OPERATIONS_def declare_operation_def)
  then show ?thesis by (simp add: get_or_none_def)
qed

end
