(* ===== verification/Tool_Safety.thy ===== *)
theory Tool_Safety
  imports Tool_Invoker Action_Safety
begin

text \<open>
  What the tool invoker promises of one invocation: no action without a persisted allowance
  made out to that very call and, with a ledger, a new pending row that stands for it.
\<close>

section \<open>What an evaluation leaves behind\<close>

lemma evaluated_decision:
  assumes "governance_evaluate env now fresh ambient rt store c = (Inr e, store')" "en_error e = None" "en_decision e = Some d"
  shows "\<exists>v. gd_metadata d = stamped_metadata (with_request_id ambient c) v []"
    and "store' = Some s' \<Longrightarrow> dget (gs_decisions s') (gd_decision_id d) = Some (decision_to_record env d)"
proof -
  obtain chain where chain: "chain_for rt (g_stage (with_request_id ambient c)) = Some chain"
    using assms by (auto simp: governance_evaluate_def fail_envelope_def Let_def dest!: deliver_Inr split: option.splits)
  obtain rs ts where eng: "engine_evaluate now (ch_policies chain) (with_request_id ambient c) = (rs, ts)" by force
  define dd where "dd = build_decision now fresh (g_stage (with_request_id ambient c)) (ch_chain_id chain) rs
      (Some (stamped_metadata (with_request_id ambient c) (ch_governance_version chain) [])) None
      (decision_id_from_context_seed env (with_request_id ambient c))"
  obtain t a where d: "d = dd" and p: "persist_success env store d t a = (Inr (), store')"
    using assms chain eng unfolding dd_def
    by (auto simp: governance_evaluate_def Let_def dest!: deliver_Inr split: option.splits sum.splits)
  show "\<exists>v. gd_metadata d = stamped_metadata (with_request_id ambient c) v []"
    by (auto simp: d dd_def build_decision_def Let_def)
  show "dget (gs_decisions s') (gd_decision_id d) = Some (decision_to_record env d)" if "store' = Some s'"
  proof (cases store)
    case None
    with p that show ?thesis by simp
  next
    case (Some s)
    obtain x y where xy: "persist_failure env (Some s) d t = (x, y)" by force
    then show ?thesis
      using p that persist_failure_Some [OF xy] Some
      by (auto simp: persist_success_Some split: if_splits sum.splits option.splits)
  qed
qed

lemma binding_recorded:
  assumes "governance_evaluate env now fresh ambient rt store c = (Inr e, store')" "en_error e = None" "en_decision e = Some d"
    and "store' = Some s'" "dget (g_metadata c) ''agent_action_binding'' = Some v"
  shows "\<exists>r. dget (gs_decisions s') (gd_decision_id d) = Some r \<and> dget (dr_metadata r) ''agent_action_binding'' = Some v"
proof -
  obtain version where "gd_metadata d = stamped_metadata (with_request_id ambient c) version []"
    using evaluated_decision(1) [OF assms(1-3)] by blast
  then have "dget (gd_metadata d) ''agent_action_binding'' = Some v"
    using assms(5) by (simp add: stamped_metadata_def dget_dmerge)
  then show ?thesis
    using evaluated_decision(2) [OF assms(1-4)] by (simp add: dr_metadata_of_decision)
qed

section \<open>Authorization\<close>

definition call_binding :: "py_env \<Rightarrow> tool_request \<Rightarrow> agent_context \<Rightarrow> string" where
  "call_binding env request context =
     compute_agent_action_binding env (cx_tenant_id context) (tq_tool_name request)
       (compute_agent_execution_actor context) (tq_payload request)"

text \<open>The authorization names a persisted allowance, visible to the tenant and bound to
  this call.\<close>

definition backed :: "py_env \<Rightarrow> tool_world \<Rightarrow> tool_request \<Rightarrow> agent_context \<Rightarrow> authorization \<Rightarrow> bool" where
  "backed env w request context a \<longleftrightarrow>
     (\<exists>d r. az_decision_id a = Some d \<and> persisted_decision w d (cx_tenant_id context) = Some r \<and>
        dr_decision r = decision_value ALLOW \<and>
        dget (dr_metadata r) ''agent_action_binding'' = Some (PStr (call_binding env request context)))"

definition same_call :: "tool_request \<Rightarrow> tool_request \<Rightarrow> bool" where
  "same_call r r' \<longleftrightarrow> tq_tool_name r' = tq_tool_name r \<and> tq_payload r' = tq_payload r"

lemma keyed_same_call [simp]: "same_call r (keyed_request r extra)"
  by (simp add: same_call_def keyed_request_def)

lemma same_call_refl [simp]: "same_call r r"
  by (simp add: same_call_def)

lemma persisted_unchanged [simp]:
  "persisted_decision (w\<lparr>tw_grants := t\<rparr>) d tenant = persisted_decision w d tenant"
  "persisted_decision (w\<lparr>tw_effects := x\<rparr>) d tenant = persisted_decision w d tenant"
  "persisted_decision (w\<lparr>tw_ledger := l\<rparr>) d tenant = persisted_decision w d tenant"
  by (simp_all add: persisted_decision_def)

lemma binding_matches_True:
  "binding_matches r b = Inr True \<Longrightarrow> dget (dr_metadata r) ''agent_action_binding'' = Some (PStr b)"
  by (auto simp: binding_matches_def compare_digest_def split: option.splits pyval.splits if_splits)

lemma claim_grant_authorizes:
  assumes "claim_grant env now iv w call_id request context tenant d actor expected = (Continues a, w')"
  shows "az_decision_id a = Some d \<and> same_call request (az_request a) \<and> tw_governance w' = tw_governance w"
  using assms by (auto simp: claim_grant_def split: sum.splits prod.splits error.splits bool.splits if_splits)

lemma persisted_governance: "tw_governance w' = tw_governance w \<Longrightarrow> persisted_decision w' d t = persisted_decision w d t"
  by (simp add: persisted_decision_def)

lemma pre_approved_backed:
  assumes "authorize_pre_approved env now iv w call_id request context decision_text = (Continues a, w')"
  shows "backed env w' request context a \<and> same_call request (az_request a)"
proof -
  let ?actor = "compute_agent_execution_actor context"
  note unfolded = assms [unfolded authorize_pre_approved_def Let_def]
  have gov: "iv_governance iv \<noteq> None" using unfolded by (cases "iv_governance iv") simp_all
  obtain tenant where tenant: "cx_tenant_id context = Some tenant"
    using unfolded gov by (cases "cx_tenant_id context") simp_all
  obtain d where d: "uuid_parse env decision_text = Some d"
    using unfolded gov tenant by (cases "uuid_parse env decision_text") simp_all
  obtain r where r: "persisted_decision w d (Some tenant) = Some r"
    using unfolded gov tenant d by (cases "persisted_decision w d (Some tenant)") simp_all
  have allow: "dr_decision r = decision_value ALLOW"
    using unfolded gov tenant d r by (cases "dr_decision r = decision_value ALLOW") simp_all
  have match: "binding_matches r (call_binding env request context) = Inr True"
  proof (cases "binding_matches r (call_binding env request context)")
    case (Inl e)
    with unfolded gov tenant d r allow show ?thesis by (simp add: call_binding_def)
  next
    case (Inr b)
    with unfolded gov tenant d r allow show ?thesis by (cases b) (simp_all add: call_binding_def)
  qed
  have "claim_grant env now iv w call_id request context tenant d ?actor (call_binding env request context) = (Continues a, w')"
    using unfolded gov tenant d r allow match by (simp add: call_binding_def split: if_splits)
  from claim_grant_authorizes [OF this] have a: "az_decision_id a = Some d" "same_call request (az_request a)"
      and same: "persisted_decision w' d (Some tenant) = persisted_decision w d (Some tenant)"
    using persisted_governance by blast+
  then show ?thesis
    using binding_matches_True [OF match] tenant r allow unfolding backed_def by auto
qed

lemma seeded_backed:
  assumes "authorize_seeded env now iv w call_id request context tenant d r = (Continues a, w')"
    and "cx_tenant_id context = Some tenant" "persisted_decision w d (Some tenant) = Some r"
  shows "backed env w' request context a \<and> same_call request (az_request a)"
proof -
  note unfolded = assms(1) [unfolded authorize_seeded_def Let_def]
  have allow: "dr_decision r = decision_value ALLOW"
    using unfolded by (cases "dr_decision r = decision_value ALLOW") simp_all
  have match: "binding_matches r (call_binding env request context) = Inr True"
  proof (cases "binding_matches r (call_binding env request context)")
    case (Inl e)
    with unfolded allow assms(2) show ?thesis by (simp add: call_binding_def)
  next
    case (Inr b)
    with unfolded allow assms(2) show ?thesis by (cases b) (simp_all add: call_binding_def)
  qed
  have "a = auto_authorization env request tenant d None" "w' = w"
    using unfolded allow match assms(2) by (simp_all add: call_binding_def split: if_splits)
  note path = allow match this
  with binding_matches_True [OF path(2)] assms(2,3) show ?thesis
    by (auto simp: backed_def auto_authorization_def Let_def)
qed

lemma context_binding:
  "build_governance_context env request context t = Inr gc \<Longrightarrow>
     dget (g_metadata gc) ''agent_action_binding'' = Some (PStr (call_binding env request context))"
  by (auto simp: build_governance_context_def check_context_def Let_def call_binding_def
      split: option.splits if_splits)

lemma decided_backed:
  assumes "authorize_decided env now iv w call_id request context t genv d = (Continues a, w')"
    and "tool_capability_of t \<noteq> READ_ONLY"
  shows "\<exists>r. az_decision_id a = Some (gd_decision_id d) \<and> same_call request (az_request a) \<and>
    tw_governance w' = tw_governance w \<and> persisted_decision w (gd_decision_id d) (cx_tenant_id context) = Some r \<and>
    dr_decision r = decision_value ALLOW"
  using assms
  by (auto simp: authorize_decided_def Let_def auto_authorization_def split: option.splits if_splits)

lemma fresh_backed:
  assumes "authorize_fresh env now fresh ambient iv rt w call_id request context t gc = (Continues a, w')"
    and "tool_capability_of t \<noteq> READ_ONLY" "build_governance_context env request context t = Inr gc"
  shows "backed env w' request context a \<and> same_call request (az_request a)"
proof -
  obtain genv store d where ev: "governance_evaluate env now fresh ambient rt (tw_governance w) gc = (Inr genv, store)"
      "en_error genv = None" "en_decision genv = Some d"
      "authorize_decided env now iv (w\<lparr>tw_governance := store\<rparr>) call_id request context t genv d = (Continues a, w')"
    using assms(1) by (auto simp: authorize_fresh_def split: sum.splits prod.splits option.splits)
  obtain r where r: "az_decision_id a = Some (gd_decision_id d)" "same_call request (az_request a)"
      "tw_governance w' = store" "dr_decision r = decision_value ALLOW"
      "persisted_decision (w\<lparr>tw_governance := store\<rparr>) (gd_decision_id d) (cx_tenant_id context) = Some r"
    using decided_backed [OF ev(4) assms(2)] by auto
  then obtain s where s: "store = Some s" by (auto simp: persisted_decision_def split: option.splits)
  obtain r' where "dget (gs_decisions s) (gd_decision_id d) = Some r'"
      "dget (dr_metadata r') ''agent_action_binding'' = Some (PStr (call_binding env request context))"
    using binding_recorded [OF ev(1-3) s context_binding [OF assms(3)]] by blast
  moreover have "dget (gs_decisions s) (gd_decision_id d) = Some r"
    using r(5) by (auto simp: persisted_decision_def s get_decision_def split: option.splits if_splits)
  moreover have "persisted_decision w' (gd_decision_id d) (cx_tenant_id context) = Some r"
    using r(3,5) by (simp add: persisted_decision_def)
  ultimately show ?thesis using r by (auto simp: backed_def)
qed

lemma authorize_backed:
  assumes "authorize env now fresh ambient iv w call_id request context t pre = (Continues a, w')"
    and "tool_capability_of t \<noteq> READ_ONLY"
  shows "backed env w' request context a \<and> same_call request (az_request a)"
proof (cases pre)
  case (Some decision_text)
  with assms(1) show ?thesis using pre_approved_backed by (simp add: authorize_def)
next
  case None
  then obtain rt where "authorize_governed env now fresh ambient iv rt w call_id request context t = (Continues a, w')"
    using assms by (auto simp: authorize_def split: option.splits)
  then obtain gc where gc: "build_governance_context env request context t = Inr gc"
      "authorize_fresh env now fresh ambient iv rt w call_id request context t gc = (Continues a, w') \<or>
       (\<exists>d tenant r. cx_tenant_id context = Some tenant \<and> persisted_decision w d (Some tenant) = Some r \<and>
          authorize_seeded env now iv w call_id request context tenant d r = (Continues a, w'))"
    using assms(2)
    by (cases "build_governance_context env request context t") (auto simp: authorize_governed_def split: option.splits)
  from gc(2) show ?thesis
  proof (elim disjE exE conjE)
    assume "authorize_fresh env now fresh ambient iv rt w call_id request context t gc = (Continues a, w')"
    from fresh_backed [OF this assms(2) gc(1)] show ?thesis .
  next
    fix d tenant r
    assume "cx_tenant_id context = Some tenant" "persisted_decision w d (Some tenant) = Some r"
      "authorize_seeded env now iv w call_id request context tenant d r = (Continues a, w')"
    then show ?thesis by (intro seeded_backed)
  qed
qed

lemma reserved_new:
  assumes "reserve_invocation now l tenant key ct at tr h d = (Inr (Reserved_New r), l')"
  shows "get_invocation l tenant key = None" "l' = dset (tenant, key) r l" "ci_tenant_id r = tenant"
    "ci_provider_key r = key" "ci_status r = CI_PENDING"
  using assms by (auto simp: reserve_invocation_def Let_def split: if_splits option.splits)

lemma reserve_keeps:
  assumes "reserve_invocation now l tenant key ct at tr h d = (res, l')"
  shows "l' = l \<or> (\<exists>r. res = Inr (Reserved_New r))"
  using assms by (auto simp: reserve_invocation_def Let_def split: if_splits option.splits)

definition row_reserved :: "tool_world \<Rightarrow> tool_world \<Rightarrow> clearance \<Rightarrow> string \<Rightarrow> string \<Rightarrow> bool" where
  "row_reserved w w' c tenant key \<longleftrightarrow>
     (\<exists>row. get_invocation (tw_ledger w) tenant key = None \<and> cl_reserved c = Some row \<and>
        tw_ledger w' = dset (tenant, key) row (tw_ledger w) \<and> ci_status row = CI_PENDING \<and>
        ci_tenant_id row = tenant \<and> ci_provider_key row = key)"

lemma ledger_cleared:
  assumes "reserve_call env now fault iv w call_id context t a = (Continues c, w')"
    and "tool_capability_of t \<noteq> READ_ONLY" "iv_ledger iv"
  shows "c = \<lparr>cl_call_id = call_id, cl_tool = t, cl_context = context, cl_authorization = a, cl_reserved = cl_reserved c\<rparr>"
    and "\<exists>tenant key. cx_tenant_id context = Some tenant \<and> az_provider_key a = Some key \<and> row_reserved w w' c tenant key"
    and "tw_governance w' = tw_governance w"
proof -
  note unfolded = assms(1) [unfolded reserve_call_def Let_def]
  obtain tenant where tenant: "cx_tenant_id context = Some tenant"
    using unfolded assms(2,3) by (cases "cx_tenant_id context") simp_all
  obtain d where d: "az_decision_id a = Some d"
    using unfolded assms(2,3) tenant by (cases "az_decision_id a") simp_all
  obtain key where key: "az_provider_key a = Some key"
    using unfolded assms(2,3) tenant d by (cases "az_provider_key a") simp_all
  have fault: "fault = None" using unfolded assms(2,3) tenant d key by (cases fault) simp_all
  obtain res l where res: "reserve_invocation now (tw_ledger w) tenant key (tq_tool_name (az_request a))
      (connector_action_type (az_request a)) (connector_target_resource (az_request a))
      (hash_connector_request env (tq_payload (az_request a))) (Some d) = (res, l)" by force
  obtain x where x: "res = Inr x"
    using unfolded assms(2,3) tenant d key fault res by (cases res) simp_all
  obtain row where row: "res = Inr (Reserved_New row)"
    using unfolded assms(2,3) tenant d key fault res x by (cases x) simp_all
  have c: "c = \<lparr>cl_call_id = call_id, cl_tool = t, cl_context = context, cl_authorization = a, cl_reserved = Some row\<rparr>"
      "w' = w\<lparr>tw_ledger := l\<rparr>"
    using unfolded assms(2,3) tenant d key fault res row by auto
  then show "c = \<lparr>cl_call_id = call_id, cl_tool = t, cl_context = context, cl_authorization = a, cl_reserved = cl_reserved c\<rparr>"
    and "tw_governance w' = tw_governance w" by simp_all
  show "\<exists>tenant key. cx_tenant_id context = Some tenant \<and> az_provider_key a = Some key \<and> row_reserved w w' c tenant key"
    using tenant key c reserved_new [OF res [unfolded row]] by (simp add: row_reserved_def)
qed

lemma unledgered_cleared:
  assumes "reserve_call env now fault iv w call_id context t a = (Continues c, w')" "tool_capability_of t = READ_ONLY \<or> \<not> iv_ledger iv"
  shows "c = \<lparr>cl_call_id = call_id, cl_tool = t, cl_context = context, cl_authorization = a, cl_reserved = None\<rparr>"
    and "w' = w" "tool_capability_of t = READ_ONLY \<or> \<not> money_or_goods (az_request a)"
  using assms by (auto simp: reserve_call_def Let_def split: if_splits)

lemma resolved_call:
  assumes "resolve_call env iv call_id request context = Inr t"
  shows "dget (iv_tools iv) (tq_tool_name request) = Some t" "permits_tool (cx_constraints context) (tq_tool_name request)"
    "\<forall>n\<in>set (tl_required_capabilities t). has_capability (cx_capabilities context) n"
  using assms
  by (auto simp: resolve_call_def get_tool_def Let_def required_missing_def has_capability_def filter_empty_conv
      split: option.splits if_splits)

lemma begun_call:
  assumes "begin_call env now fresh ambient iv w request context ordinal pre = (Continues (call_id, t, a), w')"
  shows "resolve_call env iv call_id request context = Inr t"
    and "authorize env now fresh ambient iv w call_id request context t pre = (Continues a, w')"
  using assms by (auto simp: begin_call_def split: sum.splits prod.splits verdict.splits)

text \<open>(C12) No action without an allowance made out to it.  Whenever an invocation reaches
  the point where a tool that is not read-only runs, the tool is registered, on the
  allow-list and covered by the agent's capabilities; the authorization names a decision
  persisted as ALLOW, visible to the execution's tenant, whose metadata carries the
  fingerprint of this very tenant, tool, actor and payload, whether it was approved
  before, recorded for the same seed or evaluated just now; the request handed on has
  the tool and payload asked for; and with a ledger a new pending row of the tenant
  stands for the call, without one the request is not declared as money or goods.\<close>

theorem action_authorized:
  assumes "begin_call env now fresh ambient iv w request context ordinal pre = (Continues (call_id, t, a), w1)"
    and "reserve_call env now' fault iv w1 call_id context t a = (Continues c, w2)"
    and "tool_capability_of t \<noteq> READ_ONLY"
  shows "dget (iv_tools iv) (tq_tool_name request) = Some t \<and> permits_tool (cx_constraints context) (tq_tool_name request) \<and>
    (\<forall>n\<in>set (tl_required_capabilities t). has_capability (cx_capabilities context) n) \<and>
    cl_tool c = t \<and> cl_authorization c = a \<and> same_call request (az_request a) \<and> backed env w2 request context a \<and>
    (if iv_ledger iv then \<exists>tenant key. cx_tenant_id context = Some tenant \<and> az_provider_key a = Some key \<and>
         row_reserved w1 w2 c tenant key
     else \<not> money_or_goods (az_request a))"
proof -
  have a: "backed env w1 request context a" "same_call request (az_request a)"
    using authorize_backed [OF begun_call(2) [OF assms(1)] assms(3)] by blast+
  note t = resolved_call [OF begun_call(1) [OF assms(1)]]
  show ?thesis
  proof (cases "iv_ledger iv")
    case True
    note c = ledger_cleared [OF assms(2,3) True]
    have "persisted_decision w2 d (cx_tenant_id context) = persisted_decision w1 d (cx_tenant_id context)" for d
      using persisted_governance [OF c(3)] .
    then have "backed env w2 request context a" using a(1) by (simp add: backed_def)
    moreover have "cl_tool c = t" "cl_authorization c = a" by (subst c(1), simp)+
    ultimately show ?thesis using True t a(2) c(2) by simp
  next
    case False
    from unledgered_cleared [OF assms(2)] False assms(3) show ?thesis using t a by simp
  qed
qed

section \<open>An approved refund\<close>

definition demo_tool :: tool where
  "demo_tool = \<lparr>tl_name = ''refund.request'', tl_capability = Some ACTION, tl_required_capabilities = []\<rparr>"

definition demo_call :: tool_request where
  "demo_call = \<lparr>tq_tool_name = ''refund.request'', tq_payload = [(''amount'', PInt 4000)], tq_metadata = []\<rparr>"

definition demo_agent :: agent_context where
  "demo_agent = \<lparr>cx_identity = \<lparr>ai_agent_id = ''a1'', ai_runtime_instance_id = ''i1''\<rparr>,
     cx_execution = \<lparr>ei_execution_id = ''e1'', ei_correlation_id = None, ei_parent_execution_id = None, ei_request_id = None\<rparr>,
     cx_capabilities = [], cx_constraints = default_constraints, cx_causality = root_causality,
     cx_tenant_id = Some ''t1'', cx_authority = None, cx_metadata = []\<rparr>"

definition demo_allowance :: decision_record where
  "demo_allowance = \<lparr>dr_decision_id = ''d1'', dr_decision = ''allow'', dr_stage = ''pre_execution'', dr_policy_chain_id = ''c'',
     dr_reason = [], dr_decided_at = isoformat demo_env 0, dr_correlation_id = None, dr_request_id = None,
     dr_tenant_id = Some ''t1'', dr_subject_kind = ''agent_action'', dr_governance_version = ''v1'', dr_violations = [],
     dr_restrictions = [], dr_evaluated_rules = [],
     dr_metadata = [(''agent_action_binding'', PStr (call_binding demo_env demo_call demo_agent))]\<rparr>"

definition demo_grant :: action_grant where
  "demo_grant = \<lparr>gn_grant_id = ''g1'', gn_tenant_id = ''t1'', gn_decision_id = ''d1'', gn_tool_name = ''refund.request'',
     gn_action = ''agent.tool_invocation'', gn_actor = compute_agent_execution_actor demo_agent, gn_payload_hash = [],
     gn_binding_hash = call_binding demo_env demo_call demo_agent, gn_idempotency_key = ''key1'', gn_issued_at = 0,
     gn_expires_at = None, gn_consumed_at = None, gn_consumed_by = None, gn_metadata = []\<rparr>"

definition demo_invoker :: invoker where
  "demo_invoker = \<lparr>iv_tools = [(''refund.request'', demo_tool)], iv_governance = Some \<lparr>gr_handlers = [], gr_chains = []\<rparr>,
     iv_grants = True, iv_ledger = True, iv_redis = False, iv_ttl_seconds = 900, iv_handoff = (\<lambda>h. None)\<rparr>"

definition demo_tables :: tool_world where
  "demo_tables = \<lparr>tw_governance = Some (empty_governance_store\<lparr>gs_decisions := [(''d1'', demo_allowance)]\<rparr>),
     tw_grants = [(''d1'', demo_grant)], tw_ledger = [], tw_effects = []\<rparr>"

definition demo_authorization :: authorization where
  "demo_authorization = \<lparr>az_request = keyed_request demo_call
       [(''agent_action_provider_idempotency_key'', PStr ''key1''), (''agent_action_grant_id'', PStr ''g1'')],
     az_governance = None, az_decision_id = Some ''d1'', az_provider_key = Some ''key1''\<rparr>"

lemma demo_binding_ascii: "ascii_text (call_binding demo_env request context)"
  by (simp add: call_binding_def compute_agent_action_binding_def demo_env_def ascii_text_def)

lemma demo_authorized:
  "authorize_pre_approved demo_env 1 demo_invoker demo_tables call_id demo_call demo_agent ''d1'' =
     (Continues demo_authorization,
      demo_tables\<lparr>tw_grants := [(''d1'', consumed_grant 1 (compute_agent_execution_actor demo_agent) demo_grant)]\<rparr>)"
proof -
  have parsed: "uuid_parse demo_env ''d1'' = Some ''d1''" by (simp add: demo_env_def)
  have found: "persisted_decision demo_tables ''d1'' (Some ''t1'') = Some demo_allowance"
    by (simp add: persisted_decision_def demo_tables_def empty_governance_store_def get_decision_def gov_visible_def demo_allowance_def)
  have tenant: "cx_tenant_id demo_agent = Some ''t1''" by (simp add: demo_agent_def)
  have bound: "binding_matches demo_allowance (call_binding demo_env demo_call demo_agent) = Inr True"
    by (simp add: binding_matches_def demo_allowance_def compare_digest_def demo_binding_ascii)
  have live: "\<not> decision_expired demo_env 1 demo_invoker (dr_decided_at demo_allowance)"
    by (simp add: decision_expired_def demo_allowance_def demo_invoker_def)
  have allow: "dr_decision demo_allowance = decision_value ALLOW" by (simp add: demo_allowance_def)
  have claimed: "consume_grant demo_env 1 (tw_grants demo_tables) ''d1'' ''t1'' (compute_agent_execution_actor demo_agent) =
      (Inr (consumed_grant 1 (compute_agent_execution_actor demo_agent) demo_grant),
       [(''d1'', consumed_grant 1 (compute_agent_execution_actor demo_agent) demo_grant)])"
    by (simp add: consume_grant_def get_grant_def demo_tables_def demo_grant_def)
  have same: "compare_digest (gn_binding_hash demo_grant) (call_binding demo_env demo_call demo_agent) = Inr True"
    by (simp add: demo_grant_def compare_digest_def demo_binding_ascii)
  have parts: "iv_governance demo_invoker \<noteq> None" "iv_grants demo_invoker" "\<not> iv_redis demo_invoker"
    by (simp_all add: demo_invoker_def)
  have fields: "gn_binding_hash (consumed_grant 1 actor demo_grant) = gn_binding_hash demo_grant"
      "gn_idempotency_key (consumed_grant 1 actor demo_grant) = ''key1''" "gn_grant_id (consumed_grant 1 actor demo_grant) = ''g1''"
      for actor
    by (simp_all add: consumed_grant_def demo_grant_def)
  show ?thesis
    using parsed found bound live allow claimed same parts fields tenant
    by (simp add: authorize_pre_approved_def claim_grant_def Let_def demo_authorization_def demo_tables_def call_binding_def)
qed

lemma demo_begun:
  "\<exists>call_id. begin_call demo_env 1 ''f'' None demo_invoker demo_tables demo_call demo_agent 1 (Some ''d1'') =
     (Continues (call_id, demo_tool, demo_authorization),
      demo_tables\<lparr>tw_grants := [(''d1'', consumed_grant 1 (compute_agent_execution_actor demo_agent) demo_grant)]\<rparr>)"
proof -
  have "resolve_call demo_env demo_invoker call_id demo_call demo_agent = Inr demo_tool" for call_id
    by (simp add: resolve_call_def get_tool_def demo_invoker_def demo_call_def demo_agent_def permits_tool_def
        default_constraints_def required_missing_def demo_tool_def)
  then show ?thesis
    by (simp add: begin_call_def derive_tool_invocation_id_def authorize_def demo_authorized)
qed

lemma demo_reserved:
  assumes "tw_ledger w = []"
  obtains c w' where "reserve_call demo_env 1 None demo_invoker w call_id demo_agent demo_tool demo_authorization = (Continues c, w')"
    "cl_tool c = demo_tool"
proof -
  let ?r = "az_request demo_authorization"
  obtain r l where reserved: "reserve_invocation 1 [] ''t1'' ''key1'' ''refund.request'' ''refund.request'' ''refund.request''
      (hash_connector_request demo_env (tq_payload ?r)) (Some ''d1'') = (Inr (Reserved_New r), l)"
    by (simp add: reserve_invocation_def Let_def get_invocation_def hash_connector_request_def demo_env_def)
  have names: "tq_tool_name ?r = ''refund.request''" "connector_action_type ?r = ''refund.request''"
      "connector_target_resource ?r = ''refund.request''"
    by (simp_all add: demo_authorization_def keyed_request_def demo_call_def connector_action_type_def
        connector_target_resource_def first_text_def metadata_str_def get_or_none_def dmerge_def)
  have "tool_capability_of demo_tool \<noteq> READ_ONLY" "iv_ledger demo_invoker" "cx_tenant_id demo_agent = Some ''t1''"
    "az_decision_id demo_authorization = Some ''d1''" "az_provider_key demo_authorization = Some ''key1''"
    by (simp_all add: demo_tool_def tool_capability_of_def demo_invoker_def demo_agent_def demo_authorization_def)
  with reserved names assms that show ?thesis by (simp add: reserve_call_def Let_def)
qed

lemma action_authorized_witness:
  "\<exists>w a. backed demo_env w demo_call demo_agent a \<and> az_provider_key a = Some ''key1''"
proof -
  obtain call_id where begun: "begin_call demo_env 1 ''f'' None demo_invoker demo_tables demo_call demo_agent 1 (Some ''d1'') =
      (Continues (call_id, demo_tool, demo_authorization),
       demo_tables\<lparr>tw_grants := [(''d1'', consumed_grant 1 (compute_agent_execution_actor demo_agent) demo_grant)]\<rparr>)"
    using demo_begun by blast
  have "tw_ledger (demo_tables\<lparr>tw_grants := t\<rparr>) = []" for t by (simp add: demo_tables_def)
  then obtain c w where reserved: "reserve_call demo_env 1 None demo_invoker
      (demo_tables\<lparr>tw_grants := [(''d1'', consumed_grant 1 (compute_agent_execution_actor demo_agent) demo_grant)]\<rparr>)
      call_id demo_agent demo_tool demo_authorization = (Continues c, w)"
    using demo_reserved by metis
  have "tool_capability_of demo_tool \<noteq> READ_ONLY" by (simp add: demo_tool_def tool_capability_of_def)
  from action_authorized [OF begun reserved this] have "backed demo_env w demo_call demo_agent demo_authorization" by blast
  then show ?thesis by (intro exI [of _ w] exI [of _ demo_authorization]) (simp add: demo_authorization_def)
qed

end
