(* ===== verification/Tool_World.thy ===== *)
theory Tool_World
  imports Tool_Safety
begin

text \<open>
  What the stages of an invocation, and the issuing of a grant, do to the ledger and to the
  grants, whatever their arguments: rows of the ledger stay, consumed grants stay, a cleared
  call has found no row under its key and has left one, and an invocation passes on the
  strength of an approved decision only by consuming its grant.
\<close>

section \<open>Steps\<close>

datatype tool_op =
    Begin_Call int uuid "string option" tool_request agent_context int "string option"
  | Reserve_Call int "error option" uuid agent_context tool authorization
  | Finish_Call int "error option" clearance tool_outcome
  | Issue_Grant string uuid string string string string string int "int option" metadata

fun tool_step :: "py_env \<Rightarrow> invoker \<Rightarrow> tool_op \<Rightarrow> tool_world \<Rightarrow> tool_world" where
  "tool_step env iv (Begin_Call now fresh ambient request context ordinal pre) w =
     snd (begin_call env now fresh ambient iv w request context ordinal pre)"
| "tool_step env iv (Reserve_Call now fault call_id context t a) w =
     snd (reserve_call env now fault iv w call_id context t a)"
| "tool_step env iv (Finish_Call now fault c outcome) w = snd (finish_call env now fault w c outcome)"
| "tool_step env iv (Issue_Grant tenant d tool_name action actor ph bh issued expires md) w =
     w\<lparr>tw_grants := snd (issue_grant env (tw_grants w) tenant d tool_name action actor ph bh issued expires md)\<rparr>"

section \<open>What authorization touches\<close>

lemma claim_grant_world:
  "tw_ledger (snd (claim_grant env now iv w call_id request context tenant d actor expected)) = tw_ledger w"
  "tw_grants (snd (claim_grant env now iv w call_id request context tenant d actor expected)) =
     snd (consume_grant env now (tw_grants w) d tenant actor)"
  by (simp_all add: claim_grant_def split: sum.split prod.split error.split bool.split)

lemma pre_approved_world:
  "snd (authorize_pre_approved env now iv w call_id request context decision_text) = w \<or>
   (\<exists>tenant d actor expected. authorize_pre_approved env now iv w call_id request context decision_text =
      claim_grant env now iv w call_id request context tenant d actor expected)"
  by (simp add: authorize_pre_approved_def Let_def split: option.split sum.split bool.split) blast

lemma seeded_world: "snd (authorize_seeded env now iv w call_id request context tenant d r) = w"
  by (simp add: authorize_seeded_def Let_def split: sum.split bool.split)

lemma decided_world:
  "tw_ledger (snd (authorize_decided env now iv w call_id request context t genv d)) = tw_ledger w \<and>
   tw_grants (snd (authorize_decided env now iv w call_id request context t genv d)) = tw_grants w"
  by (simp add: authorize_decided_def Let_def split: option.split)

lemma fresh_world:
  "tw_ledger (snd (authorize_fresh env now fresh ambient iv rt w call_id request context t gc)) = tw_ledger w \<and>
   tw_grants (snd (authorize_fresh env now fresh ambient iv rt w call_id request context t gc)) = tw_grants w"
  by (simp add: authorize_fresh_def decided_world split: sum.split prod.split option.split)

lemma governed_world:
  "tw_ledger (snd (authorize_governed env now fresh ambient iv rt w call_id request context t)) = tw_ledger w \<and>
   tw_grants (snd (authorize_governed env now fresh ambient iv rt w call_id request context t)) = tw_grants w"
  by (simp add: authorize_governed_def seeded_world fresh_world split: sum.split option.split)

lemma authorize_ledger:
  "tw_ledger (snd (authorize env now fresh ambient iv w call_id request context t pre)) = tw_ledger w"
proof (cases pre)
  case None
  then show ?thesis by (simp add: authorize_def governed_world split: option.split)
next
  case (Some decision_text)
  then show ?thesis
    using pre_approved_world [of env now iv w call_id request "context" decision_text] claim_grant_world(1)
    by (auto simp: authorize_def)
qed

lemma authorize_grants:
  "tw_grants (snd (authorize env now fresh ambient iv w call_id request context t None)) = tw_grants w"
  by (simp add: authorize_def governed_world split: option.split)

lemma begin_call_world:
  "snd (begin_call env now fresh ambient iv w request context ordinal pre) = w \<or>
   (\<exists>call_id t. snd (begin_call env now fresh ambient iv w request context ordinal pre) =
      snd (authorize env now fresh ambient iv w call_id request context t pre))"
proof (cases "derive_tool_invocation_id env (ei_execution_id (cx_execution context)) (tq_tool_name request) ordinal
             (tq_payload request) (tq_metadata request)")
  case (Inl e)
  then show ?thesis by (simp add: begin_call_def)
next
  case (Inr call_id)
  show ?thesis
  proof (cases "resolve_call env iv call_id request context")
    case (Inl envelope)
    with Inr show ?thesis by (simp add: begin_call_def)
  next
    case (Inr t)
    obtain v w' where "authorize env now fresh ambient iv w call_id request context t pre = (v, w')" by force
    then have "snd (begin_call env now fresh ambient iv w request context ordinal pre) =
        snd (authorize env now fresh ambient iv w call_id request context t pre)"
      using \<open>derive_tool_invocation_id _ _ _ _ _ _ = Inr call_id\<close> Inr by (cases v) (simp_all add: begin_call_def)
    then show ?thesis by blast
  qed
qed

lemma begin_call_ledger: "tw_ledger (snd (begin_call env now fresh ambient iv w request context ordinal pre)) = tw_ledger w"
  using begin_call_world [of env now fresh ambient iv w request "context" ordinal pre] authorize_ledger by metis

section \<open>Ledger rows\<close>

definition in_ledger :: "tool_world \<Rightarrow> string \<times> string \<Rightarrow> bool" where
  "in_ledger w k \<longleftrightarrow> dget (tw_ledger w) k \<noteq> None"

lemma reserve_call_ledger:
  "tw_ledger (snd (reserve_call env now fault iv w call_id context t a)) = tw_ledger w \<or>
   (\<exists>k r. dget (tw_ledger w) k = None \<and> tw_ledger (snd (reserve_call env now fault iv w call_id context t a)) = dset k r (tw_ledger w))"
proof (cases "fst (reserve_call env now fault iv w call_id context t a)")
  case (Continues c)
  then obtain w' where c: "reserve_call env now fault iv w call_id context t a = (Continues c, w')" by (cases "reserve_call env now fault iv w call_id context t a") auto
  show ?thesis
  proof (cases "tool_capability_of t \<noteq> READ_ONLY \<and> iv_ledger iv")
    case True
    then show ?thesis using ledger_cleared(2) [OF c] by (auto simp: c row_reserved_def get_invocation_def)
  next
    case False
    then show ?thesis using unledgered_cleared(2) [OF c] by (simp add: c)
  qed
qed (auto simp: reserve_call_def Let_def split: if_splits option.splits prod.splits sum.splits reservation.splits dest: reserve_keeps)

lemma finish_call_ledger:
  "dget (tw_ledger w) k \<noteq> None \<Longrightarrow> dget (tw_ledger (snd (finish_call env now fault w c outcome))) k \<noteq> None"
  by (simp add: finish_call_def settle_row_def complete_invocation_def Let_def
      split: tool_outcome.split option.split sum.split prod.split)

lemma tool_step_ledger: "in_ledger w k \<Longrightarrow> in_ledger (tool_step env iv x w) k"
proof (cases x)
  case (Begin_Call now fresh ambient request c ordinal pre)
  then show "in_ledger w k \<Longrightarrow> ?thesis" by (simp add: in_ledger_def begin_call_ledger)
next
  case (Reserve_Call now fault call_id c t a)
  then show "in_ledger w k \<Longrightarrow> ?thesis"
    using reserve_call_ledger [of env now fault iv w call_id c t a] by (auto simp: in_ledger_def)
next
  case (Finish_Call now fault c outcome)
  then show "in_ledger w k \<Longrightarrow> ?thesis" by (simp add: in_ledger_def finish_call_ledger)
qed (simp add: in_ledger_def)

text \<open>The call of an action tool that a step clears; the tool runs at most once per clearance.\<close>

definition action_cleared :: "py_env \<Rightarrow> invoker \<Rightarrow> tool_op \<Rightarrow> tool_world \<Rightarrow> clearance option" where
  "action_cleared env iv x w =
     (case x of
        Reserve_Call now fault call_id context t a \<Rightarrow>
          (case fst (reserve_call env now fault iv w call_id context t a) of
             Continues c \<Rightarrow> if tool_capability_of (cl_tool c) \<noteq> READ_ONLY then Some c else None
           | _ \<Rightarrow> None)
      | _ \<Rightarrow> None)"

lemma action_cleared_reserves:
  assumes "iv_ledger iv" "action_cleared env iv x w = Some c"
  shows "\<exists>tenant key. cx_tenant_id (cl_context c) = Some tenant \<and> az_provider_key (cl_authorization c) = Some key \<and>
    \<not> in_ledger w (tenant, key) \<and> in_ledger (tool_step env iv x w) (tenant, key)"
proof -
  obtain now fault call_id "context" t a where x: "x = Reserve_Call now fault call_id context t a"
    using assms(2) by (cases x) (simp_all add: action_cleared_def)
  obtain w' where run: "reserve_call env now fault iv w call_id context t a = (Continues c, w')"
      and action: "tool_capability_of (cl_tool c) \<noteq> READ_ONLY"
    using assms(2) unfolding x
    by (cases "reserve_call env now fault iv w call_id context t a")
      (auto simp: action_cleared_def split: verdict.splits if_splits)
  have t: "tool_capability_of t \<noteq> READ_ONLY"
  proof
    assume "tool_capability_of t = READ_ONLY"
    then have "c = \<lparr>cl_call_id = call_id, cl_tool = t, cl_context = context, cl_authorization = a, cl_reserved = None\<rparr>"
      using unledgered_cleared(1) [OF run] by blast
    then have "cl_tool c = t" by simp
    with action \<open>tool_capability_of t = READ_ONLY\<close> show False by simp
  qed
  note c = ledger_cleared [OF run t assms(1)]
  have "cl_context c = context" "cl_authorization c = a" by (subst c(1), simp)+
  with c(2) show ?thesis by (auto simp: x run in_ledger_def row_reserved_def get_invocation_def)
qed

section \<open>Approvals are used once\<close>

definition grant_consumed :: "tool_world \<Rightarrow> uuid \<Rightarrow> bool" where
  "grant_consumed w d \<longleftrightarrow> (\<exists>g. dget (tw_grants w) d = Some g \<and> gn_consumed_at g \<noteq> None)"

lemma consumed_once:
  assumes "consume_grant env now t d tenant actor = (Inr g, t')"
  shows "\<exists>g0. get_grant t d tenant = Some g0 \<and> gn_actor g0 = actor \<and> gn_consumed_at g0 = None \<and>
    g = consumed_grant now actor g0 \<and> t' = dset d g t"
  using assms by (auto simp: consume_grant_def split: option.splits if_splits)

lemma consume_keeps:
  "dget t d' = Some g \<Longrightarrow> gn_consumed_at g \<noteq> None \<Longrightarrow> dget (snd (consume_grant env now t d tenant actor)) d' = Some g"
  by (auto simp: consume_grant_def get_grant_def split: option.split)

lemma issue_keeps:
  "dget t d' = Some g \<Longrightarrow> dget (snd (issue_grant env t tenant d tool_name action actor ph bh issued expires md)) d' = Some g"
  by (auto simp: issue_grant_def Let_def split: option.split)

text \<open>What a used approval was.\<close>

lemma claim_grant_grants:
  assumes "claim_grant env now iv w call_id request context tenant d actor expected = (Continues a, w')"
  shows "\<exists>g. get_grant (tw_grants w) d tenant = Some g \<and> gn_actor g = actor \<and> gn_consumed_at g = None \<and>
    gn_binding_hash g = expected \<and> az_decision_id a = Some d \<and> az_provider_key a = Some (gn_idempotency_key g) \<and>
    tw_grants w' = dset d (consumed_grant now actor g) (tw_grants w)"
proof -
  obtain res t where res: "consume_grant env now (tw_grants w) d tenant actor = (res, t)" by force
  then obtain g where g: "res = Inr g"
    using assms by (cases res) (auto simp: claim_grant_def split: error.splits if_splits)
  have cmp: "compare_digest (gn_binding_hash g) expected = Inr True"
  proof (cases "compare_digest (gn_binding_hash g) expected")
    case (Inl e)
    with assms res g show ?thesis by (simp add: claim_grant_def)
  next
    case (Inr b)
    with assms res g show ?thesis by (cases b) (simp_all add: claim_grant_def)
  qed
  then have "gn_binding_hash g = expected" by (auto simp: compare_digest_def split: if_splits)
  with consumed_once [OF res [unfolded g]] assms res g cmp show ?thesis
    by (auto simp: claim_grant_def consumed_grant_def)
qed

lemma pre_approved_claims:
  assumes "authorize_pre_approved env now iv w call_id request context decision_text = (Continues a, w')"
  shows "\<exists>tenant d. cx_tenant_id context = Some tenant \<and>
    claim_grant env now iv w call_id request context tenant d (compute_agent_execution_actor context)
      (call_binding env request context) = (Continues a, w')"
proof -
  note unfolded = assms [unfolded authorize_pre_approved_def Let_def]
  have gov: "iv_governance iv \<noteq> None" using unfolded by (cases "iv_governance iv") simp_all
  obtain tenant where tenant: "cx_tenant_id context = Some tenant"
    using unfolded gov by (cases "cx_tenant_id context") simp_all
  obtain d where d: "uuid_parse env decision_text = Some d"
    using unfolded gov tenant by (cases "uuid_parse env decision_text") simp_all
  obtain r where r: "persisted_decision w d (Some tenant) = Some r"
    using unfolded gov tenant d by (cases "persisted_decision w d (Some tenant)") simp_all
  obtain b where b: "binding_matches r (call_binding env request context) = Inr b"
    using unfolded gov tenant d r
    by (cases "binding_matches r (call_binding env request context)") (simp_all add: call_binding_def split: if_splits)
  show ?thesis using unfolded gov tenant d r b
    by (cases b) (auto simp: call_binding_def split: if_splits)
qed

text \<open>Consumed grants keep their rows, whatever step comes next.\<close>

lemma begun_pre:
  assumes "begin_call env now fresh ambient iv w request context ordinal (Some decision_text) = (Continues (call_id, t, a), w')"
  shows "\<exists>d g. az_decision_id a = Some d \<and> dget (tw_grants w) d = Some g \<and> cx_tenant_id context = Some (gn_tenant_id g) \<and>
    gn_actor g = compute_agent_execution_actor context \<and> gn_consumed_at g = None \<and>
    gn_binding_hash g = call_binding env request context \<and> az_provider_key a = Some (gn_idempotency_key g) \<and>
    tw_grants w' = dset d (consumed_grant now (compute_agent_execution_actor context) g) (tw_grants w)"
proof -
  have "authorize_pre_approved env now iv w call_id request context decision_text = (Continues a, w')"
    using begun_call(2) [OF assms] by (simp add: authorize_def)
  then obtain tenant d where tenant: "cx_tenant_id context = Some tenant"
      and claim: "claim_grant env now iv w call_id request context tenant d (compute_agent_execution_actor context)
        (call_binding env request context) = (Continues a, w')"
    using pre_approved_claims by blast
  show ?thesis using claim_grant_grants [OF claim] tenant
    by (auto simp: get_grant_def split: option.splits if_splits)
qed

lemma begin_call_grants:
  "dget (tw_grants w) d = Some g \<Longrightarrow> gn_consumed_at g \<noteq> None \<Longrightarrow>
     dget (tw_grants (snd (begin_call env now fresh ambient iv w request context ordinal pre))) d = Some g"
proof (cases pre)
  case None
  assume "dget (tw_grants w) d = Some g"
  then show ?thesis
    using None begin_call_world [of env now fresh ambient iv w request "context" ordinal pre] by (auto simp: authorize_grants)
next
  case (Some decision_text)
  assume "dget (tw_grants w) d = Some g" "gn_consumed_at g \<noteq> None"
  then have "dget (tw_grants (snd (authorize env now fresh ambient iv w call_id request context t pre))) d = Some g"
    for call_id t
    using pre_approved_world [of env now iv w call_id request "context" decision_text]
    by (auto simp: Some authorize_def claim_grant_world(2) consume_keeps)
  then show ?thesis
    using begin_call_world [of env now fresh ambient iv w request "context" ordinal pre]
      \<open>dget (tw_grants w) d = Some g\<close> by metis
qed

lemma reserve_call_grants: "tw_grants (snd (reserve_call env now fault iv w call_id context t a)) = tw_grants w"
  by (simp add: reserve_call_def Let_def split: option.split sum.split prod.split reservation.split)

lemma finish_call_grants: "tw_grants (snd (finish_call env now fault w c outcome)) = tw_grants w"
  by (simp add: finish_call_def settle_row_def Let_def split: tool_outcome.split option.split sum.split prod.split)

lemma step_keeps_consumed:
  "dget (tw_grants w) d = Some g \<Longrightarrow> gn_consumed_at g \<noteq> None \<Longrightarrow> dget (tw_grants (tool_step env iv x w)) d = Some g"
  by (cases x) (simp_all add: begin_call_grants reserve_call_grants finish_call_grants issue_keeps)

text \<open>The invocation a step lets pass on the strength of an approved decision.\<close>

type_synonym approved_call = "tool_request \<times> agent_context \<times> authorization"

definition approved_pass :: "py_env \<Rightarrow> invoker \<Rightarrow> tool_op \<Rightarrow> tool_world \<Rightarrow> approved_call option" where
  "approved_pass env iv x w =
     (case x of
        Begin_Call now fresh ambient request context ordinal (Some decision_text) \<Rightarrow>
          (case fst (begin_call env now fresh ambient iv w request context ordinal (Some decision_text)) of
             Continues (call_id, t, a) \<Rightarrow> Some (request, context, a)
           | _ \<Rightarrow> None)
      | _ \<Rightarrow> None)"

definition approval_of :: "approved_call \<Rightarrow> uuid option" where
  "approval_of call = az_decision_id (snd (snd call))"

text \<open>The grant a call was let pass by, consumed.\<close>

definition granted :: "py_env \<Rightarrow> grant_table \<Rightarrow> approved_call \<Rightarrow> bool" where
  "granted env gt call \<longleftrightarrow>
     (case call of (request, context, a) \<Rightarrow>
        \<exists>d g. az_decision_id a = Some d \<and> dget gt d = Some g \<and> gn_consumed_at g \<noteq> None \<and>
          gn_consumed_by g = Some (compute_agent_execution_actor context) \<and>
          gn_actor g = compute_agent_execution_actor context \<and>
          cx_tenant_id context = Some (gn_tenant_id g) \<and> gn_binding_hash g = call_binding env request context \<and>
          az_provider_key a = Some (gn_idempotency_key g))"

lemma granted_consumed: "granted env gt call \<Longrightarrow> approval_of call = Some d \<Longrightarrow> \<exists>g. dget gt d = Some g \<and> gn_consumed_at g \<noteq> None"
  by (auto simp: granted_def approval_of_def split: prod.splits)

lemma granted_cong:
  "granted env gt call \<Longrightarrow> approval_of call = Some d \<Longrightarrow> dget gt' d = dget gt d \<Longrightarrow> granted env gt' call"
  by (auto simp: granted_def approval_of_def split: prod.splits)

lemma approved_pass_consumes:
  assumes "approved_pass env iv x w = Some call"
  shows "\<exists>d g. approval_of call = Some d \<and> dget (tw_grants w) d = Some g \<and> gn_consumed_at g = None \<and>
    granted env (tw_grants (tool_step env iv x w)) call"
proof -
  obtain now fresh ambient request "context" ordinal decision_text call_id t a where
      x: "x = Begin_Call now fresh ambient request context ordinal (Some decision_text)"
      and begun: "fst (begin_call env now fresh ambient iv w request context ordinal (Some decision_text)) = Continues (call_id, t, a)"
      and call: "call = (request, context, a)"
    using assms
    by (cases x; clarsimp simp: approved_pass_def split: option.splits verdict.splits prod.splits)
  from begun obtain w' where
      "begin_call env now fresh ambient iv w request context ordinal (Some decision_text) = (Continues (call_id, t, a), w')"
    by (metis prod.collapse)
  from begun_pre [OF this] this show ?thesis
    by (auto simp: x call approval_of_def granted_def consumed_grant_def)
qed

end
