(* ===== verification/Tool_Sessions.thy ===== *)
theory Tool_Sessions
  imports Tool_World
begin

text \<open>
  Invocations in database transactions.  Every session has one transaction open; what it
  writes to the ledger and to the grants is seen by itself at once, by the others when it
  commits, and is gone when it is rolled back.  A session that wants to write a row another
  one has written waits.  Within these rules the stages of any number of invocations, commits
  and rollbacks come in any order.
\<close>

section \<open>Transactions\<close>

record open_transaction =
  tx_ledger :: ledger
  tx_grants :: grant_table
  tx_aborted :: bool

definition no_writes :: open_transaction where
  "no_writes = \<lparr>tx_ledger = [], tx_grants = [], tx_aborted = False\<rparr>"

record tool_database =
  db_tables :: tool_world
    \<comment> \<open>what is committed\<close>
  db_open :: "(string, open_transaction) dict"

definition tx_of :: "tool_database \<Rightarrow> string \<Rightarrow> open_transaction" where
  "tx_of db c = (case dget (db_open db) c of Some tx \<Rightarrow> tx | None \<Rightarrow> no_writes)"

text \<open>What a session sees: the committed rows under its own.\<close>

definition session_view :: "tool_database \<Rightarrow> string \<Rightarrow> governance_store option \<Rightarrow> tool_world" where
  "session_view db c store = (db_tables db)\<lparr>tw_governance := store,
     tw_ledger := dmerge (tw_ledger (db_tables db)) (tx_ledger (tx_of db c)),
     tw_grants := dmerge (tw_grants (db_tables db)) (tx_grants (tx_of db c))\<rparr>"

text \<open>The rows a session has written: those it had written before, and those that differ now.\<close>

definition rows_written :: "('k, 'v) dict \<Rightarrow> ('k, 'v) dict \<Rightarrow> ('k, 'v) dict \<Rightarrow> ('k, 'v) dict" where
  "rows_written before old new =
     map (\<lambda>k. (k, the (dget new k)))
       (filter (\<lambda>k. dget before k \<noteq> None \<or> dget new k \<noteq> dget old k) (remdups (dkeys new)))"

datatype db_op =
    In_Session string "governance_store option" bool tool_op
    \<comment> \<open>with the governance tables it sees, and whether a statement of it fails in the database\<close>
  | Commit string
  | Rollback string

fun faulty :: "tool_op \<Rightarrow> bool" where
  "faulty (Reserve_Call now fault call_id context t a) = (fault \<noteq> None)"
| "faulty (Finish_Call now fault c outcome) = (fault \<noteq> None)"
| "faulty _ = False"

definition tx_after :: "py_env \<Rightarrow> invoker \<Rightarrow> string \<Rightarrow> governance_store option \<Rightarrow> bool \<Rightarrow> tool_op \<Rightarrow> tool_database \<Rightarrow> open_transaction" where
  "tx_after env iv c store fails x db =
     (let w = session_view db c store; w' = tool_step env iv x w
      in \<lparr>tx_ledger = rows_written (tx_ledger (tx_of db c)) (tw_ledger w) (tw_ledger w'),
          tx_grants = rows_written (tx_grants (tx_of db c)) (tw_grants w) (tw_grants w'),
          tx_aborted = (fails \<or> faulty x)\<rparr>)"

definition collides :: "('k, 'v) dict \<Rightarrow> ('k, 'v) dict \<Rightarrow> bool" where
  "collides a b \<longleftrightarrow> (\<exists>k\<in>set (dkeys a). k \<in> set (dkeys b))"

definition must_wait :: "tool_database \<Rightarrow> string \<Rightarrow> open_transaction \<Rightarrow> bool" where
  "must_wait db c tx \<longleftrightarrow>
     (\<exists>c'\<in>set (dkeys (db_open db)). c' \<noteq> c \<and>
        (collides (tx_ledger tx) (tx_ledger (tx_of db c')) \<or> collides (tx_grants tx) (tx_grants (tx_of db c'))))"

definition proceeds :: "py_env \<Rightarrow> invoker \<Rightarrow> string \<Rightarrow> governance_store option \<Rightarrow> bool \<Rightarrow> tool_op \<Rightarrow> tool_database \<Rightarrow> bool" where
  "proceeds env iv c store fails x db \<longleftrightarrow> \<not> tx_aborted (tx_of db c) \<and> \<not> must_wait db c (tx_after env iv c store fails x db)"

text \<open>After a failed statement the transaction does nothing more and cannot be committed.\<close>

fun db_step :: "py_env \<Rightarrow> invoker \<Rightarrow> db_op \<Rightarrow> tool_database \<Rightarrow> tool_database" where
  "db_step env iv (In_Session c store fails x) db =
     (if proceeds env iv c store fails x db
      then db\<lparr>db_tables := (db_tables db)\<lparr>tw_effects := tw_effects (tool_step env iv x (session_view db c store))\<rparr>,
              db_open := dset c (tx_after env iv c store fails x db) (db_open db)\<rparr>
      else db)"
| "db_step env iv (Commit c) db =
     (let tx = tx_of db c
      in db\<lparr>db_tables := (if tx_aborted tx then db_tables db
              else (db_tables db)\<lparr>tw_ledger := dmerge (tw_ledger (db_tables db)) (tx_ledger tx),
                                tw_grants := dmerge (tw_grants (db_tables db)) (tx_grants tx)\<rparr>),
            db_open := dset c no_writes (db_open db)\<rparr>)"
| "db_step env iv (Rollback c) db = db\<lparr>db_open := dset c no_writes (db_open db)\<rparr>"

section \<open>Rows and transactions\<close>

lemma dget_rows_written:
  "dget (rows_written before old new) k =
     (if dget before k = None \<and> dget new k = dget old k then None else dget new k)"
proof -
  have "dget (map (\<lambda>k. (k, the (dget new k))) ks) k = (if k \<in> set ks then Some (the (dget new k)) else None)" for ks
    by (induction ks) auto
  moreover have "k \<in> set (dkeys new) \<longleftrightarrow> dget new k \<noteq> None" by (simp add: map_of_eq_None_iff)
  ultimately show ?thesis by (cases "dget new k") (simp_all add: rows_written_def del: map_of_eq_Some_iff map_of_eq_None_iff)
qed

lemma wf_rows_written [simp]: "wf_dict (rows_written before old new)"
  by (simp add: rows_written_def comp_def)

lemma collides_iff: "collides a b \<longleftrightarrow> (\<exists>k. dget a k \<noteq> None \<and> dget b k \<noteq> None)"
  by (force simp: collides_def map_of_eq_None_iff)

lemma collides_commute: "collides a b \<longleftrightarrow> collides b a"
  unfolding collides_def by blast

lemma no_writes_simps [simp]: "tx_ledger no_writes = []" "tx_grants no_writes = []" "\<not> tx_aborted no_writes"
  by (simp_all add: no_writes_def)

lemma tx_of_update [simp]:
  "tx_of (db\<lparr>db_tables := t, db_open := dset c tx (db_open db)\<rparr>) c' = (if c' = c then tx else tx_of db c')"
  "tx_of (db\<lparr>db_open := dset c tx (db_open db)\<rparr>) c' = (if c' = c then tx else tx_of db c')"
  by (simp_all add: tx_of_def)

lemma must_wait_iff:
  "must_wait db c tx \<longleftrightarrow> (\<exists>c'. c' \<noteq> c \<and>
     (collides (tx_ledger tx) (tx_ledger (tx_of db c')) \<or> collides (tx_grants tx) (tx_grants (tx_of db c'))))"
proof -
  have "c' \<in> set (dkeys (db_open db))" if "collides (tx_ledger tx) (tx_ledger (tx_of db c')) \<or>
      collides (tx_grants tx) (tx_grants (tx_of db c'))" for c'
    using that by (cases "dget (db_open db) c'") (auto simp: tx_of_def collides_iff dest: map_of_SomeD intro: rev_image_eqI)
  then show ?thesis by (auto simp: must_wait_def)
qed

text \<open>No two transactions have written the same grant, and none has written a grant that was
  consumed when it was committed, other than by leaving it so.\<close>

definition db_ok :: "tool_database \<Rightarrow> bool" where
  "db_ok db \<longleftrightarrow>
     (\<forall>c. wf_dict (tx_ledger (tx_of db c)) \<and> wf_dict (tx_grants (tx_of db c))) \<and>
     (\<forall>c c'. c \<noteq> c' \<longrightarrow> \<not> collides (tx_grants (tx_of db c)) (tx_grants (tx_of db c'))) \<and>
     (\<forall>c d g g'. dget (tx_grants (tx_of db c)) d = Some g \<longrightarrow> dget (tw_grants (db_tables db)) d = Some g' \<longrightarrow>
        gn_consumed_at g' \<noteq> None \<longrightarrow> g = g')"

lemma db_ok_start: "db_open db = [] \<Longrightarrow> db_ok db"
  by (simp add: db_ok_def tx_of_def collides_def)

lemma db_ok_wf: "db_ok db \<Longrightarrow> wf_dict (tx_ledger (tx_of db c))" "db_ok db \<Longrightarrow> wf_dict (tx_grants (tx_of db c))"
  by (simp_all add: db_ok_def)

lemma view_rows:
  assumes "db_ok db"
  shows "dget (tw_ledger (session_view db c store)) k =
      (case dget (tx_ledger (tx_of db c)) k of Some r \<Rightarrow> Some r | None \<Rightarrow> dget (tw_ledger (db_tables db)) k)"
    and "dget (tw_grants (session_view db c store)) d =
      (case dget (tx_grants (tx_of db c)) d of Some g \<Rightarrow> Some g | None \<Rightarrow> dget (tw_grants (db_tables db)) d)"
  using db_ok_wf [OF assms] by (simp_all add: session_view_def dget_dmerge)

text \<open>What the transaction of a step that proceeds has written.\<close>

lemma tx_after_rows:
  "dget (tx_ledger (tx_after env iv c store fails x db)) k =
     (if dget (tx_ledger (tx_of db c)) k = None \<and>
         dget (tw_ledger (tool_step env iv x (session_view db c store))) k = dget (tw_ledger (session_view db c store)) k
      then None else dget (tw_ledger (tool_step env iv x (session_view db c store))) k)"
  "dget (tx_grants (tx_after env iv c store fails x db)) d =
     (if dget (tx_grants (tx_of db c)) d = None \<and>
         dget (tw_grants (tool_step env iv x (session_view db c store))) d = dget (tw_grants (session_view db c store)) d
      then None else dget (tw_grants (tool_step env iv x (session_view db c store))) d)"
  by (simp_all add: tx_after_def Let_def dget_rows_written)

lemma tx_after_wf [simp]:
  "wf_dict (tx_ledger (tx_after env iv c store fails x db))" "wf_dict (tx_grants (tx_after env iv c store fails x db))"
  by (simp_all add: tx_after_def Let_def)

lemma tx_after_consumed:
  assumes "db_ok db" "dget (tx_grants (tx_after env iv c store fails x db)) d = Some g"
    and "dget (tw_grants (db_tables db)) d = Some g'" "gn_consumed_at g' \<noteq> None"
  shows "g = g'"
proof (cases "dget (tx_grants (tx_of db c)) d")
  case None
  then have "dget (tw_grants (session_view db c store)) d = Some g'" using assms(3) by (simp add: view_rows [OF assms(1)])
  with step_keeps_consumed [OF this assms(4)] None assms(2) show ?thesis by (auto simp: tx_after_rows split: if_splits)
next
  case (Some g0)
  then have "g0 = g'" using assms(1,3,4) by (auto simp: db_ok_def)
  with Some have "dget (tw_grants (session_view db c store)) d = Some g'" by (simp add: view_rows [OF assms(1)])
  with step_keeps_consumed [OF this assms(4)] assms(2) show ?thesis by (auto simp: tx_after_rows split: if_splits)
qed

lemma db_step_ok:
  assumes "db_ok db"
  shows "db_ok (db_step env iv x db)"
proof (cases x)
  case (In_Session c store fails op)
  show ?thesis
  proof (cases "proceeds env iv c store fails op db")
    case True
    then have apart: "\<And>c'. c' \<noteq> c \<Longrightarrow> \<not> collides (tx_grants (tx_after env iv c store fails op db)) (tx_grants (tx_of db c'))"
      by (auto simp: proceeds_def must_wait_iff)
    then have "\<And>c'. c' \<noteq> c \<Longrightarrow> \<not> collides (tx_grants (tx_of db c')) (tx_grants (tx_after env iv c store fails op db))"
      by (simp add: collides_commute)
    with apart assms tx_after_consumed [OF assms, of env iv c store fails op] show ?thesis
      by (simp add: In_Session True db_ok_def del: map_of_eq_Some_iff map_of_eq_None_iff)
  qed (simp add: In_Session assms)
next
  case (Commit c)
  note wf = db_ok_wf(2) [OF assms]
  have "g = g'" if "c' \<noteq> c" "dget (tx_grants (tx_of db c')) d = Some g" "gn_consumed_at g' \<noteq> None"
    "dget (dmerge (tw_grants (db_tables db)) (tx_grants (tx_of db c))) d = Some g'" for c' d g g'
  proof -
    have "\<not> collides (tx_grants (tx_of db c')) (tx_grants (tx_of db c))" using assms that(1) by (simp add: db_ok_def)
    then have "dget (tx_grants (tx_of db c)) d = None"
      unfolding collides_iff using that(2) by (metis option.distinct(1))
    then have "dget (tw_grants (db_tables db)) d = Some g'" using that(4) by (simp add: dget_dmerge wf)
    with that(2,3) assms show ?thesis by (auto simp: db_ok_def)
  qed
  with assms show ?thesis
    by (simp add: Commit db_ok_def Let_def collides_def [of _ "[]"] collides_def [of "[]"] del: map_of_eq_Some_iff map_of_eq_None_iff)
next
  case (Rollback c)
  with assms show ?thesis
    by (simp add: db_ok_def collides_def [of _ "[]"] collides_def [of "[]"] del: map_of_eq_Some_iff map_of_eq_None_iff)
qed

text \<open>A consumed grant stays as it was committed.\<close>

lemma grants_stay:
  assumes "db_ok db" "dget (tw_grants (db_tables db)) d = Some g" "gn_consumed_at g \<noteq> None"
  shows "dget (tw_grants (db_tables (db_step env iv x db))) d = Some g"
proof -
  have "dget (tx_grants (tx_of db c)) d = Some g' \<Longrightarrow> g' = g" for c g' using assms by (auto simp: db_ok_def)
  then have "dget (dmerge (tw_grants (db_tables db)) (tx_grants (tx_of db c))) d = Some g" for c
    using assms(2) db_ok_wf(2) [OF assms(1)]
    by (simp add: dget_dmerge split: option.split del: map_of_eq_Some_iff map_of_eq_None_iff)
  with assms(2) show ?thesis by (cases x) (simp_all add: Let_def del: map_of_eq_Some_iff)
qed

section \<open>Calls of action tools\<close>

text \<open>What a step does to the one-time tokens: the session that clears a call, the tenant and
  provider key it carries, and the clearance; or the end of a transaction.\<close>

fun tx_end :: "db_op \<Rightarrow> tool_database \<Rightarrow> (string, 'k, 'p) token_event option" where
  "tx_end (Commit c) db = Some (if tx_aborted (tx_of db c) then Undone c else Kept c)"
| "tx_end (Rollback c) db = Some (Undone c)"
| "tx_end (In_Session c store fails x) db = None"

definition action_event ::
  "py_env \<Rightarrow> invoker \<Rightarrow> db_op \<Rightarrow> tool_database
     \<Rightarrow> (string, string option \<times> string option, clearance) token_event option" where
  "action_event env iv x db =
     (case x of
        In_Session c store fails op \<Rightarrow>
          if proceeds env iv c store fails op db
          then map_option (\<lambda>cl. Won c (cx_tenant_id (cl_context cl), az_provider_key (cl_authorization cl)) cl)
                 (action_cleared env iv op (session_view db c store))
          else None
      | _ \<Rightarrow> tx_end x db)"

definition ledger_has :: "ledger \<Rightarrow> string option \<times> string option \<Rightarrow> bool" where
  "ledger_has l key \<longleftrightarrow> (\<exists>t k. key = (Some t, Some k) \<and> dget l (t, k) \<noteq> None)"

lemma ledger_has_view: "db_ok db \<Longrightarrow> ledger_has (tw_ledger (session_view db c store)) key \<longleftrightarrow>
    ledger_has (tx_ledger (tx_of db c)) key \<or> ledger_has (tw_ledger (db_tables db)) key"
  by (cases key; cases "fst key"; cases "snd key")
    (auto simp: ledger_has_def view_rows split: option.splits simp del: map_of_eq_Some_iff map_of_eq_None_iff)

lemma action_event_Won:
  assumes "action_event env iv x db = Some (Won c key cl)"
  obtains store fails op where "x = In_Session c store fails op" "proceeds env iv c store fails op db"
    "action_cleared env iv op (session_view db c store) = Some cl"
    "key = (cx_tenant_id (cl_context cl), az_provider_key (cl_authorization cl))"
  using assms by (cases x) (auto simp: action_event_def split: if_splits)

lemma action_event_ends [simp]:
  "action_event env iv x db = Some (Kept c) \<longleftrightarrow> x = Commit c \<and> \<not> tx_aborted (tx_of db c)"
  "action_event env iv x db = Some (Undone c) \<longleftrightarrow> x = Rollback c \<or> x = Commit c \<and> tx_aborted (tx_of db c)"
  by (cases x; auto simp: action_event_def)+

lemma action_won:
  assumes "iv_ledger iv" "db_ok db" "action_event env iv x db = Some (Won c key cl)"
  shows "\<exists>t k. key = (Some t, Some k)" "\<not> ledger_has (tw_ledger (db_tables db)) key"
    "\<not> ledger_has (tx_ledger (tx_of db c')) key" "ledger_has (tx_ledger (tx_of (db_step env iv x db) c)) key"
proof -
  obtain store fails op where x: "x = In_Session c store fails op" and go: "proceeds env iv c store fails op db"
      and cleared: "action_cleared env iv op (session_view db c store) = Some cl"
      and key: "key = (cx_tenant_id (cl_context cl), az_provider_key (cl_authorization cl))"
    using action_event_Won [OF assms(3)] .
  obtain t k where tk: "key = (Some t, Some k)" "dget (tw_ledger (session_view db c store)) (t, k) = None"
      "dget (tw_ledger (tool_step env iv op (session_view db c store))) (t, k) \<noteq> None"
    using action_cleared_reserves [OF assms(1) cleared] by (auto simp: key in_ledger_def)
  then show "\<exists>t k. key = (Some t, Some k)" by blast
  have unseen: "\<not> ledger_has (tw_ledger (session_view db c store)) key" using tk by (simp add: ledger_has_def)
  then show "\<not> ledger_has (tw_ledger (db_tables db)) key" by (simp add: ledger_has_view assms(2))
  have new: "ledger_has (tx_ledger (tx_after env iv c store fails op db)) key"
    using tk by (auto simp: ledger_has_def tx_after_rows)
  then show "ledger_has (tx_ledger (tx_of (db_step env iv x db) c)) key" by (simp add: x go)
  show "\<not> ledger_has (tx_ledger (tx_of db c')) key"
  proof (cases "c' = c")
    case True
    with unseen show ?thesis by (simp add: ledger_has_view assms(2))
  next
    case False
    with go have "\<not> collides (tx_ledger (tx_after env iv c store fails op db)) (tx_ledger (tx_of db c'))"
      by (auto simp: proceeds_def must_wait_iff)
    with new show ?thesis by (auto simp: ledger_has_def collides_iff)
  qed
qed

lemma ledger_held_stays:
  assumes "db_ok db" "ledger_has (tx_ledger (tx_of db c)) key"
    and "x \<noteq> Commit c" "x \<noteq> Rollback c"
  shows "ledger_has (tx_ledger (tx_of (db_step env iv x db) c)) key"
proof (cases x)
  case (In_Session c' store fails op)
  obtain t k where k: "key = (Some t, Some k)" "dget (tx_ledger (tx_of db c)) (t, k) \<noteq> None"
    using assms(2) by (auto simp: ledger_has_def)
  then have "in_ledger (session_view db c store) (t, k)" by (auto simp: in_ledger_def view_rows [OF assms(1)])
  from tool_step_ledger [OF this, of env iv op] k show ?thesis
    by (auto simp: In_Session ledger_has_def tx_after_rows in_ledger_def)
qed (use assms(2-4) in \<open>auto simp: Let_def\<close>)

interpretation ledger_tokens: transactional_tokens "db_step env iv" "action_event env iv"
  "\<lambda>db c key cl. ledger_has (tx_ledger (tx_of db c)) key" "\<lambda>db key cl. ledger_has (tw_ledger (db_tables db)) key"
  "\<lambda>db. db_ok db \<and> iv_ledger iv"
proof
  fix db x c c' key cl cl'
  assume ok: "db_ok db \<and> iv_ledger iv"
  show "db_ok (db_step env iv x db) \<and> iv_ledger iv" using ok db_step_ok by blast
  show "\<not> ledger_has (tw_ledger (db_tables db)) key \<and> \<not> ledger_has (tx_ledger (tx_of db c')) key"
    and "ledger_has (tx_ledger (tx_of (db_step env iv x db) c)) key"
    if "action_event env iv x db = Some (Won c key cl)"
    using action_won [OF _ _ that] ok by blast+
  show "ledger_has (tx_ledger (tx_of (db_step env iv x db) c)) key"
    if "ledger_has (tx_ledger (tx_of db c)) key" "action_event env iv x db \<noteq> Some (Kept c)"
      "action_event env iv x db \<noteq> Some (Undone c)"
    using ledger_held_stays [OF _ that(1)] that(2,3) ok by auto
  show "ledger_has (tw_ledger (db_tables (db_step env iv x db))) key"
    if "ledger_has (tx_ledger (tx_of db c)) key" "action_event env iv x db = Some (Kept c)"
    using that ok db_ok_wf [of db c]
    by (auto simp: ledger_has_def dget_dmerge Let_def simp del: map_of_eq_Some_iff map_of_eq_None_iff)
  show "ledger_has (tw_ledger (db_tables (db_step env iv x db))) key" if "ledger_has (tw_ledger (db_tables db)) key"
    using that ok db_ok_wf [of db] by (cases x) (auto simp: ledger_has_def dget_dmerge Let_def split: option.split)
qed

text \<open>(C13) With a ledger, an action is called twice with one provider key only if the transaction of
  the first call was rolled back in between.  Take any interleaving of the stages of any number of
  invocations, of grants being issued, of failing statements, commits and rollbacks, in any
  number of database sessions, none of them open at the start.  Every call of a tool that is
  not read-only carries a tenant and a provider key, and no committed row of the ledger had
  them at the start.  When two calls carry the same, the session of the first rolled back
  between them, before it committed anything.\<close>

theorem action_called_once:
  assumes "iv_ledger iv" "db_open db = []"
  shows "(\<forall>c key cl. Won c key cl \<in> set (history (db_step env iv) (action_event env iv) ops db) \<longrightarrow>
       (\<exists>t k. key = (Some t, Some k) \<and> get_invocation (tw_ledger (db_tables db)) t k = None)) \<and>
    (\<forall>us c key cl vs c' cl' zs.
       history (db_step env iv) (action_event env iv) ops db = us @ Won c key cl # vs @ Won c' key cl' # zs \<longrightarrow>
         (\<exists>vs1 vs2. vs = vs1 @ Undone c # vs2 \<and> Kept c \<notin> set vs1))"
proof -
  have ok: "db_ok db \<and> iv_ledger iv" using assms db_ok_start by blast
  have keyed: "\<exists>t k. key = (Some t, Some k)"
    if "Won c key cl \<in> set (history (db_step env iv) (action_event env iv) ops db)" "db_ok db" for c key cl db
    using that
  proof (induction ops arbitrary: db)
    case (Cons x xs)
    then show ?case
      using action_won(1) [OF assms(1), of db env x c key cl] db_step_ok [of db env iv x]
      by (auto split: option.splits)
  qed simp
  have "get_invocation (tw_ledger (db_tables db)) t k = None"
    if "Won c (Some t, Some k) cl \<in> set (history (db_step env iv) (action_event env iv) ops db)" for c t k cl
    using ledger_tokens.taken_lost [OF ok, where k = "(Some t, Some k)" and c = c and p' = cl and xs = ops and env = env] that
    by (cases "dget (tw_ledger (db_tables db)) (t, k)") (simp_all add: ledger_has_def get_invocation_def)
  moreover note ledger_tokens.won_again [OF ok, of env ops]
  ultimately show ?thesis using keyed ok by (intro conjI allI impI) metis+
qed

section \<open>Uses of approvals\<close>

definition approval_event ::
  "py_env \<Rightarrow> invoker \<Rightarrow> db_op \<Rightarrow> tool_database \<Rightarrow> (string, uuid option, approved_call) token_event option" where
  "approval_event env iv x db =
     (case x of
        In_Session c store fails op \<Rightarrow>
          if proceeds env iv c store fails op db
          then map_option (\<lambda>call. Won c (approval_of call) call) (approved_pass env iv op (session_view db c store))
          else None
      | _ \<Rightarrow> tx_end x db)"

lemma approval_event_Won:
  assumes "approval_event env iv x db = Some (Won c key call)"
  obtains store fails op where "x = In_Session c store fails op" "proceeds env iv c store fails op db"
    "approved_pass env iv op (session_view db c store) = Some call" "key = approval_of call"
  using assms by (cases x) (auto simp: approval_event_def split: if_splits)

lemma approval_event_ends [simp]:
  "approval_event env iv x db = Some (Kept c) \<longleftrightarrow> x = Commit c \<and> \<not> tx_aborted (tx_of db c)"
  "approval_event env iv x db = Some (Undone c) \<longleftrightarrow> x = Rollback c \<or> x = Commit c \<and> tx_aborted (tx_of db c)"
  by (cases x; auto simp: approval_event_def)+

text \<open>A table of grants in which the grant of the call stands consumed by it.\<close>

definition used_in :: "py_env \<Rightarrow> grant_table \<Rightarrow> uuid option \<Rightarrow> approved_call \<Rightarrow> bool" where
  "used_in env gt key call \<longleftrightarrow> key \<noteq> None \<and> approval_of call = key \<and> granted env gt call"

lemma used_row: "used_in env gt (Some d) call \<Longrightarrow> \<exists>g. dget gt d = Some g \<and> gn_consumed_at g \<noteq> None"
  by (auto simp: used_in_def dest: granted_consumed)

lemma used_cong: "used_in env gt (Some d) call \<Longrightarrow> dget gt' d = dget gt d \<Longrightarrow> used_in env gt' (Some d) call"
  by (auto simp: used_in_def intro: granted_cong)

lemma approval_won:
  assumes "db_ok db" "approval_event env iv x db = Some (Won c key call)"
  shows "\<exists>d. key = Some d \<and> \<not> (\<exists>g. dget (tw_grants (db_tables db)) d = Some g \<and> gn_consumed_at g \<noteq> None) \<and>
    \<not> (\<exists>g. dget (tx_grants (tx_of db c')) d = Some g \<and> gn_consumed_at g \<noteq> None) \<and>
    used_in env (tx_grants (tx_of (db_step env iv x db) c)) (Some d) call"
proof -
  obtain store fails op where x: "x = In_Session c store fails op" and go: "proceeds env iv c store fails op db"
      and pass: "approved_pass env iv op (session_view db c store) = Some call" and key: "key = approval_of call"
    using approval_event_Won [OF assms(2)] .
  let ?w = "session_view db c store"
  obtain d g where d: "approval_of call = Some d" "dget (tw_grants ?w) d = Some g" "gn_consumed_at g = None"
      and granted: "granted env (tw_grants (tool_step env iv op ?w)) call"
    using approved_pass_consumes [OF pass] by blast
  obtain g' where g': "dget (tw_grants (tool_step env iv op ?w)) d = Some g'" "gn_consumed_at g' \<noteq> None"
    using granted_consumed [OF granted d(1)] by blast
  then have new: "dget (tx_grants (tx_after env iv c store fails op db)) d = Some g'"
    using d(2,3) by (auto simp: tx_after_rows)
  have "\<not> (\<exists>g. dget (tw_grants (db_tables db)) d = Some g \<and> gn_consumed_at g \<noteq> None)"
  proof
    assume "\<exists>g. dget (tw_grants (db_tables db)) d = Some g \<and> gn_consumed_at g \<noteq> None"
    then obtain g0 where g0: "dget (tw_grants (db_tables db)) d = Some g0" "gn_consumed_at g0 \<noteq> None" by blast
    then have "g = g0" using d(2) assms(1) by (auto simp: view_rows [OF assms(1)] db_ok_def split: option.splits)
    with g0 d(3) show False by simp
  qed
  moreover have "\<not> (\<exists>g. dget (tx_grants (tx_of db c')) d = Some g \<and> gn_consumed_at g \<noteq> None)"
  proof (cases "c' = c")
    case True
    with d(2,3) show ?thesis by (auto simp: view_rows [OF assms(1)])
  next
    case False
    with go have "\<not> collides (tx_grants (tx_after env iv c store fails op db)) (tx_grants (tx_of db c'))"
      by (auto simp: proceeds_def must_wait_iff)
    with new show ?thesis by (auto simp: collides_iff)
  qed
  moreover have "used_in env (tx_grants (tx_after env iv c store fails op db)) (Some d) call"
    using d(1) granted_cong [OF granted d(1), of "tx_grants (tx_after env iv c store fails op db)"] new g'(1)
    by (simp add: used_in_def)
  ultimately show ?thesis using key d(1) go by (simp add: x)
qed

lemma used_held_stays:
  assumes "db_ok db" "used_in env (tx_grants (tx_of db c)) key call" "x \<noteq> Commit c" "x \<noteq> Rollback c"
  shows "used_in env (tx_grants (tx_of (db_step env iv x db) c)) key call"
proof (cases x)
  case (In_Session c' store fails op)
  obtain d where d: "key = Some d" using assms(2) by (auto simp: used_in_def)
  obtain g where g: "dget (tx_grants (tx_of db c)) d = Some g" "gn_consumed_at g \<noteq> None"
    using used_row assms(2) d by blast
  then have "dget (tw_grants (session_view db c store)) d = Some g" by (simp add: view_rows [OF assms(1)])
  from step_keeps_consumed [OF this g(2)] g(1)
  have "dget (tx_grants (tx_after env iv c store fails op db)) d = dget (tx_grants (tx_of db c)) d"
    by (simp add: tx_after_rows)
  from used_cong [OF assms(2) [unfolded d] this] d assms(2) show ?thesis by (auto simp: In_Session)
qed (use assms(2-4) in \<open>auto simp: Let_def\<close>)

interpretation grant_tokens: transactional_tokens "db_step env iv" "approval_event env iv"
  "\<lambda>db c. used_in env (tx_grants (tx_of db c))" "\<lambda>db. used_in env (tw_grants (db_tables db))" db_ok
proof
  fix db x c c' key call call'
  assume ok: "db_ok db"
  show "db_ok (db_step env iv x db)" using ok by (rule db_step_ok)
  show "\<not> used_in env (tw_grants (db_tables db)) key call' \<and> \<not> used_in env (tx_grants (tx_of db c')) key call'"
    and "used_in env (tx_grants (tx_of (db_step env iv x db) c)) key call"
    if "approval_event env iv x db = Some (Won c key call)"
    using approval_won [OF ok that] used_row by metis+
  show "used_in env (tx_grants (tx_of (db_step env iv x db) c)) key call"
    if "used_in env (tx_grants (tx_of db c)) key call" "approval_event env iv x db \<noteq> Some (Kept c)"
      "approval_event env iv x db \<noteq> Some (Undone c)"
    using used_held_stays [OF ok that(1)] that(2,3) by auto
  show "used_in env (tw_grants (db_tables (db_step env iv x db))) key call"
    if used: "used_in env (tx_grants (tx_of db c)) key call" and "approval_event env iv x db = Some (Kept c)"
  proof -
    obtain d where d: "key = Some d" using used by (auto simp: used_in_def)
    obtain g where "dget (tx_grants (tx_of db c)) d = Some g" using used_row used d by blast
    with that d used_cong [OF used [unfolded d]] db_ok_wf(2) [OF ok] show ?thesis by (simp add: Let_def dget_dmerge)
  qed
  show "used_in env (tw_grants (db_tables (db_step env iv x db))) key call"
    if used: "used_in env (tw_grants (db_tables db)) key call"
  proof -
    obtain d where d: "key = Some d" using used by (auto simp: used_in_def)
    obtain g where g: "dget (tw_grants (db_tables db)) d = Some g" "gn_consumed_at g \<noteq> None" using used_row used d by blast
    have "dget (tw_grants (db_tables (db_step env iv x db))) d = dget (tw_grants (db_tables db)) d"
      using grants_stay [OF ok g] g(1) by simp
    from used_cong [OF used [unfolded d] this] d show ?thesis by simp
  qed
qed

text \<open>(C14) An approval is used twice only if the transaction of the first use was rolled back, and
  it is used for what was approved.  Over the same interleavings, an invocation that passes on
  the strength of an approved decision names one whose grant was not consumed in the committed
  tables at the start.  When two name the same decision, the session of the first rolled back
  between them, before it committed anything.  And once the session of such an invocation
  commits without having rolled back, the committed grant stands consumed to the end of
  the run by the invocation's own actor, made out to its tenant and to the fingerprint of its
  tool and payload, and is the source of the provider key the call carries.\<close>

theorem grant_used_once:
  assumes "db_open db = []"
  shows "(\<forall>c key call. Won c key call \<in> set (history (db_step env iv) (approval_event env iv) ops db) \<longrightarrow>
       (\<exists>d. key = Some d \<and> approval_of call = Some d \<and>
          \<not> (\<exists>g. dget (tw_grants (db_tables db)) d = Some g \<and> gn_consumed_at g \<noteq> None))) \<and>
    (\<forall>us c key call vs c' call' zs.
       history (db_step env iv) (approval_event env iv) ops db = us @ Won c key call # vs @ Won c' key call' # zs \<longrightarrow>
         (\<exists>vs1 vs2. vs = vs1 @ Undone c # vs2 \<and> Kept c \<notin> set vs1)) \<and>
    (\<forall>us c key call vs zs.
       history (db_step env iv) (approval_event env iv) ops db = us @ Won c key call # vs @ Kept c # zs \<longrightarrow>
         Undone c \<notin> set vs \<longrightarrow> granted env (tw_grants (db_tables (runs (db_step env iv) ops db))) call)"
proof -
  have consumed_stays: "\<exists>g. dget (tw_grants (db_tables (db_step env iv x db))) d = Some g \<and> gn_consumed_at g \<noteq> None"
    if "db_ok db" "dget (tw_grants (db_tables db)) d = Some g" "gn_consumed_at g \<noteq> None" for x db d g
    using grants_stay [OF that] that by auto
  have named: "\<exists>d. key = Some d \<and> approval_of call = Some d \<and>
      \<not> (\<exists>g. dget (tw_grants (db_tables db)) d = Some g \<and> gn_consumed_at g \<noteq> None)"
    if "Won c key call \<in> set (history (db_step env iv) (approval_event env iv) ops db)" "db_ok db" for c key call db
    using that
  proof (induction ops arbitrary: db)
    case (Cons x xs)
    show ?case
    proof (cases "approval_event env iv x db = Some (Won c key call)")
      case True
      from approval_won [OF Cons.prems(2) this, of c] show ?thesis by (auto simp: used_in_def)
    next
      case False
      then have "Won c key call \<in> set (history (db_step env iv) (approval_event env iv) xs (db_step env iv x db))"
        using Cons.prems(1) by (auto split: option.splits)
      from Cons.IH [OF this db_step_ok [OF Cons.prems(2)]] show ?thesis
        using consumed_stays [OF Cons.prems(2)] by blast
    qed
  qed simp
  note ok = db_ok_start [OF assms]
  have "granted env (tw_grants (db_tables (runs (db_step env iv) ops db))) call"
    if "history (db_step env iv) (approval_event env iv) ops db = us @ Won c key call # vs @ Kept c # zs" "Undone c \<notin> set vs"
    for us c key call vs zs
    using grant_tokens.won_kept [OF ok that] by (simp add: used_in_def)
  moreover note named [OF _ ok] grant_tokens.won_again [OF ok, of env iv ops]
  ultimately show ?thesis by (intro conjI allI impI) metis+
qed

section \<open>A refund called twice\<close>

text \<open>The call is cleared in one session, which is rolled back, and then in another; and an
  approval is used in a session that commits.\<close>

definition demo_database :: tool_database where
  "demo_database = \<lparr>db_tables = demo_tables, db_open = []\<rparr>"

definition demo_reserve :: "string \<Rightarrow> tool_op" where
  "demo_reserve i = Reserve_Call 1 None i demo_agent demo_tool demo_authorization"

definition demo_use :: tool_op where
  "demo_use = Begin_Call 1 ''f'' None demo_call demo_agent 1 (Some ''d1'')"

lemma quiet_proceeds:
  assumes "\<And>c. tx_of db c = no_writes"
  shows "proceeds env iv c store fails op db"
  using assms by (simp add: proceeds_def must_wait_iff collides_def)

lemma demo_quiet: "tx_of demo_database c = no_writes"
  by (simp add: tx_of_def demo_database_def)

lemma demo_call_cleared:
  assumes "\<And>c. tx_of db c = no_writes" "tw_ledger (db_tables db) = []"
  obtains cl where "action_event demo_env demo_invoker (In_Session c store fails (demo_reserve i)) db =
    Some (Won c (Some ''t1'', Some ''key1'') cl)"
proof -
  have "tw_ledger (session_view db c store) = []" using assms by (simp add: session_view_def dmerge_def)
  from demo_reserved [OF this, of i] obtain cl w' where
      cl: "reserve_call demo_env 1 None demo_invoker (session_view db c store) i demo_agent demo_tool demo_authorization =
        (Continues cl, w')" "cl_tool cl = demo_tool" .
  have action: "tool_capability_of demo_tool \<noteq> READ_ONLY" "iv_ledger demo_invoker"
    by (simp_all add: demo_tool_def tool_capability_of_def demo_invoker_def)
  have "cl_context cl = demo_agent" "cl_authorization cl = demo_authorization"
    by (subst ledger_cleared(1) [OF cl(1) action], simp)+
  then have "action_event demo_env demo_invoker (In_Session c store fails (demo_reserve i)) db =
    Some (Won c (Some ''t1'', Some ''key1'') cl)"
    using cl action quiet_proceeds [OF assms(1)]
    by (simp add: action_event_def action_cleared_def demo_reserve_def demo_agent_def demo_authorization_def)
  then show ?thesis by (rule that)
qed

lemma action_called_once_witness:
  "\<exists>cl cl' vs1 vs2. history (db_step demo_env demo_invoker) (action_event demo_env demo_invoker)
      [In_Session ''s1'' None False (demo_reserve ''c1''), Rollback ''s1'', In_Session ''s2'' None False (demo_reserve ''c2'')]
      demo_database =
      [Won ''s1'' (Some ''t1'', Some ''key1'') cl, Undone ''s1'', Won ''s2'' (Some ''t1'', Some ''key1'') cl'] \<and>
    [Undone ''s1'' :: (string, string option \<times> string option, clearance) token_event] = vs1 @ Undone ''s1'' # vs2"
proof -
  let ?ops = "[In_Session ''s1'' None False (demo_reserve ''c1''), Rollback ''s1'', In_Session ''s2'' None False (demo_reserve ''c2'')]"
  let ?db = "db_step demo_env demo_invoker (Rollback ''s1'')
    (db_step demo_env demo_invoker (In_Session ''s1'' None False (demo_reserve ''c1'')) demo_database)"
  have start: "tw_ledger (db_tables demo_database) = []" by (simp add: demo_database_def demo_tables_def)
  have quiet: "tx_of ?db c = no_writes" "tw_ledger (db_tables ?db) = []" for c
    using demo_quiet start by simp_all
  obtain cl where cl: "action_event demo_env demo_invoker (In_Session ''s1'' None False (demo_reserve ''c1'')) demo_database =
      Some (Won ''s1'' (Some ''t1'', Some ''key1'') cl)"
    using demo_call_cleared [OF demo_quiet start] .
  obtain cl' where cl': "action_event demo_env demo_invoker (In_Session ''s2'' None False (demo_reserve ''c2'')) ?db =
      Some (Won ''s2'' (Some ''t1'', Some ''key1'') cl')"
    using demo_call_cleared [OF quiet] .
  have run: "history (db_step demo_env demo_invoker) (action_event demo_env demo_invoker) ?ops demo_database =
      [] @ Won ''s1'' (Some ''t1'', Some ''key1'') cl # [Undone ''s1''] @ Won ''s2'' (Some ''t1'', Some ''key1'') cl' # []"
    using cl cl' by (simp add: action_event_def)
  have "iv_ledger demo_invoker" "db_open demo_database = []" by (simp_all add: demo_invoker_def demo_database_def)
  from action_called_once [OF this, of demo_env ?ops] run show ?thesis by (metis append_Nil append_Cons)
qed

lemma grant_used_once_witness:
  "granted demo_env (tw_grants (db_tables (runs (db_step demo_env demo_invoker)
     [In_Session ''s1'' (tw_governance demo_tables) False demo_use, Commit ''s1''] demo_database)))
     (demo_call, demo_agent, demo_authorization)"
proof -
  let ?ops = "[In_Session ''s1'' (tw_governance demo_tables) False demo_use, Commit ''s1'']"
  let ?call = "(demo_call, demo_agent, demo_authorization)"
  have view: "session_view demo_database ''s1'' (tw_governance demo_tables) = demo_tables"
    using demo_quiet by (simp add: session_view_def demo_database_def dmerge_def)
  obtain call_id w where "begin_call demo_env 1 ''f'' None demo_invoker demo_tables demo_call demo_agent 1 (Some ''d1'') =
      (Continues (call_id, demo_tool, demo_authorization), w)"
    using demo_begun by blast
  then have pass: "approved_pass demo_env demo_invoker demo_use demo_tables = Some ?call"
    by (simp add: approved_pass_def demo_use_def)
  have live: "\<not> tx_aborted (tx_after demo_env demo_invoker ''s1'' (tw_governance demo_tables) False demo_use demo_database)"
    by (simp add: tx_after_def Let_def demo_use_def)
  have run: "history (db_step demo_env demo_invoker) (approval_event demo_env demo_invoker) ?ops demo_database =
      [] @ Won ''s1'' (Some ''d1'') ?call # [] @ Kept ''s1'' # []"
    using pass live quiet_proceeds [OF demo_quiet]
    by (simp add: approval_event_def view approval_of_def demo_authorization_def)
  have "db_open demo_database = []" by (simp add: demo_database_def)
  from grant_used_once [OF this, of demo_env demo_invoker ?ops] run show ?thesis by (metis list.set(1) empty_iff)
qed

end
