(* ===== verification/Action_Requests.thy ===== *)
theory Action_Requests
  imports Tool_Invoker Approval_Basis
begin

text \<open>
  From a proposal's recommended actions to invocations of tools
  (\<open>app/agents/tools/orchestration.py\<close>): the payload and target builders of the declared
  operations (\<open>operation_metadata.py\<close>), the metadata a request is judged by, the pending
  approvals of actions (the in-memory repository of \<open>approvals.py\<close>), and the execution of
  an action, first by the agent and again once a manager approved it.
\<close>

section \<open>Amounts\<close>

text \<open>\<open>round(float(s) * 100)\<close>: the product is exact on the 53-bit mantissa, rounded once to
  a float and once to an integer, both to even; a NaN raises \<open>ValueError\<close>, which the code
  turns into \<open>None\<close>, an infinity \<open>OverflowError\<close>, which it does not catch.\<close>

definition round_half_even :: "nat \<Rightarrow> nat \<Rightarrow> nat" where
  "round_half_even n d =
     (let q = n div d; r = n mod d
      in if 2 * r < d \<or> (2 * r = d \<and> even q) then q else q + 1)"

fun excess_bits :: "nat \<Rightarrow> nat" where
  "excess_bits n = (if n < 2 ^ 53 then 0 else Suc (excess_bits (n div 2)))"

declare excess_bits.simps [simp del]

definition float_parts :: "pyfloat \<Rightarrow> nat \<times> int" where
  "float_parts x =
     (let b = unat x mod 2 ^ 63; e = b div 2 ^ 52; f = b mod 2 ^ 52
      in if e = 0 then (f, -1074) else (f + 2 ^ 52, int e - 1075))"

definition cents_of_float :: "pyfloat \<Rightarrow> int option result" where
  "cents_of_float x =
     (if float_nan x then Inr None
      else if unat x mod 2 ^ 63 = 0x7FF0000000000000 then Inl OverflowError
      else
        let (m, e) = float_parts x;
            s = excess_bits (100 * m);
            p = round_half_even (100 * m) (2 ^ s);
            e' = e + int s;
            n = (if e' \<ge> 0 then p * 2 ^ nat e' else round_half_even p (2 ^ nat (- e')))
        in if n \<ge> 2 ^ 1024 then Inl OverflowError
           else Inr (Some (if unat x < 2 ^ 63 then int n else - int n)))"

definition lstrip_char :: "char \<Rightarrow> string \<Rightarrow> string" where
  "lstrip_char c s = dropWhile (\<lambda>x. x = c) s"

definition amount_to_cents :: "py_env \<Rightarrow> string option \<Rightarrow> int option result" where
  "amount_to_cents env amount =
     (case amount of
        None \<Rightarrow> Inr None
      | Some s \<Rightarrow>
          (case float_of_str env (filter (\<lambda>c. c \<noteq> CHR '','') (lstrip_char (CHR 0x24) (py_strip s))) of
             None \<Rightarrow> Inr None
           | Some x \<Rightarrow> cents_of_float x))"

section \<open>Payloads\<close>

definition proposal_text :: "proposal \<Rightarrow> string option" where
  "proposal_text p = map_option (take 500) (stripped_text (PStr (rp_reply p)))"

definition category_text :: "proposal \<Rightarrow> string option" where
  "category_text p = stripped_text (PStr (rp_category p))"

definition opt_pint :: "int option \<Rightarrow> pyval" where
  "opt_pint n = (case n of None \<Rightarrow> PNone | Some i \<Rightarrow> PInt i)"

definition warranty_payload :: "metadata \<Rightarrow> proposal \<Rightarrow> metadata" where
  "warranty_payload action p =
     [(''order_id'', opt_pstr (metadata_str action ''order_id'')),
      (''product_sku'', opt_pstr (metadata_str action ''product_sku'')),
      (''issue_category'', opt_pstr (or_else (metadata_str action ''issue_category'') (category_text p))),
      (''customer_description'', opt_pstr (or_else (proposal_text p) (Some ''warranty_claim'')))]"

definition replacement_payload :: "metadata \<Rightarrow> proposal \<Rightarrow> metadata" where
  "replacement_payload action p =
     [(''order_id'', opt_pstr (metadata_str action ''order_id'')),
      (''product_sku'', opt_pstr (metadata_str action ''product_sku'')),
      (''replacement_reason'', opt_pstr (or_else (metadata_str action ''replacement_reason'') (category_text p))),
      (''shipping_address_hash'',
        opt_pstr (or_else (metadata_str action ''shipping_address_hash'') (Some ''address_hash_unavailable'')))]"

text \<open>\<open>_int(...) or _amount_to_cents(...)\<close>: zero counts as absent.\<close>

definition refund_amount :: "py_env \<Rightarrow> metadata \<Rightarrow> int option result" where
  "refund_amount env action =
     (case metadata_int env (get_or_none action ''refund_amount_cents'') of
        Some n \<Rightarrow> if n \<noteq> 0 then Inr (Some n) else amount_to_cents env (metadata_str action ''amount'')
      | None \<Rightarrow> amount_to_cents env (metadata_str action ''amount''))"

definition refund_payload :: "py_env \<Rightarrow> metadata \<Rightarrow> proposal \<Rightarrow> metadata result" where
  "refund_payload env action p =
     bind_result (refund_amount env action) (\<lambda>amount. Inr
       [(''order_id'', opt_pstr (metadata_str action ''order_id'')),
        (''product_sku'', opt_pstr (metadata_str action ''product_sku'')),
        (''refund_amount_cents'', opt_pint amount),
        (''refund_reason'', opt_pstr (or_else (metadata_str action ''refund_reason'') (category_text p)))])"

definition warehouse_payload :: "metadata \<Rightarrow> proposal \<Rightarrow> metadata" where
  "warehouse_payload action p =
     [(''product_sku'', opt_pstr (metadata_str action ''product_sku'')),
      (''batch_id'', opt_pstr (metadata_str action ''batch_id'')),
      (''defect_description'',
        opt_pstr (or_else (metadata_str action ''defect_description'') (or_else (proposal_text p) (Some ''warehouse_repair'')))),
      (''severity'', PStr (case metadata_str action ''severity'' of
         Some s \<Rightarrow> if s \<in> set [''low'', ''medium'', ''high'', ''critical''] then s else ''high''
       | None \<Rightarrow> ''high'')),
      (''session_id'', opt_pstr (Option.bind (rp_session_id p) (\<lambda>s. stripped_text (PStr s))))]"

definition repair_booking_payload :: "metadata \<Rightarrow> proposal \<Rightarrow> metadata" where
  "repair_booking_payload action p =
     [(''order_id'', opt_pstr (metadata_str action ''order_id'')),
      (''product_sku'', opt_pstr (metadata_str action ''product_sku'')),
      (''preferred_date'', opt_pstr (metadata_str action ''preferred_date'')),
      (''customer_address_hash'',
        opt_pstr (or_else (metadata_str action ''customer_address_hash'') (Some ''address_unavailable''))),
      (''device_description'',
        opt_pstr (or_else (metadata_str action ''device_description'') (or_else (proposal_text p) (Some ''repair_booking''))))]"

text \<open>\<open>payload_for_operation\<close>: the builder of the declared operation.\<close>

definition payload_for_operation ::
  "py_env \<Rightarrow> resolved_operation option \<Rightarrow> metadata \<Rightarrow> proposal \<Rightarrow> metadata option result" where
  "payload_for_operation env operation action p =
     (case Option.bind operation op_operation_id of
        None \<Rightarrow> Inr None
      | Some i \<Rightarrow>
          if i = ''operation.warranty_claim'' then Inr (Some (warranty_payload action p))
          else if i = ''operation.replacement_order'' then Inr (Some (replacement_payload action p))
          else if i = ''operation.refund_request'' then bind_result (refund_payload env action p) (\<lambda>v. Inr (Some v))
          else if i = ''operation.warehouse_repair_report'' then Inr (Some (warehouse_payload action p))
          else if i = ''operation.repair_booking'' then Inr (Some (repair_booking_payload action p))
          else Inr None)"

definition payload_for_recommended_action ::
  "py_env \<Rightarrow> metadata \<Rightarrow> proposal \<Rightarrow> string \<Rightarrow> string \<Rightarrow> metadata result" where
  "payload_for_recommended_action env action p action_type tool_name =
     (case get_or_none action ''payload'' of
        PDict d \<Rightarrow> Inr d
      | _ \<Rightarrow> bind_result (payload_for_operation env (resolve_operation [] (Some tool_name) (Some action_type)) action p)
               (\<lambda>v. Inr (case v of None \<Rightarrow> [] | Some d \<Rightarrow> d)))"

section \<open>Targets\<close>

definition target_or_name :: "metadata \<Rightarrow> string option \<Rightarrow> string \<Rightarrow> string" where
  "target_or_name action derived tool_name =
     (case or_else (metadata_str action ''target_resource_id'') derived of Some t \<Rightarrow> t | None \<Rightarrow> tool_name)"

definition order_target :: "metadata \<Rightarrow> metadata \<Rightarrow> string \<Rightarrow> string" where
  "order_target action payload tool_name =
     target_or_name action
       (case (metadata_str payload ''order_id'', metadata_str payload ''product_sku'') of
          (Some order, Some sku) \<Rightarrow> Some (''order:'' @ order @ '':sku:'' @ sku)
        | (None, Some sku) \<Rightarrow> Some (''sku:'' @ sku)
        | _ \<Rightarrow> None) tool_name"

definition warehouse_target :: "metadata \<Rightarrow> metadata \<Rightarrow> string \<Rightarrow> string" where
  "warehouse_target action payload tool_name =
     target_or_name action (map_option (\<lambda>sku. ''sku:'' @ sku) (metadata_str payload ''product_sku'')) tool_name"

text \<open>\<open>_dispatch_target\<close> and \<open>_booking_target\<close>, which differ in their prefix.\<close>

definition prefixed_target :: "string \<Rightarrow> metadata \<Rightarrow> metadata \<Rightarrow> string \<Rightarrow> string" where
  "prefixed_target prefix action payload tool_name =
     target_or_name action
       (case (metadata_str payload ''order_id'', metadata_str payload ''product_sku'') of
          (Some order, Some sku) \<Rightarrow> Some (prefix @ order @ '':'' @ sku)
        | _ \<Rightarrow> None) tool_name"

definition target_resource_for_action :: "metadata \<Rightarrow> string \<Rightarrow> metadata \<Rightarrow> string" where
  "target_resource_for_action action tool_name payload =
     (case Option.bind (resolve_operation [] (Some tool_name) None) op_operation_id of
        None \<Rightarrow> target_or_name action None tool_name
      | Some i \<Rightarrow>
          if i \<in> set [''operation.warranty_claim'', ''operation.replacement_order'', ''operation.refund_request''] then
            order_target action payload tool_name
          else if i = ''operation.warehouse_repair_report'' then warehouse_target action payload tool_name
          else if i = ''operation.repair_booking'' then prefixed_target ''booking:'' action payload tool_name
          else prefixed_target ''repair:'' action payload tool_name)"

section \<open>Requests\<close>

definition ACTION_STRUCTURAL_KEYS :: "string list" where
  "ACTION_STRUCTURAL_KEYS = [''type'', ''tool_name'', ''label'', ''requires_execution'', ''payload_template'',
     ''target_resource_id'', ''payload'', ''warranty_refund_eligibility'', ''resolution_verdict'']"

text \<open>\<open>_metadata_value\<close> on the value: scalars other than \<open>None\<close> pass.\<close>

fun scalar_value :: "pyval \<Rightarrow> bool" where
  "scalar_value PNone = False"
| "scalar_value (PList _) = False"
| "scalar_value (PDict _) = False"
| "scalar_value _ = True"

definition action_scalars :: "metadata \<Rightarrow> metadata" where
  "action_scalars action = filter (\<lambda>(k, v). k \<notin> set ACTION_STRUCTURAL_KEYS \<and> scalar_value v) action"

definition payload_scalars :: "metadata \<Rightarrow> metadata" where
  "payload_scalars action =
     (case get_or_none action ''payload'' of
        PDict d \<Rightarrow> filter (\<lambda>(k, v). scalar_value v)
          (map (\<lambda>k. (k, get_or_none d k)) [''issue_category'', ''refund_amount_cents'', ''severity''])
      | _ \<Rightarrow> [])"

definition tool_name_for :: "metadata \<Rightarrow> string option" where
  "tool_name_for action =
     or_else (metadata_str action ''tool_name'') (tool_name_for_action_type (metadata_str action ''type''))"

definition request_metadata ::
  "proposal \<Rightarrow> metadata \<Rightarrow> string \<Rightarrow> string \<Rightarrow> string \<Rightarrow> string \<Rightarrow> metadata" where
  "request_metadata p action action_type tool_name target_resource key =
     (let declared = dmerge
            [(''session_id'', opt_pstr (rp_session_id p)), (''proposal_id'', PStr (rp_proposal_id p)),
             (''dispatch_id'', PStr (rp_dispatch_id p)), (''execution_id'', opt_pstr (rp_execution_id p)),
             (''action_type'', PStr action_type), (''tool_name'', PStr tool_name),
             (''target_resource'', PStr target_resource), (''target_resource_id'', PStr target_resource),
             (''idempotency_key'', PStr key), (''diagnostic_confidence'', PFloat (rp_confidence p)),
             (''resolution_category'', PStr (rp_category p))]
            (operation_metadata (resolve_operation [] (Some tool_name) (Some action_type)));
          marked = (case (dget declared ''operation_commitment_kind'', metadata_str action ''operation_commitment_kind'') of
            (None, Some kind) \<Rightarrow> dset ''operation_commitment_kind'' (PStr kind) declared
          | _ \<Rightarrow> declared)
      in dsetdefault ''issue_category'' (PStr (rp_category p))
           (dmerge (dmerge marked (action_scalars action)) (payload_scalars action)))"

section \<open>Pending approvals\<close>

record action_approval =
  av_approval_id :: uuid
  av_tenant_id :: string
  av_session_id :: string
  av_execution_id :: "string option"
  av_tool_name :: string
  av_key :: string
  av_payload :: metadata
  av_decision_id :: "string option"
  av_status :: string
  av_requested_at :: int
  av_resolved_at :: "int option"
  av_resolved_by :: "string option"
  av_note :: "string option"
  av_metadata :: metadata
  av_proposed_by :: "string option"

record approval_table =
  vt_by_id :: "(uuid, action_approval) dict"
  vt_by_key :: "(string, action_approval) dict"

definition build_pending_action_approval ::
  "py_env \<Rightarrow> int \<Rightarrow> string \<Rightarrow> string \<Rightarrow> string option \<Rightarrow> string \<Rightarrow> string \<Rightarrow> metadata \<Rightarrow> string option
     \<Rightarrow> metadata \<Rightarrow> string option \<Rightarrow> action_approval" where
  "build_pending_action_approval env now tenant_id session_id execution_id tool_name key payload decision_id md proposed_by =
     \<lparr>av_approval_id = uuid5 env ''aa6e7001-0007-4007-8007-000000000007'' (tenant_id @ ''|'' @ key),
      av_tenant_id = tenant_id, av_session_id = session_id, av_execution_id = execution_id, av_tool_name = tool_name,
      av_key = key, av_payload = payload, av_decision_id = decision_id, av_status = ''pending'', av_requested_at = now,
      av_resolved_at = None, av_resolved_by = None, av_note = None, av_metadata = md, av_proposed_by = proposed_by\<rparr>"

definition tenant_mismatch :: error where
  "tenant_mismatch = AgentError ''ActionApprovalError'' ''action approval tenant mismatch''"

definition create_pending_approval ::
  "approval_table \<Rightarrow> action_approval \<Rightarrow> string \<Rightarrow> action_approval result \<times> approval_table" where
  "create_pending_approval t r expected =
     (if av_tenant_id r \<noteq> expected then (Inl tenant_mismatch, t)
      else case dget (vt_by_key t) (av_key r) of
        Some existing \<Rightarrow> (if av_tenant_id existing \<noteq> expected then Inl tenant_mismatch else Inr existing, t)
      | None \<Rightarrow>
          (Inr r, t\<lparr>vt_by_id := dset (av_approval_id r) r (vt_by_id t), vt_by_key := dset (av_key r) r (vt_by_key t)\<rparr>))"

definition of_approval_tenant :: "action_approval option \<Rightarrow> string \<Rightarrow> action_approval option" where
  "of_approval_tenant r expected =
     (case r of Some v \<Rightarrow> if av_tenant_id v = expected then Some v else None | None \<Rightarrow> None)"

definition get_approval :: "approval_table \<Rightarrow> uuid \<Rightarrow> string \<Rightarrow> action_approval option" where
  "get_approval t i expected = of_approval_tenant (dget (vt_by_id t) i) expected"

definition get_by_idempotency_key :: "approval_table \<Rightarrow> string \<Rightarrow> string \<Rightarrow> action_approval option" where
  "get_by_idempotency_key t key expected = of_approval_tenant (dget (vt_by_key t) key) expected"

definition approval_order :: "action_approval \<Rightarrow> int \<times> string" where
  "approval_order r = (av_requested_at r, av_approval_id r)"

definition list_approvals ::
  "approval_table \<Rightarrow> string \<Rightarrow> string option \<Rightarrow> int \<Rightarrow> int \<Rightarrow> action_approval list" where
  "list_approvals t expected status limit offset =
     py_slice (rev (sort_key approval_order
       (filter (\<lambda>r. av_tenant_id r = expected \<and> (case status of None \<Rightarrow> True | Some s \<Rightarrow> av_status r = s))
         (dvals (vt_by_id t))))) offset (offset + limit)"

definition resolved_approval :: "string \<Rightarrow> int \<Rightarrow> string \<Rightarrow> string option \<Rightarrow> metadata \<Rightarrow> action_approval \<Rightarrow> action_approval" where
  "resolved_approval status at actor note md r =
     r\<lparr>av_status := status, av_resolved_at := Some at, av_resolved_by := Some actor, av_note := note, av_metadata := md\<rparr>"

definition resolve_approval ::
  "approval_table \<Rightarrow> uuid \<Rightarrow> string \<Rightarrow> string \<Rightarrow> int \<Rightarrow> string \<Rightarrow> string option \<Rightarrow> metadata
     \<Rightarrow> action_approval option \<times> approval_table" where
  "resolve_approval t i expected status at actor note md =
     (case get_approval t i expected of
        None \<Rightarrow> (None, t)
      | Some r \<Rightarrow>
          if av_status r \<noteq> ''pending'' then (None, t)
          else let v = resolved_approval status at actor note md r
               in (Some v, t\<lparr>vt_by_id := dset i v (vt_by_id t), vt_by_key := dset (av_key v) v (vt_by_key t)\<rparr>))"

section \<open>The state and the ports\<close>

text \<open>\<open>nw_rest\<close> is everything beyond the tables: the providers the tools call, the session
  timeline, the approval cases.\<close>

record 'x action_world =
  nw_governance :: governance_store
  nw_grants :: grant_table
  nw_ledger :: ledger
  nw_effects :: "tool_effect list"
  nw_approvals :: approval_table
  nw_resolution :: resolution_store
  nw_rest :: 'x

record action_event =
  ae_session_id :: string
  ae_dispatch_id :: string
  ae_tenant_id :: string
  ae_event_type :: string
  ae_payload :: metadata
  ae_key :: string

record 'x action_ports =
  np_invoker :: invoker
  np_call :: "tool \<Rightarrow> tool_request \<Rightarrow> agent_context \<Rightarrow> 'x \<Rightarrow> tool_outcome \<times> 'x"
    \<comment> \<open>the tools\<close>
  np_faults :: "error option \<times> error option"
  np_fresh :: "int \<Rightarrow> uuid"
    \<comment> \<open>the random identity of an unseeded decision, by ordinal\<close>
  np_ambient :: "string option"
  np_timeline :: "int \<Rightarrow> action_event \<Rightarrow> 'x \<Rightarrow> unit result \<times> 'x"
  np_crisis_case :: "(review_request \<Rightarrow> 'x \<Rightarrow> unit result \<times> 'x) option"
    \<comment> \<open>the ingress of the case approvals, with the review it triggers\<close>
  np_complete_case :: "(uuid \<Rightarrow> string \<Rightarrow> string \<Rightarrow> string \<Rightarrow> int \<Rightarrow> string \<Rightarrow> 'x \<Rightarrow> unit result \<times> 'x) option"
  np_undo :: "'x \<Rightarrow> 'x \<Rightarrow> 'x"
    \<comment> \<open>what a rollback does to the rest: before, after\<close>
  np_flush :: "('x \<Rightarrow> unit result \<times> 'x) option"

definition tools_of :: "'x action_world \<Rightarrow> tool_world" where
  "tools_of w = \<lparr>tw_governance = Some (nw_governance w), tw_grants = nw_grants w, tw_ledger = nw_ledger w,
     tw_effects = nw_effects w\<rparr>"

definition with_tools :: "'x action_world \<Rightarrow> tool_world \<Rightarrow> 'x \<Rightarrow> 'x action_world" where
  "with_tools w v x = w\<lparr>nw_governance := (case tw_governance v of Some s \<Rightarrow> s | None \<Rightarrow> nw_governance w),
     nw_grants := tw_grants v, nw_ledger := tw_ledger v, nw_effects := tw_effects v, nw_rest := x\<rparr>"

text \<open>\<open>ToolInvoker.invoke\<close> on the world.\<close>

definition invoke_action ::
  "py_env \<Rightarrow> 'x action_ports \<Rightarrow> int \<Rightarrow> tool_request \<Rightarrow> agent_context \<Rightarrow> int \<Rightarrow> string option
     \<Rightarrow> (tool_envelope, 'x action_world) call" where
  "invoke_action env pt now request context ordinal pre_approved w =
     (case invoke_tool env now (np_fresh pt ordinal) (np_ambient pt) (np_call pt) (np_faults pt) (np_invoker pt)
             request context ordinal pre_approved (tools_of w, nw_rest w) of
        (r, v, x) \<Rightarrow> (r, with_tools w v x))"

definition on_outside :: "('x \<Rightarrow> 'a result \<times> 'x) \<Rightarrow> ('a, 'x action_world) call" where
  "on_outside f w = (case f (nw_rest w) of (r, x) \<Rightarrow> (r, w\<lparr>nw_rest := x\<rparr>))"

definition on_approvals :: "(approval_table \<Rightarrow> 'a result \<times> approval_table) \<Rightarrow> ('a, 'x action_world) call" where
  "on_approvals f w = (case f (nw_approvals w) of (r, t) \<Rightarrow> (r, w\<lparr>nw_approvals := t\<rparr>))"

section \<open>Executing an action\<close>

datatype action_status = ACTION_EXECUTED | ACTION_PENDING_APPROVAL | ACTION_DENIED | ACTION_FAILED

record action_outcome =
  oc_tool_name :: string
  oc_key :: string
  oc_status :: action_status
  oc_decision_id :: "uuid option"
  oc_approval_id :: "uuid option"

definition proposal_reference :: "string option \<Rightarrow> string \<Rightarrow> string result" where
  "proposal_reference v field =
     (case v of
        None \<Rightarrow> Inl (ValueError (''resolution proposal '' @ field @ '' is required for action orchestration''))
      | Some s \<Rightarrow> Inr s)"

definition append_action_event ::
  "'x action_ports \<Rightarrow> int \<Rightarrow> proposal \<Rightarrow> string \<Rightarrow> string \<Rightarrow> metadata \<Rightarrow> (unit, 'x action_world) call" where
  "append_action_event pt now p event_type key payload =
     and_then (lifted (proposal_reference (rp_session_id p) ''session_id'')) (\<lambda>session.
     on_outside (np_timeline pt now \<lparr>ae_session_id = session, ae_dispatch_id = rp_dispatch_id p, ae_tenant_id = rp_tenant_id p,
       ae_event_type = event_type, ae_payload = payload, ae_key = key\<rparr>))"

definition crisis_action_request ::
  "string \<Rightarrow> string \<Rightarrow> string \<Rightarrow> string \<Rightarrow> uuid \<Rightarrow> string \<Rightarrow> metadata \<Rightarrow> uuid option \<Rightarrow> string \<Rightarrow> string option \<Rightarrow> metadata
     \<Rightarrow> review_request" where
  "crisis_action_request tenant session execution dispatch approval_id tool_name payload decision_id policy summary md =
     \<lparr>vq_tenant_id = tenant, vq_category = CC_CRISIS_ACTION, vq_session_id = Some session, vq_execution_id = Some execution,
      vq_dispatch_id = Some dispatch, vq_proposal_id = None, vq_ticket_ref = Some (''action-approval:'' @ approval_id),
      vq_product = None,
      vq_issue_summary = or_else (Option.bind summary (\<lambda>s. if s = [] then None else Some s))
        (Some (if policy = [] then ''crisis_action'' else policy)),
      vq_action = Some [(''action_approval_id'', PStr approval_id), (''requires_execution'', PBool True),
        (''tool_name'', PStr tool_name), (''payload'', PDict payload), (''governance_decision_id'', opt_pstr decision_id),
        (''crisis_policy'', PStr policy)],
      vq_metadata = Some (dmerge md [(''source'', PStr ''action_orchestration''), (''action_approval_id'', PStr approval_id),
        (''tool_name'', PStr tool_name), (''governance_decision_id'', opt_pstr decision_id), (''crisis_policy'', PStr policy)])\<rparr>"

text \<open>What is known of the action once its tool and payload are.\<close>

record prepared_action =
  pa_action_type :: string
  pa_tool_name :: string
  pa_payload :: metadata
  pa_session_id :: string
  pa_execution_id :: string
  pa_target :: string
  pa_key :: uuid

definition outcome_of :: "prepared_action \<Rightarrow> action_status \<Rightarrow> uuid option \<Rightarrow> uuid option \<Rightarrow> action_outcome" where
  "outcome_of a status decision_id approval_id =
     \<lparr>oc_tool_name = pa_tool_name a, oc_key = pa_key a, oc_status = status, oc_decision_id = decision_id,
      oc_approval_id = approval_id\<rparr>"

definition event_facts :: "prepared_action \<Rightarrow> uuid option \<Rightarrow> metadata" where
  "event_facts a decision_id =
     [(''tool_name'', PStr (pa_tool_name a)), (''action_type'', PStr (pa_action_type a)),
      (''idempotency_key'', PStr (pa_key a)), (''governance_decision_id'', opt_pstr decision_id)]"

definition prepare_action ::
  "py_env \<Rightarrow> proposal \<Rightarrow> metadata \<Rightarrow> string \<Rightarrow> string \<Rightarrow> string \<Rightarrow> prepared_action result" where
  "prepare_action env p action expected action_type tool_name =
     bind_result (payload_for_recommended_action env action p action_type tool_name) (\<lambda>payload.
     bind_result (proposal_reference (rp_session_id p) ''session_id'') (\<lambda>session.
     bind_result (proposal_reference (rp_execution_id p) ''execution_id'') (\<lambda>execution.
     let target = target_resource_for_action action tool_name payload
     in Inr \<lparr>pa_action_type = action_type, pa_tool_name = tool_name, pa_payload = payload, pa_session_id = session,
          pa_execution_id = execution, pa_target = target,
          pa_key = derive_action_idempotency_key env expected session tool_name target\<rparr>)))"

definition action_request :: "proposal \<Rightarrow> metadata \<Rightarrow> prepared_action \<Rightarrow> tool_request" where
  "action_request p action a =
     \<lparr>tq_tool_name = pa_tool_name a, tq_payload = pa_payload a,
      tq_metadata = request_metadata p action (pa_action_type a) (pa_tool_name a) (pa_target a) (pa_key a)\<rparr>"

text \<open>A decision that asks for approval puts the action up for one.\<close>

definition park_action ::
  "py_env \<Rightarrow> 'x action_ports \<Rightarrow> int \<Rightarrow> proposal \<Rightarrow> prepared_action \<Rightarrow> agent_context \<Rightarrow> string \<Rightarrow> tool_envelope
     \<Rightarrow> (action_outcome, 'x action_world) call" where
  "park_action env pt now p a context expected envelope =
     (let actor = compute_agent_execution_actor context;
          decision_id = tt_decision_id (te_trace envelope);
          facts = [(''proposal_id'', PStr (rp_proposal_id p)), (''action_type'', PStr (pa_action_type a)),
            (''target_resource'', PStr (pa_target a))]
      in and_then (on_approvals (\<lambda>t. create_pending_approval t
             (build_pending_action_approval env now expected (pa_session_id a) (Some (pa_execution_id a)) (pa_tool_name a)
                (pa_key a) (pa_payload a) decision_id (facts @ [(''agent_action_actor'', PStr actor)]) (Some actor))
             expected)) (\<lambda>approval.
         and_then (case (metadata_str (tt_metadata (te_trace envelope)) ''crisis_policy'', np_crisis_case pt) of
             (Some policy, Some request_case) \<Rightarrow>
               on_outside (request_case (crisis_action_request expected (pa_session_id a) (pa_execution_id a) (rp_dispatch_id p)
                 (av_approval_id approval) (pa_tool_name a) (pa_payload a) decision_id policy
                 (metadata_str (tt_metadata (te_trace envelope)) ''governance_reason'')
                 (facts @ [(''idempotency_key'', PStr (pa_key a))])))
           | _ \<Rightarrow> answer ()) (\<lambda>_.
         and_then (append_action_event pt now p ''action_pending_approval'' (''action:pending:'' @ pa_key a)
             ((''approval_id'', PStr (av_approval_id approval)) # event_facts a decision_id)) (\<lambda>_.
         answer (outcome_of a ACTION_PENDING_APPROVAL decision_id (Some (av_approval_id approval)))))))"

text \<open>What becomes of the envelope of the first attempt.\<close>

definition settle_action ::
  "py_env \<Rightarrow> 'x action_ports \<Rightarrow> int \<Rightarrow> proposal \<Rightarrow> prepared_action \<Rightarrow> agent_context \<Rightarrow> string \<Rightarrow> tool_envelope
     \<Rightarrow> (action_outcome, 'x action_world) call" where
  "settle_action env pt now p a context expected envelope =
     (let decision_id = tt_decision_id (te_trace envelope);
          facts = event_facts a decision_id;
          verdict = metadata_str (tt_metadata (te_trace envelope)) ''governance_decision'';
          close = (\<lambda>event status key payload.
            and_then (append_action_event pt now p event (key @ pa_key a) payload)
              (\<lambda>_. answer (outcome_of a status decision_id None)))
      in if te_is_ok envelope then
           close ''action_executed'' ACTION_EXECUTED ''action:executed:''
             (facts @ [(''result'', PDict (case te_result envelope of Some r \<Rightarrow> tr_output r | None \<Rightarrow> []))])
         else if te_is_denied envelope then
           (if verdict = Some (decision_value REQUIRE_APPROVAL) then park_action env pt now p a context expected envelope
            else close ''action_denied'' ACTION_DENIED ''action:denied:''
              (facts @ [(''reason'', get_or_none (tt_metadata (te_trace envelope)) ''reason''),
                 (''governance_decision'', opt_pstr verdict)]))
         else close ''action_error'' ACTION_FAILED ''action:error:''
           (facts @ [(''error'', PStr (case te_error envelope of
              Some e \<Rightarrow> snd (error_text e) | None \<Rightarrow> ''tool returned non-success result''))]))"

definition execute_action ::
  "py_env \<Rightarrow> 'x action_ports \<Rightarrow> int \<Rightarrow> proposal \<Rightarrow> agent_context \<Rightarrow> string \<Rightarrow> int \<Rightarrow> metadata
     \<Rightarrow> (action_outcome, 'x action_world) call" where
  "execute_action env pt now p context expected ordinal action =
     (let action_type = (case metadata_str action ''type'' of Some t \<Rightarrow> t | None \<Rightarrow> ''unknown'')
      in case tool_name_for action of
        None \<Rightarrow>
          and_then (append_action_event pt now p ''action_skipped'' (''action:skipped:'' @ action_type)
              [(''action_type'', PStr action_type), (''reason'', PStr ''unknown_action_type'')]) (\<lambda>_.
          answer \<lparr>oc_tool_name = action_type, oc_key = [], oc_status = ACTION_FAILED, oc_decision_id = None, oc_approval_id = None\<rparr>)
      | Some tool_name \<Rightarrow>
          and_then (lifted (prepare_action env p action expected action_type tool_name)) (\<lambda>a.
          and_then (invoke_action env pt now (action_request p action a) context ordinal None) (\<lambda>envelope.
          settle_action env pt now p a context expected envelope)))"

fun execute_actions ::
  "py_env \<Rightarrow> 'x action_ports \<Rightarrow> int \<Rightarrow> proposal \<Rightarrow> agent_context \<Rightarrow> string \<Rightarrow> int \<Rightarrow> metadata list
     \<Rightarrow> (action_outcome list, 'x action_world) call" where
  "execute_actions env pt now p context expected ordinal [] = answer []"
| "execute_actions env pt now p context expected ordinal (action # actions) =
     and_then (execute_action env pt now p context expected ordinal action) (\<lambda>oc.
     and_then (execute_actions env pt now p context expected (ordinal + 1) actions) (\<lambda>ocs.
     answer (oc # ocs)))"

record orchestration_result =
  or_session_id :: string
  or_outcomes :: "action_outcome list"
  or_all_executed :: bool
  or_any_pending :: bool
  or_any_denied :: bool

definition executable_actions :: "proposal \<Rightarrow> metadata list" where
  "executable_actions p = filter (\<lambda>a. dget a ''requires_execution'' = Some (PBool True)) (rp_recommended_actions p)"

definition execute_proposal_actions ::
  "py_env \<Rightarrow> 'x action_ports \<Rightarrow> int \<Rightarrow> proposal \<Rightarrow> agent_context \<Rightarrow> string
     \<Rightarrow> (orchestration_result, 'x action_world) call" where
  "execute_proposal_actions env pt now p context expected =
     and_then (check (rp_tenant_id p = expected) (ValueError ''proposal tenant does not match expected tenant'')) (\<lambda>_.
     and_then (execute_actions env pt now p context expected 1 (executable_actions p)) (\<lambda>ocs.
     and_then (lifted (proposal_reference (rp_session_id p) ''session_id'')) (\<lambda>session.
     answer \<lparr>or_session_id = session, or_outcomes = ocs,
       or_all_executed = list_all (\<lambda>oc. oc_status oc = ACTION_EXECUTED) ocs,
       or_any_pending = list_ex (\<lambda>oc. oc_status oc = ACTION_PENDING_APPROVAL) ocs,
       or_any_denied = list_ex (\<lambda>oc. oc_status oc = ACTION_DENIED) ocs\<rparr>)))"

section \<open>Executing an approved action\<close>

definition approval_request_metadata :: "action_approval \<Rightarrow> string \<Rightarrow> string \<Rightarrow> metadata" where
  "approval_request_metadata r action_type target_resource =
     dmerge (dmerge (av_metadata r)
         [(''approval_id'', PStr (av_approval_id r)), (''session_id'', PStr (av_session_id r)),
          (''execution_id'', opt_pstr (av_execution_id r)), (''action_type'', PStr action_type),
          (''tool_name'', PStr (av_tool_name r)), (''target_resource'', PStr target_resource),
          (''target_resource_id'', PStr target_resource), (''idempotency_key'', PStr (av_key r))])
       (operation_metadata (resolve_operation (av_metadata r) (Some (av_tool_name r)) (Some action_type)))"

definition approved_action_type :: "action_approval \<Rightarrow> string" where
  "approved_action_type r =
     (case metadata_str (av_metadata r) ''action_type'' of Some t \<Rightarrow> t | None \<Rightarrow> ''unknown'')"

definition approved_request :: "action_approval \<Rightarrow> tool_request" where
  "approved_request r =
     (let target = (case metadata_str (av_metadata r) ''target_resource'' of
            Some t \<Rightarrow> t | None \<Rightarrow> target_resource_for_action [] (av_tool_name r) (av_payload r))
      in \<lparr>tq_tool_name = av_tool_name r, tq_payload = av_payload r,
          tq_metadata = approval_request_metadata r (approved_action_type r) target\<rparr>)"

definition approved_dispatch :: "action_approval \<Rightarrow> string" where
  "approved_dispatch r =
     (case str_or (metadata_str (av_metadata r) ''dispatch_id'') (av_execution_id r) of
        Some d \<Rightarrow> if d = [] then av_approval_id r else d | None \<Rightarrow> av_approval_id r)"

definition approved_outcome :: "action_approval \<Rightarrow> action_status \<Rightarrow> uuid option \<Rightarrow> action_outcome" where
  "approved_outcome r status decision_id =
     \<lparr>oc_tool_name = av_tool_name r, oc_key = av_key r, oc_status = status, oc_decision_id = decision_id,
      oc_approval_id = Some (av_approval_id r)\<rparr>"

definition re_invoke_approved_action ::
  "py_env \<Rightarrow> 'x action_ports \<Rightarrow> int \<Rightarrow> action_approval \<Rightarrow> uuid \<Rightarrow> agent_context \<Rightarrow> string
     \<Rightarrow> (action_outcome, 'x action_world) call" where
  "re_invoke_approved_action env pt now r decision_id context expected =
     and_then (check (av_tenant_id r = expected) (ValueError ''approval tenant does not match expected tenant'')) (\<lambda>_.
     and_then (invoke_action env pt now (approved_request r) context 1 (Some decision_id)) (\<lambda>envelope.
       let traced = tt_decision_id (te_trace envelope)
       in if te_is_ok envelope then
            and_then (on_outside (np_timeline pt now
                \<lparr>ae_session_id = av_session_id r, ae_dispatch_id = approved_dispatch r, ae_tenant_id = av_tenant_id r,
                 ae_event_type = ''action_executed'',
                 ae_payload = [(''approval_id'', PStr (av_approval_id r)), (''tool_name'', PStr (av_tool_name r)),
                   (''action_type'', PStr (approved_action_type r)),
                   (''idempotency_key'', PStr (av_key r)), (''governance_decision_id'', opt_pstr traced),
                   (''result'', PDict (case te_result envelope of Some res \<Rightarrow> tr_output res | None \<Rightarrow> []))],
                 ae_key = ''action:approved-executed:'' @ av_key r\<rparr>)) (\<lambda>_.
            answer (approved_outcome r ACTION_EXECUTED traced))
          else answer (approved_outcome r (if te_is_denied envelope then ACTION_DENIED else ACTION_FAILED) traced)))"

end
