(* ===== verification/Action_Approvals.thy ===== *)
theory Action_Approvals
  imports Action_Requests
begin

text \<open>
  The manager's decision on a parked action (\<open>app/services/action_approval_service.py\<close>):
  approving records an ALLOW made out to the action, issues a one-time grant for it and
  runs the tool through the invoker, all in one database transaction, and so does
  denying.  Reading an approval with its session's context is left out.  The execution
  context of the agent's own first attempt (\<open>app/workers/agent_tasks.py\<close>) stands here
  too, since both name the tools that may run.
\<close>

section \<open>Contexts\<close>

definition MANAGER_APPROVAL_NAMESPACE :: uuid where
  "MANAGER_APPROVAL_NAMESPACE = ''aa6e7001-0008-4008-8008-000000000008''"

definition action_tool_names :: "string list" where
  "action_tool_names = [''warranty.claim'', ''replacement.order'', ''refund.request'', ''warehouse.repair.report'']"

definition invoke_capability :: "string \<Rightarrow> agent_capability" where
  "invoke_capability name = \<lparr>cap_name = name, cap_scope = SCOPE_INVOKE, cap_description = [], cap_metadata = []\<rparr>"

definition action_capabilities :: capability_set where
  "action_capabilities = map invoke_capability
     [''tool.warranty.claim'', ''tool.replacement.order'', ''tool.refund.request'', ''tool.warehouse.repair'']"

definition action_constraints :: execution_constraints where
  "action_constraints = default_constraints\<lparr>xc_allowed_tools := action_tool_names\<rparr>"

record action_work_item =
  wi_execution_id :: string
  wi_tenant_id :: string
  wi_session_id :: string
  wi_dispatch_id :: string
  wi_attempt_id :: string

definition bad_execution_id :: error where
  "bad_execution_id = ValueError ''badly formed hexadecimal UUID string''"

definition action_execution_context :: "py_env \<Rightarrow> action_work_item \<Rightarrow> agent_context result" where
  "action_execution_context env item =
     (case uuid_parse env (wi_execution_id item) of
        None \<Rightarrow> Inl bad_execution_id
      | Some i \<Rightarrow> Inr
          \<lparr>cx_identity = \<lparr>ai_agent_id = ''diagnostic-action-orchestrator'',
             ai_runtime_instance_id = derive_agent_runtime_instance_id env [''diagnostic-action-orchestrator'']\<rparr>,
           cx_execution = \<lparr>ei_execution_id = i, ei_correlation_id = None, ei_parent_execution_id = None,
             ei_request_id = Some (''action-orchestration:'' @ wi_execution_id item)\<rparr>,
           cx_capabilities = action_capabilities, cx_constraints = action_constraints,
           cx_causality = root_causality\<lparr>cz_initiator := ''diagnostic_agent'',
             cz_cause := ''resolution_send_eligible_action_tools''\<rparr>,
           cx_tenant_id = Some (wi_tenant_id item), cx_authority = None,
           cx_metadata = [(''session_id'', PStr (wi_session_id item)), (''dispatch_id'', PStr (wi_dispatch_id item)),
             (''attempt_id'', PStr (wi_attempt_id item))]\<rparr>)"

definition execution_actor_for_approval :: "action_approval \<Rightarrow> string" where
  "execution_actor_for_approval r =
     (case metadata_str (av_metadata r) ''agent_action_actor'' of
        Some a \<Rightarrow> a | None \<Rightarrow> ''agent:manager-action-approval'')"

definition agent_id_for_execution_actor :: "string \<Rightarrow> string" where
  "agent_id_for_execution_actor actor =
     (if take 6 actor = ''agent:'' \<and> length actor > 6 then drop 6 actor else ''manager-action-approval'')"

definition execution_uuid :: "py_env \<Rightarrow> action_approval \<Rightarrow> uuid result" where
  "execution_uuid env r =
     (case av_execution_id r of
        Some i \<Rightarrow> (case uuid_parse env i of Some u \<Rightarrow> Inr u | None \<Rightarrow> Inl bad_execution_id)
      | None \<Rightarrow> Inr (uuid5 env MANAGER_APPROVAL_NAMESPACE
          (''execution|'' @ av_tenant_id r @ ''|'' @ av_approval_id r)))"

definition execution_context_for_approval :: "py_env \<Rightarrow> action_approval \<Rightarrow> string \<Rightarrow> agent_context result" where
  "execution_context_for_approval env r approved_by =
     (let actor = execution_actor_for_approval r; agent_id = agent_id_for_execution_actor actor
      in bind_result (execution_uuid env r) (\<lambda>i. Inr
          \<lparr>cx_identity = \<lparr>ai_agent_id = agent_id,
             ai_runtime_instance_id = derive_agent_runtime_instance_id env [agent_id]\<rparr>,
           cx_execution = \<lparr>ei_execution_id = i, ei_correlation_id = None, ei_parent_execution_id = None,
             ei_request_id = Some (''manager-action-approval:'' @ av_approval_id r)\<rparr>,
           cx_capabilities = action_capabilities, cx_constraints = action_constraints,
           cx_causality = root_causality\<lparr>cz_initiator := approved_by, cz_cause := ''manager_action_approval'',
             cz_metadata := [(''approval_id'', PStr (av_approval_id r))]\<rparr>,
           cx_tenant_id = Some (av_tenant_id r), cx_authority = None,
           cx_metadata = [(''session_id'', PStr (av_session_id r)), (''approval_id'', PStr (av_approval_id r)),
             (''approved_by'', PStr approved_by), (''agent_action_actor'', PStr actor)]\<rparr>))"

section \<open>Reading approvals\<close>

definition approval_error :: "string \<Rightarrow> string \<Rightarrow> error" where
  "approval_error cls m = AgentError cls m"

definition assert_approval_tenant :: "string \<Rightarrow> string \<Rightarrow> (unit, 'w) call" where
  "assert_approval_tenant tenant expected =
     check (tenant = expected) (approval_error ''ActionApprovalNotFoundError'' ''approval is tenant-invisible'')"

definition list_by_status ::
  "string option \<Rightarrow> string \<Rightarrow> string \<Rightarrow> int \<Rightarrow> int \<Rightarrow> (action_approval list, 'x action_world) call" where
  "list_by_status status tenant expected limit offset =
     and_then (assert_approval_tenant tenant expected) (\<lambda>_.
     reading (\<lambda>w. Inr (list_approvals (nw_approvals w) expected status limit offset)))"

definition list_pending :: "string \<Rightarrow> string \<Rightarrow> int \<Rightarrow> int \<Rightarrow> (action_approval list, 'x action_world) call" where
  "list_pending tenant expected limit offset = list_by_status (Some ''pending'') tenant expected limit offset"

definition require_pending :: "uuid \<Rightarrow> string \<Rightarrow> (action_approval, 'x action_world) call" where
  "require_pending i expected =
     reading (\<lambda>w. case get_approval (nw_approvals w) i expected of
        None \<Rightarrow> Inl (approval_error ''ActionApprovalNotFoundError'' (''unknown action approval: '' @ i))
      | Some r \<Rightarrow>
          if av_status r \<noteq> ''pending'' then
            Inl (approval_error ''ActionApprovalLifecycleError'' ''only pending action approvals can be resolved'')
          else Inr r)"

text \<open>\<open>_source_decision\<close> with \<open>require_present\<close>.\<close>

definition source_decision :: "action_approval \<Rightarrow> string \<Rightarrow> (decision_record, 'x action_world) call" where
  "source_decision r expected =
     reading (\<lambda>w. case av_decision_id r of
        None \<Rightarrow> Inl (approval_error ''ActionApprovalRuntimeError'' ''approval has no source governance decision'')
      | Some i \<Rightarrow>
     (case get_decision (nw_governance w) i (Some expected) of
        None \<Rightarrow> Inl (approval_error ''ActionApprovalRuntimeError''
                 ''source governance decision is absent or tenant-invisible'')
      | Some d \<Rightarrow> Inr d))"

definition with_resolution_metadata :: "action_approval \<Rightarrow> string \<Rightarrow> (action_approval, 'x action_world) call" where
  "with_resolution_metadata r expected =
     reading (\<lambda>w. Inr (case Option.bind (metadata_str (av_metadata r) ''proposal_id'')
           (\<lambda>i. get_proposal (nw_resolution w) i expected) of
        None \<Rightarrow> r
      | Some p \<Rightarrow> r\<lparr>av_metadata := dmerge (av_metadata r)
          [(''proposal_id'', PStr (rp_proposal_id p)), (''dispatch_id'', PStr (rp_dispatch_id p)),
           (''diagnostic_confidence'', PFloat (rp_confidence p)), (''resolution_category'', PStr (rp_category p))]\<rparr>))"

section \<open>The manager's decision\<close>

definition manager_decision_id :: "py_env \<Rightarrow> action_approval \<Rightarrow> decision_record \<Rightarrow> uuid" where
  "manager_decision_id env r source =
     uuid5 env MANAGER_APPROVAL_NAMESPACE (av_tenant_id r @ ''|'' @ av_approval_id r @ ''|'' @ dr_decision_id source)"

definition approval_binding :: "py_env \<Rightarrow> action_approval \<Rightarrow> string" where
  "approval_binding env r =
     compute_agent_action_binding env (Some (av_tenant_id r)) (av_tool_name r) (execution_actor_for_approval r) (av_payload r)"

definition manager_subject :: "action_approval \<Rightarrow> decision_record \<Rightarrow> string \<Rightarrow> metadata" where
  "manager_subject r source approved_by =
     [(''kind'', PStr ''manager_approval''), (''subject_kind'', PStr ''manager_approval''), (''tool_name'', PStr (av_tool_name r)),
      (''action_approval_id'', PStr (av_approval_id r)),
      (''original_governance_decision_id'', PStr (dr_decision_id source)), (''approved_by'', PStr approved_by),
      (''session_id'', PStr (av_session_id r)), (''tenant_id'', PStr (av_tenant_id r)),
      (''metadata'', PDict [(''idempotency_key'', PStr (av_key r)), (''payload'', PDict (av_payload r))])]"

definition manager_decision_metadata ::
  "py_env \<Rightarrow> action_approval \<Rightarrow> decision_record \<Rightarrow> string \<Rightarrow> string option \<Rightarrow> metadata" where
  "manager_decision_metadata env r source approved_by note =
     [(''override_authority'', PStr ''human_manager''), (''override'', PBool True),
      (''action_approval_id'', PStr (av_approval_id r)), (''tool_name'', PStr (av_tool_name r)),
      (''agent_action_actor'', PStr (execution_actor_for_approval r)),
      (''agent_action_binding'', PStr (approval_binding env r)), (''idempotency_key'', PStr (av_key r)),
      (''source_governance_decision_id'', PStr (dr_decision_id source)),
      (''original_governance_decision_id'', PStr (dr_decision_id source)),
      (''source_decision'', PStr (dr_decision source)), (''source_policy_chain_id'', PStr (dr_policy_chain_id source)),
      (''session_id'', PStr (av_session_id r)), (''approved_by'', PStr approved_by),
      (''resolution'', PStr ''manager_approved''), (''tenant_authority_source'', PStr ''human_manager''),
      (''subject'', PDict (manager_subject r source approved_by))] @
     (case note of None \<Rightarrow> [] | Some n \<Rightarrow> [(''note'', PStr n)])"

definition source_stage :: "decision_record \<Rightarrow> string" where
  "source_stage source = (if dr_stage source = [] then stage_value PRE_EXECUTION else dr_stage source)"

definition manager_decision ::
  "py_env \<Rightarrow> int \<Rightarrow> action_approval \<Rightarrow> decision_record \<Rightarrow> string \<Rightarrow> string option \<Rightarrow> decision_record" where
  "manager_decision env now r source approved_by note =
     (let md = manager_decision_metadata env r source approved_by note
      in \<lparr>dr_decision_id = manager_decision_id env r source, dr_decision = decision_value ALLOW,
          dr_stage = source_stage source, dr_policy_chain_id = ''manager.action_approval.v1'',
          dr_reason = ''manager_approved'', dr_decided_at = isoformat env now,
          dr_correlation_id = dr_correlation_id source, dr_request_id = dr_request_id source,
          dr_tenant_id = Some (av_tenant_id r), dr_subject_kind = ''manager_approval'',
          dr_governance_version = ''pr_rt7.manager_approval.v1'', dr_violations = [], dr_restrictions = [],
          dr_evaluated_rules =
            [\<lparr>er_policy_name = ''manager.action_approval'', er_rule_id = ''manager_approved'',
              er_decision = decision_value ALLOW, er_severity = 10, er_reason = ''manager_approved'',
              er_evaluated_at = isoformat env now, er_metadata = md,
              er_policy_version = ''pr_rt7.manager_approval.v1''\<rparr>],
          dr_metadata = md\<rparr>)"

definition manager_trace :: "action_approval \<Rightarrow> decision_record \<Rightarrow> string \<Rightarrow> governance_trace" where
  "manager_trace r d approved_by =
     \<lparr>gt_decision_id = dr_decision_id d, gt_request_id = dr_request_id d, gt_stage = dr_stage d,
      gt_action = ''action_approval:approve'', gt_resource = ''action_approval:'' @ av_approval_id r,
      gt_actor = approved_by, gt_tenant_id = dr_tenant_id d, gt_status = ''ok'', gt_final_decision = ALLOW,
      gt_policy_chain_id = dr_policy_chain_id d, gt_policy_traces = [], gt_rule_count = 1, gt_violation_count = 0,
      gt_restriction_count = 0, gt_subject_kind = dr_subject_kind d, gt_correlation_id = dr_correlation_id d,
      gt_enforcement_handler = Some ''manager_approval'', gt_enforcement_status = Some ''applied'',
      gt_error = None, gt_metadata = dr_metadata d\<rparr>"

definition manager_enforcement :: "py_env \<Rightarrow> action_approval \<Rightarrow> decision_record \<Rightarrow> enforcement_action" where
  "manager_enforcement env r d =
     \<lparr>ac_action_id = uuid5 env MANAGER_APPROVAL_NAMESPACE (''action|'' @ av_tenant_id r @ ''|'' @ av_approval_id r),
      ac_handler_name = ''manager_approval'', ac_decision_id = dr_decision_id d, ac_outcome = outcome_value APPLIED,
      ac_detail = ''manager_approved'', ac_metadata = dr_metadata d\<rparr>"

definition on_decisions :: "(governance_store \<Rightarrow> 'a result \<times> governance_store) \<Rightarrow> ('a, 'x action_world) call" where
  "on_decisions f w = (case f (nw_governance w) of (r, g) \<Rightarrow> (r, w\<lparr>nw_governance := g\<rparr>))"

definition issue_manager_action_grant ::
  "py_env \<Rightarrow> action_approval \<Rightarrow> uuid \<Rightarrow> int \<Rightarrow> (action_grant, 'x action_world) call" where
  "issue_manager_action_grant env r decision_id issued_at w =
     (case issue_grant env (nw_grants w) (av_tenant_id r) decision_id (av_tool_name r) ''agent.tool_invocation''
             (execution_actor_for_approval r) (compute_agent_action_payload_hash env (av_payload r))
             (approval_binding env r) issued_at None
             [(''source'', PStr ''manager_approval''), (''action_approval_id'', PStr (av_approval_id r)),
              (''tool_name'', PStr (av_tool_name r))] of
        (g, t) \<Rightarrow> (g, w\<lparr>nw_grants := t\<rparr>))"

text \<open>A decision recorded by an earlier attempt is reused, with its time.\<close>

definition record_manager_approval_decision ::
  "py_env \<Rightarrow> int \<Rightarrow> action_approval \<Rightarrow> decision_record \<Rightarrow> string \<Rightarrow> string option \<Rightarrow> (uuid, 'x action_world) call" where
  "record_manager_approval_decision env now r source approved_by note =
     (let i = manager_decision_id env r source; d = manager_decision env now r source approved_by note
      in and_then (reading (\<lambda>w. Inr (get_decision (nw_governance w) i (Some (av_tenant_id r))))) (\<lambda>found.
         case found of
           Some old \<Rightarrow>
             (case fromisoformat env (dr_decided_at old) of
                None \<Rightarrow> lifted (Inl (ValueError ''Invalid isoformat string''))
              | Some t \<Rightarrow> and_then (issue_manager_action_grant env r i (instant t)) (\<lambda>_. answer i))
         | None \<Rightarrow>
             and_then (on_decisions (\<lambda>g. record_decision env g d)) (\<lambda>_.
             and_then (on_decisions (\<lambda>g. record_trace env g (manager_trace r d approved_by))) (\<lambda>_.
             and_then (on_decisions (\<lambda>g. (Inr (), record_enforcement_action g (manager_enforcement env r d)))) (\<lambda>_.
             and_then (issue_manager_action_grant env r i now) (\<lambda>_. answer i))))))"

section \<open>Approving and denying\<close>

definition complete_bound_case :: "'x action_ports \<Rightarrow> action_approval \<Rightarrow> (unit, 'x action_world) call" where
  "complete_bound_case pt r =
     (case (np_complete_case pt, av_resolved_at r, av_resolved_by r) of
        (Some complete, Some at, Some actor) \<Rightarrow>
          on_outside (complete (av_approval_id r) (av_tenant_id r) (av_status r) actor at
            (case av_note r of None \<Rightarrow> [] | Some n \<Rightarrow> n))
      | _ \<Rightarrow> answer ())"

definition action_status_value :: "action_status \<Rightarrow> string" where
  "action_status_value s = (case s of ACTION_EXECUTED \<Rightarrow> ''executed'' | ACTION_PENDING_APPROVAL \<Rightarrow> ''pending_approval''
     | ACTION_DENIED \<Rightarrow> ''denied'' | ACTION_FAILED \<Rightarrow> ''error'')"

definition already_resolved :: error where
  "already_resolved = approval_error ''ActionApprovalLifecycleError''
     ''action approval was already resolved by a concurrent request; only one resolution is accepted''"

definition settle_approval ::
  "int \<Rightarrow> action_approval \<Rightarrow> string \<Rightarrow> string \<Rightarrow> string \<Rightarrow> string option \<Rightarrow> metadata
     \<Rightarrow> (action_approval, 'x action_world) call" where
  "settle_approval now r expected status actor note extra =
     on_approvals (\<lambda>t. case resolve_approval t (av_approval_id r) expected status now actor note
             (dmerge (av_metadata r) extra) of
        (None, t') \<Rightarrow> (Inl already_resolved, t')
      | (Some v, t') \<Rightarrow> (Inr v, t'))"

definition approve_in_transaction ::
  "py_env \<Rightarrow> 'x action_ports \<Rightarrow> int \<Rightarrow> uuid \<Rightarrow> string \<Rightarrow> string option \<Rightarrow> string \<Rightarrow> string
     \<Rightarrow> (action_approval, 'x action_world) call" where
  "approve_in_transaction env pt now i approved_by note tenant expected =
     and_then (assert_approval_tenant tenant expected) (\<lambda>_.
     and_then (require_pending i expected) (\<lambda>r.
     and_then (check (av_proposed_by r \<noteq> Some approved_by)
         (approval_error ''ActionApprovalSeparationError'' ''action approver must differ from proposer'')) (\<lambda>_.
     and_then (source_decision r expected) (\<lambda>source.
     and_then (with_resolution_metadata r expected) (\<lambda>e.
     and_then (record_manager_approval_decision env now e source approved_by note) (\<lambda>d.
     and_then (lifted (execution_context_for_approval env e approved_by)) (\<lambda>context.
     and_then (re_invoke_approved_action env pt now e d context expected) (\<lambda>oc.
     and_then (check (oc_status oc = ACTION_EXECUTED)
         (approval_error ''ActionApprovalRuntimeError''
           (''approved action did not execute: '' @ action_status_value (oc_status oc)))) (\<lambda>_.
     and_then (settle_approval now e expected ''approved'' approved_by note
         [(''manager_governance_decision_id'', PStr d), (''approved_by'', PStr approved_by)]) (\<lambda>v.
     and_then (complete_bound_case pt v) (\<lambda>_.
     answer v)))))))))))"

definition append_denied_event ::
  "'x action_ports \<Rightarrow> int \<Rightarrow> action_approval \<Rightarrow> string \<Rightarrow> string \<Rightarrow> (unit, 'x action_world) call" where
  "append_denied_event pt now r denied_by reason =
     on_outside (np_timeline pt now
       \<lparr>ae_session_id = av_session_id r, ae_dispatch_id = approved_dispatch r, ae_tenant_id = av_tenant_id r,
        ae_event_type = ''action_denied'',
        ae_payload = [(''approval_id'', PStr (av_approval_id r)), (''tool_name'', PStr (av_tool_name r)),
          (''action_type'', opt_pstr (metadata_str (av_metadata r) ''action_type'')),
          (''idempotency_key'', PStr (av_key r)), (''governance_decision_id'', opt_pstr (av_decision_id r)),
          (''governance_decision'', PStr (decision_value REQUIRE_APPROVAL)), (''reason'', PStr reason),
          (''denied_by'', PStr denied_by)],
        ae_key = ''action:denied:'' @ av_key r\<rparr>)"

definition deny_in_transaction ::
  "'x action_ports \<Rightarrow> int \<Rightarrow> uuid \<Rightarrow> string \<Rightarrow> string \<Rightarrow> string \<Rightarrow> string
     \<Rightarrow> (action_approval, 'x action_world) call" where
  "deny_in_transaction pt now i denied_by reason tenant expected =
     and_then (assert_approval_tenant tenant expected) (\<lambda>_.
     and_then (check (py_strip reason \<noteq> [])
         (approval_error ''ActionApprovalRuntimeError'' ''denial reason is required'')) (\<lambda>_.
     and_then (require_pending i expected) (\<lambda>r.
     and_then (check (av_proposed_by r \<noteq> Some denied_by)
         (approval_error ''ActionApprovalSeparationError'' ''action denier must differ from proposer'')) (\<lambda>_.
     and_then (with_resolution_metadata r expected) (\<lambda>e.
     and_then (settle_approval now e expected ''denied'' denied_by (Some (py_strip reason))
         [(''denied_by'', PStr denied_by)]) (\<lambda>v.
     and_then (append_denied_event pt now e denied_by (py_strip reason)) (\<lambda>_.
     and_then (complete_bound_case pt v) (\<lambda>_.
     answer v))))))))"

text \<open>\<open>try: ...; commit(); flush() except: rollback(); raise\<close>: an error restores the tables,
  but not what the tools did; an error of the flush comes after the commit.\<close>

definition undone :: "'x action_ports \<Rightarrow> 'x action_world \<Rightarrow> 'x action_world \<Rightarrow> 'x action_world" where
  "undone pt w w' = w\<lparr>nw_effects := nw_effects w', nw_rest := np_undo pt (nw_rest w) (nw_rest w')\<rparr>"

definition in_transaction :: "'x action_ports \<Rightarrow> ('a, 'x action_world) call \<Rightarrow> ('a, 'x action_world) call" where
  "in_transaction pt body w =
     (case body w of (Inl e, w') \<Rightarrow> (Inl e, undone pt w w') | (Inr v, w') \<Rightarrow> (Inr v, w'))"

definition flush_after_commit :: "'x action_ports \<Rightarrow> (unit, 'x action_world) call" where
  "flush_after_commit pt = (case np_flush pt of None \<Rightarrow> answer () | Some flush \<Rightarrow> on_outside flush)"

definition approve_action ::
  "py_env \<Rightarrow> 'x action_ports \<Rightarrow> int \<Rightarrow> uuid \<Rightarrow> string \<Rightarrow> string option \<Rightarrow> string \<Rightarrow> string
     \<Rightarrow> (action_approval, 'x action_world) call" where
  "approve_action env pt now i approved_by note tenant expected =
     and_then (in_transaction pt (approve_in_transaction env pt now i approved_by note tenant expected)) (\<lambda>v.
     and_then (flush_after_commit pt) (\<lambda>_. answer v))"

definition deny_action_approval ::
  "'x action_ports \<Rightarrow> int \<Rightarrow> uuid \<Rightarrow> string \<Rightarrow> string \<Rightarrow> string \<Rightarrow> string
     \<Rightarrow> (action_approval, 'x action_world) call" where
  "deny_action_approval pt now i denied_by reason tenant expected =
     in_transaction pt (deny_in_transaction pt now i denied_by reason tenant expected)"

end
