(* ===== verification/Connectors.thy ===== *)
theory Connectors
  imports Tool_Invoker
begin

text \<open>
  The tools behind the invoker (\<open>app/agents/tools/connectors\<close>, \<open>tools/actions\<close>): the tenant's
  connector configurations, requests built from a payload and answers read back
  (\<open>config.py\<close>, \<open>base.py\<close>, \<open>refund.py\<close>), the generic connector (\<open>generic.py\<close>), the
  fail-closed tool, and the registry built from the configurations
  (\<open>actions/__init__.py\<close>).  Credentials, the check of the URL, the provider and
  Python's format strings are ports.
\<close>

section \<open>Configurations\<close>

record connector_config =
  cg_tenant_id :: string
  cg_connector_type :: string
  cg_tool_name :: string
  cg_http_method :: string
  cg_endpoint_template :: string
  cg_endpoint_host :: string
  cg_field_mappings :: metadata
  cg_header :: string
  cg_response_parse :: metadata
  cg_success_codes :: "int list"
  cg_status :: string

type_synonym config_store = "(string \<times> string, connector_config) dict"

definition get_active_config :: "config_store \<Rightarrow> string \<Rightarrow> string \<Rightarrow> string \<Rightarrow> connector_config option" where
  "get_active_config s tenant_id tool_name expected =
     (if tenant_id \<noteq> expected then None
      else case dget s (tenant_id, tool_name) of
        None \<Rightarrow> None
      | Some r \<Rightarrow> if cg_status r \<noteq> ''active'' then None else Some r)"

definition save_config :: "config_store \<Rightarrow> connector_config \<Rightarrow> string \<Rightarrow> unit result \<times> config_store" where
  "save_config s r expected =
     (if cg_tenant_id r \<noteq> expected then (Inl (ValueError ''connector config tenant does not match expected tenant''), s)
      else (Inr (), dset (cg_tenant_id r, cg_tool_name r) r s))"

definition list_active_for_tenant :: "config_store \<Rightarrow> string \<Rightarrow> string \<Rightarrow> connector_config list" where
  "list_active_for_tenant s tenant_id expected =
     (if tenant_id \<noteq> expected then []
      else map snd (filter (\<lambda>((t, _), r). t = tenant_id \<and> cg_status r = ''active'') s))"

section \<open>Requests and answers\<close>

text \<open>\<open>path.split(".")\<close>.\<close>

fun split_dots :: "string \<Rightarrow> string list" where
  "split_dots [] = [[]]"
| "split_dots (c # cs) =
     (if c = CHR ''.'' then [] # split_dots cs
      else case split_dots cs of p # ps \<Rightarrow> (c # p) # ps | [] \<Rightarrow> [[c]])"

fun value_along :: "pyval \<Rightarrow> string list \<Rightarrow> pyval" where
  "value_along v [] = v"
| "value_along (PDict d) (p # ps) = (let v = get_or_none d p in if v = PNone then PNone else value_along v ps)"
| "value_along _ (p # ps) = PNone"

definition value_at :: "metadata \<Rightarrow> string \<Rightarrow> pyval" where
  "value_at d path = value_along (PDict d) (split_dots path)"

definition has_prefix :: "string \<Rightarrow> string \<Rightarrow> bool" where
  "has_prefix p s \<longleftrightarrow> take (length p) s = p"

definition mapping_text :: "metadata \<Rightarrow> string \<Rightarrow> pyval" where
  "mapping_text payload s =
     (if has_prefix ''literal:'' s then PStr (drop 8 s)
      else value_at payload (if has_prefix ''payload.'' s then drop 8 s else s))"

fun mapping_value :: "metadata \<Rightarrow> pyval \<Rightarrow> pyval" where
  "mapping_value payload (PDict d) =
     (case dget d ''source'' of
        Some (PStr s) \<Rightarrow> mapping_text payload s
      | _ \<Rightarrow> get_or_none d ''literal'')"
| "mapping_value payload (PStr s) = mapping_text payload s"
| "mapping_value payload v = v"

definition mapped_body :: "metadata \<Rightarrow> metadata \<Rightarrow> metadata" where
  "mapped_body payload mappings =
     (if mappings = [] then payload
      else filter (\<lambda>(k, v). v \<noteq> PNone) (map (\<lambda>(k, source). (k, mapping_value payload source)) mappings))"

record provider_fields =
  pf_id :: "string option"
  pf_status :: "string option"
  pf_error :: "string option"

record http_request =
  hq_method :: string
  hq_url :: string
  hq_pinned_ip :: string
  hq_body :: metadata
  hq_headers :: "(string, string) dict"

text \<open>\<open>hr_json\<close> is what \<open>response.json()\<close> returns or raises.\<close>

record http_response =
  hr_status :: int
  hr_json :: "pyval result"

record 'x connector_ports =
  kp_credentials :: "string \<Rightarrow> string \<Rightarrow> metadata result"
    \<comment> \<open>of a tenant, for a connector\<close>
  kp_channel_credentials :: "string \<Rightarrow> string \<Rightarrow> metadata result"
    \<comment> \<open>of a tenant, for a channel type\<close>
  kp_validate :: "string \<Rightarrow> string \<Rightarrow> (string \<times> string) result"
    \<comment> \<open>the URL and the only host allowed to the validated URL and its pinned address\<close>
  kp_send :: "http_request \<Rightarrow> 'x \<Rightarrow> http_response result \<times> 'x"
  kp_fields :: "string \<Rightarrow> string list result"
    \<comment> \<open>the field names \<open>string.Formatter().parse\<close> finds\<close>
  kp_format :: "string \<Rightarrow> (string, string) dict \<Rightarrow> string result"
    \<comment> \<open>\<open>str.format\<close> with keyword arguments\<close>

definition render_endpoint :: "py_env \<Rightarrow> 'x connector_ports \<Rightarrow> string \<Rightarrow> metadata \<Rightarrow> string result" where
  "render_endpoint env pt template payload =
     bind_result (kp_fields pt template) (\<lambda>names.
     kp_format pt template
       (fold (\<lambda>n d. dset n (if truthy (value_at payload n) then py_str env (value_at payload n) else []) d) names []))"

definition parse_response_path :: "connector_config \<Rightarrow> string \<Rightarrow> string option" where
  "parse_response_path cfg key = metadata_str (cg_response_parse cfg) key"

text \<open>A body that is not a JSON object counts as empty.\<close>

definition response_json :: "http_response \<Rightarrow> metadata result" where
  "response_json r =
     (case hr_json r of
        Inl (ValueError _) \<Rightarrow> Inr []
      | Inl e \<Rightarrow> Inl e
      | Inr (PDict d) \<Rightarrow> Inr d
      | Inr _ \<Rightarrow> Inr [])"

definition text_at :: "py_env \<Rightarrow> metadata \<Rightarrow> string option \<Rightarrow> string option" where
  "text_at env body path =
     (case path of
        None \<Rightarrow> None
      | Some p \<Rightarrow>
          let v = value_at body p
          in case stripped_text v of
               Some s \<Rightarrow> Some s
             | None \<Rightarrow> if v = PNone then None else Some (py_str env v))"

text \<open>What reading an answer comes to: the fields, a refusal by status code with the
  fields, or another exception.\<close>

datatype parsed_response = Accepted provider_fields | Refused int provider_fields | Unreadable error

definition parse_generic_rest_response :: "py_env \<Rightarrow> connector_config \<Rightarrow> http_response \<Rightarrow> parsed_response" where
  "parse_generic_rest_response env cfg r =
     (case response_json r of
        Inl e \<Rightarrow> Unreadable e
      | Inr body \<Rightarrow>
          let fields = \<lparr>pf_id = text_at env body (parse_response_path cfg ''provider_id''),
                pf_status = text_at env body (parse_response_path cfg ''provider_status''),
                pf_error = text_at env body (parse_response_path cfg ''provider_error'')\<rparr>
          in if hr_status r \<notin> set (cg_success_codes cfg) then Refused (hr_status r) fields else Accepted fields)"

definition auth_headers :: "metadata \<Rightarrow> (string, string) dict" where
  "auth_headers credentials =
     (case or_else (metadata_str credentials ''auth_header'') (metadata_str credentials ''authorization'') of
        Some h \<Rightarrow> [(''Authorization'', h)]
      | None \<Rightarrow>
     (case or_else (metadata_str credentials ''bearer_token'') (metadata_str credentials ''access_token'') of
        Some t \<Rightarrow> [(''Authorization'', ''Bearer '' @ t)]
      | None \<Rightarrow>
     (case metadata_str credentials ''api_key'' of
        Some k \<Rightarrow> [(''X-API-Key'', k)]
      | None \<Rightarrow> [])))"

definition error_result :: "string \<Rightarrow> string \<Rightarrow> string option \<Rightarrow> tool_result" where
  "error_result code message key =
     \<lparr>tr_output = [(''status'', PStr ''error''), (''error_code'', PStr code)], tr_metadata = [], tr_status = Some ''error'',
      tr_error_code = Some code, tr_error_message = Some message, tr_idempotency_key = key\<rparr>"

definition provider_error_result :: "provider_fields \<Rightarrow> string \<Rightarrow> string \<Rightarrow> tool_result" where
  "provider_error_result f message key =
     \<lparr>tr_output = [(''status'', PStr ''error''), (''provider_id'', opt_pstr (pf_id f)),
        (''provider_status'', opt_pstr (pf_status f)),
        (''provider_error'', PStr (case pf_error f of Some (x # xs) \<Rightarrow> x # xs | _ \<Rightarrow> message))],
      tr_metadata = [], tr_status = Some ''error'', tr_error_code = Some ''provider_error'', tr_error_message = Some message,
      tr_idempotency_key = Some key\<rparr>"

definition success_result :: "provider_fields \<Rightarrow> string option \<Rightarrow> tool_result" where
  "success_result f key =
     \<lparr>tr_output = [(''status'', PStr ''success''), (''provider_id'', opt_pstr (pf_id f)),
        (''provider_status'', PStr (case pf_status f of Some (x # xs) \<Rightarrow> x # xs | _ \<Rightarrow> ''success''))],
      tr_metadata = [], tr_status = Some ''success'', tr_error_code = None, tr_error_message = None,
      tr_idempotency_key = key\<rparr>"

definition raised :: "error \<Rightarrow> tool_outcome" where
  "raised e = Tool_Raised (fst (error_text e)) (snd (error_text e))"

definition class_of :: "error \<Rightarrow> string" where
  "class_of e = fst (error_text e)"

text \<open>From the answer to the result, as every connector does it.\<close>

definition provider_result :: "parsed_response \<Rightarrow> py_env \<Rightarrow> string option \<Rightarrow> tool_result" where
  "provider_result p env key =
     (case p of
        Accepted f \<Rightarrow> success_result f key
      | Refused code f \<Rightarrow>
          provider_error_result f (''http_status_'' @ py_str env (PInt code)) (case key of None \<Rightarrow> [] | Some k \<Rightarrow> k)
      | Unreadable e \<Rightarrow> error_result ''provider_response_parse_error'' (class_of e @ '': provider response parse error'') key)"

text \<open>The request on its way: the URL is checked against the configured host, then sent once.\<close>

definition exchange ::
  "py_env \<Rightarrow> 'x connector_ports \<Rightarrow> (http_response \<Rightarrow> parsed_response) \<Rightarrow> connector_config \<Rightarrow> string \<Rightarrow> metadata
     \<Rightarrow> (string, string) dict \<Rightarrow> string option \<Rightarrow> 'x \<Rightarrow> tool_outcome \<times> 'x" where
  "exchange env pt parse cfg url body headers key x =
     (case kp_validate pt url (str_lower env (cg_endpoint_host cfg)) of
        Inl e \<Rightarrow> (raised e, x)
      | Inr (validated, pinned) \<Rightarrow>
          (case kp_send pt \<lparr>hq_method = str_upper env (cg_http_method cfg), hq_url = validated, hq_pinned_ip = pinned,
                  hq_body = body, hq_headers = headers\<rparr> x of
             (Inl e, x') \<Rightarrow>
               (Tool_Returned (error_result ''provider_transport_error'' (class_of e @ '': provider transport error'') key), x')
           | (Inr r, x') \<Rightarrow> (Tool_Returned (provider_result (parse r) env key), x')))"

section \<open>The generic connector\<close>

text \<open>\<open>GenericConnectorTool\<close> with its connector and operation.\<close>

record generic_connector =
  gc_connector_id :: string
  gc_operation_id :: string
  gc_request_mapping :: metadata
  gc_keyed :: bool
  gc_commitment :: commitment_kind
  gc_approval :: approval_mode

definition connector_name :: "generic_connector \<Rightarrow> string" where
  "connector_name g = gc_connector_id g @ ''.'' @ gc_operation_id g"

text \<open>\<open>_build_request\<close>: what the operation maps, otherwise what the configuration maps.\<close>

definition operation_mappings :: "generic_connector \<Rightarrow> connector_config \<Rightarrow> metadata" where
  "operation_mappings g cfg = (if gc_request_mapping g \<noteq> [] then gc_request_mapping g else cg_field_mappings cfg)"

definition generic_headers ::
  "generic_connector \<Rightarrow> connector_config \<Rightarrow> metadata \<Rightarrow> string option \<Rightarrow> (string, string) dict" where
  "generic_headers g cfg credentials key =
     (let base = dset ''Content-Type'' ''application/json'' (auth_headers credentials)
      in case key of
           Some k \<Rightarrow> if gc_keyed g then dset (cg_header cfg) k base else base
         | None \<Rightarrow> base)"

definition provider_key_of :: "tool_request \<Rightarrow> string option" where
  "provider_key_of request = metadata_str (tq_metadata request) ''agent_action_provider_idempotency_key''"

definition generic_invoke ::
  "py_env \<Rightarrow> 'x connector_ports \<Rightarrow> config_store \<Rightarrow> generic_connector \<Rightarrow> tool_request \<Rightarrow> agent_context \<Rightarrow> 'x
     \<Rightarrow> tool_outcome \<times> 'x" where
  "generic_invoke env pt store g request context x =
     (case Option.bind (cx_tenant_id context) (\<lambda>t. stripped_text (PStr t)) of
        None \<Rightarrow> (Tool_Returned (error_result ''missing_tenant'' ''connector invocation requires tenant_id'' None), x)
      | Some tenant \<Rightarrow>
          let key = provider_key_of request
          in if gc_keyed g \<and> key = None then
               (Tool_Returned (error_result ''missing_provider_idempotency_key''
                  ''connector invocation requires provider idempotency key'' None), x)
             else case get_active_config store tenant (connector_name g) tenant of
               None \<Rightarrow>
                 (Tool_Returned (error_result ''connector_config_missing'' ''ConnectorConfigError: connector config missing'' key), x)
             | Some cfg \<Rightarrow>
            (case kp_credentials pt tenant (gc_connector_id g) of
               Inl e \<Rightarrow> (Tool_Returned (error_result ''credential_load_failed'' (class_of e @ '': credential load failed'') key), x)
             | Inr credentials \<Rightarrow>
            (case render_endpoint env pt (cg_endpoint_template cfg) (tq_payload request) of
               Inl e \<Rightarrow> (raised e, x)
             | Inr url \<Rightarrow> exchange env pt (parse_generic_rest_response env cfg) cfg url (mapped_body (tq_payload request) (operation_mappings g cfg))
                 (generic_headers g cfg credentials key) key x)))"

section \<open>The fail-closed tool\<close>

definition fail_closed_invoke :: "string \<Rightarrow> string \<Rightarrow> tool_outcome" where
  "fail_closed_invoke name reason =
     Tool_Returned \<lparr>tr_output = [(''status'', PStr ''error'')],
       tr_metadata = [(''tool'', PStr name), (''fail_closed'', PBool True)], tr_status = Some ''error'',
       tr_error_code = Some ''action_connector_not_configured'', tr_error_message = Some reason, tr_idempotency_key = None\<rparr>"

section \<open>The channel connectors\<close>

definition tenant_channel_types :: "string list" where
  "tenant_channel_types = [''email'', ''whatsapp'', ''shopify'', ''shulex'', ''lark'', ''zendesk'', ''voice'', ''jira'', ''linear'',
     ''oms'', ''operator_alert_email'']"

text \<open>\<open>ConnectorTool.invoke\<close> of \<open>base.py\<close>, whose subclasses all build the request from the
  template and the mappings of the configuration.\<close>

definition connector_tool_invoke ::
  "py_env \<Rightarrow> 'x connector_ports \<Rightarrow> (connector_config \<Rightarrow> http_response \<Rightarrow> parsed_response) \<Rightarrow> config_store \<Rightarrow> string
     \<Rightarrow> tool_request \<Rightarrow> agent_context \<Rightarrow> 'x \<Rightarrow> tool_outcome \<times> 'x" where
  "connector_tool_invoke env pt parse store name request context x =
     (case Option.bind (cx_tenant_id context) (\<lambda>t. stripped_text (PStr t)) of
        None \<Rightarrow> (Tool_Returned (error_result ''missing_tenant'' ''connector invocation requires tenant_id'' None), x)
      | Some tenant \<Rightarrow>
     (case provider_key_of request of
        None \<Rightarrow> (Tool_Returned (error_result ''missing_provider_idempotency_key''
                  ''connector invocation requires provider idempotency key'' None), x)
      | Some key \<Rightarrow>
     (case get_active_config store tenant name tenant of
        None \<Rightarrow> (Tool_Returned (error_result ''connector_config_missing'' ''ConnectorConfigError: connector config missing''
                  (Some key)), x)
      | Some cfg \<Rightarrow>
          if cg_connector_type cfg \<notin> set tenant_channel_types then
            (Tool_Returned (error_result ''invalid_connector_type''
               ''connector_type must map to a tenant channel type'' (Some key)), x)
          else case kp_channel_credentials pt tenant (cg_connector_type cfg) of
            Inl e \<Rightarrow> (Tool_Returned (error_result ''credential_load_failed'' (class_of e @ '': credential load failed'') (Some key)), x)
          | Inr credentials \<Rightarrow>
         (case render_endpoint env pt (cg_endpoint_template cfg) (tq_payload request) of
            Inl e \<Rightarrow> (raised e, x)
          | Inr url \<Rightarrow> exchange env pt (parse cfg) cfg url (mapped_body (tq_payload request) (cg_field_mappings cfg))
              (dset ''Content-Type'' ''application/json'' (dset (cg_header cfg) key (auth_headers credentials))) (Some key) x))))"

text \<open>The inventory connector reads availability instead of a status.\<close>

definition truthy_strings :: "string list" where
  "truthy_strings = [''true'', ''1'', ''yes'', ''in_stock'', ''available'']"

fun is_available :: "py_env \<Rightarrow> pyval \<Rightarrow> bool" where
  "is_available env (PBool b) = b"
| "is_available env (PStr s) = (str_lower env (py_strip s) \<in> set truthy_strings)"
| "is_available env (PInt n) = (n > 0)"
| "is_available env _ = False"

definition parse_inventory_response :: "py_env \<Rightarrow> connector_config \<Rightarrow> http_response \<Rightarrow> parsed_response" where
  "parse_inventory_response env cfg r =
     (case response_json r of
        Inl e \<Rightarrow> Unreadable e
      | Inr body \<Rightarrow>
          let available = (case parse_response_path cfg ''available'' of None \<Rightarrow> PNone | Some p \<Rightarrow> value_at body p);
              fields = \<lparr>pf_id = text_at env body (parse_response_path cfg ''provider_id''),
                pf_status = Some (if is_available env available then ''available'' else ''unavailable''),
                pf_error = text_at env body (parse_response_path cfg ''provider_error'')\<rparr>
          in if hr_status r \<notin> set (cg_success_codes cfg) then Refused (hr_status r) fields else Accepted fields)"

section \<open>The registry of a tenant\<close>

text \<open>Prefixes of connector types, in the order of the dictionary.\<close>

definition connector_type_commitment :: "(string \<times> commitment_kind \<times> approval_mode) list" where
  "connector_type_commitment =
     [(''money'', CK_MONEY, ALWAYS_REQUIRE_APPROVAL), (''goods'', CK_GOODS, ALWAYS_REQUIRE_APPROVAL), (''repair'', CK_GOODS, ALWAYS_REQUIRE_APPROVAL),
      (''record'', CK_RECORD_UPDATE, TENANT_POLICY), (''none'', CK_NONE, TENANT_POLICY), (''read'', CK_NONE, TENANT_POLICY)]"

definition commitment_from_connector_type :: "py_env \<Rightarrow> string \<Rightarrow> commitment_kind \<times> approval_mode" where
  "commitment_from_connector_type env connector_type =
     (case find (\<lambda>(p, _). has_prefix p (str_lower env connector_type)) connector_type_commitment of
        Some (_, v) \<Rightarrow> v
      | None \<Rightarrow> (CK_GOODS, ALWAYS_REQUIRE_APPROVAL))"

record mcp_declaration =
  md_server_id :: string
  md_tool_name :: string
  md_commitment :: commitment_kind
  md_execution :: execution_policy
  md_description :: string
  md_enabled :: bool

text \<open>What a registered tool does: the generic connector, the repair dispatch, or a tool of an
  MCP server.\<close>

datatype action_tool =
    Generic_Tool generic_connector
  | Repair_Dispatch_Tool
  | Mcp_Tool mcp_declaration

fun tool_of :: "action_tool \<Rightarrow> tool" where
  "tool_of (Generic_Tool g) = \<lparr>tl_name = connector_name g, tl_capability = Some ACTION, tl_required_capabilities = []\<rparr>"
| "tool_of Repair_Dispatch_Tool =
     \<lparr>tl_name = ''repair.dispatch'', tl_capability = Some ACTION, tl_required_capabilities = [''tool.repair.dispatch'']\<rparr>"
| "tool_of (Mcp_Tool m) =
     \<lparr>tl_name = md_server_id m @ ''.'' @ md_tool_name m, tl_capability = Some ACTION, tl_required_capabilities = []\<rparr>"

type_synonym action_registry = "(string, action_tool) dict"

definition register_action :: "py_env \<Rightarrow> action_registry \<Rightarrow> action_tool \<Rightarrow> action_registry result" where
  "register_action env reg a =
     bind_result (register_tool env (map (\<lambda>(n, b). (n, tool_of b)) reg) (tool_of a)) (\<lambda>_. Inr (dset (tl_name (tool_of a)) a reg))"

text \<open>\<open>tool_name.rfind(".")\<close>: what stands before and after the last dot.\<close>

definition split_last_dot :: "string \<Rightarrow> (string \<times> string) option" where
  "split_last_dot s =
     (if CHR ''.'' \<in> set s
      then Some (rev (drop 1 (dropWhile (\<lambda>c. c \<noteq> CHR ''.'') (rev s))), rev (takeWhile (\<lambda>c. c \<noteq> CHR ''.'') (rev s)))
      else None)"

definition generic_from_config :: "py_env \<Rightarrow> connector_config \<Rightarrow> generic_connector" where
  "generic_from_config env cfg =
     (let (kind, mode) = commitment_from_connector_type env (cg_connector_type cfg);
          (cid, oid) = (case split_last_dot (cg_tool_name cfg) of Some v \<Rightarrow> v | None \<Rightarrow> (cg_tool_name cfg, ''act''))
      in \<lparr>gc_connector_id = cid, gc_operation_id = oid, gc_request_mapping = cg_field_mappings cfg, gc_keyed = True,
          gc_commitment = kind, gc_approval = mode\<rparr>)"

definition connector_tool_from_config :: "py_env \<Rightarrow> bool \<Rightarrow> connector_config \<Rightarrow> action_tool" where
  "connector_tool_from_config env work_orders cfg =
     (if (has_prefix ''repair'' (str_lower env (cg_connector_type cfg)) \<or> has_prefix ''repair'' (str_lower env (cg_tool_name cfg))) \<and>
         work_orders
      then Repair_Dispatch_Tool
      else Generic_Tool (generic_from_config env cfg))"

section \<open>Tools of MCP servers\<close>

text \<open>\<open>dict(value or {})\<close> of a JSON value: a list passes when its elements are pairs with a
  hashable first component.\<close>

fun pair_like :: "pyval \<Rightarrow> bool" where
  "pair_like (PList [k, v]) = (case k of PList _ \<Rightarrow> False | PDict _ \<Rightarrow> False | _ \<Rightarrow> True)"
| "pair_like (PStr s) = (length s = 2)"
| "pair_like (PDict d) = (length d = 2)"
| "pair_like _ = False"

definition dict_accepts :: "pyval \<Rightarrow> bool" where
  "dict_accepts v \<longleftrightarrow> \<not> truthy v \<or> (case v of PDict _ \<Rightarrow> True | PList xs \<Rightarrow> list_all pair_like xs | _ \<Rightarrow> False)"

definition float_accepts :: "py_env \<Rightarrow> pyval \<Rightarrow> unit result" where
  "float_accepts env v =
     (case v of
        PFloat _ \<Rightarrow> Inr () | PBool _ \<Rightarrow> Inr ()
      | PInt n \<Rightarrow> (if float_of_int env n = None then Inl OverflowError else Inr ())
      | PStr s \<Rightarrow> (if float_of_str env s = None then Inl (ValueError ''could not convert string to float'') else Inr ())
      | _ \<Rightarrow> Inl (ExternalError ''TypeError'' ''float() argument must be a string or a real number''))"

definition get_or :: "metadata \<Rightarrow> string \<Rightarrow> pyval \<Rightarrow> pyval" where
  "get_or d k dflt = (case dget d k of None \<Rightarrow> dflt | Some v \<Rightarrow> v)"

text \<open>Unknown kinds count as goods, unknown policies as needing approval.  The snapshot of the
  input schema is only checked to be a mapping.\<close>

definition parse_mcp_tool :: "py_env \<Rightarrow> string \<Rightarrow> metadata \<Rightarrow> mcp_declaration result" where
  "parse_mcp_tool env server raw =
     (let kind = str_lower env (py_str env (get_or raw ''commitment_kind'' (PStr ''goods'')));
          policy = str_lower env (py_str env (get_or raw ''execution_policy'' (PStr ''operious_approval'')))
      in if \<not> dict_accepts (get_or_none raw ''input_schema_snapshot'') then
           Inl (ExternalError ''TypeError'' ''input_schema_snapshot is not a mapping'')
         else Inr
           \<lparr>md_server_id = server, md_tool_name = py_str env (get_or raw ''tool_name'' (PStr [])),
            md_commitment = (case find (\<lambda>k. commitment_value k = kind) all_commitment_kinds of Some k \<Rightarrow> k | None \<Rightarrow> CK_GOODS),
            md_execution = (if policy = ''auto_execute'' then AUTO_EXECUTE else OPERIOUS_APPROVAL),
            md_description = py_str env (get_or raw ''description_snapshot'' (PStr [])),
            md_enabled = truthy (get_or raw ''enabled'' (PBool True))\<rparr>)"

fun parse_mcp_tools :: "py_env \<Rightarrow> string \<Rightarrow> metadata list \<Rightarrow> mcp_declaration list result" where
  "parse_mcp_tools env server [] = Inr []"
| "parse_mcp_tools env server (raw # raws) =
     bind_result (parse_mcp_tool env server raw) (\<lambda>m.
     bind_result (parse_mcp_tools env server raws) (\<lambda>ms. Inr (m # ms)))"

definition MCP_MONEY_GOODS_TRIGGER_PATTERNS :: "string list" where
  "MCP_MONEY_GOODS_TRIGGER_PATTERNS = [''refund'', ''payment'', ''charge'', ''credit'', ''transfer'', ''send'', ''wire'', ''issue'',
     ''disburse'', ''reimburse'', ''pay'', ''debit'']"

definition has_money_goods_trigger :: "py_env \<Rightarrow> mcp_declaration \<Rightarrow> bool" where
  "has_money_goods_trigger env m \<longleftrightarrow>
     (\<exists>t\<in>set MCP_MONEY_GOODS_TRIGGER_PATTERNS. substring t (str_lower env (md_tool_name m @ '' '' @ md_description m)))"

text \<open>A tool that needs approval and looks like money or goods is not taken for less.\<close>

definition effective_commitment_kind :: "py_env \<Rightarrow> mcp_declaration \<Rightarrow> commitment_kind" where
  "effective_commitment_kind env m =
     (if md_execution m = AUTO_EXECUTE then md_commitment m
      else if md_commitment m \<in> {CK_NONE, CK_RECORD_UPDATE} \<and> has_money_goods_trigger env m then CK_GOODS
      else md_commitment m)"

fun dicts_of :: "pyval list \<Rightarrow> metadata list option" where
  "dicts_of [] = Some []"
| "dicts_of (PDict d # vs) = map_option ((#) d) (dicts_of vs)"
| "dicts_of (_ # vs) = None"

fun register_enabled :: "py_env \<Rightarrow> mcp_declaration list \<Rightarrow> action_registry \<Rightarrow> action_registry result" where
  "register_enabled env [] reg = Inr reg"
| "register_enabled env (m # ms) reg =
     (if \<not> md_enabled m \<or> dget reg (md_server_id m @ ''.'' @ md_tool_name m) \<noteq> None then register_enabled env ms reg
      else bind_result (register_action env reg (Mcp_Tool m)) (register_enabled env ms))"

text \<open>The declarations of a configuration: a non-empty list of objects, or nothing.\<close>

fun mcp_raw_tools :: "pyval \<Rightarrow> metadata list option" where
  "mcp_raw_tools (PList (v # vs)) = dicts_of (v # vs)"
| "mcp_raw_tools _ = None"

definition register_mcp_tools ::
  "py_env \<Rightarrow> bool \<Rightarrow> connector_config \<Rightarrow> action_registry \<Rightarrow> action_registry result" where
  "register_mcp_tools env credentials cfg reg =
     (if \<not> credentials then Inr reg
      else case mcp_raw_tools (get_or_none (cg_field_mappings cfg) ''mcp_tools'') of
        None \<Rightarrow> Inr reg
      | Some raws \<Rightarrow>
          bind_result (float_accepts env (get_or (cg_field_mappings cfg) ''timeout_seconds'' (PFloat 0x402E000000000000))) (\<lambda>_.
          bind_result (parse_mcp_tools env (cg_tool_name cfg) raws) (\<lambda>ms.
          register_enabled env ms reg)))"

text \<open>\<open>build_tenant_action_tool_registry\<close>: \<open>credentials\<close> and \<open>work_orders\<close> say whether the runtime
  of connector credentials and the repository of work orders are given.\<close>

definition mcp_config :: "py_env \<Rightarrow> connector_config \<Rightarrow> bool" where
  "mcp_config env cfg \<longleftrightarrow> str_lower env (cg_connector_type cfg) = ''mcp_server''"

fun register_configs :: "py_env \<Rightarrow> bool \<Rightarrow> bool \<Rightarrow> connector_config list \<Rightarrow> action_registry \<Rightarrow> action_registry result" where
  "register_configs env credentials work_orders [] reg = Inr reg"
| "register_configs env credentials work_orders (cfg # cfgs) reg =
     bind_result
       (if mcp_config env cfg then register_mcp_tools env credentials cfg reg
        else if dget reg (cg_tool_name cfg) \<noteq> None then Inr reg
        else register_action env reg (connector_tool_from_config env work_orders cfg))
       (register_configs env credentials work_orders cfgs)"

definition build_tenant_action_tool_registry ::
  "py_env \<Rightarrow> bool \<Rightarrow> bool \<Rightarrow> config_store \<Rightarrow> string \<Rightarrow> action_registry result" where
  "build_tenant_action_tool_registry env credentials work_orders store tenant_id =
     register_configs env credentials work_orders (list_active_for_tenant store tenant_id tenant_id) []"

end
