(* ===== verification/Connector_Promises.thy ===== *)
theory Connector_Promises
  imports Connectors
begin

text \<open>
  What a connector promises of one invocation: at most one request, to the checked address
  of the tenant's own configuration, under the provider key; when its result is a success;
  and which tools the registry of a tenant holds.
\<close>

section \<open>One invocation of a generic connector\<close>

text \<open>A result as the ledger reads it, success or failure.\<close>

definition reports_success :: "tool_outcome \<Rightarrow> bool" where
  "reports_success out \<longleftrightarrow> (case out of Tool_Returned r \<Rightarrow> tr_status r = Some ''success'' | Tool_Raised _ _ \<Rightarrow> False)"

lemma result_status [simp]:
  "tr_status (error_result code m key) = Some ''error''"
  "tr_status (provider_error_result f m k) = Some ''error''"
  "tr_status (success_result f key) = Some ''success''"
  by (simp_all add: error_result_def provider_error_result_def success_result_def)

lemma not_success [simp]:
  "\<not> reports_success (Tool_Returned (error_result code m key))"
  "\<not> reports_success (Tool_Returned (provider_error_result f m k))"
  "reports_success (Tool_Returned (success_result f key))"
  "\<not> reports_success (raised e)"
  by (simp_all add: reports_success_def raised_def)

text \<open>The provider answered with a configured success code and a readable body.\<close>

definition answered_ok :: "connector_config \<Rightarrow> http_response result \<Rightarrow> bool" where
  "answered_ok cfg answer \<longleftrightarrow>
     (case answer of Inl _ \<Rightarrow> False
      | Inr r \<Rightarrow> hr_status r \<in> set (cg_success_codes cfg) \<and> (\<exists>body. response_json r = Inr body))"

lemma provider_result_success:
  "reports_success (Tool_Returned (provider_result (parse_generic_rest_response env cfg r) env key)) \<longleftrightarrow> answered_ok cfg (Inr r)"
  by (auto simp: provider_result_def parse_generic_rest_response_def answered_ok_def Let_def split: sum.splits)

lemma exchange_exact:
  assumes "exchange env pt (parse_generic_rest_response env cfg) cfg url body headers key x = (out, x')"
  shows "(x' = x \<and> \<not> reports_success out) \<or>
    (\<exists>q pinned. kp_validate pt url (str_lower env (cg_endpoint_host cfg)) = Inr (hq_url q, pinned) \<and> hq_pinned_ip q = pinned \<and>
       hq_method q = str_upper env (cg_http_method cfg) \<and> hq_body q = body \<and> hq_headers q = headers \<and>
       x' = snd (kp_send pt q x) \<and> (reports_success out \<longleftrightarrow> answered_ok cfg (fst (kp_send pt q x))))"
proof (cases "kp_validate pt url (str_lower env (cg_endpoint_host cfg))")
  case (Inl e)
  with assms show ?thesis by (auto simp: exchange_def)
next
  case (Inr v)
  let ?q = "\<lparr>hq_method = str_upper env (cg_http_method cfg), hq_url = fst v, hq_pinned_ip = snd v, hq_body = body,
    hq_headers = headers\<rparr>"
  obtain answer y where answer: "kp_send pt ?q x = (answer, y)" by force
  have "x' = y \<and> (reports_success out \<longleftrightarrow> answered_ok cfg answer)"
    using assms Inr answer provider_result_success [of env cfg _ key]
    by (cases v; cases answer) (auto simp: exchange_def, auto simp: answered_ok_def)
  with Inr answer have "kp_validate pt url (str_lower env (cg_endpoint_host cfg)) = Inr (hq_url ?q, snd v) \<and> hq_pinned_ip ?q = snd v \<and>
       hq_method ?q = str_upper env (cg_http_method cfg) \<and> hq_body ?q = body \<and> hq_headers ?q = headers \<and>
       x' = snd (kp_send pt ?q x) \<and> (reports_success out \<longleftrightarrow> answered_ok cfg (fst (kp_send pt ?q x)))" by simp
  then show ?thesis by blast
qed

lemma generic_headers_keyed:
  "gc_keyed g \<Longrightarrow> dget (generic_headers g cfg credentials (Some key)) (cg_header cfg) = Some key"
  by (simp add: generic_headers_def Let_def)

lemma invoke_exchanges:
  assumes "generic_invoke env pt store g request context x = (out, x')"
  shows "(x' = x \<and> \<not> reports_success out) \<or>
    (\<exists>tenant cfg credentials url. Option.bind (cx_tenant_id context) (\<lambda>t. stripped_text (PStr t)) = Some tenant \<and>
       get_active_config store tenant (connector_name g) tenant = Some cfg \<and>
       (gc_keyed g \<longrightarrow> provider_key_of request \<noteq> None) \<and>
       render_endpoint env pt (cg_endpoint_template cfg) (tq_payload request) = Inr url \<and>
       exchange env pt (parse_generic_rest_response env cfg) cfg url (mapped_body (tq_payload request) (operation_mappings g cfg))
         (generic_headers g cfg credentials (provider_key_of request)) (provider_key_of request) x = (out, x'))"
  using assms
  by (auto simp: generic_invoke_def Let_def split: option.splits sum.splits if_splits
      simp del: stripped_text.simps bind_eq_Some_conv bind_eq_None_conv)

text \<open>(C19) A connector sends at most one request, and only as configured.  Either the rest of the
  world is as it was and the result is no success; or exactly one request was sent, built
  from the active configuration the tenant of the execution has for this very tool: it uses
  the configured method, its URL is the endpoint rendered from the payload as it came out of
  the check against the one host configured, pinned to the address that check found, its
  body is the payload through the mappings, and with a keyed operation the configured header carries the
  provider key of the invocation.  The result is a success exactly when the provider
  answered with one of the configured codes and a body that could be read.\<close>

theorem connector_call_exact:
  assumes "generic_invoke env pt store g request context x = (out, x')"
  shows "(x' = x \<and> \<not> reports_success out) \<or>
    (\<exists>tenant cfg q url pinned. stripped_text (opt_pstr (cx_tenant_id context)) = Some tenant \<and>
       dget store (tenant, connector_name g) = Some cfg \<and> cg_status cfg = ''active'' \<and>
       render_endpoint env pt (cg_endpoint_template cfg) (tq_payload request) = Inr url \<and>
       kp_validate pt url (str_lower env (cg_endpoint_host cfg)) = Inr (hq_url q, pinned) \<and> hq_pinned_ip q = pinned \<and>
       hq_method q = str_upper env (cg_http_method cfg) \<and>
       hq_body q = mapped_body (tq_payload request) (operation_mappings g cfg) \<and>
       (gc_keyed g \<longrightarrow> dget (hq_headers q) (cg_header cfg) = provider_key_of request \<and> provider_key_of request \<noteq> None) \<and>
       x' = snd (kp_send pt q x) \<and> (reports_success out \<longleftrightarrow> answered_ok cfg (fst (kp_send pt q x))))"
proof (cases "x' = x \<and> \<not> reports_success out")
  case False
  then obtain tenant cfg credentials url where sent: "Option.bind (cx_tenant_id context) (\<lambda>t. stripped_text (PStr t)) = Some tenant"
      "get_active_config store tenant (connector_name g) tenant = Some cfg" "gc_keyed g \<longrightarrow> provider_key_of request \<noteq> None"
      "render_endpoint env pt (cg_endpoint_template cfg) (tq_payload request) = Inr url"
      "exchange env pt (parse_generic_rest_response env cfg) cfg url (mapped_body (tq_payload request) (operation_mappings g cfg))
         (generic_headers g cfg credentials (provider_key_of request)) (provider_key_of request) x = (out, x')"
    using invoke_exchanges [OF assms] by blast
  obtain q pinned where q: "kp_validate pt url (str_lower env (cg_endpoint_host cfg)) = Inr (hq_url q, pinned)" "hq_pinned_ip q = pinned"
      "hq_method q = str_upper env (cg_http_method cfg)" "hq_body q = mapped_body (tq_payload request) (operation_mappings g cfg)"
      "hq_headers q = generic_headers g cfg credentials (provider_key_of request)" "x' = snd (kp_send pt q x)"
      "reports_success out \<longleftrightarrow> answered_ok cfg (fst (kp_send pt q x))"
    using exchange_exact [OF sent(5)] False by blast
  have "stripped_text (opt_pstr (cx_tenant_id context)) = Some tenant" using sent(1) by (cases "cx_tenant_id context") auto
  moreover have "dget store (tenant, connector_name g) = Some cfg" "cg_status cfg = ''active''"
    using sent(2) by (auto simp: get_active_config_def split: option.splits if_splits)
  moreover have "dget (hq_headers q) (cg_header cfg) = provider_key_of request \<and> provider_key_of request \<noteq> None" if "gc_keyed g"
    using that sent(3) q(5) generic_headers_keyed by (cases "provider_key_of request") auto
  ultimately show ?thesis using sent(4) q by blast
qed blast

section \<open>The registry\<close>

text \<open>The tool belongs to an active configuration of the tenant.\<close>

definition made_from :: "py_env \<Rightarrow> bool \<Rightarrow> connector_config \<Rightarrow> action_tool \<Rightarrow> bool" where
  "made_from env work_orders cfg a \<longleftrightarrow>
     (case a of
        Mcp_Tool m \<Rightarrow> mcp_config env cfg \<and> md_server_id m = cg_tool_name cfg \<and> md_enabled m
      | _ \<Rightarrow> \<not> mcp_config env cfg \<and> a = connector_tool_from_config env work_orders cfg)"

definition registry_fits :: "py_env \<Rightarrow> bool \<Rightarrow> connector_config list \<Rightarrow> action_registry \<Rightarrow> bool" where
  "registry_fits env work_orders cfgs reg \<longleftrightarrow>
     (\<forall>n a. dget reg n = Some a \<longrightarrow> n = tl_name (tool_of a) \<and> (\<exists>cfg\<in>set cfgs. made_from env work_orders cfg a))"

lemma registered:
  assumes "register_action env reg a = Inr reg'"
  shows "reg' = dset (tl_name (tool_of a)) a reg" "dget reg (tl_name (tool_of a)) = None"
proof -
  have "dget (map (\<lambda>(n, b). (n, tool_of b)) reg) n = map_option tool_of (dget reg n)" for n
    by (induction reg) auto
  with assms show "reg' = dset (tl_name (tool_of a)) a reg" "dget reg (tl_name (tool_of a)) = None"
    by (auto simp: register_action_def register_tool_def bind_result_def split: if_splits simp del: map_of_eq_None_iff)
qed

lemma fits_grows:
  assumes "registry_fits env wo cfgs reg" "register_action env reg a = Inr reg'" "cfg \<in> set cfgs" "made_from env wo cfg a"
  shows "registry_fits env wo cfgs reg'"
  using assms(1,3,4) registered(1) [OF assms(2)] by (auto simp: registry_fits_def)

lemma enabled_fits:
  assumes "register_enabled env ms reg = Inr reg'" "registry_fits env wo cfgs reg" "cfg \<in> set cfgs" "mcp_config env cfg"
    and "\<And>m. m \<in> set ms \<Longrightarrow> md_server_id m = cg_tool_name cfg"
  shows "registry_fits env wo cfgs reg'"
  using assms(1,2,5)
proof (induction ms arbitrary: reg)
  case (Cons m ms)
  show ?case
  proof (cases "\<not> md_enabled m \<or> dget reg (md_server_id m @ ''.'' @ md_tool_name m) \<noteq> None")
    case True
    with Cons show ?thesis by (simp del: map_of_eq_None_iff)
  next
    case False
    then obtain reg1 where reg1: "register_action env reg (Mcp_Tool m) = Inr reg1" "register_enabled env ms reg1 = Inr reg'"
      using Cons.prems(1) by (auto simp: bind_result_def split: sum.splits simp del: map_of_eq_None_iff)
    have "registry_fits env wo cfgs reg1"
      by (rule fits_grows [OF Cons.prems(2) reg1(1) assms(3)]) (use False Cons.prems(3) assms(4) in \<open>simp add: made_from_def\<close>)
    with Cons reg1(2) show ?thesis by auto
  qed
qed simp

lemma parsed_server: "parse_mcp_tools env server raws = Inr ms \<Longrightarrow> m \<in> set ms \<Longrightarrow> md_server_id m = server"
proof (induction raws arbitrary: ms)
  case (Cons raw raws)
  then show ?case by (auto simp: bind_result_def parse_mcp_tool_def Let_def split: sum.splits if_splits)
qed simp

lemma mcp_registered:
  assumes "register_mcp_tools env cr cfg reg = Inr reg'"
  shows "reg' = reg \<or>
    (\<exists>raws ms. parse_mcp_tools env (cg_tool_name cfg) raws = Inr ms \<and> register_enabled env ms reg = Inr reg')"
proof (cases "cr \<and> mcp_raw_tools (get_or_none (cg_field_mappings cfg) ''mcp_tools'') \<noteq> None")
  case True
  then obtain raws where raws: "cr" "mcp_raw_tools (get_or_none (cg_field_mappings cfg) ''mcp_tools'') = Some raws" by blast
  obtain ms where "parse_mcp_tools env (cg_tool_name cfg) raws = Inr ms" "register_enabled env ms reg = Inr reg'"
    using assms unfolding register_mcp_tools_def raws(2)
    by (simp add: raws(1) bind_result_def split: sum.splits)
  then show ?thesis by blast
next
  case False
  with assms show ?thesis unfolding register_mcp_tools_def by (simp split: if_splits option.splits)
qed

lemma mcp_fits:
  assumes "register_mcp_tools env cr cfg reg = Inr reg'" "registry_fits env wo cfgs reg" "cfg \<in> set cfgs" "mcp_config env cfg"
  shows "registry_fits env wo cfgs reg'"
  using mcp_registered [OF assms(1)] enabled_fits [OF _ assms(2-4)] parsed_server assms(2) by metis

lemma connector_tool_cases: "connector_tool_from_config env wo cfg = Repair_Dispatch_Tool \<or>
    connector_tool_from_config env wo cfg = Generic_Tool (generic_from_config env cfg)"
  by (simp add: connector_tool_from_config_def)

lemma configs_fit:
  assumes "register_configs env cr wo cfgs reg = Inr reg'" "registry_fits env wo all reg" "set cfgs \<subseteq> set all"
  shows "registry_fits env wo all reg'"
  using assms
proof (induction cfgs arbitrary: reg)
  case (Cons cfg cfgs)
  then obtain reg1 where reg1: "(if mcp_config env cfg then register_mcp_tools env cr cfg reg
        else if dget reg (cg_tool_name cfg) \<noteq> None then Inr reg
        else register_action env reg (connector_tool_from_config env wo cfg)) = Inr reg1"
      "register_configs env cr wo cfgs reg1 = Inr reg'"
    by (auto simp: bind_result_def split: sum.splits simp del: map_of_eq_None_iff)
  have "made_from env wo cfg (connector_tool_from_config env wo cfg)" if "\<not> mcp_config env cfg"
    using that connector_tool_cases [of env wo cfg] by (auto simp: made_from_def)
  then have "registry_fits env wo all reg1"
    using reg1(1) Cons.prems(2,3) mcp_fits [of env cr cfg reg reg1] fits_grows [of env wo all reg _ reg1 cfg]
    by (auto split: if_splits simp del: map_of_eq_None_iff)
  with Cons reg1(2) show ?case by auto
qed simp

lemma registry_from_configs:
  assumes "build_tenant_action_tool_registry env cr wo store tenant = Inr reg" "dget reg n = Some a"
  shows "n = tl_name (tool_of a)" "\<exists>cfg\<in>set (list_active_for_tenant store tenant tenant). made_from env wo cfg a"
proof -
  have "registry_fits env wo (list_active_for_tenant store tenant tenant) []" by (simp add: registry_fits_def)
  then have "registry_fits env wo (list_active_for_tenant store tenant tenant) reg"
    using configs_fit [OF assms(1) [unfolded build_tenant_action_tool_registry_def]] by blast
  with assms(2) show "n = tl_name (tool_of a)" "\<exists>cfg\<in>set (list_active_for_tenant store tenant tenant). made_from env wo cfg a"
    unfolding registry_fits_def by blast+
qed

text \<open>A repair configuration takes the name \<open>repair.dispatch\<close> whatever its own.\<close>

definition repair_config :: "py_env \<Rightarrow> connector_config \<Rightarrow> bool" where
  "repair_config env cfg \<longleftrightarrow>
     has_prefix ''repair'' (str_lower env (cg_connector_type cfg)) \<or> has_prefix ''repair'' (str_lower env (cg_tool_name cfg))"

lemma repair_tool: "repair_config env cfg \<Longrightarrow> connector_tool_from_config env True cfg = Repair_Dispatch_Tool"
  by (simp add: connector_tool_from_config_def repair_config_def)

lemma split_last_dot_join: "split_last_dot s = Some (a, b) \<Longrightarrow> s = a @ ''.'' @ b"
proof -
  assume "split_last_dot s = Some (a, b)"
  then have dot: "CHR ''.'' \<in> set (rev s)" and ab: "a = rev (drop 1 (dropWhile (\<lambda>c. c \<noteq> CHR ''.'') (rev s)))"
      "b = rev (takeWhile (\<lambda>c. c \<noteq> CHR ''.'') (rev s))"
    by (auto simp: split_last_dot_def split: if_splits)
  let ?P = "\<lambda>c. c \<noteq> CHR ''.''"
  have "dropWhile ?P (rev s) \<noteq> []" using dot by (auto simp: dropWhile_eq_Nil_conv)
  moreover from hd_dropWhile [OF this] have "hd (dropWhile ?P (rev s)) = CHR ''.''" by simp
  ultimately have "dropWhile ?P (rev s) = CHR ''.'' # drop 1 (dropWhile ?P (rev s))"
    by (metis drop0 drop_Suc One_nat_def list.collapse)
  then have "rev s = takeWhile ?P (rev s) @ CHR ''.'' # drop 1 (dropWhile ?P (rev s))"
    by (metis takeWhile_dropWhile_id)
  then have "s = rev (takeWhile ?P (rev s) @ CHR ''.'' # drop 1 (dropWhile ?P (rev s)))" by (metis rev_rev_ident)
  then show ?thesis by (simp add: ab)
qed

lemma connector_name_dotted: "CHR ''.'' \<in> set (cg_tool_name cfg) \<Longrightarrow> connector_name (generic_from_config env cfg) = cg_tool_name cfg"
  using split_last_dot_join [of "cg_tool_name cfg"]
  by (auto simp: connector_name_def generic_from_config_def Let_def split_last_dot_def split: prod.split option.split)

lemma connector_name_undotted:
  "CHR ''.'' \<notin> set (cg_tool_name cfg) \<Longrightarrow> connector_name (generic_from_config env cfg) = cg_tool_name cfg @ ''.act''"
  by (simp add: connector_name_def generic_from_config_def Let_def split_last_dot_def split: prod.split)

text \<open>A repair configuration of another name after another repair configuration.\<close>

fun repair_clash :: "py_env \<Rightarrow> bool \<Rightarrow> connector_config list \<Rightarrow> bool" where
  "repair_clash env seen [] = False"
| "repair_clash env seen (c # cs) =
     (if repair_config env c then (seen \<and> cg_tool_name c \<noteq> ''repair.dispatch'') \<or> repair_clash env True cs
      else repair_clash env seen cs)"

lemma repair_clash_iff:
  "repair_clash env seen cfgs \<longleftrightarrow>
     (\<exists>xs c ys. cfgs = xs @ c # ys \<and> repair_config env c \<and> cg_tool_name c \<noteq> ''repair.dispatch'' \<and>
        (seen \<or> (\<exists>b\<in>set xs. repair_config env b)))" (is "_ \<longleftrightarrow> ?rhs seen cfgs")
proof (induction cfgs arbitrary: seen)
  case (Cons c cs)
  have "?rhs seen (c # cs) \<longleftrightarrow> (repair_config env c \<and> cg_tool_name c \<noteq> ''repair.dispatch'' \<and> seen) \<or>
      ?rhs (seen \<or> repair_config env c) cs" (is "_ \<longleftrightarrow> ?r")
  proof
    assume "?rhs seen (c # cs)"
    then obtain xs d ys where "c # cs = xs @ d # ys" "repair_config env d" "cg_tool_name d \<noteq> ''repair.dispatch''"
        "seen \<or> (\<exists>b\<in>set xs. repair_config env b)" by blast
    then show ?r by (cases xs) auto
  next
    assume ?r
    then show "?rhs seen (c # cs)"
    proof
      assume "repair_config env c \<and> cg_tool_name c \<noteq> ''repair.dispatch'' \<and> seen"
      then show ?thesis by (intro exI [of _ "[]"]) auto
    next
      assume "?rhs (seen \<or> repair_config env c) cs"
      then obtain xs d ys where "cs = xs @ d # ys" "repair_config env d" "cg_tool_name d \<noteq> ''repair.dispatch''"
          "(seen \<or> repair_config env c) \<or> (\<exists>b\<in>set xs. repair_config env b)" by blast
      then show ?thesis by (intro exI [of _ "c # xs"] exI [of _ d] exI [of _ ys]) auto
    qed
  qed
  with Cons.IH show ?case by auto
qed simp

lemma registers:
  assumes "tl_name (tool_of a) \<noteq> []"
  shows "register_action env reg a = (if dget reg (tl_name (tool_of a)) = None then Inr (dset (tl_name (tool_of a)) a reg)
    else Inl (AgentError ''ToolConfigurationError'' (''tool already registered: '' @ repr_str env (tl_name (tool_of a)))))"
proof -
  have "dget (map (\<lambda>(n, b). (n, tool_of b)) reg) n = map_option tool_of (dget reg n)" for n
    by (induction reg) auto
  with assms show ?thesis
    by (simp add: register_action_def register_tool_def bind_result_def del: map_of_eq_None_iff)
qed

definition plain_config :: "py_env \<Rightarrow> connector_config \<Rightarrow> bool" where
  "plain_config env cfg \<longleftrightarrow> \<not> mcp_config env cfg \<and> CHR ''.'' \<in> set (cg_tool_name cfg)"

lemma configs_clash:
  assumes "\<forall>c\<in>set cfgs. plain_config env c" "distinct (map cg_tool_name cfgs)"
    and "\<And>c. cg_tool_name c = ''repair.dispatch'' \<Longrightarrow> repair_config env c"
    and "\<And>n. dget reg n \<noteq> None \<Longrightarrow> n \<in> cg_tool_name ` set cfgs \<Longrightarrow> n = ''repair.dispatch''"
    and "dget reg ''repair.dispatch'' \<noteq> None \<longleftrightarrow> seen"
  shows "is_error (register_configs env cr True cfgs reg) \<longleftrightarrow> repair_clash env seen cfgs"
  using assms(1,2,4,5)
proof (induction cfgs arbitrary: reg seen)
  case Nil
  then show ?case by (simp add: is_error_def)
next
  case (Cons c cs)
  have plain: "\<not> mcp_config env c" "CHR ''.'' \<in> set (cg_tool_name c)" using Cons.prems(1) by (simp_all add: plain_config_def)
  let ?n = "cg_tool_name c"
  show ?case
  proof (cases "dget reg ?n = None")
    case False
    then have "?n = ''repair.dispatch''" "seen" using Cons.prems(3,4) by (force simp del: map_of_eq_None_iff)+
    moreover from this have "repair_config env c" using assms(3) by blast
    moreover have "is_error (register_configs env cr True cs reg) \<longleftrightarrow> repair_clash env seen cs"
      using Cons.prems Cons.IH [of reg seen] by auto
    ultimately show ?thesis using False plain by (simp add: bind_result_def del: map_of_eq_None_iff)
  next
    case new: True
    show ?thesis
    proof (cases "repair_config env c")
      case True
      have tool: "tl_name (tool_of (connector_tool_from_config env True c)) = ''repair.dispatch''"
        using repair_tool [OF True] by simp
      show ?thesis
      proof (cases seen)
        case True
        then have "?n \<noteq> ''repair.dispatch''" using new Cons.prems(4) by auto
        with \<open>repair_config env c\<close> True new plain tool Cons.prems(4) registers [of "connector_tool_from_config env True c" env reg]
        show ?thesis by (auto simp: bind_result_def is_error_def simp del: map_of_eq_None_iff)
      next
        case False
        let ?reg = "dset ''repair.dispatch'' (connector_tool_from_config env True c) reg"
        have "is_error (register_configs env cr True cs ?reg) \<longleftrightarrow> repair_clash env True cs"
          using Cons.prems by (intro Cons.IH) (auto split: if_splits simp del: map_of_eq_None_iff)
        with False \<open>repair_config env c\<close> new plain tool Cons.prems(4) registers [of "connector_tool_from_config env True c" env reg]
        show ?thesis by (simp add: bind_result_def del: map_of_eq_None_iff)
      qed
    next
      case False
      have tool: "tl_name (tool_of (connector_tool_from_config env True c)) = ?n"
        using False connector_name_dotted [OF plain(2)] by (simp add: connector_tool_from_config_def repair_config_def)
      have "?n \<noteq> []" "?n \<noteq> ''repair.dispatch''" using plain(2) False assms(3) by auto
      let ?reg = "dset ?n (connector_tool_from_config env True c) reg"
      have "is_error (register_configs env cr True cs ?reg) \<longleftrightarrow> repair_clash env seen cs"
        using Cons.prems \<open>?n \<noteq> ''repair.dispatch''\<close> by (intro Cons.IH) (auto split: if_splits simp del: map_of_eq_None_iff)
      with False new plain tool \<open>?n \<noteq> []\<close> registers [of "connector_tool_from_config env True c" env reg]
      show ?thesis by (simp add: bind_result_def del: map_of_eq_None_iff)
    qed
  qed
qed

text \<open>One repair connector too many and a tenant has no tools.  Every repair connector is
  registered as \<open>repair.dispatch\<close>, but the test for a name already taken looks at the name
  in the configuration.  So, work orders being available, building the registry of a tenant
  whose tool names are distinct and dotted raises exactly when some repair connector of
  another name comes after a repair connector (in the order of names, \<open>repair.status\<close> after
  \<open>repair.dispatch\<close>): then no action of the tenant can be executed or approved, refunds
  included.\<close>

theorem second_repair_breaks:
  assumes "\<forall>c\<in>set (list_active_for_tenant store tenant tenant). plain_config env c"
    and "distinct (map cg_tool_name (list_active_for_tenant store tenant tenant))"
    and "str_lower env ''repair.dispatch'' = ''repair.dispatch''"
  shows "is_error (build_tenant_action_tool_registry env cr True store tenant) \<longleftrightarrow>
    (\<exists>xs b ys c zs. list_active_for_tenant store tenant tenant = xs @ b # ys @ c # zs \<and>
       repair_config env b \<and> repair_config env c \<and> cg_tool_name c \<noteq> ''repair.dispatch'')"
proof -
  have "repair_config env c" if "cg_tool_name c = ''repair.dispatch''" for c
    using that assms(3) by (simp add: repair_config_def has_prefix_def)
  then have "is_error (build_tenant_action_tool_registry env cr True store tenant) \<longleftrightarrow>
      repair_clash env False (list_active_for_tenant store tenant tenant)"
    unfolding build_tenant_action_tool_registry_def using assms(1,2) by (intro configs_clash) auto
  also have "\<dots> \<longleftrightarrow> (\<exists>us c zs. list_active_for_tenant store tenant tenant = us @ c # zs \<and>
       repair_config env c \<and> cg_tool_name c \<noteq> ''repair.dispatch'' \<and> (\<exists>b\<in>set us. repair_config env b))"
    by (simp add: repair_clash_iff)
  also have "\<dots> \<longleftrightarrow> (\<exists>xs b ys c zs. list_active_for_tenant store tenant tenant = xs @ b # ys @ c # zs \<and>
       repair_config env b \<and> repair_config env c \<and> cg_tool_name c \<noteq> ''repair.dispatch'')" (is "?l \<longleftrightarrow> ?r")
  proof
    assume ?l
    then obtain us c zs b where us: "list_active_for_tenant store tenant tenant = us @ c # zs" "b \<in> set us"
        "repair_config env c" "cg_tool_name c \<noteq> ''repair.dispatch''" "repair_config env b" by blast
    obtain xs ys where "us = xs @ b # ys" using us(2) by (blast dest: split_list)
    with us have "list_active_for_tenant store tenant tenant = xs @ b # ys @ c # zs" by simp
    with us show ?r by blast
  next
    assume ?r
    then obtain xs b ys c zs where list: "list_active_for_tenant store tenant tenant = (xs @ b # ys) @ c # zs"
        "repair_config env b" "repair_config env c" "cg_tool_name c \<noteq> ''repair.dispatch''" by auto
    moreover have "b \<in> set (xs @ b # ys)" by simp
    ultimately show ?l by blast
  qed
  finally show ?thesis .
qed

section \<open>Worked example\<close>

text \<open>A refund connector whose provider answers 500.\<close>

definition demo_config :: connector_config where
  "demo_config = \<lparr>cg_tenant_id = ''t1'', cg_connector_type = ''oms'', cg_tool_name = ''refund.request'', cg_http_method = ''post'',
     cg_endpoint_template = ''u'', cg_endpoint_host = ''h'', cg_field_mappings = [], cg_header = ''Idempotency-Key'',
     cg_response_parse = [], cg_success_codes = [200], cg_status = ''active''\<rparr>"

definition demo_generic :: generic_connector where
  "demo_generic = \<lparr>gc_connector_id = ''refund'', gc_operation_id = ''request'', gc_request_mapping = [], gc_keyed = True,
     gc_commitment = CK_GOODS, gc_approval = ALWAYS_REQUIRE_APPROVAL\<rparr>"

definition demo_provider :: "nat connector_ports" where
  "demo_provider = \<lparr>kp_credentials = (\<lambda>t c. Inr [(''api_key'', PStr ''k'')]), kp_channel_credentials = (\<lambda>t c. Inr []),
     kp_validate = (\<lambda>url host. Inr (url, ''203.0.113.1'')), kp_send = (\<lambda>q n. (Inr \<lparr>hr_status = 500, hr_json = Inr (PDict [])\<rparr>, n + 1)),
     kp_fields = (\<lambda>t. Inr []), kp_format = (\<lambda>t d. Inr t)\<rparr>"

definition demo_caller :: agent_context where
  "demo_caller = \<lparr>cx_identity = \<lparr>ai_agent_id = ''a1'', ai_runtime_instance_id = ''i1''\<rparr>,
     cx_execution = \<lparr>ei_execution_id = ''e1'', ei_correlation_id = None, ei_parent_execution_id = None, ei_request_id = None\<rparr>,
     cx_capabilities = [], cx_constraints = default_constraints, cx_causality = root_causality,
     cx_tenant_id = Some ''t1'', cx_authority = None, cx_metadata = []\<rparr>"

definition demo_keyed :: tool_request where
  "demo_keyed = \<lparr>tq_tool_name = ''refund.request'', tq_payload = [],
     tq_metadata = [(''agent_action_provider_idempotency_key'', PStr ''key1'')]\<rparr>"

lemma demo_provider_called:
  "snd (generic_invoke demo_env demo_provider [((''t1'', ''refund.request''), demo_config)] demo_generic demo_keyed demo_caller 0) = 1"
proof -
  have "stripped_text (PStr ''t1'') = Some ''t1''" "provider_key_of demo_keyed = Some ''key1''"
    by (simp_all add: provider_key_of_def metadata_str_def get_or_none_def demo_keyed_def py_strip_def py_space_def)
  moreover have "connector_name demo_generic = ''refund.request''" by (simp add: connector_name_def demo_generic_def)
  moreover have "get_active_config [((''t1'', ''refund.request''), demo_config)] ''t1'' ''refund.request'' ''t1'' = Some demo_config"
    by (simp add: get_active_config_def demo_config_def)
  moreover have "cx_tenant_id demo_caller = Some ''t1''" by (simp add: demo_caller_def)
  ultimately show ?thesis
    by (simp add: generic_invoke_def exchange_def demo_provider_def render_endpoint_def bind_result_def del: stripped_text.simps)
qed

lemma connector_call_exact_witness:
  "\<exists>q out. generic_invoke demo_env demo_provider [((''t1'', ''refund.request''), demo_config)] demo_generic demo_keyed demo_caller 0 =
       (out, snd (kp_send demo_provider q 0)) \<and> dget (hq_headers q) ''Idempotency-Key'' = provider_key_of demo_keyed \<and>
     \<not> reports_success out"
proof -
  obtain out where run: "generic_invoke demo_env demo_provider [((''t1'', ''refund.request''), demo_config)] demo_generic demo_keyed
      demo_caller 0 = (out, 1)"
    using demo_provider_called by (metis prod.collapse)
  have keyed: "gc_keyed demo_generic" by (simp add: demo_generic_def)
  obtain tenant cfg q where q: "dget [((''t1'', ''refund.request''), demo_config)] (tenant, connector_name demo_generic) = Some cfg"
      "dget (hq_headers q) (cg_header cfg) = provider_key_of demo_keyed" "1 = snd (kp_send demo_provider q 0)"
      "reports_success out \<longleftrightarrow> answered_ok cfg (fst (kp_send demo_provider q 0))"
    using connector_call_exact [OF run] keyed by auto
  then have "cfg = demo_config" by (simp split: if_splits)
  with q run show ?thesis
    by (intro exI [of _ q] exI [of _ out]) (simp add: demo_config_def demo_provider_def answered_ok_def)
qed

definition demo_repairs :: config_store where
  "demo_repairs = [((''t1'', ''repair.dispatch''), demo_config\<lparr>cg_tool_name := ''repair.dispatch''\<rparr>),
     ((''t1'', ''repair.status''), demo_config\<lparr>cg_tool_name := ''repair.status''\<rparr>)]"

lemma second_repair_breaks_witness:
  "is_error (build_tenant_action_tool_registry demo_env True True demo_repairs ''t1'')"
proof -
  let ?b = "demo_config\<lparr>cg_tool_name := ''repair.dispatch''\<rparr>" and ?c = "demo_config\<lparr>cg_tool_name := ''repair.status''\<rparr>"
  have list: "list_active_for_tenant demo_repairs ''t1'' ''t1'' = [?b, ?c]"
    by (simp add: list_active_for_tenant_def demo_repairs_def demo_config_def)
  have plain: "\<forall>c\<in>set [?b, ?c]. plain_config demo_env c"
    by (simp add: plain_config_def mcp_config_def demo_config_def demo_env_def ascii_lower_def)
  have repair: "repair_config demo_env ?b" "repair_config demo_env ?c"
    by (simp_all add: repair_config_def has_prefix_def demo_env_def ascii_lower_def)
  have "\<exists>xs b ys c zs. [?b, ?c] = xs @ b # ys @ c # zs \<and> repair_config demo_env b \<and> repair_config demo_env c \<and>
      cg_tool_name c \<noteq> ''repair.dispatch''"
    by (intro exI [of _ "[]"] exI [of _ ?b] exI [of _ ?c]) (simp add: repair)
  moreover have "str_lower demo_env ''repair.dispatch'' = ''repair.dispatch''" by (simp add: demo_env_def ascii_lower_def)
  ultimately show ?thesis
    using second_repair_breaks [of demo_repairs "''t1''" demo_env True] plain unfolding list by simp
qed

end
