(* ===== verification/Action_Promises.thy ===== *)
theory Action_Promises
  imports Action_Approvals Tool_World Connector_Promises
begin

text \<open>
  What stands behind the manager's approval of an action: what the stages of the approval
  leave in the tables, and which actions can never be approved.
\<close>

section \<open>An invocation that succeeds\<close>

lemma errored_not_ok [simp]:
  "\<not> te_is_ok (denied_envelope call_id request context err reason g d extra)"
  "\<not> te_is_ok (failed_envelope call_id request context err reason g d key extra)"
  "\<not> te_is_ok (errored_envelope INV_FAILED call_id request context err g d key md)"
  by (simp_all add: te_is_ok_def denied_envelope_def failed_envelope_def errored_envelope_def)

lemma resolve_call_fails: "resolve_call env iv call_id request context = Inl e \<Longrightarrow> \<not> te_is_ok e"
  by (auto simp: resolve_call_def Let_def split: sum.splits if_splits)

lemma claim_grant_fails:
  "claim_grant env now iv w call_id request context tenant d actor expected = (Returns e, w') \<Longrightarrow> \<not> te_is_ok e"
  by (auto simp: claim_grant_def split: sum.splits prod.splits error.splits bool.splits if_splits)

lemma pre_approved_fails:
  "authorize_pre_approved env now iv w call_id request context decision_text = (Returns e, w') \<Longrightarrow> \<not> te_is_ok e"
  unfolding authorize_pre_approved_def Let_def
  by (auto split: option.splits sum.splits bool.splits if_splits dest: claim_grant_fails)

lemma begin_call_fails:
  "begin_call env now fresh ambient iv w request context ordinal (Some decision_text) = (Returns e, w') \<Longrightarrow> \<not> te_is_ok e"
  by (auto simp: begin_call_def authorize_def split: sum.splits prod.splits verdict.splits
      dest: resolve_call_fails pre_approved_fails)

lemma reserve_call_replays:
  assumes "reserve_call env now fault iv w call_id context t a = (Returns e, w')" "te_is_ok e"
  shows "\<exists>tenant key r. cx_tenant_id context = Some tenant \<and> az_provider_key a = Some key \<and>
    get_invocation (tw_ledger w) tenant key = Some r \<and> ci_status r = CI_SUCCEEDED \<and>
    tt_decision_id (te_trace e) = az_decision_id a \<and> w' = w"
proof -
  note unfolded = assms(1) [unfolded reserve_call_def Let_def]
  have action: "tool_capability_of t \<noteq> READ_ONLY \<and> iv_ledger iv"
    using unfolded assms(2) by (auto split: if_splits)
  obtain tenant where tenant: "cx_tenant_id context = Some tenant"
    using unfolded assms(2) action by (cases "cx_tenant_id context") auto
  obtain d where d: "az_decision_id a = Some d"
    using unfolded assms(2) action tenant by (cases "az_decision_id a") auto
  obtain key where key: "az_provider_key a = Some key"
    using unfolded assms(2) action tenant d by (cases "az_provider_key a") auto
  have fault: "fault = None" using unfolded assms(2) action tenant d key by (cases fault) auto
  obtain res l where res: "reserve_invocation now (tw_ledger w) tenant key (tq_tool_name (az_request a))
      (connector_action_type (az_request a)) (connector_target_resource (az_request a))
      (hash_connector_request env (tq_payload (az_request a))) (Some d) = (res, l)" by force
  obtain v where v: "res = Inr v"
    using unfolded assms(2) action tenant d key fault res by (cases res) auto
  obtain r where r: "v = Reserved_Terminal r"
    using unfolded assms(2) action tenant d key fault res v by (cases v) auto
  have e: "e = replayed_envelope call_id (az_request a) context (az_governance a) (Some d) r" "w' = w\<lparr>tw_ledger := l\<rparr>"
    using unfolded action tenant d key fault res v r by auto
  have stored: "get_invocation (tw_ledger w) tenant key = Some r" "ci_is_terminal r" "l = tw_ledger w"
    using res v r by (auto simp: reserve_invocation_def Let_def split: if_splits option.splits)
  have "ci_status r \<noteq> CI_FAILED" using assms(2) e(1) by (auto simp: replayed_envelope_def)
  with stored(2) have "ci_status r = CI_SUCCEEDED" by (auto simp: ci_is_terminal_def)
  then have "tt_decision_id (te_trace e) = Some d" by (simp add: e(1) replayed_envelope_def ok_envelope_def)
  with tenant d key stored e(2) \<open>ci_status r = CI_SUCCEEDED\<close> show ?thesis by simp
qed

lemma finish_call_returns:
  assumes "finish_call env now fault w c outcome = (e, w')" "te_is_ok e"
  shows "\<exists>result. outcome = Tool_Returned result \<and> te_result e = Some result \<and>
    tt_decision_id (te_trace e) = az_decision_id (cl_authorization c)"
  using assms
  by (auto simp: finish_call_def Let_def ok_envelope_def split: tool_outcome.splits option.splits prod.splits sum.splits)

lemma finish_call_governance: "tw_governance (snd (finish_call env now fault w c outcome)) = tw_governance w"
  by (simp add: finish_call_def settle_row_def Let_def split: tool_outcome.split option.split sum.split prod.split)

lemma reserve_call_governance: "tw_governance (snd (reserve_call env now fault iv w call_id context t a)) = tw_governance w"
  by (simp add: reserve_call_def Let_def split: option.split sum.split prod.split reservation.split)

text \<open>The call was made and returned, or a row of the ledger says it had succeeded before.\<close>

definition carried_out ::
  "(tool \<Rightarrow> tool_request \<Rightarrow> agent_context \<Rightarrow> 'x \<Rightarrow> tool_outcome \<times> 'x) \<Rightarrow> tool \<Rightarrow> authorization \<Rightarrow> agent_context
     \<Rightarrow> ledger \<Rightarrow> 'x \<Rightarrow> 'x \<Rightarrow> bool" where
  "carried_out call t a context l x x' \<longleftrightarrow>
     (\<exists>result. call t (az_request a) context x = (Tool_Returned result, x')) \<or>
     (\<exists>tenant key r. cx_tenant_id context = Some tenant \<and> az_provider_key a = Some key \<and>
        get_invocation l tenant key = Some r \<and> ci_status r = CI_SUCCEEDED \<and> x' = x)"

lemma invoked_ok:
  assumes "invoke_tool env now fresh ambient call faults iv request context ordinal (Some decision_text) (w, x) = (Inr e, w', x')"
    and "te_is_ok e"
  obtains call_id t a w1 where
    "begin_call env now fresh ambient iv w request context ordinal (Some decision_text) = (Continues (call_id, t, a), w1)"
    "carried_out call t a context (tw_ledger w1) x x'" "tt_decision_id (te_trace e) = az_decision_id a"
    "tw_governance w' = tw_governance w1" "tw_grants w' = tw_grants w1"
proof -
  obtain v w1 where v: "begin_call env now fresh ambient iv w request context ordinal (Some decision_text) = (v, w1)" by force
  obtain call_id t a where begun: "v = Continues (call_id, t, a)"
    using assms v begin_call_fails by (cases v) (auto simp: invoke_tool_def)
  obtain u w2 where u: "reserve_call env now (fst faults) iv w1 call_id context t a = (u, w2)" by force
  have kept: "tw_governance w2 = tw_governance w1" "tw_grants w2 = tw_grants w1"
    using u reserve_call_governance reserve_call_grants by (metis snd_conv)+
  show ?thesis
  proof (cases u)
    case (Raises err)
    with assms(1) v begun u show ?thesis by (simp add: invoke_tool_def)
  next
    case (Returns e')
    then have e: "e = e'" "w' = w2" "x' = x" using assms(1) v begun u by (simp_all add: invoke_tool_def)
    from reserve_call_replays [OF u [unfolded Returns]] assms(2) e
    show ?thesis using that [OF v [unfolded begun]] kept by (auto simp: carried_out_def)
  next
    case (Continues c)
    obtain outcome x1 where outcome: "call t (az_request a) context x = (outcome, x1)" by force
    obtain e1 w3 where fin: "finish_call env now (snd faults) w2 c outcome = (e1, w3)" by force
    have e: "e = e1" "w' = w3" "x' = x1" using assms(1) v begun u Continues outcome fin by (simp_all add: invoke_tool_def)
    have c: "cl_authorization c = a"
      using u [unfolded Continues]
      by (cases "tool_capability_of t \<noteq> READ_ONLY \<and> iv_ledger iv")
        (metis clearance.select_convs(4) ledger_cleared(1), metis clearance.select_convs(4) unledgered_cleared(1))
    have "tw_governance w3 = tw_governance w2" "tw_grants w3 = tw_grants w2"
      using fin finish_call_governance finish_call_grants by (metis snd_conv)+
    with finish_call_returns [OF fin] assms(2) e kept c outcome show ?thesis
      using that [OF v [unfolded begun]] by (auto simp: carried_out_def)
  qed
qed

section \<open>The table of approvals\<close>

definition table_keyed :: "approval_table \<Rightarrow> bool" where
  "table_keyed t \<longleftrightarrow> (\<forall>i r. dget (vt_by_id t) i = Some r \<longrightarrow> av_approval_id r = i)"

lemma create_keeps_keyed: "table_keyed t \<Longrightarrow> table_keyed (snd (create_pending_approval t r expected))"
  by (simp add: create_pending_approval_def table_keyed_def split: option.split)

lemma resolve_keeps_keyed: "table_keyed t \<Longrightarrow> table_keyed (snd (resolve_approval t i expected status at actor note md))"
  by (auto simp: resolve_approval_def get_approval_def of_approval_tenant_def table_keyed_def resolved_approval_def Let_def
      split: option.split)

lemma resolve_settled: "av_status r \<noteq> ''pending'' \<Longrightarrow> get_approval t i expected = Some r \<Longrightarrow>
    resolve_approval t i expected status at actor note md = (None, t)"
  by (simp add: resolve_approval_def)

lemma resolved:
  assumes "resolve_approval t i expected status at actor note md = (Some v, t')"
  shows "\<exists>r. get_approval t i expected = Some r \<and> av_status r = ''pending'' \<and> v = resolved_approval status at actor note md r \<and>
    get_approval t' i expected = Some v"
  using assms by (auto simp: resolve_approval_def get_approval_def of_approval_tenant_def resolved_approval_def Let_def
      split: option.splits if_splits)

section \<open>The steps of an approval\<close>

lemma enriched:
  assumes "with_resolution_metadata r expected w = (Inr e, w')"
  shows "w' = w" "av_approval_id e = av_approval_id r" "av_tenant_id e = av_tenant_id r" "av_tool_name e = av_tool_name r"
    "av_payload e = av_payload r" "execution_actor_for_approval e = execution_actor_for_approval r"
    "approval_binding env e = approval_binding env r" "\<exists>md. e = r\<lparr>av_metadata := md\<rparr>"
proof -
  have "w' = w \<and> (\<exists>md. e = r\<lparr>av_metadata := md\<rparr> \<and> dget md ''agent_action_actor'' = dget (av_metadata r) ''agent_action_actor'')"
  proof (cases "Option.bind (metadata_str (av_metadata r) ''proposal_id'') (\<lambda>i. get_proposal (nw_resolution w) i expected)")
    case None
    with assms have "e = r\<lparr>av_metadata := av_metadata r\<rparr>" "w' = w" by (simp_all add: with_resolution_metadata_def)
    then show ?thesis by blast
  next
    case (Some p)
    with assms have "w' = w" "e = r\<lparr>av_metadata := dmerge (av_metadata r)
          [(''proposal_id'', PStr (rp_proposal_id p)), (''dispatch_id'', PStr (rp_dispatch_id p)),
           (''diagnostic_confidence'', PFloat (rp_confidence p)), (''resolution_category'', PStr (rp_category p))]\<rparr>"
      by (simp_all add: with_resolution_metadata_def)
    moreover have "dget (dmerge (av_metadata r)
          [(''proposal_id'', PStr (rp_proposal_id p)), (''dispatch_id'', PStr (rp_dispatch_id p)),
           (''diagnostic_confidence'', PFloat (rp_confidence p)), (''resolution_category'', PStr (rp_category p))])
        ''agent_action_actor'' = dget (av_metadata r) ''agent_action_actor''"
      by (simp add: dmerge_def)
    ultimately show ?thesis by blast
  qed
  then obtain md where e: "e = r\<lparr>av_metadata := md\<rparr>" "w' = w"
      "dget md ''agent_action_actor'' = dget (av_metadata r) ''agent_action_actor''" by blast
  then have "execution_actor_for_approval e = execution_actor_for_approval r"
    by (simp add: execution_actor_for_approval_def metadata_str_def get_or_none_def)
  with e show "w' = w" "av_approval_id e = av_approval_id r" "av_tenant_id e = av_tenant_id r" "av_tool_name e = av_tool_name r"
    "av_payload e = av_payload r" "execution_actor_for_approval e = execution_actor_for_approval r"
    "approval_binding env e = approval_binding env r" "\<exists>md. e = r\<lparr>av_metadata := md\<rparr>"
    by (auto simp: approval_binding_def)
qed

text \<open>What the calls on one part of the world leave alone.\<close>

definition rest_kept :: "'x action_world \<Rightarrow> 'x action_world \<Rightarrow> bool" where
  "rest_kept w w' \<longleftrightarrow> nw_approvals w' = nw_approvals w \<and> nw_ledger w' = nw_ledger w \<and> nw_rest w' = nw_rest w \<and>
     nw_resolution w' = nw_resolution w"

lemma on_decisions_kept: "on_decisions f w = (r, w') \<Longrightarrow> rest_kept w w'"
  by (auto simp: on_decisions_def rest_kept_def split: prod.splits)

lemma issued_kept: "issue_manager_action_grant env r d at w = (g, w') \<Longrightarrow> rest_kept w w'"
  by (auto simp: issue_manager_action_grant_def rest_kept_def split: prod.splits)

lemma rest_kept_trans: "rest_kept w w1 \<Longrightarrow> rest_kept w1 w2 \<Longrightarrow> rest_kept w w2"
  by (simp add: rest_kept_def)

definition tables_kept :: "'x action_world \<Rightarrow> 'x action_world \<Rightarrow> bool" where
  "tables_kept w w' \<longleftrightarrow> nw_approvals w' = nw_approvals w \<and> nw_governance w' = nw_governance w \<and> nw_grants w' = nw_grants w"

lemma outside_kept: "on_outside f w = (r, w') \<Longrightarrow> tables_kept w w'"
  by (auto simp: on_outside_def tables_kept_def split: prod.splits)

lemma recorded_decision:
  assumes "record_manager_approval_decision env now r source approved_by note w = (Inr d, w')"
  shows "d = manager_decision_id env r source" "rest_kept w w'"
proof -
  let ?i = "manager_decision_id env r source"
  have "d = ?i \<and> rest_kept w w'"
  proof (cases "get_decision (nw_governance w) ?i (Some (av_tenant_id r))")
    case (Some old)
    then show ?thesis
      using assms by (cases "fromisoformat env (dr_decided_at old)")
        (auto simp: record_manager_approval_decision_def Let_def and_then_Inr dest: issued_kept)
  next
    case None
    obtain f1 f2 f3 w1 w2 w3 g where "on_decisions f1 w = (Inr (), w1)" "on_decisions f2 w1 = (Inr (), w2)"
        "on_decisions f3 w2 = (Inr (), w3)" "issue_manager_action_grant env r ?i now w3 = (Inr g, w')" "d = ?i"
      using assms None unfolding record_manager_approval_decision_def Let_def and_then_Inr
      by (auto simp: and_then_Inr)
    then show ?thesis using issued_kept on_decisions_kept rest_kept_trans by metis
  qed
  then show "d = ?i" "rest_kept w w'" by simp_all
qed

lemma approval_context:
  assumes "execution_context_for_approval env r approved_by = Inr c"
  shows "cx_tenant_id c = Some (av_tenant_id r)" "compute_agent_execution_actor c = execution_actor_for_approval r"
    "xc_allowed_tools (cx_constraints c) = action_tool_names" "call_binding env (approved_request r) c = approval_binding env r"
proof -
  let ?actor = "execution_actor_for_approval r"
  have "?actor \<noteq> []"
    by (auto simp: execution_actor_for_approval_def metadata_str_def split: option.splits if_splits
        elim!: stripped_text.elims)
  moreover have "dget (cx_metadata c) ''agent_action_actor'' = Some (PStr ?actor)" "cx_tenant_id c = Some (av_tenant_id r)"
    "xc_allowed_tools (cx_constraints c) = action_tool_names"
    using assms by (auto simp: execution_context_for_approval_def Let_def bind_result_def action_constraints_def split: sum.splits)
  ultimately show "cx_tenant_id c = Some (av_tenant_id r)" "compute_agent_execution_actor c = ?actor"
    "xc_allowed_tools (cx_constraints c) = action_tool_names" "call_binding env (approved_request r) c = approval_binding env r"
    by (auto simp: compute_agent_execution_actor_def call_binding_def approval_binding_def approved_request_def Let_def
        split: list.split)
qed

lemma re_invoked:
  assumes "re_invoke_approved_action env pt now r d context expected w = (Inr oc, w')" "oc_status oc = ACTION_EXECUTED"
  shows "\<exists>e v x. invoke_tool env now (np_fresh pt 1) (np_ambient pt) (np_call pt) (np_faults pt) (np_invoker pt)
      (approved_request r) context 1 (Some d) (tools_of w, nw_rest w) = (Inr e, v, x) \<and> te_is_ok e \<and>
    nw_governance w' = (case tw_governance v of Some s \<Rightarrow> s | None \<Rightarrow> nw_governance w) \<and>
    nw_grants w' = tw_grants v \<and> nw_approvals w' = nw_approvals w"
proof -
  obtain e w1 where inv: "invoke_action env pt now (approved_request r) context 1 (Some d) w = (Inr e, w1)"
      and rest: "if te_is_ok e then tables_kept w1 w' else oc_status oc \<noteq> ACTION_EXECUTED"
    using assms(1) unfolding re_invoke_approved_action_def and_then_Inr Let_def
    by (auto simp: and_then_Inr approved_outcome_def split: if_splits dest!: outside_kept)
  with assms(2) have ok: "te_is_ok e" and "tables_kept w1 w'" by (auto split: if_splits)
  with inv show ?thesis by (auto simp: invoke_action_def with_tools_def tables_kept_def split: prod.splits)
qed

lemma approval_steps:
  assumes "approve_in_transaction env pt now i approved_by note tenant expected w = (Inr v, w')"
  obtains r source e d c oc w1 w2 w3 where
    "tenant = expected" "get_approval (nw_approvals w) i expected = Some r" "av_status r = ''pending''"
    "av_proposed_by r \<noteq> Some approved_by" "with_resolution_metadata r expected w = (Inr e, w)"
    "record_manager_approval_decision env now e source approved_by note w = (Inr d, w1)"
    "execution_context_for_approval env e approved_by = Inr c"
    "re_invoke_approved_action env pt now e d c expected w1 = (Inr oc, w2)" "oc_status oc = ACTION_EXECUTED"
    "settle_approval now e expected ''approved'' approved_by note
       [(''manager_governance_decision_id'', PStr d), (''approved_by'', PStr approved_by)] w2 = (Inr v, w3)"
    "tables_kept w3 w'"
proof -
  obtain u r u1 source e d c oc u2 u3 a0 a1 a2 a3 a4 a5 a6 a7 a8 a9 where
      "assert_approval_tenant tenant expected w = (Inr u, a0)" "require_pending i expected a0 = (Inr r, a1)"
      "check (av_proposed_by r \<noteq> Some approved_by)
         (approval_error ''ActionApprovalSeparationError'' ''action approver must differ from proposer'') a1 = (Inr u1, a2)"
      "source_decision r expected a2 = (Inr source, a3)" "with_resolution_metadata r expected a3 = (Inr e, a4)"
      and rec: "record_manager_approval_decision env now e source approved_by note a4 = (Inr d, a5)"
      and "lifted (execution_context_for_approval env e approved_by) a5 = (Inr c, a6)"
      and re: "re_invoke_approved_action env pt now e d c expected a6 = (Inr oc, a7)"
      and "check (oc_status oc = ACTION_EXECUTED)
         (approval_error ''ActionApprovalRuntimeError''
           (''approved action did not execute: '' @ action_status_value (oc_status oc))) a7 = (Inr u2, a8)"
      and st: "settle_approval now e expected ''approved'' approved_by note
         [(''manager_governance_decision_id'', PStr d), (''approved_by'', PStr approved_by)] a8 = (Inr v, a9)"
      and cl: "complete_bound_case pt v a9 = (Inr u3, w')"
    using assms unfolding approve_in_transaction_def and_then_Inr basic_calls(1) by blast
  then have steps: "a0 = w" "a1 = w" "a2 = w" "a3 = w" "a4 = w" "a6 = a5" "a8 = a7" "tenant = expected"
      "av_proposed_by r \<noteq> Some approved_by" "execution_context_for_approval env e approved_by = Inr c"
      "oc_status oc = ACTION_EXECUTED"
    by (simp_all add: assert_approval_tenant_def require_pending_def source_decision_def with_resolution_metadata_def)
  have "get_approval (nw_approvals w) i expected = Some r" "av_status r = ''pending''"
    using \<open>require_pending i expected a0 = (Inr r, a1)\<close> steps
    by (auto simp: require_pending_def split: option.splits if_splits)
  moreover have "tables_kept a9 w'"
    using cl by (auto simp: complete_bound_case_def tables_kept_def split: option.splits dest: outside_kept)
  ultimately show ?thesis
    using that [of r e source d a5 c oc a7 a9] steps rec re st \<open>with_resolution_metadata r expected a3 = (Inr e, a4)\<close> by simp
qed

section \<open>Approving fires the action\<close>

text \<open>What has happened to an approved action.\<close>

definition action_fired ::
  "py_env \<Rightarrow> 'x action_ports \<Rightarrow> int \<Rightarrow> action_approval \<Rightarrow> 'x action_world \<Rightarrow> 'x action_world \<Rightarrow> bool" where
  "action_fired env pt now r w w' \<longleftrightarrow>
     (\<exists>t a c x' d decision g.
        dget (iv_tools (np_invoker pt)) (av_tool_name r) = Some t \<and>
        carried_out (np_call pt) t a c (nw_ledger w) (nw_rest w) x' \<and>
        tq_tool_name (az_request a) = av_tool_name r \<and> tq_payload (az_request a) = av_payload r \<and>
        get_decision (nw_governance w') d (Some (av_tenant_id r)) = Some decision \<and>
        dr_decision decision = decision_value ALLOW \<and>
        dget (dr_metadata decision) ''agent_action_binding'' = Some (PStr (approval_binding env r)) \<and>
        dget (nw_grants w') d = Some g \<and> gn_consumed_at g = Some now \<and> gn_actor g = execution_actor_for_approval r \<and>
        gn_binding_hash g = approval_binding env r \<and> az_provider_key a = Some (gn_idempotency_key g))"

lemma action_fired_cong:
  assumes "action_fired env pt now e w1 w2"
    and "av_tool_name e = av_tool_name r" "av_payload e = av_payload r" "av_tenant_id e = av_tenant_id r"
    and "execution_actor_for_approval e = execution_actor_for_approval r" "approval_binding env e = approval_binding env r"
    and "nw_ledger w1 = nw_ledger w" "nw_rest w1 = nw_rest w"
    and "nw_governance w2 = nw_governance w'" "nw_grants w2 = nw_grants w'"
  shows "action_fired env pt now r w w'"
  using assms(1) unfolding action_fired_def assms(2-) .

lemma invocation_fires:
  assumes "re_invoke_approved_action env pt now r d c expected w = (Inr oc, w')" "oc_status oc = ACTION_EXECUTED"
    and "execution_context_for_approval env r approved_by = Inr c"
  shows "action_fired env pt now r w w'" "av_tool_name r \<in> set action_tool_names" "nw_approvals w' = nw_approvals w"
proof -
  note c = approval_context [OF assms(3)]
  obtain e v x where inv: "invoke_tool env now (np_fresh pt 1) (np_ambient pt) (np_call pt) (np_faults pt) (np_invoker pt)
        (approved_request r) c 1 (Some d) (tools_of w, nw_rest w) = (Inr e, v, x)" "te_is_ok e"
      and w': "nw_governance w' = (case tw_governance v of Some s \<Rightarrow> s | None \<Rightarrow> nw_governance w)"
        "nw_grants w' = tw_grants v" "nw_approvals w' = nw_approvals w"
    using re_invoked [OF assms(1,2)] by blast
  obtain call_id t a w1 where begun: "begin_call env now (np_fresh pt 1) (np_ambient pt) (np_invoker pt) (tools_of w)
        (approved_request r) c 1 (Some d) = (Continues (call_id, t, a), w1)"
      and out: "carried_out (np_call pt) t a c (tw_ledger w1) (nw_rest w) x"
      and v: "tw_governance v = tw_governance w1" "tw_grants v = tw_grants w1"
    using invoked_ok [OF inv] .
  note tool = resolved_call [OF begun_call(1) [OF begun]]
  have name: "tq_tool_name (approved_request r) = av_tool_name r" "tq_payload (approved_request r) = av_payload r"
    by (simp_all add: approved_request_def Let_def)
  have pre: "authorize_pre_approved env now (np_invoker pt) (tools_of w) call_id (approved_request r) c d = (Continues a, w1)"
    using begun_call(2) [OF begun] by (simp add: authorize_def)
  note backing = pre_approved_backed [OF pre]
  obtain d' g where g: "az_decision_id a = Some d'" "gn_actor g = compute_agent_execution_actor c"
      "gn_binding_hash g = call_binding env (approved_request r) c" "az_provider_key a = Some (gn_idempotency_key g)"
      "tw_grants w1 = dset d' (consumed_grant now (compute_agent_execution_actor c) g) (tw_grants (tools_of w))"
    using begun_pre [OF begun] by blast
  have ledger: "tw_ledger w1 = nw_ledger w"
  proof -
    have "tw_ledger w1 = tw_ledger (tools_of w)" using begin_call_ledger begun by (metis snd_conv)
    then show ?thesis by (simp add: tools_of_def)
  qed
  obtain decision where decision: "persisted_decision w1 d' (Some (av_tenant_id r)) = Some decision"
      "dr_decision decision = decision_value ALLOW"
      "dget (dr_metadata decision) ''agent_action_binding'' = Some (PStr (approval_binding env r))"
    using backing c(1,4) g(1) by (auto simp: backed_def)
  then have "get_decision (nw_governance w') d' (Some (av_tenant_id r)) = Some decision"
    by (auto simp: persisted_decision_def w' v split: option.splits)
  moreover have "dget (nw_grants w') d' = Some (consumed_grant now (compute_agent_execution_actor c) g)"
    by (simp add: w' v g(5))
  ultimately show "action_fired env pt now r w w'"
    unfolding action_fired_def
    using tool(1) name out ledger decision(2,3) g(2-4) c(2,4) backing
    by (intro exI [of _ t] exI [of _ a] exI [of _ c] exI [of _ x] exI [of _ d'] exI [of _ decision]
        exI [of _ "consumed_grant now (compute_agent_execution_actor c) g"])
      (simp add: same_call_def consumed_grant_def)
  show "av_tool_name r \<in> set action_tool_names"
    using tool(2) name c(3) by (auto simp: permits_tool_def action_tool_names_def)
qed (use re_invoked [OF assms(1,2)] in blast)

section \<open>Actions that can never run\<close>

lemma foreign_denied:
  assumes "tq_tool_name request \<notin> set action_tool_names" "xc_allowed_tools (cx_constraints c) = action_tool_names" "1 \<le> ordinal"
  shows "\<exists>e. invoke_action env pt now request c ordinal pre w = (Inr e, w) \<and> te_is_denied e \<and> \<not> te_is_ok e \<and>
    metadata_str (tt_metadata (te_trace e)) ''governance_decision'' = None"
proof -
  obtain call_id where call_id: "derive_tool_invocation_id env (ei_execution_id (cx_execution c)) (tq_tool_name request) ordinal
      (tq_payload request) (tq_metadata request) = Inr call_id"
    using assms(3) by (simp add: derive_tool_invocation_id_def)
  have "\<not> permits_tool (cx_constraints c) (tq_tool_name request)"
    using assms(1,2) by (auto simp: permits_tool_def action_tool_names_def)
  then have "\<exists>err reason. resolve_call env (np_invoker pt) call_id request c =
      Inl (denied_envelope call_id request c err reason None None [])"
    unfolding resolve_call_def
    by (cases "get_tool env (iv_tools (np_invoker pt)) (tq_tool_name request)") (simp only: sum.case sum.inject if_True simp_thms, blast)+
  then obtain err reason where "resolve_call env (np_invoker pt) call_id request c =
      Inl (denied_envelope call_id request c err reason None None [])" by blast
  with call_id have "invoke_action env pt now request c ordinal pre w =
      (Inr (denied_envelope call_id request c err reason None None []), w)"
    by (simp add: invoke_action_def invoke_tool_def begin_call_def with_tools_def tools_of_def)
  then show ?thesis
    by (simp add: te_is_denied_def denied_envelope_def errored_envelope_def dmerge_def metadata_str_def get_or_none_def te_is_ok_def)
qed

definition same_tables :: "'x action_world \<Rightarrow> 'x action_world \<Rightarrow> bool" where
  "same_tables w w' \<longleftrightarrow> nw_governance w' = nw_governance w \<and> nw_grants w' = nw_grants w \<and> nw_ledger w' = nw_ledger w \<and>
     nw_approvals w' = nw_approvals w \<and> nw_resolution w' = nw_resolution w"

lemma outside_same: "on_outside f w = (r, w') \<Longrightarrow> same_tables w w'"
  by (auto simp: on_outside_def same_tables_def split: prod.splits)

text \<open>(C11) An action of any other tool never runs and can never be approved.  Both contexts
  in which actions are executed allow four tool names.  Whatever the tenant registered
  and its policy allows, an attempt by the agent with another tool is denied (or the
  timeline raises) and parks nothing for approval; and approving an approval for such a
  tool, whoever put it there and however often it is tried, raises and leaves every table
  as it was, so that the approval stays pending.\<close>

theorem foreign_action_stuck:
  assumes "name \<notin> set action_tool_names"
  shows "(\<forall>r. get_approval (nw_approvals w) i expected = Some r \<longrightarrow> av_tool_name r = name \<longrightarrow>
      (\<exists>e w'. approve_action env pt now i approved_by note tenant expected w = (Inl e, w') \<and> same_tables w w')) \<and>
    (\<forall>item c p action oc w'. action_execution_context env item = Inr c \<longrightarrow> tool_name_for action = Some name \<longrightarrow> 1 \<le> ordinal \<longrightarrow>
      execute_action env pt now p c tenant ordinal action w = (Inr oc, w') \<longrightarrow>
      oc_status oc = ACTION_DENIED \<and> same_tables w w')"
proof (intro conjI allI impI)
  fix r assume r: "get_approval (nw_approvals w) i expected = Some r" "av_tool_name r = name"
  have "\<nexists>v w'. approve_in_transaction env pt now i approved_by note tenant expected w = (Inr v, w')"
  proof safe
    fix v w' assume body: "approve_in_transaction env pt now i approved_by note tenant expected w = (Inr v, w')"
    show False
    proof (rule approval_steps [OF body])
      fix r' source e d c oc w1 w2 w3
      assume "get_approval (nw_approvals w) i expected = Some r'" and e: "with_resolution_metadata r' expected w = (Inr e, w)"
        and c: "execution_context_for_approval env e approved_by = Inr c"
        and re: "re_invoke_approved_action env pt now e d c expected w1 = (Inr oc, w2)" "oc_status oc = ACTION_EXECUTED"
      then have "av_tool_name e = name" using r enriched(4) by fastforce
      with invocation_fires(2) [OF re c] assms show False by simp
    qed
  qed
  then obtain e w' where "approve_in_transaction env pt now i approved_by note tenant expected w = (Inl e, w')"
    by (cases "approve_in_transaction env pt now i approved_by note tenant expected w"; case_tac a) auto
  then show "\<exists>e w'. approve_action env pt now i approved_by note tenant expected w = (Inl e, w') \<and> same_tables w w'"
    by (simp add: approve_action_def in_transaction_def and_then_def undone_def same_tables_def)
next
  fix item c p action oc w'
  assume c: "action_execution_context env item = Inr c" and name: "tool_name_for action = Some name" and "1 \<le> ordinal"
    and run: "execute_action env pt now p c tenant ordinal action w = (Inr oc, w')"
  have allowed: "xc_allowed_tools (cx_constraints c) = action_tool_names"
    using c by (auto simp: action_execution_context_def action_constraints_def split: option.splits)
  obtain a envelope w1 w2 where a: "prepare_action env p action tenant
        (case metadata_str action ''type'' of Some t \<Rightarrow> t | None \<Rightarrow> ''unknown'') name = Inr a"
      and inv: "invoke_action env pt now (action_request p action a) c ordinal None w = (Inr envelope, w1)"
      and settle: "settle_action env pt now p a c tenant envelope w1 = (Inr oc, w')"
    using run name by (auto simp: execute_action_def Let_def and_then_Inr dest!: sym [of "Inr _"])
  have "tq_tool_name (action_request p action a) = name"
    using a by (auto simp: prepare_action_def bind_result_def Let_def action_request_def split: sum.splits)
  then obtain e where e: "envelope = e" "w1 = w" "te_is_denied e" "\<not> te_is_ok e"
      "metadata_str (tt_metadata (te_trace e)) ''governance_decision'' = None"
    using foreign_denied [of "action_request p action a" c ordinal env pt now None w] assms allowed \<open>1 \<le> ordinal\<close> inv by auto
  from settle e show "oc_status oc = ACTION_DENIED" and "same_tables w w'"
    by (auto simp: settle_action_def Let_def and_then_Inr append_action_event_def outcome_of_def dest: outside_same)
qed

section \<open>Worked example\<close>

definition demo_approval :: action_approval where
  "demo_approval = \<lparr>av_approval_id = ''a1'', av_tenant_id = ''t1'', av_session_id = ''s1'', av_execution_id = None,
     av_tool_name = ''refund.request'', av_key = ''k1'', av_payload = [(''amount'', PInt 4000)], av_decision_id = Some ''d1'',
     av_status = ''pending'', av_requested_at = 0, av_resolved_at = None, av_resolved_by = None, av_note = None, av_metadata = [],
     av_proposed_by = Some ''agent:a1''\<rparr>"

definition demo_actions :: "nat action_world" where
  "demo_actions = \<lparr>nw_governance = empty_governance_store\<lparr>gs_decisions := [(''d1'', demo_allowance)]\<rparr>, nw_grants = [], nw_ledger = [],
     nw_effects = [], nw_approvals = \<lparr>vt_by_id = [(''a1'', demo_approval)], vt_by_key = [(''k1'', demo_approval)]\<rparr>,
     nw_resolution = empty_resolution_store, nw_rest = 0\<rparr>"

text \<open>The tool is the refund connector of \<open>Connector_Promises\<close>, whose provider counts its
  requests and answers each with 500.\<close>

definition demo_refund :: "tool \<Rightarrow> tool_request \<Rightarrow> agent_context \<Rightarrow> nat \<Rightarrow> tool_outcome \<times> nat" where
  "demo_refund t request c n =
     generic_invoke demo_env demo_provider [((''t1'', ''refund.request''), demo_config)] demo_generic request c n"

definition demo_action_ports ::
  "(uuid \<Rightarrow> string \<Rightarrow> string \<Rightarrow> string \<Rightarrow> int \<Rightarrow> string \<Rightarrow> nat \<Rightarrow> unit result \<times> nat) option \<Rightarrow> nat action_ports" where
  "demo_action_ports complete = \<lparr>np_invoker = demo_invoker, np_call = demo_refund,
     np_faults = (None, None), np_fresh = (\<lambda>n. ''f''), np_ambient = None, np_timeline = (\<lambda>now event n. (Inr (), n)),
     np_crisis_case = None, np_complete_case = complete, np_undo = (\<lambda>before after. after), np_flush = None\<rparr>"

lemma demo_ports_fields [simp]:
  "np_invoker (demo_action_ports complete) = demo_invoker" "np_faults (demo_action_ports complete) = (None, None)"
  "np_call (demo_action_ports complete) = demo_refund"
  "np_timeline (demo_action_ports complete) now event n = (Inr (), n)"
  "np_complete_case (demo_action_ports complete) = complete" "np_flush (demo_action_ports complete) = None"
  "np_undo (demo_action_ports complete) m n = n"
  by (simp_all add: demo_action_ports_def)

definition demo_booking :: action_approval where
  "demo_booking = demo_approval\<lparr>av_tool_name := ''repair.booking''\<rparr>"

definition demo_stuck :: "nat action_world" where
  "demo_stuck = demo_actions\<lparr>nw_approvals := \<lparr>vt_by_id = [(''a1'', demo_booking)], vt_by_key = [(''k1'', demo_booking)]\<rparr>\<rparr>"

lemma foreign_action_stuck_witness:
  "\<exists>e w. approve_action demo_env (demo_action_ports None) 1 ''a1'' ''m1'' None ''t1'' ''t1'' demo_stuck = (Inl e, w) \<and>
     same_tables demo_stuck w"
proof -
  have "get_approval (nw_approvals demo_stuck) ''a1'' ''t1'' = Some demo_booking" "av_tool_name demo_booking = ''repair.booking''"
    by (simp_all add: get_approval_def of_approval_tenant_def demo_stuck_def demo_booking_def demo_approval_def)
  moreover have "''repair.booking'' \<notin> set action_tool_names" by (simp add: action_tool_names_def)
  ultimately show ?thesis using foreign_action_stuck by blast
qed

end
