(* ===== verification/Action_Retries.thy ===== *)
theory Action_Retries
  imports Action_Promises
begin

text \<open>
  When the manager's approval goes through, whatever the tool reports, and what a rollback
  after the tool ran leads to.
\<close>

section \<open>What an approval has done when it returns\<close>

text \<open>(C8) Approving an action carries out that action.  When the call returns, the
  approval was pending and proposed by someone else; its tool is one of the four the
  context allows; the registered tool was called with the stored payload and returned, or
  the ledger already held that call as succeeded; a decision to allow made out to this
  tenant, tool, actor and payload is on record, and its one-time grant, consumed now, is
  where the provider key of the call came from; and the approval is stored as approved by
  the manager, tool and payload unchanged.\<close>

theorem approved_action_fires:
  assumes "approve_action env pt now i approved_by note tenant expected w = (Inr v, w')" "table_keyed (nw_approvals w)"
  shows "\<exists>r. get_approval (nw_approvals w) i tenant = Some r \<and> av_status r = ''pending'' \<and>
    av_proposed_by r \<noteq> Some approved_by \<and> av_tool_name r \<in> set action_tool_names \<and> action_fired env pt now r w w' \<and>
    get_approval (nw_approvals w') i tenant = Some v \<and> av_status v = ''approved'' \<and> av_resolved_by v = Some approved_by \<and>
    av_tool_name v = av_tool_name r \<and> av_payload v = av_payload r"
proof -
  obtain w4 where body: "approve_in_transaction env pt now i approved_by note tenant expected w = (Inr v, w4)"
      and flushed: "tables_kept w4 w'"
    using assms(1)
    by (auto simp: approve_action_def and_then_Inr in_transaction_def flush_after_commit_def tables_kept_def
        split: prod.splits sum.splits option.splits dest: outside_kept)
  obtain r source e d c oc w1 w2 w3 where steps: "tenant = expected"
    "get_approval (nw_approvals w) i expected = Some r" "av_status r = ''pending''"
    "av_proposed_by r \<noteq> Some approved_by" "with_resolution_metadata r expected w = (Inr e, w)"
    "record_manager_approval_decision env now e source approved_by note w = (Inr d, w1)"
    "execution_context_for_approval env e approved_by = Inr c"
    "re_invoke_approved_action env pt now e d c expected w1 = (Inr oc, w2)" "oc_status oc = ACTION_EXECUTED"
    "settle_approval now e expected ''approved'' approved_by note
       [(''manager_governance_decision_id'', PStr d), (''approved_by'', PStr approved_by)] w2 = (Inr v, w3)"
    "tables_kept w3 w4"
    using approval_steps [OF body] .
  note e = enriched [OF steps(5)] and fired = invocation_fires [OF steps(8,9,7)]
  note kept = recorded_decision(2) [OF steps(6)]
  have "av_approval_id r = i" using assms(2) steps(2)
    by (auto simp: table_keyed_def get_approval_def of_approval_tenant_def split: option.splits if_splits)
  then obtain t' where t': "resolve_approval (nw_approvals w2) i expected ''approved'' now approved_by note
        (dmerge (av_metadata e) [(''manager_governance_decision_id'', PStr d), (''approved_by'', PStr approved_by)]) = (Some v, t')"
      "w3 = w2\<lparr>nw_approvals := t'\<rparr>"
    using steps(10) e(2) by (auto simp: settle_approval_def on_approvals_def split: prod.splits option.splits)
  obtain r2 where r2: "get_approval (nw_approvals w2) i expected = Some r2"
      "v = resolved_approval ''approved'' now approved_by note
        (dmerge (av_metadata e) [(''manager_governance_decision_id'', PStr d), (''approved_by'', PStr approved_by)]) r2"
      "get_approval t' i expected = Some v"
    using resolved [OF t'(1)] by blast
  have "r2 = r" using r2(1) steps(2) kept fired(3) by (simp add: rest_kept_def)
  moreover have "action_fired env pt now r w w'"
    by (rule action_fired_cong [OF fired(1)])
      (use e kept steps(11) flushed t'(2) in \<open>simp_all add: rest_kept_def tables_kept_def\<close>)
  ultimately show ?thesis
    using steps(1-4,11) fired(2) e(4) r2 t'(2) flushed
    by (auto simp: resolved_approval_def tables_kept_def)
qed

section \<open>An approval that nothing stands in the way of\<close>

definition manager_grant_id :: "py_env \<Rightarrow> action_approval \<Rightarrow> uuid \<Rightarrow> uuid" where
  "manager_grant_id env e d = derive_agent_action_grant_id env (av_tenant_id e) d"

definition manager_key :: "py_env \<Rightarrow> action_approval \<Rightarrow> uuid \<Rightarrow> uuid" where
  "manager_key env e d = derive_provider_idempotency_key env (av_tenant_id e) (manager_grant_id env e d)
     (compute_agent_action_payload_hash env (av_payload e))"

text \<open>The request that reaches the tool.\<close>

definition manager_request :: "py_env \<Rightarrow> action_approval \<Rightarrow> uuid \<Rightarrow> tool_request" where
  "manager_request env e d = keyed_request (approved_request e)
     [(''agent_action_provider_idempotency_key'', PStr (manager_key env e d)),
      (''agent_action_grant_id'', PStr (manager_grant_id env e d))]"

text \<open>The decision, its grant and its call are new to the tables.\<close>

definition ungranted :: "py_env \<Rightarrow> action_approval \<Rightarrow> uuid \<Rightarrow> grant_table \<Rightarrow> bool" where
  "ungranted env e d gt \<longleftrightarrow> dget gt d = None \<and>
     (\<forall>g\<in>set (dvals gt). gn_grant_id g \<noteq> manager_grant_id env e d \<and> gn_idempotency_key g \<noteq> manager_key env e d)"

definition unspent :: "py_env \<Rightarrow> action_approval \<Rightarrow> uuid \<Rightarrow> 'x action_world \<Rightarrow> bool" where
  "unspent env e d w \<longleftrightarrow>
     dget (gs_decisions (nw_governance w)) d = None \<and> dget (gs_traces (nw_governance w)) d = None \<and>
     ungranted env e d (nw_grants w) \<and>
     get_invocation (nw_ledger w) (av_tenant_id e) (manager_key env e d) = None"

text \<open>The invoker is set up as the application does it and knows the tool.\<close>

definition equipped :: "invoker \<Rightarrow> string \<Rightarrow> tool \<Rightarrow> bool" where
  "equipped iv name t \<longleftrightarrow> iv_governance iv \<noteq> None \<and> iv_grants iv \<and> iv_ledger iv \<and> 1 \<le> iv_ttl_seconds iv \<and>
     name \<in> set action_tool_names \<and> dget (iv_tools iv) name = Some t \<and> tool_capability_of t \<noteq> READ_ONLY \<and>
     set (tl_required_capabilities t) \<subseteq> cap_name ` set action_capabilities"

text \<open>What the standard library is relied on for: SHA-256 in hexadecimal, the times and
  identities written are read back.\<close>

definition plain_env :: "py_env \<Rightarrow> int \<Rightarrow> uuid \<Rightarrow> bool" where
  "plain_env env now d \<longleftrightarrow> (\<forall>s. ascii_text (sha256_hex env s) \<and> length (sha256_hex env s) = 64) \<and>
     fromisoformat env (isoformat env now) = Some (Aware now) \<and> uuid_parse env d = Some d"

definition approvable ::
  "py_env \<Rightarrow> invoker \<Rightarrow> uuid \<Rightarrow> string \<Rightarrow> string \<Rightarrow> 'x action_world \<Rightarrow> action_approval \<Rightarrow> tool \<Rightarrow> agent_context \<Rightarrow> uuid
     \<Rightarrow> bool" where
  "approvable env iv i approved_by tenant w e t c d \<longleftrightarrow>
     (\<exists>r s source. get_approval (nw_approvals w) i tenant = Some r \<and> av_approval_id r = i \<and> av_status r = ''pending'' \<and>
        av_proposed_by r \<noteq> Some approved_by \<and> av_decision_id r = Some s \<and>
        get_decision (nw_governance w) s (Some tenant) = Some source \<and>
        with_resolution_metadata r tenant w = (Inr e, w) \<and> d = manager_decision_id env e source) \<and>
     execution_context_for_approval env e approved_by = Inr c \<and> av_tenant_id e = tenant \<and> tenant \<noteq> [] \<and>
     manager_key env e d \<noteq> [] \<and> equipped iv (av_tool_name e) t \<and> unspent env e d w"

section \<open>The steps\<close>

lemma actor_nonempty [simp]: "execution_actor_for_approval r \<noteq> []"
  by (auto simp: execution_actor_for_approval_def metadata_str_def split: option.splits if_splits elim!: stripped_text.elims)

definition new_grant :: "py_env \<Rightarrow> int \<Rightarrow> action_approval \<Rightarrow> uuid \<Rightarrow> action_grant" where
  "new_grant env now e d =
     \<lparr>gn_grant_id = manager_grant_id env e d, gn_tenant_id = av_tenant_id e, gn_decision_id = d, gn_tool_name = av_tool_name e,
      gn_action = ''agent.tool_invocation'', gn_actor = execution_actor_for_approval e,
      gn_payload_hash = compute_agent_action_payload_hash env (av_payload e), gn_binding_hash = approval_binding env e,
      gn_idempotency_key = manager_key env e d, gn_issued_at = now, gn_expires_at = None, gn_consumed_at = None,
      gn_consumed_by = None,
      gn_metadata = dset ''_schema_version'' (PStr ''1'')
        [(''source'', PStr ''manager_approval''), (''action_approval_id'', PStr (av_approval_id e)),
         (''tool_name'', PStr (av_tool_name e))]\<rparr>"

lemma new_grant_issued:
  assumes "ungranted env e d (nw_grants w)" "av_tenant_id e \<noteq> []"
  shows "issue_manager_action_grant env e d now w = (Inr (new_grant env now e d), w\<lparr>nw_grants := dset d (new_grant env now e d) (nw_grants w)\<rparr>)"
proof -
  have "dget (nw_grants w) d = None"
    "\<not> (\<exists>g\<in>set (dvals (nw_grants w)). gn_grant_id g = manager_grant_id env e d \<or> gn_idempotency_key g = manager_key env e d)"
    using assms(1) by (auto simp: ungranted_def simp del: map_of_eq_None_iff)
  with assms(2) show ?thesis
    by (simp add: issue_manager_action_grant_def issue_grant_def Let_def get_grant_def new_grant_def manager_grant_id_def
        manager_key_def grant_mismatches_def del: map_of_eq_None_iff)
qed

lemma decision_recorded:
  assumes "unspent env e (manager_decision_id env e source) w" "av_tenant_id e \<noteq> []"
  shows "\<exists>w'. record_manager_approval_decision env now e source approved_by note w =
      (Inr (manager_decision_id env e source), w') \<and>
    get_decision (nw_governance w') (manager_decision_id env e source) (Some (av_tenant_id e)) =
      Some (manager_decision env now e source approved_by note) \<and>
    nw_grants w' = dset (manager_decision_id env e source) (new_grant env now e (manager_decision_id env e source)) (nw_grants w) \<and>
    rest_kept w w'"
proof -
  let ?i = "manager_decision_id env e source"
  have fresh: "dget (gs_decisions (nw_governance w)) ?i = None" "dget (gs_traces (nw_governance w)) ?i = None"
    using assms(1) by (auto simp: unspent_def simp del: map_of_eq_None_iff)
  have none: "get_decision (nw_governance w) ?i (Some (av_tenant_id e)) = None"
    using fresh by (simp add: get_decision_def del: map_of_eq_None_iff)
  have id: "dr_decision_id (manager_decision env now e source approved_by note) = ?i"
    "dr_tenant_id (manager_decision env now e source approved_by note) = Some (av_tenant_id e)"
    "gt_decision_id (manager_trace e (manager_decision env now e source approved_by note) approved_by) = ?i"
    by (simp_all add: manager_decision_def Let_def manager_trace_def)
  define w3 where "w3 = w\<lparr>nw_governance := record_enforcement_action
     ((nw_governance w)\<lparr>gs_decisions := dset ?i (manager_decision env now e source approved_by note) (gs_decisions (nw_governance w)),
        gs_traces := dset ?i (manager_trace e (manager_decision env now e source approved_by note) approved_by)
          (gs_traces (nw_governance w))\<rparr>)
     (manager_enforcement env e (manager_decision env now e source approved_by note))\<rparr>"
  have unspent: "issue_manager_action_grant env e ?i now w3 =
      (Inr (new_grant env now e ?i), w3\<lparr>nw_grants := dset ?i (new_grant env now e ?i) (nw_grants w3)\<rparr>)"
    by (rule new_grant_issued) (use assms in \<open>simp_all add: unspent_def w3_def\<close>)
  have "record_manager_approval_decision env now e source approved_by note w =
      (Inr ?i, w3\<lparr>nw_grants := dset ?i (new_grant env now e ?i) (nw_grants w3)\<rparr>)"
    using none fresh id unspent
    by (simp add: record_manager_approval_decision_def Let_def on_decisions_def record_decision_def record_trace_def
        and_then_def reading_def answer_def w3_def del: map_of_eq_None_iff)
  moreover have "get_decision (nw_governance w3) ?i (Some (av_tenant_id e)) =
      Some (manager_decision env now e source approved_by note)"
    using id by (simp add: w3_def get_decision_def record_enforcement_action_def gov_visible_def)
  ultimately show ?thesis by (simp add: rest_kept_def w3_def)
qed

definition manager_authorization :: "py_env \<Rightarrow> action_approval \<Rightarrow> uuid \<Rightarrow> authorization" where
  "manager_authorization env e d = \<lparr>az_request = manager_request env e d, az_governance = None, az_decision_id = Some d,
     az_provider_key = Some (manager_key env e d)\<rparr>"

lemma approved_call_begins:
  fixes w :: "'x action_world"
  assumes "plain_env env now d" "equipped iv (av_tool_name e) t"
    and c: "execution_context_for_approval env e approved_by = Inr c"
    and decision: "get_decision (nw_governance w) d (Some (av_tenant_id e)) = Some (manager_decision env now e source approved_by note)"
    and grant: "dget (nw_grants w) d = Some (new_grant env now e d)"
  shows "\<exists>call_id. begin_call env now fresh ambient iv (tools_of w) (approved_request e) c 1 (Some d) =
    (Continues (call_id, t, manager_authorization env e d),
     (tools_of w)\<lparr>tw_grants := dset d (consumed_grant now (execution_actor_for_approval e) (new_grant env now e d)) (nw_grants w),
        tw_effects := nw_effects w @ (if iv_redis iv then [Consumed_Marker (marker_key (av_tenant_id e) d)] else [])\<rparr>)"
proof -
  note ctx = approval_context [OF c]
  have ascii: "ascii_text (approval_binding env e)"
    using assms(1) by (simp add: plain_env_def approval_binding_def compute_agent_action_binding_def)
  have req: "tq_tool_name (approved_request e) = av_tool_name e" "tq_payload (approved_request e) = av_payload e"
    by (simp_all add: approved_request_def Let_def)
  have "cx_capabilities c = action_capabilities"
    using c by (auto simp: execution_context_for_approval_def Let_def bind_result_def split: sum.splits)
  then have resolved: "resolve_call env iv call_id (approved_request e) c = Inr t" for call_id
    using assms(2) req ctx(3)
    by (auto simp: resolve_call_def get_tool_def equipped_def permits_tool_def required_missing_def Let_def filter_empty_conv)
  have persisted: "persisted_decision (tools_of w) d (Some (av_tenant_id e)) =
      Some (manager_decision env now e source approved_by note)"
    using decision by (simp add: persisted_decision_def tools_of_def)
  have fields: "dr_decision (manager_decision env now e source approved_by note) = decision_value ALLOW"
    "dr_decided_at (manager_decision env now e source approved_by note) = isoformat env now"
    by (simp_all add: manager_decision_def Let_def)
  have bound: "binding_matches (manager_decision env now e source approved_by note) (approval_binding env e) = Inr True"
    using ascii by (simp add: binding_matches_def manager_decision_def Let_def manager_decision_metadata_def compare_digest_def)
  have live: "\<not> decision_expired env now iv (isoformat env now)"
    using assms(1,2) by (simp add: decision_expired_def plain_env_def equipped_def)
  let ?g = "new_grant env now e d"
  have claimed: "consume_grant env now (nw_grants w) d (av_tenant_id e) (execution_actor_for_approval e) =
      (Inr (consumed_grant now (execution_actor_for_approval e) ?g),
       dset d (consumed_grant now (execution_actor_for_approval e) ?g) (nw_grants w))"
    using grant by (simp add: consume_grant_def get_grant_def new_grant_def)
  have same: "compare_digest (gn_binding_hash (consumed_grant now (execution_actor_for_approval e) ?g)) (approval_binding env e) = Inr True"
    "gn_idempotency_key (consumed_grant now (execution_actor_for_approval e) ?g) = manager_key env e d"
    "gn_grant_id (consumed_grant now (execution_actor_for_approval e) ?g) = manager_grant_id env e d"
    using ascii by (simp_all add: new_grant_def compare_digest_def consumed_grant_def)
  have tools: "tw_grants (tools_of w) = nw_grants w" "tw_effects (tools_of w) = nw_effects w" by (simp_all add: tools_of_def)
  have claim: "claim_grant env now iv (tools_of w) call_id (approved_request e) c (av_tenant_id e) d (execution_actor_for_approval e)
       (approval_binding env e) = (Continues (manager_authorization env e d),
     (tools_of w)\<lparr>tw_grants := dset d (consumed_grant now (execution_actor_for_approval e) ?g) (nw_grants w),
        tw_effects := nw_effects w @ (if iv_redis iv then [Consumed_Marker (marker_key (av_tenant_id e) d)] else [])\<rparr>)"
    for call_id
    unfolding claim_grant_def tools claimed
    by (simp add: same manager_authorization_def manager_request_def)
  have "authorize_pre_approved env now iv (tools_of w) call_id (approved_request e) c d = (Continues (manager_authorization env e d),
     (tools_of w)\<lparr>tw_grants := dset d (consumed_grant now (execution_actor_for_approval e) ?g) (nw_grants w),
        tw_effects := nw_effects w @ (if iv_redis iv then [Consumed_Marker (marker_key (av_tenant_id e) d)] else [])\<rparr>)"
    for call_id
    using assms(1,2) ctx persisted fields bound live claim req
    by (auto simp: authorize_pre_approved_def Let_def plain_env_def equipped_def approval_binding_def)
  with resolved show ?thesis by (simp add: begin_call_def derive_tool_invocation_id_def authorize_def)
qed

lemma metadata_str_nonempty: "metadata_str md k = Some s \<Longrightarrow> s \<noteq> []"
  by (auto simp: metadata_str_def split: option.splits if_splits elim!: stripped_text.elims)

lemma first_text_in: "first_text xs = Some s \<Longrightarrow> Some s \<in> set xs"
  by (auto simp: first_text_def filter_eq_Cons_iff split: list.splits)

lemma connector_texts_nonempty:
  assumes "tq_tool_name r \<noteq> []"
  shows "connector_action_type r \<noteq> []" "connector_target_resource r \<noteq> []"
proof -
  have none: "metadata_str md k \<noteq> Some []" for md k using metadata_str_nonempty by blast
  have "first_text [metadata_str md a, metadata_str md b] \<noteq> Some []" for md a b
    using first_text_in [of "[metadata_str md a, metadata_str md b]" "[]"] none [symmetric] by auto
  moreover have "first_text [metadata_str md a, metadata_str md b, metadata_str md k] \<noteq> Some []" for md a b k
    using first_text_in [of "[metadata_str md a, metadata_str md b, metadata_str md k]" "[]"] none [symmetric] by auto
  ultimately show "connector_action_type r \<noteq> []" "connector_target_resource r \<noteq> []"
    using assms by (auto simp: connector_action_type_def connector_target_resource_def split: option.splits)
qed

text \<open>The ledger row of the call, as reserved and as completed.\<close>

definition manager_row :: "py_env \<Rightarrow> int \<Rightarrow> action_approval \<Rightarrow> uuid \<Rightarrow> connector_invocation" where
  "manager_row env now e d =
     \<lparr>ci_tenant_id = av_tenant_id e, ci_provider_key = manager_key env e d, ci_connector_type = av_tool_name e,
      ci_action_type = connector_action_type (manager_request env e d),
      ci_target_resource = connector_target_resource (manager_request env e d),
      ci_request_hash = hash_connector_request env (av_payload e), ci_status = CI_PENDING, ci_provider_id = None,
      ci_provider_status = None, ci_provider_error = None, ci_attempt = 1, ci_decision_id = Some d, ci_created_at = now,
      ci_completed_at = None\<rparr>"

lemma manager_request_fields [simp]:
  "tq_tool_name (manager_request env e d) = av_tool_name e" "tq_payload (manager_request env e d) = av_payload e"
  by (simp_all add: manager_request_def keyed_request_def approved_request_def Let_def)

lemma approved_call_reserves:
  assumes "plain_env env now d" "equipped iv (av_tool_name e) t" "cx_tenant_id c = Some (av_tenant_id e)"
    and "av_tenant_id e \<noteq> []" "manager_key env e d \<noteq> []"
    and "get_invocation (tw_ledger w) (av_tenant_id e) (manager_key env e d) = None"
  shows "reserve_call env now None iv w call_id c t (manager_authorization env e d) =
    (Continues \<lparr>cl_call_id = call_id, cl_tool = t, cl_context = c, cl_authorization = manager_authorization env e d,
       cl_reserved = Some (manager_row env now e d)\<rparr>,
     w\<lparr>tw_ledger := dset (av_tenant_id e, manager_key env e d) (manager_row env now e d) (tw_ledger w)\<rparr>)"
proof -
  have "tq_tool_name (manager_request env e d) \<noteq> []"
    using assms(2) by (auto simp: equipped_def action_tool_names_def)
  note texts = connector_texts_nonempty [OF this]
  have "length (hash_connector_request env (av_payload e)) = 64"
    using assms(1) by (simp add: plain_env_def hash_connector_request_def)
  with assms texts show ?thesis
    by (auto simp: reserve_call_def Let_def manager_authorization_def equipped_def reserve_invocation_def manager_row_def
        action_tool_names_def)
qed

lemma completion_terminal [simp]: "connector_completion_status env r \<noteq> CI_PENDING"
  by (simp add: connector_completion_status_def Let_def)

definition settled_manager_row :: "py_env \<Rightarrow> int \<Rightarrow> action_approval \<Rightarrow> uuid \<Rightarrow> tool_result \<Rightarrow> connector_invocation" where
  "settled_manager_row env now e d result =
     settled_invocation now (connector_completion_status env result) (connector_result_text result ''provider_id'')
       (connector_provider_status result) (connector_provider_error result) (manager_row env now e d)"

lemma approved_call_finishes:
  assumes "get_invocation (tw_ledger w) (av_tenant_id e) (manager_key env e d) = Some (manager_row env now e d)"
  shows "\<exists>envelope. finish_call env now None w
      \<lparr>cl_call_id = call_id, cl_tool = t, cl_context = c, cl_authorization = manager_authorization env e d,
       cl_reserved = Some (manager_row env now e d)\<rparr> (Tool_Returned result) =
    (envelope, w\<lparr>tw_ledger := dset (av_tenant_id e, manager_key env e d) (settled_manager_row env now e d result) (tw_ledger w)\<rparr>)
    \<and> te_is_ok envelope"
  using assms
  by (simp add: finish_call_def Let_def settle_row_def complete_invocation_def manager_row_def settled_manager_row_def
      ok_envelope_def te_is_ok_def)

section \<open>The approval goes through\<close>

text \<open>The event of the timeline, and what follows the tool: completing the approval case bound to
  the approval and, after the commit, the flush; either may be absent.\<close>

definition executed_event :: "action_approval \<Rightarrow> action_event \<Rightarrow> bool" where
  "executed_event e event \<longleftrightarrow> ae_event_type event = ''action_executed'' \<and> ae_tenant_id event = av_tenant_id e \<and>
     ae_session_id event = av_session_id e \<and> ae_key event = ''action:approved-executed:'' @ av_key e"

definition completing ::
  "'x action_ports \<Rightarrow> uuid \<Rightarrow> string \<Rightarrow> string \<Rightarrow> int \<Rightarrow> string option \<Rightarrow> 'x \<Rightarrow> unit result \<times> 'x" where
  "completing pt i tenant approved_by now note y =
     (case np_complete_case pt of None \<Rightarrow> (Inr (), y)
      | Some complete \<Rightarrow> complete i tenant ''approved'' approved_by now (case note of None \<Rightarrow> [] | Some n \<Rightarrow> n) y)"

definition flushing :: "'x action_ports \<Rightarrow> 'x \<Rightarrow> unit result \<times> 'x" where
  "flushing pt y = (case np_flush pt of None \<Rightarrow> (Inr (), y) | Some flush \<Rightarrow> flush y)"

definition tells :: "'x action_ports \<Rightarrow> int \<Rightarrow> bool" where
  "tells pt now \<longleftrightarrow> np_faults pt = (None, None) \<and> (\<forall>event y. fst (np_timeline pt now event y) = Inr ())"

lemma re_invoke_ok:
  assumes "invoke_action env pt now (approved_request r) c 1 (Some d) w = (Inr envelope, w1)" "te_is_ok envelope"
    and "av_tenant_id r = tenant" "tells pt now"
  shows "\<exists>oc event. re_invoke_approved_action env pt now r d c tenant w =
      (Inr oc, w1\<lparr>nw_rest := snd (np_timeline pt now event (nw_rest w1))\<rparr>) \<and> oc_status oc = ACTION_EXECUTED \<and>
    executed_event r event"
proof -
  have told: "np_timeline pt now event y = (Inr (), snd (np_timeline pt now event y))" for event y
    using assms(4) by (intro prod_eqI) (simp_all add: tells_def)
  have told: "on_outside (np_timeline pt now event) w1 = (Inr (), w1\<lparr>nw_rest := snd (np_timeline pt now event (nw_rest w1))\<rparr>)"
    for event unfolding on_outside_def by (subst told) simp
  show ?thesis
    using assms(1-3) unfolding re_invoke_approved_action_def
    by (intro exI [of _ "approved_outcome r ACTION_EXECUTED (tt_decision_id (te_trace envelope))"] exI)
      (auto simp: and_then_def check_def lifted_def raise_unless_def Let_def told answer_def approved_outcome_def
        executed_event_def)
qed

lemma approved_action_called:
  fixes w :: "'x action_world"
  assumes "plain_env env now d" "equipped (np_invoker pt) (av_tool_name e) t"
    and "execution_context_for_approval env e approved_by = Inr c"
    and "av_tenant_id e = tenant" "tenant \<noteq> []" "manager_key env e d \<noteq> []"
    and "get_decision (nw_governance w) d (Some tenant) = Some (manager_decision env now e source approved_by note)"
    and "dget (nw_grants w) d = Some (new_grant env now e d)"
    and "get_invocation (nw_ledger w) tenant (manager_key env e d) = None"
    and "tells pt now"
    and "np_call pt t (manager_request env e d) c (nw_rest w) = (Tool_Returned result, x)"
  shows "\<exists>oc w' event. re_invoke_approved_action env pt now e d c tenant w = (Inr oc, w') \<and> oc_status oc = ACTION_EXECUTED \<and>
    executed_event e event \<and> nw_approvals w' = nw_approvals w \<and>
    get_invocation (nw_ledger w') tenant (manager_key env e d) = Some (settled_manager_row env now e d result) \<and>
    nw_rest w' = snd (np_timeline pt now event x)"
proof -
  note ctx = approval_context [OF assms(3)]
  define w1 where "w1 = (tools_of w)\<lparr>tw_grants := dset d (consumed_grant now (execution_actor_for_approval e) (new_grant env now e d)) (nw_grants w),
        tw_effects := nw_effects w @ (if iv_redis (np_invoker pt) then [Consumed_Marker (marker_key (av_tenant_id e) d)] else [])\<rparr>"
  obtain call_id where begun: "begin_call env now (np_fresh pt 1) (np_ambient pt) (np_invoker pt) (tools_of w) (approved_request e) c 1 (Some d) =
      (Continues (call_id, t, manager_authorization env e d), w1)"
    using approved_call_begins [OF assms(1-3), of w source "note" "np_fresh pt 1" "np_ambient pt"] assms(4,7,8) unfolding w1_def by auto
  have l: "tw_ledger w1 = nw_ledger w" by (simp add: w1_def tools_of_def)
  define w2 where "w2 = w1\<lparr>tw_ledger := dset (tenant, manager_key env e d) (manager_row env now e d) (tw_ledger w1)\<rparr>"
  have reserved: "reserve_call env now None (np_invoker pt) w1 call_id c t (manager_authorization env e d) =
    (Continues \<lparr>cl_call_id = call_id, cl_tool = t, cl_context = c, cl_authorization = manager_authorization env e d,
       cl_reserved = Some (manager_row env now e d)\<rparr>, w2)"
    using approved_call_reserves [OF assms(1,2) ctx(1)] assms(4-6,9) l by (simp add: w2_def)
  obtain envelope where finished: "finish_call env now None w2
      \<lparr>cl_call_id = call_id, cl_tool = t, cl_context = c, cl_authorization = manager_authorization env e d,
       cl_reserved = Some (manager_row env now e d)\<rparr> (Tool_Returned result) =
    (envelope, w2\<lparr>tw_ledger := dset (tenant, manager_key env e d) (settled_manager_row env now e d result) (tw_ledger w2)\<rparr>)"
    "te_is_ok envelope"
    using approved_call_finishes [of w2 e env d now call_id t c result] assms(4) by (auto simp: w2_def get_invocation_def)
  define w3 where "w3 = w2\<lparr>tw_ledger := dset (tenant, manager_key env e d) (settled_manager_row env now e d result) (tw_ledger w2)\<rparr>"
  have request: "az_request (manager_authorization env e d) = manager_request env e d" by (simp add: manager_authorization_def)
  have "invoke_action env pt now (approved_request e) c 1 (Some d) w = (Inr envelope, with_tools w w3 x)"
    using begun reserved finished assms(10,11) request
    by (simp add: invoke_action_def invoke_tool_def w3_def tells_def)
  from re_invoke_ok [OF this finished(2) assms(4,10)] show ?thesis
    by (force simp: with_tools_def w3_def get_invocation_def)
qed

lemma settles:
  assumes "get_approval (nw_approvals w) i tenant = Some r" "av_status r = ''pending''" "av_approval_id r = i" "av_approval_id e = i"
  shows "\<exists>v w'. settle_approval now e tenant status actor note extra w = (Inr v, w') \<and>
    get_approval (nw_approvals w') i tenant = Some v \<and> av_approval_id v = i \<and> av_tenant_id v = tenant \<and> av_status v = status \<and>
    av_resolved_by v = Some actor \<and> av_resolved_at v = Some now \<and> av_note v = note \<and> nw_ledger w' = nw_ledger w \<and>
    nw_rest w' = nw_rest w"
proof -
  have found: "dget (vt_by_id (nw_approvals w)) i = Some r" "av_tenant_id r = tenant"
    using assms(1) by (auto simp: get_approval_def of_approval_tenant_def split: option.splits if_splits)
  with assms show ?thesis
    by (simp add: settle_approval_def on_approvals_def resolve_approval_def Let_def resolved_approval_def get_approval_def
        of_approval_tenant_def)
qed

text \<open>Everything up to the approval case bound to the approval.\<close>

lemma approvable_runs:
  fixes w :: "'x action_world"
  assumes "approvable env (np_invoker pt) i approved_by tenant w e t c d" "plain_env env now d" "tells pt now"
    and "np_call pt t (manager_request env e d) c (nw_rest w) = (Tool_Returned result, x)"
  obtains v w' event where
    "approve_in_transaction env pt now i approved_by note tenant tenant w = and_then (complete_bound_case pt v) (\<lambda>_. answer v) w'"
    "get_approval (nw_approvals w') i tenant = Some v" "av_status v = ''approved''" "av_resolved_by v = Some approved_by"
    "get_invocation (nw_ledger w') tenant (manager_key env e d) = Some (settled_manager_row env now e d result)"
    "nw_rest w' = snd (np_timeline pt now event x)" "executed_event e event"
    "complete_bound_case pt v w' =
       (case completing pt i tenant approved_by now note (nw_rest w') of (res, z) \<Rightarrow> (res, w'\<lparr>nw_rest := z\<rparr>))"
proof -
  obtain r s source where r: "get_approval (nw_approvals w) i tenant = Some r" "av_approval_id r = i" "av_status r = ''pending''"
      "av_proposed_by r \<noteq> Some approved_by" "av_decision_id r = Some s" "get_decision (nw_governance w) s (Some tenant) = Some source"
      "with_resolution_metadata r tenant w = (Inr e, w)" "d = manager_decision_id env e source"
      and rest: "execution_context_for_approval env e approved_by = Inr c" "av_tenant_id e = tenant" "tenant \<noteq> []"
      "manager_key env e d \<noteq> []" "equipped (np_invoker pt) (av_tool_name e) t" "unspent env e d w"
    using assms(1) unfolding approvable_def by blast
  obtain w1 where w1: "record_manager_approval_decision env now e source approved_by note w = (Inr d, w1)"
      "get_decision (nw_governance w1) d (Some tenant) = Some (manager_decision env now e source approved_by note)"
      "nw_grants w1 = dset d (new_grant env now e d) (nw_grants w)" "rest_kept w w1"
    using decision_recorded [of env e source w now approved_by "note"] r(8) rest by auto
  have kept: "nw_ledger w1 = nw_ledger w" "nw_rest w1 = nw_rest w" "nw_approvals w1 = nw_approvals w"
    using w1(4) by (simp_all add: rest_kept_def)
  have new: "dget (nw_grants w1) d = Some (new_grant env now e d)"
    "get_invocation (nw_ledger w1) tenant (manager_key env e d) = None"
    using w1(3) kept rest(2,6) by (simp_all add: unspent_def)
  obtain oc w2 event where w2: "re_invoke_approved_action env pt now e d c tenant w1 = (Inr oc, w2)" "oc_status oc = ACTION_EXECUTED"
      "executed_event e event" "nw_approvals w2 = nw_approvals w1"
      "get_invocation (nw_ledger w2) tenant (manager_key env e d) = Some (settled_manager_row env now e d result)"
      "nw_rest w2 = snd (np_timeline pt now event x)"
    using approved_action_called [OF assms(2) rest(5,1,2,3,4) w1(2) new assms(3)] assms(4) kept by auto
  have e: "av_approval_id e = i" using enriched(2) [OF r(7)] r(2) by simp
  have pending: "get_approval (nw_approvals w2) i tenant = Some r" using r(1) kept(3) w2(4) by simp
  obtain v w3 where w3: "settle_approval now e tenant ''approved'' approved_by note
       [(''manager_governance_decision_id'', PStr d), (''approved_by'', PStr approved_by)] w2 = (Inr v, w3)"
      "get_approval (nw_approvals w3) i tenant = Some v" "av_approval_id v = i" "av_tenant_id v = tenant"
      "av_status v = ''approved''" "av_resolved_by v = Some approved_by" "av_resolved_at v = Some now" "av_note v = note"
      "nw_ledger w3 = nw_ledger w2" "nw_rest w3 = nw_rest w2"
    using settles [OF pending r(3,2) e] by metis
  have ran: "approve_in_transaction env pt now i approved_by note tenant tenant w = and_then (complete_bound_case pt v) (\<lambda>_. answer v) w3"
    unfolding approve_in_transaction_def
    using r w1(1) rest(1) w2(1,2) w3(1)
    by (simp add: assert_approval_tenant_def require_pending_def source_decision_def and_then_def check_def lifted_def
        raise_unless_def reading_def)
  have "complete_bound_case pt v w3 =
      (case completing pt i tenant approved_by now note (nw_rest w3) of (res, z) \<Rightarrow> (res, w3\<lparr>nw_rest := z\<rparr>))"
    using w3(3-8) by (simp add: complete_bound_case_def completing_def on_outside_def answer_def split: option.split)
  from ran w3(2,5,6) _ _ w2(3) this show ?thesis by (rule that) (use w2(5,6) w3(9,10) in simp_all)
qed

text \<open>And to its end, when completing the case and the flush do not raise.\<close>

lemma approval_completes:
  fixes w :: "'x action_world"
  assumes "approvable env (np_invoker pt) i approved_by tenant w e t c d" "plain_env env now d" "tells pt now"
    and "np_call pt t (manager_request env e d) c (nw_rest w) = (Tool_Returned result, x)"
    and completed: "\<And>event. executed_event e event \<Longrightarrow>
      fst (completing pt i tenant approved_by now note (snd (np_timeline pt now event x))) = Inr ()"
    and flushed: "\<And>y. fst (flushing pt y) = Inr ()"
  shows "\<exists>v w' event. approve_action env pt now i approved_by note tenant tenant w = (Inr v, w') \<and>
    get_approval (nw_approvals w') i tenant = Some v \<and> av_status v = ''approved'' \<and> av_resolved_by v = Some approved_by \<and>
    get_invocation (nw_ledger w') tenant (manager_key env e d) = Some (settled_manager_row env now e d result) \<and>
    executed_event e event \<and>
    nw_rest w' = snd (flushing pt (snd (completing pt i tenant approved_by now note (snd (np_timeline pt now event x)))))"
proof -
  obtain v w1 event where v: "approve_in_transaction env pt now i approved_by note tenant tenant w =
       and_then (complete_bound_case pt v) (\<lambda>_. answer v) w1"
      "get_approval (nw_approvals w1) i tenant = Some v" "av_status v = ''approved''" "av_resolved_by v = Some approved_by"
      "get_invocation (nw_ledger w1) tenant (manager_key env e d) = Some (settled_manager_row env now e d result)"
      "nw_rest w1 = snd (np_timeline pt now event x)" "executed_event e event"
      "complete_bound_case pt v w1 =
        (case completing pt i tenant approved_by now note (nw_rest w1) of (res, z) \<Rightarrow> (res, w1\<lparr>nw_rest := z\<rparr>))"
    by (rule approvable_runs [OF assms(1-4), of "note"]) (rule that)
  define z where "z = snd (completing pt i tenant approved_by now note (snd (np_timeline pt now event x)))"
  have z: "completing pt i tenant approved_by now note (nw_rest w1) = (Inr (), z)"
    using completed [OF v(7)] by (intro prod_eqI) (simp_all add: v(6) z_def)
  have "on_outside (flushing pt) (w1\<lparr>nw_rest := z\<rparr>) = (Inr (), w1\<lparr>nw_rest := snd (flushing pt z)\<rparr>)"
    using flushed [of z] by (cases "flushing pt z") (simp add: on_outside_def)
  moreover have "flush_after_commit pt y = on_outside (flushing pt) y" for y
    by (simp add: flush_after_commit_def flushing_def on_outside_def answer_def split: option.split)
  ultimately have "approve_action env pt now i approved_by note tenant tenant w = (Inr v, w1\<lparr>nw_rest := snd (flushing pt z)\<rparr>)"
    using v(1,8) z by (simp add: approve_action_def in_transaction_def and_then_def answer_def)
  then show ?thesis using v(2-5,7) by (auto simp: z_def)
qed

text \<open>(C9) Nothing else stands in the way of an approval.  Take a pending approval of one of the
  four tools, whose source decision is on record, whose tool is registered, whose manager
  decision and call are new, and a manager other than its proposer.  No statement of the
  database fails, and neither the timeline nor, where there are any, the completion of the
  bound case and the flush raise.  Then the approval goes through as soon as the tool
  returns: the tool is handed the stored payload under the manager's key, the timeline is
  told right after it that the action was executed, and the approval is stored as approved
  by this manager.  That holds whatever the tool returns: a result that reports an error,
  as every connector returns it when credentials, transport or the provider fail, is a
  failed row of the ledger, but the approval is stored as approved all the same.\<close>

theorem approval_goes_through:
  assumes "approvable env (np_invoker pt) i approved_by tenant w e t c d" "plain_env env now d" "tells pt now"
    and "np_call pt t (manager_request env e d) c (nw_rest w) = (Tool_Returned result, x)"
    and "\<And>y. fst (completing pt i tenant approved_by now note y) = Inr ()" "\<And>y. fst (flushing pt y) = Inr ()"
  shows "\<exists>v w' row event. approve_action env pt now i approved_by note tenant tenant w = (Inr v, w') \<and>
    get_approval (nw_approvals w') i tenant = Some v \<and> av_status v = ''approved'' \<and> av_resolved_by v = Some approved_by \<and>
    get_invocation (nw_ledger w') tenant (manager_key env e d) = Some row \<and>
    ci_status row = connector_completion_status env result \<and> executed_event e event \<and>
    nw_rest w' = snd (flushing pt (snd (completing pt i tenant approved_by now note (snd (np_timeline pt now event x)))))"
proof -
  have "ci_status (settled_manager_row env now e d result) = connector_completion_status env result"
    by (simp add: settled_manager_row_def settled_invocation_def)
  with approval_completes [OF assms(1-4,5,6)] show ?thesis by blast
qed

lemma approvable_tables:
  assumes "approvable env iv i approved_by tenant w e t c d" "same_tables w w'"
  shows "approvable env iv i approved_by tenant w' e t c d"
proof -
  have "with_resolution_metadata r tenant w' = (Inr e, w')" if "with_resolution_metadata r tenant w = (Inr e, w)" for r
    using that assms(2) by (simp add: with_resolution_metadata_def same_tables_def reading_def)
  with assms show ?thesis by (fastforce simp: approvable_def same_tables_def unspent_def)
qed

text \<open>(C10) A rollback after the tool ran lets the next approval call the tool again.  Take an
  approval that nothing stands in the way of, and let the tool, handed the request of the
  approval, return and leave the outside in the state \<open>x\<close>.  When completing the bound
  approval case then raises, the transaction is rolled back: every table is as it was, also
  the row that said the call was made and the grant that was consumed, while the outside is
  what the rollback makes of the state reached from \<open>x\<close>.  Approving once more, at any later
  time, by the same manager and with ports that do not raise, then hands the very same
  request, with the same provider key, to the tool a second time and succeeds.\<close>

theorem rollback_calls_again:
  fixes w :: "'x action_world"
  assumes "approvable env (np_invoker pt) i approved_by tenant w e t c d" "plain_env env now d" "tells pt now"
    and "np_call pt t (manager_request env e d) c (nw_rest w) = (Tool_Returned result, x)"
    and "\<And>y. fst (completing pt i tenant approved_by now note y) = Inl err"
  shows "\<exists>w' event. approve_action env pt now i approved_by note tenant tenant w = (Inl err, w') \<and> same_tables w w' \<and>
    executed_event e event \<and>
    nw_rest w' = np_undo pt (nw_rest w) (snd (completing pt i tenant approved_by now note (snd (np_timeline pt now event x)))) \<and>
    (\<forall>pt2 now2 result2 x2. np_invoker pt2 = np_invoker pt \<longrightarrow> tells pt2 now2 \<longrightarrow> plain_env env now2 d \<longrightarrow>
       (\<forall>y. fst (completing pt2 i tenant approved_by now2 note y) = Inr () \<and> fst (flushing pt2 y) = Inr ()) \<longrightarrow>
       np_call pt2 t (manager_request env e d) c (nw_rest w') = (Tool_Returned result2, x2) \<longrightarrow>
       (\<exists>v w2 event2. approve_action env pt2 now2 i approved_by note tenant tenant w' = (Inr v, w2) \<and> executed_event e event2 \<and>
          nw_rest w2 = snd (flushing pt2 (snd (completing pt2 i tenant approved_by now2 note
            (snd (np_timeline pt2 now2 event2 x2)))))))"
proof -
  obtain v w1 event where v: "approve_in_transaction env pt now i approved_by note tenant tenant w =
       and_then (complete_bound_case pt v) (\<lambda>_. answer v) w1" "nw_rest w1 = snd (np_timeline pt now event x)" "executed_event e event"
      "complete_bound_case pt v w1 =
        (case completing pt i tenant approved_by now note (nw_rest w1) of (res, z) \<Rightarrow> (res, w1\<lparr>nw_rest := z\<rparr>))"
    by (rule approvable_runs [OF assms(1-4), of "note"]) (rule that)
  define z where "z = snd (completing pt i tenant approved_by now note (snd (np_timeline pt now event x)))"
  have "completing pt i tenant approved_by now note (nw_rest w1) = (Inl err, z)"
    using assms(5) by (intro prod_eqI) (simp_all add: v(2) z_def)
  then have first: "approve_action env pt now i approved_by note tenant tenant w = (Inl err, undone pt w (w1\<lparr>nw_rest := z\<rparr>))"
    using v(1,4) by (simp add: approve_action_def in_transaction_def and_then_def)
  have same: "same_tables w (undone pt w (w1\<lparr>nw_rest := z\<rparr>))" by (simp add: same_tables_def undone_def)
  note again = approvable_tables [OF assms(1) same]
  have "\<exists>v w2 event2. approve_action env pt2 now2 i approved_by note tenant tenant (undone pt w (w1\<lparr>nw_rest := z\<rparr>)) = (Inr v, w2) \<and>
      executed_event e event2 \<and> nw_rest w2 = snd (flushing pt2 (snd (completing pt2 i tenant approved_by now2 note
            (snd (np_timeline pt2 now2 event2 x2)))))"
    if p: "np_invoker pt2 = np_invoker pt" "tells pt2 now2" "plain_env env now2 d"
      "\<forall>y. fst (completing pt2 i tenant approved_by now2 note y) = Inr () \<and> fst (flushing pt2 y) = Inr ()"
      "np_call pt2 t (manager_request env e d) c (nw_rest (undone pt w (w1\<lparr>nw_rest := z\<rparr>))) = (Tool_Returned result2, x2)"
    for pt2 :: "'x action_ports" and now2 result2 x2
    using approval_completes [OF again [folded p(1)] p(3,2,5), of "note"] p(4) by blast
  with first same v(3) show ?thesis
    by (intro exI [of _ "undone pt w (w1\<lparr>nw_rest := z\<rparr>)"] exI [of _ event]) (auto simp: undone_def z_def)
qed

section \<open>The example\<close>

lemma demo_plain: "plain_env demo_env now d"
  by (simp add: plain_env_def ascii_text_def) (simp add: demo_env_def)

lemma demo_approvable_in:
  fixes w :: "'x action_world"
  assumes tables: "nw_governance w = nw_governance demo_actions" "nw_grants w = nw_grants demo_actions"
    "nw_ledger w = nw_ledger demo_actions" "nw_approvals w = nw_approvals demo_actions" "nw_resolution w = nw_resolution demo_actions"
  obtains c d where "approvable demo_env demo_invoker ''a1'' ''m1'' ''t1'' w demo_approval demo_tool c d"
proof -
  obtain c where c: "execution_context_for_approval demo_env demo_approval ''m1'' = Inr c"
    by (simp add: execution_context_for_approval_def Let_def execution_uuid_def demo_approval_def bind_result_def)
  let ?d = "manager_decision_id demo_env demo_approval demo_allowance"
  have d: "?d \<noteq> ''d1''" by (simp add: manager_decision_id_def demo_env_def MANAGER_APPROVAL_NAMESPACE_def)
  have key: "manager_key demo_env demo_approval ?d \<noteq> []"
    by (simp add: manager_key_def derive_provider_idempotency_key_def demo_env_def)
  have "with_resolution_metadata demo_approval ''t1'' w = (Inr demo_approval, w)"
    by (simp add: with_resolution_metadata_def demo_approval_def metadata_str_def get_or_none_def)
  moreover have "get_approval (nw_approvals w) ''a1'' ''t1'' = Some demo_approval"
    by (simp add: tables get_approval_def of_approval_tenant_def demo_actions_def demo_approval_def)
  moreover have "get_decision (nw_governance w) ''d1'' (Some ''t1'') = Some demo_allowance"
    by (simp add: tables get_decision_def gov_visible_def demo_actions_def demo_allowance_def)
  moreover have "equipped demo_invoker (av_tool_name demo_approval) demo_tool"
    by (simp add: equipped_def demo_invoker_def demo_approval_def action_tool_names_def demo_tool_def tool_capability_of_def)
  moreover have "unspent demo_env demo_approval ?d w"
    using d by (simp add: tables unspent_def ungranted_def demo_actions_def empty_governance_store_def get_invocation_def del: map_of_eq_None_iff)
  moreover have "av_approval_id demo_approval = ''a1'' \<and> av_status demo_approval = ''pending'' \<and>
      av_proposed_by demo_approval \<noteq> Some ''m1'' \<and> av_decision_id demo_approval = Some ''d1'' \<and> av_tenant_id demo_approval = ''t1''"
    by (simp add: demo_approval_def)
  ultimately have "approvable demo_env demo_invoker ''a1'' ''m1'' ''t1'' w demo_approval demo_tool c ?d"
    using c key unfolding approvable_def by (intro conjI exI [of _ demo_approval] exI [of _ "''d1''"] exI [of _ demo_allowance]) simp_all
  with that show ?thesis by blast
qed

lemma demo_refund_fails:
  assumes "cx_tenant_id c = Some ''t1''" "provider_key_of r = Some k"
  shows "\<exists>result. (\<forall>n. demo_refund t r c n = (Tool_Returned result, n + 1)) \<and> connector_completion_status demo_env result = CI_FAILED"
proof -
  have "stripped_text (PStr ''t1'') = Some ''t1''" by (simp add: py_strip_def py_space_def)
  moreover have "connector_name demo_generic = ''refund.request''" by (simp add: connector_name_def demo_generic_def)
  moreover have "get_active_config [((''t1'', ''refund.request''), demo_config)] ''t1'' ''refund.request'' ''t1'' = Some demo_config"
    by (simp add: get_active_config_def demo_config_def)
  ultimately obtain f m where "\<forall>n. demo_refund t r c n = (Tool_Returned (provider_error_result f m k), n + 1)"
    using assms
    by (simp add: demo_refund_def generic_invoke_def exchange_def demo_provider_def render_endpoint_def bind_result_def
        provider_result_def parse_generic_rest_response_def response_json_def demo_config_def Let_def del: stripped_text.simps)
  moreover have "connector_completion_status demo_env (provider_error_result f m k) = CI_FAILED"
    by (simp add: connector_completion_status_def provider_error_result_def failure_words_def demo_text_defs)
  ultimately show ?thesis by auto
qed

lemma demo_approved_in:
  fixes w :: "'x action_world"
  assumes tables: "nw_governance w = nw_governance demo_actions" "nw_grants w = nw_grants demo_actions"
    "nw_ledger w = nw_ledger demo_actions" "nw_approvals w = nw_approvals demo_actions" "nw_resolution w = nw_resolution demo_actions"
  obtains c d result where "approvable demo_env demo_invoker ''a1'' ''m1'' ''t1'' w demo_approval demo_tool c d"
    "\<And>n. demo_refund demo_tool (manager_request demo_env demo_approval d) c n = (Tool_Returned result, n + 1)"
    "connector_completion_status demo_env result = CI_FAILED"
proof -
  obtain c d where a: "approvable demo_env demo_invoker ''a1'' ''m1'' ''t1'' w demo_approval demo_tool c d"
    using demo_approvable_in [OF tables] by blast
  then have c: "cx_tenant_id c = Some ''t1''"
    using approval_context(1) [of demo_env demo_approval "''m1''" c] by (auto simp: approvable_def demo_approval_def)
  let ?k = "manager_key demo_env demo_approval d"
  have "py_strip ?k \<noteq> []"
    by (simp add: py_strip_Nil manager_key_def derive_provider_idempotency_key_def demo_env_def py_space_def)
  moreover have "dget (tq_metadata (manager_request demo_env demo_approval d)) ''agent_action_provider_idempotency_key'' = Some (PStr ?k)"
    by (simp add: manager_request_def keyed_request_def dmerge_def)
  ultimately have "provider_key_of (manager_request demo_env demo_approval d) = Some (py_strip ?k)"
    by (simp add: provider_key_of_def metadata_str_def get_or_none_def)
  from demo_refund_fails [OF c this, of demo_tool] that [OF a] show ?thesis by blast
qed

lemma demo_goes_through:
  obtains c d result where "approvable demo_env demo_invoker ''a1'' ''m1'' ''t1'' demo_actions demo_approval demo_tool c d"
    "\<And>n. demo_refund demo_tool (manager_request demo_env demo_approval d) c n = (Tool_Returned result, n + 1)"
    "connector_completion_status demo_env result = CI_FAILED"
  using demo_approved_in [of demo_actions] by blast

text \<open>A completer and a flush that do what they should, and a completer that raises.\<close>

definition quiet_case :: "uuid \<Rightarrow> string \<Rightarrow> string \<Rightarrow> string \<Rightarrow> int \<Rightarrow> string \<Rightarrow> nat \<Rightarrow> unit result \<times> nat" where
  "quiet_case a tn st actor at nt n = (Inr (), n)"

definition failing_case :: "uuid \<Rightarrow> string \<Rightarrow> string \<Rightarrow> string \<Rightarrow> int \<Rightarrow> string \<Rightarrow> nat \<Rightarrow> unit result \<times> nat" where
  "failing_case a tn st actor at nt n = (Inl (ValueError ''case''), n)"

lemma demo_ports_run [simp]:
  "tells (demo_action_ports complete) now" "flushing (demo_action_ports complete) y = (Inr (), y)"
  "completing (demo_action_ports (Some quiet_case)) i tenant approved_by now note y = (Inr (), y)"
  "completing (demo_action_ports (Some failing_case)) i tenant approved_by now note y = (Inl (ValueError ''case''), y)"
  by (simp_all add: tells_def flushing_def completing_def quiet_case_def failing_case_def)

lemma approval_goes_through_witness:
  "\<exists>v w' row key. approve_action demo_env (demo_action_ports (Some quiet_case)) 1 ''a1'' ''m1'' None ''t1'' ''t1'' demo_actions =
       (Inr v, w') \<and>
     av_status v = ''approved'' \<and> get_invocation (nw_ledger w') ''t1'' key = Some row \<and> ci_status row = CI_FAILED \<and>
     nw_rest w' = nw_rest demo_actions + 1"
proof (rule demo_goes_through)
  fix c d result
  assume a: "approvable demo_env demo_invoker ''a1'' ''m1'' ''t1'' demo_actions demo_approval demo_tool c d"
    and call: "\<And>n. demo_refund demo_tool (manager_request demo_env demo_approval d) c n = (Tool_Returned result, n + 1)"
    and failed: "connector_completion_status demo_env result = CI_FAILED"
  have port: "np_call (demo_action_ports (Some quiet_case)) demo_tool (manager_request demo_env demo_approval d) c (nw_rest demo_actions) =
      (Tool_Returned result, nw_rest demo_actions + 1)" using call by simp
  have a': "approvable demo_env (np_invoker (demo_action_ports (Some quiet_case))) ''a1'' ''m1'' ''t1'' demo_actions demo_approval demo_tool c d"
    using a by simp
  show ?thesis
    using approval_goes_through [OF a' demo_plain _ port, of 1 None] failed by auto
qed

lemma approved_action_fires_witness:
  "\<exists>v w'. approve_action demo_env (demo_action_ports None) 1 ''a1'' ''m1'' None ''t1'' ''t1'' demo_actions = (Inr v, w') \<and>
     action_fired demo_env (demo_action_ports None) 1 demo_approval demo_actions w' \<and> av_resolved_by v = Some ''m1''"
proof (rule demo_goes_through)
  fix c d result
  assume a: "approvable demo_env demo_invoker ''a1'' ''m1'' ''t1'' demo_actions demo_approval demo_tool c d"
    and call: "\<And>n. demo_refund demo_tool (manager_request demo_env demo_approval d) c n = (Tool_Returned result, n + 1)"
  have port: "np_call (demo_action_ports None) demo_tool (manager_request demo_env demo_approval d) c (nw_rest demo_actions) =
      (Tool_Returned result, nw_rest demo_actions + 1)" using call by simp
  have a': "approvable demo_env (np_invoker (demo_action_ports None)) ''a1'' ''m1'' ''t1'' demo_actions demo_approval demo_tool c d"
    using a by simp
  obtain v w' where v: "approve_action demo_env (demo_action_ports None) 1 ''a1'' ''m1'' None ''t1'' ''t1'' demo_actions = (Inr v, w')"
    using approval_completes [OF a' demo_plain _ port, of 1 None] by (auto simp: completing_def)
  have "table_keyed (nw_approvals demo_actions)" by (auto simp: table_keyed_def demo_actions_def demo_approval_def split: if_splits)
  from approved_action_fires [OF v this] have "action_fired demo_env (demo_action_ports None) 1 demo_approval demo_actions w'"
      "av_resolved_by v = Some ''m1''"
    by (auto simp: get_approval_def of_approval_tenant_def demo_actions_def split: if_splits)
  with v show ?thesis by blast
qed

text \<open>Completing the case raises, the provider has been called; approving again calls it again.\<close>

lemma rollback_calls_again_witness:
  "\<exists>w1 v w2. approve_action demo_env (demo_action_ports (Some failing_case)) 1 ''a1'' ''m1'' None ''t1'' ''t1'' demo_actions =
       (Inl (ValueError ''case''), w1) \<and> same_tables demo_actions w1 \<and> nw_rest w1 = nw_rest demo_actions + 1 \<and>
     approve_action demo_env (demo_action_ports (Some quiet_case)) 2 ''a1'' ''m1'' None ''t1'' ''t1'' w1 = (Inr v, w2) \<and>
     nw_rest w2 = nw_rest demo_actions + 2"
proof (rule demo_goes_through)
  fix c d result
  assume a: "approvable demo_env demo_invoker ''a1'' ''m1'' ''t1'' demo_actions demo_approval demo_tool c d"
    and call: "\<And>n. demo_refund demo_tool (manager_request demo_env demo_approval d) c n = (Tool_Returned result, n + 1)"
  have port: "np_call (demo_action_ports (Some failing_case)) demo_tool (manager_request demo_env demo_approval d) c
      (nw_rest demo_actions) = (Tool_Returned result, nw_rest demo_actions + 1)" using call by simp
  have a': "approvable demo_env (np_invoker (demo_action_ports (Some failing_case))) ''a1'' ''m1'' ''t1'' demo_actions demo_approval
      demo_tool c d" using a by simp
  obtain w1 where w1: "approve_action demo_env (demo_action_ports (Some failing_case)) 1 ''a1'' ''m1'' None ''t1'' ''t1'' demo_actions =
        (Inl (ValueError ''case''), w1)" "same_tables demo_actions w1" "nw_rest w1 = nw_rest demo_actions + 1"
      and again: "np_invoker pt2 = demo_invoker \<longrightarrow> tells pt2 now2 \<longrightarrow> plain_env demo_env now2 d \<longrightarrow>
       (\<forall>y. fst (completing pt2 ''a1'' ''t1'' ''m1'' now2 None y) = Inr () \<and> fst (flushing pt2 y) = Inr ()) \<longrightarrow>
       np_call pt2 demo_tool (manager_request demo_env demo_approval d) c (nw_rest w1) = (Tool_Returned result2, x2) \<longrightarrow>
       (\<exists>v w2 event2. approve_action demo_env pt2 now2 ''a1'' ''m1'' None ''t1'' ''t1'' w1 = (Inr v, w2) \<and>
          executed_event demo_approval event2 \<and> nw_rest w2 = snd (flushing pt2 (snd (completing pt2 ''a1'' ''t1'' ''m1'' now2 None
            (snd (np_timeline pt2 now2 event2 x2))))))" for pt2 now2 result2 x2
    using rollback_calls_again [OF a' demo_plain _ port, of 1 None "ValueError ''case''"] by auto
  from again [of "demo_action_ports (Some quiet_case)" 2 result "nw_rest w1 + 1"]
  show ?thesis using w1 demo_plain call by auto
qed

end
