(* ===== verification/Case_Actions.thy ===== *)
theory Case_Actions
  imports Action_Retries Approval_Safety
begin

text \<open>
  The two services on one transaction: the application gives the service of the action
  approvals a completer that claims and completes the approval case bound to the action
  (\<open>app/dependencies/services.py\<close>).
\<close>

definition complete_case_for_action ::
  "py_env \<Rightarrow> 'y approval_ports \<Rightarrow> int \<Rightarrow> uuid \<Rightarrow> string \<Rightarrow> string \<Rightarrow> string \<Rightarrow> int \<Rightarrow> string \<Rightarrow> 'y approval_world
     \<Rightarrow> unit result \<times> 'y approval_world" where
  "complete_case_for_action env cpt now act tenant status actor at note y =
     (case claim_and_complete_case_for_action env cpt now act tenant status actor at note y of
        (Inl e, y') \<Rightarrow> (Inl e, y') | (Inr _, y') \<Rightarrow> (Inr (), y'))"

section \<open>The second pair of eyes\<close>

text \<open>Exactly one case is bound to the action and awaits approval, it has no reply to deliver, and
  it was guided by \<open>a\<close>.\<close>

definition guided_action_case :: "py_env \<Rightarrow> 'y approval_world \<Rightarrow> uuid \<Rightarrow> string \<Rightarrow> uuid \<Rightarrow> string \<Rightarrow> approval_case \<Rightarrow> bool" where
  "guided_action_case env y act tenant i a r \<longleftrightarrow>
     get_case (aw_cases y) i tenant = Some r \<and> ca_case_id r = i \<and> ca_status r = CA_AWAITING_APPROVAL \<and> guider r = Some a \<and>
     ca_proposal_id r = None \<and> filter (claimable_case env tenant act) (dvals (as_cases (aw_cases y))) = [r]"

lemma guided_case_completed:
  assumes "guided_action_case env y act tenant i a r" "ap_session cpt"
  shows "approve_case env cpt now i tenant a n y =
      (Inl (CaseApprovalLifecycleError ''guided cases require a different approver''), rolled_back cpt y y)"
    and "\<exists>y' r'. complete_case_for_action env cpt now act tenant ''approved'' a at m y = (Inr (), y') \<and>
      get_case (aw_cases y') i tenant = Some r' \<and> ca_status r' = CA_APPROVED \<and> ca_resolved_by r' = Some a \<and> guider r' = Some a"
proof -
  from assms have "get_case (aw_cases y) i tenant = Some r" "guider r = Some a" "ca_status r = CA_AWAITING_APPROVAL"
    "filter (claimable_case env tenant act) (dvals (as_cases (aw_cases y))) = [r]" "ca_case_id r = i"
    "ca_proposal_id r = None" "ap_session cpt"
    by (simp_all add: guided_action_case_def)
  note run = action_completes_case [OF this, of now n at m]
  then show "approve_case env cpt now i tenant a n y =
      (Inl (CaseApprovalLifecycleError ''guided cases require a different approver''), rolled_back cpt y y)"
    and "\<exists>y' r'. complete_case_for_action env cpt now act tenant ''approved'' a at m y = (Inr (), y') \<and>
      get_case (aw_cases y') i tenant = Some r' \<and> ca_status r' = CA_APPROVED \<and> ca_resolved_by r' = Some a \<and> guider r' = Some a"
    by (auto simp: complete_case_for_action_def)
qed

lemma guided_case_cong:
  "guided_action_case env y act tenant i a r \<Longrightarrow> aw_cases y' = aw_cases y \<Longrightarrow> guided_action_case env y' act tenant i a r"
  by (simp add: guided_action_case_def)

text \<open>(C7) The second pair of eyes is asked for on one of the two ways to an approval only.  Take an
  action approval that nothing stands in the way of, in a database that does not fail, and
  the one approval case bound to it: awaiting approval, without a reply of its own, as the
  cases of crisis actions are, and guided by the very manager who approves the action,
  who did not propose it.  The tool, the timeline and the flush return and leave the
  approval cases alone, and the service completes the bound case as the application wires
  it.  Then this manager cannot approve the case, which wants a different approver, but when
  approving the action, the call goes through, and the case is approved by the manager who
  guided it.\<close>

theorem four_eyes_bypass:
  fixes w :: "'y approval_world action_world"
  assumes "approvable env (np_invoker pt) act a tenant w e tool c d" "plain_env env now d" "tells pt now"
    and "np_call pt tool (manager_request env e d) c (nw_rest w) = (Tool_Returned result, x)"
    and "aw_cases x = aw_cases (nw_rest w)" "\<And>event y. aw_cases (snd (np_timeline pt now event y)) = aw_cases y"
    and "np_complete_case pt = Some (complete_case_for_action env cpt now)" "ap_session cpt"
    and "\<And>y. fst (flushing pt y) = Inr () \<and> aw_cases (snd (flushing pt y)) = aw_cases y"
    and "guided_action_case env (nw_rest w) act tenant i a r"
  shows "approve_case env cpt now i tenant a n (nw_rest w) =
      (Inl (CaseApprovalLifecycleError ''guided cases require a different approver''),
       rolled_back cpt (nw_rest w) (nw_rest w)) \<and>
    (\<exists>v w' r'. approve_action env pt now act a note tenant tenant w = (Inr v, w') \<and>
       get_approval (nw_approvals w') act tenant = Some v \<and> av_status v = ''approved'' \<and> av_resolved_by v = Some a \<and>
       get_case (aw_cases (nw_rest w')) i tenant = Some r' \<and> ca_status r' = CA_APPROVED \<and> ca_resolved_by r' = Some a \<and>
       guider r' = Some a)"
proof -
  have there: "guided_action_case env (snd (np_timeline pt now event x)) act tenant i a r" for event
    by (rule guided_case_cong [OF assms(10)]) (simp add: assms(5,6))
  have done': "\<exists>y' r'. completing pt act tenant a now note (snd (np_timeline pt now event x)) = (Inr (), y') \<and>
      get_case (aw_cases y') i tenant = Some r' \<and> ca_status r' = CA_APPROVED \<and> ca_resolved_by r' = Some a \<and> guider r' = Some a"
    for event
    using guided_case_completed(2) [OF there assms(8)] by (simp add: completing_def assms(7))
  have completed: "fst (completing pt act tenant a now note (snd (np_timeline pt now event x))) = Inr ()" for event
    using done' [of event] by auto
  obtain v w' event where v: "approve_action env pt now act a note tenant tenant w = (Inr v, w')"
      "get_approval (nw_approvals w') act tenant = Some v" "av_status v = ''approved''" "av_resolved_by v = Some a"
      "nw_rest w' = snd (flushing pt (snd (completing pt act tenant a now note (snd (np_timeline pt now event x)))))"
    using approval_completes [OF assms(1-4) completed] assms(9) by blast
  have "\<exists>r'. get_case (aw_cases (nw_rest w')) i tenant = Some r' \<and> ca_status r' = CA_APPROVED \<and> ca_resolved_by r' = Some a \<and>
      guider r' = Some a"
    using done' [of event] assms(9) by (auto simp: v(5))
  with v(1-4) guided_case_completed(1) [OF assms(10,8)] show ?thesis by blast
qed

section \<open>The example\<close>

text \<open>The action and the case share the outside world; the refund connector answers 500.\<close>

definition guided_action :: approval_case where
  "guided_action = demo_unbound\<lparr>ca_metadata := [(''guided_by'', PStr ''m1'')]\<rparr>"

definition demo_case_world :: "string list approval_world action_world" where
  "demo_case_world = \<lparr>nw_governance = nw_governance demo_actions, nw_grants = nw_grants demo_actions,
     nw_ledger = nw_ledger demo_actions, nw_effects = [], nw_approvals = nw_approvals demo_actions,
     nw_resolution = nw_resolution demo_actions,
     nw_rest = demo_cases\<lparr>aw_cases := \<lparr>as_cases = [(''c1'', guided_action)], as_dedup = [((''t1'', ''k1''), ''c1'')],
       as_outbox = [], as_outbox_by_case = []\<rparr>\<rparr>\<rparr>"

definition demo_wired_ports :: "string list approval_world action_ports" where
  "demo_wired_ports = \<lparr>np_invoker = demo_invoker,
     np_call = (\<lambda>t r c x. (fst (demo_refund t r c 0), x\<lparr>aw_rest := ''called'' # aw_rest x\<rparr>)),
     np_faults = (None, None), np_fresh = (\<lambda>n. ''f''), np_ambient = None, np_timeline = (\<lambda>now event x. (Inr (), x)),
     np_crisis_case = None, np_complete_case = Some (complete_case_for_action demo_env demo_case_ports 1),
     np_undo = (\<lambda>before after. after), np_flush = None\<rparr>"

lemma demo_wired [simp]:
  "np_invoker demo_wired_ports = demo_invoker" "tells demo_wired_ports now" "flushing demo_wired_ports y = (Inr (), y)"
  "np_timeline demo_wired_ports now event x = (Inr (), x)"
  "np_complete_case demo_wired_ports = Some (complete_case_for_action demo_env demo_case_ports 1)"
  by (simp_all add: demo_wired_ports_def tells_def flushing_def)

lemma demo_guided: "guided_action_case demo_env (nw_rest demo_case_world) ''a1'' ''t1'' ''c1'' ''m1'' guided_action"
proof -
  have "guider guided_action = Some ''m1''" by code_simp
  moreover have "claimable_case demo_env ''t1'' ''a1'' guided_action"
    by (simp add: guided_action_def demo_unbound_def demo_case_def claimable_case_def json_text_entry_def)
  ultimately show ?thesis
    by (simp add: guided_action_case_def demo_case_world_def get_case_def)
      (simp add: guided_action_def demo_unbound_def demo_case_def)
qed

lemma four_eyes_bypass_witness:
  "approve_case demo_env demo_case_ports 1 ''c1'' ''t1'' ''m1'' None (nw_rest demo_case_world) =
      (Inl (CaseApprovalLifecycleError ''guided cases require a different approver''),
       rolled_back demo_case_ports (nw_rest demo_case_world) (nw_rest demo_case_world)) \<and>
   (\<exists>v w' r'. approve_action demo_env demo_wired_ports 1 ''a1'' ''m1'' None ''t1'' ''t1'' demo_case_world = (Inr v, w') \<and>
      av_status v = ''approved'' \<and> get_case (aw_cases (nw_rest w')) ''c1'' ''t1'' = Some r' \<and> ca_status r' = CA_APPROVED \<and>
      ca_resolved_by r' = Some ''m1'' \<and> guider r' = Some ''m1'')"
proof -
  obtain c d result where a: "approvable demo_env demo_invoker ''a1'' ''m1'' ''t1'' demo_case_world demo_approval demo_tool c d"
      and call: "\<And>n. demo_refund demo_tool (manager_request demo_env demo_approval d) c n = (Tool_Returned result, n + 1)"
    by (rule demo_approved_in [of demo_case_world]) (simp_all add: demo_case_world_def)
  let ?x = "(nw_rest demo_case_world)\<lparr>aw_rest := ''called'' # aw_rest (nw_rest demo_case_world)\<rparr>"
  have port: "np_call demo_wired_ports demo_tool (manager_request demo_env demo_approval d) c (nw_rest demo_case_world) =
      (Tool_Returned result, ?x)"
    using call [of 0] by (simp add: demo_wired_ports_def)
  have a': "approvable demo_env (np_invoker demo_wired_ports) ''a1'' ''m1'' ''t1'' demo_case_world demo_approval demo_tool c d"
    using a by simp
  have "ap_session demo_case_ports" by (simp add: demo_case_ports_def)
  from four_eyes_bypass [OF a' demo_plain _ port _ _ _ this _ demo_guided, of 1 None None] show ?thesis by auto
qed

end
