(* ===== verification/Action_Amounts.thy ===== *)
theory Action_Amounts
  imports Action_Requests Action_Safety
begin

text \<open>
  Which amount of a refund is judged and which is paid: the policy reads the metadata of
  the request, the tool its payload, and both are built from the recommended action.
\<close>

lemma dget_setdefault: "k \<noteq> k' \<Longrightarrow> dget (dsetdefault k v d) k' = dget d k'"
  by (simp add: dsetdefault_def split: option.split)

lemma dget_filter_keys:
  "wf_dict d \<Longrightarrow> dget (filter (\<lambda>(k, v). P k v) d) k = (case dget d k of Some v \<Rightarrow> if P k v then Some v else None | None \<Rightarrow> None)"
  by (induction d) (auto simp: map_of_eq_None_iff split: option.splits)

section \<open>What the request says of a refund\<close>

lemma refund_operation:
  "resolve_operation [] (Some ''refund.request'') (Some action_type) = Some (from_registered (REGISTERED_OPERATIONS ! 2) (Some action_type))"
  by (simp add: resolve_operation_def resolve_explicit_metadata_def Let_def metadata_str_def get_or_none_def commitment_of_def
      approval_mode_of_def or_else_def registered_by_tool_def REGISTERED_OPERATIONS_def declare_operation_def)

lemma refund_operation_metadata:
  "operation_metadata (resolve_operation [] (Some ''refund.request'') (Some action_type)) =
     [(''operation_id'', PStr ''operation.refund_request''), (''operation_commitment_kind'', PStr ''money''),
      (''operation_approval_policy'', PStr ''tenant_policy''),
      (''operation_target_resource_expr'', PStr ''order:{order_id}:sku:{product_sku}'')]"
  unfolding refund_operation
  by (simp add: from_registered_def operation_metadata_def REGISTERED_OPERATIONS_def declare_operation_def)

text \<open>The action has no payload of its own and does not name an operation.\<close>

definition bare_refund :: "metadata \<Rightarrow> bool" where
  "bare_refund action \<longleftrightarrow> wf_dict action \<and> dget action ''payload'' = None \<and> dget action ''operation_id'' = None"

lemma request_refund:
  assumes "bare_refund action"
  shows "dget (request_metadata p action action_type ''refund.request'' target key) ''operation_id'' = Some (PStr ''operation.refund_request'')"
    and "dget (request_metadata p action action_type ''refund.request'' target key) ''refund_amount_cents'' =
      (case dget action ''refund_amount_cents'' of Some v \<Rightarrow> if scalar_value v then Some v else None | None \<Rightarrow> None)"
    and "dget action ''operation_commitment_kind'' = None \<Longrightarrow>
      dget (request_metadata p action action_type ''refund.request'' target key) ''operation_commitment_kind'' = Some (PStr ''money'')"
    and "dget action ''operation_approval_policy'' = None \<Longrightarrow>
      dget (request_metadata p action action_type ''refund.request'' target key) ''operation_approval_policy'' =
        Some (PStr ''tenant_policy'')"
proof -
  have action: "wf_dict action" "dget action ''payload'' = None" "dget action ''operation_id'' = None"
    using assms by (simp_all add: bare_refund_def del: map_of_eq_None_iff)
  have scalars: "dget (action_scalars action) k = (case dget action k of
      Some v \<Rightarrow> if k \<notin> set ACTION_STRUCTURAL_KEYS \<and> scalar_value v then Some v else None | None \<Rightarrow> None)" for k
    unfolding action_scalars_def by (rule dget_filter_keys [OF action(1)])
  have wf: "wf_dict (action_scalars action)" unfolding action_scalars_def by (rule wf_filter [OF action(1)])
  have payload: "payload_scalars action = []" using action(2) by (simp add: payload_scalars_def get_or_none_def del: map_of_eq_None_iff)
  let ?md = "request_metadata p action action_type ''refund.request'' target key"
  let ?base = "dmerge [(''session_id'', opt_pstr (rp_session_id p)), (''proposal_id'', PStr (rp_proposal_id p)),
             (''dispatch_id'', PStr (rp_dispatch_id p)), (''execution_id'', opt_pstr (rp_execution_id p)),
             (''action_type'', PStr action_type), (''tool_name'', PStr ''refund.request''),
             (''target_resource'', PStr target), (''target_resource_id'', PStr target),
             (''idempotency_key'', PStr key), (''diagnostic_confidence'', PFloat (rp_confidence p)),
             (''resolution_category'', PStr (rp_category p))]
       [(''operation_id'', PStr ''operation.refund_request''), (''operation_commitment_kind'', PStr ''money''),
        (''operation_approval_policy'', PStr ''tenant_policy''),
        (''operation_target_resource_expr'', PStr ''order:{order_id}:sku:{product_sku}'')]"
  have kind: "dget ?base ''operation_commitment_kind'' = Some (PStr ''money'')" by (simp add: dmerge_def)
  have none: "dmerge d [] = d" for d :: metadata by (simp add: dmerge_def)
  have lookup: "dget ?md k = (case dget (action_scalars action) k of Some v \<Rightarrow> Some v | None \<Rightarrow> dget ?base k)"
    if "k \<noteq> ''issue_category''" for k
    using that unfolding request_metadata_def refund_operation_metadata Let_def payload none kind
    by (simp add: dget_setdefault dget_dmerge [OF wf])
  have declared: "dget ?md k = dget ?base k" if "k \<noteq> ''issue_category''" "dget action k = None" for k
    using that by (simp add: lookup scalars del: map_of_eq_None_iff map_of_eq_Some_iff)
  show "dget ?md ''operation_commitment_kind'' = Some (PStr ''money'')" if "dget action ''operation_commitment_kind'' = None"
    using that kind by (simp add: declared del: map_of_eq_None_iff)
  show "dget ?md ''operation_approval_policy'' = Some (PStr ''tenant_policy'')" if "dget action ''operation_approval_policy'' = None"
    using that by (simp add: declared del: map_of_eq_None_iff) (simp add: dmerge_def)
  show "dget ?md ''operation_id'' = Some (PStr ''operation.refund_request'')"
    using action(3) by (simp add: lookup scalars del: map_of_eq_None_iff) (simp add: dmerge_def)
  show "dget ?md ''refund_amount_cents'' =
      (case dget action ''refund_amount_cents'' of Some v \<Rightarrow> if scalar_value v then Some v else None | None \<Rightarrow> None)"
    by (cases "dget action ''refund_amount_cents''")
      (simp_all add: lookup scalars ACTION_STRUCTURAL_KEYS_def dmerge_def del: map_of_eq_None_iff map_of_eq_Some_iff)
qed

lemma request_judged:
  assumes "bare_refund action"
  shows "\<exists>operation. judged_operation (request_metadata p action action_type ''refund.request'' target key) = Some operation \<and>
    op_operation_id operation = Some ''operation.refund_request''"
proof -
  have "metadata_str (request_metadata p action action_type ''refund.request'' target key) ''operation_id'' = Some ''operation.refund_request''"
    using request_refund(1) [OF assms] by (simp add: metadata_str_def get_or_none_def py_strip_def py_space_def)
  then show ?thesis
    by (simp add: judged_operation_def resolve_operation_def resolve_explicit_metadata_def Let_def or_else_def)
qed

section \<open>What is paid\<close>

lemma refund_payload_paid:
  assumes "bare_refund action" "payload_for_recommended_action env action p action_type ''refund.request'' = Inr payload"
  shows "\<exists>paid. refund_amount env action = Inr paid \<and> dget payload ''refund_amount_cents'' = Some (opt_pint paid)"
proof -
  have "get_or_none action ''payload'' = PNone"
    using assms(1) by (simp add: bare_refund_def get_or_none_def del: map_of_eq_None_iff)
  moreover have "Option.bind (resolve_operation [] (Some ''refund.request'') (Some action_type)) op_operation_id = Some ''operation.refund_request''"
    unfolding refund_operation by (simp add: from_registered_def REGISTERED_OPERATIONS_def declare_operation_def)
  ultimately show ?thesis
    using assms(2)
    by (auto simp: payload_for_recommended_action_def payload_for_operation_def refund_payload_def bind_result_Inr)
qed

text \<open>The amount paid is the amount judged, or the amount judged is zero.  Take an action for
  the refund tool that carries no payload of its own and names no operation, and suppose
  the evaluation of the request made from it permits.  Then the action's
  \<open>refund_amount_cents\<close> reads as an integer at most the ceiling of the platform.  If it is
  not zero, it is the amount in the payload the tool gets.  If it is zero, the payload has
  whatever the free text \<open>amount\<close> of the action amounts to, which no rule has looked at.\<close>

theorem refund_paid_judged:
  assumes "build_action_tool_governance_runtime env now redis cfg = Inr rt" "bare_refund action"
    and "prepare_action env p action tenant action_type ''refund.request'' = Inr a"
    and "build_governance_context env (action_request p action a) context t = Inr gc"
    and "governance_evaluate env now fresh ambient rt store gc = (Inr e, store')" "permits e"
  shows "\<exists>n paid. metadata_int env (get_or_none action ''refund_amount_cents'') = Some n \<and> n \<le> tp_ceiling cfg \<and>
    dget (pa_payload a) ''refund_amount_cents'' = Some (opt_pint paid) \<and>
    (if n \<noteq> 0 then paid = Some n else amount_to_cents env (metadata_str action ''amount'') = Inr paid)"
proof -
  obtain target key where md: "tq_metadata (action_request p action a) = request_metadata p action action_type ''refund.request'' target key"
      and payload: "payload_for_recommended_action env action p action_type ''refund.request'' = Inr (pa_payload a)"
    using assms(3) by (auto simp: prepare_action_def bind_result_Inr Let_def action_request_def)
  have gc: "g_stage gc = PRE_EXECUTION" "kind_of (g_subject gc) = AGENT_ACTION"
      "subject_metadata (g_subject gc) = tq_metadata (action_request p action a)"
    using assms(4) by (auto simp: build_governance_context_def check_context_def Let_def governance_subject_def
        split: option.splits if_splits)
  obtain policy where policy: "active_policy env cfg gc = Some policy" "policy_permits env policy (tq_metadata (action_request p action a))"
    using action_permits [OF assms(1) gc(1,2) assms(5)] assms(6) gc(3) by auto
  obtain operation where "judged_operation (tq_metadata (action_request p action a)) = Some operation"
      "op_operation_id operation = Some ''operation.refund_request''"
    using request_judged [OF assms(2)] md by metis
  with policy(2) obtain rule where rule: "dget (pp_rules policy) ''operation.refund_request'' = Some rule"
      "rule_permits env (tq_metadata (action_request p action a)) rule"
    by (auto simp: policy_permits_def rule_for_def)
  then obtain n where n: "metadata_int env (get_or_none (tq_metadata (action_request p action a)) ''refund_amount_cents'') = Some n"
      "n \<le> tp_ceiling cfg"
    using refund_rule_bounded [OF policy(1) rule(1)] by fastforce
  have amount: "metadata_int env (get_or_none action ''refund_amount_cents'') = Some n"
    using n(1) request_refund(2) [OF assms(2), of p action_type target key] unfolding md get_or_none_def
    by (auto split: option.splits if_splits)
  obtain paid where "refund_amount env action = Inr paid" "dget (pa_payload a) ''refund_amount_cents'' = Some (opt_pint paid)"
    using refund_payload_paid [OF assms(2) payload] by blast
  with amount n(2) show ?thesis by (auto simp: refund_amount_def split: if_splits)
qed

section \<open>Five thousand for nothing\<close>

text \<open>The amount is the text of a float pattern, as \<open>demo_env\<close> reads it: 5000.0.\<close>

definition zero_refund :: metadata where
  "zero_refund = [(''type'', PStr ''refund_request''), (''refund_amount_cents'', PInt 0), (''amount'', PStr ''4662219572839972864'')]"

definition refund_proposal :: proposal where
  "refund_proposal = \<lparr>rp_proposal_id = ''p1'', rp_tenant_id = ''t1'', rp_session_id = Some ''s1'',
     rp_execution_id = Some ''e1'', rp_dispatch_id = ''x1'', rp_diagnostic_event_id = None, rp_reply = ''Done.'',
     rp_category = ''billing'', rp_confidence = 0, rp_supervisor_verdict = RS_PASS, rp_governance_verdict = RG_ALLOW,
     rp_autonomy_decision = RA_AUTO_APPROVED, rp_status = RP_SEND_ELIGIBLE, rp_created_at = 0, rp_updated_at = 0,
     rp_decision_id = None, rp_recommended_actions = [zero_refund], rp_evidence = [], rp_source_language = ''en'',
     rp_metadata = []\<rparr>"

definition refund_context :: agent_context where
  "refund_context = \<lparr>cx_identity = \<lparr>ai_agent_id = ''a1'', ai_runtime_instance_id = ''i1''\<rparr>,
     cx_execution = \<lparr>ei_execution_id = ''e1'', ei_correlation_id = None, ei_parent_execution_id = None, ei_request_id = None\<rparr>,
     cx_capabilities = [], cx_constraints = default_constraints, cx_causality = root_causality,
     cx_tenant_id = Some ''t1'', cx_authority = None, cx_metadata = []\<rparr>"

lemma zero_refund_text: "metadata_str zero_refund ''amount'' = Some ''4662219572839972864''"
  by (simp add: metadata_str_def zero_refund_def get_or_none_def py_strip_def py_space_def)

lemma zero_refund_cents: "cents_of_float 4662219572839972864 = Inr (Some 500000)"
  by (simp add: cents_of_float_def float_nan_def float_parts_def Let_def excess_bits.simps round_half_even_def)

lemma digit_chars:
  "digit_char 0 = CHR ''0''" "digit_char 1 = CHR ''1''" "digit_char 2 = CHR ''2''" "digit_char 3 = CHR ''3''" "digit_char 4 = CHR ''4''"
  "digit_char 5 = CHR ''5''" "digit_char 6 = CHR ''6''" "digit_char 7 = CHR ''7''" "digit_char 8 = CHR ''8''" "digit_char 9 = CHR ''9''"
  by code_simp+

lemma shown_pattern: "show_int 4662219572839972864 = ''4662219572839972864''"
  by (simp add: show_int_def show_nat.simps digit_chars digit_chars(2) [simplified])

lemma read_pattern: "int_text ''4662219572839972864'' = Some 4662219572839972864"
  unfolding shown_pattern [symmetric] by (simp add: int_text_def)

lemma zero_refund_amount: "amount_to_cents demo_env (Some ''4662219572839972864'') = Inr (Some 500000)"
  using zero_refund_cents read_pattern
  by (simp add: amount_to_cents_def demo_env_def lstrip_char_def py_strip_def py_space_def)

lemma demo_active: "g_tenant_id c = Some ''t1'' \<Longrightarrow> active_policy demo_env demo_policy_config c = Some demo_parsed"
  using demo_policy_parsed [of "[]"] by (simp add: active_policy_def tenant_id_from_context_def demo_action_def)

lemma zero_refund_bare: "bare_refund zero_refund"
  by (simp add: bare_refund_def zero_refund_def)

lemma zero_refund_permitted:
  "policy_permits demo_env demo_parsed (request_metadata p zero_refund action_type ''refund.request'' target key)"
proof -
  let ?md = "request_metadata p zero_refund action_type ''refund.request'' target key"
  have fields: "dget ?md ''operation_id'' = Some (PStr ''operation.refund_request'')"
    "dget ?md ''operation_commitment_kind'' = Some (PStr ''money'')"
    "dget ?md ''operation_approval_policy'' = Some (PStr ''tenant_policy'')" "dget ?md ''refund_amount_cents'' = Some (PInt 0)"
    using request_refund [OF zero_refund_bare, of p action_type target key] by (simp_all add: zero_refund_def)
  have "metadata_str ?md ''operation_id'' = Some ''operation.refund_request''"
    using fields(1) by (simp add: metadata_str_def get_or_none_def py_strip_def py_space_def)
  then obtain operation where operation: "judged_operation ?md = Some operation"
      "op_operation_id operation = Some ''operation.refund_request''"
      "op_commitment_kind operation = commitment_of (PStr ''money'')"
      "op_approval_policy operation = approval_mode_of (PStr ''tenant_policy'')"
    using fields by (simp add: judged_operation_def resolve_operation_def resolve_explicit_metadata_def Let_def or_else_def
        get_or_none_def del: metadata_str_def)
  have "commitment_of (PStr ''money'') = Some CK_MONEY" "approval_mode_of (PStr ''tenant_policy'') = Some TENANT_POLICY"
    by (simp_all add: commitment_of_def approval_mode_of_def all_commitment_kinds_def py_strip_def py_space_def)
  then show ?thesis
    using operation fields(4)
    by (simp add: policy_permits_def rule_for_def demo_parsed_def get_or_none_def)
qed

lemma zero_refund_prepared:
  obtains a where "prepare_action demo_env refund_proposal zero_refund ''t1'' ''refund_request'' ''refund.request'' = Inr a"
    "dget (pa_payload a) ''refund_amount_cents'' = Some (PInt 500000)"
proof -
  have "refund_amount demo_env zero_refund = Inr (Some 500000)"
    using zero_refund_text zero_refund_amount by (simp add: refund_amount_def get_or_none_def) (simp add: zero_refund_def)
  moreover have "get_or_none zero_refund ''payload'' = PNone" by (simp add: get_or_none_def zero_refund_def)
  moreover have "Option.bind (resolve_operation [] (Some ''refund.request'') (Some ''refund_request'')) op_operation_id =
      Some ''operation.refund_request''"
    unfolding refund_operation by (simp add: from_registered_def REGISTERED_OPERATIONS_def declare_operation_def)
  ultimately obtain payload where "payload_for_recommended_action demo_env zero_refund refund_proposal ''refund_request'' ''refund.request'' =
      Inr payload" "dget payload ''refund_amount_cents'' = Some (PInt 500000)"
    by (auto simp: payload_for_recommended_action_def payload_for_operation_def refund_payload_def bind_result_def opt_pint_def)
  then show ?thesis
    by (intro that) (auto simp: prepare_action_def bind_result_def proposal_reference_def refund_proposal_def Let_def)
qed

lemma refund_paid_judged_witness:
  "\<exists>a gc e. prepare_action demo_env refund_proposal zero_refund ''t1'' ''refund_request'' ''refund.request'' = Inr a \<and>
     build_governance_context demo_env (action_request refund_proposal zero_refund a) refund_context demo_tool = Inr gc \<and>
     governance_evaluate demo_env 0 ''f'' None (action_runtime demo_env 0 None demo_policy_config) None gc = (Inr e, None) \<and>
     permits e \<and> amount_to_cents demo_env (metadata_str zero_refund ''amount'') = Inr (Some 500000) \<and>
     dget (pa_payload a) ''refund_amount_cents'' = Some (PInt 500000)"
proof -
  obtain a where a: "prepare_action demo_env refund_proposal zero_refund ''t1'' ''refund_request'' ''refund.request'' = Inr a"
      "dget (pa_payload a) ''refund_amount_cents'' = Some (PInt 500000)"
    by (rule zero_refund_prepared)
  let ?request = "action_request refund_proposal zero_refund a"
  obtain target key where md: "tq_metadata ?request = request_metadata refund_proposal zero_refund ''refund_request'' ''refund.request'' target key"
    using a(1) by (auto simp: prepare_action_def bind_result_Inr Let_def action_request_def)
  obtain gc where gc: "build_governance_context demo_env ?request refund_context demo_tool = Inr gc" "g_stage gc = PRE_EXECUTION"
      "kind_of (g_subject gc) = AGENT_ACTION" "subject_metadata (g_subject gc) = tq_metadata ?request" "g_tenant_id gc = Some ''t1''"
    by (simp add: build_governance_context_def check_context_def Let_def governance_subject_def refund_context_def)
  obtain e where e: "governance_evaluate demo_env 0 ''f'' None (action_runtime demo_env 0 None demo_policy_config) None gc = (Inr e, None)"
    using action_runtime_covers
    by (cases rule: evaluate_shape [where c = gc and env = demo_env and now = 0 and fresh = "''f''"
          and ambient = None and store = None]) auto
  have "permits e"
    using action_permits [OF action_runtime_built gc(2,3) e] demo_active [OF gc(5)] zero_refund_permitted gc(4)
    by (simp add: crisis_quiet_def md)
  from refund_paid_judged [OF action_runtime_built zero_refund_bare a(1) gc(1) e this]
  have "amount_to_cents demo_env (metadata_str zero_refund ''amount'') = Inr (Some 500000)"
    using a(2) by (auto simp: zero_refund_def get_or_none_def opt_pint_def split: option.splits)
  with a gc(1) e \<open>permits e\<close> show ?thesis by blast
qed

end
