(* ===== verification/Spec2Isabelle.thy ===== *)
theory Spec2Isabelle
  imports Execution_Safety Execution_Sweeps Governance_Gate Escalation_Resolution Event_Fabric Outbound_Promises
    Delivery_Safety Approval_Safety Approval_Notices Tool_Sessions Action_Retries Case_Actions
    Action_Amounts Connector_Promises Action_Promises
begin

text \<open>
  \<^bold>\<open>What is verified.\<close>  The governed core of the Operious backend, the Python package
  \<open>src/apps/backend/app\<close>: a request becomes an execution that one worker at a time may
  carry out; every consequential act is first evaluated by a chain of governance policies
  whose decision is recorded; a denial may be handed to a human, whose approval records an
  override; what happened is kept in an append-only event journal; an approved reply
  leaves through a send outbox; and an action an agent proposes reaches the provider only
  under the tenant's policy or a manager's approval, through a ledger.  Each of these parts is a store with atomic operations, a
  runtime on top of it, and workers or sweeps that call the runtime concurrently.

  \<^bold>\<open>Shared theories.\<close>
  \<^item> \<open>Prelude\<close>: Python values, dictionaries in insertion order, slices and pages, decimal
    numerals, the exceptions of the modelled code as one datatype (a fallible method returns
    the exception or its value), and \<open>py_env\<close>, the functions of Python's standard library
    whose results the code only passes on or compares (uuid5, ISO timestamps, text
    conversions, sha256, json).  Nothing is assumed of them except where a theorem says so:
    identities derived from different seeds of a finite set do not collide; \<open>demo_env\<close> is an
    instance on which the worked examples evaluate.
  \<^item> \<open>Interfaces\<close>: the contracts components share, as locales.  \<open>guarded_machine\<close> (operations
    keep an invariant), \<open>frozen_machine\<close> (settled rows are never rewritten), \<open>tracked_machine\<close> (rows evolve
    by allowed edits only), \<open>lease_counter\<close>
    (outbox rows leased under fencing tokens), \<open>transactional_tokens\<close> (what one transaction won no other
    wins, unless the first is rolled back), \<open>scoped_reads\<close> (tenant-scoped lookup);
    \<open>settling\<close> (a sweep settles every row it lists), is in
    \<open>Execution_Sweeps\<close>, \<open>delivery_contract\<close> in \<open>Delivery_World\<close>.  Each
    is interpreted on the model of the components that promise it.

  \<^bold>\<open>Execution\<close> (\<open>app/execution\<close>).  \<open>Execution_Model\<close> has the records, states, the result
  envelope and the identities (\<open>enums.py\<close>, \<open>envelope.py\<close>, \<open>identity.py\<close>,
  \<open>persistence/records.py\<close>, \<open>persistence/models.py\<close>, \<open>admission.py\<close>); \<open>Execution_Store\<close>
  every method of \<open>persistence/memory.py\<close>; \<open>Execution_Runtime\<close> every public method of
  \<open>runtime.py\<close>.  \<open>Execution_Invariant\<close> turns the store into one step function and proves its
  invariant (attempts form a chain of derived identities); \<open>Execution_Safety\<close> concludes
  exclusive claims, fencing, frozen results and exact recovery; \<open>Execution_Outbox\<close> treats
  the transport outbox as leases; \<open>Execution_Authority\<close> shows that every runtime call is a
  legal run of store operations, and, \<open>claim_outbox_for_execution\<close> being given as its read and
  its claim as well, the race of two publishers between the two; \<open>Execution_Sweeps\<close> that the sweeps
  settle all they list.

  \<^bold>\<open>Governance\<close> (\<open>app/governance\<close>).  \<open>Governance_Model\<close>: verdicts ordered by precedence,
  rule results and their aggregation, contexts, policy registry and chains;
  \<open>Governance_Policies\<close>: the four built-in policies; \<open>Governance_Records\<close>: decision records,
  serializers and the write-once repository; \<open>Governance_Engine\<close>: policy engine, enforcement
  handlers, \<open>GovernanceRuntime.evaluate\<close> and the capability gate.  \<open>Governance_Safety\<close> proves
  that aggregation takes the most restrictive verdict, that evaluation fails closed, is
  total, and records exactly one decision; \<open>Governance_Gate\<close> what a permission implies of
  each policy, the exactness of the capability gate, and what survives serialisation.

  \<^bold>\<open>Escalation\<close> (\<open>app/escalation\<close>).  \<open>Escalation_Store\<close> is the in-memory persistence with
  its outbox, \<open>Escalation_Runtime\<close> the runtime that creates handoffs from persisted
  decisions and approves or rejects them, \<open>Escalation_Outbox\<close>, \<open>Escalation_Safety\<close> and
  \<open>Escalation_Resolution\<close> the leases, the finality of resolutions and the override rule.
  It uses the governance repository of \<open>Governance_Records\<close>.

  \<^bold>\<open>Events\<close> (\<open>app/events\<close>).  \<open>Event_Model\<close> has events with the checks of their constructors,
  the in-memory journal, its runtime and the paging loop of the readers; \<open>Event_Replay\<close> the
  lineage graph and the replay traces; \<open>Event_Safety\<close> and \<open>Event_Fabric\<close> show that the journal
  is append-only, readers complete, views independent of arrival order, and a trace valid
  exactly when it is a tree.

  \<^bold>\<open>Send outbox\<close> (\<open>app/boundary/outbound/send_outbox.py\<close>,
  \<open>app/workers/outbound_send_tasks.py\<close>).  \<open>Outbound_Store\<close> and \<open>Outbound_Runtime\<close> follow the
  in-memory store, the runtime and the two task bodies; \<open>Outbound_World\<close> is the step relation
  of any number of workers and reconcilers on one store, with crashes between any two steps
  (the evidence a worker writes before it settles is a step as well);
  \<open>Outbound_Safety\<close> and \<open>Outbound_Promises\<close> bound the provider calls, show what the evidence on
  a row protects and what it does not, and that the page of due work is fair.

  \<^bold>\<open>Resolution\<close> (\<open>app/resolution\<close>).  \<open>Resolution_Store\<close>: proposals, the outbound drafts
  derived from them, their identities, and every method of the in-memory persistence.

  \<^bold>\<open>Customer replies.\<close>  \<open>Reply_Template\<close> renders a reply (\<open>app/runtime/customer_email_template.py\<close>,
  \<open>customer_whatsapp_template.py\<close>: the regular expressions are functions that consume the
  longest match, as backtracking finds it) and builds the reply context; \<open>Delivery_Store\<close> has
  the delivery ledgers (\<open>app/boundary/outbound/email_delivery.py\<close>, \<open>whatsapp_delivery.py\<close>);
  \<open>Delivery_Service\<close> and \<open>Delivery_WhatsApp\<close> the two reply services
  (\<open>app/services/email_customer_reply_service.py\<close>, \<open>whatsapp_customer_reply_service.py\<close>), each
  as a step before and a step after the provider's call, and the composed executor of the
  send worker; \<open>Delivery_AutoSend\<close> the service that turns a ready draft into a row of the
  send outbox (\<open>app/services/outbound_auto_send_service.py\<close>).  \<open>Delivery_World\<close> lets any number
  of callers begin, call, settle and crash over one ledger; its locale \<open>delivery_contract\<close> is
  what a ledger must promise, and both channels interpret it.  \<open>Delivery_Promises\<close> shows that
  every row of the outbox is backed by a recorded decision, \<open>Delivery_Safety\<close> that nothing
  reaches a customer otherwise, that a delivery is transmitted once until a failure is
  recorded, and what happens then.

  \<^bold>\<open>Case approvals.\<close>  \<open>Approval_Store\<close>: cases, notification rows, identities, the in-memory
  persistence and the ingress (\<open>app/approvals\<close>); \<open>Approval_Review\<close>: the injection scanner
  (\<open>app/knowledge/poisoning.py\<close>) and the SME review runtime (\<open>app/sme\<close>), whose model reviewer
  is a port; \<open>Approval_Basis\<close> and \<open>Approval_Service\<close>: the calls of
  \<open>app/services/case_approval_service.py\<close> on the stores of cases, proposals, decisions,
  escalations and sends, so that an approval is followed into the send outbox.  A call runs in
  one transaction: an error restores the stores when a session is bound, and the flush runs
  after the commit.  \<open>review_case\<close> is also given as \<open>begin_review\<close> and \<open>finish_review\<close>, before and
  after the reviewer's answer.  \<open>Approval_World\<close> shows that every call keeps what a case must
  satisfy and changes it only as allowed; \<open>Approval_Safety\<close> concludes the history of a case, what
  an approval has done when it returns and which text it lets go, and exhibits two ways around:
  a review that overlaps another call, and the action approvals surface (\<open>Case_Actions\<close> goes
  through it).  \<open>Approval_Outbox\<close> is
  the sweep that tells operators of new cases (\<open>app/workers/case_approval_outbox_tasks.py\<close>);
  \<open>Approval_Notices\<close> shows that a page of undeliverable notifications starves the rest.

  \<^bold>\<open>What agents may do\<close> (\<open>app/agents/tools\<close>, \<open>app/governance/policies/crisis.py\<close>).
  \<open>Crisis_Policies\<close>: the policies operators switch on in Redis; \<open>Action_Policy\<close>: the declared
  operations, the parser of the tenant's action policy and the governance policy built on
  it (\<open>operation_metadata.py\<close>, \<open>action_governance.py\<close>), composed into one runtime.
  \<open>Action_Safety\<close> shows that this runtime permits exactly what the tenant said and the
  operators allow, and how far no tenant policy can go.

  \<^bold>\<open>Actions.\<close>  \<open>Agent_Model\<close>: capabilities, contexts, identities, requests, results and the
  tool registry (\<open>app/agents\<close>); \<open>Tool_Stores\<close>: the one-time grants and the ledger of connector
  invocations (\<open>grants.py\<close>, \<open>connector_invocations.py\<close>); \<open>Tool_Invoker\<close>: \<open>ToolInvoker.invoke\<close>
  (\<open>invoker.py\<close>) in its stages, authorization, reservation, tool, completion.  \<open>Tool_Safety\<close> shows
  that an action tool runs only under a persisted allowance made out to the call;
  \<open>Tool_World\<close> what each stage does to the two tables, and \<open>Tool_Sessions\<close>, on that basis, what
  holds over every interleaving of invocations in database sessions with their commits and
  rollbacks: it interprets \<open>transactional_tokens\<close> on provider keys and on grants.
  \<open>Connectors\<close>: the connector tools and the registry of a tenant (\<open>connectors/\<close>, \<open>actions/\<close>);
  \<open>Connector_Promises\<close> that a connector sends at most one request, as configured, and when a
  tenant's registry cannot be built.

  \<^bold>\<open>Action approvals.\<close>  \<open>Action_Requests\<close>: from a recommended action to an invocation
  (\<open>orchestration.py\<close>, \<open>approvals.py\<close>); \<open>Action_Approvals\<close>: the manager's decision on it
  (\<open>app/services/action_approval_service.py\<close>), in one transaction.  \<open>Action_Promises\<close> shows which
  actions can never be approved, \<open>Action_Retries\<close> what an approval has done when it returns,
  that nothing else stands in its way, and what a rollback after the tool ran leads to,
  \<open>Action_Amounts\<close> which amount of a refund is judged and which is paid, and \<open>Case_Actions\<close>
  wires the completer of \<open>app/dependencies/services.py\<close> in and shows what it leaves unchecked.

  \<^bold>\<open>Modelling conventions.\<close>  A method under its \<open>asyncio.Lock\<close>, or without a suspension
  point, is one atomic step; concurrent callers are arbitrary sequences of such steps
  (\<open>runs\<close>, \<open>legal\<close>) or steps of an inductive relation (\<open>send_trans\<close>), so no order is
  assumed.  A method reads the clock at most once, or its readings are taken equal; the reading is a
  parameter \<open>now\<close>.
  Stored instants are integers (microseconds, UTC); where the code tests awareness the
  argument is a \<open>timestamp\<close>.  UUIDs are their canonical text.  Floats are 64-bit
  IEEE patterns, stored, forwarded and compared.  Publishers, providers, the session timeline and the
  release of a held reply are parameters, functions on a state of their own.
  SQL tables are rows under their keys, with unique and check constraints but without foreign
  keys and column widths.  A service call that owns its transaction undoes its tables when
  it raises; what the rollback does to the state outside, the effects of tools included, is a
  parameter of the call.  In \<open>Tool_Sessions\<close> a session reads its own writes and what others have
  committed, waits for a row another session has written, and can commit or be rolled back
  between any two stages.  The lookup of the tenant's active policy may raise and is a
  parameter, as is the iteration order of the sets the policy parser walks.  The persistence
  of governance is an argument of the evaluation (\<open>None\<close>: without), not of the runtime.

  \<^bold>\<open>Termination and bounds.\<close>  All definitions are total: loops are recursions over the rows
  they visit, and the paging loop of the event readers recurses on the number of rows not yet
  read, so no fuel is needed.  The retry budget of the send outbox is bounded in
  \<open>send_budget\<close>.

  \<^bold>\<open>Not modelled.\<close>  Postgres stores, migrations, HTTP routes, Celery and Redis wiring,
  provider clients and language models: they are SQL or calls of external services, and the
  model has parameters where the modelled code calls them.  Of the tools, the invocations of
  the repair dispatch and of MCP servers are not followed, only their registration.  Logging, metrics, audit emission,
  latencies and the operator dead-letter records of the send tasks have no effect on the
  modelled state and are left out.  Governance traces carry no clock readings.  Exceptions of
  the completion event sink are swallowed by the code, so only the events handed to it are
  kept.  Subjects of governance contexts keep the fields a modelled policy reads.  The other
  subsystems of the backend (sessions, coordination, the runtime of agents, cognition,
  knowledge, tenants) are listed in the manifest as not modelled.
\<close>

end
